(* ===== verification/Prelude.thy ===== *)
theory Prelude
  imports Main
begin

text \<open>
  Shared vocabulary of the development: Go error values, Go string helpers, the effect type of the
  handlers (explicit state passing with an error result) and the rules that carry invariants
  through it, and the lemma collections the component theories extend.
\<close>

named_theorems io_simps \<open>unfolding equations of the effect combinators\<close>
named_theorems keeps_intro \<open>introduction rules for invariants of effectful code\<close>

section \<open>Error values\<close>

text \<open>
  A Go \<open>error\<close> is a tree: a leaf is an error of the Kubernetes API (with its status reason), an
  HTTP error of the Dynatrace API (with the code \<open>core.StatusCode\<close> reads from it), or a package
  error value known by its name or text; \<open>errors.WithMessage\<close> and \<open>errors.Wrap\<close> wrap one error,
  \<open>errors.Join\<close> several. \<open>errors.WithStack\<close> adds nothing a caller can test and is left out.
\<close>

datatype error =
    ApiStatus string
  | HttpCode int
  | Sentinel string
  | WithMsg string error
  | Joined "error list"

fun some_leaf :: "(error \<Rightarrow> bool) \<Rightarrow> error \<Rightarrow> bool" where
  "some_leaf P (WithMsg m e) = some_leaf P e"
| "some_leaf P (Joined es) = list_ex (some_leaf P) es"
| "some_leaf P e = P e"

text \<open>\<open>k8serrors.IsNotFound\<close> and \<open>IsConflict\<close> look through wrappers (\<open>errors.As\<close>).\<close>

definition is_not_found :: "error \<Rightarrow> bool" where
  "is_not_found e \<longleftrightarrow> some_leaf (\<lambda>l. l = ApiStatus ''NotFound'') e"

definition is_conflict :: "error \<Rightarrow> bool" where
  "is_conflict e \<longleftrightarrow> some_leaf (\<lambda>l. l = ApiStatus ''Conflict'') e"

text \<open>\<open>errors.Is\<close> against a package-level error value.\<close>

definition errors_is :: "error \<Rightarrow> string \<Rightarrow> bool" where
  "errors_is e s \<longleftrightarrow> some_leaf (\<lambda>l. l = Sentinel s) e"

text \<open>\<open>errors.Join\<close>: the nil arguments are dropped, and no error at all joins to nil.\<close>

definition join_errors :: "error list \<Rightarrow> error option" where
  "join_errors es = (if es = [] then None else Some (Joined es))"

lemma join_errors_None [simp]: "join_errors es = None \<longleftrightarrow> es = []"
  by (simp add: join_errors_def)

lemma join_errors_Some [simp]: "join_errors es = Some e \<longleftrightarrow> es \<noteq> [] \<and> e = Joined es"
  by (auto simp: join_errors_def)

section \<open>Strings\<close>

definition has_prefix :: "string \<Rightarrow> string \<Rightarrow> bool" where
  "has_prefix s p \<longleftrightarrow> take (length p) s = p"

definition has_suffix :: "string \<Rightarrow> string \<Rightarrow> bool" where
  "has_suffix s p \<longleftrightarrow> length p \<le> length s \<and> drop (length s - length p) s = p"

text \<open>\<open>strings.Split\<close> and \<open>strings.Join\<close> with a one-character separator.\<close>

fun split_on :: "char \<Rightarrow> string \<Rightarrow> string list" where
  "split_on c [] = [[]]"
| "split_on c (x # xs) =
     (if x = c then [] # split_on c xs
      else case split_on c xs of [] \<Rightarrow> [[x]] | y # ys \<Rightarrow> (x # y) # ys)"

fun join_on :: "char \<Rightarrow> string list \<Rightarrow> string" where
  "join_on c [] = []"
| "join_on c [x] = x"
| "join_on c (x # y # zs) = x @ c # join_on c (y # zs)"

text \<open>\<open>strings.Join\<close> with any separator.\<close>

fun join_sep :: "string \<Rightarrow> string list \<Rightarrow> string" where
  "join_sep sep [] = []"
| "join_sep sep [x] = x"
| "join_sep sep (x # y # zs) = x @ sep @ join_sep sep (y # zs)"

lemma split_on_nonempty [simp]: "split_on c s \<noteq> []"
  by (induction s) (auto split: list.splits)

lemma join_on_Cons: "ys \<noteq> [] \<Longrightarrow> join_on c (x # ys) = x @ c # join_on c ys"
  by (cases ys) auto

lemma join_split [simp]: "join_on c (split_on c s) = s"
proof (induction s)
  case Nil
  show ?case by simp
next
  case (Cons x s)
  obtain y ys where y: "split_on c s = y # ys"
    using split_on_nonempty by (cases "split_on c s") auto
  show ?case
  proof (cases ys)
    case Nil
    with Cons y show ?thesis by auto
  next
    case (Cons z zs)
    with Cons.IH y show ?thesis by auto
  qed
qed

lemma split_on_free: "c \<notin> set s \<Longrightarrow> split_on c s = [s]"
  by (induction s) auto

lemma split_on_append: "c \<notin> set s \<Longrightarrow> split_on c (s @ c # t) = s # split_on c t"
  by (induction s) auto

lemma split_on_parts_free: "p \<in> set (split_on c s) \<Longrightarrow> c \<notin> set p"
  by (induction s arbitrary: p) (auto split: list.splits if_splits)

lemma split_join:
  "xs \<noteq> [] \<Longrightarrow> \<forall>p\<in>set xs. c \<notin> set p \<Longrightarrow> split_on c (join_on c xs) = xs"
  by (induction c xs rule: join_on.induct) (auto simp: split_on_free split_on_append)

text \<open>\<open>strings.Cut\<close> at the first separator character.\<close>

fun cut :: "char \<Rightarrow> string \<Rightarrow> (string \<times> string) option" where
  "cut c [] = None"
| "cut c (x # xs) =
     (if x = c then Some ([], xs) else map_option (\<lambda>(a, b). (x # a, b)) (cut c xs))"

section \<open>Effects\<close>

text \<open>
  A handler takes the state it works on and returns an error or a value, with the new state: what
  it has changed before failing stays changed, as in the Go code.
\<close>

type_synonym ('s, 'a) io = "'s \<Rightarrow> (error + 'a) \<times> 's"

definition ret :: "'a \<Rightarrow> ('s, 'a) io" where
  "ret x s = (Inr x, s)"

definition throw :: "error \<Rightarrow> ('s, 'a) io" where
  "throw e s = (Inl e, s)"

definition andThen :: "('s, 'a) io \<Rightarrow> ('a \<Rightarrow> ('s, 'b) io) \<Rightarrow> ('s, 'b) io" where
  "andThen m f s = (case m s of (Inl e, s') \<Rightarrow> (Inl e, s') | (Inr x, s') \<Rightarrow> f x s')"

text \<open>\<open>attempt\<close> hands the error over as a value: the code that inspects an \<open>err\<close> itself.\<close>

definition attempt :: "('s, 'a) io \<Rightarrow> ('s, error + 'a) io" where
  "attempt m s = (case m s of (r, s') \<Rightarrow> (Inr r, s'))"

definition modify :: "('s \<Rightarrow> 's) \<Rightarrow> ('s, unit) io" where
  "modify f s = (Inr (), f s)"

definition gets :: "('s \<Rightarrow> 'a) \<Rightarrow> ('s, 'a) io" where
  "gets f s = (Inr (f s), s)"

definition whenM :: "bool \<Rightarrow> ('s, unit) io \<Rightarrow> ('s, unit) io" where
  "whenM b m = (if b then m else ret ())"

definition lift :: "error + 'a \<Rightarrow> ('s, 'a) io" where
  "lift r s = (r, s)"

text \<open>A \<open>for\<close> loop over a slice that returns at the first error.\<close>

fun for_each :: "'a list \<Rightarrow> ('a \<Rightarrow> ('s, unit) io) \<Rightarrow> ('s, unit) io" where
  "for_each [] f = ret ()"
| "for_each (x # xs) f = andThen (f x) (\<lambda>_. for_each xs f)"

text \<open>\<open>errors.WithMessage\<close> around a call.\<close>

definition wrap_msg :: "string \<Rightarrow> ('s, 'a) io \<Rightarrow> ('s, 'a) io" where
  "wrap_msg msg m s = (case m s of (Inl e, s') \<Rightarrow> (Inl (WithMsg msg e), s') | (Inr x, s') \<Rightarrow> (Inr x, s'))"

lemmas io_defs [io_simps] =
  ret_def throw_def andThen_def attempt_def modify_def gets_def whenM_def lift_def wrap_msg_def

lemma andThen_ret [simp]: "andThen (ret x) f = f x"
  by (simp add: fun_eq_iff io_simps)

lemma andThen_throw [simp]: "andThen (throw e) f = throw e"
  by (simp add: fun_eq_iff io_simps)

lemma andThen_ret_right [simp]: "andThen m ret = m"
  by (auto simp: fun_eq_iff io_simps split: prod.splits sum.splits)

lemma andThen_assoc: "andThen (andThen m f) g = andThen m (\<lambda>x. andThen (f x) g)"
  by (auto simp: fun_eq_iff io_simps split: prod.splits sum.splits)

lemma for_each_append: "for_each (xs @ ys) f = andThen (for_each xs f) (\<lambda>_. for_each ys f)"
  by (induction xs) (auto simp: andThen_assoc)

section \<open>Invariants of effectful code\<close>

text \<open>
  \<open>keeps I m\<close>: whatever \<open>m\<close> returns, the invariant \<open>I\<close> holds of the state after it when it held
  before. \<open>yields P m Q\<close>: from a state with \<open>P\<close>, a normal result satisfies \<open>Q\<close>.
\<close>

definition keeps :: "('s \<Rightarrow> bool) \<Rightarrow> ('s, 'a) io \<Rightarrow> bool" where
  "keeps I m \<longleftrightarrow> (\<forall>s. I s \<longrightarrow> I (snd (m s)))"

definition yields :: "('s \<Rightarrow> bool) \<Rightarrow> ('s, 'a) io \<Rightarrow> ('a \<Rightarrow> 's \<Rightarrow> bool) \<Rightarrow> bool" where
  "yields P m Q \<longleftrightarrow> (\<forall>s x s'. P s \<longrightarrow> m s = (Inr x, s') \<longrightarrow> Q x s')"

lemma keepsI: "(\<And>s. I s \<Longrightarrow> I (snd (m s))) \<Longrightarrow> keeps I m"
  by (simp add: keeps_def)

lemma keepsD: "keeps I m \<Longrightarrow> I s \<Longrightarrow> I (snd (m s))"
  by (simp add: keeps_def)

lemma keeps_ret [keeps_intro]: "keeps I (ret x)"
  by (simp add: keeps_def io_simps)

lemma keeps_throw [keeps_intro]: "keeps I (throw e)"
  by (simp add: keeps_def io_simps)

lemma keeps_lift [keeps_intro]: "keeps I (lift r)"
  by (simp add: keeps_def io_simps)

lemma keeps_gets [keeps_intro]: "keeps I (gets f)"
  by (simp add: keeps_def io_simps)

lemma keeps_modify [keeps_intro]: "(\<And>s. I s \<Longrightarrow> I (f s)) \<Longrightarrow> keeps I (modify f)"
  by (simp add: keeps_def io_simps)

lemma keeps_andThen [keeps_intro]:
  "keeps I m \<Longrightarrow> (\<And>x. keeps I (f x)) \<Longrightarrow> keeps I (andThen m f)"
  unfolding keeps_def andThen_def by (auto split: prod.splits sum.splits)

lemma keeps_attempt [keeps_intro]: "keeps I m \<Longrightarrow> keeps I (attempt m)"
  unfolding keeps_def attempt_def by (auto split: prod.splits)

lemma keeps_wrap_msg [keeps_intro]: "keeps I m \<Longrightarrow> keeps I (wrap_msg msg m)"
  unfolding keeps_def wrap_msg_def by (auto split: prod.splits sum.splits)

lemma keeps_whenM [keeps_intro]: "(b \<Longrightarrow> keeps I m) \<Longrightarrow> keeps I (whenM b m)"
  by (simp add: whenM_def keeps_ret)

lemma keeps_if [keeps_intro]:
  "(b \<Longrightarrow> keeps I m) \<Longrightarrow> (\<not> b \<Longrightarrow> keeps I n) \<Longrightarrow> keeps I (if b then m else n)"
  by simp

lemma keeps_sum_case [keeps_intro]:
  "(\<And>e. r = Inl e \<Longrightarrow> keeps I (f e)) \<Longrightarrow> (\<And>x. r = Inr x \<Longrightarrow> keeps I (g x)) \<Longrightarrow>
   keeps I (case r of Inl e \<Rightarrow> f e | Inr x \<Rightarrow> g x)"
  by (simp split: sum.split)

lemma keeps_option_case [keeps_intro]:
  "(r = None \<Longrightarrow> keeps I f) \<Longrightarrow> (\<And>x. r = Some x \<Longrightarrow> keeps I (g x)) \<Longrightarrow>
   keeps I (case r of None \<Rightarrow> f | Some x \<Rightarrow> g x)"
  by (simp split: option.split)

lemma keeps_prod_case [keeps_intro]: "(\<And>a b. p = (a, b) \<Longrightarrow> keeps I (f a b)) \<Longrightarrow> keeps I (case p of (a, b) \<Rightarrow> f a b)"
  by (simp split: prod.split)

lemma keeps_for_each [keeps_intro]:
  "(\<And>x. x \<in> set xs \<Longrightarrow> keeps I (f x)) \<Longrightarrow> keeps I (for_each xs f)"
  by (induction xs) (auto intro: keeps_intro)

lemma yieldsI: "(\<And>s x s'. P s \<Longrightarrow> m s = (Inr x, s') \<Longrightarrow> Q x s') \<Longrightarrow> yields P m Q"
  by (simp add: yields_def)

lemma yieldsD: "yields P m Q \<Longrightarrow> P s \<Longrightarrow> m s = (Inr x, s') \<Longrightarrow> Q x s'"
  by (simp add: yields_def)

lemma andThen_Inr:
  "andThen m f s = (Inr y, s'') \<longleftrightarrow> (\<exists>x s'. m s = (Inr x, s') \<and> f x s' = (Inr y, s''))"
  by (auto simp: andThen_def split: prod.splits sum.splits)

lemma wrap_msg_Inr [simp]: "wrap_msg msg m s = (Inr x, s') \<longleftrightarrow> m s = (Inr x, s')"
  by (auto simp: wrap_msg_def split: prod.splits sum.splits)

lemma lift_Inr [simp]: "lift r s = (Inr x, s') \<longleftrightarrow> r = Inr x \<and> s' = s"
  by (auto simp: lift_def)

lemma gets_Inr [simp]: "gets f s = (Inr x, s') \<longleftrightarrow> x = f s \<and> s' = s"
  by (auto simp: gets_def)

lemma andThen_gets: "andThen (gets f) g s = g (f s) s"
  by (simp add: andThen_def gets_def)

lemma andThen_lift_Inr: "andThen (lift (Inr x)) g = g x"
  by (simp add: fun_eq_iff andThen_def lift_def)

lemma andThen_modify: "andThen (modify f) g s = g () (f s)"
  by (simp add: andThen_def modify_def)

lemma andThen_lift: "andThen (lift r) g s = (case r of Inl e \<Rightarrow> (Inl e, s) | Inr x \<Rightarrow> g x s)"
  by (simp add: andThen_def lift_def split: sum.split)

lemma snd_wrap_msg [simp]: "snd (wrap_msg msg m s) = snd (m s)"
  by (simp add: wrap_msg_def split: prod.splits sum.splits)

text \<open>
  \<open>error_keeps I m\<close>: where \<open>m\<close> fails, \<open>I\<close> still holds; \<open>no_error m\<close>: \<open>m\<close> never fails. They serve
  code that changes something only after its last failing call.
\<close>

definition error_keeps :: "('s \<Rightarrow> bool) \<Rightarrow> ('s, 'a) io \<Rightarrow> bool" where
  "error_keeps I m \<longleftrightarrow> (\<forall>s e s'. I s \<longrightarrow> m s = (Inl e, s') \<longrightarrow> I s')"

definition no_error :: "('s, 'a) io \<Rightarrow> bool" where
  "no_error m \<longleftrightarrow> (\<forall>s e s'. m s \<noteq> (Inl e, s'))"

lemma error_keepsD: "error_keeps I m \<Longrightarrow> I s \<Longrightarrow> m s = (Inl e, s') \<Longrightarrow> I s'"
  by (simp add: error_keeps_def)

lemma keeps_error_keeps: "keeps I m \<Longrightarrow> error_keeps I m"
  by (fastforce simp: keeps_def error_keeps_def)

lemma no_error_error_keeps: "no_error m \<Longrightarrow> error_keeps I m"
  by (simp add: no_error_def error_keeps_def)

lemma error_keeps_andThen:
  "keeps I m \<Longrightarrow> (\<And>x. error_keeps I (f x)) \<Longrightarrow> error_keeps I (andThen m f)"
  unfolding keeps_def error_keeps_def andThen_def by (fastforce split: prod.splits sum.splits)

lemma error_keeps_then_ok:
  "error_keeps I m \<Longrightarrow> (\<And>x. no_error (f x)) \<Longrightarrow> error_keeps I (andThen m f)"
  unfolding error_keeps_def no_error_def andThen_def by (fastforce split: prod.splits sum.splits)

lemma error_keeps_if:
  "error_keeps I m \<Longrightarrow> error_keeps I n \<Longrightarrow> error_keeps I (if b then m else n)"
  by simp

lemma no_error_modify: "no_error (modify f)"
  by (simp add: no_error_def io_simps)

lemma no_error_ret: "no_error (ret x)"
  by (simp add: no_error_def io_simps)

lemma no_error_gets: "no_error (gets f)"
  by (simp add: no_error_def io_simps)

lemma no_error_andThen: "no_error m \<Longrightarrow> (\<And>x. no_error (f x)) \<Longrightarrow> no_error (andThen m f)"
  unfolding no_error_def andThen_def by (auto split: prod.splits sum.splits)

lemma no_error_option_case:
  "no_error f \<Longrightarrow> (\<And>x. no_error (g x)) \<Longrightarrow> no_error (case r of None \<Rightarrow> f | Some x \<Rightarrow> g x)"
  by (simp split: option.split)

lemmas no_error_intro = no_error_modify no_error_ret no_error_gets no_error_andThen no_error_option_case

end
