(* ===== verification/GoStd.thy ===== *)
theory GoStd
  imports Prelude
begin

text \<open>
  The parts of Go's standard library the source relies on for its own decisions: decimal printing
  and parsing of \<open>int\<close> (64 bits, \<open>strconv.Atoi\<close>, \<open>%d\<close>), \<open>strconv.ParseBool\<close>, the sorted
  string functions of \<open>slices\<close>, \<open>strings.Compare\<close>, and \<open>time.Time\<close>/\<open>time.Duration\<close>
  as nanosecond counts with the saturation of \<open>Time.Sub\<close>.
\<close>

section \<open>Decimal numbers\<close>

definition is_digit :: "char \<Rightarrow> bool" where
  "is_digit c \<longleftrightarrow> 48 \<le> (of_char c :: nat) \<and> (of_char c :: nat) \<le> 57"

definition digit_val :: "char \<Rightarrow> nat" where
  "digit_val c = of_char c - 48"

definition digit_char :: "nat \<Rightarrow> char" where
  "digit_char d = char_of (48 + d)"

definition all_digits :: "string \<Rightarrow> bool" where
  "all_digits s \<longleftrightarrow> s \<noteq> [] \<and> list_all is_digit s"

fun parse_nat :: "nat \<Rightarrow> string \<Rightarrow> nat" where
  "parse_nat acc [] = acc"
| "parse_nat acc (c # cs) = parse_nat (10 * acc + digit_val c) cs"

fun show_nat :: "nat \<Rightarrow> string" where
  "show_nat n = (if n < 10 then [digit_char n] else show_nat (n div 10) @ [digit_char (n mod 10)])"

declare show_nat.simps [simp del]

lemma digit_char_props:
  assumes "d < 10"
  shows "is_digit (digit_char d)" and "digit_val (digit_char d) = d"
proof -
  have "(of_char (digit_char d) :: nat) = 48 + d"
    using assms by (simp add: digit_char_def)
  then show "is_digit (digit_char d)" and "digit_val (digit_char d) = d"
    using assms by (simp_all add: is_digit_def digit_val_def)
qed

lemma parse_nat_append: "parse_nat acc (s @ t) = parse_nat (parse_nat acc s) t"
  by (induction s arbitrary: acc) auto

lemma all_digits_show_nat: "all_digits (show_nat n)"
proof (induction n rule: show_nat.induct)
  case (1 n)
  then show ?case
    by (subst show_nat.simps) (auto simp: all_digits_def digit_char_props)
qed

lemma parse_show_nat [simp]: "parse_nat 0 (show_nat n) = n"
proof (induction n rule: show_nat.induct)
  case (1 n)
  show ?case
  proof (cases "n < 10")
    case True
    then show ?thesis by (subst show_nat.simps) (simp add: digit_char_props)
  next
    case False
    with 1 have "parse_nat 0 (show_nat (n div 10)) = n div 10" by simp
    with False show ?thesis
      by (subst show_nat.simps) (simp add: parse_nat_append digit_char_props)
  qed
qed

text \<open>\<open>int\<close> has 64 bits on every platform the operator is built for.\<close>

definition max_int :: int where "max_int = 9223372036854775807"
definition min_int :: int where "min_int = -9223372036854775808"

definition wrap_int :: "int \<Rightarrow> int" where
  "wrap_int x = (x + 9223372036854775808) mod 18446744073709551616 - 9223372036854775808"

lemma wrap_int_id: "min_int \<le> x \<Longrightarrow> x \<le> max_int \<Longrightarrow> wrap_int x = x"
  by (simp add: wrap_int_def min_int_def max_int_def)

text \<open>\<open>strconv.Atoi\<close>: an optional sign, decimal digits, and the value in range.\<close>

definition atoi :: "string \<Rightarrow> int option" where
  "atoi s =
     (let neg = (has_prefix s ''-''); body = (if neg \<or> has_prefix s ''+'' then tl s else s);
          v = (if neg then - int (parse_nat 0 body) else int (parse_nat 0 body))
      in if all_digits body \<and> min_int \<le> v \<and> v \<le> max_int then Some v else None)"

lemma digits_not_signed:
  assumes "all_digits s"
  shows "\<not> has_prefix s ''-''" and "\<not> has_prefix s ''+''"
  using assms by (cases s; auto simp: all_digits_def has_prefix_def is_digit_def)+

lemma atoi_digits:
  assumes "all_digits s"
  shows "atoi s = (if int (parse_nat 0 s) \<le> max_int then Some (int (parse_nat 0 s)) else None)"
  using assms digits_not_signed[OF assms]
  by (simp add: atoi_def Let_def min_int_def)

lemma atoi_show_nat [simp]: "int n \<le> max_int \<Longrightarrow> atoi (show_nat n) = Some (int n)"
  by (simp add: atoi_digits all_digits_show_nat)

text \<open>\<open>strconv.ParseBool\<close>.\<close>

definition parse_bool :: "string \<Rightarrow> bool option" where
  "parse_bool s =
     (if s \<in> {''1'', ''t'', ''T'', ''true'', ''TRUE'', ''True''} then Some True
      else if s \<in> {''0'', ''f'', ''F'', ''false'', ''FALSE'', ''False''} then Some False
      else None)"

section \<open>Ordering of strings\<close>

text \<open>\<open>strings.Compare\<close>: byte-wise lexicographic order.\<close>

definition byte :: "char \<Rightarrow> nat" where
  "byte c = of_char c"

lemma byte_inj [simp]: "byte a = byte b \<longleftrightarrow> a = b"
  by (simp add: byte_def)

fun str_compare :: "string \<Rightarrow> string \<Rightarrow> int" where
  "str_compare [] [] = 0"
| "str_compare [] (y # ys) = -1"
| "str_compare (x # xs) [] = 1"
| "str_compare (x # xs) (y # ys) =
     (if byte x < byte y then -1 else if byte y < byte x then 1 else str_compare xs ys)"

lemma str_compare_range: "str_compare a b \<in> {-1, 0, 1}"
  by (induction a b rule: str_compare.induct) simp_all

lemma str_compare_refl [simp]: "str_compare a a = 0"
  by (induction a) simp_all

lemma byte_cases: "\<not> byte x < byte y \<Longrightarrow> \<not> byte y < byte x \<Longrightarrow> x = y"
  by (metis byte_inj nat_neq_iff)

lemma str_compare_eq: "str_compare a b = 0 \<longleftrightarrow> a = b"
  by (induction a b rule: str_compare.induct) (auto dest: byte_cases)

lemma str_compare_anti: "str_compare b a = - str_compare a b"
  by (induction a b rule: str_compare.induct) simp_all

lemma str_compare_Cons_le:
  "str_compare (x # xs) (y # ys) \<le> 0 \<longleftrightarrow> byte x < byte y \<or> x = y \<and> str_compare xs ys \<le> 0"
  using byte_cases by auto

lemma str_compare_trans:
  "str_compare a b \<le> 0 \<Longrightarrow> str_compare b c \<le> 0 \<Longrightarrow> str_compare a c \<le> 0"
proof (induction a arbitrary: b c)
  case Nil
  show ?case by (cases c) simp_all
next
  case (Cons x xs)
  obtain y ys where b: "b = y # ys" using Cons.prems(1) by (cases b) simp_all
  obtain z zs where c: "c = z # zs" using Cons.prems(2) b by (cases c) simp_all
  have "byte x < byte y \<or> x = y \<and> str_compare xs ys \<le> 0"
    using Cons.prems(1) unfolding b str_compare_Cons_le .
  moreover have "byte y < byte z \<or> y = z \<and> str_compare ys zs \<le> 0"
    using Cons.prems(2) unfolding b c str_compare_Cons_le .
  ultimately show ?case
    unfolding c str_compare_Cons_le using Cons.IH[of ys zs] by (metis order.strict_trans)
qed

definition str_le :: "string \<Rightarrow> string \<Rightarrow> bool" where
  "str_le a b \<longleftrightarrow> str_compare a b \<le> 0"

lemma str_le_refl [simp]: "str_le a a"
  by (simp add: str_le_def)

lemma str_le_total: "str_le a b \<or> str_le b a"
  using str_compare_anti[of a b] by (auto simp: str_le_def)

lemma str_le_trans: "str_le a b \<Longrightarrow> str_le b c \<Longrightarrow> str_le a c"
  using str_compare_trans by (auto simp: str_le_def)

lemma str_le_antisym: "str_le a b \<Longrightarrow> str_le b a \<Longrightarrow> a = b"
  using str_compare_anti[of a b] by (auto simp: str_le_def str_compare_eq[symmetric])

text \<open>\<open>slices.Sort\<close> and \<open>slices.Compact\<close> on strings, and \<open>slices.SortFunc\<close> by a string key.\<close>

fun insert_by :: "('a \<Rightarrow> string) \<Rightarrow> 'a \<Rightarrow> 'a list \<Rightarrow> 'a list" where
  "insert_by f x [] = [x]"
| "insert_by f x (y # ys) = (if str_le (f x) (f y) then x # y # ys else y # insert_by f x ys)"

definition sort_by :: "('a \<Rightarrow> string) \<Rightarrow> 'a list \<Rightarrow> 'a list" where
  "sort_by f xs = foldr (insert_by f) xs []"

fun compact :: "string list \<Rightarrow> string list" where
  "compact (x # y # zs) = (if x = y then compact (y # zs) else x # compact (y # zs))"
| "compact xs = xs"

lemma set_insert_by [simp]: "set (insert_by f x ys) = insert x (set ys)"
  by (induction ys) auto

lemma set_sort_by [simp]: "set (sort_by f xs) = set xs"
  by (induction xs) (auto simp: sort_by_def)

lemma length_insert_by [simp]: "length (insert_by f x ys) = Suc (length ys)"
  by (induction ys) auto

lemma length_sort_by [simp]: "length (sort_by f xs) = length xs"
  by (induction xs) (auto simp: sort_by_def)

definition str_sorted :: "string list \<Rightarrow> bool" where
  "str_sorted xs \<longleftrightarrow> sorted_wrt str_le xs"

lemma sorted_insert_by:
  "sorted_wrt (\<lambda>a b. str_le (f a) (f b)) ys \<Longrightarrow>
   sorted_wrt (\<lambda>a b. str_le (f a) (f b)) (insert_by f x ys)"
proof (induction ys)
  case (Cons y ys)
  show ?case
  proof (cases "str_le (f x) (f y)")
    case True
    with Cons.prems show ?thesis by (auto intro: str_le_trans)
  next
    case False
    then have "str_le (f y) (f x)" using str_le_total by blast
    with Cons False show ?thesis by auto
  qed
qed simp

lemma sorted_sort_by: "sorted_wrt (\<lambda>a b. str_le (f a) (f b)) (sort_by f xs)"
  by (induction xs) (auto simp: sort_by_def sorted_insert_by)

lemma set_compact [simp]: "set (compact xs) = set xs"
  by (induction xs rule: compact.induct) auto

lemma compact_sorted_distinct:
  "sorted_wrt str_le xs \<Longrightarrow> sorted_wrt str_le (compact xs) \<and> distinct (compact xs)"
proof (induction xs rule: compact.induct)
  case (1 x y zs)
  show ?case
  proof (cases "x = y")
    case True
    with 1 show ?thesis by simp
  next
    case False
    have "x \<notin> set (y # zs)"
    proof
      assume "x \<in> set (y # zs)"
      with False "1.prems" have "str_le y x" and "str_le x y" by auto
      with False show False using str_le_antisym by blast
    qed
    with False 1 show ?thesis by auto
  qed
qed auto

section \<open>White space and case\<close>

text \<open>
  \<open>strings.TrimSpace\<close> on the bytes of a string: the UTF-8 encodings of the white space characters.
\<close>

definition white_space :: "string list" where
  "white_space =
     [[CHR 0x09], [CHR 0x0A], [CHR 0x0B], [CHR 0x0C], [CHR 0x0D], [CHR 0x20],
      [CHR 0xC2, CHR 0x85], [CHR 0xC2, CHR 0xA0], [CHR 0xE1, CHR 0x9A, CHR 0x80],
      [CHR 0xE2, CHR 0x80, CHR 0x80], [CHR 0xE2, CHR 0x80, CHR 0x81],
      [CHR 0xE2, CHR 0x80, CHR 0x82], [CHR 0xE2, CHR 0x80, CHR 0x83],
      [CHR 0xE2, CHR 0x80, CHR 0x84], [CHR 0xE2, CHR 0x80, CHR 0x85],
      [CHR 0xE2, CHR 0x80, CHR 0x86], [CHR 0xE2, CHR 0x80, CHR 0x87],
      [CHR 0xE2, CHR 0x80, CHR 0x88], [CHR 0xE2, CHR 0x80, CHR 0x89],
      [CHR 0xE2, CHR 0x80, CHR 0x8A], [CHR 0xE2, CHR 0x80, CHR 0xA8],
      [CHR 0xE2, CHR 0x80, CHR 0xA9], [CHR 0xE2, CHR 0x80, CHR 0xAF],
      [CHR 0xE2, CHR 0x81, CHR 0x9F], [CHR 0xE3, CHR 0x80, CHR 0x80]]"

definition leading_space :: "string \<Rightarrow> bool" where
  "leading_space s \<longleftrightarrow> list_ex (has_prefix s) white_space"

definition trailing_space :: "string \<Rightarrow> bool" where
  "trailing_space s \<longleftrightarrow> list_ex (has_suffix s) white_space"

lemma white_space_nonempty: "w \<in> set white_space \<Longrightarrow> w \<noteq> []"
  by (auto simp: white_space_def)

text \<open>\<open>strings.TrimSpace\<close>: each step removes at least one character, so both loops end.\<close>

function trim_left :: "string \<Rightarrow> string" where
  "trim_left s = (case find (has_prefix s) white_space of None \<Rightarrow> s | Some w \<Rightarrow> trim_left (drop (length w) s))"
  by auto

lemma found_shorter:
  "find (has_prefix s) white_space = Some w \<Longrightarrow> w \<noteq> [] \<and> length w \<le> length s"
  by (auto simp: find_Some_iff has_prefix_def white_space_nonempty dest!: arg_cong[where f = length] nth_mem[of _ white_space])

lemma proper_suffix: "w \<noteq> [] \<and> length w \<le> length s \<Longrightarrow> length s - length w < length s"
  by (cases w) auto

termination trim_left
  by (relation "measure length") (auto dest!: found_shorter intro!: proper_suffix)

function trim_right :: "string \<Rightarrow> string" where
  "trim_right s = (case find (has_suffix s) white_space of None \<Rightarrow> s | Some w \<Rightarrow> trim_right (take (length s - length w) s))"
  by auto

lemma found_shorter_suffix:
  "find (has_suffix s) white_space = Some w \<Longrightarrow> w \<noteq> [] \<and> length w \<le> length s"
  by (auto simp: find_Some_iff has_suffix_def) (metis white_space_nonempty nth_mem)

termination trim_right
  by (relation "measure length") (auto dest!: found_shorter_suffix intro!: proper_suffix)

declare trim_left.simps [simp del] trim_right.simps [simp del]

definition trim_space :: "string \<Rightarrow> string" where
  "trim_space s = trim_right (trim_left s)"

lemma trim_left_no_space: "\<not> leading_space (trim_left s)"
proof (induction s rule: trim_left.induct)
  case (1 s)
  then show ?case
    by (subst trim_left.simps) (auto simp: leading_space_def find_None_iff list_ex_iff split: option.split)
qed

lemma trim_right_no_space: "\<not> trailing_space (trim_right s)"
proof (induction s rule: trim_right.induct)
  case (1 s)
  then show ?case
    by (subst trim_right.simps) (auto simp: trailing_space_def find_None_iff list_ex_iff split: option.split)
qed

text \<open>\<open>strings.EqualFold\<close> on ASCII text.\<close>

definition lower_char :: "char \<Rightarrow> char" where
  "lower_char c = (if 65 \<le> byte c \<and> byte c \<le> 90 then char_of (byte c + 32) else c)"

definition equal_fold :: "string \<Rightarrow> string \<Rightarrow> bool" where
  "equal_fold a b \<longleftrightarrow> map lower_char a = map lower_char b"

lemma equal_fold_refl [simp]: "equal_fold a a"
  by (simp add: equal_fold_def)

section \<open>Time\<close>

text \<open>
  \<open>time.Time\<close> is a count of nanoseconds from its zero value, \<open>time.Duration\<close> a 64-bit count of
  nanoseconds; \<open>Time.Sub\<close> saturates at the ends of the duration range.
\<close>

definition second :: int where "second = 1000000000"
definition minute :: int where "minute = 60 * second"
definition hour :: int where "hour = 60 * minute"

lemmas time_units = second_def minute_def hour_def

definition time_sub :: "int \<Rightarrow> int \<Rightarrow> int" where
  "time_sub t u = max min_int (min max_int (t - u))"

lemma time_sub_gt:
  "min_int \<le> d \<Longrightarrow> d < max_int \<Longrightarrow> d < time_sub t u \<longleftrightarrow> d < t - u"
  by (auto simp: time_sub_def)

text \<open>\<open>timeprovider.TimeoutReached\<close> and \<open>IsOutdated\<close>.\<close>

definition TimeoutReached :: "int option \<Rightarrow> int option \<Rightarrow> int \<Rightarrow> bool" where
  "TimeoutReached previous current timeout =
     (case (previous, current) of
        (Some p, Some c) \<Rightarrow> \<not> p + timeout > c
      | _ \<Rightarrow> True)"

definition probe_outdated :: "int option \<Rightarrow> int \<Rightarrow> int \<Rightarrow> bool" where
  "probe_outdated previous now timeout \<longleftrightarrow> previous = None \<or> TimeoutReached previous (Some now) timeout"

end
