(* ===== verification/DynaKubeApi.thy ===== *)
theory DynaKubeApi
  imports GoStd
begin

text \<open>
  The DynaKube resource as the controllers read it: the spec and status structs of
  \<open>pkg/api/latest/dynakube\<close>, the feature flags of \<open>pkg/api/exp\<close> (annotations), and the property
  functions every component decides with (which OneAgent mode is on, what has to be deployed,
  which image or version is asked for). A nil map and an empty map are the same value here, as
  they are for every reader in the source; a pointer is an option. Values of Kubernetes types the
  operator only passes on are \<open>k8s_value\<close>s.
\<close>

type_synonym smap = "string \<rightharpoonup> string"
type_synonym k8s_value = string

text \<open>
  The Kubernetes types whose fields the operator itself reads. A volume source is a struct of
  pointers of which the set ones are listed with the name of the field.
\<close>

datatype env_source =
    FieldRef string
  | SecretKeyRef string string
  | ConfigMapKeyRef string string
  | OtherSource k8s_value

record env_var =
  evName :: string
  evValue :: string
  evValueFrom :: "env_source option"

record k8s_volume =
  volName :: string
  volSources :: "(string \<times> k8s_value) list"

record volume_mount =
  vmName :: string
  vmMountPath :: string
  vmSettings :: k8s_value

record resource_requirements =
  rrLimits :: "smap option"
  rrRequests :: "smap option"

section \<open>Shared types\<close>

record label_selector =
  lsMatchLabels :: "(string \<times> string) list"
  lsMatchExpressions :: "(string \<times> string \<times> string list) list"

text \<open>The \<open>VersionSource\<close> constants of \<open>pkg/api/status/version_status.go\<close>.\<close>

abbreviation TenantRegistryVersionSource :: string where
  "TenantRegistryVersionSource \<equiv> ''tenant-registry''"
abbreviation CustomImageVersionSource :: string where
  "CustomImageVersionSource \<equiv> ''custom-image''"
abbreviation CustomVersionVersionSource :: string where
  "CustomVersionVersionSource \<equiv> ''custom-version''"
abbreviation PublicRegistryVersionSource :: string where
  "PublicRegistryVersionSource \<equiv> ''public-registry''"

record version_status =
  vsLastProbeTimestamp :: "int option"
  vsSource :: string
  vsImageID :: string
  vsVersion :: string
  vsType :: string

definition zero_version_status :: version_status where
  "zero_version_status =
     \<lparr>vsLastProbeTimestamp = None, vsSource = '''', vsImageID = '''', vsVersion = '''', vsType = ''''\<rparr>"

definition vs_IsZero :: "version_status \<Rightarrow> bool" where
  "vs_IsZero v \<longleftrightarrow> v = zero_version_status"

record connection_info =
  ciLastRequest :: int
  ciTenantUUID :: string
  ciEndpoints :: string
  ciTenantTokenHash :: string

definition zero_connection_info :: connection_info where
  "zero_connection_info =
     \<lparr>ciLastRequest = 0, ciTenantUUID = [], ciEndpoints = [], ciTenantTokenHash = []\<rparr>"

section \<open>Feature flags\<close>

record feature_flags =
  ffAnnotations :: smap
  ffHasPlatformToken :: bool

definition FFPrefix :: string where "FFPrefix = ''feature.dynatrace.com/''"

definition getRaw :: "feature_flags \<Rightarrow> string \<Rightarrow> string" where
  "getRaw ff annotation = (case ffAnnotations ff annotation of None \<Rightarrow> '''' | Some v \<Rightarrow> v)"

definition getBoolWithDefault :: "feature_flags \<Rightarrow> string \<Rightarrow> bool \<Rightarrow> bool" where
  "getBoolWithDefault ff annotation defaultVal =
     (let raw = getRaw ff annotation in
      if raw = '''' then defaultVal
      else case parse_bool raw of None \<Rightarrow> defaultVal | Some val \<Rightarrow> val)"

definition getIntWithDefault :: "feature_flags \<Rightarrow> string \<Rightarrow> int \<Rightarrow> int" where
  "getIntWithDefault ff annotation defaultVal =
     (let raw = getRaw ff annotation in
      if raw = '''' then defaultVal
      else case atoi raw of None \<Rightarrow> defaultVal | Some val \<Rightarrow> val)"

definition getDisableFlagWithDeprecatedAnnotation :: "feature_flags \<Rightarrow> string \<Rightarrow> string \<Rightarrow> bool" where
  "getDisableFlagWithDeprecatedAnnotation ff annotation deprecatedAnnotation =
     (if getRaw ff annotation \<noteq> '''' then \<not> getBoolWithDefault ff annotation True
      else getBoolWithDefault ff deprecatedAnnotation False)"

definition ff_IsSet :: "feature_flags \<Rightarrow> string \<Rightarrow> bool" where
  "ff_IsSet ff flag \<longleftrightarrow> ffAnnotations ff flag \<noteq> None"

definition IsPublicRegistry :: "feature_flags \<Rightarrow> bool" where
  "IsPublicRegistry ff \<longleftrightarrow>
     ffHasPlatformToken ff \<or> getBoolWithDefault ff (FFPrefix @ ''use-public-registry'') False"

definition IsActiveGateUpdatesDisabled :: "feature_flags \<Rightarrow> bool" where
  "IsActiveGateUpdatesDisabled ff \<longleftrightarrow>
     getDisableFlagWithDeprecatedAnnotation ff
       (FFPrefix @ ''activegate-updates'') (FFPrefix @ ''disable-activegate-updates'')"

definition IsActiveGateAutomaticTLSCertificate :: "feature_flags \<Rightarrow> bool" where
  "IsActiveGateAutomaticTLSCertificate ff \<longleftrightarrow>
     getBoolWithDefault ff (FFPrefix @ ''automatic-tls-certificate'') True"

definition IsAutomaticK8sAPIMonitoring :: "feature_flags \<Rightarrow> bool" where
  "IsAutomaticK8sAPIMonitoring ff \<longleftrightarrow>
     getBoolWithDefault ff (FFPrefix @ ''automatic-kubernetes-api-monitoring'') True"

definition AGIgnoresProxy :: "feature_flags \<Rightarrow> bool" where
  "AGIgnoresProxy ff \<longleftrightarrow> getBoolWithDefault ff (FFPrefix @ ''activegate-ignore-proxy'') False"

definition OneAgentIgnoresProxy :: "feature_flags \<Rightarrow> bool" where
  "OneAgentIgnoresProxy ff \<longleftrightarrow> getBoolWithDefault ff (FFPrefix @ ''oneagent-ignore-proxy'') False"

definition GetNoProxy :: "feature_flags \<Rightarrow> string" where
  "GetNoProxy ff = getRaw ff (FFPrefix @ ''no-proxy'')"

definition IsNodeImagePull :: "feature_flags \<Rightarrow> bool" where
  "IsNodeImagePull ff \<longleftrightarrow> getBoolWithDefault ff (FFPrefix @ ''node-image-pull'') False"

definition GetAgentInitialConnectRetry :: "feature_flags \<Rightarrow> bool \<Rightarrow> int" where
  "GetAgentInitialConnectRetry ff isIstio =
     (let defaultValue = -1;
          ffValue = getIntWithDefault ff (FFPrefix @ ''oneagent-initial-connect-retry-ms'') defaultValue
      in if ffValue = defaultValue \<and> isIstio then 6000 else ffValue)"

definition IsAutomaticInjection :: "feature_flags \<Rightarrow> bool" where
  "IsAutomaticInjection ff \<longleftrightarrow> getBoolWithDefault ff (FFPrefix @ ''automatic-injection'') True"

definition GetInjectionFailurePolicy :: "feature_flags \<Rightarrow> string" where
  "GetInjectionFailurePolicy ff =
     (if getRaw ff (FFPrefix @ ''injection-failure-policy'') = ''fail'' then ''fail'' else ''silent'')"

definition getDefaultIgnoredNamespaces :: "string \<Rightarrow> string list" where
  "getDefaultIgnoredNamespaces ns =
     [''^'' @ ns @ ''$'', ''^kube-.*'', ''^openshift(-.*)?'', ''^gke-.*'', ''^gmp-.*'']"

text \<open>\<open>json_strings\<close> stands for \<open>json.Unmarshal\<close> into a string slice.\<close>

definition GetIgnoredNamespaces ::
    "(string \<Rightarrow> string list option) \<Rightarrow> feature_flags \<Rightarrow> string \<Rightarrow> string list" where
  "GetIgnoredNamespaces json_strings ff ns =
     (let raw = getRaw ff (FFPrefix @ ''ignored-namespaces'') in
      if raw = '''' then getDefaultIgnoredNamespaces ns
      else case json_strings raw of None \<Rightarrow> getDefaultIgnoredNamespaces ns | Some l \<Rightarrow> l)"

section \<open>OneAgent\<close>

record host_inject_spec =
  hisAnnotations :: smap
  hisLabels :: smap
  hisNodeSelector :: smap
  hisVersion :: string
  hisImage :: string
  hisImagePullPolicy :: string
  hisDNSPolicy :: string
  hisPriorityClassName :: string
  hisSecCompProfile :: string
  hisStorageHostPath :: string
  hisOneAgentResources :: resource_requirements
  hisRollingUpdate :: "k8s_value option"
  hisTolerations :: "k8s_value list"
  hisEnv :: "env_var list"
  hisArgs :: "string list option"
  hisAdditionalResourceAttributes :: smap

record app_injection_spec =
  aisInitResources :: "k8s_value option"
  aisCodeModulesImage :: string
  aisCodeModulesImagePullPolicy :: string
  aisNamespaceSelector :: label_selector

record cloud_native_spec =
  cnHostInject :: host_inject_spec
  cnAppInjection :: app_injection_spec

record application_monitoring_spec =
  amVersion :: string
  amAppInjection :: app_injection_spec
  amAdditionalResourceAttributes :: smap

record oneagent_spec =
  ClassicFullStack :: "host_inject_spec option"
  CloudNativeFullStack :: "cloud_native_spec option"
  ApplicationMonitoring :: "application_monitoring_spec option"
  HostMonitoring :: "host_inject_spec option"
  HostGroup :: string

record oneagent_instance =
  oiPodName :: string
  oiIPAddress :: string

record health_config =
  hcTest :: "string list"
  hcInterval :: int
  hcStartPeriod :: int
  hcTimeout :: int
  hcRetries :: int

record oneagent_status =
  osVersionStatus :: version_status
  osInstances :: "string \<rightharpoonup> oneagent_instance"
  osLastInstanceStatusUpdate :: "int option"
  osHealthcheck :: "health_config option"
  osConnectionInfo :: connection_info

text \<open>The wrapper \<open>oneagent.OneAgent\<close> that the property functions are methods of.\<close>

record one_agent =
  oaSpec :: oneagent_spec
  oaStatus :: oneagent_status
  oaCodeModulesStatus :: version_status
  oaName :: string
  oaFeaturePrivileged :: bool
  oaFeatureSkipLivenessProbe :: bool
  oaGlobalResourceAttributes :: smap

definition IsApplicationMonitoringMode :: "one_agent \<Rightarrow> bool" where
  "IsApplicationMonitoringMode oa \<longleftrightarrow> ApplicationMonitoring (oaSpec oa) \<noteq> None"

definition IsCloudNativeFullstackMode :: "one_agent \<Rightarrow> bool" where
  "IsCloudNativeFullstackMode oa \<longleftrightarrow> CloudNativeFullStack (oaSpec oa) \<noteq> None"

definition IsHostMonitoringMode :: "one_agent \<Rightarrow> bool" where
  "IsHostMonitoringMode oa \<longleftrightarrow> HostMonitoring (oaSpec oa) \<noteq> None"

definition IsClassicFullStackMode :: "one_agent \<Rightarrow> bool" where
  "IsClassicFullStackMode oa \<longleftrightarrow> ClassicFullStack (oaSpec oa) \<noteq> None"

definition IsDaemonsetRequired :: "one_agent \<Rightarrow> bool" where
  "IsDaemonsetRequired oa \<longleftrightarrow>
     IsClassicFullStackMode oa \<or> IsCloudNativeFullstackMode oa \<or> IsHostMonitoringMode oa"

definition oa_GetDaemonsetName :: "one_agent \<Rightarrow> string" where
  "oa_GetDaemonsetName oa = oaName oa @ ''-'' @ ''oneagent''"

definition IsReadinessProbeNeeded :: "one_agent \<Rightarrow> bool" where
  "IsReadinessProbeNeeded oa \<longleftrightarrow> osHealthcheck (oaStatus oa) \<noteq> None"

definition IsLivenessProbeNeeded :: "one_agent \<Rightarrow> bool" where
  "IsLivenessProbeNeeded oa \<longleftrightarrow>
     osHealthcheck (oaStatus oa) \<noteq> None \<and> \<not> oaFeatureSkipLivenessProbe oa"

definition host_AutoUpdate :: "host_inject_spec \<Rightarrow> bool" where
  "host_AutoUpdate h \<longleftrightarrow> hisVersion h = '''' \<and> hisImage h = ''''"

definition oa_IsAutoUpdateEnabled :: "one_agent \<Rightarrow> bool" where
  "oa_IsAutoUpdateEnabled oa =
     (case CloudNativeFullStack (oaSpec oa) of
        Some c \<Rightarrow> host_AutoUpdate (cnHostInject c)
      | None \<Rightarrow>
     (case HostMonitoring (oaSpec oa) of
        Some h \<Rightarrow> host_AutoUpdate h
      | None \<Rightarrow>
     (case ClassicFullStack (oaSpec oa) of
        Some h \<Rightarrow> host_AutoUpdate h
      | None \<Rightarrow> False)))"

definition IsReadOnlyFSSupported :: "one_agent \<Rightarrow> bool" where
  "IsReadOnlyFSSupported oa \<longleftrightarrow> IsCloudNativeFullstackMode oa \<or> IsHostMonitoringMode oa"

definition IsAppInjectionNeeded :: "one_agent \<Rightarrow> bool" where
  "IsAppInjectionNeeded oa \<longleftrightarrow> IsCloudNativeFullstackMode oa \<or> IsApplicationMonitoringMode oa"

definition oa_GetInitResources :: "one_agent \<Rightarrow> k8s_value option" where
  "oa_GetInitResources oa =
     (case ApplicationMonitoring (oaSpec oa) of
        Some a \<Rightarrow> aisInitResources (amAppInjection a)
      | None \<Rightarrow>
     (case CloudNativeFullStack (oaSpec oa) of
        Some c \<Rightarrow> aisInitResources (cnAppInjection c)
      | None \<Rightarrow> None))"

definition oa_GetNamespaceSelector :: "one_agent \<Rightarrow> label_selector option" where
  "oa_GetNamespaceSelector oa =
     (case CloudNativeFullStack (oaSpec oa) of
        Some c \<Rightarrow> Some (aisNamespaceSelector (cnAppInjection c))
      | None \<Rightarrow>
     (case ApplicationMonitoring (oaSpec oa) of
        Some a \<Rightarrow> Some (aisNamespaceSelector (amAppInjection a))
      | None \<Rightarrow> None))"

definition oa_GetSecCompProfile :: "one_agent \<Rightarrow> string" where
  "oa_GetSecCompProfile oa =
     (case CloudNativeFullStack (oaSpec oa) of
        Some c \<Rightarrow> hisSecCompProfile (cnHostInject c)
      | None \<Rightarrow>
     (case HostMonitoring (oaSpec oa) of
        Some h \<Rightarrow> hisSecCompProfile h
      | None \<Rightarrow>
     (case ClassicFullStack (oaSpec oa) of
        Some h \<Rightarrow> hisSecCompProfile h
      | None \<Rightarrow> '''')))"

definition oa_GetNodeSelector :: "one_agent \<Rightarrow> smap \<Rightarrow> smap" where
  "oa_GetNodeSelector oa fallbackNodeSelector =
     (case ClassicFullStack (oaSpec oa) of
        Some h \<Rightarrow> hisNodeSelector h
      | None \<Rightarrow>
     (case HostMonitoring (oaSpec oa) of
        Some h \<Rightarrow> hisNodeSelector h
      | None \<Rightarrow>
     (case CloudNativeFullStack (oaSpec oa) of
        Some c \<Rightarrow> hisNodeSelector (cnHostInject c)
      | None \<Rightarrow> fallbackNodeSelector)))"

definition oa_GetVersion :: "one_agent \<Rightarrow> string" where
  "oa_GetVersion oa = vsVersion (osVersionStatus (oaStatus oa))"

definition oa_GetCustomVersion :: "one_agent \<Rightarrow> string" where
  "oa_GetCustomVersion oa =
     (case ClassicFullStack (oaSpec oa) of
        Some h \<Rightarrow> hisVersion h
      | None \<Rightarrow>
     (case CloudNativeFullStack (oaSpec oa) of
        Some c \<Rightarrow> hisVersion (cnHostInject c)
      | None \<Rightarrow>
     (case ApplicationMonitoring (oaSpec oa) of
        Some a \<Rightarrow> amVersion a
      | None \<Rightarrow>
     (case HostMonitoring (oaSpec oa) of
        Some h \<Rightarrow> hisVersion h
      | None \<Rightarrow> ''''))))"

definition oa_GetCustomImage :: "one_agent \<Rightarrow> string" where
  "oa_GetCustomImage oa =
     (case ClassicFullStack (oaSpec oa) of
        Some h \<Rightarrow> hisImage h
      | None \<Rightarrow>
     (case HostMonitoring (oaSpec oa) of
        Some h \<Rightarrow> hisImage h
      | None \<Rightarrow>
     (case CloudNativeFullStack (oaSpec oa) of
        Some c \<Rightarrow> hisImage (cnHostInject c)
      | None \<Rightarrow> '''')))"

definition oa_GetImagePullPolicy :: "one_agent \<Rightarrow> string" where
  "oa_GetImagePullPolicy oa =
     (case ClassicFullStack (oaSpec oa) of
        Some h \<Rightarrow> hisImagePullPolicy h
      | None \<Rightarrow>
     (case HostMonitoring (oaSpec oa) of
        Some h \<Rightarrow> hisImagePullPolicy h
      | None \<Rightarrow>
     (case CloudNativeFullStack (oaSpec oa) of
        Some c \<Rightarrow> hisImagePullPolicy (cnHostInject c)
      | None \<Rightarrow> '''')))"

definition oa_GetArguments :: "one_agent \<Rightarrow> string list" where
  "oa_GetArguments oa =
     (case map_option (\<lambda>c. hisArgs (cnHostInject c)) (CloudNativeFullStack (oaSpec oa)) of
        Some (Some args) \<Rightarrow> args
      | _ \<Rightarrow>
     (case map_option hisArgs (ClassicFullStack (oaSpec oa)) of
        Some (Some args) \<Rightarrow> args
      | _ \<Rightarrow>
     (case map_option hisArgs (HostMonitoring (oaSpec oa)) of
        Some (Some args) \<Rightarrow> args
      | _ \<Rightarrow> [])))"

definition oa_GetEnvironment :: "one_agent \<Rightarrow> env_var list" where
  "oa_GetEnvironment oa =
     (case CloudNativeFullStack (oaSpec oa) of
        Some c \<Rightarrow> hisEnv (cnHostInject c)
      | None \<Rightarrow>
     (case ClassicFullStack (oaSpec oa) of
        Some h \<Rightarrow> hisEnv h
      | None \<Rightarrow>
     (case HostMonitoring (oaSpec oa) of
        Some h \<Rightarrow> hisEnv h
      | None \<Rightarrow> [])))"

text \<open>\<open>k8senv.Find\<close>.\<close>

definition k8senv_Find :: "env_var list \<Rightarrow> string \<Rightarrow> env_var option" where
  "k8senv_Find envVars name = List.find (\<lambda>e. evName e = name) envVars"

definition splitArg :: "string \<Rightarrow> string \<times> string" where
  "splitArg arg = (case cut (CHR ''='') arg of None \<Rightarrow> (arg, '''') | Some (key, value) \<Rightarrow> (key, value))"

fun host_group_of_args :: "string list \<Rightarrow> string" where
  "host_group_of_args [] = ''''"
| "host_group_of_args (arg # args) =
     (case splitArg arg of (key, value) \<Rightarrow>
        if key = ''--set-host-group'' then value else host_group_of_args args)"

definition oa_GetHostGroupAsParam :: "one_agent \<Rightarrow> string" where
  "oa_GetHostGroupAsParam oa = host_group_of_args (oa_GetArguments oa)"

definition oa_GetHostGroup :: "one_agent \<Rightarrow> string" where
  "oa_GetHostGroup oa =
     (if HostGroup (oaSpec oa) \<noteq> '''' then HostGroup (oaSpec oa) else oa_GetHostGroupAsParam oa)"

definition oa_GetArgumentsMap :: "one_agent \<Rightarrow> (string \<rightharpoonup> string list)" where
  "oa_GetArgumentsMap oa =
     fold (\<lambda>arg m. case splitArg arg of (key, value) \<Rightarrow>
             (case m key of None \<Rightarrow> m(key \<mapsto> [value]) | Some vs \<Rightarrow> m(key \<mapsto> vs @ [value])))
       (oa_GetArguments oa) Map.empty"

definition oa_GetCustomCodeModulesImage :: "one_agent \<Rightarrow> string" where
  "oa_GetCustomCodeModulesImage oa =
     (case CloudNativeFullStack (oaSpec oa) of
        Some c \<Rightarrow> aisCodeModulesImage (cnAppInjection c)
      | None \<Rightarrow>
     (case ApplicationMonitoring (oaSpec oa) of
        Some a \<Rightarrow> aisCodeModulesImage (amAppInjection a)
      | None \<Rightarrow> ''''))"

definition oa_GetCodeModulesImagePullPolicy :: "one_agent \<Rightarrow> string" where
  "oa_GetCodeModulesImagePullPolicy oa =
     (case CloudNativeFullStack (oaSpec oa) of
        Some c \<Rightarrow> aisCodeModulesImagePullPolicy (cnAppInjection c)
      | None \<Rightarrow>
     (case ApplicationMonitoring (oaSpec oa) of
        Some a \<Rightarrow> aisCodeModulesImagePullPolicy (amAppInjection a)
      | None \<Rightarrow> ''''))"

definition oa_GetCustomCodeModulesVersion :: "one_agent \<Rightarrow> string" where
  "oa_GetCustomCodeModulesVersion oa = oa_GetCustomVersion oa"

definition oa_GetCodeModulesVersion :: "one_agent \<Rightarrow> string" where
  "oa_GetCodeModulesVersion oa = vsVersion (oaCodeModulesStatus oa)"

definition oa_GetCodeModulesImage :: "one_agent \<Rightarrow> string" where
  "oa_GetCodeModulesImage oa = vsImageID (oaCodeModulesStatus oa)"

definition oa_GetHostPath :: "one_agent \<Rightarrow> string" where
  "oa_GetHostPath oa =
     (case CloudNativeFullStack (oaSpec oa) of
        Some c \<Rightarrow>
          (if hisStorageHostPath (cnHostInject c) \<noteq> '''' then hisStorageHostPath (cnHostInject c)
           else ''/var/opt/dynatrace'')
      | None \<Rightarrow>
     (case HostMonitoring (oaSpec oa) of
        Some h \<Rightarrow>
          (if hisStorageHostPath h \<noteq> '''' then hisStorageHostPath h else ''/var/opt/dynatrace'')
      | None \<Rightarrow> ''''))"

text \<open>\<open>resourceattributes.Merge\<close>: the override wins on a shared key.\<close>

definition resource_attributes_Merge :: "smap \<Rightarrow> smap \<Rightarrow> smap" where
  "resource_attributes_Merge base override = base ++ override"

definition oa_GetAdditionalResourceAttributes :: "one_agent \<Rightarrow> smap" where
  "oa_GetAdditionalResourceAttributes oa =
     (case CloudNativeFullStack (oaSpec oa) of
        Some c \<Rightarrow> hisAdditionalResourceAttributes (cnHostInject c)
      | None \<Rightarrow>
     (case ApplicationMonitoring (oaSpec oa) of
        Some a \<Rightarrow> amAdditionalResourceAttributes a
      | None \<Rightarrow>
     (case HostMonitoring (oaSpec oa) of
        Some h \<Rightarrow> hisAdditionalResourceAttributes h
      | None \<Rightarrow>
     (case ClassicFullStack (oaSpec oa) of
        Some h \<Rightarrow> hisAdditionalResourceAttributes h
      | None \<Rightarrow> Map.empty))))"

definition oa_HasAdditionalResourceAttributes :: "one_agent \<Rightarrow> bool" where
  "oa_HasAdditionalResourceAttributes oa \<longleftrightarrow> oa_GetAdditionalResourceAttributes oa \<noteq> Map.empty"

definition oa_GetResourceAttributes :: "one_agent \<Rightarrow> smap" where
  "oa_GetResourceAttributes oa =
     resource_attributes_Merge (oaGlobalResourceAttributes oa) (oa_GetAdditionalResourceAttributes oa)"

text \<open>
  Image tags: \<open>ToImageTag\<close> of \<open>pkg/util/dtversion\<close> keeps the first three segments of a version;
  the default images of OneAgent, ActiveGate and KubernetesMonitoring append the raw tag. The host
  of the API URL (\<open>net/url\<close>) is an argument.
\<close>

definition ToImageTag :: "string \<Rightarrow> string" where
  "ToImageTag version =
     (if length (filter (\<lambda>c. c = CHR ''.'') version) \<ge> 3
      then join_on (CHR ''.'') (take 3 (split_on (CHR ''.'') version))
      else version)"

definition oa_GetDefaultImage :: "string \<Rightarrow> string \<Rightarrow> string" where
  "oa_GetDefaultImage apiURLHost version =
     (if apiURLHost = '''' then ''''
      else let tag = ToImageTag version;
               tag' = (if \<not> has_suffix tag ''raw'' then tag @ ''-'' @ ''raw'' else tag)
           in apiURLHost @ ''/linux/oneagent'' @ '':'' @ tag')"

definition ag_GetDefaultImage :: "string \<Rightarrow> string \<Rightarrow> string" where
  "ag_GetDefaultImage apiURLHost version =
     (if apiURLHost = '''' then ''''
      else let tag = ToImageTag version;
               tag' = (if \<not> has_suffix tag ''raw'' then tag @ ''-'' @ ''raw'' else tag)
           in apiURLHost @ ''/linux/activegate'' @ '':'' @ tag')"

end
