(* ===== verification/DynaKubeSpec.thy ===== *)
theory DynaKubeSpec
  imports DynaKubeApi
begin

text \<open>
  The other sections of the DynaKube resource (ActiveGate, KubernetesMonitoring, extensions,
  telemetry ingest, KSPM, log monitoring, OTLP, metadata enrichment), the resource itself and the
  property functions of \<open>operands_props.go\<close>, \<open>dynakube_props.go\<close>, \<open>proxy.go\<close> and \<open>certs.go\<close>.
  The host of a URL (\<open>net/url\<close>) is the parameter \<open>url_host\<close>, an environment variable of the
  operator an argument.
\<close>

section \<open>Shared values\<close>

record value_source =
  vsrcValue :: string
  vsrcValueFrom :: string

record image_ref =
  irRepository :: string
  irTag :: string
  irDigest :: string
  irPullPolicy :: string

definition ref_String :: "image_ref \<Rightarrow> string" where
  "ref_String r =
     (if irDigest r \<noteq> '''' then irRepository r @ ''@'' @ irDigest r
      else irRepository r @ '':'' @ irTag r)"

definition ref_StringWithDefaults :: "image_ref \<Rightarrow> string \<Rightarrow> string \<Rightarrow> string" where
  "ref_StringWithDefaults r repo tag =
     (let r1 = (if irRepository r = '''' then r\<lparr>irRepository := repo\<rparr> else r);
          r2 = (if irTag r1 = '''' then r1\<lparr>irTag := tag\<rparr> else r1)
      in ref_String r2)"

definition ref_HasImage :: "image_ref option \<Rightarrow> bool" where
  "ref_HasImage ro =
     (case ro of None \<Rightarrow> False
      | Some r \<Rightarrow> irRepository r \<noteq> '''' \<and> (irTag r \<noteq> '''' \<or> irDigest r \<noteq> ''''))"

section \<open>ActiveGate\<close>

abbreviation RoutingCapability :: string where "RoutingCapability \<equiv> ''routing''"
abbreviation KubeMonCapability :: string where "KubeMonCapability \<equiv> ''kubernetes-monitoring''"
abbreviation MetricsIngestCapability :: string where "MetricsIngestCapability \<equiv> ''metrics-ingest''"
abbreviation DynatraceAPICapability :: string where "DynatraceAPICapability \<equiv> ''dynatrace-api''"
abbreviation DebuggingCapability :: string where "DebuggingCapability \<equiv> ''debugging''"

record capability_properties =
  cpCustomProperties :: "value_source option"
  cpNodeSelector :: smap
  cpLabels :: smap
  cpReplicas :: "int option"
  cpImage :: string
  cpImagePullPolicy :: string
  cpGroup :: string
  cpResources :: resource_requirements
  cpRollingUpdate :: "k8s_value option"
  cpTolerations :: "k8s_value list"
  cpEnv :: "env_var list"
  cpTopologySpreadConstraints :: "k8s_value list"
  cpVolumes :: "k8s_volume list"
  cpVolumeMounts :: "volume_mount list"

text \<open>The fields from \<open>agName\<close> on are the unexported ones the wrapper \<open>dk.ActiveGate()\<close> sets.\<close>

record activegate_spec =
  agAnnotations :: smap
  agVolumeClaimTemplate :: "k8s_value option"
  agTerminationGracePeriodSeconds :: "int option"
  agTLSSecretName :: string
  agDNSPolicy :: string
  agPriorityClassName :: string
  agCapabilityProperties :: capability_properties
  agCapabilities :: "string list"
  agUseEphemeralVolume :: "bool option"
  agName :: string
  agAPIURL :: string
  agExtensionsDependency :: bool
  agAutomaticTLSCertificateEnabled :: bool

record activegate_status =
  asVersionStatus :: version_status
  asConnectionInfo :: connection_info
  asServiceIPs :: "string list"

definition ag_status_IsZero :: "activegate_status \<Rightarrow> bool" where
  "ag_status_IsZero a \<longleftrightarrow>
     vs_IsZero (asVersionStatus a) \<and> asConnectionInfo a = zero_connection_info \<and>
     asServiceIPs a = []"

definition ag_IsEnabled :: "activegate_spec \<Rightarrow> bool" where
  "ag_IsEnabled ag \<longleftrightarrow> agCapabilities ag \<noteq> [] \<or> agExtensionsDependency ag"

definition ag_IsMode :: "activegate_spec \<Rightarrow> string \<Rightarrow> bool" where
  "ag_IsMode ag mode \<longleftrightarrow> mode \<in> set (agCapabilities ag)"

definition ag_IsKubernetesMonitoringEnabled :: "activegate_spec \<Rightarrow> bool" where
  "ag_IsKubernetesMonitoringEnabled ag \<longleftrightarrow> ag_IsMode ag KubeMonCapability"

definition ag_IsRoutingEnabled :: "activegate_spec \<Rightarrow> bool" where
  "ag_IsRoutingEnabled ag \<longleftrightarrow> ag_IsMode ag RoutingCapability"

definition ag_IsAPIEnabled :: "activegate_spec \<Rightarrow> bool" where
  "ag_IsAPIEnabled ag \<longleftrightarrow> ag_IsMode ag DynatraceAPICapability"

definition ag_IsMetricsIngestEnabled :: "activegate_spec \<Rightarrow> bool" where
  "ag_IsMetricsIngestEnabled ag \<longleftrightarrow> ag_IsMode ag MetricsIngestCapability"

definition ag_GetServiceAccountOwner :: "activegate_spec \<Rightarrow> string" where
  "ag_GetServiceAccountOwner ag =
     (if ag_IsKubernetesMonitoringEnabled ag then KubeMonCapability else ''activegate'')"

definition ag_GetReplicas :: "activegate_spec \<Rightarrow> int" where
  "ag_GetReplicas ag = (case cpReplicas (agCapabilityProperties ag) of None \<Rightarrow> 1 | Some n \<Rightarrow> n)"

definition ag_HasCaCert :: "activegate_spec \<Rightarrow> bool" where
  "ag_HasCaCert ag \<longleftrightarrow>
     ag_IsEnabled ag \<and> (agTLSSecretName ag \<noteq> '''' \<or> agAutomaticTLSCertificateEnabled ag)"

definition ag_GetAutoTLSSecretName :: "activegate_spec \<Rightarrow> string" where
  "ag_GetAutoTLSSecretName ag = agName ag @ ''-activegate-tls-secret''"

definition ag_GetTLSSecretName :: "activegate_spec \<Rightarrow> string" where
  "ag_GetTLSSecretName ag =
     (if agTLSSecretName ag \<noteq> '''' then agTLSSecretName ag
      else if agAutomaticTLSCertificateEnabled ag then ag_GetAutoTLSSecretName ag
      else '''')"

definition ag_GetCustomImage :: "activegate_spec \<Rightarrow> string" where
  "ag_GetCustomImage ag = cpImage (agCapabilityProperties ag)"

section \<open>KubernetesMonitoring\<close>

record kubemon_spec =
  kmReplicas :: "int option"
  kmImage :: string
  kmImagePullPolicy :: string
  kmNodeSelector :: smap
  kmLabels :: smap
  kmAnnotations :: smap
  kmResources :: k8s_value
  kmRollingUpdate :: "k8s_value option"
  kmTolerations :: "k8s_value list"
  kmEnv :: "env_var list"
  kmTopologySpreadConstraints :: "k8s_value list"
  kmDNSPolicy :: string
  kmPriorityClassName :: string
  kmTerminationGracePeriodSeconds :: "int option"
  kmCustomProperties :: "value_source option"
  kmGroup :: string
  kmTLSCertsRef :: "string option"
  kmRegistration :: "string option"

record kubemon_status =
  ksResolvedImage :: string
  ksConnectionInfo :: connection_info

definition km_IsEnabled :: "kubemon_spec option \<Rightarrow> bool" where
  "km_IsEnabled km \<longleftrightarrow> km \<noteq> None"

definition km_GetCustomImage :: "kubemon_spec option \<Rightarrow> string" where
  "km_GetCustomImage km = (case km of None \<Rightarrow> '''' | Some s \<Rightarrow> kmImage s)"

definition km_IsRegistrationEnabled :: "kubemon_spec option \<Rightarrow> bool" where
  "km_IsRegistrationEnabled km = (case km of None \<Rightarrow> False | Some s \<Rightarrow> kmRegistration s \<noteq> None)"

definition km_GetRegistrationClusterName :: "kubemon_spec option \<Rightarrow> string" where
  "km_GetRegistrationClusterName km =
     (case km of None \<Rightarrow> ''''
      | Some s \<Rightarrow> (case kmRegistration s of None \<Rightarrow> '''' | Some clusterName \<Rightarrow> clusterName))"

definition km_GetDefaultImage :: "string \<Rightarrow> string \<Rightarrow> string" where
  "km_GetDefaultImage apiURLHost version =
     (if apiURLHost = '''' then ''''
      else let tag = ToImageTag version;
               tag' = (if \<not> has_suffix tag ''raw'' then tag @ ''-'' @ ''raw'' else tag)
           in apiURLHost @ ''/linux/activegate'' @ '':'' @ tag')"

section \<open>Extensions\<close>

record database_spec =
  dbID :: string
  dbReplicas :: "int option"
  dbVolumes :: "k8s_volume list"
  dbVolumeMounts :: "volume_mount list"
  dbServiceAccountName :: string
  dbLabels :: smap
  dbAnnotations :: smap
  dbAffinity :: "k8s_value option"
  dbResources :: "k8s_value option"
  dbNodeSelector :: smap
  dbTopologySpreadConstraints :: "k8s_value list"

record extensions_spec =
  exsPrometheus :: "unit option"
  exsDatabases :: "database_spec list"

record execution_controller_spec =
  eecPersistentVolumeClaim :: "k8s_value option"
  eecLabels :: smap
  eecAnnotations :: smap
  eecImageRef :: image_ref
  eecTLSRefName :: string
  eecCustomConfig :: string
  eecCustomExtensionCertificates :: string
  eecResources :: k8s_value
  eecTolerations :: "k8s_value list"
  eecTopologySpreadConstraints :: "k8s_value list"
  eecUseEphemeralVolume :: "bool option"

record extensions =
  extExecutionController :: execution_controller_spec
  extName :: string
  extNamespace :: string
  extDatabases :: "database_spec list"
  extPrometheusEnabled :: bool

definition ext_IsPrometheusEnabled :: "extensions \<Rightarrow> bool" where
  "ext_IsPrometheusEnabled e = extPrometheusEnabled e"

definition ext_IsDatabasesEnabled :: "extensions \<Rightarrow> bool" where
  "ext_IsDatabasesEnabled e \<longleftrightarrow> length (extDatabases e) > 0"

definition ext_IsAnyEnabled :: "extensions \<Rightarrow> bool" where
  "ext_IsAnyEnabled e \<longleftrightarrow> ext_IsPrometheusEnabled e \<or> ext_IsDatabasesEnabled e"

definition ext_GetTLSRefName :: "extensions \<Rightarrow> string" where
  "ext_GetTLSRefName e = eecTLSRefName (extExecutionController e)"

definition ext_NeedsSelfSignedTLS :: "extensions \<Rightarrow> bool" where
  "ext_NeedsSelfSignedTLS e \<longleftrightarrow> ext_GetTLSRefName e = ''''"

definition ext_GetTLSSecretName :: "extensions \<Rightarrow> string" where
  "ext_GetTLSSecretName e =
     (if ext_NeedsSelfSignedTLS e then extName e @ ''-extension-controller-tls''
      else ext_GetTLSRefName e)"

definition ext_GetExecutionControllerStatefulsetName :: "extensions \<Rightarrow> string" where
  "ext_GetExecutionControllerStatefulsetName e = extName e @ ''-extension-controller''"

definition ext_GetDatabaseDatasourceName :: "extensions \<Rightarrow> string \<Rightarrow> string" where
  "ext_GetDatabaseDatasourceName e dbid = extName e @ ''-sql-ext-exec-'' @ dbid"

section \<open>Telemetry ingest\<close>

record telemetryingest_spec =
  tiServiceName :: string
  tiTLSRefName :: string
  tiProtocols :: "string list"

text \<open>\<open>RegisteredProtocols\<close> of \<open>pkg/otelcgen/otelcgen.go\<close>.\<close>

definition RegisteredProtocols :: "string list" where
  "RegisteredProtocols = [''otlp'', ''jaeger'', ''statsd'', ''zipkin'']"

definition ti_GetProtocols :: "telemetryingest_spec option \<Rightarrow> string list" where
  "ti_GetProtocols ts =
     (case ts of None \<Rightarrow> []
      | Some s \<Rightarrow> (if tiProtocols s = [] then RegisteredProtocols else tiProtocols s))"

definition ti_IsEnabled :: "telemetryingest_spec option \<Rightarrow> bool" where
  "ti_IsEnabled ts \<longleftrightarrow> ts \<noteq> None"

definition ti_GetServiceName :: "string \<Rightarrow> telemetryingest_spec option \<Rightarrow> string" where
  "ti_GetServiceName name ts =
     (let dflt = name @ ''-telemetry-ingest'' in
      case ts of None \<Rightarrow> dflt
      | Some s \<Rightarrow> (if tiServiceName s = '''' then dflt else tiServiceName s))"

definition ti_IsOTLPEnabled :: "telemetryingest_spec option \<Rightarrow> bool" where
  "ti_IsOTLPEnabled ts \<longleftrightarrow> (if \<not> ti_IsEnabled ts then False else ''otlp'' \<in> set (ti_GetProtocols ts))"

definition ti_IsJaegerEnabled :: "telemetryingest_spec option \<Rightarrow> bool" where
  "ti_IsJaegerEnabled ts \<longleftrightarrow> (if \<not> ti_IsEnabled ts then False else ''jaeger'' \<in> set (ti_GetProtocols ts))"

definition ti_IsZipkinEnabled :: "telemetryingest_spec option \<Rightarrow> bool" where
  "ti_IsZipkinEnabled ts \<longleftrightarrow> (if \<not> ti_IsEnabled ts then False else ''zipkin'' \<in> set (ti_GetProtocols ts))"

definition ti_IsStatsdEnabled :: "telemetryingest_spec option \<Rightarrow> bool" where
  "ti_IsStatsdEnabled ts \<longleftrightarrow> (if \<not> ti_IsEnabled ts then False else ''statsd'' \<in> set (ti_GetProtocols ts))"

section \<open>KSPM, log monitoring, OTLP, metadata enrichment\<close>

record node_configuration_collector_spec =
  ncUpdateStrategy :: "k8s_value option"
  ncLabels :: smap
  ncAnnotations :: smap
  ncNodeSelector :: smap
  ncImageRef :: image_ref
  ncPriorityClassName :: string
  ncResources :: k8s_value
  ncNodeAffinity :: "k8s_value option"
  ncTolerations :: "k8s_value list"
  ncArgs :: "string list"
  ncEnv :: "env_var list"

text \<open>\<open>kspm.GetUniqueMappedHostPaths\<close> on \<open>MappedHostPaths\<close>.\<close>

definition kspm_GetUniqueMappedHostPaths :: "string list \<Rightarrow> string list" where
  "kspm_GetUniqueMappedHostPaths mappedHostPaths = compact (sort_by (\<lambda>p. p) mappedHostPaths)"

record ingest_rule_matchers =
  irmAttribute :: string
  irmValues :: "string list"

record logmonitoring_template =
  lmtAnnotations :: smap
  lmtLabels :: smap
  lmtNodeSelector :: smap
  lmtImageRef :: image_ref
  lmtDNSPolicy :: string
  lmtPriorityClassName :: string
  lmtSecCompProfile :: string
  lmtResources :: k8s_value
  lmtRollingUpdate :: "k8s_value option"
  lmtTolerations :: "k8s_value list"
  lmtArgs :: "string list"

record logmonitoring =
  lmSpec :: "ingest_rule_matchers list option"
  lmTemplateSpec :: "logmonitoring_template option"
  lmName :: string
  lmHostAgents :: bool

definition lm_IsEnabled :: "logmonitoring \<Rightarrow> bool" where
  "lm_IsEnabled lm \<longleftrightarrow> lmSpec lm \<noteq> None"

definition lm_GetDaemonSetName :: "logmonitoring \<Rightarrow> string" where
  "lm_GetDaemonSetName lm = lmName lm @ ''-logmonitoring''"

definition lm_IsStandalone :: "logmonitoring \<Rightarrow> bool" where
  "lm_IsStandalone lm \<longleftrightarrow> lm_IsEnabled lm \<and> \<not> lmHostAgents lm"

definition lm_GetNodeSelector :: "logmonitoring \<Rightarrow> smap" where
  "lm_GetNodeSelector lm =
     (if lm_IsStandalone lm
      then (case lmTemplateSpec lm of None \<Rightarrow> Map.empty | Some t \<Rightarrow> lmtNodeSelector t)
      else Map.empty)"

record otlp_spec =
  otMetrics :: "unit option"
  otTraces :: "unit option"
  otLogs :: "unit option"
  otOverrideEnvVars :: "bool option"
  otNamespaceSelector :: label_selector
  otAdditionalResourceAttributes :: smap

record exporter_configuration =
  ecSpec :: "otlp_spec option"
  ecGlobalResourceAttributes :: smap

definition otlp_IsMetricsEnabled :: "exporter_configuration \<Rightarrow> bool" where
  "otlp_IsMetricsEnabled e = (case ecSpec e of None \<Rightarrow> False | Some s \<Rightarrow> otMetrics s \<noteq> None)"

definition otlp_IsTracesEnabled :: "exporter_configuration \<Rightarrow> bool" where
  "otlp_IsTracesEnabled e = (case ecSpec e of None \<Rightarrow> False | Some s \<Rightarrow> otTraces s \<noteq> None)"

definition otlp_IsLogsEnabled :: "exporter_configuration \<Rightarrow> bool" where
  "otlp_IsLogsEnabled e = (case ecSpec e of None \<Rightarrow> False | Some s \<Rightarrow> otLogs s \<noteq> None)"

definition otlp_IsEnabled :: "exporter_configuration \<Rightarrow> bool" where
  "otlp_IsEnabled e \<longleftrightarrow>
     (if ecSpec e = None then False
      else otlp_IsTracesEnabled e \<or> otlp_IsMetricsEnabled e \<or> otlp_IsLogsEnabled e)"

definition otlp_IsOverrideEnvVarsEnabled :: "exporter_configuration \<Rightarrow> bool" where
  "otlp_IsOverrideEnvVarsEnabled e =
     (case ecSpec e of None \<Rightarrow> False | Some s \<Rightarrow> otOverrideEnvVars s = Some True)"

definition otlp_HasAdditionalResourceAttributes :: "exporter_configuration \<Rightarrow> bool" where
  "otlp_HasAdditionalResourceAttributes e =
     (case ecSpec e of None \<Rightarrow> False | Some s \<Rightarrow> otAdditionalResourceAttributes s \<noteq> Map.empty)"

definition otlp_GetResourceAttributes :: "exporter_configuration \<Rightarrow> smap" where
  "otlp_GetResourceAttributes e =
     (case ecSpec e of None \<Rightarrow> ecGlobalResourceAttributes e
      | Some s \<Rightarrow> resource_attributes_Merge (ecGlobalResourceAttributes e) (otAdditionalResourceAttributes s))"

record metadata_enrichment_spec =
  meEnabled :: "bool option"
  meNamespaceSelector :: label_selector
  meInitResources :: "k8s_value option"

record enrichment_rule =
  erType :: string
  erSource :: string
  erTarget :: string

definition rule_ToAnnotationKey :: "enrichment_rule \<Rightarrow> string" where
  "rule_ToAnnotationKey r =
     (if erTarget r = '''' then '''' else ''metadata.dynatrace.com/'' @ erTarget r)"

definition IsSupportedType :: "string \<Rightarrow> bool" where
  "IsSupportedType ruleType \<longleftrightarrow>
     ruleType \<in> {''LABEL'', ''ANNOTATION'', ''K8S_NAMESPACE_LABEL'', ''K8S_NAMESPACE_ANNOTATION'', ''CUSTOM''}"

definition me_IsEnabled :: "metadata_enrichment_spec \<Rightarrow> bool" where
  "me_IsEnabled m \<longleftrightarrow> meEnabled m = Some True"

definition me_GetNamespaceSelector :: "metadata_enrichment_spec \<Rightarrow> label_selector option" where
  "me_GetNamespaceSelector m = (if me_IsEnabled m then Some (meNamespaceSelector m) else None)"

end
