(* ===== verification/DynaKube.thy ===== *)
theory DynaKube
  imports DynaKubeSpec
begin

text \<open>
  The DynaKube resource with its status, the wrappers that hand a section of it to a component
  (\<open>operands_props.go\<close>), the resource's own property functions, and the status conditions. The
  condition slice is managed by \<open>k8s.io/apimachinery/pkg/api/meta\<close>, which is not part of the
  source: the status records the operations the operator applies to it, in order.
\<close>

section \<open>Conditions\<close>

record condition =
  condType :: string
  condStatus :: bool
  condReason :: string
  condMessage :: string

datatype cond_op = SetStatusCondition condition | RemoveStatusCondition string

fun cond_op_type :: "cond_op \<Rightarrow> string" where
  "cond_op_type (SetStatusCondition c) = condType c"
| "cond_op_type (RemoveStatusCondition t) = t"

section \<open>The resource\<close>

record otel_collector_spec =
  otcLabels :: smap
  otcAnnotations :: smap
  otcReplicas :: "int option"
  otcImageRef :: image_ref
  otcTLSRefName :: string
  otcResources :: k8s_value
  otcNodeSelector :: smap
  otcTolerations :: "k8s_value list"
  otcTopologySpreadConstraints :: "k8s_value list"

record database_executor_spec =
  dexImageRef :: image_ref
  dexTolerations :: "k8s_value list"

record templates_spec =
  tsLogMonitoring :: "logmonitoring_template option"
  tsKSPMNodeConfigurationCollector :: node_configuration_collector_spec
  tsOpenTelemetryCollector :: otel_collector_spec
  tsSQLExtensionExecutor :: database_executor_spec
  tsExtensionExecutionController :: execution_controller_spec

record dynakube_spec =
  dspMetadataEnrichment :: metadata_enrichment_spec
  dspProxy :: "value_source option"
  dspLogMonitoring :: "ingest_rule_matchers list option"
  dspKSPM :: "string list option"
  dspDynatraceAPIRequestThreshold :: "int option"
  dspExtensions :: "extensions_spec option"
  dspTelemetryIngest :: "telemetryingest_spec option"
  dspResourceAttributes :: smap
  dspOTLPExporterConfiguration :: "otlp_spec option"
  dspOneAgent :: oneagent_spec
  dspAPIURL :: string
  dspTokens :: string
  dspTrustedCAs :: string
  dspNetworkZone :: string
  dspCustomPullSecret :: string
  dspTemplates :: templates_spec
  dspActiveGate :: activegate_spec
  dspKubernetesMonitoring :: "kubemon_spec option"
  dspSkipCertCheck :: "bool option"
  dspEnableIstio :: "bool option"
  dspPublicRegistryOverride :: string

record api_token_status =
  atsSettingsRead :: "bool option"
  atsSettingsWrite :: "bool option"
  atsPlatform :: "bool option"

abbreviation Running :: string where "Running \<equiv> ''Running''"
abbreviation Deploying :: string where "Deploying \<equiv> ''Deploying''"
abbreviation PhaseError :: string where "PhaseError \<equiv> ''Error''"

record dynakube_status =
  dstOneAgent :: oneagent_status
  dstActiveGate :: activegate_status
  dstKubernetesMonitoring :: kubemon_status
  dstCodeModules :: version_status
  dstMetadataEnrichmentRules :: "enrichment_rule list"
  dstKSPMTokenSecretHash :: string
  dstUpdatedTimestamp :: int
  dstProxyURLHash :: string
  dstPhase :: string
  dstKubeSystemUUID :: string
  dstKubernetesClusterMEID :: string
  dstKubernetesClusterName :: string
  dstConditions :: "cond_op list"
  dstAPIToken :: api_token_status

record dynakube =
  dkName :: string
  dkNamespace :: string
  dkAnnotations :: smap
  dkDeletionTimestamp :: "int option"
  dkSpec :: dynakube_spec
  dkStatus :: dynakube_status

definition add_condition_op :: "cond_op \<Rightarrow> dynakube \<Rightarrow> dynakube" where
  "add_condition_op c dk =
     dk\<lparr>dkStatus := (dkStatus dk)\<lparr>dstConditions := dstConditions (dkStatus dk) @ [c]\<rparr>\<rparr>"

lemma add_condition_op_simps [simp]:
  "dkSpec (add_condition_op c dk) = dkSpec dk"
  "dkName (add_condition_op c dk) = dkName dk"
  "dkNamespace (add_condition_op c dk) = dkNamespace dk"
  "dkAnnotations (add_condition_op c dk) = dkAnnotations dk"
  "dstOneAgent (dkStatus (add_condition_op c dk)) = dstOneAgent (dkStatus dk)"
  "dstActiveGate (dkStatus (add_condition_op c dk)) = dstActiveGate (dkStatus dk)"
  "dstCodeModules (dkStatus (add_condition_op c dk)) = dstCodeModules (dkStatus dk)"
  "dstAPIToken (dkStatus (add_condition_op c dk)) = dstAPIToken (dkStatus dk)"
  "dstConditions (dkStatus (add_condition_op c dk)) = dstConditions (dkStatus dk) @ [c]"
  by (simp_all add: add_condition_op_def)

section \<open>Wrappers\<close>

definition dk_FF :: "dynakube \<Rightarrow> feature_flags" where
  "dk_FF dk =
     \<lparr>ffAnnotations = dkAnnotations dk,
      ffHasPlatformToken = (atsPlatform (dstAPIToken (dkStatus dk)) = Some True)\<rparr>"

definition dk_APIURLHost :: "(string \<Rightarrow> string option) \<Rightarrow> dynakube \<Rightarrow> string" where
  "dk_APIURLHost url_host dk =
     (case url_host (dspAPIURL (dkSpec dk)) of None \<Rightarrow> '''' | Some host \<Rightarrow> host)"

definition dk_Extensions :: "dynakube \<Rightarrow> extensions" where
  "dk_Extensions dk =
     \<lparr>extExecutionController = tsExtensionExecutionController (dspTemplates (dkSpec dk)),
      extName = dkName dk, extNamespace = dkNamespace dk,
      extDatabases = (case dspExtensions (dkSpec dk) of None \<Rightarrow> [] | Some e \<Rightarrow> exsDatabases e),
      extPrometheusEnabled =
        (case dspExtensions (dkSpec dk) of None \<Rightarrow> False | Some e \<Rightarrow> exsPrometheus e \<noteq> None)\<rparr>"

definition dk_ActiveGate :: "dynakube \<Rightarrow> activegate_spec" where
  "dk_ActiveGate dk =
     (dspActiveGate (dkSpec dk))
       \<lparr>agAPIURL := dspAPIURL (dkSpec dk), agName := dkName dk,
        agAutomaticTLSCertificateEnabled := IsActiveGateAutomaticTLSCertificate (dk_FF dk),
        agExtensionsDependency := ext_IsAnyEnabled (dk_Extensions dk)\<rparr>"

definition dk_OneAgent :: "dynakube \<Rightarrow> one_agent" where
  "dk_OneAgent dk =
     \<lparr>oaSpec = dspOneAgent (dkSpec dk), oaStatus = dstOneAgent (dkStatus dk),
      oaCodeModulesStatus = dstCodeModules (dkStatus dk), oaName = dkName dk,
      oaFeaturePrivileged = getBoolWithDefault (dk_FF dk) (FFPrefix @ ''oneagent-privileged'') False,
      oaFeatureSkipLivenessProbe =
        getBoolWithDefault (dk_FF dk) (FFPrefix @ ''oneagent-skip-liveness-probe'') False,
      oaGlobalResourceAttributes = dspResourceAttributes (dkSpec dk)\<rparr>"

definition dk_LogMonitoring :: "dynakube \<Rightarrow> logmonitoring" where
  "dk_LogMonitoring dk =
     \<lparr>lmSpec = dspLogMonitoring (dkSpec dk), lmTemplateSpec = tsLogMonitoring (dspTemplates (dkSpec dk)),
      lmName = dkName dk, lmHostAgents = IsDaemonsetRequired (dk_OneAgent dk)\<rparr>"

definition dk_OTLPExporterConfiguration :: "dynakube \<Rightarrow> exporter_configuration" where
  "dk_OTLPExporterConfiguration dk =
     \<lparr>ecSpec = dspOTLPExporterConfiguration (dkSpec dk),
      ecGlobalResourceAttributes = dspResourceAttributes (dkSpec dk)\<rparr>"

definition dk_KSPM_IsEnabled :: "dynakube \<Rightarrow> bool" where
  "dk_KSPM_IsEnabled dk \<longleftrightarrow> dspKSPM (dkSpec dk) \<noteq> None"

definition IsKubemonOperandEnabled :: "string \<Rightarrow> bool" where
  "IsKubemonOperandEnabled rawValue =
     (if rawValue = '''' then False
      else case parse_bool rawValue of None \<Rightarrow> False | Some value \<Rightarrow> value)"

definition dk_IsKubemonEnabled :: "string \<Rightarrow> dynakube \<Rightarrow> bool" where
  "dk_IsKubemonEnabled kubemonEnv dk \<longleftrightarrow>
     IsKubemonOperandEnabled kubemonEnv \<and> km_IsEnabled (dspKubernetesMonitoring (dkSpec dk))"

definition dk_IsKubernetesMonitoringEnabled :: "string \<Rightarrow> dynakube \<Rightarrow> bool" where
  "dk_IsKubernetesMonitoringEnabled kubemonEnv dk \<longleftrightarrow>
     dk_IsKubemonEnabled kubemonEnv dk \<or>
     ag_IsKubernetesMonitoringEnabled (dspActiveGate (dkSpec dk))"

definition dk_IsKubernetesMonitoringRegistrationEnabled :: "string \<Rightarrow> dynakube \<Rightarrow> bool" where
  "dk_IsKubernetesMonitoringRegistrationEnabled kubemonEnv dk \<longleftrightarrow>
     (let kubemonRegistrationEnabled =
            (dk_IsKubemonEnabled kubemonEnv dk \<and>
             km_IsRegistrationEnabled (dspKubernetesMonitoring (dkSpec dk)));
          activeGateRegistrationEnabled =
            (ag_IsKubernetesMonitoringEnabled (dspActiveGate (dkSpec dk)) \<and>
             IsAutomaticK8sAPIMonitoring (dk_FF dk))
      in kubemonRegistrationEnabled \<or> activeGateRegistrationEnabled)"

section \<open>Properties of the resource\<close>

definition dk_TenantRegistryPullSecretName :: "dynakube \<Rightarrow> string" where
  "dk_TenantRegistryPullSecretName dk = dkName dk @ ''-pull-secret''"

definition dk_PullSecretName :: "dynakube \<Rightarrow> string" where
  "dk_PullSecretName dk =
     (if dspCustomPullSecret (dkSpec dk) \<noteq> '''' then dspCustomPullSecret (dkSpec dk)
      else dk_TenantRegistryPullSecretName dk)"

definition dk_customPullSecretNames :: "string \<Rightarrow> dynakube \<Rightarrow> string list" where
  "dk_customPullSecretNames helmPullSecret dk =
     (let custom = dspCustomPullSecret (dkSpec dk);
          names = (if custom \<noteq> '''' then [custom] else [])
      in if helmPullSecret \<noteq> '''' \<and> helmPullSecret \<notin> set names then names @ [helmPullSecret] else names)"

definition dk_PullSecretNames :: "string \<Rightarrow> dynakube \<Rightarrow> string list" where
  "dk_PullSecretNames helmPullSecret dk =
     (if atsPlatform (dstAPIToken (dkStatus dk)) \<noteq> Some True
      then [dk_TenantRegistryPullSecretName dk] else []) @ dk_customPullSecretNames helmPullSecret dk"

definition dk_ImagePullSecretReferences :: "string \<Rightarrow> dynakube \<Rightarrow> string list" where
  "dk_ImagePullSecretReferences helmPullSecret dk =
     (if \<not> IsPublicRegistry (dk_FF dk) then [dk_TenantRegistryPullSecretName dk] else []) @
     dk_customPullSecretNames helmPullSecret dk"

definition dk_Tokens :: "dynakube \<Rightarrow> string" where
  "dk_Tokens dk = (if dspTokens (dkSpec dk) \<noteq> '''' then dspTokens (dkSpec dk) else dkName dk)"

definition dk_TenantUUID :: "dynakube \<Rightarrow> error + string" where
  "dk_TenantUUID dk =
     (let st = dkStatus dk in
      if ciTenantUUID (osConnectionInfo (dstOneAgent st)) \<noteq> '''' then
        Inr (ciTenantUUID (osConnectionInfo (dstOneAgent st)))
      else if ciTenantUUID (asConnectionInfo (dstActiveGate st)) \<noteq> '''' then
        Inr (ciTenantUUID (asConnectionInfo (dstActiveGate st)))
      else if ciTenantUUID (ksConnectionInfo (dstKubernetesMonitoring st)) \<noteq> '''' then
        Inr (ciTenantUUID (ksConnectionInfo (dstKubernetesMonitoring st)))
      else Inl (Sentinel ''tenant UUID not available''))"

definition dk_GetDynatraceAPIRequestThreshold :: "dynakube \<Rightarrow> int" where
  "dk_GetDynatraceAPIRequestThreshold dk =
     (case dspDynatraceAPIRequestThreshold (dkSpec dk) of None \<Rightarrow> 15 | Some n \<Rightarrow> n)"

definition dk_APIRequestThreshold :: "dynakube \<Rightarrow> int" where
  "dk_APIRequestThreshold dk = dk_GetDynatraceAPIRequestThreshold dk * minute"

definition dk_IsCodeModulesStatusReady :: "dynakube \<Rightarrow> bool" where
  "dk_IsCodeModulesStatusReady dk =
     (if oa_GetCustomCodeModulesImage (dk_OneAgent dk) \<noteq> '''' \<or> IsPublicRegistry (dk_FF dk)
      then (if oa_GetCodeModulesImage (dk_OneAgent dk) = '''' then False else True)
      else if oa_GetCodeModulesVersion (dk_OneAgent dk) = '''' \<or>
              oa_GetCodeModulesVersion (dk_OneAgent dk) = CustomImageVersionSource
      then False else True)"

definition dk_IsAGCertificateNeeded :: "dynakube \<Rightarrow> bool" where
  "dk_IsAGCertificateNeeded dk =
     (if ag_IsEnabled (dk_ActiveGate dk) \<and> ag_HasCaCert (dk_ActiveGate dk) then True else False)"

definition dk_IsCACertificateNeeded :: "dynakube \<Rightarrow> bool" where
  "dk_IsCACertificateNeeded dk =
     (if \<not> ag_IsEnabled (dk_ActiveGate dk) \<and> dspTrustedCAs (dkSpec dk) \<noteq> '''' then True else False)"

definition dk_HasProxy :: "dynakube \<Rightarrow> bool" where
  "dk_HasProxy dk =
     (case dspProxy (dkSpec dk) of None \<Rightarrow> False
      | Some p \<Rightarrow> vsrcValue p \<noteq> '''' \<or> vsrcValueFrom p \<noteq> '''')"

definition dk_NeedsCustomNoProxy :: "dynakube \<Rightarrow> bool" where
  "dk_NeedsCustomNoProxy dk \<longleftrightarrow> dk_HasProxy dk \<and> GetNoProxy (dk_FF dk) \<noteq> ''''"

definition dk_NeedsActiveGateProxy :: "dynakube \<Rightarrow> bool" where
  "dk_NeedsActiveGateProxy dk \<longleftrightarrow>
     \<not> AGIgnoresProxy (dk_FF dk) \<and> dk_HasProxy dk \<and> ag_IsEnabled (dk_ActiveGate dk)"

definition dk_NeedsOneAgentProxy :: "dynakube \<Rightarrow> bool" where
  "dk_NeedsOneAgentProxy dk \<longleftrightarrow> \<not> OneAgentIgnoresProxy (dk_FF dk) \<and> dk_HasProxy dk"

text \<open>
  Secrets and config maps come from a reader of the Kubernetes API, here a function from
  namespace and name to the data of the object or an error.
\<close>

type_synonym data_reader = "string \<Rightarrow> string \<Rightarrow> error + smap"

definition dk_proxyURLFromUserSecret :: "data_reader \<Rightarrow> dynakube \<Rightarrow> string \<Rightarrow> error + string" where
  "dk_proxyURLFromUserSecret getSecret dk secretName =
     (case getSecret (dkNamespace dk) secretName of
        Inl e \<Rightarrow> Inl (WithMsg (''failed to get proxy from '' @ secretName @ '' secret'') e)
      | Inr data \<Rightarrow>
     (case data ''proxy'' of
        None \<Rightarrow> Inl (Sentinel (''missing token proxy in proxy secret '' @ secretName))
      | Some proxy \<Rightarrow> Inr proxy))"

definition dk_Proxy :: "data_reader \<Rightarrow> dynakube \<Rightarrow> error + string" where
  "dk_Proxy getSecret dk =
     (case dspProxy (dkSpec dk) of
        None \<Rightarrow> Inr ''''
      | Some p \<Rightarrow>
          (if vsrcValue p \<noteq> '''' then Inr (vsrcValue p)
           else if vsrcValueFrom p \<noteq> '''' then dk_proxyURLFromUserSecret getSecret dk (vsrcValueFrom p)
           else Inr ''''))"

definition dk_TrustedCAs :: "data_reader \<Rightarrow> dynakube \<Rightarrow> error + string" where
  "dk_TrustedCAs getConfigMap dk =
     (let configName = dspTrustedCAs (dkSpec dk) in
      if configName \<noteq> '''' then
        (case getConfigMap (dkNamespace dk) configName of
           Inl e \<Rightarrow> Inl (WithMsg (''failed to get trustedCa from '' @ configName @ '' configmap'') e)
         | Inr data \<Rightarrow> Inr (case data ''certs'' of None \<Rightarrow> '''' | Some c \<Rightarrow> c))
      else Inr '''')"

definition dk_ActiveGateTLSCert :: "data_reader \<Rightarrow> dynakube \<Rightarrow> error + string" where
  "dk_ActiveGateTLSCert getSecret dk =
     (if ag_HasCaCert (dk_ActiveGate dk) then
        let secretName = ag_GetTLSSecretName (dk_ActiveGate dk) in
        (case getSecret (dkNamespace dk) secretName of
           Inl e \<Rightarrow> Inl (WithMsg (''failed to get activeGate tlsCert from '' @ secretName @ '' secret'') e)
         | Inr data \<Rightarrow>
        (case data ''tls.crt'' of
           Some cert \<Rightarrow> Inr cert
         | None \<Rightarrow>
        (case data ''server.crt'' of Some cert \<Rightarrow> Inr cert | None \<Rightarrow> Inr '''')))
      else Inr '''')"

definition SetPhase :: "string \<Rightarrow> dynakube_status \<Rightarrow> bool \<times> dynakube_status" where
  "SetPhase phase st = (phase \<noteq> dstPhase st, st\<lparr>dstPhase := phase\<rparr>)"

section \<open>Zero values\<close>

text \<open>The zero values of the Go structs, from which concrete resources are built.\<close>

definition zero_selector :: label_selector where
  "zero_selector = \<lparr>lsMatchLabels = [], lsMatchExpressions = []\<rparr>"

definition zero_image_ref :: image_ref where
  "zero_image_ref = \<lparr>irRepository = [], irTag = [], irDigest = [], irPullPolicy = []\<rparr>"

definition zero_host_inject :: host_inject_spec where
  "zero_host_inject =
     \<lparr>hisAnnotations = Map.empty, hisLabels = Map.empty, hisNodeSelector = Map.empty, hisVersion = [],
      hisImage = [], hisImagePullPolicy = [], hisDNSPolicy = [], hisPriorityClassName = [],
      hisSecCompProfile = [], hisStorageHostPath = [],
      hisOneAgentResources = \<lparr>rrLimits = None, rrRequests = None\<rparr>,
      hisRollingUpdate = None, hisTolerations = [], hisEnv = [], hisArgs = None,
      hisAdditionalResourceAttributes = Map.empty\<rparr>"

definition zero_app_injection :: app_injection_spec where
  "zero_app_injection =
     \<lparr>aisInitResources = None, aisCodeModulesImage = [], aisCodeModulesImagePullPolicy = [],
      aisNamespaceSelector = zero_selector\<rparr>"

definition zero_oneagent_spec :: oneagent_spec where
  "zero_oneagent_spec =
     \<lparr>ClassicFullStack = None, CloudNativeFullStack = None, ApplicationMonitoring = None,
      HostMonitoring = None, HostGroup = []\<rparr>"

definition zero_capability_properties :: capability_properties where
  "zero_capability_properties =
     \<lparr>cpCustomProperties = None, cpNodeSelector = Map.empty, cpLabels = Map.empty, cpReplicas = None,
      cpImage = [], cpImagePullPolicy = [], cpGroup = [], cpResources = \<lparr>rrLimits = None, rrRequests = None\<rparr>, cpRollingUpdate = None,
      cpTolerations = [], cpEnv = [], cpTopologySpreadConstraints = [], cpVolumes = [],
      cpVolumeMounts = []\<rparr>"

definition zero_activegate_spec :: activegate_spec where
  "zero_activegate_spec =
     \<lparr>agAnnotations = Map.empty, agVolumeClaimTemplate = None, agTerminationGracePeriodSeconds = None,
      agTLSSecretName = [], agDNSPolicy = [], agPriorityClassName = [],
      agCapabilityProperties = zero_capability_properties, agCapabilities = [],
      agUseEphemeralVolume = None, agName = [], agAPIURL = [], agExtensionsDependency = False,
      agAutomaticTLSCertificateEnabled = False\<rparr>"

definition zero_execution_controller :: execution_controller_spec where
  "zero_execution_controller =
     \<lparr>eecPersistentVolumeClaim = None, eecLabels = Map.empty, eecAnnotations = Map.empty,
      eecImageRef = zero_image_ref, eecTLSRefName = [], eecCustomConfig = [],
      eecCustomExtensionCertificates = [], eecResources = [], eecTolerations = [],
      eecTopologySpreadConstraints = [], eecUseEphemeralVolume = None\<rparr>"

definition zero_node_collector :: node_configuration_collector_spec where
  "zero_node_collector =
     \<lparr>ncUpdateStrategy = None, ncLabels = Map.empty, ncAnnotations = Map.empty,
      ncNodeSelector = Map.empty, ncImageRef = zero_image_ref, ncPriorityClassName = [],
      ncResources = [], ncNodeAffinity = None, ncTolerations = [], ncArgs = [], ncEnv = []\<rparr>"

definition zero_otel_collector :: otel_collector_spec where
  "zero_otel_collector =
     \<lparr>otcLabels = Map.empty, otcAnnotations = Map.empty, otcReplicas = None,
      otcImageRef = zero_image_ref, otcTLSRefName = [], otcResources = [],
      otcNodeSelector = Map.empty, otcTolerations = [], otcTopologySpreadConstraints = []\<rparr>"

definition zero_dynakube_spec :: dynakube_spec where
  "zero_dynakube_spec =
     \<lparr>dspMetadataEnrichment = \<lparr>meEnabled = None, meNamespaceSelector = zero_selector, meInitResources = None\<rparr>,
      dspProxy = None, dspLogMonitoring = None, dspKSPM = None, dspDynatraceAPIRequestThreshold = None,
      dspExtensions = None, dspTelemetryIngest = None, dspResourceAttributes = Map.empty,
      dspOTLPExporterConfiguration = None, dspOneAgent = zero_oneagent_spec, dspAPIURL = [],
      dspTokens = [], dspTrustedCAs = [], dspNetworkZone = [], dspCustomPullSecret = [],
      dspTemplates =
        \<lparr>tsLogMonitoring = None, tsKSPMNodeConfigurationCollector = zero_node_collector,
         tsOpenTelemetryCollector = zero_otel_collector,
         tsSQLExtensionExecutor = \<lparr>dexImageRef = zero_image_ref, dexTolerations = []\<rparr>,
         tsExtensionExecutionController = zero_execution_controller\<rparr>,
      dspActiveGate = zero_activegate_spec, dspKubernetesMonitoring = None, dspSkipCertCheck = None,
      dspEnableIstio = None, dspPublicRegistryOverride = []\<rparr>"

definition zero_dynakube_status :: dynakube_status where
  "zero_dynakube_status =
     \<lparr>dstOneAgent =
        \<lparr>osVersionStatus = zero_version_status, osInstances = Map.empty,
         osLastInstanceStatusUpdate = None, osHealthcheck = None,
         osConnectionInfo = zero_connection_info\<rparr>,
      dstActiveGate =
        \<lparr>asVersionStatus = zero_version_status, asConnectionInfo = zero_connection_info, asServiceIPs = []\<rparr>,
      dstKubernetesMonitoring = \<lparr>ksResolvedImage = [], ksConnectionInfo = zero_connection_info\<rparr>,
      dstCodeModules = zero_version_status, dstMetadataEnrichmentRules = [], dstKSPMTokenSecretHash = [],
      dstUpdatedTimestamp = 0, dstProxyURLHash = [], dstPhase = [], dstKubeSystemUUID = [],
      dstKubernetesClusterMEID = [], dstKubernetesClusterName = [], dstConditions = [],
      dstAPIToken = \<lparr>atsSettingsRead = None, atsSettingsWrite = None, atsPlatform = None\<rparr>\<rparr>"

definition zero_dynakube :: dynakube where
  "zero_dynakube =
     \<lparr>dkName = ''dk'', dkNamespace = ''dynatrace'', dkAnnotations = Map.empty,
      dkDeletionTimestamp = None, dkSpec = zero_dynakube_spec, dkStatus = zero_dynakube_status\<rparr>"

lemmas zero_values = zero_selector_def zero_image_ref_def zero_host_inject_def zero_app_injection_def
  zero_oneagent_spec_def zero_capability_properties_def zero_activegate_spec_def
  zero_execution_controller_def zero_node_collector_def zero_otel_collector_def zero_dynakube_spec_def
  zero_connection_info_def zero_dynakube_status_def zero_dynakube_def zero_version_status_def

end
