(* ===== verification/SemVer.thy ===== *)
theory SemVer
  imports GoStd
begin

text \<open>
  \<open>pkg/version/semantic.go\<close> and \<open>pkg/util/dtversion\<close>: Dynatrace versions, written
  \<open>major.minor.release.date-time\<close>. The parser, the printer, the three-way comparison whose result
  is a difference of 64-bit integers, and the downgrade test; the versions as a linear order of
  the library, which the comparison is shown to decide.
\<close>

section \<open>Model\<close>

datatype SemanticVersion =
  SemanticVersion (timestamp: string) (major: int) (minor: int) (release: int)

text \<open>\<open>versionRegex\<close>: three groups of digits, then digits, a dash and digits.\<close>

definition is_timestamp :: "string \<Rightarrow> bool" where
  "is_timestamp s =
     (case split_on (CHR ''-'') s of [d, t] \<Rightarrow> all_digits d \<and> all_digits t | _ \<Rightarrow> False)"

definition FindStringSubmatch :: "string \<Rightarrow> (string \<times> string \<times> string \<times> string) option" where
  "FindStringSubmatch s =
     (case split_on (CHR ''.'') s of
        [a, b, c, t] \<Rightarrow>
          (if all_digits a \<and> all_digits b \<and> all_digits c \<and> is_timestamp t
           then Some (a, b, c, t) else None)
      | _ \<Rightarrow> None)"

definition atoi_err :: "string \<Rightarrow> error + int" where
  "atoi_err s = (case atoi s of None \<Rightarrow> Inl (Sentinel ''strconv.Atoi: value out of range'') | Some v \<Rightarrow> Inr v)"

definition ExtractSemanticVersion :: "string \<Rightarrow> error + SemanticVersion" where
  "ExtractSemanticVersion versionString =
     (case FindStringSubmatch versionString of
        None \<Rightarrow> Inl (WithMsg versionString (Sentinel ''version malformed''))
      | Some (g1, g2, g3, g4) \<Rightarrow>
     (case atoi_err g1 of Inl e \<Rightarrow> Inl e
      | Inr ma \<Rightarrow>
     (case atoi_err g2 of Inl e \<Rightarrow> Inl e
      | Inr mi \<Rightarrow>
     (case atoi_err g3 of Inl e \<Rightarrow> Inl e
      | Inr re \<Rightarrow> Inr (SemanticVersion g4 ma mi re)))))"

definition show_int :: "int \<Rightarrow> string" where
  "show_int i = (if i < 0 then CHR ''-'' # show_nat (nat (- i)) else show_nat (nat i))"

definition version_String :: "SemanticVersion \<Rightarrow> string" where
  "version_String v =
     show_int (major v) @ ''.'' @ show_int (minor v) @ ''.'' @ show_int (release v) @ ''.'' @ timestamp v"

definition CompareSemanticVersions :: "SemanticVersion \<Rightarrow> SemanticVersion \<Rightarrow> int" where
  "CompareSemanticVersions a b =
     (if major a \<noteq> major b then wrap_int (major a - major b)
      else if minor a \<noteq> minor b then wrap_int (minor a - minor b)
      else if release a \<noteq> release b then wrap_int (release a - release b)
      else str_compare (timestamp a) (timestamp b))"

definition IsDowngrade :: "string \<Rightarrow> string \<Rightarrow> error + bool" where
  "IsDowngrade prev curr_version =
     (case ExtractSemanticVersion prev of
        Inl e \<Rightarrow> Inl (WithMsg ''failed to parse version'' e)
      | Inr parsedPrev \<Rightarrow>
     (case ExtractSemanticVersion curr_version of
        Inl e \<Rightarrow> Inl (WithMsg ''failed to parse version'' e)
      | Inr parsedCurr \<Rightarrow> Inr (CompareSemanticVersions parsedPrev parsedCurr > 0)))"

text \<open>
  \<open>dtversion.ToSemver\<close>; \<open>canonical\<close> and \<open>valid\<close> are \<open>Canonical\<close> and \<open>IsValid\<close> of
  \<open>golang.org/x/mod/semver\<close>.
\<close>

definition ToSemver :: "(string \<Rightarrow> string) \<Rightarrow> (string \<Rightarrow> bool) \<Rightarrow> string \<Rightarrow> error + string" where
  "ToSemver canonical valid version =
     (if version = '''' then Inr ''''
      else
        let split = split_on (CHR ''.'') version;
            semantic = (if length split > 3 then join_on (CHR ''.'') (take 3 split)
                        else join_on (CHR ''.'') split);
            semantic' = (if \<not> has_prefix semantic ''v'' then ''v'' @ semantic else semantic);
            result = canonical semantic'
        in if \<not> valid result
           then Inl (Sentinel (version @ '' is not possible to convert to a semver format.''))
           else Inr result)"

text \<open>What \<open>ExtractSemanticVersion\<close> produces: three non-negative 64-bit numbers and a timestamp.\<close>

definition sv_wf :: "SemanticVersion \<Rightarrow> bool" where
  "sv_wf v \<longleftrightarrow>
     0 \<le> major v \<and> major v \<le> max_int \<and> 0 \<le> minor v \<and> minor v \<le> max_int \<and>
     0 \<le> release v \<and> release v \<le> max_int \<and> is_timestamp (timestamp v)"

section \<open>The order of versions\<close>

instantiation SemanticVersion :: linorder
begin

definition less_eq_SemanticVersion :: "SemanticVersion \<Rightarrow> SemanticVersion \<Rightarrow> bool" where
  "a \<le> b \<longleftrightarrow>
     major a < major b \<or> major a = major b \<and>
     (minor a < minor b \<or> minor a = minor b \<and>
     (release a < release b \<or> release a = release b \<and> str_le (timestamp a) (timestamp b)))"

definition less_SemanticVersion :: "SemanticVersion \<Rightarrow> SemanticVersion \<Rightarrow> bool" where
  "(a::SemanticVersion) < b \<longleftrightarrow> a \<le> b \<and> \<not> b \<le> a"

instance
proof
  fix x y z :: SemanticVersion
  show "x < y \<longleftrightarrow> x \<le> y \<and> \<not> y \<le> x" by (rule less_SemanticVersion_def)
  show "x \<le> x" by (simp add: less_eq_SemanticVersion_def)
  show "x \<le> y \<Longrightarrow> y \<le> z \<Longrightarrow> x \<le> z"
    by (auto simp: less_eq_SemanticVersion_def intro: str_le_trans)
  show "x \<le> y \<Longrightarrow> y \<le> x \<Longrightarrow> x = y"
    by (auto simp: less_eq_SemanticVersion_def SemanticVersion.expand dest: str_le_antisym)
  show "x \<le> y \<or> y \<le> x"
    using str_le_total by (auto simp: less_eq_SemanticVersion_def)
qed

end

section \<open>Lemmas\<close>

lemma all_digits_free:
  "all_digits s \<Longrightarrow> CHR ''.'' \<notin> set s" "all_digits s \<Longrightarrow> CHR ''-'' \<notin> set s"
  by (auto simp: all_digits_def list_all_iff is_digit_def)

lemma is_timestampE:
  assumes "is_timestamp s"
  obtains d t where "s = d @ CHR ''-'' # t" "all_digits d" "all_digits t"
proof -
  obtain d t where "split_on (CHR ''-'') s = [d, t]" "all_digits d" "all_digits t"
    using assms by (auto simp: is_timestamp_def split: list.splits)
  then show thesis using that join_split[of "CHR ''-''" s] by auto
qed

lemma is_timestamp_dot_free: "is_timestamp s \<Longrightarrow> CHR ''.'' \<notin> set s"
  by (erule is_timestampE) (simp add: all_digits_free)

lemma show_int_nonneg: "0 \<le> i \<Longrightarrow> show_int i = show_nat (nat i)"
  by (simp add: show_int_def)

lemma FindStringSubmatch_dots:
  assumes "all_digits a" "all_digits b" "all_digits c" "is_timestamp t"
  shows "FindStringSubmatch (a @ CHR ''.'' # b @ CHR ''.'' # c @ CHR ''.'' # t) = Some (a, b, c, t)"
  using assms
  by (simp add: FindStringSubmatch_def split_on_append all_digits_free split_on_free
      is_timestamp_dot_free)

lemma FindStringSubmatch_Some:
  "FindStringSubmatch s = Some (a, b, c, t) \<Longrightarrow>
   all_digits a \<and> all_digits b \<and> all_digits c \<and> is_timestamp t"
  by (auto simp: FindStringSubmatch_def split: list.splits if_splits)

lemma atoi_err_nat: "0 \<le> i \<Longrightarrow> i \<le> max_int \<Longrightarrow> atoi_err (show_nat (nat i)) = Inr i"
  by (simp add: atoi_err_def)

lemma atoi_err_digits:
  "all_digits s \<Longrightarrow> atoi_err s = Inr v \<Longrightarrow> 0 \<le> v \<and> v \<le> max_int"
  by (auto simp: atoi_err_def atoi_digits split: option.splits if_splits)

lemma Extract_wf: "ExtractSemanticVersion s = Inr v \<Longrightarrow> sv_wf v"
  by (auto simp: ExtractSemanticVersion_def sv_wf_def dest!: FindStringSubmatch_Some
      split: option.splits sum.splits) (blast dest: atoi_err_digits)+

lemma Extract_String: "sv_wf v \<Longrightarrow> ExtractSemanticVersion (version_String v) = Inr v"
  by (simp add: sv_wf_def version_String_def show_int_nonneg ExtractSemanticVersion_def
      FindStringSubmatch_dots all_digits_show_nat atoi_err_nat)

lemma wrap_diff:
  "0 \<le> x \<Longrightarrow> x \<le> max_int \<Longrightarrow> 0 \<le> y \<Longrightarrow> y \<le> max_int \<Longrightarrow> wrap_int (x - y) = x - y"
  by (rule wrap_int_id) (simp_all add: max_int_def min_int_def)

lemma str_compare_le_iff: "str_compare a b \<le> 0 \<longleftrightarrow> str_le a b"
  by (simp add: str_le_def)

lemma Compare_le: "sv_wf a \<Longrightarrow> sv_wf b \<Longrightarrow> CompareSemanticVersions a b \<le> 0 \<longleftrightarrow> a \<le> b"
  by (auto simp: sv_wf_def CompareSemanticVersions_def wrap_diff less_eq_SemanticVersion_def
      str_compare_le_iff)

lemma Compare_anti: "sv_wf a \<Longrightarrow> sv_wf b \<Longrightarrow> CompareSemanticVersions b a = - CompareSemanticVersions a b"
  by (auto simp: sv_wf_def CompareSemanticVersions_def wrap_diff str_compare_anti[of "timestamp a"])

lemma Compare_gt: "sv_wf a \<Longrightarrow> sv_wf b \<Longrightarrow> CompareSemanticVersions a b > 0 \<longleftrightarrow> b < a"
  using Compare_le[of a b] by auto

lemma IsDowngrade_Inr:
  "IsDowngrade p c = Inr d \<longleftrightarrow>
   (\<exists>vp vc. ExtractSemanticVersion p = Inr vp \<and> ExtractSemanticVersion c = Inr vc \<and> d = (vc < vp))"
  by (auto simp: IsDowngrade_def Compare_gt[OF Extract_wf Extract_wf] split: sum.splits)

section \<open>Properties\<close>

text \<open>Printing and parsing are inverse: every version the parser can produce is printed to a string
  that parses to the same version, and the parser produces only well-formed versions, with numbers
  in the range of \<open>int\<close>.\<close>

theorem semver_roundtrip:
  "(ExtractSemanticVersion s = Inr v \<longrightarrow> sv_wf v) \<and>
   (sv_wf v \<longrightarrow> ExtractSemanticVersion (version_String v) = Inr v)"
  using Extract_wf Extract_String by blast

theorem semver_roundtrip_witness:
  "ExtractSemanticVersion
     (version_String (SemanticVersion ''20240205-143805'' 1 283 132)) =
   Inr (SemanticVersion ''20240205-143805'' 1 283 132)"
proof -
  have "ExtractSemanticVersion ''1.283.132.20240205-143805'' =
      Inr (SemanticVersion ''20240205-143805'' 1 283 132)" by code_simp
  then show ?thesis using semver_roundtrip by blast
qed

text \<open>On parsed versions the sign of \<open>CompareSemanticVersions\<close> is that of the lexicographic order on
  major, minor, release and timestamp: the 64-bit subtractions never wrap around there, and the
  result is zero for equal versions only.\<close>

theorem compare_decides_order:
  assumes "ExtractSemanticVersion s = Inr a" and "ExtractSemanticVersion t = Inr b"
  shows "(CompareSemanticVersions a b < 0 \<longleftrightarrow> a < b) \<and>
         (CompareSemanticVersions a b = 0 \<longleftrightarrow> a = b) \<and>
         (CompareSemanticVersions a b > 0 \<longleftrightarrow> b < a)"
proof -
  have wf: "sv_wf a" "sv_wf b" using assms by (auto dest: Extract_wf)
  have "CompareSemanticVersions a b > 0 \<longleftrightarrow> b < a" using wf by (rule Compare_gt)
  moreover have "CompareSemanticVersions a b < 0 \<longleftrightarrow> a < b"
    using Compare_gt[OF wf(2,1)] Compare_anti[OF wf] by simp
  ultimately show ?thesis by (smt (verit) neq_iff)
qed

theorem compare_decides_order_witness:
  "CompareSemanticVersions (SemanticVersion ''20230101-000000'' 1 200 0)
     (SemanticVersion ''20230101-000000'' 1 1000 0) < 0"
proof -
  have 1: "ExtractSemanticVersion ''1.200.0.20230101-000000'' =
      Inr (SemanticVersion ''20230101-000000'' 1 200 0)" by code_simp
  have 2: "ExtractSemanticVersion ''1.1000.0.20230101-000000'' =
      Inr (SemanticVersion ''20230101-000000'' 1 1000 0)" by code_simp
  show ?thesis
    using compare_decides_order[OF 1 2] by (simp add: less_SemanticVersion_def less_eq_SemanticVersion_def)
qed

text \<open>\<open>IsDowngrade\<close> answers exactly when both strings are versions, and then says whether the second
  is strictly older; so no two versions are downgrades of each other.\<close>

theorem isDowngrade_spec:
  "(IsDowngrade prev new = Inr d \<longleftrightarrow>
     (\<exists>p c. ExtractSemanticVersion prev = Inr p \<and> ExtractSemanticVersion new = Inr c \<and> d = (c < p))) \<and>
   \<not> (IsDowngrade prev new = Inr True \<and> IsDowngrade new prev = Inr True)"
  by (auto simp: IsDowngrade_Inr)

end
