(* ===== verification/VersionUpdate.thy ===== *)
theory VersionUpdate
  imports DynaKube SemVer
begin

text \<open>
  \<open>pkg/controllers/dynakube/version\<close>: which image and version of OneAgent, ActiveGate and code
  modules a DynaKube's status names. The Go interface \<open>StatusUpdater\<close> is a record of operations on
  the DynaKube (\<open>status_updater\<close>) with three implementations; its contract is the locale
  \<open>updater_contract\<close>, interpreted on all three, in which the shared algorithm \<open>run\<close> is verified.
  The Dynatrace API clients, the image reference parser and the semver library are the fields of
  \<open>version_env\<close>; a reconcile calls each at most once.
\<close>

section \<open>Interfaces\<close>

record image_info =
  iiURI :: string
  iiTag :: string

record version_env =
  veGetLatestAgentVersion :: "string \<Rightarrow> string \<Rightarrow> error + string"
  veGetLatestActiveGateVersion :: "string \<Rightarrow> error + string"
  veGetComponentLatestInfo :: "string \<Rightarrow> string \<Rightarrow> error + image_info"
  veParseReference :: "string \<Rightarrow> error + string option"
  veURLHost :: "string \<Rightarrow> string option"
  veSemverCanonical :: "string \<Rightarrow> string"
  veSemverIsValid :: "string \<Rightarrow> bool"
  veSemverCompare :: "string \<Rightarrow> string \<Rightarrow> int"

text \<open>
  \<open>veParseReference\<close> is \<open>name.ParseReference\<close>: an error, a tagged reference with its full name
  (\<open>Some\<close>) or a digest reference (\<open>None\<close>). The pointer \<open>Target()\<close> returns is a pair of functions
  that read and write the field of the DynaKube it points to; \<open>suIsOneAgentUpdater\<close> is the dynamic
  type that \<open>updateVersionStatuses\<close> tests for.
\<close>

record target_pointer =
  deref :: "dynakube \<Rightarrow> version_status"
  assign :: "version_status \<Rightarrow> dynakube \<Rightarrow> dynakube"

record status_updater =
  suName :: string
  suIsOneAgentUpdater :: bool
  suIsEnabled :: "(dynakube, bool) io"
  suTarget :: target_pointer
  suCustomImage :: "(dynakube, string) io"
  suCustomVersion :: "dynakube \<Rightarrow> string"
  suIsAutoUpdateEnabled :: "dynakube \<Rightarrow> bool"
  suIsPublicRegistryEnabled :: "dynakube \<Rightarrow> bool"
  suCheckForDowngrade :: "string \<Rightarrow> (dynakube, bool) io"
  suValidateStatus :: "(dynakube, unit) io"
  suLatestImageInfo :: "(dynakube, image_info) io"
  suUseTenantRegistry :: "(dynakube, unit) io"

section \<open>Conditions\<close>

definition set_condition :: "string \<Rightarrow> bool \<Rightarrow> string \<Rightarrow> string \<Rightarrow> (dynakube, unit) io" where
  "set_condition t st reason message =
     modify (add_condition_op (SetStatusCondition
       \<lparr>condType = t, condStatus = st, condReason = reason, condMessage = message\<rparr>))"

definition setDowngradeCondition :: "string \<Rightarrow> string \<Rightarrow> string \<Rightarrow> (dynakube, unit) io" where
  "setDowngradeCondition conditionType previousVersion newVersion =
     set_condition conditionType False ''Downgrade''
       (''Downgrade detected from '' @ previousVersion @ '' to '' @ newVersion @
        '', which is not supported for this feature.'')"

definition setVerifiedCondition :: "string \<Rightarrow> (dynakube, unit) io" where
  "setVerifiedCondition conditionType =
     set_condition conditionType True ''Verified'' ''Version verified for component.''"

definition setVerificationSkippedReasonCondition :: "string \<Rightarrow> (dynakube, unit) io" where
  "setVerificationSkippedReasonCondition conditionType =
     set_condition conditionType True ''VerificationSkipped''
       ''Version verification skipped, due to custom setup.''"

definition setVerificationFailedReasonCondition :: "string \<Rightarrow> (dynakube, unit) io" where
  "setVerificationFailedReasonCondition conditionType =
     set_condition conditionType False ''VerificationFailed'' ''Version verification failed''"

definition SetDynatraceAPIError :: "string \<Rightarrow> (dynakube, unit) io" where
  "SetDynatraceAPIError conditionType =
     set_condition conditionType False ''DynatraceApiError''
       ''A problem occurred when using the Dynatrace API''"

section \<open>The shared algorithm\<close>

definition update_target :: "target_pointer \<Rightarrow> (version_status \<Rightarrow> version_status) \<Rightarrow> (dynakube, unit) io" where
  "update_target target f = modify (\<lambda>d. assign target (f (deref target d)) d)"

definition determineSource :: "status_updater \<Rightarrow> (dynakube, string) io" where
  "determineSource u =
     andThen (suCustomImage u) (\<lambda>customImage.
       if customImage \<noteq> '''' then ret CustomImageVersionSource
       else andThen (gets (suIsPublicRegistryEnabled u)) (\<lambda>public.
         if public then ret PublicRegistryVersionSource
         else andThen (gets (suCustomVersion u)) (\<lambda>customVersion.
           if customVersion \<noteq> '''' then ret CustomVersionVersionSource
           else ret TenantRegistryVersionSource)))"

definition setImageFromImageInfo :: "target_pointer \<Rightarrow> image_info \<Rightarrow> (dynakube, unit) io" where
  "setImageFromImageInfo target imageInfo =
     update_target target (\<lambda>t. t\<lparr>vsVersion := iiTag imageInfo, vsImageID := iiURI imageInfo\<rparr>)"

definition setImageIDToCustomImage :: "target_pointer \<Rightarrow> string \<Rightarrow> (dynakube, unit) io" where
  "setImageIDToCustomImage target imageURI =
     update_target target (\<lambda>t. t\<lparr>vsImageID := imageURI, vsVersion := CustomImageVersionSource\<rparr>)"

definition processPublicRegistry :: "status_updater \<Rightarrow> (dynakube, unit) io" where
  "processPublicRegistry u =
     andThen (suLatestImageInfo u) (\<lambda>publicImage.
     andThen (suCheckForDowngrade u (iiTag publicImage)) (\<lambda>isDowngrade.
       if isDowngrade then ret () else setImageFromImageInfo (suTarget u) publicImage))"

text \<open>
  The deferred function of \<open>run\<close> writes the source whenever the variable \<open>err\<close> is nil on return;
  the result of \<open>ValidateStatus\<close> is returned without being stored in it.
\<close>

definition set_source :: "status_updater \<Rightarrow> string \<Rightarrow> (dynakube, unit) io" where
  "set_source u source = update_target (suTarget u) (\<lambda>t. t\<lparr>vsSource := source\<rparr>)"

definition validate_and_set_source :: "status_updater \<Rightarrow> string \<Rightarrow> (dynakube, unit) io" where
  "validate_and_set_source u source =
     andThen (attempt (suValidateStatus u)) (\<lambda>r. andThen (set_source u source) (\<lambda>_. lift r))"

definition pinned :: "status_updater \<Rightarrow> string \<Rightarrow> dynakube \<Rightarrow> bool" where
  "pinned u currentSource d \<longleftrightarrow>
     \<not> suIsAutoUpdateEnabled u d \<and> currentSource \<noteq> CustomVersionVersionSource \<and>
     \<not> vs_IsZero (deref (suTarget u) d) \<and> vsSource (deref (suTarget u) d) = currentSource"

definition run :: "status_updater \<Rightarrow> (dynakube, unit) io" where
  "run u =
     andThen (determineSource u) (\<lambda>currentSource.
       if currentSource = CustomImageVersionSource then
         andThen (suCustomImage u) (\<lambda>customImage.
         andThen (setImageIDToCustomImage (suTarget u) customImage) (\<lambda>_. set_source u currentSource))
       else andThen (gets (pinned u currentSource)) (\<lambda>skip.
         if skip then set_source u currentSource
         else andThen (gets (suIsPublicRegistryEnabled u)) (\<lambda>public.
           andThen (if public then processPublicRegistry u else suUseTenantRegistry u)
             (\<lambda>_. validate_and_set_source u currentSource))))"

definition updateVersionStatusForTenantRegistry ::
    "version_env \<Rightarrow> target_pointer \<Rightarrow> string \<Rightarrow> string \<Rightarrow> (dynakube, unit) io" where
  "updateVersionStatusForTenantRegistry env target imageURI latestVersion =
     andThen (wrap_msg ''failed to parse image uri'' (lift (veParseReference env imageURI))) (\<lambda>ref.
       case ref of
         None \<Rightarrow> ret ()
       | Some tagged \<Rightarrow> update_target target (\<lambda>t. t\<lparr>vsImageID := tagged, vsVersion := latestVersion\<rparr>))"

definition isDowngrade :: "string \<Rightarrow> string \<Rightarrow> error + bool" where
  "isDowngrade previousVersion latestVersion =
     (if previousVersion \<noteq> '''' then IsDowngrade previousVersion latestVersion else Inr False)"

section \<open>OneAgent\<close>

abbreviation oaConditionType :: string where "oaConditionType \<equiv> ''OneAgentVersion''"

definition oa_target :: "dynakube \<Rightarrow> version_status" where
  "oa_target dk = osVersionStatus (dstOneAgent (dkStatus dk))"

definition oa_set_target :: "version_status \<Rightarrow> dynakube \<Rightarrow> dynakube" where
  "oa_set_target v dk =
     dk\<lparr>dkStatus := (dkStatus dk)\<lparr>dstOneAgent := (dstOneAgent (dkStatus dk))\<lparr>osVersionStatus := v\<rparr>\<rparr>\<rparr>"

definition oa_Target :: target_pointer where
  "oa_Target = \<lparr>deref = oa_target, assign = oa_set_target\<rparr>"

definition oa_set_healthcheck :: "health_config option \<Rightarrow> dynakube \<Rightarrow> dynakube" where
  "oa_set_healthcheck h dk =
     dk\<lparr>dkStatus := (dkStatus dk)\<lparr>dstOneAgent := (dstOneAgent (dkStatus dk))\<lparr>osHealthcheck := h\<rparr>\<rparr>\<rparr>"

definition oa_IsEnabled :: "(dynakube, bool) io" where
  "oa_IsEnabled =
     andThen (gets (\<lambda>dk. IsDaemonsetRequired (dk_OneAgent dk))) (\<lambda>required.
       if required then ret True
       else andThen (modify (\<lambda>dk. oa_set_healthcheck None (oa_set_target zero_version_status dk))) (\<lambda>_.
            andThen (modify (add_condition_op (RemoveStatusCondition oaConditionType))) (\<lambda>_.
            gets (\<lambda>dk. IsDaemonsetRequired (dk_OneAgent dk)))))"

definition custom_image_of :: "string \<Rightarrow> (dynakube \<Rightarrow> string) \<Rightarrow> (dynakube, string) io" where
  "custom_image_of conditionType getter =
     andThen (gets getter) (\<lambda>customImage.
     andThen (whenM (customImage \<noteq> '''') (setVerificationSkippedReasonCondition conditionType))
       (\<lambda>_. ret customImage))"

definition oa_CustomImage :: "(dynakube, string) io" where
  "oa_CustomImage = custom_image_of oaConditionType (\<lambda>dk. oa_GetCustomImage (dk_OneAgent dk))"

definition oa_CheckForDowngrade :: "string \<Rightarrow> (dynakube, bool) io" where
  "oa_CheckForDowngrade latestVersion =
     andThen (gets oa_target) (\<lambda>t.
       if vsImageID t = '''' then ret False
       else
         let previousVersion =
               (if vsSource t = TenantRegistryVersionSource then vsVersion t else '''')
         in case isDowngrade previousVersion latestVersion of
              Inl e \<Rightarrow> andThen (setVerificationFailedReasonCondition oaConditionType) (\<lambda>_. throw e)
            | Inr downgrade \<Rightarrow>
                andThen (whenM downgrade
                  (setDowngradeCondition oaConditionType previousVersion latestVersion))
                (\<lambda>_. ret downgrade))"

definition api_call :: "string \<Rightarrow> error + 'a \<Rightarrow> (dynakube, 'a) io" where
  "api_call conditionType r =
     (case r of Inl e \<Rightarrow> andThen (SetDynatraceAPIError conditionType) (\<lambda>_. throw e) | Inr x \<Rightarrow> ret x)"

definition latest_image_info_of :: "version_env \<Rightarrow> string \<Rightarrow> string \<Rightarrow> (dynakube, image_info) io" where
  "latest_image_info_of env component conditionType =
     andThen (gets (\<lambda>dk. dspPublicRegistryOverride (dkSpec dk))) (\<lambda>registry.
     andThen (api_call conditionType (veGetComponentLatestInfo env component registry)) (\<lambda>info.
     andThen (setVerifiedCondition conditionType) (\<lambda>_. ret info)))"

definition oa_LatestImageInfo :: "version_env \<Rightarrow> (dynakube, image_info) io" where
  "oa_LatestImageInfo env = latest_image_info_of env ''oneagent'' oaConditionType"

definition oa_ValidateStatus :: "(dynakube, unit) io" where
  "oa_ValidateStatus =
     andThen (gets oa_target) (\<lambda>t.
       if vsVersion t = '''' then throw (Sentinel ''build version of OneAgent image not set'')
       else andThen (gets (\<lambda>dk. IsClassicFullStackMode (dk_OneAgent dk))) (\<lambda>classic.
         if vsType t = ''immutable'' \<and> classic
         then throw (Sentinel ''immutable OneAgent image in combination with classicFullStack mode is not possible'')
         else ret ()))"

definition oa_CustomVersion :: "dynakube \<Rightarrow> string" where
  "oa_CustomVersion dk = oa_GetCustomVersion (dk_OneAgent dk)"

definition oa_UseTenantRegistry :: "version_env \<Rightarrow> (dynakube, unit) io" where
  "oa_UseTenantRegistry env =
     andThen (gets oa_CustomVersion) (\<lambda>customVersion.
     andThen (if customVersion = []
              then api_call oaConditionType (veGetLatestAgentVersion env ''unix'' ''default'')
              else ret customVersion) (\<lambda>latestVersion.
     andThen (oa_CheckForDowngrade latestVersion) (\<lambda>downgrade.
       if downgrade then ret ()
       else
         andThen (gets (\<lambda>dk. oa_GetDefaultImage (dk_APIURLHost (veURLHost env) dk) latestVersion))
           (\<lambda>defaultImage.
         andThen (updateVersionStatusForTenantRegistry env oa_Target defaultImage latestVersion) (\<lambda>_.
         setVerifiedCondition oaConditionType)))))"

definition oneAgentUpdater :: "version_env \<Rightarrow> status_updater" where
  "oneAgentUpdater env =
     \<lparr>suName = ''oneagent'', suIsOneAgentUpdater = True, suIsEnabled = oa_IsEnabled, suTarget = oa_Target,
      suCustomImage = oa_CustomImage, suCustomVersion = oa_CustomVersion,
      suIsAutoUpdateEnabled = (\<lambda>dk. oa_IsAutoUpdateEnabled (dk_OneAgent dk)),
      suIsPublicRegistryEnabled = (\<lambda>dk. IsPublicRegistry (dk_FF dk)),
      suCheckForDowngrade = oa_CheckForDowngrade, suValidateStatus = oa_ValidateStatus,
      suLatestImageInfo = oa_LatestImageInfo env, suUseTenantRegistry = oa_UseTenantRegistry env\<rparr>"

section \<open>ActiveGate\<close>

abbreviation agConditionType :: string where "agConditionType \<equiv> ''ActiveGateVersion''"

definition ag_target :: "dynakube \<Rightarrow> version_status" where
  "ag_target dk = asVersionStatus (dstActiveGate (dkStatus dk))"

definition ag_set_target :: "version_status \<Rightarrow> dynakube \<Rightarrow> dynakube" where
  "ag_set_target v dk =
     dk\<lparr>dkStatus := (dkStatus dk)\<lparr>dstActiveGate := (dstActiveGate (dkStatus dk))\<lparr>asVersionStatus := v\<rparr>\<rparr>\<rparr>"

definition ag_Target :: target_pointer where
  "ag_Target = \<lparr>deref = ag_target, assign = ag_set_target\<rparr>"

definition agu_IsEnabled :: "(dynakube, bool) io" where
  "agu_IsEnabled =
     andThen (gets (\<lambda>dk. ag_IsEnabled (dk_ActiveGate dk))) (\<lambda>enabled.
       if enabled then ret True
       else andThen (modify (add_condition_op (RemoveStatusCondition agConditionType))) (\<lambda>_.
            andThen (modify (ag_set_target zero_version_status)) (\<lambda>_. ret False)))"

definition ag_CustomImage :: "(dynakube, string) io" where
  "ag_CustomImage = custom_image_of agConditionType (\<lambda>dk. ag_GetCustomImage (dk_ActiveGate dk))"

definition ag_ValidateStatus :: "(dynakube, unit) io" where
  "ag_ValidateStatus =
     andThen (gets ag_target) (\<lambda>t.
       if vsVersion t = [] then throw (Sentinel ''build version of ActiveGate image is not set'')
       else ret ())"

definition ag_LatestImageInfo :: "version_env \<Rightarrow> (dynakube, image_info) io" where
  "ag_LatestImageInfo env = latest_image_info_of env ''activegate'' agConditionType"

definition ag_UseTenantRegistry :: "version_env \<Rightarrow> (dynakube, unit) io" where
  "ag_UseTenantRegistry env =
     andThen (api_call agConditionType (veGetLatestActiveGateVersion env ''unix'')) (\<lambda>latestVersion.
     andThen (gets (\<lambda>dk. ag_GetDefaultImage (dk_APIURLHost (veURLHost env) dk) latestVersion))
       (\<lambda>defaultImage.
     andThen (updateVersionStatusForTenantRegistry env ag_Target defaultImage latestVersion) (\<lambda>_.
     setVerifiedCondition agConditionType)))"

definition activeGateUpdater :: "version_env \<Rightarrow> status_updater" where
  "activeGateUpdater env =
     \<lparr>suName = ''activegate'', suIsOneAgentUpdater = False, suIsEnabled = agu_IsEnabled, suTarget = ag_Target,
      suCustomImage = ag_CustomImage, suCustomVersion = (\<lambda>dk. []),
      suIsAutoUpdateEnabled = (\<lambda>dk. \<not> IsActiveGateUpdatesDisabled (dk_FF dk)),
      suIsPublicRegistryEnabled = (\<lambda>dk. IsPublicRegistry (dk_FF dk)),
      suCheckForDowngrade = (\<lambda>_. ret False), suValidateStatus = ag_ValidateStatus,
      suLatestImageInfo = ag_LatestImageInfo env, suUseTenantRegistry = ag_UseTenantRegistry env\<rparr>"

section \<open>Code modules\<close>

abbreviation cmConditionType :: string where "cmConditionType \<equiv> ''CodeModulesVersion''"

definition cm_target :: "dynakube \<Rightarrow> version_status" where
  "cm_target dk = dstCodeModules (dkStatus dk)"

definition cm_set_target :: "version_status \<Rightarrow> dynakube \<Rightarrow> dynakube" where
  "cm_set_target v dk = dk\<lparr>dkStatus := (dkStatus dk)\<lparr>dstCodeModules := v\<rparr>\<rparr>"

definition cm_Target :: target_pointer where
  "cm_Target = \<lparr>deref = cm_target, assign = cm_set_target\<rparr>"

definition cm_IsEnabled :: "(dynakube, bool) io" where
  "cm_IsEnabled =
     andThen (gets (\<lambda>dk. IsAppInjectionNeeded (dk_OneAgent dk))) (\<lambda>needed.
       if needed then ret True
       else andThen (modify (cm_set_target zero_version_status)) (\<lambda>_.
            andThen (modify (add_condition_op (RemoveStatusCondition cmConditionType))) (\<lambda>_. ret False)))"

definition cm_CustomImage :: "(dynakube, string) io" where
  "cm_CustomImage = custom_image_of cmConditionType (\<lambda>dk. oa_GetCustomCodeModulesImage (dk_OneAgent dk))"

definition cm_CustomVersion :: "dynakube \<Rightarrow> string" where
  "cm_CustomVersion dk = oa_GetCustomCodeModulesVersion (dk_OneAgent dk)"

definition cm_LatestImageInfo :: "version_env \<Rightarrow> (dynakube, image_info) io" where
  "cm_LatestImageInfo env = latest_image_info_of env ''codemodules'' cmConditionType"

definition cm_UseTenantRegistry :: "version_env \<Rightarrow> (dynakube, unit) io" where
  "cm_UseTenantRegistry env =
     andThen (gets cm_CustomVersion) (\<lambda>customVersion.
       if customVersion \<noteq> [] then
         andThen (modify (cm_set_target (zero_version_status\<lparr>vsVersion := customVersion\<rparr>))) (\<lambda>_.
         setVerificationSkippedReasonCondition cmConditionType)
       else
         andThen (api_call cmConditionType (veGetLatestAgentVersion env ''unix'' ''paas''))
           (\<lambda>latestAgentVersionUnixPaas.
         andThen (modify (cm_set_target (zero_version_status\<lparr>vsVersion := latestAgentVersionUnixPaas\<rparr>)))
           (\<lambda>_. setVerifiedCondition cmConditionType)))"

definition codeModulesUpdater :: "version_env \<Rightarrow> status_updater" where
  "codeModulesUpdater env =
     \<lparr>suName = ''codemodules'', suIsOneAgentUpdater = False, suIsEnabled = cm_IsEnabled, suTarget = cm_Target,
      suCustomImage = cm_CustomImage, suCustomVersion = cm_CustomVersion,
      suIsAutoUpdateEnabled = (\<lambda>dk. True),
      suIsPublicRegistryEnabled = (\<lambda>dk. IsPublicRegistry (dk_FF dk)),
      suCheckForDowngrade = (\<lambda>_. ret False), suValidateStatus = ret (),
      suLatestImageInfo = cm_LatestImageInfo env, suUseTenantRegistry = cm_UseTenantRegistry env\<rparr>"

section \<open>Reconciler\<close>

definition newHealthConfig :: "string list \<Rightarrow> health_config" where
  "newHealthConfig command =
     \<lparr>hcTest = command, hcInterval = 10 * second, hcStartPeriod = 1200 * second,
      hcTimeout = 30 * second, hcRetries = 3\<rparr>"

definition getOneAgentHealthConfig :: "version_env \<Rightarrow> string \<Rightarrow> error + health_config" where
  "getOneAgentHealthConfig env agentVersion =
     (if agentVersion \<noteq> [] \<and> agentVersion \<noteq> CustomImageVersionSource then
        (case ToSemver (veSemverCanonical env) (veSemverIsValid env) agentVersion of
           Inl e \<Rightarrow> Inl e
         | Inr agentSemver \<Rightarrow>
             Inr (newHealthConfig
               (if veSemverCompare env ''v1.276'' agentSemver = 1
                then [''/bin/sh'', ''-c'', ''grep -q oneagentwatchdo /proc/[0-9]*/stat'']
                else [''/usr/bin/watchdog-healthcheck64''])))
      else Inr (newHealthConfig [''/usr/bin/watchdog-healthcheck64'']))"

definition updateHealthcheck :: "version_env \<Rightarrow> (dynakube, unit) io" where
  "updateHealthcheck env =
     andThen (gets (\<lambda>dk. oa_GetVersion (dk_OneAgent dk))) (\<lambda>v.
       case getOneAgentHealthConfig env v of
         Inl e \<Rightarrow> ret ()
       | Inr healthConfig \<Rightarrow> modify (oa_set_healthcheck (Some healthConfig)))"

definition updateVersionStatuses :: "version_env \<Rightarrow> status_updater \<Rightarrow> (dynakube, unit) io" where
  "updateVersionStatuses env u =
     andThen (attempt (run u)) (\<lambda>r.
     andThen (gets (deref (suTarget u))) (\<lambda>t.
     andThen (case r of
                Inl e \<Rightarrow> (if vsImageID t = [] \<and> vsVersion t = [] then throw e else ret ())
              | Inr _ \<Rightarrow> ret ())
       (\<lambda>_. whenM (suIsOneAgentUpdater u) (updateHealthcheck env))))"

definition ReconcileCodeModules :: "version_env \<Rightarrow> (dynakube, unit) io" where
  "ReconcileCodeModules env =
     andThen (suIsEnabled (codeModulesUpdater env)) (\<lambda>enabled.
       whenM enabled (updateVersionStatuses env (codeModulesUpdater env)))"

definition ReconcileOneAgent :: "version_env \<Rightarrow> (dynakube, unit) io" where
  "ReconcileOneAgent env =
     andThen (suIsEnabled (oneAgentUpdater env)) (\<lambda>enabled.
       whenM enabled (updateVersionStatuses env (oneAgentUpdater env)))"

definition ReconcileActiveGate :: "version_env \<Rightarrow> (dynakube, unit) io" where
  "ReconcileActiveGate env =
     andThen (suIsEnabled (activeGateUpdater env)) (\<lambda>enabled.
       whenM enabled (updateVersionStatuses env (activeGateUpdater env)))"

section \<open>The contract of the updaters\<close>

text \<open>
  \<open>same_settings\<close>: what the updaters decide with (spec, annotations, kind of token) is unchanged;
  \<open>at_target\<close>: the version status a pointer refers to is unchanged as well.
\<close>

definition same_settings :: "dynakube \<Rightarrow> dynakube \<Rightarrow> bool" where
  "same_settings d d' \<longleftrightarrow>
     dkSpec d' = dkSpec d \<and> dkName d' = dkName d \<and> dkNamespace d' = dkNamespace d \<and>
     dkAnnotations d' = dkAnnotations d \<and>
     dstAPIToken (dkStatus d') = dstAPIToken (dkStatus d)"

definition at_target :: "target_pointer \<Rightarrow> dynakube \<Rightarrow> dynakube \<Rightarrow> bool" where
  "at_target t d d' \<longleftrightarrow> same_settings d d' \<and> deref t d' = deref t d"

definition source_of :: "status_updater \<Rightarrow> dynakube \<Rightarrow> error + string" where
  "source_of u d = fst (determineSource u d)"

lemma same_settings_refl [simp]: "same_settings d d"
  by (simp add: same_settings_def)

lemma same_settings_trans: "same_settings a b \<Longrightarrow> same_settings b c \<Longrightarrow> same_settings a c"
  by (simp add: same_settings_def)

lemma at_target_refl [simp]: "at_target t d d"
  by (simp add: at_target_def)

lemma at_target_trans: "at_target t a b \<Longrightarrow> at_target t b c \<Longrightarrow> at_target t a c"
  by (auto simp: at_target_def intro: same_settings_trans)

lemma keeps_at_target: "(\<And>d0. keeps (at_target t d0) m) \<Longrightarrow> m d = (r, d') \<Longrightarrow> at_target t d d'"
  using keepsD[of "at_target t d" m d] by fastforce

lemma keeps_same_settings: "(\<And>d0. keeps (same_settings d0) m) \<Longrightarrow> m d = (r, d') \<Longrightarrow> same_settings d d'"
  using keepsD[of "same_settings d" m d] by fastforce

locale updater_contract =
  fixes u :: status_updater
  assumes deref_assign: "deref (suTarget u) (assign (suTarget u) v d) = v"
    and deref_healthcheck: "deref (suTarget u) (oa_set_healthcheck h d) = deref (suTarget u) d"
    and assign_settings: "same_settings d (assign (suTarget u) v d)"
    and image_total: "\<exists>img. fst (suCustomImage u d) = Inr img"
    and image_keeps: "keeps (at_target (suTarget u) d) (suCustomImage u)"
    and image_settings: "same_settings d d' \<Longrightarrow> fst (suCustomImage u d') = fst (suCustomImage u d)"
    and version_settings: "same_settings d d' \<Longrightarrow> suCustomVersion u d' = suCustomVersion u d"
    and auto_settings: "same_settings d d' \<Longrightarrow> suIsAutoUpdateEnabled u d' = suIsAutoUpdateEnabled u d"
    and public_settings:
      "same_settings d d' \<Longrightarrow> suIsPublicRegistryEnabled u d' = suIsPublicRegistryEnabled u d"
    and downgrade_keeps: "keeps (at_target (suTarget u) d) (suCheckForDowngrade u w)"
    and validate_keeps: "keeps (at_target (suTarget u) d) (suValidateStatus u)"
    and latest_keeps: "keeps (at_target (suTarget u) d) (suLatestImageInfo u)"
    and tenant_keeps: "keeps (same_settings d) (suUseTenantRegistry u)"
    and tenant_error:
      "suUseTenantRegistry u d = (Inl e, d') \<Longrightarrow> deref (suTarget u) d' = deref (suTarget u) d"
begin

lemma determineSource_keeps: "keeps (at_target (suTarget u) d) (determineSource u)"
  unfolding determineSource_def by (intro keeps_intro image_keeps)

lemma determineSource_total: "\<exists>src d'. determineSource u d = (Inr src, d')"
  using image_total[of d] by (cases "suCustomImage u d") (auto simp: determineSource_def io_simps)

lemma determineSource_target: "determineSource u d = (r, d') \<Longrightarrow> at_target (suTarget u) d d'"
  by (rule keeps_at_target[OF determineSource_keeps])

lemma determineSource_custom:
  "determineSource u d = (Inr CustomImageVersionSource, d') \<Longrightarrow> fst (suCustomImage u d) \<noteq> Inr []"
  by (cases "suCustomImage u d") (auto simp: determineSource_def io_simps split: sum.splits if_splits)

lemma update_target_eq: "update_target (suTarget u) f d = (Inr (), assign (suTarget u) (f (deref (suTarget u) d)) d)"
  by (simp add: update_target_def io_simps)

lemma validate_and_set_source_result:
  "validate_and_set_source u src d = (r, d') \<Longrightarrow>
     deref (suTarget u) d' = (deref (suTarget u) d)\<lparr>vsSource := src\<rparr>"
  using keeps_at_target[OF validate_keeps, of d]
  by (auto simp: validate_and_set_source_def set_source_def io_simps update_target_def deref_assign
      at_target_def split: prod.splits)

lemma registry_error_keeps:
  assumes "(if public then processPublicRegistry u else suUseTenantRegistry u) d = (Inl e, d')"
  shows "deref (suTarget u) d' = deref (suTarget u) d"
proof (cases public)
  case False
  with assms show ?thesis using tenant_error by auto
next
  case True
  with assms show ?thesis
    using keeps_at_target[OF latest_keeps, of d] keeps_at_target[OF downgrade_keeps]
    by (fastforce simp: processPublicRegistry_def setImageFromImageInfo_def io_simps update_target_def
        at_target_def split: prod.splits sum.splits if_splits)
qed

text \<open>What \<open>run\<close> does, in terms of the state after the source was determined.\<close>

lemma run_cases:
  assumes "run u d = (r, d')"
  obtains src d1 where "determineSource u d = (Inr src, d1)" and "at_target (suTarget u) d d1"
    and "src = CustomImageVersionSource \<Longrightarrow>
           \<exists>img d2. suCustomImage u d1 = (Inr img, d2) \<and> r = Inr () \<and>
             deref (suTarget u) d' = (deref (suTarget u) d)
               \<lparr>vsImageID := img, vsVersion := CustomImageVersionSource, vsSource := src\<rparr>"
    and "src \<noteq> CustomImageVersionSource \<Longrightarrow> pinned u src d1 \<Longrightarrow>
           r = Inr () \<and> deref (suTarget u) d' = deref (suTarget u) d"
    and "src \<noteq> CustomImageVersionSource \<Longrightarrow> \<not> pinned u src d1 \<Longrightarrow>
           (\<exists>e. r = Inl e \<and> deref (suTarget u) d' = deref (suTarget u) d) \<or>
           (\<exists>d2. (if suIsPublicRegistryEnabled u d1 then processPublicRegistry u
                  else suUseTenantRegistry u) d1 = (Inr (), d2) \<and>
             deref (suTarget u) d' = (deref (suTarget u) d2)\<lparr>vsSource := src\<rparr>)"
proof -
  obtain src d1 where src: "determineSource u d = (Inr src, d1)"
    using determineSource_total by blast
  have t: "at_target (suTarget u) d d1" using src by (rule determineSource_target)
  show thesis
  proof (rule that[OF src t])
    assume c: "src = CustomImageVersionSource"
    obtain img d2 where img: "suCustomImage u d1 = (Inr img, d2)"
      using image_total[of d1] by (cases "suCustomImage u d1") auto
    have "at_target (suTarget u) d1 d2" using keeps_at_target[OF image_keeps img] .
    with assms src c img t show "\<exists>img d2. suCustomImage u d1 = (Inr img, d2) \<and> r = Inr () \<and>
             deref (suTarget u) d' = (deref (suTarget u) d)
               \<lparr>vsImageID := img, vsVersion := CustomImageVersionSource, vsSource := src\<rparr>"
      by (auto simp: run_def andThen_def setImageIDToCustomImage_def set_source_def update_target_eq
          deref_assign at_target_def)
  next
    assume "src \<noteq> CustomImageVersionSource" "pinned u src d1"
    with assms src t show "r = Inr () \<and> deref (suTarget u) d' = deref (suTarget u) d"
      by (auto simp: run_def andThen_def gets_def set_source_def update_target_eq deref_assign
          at_target_def pinned_def)
  next
    assume c: "src \<noteq> CustomImageVersionSource" "\<not> pinned u src d1"
    let ?m = "if suIsPublicRegistryEnabled u d1 then processPublicRegistry u else suUseTenantRegistry u"
    have run: "(r, d') = andThen ?m (\<lambda>_. validate_and_set_source u src) d1"
      using assms src c by (auto simp: run_def andThen_def gets_def)
    show "(\<exists>e. r = Inl e \<and> deref (suTarget u) d' = deref (suTarget u) d) \<or>
           (\<exists>d2. ?m d1 = (Inr (), d2) \<and> deref (suTarget u) d' = (deref (suTarget u) d2)\<lparr>vsSource := src\<rparr>)"
    proof (cases "?m d1")
      case (Pair q d2)
      show ?thesis
      proof (cases q)
        case (Inl e)
        with Pair registry_error_keeps[of "suIsPublicRegistryEnabled u d1" d1 e d2] run t
        show ?thesis by (auto simp: andThen_def at_target_def)
      next
        case (Inr x)
        then have "validate_and_set_source u src d2 = (r, d')"
          using Pair run by (simp add: andThen_def)
        then have "deref (suTarget u) d' = (deref (suTarget u) d2)\<lparr>vsSource := src\<rparr>"
          by (rule validate_and_set_source_result)
        with Pair Inr show ?thesis by auto
      qed
    qed
  qed
qed


lemma run_sets_source:
  assumes "run u d = (Inr x, d')"
  shows "source_of u d = Inr (vsSource (deref (suTarget u) d'))"
proof (rule run_cases[OF assms])
  fix src d1
  assume src: "determineSource u d = (Inr src, d1)" and t: "at_target (suTarget u) d d1"
    and c1: "src = CustomImageVersionSource \<Longrightarrow> \<exists>img d2. suCustomImage u d1 = (Inr img, d2) \<and>
              Inr x = Inr () \<and> deref (suTarget u) d' = (deref (suTarget u) d)
               \<lparr>vsImageID := img, vsVersion := CustomImageVersionSource, vsSource := src\<rparr>"
    and c2: "src \<noteq> CustomImageVersionSource \<Longrightarrow> pinned u src d1 \<Longrightarrow>
         Inr x = Inr () \<and> deref (suTarget u) d' = deref (suTarget u) d"
    and c3: "src \<noteq> CustomImageVersionSource \<Longrightarrow> \<not> pinned u src d1 \<Longrightarrow>
           (\<exists>e'. Inr x = Inl e' \<and> deref (suTarget u) d' = deref (suTarget u) d) \<or>
           (\<exists>d2. (if suIsPublicRegistryEnabled u d1 then processPublicRegistry u
                  else suUseTenantRegistry u) d1 = (Inr (), d2) \<and>
             deref (suTarget u) d' = (deref (suTarget u) d2)\<lparr>vsSource := src\<rparr>)"
  have "vsSource (deref (suTarget u) d') = src"
  proof (cases "src = CustomImageVersionSource")
    case True
    then show ?thesis using c1 by auto
  next
    case False
    show ?thesis
    proof (cases "pinned u src d1")
      case True
      then show ?thesis using c2[OF False] t by (auto simp: pinned_def at_target_def)
    next
      case no: False
      show ?thesis using c3[OF False no] by auto
    qed
  qed
  with src show ?thesis by (simp add: source_of_def)
qed

lemma run_pinned:
  assumes "source_of u d = Inr src" "src \<noteq> CustomImageVersionSource" "pinned u src d"
  shows "fst (run u d) = Inr ()" and "deref (suTarget u) (snd (run u d)) = deref (suTarget u) d"
proof -
  obtain r d' where run: "run u d = (r, d')" by (cases "run u d")
  have "r = Inr () \<and> deref (suTarget u) d' = deref (suTarget u) d"
  proof (rule run_cases[OF run])
    fix src' d1
    assume 1: "determineSource u d = (Inr src', d1)" "at_target (suTarget u) d d1"
      and 2: "src' \<noteq> CustomImageVersionSource \<Longrightarrow> pinned u src' d1 \<Longrightarrow>
           r = Inr () \<and> deref (suTarget u) d' = deref (suTarget u) d"
    have "src' = src" using 1 assms(1) by (simp add: source_of_def)
    moreover have "pinned u src d1"
      using assms(3) 1(2) auto_settings[of d d1] by (simp add: pinned_def at_target_def)
    ultimately show ?thesis using 2 assms(2) by simp
  qed
  with run show "fst (run u d) = Inr ()" "deref (suTarget u) (snd (run u d)) = deref (suTarget u) d"
    by simp_all
qed

lemma run_error_keeps_version:
  assumes "run u d = (Inl e, d')"
  shows "deref (suTarget u) d' = deref (suTarget u) d \<or>
    (\<exists>src d1 d2. at_target (suTarget u) d d1 \<and>
       (if suIsPublicRegistryEnabled u d1 then processPublicRegistry u
        else suUseTenantRegistry u) d1 = (Inr (), d2) \<and>
       deref (suTarget u) d' = (deref (suTarget u) d2)\<lparr>vsSource := src\<rparr>)"
proof (rule run_cases[OF assms])
  fix src d1
  assume t: "at_target (suTarget u) d d1"
    and c: "src = CustomImageVersionSource \<Longrightarrow> \<exists>img d2. suCustomImage u d1 = (Inr img, d2) \<and>
              Inl e = Inr () \<and> deref (suTarget u) d' = (deref (suTarget u) d)
               \<lparr>vsImageID := img, vsVersion := CustomImageVersionSource, vsSource := src\<rparr>"
      "src \<noteq> CustomImageVersionSource \<Longrightarrow> pinned u src d1 \<Longrightarrow>
         Inl e = Inr () \<and> deref (suTarget u) d' = deref (suTarget u) d"
    and f: "src \<noteq> CustomImageVersionSource \<Longrightarrow> \<not> pinned u src d1 \<Longrightarrow>
           (\<exists>e'. Inl e = Inl e' \<and> deref (suTarget u) d' = deref (suTarget u) d) \<or>
           (\<exists>d2. (if suIsPublicRegistryEnabled u d1 then processPublicRegistry u
                  else suUseTenantRegistry u) d1 = (Inr (), d2) \<and>
             deref (suTarget u) d' = (deref (suTarget u) d2)\<lparr>vsSource := src\<rparr>)"
  have "src \<noteq> CustomImageVersionSource" "\<not> pinned u src d1" using c by auto
  from f[OF this] t show ?thesis by blast
qed

lemma updateHealthcheck_effect:
  "\<exists>d'. updateHealthcheck env d = (Inr (), d') \<and> deref (suTarget u) d' = deref (suTarget u) d"
  by (simp add: updateHealthcheck_def io_simps deref_healthcheck split: sum.split)

lemma updateVersionStatuses_error:
  assumes "fst (updateVersionStatuses env u d) = Inl e"
  shows "vsImageID (deref (suTarget u) (snd (updateVersionStatuses env u d))) = [] \<and>
     vsVersion (deref (suTarget u) (snd (updateVersionStatuses env u d))) = []"
proof -
  obtain r d1 where run: "run u d = (r, d1)" by fastforce
  obtain d2 where "updateHealthcheck env d1 = (Inr (), d2)" using updateHealthcheck_effect by blast
  with run assms show ?thesis
    by (cases r) (auto simp: updateVersionStatuses_def andThen_def attempt_def gets_def whenM_def
        throw_def ret_def split: if_splits)
qed

lemma updateVersionStatuses_target:
  "deref (suTarget u) (snd (updateVersionStatuses env u d)) = deref (suTarget u) (snd (run u d))"
proof -
  obtain r d1 where run: "run u d = (r, d1)" by fastforce
  obtain d2 where "updateHealthcheck env d1 = (Inr (), d2)"
    "deref (suTarget u) d2 = deref (suTarget u) d1" using updateHealthcheck_effect by blast
  with run show ?thesis
    by (cases r) (auto simp: updateVersionStatuses_def andThen_def attempt_def gets_def whenM_def
        throw_def ret_def)
qed

end

subsection \<open>The three implementations\<close>

lemma keeps_cond [keeps_intro]:
  assumes "\<And>d'. deref t (add_condition_op c d') = deref t d'"
  shows "keeps (at_target t d) (modify (add_condition_op c))"
  by (rule keeps_modify) (simp add: at_target_def same_settings_def assms)

lemma target_cond [simp]:
  "oa_target (add_condition_op c d) = oa_target d"
  "ag_target (add_condition_op c d) = ag_target d"
  "cm_target (add_condition_op c d) = cm_target d"
  by (simp_all add: oa_target_def ag_target_def cm_target_def)

lemma target_assign [simp]:
  "oa_target (oa_set_target v d) = v"
  "ag_target (ag_set_target v d) = v"
  "cm_target (cm_set_target v d) = v"
  by (simp_all add: oa_target_def oa_set_target_def ag_target_def ag_set_target_def cm_target_def
      cm_set_target_def)

lemma target_healthcheck [simp]:
  "oa_target (oa_set_healthcheck h d) = oa_target d"
  "ag_target (oa_set_healthcheck h d) = ag_target d"
  "cm_target (oa_set_healthcheck h d) = cm_target d"
  by (simp_all add: oa_target_def oa_set_healthcheck_def ag_target_def cm_target_def)

lemma settings_assign [simp]:
  "same_settings d (oa_set_target v d)"
  "same_settings d (ag_set_target v d)"
  "same_settings d (cm_set_target v d)"
  by (simp_all add: same_settings_def oa_set_target_def ag_set_target_def cm_set_target_def)

lemma same_settings_views:
  assumes "same_settings d d'"
  shows "oaSpec (dk_OneAgent d') = oaSpec (dk_OneAgent d)"
    and "dk_FF d' = dk_FF d" and "dk_ActiveGate d' = dk_ActiveGate d"
  using assms by (simp_all add: same_settings_def dk_OneAgent_def dk_FF_def dk_ActiveGate_def
      dk_Extensions_def)

lemma oaSpec_getters:
  assumes "oaSpec a = oaSpec b"
  shows "oa_GetCustomImage a = oa_GetCustomImage b"
    and "oa_GetCustomVersion a = oa_GetCustomVersion b"
    and "oa_IsAutoUpdateEnabled a = oa_IsAutoUpdateEnabled b"
    and "oa_GetCustomCodeModulesImage a = oa_GetCustomCodeModulesImage b"
    and "IsDaemonsetRequired a = IsDaemonsetRequired b"
    and "IsAppInjectionNeeded a = IsAppInjectionNeeded b"
  using assms
  by (simp_all add: oa_GetCustomImage_def oa_GetCustomVersion_def oa_IsAutoUpdateEnabled_def
      oa_GetCustomCodeModulesImage_def IsDaemonsetRequired_def IsAppInjectionNeeded_def
      IsClassicFullStackMode_def IsCloudNativeFullstackMode_def IsHostMonitoringMode_def
      IsApplicationMonitoringMode_def cong: option.case_cong)

lemmas condition_setters = setDowngradeCondition_def setVerifiedCondition_def
  setVerificationSkippedReasonCondition_def setVerificationFailedReasonCondition_def
  SetDynatraceAPIError_def set_condition_def

lemma keeps_settings_cond [keeps_intro]: "keeps (same_settings d) (modify (add_condition_op c))"
  by (rule keeps_modify) (simp add: same_settings_def)

lemma custom_image_of_keeps:
  assumes "\<And>c d'. deref t (add_condition_op c d') = deref t d'"
  shows "keeps (at_target t d) (custom_image_of ct f)"
  unfolding custom_image_of_def condition_setters by (intro keeps_intro assms)

lemma custom_image_of_result: "fst (custom_image_of ct f d) = Inr (f d)"
  by (simp add: custom_image_of_def condition_setters io_simps)

lemma latest_image_info_of_keeps:
  assumes "\<And>c d'. deref t (add_condition_op c d') = deref t d'"
  shows "keeps (at_target t d) (latest_image_info_of env component ct)"
  unfolding latest_image_info_of_def api_call_def condition_setters by (intro keeps_intro assms)

lemma oa_CheckForDowngrade_keeps: "keeps (at_target oa_Target d) (oa_CheckForDowngrade w)"
  unfolding oa_CheckForDowngrade_def condition_setters Let_def
  by (intro keeps_intro) (simp_all add: oa_Target_def)

lemma updateVersionStatus_settings:
  assumes "\<And>v d. same_settings d (assign t v d)"
  shows "keeps (same_settings d) (updateVersionStatusForTenantRegistry env t img w)"
  unfolding updateVersionStatusForTenantRegistry_def update_target_def
  by (intro keeps_intro) (blast intro: same_settings_trans assms)

lemma oa_CheckForDowngrade_settings: "keeps (same_settings d) (oa_CheckForDowngrade w)"
  unfolding oa_CheckForDowngrade_def condition_setters Let_def by (intro keeps_intro)

lemma updateVersionStatus_error:
  "error_keeps (at_target t d) (updateVersionStatusForTenantRegistry env t img w)"
  unfolding updateVersionStatusForTenantRegistry_def update_target_def
  by (intro error_keeps_then_ok keeps_error_keeps keeps_intro no_error_intro)

lemma api_call_keeps:
  assumes "\<And>c d'. deref t (add_condition_op c d') = deref t d'"
  shows "keeps (at_target t d) (api_call ct r)"
  unfolding api_call_def condition_setters by (intro keeps_intro assms)

lemma oa_UseTenantRegistry_error: "error_keeps (at_target oa_Target d) (oa_UseTenantRegistry env)"
proof -
  have set: "\<And>c d'. deref oa_Target (add_condition_op c d') = deref oa_Target d'"
    by (simp add: oa_Target_def)
  show ?thesis
    unfolding oa_UseTenantRegistry_def
    apply (rule error_keeps_andThen, intro keeps_intro)
    apply (rule error_keeps_andThen, intro keeps_intro api_call_keeps set)
    apply (rule error_keeps_andThen, rule oa_CheckForDowngrade_keeps)
    apply (rule error_keeps_if, rule keeps_error_keeps, rule keeps_ret)
    apply (rule error_keeps_andThen, rule keeps_gets)
    apply (rule error_keeps_then_ok, rule updateVersionStatus_error)
    apply (simp add: condition_setters no_error_modify)
    done
qed

lemma updater_contractI:
  assumes t: "suTarget u = t"
    and deref: "\<And>v d. deref t (assign t v d) = v"
    and health: "\<And>h d. deref t (oa_set_healthcheck h d) = deref t d"
    and assign: "\<And>v d. same_settings d (assign t v d)"
    and cond: "\<And>c d. deref t (add_condition_op c d) = deref t d"
    and image: "suCustomImage u = custom_image_of ct f" "\<And>d d'. same_settings d d' \<Longrightarrow> f d' = f d"
    and version: "\<And>d d'. same_settings d d' \<Longrightarrow> suCustomVersion u d' = suCustomVersion u d"
    and auto: "\<And>d d'. same_settings d d' \<Longrightarrow> suIsAutoUpdateEnabled u d' = suIsAutoUpdateEnabled u d"
    and public: "suIsPublicRegistryEnabled u = (\<lambda>dk. IsPublicRegistry (dk_FF dk))"
    and down: "\<And>d w. keeps (at_target t d) (suCheckForDowngrade u w)"
    and valid: "\<And>d. keeps (at_target t d) (suValidateStatus u)"
    and latest: "suLatestImageInfo u = latest_image_info_of env c ct"
    and tenant: "\<And>d. keeps (same_settings d) (suUseTenantRegistry u)"
      "\<And>d. error_keeps (at_target t d) (suUseTenantRegistry u)"
  shows "updater_contract u"
proof
  fix d d' v w e h
  show "deref (suTarget u) (assign (suTarget u) v d) = v" by (simp add: t deref)
  show "deref (suTarget u) (oa_set_healthcheck h d) = deref (suTarget u) d" by (simp add: t health)
  show "same_settings d (assign (suTarget u) v d)" by (simp add: t assign)
  show "\<exists>img. fst (suCustomImage u d) = Inr img" by (simp add: image(1) custom_image_of_result)
  show "keeps (at_target (suTarget u) d) (suCustomImage u)"
    by (simp add: image(1) t custom_image_of_keeps cond)
  show "same_settings d d' \<Longrightarrow> fst (suCustomImage u d') = fst (suCustomImage u d)"
    by (simp add: image(1) custom_image_of_result image(2))
  show "same_settings d d' \<Longrightarrow> suCustomVersion u d' = suCustomVersion u d" by (rule version)
  show "same_settings d d' \<Longrightarrow> suIsAutoUpdateEnabled u d' = suIsAutoUpdateEnabled u d" by (rule auto)
  show "same_settings d d' \<Longrightarrow> suIsPublicRegistryEnabled u d' = suIsPublicRegistryEnabled u d"
    by (simp add: public same_settings_views)
  show "keeps (at_target (suTarget u) d) (suCheckForDowngrade u w)" by (simp add: t down)
  show "keeps (at_target (suTarget u) d) (suValidateStatus u)" by (simp add: t valid)
  show "keeps (at_target (suTarget u) d) (suLatestImageInfo u)"
    by (simp add: t latest latest_image_info_of_keeps cond)
  show "keeps (same_settings d) (suUseTenantRegistry u)" by (rule tenant(1))
  show "suUseTenantRegistry u d = (Inl e, d') \<Longrightarrow> deref (suTarget u) d' = deref (suTarget u) d"
    using error_keepsD[OF tenant(2), of d d e d'] by (simp add: at_target_def t)
qed

lemma oa_UseTenantRegistry_settings: "keeps (same_settings d) (oa_UseTenantRegistry env)"
  unfolding oa_UseTenantRegistry_def api_call_def condition_setters
  by (intro keeps_intro oa_CheckForDowngrade_settings updateVersionStatus_settings)
     (simp add: oa_Target_def)

interpretation oa: updater_contract "oneAgentUpdater env" for env
  by (rule updater_contractI[where t = oa_Target and ct = oaConditionType and c = "''oneagent''"
        and env = env and f = "\<lambda>dk. oa_GetCustomImage (dk_OneAgent dk)"])
     (auto simp: oneAgentUpdater_def oa_Target_def oa_CustomImage_def oa_CustomVersion_def
        oa_LatestImageInfo_def oa_ValidateStatus_def oa_UseTenantRegistry_settings
        oaSpec_getters[OF same_settings_views(1)] intro!: keeps_intro
        oa_CheckForDowngrade_keeps[unfolded oa_Target_def]
        oa_UseTenantRegistry_error[unfolded oa_Target_def])

lemma ag_UseTenantRegistry_settings: "keeps (same_settings d) (ag_UseTenantRegistry env)"
  unfolding ag_UseTenantRegistry_def api_call_def condition_setters
  by (intro keeps_intro updateVersionStatus_settings) (simp add: ag_Target_def)

lemma ag_UseTenantRegistry_error: "error_keeps (at_target ag_Target d) (ag_UseTenantRegistry env)"
proof -
  have "\<And>c d'. deref ag_Target (add_condition_op c d') = deref ag_Target d'"
    by (simp add: ag_Target_def)
  note api_call_keeps[OF this]
  then show ?thesis
    unfolding ag_UseTenantRegistry_def setVerifiedCondition_def set_condition_def
    by (intro error_keeps_andThen keeps_gets error_keeps_then_ok updateVersionStatus_error
        no_error_modify)
qed

interpretation ag: updater_contract "activeGateUpdater env" for env
  by (rule updater_contractI[where t = ag_Target and ct = agConditionType and c = "''activegate''"
        and env = env and f = "\<lambda>dk. ag_GetCustomImage (dk_ActiveGate dk)"])
     (auto simp: activeGateUpdater_def ag_Target_def ag_CustomImage_def ag_LatestImageInfo_def
        ag_ValidateStatus_def ag_UseTenantRegistry_settings same_settings_views intro!: keeps_intro
        ag_UseTenantRegistry_error[unfolded ag_Target_def])

lemma cm_UseTenantRegistry_settings: "keeps (same_settings d) (cm_UseTenantRegistry env)"
  unfolding cm_UseTenantRegistry_def api_call_def condition_setters
  by (intro keeps_intro) (auto intro: same_settings_trans)

lemma cm_UseTenantRegistry_error: "error_keeps (at_target cm_Target d) (cm_UseTenantRegistry env)"
proof -
  have "\<And>c d'. deref cm_Target (add_condition_op c d') = deref cm_Target d'"
    by (simp add: cm_Target_def)
  note api_call_keeps[OF this]
  then show ?thesis
    unfolding cm_UseTenantRegistry_def setVerifiedCondition_def
      setVerificationSkippedReasonCondition_def set_condition_def
    by (intro error_keeps_andThen error_keeps_if keeps_gets no_error_error_keeps no_error_andThen
        no_error_modify)
qed

interpretation cm: updater_contract "codeModulesUpdater env" for env
  by (rule updater_contractI[where t = cm_Target and ct = cmConditionType and c = "''codemodules''"
        and env = env and f = "\<lambda>dk. oa_GetCustomCodeModulesImage (dk_OneAgent dk)"])
     (auto simp: codeModulesUpdater_def cm_Target_def cm_CustomImage_def cm_LatestImageInfo_def
        cm_CustomVersion_def oa_GetCustomCodeModulesVersion_def cm_UseTenantRegistry_settings
        oaSpec_getters[OF same_settings_views(1)] intro!: keeps_intro
        cm_UseTenantRegistry_error[unfolded cm_Target_def])

section \<open>No downgrade of the OneAgent\<close>

lemma oneAgentUpdater_sel [simp]:
  "suTarget (oneAgentUpdater env) = oa_Target"
  "suIsEnabled (oneAgentUpdater env) = oa_IsEnabled"
  "suCustomImage (oneAgentUpdater env) = oa_CustomImage"
  "suCustomVersion (oneAgentUpdater env) = oa_CustomVersion"
  "suIsPublicRegistryEnabled (oneAgentUpdater env) = (\<lambda>dk. IsPublicRegistry (dk_FF dk))"
  "suCheckForDowngrade (oneAgentUpdater env) = oa_CheckForDowngrade"
  "suValidateStatus (oneAgentUpdater env) = oa_ValidateStatus"
  "suLatestImageInfo (oneAgentUpdater env) = oa_LatestImageInfo env"
  "suUseTenantRegistry (oneAgentUpdater env) = oa_UseTenantRegistry env"
  by (simp_all add: oneAgentUpdater_def)

lemma oa_Target_sel [simp]: "deref oa_Target = oa_target" "assign oa_Target = oa_set_target"
  by (simp_all add: oa_Target_def)

definition not_older :: "string \<Rightarrow> string \<Rightarrow> bool" where
  "not_older prev new \<longleftrightarrow>
     (case (ExtractSemanticVersion prev, ExtractSemanticVersion new) of
        (Inr p, Inr n) \<Rightarrow> p \<le> n | _ \<Rightarrow> False)"

lemma isDowngrade_False:
  "isDowngrade prev new = Inr False \<Longrightarrow> prev \<noteq> [] \<Longrightarrow> not_older prev new"
  by (auto simp: isDowngrade_def IsDowngrade_Inr not_older_def not_less)

lemma oa_CheckForDowngrade_False:
  assumes "oa_CheckForDowngrade w d = (Inr False, d')"
    and "vsImageID (oa_target d) \<noteq> []" "vsSource (oa_target d) = TenantRegistryVersionSource"
    and "vsVersion (oa_target d) \<noteq> []"
  shows "not_older (vsVersion (oa_target d)) w"
  using assms by (auto simp: oa_CheckForDowngrade_def io_simps condition_setters Let_def
      split: sum.splits if_splits intro: isDowngrade_False)

definition no_downgrade :: "version_status \<Rightarrow> dynakube \<Rightarrow> bool" where
  "no_downgrade t d' \<longleftrightarrow>
     vsVersion (oa_target d') = vsVersion t \<or> not_older (vsVersion t) (vsVersion (oa_target d'))"

lemma oa_registry_no_downgrade:
  assumes m: "(if public then processPublicRegistry (oneAgentUpdater env) else oa_UseTenantRegistry env) d
                = (Inr (), d')"
    and t: "vsImageID (oa_target d) \<noteq> []" "vsSource (oa_target d) = TenantRegistryVersionSource"
      "vsVersion (oa_target d) \<noteq> []"
  shows "no_downgrade (oa_target d) d'"
proof (cases public)
  case True
  with m obtain info d1 b d2 where 1: "oa_LatestImageInfo env d = (Inr info, d1)"
    and 2: "oa_CheckForDowngrade (iiTag info) d1 = (Inr b, d2)"
    and 3: "(if b then ret () else setImageFromImageInfo oa_Target info) d2 = (Inr (), d')"
    by (auto simp: processPublicRegistry_def andThen_Inr cong: if_cong)
  have e: "oa_target d1 = oa_target d" "oa_target d2 = oa_target d1"
    using keeps_at_target[OF oa.latest_keeps[where env = env], of d] 1
      keeps_at_target[OF oa_CheckForDowngrade_keeps 2]
    by (auto simp: at_target_def)
  show ?thesis
  proof (cases b)
    case True
    with 3 e show ?thesis by (auto simp: no_downgrade_def io_simps)
  next
    case False
    with 2 e t have "not_older (vsVersion (oa_target d)) (iiTag info)"
      using oa_CheckForDowngrade_False[of "iiTag info" d1 d2] by simp
    with 3 False show ?thesis
      by (auto simp: no_downgrade_def setImageFromImageInfo_def update_target_def io_simps)
  qed
next
  case False
  with m obtain w d1 b d2 where 1: "(if oa_CustomVersion d = [] then
                  api_call oaConditionType (veGetLatestAgentVersion env ''unix'' ''default'')
                else ret (oa_CustomVersion d)) d = (Inr w, d1)"
    and 2: "oa_CheckForDowngrade w d1 = (Inr b, d2)"
    and 3: "(if b then ret () else
         andThen (gets (\<lambda>dk. oa_GetDefaultImage (dk_APIURLHost (veURLHost env) dk) w))
           (\<lambda>defaultImage.
         andThen (updateVersionStatusForTenantRegistry env oa_Target defaultImage w) (\<lambda>_.
         setVerifiedCondition oaConditionType))) d2 = (Inr (), d')"
    by (auto simp: oa_UseTenantRegistry_def andThen_Inr[of "gets _"] andThen_Inr[of "if _ then _ else _"]
        andThen_Inr[of "oa_CheckForDowngrade _"] gets_def)
  have e: "oa_target d1 = oa_target d" "oa_target d2 = oa_target d1"
    using 1 keeps_at_target[OF oa_CheckForDowngrade_keeps 2]
    by (auto simp: api_call_def condition_setters io_simps at_target_def
        split: sum.splits if_splits)
  show ?thesis
  proof (cases b)
    case True
    with 3 e show ?thesis by (auto simp: no_downgrade_def io_simps)
  next
    case False
    with 2 e t have "not_older (vsVersion (oa_target d)) w"
      using oa_CheckForDowngrade_False[of w d1 d2] by simp
    with 3 False e show ?thesis
      by (auto simp: no_downgrade_def updateVersionStatusForTenantRegistry_def update_target_def
          io_simps condition_setters split: sum.splits option.splits)
  qed
qed

lemma oa_target_ReconcileOneAgent:
  assumes "IsDaemonsetRequired (dk_OneAgent d)"
  shows "oa_target (snd (ReconcileOneAgent env d)) = oa_target (snd (run (oneAgentUpdater env) d))"
proof -
  have en: "oa_IsEnabled d = (Inr True, d)"
    using assms by (simp add: oa_IsEnabled_def io_simps)
  then show ?thesis
    using oa.updateVersionStatuses_target[of env env d]
    by (simp add: ReconcileOneAgent_def andThen_def whenM_def)
qed


lemma oa_run_no_downgrade:
  assumes "oa_GetCustomImage (dk_OneAgent d) = []"
    and "vsImageID (oa_target d) \<noteq> []" "vsSource (oa_target d) = TenantRegistryVersionSource"
    and "vsVersion (oa_target d) \<noteq> []"
  shows "no_downgrade (oa_target d) (snd (run (oneAgentUpdater env) d))"
proof -
  obtain r d' where run: "run (oneAgentUpdater env) d = (r, d')" by fastforce
  have "no_downgrade (oa_target d) d'"
  proof (rule oa.run_cases[OF run])
    fix src d1
    assume src: "determineSource (oneAgentUpdater env) d = (Inr src, d1)"
      and t: "at_target (suTarget (oneAgentUpdater env)) d d1"
      and pin: "src \<noteq> CustomImageVersionSource \<Longrightarrow> pinned (oneAgentUpdater env) src d1 \<Longrightarrow>
             r = Inr () \<and> deref (suTarget (oneAgentUpdater env)) d' = deref (suTarget (oneAgentUpdater env)) d"
      and reg: "src \<noteq> CustomImageVersionSource \<Longrightarrow> \<not> pinned (oneAgentUpdater env) src d1 \<Longrightarrow>
           (\<exists>e. r = Inl e \<and> deref (suTarget (oneAgentUpdater env)) d' = deref (suTarget (oneAgentUpdater env)) d) \<or>
           (\<exists>d2. (if suIsPublicRegistryEnabled (oneAgentUpdater env) d1
                  then processPublicRegistry (oneAgentUpdater env)
                  else suUseTenantRegistry (oneAgentUpdater env)) d1 = (Inr (), d2) \<and>
             deref (suTarget (oneAgentUpdater env)) d' =
               (deref (suTarget (oneAgentUpdater env)) d2)\<lparr>vsSource := src\<rparr>)"
    have c: "src \<noteq> CustomImageVersionSource"
      using oa.determineSource_custom[where env = env and d = d and d' = d1] src assms(1)
      by (auto simp: oa_CustomImage_def custom_image_of_result)
    have e: "oa_target d1 = oa_target d" using t by (simp add: at_target_def)
    show ?thesis
    proof (cases "pinned (oneAgentUpdater env) src d1")
      case True
      with pin c show ?thesis by (simp add: no_downgrade_def)
    next
      case False
      from reg[OF c this] show ?thesis
      proof (elim disjE exE conjE)
        fix d2
        assume m: "(if suIsPublicRegistryEnabled (oneAgentUpdater env) d1
                  then processPublicRegistry (oneAgentUpdater env)
                  else suUseTenantRegistry (oneAgentUpdater env)) d1 = (Inr (), d2)"
          and d': "deref (suTarget (oneAgentUpdater env)) d' =
               (deref (suTarget (oneAgentUpdater env)) d2)\<lparr>vsSource := src\<rparr>"
        have "no_downgrade (oa_target d1) d2"
          using oa_registry_no_downgrade[of "IsPublicRegistry (dk_FF d1)" env d1 d2] m e assms(2-4)
          by (simp cong: if_cong)
        with d' e show ?thesis by (simp add: no_downgrade_def)
      qed (simp add: no_downgrade_def)
    qed
  qed
  with run show ?thesis by simp
qed

section \<open>The recorded source and the pinned versions\<close>

lemma activeGateUpdater_sel [simp]:
  "suTarget (activeGateUpdater env) = ag_Target"
  "suIsEnabled (activeGateUpdater env) = agu_IsEnabled"
  by (simp_all add: activeGateUpdater_def)

lemma activeGateUpdater_other: "\<not> suIsOneAgentUpdater (activeGateUpdater env)"
  by (simp add: activeGateUpdater_def)

lemma codeModulesUpdater_sel [simp]:
  "suTarget (codeModulesUpdater env) = cm_Target"
  "suIsEnabled (codeModulesUpdater env) = cm_IsEnabled"
  by (simp_all add: codeModulesUpdater_def)

lemma Targets_sel [simp]:
  "deref ag_Target = ag_target" "assign ag_Target = ag_set_target"
  "deref cm_Target = cm_target" "assign cm_Target = cm_set_target"
  by (simp_all add: ag_Target_def cm_Target_def)

definition configured_source :: "status_updater \<Rightarrow> dynakube \<Rightarrow> string" where
  "configured_source u d =
     (if fst (suCustomImage u d) \<noteq> Inr [] then CustomImageVersionSource
      else if suIsPublicRegistryEnabled u d then PublicRegistryVersionSource
      else if suCustomVersion u d \<noteq> [] then CustomVersionVersionSource
      else TenantRegistryVersionSource)"

context updater_contract
begin

lemma source_of_configured: "source_of u d = Inr (configured_source u d)"
proof -
  obtain img d1 where img: "suCustomImage u d = (Inr img, d1)"
    using image_total[of d] by (cases "suCustomImage u d") auto
  have "same_settings d d1" using keeps_at_target[OF image_keeps img] by (simp add: at_target_def)
  then show ?thesis
    using img version_settings public_settings
    by (simp add: source_of_def configured_source_def determineSource_def io_simps)
qed

lemma run_records_configured:
  "run u d = (Inr x, d') \<Longrightarrow> vsSource (deref (suTarget u) d') = configured_source u d"
  using run_sets_source[of d x d'] by (simp add: source_of_configured)

lemma keeps_settings_of_target:
  assumes "\<And>d. keeps (at_target t d) m"
  shows "keeps (same_settings d) m"
proof (rule keepsI)
  fix s assume "same_settings d s"
  moreover have "same_settings s (snd (m s))"
    using keepsD[OF assms, of s s] by (simp add: at_target_def)
  ultimately show "same_settings d (snd (m s))" by (rule same_settings_trans)
qed

lemma update_target_settings: "keeps (same_settings d) (update_target (suTarget u) f)"
  unfolding update_target_def by (intro keeps_intro) (blast intro: same_settings_trans assign_settings)

lemma run_settings: "keeps (same_settings d) (run u)"
  unfolding run_def setImageIDToCustomImage_def set_source_def processPublicRegistry_def
    setImageFromImageInfo_def validate_and_set_source_def
  by (intro keeps_intro tenant_keeps update_target_settings
      keeps_settings_of_target[OF determineSource_keeps] keeps_settings_of_target[OF image_keeps]
      keeps_settings_of_target[OF latest_keeps] keeps_settings_of_target[OF downgrade_keeps]
      keeps_settings_of_target[OF validate_keeps])

end

lemma ag_pinned:
  assumes "IsActiveGateUpdatesDisabled (dk_FF d)" "\<not> vs_IsZero (ag_target d)"
    and "vsSource (ag_target d) = configured_source (activeGateUpdater env) d"
    and "configured_source (activeGateUpdater env) d \<noteq> CustomImageVersionSource"
  shows "fst (run (activeGateUpdater env) d) = Inr ()"
    and "ag_target (snd (run (activeGateUpdater env) d)) = ag_target d"
proof -
  have "pinned (activeGateUpdater env) (configured_source (activeGateUpdater env) d) d"
    using assms by (auto simp: pinned_def activeGateUpdater_def ag_Target_def configured_source_def)
  note ag.run_pinned[OF ag.source_of_configured assms(4) this]
  then show "fst (run (activeGateUpdater env) d) = Inr ()"
    and "ag_target (snd (run (activeGateUpdater env) d)) = ag_target d"
    by (simp_all add: activeGateUpdater_def ag_Target_def)
qed

lemma ReconcileActiveGate_enabled:
  "ag_IsEnabled (dk_ActiveGate d) \<Longrightarrow>
     ReconcileActiveGate env d = updateVersionStatuses env (activeGateUpdater env) d"
  by (simp add: ReconcileActiveGate_def activeGateUpdater_def agu_IsEnabled_def io_simps)

definition sample_env :: version_env where
  "sample_env =
     \<lparr>veGetLatestAgentVersion = (\<lambda>_ _. Inr ''1.300.0.20240101-000000''),
      veGetLatestActiveGateVersion = (\<lambda>_. Inr ''1.300.0.20240101-000000''),
      veGetComponentLatestInfo = (\<lambda>_ _. Inl (HttpCode 503)),
      veParseReference = (\<lambda>s. Inr (Some s)), veURLHost = (\<lambda>s. Some ''tenant''),
      veSemverCanonical = (\<lambda>s. s), veSemverIsValid = (\<lambda>_. True), veSemverCompare = (\<lambda>_ _. -1)\<rparr>"

definition sample_host_dynakube :: "string \<Rightarrow> dynakube" where
  "sample_host_dynakube custom_version =
     oa_set_target
       \<lparr>vsLastProbeTimestamp = None, vsSource = TenantRegistryVersionSource,
        vsImageID = ''tenant/linux/oneagent:1.310.0-raw'', vsVersion = ''1.310.0.20240202-000000'', vsType = []\<rparr>
       (zero_dynakube\<lparr>dkSpec := zero_dynakube_spec\<lparr>dspOneAgent := zero_oneagent_spec
          \<lparr>HostMonitoring := Some (zero_host_inject\<lparr>hisVersion := custom_version\<rparr>)\<rparr>\<rparr>\<rparr>)"

lemma oa_run_custom_version:
  assumes "oa_GetCustomImage (dk_OneAgent d) = []" "\<not> IsPublicRegistry (dk_FF d)"
    and "oa_CustomVersion d \<noteq> []"
    and "\<And>d1. at_target oa_Target d d1 \<Longrightarrow>
           \<exists>d2. oa_UseTenantRegistry env d1 = (Inr (), d2) \<and> Q (oa_target d2)"
  shows "\<exists>t. Q t \<and>
    oa_target (snd (run (oneAgentUpdater env) d)) = t\<lparr>vsSource := CustomVersionVersionSource\<rparr>"
proof -
  obtain src d1 where src: "determineSource (oneAgentUpdater env) d = (Inr src, d1)"
    using oa.determineSource_total by blast
  have "src = configured_source (oneAgentUpdater env) d"
    using oa.source_of_configured[of env d] src by (simp add: source_of_def)
  then have c: "src = CustomVersionVersionSource"
    using assms(1-3) by (simp add: configured_source_def oa_CustomImage_def custom_image_of_result)
  have t1: "at_target oa_Target d d1" using oa.determineSource_target[OF src] by simp
  then obtain d2 where d2: "oa_UseTenantRegistry env d1 = (Inr (), d2)" "Q (oa_target d2)"
    using assms(4) by blast
  have p: "\<not> IsPublicRegistry (dk_FF d1)"
    using assms(2) t1 same_settings_views(2)[of d d1] by (simp add: at_target_def)
  obtain r d3 where d3: "validate_and_set_source (oneAgentUpdater env) src d2 = (r, d3)" by fastforce
  have "run (oneAgentUpdater env) d = (r, d3)"
    using src c p d2 d3 by (simp add: run_def andThen_def gets_def pinned_def)
  then show ?thesis
    using oa.validate_and_set_source_result[OF d3] d2 c by auto
qed

lemma oa_UseTenantRegistry_refuses:
  assumes "oa_CustomVersion d = c" "c \<noteq> []" "vsImageID (oa_target d) \<noteq> []"
    and "vsSource (oa_target d) = TenantRegistryVersionSource"
    and "isDowngrade (vsVersion (oa_target d)) c = Inr True"
  shows "\<exists>d2. oa_UseTenantRegistry env d = (Inr (), d2) \<and> oa_target d2 = oa_target d"
  using assms by (simp add: oa_UseTenantRegistry_def oa_CheckForDowngrade_def io_simps condition_setters)

lemma oa_UseTenantRegistry_installs:
  assumes "oa_CustomVersion d = c" "c \<noteq> []" "vsSource (oa_target d) \<noteq> TenantRegistryVersionSource"
    and "\<And>image. \<exists>tagged. veParseReference env image = Inr (Some tagged)"
  shows "\<exists>d2. oa_UseTenantRegistry env d = (Inr (), d2) \<and> vsVersion (oa_target d2) = c"
proof -
  obtain tagged where "veParseReference env
      (oa_GetDefaultImage (dk_APIURLHost (veURLHost env) d) c) = Inr (Some tagged)"
    using assms(4) by blast
  then show ?thesis
    using assms(1-3)
    by (simp add: oa_UseTenantRegistry_def oa_CheckForDowngrade_def io_simps condition_setters
        isDowngrade_def updateVersionStatusForTenantRegistry_def update_target_def)
qed

lemma oa_UseTenantRegistry_refuses_at:
  assumes "oa_CustomVersion d \<noteq> []" "vsImageID (oa_target d) \<noteq> []"
    and "vsSource (oa_target d) = TenantRegistryVersionSource" "vsVersion (oa_target d) \<noteq> []"
    and "IsDowngrade (vsVersion (oa_target d)) (oa_CustomVersion d) = Inr True"
    and "at_target oa_Target d d1"
  shows "\<exists>d2. oa_UseTenantRegistry env d1 = (Inr (), d2) \<and> oa_target d2 = oa_target d"
proof -
  have t: "same_settings d d1" "oa_target d1 = oa_target d"
    using assms(6) by (simp_all add: at_target_def)
  then have c: "oa_CustomVersion d1 = oa_CustomVersion d"
    using oaSpec_getters(2)[OF same_settings_views(1)] by (simp add: oa_CustomVersion_def)
  show ?thesis
    using oa_UseTenantRegistry_refuses[OF c assms(1), of env] assms(2-5) t
    by (simp add: isDowngrade_def)
qed

lemma settings_healthcheck: "keeps (same_settings d) (updateHealthcheck env)"
  unfolding updateHealthcheck_def by (intro keeps_intro) (simp add: same_settings_def oa_set_healthcheck_def)

lemma ReconcileOneAgent_settings: "same_settings d (snd (ReconcileOneAgent env d))"
proof -
  have "keeps (same_settings d) oa_IsEnabled"
    unfolding oa_IsEnabled_def
    by (intro keeps_intro) (simp add: same_settings_def oa_set_target_def oa_set_healthcheck_def)
  then have "keeps (same_settings d) (ReconcileOneAgent env)"
    unfolding ReconcileOneAgent_def updateVersionStatuses_def oneAgentUpdater_sel
    by (intro keeps_intro settings_healthcheck oa.run_settings)
  then show ?thesis by (rule keepsD) simp
qed

lemma reconcile_error_target:
  "fst (ReconcileOneAgent env d) = Inl e \<Longrightarrow>
     vsImageID (oa_target (snd (ReconcileOneAgent env d))) = [] \<and>
     vsVersion (oa_target (snd (ReconcileOneAgent env d))) = []"
  "fst (ReconcileActiveGate env d) = Inl e \<Longrightarrow>
     vsImageID (ag_target (snd (ReconcileActiveGate env d))) = [] \<and>
     vsVersion (ag_target (snd (ReconcileActiveGate env d))) = []"
  "fst (ReconcileCodeModules env d) = Inl e \<Longrightarrow>
     vsImageID (cm_target (snd (ReconcileCodeModules env d))) = [] \<and>
     vsVersion (cm_target (snd (ReconcileCodeModules env d))) = []"
proof -
  assume "fst (ReconcileOneAgent env d) = Inl e"
  then show "vsImageID (oa_target (snd (ReconcileOneAgent env d))) = [] \<and>
     vsVersion (oa_target (snd (ReconcileOneAgent env d))) = []"
    using oa.updateVersionStatuses_error[of env env]
    by (auto simp: ReconcileOneAgent_def oa_IsEnabled_def io_simps split: if_splits)
next
  assume "fst (ReconcileActiveGate env d) = Inl e"
  then show "vsImageID (ag_target (snd (ReconcileActiveGate env d))) = [] \<and>
     vsVersion (ag_target (snd (ReconcileActiveGate env d))) = []"
    using ag.updateVersionStatuses_error[of env env]
    by (auto simp: ReconcileActiveGate_def agu_IsEnabled_def io_simps split: if_splits)
next
  assume "fst (ReconcileCodeModules env d) = Inl e"
  then show "vsImageID (cm_target (snd (ReconcileCodeModules env d))) = [] \<and>
     vsVersion (cm_target (snd (ReconcileCodeModules env d))) = []"
    using cm.updateVersionStatuses_error[of env env]
    by (auto simp: ReconcileCodeModules_def cm_IsEnabled_def io_simps split: if_splits)
qed

section \<open>Properties\<close>

text \<open>C9. Safety of updates: however the version of the OneAgent is determined (tenant registry,
  public registry or custom version, API errors included), a reconcile that starts with a version
  installed from the tenant registry either leaves the version alone or sets one that parses and
  is not older in the order of versions.\<close>

theorem oneagent_never_downgraded:
  assumes "IsDaemonsetRequired (dk_OneAgent d)" and "oa_GetCustomImage (dk_OneAgent d) = []"
    and "vsSource (oa_target d) = TenantRegistryVersionSource"
    and "vsImageID (oa_target d) \<noteq> []" and "vsVersion (oa_target d) \<noteq> []"
  shows "vsVersion (oa_target (snd (ReconcileOneAgent env d))) = vsVersion (oa_target d) \<or>
    (\<exists>old new. ExtractSemanticVersion (vsVersion (oa_target d)) = Inr old \<and>
       ExtractSemanticVersion (vsVersion (oa_target (snd (ReconcileOneAgent env d)))) = Inr new \<and>
       old \<le> new)"
  using oa_run_no_downgrade[OF assms(2,4,3,5), of env] oa_target_ReconcileOneAgent[OF assms(1), of env]
  by (auto simp: no_downgrade_def not_older_def split: sum.splits)

lemma sample_host:
  "IsDaemonsetRequired (dk_OneAgent (sample_host_dynakube c))"
  "oa_GetCustomImage (dk_OneAgent (sample_host_dynakube c)) = []"
  "vsSource (oa_target (sample_host_dynakube c)) = TenantRegistryVersionSource"
  "vsImageID (oa_target (sample_host_dynakube c)) = ''tenant/linux/oneagent:1.310.0-raw''"
  "vsVersion (oa_target (sample_host_dynakube c)) = ''1.310.0.20240202-000000''"
  by (simp_all add: sample_host_dynakube_def zero_values oa_set_target_def oa_target_def dk_OneAgent_def
      IsDaemonsetRequired_def IsHostMonitoringMode_def oa_GetCustomImage_def)

theorem oneagent_never_downgraded_witness:
  "let d = sample_host_dynakube ''''; d' = snd (ReconcileOneAgent sample_env d) in
   vsVersion (oa_target d') = vsVersion (oa_target d) \<or>
    (\<exists>old new. ExtractSemanticVersion (vsVersion (oa_target d)) = Inr old \<and>
       ExtractSemanticVersion (vsVersion (oa_target d')) = Inr new \<and> old \<le> new)"
  using oneagent_never_downgraded[of "sample_host_dynakube ''''" sample_env] sample_host by simp


text \<open>The downgrade protection lasts for one reconcile only: when the configured custom version
  is older than the version installed from the tenant registry, the first reconcile refuses it and
  still records \<open>custom-version\<close> as the source, so the next one skips the check and installs the
  older version.\<close>

theorem custom_version_downgrade_happens_second_time:
  assumes "IsDaemonsetRequired (dk_OneAgent d)" and "oa_GetCustomImage (dk_OneAgent d) = []"
    and "\<not> IsPublicRegistry (dk_FF d)"
    and "vsSource (oa_target d) = TenantRegistryVersionSource"
    and "vsImageID (oa_target d) \<noteq> []" and "vsVersion (oa_target d) \<noteq> []"
    and "oa_CustomVersion d \<noteq> []"
    and "IsDowngrade (vsVersion (oa_target d)) (oa_CustomVersion d) = Inr True"
    and "\<And>image. \<exists>tagged. veParseReference env image = Inr (Some tagged)"
  shows "vsVersion (oa_target (snd (ReconcileOneAgent env d))) = vsVersion (oa_target d) \<and>
    vsVersion (oa_target (snd (ReconcileOneAgent env (snd (ReconcileOneAgent env d))))) = oa_CustomVersion d"
proof -
  let ?d1 = "snd (ReconcileOneAgent env d)"
  have settings: "same_settings d ?d1" by (rule ReconcileOneAgent_settings)
  note views = same_settings_views[OF settings]
  have "oa_target (snd (run (oneAgentUpdater env) d)) =
          (oa_target d)\<lparr>vsSource := CustomVersionVersionSource\<rparr>"
    using oa_run_custom_version[OF assms(2,3,7), of env "\<lambda>t. t = oa_target d"]
      oa_UseTenantRegistry_refuses_at[OF assms(7,5,4,6,8)] by blast
  then have first: "oa_target ?d1 = (oa_target d)\<lparr>vsSource := CustomVersionVersionSource\<rparr>"
    using oa_target_ReconcileOneAgent[OF assms(1), of env] by simp
  have "\<exists>t. vsVersion t = oa_CustomVersion d \<and>
      oa_target (snd (run (oneAgentUpdater env) ?d1)) = t\<lparr>vsSource := CustomVersionVersionSource\<rparr>"
  proof (rule oa_run_custom_version)
    show "oa_GetCustomImage (dk_OneAgent ?d1) = []" "\<not> IsPublicRegistry (dk_FF ?d1)"
      "oa_CustomVersion ?d1 \<noteq> []"
      using assms(2,3,7) oaSpec_getters[OF views(1)] by (simp_all add: views oa_CustomVersion_def)
  next
    fix d1
    assume t: "at_target oa_Target ?d1 d1"
    then have "same_settings d d1" using settings by (auto simp: at_target_def intro: same_settings_trans)
    then have "oa_CustomVersion d1 = oa_CustomVersion d"
      using oaSpec_getters(2)[OF same_settings_views(1)] by (simp add: oa_CustomVersion_def)
    then show "\<exists>d2. oa_UseTenantRegistry env d1 = (Inr (), d2) \<and> vsVersion (oa_target d2) = oa_CustomVersion d"
      using oa_UseTenantRegistry_installs[of d1 "oa_CustomVersion d" env] t first assms(7,9)
      by (simp add: at_target_def)
  qed
  moreover have "IsDaemonsetRequired (dk_OneAgent ?d1)"
    using assms(1) oaSpec_getters(5)[OF views(1)] by simp
  ultimately show ?thesis
    using first oa_target_ReconcileOneAgent[of ?d1 env] by auto
qed

text \<open>A reconcile of a component's version fails only when there is no earlier image and version
  to go on with; an API error with a known version is swallowed.\<close>

theorem version_error_without_fallback:
  "(fst (ReconcileOneAgent env d) = Inl e \<longrightarrow>
      vsImageID (oa_target (snd (ReconcileOneAgent env d))) = [] \<and>
      vsVersion (oa_target (snd (ReconcileOneAgent env d))) = []) \<and>
   (fst (ReconcileActiveGate env d) = Inl e \<longrightarrow>
      vsImageID (ag_target (snd (ReconcileActiveGate env d))) = [] \<and>
      vsVersion (ag_target (snd (ReconcileActiveGate env d))) = []) \<and>
   (fst (ReconcileCodeModules env d) = Inl e \<longrightarrow>
      vsImageID (cm_target (snd (ReconcileCodeModules env d))) = [] \<and>
      vsVersion (cm_target (snd (ReconcileCodeModules env d))) = [])"
  using reconcile_error_target by blast

text \<open>A successful run of any of the three updaters leaves the configured source in the status:
  custom image before public registry before custom version before tenant registry.\<close>

theorem run_records_source:
  assumes "u \<in> {oneAgentUpdater env, activeGateUpdater env, codeModulesUpdater env}"
    and "fst (run u d) = Inr ()"
  shows "vsSource (deref (suTarget u) (snd (run u d))) = configured_source u d"
  using assms oa.run_records_configured ag.run_records_configured cm.run_records_configured
  by (cases "run u d") fastforce

text \<open>With ActiveGate updates disabled, an ActiveGate whose status is set and whose source did not
  change keeps its version status untouched, whatever the registries answer.\<close>

theorem activegate_updates_disabled_keeps_version:
  assumes "ag_IsEnabled (dk_ActiveGate d)" and "IsActiveGateUpdatesDisabled (dk_FF d)"
    and "\<not> vs_IsZero (ag_target d)"
    and "vsSource (ag_target d) = configured_source (activeGateUpdater env) d"
    and "vsSource (ag_target d) \<noteq> CustomImageVersionSource"
  shows "fst (ReconcileActiveGate env d) = Inr () \<and>
         ag_target (snd (ReconcileActiveGate env d)) = ag_target d"
  using assms ag_pinned[of d env] ag.updateVersionStatuses_target[of env env d]
  by (auto simp: ReconcileActiveGate_enabled updateVersionStatuses_def io_simps activeGateUpdater_other
      split: prod.splits sum.splits)


definition sample_activegate_dynakube :: dynakube where
  "sample_activegate_dynakube =
     ag_set_target
       (zero_version_status\<lparr>vsSource := TenantRegistryVersionSource, vsVersion := ''1.2.3.4-5'',
          vsImageID := ''tenant/linux/activegate:1.2.3-raw''\<rparr>)
       (zero_dynakube
         \<lparr>dkAnnotations := [FFPrefix @ ''activegate-updates'' \<mapsto> ''false''],
          dkSpec := zero_dynakube_spec\<lparr>dspActiveGate := zero_activegate_spec
            \<lparr>agCapabilities := [RoutingCapability]\<rparr>\<rparr>\<rparr>)"

theorem custom_version_downgrade_witness:
  "let d = sample_host_dynakube ''1.200.0.20230101-000000'' in
   vsVersion (oa_target (snd (ReconcileOneAgent sample_env d))) = ''1.310.0.20240202-000000'' \<and>
   vsVersion (oa_target (snd (ReconcileOneAgent sample_env (snd (ReconcileOneAgent sample_env d))))) =
     ''1.200.0.20230101-000000''"
proof -
  let ?d = "sample_host_dynakube ''1.200.0.20230101-000000''"
  have c: "oa_CustomVersion ?d = ''1.200.0.20230101-000000''" by code_simp
  have p: "\<not> IsPublicRegistry (dk_FF ?d)" by code_simp
  have g: "IsDowngrade ''1.310.0.20240202-000000'' ''1.200.0.20230101-000000'' = Inr True" by code_simp
  show ?thesis
    using custom_version_downgrade_happens_second_time[of ?d sample_env] p g
    by (simp add: sample_host c sample_env_def Let_def)
qed

theorem run_records_source_witness:
  "vsSource (cm_target (snd (run (codeModulesUpdater sample_env) zero_dynakube))) = TenantRegistryVersionSource"
proof -
  have r: "fst (run (codeModulesUpdater sample_env) zero_dynakube) = Inr ()" by code_simp
  have c: "configured_source (codeModulesUpdater sample_env) zero_dynakube = TenantRegistryVersionSource"
    by code_simp
  show ?thesis
    using run_records_source[of "codeModulesUpdater sample_env" sample_env zero_dynakube] r c
    by (simp add: codeModulesUpdater_def cm_Target_def)
qed

theorem activegate_updates_disabled_witness:
  "ag_target (snd (ReconcileActiveGate sample_env sample_activegate_dynakube)) =
   ag_target sample_activegate_dynakube"
proof -
  have 1: "ag_IsEnabled (dk_ActiveGate sample_activegate_dynakube)" by code_simp
  have 2: "IsActiveGateUpdatesDisabled (dk_FF sample_activegate_dynakube)" by code_simp
  have 3: "\<not> vs_IsZero (ag_target sample_activegate_dynakube)" by code_simp
  have 4: "vsSource (ag_target sample_activegate_dynakube) =
      configured_source (activeGateUpdater sample_env) sample_activegate_dynakube" by code_simp
  have 5: "vsSource (ag_target sample_activegate_dynakube) \<noteq> CustomImageVersionSource" by code_simp
  show ?thesis
    using activegate_updates_disabled_keeps_version[OF 1 2 3 4 5] by simp
qed

theorem version_error_witness:
  "vsVersion (oa_target (snd (ReconcileOneAgent
     (sample_env\<lparr>veGetLatestAgentVersion := (\<lambda>_ _. Inl (HttpCode 500))\<rparr>)
     (oa_set_target zero_version_status (sample_host_dynakube [])))))= []"
proof -
  have "fst (ReconcileOneAgent (sample_env\<lparr>veGetLatestAgentVersion := (\<lambda>_ _. Inl (HttpCode 500))\<rparr>)
     (oa_set_target zero_version_status (sample_host_dynakube []))) = Inl (HttpCode 500)"
    by code_simp
  then show ?thesis using version_error_without_fallback by blast
qed

end
