(* ===== verification/Tokens.thy ===== *)
theory Tokens
  imports DynaKube
begin

text \<open>
  \<open>pkg/controllers/dynakube/token\<close> and the token handling of the DynaKube controller: which scopes
  the access tokens of a DynaKube need, how missing ones are collected and reported, the checks on
  token values, and the optional scopes recorded in the status. Go iterates over the token map in
  an unspecified order: \<open>Tokens\<close> is an association list in the order of one iteration, and the
  theorems hold for every order.
\<close>

section \<open>Scopes\<close>

abbreviation ScopeActiveGateTokenCreate :: string where
  "ScopeActiveGateTokenCreate \<equiv> ''activeGateTokenManagement.create''"
abbreviation ScopeDataExport :: string where "ScopeDataExport \<equiv> ''DataExport''"
abbreviation ScopeInstallerDownload :: string where "ScopeInstallerDownload \<equiv> ''InstallerDownload''"
abbreviation ScopeLogsIngest :: string where "ScopeLogsIngest \<equiv> ''logs.ingest''"
abbreviation ScopeMetricsIngest :: string where "ScopeMetricsIngest \<equiv> ''metrics.ingest''"
abbreviation ScopeOpenTelemetryTraceIngest :: string where
  "ScopeOpenTelemetryTraceIngest \<equiv> ''openTelemetryTrace.ingest''"
abbreviation ScopeSettingsRead :: string where "ScopeSettingsRead \<equiv> ''settings.read''"
abbreviation ScopeSettingsWrite :: string where "ScopeSettingsWrite \<equiv> ''settings.write''"

definition OptionalScopes :: "string list" where
  "OptionalScopes = [ScopeSettingsRead, ScopeSettingsWrite]"

abbreviation PaaSKey :: string where "PaaSKey \<equiv> ''paasToken''"
abbreviation APIKey :: string where "APIKey \<equiv> ''apiToken''"
abbreviation DataIngestKey :: string where "DataIngestKey \<equiv> ''dataIngestToken''"

section \<open>Data\<close>

record feature =
  fName :: string
  fRequiredScopes :: "string list"
  fOptionalScopes :: "string list"
  fIsEnabled :: "dynakube \<Rightarrow> bool"

record token =
  tType :: string
  tValue :: string
  tFeatures :: "feature list"

type_synonym Tokens = "(string \<times> token) list"

text \<open>
  The errors of this package: \<open>ScopeError\<close> with the token type, the missing scopes and the texts of
  the collected errors; any other error; and \<open>errors.Join\<close>, which nests.
\<close>

datatype token_error =
    ScopeError string "string list" "string list"
  | OtherError error
  | JoinError "token_error list"

text \<open>
  Two environment variables of the operator, the \<open>GetScopes\<close> call of the token client, and
  \<open>meta.FindStatusCondition\<close> on the conditions that the operations so far have left.
\<close>

record token_env =
  teHostAvailability :: string
  teKubemonOperand :: string
  teGetScopes :: "string \<Rightarrow> error + string list"
  teFindCondition :: "cond_op list \<Rightarrow> string \<Rightarrow> condition option"

section \<open>Features\<close>

definition CollectMissingRequiredScopes :: "feature \<Rightarrow> string list \<Rightarrow> string list" where
  "CollectMissingRequiredScopes f availableScopes =
     filter (\<lambda>s. s \<notin> set availableScopes) (fRequiredScopes f)"

definition CollectOptionalScopes :: "feature \<Rightarrow> string list \<Rightarrow> (string \<rightharpoonup> bool)" where
  "CollectOptionalScopes f availableScopes =
     fold (\<lambda>s m. m(s \<mapsto> (s \<in> set availableScopes))) (fOptionalScopes f) Map.empty"

definition envvars_GetBool :: "string \<Rightarrow> bool \<Rightarrow> bool" where
  "envvars_GetBool envValue defaultValue =
     (if envValue \<noteq> '''' then (case parse_bool envValue of None \<Rightarrow> defaultValue | Some v \<Rightarrow> v)
      else defaultValue)"

abbreviation feat :: "string \<Rightarrow> string list \<Rightarrow> string list \<Rightarrow> (dynakube \<Rightarrow> bool) \<Rightarrow> feature" where
  "feat n required optional enabled \<equiv>
     \<lparr>fName = n, fRequiredScopes = required, fOptionalScopes = optional, fIsEnabled = enabled\<rparr>"

definition getFeaturesForAPIToken :: "token_env \<Rightarrow> bool \<Rightarrow> feature list" where
  "getFeaturesForAPIToken env paasTokenExists =
     [feat ''Access problem and event feed, metrics, and topology'' [ScopeDataExport] []
        (\<lambda>dk. envvars_GetBool (teHostAvailability env) True),
      feat ''Kubernetes API Monitoring'' [] [ScopeSettingsRead, ScopeSettingsWrite]
        (\<lambda>dk. dk_IsKubernetesMonitoringRegistrationEnabled (teKubemonOperand env) dk),
      feat ''LogMonitoring'' [] [ScopeSettingsRead, ScopeSettingsWrite]
        (\<lambda>dk. lm_IsEnabled (dk_LogMonitoring dk)),
      feat ''CodeModule Injection'' [] [ScopeSettingsRead]
        (\<lambda>dk. IsAppInjectionNeeded (dk_OneAgent dk)),
      feat ''TelemetryIngest'' [] [ScopeSettingsRead]
        (\<lambda>dk. ti_IsEnabled (dspTelemetryIngest (dkSpec dk))),
      feat ''PrometheusExtensions'' [] [ScopeSettingsRead]
        (\<lambda>dk. ext_IsPrometheusEnabled (dk_Extensions dk)),
      feat ''Automatic ActiveGate Token Creation'' [ScopeActiveGateTokenCreate] []
        (\<lambda>dk. ag_IsEnabled (dk_ActiveGate dk)),
      feat ''Download Installer'' [ScopeInstallerDownload] [] (\<lambda>_. \<not> paasTokenExists),
      feat ''MetadataEnrichment Rules'' [] [ScopeSettingsRead]
        (\<lambda>dk. me_IsEnabled (dspMetadataEnrichment (dkSpec dk))),
      feat ''OTLP Auto-configuration'' [] [ScopeSettingsRead]
        (\<lambda>dk. otlp_IsEnabled (dk_OTLPExporterConfiguration dk))]"

definition getFeaturesForPaaSToken :: "feature list" where
  "getFeaturesForPaaSToken = [feat ''PaaS Token'' [ScopeInstallerDownload] [] (\<lambda>_. True)]"

definition getFeaturesForDataIngest :: "feature list" where
  "getFeaturesForDataIngest =
     [feat ''Data Ingest'' [ScopeMetricsIngest] []
        (\<lambda>dk. ag_IsMetricsIngestEnabled (dk_ActiveGate dk)),
      feat ''Telemetry Ingest OTLP''
        [ScopeMetricsIngest, ScopeOpenTelemetryTraceIngest, ScopeLogsIngest] []
        (\<lambda>dk. ti_IsOTLPEnabled (dspTelemetryIngest (dkSpec dk))),
      feat ''Telemetry Ingest Zipkin'' [ScopeOpenTelemetryTraceIngest] []
        (\<lambda>dk. ti_IsZipkinEnabled (dspTelemetryIngest (dkSpec dk))),
      feat ''Telemetry Ingest Jaeger'' [ScopeOpenTelemetryTraceIngest] []
        (\<lambda>dk. ti_IsZipkinEnabled (dspTelemetryIngest (dkSpec dk))),
      feat ''Telemetry Ingest StatsD'' [ScopeMetricsIngest] []
        (\<lambda>dk. ti_IsZipkinEnabled (dspTelemetryIngest (dkSpec dk))),
      feat ''OTLP trace exporter configuration'' [ScopeOpenTelemetryTraceIngest] []
        (\<lambda>dk. otlp_IsTracesEnabled (dk_OTLPExporterConfiguration dk)),
      feat ''OTLP logs exporter configuration'' [ScopeLogsIngest] []
        (\<lambda>dk. otlp_IsLogsEnabled (dk_OTLPExporterConfiguration dk)),
      feat ''OTLP metrics exporter configuration'' [ScopeMetricsIngest] []
        (\<lambda>dk. otlp_IsMetricsEnabled (dk_OTLPExporterConfiguration dk))]"

section \<open>One token\<close>

abbreviation quote :: string where "quote \<equiv> [CHR 0x27]"

definition newToken :: "string \<Rightarrow> string \<Rightarrow> token" where
  "newToken tokenType value = \<lparr>tType = tokenType, tValue = value, tFeatures = []\<rparr>"

definition addFeatures :: "token \<Rightarrow> feature list \<Rightarrow> token" where
  "addFeatures t features = t\<lparr>tFeatures := tFeatures t @ features\<rparr>"

definition enabled_features :: "token \<Rightarrow> dynakube \<Rightarrow> feature list" where
  "enabled_features t dk = filter (\<lambda>f. fIsEnabled f dk) (tFeatures t)"

definition verifyRequiredScopes :: "token \<Rightarrow> string list \<Rightarrow> dynakube \<Rightarrow> token_error option" where
  "verifyRequiredScopes t scopes dk =
     (let failing = filter (\<lambda>f. CollectMissingRequiredScopes f scopes \<noteq> []) (enabled_features t dk);
          allMissingScopes = concat (map (\<lambda>f. CollectMissingRequiredScopes f scopes) failing);
          collectedErrors = map (\<lambda>f. ''feature '' @ quote @ fName f @ quote @ '' is missing scope '' @ quote @
              join_sep '', '' (CollectMissingRequiredScopes f scopes) @ quote) failing
      in if collectedErrors \<noteq> [] then Some (ScopeError (tType t) allMissingScopes collectedErrors)
         else None)"

definition collectOptionalScopes :: "token \<Rightarrow> string list \<Rightarrow> dynakube \<Rightarrow> (string \<rightharpoonup> bool)" where
  "collectOptionalScopes t availableScopes dk =
     fold (\<lambda>f m. m ++ CollectOptionalScopes f availableScopes) (enabled_features t dk) Map.empty"

definition verifyScopes ::
    "token_env \<Rightarrow> dynakube \<Rightarrow> token \<Rightarrow> (string \<rightharpoonup> bool) \<times> token_error option" where
  "verifyScopes env dk t =
     (if tFeatures t = [] then (Map.empty, None)
      else case teGetScopes env (tValue t) of
             Inl e \<Rightarrow> (Map.empty, Some (OtherError e))
           | Inr scopes \<Rightarrow> (collectOptionalScopes t scopes dk, verifyRequiredScopes t scopes dk))"

definition verifyValue :: "token \<Rightarrow> token_error option" where
  "verifyValue t =
     (if leading_space (tValue t) \<or> trailing_space (tValue t)
      then Some (OtherError (Sentinel (''token '' @ quote @ tType t @ quote @ '' contains leading or trailing whitespaces'')))
      else None)"

section \<open>All tokens\<close>

definition getToken :: "Tokens \<Rightarrow> string \<Rightarrow> token" where
  "getToken tokens tokenName =
     (case map_of tokens tokenName of None \<Rightarrow> \<lparr>tType = [], tValue = [], tFeatures = []\<rparr> | Some t \<Rightarrow> t)"

definition APIToken :: "Tokens \<Rightarrow> token" where "APIToken tokens = getToken tokens APIKey"

definition AddFeatureScopesToTokens :: "token_env \<Rightarrow> Tokens \<Rightarrow> Tokens" where
  "AddFeatureScopesToTokens env tokens =
     (let hasPaasToken = (map_of tokens PaaSKey \<noteq> None) in
      map (\<lambda>(k, t). (k,
        if tType t = APIKey then addFeatures t (getFeaturesForAPIToken env hasPaasToken)
        else if tType t = PaaSKey then addFeatures t getFeaturesForPaaSToken
        else if tType t = DataIngestKey then addFeatures t getFeaturesForDataIngest
        else t)) tokens)"

definition join_error :: "token_error option \<Rightarrow> token_error \<Rightarrow> token_error option" where
  "join_error err e = Some (JoinError (case err of None \<Rightarrow> [e] | Some x \<Rightarrow> [x, e]))"

definition VerifyScopes ::
    "token_env \<Rightarrow> dynakube \<Rightarrow> Tokens \<Rightarrow> (string \<rightharpoonup> bool) \<times> token_error option" where
  "VerifyScopes env dk tokens =
     foldl (\<lambda>(collected, err) (k, t).
         case verifyScopes env dk t of (missingOptionalScopes, scopeError) \<Rightarrow>
           (collected ++ missingOptionalScopes,
            case scopeError of None \<Rightarrow> err | Some e \<Rightarrow> join_error err e))
       (Map.empty, None) tokens"

definition VerifyValues :: "Tokens \<Rightarrow> token_error option" where
  "VerifyValues tokens =
     foldl (\<lambda>err (k, t). case verifyValue t of None \<Rightarrow> err | Some e \<Rightarrow> join_error err e) None tokens"

definition IsPlatform :: "string \<Rightarrow> bool" where
  "IsPlatform token \<longleftrightarrow> has_prefix token ''dt0s16''"

definition HasPlatformToken :: "Tokens \<Rightarrow> bool" where
  "HasPlatformToken tokens \<longleftrightarrow> IsPlatform (tValue (APIToken tokens))"

definition CheckForDataIngestToken :: "Tokens \<Rightarrow> bool" where
  "CheckForDataIngestToken tokens =
     (case map_of tokens DataIngestKey of None \<Rightarrow> False | Some t \<Rightarrow> tValue t \<noteq> '''')"

text \<open>\<open>errors.As\<close> with a \<open>ScopeError\<close> target: the first one in depth-first order.\<close>

fun as_scope_error :: "token_error \<Rightarrow> string list option"
  and as_scope_error_list :: "token_error list \<Rightarrow> string list option" where
  "as_scope_error (ScopeError t missing errs) = Some missing"
| "as_scope_error (OtherError e) = None"
| "as_scope_error (JoinError es) = as_scope_error_list es"
| "as_scope_error_list [] = None"
| "as_scope_error_list (e # es) =
     (case as_scope_error e of Some m \<Rightarrow> Some m | None \<Rightarrow> as_scope_error_list es)"

definition GetMissingScopes :: "token_error option \<Rightarrow> string list" where
  "GetMissingScopes err =
     (case err of
        None \<Rightarrow> []
      | Some e \<Rightarrow>
          (let errs = (case e of JoinError es \<Rightarrow> es | _ \<Rightarrow> [e]);
               missingScopes = concat (map (\<lambda>e. case as_scope_error e of None \<Rightarrow> [] | Some m \<Rightarrow> m) errs)
           in compact (sort_by (\<lambda>s. s) missingScopes)))"

section \<open>Reader\<close>

definition ReadTokens :: "(string \<Rightarrow> string \<Rightarrow> error + (string \<times> string) list) \<Rightarrow> dynakube \<Rightarrow> error + Tokens" where
  "ReadTokens getSecret dk =
     (case getSecret (dkNamespace dk) (dk_Tokens dk) of
        Inl e \<Rightarrow> Inl e
      | Inr data \<Rightarrow> Inr (map (\<lambda>(tokenType, raw). (tokenType, newToken tokenType raw)) data))"

definition verifyAPITokenExists :: "dynakube \<Rightarrow> Tokens \<Rightarrow> error option" where
  "verifyAPITokenExists dk tokens =
     (if (case map_of tokens APIKey of None \<Rightarrow> True | Some t \<Rightarrow> tValue t = '''')
      then Some (Sentinel (''the API token is missing from the token secret '' @ quote @ dkNamespace dk @ '':'' @
                              dk_Tokens dk @ quote))
      else None)"

definition ReadAndVerifyTokens ::
    "(string \<Rightarrow> string \<Rightarrow> error + (string \<times> string) list) \<Rightarrow> dynakube \<Rightarrow> error + Tokens" where
  "ReadAndVerifyTokens getSecret dk =
     (case ReadTokens getSecret dk of
        Inl e \<Rightarrow> Inl e
      | Inr tokens \<Rightarrow> (case verifyAPITokenExists dk tokens of Some e \<Rightarrow> Inl e | None \<Rightarrow> Inr tokens))"

section \<open>Token status in the controller\<close>

definition set_api_token :: "(api_token_status \<Rightarrow> api_token_status) \<Rightarrow> dynakube \<Rightarrow> dynakube" where
  "set_api_token f dk = dk\<lparr>dkStatus := (dkStatus dk)\<lparr>dstAPIToken := f (dstAPIToken (dkStatus dk))\<rparr>\<rparr>"

definition optionalscope_IsAvailable :: "dynakube \<Rightarrow> string \<Rightarrow> bool" where
  "optionalscope_IsAvailable dk scope =
     (let st = dstAPIToken (dkStatus dk) in
      if atsPlatform st = Some True then True
      else if scope = ScopeSettingsRead then atsSettingsRead st = Some True
      else if scope = ScopeSettingsWrite then atsSettingsWrite st = Some True
      else False)"

definition optionalscope_set :: "bool \<Rightarrow> string \<Rightarrow> dynakube \<Rightarrow> dynakube" where
  "optionalscope_set value scope =
     set_api_token (\<lambda>st. if scope = ScopeSettingsRead then st\<lparr>atsSettingsRead := Some value\<rparr>
       else if scope = ScopeSettingsWrite then st\<lparr>atsSettingsWrite := Some value\<rparr> else st)"

definition optionalscope_SetMissing :: "string \<Rightarrow> dynakube \<Rightarrow> dynakube" where
  "optionalscope_SetMissing = optionalscope_set False"

definition optionalscope_SetAvailable :: "string \<Rightarrow> dynakube \<Rightarrow> dynakube" where
  "optionalscope_SetAvailable = optionalscope_set True"

definition SetOptionalScopeMissing :: "string \<Rightarrow> string \<Rightarrow> dynakube \<Rightarrow> dynakube" where
  "SetOptionalScopeMissing conditionType msg =
     add_condition_op (SetStatusCondition \<lparr>condType = conditionType, condStatus = False,
       condReason = ''ScopeMissing'', condMessage = msg\<rparr>)"

abbreviation conditionTypeAPITokenSettingsRead :: string where
  "conditionTypeAPITokenSettingsRead \<equiv> ''ApiTokenSettingsRead''"
abbreviation conditionTypeAPITokenSettingsWrite :: string where
  "conditionTypeAPITokenSettingsWrite \<equiv> ''ApiTokenSettingsWrite''"
abbreviation conditionTypeAPITokenOptionalScopes :: string where
  "conditionTypeAPITokenOptionalScopes \<equiv> ''ApiTokenOptionalScopes''"

definition updateOptionalScopesConditions :: "(string \<rightharpoonup> bool) \<Rightarrow> dynakube \<Rightarrow> dynakube" where
  "updateOptionalScopesConditions optionalScopes dk =
     (let (dk1, unavailableScopes) =
            foldl (\<lambda>(d, un) scope.
                case optionalScopes scope of
                  None \<Rightarrow> (optionalscope_SetMissing scope d, un)
                | Some True \<Rightarrow> (optionalscope_SetAvailable scope d, un)
                | Some False \<Rightarrow> (optionalscope_SetMissing scope d, un @ [scope]))
              (dk, []) OptionalScopes;
          dk2 = (if unavailableScopes \<noteq> []
                 then SetOptionalScopeMissing conditionTypeAPITokenOptionalScopes
                   (join_on (CHR '','') unavailableScopes @
                    '' optional scope(s) not available, some features may not work'') dk1
                 else add_condition_op (RemoveStatusCondition conditionTypeAPITokenOptionalScopes) dk1)
      in add_condition_op (RemoveStatusCondition conditionTypeAPITokenSettingsWrite)
           (add_condition_op (RemoveStatusCondition conditionTypeAPITokenSettingsRead) dk2))"

definition verifyTokenScopes :: "token_env \<Rightarrow> Tokens \<Rightarrow> dynakube \<Rightarrow> token_error option \<times> dynakube" where
  "verifyTokenScopes env tokens dk =
     (case VerifyScopes env dk (AddFeatureScopesToTokens env tokens) of
        (optionalScopes, Some e) \<Rightarrow> (Some e, dk)
      | (optionalScopes, None) \<Rightarrow> (None, updateOptionalScopesConditions optionalScopes dk))"

definition verifyTokens :: "token_env \<Rightarrow> Tokens \<Rightarrow> dynakube \<Rightarrow> token_error option \<times> dynakube" where
  "verifyTokens env tokens dk =
     (case VerifyValues tokens of
        Some e \<Rightarrow> (Some e, dk)
      | None \<Rightarrow>
          (if HasPlatformToken tokens then
             (let d1 = set_api_token (\<lambda>st. st\<lparr>atsPlatform := Some True\<rparr>) dk;
                  d2 = add_condition_op (RemoveStatusCondition conditionTypeAPITokenSettingsRead) d1;
                  d3 = add_condition_op (RemoveStatusCondition conditionTypeAPITokenSettingsWrite) d2;
                  d4 = add_condition_op (RemoveStatusCondition conditionTypeAPITokenOptionalScopes) d3
              in (None, set_api_token (\<lambda>st. st\<lparr>atsSettingsRead := None, atsSettingsWrite := None\<rparr>) d4))
           else verifyTokenScopes env tokens (set_api_token (\<lambda>st. st\<lparr>atsPlatform := Some False\<rparr>) dk)))"

definition areStatusesEqual :: "condition option \<Rightarrow> condition \<Rightarrow> bool" where
  "areStatusesEqual statusCondition newCondition =
     (case statusCondition of None \<Rightarrow> False
      | Some c \<Rightarrow> condReason c = condReason newCondition \<and> condMessage c = condMessage newCondition \<and>
                  condStatus c = condStatus newCondition)"

definition removeDeprecatedConditionTypes :: "token_env \<Rightarrow> dynakube \<Rightarrow> dynakube" where
  "removeDeprecatedConditionTypes env dk =
     foldl (\<lambda>d t. if teFindCondition env (dstConditions (dkStatus d)) t \<noteq> None
                  then add_condition_op (RemoveStatusCondition t) d else d)
       dk [''PaaSToken'', ''APIToken'', ''DataIngestToken'']"

definition setCondition :: "token_env \<Rightarrow> dynakube \<Rightarrow> condition \<Rightarrow> dynakube" where
  "setCondition env dk newCondition =
     (let dk1 = removeDeprecatedConditionTypes env dk;
          statusCondition = teFindCondition env (dstConditions (dkStatus dk1)) (condType newCondition)
      in if areStatusesEqual statusCondition newCondition then dk1
         else add_condition_op (SetStatusCondition newCondition) dk1)"

definition setConditionTokenError :: "token_env \<Rightarrow> dynakube \<Rightarrow> token_error option \<Rightarrow> dynakube" where
  "setConditionTokenError env dk err =
     (let missingScopes = GetMissingScopes err;
          msg = (if missingScopes \<noteq> []
                 then ''The following required scopes are missing: '' @ join_sep '', '' missingScopes
                 else ''Token verification failed'')
      in setCondition env dk \<lparr>condType = ''Tokens'', condStatus = False, condReason = ''TokenError'',
           condMessage = msg\<rparr>)"

definition setConditionTokenReady :: "token_env \<Rightarrow> dynakube \<Rightarrow> bool \<Rightarrow> dynakube" where
  "setConditionTokenReady env dk dataIngestTokenProvided =
     (let msg = (if dataIngestTokenProvided then ''Token ready''
                 else ''Token ready, DataIngest token not provided'')
      in setCondition env dk \<lparr>condType = ''Tokens'', condStatus = True, condReason = ''TokenReady'',
           condMessage = msg\<rparr>)"

section \<open>Lemmas\<close>

definition missing_required :: "token \<Rightarrow> string list \<Rightarrow> dynakube \<Rightarrow> string set" where
  "missing_required t scopes dk =
     {s. \<exists>f\<in>set (tFeatures t). fIsEnabled f dk \<and> s \<in> set (fRequiredScopes f) \<and> s \<notin> set scopes}"

lemma verifyRequiredScopes_None:
  "verifyRequiredScopes t scopes dk = None \<longleftrightarrow> missing_required t scopes dk = {}"
  by (auto simp: verifyRequiredScopes_def Let_def missing_required_def enabled_features_def
      CollectMissingRequiredScopes_def filter_empty_conv)

lemma verifyRequiredScopes_Some:
  "verifyRequiredScopes t scopes dk = Some e \<Longrightarrow>
   \<exists>ms errs. e = ScopeError (tType t) ms errs \<and> set ms = missing_required t scopes dk"
  by (fastforce simp: verifyRequiredScopes_def Let_def missing_required_def enabled_features_def
      CollectMissingRequiredScopes_def filter_empty_conv split: if_splits)

text \<open>The scopes of one token that are missing according to the API, when it answers.\<close>

definition token_missing :: "token_env \<Rightarrow> dynakube \<Rightarrow> token \<Rightarrow> string set" where
  "token_missing env dk t =
     (if tFeatures t = [] then {}
      else case teGetScopes env (tValue t) of Inl e \<Rightarrow> {} | Inr scopes \<Rightarrow> missing_required t scopes dk)"

lemma verifyScopes_error:
  assumes "snd (verifyScopes env dk t) = Some e" "\<And>v. isl (teGetScopes env v) = False"
  shows "\<exists>ms. as_scope_error e = Some ms \<and> set ms = token_missing env dk t \<and> ms \<noteq> [] \<and>
           (\<exists>errs. e = ScopeError (tType t) ms errs)"
proof -
  obtain scopes where sc: "teGetScopes env (tValue t) = Inr scopes"
    using assms(2) by (metis isl_def sum.collapse(2) sum.exhaust_sel)
  have f: "tFeatures t \<noteq> []" using assms(1) by (auto simp: verifyScopes_def)
  with assms(1) sc have v: "verifyRequiredScopes t scopes dk = Some e"
    by (simp add: verifyScopes_def)
  from verifyRequiredScopes_Some[OF this] obtain ms errs
    where "e = ScopeError (tType t) ms errs" "set ms = missing_required t scopes dk" by blast
  moreover have "missing_required t scopes dk \<noteq> {}" using v verifyRequiredScopes_None[of t scopes dk] by auto
  ultimately show ?thesis using f sc by (auto simp: token_missing_def)
qed

lemma verifyScopes_ok:
  "snd (verifyScopes env dk t) = None \<Longrightarrow> token_missing env dk t = {}"
  by (auto simp: verifyScopes_def token_missing_def verifyRequiredScopes_None split: if_splits sum.splits)

text \<open>The error \<open>VerifyScopes\<close> builds is the left-nested join of the failing tokens' errors.\<close>

definition scope_errors :: "token_env \<Rightarrow> dynakube \<Rightarrow> Tokens \<Rightarrow> token_error list" where
  "scope_errors env dk tokens = List.map_filter (\<lambda>(k, t). snd (verifyScopes env dk t)) tokens"

lemma VerifyScopes_fold:
  "snd (foldl (\<lambda>(collected, err) (k, t).
         case verifyScopes env dk t of (m, scopeError) \<Rightarrow>
           (collected ++ m, case scopeError of None \<Rightarrow> err | Some e \<Rightarrow> join_error err e)) (c, err) tokens)
   = foldl (\<lambda>err e. join_error err e) err (scope_errors env dk tokens)"
  by (induction tokens arbitrary: c err)
     (auto simp: scope_errors_def map_filter_simps split: prod.splits option.splits)

lemma VerifyScopes_error:
  "snd (VerifyScopes env dk tokens) = foldl join_error None (scope_errors env dk tokens)"
  unfolding VerifyScopes_def by (rule VerifyScopes_fold)

lemma foldl_join_snoc: "foldl join_error err (es @ [e]) = join_error (foldl join_error err es) e"
  by simp

lemma foldl_join_None: "foldl join_error None es = None \<longleftrightarrow> es = []"
  by (induction es rule: rev_induct) (auto simp: join_error_def)

lemma as_scope_foldl_join:
  assumes "es \<noteq> []" "as_scope_error (hd es) = Some ms"
  shows "\<exists>j. foldl join_error None es = Some j \<and> as_scope_error j = Some ms"
  using assms
proof (induction es rule: rev_induct)
  case (snoc e es)
  show ?case
  proof (cases es)
    case Nil
    with snoc.prems show ?thesis by (simp add: join_error_def)
  next
    case (Cons x xs)
    with snoc.IH snoc.prems obtain j where "foldl join_error None es = Some j" "as_scope_error j = Some ms"
      by auto
    then show ?thesis by (simp only: foldl_join_snoc) (simp add: join_error_def)
  qed
qed simp

lemma GetMissingScopes_chain:
  assumes "es \<noteq> []" "\<And>e. e \<in> set es \<Longrightarrow> as_scope_error e = Some (m e)"
  shows "GetMissingScopes (foldl join_error None es) =
     compact (sort_by (\<lambda>s. s) (if length es = 1 then m (hd es) else m (hd es) @ m (last es)))"
proof (cases es rule: rev_cases)
  case Nil
  with assms(1) show ?thesis by simp
next
  case (snoc xs e)
  show ?thesis
  proof (cases "xs = []")
    case True
    with snoc assms(2) show ?thesis by (simp add: GetMissingScopes_def join_error_def)
  next
    case False
    have "as_scope_error (hd xs) = Some (m (hd xs))" using False snoc assms(2) by simp
    then obtain j where "foldl join_error None xs = Some j" "as_scope_error j = Some (m (hd xs))"
      using as_scope_foldl_join[OF False] by blast
    with False snoc assms(2) show ?thesis by (simp add: GetMissingScopes_def join_error_def)
  qed
qed


lemma UN_scope_errors:
  assumes "\<And>v. isl (teGetScopes env v) = False"
  shows "(\<Union>e\<in>set (scope_errors env dk tokens). set (the (as_scope_error e))) =
         (\<Union>(k, t)\<in>set tokens. token_missing env dk t)"
proof (induction tokens)
  case Nil
  show ?case by (simp add: scope_errors_def map_filter_simps)
next
  case (Cons kt tokens)
  obtain k t where kt: "kt = (k, t)" by fastforce
  show ?case
  proof (cases "snd (verifyScopes env dk t)")
    case None
    with verifyScopes_ok[OF None] Cons kt show ?thesis by (simp add: scope_errors_def map_filter_simps)
  next
    case (Some e)
    from verifyScopes_error[OF Some assms] obtain ms
      where "as_scope_error e = Some ms" "set ms = token_missing env dk t" by blast
    with Some Cons kt show ?thesis by (simp add: scope_errors_def map_filter_simps)
  qed
qed

lemma scope_errors_as:
  assumes "\<And>v. isl (teGetScopes env v) = False" "e \<in> set (scope_errors env dk tokens)"
  shows "as_scope_error e = Some (the (as_scope_error e))"
proof -
  obtain k t where "snd (verifyScopes env dk t) = Some e"
    using assms(2) by (auto simp: scope_errors_def List.map_filter_def)
  from verifyScopes_error[OF this assms(1)] show ?thesis by auto
qed

lemma compact_sort_props:
  "str_sorted (compact (sort_by (\<lambda>s. s) xs)) \<and> distinct (compact (sort_by (\<lambda>s. s) xs))"
  unfolding str_sorted_def by (rule compact_sorted_distinct) (rule sorted_sort_by[where f = "\<lambda>s. s"])

lemma GetMissingScopes_sorted:
  "str_sorted (GetMissingScopes err) \<and> distinct (GetMissingScopes err)"
  using compact_sort_props by (cases err) (auto simp: GetMissingScopes_def Let_def str_sorted_def)

lemma GetMissingScopes_VerifyScopes:
  assumes "\<And>v. isl (teGetScopes env v) = False" "length (scope_errors env dk tokens) \<le> 2"
  shows "set (GetMissingScopes (snd (VerifyScopes env dk tokens))) =
         (\<Union>(k, t)\<in>set tokens. token_missing env dk t)"
proof (cases "scope_errors env dk tokens = []")
  case True
  with UN_scope_errors[OF assms(1), of dk tokens] show ?thesis
    by (simp add: VerifyScopes_error GetMissingScopes_def)
next
  case False
  let ?es = "scope_errors env dk tokens"
  have "GetMissingScopes (foldl join_error None ?es) = compact (sort_by (\<lambda>s. s)
     (if length ?es = 1 then the (as_scope_error (hd ?es))
      else the (as_scope_error (hd ?es)) @ the (as_scope_error (last ?es))))"
    by (rule GetMissingScopes_chain[OF False]) (rule scope_errors_as[OF assms(1)])
  moreover have "set (if length ?es = 1 then the (as_scope_error (hd ?es))
      else the (as_scope_error (hd ?es)) @ the (as_scope_error (last ?es))) =
      (\<Union>e\<in>set ?es. set (the (as_scope_error e)))"
    using False assms(2) by (cases ?es; cases "tl ?es"; auto)
  ultimately show ?thesis
    using UN_scope_errors[OF assms(1), of dk tokens] by (simp add: VerifyScopes_error)
qed

lemma GetMissingScopes_three:
  assumes "\<And>v. isl (teGetScopes env v) = False"
    and "\<And>t. t \<in> {t1, t2, t3} \<Longrightarrow> token_missing env dk t \<noteq> {}"
  shows "set (GetMissingScopes (snd (VerifyScopes env dk [(k1, t1), (k2, t2), (k3, t3)]))) =
         token_missing env dk t1 \<union> token_missing env dk t3"
proof -
  have "\<exists>e ms. snd (verifyScopes env dk t) = Some e \<and> as_scope_error e = Some ms \<and>
          set ms = token_missing env dk t" if "t \<in> {t1, t2, t3}" for t
  proof -
    have "snd (verifyScopes env dk t) \<noteq> None"
      using assms(2)[OF that] verifyScopes_ok[of env dk t] by auto
    then obtain e where e: "snd (verifyScopes env dk t) = Some e" by blast
    with verifyScopes_error[OF e assms(1)] show ?thesis by blast
  qed
  then obtain e1 m1 e2 m2 e3 m3 where
    "snd (verifyScopes env dk t1) = Some e1" "as_scope_error e1 = Some m1" "set m1 = token_missing env dk t1"
    "snd (verifyScopes env dk t2) = Some e2" "as_scope_error e2 = Some m2" "set m2 = token_missing env dk t2"
    "snd (verifyScopes env dk t3) = Some e3" "as_scope_error e3 = Some m3" "set m3 = token_missing env dk t3"
    by (meson insertI1 insertI2)
  then show ?thesis
    by (simp add: VerifyScopes_error scope_errors_def map_filter_simps join_error_def GetMissingScopes_def)
qed

text \<open>Optional scopes.\<close>

lemma CollectOptionalScopes_eq:
  "CollectOptionalScopes f available s =
     (if s \<in> set (fOptionalScopes f) then Some (s \<in> set available) else None)"
proof -
  have "fold (\<lambda>s m. m(s \<mapsto> (s \<in> set available))) xs m s =
      (if s \<in> set xs then Some (s \<in> set available) else m s)" for xs m
    by (induction xs arbitrary: m) auto
  then show ?thesis by (simp add: CollectOptionalScopes_def)
qed

definition wants_optional :: "token \<Rightarrow> dynakube \<Rightarrow> string \<Rightarrow> bool" where
  "wants_optional t dk s \<longleftrightarrow> (\<exists>f\<in>set (tFeatures t). fIsEnabled f dk \<and> s \<in> set (fOptionalScopes f))"

lemma collectOptionalScopes_eq:
  "collectOptionalScopes t available dk s =
     (if wants_optional t dk s then Some (s \<in> set available) else None)"
proof -
  have "fold (\<lambda>f m. m ++ CollectOptionalScopes f available) fs m s =
      (if \<exists>f\<in>set fs. s \<in> set (fOptionalScopes f) then Some (s \<in> set available) else m s)" for fs m
    by (induction fs arbitrary: m) (auto simp: map_add_def CollectOptionalScopes_eq)
  then show ?thesis by (auto simp: collectOptionalScopes_def enabled_features_def wants_optional_def)
qed

definition token_optional :: "token_env \<Rightarrow> dynakube \<Rightarrow> token \<Rightarrow> string \<Rightarrow> bool option" where
  "token_optional env dk t s =
     (if wants_optional t dk s
      then (case teGetScopes env (tValue t) of Inl e \<Rightarrow> None | Inr scopes \<Rightarrow> Some (s \<in> set scopes))
      else None)"

lemma verifyScopes_optional: "fst (verifyScopes env dk t) s = token_optional env dk t s"
  by (auto simp: verifyScopes_def token_optional_def collectOptionalScopes_eq wants_optional_def split: sum.split)

lemma VerifyScopes_optional:
  assumes "\<And>k t. (k, t) \<in> set tokens \<Longrightarrow> k \<noteq> key \<Longrightarrow> token_optional env dk t s = None"
    and "distinct (map fst tokens)"
  shows "fst (VerifyScopes env dk tokens) s =
     (case map_of tokens key of None \<Rightarrow> None | Some t \<Rightarrow> token_optional env dk t s)"
proof -
  have "fst (foldl (\<lambda>(collected, err) (k, t).
         case verifyScopes env dk t of (m, scopeError) \<Rightarrow>
           (collected ++ m, case scopeError of None \<Rightarrow> err | Some e \<Rightarrow> join_error err e)) (c, err) toks) s
      = (case map_of toks key of None \<Rightarrow> c s
         | Some t \<Rightarrow> (case token_optional env dk t s of None \<Rightarrow> c s | Some b \<Rightarrow> Some b))"
    if "set toks \<subseteq> set tokens" "distinct (map fst toks)" for toks c err
    using that
  proof (induction toks arbitrary: c err)
    case (Cons kt toks)
    obtain k t where kt: "kt = (k, t)" by fastforce
    obtain m r where v: "verifyScopes env dk t = (m, r)" by fastforce
    have m: "m s = token_optional env dk t s" using verifyScopes_optional[of env dk t s] v by simp
    show ?case
    proof (cases "k = key")
      case True
      then have "map_of toks key = None" using Cons.prems kt by (force simp: map_of_eq_None_iff)
      with True Cons kt v m show ?thesis by (auto simp: map_add_def split: option.split)
    next
      case False
      then have "m s = None" using assms(1)[of k t] Cons.prems kt m by simp
      with False Cons kt v show ?thesis by (auto simp: map_add_def split: option.split)
    qed
  qed simp
  from this[of tokens Map.empty None] assms(2) show ?thesis
    by (auto simp: VerifyScopes_def split: option.split)
qed


lemma set_api_token_sel [simp]:
  "dstAPIToken (dkStatus (set_api_token f dk)) = f (dstAPIToken (dkStatus dk))"
  "dkSpec (set_api_token f dk) = dkSpec dk"
  "dkAnnotations (set_api_token f dk) = dkAnnotations dk"
  by (simp_all add: set_api_token_def)

lemma updateOptionalScopes_status:
  assumes "atsPlatform (dstAPIToken (dkStatus dk)) = Some False"
  shows "optionalscope_IsAvailable (updateOptionalScopesConditions m dk) s \<longleftrightarrow>
     s \<in> set OptionalScopes \<and> m s = Some True"
  using assms
  by (auto simp: updateOptionalScopesConditions_def OptionalScopes_def optionalscope_IsAvailable_def
      optionalscope_SetMissing_def optionalscope_SetAvailable_def optionalscope_set_def
      SetOptionalScopeMissing_def Let_def split: option.splits bool.splits)

definition fresh_tokens :: "Tokens \<Rightarrow> bool" where
  "fresh_tokens tokens \<longleftrightarrow>
     distinct (map fst tokens) \<and> (\<forall>(k, t)\<in>set tokens. tType t = k \<and> tFeatures t = [])"

lemma ReadTokens_fresh:
  assumes "ReadTokens getSecret dk = Inr tokens"
    and "\<And>ns n data. getSecret ns n = Inr data \<Longrightarrow> distinct (map fst data)"
  shows "fresh_tokens tokens"
proof -
  obtain data where d: "getSecret (dkNamespace dk) (dk_Tokens dk) = Inr data"
    and t: "tokens = map (\<lambda>(k, raw). (k, newToken k raw)) data"
    using assms(1) by (auto simp: ReadTokens_def split: sum.splits)
  have "map fst tokens = map fst data" by (auto simp: t)
  with assms(2)[OF d] have "distinct (map fst tokens)" by simp
  then show ?thesis by (auto simp: fresh_tokens_def t newToken_def)
qed

lemma no_optional_features:
  "\<not> wants_optional (addFeatures t getFeaturesForPaaSToken) dk s = (\<not> wants_optional t dk s)"
  "\<not> wants_optional (addFeatures t getFeaturesForDataIngest) dk s = (\<not> wants_optional t dk s)"
  by (auto simp: wants_optional_def addFeatures_def getFeaturesForPaaSToken_def getFeaturesForDataIngest_def)

lemma AddFeature_optional:
  assumes "fresh_tokens tokens" "(k, t) \<in> set (AddFeatureScopesToTokens env tokens)" "k \<noteq> APIKey"
  shows "token_optional env dk t s = None"
proof -
  obtain t0 where t0: "(k, t0) \<in> set tokens" and t: "t = (
        if tType t0 = PaaSKey then addFeatures t0 getFeaturesForPaaSToken
        else if tType t0 = DataIngestKey then addFeatures t0 getFeaturesForDataIngest else t0)"
    using assms by (auto simp: AddFeatureScopesToTokens_def fresh_tokens_def Let_def)
  have "\<not> wants_optional t0 dk s" using assms(1) t0 by (auto simp: fresh_tokens_def wants_optional_def)
  with t have "\<not> wants_optional t dk s" using no_optional_features by auto
  then show ?thesis by (simp add: token_optional_def)
qed

lemma AddFeature_keys: "map fst (AddFeatureScopesToTokens env tokens) = map fst tokens"
  by (auto simp: AddFeatureScopesToTokens_def Let_def)

lemma AddFeature_api:
  assumes "fresh_tokens tokens"
  shows "map_of (AddFeatureScopesToTokens env tokens) APIKey =
    map_option (\<lambda>t. addFeatures t (getFeaturesForAPIToken env (map_of tokens PaaSKey \<noteq> None)))
      (map_of tokens APIKey)"
proof -
  have gen: "map_of (map (\<lambda>(k, t). (k,
        if tType t = APIKey then addFeatures t (getFeaturesForAPIToken env b)
        else if tType t = PaaSKey then addFeatures t getFeaturesForPaaSToken
        else if tType t = DataIngestKey then addFeatures t getFeaturesForDataIngest
        else t)) toks) APIKey =
      map_option (\<lambda>t. addFeatures t (getFeaturesForAPIToken env b)) (map_of toks APIKey)"
    if "\<forall>(k, t)\<in>set toks. tType t = k" for toks b
    using that by (induction toks) auto
  have "\<forall>(k, t)\<in>set tokens. tType t = k" using assms by (auto simp: fresh_tokens_def)
  then show ?thesis unfolding AddFeatureScopesToTokens_def Let_def by (rule gen)
qed

lemma length_scope_errors:
  assumes "\<And>v. isl (teGetScopes env v) = False"
  shows "length (scope_errors env dk tokens) =
         length (filter (\<lambda>(k, t). token_missing env dk t \<noteq> {}) tokens)"
proof (induction tokens)
  case (Cons kt tokens)
  obtain k t where kt: "kt = (k, t)" by fastforce
  have "snd (verifyScopes env dk t) = None \<longleftrightarrow> token_missing env dk t = {}"
  proof (cases "snd (verifyScopes env dk t)")
    case None
    with verifyScopes_ok[OF None] show ?thesis by simp
  next
    case (Some e)
    from verifyScopes_error[OF Some assms] obtain ms
      where "set ms = token_missing env dk t" "ms \<noteq> []" by blast
    with Some show ?thesis by auto
  qed
  with Cons kt show ?case by (auto simp: scope_errors_def map_filter_simps split: option.split)
qed (simp add: scope_errors_def map_filter_simps)

section \<open>Properties\<close>

text \<open>C25. A token passes the scope check exactly when every enabled feature finds all its required scopes,
  and a failed check reports exactly the scopes that enabled features miss.\<close>

theorem required_scopes_exact:
  "(verifyRequiredScopes t scopes dk = None \<longleftrightarrow>
     (\<forall>f\<in>set (tFeatures t). fIsEnabled f dk \<longrightarrow> set (fRequiredScopes f) \<subseteq> set scopes)) \<and>
   set (case verifyRequiredScopes t scopes dk of Some (ScopeError ty ms errs) \<Rightarrow> ms | _ \<Rightarrow> []) =
     {s. \<exists>f\<in>set (tFeatures t). fIsEnabled f dk \<and> s \<in> set (fRequiredScopes f) \<and> s \<notin> set scopes}"
  using verifyRequiredScopes_None[of t scopes dk] verifyRequiredScopes_Some[of t scopes dk]
  by (cases "verifyRequiredScopes t scopes dk") (fastforce simp: missing_required_def)+

text \<open>When the API answers and at most two tokens lack scopes, the reported list is sorted, without
  duplicates, and names exactly the missing scopes of all tokens.\<close>

theorem missing_scopes_complete_up_to_two:
  assumes "\<And>v. isl (teGetScopes env v) = False"
    and "length (filter (\<lambda>(k, t). token_missing env dk t \<noteq> {}) tokens) \<le> 2"
  shows "set (GetMissingScopes (snd (VerifyScopes env dk tokens))) =
           (\<Union>(k, t)\<in>set tokens. token_missing env dk t) \<and>
         str_sorted (GetMissingScopes (snd (VerifyScopes env dk tokens))) \<and>
         distinct (GetMissingScopes (snd (VerifyScopes env dk tokens)))"
  using assms GetMissingScopes_VerifyScopes[of env dk tokens] GetMissingScopes_sorted
    length_scope_errors[of env dk tokens] by simp

text \<open>With three failing tokens the scopes of the second one in the iteration are dropped:
  \<open>VerifyScopes\<close> joins errors to the left, and \<open>GetMissingScopes\<close> finds one \<open>ScopeError\<close> in each of
  the two operands of the outermost join only.\<close>

theorem missing_scopes_of_middle_token_dropped:
  assumes "\<And>v. isl (teGetScopes env v) = False"
    and "token_missing env dk t1 \<noteq> {}" and "token_missing env dk t2 \<noteq> {}"
    and "token_missing env dk t3 \<noteq> {}"
  shows "set (GetMissingScopes (snd (VerifyScopes env dk [(k1, t1), (k2, t2), (k3, t3)]))) =
         token_missing env dk t1 \<union> token_missing env dk t3"
  using assms by (intro GetMissingScopes_three) auto

text \<open>Jaeger and StatsD ingest are never checked: for a DynaKube whose telemetry ingest enables only
  these protocols, a data ingest token without any scope passes.\<close>

theorem jaeger_and_statsd_scopes_not_required:
  assumes "dspTelemetryIngest (dkSpec dk) = Some ts" and "tiProtocols ts \<noteq> []"
    and "set (tiProtocols ts) \<subseteq> {''jaeger'', ''statsd''}"
    and "\<not> ag_IsMetricsIngestEnabled (dk_ActiveGate dk)"
    and "dspOTLPExporterConfiguration (dkSpec dk) = None"
  shows "verifyRequiredScopes (addFeatures (newToken DataIngestKey v) getFeaturesForDataIngest) [] dk = None"
  using assms
  by (auto simp: verifyRequiredScopes_None missing_required_def addFeatures_def newToken_def
      getFeaturesForDataIngest_def ti_IsOTLPEnabled_def ti_IsZipkinEnabled_def ti_GetProtocols_def
      otlp_IsTracesEnabled_def otlp_IsLogsEnabled_def otlp_IsMetricsEnabled_def
      dk_OTLPExporterConfiguration_def)

text \<open>After a successful token check without a platform token, the status calls an optional scope
  available exactly when an enabled feature of the API token asks for it and the API says the API
  token has it.\<close>

theorem optional_scopes_recorded:
  assumes "fresh_tokens tokens" and "map_of tokens APIKey = Some api"
    and "\<not> HasPlatformToken tokens" and "verifyTokens env tokens dk = (None, dk')"
    and "teGetScopes env (tValue api) = Inr scopes"
    and "f = getFeaturesForAPIToken env (map_of tokens PaaSKey \<noteq> None)"
    and "dk0 = set_api_token (\<lambda>st. st\<lparr>atsPlatform := Some False\<rparr>) dk"
  shows "optionalscope_IsAvailable dk' s \<longleftrightarrow>
     s \<in> set OptionalScopes \<and> s \<in> set scopes \<and>
     (\<exists>g\<in>set f. fIsEnabled g dk0 \<and> s \<in> set (fOptionalScopes g))"
proof -
  let ?toks = "AddFeatureScopesToTokens env tokens"
  obtain m where m: "VerifyScopes env dk0 ?toks = (m, None)" and d: "dk' = updateOptionalScopesConditions m dk0"
    using assms(3,4,7)
    by (auto simp: verifyTokens_def verifyTokenScopes_def split: option.splits prod.splits)
  have "m s = token_optional env dk0 (addFeatures api f) s"
    using VerifyScopes_optional[of ?toks APIKey env dk0 s] AddFeature_optional[OF assms(1)]
      AddFeature_api[OF assms(1), of env] AddFeature_keys[of env tokens] assms(1,2,6) m
    by (simp add: fresh_tokens_def)
  moreover have "tFeatures api = []" "atsPlatform (dstAPIToken (dkStatus dk0)) = Some False"
    using assms(1,2,7) by (auto simp: fresh_tokens_def dest: map_of_SomeD)
  ultimately show ?thesis
    unfolding d using assms(5)
    by (auto simp: updateOptionalScopes_status token_optional_def addFeatures_def wants_optional_def)
qed


section \<open>Witnesses\<close>

definition sample_token_env :: token_env where
  "sample_token_env =
     \<lparr>teHostAvailability = [], teKubemonOperand = [],
      teGetScopes = (\<lambda>v. Inr (if v = ''rw'' then [ScopeDataExport, ScopeInstallerDownload, ScopeSettingsRead] else [])),
      teFindCondition = (\<lambda>_ _. None)\<rparr>"

definition sample_token :: "string \<Rightarrow> string \<Rightarrow> token" where
  "sample_token s r = \<lparr>tType = s, tValue = [], tFeatures = [feat ''f'' [r] [] (\<lambda>_. True)]\<rparr>"

lemma sample_missing: "token_missing sample_token_env dk (sample_token s r) = {r}"
  by (simp add: token_missing_def sample_token_def sample_token_env_def missing_required_def)

lemma sample_answers: "isl (teGetScopes sample_token_env v) = False"
  by (simp add: sample_token_env_def)

theorem missing_scopes_complete_witness:
  "set (GetMissingScopes (snd (VerifyScopes sample_token_env zero_dynakube
     [(APIKey, sample_token APIKey ScopeDataExport), (DataIngestKey, sample_token DataIngestKey ScopeLogsIngest)])))
   = {ScopeDataExport, ScopeLogsIngest}"
  using missing_scopes_complete_up_to_two[of sample_token_env zero_dynakube
     "[(APIKey, sample_token APIKey ScopeDataExport), (DataIngestKey, sample_token DataIngestKey ScopeLogsIngest)]"]
  by (simp add: sample_answers sample_missing insert_commute)

theorem missing_scopes_dropped_witness:
  "ScopeMetricsIngest \<notin> set (GetMissingScopes (snd (VerifyScopes sample_token_env zero_dynakube
     [(APIKey, sample_token APIKey ScopeDataExport), (DataIngestKey, sample_token DataIngestKey ScopeMetricsIngest),
      (PaaSKey, sample_token PaaSKey ScopeInstallerDownload)])))"
  using missing_scopes_of_middle_token_dropped[of sample_token_env zero_dynakube
     "sample_token APIKey ScopeDataExport" "sample_token DataIngestKey ScopeMetricsIngest"
     "sample_token PaaSKey ScopeInstallerDownload" APIKey DataIngestKey PaaSKey]
  by (simp add: sample_answers sample_missing)

theorem jaeger_and_statsd_scopes_witness:
  "verifyRequiredScopes (addFeatures (newToken DataIngestKey ''dt0c01'') getFeaturesForDataIngest) []
     (zero_dynakube\<lparr>dkSpec := zero_dynakube_spec
        \<lparr>dspTelemetryIngest := Some \<lparr>tiServiceName = [], tiTLSRefName = [], tiProtocols = [''jaeger'']\<rparr>\<rparr>\<rparr>) = None"
  by (rule jaeger_and_statsd_scopes_not_required[where ts =
        "\<lparr>tiServiceName = [], tiTLSRefName = [], tiProtocols = [''jaeger'']\<rparr>"])
     (simp_all add: zero_values dk_ActiveGate_def ag_IsMetricsIngestEnabled_def ag_IsMode_def)

definition sample_tokens :: Tokens where
  "sample_tokens = [(APIKey, newToken APIKey ''rw'')]"

definition sample_injection_dynakube :: dynakube where
  "sample_injection_dynakube = zero_dynakube\<lparr>dkSpec := zero_dynakube_spec\<lparr>dspOneAgent :=
     zero_oneagent_spec\<lparr>ApplicationMonitoring := Some \<lparr>amVersion = [], amAppInjection = zero_app_injection,
        amAdditionalResourceAttributes = Map.empty\<rparr>\<rparr>\<rparr>\<rparr>"

theorem optional_scopes_recorded_witness:
  "optionalscope_IsAvailable (snd (verifyTokens sample_token_env sample_tokens sample_injection_dynakube))
     ScopeSettingsRead"
proof -
  have 1: "fresh_tokens sample_tokens" by (simp add: fresh_tokens_def sample_tokens_def newToken_def)
  have 2: "map_of sample_tokens APIKey = Some (newToken APIKey ''rw'')" by (simp add: sample_tokens_def)
  have 3: "\<not> HasPlatformToken sample_tokens" by code_simp
  have 4: "verifyTokens sample_token_env sample_tokens sample_injection_dynakube =
     (None, snd (verifyTokens sample_token_env sample_tokens sample_injection_dynakube))"
  proof -
    have "fst (verifyTokens sample_token_env sample_tokens sample_injection_dynakube) = None" by code_simp
    then show ?thesis by (metis prod.collapse)
  qed
  have 5: "teGetScopes sample_token_env (tValue (newToken APIKey ''rw'')) =
      Inr [ScopeDataExport, ScopeInstallerDownload, ScopeSettingsRead]" by code_simp
  show ?thesis
    using optional_scopes_recorded[OF 1 2 3 4 5 refl refl, of ScopeSettingsRead]
    by (auto simp: OptionalScopes_def getFeaturesForAPIToken_def sample_injection_dynakube_def
        IsAppInjectionNeeded_def IsApplicationMonitoringMode_def dk_OneAgent_def zero_oneagent_spec_def)
qed

theorem required_scopes_exact_witness:
  "set (case verifyRequiredScopes (sample_token APIKey ScopeDataExport) [] zero_dynakube of
          Some (ScopeError ty ms errs) \<Rightarrow> ms | _ \<Rightarrow> []) = {ScopeDataExport}"
  using required_scopes_exact[of "sample_token APIKey ScopeDataExport" "[]" zero_dynakube]
  by (simp add: sample_token_def)

end
