(* ===== verification/NamespaceMapper.thy ===== *)
theory NamespaceMapper
  imports DynaKube "HOL-Library.AList"
begin

unbundle bit_operations_syntax

text \<open>
  \<open>pkg/injection/namespace/mapper\<close>: which DynaKube injects into which namespace. The label of a
  namespace names its DynaKube; a namespace that two DynaKubes match is a conflict. Label selectors
  (\<open>metav1.LabelSelectorAsSelector\<close> and \<open>Matches\<close>), \<open>regexp.MatchString\<close> and the JSON decoder are
  the fields of \<open>match_env\<close>. Go maps are association lists in one iteration order.
\<close>

section \<open>Matching\<close>

record namespace =
  nsName :: string
  nsLabels :: smap

record match_env =
  meCompile :: "label_selector \<Rightarrow> (smap \<Rightarrow> bool) option"
  meRegexp :: "string \<Rightarrow> string \<Rightarrow> bool"
  meJSONStrings :: "string \<Rightarrow> string list option"

abbreviation InjectionInstanceLabel :: string where
  "InjectionInstanceLabel \<equiv> ''dynakube.internal.dynatrace.com/instance''"

type_synonym matchFlags = int

abbreviation flagOneAgent :: matchFlags where "flagOneAgent \<equiv> 1"
abbreviation flagMetadata :: matchFlags where "flagMetadata \<equiv> 2"
abbreviation flagOTLP :: matchFlags where "flagOTLP \<equiv> 4"

definition flags_isAny :: "matchFlags \<Rightarrow> bool" where "flags_isAny f \<longleftrightarrow> f > 0"
definition flags_isOneAgent :: "matchFlags \<Rightarrow> bool" where "flags_isOneAgent f \<longleftrightarrow> f AND flagOneAgent \<noteq> 0"
definition flags_isMetadata :: "matchFlags \<Rightarrow> bool" where "flags_isMetadata f \<longleftrightarrow> f AND flagMetadata \<noteq> 0"
definition flags_isBootstrap :: "matchFlags \<Rightarrow> bool" where
  "flags_isBootstrap f \<longleftrightarrow> flags_isOneAgent f \<or> flags_isMetadata f"
definition flags_isOTLP :: "matchFlags \<Rightarrow> bool" where "flags_isOTLP f \<longleftrightarrow> f AND flagOTLP \<noteq> 0"

record compiledSelectors =
  csOneAgent :: "(smap \<Rightarrow> bool) option"
  csMetadata :: "(smap \<Rightarrow> bool) option"
  csOTLP :: "(smap \<Rightarrow> bool) option"

definition compileSelectors :: "match_env \<Rightarrow> dynakube \<Rightarrow> compiledSelectors" where
  "compileSelectors env dk =
     \<lparr>csOneAgent =
        (if IsAppInjectionNeeded (dk_OneAgent dk)
         then (case oa_GetNamespaceSelector (dk_OneAgent dk) of
                 None \<Rightarrow> None | Some sel \<Rightarrow> meCompile env sel)
         else None),
      csMetadata =
        (if me_IsEnabled (dspMetadataEnrichment (dkSpec dk))
         then meCompile env (meNamespaceSelector (dspMetadataEnrichment (dkSpec dk))) else None),
      csOTLP =
        (if otlp_IsEnabled (dk_OTLPExporterConfiguration dk)
         then (case dspOTLPExporterConfiguration (dkSpec dk) of
                 None \<Rightarrow> None | Some spec \<Rightarrow> meCompile env (otNamespaceSelector spec))
         else None)\<rparr>"

definition isIgnoredNamespace :: "match_env \<Rightarrow> dynakube \<Rightarrow> string \<Rightarrow> bool" where
  "isIgnoredNamespace env dk namespaceName \<longleftrightarrow>
     list_ex (\<lambda>pattern. meRegexp env pattern namespaceName)
       (GetIgnoredNamespaces (meJSONStrings env) (dk_FF dk) (dkNamespace dk))"

definition selector_matches :: "(smap \<Rightarrow> bool) option \<Rightarrow> smap \<Rightarrow> bool" where
  "selector_matches sel labels = (case sel of None \<Rightarrow> False | Some p \<Rightarrow> p labels)"

definition match_flags :: "match_env \<Rightarrow> dynakube \<Rightarrow> namespace \<Rightarrow> compiledSelectors \<Rightarrow> matchFlags" where
  "match_flags env dk ns selectors =
     (if isIgnoredNamespace env dk (nsName ns) then 0
      else
        let f0 = 0;
            f1 = (if selector_matches (csOneAgent selectors) (nsLabels ns) then f0 OR flagOneAgent else f0);
            f2 = (if selector_matches (csMetadata selectors) (nsLabels ns) then f1 OR flagMetadata else f1)
        in (if selector_matches (csOTLP selectors) (nsLabels ns) then f2 OR flagOTLP else f2))"

abbreviation ErrorConflictingNamespace :: error where
  "ErrorConflictingNamespace \<equiv>
     Sentinel ''namespace matches two or more DynaKubes which is unsupported. refine the labels on your namespace metadata or DynaKube/CodeModules specification''"

text \<open>\<open>ConflictChecker.check\<close>: the state is its \<open>alreadyUsed\<close> flag.\<close>

definition conflict_check :: "dynakube \<Rightarrow> bool \<Rightarrow> error option \<times> bool" where
  "conflict_check dk alreadyUsed =
     (if \<not> IsAppInjectionNeeded (dk_OneAgent dk) \<and>
         \<not> me_IsEnabled (dspMetadataEnrichment (dkSpec dk)) \<and>
         \<not> otlp_IsEnabled (dk_OTLPExporterConfiguration dk)
      then (None, alreadyUsed)
      else if alreadyUsed then (Some ErrorConflictingNamespace, alreadyUsed)
      else (None, True))"

definition addNamespaceInjectLabel :: "string \<Rightarrow> namespace \<Rightarrow> namespace" where
  "addNamespaceInjectLabel dkn ns = ns\<lparr>nsLabels := (nsLabels ns)(InjectionInstanceLabel \<mapsto> dkn)\<rparr>"

definition removeNamespaceInjectLabel :: "namespace \<Rightarrow> namespace" where
  "removeNamespaceInjectLabel ns = ns\<lparr>nsLabels := (nsLabels ns)(InjectionInstanceLabel := None)\<rparr>"

definition updateLabels :: "dynakube \<Rightarrow> namespace \<Rightarrow> bool \<Rightarrow> bool \<times> namespace" where
  "updateLabels dk ns matches =
     (let label = nsLabels ns InjectionInstanceLabel in
      if matches then
        (if label \<noteq> Some (dkName dk) then (True, addNamespaceInjectLabel (dkName dk) ns) else (False, ns))
      else if label = Some (dkName dk) then (True, removeNamespaceInjectLabel ns)
      else (False, ns))"

text \<open>
  The loop of \<open>updateNamespace\<close> over the deployed DynaKubes: the flag of the conflict checker and
  \<open>namespaceUpdated\<close> are carried along; on a conflict the labels already changed stay changed.
\<close>

fun updateNamespace_loop ::
    "match_env \<Rightarrow> dynakube list \<Rightarrow> bool \<Rightarrow> bool \<Rightarrow> namespace \<Rightarrow> (error + bool) \<times> namespace" where
  "updateNamespace_loop env [] used updated ns = (Inr updated, ns)"
| "updateNamespace_loop env (dk # dks) used updated ns =
     (let flags = match_flags env dk ns (compileSelectors env dk) in
      case (if flags_isAny flags then conflict_check dk used else (None, used)) of
        (Some e, used') \<Rightarrow> (Inl e, ns)
      | (None, used') \<Rightarrow>
          (case updateLabels dk ns (flags_isAny flags) of
             (labelsUpdated, ns') \<Rightarrow>
               updateNamespace_loop env dks used' (labelsUpdated \<or> updated) ns'))"

definition updateNamespace :: "match_env \<Rightarrow> dynakube list \<Rightarrow> namespace \<Rightarrow> (error + bool) \<times> namespace" where
  "updateNamespace env dks ns = updateNamespace_loop env dks False False ns"

section \<open>The mapper of a DynaKube\<close>

datatype mapper_call =
    UpdateNamespaceCall namespace
  | DeleteSecretCall string string

text \<open>The answers of the Kubernetes API, which may depend on the calls made before.\<close>

record mapper_env = match_env +
  mmListNamespaces :: "error + namespace list"
  mmListDynaKubes :: "error + dynakube list"
  mmUpdate :: "mapper_call list \<Rightarrow> namespace \<Rightarrow> error option"
  mmDelete :: "mapper_call list \<Rightarrow> string \<Rightarrow> string \<Rightarrow> error option"

record mapper_state =
  msTrace :: "mapper_call list"
  msMatched :: "(string \<times> namespace \<times> matchFlags) list"
  msDk :: dynakube

definition call :: "mapper_call \<Rightarrow> (mapper_call list \<Rightarrow> error option) \<Rightarrow> (mapper_state, unit) io" where
  "call c answer st =
     (case answer (msTrace st) of
        Some e \<Rightarrow> (Inl e, st\<lparr>msTrace := msTrace st @ [c]\<rparr>)
      | None \<Rightarrow> (Inr (), st\<lparr>msTrace := msTrace st @ [c]\<rparr>))"

text \<open>\<open>query.Generic.DeleteForNamespace\<close>: deleting something that is not there is no error.\<close>

definition DeleteForNamespace :: "mapper_env \<Rightarrow> string \<Rightarrow> string \<Rightarrow> (mapper_state, unit) io" where
  "DeleteForNamespace env objectName ns =
     call (DeleteSecretCall objectName ns)
       (\<lambda>tr. case mmDelete env tr objectName ns of
               None \<Rightarrow> None | Some e \<Rightarrow> if is_not_found e then None else Some e)"

abbreviation BootstrapperInitSecretName :: string where
  "BootstrapperInitSecretName \<equiv> ''dynatrace-bootstrapper-config''"
abbreviation BootstrapperInitCertsSecretName :: string where
  "BootstrapperInitCertsSecretName \<equiv> ''dynatrace-bootstrapper-certs''"
abbreviation OTLPExporterSecretName :: string where
  "OTLPExporterSecretName \<equiv> ''dynatrace-otlp-exporter-config''"
abbreviation OTLPExporterCertsSecretName :: string where
  "OTLPExporterCertsSecretName \<equiv> ''dynatrace-otlp-exporter-certs''"

text \<open>\<open>goerrors.Join\<close> over a list of calls: all of them are made, the errors are joined.\<close>

fun run_all :: "('s, unit) io list \<Rightarrow> ('s, error list) io" where
  "run_all [] = ret []"
| "run_all (m # ms) =
     andThen (attempt m) (\<lambda>r. andThen (run_all ms) (\<lambda>es.
       ret (case r of Inl e \<Rightarrow> e # es | Inr _ \<Rightarrow> es)))"

definition join_all :: "('s, unit) io list \<Rightarrow> ('s, unit) io" where
  "join_all ms = andThen (run_all ms) (\<lambda>es. case join_errors es of None \<Rightarrow> ret () | Some e \<Rightarrow> throw e)"

definition deleteReplicatedSecrets :: "mapper_env \<Rightarrow> string \<Rightarrow> (mapper_state, unit) io" where
  "deleteReplicatedSecrets env ns =
     join_all (map (\<lambda>s. DeleteForNamespace env s ns)
       [BootstrapperInitSecretName, BootstrapperInitCertsSecretName,
        OTLPExporterSecretName, OTLPExporterCertsSecretName])"

definition unmatched_secrets :: "matchFlags \<Rightarrow> string list" where
  "unmatched_secrets flags =
     (if \<not> flags_isBootstrap flags
      then [BootstrapperInitSecretName, BootstrapperInitCertsSecretName] else []) @
     (if \<not> flags_isOTLP flags
      then [OTLPExporterSecretName, OTLPExporterCertsSecretName] else [])"

definition deleteUnmatchedReplicatedSecrets :: "mapper_env \<Rightarrow> (mapper_state, unit) io" where
  "deleteUnmatchedReplicatedSecrets env =
     andThen (gets msMatched) (\<lambda>matched.
       for_each matched (\<lambda>(ns, _, flags).
         join_all (map (\<lambda>s. DeleteForNamespace env s ns) (unmatched_secrets flags))))"

definition set_matched :: "string \<Rightarrow> namespace \<times> matchFlags \<Rightarrow> (mapper_state, unit) io" where
  "set_matched k v = modify (\<lambda>st. st\<lparr>msMatched := AList.update k v (msMatched st)\<rparr>)"

fun replace_dynakube :: "dynakube \<Rightarrow> dynakube list \<Rightarrow> dynakube list" where
  "replace_dynakube dk [] = [dk]"
| "replace_dynakube dk (d # items) =
     (if dkName d = dkName dk then dk # items else d # replace_dynakube dk items)"

text \<open>Reading a missing key of a Go map gives the empty string.\<close>

definition read_label :: "namespace \<Rightarrow> string" where
  "read_label ns = (case nsLabels ns InjectionInstanceLabel of None \<Rightarrow> [] | Some v \<Rightarrow> v)"

fun mapNamespaces ::
    "mapper_env \<Rightarrow> dynakube \<Rightarrow> dynakube list \<Rightarrow> namespace list \<Rightarrow> (mapper_state, namespace list) io" where
  "mapNamespaces env dk dks [] = ret []"
| "mapNamespaces env dk dks (ns # nss) =
     (let previouslyInjected = (read_label ns = dkName dk);
          flags = match_flags (match_env.truncate env) dk ns (compileSelectors (match_env.truncate env) dk);
          (r, ns') = updateNamespace (match_env.truncate env) dks ns
      in andThen (gets (\<lambda>st. map_of (msMatched st) (nsName ns))) (\<lambda>entry.
         andThen (whenM (previouslyInjected \<or> flags_isAny flags)
           (set_matched (nsName ns) (ns', (case entry of None \<Rightarrow> 0 | Some (_, f) \<Rightarrow> f) OR flags))) (\<lambda>_.
         andThen (lift r) (\<lambda>updated.
         andThen (mapNamespaces env dk dks nss) (\<lambda>rest.
           ret (if updated then ns' # rest else rest))))))"

definition mapFromDynakube ::
    "mapper_env \<Rightarrow> namespace list \<Rightarrow> dynakube list \<Rightarrow> (mapper_state, namespace list) io" where
  "mapFromDynakube env nsList dkList =
     andThen (gets msDk) (\<lambda>dk. mapNamespaces env dk (replace_dynakube dk dkList) nsList)"

definition MatchingNamespaces :: "mapper_env \<Rightarrow> (mapper_state, namespace list) io" where
  "MatchingNamespaces env =
     andThen (lift (mmListNamespaces env)) (\<lambda>nsList.
     andThen (lift (mmListDynaKubes env)) (\<lambda>dkList.
       mapFromDynakube env nsList dkList))"

definition namespaceNamesFor :: "(string \<times> namespace \<times> matchFlags) list \<Rightarrow> matchFlags \<Rightarrow> string list" where
  "namespaceNamesFor matched query =
     sort_by (\<lambda>s. s) (map fst (filter (\<lambda>(ns, _, flags). flags AND query \<noteq> 0) matched))"

definition namespacesFor :: "(string \<times> namespace \<times> matchFlags) list \<Rightarrow> matchFlags \<Rightarrow> namespace list" where
  "namespacesFor matched query =
     sort_by nsName (map (\<lambda>(_, ns, _). ns) (filter (\<lambda>(_, _, flags). flags AND query \<noteq> 0) matched))"

definition BootstrapNamespaces :: "mapper_state \<Rightarrow> namespace list" where
  "BootstrapNamespaces st = namespacesFor (msMatched st) (flagOneAgent OR flagMetadata)"

definition OTLPNamespaces :: "mapper_state \<Rightarrow> namespace list" where
  "OTLPNamespaces st = namespacesFor (msMatched st) flagOTLP"

definition formatMatchMessage :: "string list \<Rightarrow> nat \<Rightarrow> string" where
  "formatMatchMessage names limit =
     (if names = [] then ''no namespaces match''
      else if length names > limit
      then show_nat (length names) @ '' namespaces match: '' @ join_sep '', '' (take limit names) @
           '' (at most '' @ show_nat limit @ '' are displayed)''
      else show_nat (length names) @ '' namespaces match: '' @ join_sep '', '' names)"

definition setNamespacesMonitoredSelectorCondition :: "string \<Rightarrow> bool \<Rightarrow> string list \<Rightarrow> dynakube \<Rightarrow> dynakube" where
  "setNamespacesMonitoredSelectorCondition t configured names =
     (if \<not> configured then add_condition_op (RemoveStatusCondition t)
      else if names = [] then
        add_condition_op (SetStatusCondition \<lparr>condType = t, condStatus = False,
          condReason = ''NoMatches'', condMessage = ''0 namespaces match''\<rparr>)
      else
        add_condition_op (SetStatusCondition \<lparr>condType = t, condStatus = True,
          condReason = ''MatchesFound'', condMessage = formatMatchMessage names 10\<rparr>))"

definition modify_dk :: "(dynakube \<Rightarrow> dynakube) \<Rightarrow> (mapper_state, unit) io" where
  "modify_dk f = modify (\<lambda>st. st\<lparr>msDk := f (msDk st)\<rparr>)"

definition monitored_condition :: "string \<Rightarrow> matchFlags \<Rightarrow> (dynakube \<Rightarrow> bool) \<Rightarrow> (mapper_state, unit) io" where
  "monitored_condition t query active =
     modify (\<lambda>st. st\<lparr>msDk := setNamespacesMonitoredSelectorCondition t (active (msDk st))
       (namespaceNamesFor (msMatched st) query) (msDk st)\<rparr>)"

abbreviation oneAgentNamespacesMonitoredConditionType :: string where
  "oneAgentNamespacesMonitoredConditionType \<equiv> ''OneAgentNamespacesMonitored''"
abbreviation metadataEnrichmentNamespacesMonitoredConditionType :: string where
  "metadataEnrichmentNamespacesMonitoredConditionType \<equiv> ''MetadataEnrichmentNamespacesMonitored''"
abbreviation otlpExporterNamespacesMonitoredConditionType :: string where
  "otlpExporterNamespacesMonitoredConditionType \<equiv> ''OTLPExporterConfigurationNamespacesMonitored''"

definition update_namespace :: "mapper_env \<Rightarrow> namespace \<Rightarrow> (mapper_state, unit) io" where
  "update_namespace env ns = call (UpdateNamespaceCall ns) (\<lambda>tr. mmUpdate env tr ns)"

definition MapFromDynakube :: "mapper_env \<Rightarrow> (mapper_state, unit) io" where
  "MapFromDynakube env =
     andThen (MatchingNamespaces env) (\<lambda>modifiedNs.
     andThen (for_each modifiedNs (update_namespace env)) (\<lambda>_.
     andThen (wrap_msg ''delete replicated secrets'' (deleteUnmatchedReplicatedSecrets env)) (\<lambda>_.
     andThen (monitored_condition oneAgentNamespacesMonitoredConditionType flagOneAgent
                (\<lambda>dk. IsAppInjectionNeeded (dk_OneAgent dk))) (\<lambda>_.
     andThen (monitored_condition metadataEnrichmentNamespacesMonitoredConditionType flagMetadata
                (\<lambda>dk. me_IsEnabled (dspMetadataEnrichment (dkSpec dk)))) (\<lambda>_.
     monitored_condition otlpExporterNamespacesMonitoredConditionType flagOTLP
       (\<lambda>dk. otlp_IsEnabled (dk_OTLPExporterConfiguration dk)))))))"

definition UnmapFromDynaKube :: "mapper_env \<Rightarrow> namespace list \<Rightarrow> (mapper_state, unit) io" where
  "UnmapFromDynaKube env namespaces =
     andThen (for_each namespaces (\<lambda>ns.
       andThen (wrap_msg (''failed to remove label '' @ InjectionInstanceLabel @ '' from namespace '' @ nsName ns)
                  (update_namespace env (removeNamespaceInjectLabel ns))) (\<lambda>_.
         deleteReplicatedSecrets env (nsName ns)))) (\<lambda>_.
     andThen (modify_dk (add_condition_op (RemoveStatusCondition oneAgentNamespacesMonitoredConditionType))) (\<lambda>_.
     andThen (modify_dk (add_condition_op (RemoveStatusCondition metadataEnrichmentNamespacesMonitoredConditionType)))
       (\<lambda>_.
     modify_dk (add_condition_op (RemoveStatusCondition otlpExporterNamespacesMonitoredConditionType)))))"

section \<open>The mapper of a namespace\<close>

definition MapFromNamespace :: "match_env \<Rightarrow> error + dynakube list \<Rightarrow> namespace \<Rightarrow> (error + bool) \<times> namespace" where
  "MapFromNamespace env deployedDynakubes targetNs =
     (case deployedDynakubes of
        Inl e \<Rightarrow> (Inl e, targetNs)
      | Inr dks \<Rightarrow>
          (case updateNamespace env dks targetNs of
             (Inl e, ns) \<Rightarrow> (Inl e, ns) | (Inr updated, ns) \<Rightarrow> (Inr updated, ns)))"

section \<open>What one namespace update does\<close>

definition ns_flags :: "match_env \<Rightarrow> dynakube \<Rightarrow> namespace \<Rightarrow> matchFlags" where
  "ns_flags env dk ns = match_flags env dk ns (compileSelectors env dk)"

definition ns_matches :: "match_env \<Rightarrow> namespace \<Rightarrow> dynakube \<Rightarrow> bool" where
  "ns_matches env ns dk \<longleftrightarrow> flags_isAny (ns_flags env dk ns)"

text \<open>No selector looks at the label the mapper itself maintains.\<close>

definition ignores_label :: "match_env \<Rightarrow> bool" where
  "ignores_label env \<longleftrightarrow>
     (\<forall>sel p l v. meCompile env sel = Some p \<longrightarrow> p (l(InjectionInstanceLabel := v)) = p l)"

definition with_label :: "string option \<Rightarrow> namespace \<Rightarrow> namespace" where
  "with_label v ns = ns\<lparr>nsLabels := (nsLabels ns)(InjectionInstanceLabel := v)\<rparr>"

lemma with_label_simps [simp]:
  "nsName (with_label v ns) = nsName ns"
  "nsLabels (with_label v ns) InjectionInstanceLabel = v"
  "with_label v (with_label w ns) = with_label v ns"
  "with_label (nsLabels ns InjectionInstanceLabel) ns = ns"
  by (simp_all add: with_label_def)

lemma label_setters: "addNamespaceInjectLabel n ns = with_label (Some n) ns"
  "removeNamespaceInjectLabel ns = with_label None ns"
  by (simp_all add: addNamespaceInjectLabel_def removeNamespaceInjectLabel_def with_label_def)

lemma ns_flags_with_label:
  assumes "ignores_label env"
  shows "ns_flags env dk (with_label v ns) = ns_flags env dk ns"
proof -
  have "selector_matches (csOneAgent (compileSelectors env dk)) (nsLabels (with_label v ns)) =
        selector_matches (csOneAgent (compileSelectors env dk)) (nsLabels ns)"
    "selector_matches (csMetadata (compileSelectors env dk)) (nsLabels (with_label v ns)) =
        selector_matches (csMetadata (compileSelectors env dk)) (nsLabels ns)"
    "selector_matches (csOTLP (compileSelectors env dk)) (nsLabels (with_label v ns)) =
        selector_matches (csOTLP (compileSelectors env dk)) (nsLabels ns)"
    using assms by (auto simp: ignores_label_def selector_matches_def with_label_def compileSelectors_def
        split: option.splits)
  then show ?thesis by (simp add: ns_flags_def match_flags_def)
qed

lemma ns_matches_with_label [simp]:
  "ignores_label env \<Longrightarrow> ns_matches env (with_label v ns) = ns_matches env ns"
  by (simp add: fun_eq_iff ns_matches_def ns_flags_with_label)

text \<open>A DynaKube that matches has a feature enabled: the early return of the conflict check is never
  taken there.\<close>

lemma conflict_check_matching:
  "ns_matches env ns dk \<Longrightarrow>
   conflict_check dk used = (if used then (Some ErrorConflictingNamespace, True) else (None, True))"
  by (auto simp: ns_matches_def ns_flags_def match_flags_def conflict_check_def flags_isAny_def
      compileSelectors_def selector_matches_def Let_def split: if_splits)

lemma loop_step:
  "updateNamespace_loop env (dk # dks) used updated ns =
     (if ns_matches env ns dk then
        (if used then (Inl ErrorConflictingNamespace, ns)
         else updateNamespace_loop env dks True
           (nsLabels ns InjectionInstanceLabel \<noteq> Some (dkName dk) \<or> updated) (with_label (Some (dkName dk)) ns))
      else if nsLabels ns InjectionInstanceLabel = Some (dkName dk)
        then updateNamespace_loop env dks used True (with_label None ns)
        else updateNamespace_loop env dks used updated ns)"
proof (cases "ns_matches env ns dk")
  case True
  have "with_label (Some (dkName dk)) ns = ns" if "nsLabels ns InjectionInstanceLabel = Some (dkName dk)"
    using that by (metis with_label_simps(4))
  with True conflict_check_matching[OF True, of used] show ?thesis
    by (auto simp: ns_matches_def ns_flags_def updateLabels_def label_setters Let_def)
next
  case False
  then show ?thesis by (auto simp: ns_matches_def ns_flags_def updateLabels_def label_setters Let_def)
qed

lemma loop_no_match:
  assumes "ignores_label env" "filter (ns_matches env ns) dks = []"
  shows "updateNamespace_loop env dks used updated ns =
     (if nsLabels ns InjectionInstanceLabel \<in> Some ` dkName ` set dks
      then (Inr True, with_label None ns) else (Inr updated, ns))"
  using assms(2)
proof (induction dks arbitrary: updated ns)
  case (Cons dk dks)
  have no: "\<not> ns_matches env ns dk" "filter (ns_matches env ns) dks = []"
    using Cons.prems by (auto split: if_splits)
  show ?case
  proof (cases "nsLabels ns InjectionInstanceLabel = Some (dkName dk)")
    case True
    then show ?thesis
      using Cons.IH[of "with_label None ns" True] no assms(1) by (auto simp: loop_step simp del: updateNamespace_loop.simps)
  next
    case False
    then show ?thesis
      using Cons.IH[of ns updated] no by (auto simp: loop_step simp del: updateNamespace_loop.simps)
  qed
qed simp

lemma loop_one_match:
  assumes "ignores_label env" "filter (ns_matches env ns) dks = [dk]" "distinct (map dkName dks)"
  shows "updateNamespace_loop env dks False updated ns =
     (Inr (updated \<or> nsLabels ns InjectionInstanceLabel \<noteq> Some (dkName dk)), with_label (Some (dkName dk)) ns)"
  using assms(2,3)
proof (induction dks arbitrary: updated ns)
  case (Cons d dks)
  show ?case
  proof (cases "ns_matches env ns d")
    case True
    then have d: "d = dk" "filter (ns_matches env ns) dks = []" using Cons.prems by simp_all
    have "Some (dkName dk) \<notin> Some ` dkName ` set dks" using Cons.prems d by auto
    then show ?thesis
      using True d loop_no_match[OF assms(1), of "with_label (Some (dkName dk)) ns" dks] assms(1)
      by (auto simp: loop_step simp del: updateNamespace_loop.simps)
  next
    case False
    then have f: "filter (ns_matches env ns) dks = [dk]" using Cons.prems by simp
    then have "dk \<in> set (filter (ns_matches env ns) dks)" by simp
    then have "dk \<in> set dks" by simp
    then have "dkName d \<noteq> dkName dk" using Cons.prems by auto
    then show ?thesis
      using False f Cons.IH[of "with_label None ns" True] Cons.IH[of ns updated] Cons.prems assms(1)
      by (auto simp: loop_step simp del: updateNamespace_loop.simps)
  qed
qed simp

lemma loop_conflict_used:
  assumes "ignores_label env" "filter (ns_matches env ns) dks \<noteq> []"
  shows "fst (updateNamespace_loop env dks True updated ns) = Inl ErrorConflictingNamespace"
  using assms(2)
proof (induction dks arbitrary: updated ns)
  case (Cons d dks)
  then show ?case
    using Cons.IH[of "with_label None ns" True] Cons.IH[of ns updated] assms(1)
    by (auto simp: loop_step simp del: updateNamespace_loop.simps split: if_splits)
qed simp

lemma loop_conflict:
  assumes "ignores_label env" "length (filter (ns_matches env ns) dks) \<ge> 2"
  shows "fst (updateNamespace_loop env dks False updated ns) = Inl ErrorConflictingNamespace"
  using assms(2)
proof (induction dks arbitrary: updated ns)
  case (Cons d dks)
  show ?case
  proof (cases "ns_matches env ns d")
    case True
    with Cons.prems have "filter (ns_matches env ns) dks \<noteq> []" by auto
    with True loop_conflict_used[OF assms(1), of "with_label (Some (dkName d)) ns"] assms(1) show ?thesis
      by (auto simp: loop_step simp del: updateNamespace_loop.simps)
  next
    case False
    with Cons show ?thesis
      using Cons.IH[of "with_label None ns" True] Cons.IH[of ns updated] assms(1)
      by (auto simp: loop_step simp del: updateNamespace_loop.simps)
  qed
qed simp

lemma updateNamespace_cases:
  assumes "ignores_label env" "distinct (map dkName dks)"
  shows "case filter (ns_matches env ns) dks of
       [] \<Rightarrow> updateNamespace env dks ns =
              (if nsLabels ns InjectionInstanceLabel \<in> Some ` dkName ` set dks
               then (Inr True, with_label None ns) else (Inr False, ns))
     | [dk] \<Rightarrow> updateNamespace env dks ns =
              (Inr (nsLabels ns InjectionInstanceLabel \<noteq> Some (dkName dk)), with_label (Some (dkName dk)) ns)
     | _ \<Rightarrow> fst (updateNamespace env dks ns) = Inl ErrorConflictingNamespace"
  using loop_no_match[OF assms(1), of ns dks] loop_one_match[OF assms(1) _ assms(2)]
    loop_conflict[OF assms(1), of ns dks]
  by (auto simp: updateNamespace_def split: list.split)


section \<open>Calls of the mapper\<close>

text \<open>\<open>adds m cs\<close>: when \<open>m\<close> succeeds, it has made the calls \<open>cs\<close> and changed nothing else.\<close>

definition adds :: "(mapper_state, unit) io \<Rightarrow> mapper_call list \<Rightarrow> bool" where
  "adds m cs \<longleftrightarrow> (\<forall>st st'. m st = (Inr (), st') \<longrightarrow> st' = st\<lparr>msTrace := msTrace st @ cs\<rparr>)"

lemma adds_call: "adds (call c f) [c]"
  by (auto simp: adds_def call_def split: option.splits)

lemma adds_andThen: "adds m cs \<Longrightarrow> adds n ds \<Longrightarrow> adds (andThen m (\<lambda>_. n)) (cs @ ds)"
  unfolding adds_def andThen_Inr by fastforce

lemma adds_ret: "adds (ret ()) []"
  by (simp add: adds_def io_simps)

lemma adds_wrap: "adds m cs \<Longrightarrow> adds (wrap_msg msg m) cs"
  by (auto simp: adds_def wrap_msg_def split: prod.splits sum.splits)

lemma adds_for_each: "(\<And>x. x \<in> set xs \<Longrightarrow> adds (f x) (g x)) \<Longrightarrow> adds (for_each xs f) (concat (map g xs))"
  by (induction xs) (auto intro: adds_ret adds_andThen)

lemma run_all_Inr: "run_all ms st = (r, st') \<Longrightarrow> \<exists>es. r = Inr es"
  by (induction ms arbitrary: st r st') (auto simp: io_simps split: prod.splits sum.splits)

lemma adds_join_all:
  assumes "\<And>x. x \<in> set xs \<Longrightarrow> adds (f x) (g x)"
  shows "adds (join_all (map f xs)) (concat (map g xs))"
proof -
  have "run_all (map f xs) st = (Inr [], st') \<Longrightarrow> st' = st\<lparr>msTrace := msTrace st @ concat (map g xs)\<rparr>" for st st'
    using assms
  proof (induction xs arbitrary: st)
    case (Cons x xs)
    obtain r s1 where f: "f x st = (r, s1)" by fastforce
    from Cons.prems(1) f have r: "r = Inr ()" and rest: "run_all (map f xs) s1 = (Inr [], st')"
      by (auto simp: io_simps split: prod.splits sum.splits)
    have "s1 = st\<lparr>msTrace := msTrace st @ g x\<rparr>"
      using Cons.prems(2)[of x] f r by (auto simp: adds_def)
    with Cons.IH[OF rest] Cons.prems(2) show ?case by simp
  qed (simp add: io_simps)
  then show ?thesis
    unfolding adds_def join_all_def
    by (auto simp: andThen_Inr throw_def ret_def split: option.splits if_splits)
qed

lemma concat_single [simp]: "concat (map (\<lambda>x. [f x]) xs) = map f xs"
  by (induction xs) auto

lemma adds_delete_all:
  "adds (join_all (map (\<lambda>s. DeleteForNamespace env s n) ss)) (map (\<lambda>s. DeleteSecretCall s n) ss)"
  using adds_join_all[of ss "\<lambda>s. DeleteForNamespace env s n" "\<lambda>s. [DeleteSecretCall s n]"]
  by (simp add: DeleteForNamespace_def adds_call)

lemma adds_deleteUnmatched:
  assumes "deleteUnmatchedReplicatedSecrets env st = (Inr (), st')"
  shows "st' = st\<lparr>msTrace := msTrace st @
     concat (map (\<lambda>(n, _, flags). map (\<lambda>s. DeleteSecretCall s n) (unmatched_secrets flags)) (msMatched st))\<rparr>"
proof -
  have "adds (for_each (msMatched st) (\<lambda>(ns, _, flags).
         join_all (map (\<lambda>s. DeleteForNamespace env s ns) (unmatched_secrets flags))))
      (concat (map (\<lambda>(n, _, flags). map (\<lambda>s. DeleteSecretCall s n) (unmatched_secrets flags)) (msMatched st)))"
    by (rule adds_for_each) (auto intro: adds_delete_all)
  then show ?thesis
    using assms by (auto simp: deleteUnmatchedReplicatedSecrets_def andThen_def gets_def adds_def)
qed

lemma adds_updates: "adds (for_each nss (update_namespace env)) (map UpdateNamespaceCall nss)"
proof -
  have "adds (for_each nss (update_namespace env)) (concat (map (\<lambda>ns. [UpdateNamespaceCall ns]) nss))"
    by (rule adds_for_each) (simp add: update_namespace_def adds_call)
  then show ?thesis by simp
qed

text \<open>What \<open>mapNamespaces\<close> collects.\<close>

definition relevant :: "match_env \<Rightarrow> dynakube \<Rightarrow> namespace \<Rightarrow> bool" where
  "relevant env dk ns \<longleftrightarrow>
     read_label ns = dkName dk \<or> flags_isAny (ns_flags env dk ns)"

abbreviation tenv :: "mapper_env \<Rightarrow> match_env" where "tenv env \<equiv> match_env.truncate env"

lemma mapNamespaces_trace: "keeps (\<lambda>st. msTrace st = tr \<and> msDk st = dk0) (mapNamespaces env dk dks nss)"
  by (induction nss) (auto simp: Let_def set_matched_def intro!: keeps_intro split: prod.splits)

lemma alist_update_new: "k \<notin> fst ` set al \<Longrightarrow> AList.update k v al = al @ [(k, v)]"
  by (induction al) auto

lemma mapNamespaces_result:
  assumes "mapNamespaces env dk dks nss st = (Inr upd, st')" "distinct (map nsName nss)"
    and "\<forall>ns\<in>set nss. map_of (msMatched st) (nsName ns) = None"
  shows "upd = map (\<lambda>ns. snd (updateNamespace (tenv env) dks ns))
             (filter (\<lambda>ns. fst (updateNamespace (tenv env) dks ns) = Inr True) nss) \<and>
     msMatched st' = msMatched st @ map (\<lambda>ns. (nsName ns, snd (updateNamespace (tenv env) dks ns),
         ns_flags (tenv env) dk ns)) (filter (relevant (tenv env) dk) nss) \<and>
     (\<forall>ns\<in>set nss. \<exists>b. fst (updateNamespace (tenv env) dks ns) = Inr b)"
  using assms
proof (induction nss arbitrary: st upd)
  case Nil
  then show ?case by (simp add: io_simps)
next
  case (Cons ns nss)
  obtain r ns' where u: "updateNamespace (tenv env) dks ns = (r, ns')" by fastforce
  define st1 where "st1 = (if relevant (tenv env) dk ns
     then st\<lparr>msMatched := msMatched st @ [(nsName ns, ns', ns_flags (tenv env) dk ns)]\<rparr> else st)"
  have none: "map_of (msMatched st) (nsName ns) = None" using Cons.prems(3) by simp
  then have upd_new: "AList.update (nsName ns) v (msMatched st) = msMatched st @ [(nsName ns, v)]" for v
    by (simp add: map_of_eq_None_iff alist_update_new)
  have "\<exists>b rest. r = Inr b \<and> mapNamespaces env dk dks nss st1 = (Inr rest, st') \<and>
      upd = (if b then ns' # rest else rest)"
    using Cons.prems(1) u none
    by (auto simp: Let_def andThen_Inr gets_def whenM_def set_matched_def modify_def lift_def ret_def
        upd_new st1_def relevant_def ns_flags_def split: if_splits)
  then obtain b rest where b: "r = Inr b" and rest: "mapNamespaces env dk dks nss st1 = (Inr rest, st')"
    and upd: "upd = (if b then ns' # rest else rest)" by blast
  have "\<forall>x\<in>set nss. map_of (msMatched st1) (nsName x) = None"
  proof
    fix x assume x: "x \<in> set nss"
    then have "nsName x \<in> nsName ` set nss" by (rule imageI)
    with Cons.prems(2) have "nsName x \<noteq> nsName ns" by auto
    with x Cons.prems(3) show "map_of (msMatched st1) (nsName x) = None" by (auto simp: st1_def)
  qed
  from Cons.IH[OF rest _ this] Cons.prems(2) b upd u show ?case
    by (auto simp: st1_def)
qed


lemma mapNamespaces_step:
  assumes "mapNamespaces env dk dks (ns # nss) st = (Inr upd, st')"
  shows "\<exists>b rest st1. fst (updateNamespace (tenv env) dks ns) = Inr b \<and>
    mapNamespaces env dk dks nss st1 = (Inr rest, st')"
proof -
  obtain r ns' where u: "updateNamespace (tenv env) dks ns = (r, ns')" by fastforce
  from assms show ?thesis by (auto simp: u Let_def andThen_Inr ret_def)
qed

lemma mapNamespaces_ok:
  "mapNamespaces env dk dks nss st = (Inr upd, st') \<Longrightarrow>
   \<forall>ns\<in>set nss. \<exists>b. fst (updateNamespace (tenv env) dks ns) = Inr b"
proof (induction nss arbitrary: st upd)
  case (Cons ns nss)
  from mapNamespaces_step[OF Cons.prems] Cons.IH show ?case by fastforce
qed simp

definition selected_bootstrap :: "match_env \<Rightarrow> dynakube \<Rightarrow> namespace \<Rightarrow> bool" where
  "selected_bootstrap env dk ns \<longleftrightarrow>
     \<not> isIgnoredNamespace env dk (nsName ns) \<and>
     (selector_matches (csOneAgent (compileSelectors env dk)) (nsLabels ns) \<or>
      selector_matches (csMetadata (compileSelectors env dk)) (nsLabels ns))"

definition selected_otlp :: "match_env \<Rightarrow> dynakube \<Rightarrow> namespace \<Rightarrow> bool" where
  "selected_otlp env dk ns \<longleftrightarrow>
     \<not> isIgnoredNamespace env dk (nsName ns) \<and>
     selector_matches (csOTLP (compileSelectors env dk)) (nsLabels ns)"

lemma flags_selected:
  "flags_isBootstrap (ns_flags env dk ns) = selected_bootstrap env dk ns"
  "flags_isOTLP (ns_flags env dk ns) = selected_otlp env dk ns"
  "flags_isAny (ns_flags env dk ns) = (selected_bootstrap env dk ns \<or> selected_otlp env dk ns)"
  by (auto simp: ns_flags_def match_flags_def flags_isBootstrap_def flags_isOneAgent_def
      flags_isMetadata_def flags_isOTLP_def flags_isAny_def selected_bootstrap_def selected_otlp_def Let_def)

lemma unmatched_secrets_iff:
  "s \<in> set (unmatched_secrets (ns_flags env dk ns)) \<longleftrightarrow>
     (s \<in> {BootstrapperInitSecretName, BootstrapperInitCertsSecretName} \<and> \<not> selected_bootstrap env dk ns \<or>
      s \<in> {OTLPExporterSecretName, OTLPExporterCertsSecretName} \<and> \<not> selected_otlp env dk ns)"
  by (auto simp: unmatched_secrets_def flags_selected)

lemma MatchingNamespaces_keeps: "keeps (\<lambda>st. msTrace st = tr \<and> msDk st = dk0) (MatchingNamespaces env)"
  unfolding MatchingNamespaces_def mapFromDynakube_def by (intro keeps_intro mapNamespaces_trace)

lemma monitored_condition_trace: "monitored_condition t q a st = (Inr (), st') \<Longrightarrow> msTrace st' = msTrace st"
  by (auto simp: monitored_condition_def modify_def)

lemma MapFromDynakube_trace:
  assumes "MapFromDynakube env st = (Inr (), st')" "msTrace st = []" "msMatched st = []"
    and "mmListNamespaces env = Inr nss" "mmListDynaKubes env = Inr dks" "distinct (map nsName nss)"
  defines "up \<equiv> updateNamespace (tenv env) (replace_dynakube (msDk st) dks)"
  shows "msTrace st' =
     map UpdateNamespaceCall (map (\<lambda>ns. snd (up ns)) (filter (\<lambda>ns. fst (up ns) = Inr True) nss)) @
     concat (map (\<lambda>ns. map (\<lambda>s. DeleteSecretCall s (nsName ns)) (unmatched_secrets (ns_flags (tenv env) (msDk st) ns)))
       (filter (relevant (tenv env) (msDk st)) nss))"
proof -
  obtain upd s1 s2 s3 s4 s5 where m: "mapNamespaces env (msDk st) (replace_dynakube (msDk st) dks) nss st = (Inr upd, s1)"
    and u: "for_each upd (update_namespace env) s1 = (Inr (), s2)"
    and del: "deleteUnmatchedReplicatedSecrets env s2 = (Inr (), s3)"
    and c: "msTrace st' = msTrace s3"
    using assms(1,4,5)
    by (auto simp: MapFromDynakube_def MatchingNamespaces_def mapFromDynakube_def andThen_Inr
        dest!: monitored_condition_trace)
  have t1: "msTrace s1 = []"
    using keepsD[OF mapNamespaces_trace[where tr = "[]" and env = env and dk = "msDk st" and dk0 = "msDk st"
        and dks = "replace_dynakube (msDk st) dks" and nss = nss], of st]
      assms(2) m by simp
  note res = mapNamespaces_result[OF m assms(6)]
  have s2: "s2 = s1\<lparr>msTrace := msTrace s1 @ map UpdateNamespaceCall upd\<rparr>"
    using adds_updates[where env = env and nss = upd] u by (simp add: adds_def)
  show ?thesis
    using res assms(3) t1 s2 adds_deleteUnmatched[OF del] c by (simp add: up_def comp_def)
qed

section \<open>Properties\<close>

text \<open>The label of a namespace after a successful update: with no matching DynaKube, a label naming a
  deployed DynaKube is removed and any other is left; with exactly one, the label names it; with two
  or more the update fails. The update is reported exactly when the label changed.\<close>

theorem updateNamespace_label:
  assumes "ignores_label env" and "distinct (map dkName dks)"
  shows "case filter (ns_matches env ns) dks of
       [] \<Rightarrow> updateNamespace env dks ns =
              (if nsLabels ns InjectionInstanceLabel \<in> Some ` dkName ` set dks
               then (Inr True, with_label None ns) else (Inr False, ns))
     | [dk] \<Rightarrow> updateNamespace env dks ns =
              (Inr (nsLabels ns InjectionInstanceLabel \<noteq> Some (dkName dk)), with_label (Some (dkName dk)) ns)
     | _ \<Rightarrow> fst (updateNamespace env dks ns) = Inl ErrorConflictingNamespace"
  by (rule updateNamespace_cases[OF assms])

text \<open>A conflict stops the mapper before anything is changed in the cluster: when two DynaKubes match
  one of the namespaces, no namespace is updated and no secret is deleted.\<close>

theorem conflict_changes_nothing:
  assumes "ignores_label (tenv env)" and "mmListNamespaces env = Inr nss" and "mmListDynaKubes env = Inr dks"
    and "ns \<in> set nss"
    and "length (filter (ns_matches (tenv env) ns) (replace_dynakube (msDk st) dks)) \<ge> 2"
  shows "isl (fst (MapFromDynakube env st)) \<and> msTrace (snd (MapFromDynakube env st)) = msTrace st"
proof -
  let ?m = "mapNamespaces env (msDk st) (replace_dynakube (msDk st) dks) nss"
  have mn: "MatchingNamespaces env st = ?m st"
    by (simp add: MatchingNamespaces_def mapFromDynakube_def assms(2,3) andThen_lift_Inr andThen_gets)
  have err: "fst (updateNamespace (tenv env) (replace_dynakube (msDk st) dks) ns) = Inl ErrorConflictingNamespace"
    using loop_conflict[OF assms(1,5)] by (simp add: updateNamespace_def)
  obtain e s1 where e: "?m st = (Inl e, s1)"
  proof (cases "?m st")
    case (Pair r s1)
    show thesis
    proof (cases r)
      case (Inr upd)
      with Pair mapNamespaces_ok[where env = env and dk = "msDk st" and dks = "replace_dynakube (msDk st) dks"
          and nss = nss and st = st and upd = upd and st' = s1] assms(4) err
      show thesis by fastforce
    qed (use Pair that in auto)
  qed
  have "msTrace s1 = msTrace st"
    using keepsD[OF mapNamespaces_trace[where tr = "msTrace st" and env = env and dk = "msDk st"
        and dk0 = "msDk st" and dks = "replace_dynakube (msDk st) dks" and nss = nss], of st] e
    by simp
  then show ?thesis using e by (simp add: MapFromDynakube_def andThen_def mn)
qed

text \<open>C18. After a successful mapping the secrets of a namespace are exactly those it needs: the
  bootstrapper secrets are deleted from precisely the namespaces that carry the DynaKube's label or
  match it but are not selected for OneAgent or metadata enrichment, the OTLP secrets likewise from
  those not selected for OTLP; and precisely the namespaces whose label changed are updated.\<close>

theorem mapping_calls_exact:
  assumes "MapFromDynakube env st = (Inr (), st')" and "msTrace st = []" and "msMatched st = []"
    and "mmListNamespaces env = Inr nss" and "mmListDynaKubes env = Inr dks" and "distinct (map nsName nss)"
  shows "(DeleteSecretCall s n \<in> set (msTrace st') \<longleftrightarrow>
      (\<exists>ns\<in>set nss. nsName ns = n \<and>
        (read_label ns = dkName (msDk st) \<or>
         selected_bootstrap (tenv env) (msDk st) ns \<or> selected_otlp (tenv env) (msDk st) ns) \<and>
        (s \<in> {BootstrapperInitSecretName, BootstrapperInitCertsSecretName} \<and>
           \<not> selected_bootstrap (tenv env) (msDk st) ns \<or>
         s \<in> {OTLPExporterSecretName, OTLPExporterCertsSecretName} \<and>
           \<not> selected_otlp (tenv env) (msDk st) ns))) \<and>
    (UpdateNamespaceCall ns' \<in> set (msTrace st') \<longleftrightarrow>
      (\<exists>ns\<in>set nss. updateNamespace (tenv env) (replace_dynakube (msDk st) dks) ns = (Inr True, ns')))"
proof -
  let ?up = "updateNamespace (tenv env) (replace_dynakube (msDk st) dks)"
  note tr = MapFromDynakube_trace[OF assms]
  have "DeleteSecretCall s n \<in> set (msTrace st') \<longleftrightarrow>
      (\<exists>ns\<in>set nss. nsName ns = n \<and> relevant (tenv env) (msDk st) ns \<and>
         s \<in> set (unmatched_secrets (ns_flags (tenv env) (msDk st) ns)))"
    unfolding tr by auto
  moreover have "UpdateNamespaceCall ns' \<in> set (msTrace st') \<longleftrightarrow> (\<exists>ns\<in>set nss. ?up ns = (Inr True, ns'))"
    unfolding tr by (auto simp: image_iff) (metis prod.collapse)+
  ultimately show ?thesis
    unfolding unmatched_secrets_iff relevant_def flags_selected by blast
qed

section \<open>The properties on concrete inputs\<close>

definition sample_match_env :: match_env where
  "sample_match_env = \<lparr>meCompile = \<lambda>_. Some (\<lambda>l. l ''app'' = Some ''x''), meRegexp = \<lambda>_ _. False,
     meJSONStrings = \<lambda>_. None\<rparr>"

definition sample_enriching :: "string \<Rightarrow> dynakube" where
  "sample_enriching n = zero_dynakube\<lparr>dkName := n, dkSpec := zero_dynakube_spec\<lparr>dspMetadataEnrichment :=
     \<lparr>meEnabled = Some True, meNamespaceSelector = zero_selector, meInitResources = None\<rparr>\<rparr>\<rparr>"

definition sample_mapper_env :: "namespace list \<Rightarrow> dynakube list \<Rightarrow> mapper_env" where
  "sample_mapper_env nss dks = match_env.extend sample_match_env
     \<lparr>mmListNamespaces = Inr nss, mmListDynaKubes = Inr dks, mmUpdate = \<lambda>_ _. None, mmDelete = \<lambda>_ _ _. None\<rparr>"

abbreviation sample_selected_ns :: namespace where
  "sample_selected_ns \<equiv> \<lparr>nsName = ''n2'', nsLabels = [''app'' \<mapsto> ''x'']\<rparr>"

abbreviation sample_labelled_ns :: namespace where
  "sample_labelled_ns \<equiv> \<lparr>nsName = ''n1'', nsLabels = [InjectionInstanceLabel \<mapsto> ''a'']\<rparr>"

lemma sample_mapper_env_simps [simp]:
  "match_env.truncate (sample_mapper_env nss dks) = sample_match_env"
  "mmListNamespaces (sample_mapper_env nss dks) = Inr nss"
  "mmListDynaKubes (sample_mapper_env nss dks) = Inr dks"
  by (simp_all add: sample_mapper_env_def sample_match_env_def match_env.defs)

lemma sample_ignores_label: "ignores_label sample_match_env"
  by (simp add: ignores_label_def sample_match_env_def)

lemma sample_not_ignored: "\<not> isIgnoredNamespace sample_match_env dk n"
  by (simp add: isIgnoredNamespace_def sample_match_env_def list_ex_iff)

lemma sample_compiled:
  "compileSelectors sample_match_env (sample_enriching n) =
     \<lparr>csOneAgent = None, csMetadata = Some (\<lambda>l. l ''app'' = Some ''x''), csOTLP = None\<rparr>"
  by (simp add: compileSelectors_def sample_enriching_def zero_dynakube_def zero_dynakube_spec_def
      zero_oneagent_spec_def me_IsEnabled_def IsAppInjectionNeeded_def IsApplicationMonitoringMode_def
      IsCloudNativeFullstackMode_def dk_OneAgent_def dk_OTLPExporterConfiguration_def otlp_IsEnabled_def
      sample_match_env_def)

lemma sample_selected:
  "selected_bootstrap sample_match_env (sample_enriching n) ns \<longleftrightarrow> nsLabels ns ''app'' = Some ''x''"
  "\<not> selected_otlp sample_match_env (sample_enriching n) ns"
  by (simp_all add: selected_bootstrap_def selected_otlp_def sample_not_ignored sample_compiled
      selector_matches_def)

lemma sample_ns_matches:
  "ns_matches sample_match_env ns (sample_enriching n) \<longleftrightarrow> nsLabels ns ''app'' = Some ''x''"
  by (simp add: ns_matches_def flags_selected sample_selected)

lemma sample_name [simp]: "dkName (sample_enriching n) = n"
  by (simp add: sample_enriching_def)

theorem updateNamespace_label_witness:
  "updateNamespace sample_match_env [sample_enriching ''a''] sample_selected_ns =
     (Inr True, with_label (Some ''a'') sample_selected_ns)"
  using updateNamespace_label[OF sample_ignores_label, of "[sample_enriching ''a'']" sample_selected_ns]
  by (simp add: sample_ns_matches)

definition sample_mapper_state :: mapper_state where
  "sample_mapper_state = \<lparr>msTrace = [], msMatched = [], msDk = sample_enriching ''a''\<rparr>"

theorem conflict_changes_nothing_witness:
  "isl (fst (MapFromDynakube
     (sample_mapper_env [sample_labelled_ns, sample_selected_ns] [sample_enriching ''b'']) sample_mapper_state))"
  using conflict_changes_nothing[of "sample_mapper_env [sample_labelled_ns, sample_selected_ns] [sample_enriching ''b'']"
      "[sample_labelled_ns, sample_selected_ns]" "[sample_enriching ''b'']" sample_selected_ns sample_mapper_state]
  by (simp add: sample_ignores_label sample_ns_matches sample_mapper_state_def)

theorem mapping_calls_witness:
  "DeleteSecretCall BootstrapperInitSecretName ''n1'' \<in> set (msTrace (snd (MapFromDynakube
     (sample_mapper_env [sample_labelled_ns, sample_selected_ns] []) sample_mapper_state)))"
proof -
  let ?env = "sample_mapper_env [sample_labelled_ns, sample_selected_ns] []"
  have "fst (MapFromDynakube ?env sample_mapper_state) = Inr ()"
    by code_simp
  then have run: "MapFromDynakube ?env sample_mapper_state = (Inr (), snd (MapFromDynakube ?env sample_mapper_state))"
    by (metis prod.collapse)
  show ?thesis
    using mapping_calls_exact[OF run, of "[sample_labelled_ns, sample_selected_ns]" "[]"
        BootstrapperInitSecretName "''n1''"]
    by (simp add: sample_mapper_state_def sample_selected read_label_def)
qed

end
