(* ===== verification/NodeCache.thy ===== *)
theory NodeCache
  imports GoStd "HOL-Library.AList"
begin

text \<open>
  \<open>pkg/controllers/nodes/cache/cache.go\<close>: the cache of the node controller, a config map with one JSON
  entry per node. \<open>json.Marshal\<close>/\<open>Unmarshal\<close> of an entry and RFC 3339 formatting are the fields of
  \<open>codec\<close>; the data of the config map is an association list in one iteration order of the Go map,
  \<open>None\<close> the nil map.
\<close>

section \<open>Entries and the config map\<close>

record node_entry =
  neLastSeen :: int
  neLastMarked :: int
  neIPAddress :: string
  neNodeName :: string
  neDynaKubeName :: string

definition zero_entry :: node_entry where
  "zero_entry = \<lparr>neLastSeen = 0, neLastMarked = 0, neIPAddress = [], neNodeName = [], neDynaKubeName = []\<rparr>"

definition IsMarkableForTermination :: "node_entry \<Rightarrow> int \<Rightarrow> bool" where
  "IsMarkableForTermination entry now \<longleftrightarrow> time_sub now (neLastMarked entry) > hour"

definition SetLastMarkedForTerminationTimestamp :: "int \<Rightarrow> node_entry \<Rightarrow> node_entry" where
  "SetLastMarkedForTerminationTimestamp now entry = entry\<lparr>neLastMarked := now\<rparr>"

record codec =
  cdMarshal :: "node_entry \<Rightarrow> error + string"
  cdUnmarshal :: "string \<Rightarrow> error + node_entry"
  cdFormat :: "int \<Rightarrow> string"
  cdParse :: "string \<Rightarrow> int option"

abbreviation ConfigMapName :: string where "ConfigMapName \<equiv> ''dynatrace-node-cache''"
abbreviation lastUpdatedAnnotation :: string where "lastUpdatedAnnotation \<equiv> ''DTOperatorLastUpdated''"
abbreviation pruneInterval :: int where "pruneInterval \<equiv> 10 * minute"
abbreviation ErrEntryNotFound :: error where "ErrEntryNotFound \<equiv> Sentinel ''node entry not found''"

record config_map =
  cmData :: "(string \<times> string) list option"
  cmAnnotations :: "string \<rightharpoonup> string"

record node_cache =
  ncObj :: config_map
  ncCreate :: bool
  ncUpdate :: bool

definition newCache :: "config_map \<Rightarrow> bool \<Rightarrow> node_cache" where
  "newCache data create = \<lparr>ncObj = data, ncCreate = create, ncUpdate = False\<rparr>"

text \<open>
  \<open>cache.New\<close> from the answer of \<open>Get\<close>; \<open>setOwner\<close> is \<open>SetControllerReference\<close> on the new config
  map when there is an owner.
\<close>

definition cache_New :: "error + config_map \<Rightarrow> error option \<Rightarrow> error + node_cache" where
  "cache_New answer setOwner =
     (case answer of
        Inr cm \<Rightarrow> Inr (newCache cm False)
      | Inl e \<Rightarrow>
          if is_not_found e then
            (case setOwner of Some e' \<Rightarrow> Inl e'
             | None \<Rightarrow> Inr (newCache \<lparr>cmData = Some [], cmAnnotations = Map.empty\<rparr> True))
          else Inl e)"

section \<open>Operations\<close>

definition cache_data :: "node_cache \<Rightarrow> (string \<times> string) list" where
  "cache_data c = (case cmData (ncObj c) of None \<Rightarrow> [] | Some d \<Rightarrow> d)"

definition GetEntry :: "codec \<Rightarrow> node_cache \<Rightarrow> string \<Rightarrow> error + node_entry" where
  "GetEntry cd c node =
     (case map_of (cache_data c) node of
        None \<Rightarrow> Inl ErrEntryNotFound
      | Some raw \<Rightarrow>
          (case cdUnmarshal cd raw of Inl e \<Rightarrow> Inl e | Inr out \<Rightarrow> Inr (out\<lparr>neNodeName := node\<rparr>)))"

definition SetEntry :: "codec \<Rightarrow> string \<Rightarrow> node_entry \<Rightarrow> node_cache \<Rightarrow> error + node_cache" where
  "SetEntry cd node entry c =
     (case cdMarshal cd entry of
        Inl e \<Rightarrow> Inl e
      | Inr raw \<Rightarrow>
          Inr (c\<lparr>ncObj := (ncObj c)\<lparr>cmData := Some (AList.update node raw (cache_data c))\<rparr>, ncUpdate := True\<rparr>))"

definition DeleteEntry :: "string \<Rightarrow> node_cache \<Rightarrow> node_cache" where
  "DeleteEntry node c =
     (case cmData (ncObj c) of
        None \<Rightarrow> c
      | Some d \<Rightarrow> c\<lparr>ncObj := (ncObj c)\<lparr>cmData := Some (AList.delete node d)\<rparr>, ncUpdate := True\<rparr>)"

definition Keys :: "node_cache \<Rightarrow> string list" where
  "Keys c = (case cmData (ncObj c) of None \<Rightarrow> [] | Some d \<Rightarrow> map fst d)"

definition Changed :: "node_cache \<Rightarrow> bool" where
  "Changed c \<longleftrightarrow> ncCreate c \<or> ncUpdate c"

definition IsOutdated :: "codec \<Rightarrow> int \<Rightarrow> node_cache \<Rightarrow> bool" where
  "IsOutdated cd now c =
     (case cmAnnotations (ncObj c) lastUpdatedAnnotation of
        Some lastUpdated \<Rightarrow>
          (case cdParse cd lastUpdated of
             Some t \<Rightarrow> time_sub now t > pruneInterval
           | None \<Rightarrow> False)
      | None \<Rightarrow> True)"

definition UpdateTimestamp :: "codec \<Rightarrow> int \<Rightarrow> node_cache \<Rightarrow> node_cache" where
  "UpdateTimestamp cd now c =
     c\<lparr>ncObj := (ncObj c)\<lparr>cmAnnotations := (cmAnnotations (ncObj c))(lastUpdatedAnnotation \<mapsto> cdFormat cd now)\<rparr>,
       ncUpdate := True\<rparr>"

text \<open>
  One round of the loop of \<open>Prune\<close>. The error of \<open>GetEntry\<close> is ignored: an entry that does not
  decode is the zero entry, whose node name is empty.
\<close>

definition prune_step :: "codec \<Rightarrow> string list \<Rightarrow> int \<Rightarrow> string \<Rightarrow> node_cache \<times> string list \<Rightarrow> node_cache \<times> string list" where
  "prune_step cd nodes now name acc =
     (case acc of (c, toBePruned) \<Rightarrow>
        if name \<in> set nodes then
          let entry = (case GetEntry cd c name of Inl _ \<Rightarrow> zero_entry | Inr e \<Rightarrow> e);
              isNodeDeletable = (time_sub now (neLastSeen entry) > hour \<or> neIPAddress entry = [])
          in (if isNodeDeletable then (DeleteEntry (neNodeName entry) c, toBePruned) else (c, toBePruned))
        else (c, toBePruned @ [name]))"

definition Prune :: "codec \<Rightarrow> string list \<Rightarrow> int \<Rightarrow> node_cache \<Rightarrow> node_cache \<times> string list" where
  "Prune cd nodes now c = fold (prune_step cd nodes now) (Keys c) (c, [])"

section \<open>Laws of the cache\<close>

text \<open>
  What the code relies on of the JSON package: an entry that was written reads back, its node name
  aside, which is not part of the JSON text.
\<close>

definition codec_roundtrip :: "codec \<Rightarrow> bool" where
  "codec_roundtrip cd \<longleftrightarrow>
     (\<forall>e raw. cdMarshal cd e = Inr raw \<longrightarrow> cdUnmarshal cd raw = Inr (e\<lparr>neNodeName := []\<rparr>))"

lemma cache_data_delete [simp]: "cache_data (DeleteEntry n c) = AList.delete n (cache_data c)"
  by (auto simp: DeleteEntry_def cache_data_def split: option.split)

lemma Keys_data: "Keys c = map fst (cache_data c)"
  by (auto simp: Keys_def cache_data_def split: option.split)

lemma SetEntry_data:
  "SetEntry cd n e c = Inr c' \<Longrightarrow>
   \<exists>raw. cdMarshal cd e = Inr raw \<and> cache_data c' = AList.update n raw (cache_data c)"
  by (auto simp: SetEntry_def cache_data_def split: sum.splits)

lemma GetEntry_SetEntry_same:
  assumes "codec_roundtrip cd" "SetEntry cd n e c = Inr c'"
  shows "GetEntry cd c' n = Inr (e\<lparr>neNodeName := n\<rparr>)"
  using SetEntry_data[OF assms(2)] assms(1)
  by (auto simp: GetEntry_def codec_roundtrip_def update_conv')

lemma GetEntry_SetEntry_other:
  "SetEntry cd n e c = Inr c' \<Longrightarrow> m \<noteq> n \<Longrightarrow> GetEntry cd c' m = GetEntry cd c m"
  by (auto simp: GetEntry_def update_conv' dest!: SetEntry_data split: option.splits)

lemma GetEntry_DeleteEntry:
  "GetEntry cd (DeleteEntry n c) m = (if m = n then Inl ErrEntryNotFound else GetEntry cd c m)"
  by (simp add: GetEntry_def delete_conv')

lemma GetEntry_name: "GetEntry cd c n = Inr e \<Longrightarrow> neNodeName e = n"
  by (auto simp: GetEntry_def split: option.splits sum.splits)

lemma GetEntry_UpdateTimestamp [simp]: "GetEntry cd (UpdateTimestamp cd' t c) n = GetEntry cd c n"
  by (simp add: GetEntry_def UpdateTimestamp_def cache_data_def)

lemma IsOutdated_SetEntry: "SetEntry cd n e c = Inr c' \<Longrightarrow> IsOutdated cd t c' = IsOutdated cd t c"
  by (auto simp: SetEntry_def IsOutdated_def split: sum.splits)

text \<open>Which nodes \<open>Prune\<close> drops from the cache at once.\<close>

definition prunable :: "codec \<Rightarrow> string list \<Rightarrow> int \<Rightarrow> node_cache \<Rightarrow> string \<Rightarrow> bool" where
  "prunable cd nodes now c n \<longleftrightarrow>
     n \<in> set nodes \<and> (\<exists>e. GetEntry cd c n = Inr e \<and> (time_sub now (neLastSeen e) > hour \<or> neIPAddress e = []))"

lemma delete_idle: "k \<notin> fst ` set d \<Longrightarrow> AList.delete k d = d"
  by (induction d) auto

lemma prune_step_effect:
  assumes "[] \<notin> set (Keys c)"
  shows "cache_data (fst (prune_step cd nodes now n (c, acc))) =
           (if prunable cd nodes now c n then AList.delete n (cache_data c) else cache_data c) \<and>
         snd (prune_step cd nodes now n (c, acc)) = (if n \<in> set nodes then acc else acc @ [n])"
proof -
  have "AList.delete [] (cache_data c) = cache_data c"
    using assms by (simp add: Keys_data delete_idle)
  then show ?thesis
    by (cases "GetEntry cd c n")
       (auto simp: prune_step_def prunable_def zero_entry_def Let_def dest: GetEntry_name)
qed

lemma prunable_cong:
  "map_of (cache_data c) n = map_of (cache_data c') n \<Longrightarrow> prunable cd nodes now c n = prunable cd nodes now c' n"
  by (simp add: prunable_def GetEntry_def)

lemma fold_prune:
  assumes "distinct ks" "[] \<notin> set (Keys c)"
  shows "cache_data (fst (fold (prune_step cd nodes now) ks (c, acc))) =
           filter (\<lambda>(k, _). \<not> (k \<in> set ks \<and> prunable cd nodes now c k)) (cache_data c) \<and>
         snd (fold (prune_step cd nodes now) ks (c, acc)) = acc @ filter (\<lambda>k. k \<notin> set nodes) ks"
  using assms
proof (induction ks arbitrary: c acc)
  case Nil
  then show ?case by simp
next
  case (Cons n ks)
  obtain c1 acc1 where s: "prune_step cd nodes now n (c, acc) = (c1, acc1)" by fastforce
  note eff = prune_step_effect[OF Cons.prems(2), of cd nodes now n acc, unfolded s, simplified]
  have "set (Keys c1) \<subseteq> set (Keys c)"
    using eff by (auto simp: Keys_data AList.delete_eq)
  then have ih: "[] \<notin> set (Keys c1)" using Cons.prems(2) by auto
  have same: "prunable cd nodes now c1 k = prunable cd nodes now c k" if "k \<in> set ks" for k
  proof (rule prunable_cong)
    have "k \<noteq> n" using that Cons.prems(1) by auto
    then show "map_of (cache_data c1) k = map_of (cache_data c) k"
      using eff by (simp add: delete_conv')
  qed
  have "filter (\<lambda>(k, _). \<not> (k \<in> set ks \<and> prunable cd nodes now c1 k)) (cache_data c1) =
        filter (\<lambda>(k, _). \<not> (k \<in> set (n # ks) \<and> prunable cd nodes now c k)) (cache_data c)"
    using eff same by (auto simp: AList.delete_eq split_beta intro!: filter_cong)
  with Cons.IH[OF _ ih, of acc1] Cons.prems(1) s eff show ?case by simp
qed

lemma Prune_effect:
  assumes "distinct (Keys c)" "[] \<notin> set (Keys c)"
  shows "cache_data (fst (Prune cd nodes now c)) =
           filter (\<lambda>(k, _). \<not> prunable cd nodes now c k) (cache_data c) \<and>
         snd (Prune cd nodes now c) = filter (\<lambda>k. k \<notin> set nodes) (Keys c)"
proof -
  have "filter (\<lambda>(k, _). \<not> (k \<in> set (Keys c) \<and> prunable cd nodes now c k)) (cache_data c) =
        filter (\<lambda>(k, _). \<not> prunable cd nodes now c k) (cache_data c)"
    by (rule filter_cong) (force simp: Keys_data)+
  then show ?thesis
    using fold_prune[OF assms, of cd nodes now "[]"] by (simp add: Prune_def)
qed

end
