(* ===== verification/DtCore.thy ===== *)
theory DtCore
  imports Prelude
begin

text \<open>
  \<open>pkg/clients/dynatrace/core/error.go\<close>: how the callers of the Dynatrace API tell its errors apart.
\<close>

text \<open>\<open>core.StatusCode\<close>: the code of the first HTTP error in the tree, 0 without one.\<close>

fun first_http :: "error \<Rightarrow> int option" and first_http_list :: "error list \<Rightarrow> int option" where
  "first_http (HttpCode c) = Some c"
| "first_http (WithMsg m e) = first_http e"
| "first_http (Joined es) = first_http_list es"
| "first_http (ApiStatus s) = None"
| "first_http (Sentinel s) = None"
| "first_http_list [] = None"
| "first_http_list (e # es) = (case first_http e of None \<Rightarrow> first_http_list es | Some c \<Rightarrow> Some c)"

definition StatusCode :: "error \<Rightarrow> int" where
  "StatusCode e = (case first_http e of None \<Rightarrow> 0 | Some c \<Rightarrow> c)"

definition core_IsNotFound :: "error \<Rightarrow> bool" where
  "core_IsNotFound e \<longleftrightarrow> StatusCode e = 404"

definition IsTooManyRequests :: "error \<Rightarrow> bool" where
  "IsTooManyRequests e \<longleftrightarrow> StatusCode e = 429"

definition IsServiceUnavailable :: "error \<Rightarrow> bool" where
  "IsServiceUnavailable e \<longleftrightarrow> StatusCode e = 503"

definition IsUnreachable :: "error \<Rightarrow> bool" where
  "IsUnreachable e \<longleftrightarrow> IsTooManyRequests e \<or> IsServiceUnavailable e"

lemma StatusCode_wrap [simp]: "StatusCode (WithMsg m e) = StatusCode e"
  by (simp add: StatusCode_def)

lemma first_http_list_append:
  "first_http_list (es @ fs) = (case first_http_list es of None \<Rightarrow> first_http_list fs | Some c \<Rightarrow> Some c)"
  by (induction es) (auto split: option.split)

end
