(* ===== verification/NodesCtrl.thy ===== *)
theory NodesCtrl
  imports Tokens NodeCache DtCore "HOL-Library.Signed_Division"
begin

text \<open>
  \<open>pkg/controllers/nodes\<close> and \<open>pkg/clients/dynatrace/hostevent\<close>: for a node that is cordoned or gone the
  controller sends a mark-for-termination event for the host its OneAgent reported, at most once an
  hour, and keeps track of it in the node cache. All calls to the outside are logged; each answer is
  a field of \<open>nodes_env\<close> and may depend on the calls made before.
\<close>

section \<open>Host events\<close>

record host_response =
  hrEntityID :: string
  hrNetworkZoneID :: string
  hrIPAddresses :: "string list"

record host_event =
  evEventType :: string
  evDescription :: string
  evSource :: string
  evEntityIDs :: "string list"
  evStartInMillis :: int
  evEndInMillis :: int

abbreviation MarkedForTerminationEvent :: string where "MarkedForTerminationEvent \<equiv> ''MARKED_FOR_TERMINATION''"

abbreviation entity_not_found_text :: string where "entity_not_found_text \<equiv> ''HOST entity not found for IP: ''"

definition EntityNotFoundError :: "string \<Rightarrow> error" where
  "EntityNotFoundError ip = Sentinel (entity_not_found_text @ ip)"

definition is_entity_not_found :: "error \<Rightarrow> bool" where
  "is_entity_not_found e \<longleftrightarrow>
     some_leaf (\<lambda>l. case l of Sentinel s \<Rightarrow> has_prefix s entity_not_found_text | _ \<Rightarrow> False) e"

definition hostEntityMap_update :: "host_response \<Rightarrow> (string \<rightharpoonup> string) \<Rightarrow> (string \<rightharpoonup> string)" where
  "hostEntityMap_update info entityMap =
     fold (\<lambda>ip m. m(ip \<mapsto> hrEntityID info)) (hrIPAddresses info) entityMap"

definition in_zone :: "string \<Rightarrow> host_response \<Rightarrow> bool" where
  "in_zone networkZone host \<longleftrightarrow>
     networkZone \<noteq> [] \<and> hrNetworkZoneID host = networkZone \<or>
     networkZone = [] \<and> (hrNetworkZoneID host = ''default'' \<or> hrNetworkZoneID host = [])"

definition buildHostEntityMap :: "host_response list \<Rightarrow> string \<Rightarrow> (string \<rightharpoonup> string)" where
  "buildHostEntityMap hosts networkZone =
     fold (\<lambda>host m. if in_zone networkZone host then hostEntityMap_update host m else m) hosts Map.empty"

definition setEndpointNotAvailable :: "error \<Rightarrow> error" where
  "setEndpointNotAvailable e = (if core_IsNotFound e then HttpCode 404 else e)"

definition entity_lookup :: "host_response list \<Rightarrow> string \<Rightarrow> string \<Rightarrow> error + string" where
  "entity_lookup hosts networkZone ip =
     (let entityID = (case buildHostEntityMap hosts networkZone ip of None \<Rightarrow> [] | Some e \<Rightarrow> e)
      in if entityID = [] then Inl (EntityNotFoundError ip) else Inr entityID)"

abbreviation unix_epoch :: int where "unix_epoch \<equiv> 62135596800 * second"
abbreviation millisecond :: int where "millisecond \<equiv> 1000000"

definition NewMarkedForTerminationEvent :: "string \<Rightarrow> string \<Rightarrow> string \<Rightarrow> int \<Rightarrow> host_event" where
  "NewMarkedForTerminationEvent entityID source description timestamp =
     (let ts = (wrap_int (timestamp - unix_epoch) sdiv millisecond) mod 2 ^ 64
      in \<lparr>evEventType = MarkedForTerminationEvent, evDescription = description, evSource = source,
          evEntityIDs = [entityID], evStartInMillis = ts, evEndInMillis = ts\<rparr>)"

section \<open>The controller\<close>

record node_object =
  noName :: string
  noUnschedulable :: bool
  noTaintKeys :: "string list"

datatype nd_call =
    ListDynaKubes
  | GetTokenSecret string string
  | GetDeployment
  | GetCacheMap
  | GetNode string
  | ListNodes
  | NewDTClient
  | GetHosts
  | PostEvent host_event
  | CreateCacheMap config_map
  | UpdateCacheMap config_map

type_synonym nd_trace = "nd_call list"

record nodes_env =
  ndCodec :: codec
  ndRunLocal :: bool
  ndNow :: "nd_trace \<Rightarrow> int"
  ndListDynaKubes :: "nd_trace \<Rightarrow> error + dynakube list"
  ndGetSecret :: "nd_trace \<Rightarrow> string \<Rightarrow> string \<Rightarrow> error + (string \<times> string) list"
  ndGetDeployment :: "nd_trace \<Rightarrow> error option"
  ndSetOwner :: "error option"
  ndGetCacheMap :: "nd_trace \<Rightarrow> error + config_map"
  ndGetNode :: "nd_trace \<Rightarrow> string \<Rightarrow> error + node_object"
  ndListNodes :: "nd_trace \<Rightarrow> error + string list"
  ndNewDTClient :: "nd_trace \<Rightarrow> dynakube \<Rightarrow> error option"
  ndGetHosts :: "nd_trace \<Rightarrow> error + host_response list"
  ndPostEvent :: "nd_trace \<Rightarrow> host_event \<Rightarrow> error option"
  ndStore :: "nd_trace \<Rightarrow> config_map \<Rightarrow> error option"

record nodes_state =
  ndTrace :: nd_trace
  ndCache :: node_cache

definition ask :: "nd_call \<Rightarrow> (nd_trace \<Rightarrow> error + 'a) \<Rightarrow> (nodes_state, 'a) io" where
  "ask c answer st = (answer (ndTrace st), st\<lparr>ndTrace := ndTrace st @ [c]\<rparr>)"

definition tell :: "nd_call \<Rightarrow> (nd_trace \<Rightarrow> error option) \<Rightarrow> (nodes_state, unit) io" where
  "tell c answer = ask c (\<lambda>tr. case answer tr of None \<Rightarrow> Inr () | Some e \<Rightarrow> Inl e)"

definition Now :: "nodes_env \<Rightarrow> (nodes_state, int) io" where
  "Now env = gets (\<lambda>st. ndNow env (ndTrace st))"

fun filterDynakubeFromList :: "dynakube list \<Rightarrow> string \<Rightarrow> dynakube option" where
  "filterDynakubeFromList [] nodeName = None"
| "filterDynakubeFromList (dk # dks) nodeName =
     (if osInstances (dstOneAgent (dkStatus dk)) nodeName \<noteq> None then Some dk
      else filterDynakubeFromList dks nodeName)"

definition determineDynakubeForNode :: "nodes_env \<Rightarrow> string \<Rightarrow> (nodes_state, dynakube option) io" where
  "determineDynakubeForNode env nodeName =
     andThen (ask ListDynaKubes (ndListDynaKubes env)) (\<lambda>dks. ret (filterDynakubeFromList dks nodeName))"

definition HasPlatformToken_reader :: "nodes_env \<Rightarrow> dynakube option \<Rightarrow> (nodes_state, bool) io" where
  "HasPlatformToken_reader env dko =
     (case dko of
        None \<Rightarrow> ret False
      | Some dk \<Rightarrow>
          andThen (ask (GetTokenSecret (dkNamespace dk) (dk_Tokens dk))
                     (\<lambda>tr. ReadTokens (ndGetSecret env tr) dk)) (\<lambda>tokens.
            ret (HasPlatformToken tokens)))"

definition GetEntityIDForIP :: "nodes_env \<Rightarrow> string \<Rightarrow> string \<Rightarrow> (nodes_state, string) io" where
  "GetEntityIDForIP env networkZone ip =
     (if ip = [] then throw (Sentinel ''must provide IP'')
      else
        andThen (ask GetHosts (\<lambda>tr. case ndGetHosts env tr of
                   Inl e \<Rightarrow> Inl (setEndpointNotAvailable e) | Inr hosts \<Rightarrow> Inr hosts)) (\<lambda>hosts.
          lift (entity_lookup hosts networkZone ip)))"

definition SendEvent :: "nodes_env \<Rightarrow> host_event \<Rightarrow> (nodes_state, unit) io" where
  "SendEvent env event =
     (if evEventType event = [] then throw (Sentinel ''no key set for eventType in eventData payload'')
      else tell (PostEvent event) (\<lambda>tr. map_option setEndpointNotAvailable (ndPostEvent env tr event)))"

definition sendMarkedForTermination :: "nodes_env \<Rightarrow> dynakube \<Rightarrow> node_entry \<Rightarrow> (nodes_state, unit) io" where
  "sendMarkedForTermination env dk cachedNode =
     andThen (ask (GetTokenSecret (dkNamespace dk) (dk_Tokens dk))
                (\<lambda>tr. ReadAndVerifyTokens (ndGetSecret env tr) dk)) (\<lambda>tokens.
     andThen (tell NewDTClient (\<lambda>tr. ndNewDTClient env tr dk)) (\<lambda>_.
     andThen (attempt (GetEntityIDForIP env (dspNetworkZone (dkSpec dk)) (neIPAddress cachedNode))) (\<lambda>r.
       case r of
         Inl e \<Rightarrow> if core_IsNotFound e \<or> is_entity_not_found e then ret () else throw e
       | Inr entityID \<Rightarrow>
           andThen (attempt (SendEvent env (NewMarkedForTerminationEvent entityID ''Dynatrace Operator''
               ''Kubernetes node cordoned. Node might be drained or terminated.''
               (neLastSeen cachedNode - 10 * minute)))) (\<lambda>r.
             case r of
               Inl e \<Rightarrow> if core_IsNotFound e then ret () else throw e
             | Inr _ \<Rightarrow> ret ()))))"

text \<open>\<open>markForTermination\<close> returns the cache entry, which the Go code changes in place.\<close>

definition markForTermination :: "nodes_env \<Rightarrow> dynakube \<Rightarrow> node_entry \<Rightarrow> (nodes_state, node_entry) io" where
  "markForTermination env dk cacheEntry =
     andThen (Now env) (\<lambda>now.
       if \<not> IsMarkableForTermination cacheEntry now then ret cacheEntry
       else
         andThen (Now env) (\<lambda>now'.
           let entry = SetLastMarkedForTerminationTimestamp now' cacheEntry
           in andThen (sendMarkedForTermination env dk entry) (\<lambda>_. ret entry)))"

abbreviation unschedulableTaints :: "string list" where
  "unschedulableTaints \<equiv> [''ToBeDeletedByClusterAutoscaler'']"

definition hasUnschedulableTaint :: "node_object \<Rightarrow> bool" where
  "hasUnschedulableTaint node \<longleftrightarrow> list_ex (\<lambda>key. key \<in> set unschedulableTaints) (noTaintKeys node)"

definition isUnschedulable :: "node_object \<Rightarrow> bool" where
  "isUnschedulable node \<longleftrightarrow> noUnschedulable node \<or> hasUnschedulableTaint node"

definition modify_cache :: "(node_cache \<Rightarrow> node_cache) \<Rightarrow> (nodes_state, unit) io" where
  "modify_cache f = modify (\<lambda>st. st\<lparr>ndCache := f (ndCache st)\<rparr>)"

definition set_entry :: "nodes_env \<Rightarrow> string \<Rightarrow> node_entry \<Rightarrow> (nodes_state, unit) io" where
  "set_entry env name entry =
     andThen (gets (\<lambda>st. SetEntry (ndCodec env) name entry (ndCache st))) (\<lambda>r.
       case r of Inl e \<Rightarrow> throw e | Inr c \<Rightarrow> modify_cache (\<lambda>_. c))"

definition reconcileNodeUpdate :: "nodes_env \<Rightarrow> dynakube \<Rightarrow> node_object \<Rightarrow> (nodes_state, unit) io" where
  "reconcileNodeUpdate env dk node =
     (let nodeName = noName node;
          ipAddress = (case osInstances (dstOneAgent (dkStatus dk)) nodeName of
                         None \<Rightarrow> [] | Some i \<Rightarrow> oiIPAddress i)
      in andThen (Now env) (\<lambda>now.
         andThen (gets (\<lambda>st. GetEntry (ndCodec env) (ndCache st) nodeName)) (\<lambda>cached.
           let entry0 = \<lparr>neLastSeen = now, neLastMarked = 0, neIPAddress = ipAddress,
                         neNodeName = nodeName, neDynaKubeName = dkName dk\<rparr>;
               entry1 = (case cached of Inl _ \<Rightarrow> entry0
                         | Inr c \<Rightarrow> SetLastMarkedForTerminationTimestamp (neLastMarked c) entry0)
           in andThen (if isUnschedulable node then markForTermination env dk entry1 else ret entry1) (\<lambda>entry.
              set_entry env nodeName entry))))"

definition reconcileNodeDeletion :: "nodes_env \<Rightarrow> string \<Rightarrow> (nodes_state, unit) io" where
  "reconcileNodeDeletion env nodeName =
     andThen (determineDynakubeForNode env nodeName) (\<lambda>dko.
     andThen (gets (\<lambda>st. GetEntry (ndCodec env) (ndCache st) nodeName)) (\<lambda>cached.
       case cached of
         Inl e \<Rightarrow> if errors_is e ''node entry not found'' then ret () else throw e
       | Inr cacheEntry \<Rightarrow>
           andThen (case dko of None \<Rightarrow> ret () | Some dk \<Rightarrow>
                      andThen (markForTermination env dk cacheEntry) (\<lambda>_. ret ())) (\<lambda>_.
             modify_cache (DeleteEntry nodeName))))"

definition getCache :: "nodes_env \<Rightarrow> (nodes_state, unit) io" where
  "getCache env =
     andThen (whenM (\<not> ndRunLocal env) (tell GetDeployment (ndGetDeployment env))) (\<lambda>_.
     andThen (ask GetCacheMap (\<lambda>tr. cache_New (ndGetCacheMap env tr)
                (if ndRunLocal env then None else ndSetOwner env))) (\<lambda>c.
       modify_cache (\<lambda>_. c)))"

definition pruneCache :: "nodes_env \<Rightarrow> (nodes_state, unit) io" where
  "pruneCache env =
     andThen (Now env) (\<lambda>now.
     andThen (ask ListNodes (ndListNodes env)) (\<lambda>nodes.
     andThen (gets (\<lambda>st. Prune (ndCodec env) nodes now (ndCache st))) (\<lambda>(c, missingCachedNodes).
     andThen (modify_cache (\<lambda>_. c)) (\<lambda>_.
       for_each missingCachedNodes (reconcileNodeDeletion env)))))"

definition Store :: "nodes_env \<Rightarrow> (nodes_state, unit) io" where
  "Store env =
     andThen (gets ndCache) (\<lambda>c.
       if \<not> Changed c then ret ()
       else if ncCreate c then tell (CreateCacheMap (ncObj c)) (\<lambda>tr. ndStore env tr (ncObj c))
       else tell (UpdateCacheMap (ncObj c)) (\<lambda>tr. ndStore env tr (ncObj c)))"

definition prune_if_outdated :: "nodes_env \<Rightarrow> (nodes_state, unit) io" where
  "prune_if_outdated env =
     andThen (Now env) (\<lambda>now.
     andThen (gets (\<lambda>st. IsOutdated (ndCodec env) now (ndCache st))) (\<lambda>outdated.
       whenM outdated
         (andThen (pruneCache env) (\<lambda>_.
          andThen (Now env) (\<lambda>now'. modify_cache (UpdateTimestamp (ndCodec env) now'))))))"

definition nodes_Reconcile :: "nodes_env \<Rightarrow> string \<Rightarrow> (nodes_state, unit) io" where
  "nodes_Reconcile env nodeName =
     andThen (determineDynakubeForNode env nodeName) (\<lambda>dko.
     andThen (HasPlatformToken_reader env dko) (\<lambda>skip.
       if skip then ret ()
       else
         andThen (getCache env) (\<lambda>_.
         andThen (attempt (ask (GetNode nodeName) (\<lambda>tr. ndGetNode env tr nodeName))) (\<lambda>r.
           case r of
             Inl e \<Rightarrow>
               if \<not> is_not_found e then throw e
               else andThen (reconcileNodeDeletion env nodeName) (\<lambda>_. Store env)
           | Inr node \<Rightarrow>
               andThen (case dko of None \<Rightarrow> ret () | Some dk \<Rightarrow> reconcileNodeUpdate env dk node) (\<lambda>_.
               andThen (prune_if_outdated env) (\<lambda>_. Store env))))))"

section \<open>What a reconcile posts and stores\<close>

fun posted :: "nd_trace \<Rightarrow> host_event list" where
  "posted [] = []"
| "posted (PostEvent ev # tr) = ev # posted tr"
| "posted (_ # tr) = posted tr"

fun stored :: "nd_trace \<Rightarrow> config_map list" where
  "stored [] = []"
| "stored (CreateCacheMap cm # tr) = cm # stored tr"
| "stored (UpdateCacheMap cm # tr) = cm # stored tr"
| "stored (_ # tr) = stored tr"

lemma posted_append [simp]: "posted (tr @ tr') = posted tr @ posted tr'"
  by (induction tr rule: posted.induct) auto

lemma stored_append [simp]: "stored (tr @ tr') = stored tr @ stored tr'"
  by (induction tr rule: stored.induct) auto

lemma posted_iff: "PostEvent ev \<in> set tr \<longleftrightarrow> ev \<in> set (posted tr)"
  by (induction tr rule: posted.induct) auto

lemma stored_iff: "cm \<in> set (stored tr) \<longleftrightarrow> CreateCacheMap cm \<in> set tr \<or> UpdateCacheMap cm \<in> set tr"
  by (induction tr rule: stored.induct) auto

text \<open>\<open>on_trace P\<close> and \<open>on_cache P\<close>: properties of one part of the state.\<close>

abbreviation on_trace :: "(nd_trace \<Rightarrow> bool) \<Rightarrow> nodes_state \<Rightarrow> bool" where
  "on_trace P st \<equiv> P (ndTrace st)"

abbreviation on_cache :: "(node_cache \<Rightarrow> bool) \<Rightarrow> nodes_state \<Rightarrow> bool" where
  "on_cache P st \<equiv> P (ndCache st)"

lemma keeps_ask: "(\<And>st. I st \<Longrightarrow> I (st\<lparr>ndTrace := ndTrace st @ [c]\<rparr>)) \<Longrightarrow> keeps I (ask c f)"
  by (simp add: keeps_def ask_def)

lemma keeps_tell: "(\<And>st. I st \<Longrightarrow> I (st\<lparr>ndTrace := ndTrace st @ [c]\<rparr>)) \<Longrightarrow> keeps I (tell c f)"
  by (simp add: tell_def keeps_ask)

lemma keeps_Now: "keeps I (Now env)"
  by (simp add: Now_def keeps_gets)

lemma keeps_modify_cache: "(\<And>st. I st \<Longrightarrow> I (st\<lparr>ndCache := f (ndCache st)\<rparr>)) \<Longrightarrow> keeps I (modify_cache f)"
  by (simp add: modify_cache_def keeps_modify)

lemmas nodes_keeps = keeps_intro keeps_ask keeps_tell keeps_Now keeps_modify_cache

lemma lookup_keeps:
  "keeps (\<lambda>st. posted (ndTrace st) = evs \<and> stored (ndTrace st) = cms \<and> P (ndCache st)) (determineDynakubeForNode env n)"
  "keeps (\<lambda>st. posted (ndTrace st) = evs \<and> stored (ndTrace st) = cms \<and> P (ndCache st)) (HasPlatformToken_reader env dko)"
  "keeps (\<lambda>st. posted (ndTrace st) = evs \<and> stored (ndTrace st) = cms \<and> P (ndCache st)) (GetEntityIDForIP env z ip)"
  unfolding determineDynakubeForNode_def HasPlatformToken_reader_def GetEntityIDForIP_def
  by (intro nodes_keeps; simp)+

lemma sendMarked_keeps:
  "keeps (\<lambda>st. stored (ndTrace st) = cms \<and> P (ndCache st)) (sendMarkedForTermination env dk e)"
  unfolding sendMarkedForTermination_def GetEntityIDForIP_def SendEvent_def by (intro nodes_keeps; simp)

lemma sendMarked_no_ip:
  assumes "sendMarkedForTermination env dk e st = (Inr (), st')"
    and "neIPAddress e = []"
  shows False
  using assms
  by (auto simp: sendMarkedForTermination_def andThen_Inr GetEntityIDForIP_def attempt_def throw_def ret_def
      core_IsNotFound_def StatusCode_def is_entity_not_found_def has_prefix_def
      split: sum.splits if_splits prod.splits)

lemma markForTermination_eq:
  "markForTermination env dk e st =
     (if \<not> IsMarkableForTermination e (ndNow env (ndTrace st)) then (Inr e, st)
      else case sendMarkedForTermination env dk (e\<lparr>neLastMarked := ndNow env (ndTrace st)\<rparr>) st of
             (Inl x, st') \<Rightarrow> (Inl x, st')
           | (Inr _, st') \<Rightarrow> (Inr (e\<lparr>neLastMarked := ndNow env (ndTrace st)\<rparr>), st'))"
proof (cases "IsMarkableForTermination e (ndNow env (ndTrace st))")
  case True
  then show ?thesis
    unfolding markForTermination_def Now_def andThen_gets
    by (simp add: andThen_gets Let_def SetLastMarkedForTerminationTimestamp_def)
       (simp add: andThen_def ret_def split: prod.splits sum.splits)
next
  case False
  then show ?thesis
    unfolding markForTermination_def Now_def andThen_gets by (simp add: ret_def)
qed

lemma mark_keeps:
  "keeps (\<lambda>st. stored (ndTrace st) = cms \<and> P (ndCache st)) (markForTermination env dk e)"
  unfolding markForTermination_def Let_def by (intro nodes_keeps sendMarked_keeps)

lemma deletion_keeps_stored: "keeps (\<lambda>st. stored (ndTrace st) = cms) (reconcileNodeDeletion env n)"
  unfolding reconcileNodeDeletion_def determineDynakubeForNode_def
  by (intro nodes_keeps mark_keeps[where P = "\<lambda>_. True", simplified]; simp)

lemma update_keeps_stored: "keeps (\<lambda>st. stored (ndTrace st) = cms) (reconcileNodeUpdate env dk node)"
  unfolding reconcileNodeUpdate_def Let_def set_entry_def
  by (intro nodes_keeps mark_keeps[where P = "\<lambda>_. True", simplified]; simp)

lemma getCache_keeps:
  "keeps (\<lambda>st. posted (ndTrace st) = evs \<and> stored (ndTrace st) = cms) (getCache env)"
  unfolding getCache_def by (intro nodes_keeps; simp)

lemma prune_keeps_stored: "keeps (\<lambda>st. stored (ndTrace st) = cms) (prune_if_outdated env)"
  unfolding prune_if_outdated_def pruneCache_def split_beta by (intro nodes_keeps deletion_keeps_stored; simp)

text \<open>
  \<open>stores_last m\<close>: \<open>m\<close> stores the cache not at all, or as its last call, whose error is the error of
  \<open>m\<close>.
\<close>

definition last_call_stores :: "nodes_env \<Rightarrow> (error + unit) \<Rightarrow> nodes_state \<Rightarrow> bool" where
  "last_call_stores env r st \<longleftrightarrow>
     (\<exists>tr c. ndTrace st = tr @ [c] \<and> stored tr = [] \<and>
        (c = CreateCacheMap (ncObj (ndCache st)) \<or> c = UpdateCacheMap (ncObj (ndCache st))) \<and>
        r = (case ndStore env tr (ncObj (ndCache st)) of None \<Rightarrow> Inr () | Some e \<Rightarrow> Inl e))"

definition stores_last :: "nodes_env \<Rightarrow> (nodes_state, unit) io \<Rightarrow> bool" where
  "stores_last env m \<longleftrightarrow>
     (\<forall>st. stored (ndTrace st) = [] \<longrightarrow>
        (case m st of (r, st') \<Rightarrow> stored (ndTrace st') = [] \<or> last_call_stores env r st'))"

lemma stores_last_quiet: "keeps (\<lambda>st. stored (ndTrace st) = []) m \<Longrightarrow> stores_last env m"
  by (fastforce simp: stores_last_def keeps_def split: prod.splits)

lemma stores_last_andThen:
  "keeps (\<lambda>st. stored (ndTrace st) = []) m \<Longrightarrow> (\<And>x. stores_last env (f x)) \<Longrightarrow> stores_last env (andThen m f)"
  unfolding stores_last_def keeps_def andThen_def by (fastforce split: prod.splits sum.splits)

lemma stores_last_if: "stores_last env m \<Longrightarrow> stores_last env n \<Longrightarrow> stores_last env (if b then m else n)"
  by simp

lemma stores_last_sum:
  "(\<And>e. stores_last env (f e)) \<Longrightarrow> (\<And>x. stores_last env (g x)) \<Longrightarrow>
   stores_last env (case r of Inl e \<Rightarrow> f e | Inr x \<Rightarrow> g x)"
  by (simp split: sum.split)

lemma stores_last_Store: "stores_last env (Store env)"
  by (auto simp: stores_last_def Store_def andThen_gets ret_def tell_def ask_def last_call_stores_def
      split: option.splits if_splits)

lemma stores_last_ret: "stores_last env (ret x)" "stores_last env (throw e)"
  by (rule stores_last_quiet, rule keeps_intro)+

lemma lookup_stored:
  "keeps (\<lambda>st. stored (ndTrace st) = cms) (determineDynakubeForNode env n)"
  "keeps (\<lambda>st. stored (ndTrace st) = cms) (HasPlatformToken_reader env dko)"
  "keeps (\<lambda>st. stored (ndTrace st) = cms) (getCache env)"
  "keeps (\<lambda>st. stored (ndTrace st) = cms) (attempt (ask (GetNode n) f))"
  unfolding determineDynakubeForNode_def HasPlatformToken_reader_def getCache_def
  by (intro nodes_keeps; simp)+

lemma stores_lastD:
  assumes "stores_last env m" "stored (ndTrace st) = []" "m st = (r, st')"
  shows "stored (ndTrace st') = [] \<or> last_call_stores env r st'"
  using assms(1)[unfolded stores_last_def, rule_format, OF assms(2)] assms(3) by simp

lemma Reconcile_stores_last: "stores_last env (nodes_Reconcile env n)"
  unfolding nodes_Reconcile_def
  by (intro stores_last_andThen stores_last_if stores_last_sum stores_last_ret stores_last_Store
      lookup_stored deletion_keeps_stored update_keeps_stored prune_keeps_stored keeps_option_case keeps_ret)

text \<open>The cache is stored at most once and as the last call of a reconcile: everything the events
  depend on is written after they are sent, and a reconcile that fails elsewhere stores nothing, so
  that it is repeated from the old cache. The error of the store call is returned.\<close>

theorem cache_stored_last:
  assumes "nodes_Reconcile env n \<lparr>ndTrace = [], ndCache = c0\<rparr> = (r, st')"
  shows "stored (ndTrace st') = [] \<or> last_call_stores env r st'"
  by (rule stores_lastD[OF Reconcile_stores_last _ assms]) simp

section \<open>Pruning\<close>

lemma Prune_missing: "snd (Prune cd nodes now c) = filter (\<lambda>k. k \<notin> set nodes) (Keys c)"
proof -
  have "snd (fold (prune_step cd nodes now) ks (c, acc)) = acc @ filter (\<lambda>k. k \<notin> set nodes) ks" for ks c acc
  proof (induction ks arbitrary: c acc)
    case (Cons k ks)
    obtain c1 acc1 where s: "prune_step cd nodes now k (c, acc) = (c1, acc1)" by fastforce
    then have "acc1 = (if k \<in> set nodes then acc else acc @ [k])"
      by (auto simp: prune_step_def Let_def split: if_splits)
    with s Cons.IH[of c1 acc1] show ?case by simp
  qed simp
  then show ?thesis by (simp add: Prune_def)
qed

lemma prune_step_keeps_raw:
  assumes "\<not> prunable cd nodes now c n" "n \<noteq> []"
  shows "map_of (cache_data (fst (prune_step cd nodes now k (c, acc)))) n = map_of (cache_data c) n"
  using assms by (cases "GetEntry cd c k")
    (auto simp: prune_step_def Let_def delete_conv' zero_entry_def prunable_def dest: GetEntry_name)

lemma Prune_keeps_raw:
  assumes "\<not> prunable cd nodes now c n" "n \<noteq> []"
  shows "map_of (cache_data (fst (Prune cd nodes now c))) n = map_of (cache_data c) n"
proof -
  have "\<not> prunable cd nodes now c n \<Longrightarrow>
    map_of (cache_data (fst (fold (prune_step cd nodes now) ks (c, acc)))) n = map_of (cache_data c) n" for ks c acc
  proof (induction ks arbitrary: c acc)
    case (Cons k ks)
    obtain c1 acc1 where s: "prune_step cd nodes now k (c, acc) = (c1, acc1)" by fastforce
    have g: "map_of (cache_data c1) n = map_of (cache_data c) n"
      using prune_step_keeps_raw[OF Cons.prems assms(2), of k acc] s by simp
    then have "\<not> prunable cd nodes now c1 n" using Cons.prems prunable_cong[OF g] by simp
    with s g Cons.IH[of c1 acc1] show ?case by simp
  qed simp
  then show ?thesis using assms(1) by (simp add: Prune_def)
qed

lemma Prune_keeps_entry:
  "\<not> prunable cd nodes now c n \<Longrightarrow> n \<noteq> [] \<Longrightarrow> GetEntry cd (fst (Prune cd nodes now c)) n = GetEntry cd c n"
  by (simp add: GetEntry_def Prune_keeps_raw)

lemma Prune_keys: "set (Keys (fst (Prune cd nodes now c))) \<subseteq> set (Keys c)"
proof -
  have "set (Keys (fst (fold (prune_step cd nodes now) ks (c, acc)))) \<subseteq> set (Keys c)" for ks c acc
  proof (induction ks arbitrary: c acc)
    case (Cons k ks)
    obtain c1 acc1 where s: "prune_step cd nodes now k (c, acc) = (c1, acc1)" by fastforce
    then have "set (Keys c1) \<subseteq> set (Keys c)"
      by (auto simp: prune_step_def Let_def Keys_data AList.delete_eq split: if_splits)
    with s Cons.IH[of c1 acc1] show ?case by auto
  qed simp
  then show ?thesis by (simp add: Prune_def)
qed

text \<open>Pruning drops exactly the cached nodes of the cluster that were last seen more than an hour ago
  or have no address, and hands exactly the cached nodes that left the cluster over for deletion.\<close>

theorem prune_exact:
  assumes "distinct (Keys c)" and "[] \<notin> set (Keys c)"
  shows "Keys (fst (Prune cd nodes now c)) = filter (\<lambda>k. \<not> prunable cd nodes now c k) (Keys c) \<and>
         snd (Prune cd nodes now c) = filter (\<lambda>k. k \<notin> set nodes) (Keys c) \<and>
         (\<forall>k\<in>set (Keys c). \<not> prunable cd nodes now c k \<longrightarrow>
            GetEntry cd (fst (Prune cd nodes now c)) k = GetEntry cd c k)"
proof (intro conjI ballI impI)
  show "Keys (fst (Prune cd nodes now c)) = filter (\<lambda>k. \<not> prunable cd nodes now c k) (Keys c)"
    using Prune_effect[OF assms, of cd nodes now] by (simp add: Keys_data filter_map comp_def split_beta')
  show "snd (Prune cd nodes now c) = filter (\<lambda>k. k \<notin> set nodes) (Keys c)"
    by (rule Prune_missing)
  fix k assume "k \<in> set (Keys c)" "\<not> prunable cd nodes now c k"
  then show "GetEntry cd (fst (Prune cd nodes now c)) k = GetEntry cd c k"
    using assms(2) by (intro Prune_keeps_entry) auto
qed

text \<open>An entry that does not decode is never pruned: as long as its node is in the cluster, it stays in the
  cache whatever the time, since the error of \<open>GetEntry\<close> is ignored and the name to delete is empty.\<close>

theorem corrupt_entry_survives_prune:
  assumes "GetEntry cd c n = Inl e" and "n \<in> set (Keys c)" and "n \<in> set nodes" and "n \<noteq> []"
  shows "n \<in> set (Keys (fst (Prune cd nodes now c))) \<and> n \<notin> set (snd (Prune cd nodes now c))"
proof -
  have np: "\<not> prunable cd nodes now c n" using assms(1) by (simp add: prunable_def)
  have "map_of (cache_data (fst (Prune cd nodes now c))) n = map_of (cache_data c) n"
    by (rule Prune_keeps_raw[OF np assms(4)])
  moreover have "n \<in> dom (map_of (cache_data c))" using assms(2) by (simp add: Keys_data dom_map_of_conv_image_fst)
  ultimately have "n \<in> dom (map_of (cache_data (fst (Prune cd nodes now c))))" by (simp add: dom_def)
  then show ?thesis using assms(3) by (simp add: Keys_data dom_map_of_conv_image_fst Prune_missing)
qed

section \<open>Events at most once an hour\<close>

lemma IsMarkable_iff: "IsMarkableForTermination e now \<longleftrightarrow> now - neLastMarked e > hour"
  unfolding IsMarkableForTermination_def
  by (rule time_sub_gt) (simp_all add: time_units min_int_def max_int_def)

lemma GetEntry_newCache [simp]: "GetEntry cd (newCache (ncObj c) b) n = GetEntry cd c n"
  "Keys (newCache (ncObj c) b) = Keys c"
  by (simp_all add: GetEntry_def newCache_def cache_data_def Keys_def)

lemma Keys_SetEntry: "SetEntry cd n e c = Inr c' \<Longrightarrow> set (Keys c') = insert n (set (Keys c))"
proof -
  assume "SetEntry cd n e c = Inr c'"
  then obtain raw where "cache_data c' = AList.update n raw (cache_data c)" using SetEntry_data by blast
  then show ?thesis unfolding Keys_data by (auto simp only: AList.update_keys split: if_splits) auto
qed

lemma set_entry_Inr:
  "set_entry env n e s = (Inr (), s') \<longleftrightarrow>
     (\<exists>c. SetEntry (ndCodec env) n e (ndCache s) = Inr c \<and> s' = s\<lparr>ndCache := c\<rparr>)"
  by (auto simp: set_entry_def andThen_gets throw_def modify_cache_def modify_def split: sum.splits)

lemma set_entry_trace: "ndTrace (snd (set_entry env n e s)) = ndTrace s"
  by (auto simp: set_entry_def andThen_gets throw_def modify_cache_def modify_def split: sum.splits)

text \<open>The entry \<open>reconcileNodeUpdate\<close> starts from.\<close>

definition fresh_entry :: "nodes_env \<Rightarrow> dynakube \<Rightarrow> string \<Rightarrow> nodes_state \<Rightarrow> node_entry" where
  "fresh_entry env dk n st =
     \<lparr>neLastSeen = ndNow env (ndTrace st),
      neLastMarked = (case GetEntry (ndCodec env) (ndCache st) n of Inl _ \<Rightarrow> 0 | Inr c \<Rightarrow> neLastMarked c),
      neIPAddress = (case osInstances (dstOneAgent (dkStatus dk)) n of None \<Rightarrow> [] | Some i \<Rightarrow> oiIPAddress i),
      neNodeName = n, neDynaKubeName = dkName dk\<rparr>"

lemma reconcileNodeUpdate_eq:
  "reconcileNodeUpdate env dk node st =
     andThen (if isUnschedulable node then markForTermination env dk (fresh_entry env dk (noName node) st)
              else ret (fresh_entry env dk (noName node) st)) (set_entry env (noName node)) st"
  by (cases "GetEntry (ndCodec env) (ndCache st) (noName node)")
     (simp_all add: reconcileNodeUpdate_def Now_def Let_def andThen_gets fresh_entry_def
       SetLastMarkedForTerminationTimestamp_def)

lemma update_quiet:
  assumes "\<not> IsMarkableForTermination (fresh_entry env dk (noName node) st) (ndNow env (ndTrace st))"
  shows "ndTrace (snd (reconcileNodeUpdate env dk node st)) = ndTrace st"
proof -
  have "reconcileNodeUpdate env dk node st =
      set_entry env (noName node) (fresh_entry env dk (noName node) st) st"
    using assms by (simp add: reconcileNodeUpdate_eq andThen_def markForTermination_eq ret_def)
  then show ?thesis by (simp add: set_entry_trace)
qed

lemma update_steps:
  assumes "reconcileNodeUpdate env dk node st = (Inr (), st')"
  shows "\<exists>e s. (if isUnschedulable node then markForTermination env dk (fresh_entry env dk (noName node) st)
                else ret (fresh_entry env dk (noName node) st)) st = (Inr e, s) \<and>
     SetEntry (ndCodec env) (noName node) e (ndCache st) = Inr (ndCache st') \<and> ndTrace st' = ndTrace s"
proof -
  let ?e = "fresh_entry env dk (noName node) st"
  obtain e s where m: "(if isUnschedulable node then markForTermination env dk ?e else ret ?e) st = (Inr e, s)"
    and s: "set_entry env (noName node) e s = (Inr (), st')"
    using assms by (auto simp: reconcileNodeUpdate_eq andThen_Inr)
  have "keeps (\<lambda>s. ndCache s = ndCache st) (if isUnschedulable node then markForTermination env dk ?e else ret ?e)"
    by (intro keeps_intro) (use mark_keeps[where P = "\<lambda>c. c = ndCache st"] in \<open>auto simp: keeps_def\<close>)
  from keepsD[OF this, of st] m have "ndCache s = ndCache st" by simp
  with s m show ?thesis by (intro exI[of _ e] exI[of _ s]) (auto simp: set_entry_Inr)
qed

lemma update_sets:
  "reconcileNodeUpdate env dk node st = (Inr (), st') \<Longrightarrow>
   \<exists>e. SetEntry (ndCodec env) (noName node) e (ndCache st) = Inr (ndCache st')"
  using update_steps by blast

lemma update_result:
  assumes "reconcileNodeUpdate env dk node st = (Inr (), st')" and "\<And>tr. ndNow env tr = t"
  shows "\<exists>e. SetEntry (ndCodec env) (noName node) e (ndCache st) = Inr (ndCache st') \<and> neLastSeen e = t \<and>
     (ndTrace st' = ndTrace st \<or> neLastMarked e = t \<and> neIPAddress e \<noteq> [])"
proof -
  let ?e = "fresh_entry env dk (noName node) st"
  obtain e s where m: "(if isUnschedulable node then markForTermination env dk ?e else ret ?e) st = (Inr e, s)"
    and s: "SetEntry (ndCodec env) (noName node) e (ndCache st) = Inr (ndCache st')" "ndTrace st' = ndTrace s"
    using update_steps[OF assms(1)] by blast
  have "neLastSeen e = t \<and> (ndTrace s = ndTrace st \<or> neLastMarked e = t \<and> neIPAddress e \<noteq> [])"
    using m sendMarked_no_ip[of env dk "?e\<lparr>neLastMarked := t\<rparr>" st s]
    by (auto simp: markForTermination_eq assms(2) ret_def fresh_entry_def split: if_splits prod.splits sum.splits)
  with s show ?thesis by metis
qed

text \<open>Pruning where every cached node is in the cluster.\<close>

lemma prune_if_outdated_known:
  assumes run: "prune_if_outdated env st = (r, st')"
    and known: "\<And>tr nodes. ndListNodes env tr = Inr nodes \<Longrightarrow> set (Keys (ndCache st)) \<subseteq> set nodes"
  shows "posted (ndTrace st') = posted (ndTrace st) \<and>
     (\<forall>n e. GetEntry (ndCodec env) (ndCache st) n = Inr e \<longrightarrow> n \<noteq> [] \<longrightarrow> neIPAddress e \<noteq> [] \<longrightarrow>
        (\<forall>tr. ndNow env tr - neLastSeen e \<le> hour) \<longrightarrow>
        GetEntry (ndCodec env) (ndCache st') n = Inr e) \<and>
     set (Keys (ndCache st')) \<subseteq> set (Keys (ndCache st))"
proof (cases "IsOutdated (ndCodec env) (ndNow env (ndTrace st)) (ndCache st)")
  case False
  with run show ?thesis
    by (auto simp: prune_if_outdated_def Now_def andThen_gets whenM_def ret_def)
next
  case True
  let ?tr = "ndTrace st @ [ListNodes]" and ?now = "ndNow env (ndTrace st)"
  show ?thesis
  proof (cases "ndListNodes env (ndTrace st)")
    case (Inl e)
    with run True have "st' = st\<lparr>ndTrace := ?tr\<rparr>"
      by (simp add: prune_if_outdated_def pruneCache_def Now_def andThen_gets whenM_def)
         (simp add: andThen_def gets_def ask_def)
    then show ?thesis by simp
  next
    case (Inr nodes)
    obtain c where none: "Prune (ndCodec env) nodes ?now (ndCache st) = (c, [])"
      using known[OF Inr] Prune_missing[of "ndCodec env" nodes ?now "ndCache st"]
      by (cases "Prune (ndCodec env) nodes ?now (ndCache st)") (auto simp: filter_empty_conv)
    from run True Inr none have st': "\<exists>t. st' = st\<lparr>ndTrace := ?tr, ndCache := UpdateTimestamp (ndCodec env) t c\<rparr>"
      by (simp add: prune_if_outdated_def pruneCache_def Now_def andThen_gets whenM_def)
         (auto simp add: andThen_def gets_def ask_def modify_cache_def modify_def ret_def)
    have keys: "set (Keys (UpdateTimestamp cd t c)) = set (Keys c)" for cd t c
      by (simp add: UpdateTimestamp_def Keys_def)
    have entry: "GetEntry (ndCodec env) c n = Inr e"
      if "GetEntry (ndCodec env) (ndCache st) n = Inr e" "n \<noteq> []" "neIPAddress e \<noteq> []"
        "\<forall>tr. ndNow env tr - neLastSeen e \<le> hour" for n e
    proof -
      have "\<not> time_sub ?now (neLastSeen e) > hour"
        using that(4) time_sub_gt[of hour ?now "neLastSeen e"]
        by (simp add: time_units min_int_def max_int_def not_less)
      then have "\<not> prunable (ndCodec env) nodes ?now (ndCache st) n"
        using that(1,3) by (simp add: prunable_def)
      from Prune_keeps_entry[OF this that(2)] that(1) none show ?thesis by simp
    qed
    from st' Prune_keys[of "ndCodec env" nodes ?now "ndCache st"] none show ?thesis by (auto simp: keys entry)
  qed
qed

text \<open>The cache a reconcile works on: the stored one, or a new one where none is stored.\<close>

definition loaded :: "nodes_env \<Rightarrow> node_cache \<Rightarrow> bool" where
  "loaded env c \<longleftrightarrow>
     (\<exists>tr cm. ndGetCacheMap env tr = Inr cm \<and> c = newCache cm False) \<or>
     (\<exists>tr e. ndGetCacheMap env tr = Inl e \<and> Keys c = [])"

lemma cache_New_Inr:
  "cache_New a own = Inr c \<Longrightarrow> (\<exists>cm. a = Inr cm \<and> c = newCache cm False) \<or> (\<exists>e. a = Inl e \<and> Keys c = [])"
  by (auto simp: cache_New_def newCache_def Keys_def split: sum.splits if_splits option.splits)

lemma getCache_loaded:
  assumes "getCache env st = (Inr (), st')"
  shows "loaded env (ndCache st')"
proof -
  have "\<exists>tr own. cache_New (ndGetCacheMap env tr) own = Inr (ndCache st')"
    using assms by (fastforce simp: getCache_def andThen_Inr ask_def modify_cache_def modify_def)
  then show ?thesis using cache_New_Inr unfolding loaded_def by metis
qed

definition quiet :: "nodes_state \<Rightarrow> nodes_state \<Rightarrow> bool" where
  "quiet st st' \<longleftrightarrow> posted (ndTrace st') = posted (ndTrace st) \<and> stored (ndTrace st') = stored (ndTrace st)"

lemma quiet_trans: "quiet a b \<Longrightarrow> quiet b c \<Longrightarrow> quiet a c" "quiet a a"
  by (simp_all add: quiet_def)

lemma lookups_quiet:
  "quiet st (snd (determineDynakubeForNode env n st))"
  "quiet st (snd (HasPlatformToken_reader env dko st))"
  "quiet st (snd (getCache env st))"
  using keepsD[OF lookup_keeps(1)[where P = "\<lambda>_. True"], of st]
    keepsD[OF lookup_keeps(2)[where P = "\<lambda>_. True"], of st] keepsD[OF getCache_keeps, of st]
  by (simp_all add: quiet_def)

lemma reconcile_existing:
  assumes run: "nodes_Reconcile env n st = (r, st')" and node: "\<And>tr. ndGetNode env tr n = Inr node"
  shows "quiet st st' \<or>
   (\<exists>dko s. quiet st s \<and> loaded env (ndCache s) \<and>
      andThen (case dko of None \<Rightarrow> ret () | Some dk \<Rightarrow> reconcileNodeUpdate env dk node) (\<lambda>_.
        andThen (prune_if_outdated env) (\<lambda>_. Store env)) s = (r, st'))"
proof -
  obtain x1 s1 where 1: "determineDynakubeForNode env n st = (x1, s1)" by fastforce
  have q1: "quiet st s1" using lookups_quiet(1)[of st env n] 1 by simp
  show ?thesis
  proof (cases x1)
    case (Inl e)
    then show ?thesis using run 1 q1 by (simp add: nodes_Reconcile_def andThen_def)
  next
    case x1: (Inr dko)
    obtain x2 s2 where 2: "HasPlatformToken_reader env dko s1 = (x2, s2)" by fastforce
    have q2: "quiet st s2" using lookups_quiet(2)[of s1 env dko] 2 q1 quiet_trans(1) by fastforce
    obtain x3 s3 where 3: "getCache env s2 = (x3, s3)" by fastforce
    have q3: "quiet st s3" using lookups_quiet(3)[of s2 env] 3 q2 quiet_trans(1) by fastforce
    show ?thesis
    proof (cases "x2 = Inr False \<and> isl x3 = False")
      case False
      then have "st' = s2 \<or> st' = s3"
        using run 1 2 3 x1 by (auto simp: nodes_Reconcile_def andThen_def ret_def split: sum.splits if_splits)
      then show ?thesis using q2 q3 by blast
    next
      case True
      then have "x3 = Inr ()" by (cases x3) auto
      with 3 have l: "loaded env (ndCache s3)" by (simp add: getCache_loaded)
      let ?s = "s3\<lparr>ndTrace := ndTrace s3 @ [GetNode n]\<rparr>"
      have "quiet st ?s" using q3 by (simp add: quiet_def)
      moreover have "andThen (case dko of None \<Rightarrow> ret () | Some dk \<Rightarrow> reconcileNodeUpdate env dk node) (\<lambda>_.
          andThen (prune_if_outdated env) (\<lambda>_. Store env)) ?s = (r, st')"
        using run 1 2 3 x1 True \<open>x3 = Inr ()\<close> node
        by (simp add: nodes_Reconcile_def andThen_def[where m = "determineDynakubeForNode env n"]
            andThen_def[where m = "HasPlatformToken_reader env dko"] andThen_def[where m = "getCache env"]
            andThen_def[where m = "attempt x" for x] attempt_def ask_def)
      ultimately show ?thesis using l by (intro disjI2 exI[of _ dko] exI[of _ ?s]) simp
    qed
  qed
qed

lemma Store_effect:
  "Store env st = (r, st') \<Longrightarrow> posted (ndTrace st') = posted (ndTrace st) \<and>
     set (stored (ndTrace st')) \<subseteq> insert (ncObj (ndCache st)) (set (stored (ndTrace st)))"
  by (auto simp: Store_def andThen_gets ret_def tell_def ask_def split: if_splits)

text \<open>
  All nodes known to the cache are in the cluster, \<open>n\<close> among them: then only \<open>n\<close> itself can be marked.
\<close>

definition all_listed :: "nodes_env \<Rightarrow> string \<Rightarrow> bool" where
  "all_listed env n \<longleftrightarrow>
     (\<forall>tr nodes. ndListNodes env tr = Inr nodes \<longrightarrow>
        n \<in> set nodes \<and>
        (\<forall>tr' cm. ndGetCacheMap env tr' = Inr cm \<longrightarrow> set (Keys (newCache cm False)) \<subseteq> set nodes))"

lemma all_listed_loaded:
  "all_listed env n \<Longrightarrow> loaded env c \<Longrightarrow> ndListNodes env tr = Inr nodes \<Longrightarrow> set (Keys c) \<subseteq> set nodes \<and> n \<in> set nodes"
  unfolding all_listed_def loaded_def by fastforce

lemma first_reconcile_records_mark:
  assumes codec: "codec_roundtrip (ndCodec env)" and clock: "\<And>tr. ndNow env tr = t"
    and node: "\<And>tr. ndGetNode env tr n = Inr node" "noName node = n" "n \<noteq> []" and listed: "all_listed env n"
    and run: "nodes_Reconcile env n st = (Inr (), st')" and ev: "posted (ndTrace st') \<noteq> posted (ndTrace st)"
    and cm: "cm \<in> set (stored (ndTrace st'))" and empty: "stored (ndTrace st) = []"
  shows "\<exists>e. GetEntry (ndCodec env) (newCache cm False) n = Inr e \<and> neLastMarked e = t"
proof -
  obtain dko s where q: "quiet st s" and l: "loaded env (ndCache s)"
    and rest: "andThen (case dko of None \<Rightarrow> ret () | Some dk \<Rightarrow> reconcileNodeUpdate env dk node) (\<lambda>_.
        andThen (prune_if_outdated env) (\<lambda>_. Store env)) s = (Inr (), st')"
    using reconcile_existing[OF run node(1)] ev by (auto simp: quiet_def)
  obtain s5 s6 where upd: "(case dko of None \<Rightarrow> ret () | Some dk \<Rightarrow> reconcileNodeUpdate env dk node) s = (Inr (), s5)"
    and prune: "prune_if_outdated env s5 = (Inr (), s6)" and store: "Store env s6 = (Inr (), st')"
    using rest by (auto simp: andThen_Inr)
  have keys: "set (Keys (ndCache s5)) \<subseteq> insert n (set (Keys (ndCache s)))"
  proof (cases dko)
    case (Some dk)
    from upd Some update_result[of env dk node s s5 t, OF _ clock] show ?thesis
      by (auto simp: node(2) Keys_SetEntry)
  qed (use upd in \<open>auto simp: ret_def\<close>)
  have known: "set (Keys (ndCache s5)) \<subseteq> set nodes" if "ndListNodes env tr = Inr nodes" for tr nodes
    using all_listed_loaded[OF listed l that] keys by auto
  note p = prune_if_outdated_known[OF prune known]
  have posted5: "posted (ndTrace s5) \<noteq> posted (ndTrace s)"
    using ev p q Store_effect[OF store] by (simp add: quiet_def)
  then obtain dk where dk: "dko = Some dk" using upd by (cases dko) (auto simp: ret_def)
  with upd have "reconcileNodeUpdate env dk node s = (Inr (), s5)" by simp
  from update_result[OF this clock] posted5 node(2) obtain e where
    e: "SetEntry (ndCodec env) n e (ndCache s) = Inr (ndCache s5)" "neLastSeen e = t" "neLastMarked e = t"
       "neIPAddress e \<noteq> []" by auto
  have stored5: "stored (ndTrace s6) = []"
  proof -
    have "stored (ndTrace s) = []" using q empty by (simp add: quiet_def)
    moreover have "stored (ndTrace s5) = stored (ndTrace s)"
      using keepsD[OF update_keeps_stored, of s "stored (ndTrace s)" env dk node] upd dk by simp
    moreover have "stored (ndTrace s6) = stored (ndTrace s5)"
      using keepsD[OF prune_keeps_stored, of s5 "stored (ndTrace s5)" env] prune by simp
    ultimately show ?thesis by simp
  qed
  have "GetEntry (ndCodec env) (ndCache s5) n = Inr (e\<lparr>neNodeName := n\<rparr>)"
    by (rule GetEntry_SetEntry_same[OF codec e(1)])
  then have "GetEntry (ndCodec env) (ndCache s6) n = Inr (e\<lparr>neNodeName := n\<rparr>)"
    using p e node(3) clock by (simp add: time_units)
  moreover have "cm = ncObj (ndCache s6)"
    using Store_effect[OF store] cm stored5 by auto
  ultimately show ?thesis using e by simp
qed

lemma second_reconcile_quiet:
  assumes load: "\<And>tr. ndGetCacheMap env tr = Inr cm"
    and entry: "GetEntry (ndCodec env) (newCache cm False) n = Inr e"
    and clock: "\<And>tr. ndNow env tr \<le> neLastMarked e + hour"
    and node: "\<And>tr. ndGetNode env tr n = Inr node" "noName node = n" and listed: "all_listed env n"
  shows "posted (ndTrace (snd (nodes_Reconcile env n st))) = posted (ndTrace st)"
proof -
  obtain r st' where run: "nodes_Reconcile env n st = (r, st')" by fastforce
  show ?thesis
  proof (cases "quiet st st'")
    case False
    then obtain dko s where q: "quiet st s" and l: "loaded env (ndCache s)"
      and rest: "andThen (case dko of None \<Rightarrow> ret () | Some dk \<Rightarrow> reconcileNodeUpdate env dk node) (\<lambda>_.
        andThen (prune_if_outdated env) (\<lambda>_. Store env)) s = (r, st')"
      using reconcile_existing[OF run node(1)] by auto
    from l load have c: "ndCache s = newCache cm False" by (auto simp: loaded_def)
    obtain x5 s5 where upd: "(case dko of None \<Rightarrow> ret () | Some dk \<Rightarrow> reconcileNodeUpdate env dk node) s = (x5, s5)"
      by fastforce
    have tr5: "ndTrace s5 = ndTrace s"
    proof (cases dko)
      case (Some dk)
      have "\<not> IsMarkableForTermination (fresh_entry env dk (noName node) s) (ndNow env (ndTrace s))"
        using clock[of "ndTrace s"] by (simp add: IsMarkable_iff fresh_entry_def c entry node(2))
      from update_quiet[OF this] upd Some show ?thesis by simp
    qed (use upd in \<open>simp add: ret_def\<close>)
    show ?thesis
    proof (cases x5)
      case (Inl e)
      then show ?thesis using rest upd tr5 q run by (simp add: andThen_def quiet_def)
    next
      case x5: (Inr u)
      have keys: "set (Keys (ndCache s5)) \<subseteq> insert n (set (Keys (ndCache s)))"
      proof (cases dko)
        case (Some dk)
        with upd x5 have "reconcileNodeUpdate env dk node s = (Inr (), s5)" by simp
        from update_sets[OF this] show ?thesis by (auto simp: node(2) Keys_SetEntry)
      qed (use upd in \<open>auto simp: ret_def\<close>)
      have known: "set (Keys (ndCache s5)) \<subseteq> set nodes" if "ndListNodes env tr = Inr nodes" for tr nodes
        using all_listed_loaded[OF listed l that] keys by auto
      obtain x6 s6 where prune: "prune_if_outdated env s5 = (x6, s6)" by fastforce
      have p6: "posted (ndTrace s6) = posted (ndTrace s5)" using prune_if_outdated_known[OF prune known] by simp
      have "posted (ndTrace st') = posted (ndTrace s6)"
        using rest upd x5 prune Store_effect[of env s6 r st'] by (auto simp: andThen_def split: sum.splits)
      then show ?thesis using p6 tr5 q run by (simp add: quiet_def)
    qed
  qed (simp add: run quiet_def)
qed

text \<open>C29. A cordoned node is reported at most once an hour: when a reconcile of a node in the cluster posted
  an event and succeeded, a later reconcile that loads the cache it stored, within the hour, posts
  none. All cached nodes are assumed to be in the cluster, since a reconcile also reports those that
  left it.\<close>

theorem termination_event_once_an_hour:
  assumes "codec_roundtrip (ndCodec env)" and "ndCodec env' = ndCodec env"
    and "\<And>tr. ndNow env tr = t" and "\<And>tr. ndNow env' tr \<le> t + hour"
    and "\<And>tr. ndGetNode env tr n = Inr node" and "noName node = n" and "n \<noteq> []"
    and "\<And>tr. ndGetNode env' tr n = Inr node'" and "noName node' = n"
    and "all_listed env n" and "all_listed env' n"
    and "nodes_Reconcile env n \<lparr>ndTrace = [], ndCache = c\<rparr> = (Inr (), st')"
    and "posted (ndTrace st') \<noteq> []" and "cm \<in> set (stored (ndTrace st'))"
    and "\<And>tr. ndGetCacheMap env' tr = Inr cm"
  shows "posted (ndTrace (snd (nodes_Reconcile env' n \<lparr>ndTrace = [], ndCache = c'\<rparr>))) = []"
proof -
  obtain e where "GetEntry (ndCodec env) (newCache cm False) n = Inr e" "neLastMarked e = t"
    using first_reconcile_records_mark[OF assms(1,3,5,6,7,10,12) _ assms(14)] assms(13) by auto
  then show ?thesis
    using second_reconcile_quiet[OF assms(15) _ _ assms(8,9,11), of e "\<lparr>ndTrace = [], ndCache = c'\<rparr>"]
      assms(2,4) by simp
qed

lemma hostEntityMap_update_apply:
  "hostEntityMap_update h m ip = (if ip \<in> set (hrIPAddresses h) then Some (hrEntityID h) else m ip)"
proof -
  have "fold (\<lambda>ip m. m(ip \<mapsto> e)) ips m ip = (if ip \<in> set ips then Some e else m ip)" for ips e
    by (induction ips arbitrary: m) auto
  then show ?thesis by (simp add: hostEntityMap_update_def)
qed

text \<open>The host an event is attached to is the last one of the answer that lies in the network zone of the
  DynaKube and has the address of the node; without one the lookup fails.\<close>

theorem entity_of_ip:
  "entity_lookup hosts zone ip =
     (case find (\<lambda>h. in_zone zone h \<and> ip \<in> set (hrIPAddresses h)) (rev hosts) of
        None \<Rightarrow> Inl (EntityNotFoundError ip)
      | Some h \<Rightarrow> if hrEntityID h = [] then Inl (EntityNotFoundError ip) else Inr (hrEntityID h))"
proof -
  have "buildHostEntityMap hosts zone ip =
      map_option hrEntityID (find (\<lambda>h. in_zone zone h \<and> ip \<in> set (hrIPAddresses h)) (rev hosts))"
    by (induction hosts rule: rev_induct) (simp_all add: buildHostEntityMap_def hostEntityMap_update_apply)
  then show ?thesis by (simp add: entity_lookup_def split: option.split)
qed

section \<open>The properties on concrete inputs\<close>

definition sample_entry :: node_entry where
  "sample_entry = \<lparr>neLastSeen = 10 * hour, neLastMarked = 10 * hour, neIPAddress = ''1.1.1.1'',
     neNodeName = [], neDynaKubeName = ''dk''\<rparr>"

definition sample_codec :: codec where
  "sample_codec = \<lparr>cdMarshal = \<lambda>e. if e\<lparr>neNodeName := []\<rparr> = sample_entry then Inr ''x'' else Inl (Sentinel ''json''),
     cdUnmarshal = \<lambda>s. if s = ''x'' then Inr sample_entry else Inl (Sentinel ''json''),
     cdFormat = \<lambda>_. ''now'', cdParse = \<lambda>_. None\<rparr>"

lemma sample_codec_roundtrip: "codec_roundtrip sample_codec"
  by (simp add: codec_roundtrip_def sample_codec_def)

definition sample_node_dynakube :: dynakube where
  "sample_node_dynakube = zero_dynakube\<lparr>dkName := ''dk'', dkStatus := zero_dynakube_status\<lparr>dstOneAgent :=
     (dstOneAgent zero_dynakube_status)\<lparr>osInstances := [''n'' \<mapsto> \<lparr>oiPodName = ''p'', oiIPAddress = ''1.1.1.1''\<rparr>]\<rparr>\<rparr>\<rparr>"

definition sample_nodes_env :: "int \<Rightarrow> error + config_map \<Rightarrow> nodes_env" where
  "sample_nodes_env t cache =
     \<lparr>ndCodec = sample_codec, ndRunLocal = True, ndNow = \<lambda>_. t,
      ndListDynaKubes = \<lambda>_. Inr [sample_node_dynakube],
      ndGetSecret = \<lambda>_ _ _. Inr [(APIKey, ''t'')], ndGetDeployment = \<lambda>_. None, ndSetOwner = None,
      ndGetCacheMap = \<lambda>_. cache,
      ndGetNode = \<lambda>_ _. Inr \<lparr>noName = ''n'', noUnschedulable = True, noTaintKeys = []\<rparr>,
      ndListNodes = \<lambda>_. Inr [''n''], ndNewDTClient = \<lambda>_ _. None,
      ndGetHosts = \<lambda>_. Inr [\<lparr>hrEntityID = ''HOST-1'', hrNetworkZoneID = [], hrIPAddresses = [''1.1.1.1'']\<rparr>],
      ndPostEvent = \<lambda>_ _. None, ndStore = \<lambda>_ _. None\<rparr>"

definition sample_nodes_start :: nodes_state where
  "sample_nodes_start = \<lparr>ndTrace = [], ndCache = newCache \<lparr>cmData = None, cmAnnotations = Map.empty\<rparr> False\<rparr>"

definition sample_first_run :: "(error + unit) \<times> nodes_state" where
  "sample_first_run = nodes_Reconcile (sample_nodes_env (10 * hour) (Inl (ApiStatus ''NotFound''))) ''n'' sample_nodes_start"

lemma sample_first_ok: "fst sample_first_run = Inr ()"
  by code_simp

lemma sample_first_posts: "length (posted (ndTrace (snd sample_first_run))) = 1"
  by code_simp

lemma sample_first_stores: "map (\<lambda>cm. Keys (newCache cm False)) (stored (ndTrace (snd sample_first_run))) = [[''n'']]"
  by code_simp

definition sample_stored :: config_map where
  "sample_stored = hd (stored (ndTrace (snd sample_first_run)))"

lemma sample_stored_facts:
  "sample_stored \<in> set (stored (ndTrace (snd sample_first_run)))" "Keys (newCache sample_stored False) = [''n'']"
  using sample_first_stores by (auto simp: sample_stored_def)

theorem termination_event_witness:
  "posted (ndTrace (snd (nodes_Reconcile (sample_nodes_env (10 * hour + minute) (Inr sample_stored)) ''n''
     sample_nodes_start))) = []"
  unfolding sample_nodes_start_def
proof (rule termination_event_once_an_hour[where n = "''n''" and t = "10 * hour" and cm = sample_stored
      and c = "newCache \<lparr>cmData = None, cmAnnotations = Map.empty\<rparr> False" and st' = "snd sample_first_run"
      and env = "sample_nodes_env (10 * hour) (Inl (ApiStatus ''NotFound''))"
      and node = "\<lparr>noName = ''n'', noUnschedulable = True, noTaintKeys = []\<rparr>"
      and node' = "\<lparr>noName = ''n'', noUnschedulable = True, noTaintKeys = []\<rparr>"])
  show "nodes_Reconcile (sample_nodes_env (10 * hour) (Inl (ApiStatus ''NotFound''))) ''n''
      \<lparr>ndTrace = [], ndCache = newCache \<lparr>cmData = None, cmAnnotations = Map.empty\<rparr> False\<rparr>
    = (Inr (), snd sample_first_run)"
    using sample_first_ok by (simp add: sample_first_run_def sample_nodes_start_def prod_eq_iff)
  show "posted (ndTrace (snd sample_first_run)) \<noteq> []" using sample_first_posts by auto
qed (simp_all add: sample_nodes_env_def sample_codec_roundtrip all_listed_def sample_stored_facts time_units)

theorem cache_stored_last_witness:
  "last_call_stores (sample_nodes_env (10 * hour) (Inl (ApiStatus ''NotFound''))) (Inr ()) (snd sample_first_run)"
proof -
  have "nodes_Reconcile (sample_nodes_env (10 * hour) (Inl (ApiStatus ''NotFound''))) ''n''
      \<lparr>ndTrace = [], ndCache = newCache \<lparr>cmData = None, cmAnnotations = Map.empty\<rparr> False\<rparr>
    = (Inr (), snd sample_first_run)"
    using sample_first_ok by (simp add: sample_first_run_def sample_nodes_start_def prod_eq_iff)
  from cache_stored_last[OF this] sample_first_stores show ?thesis by auto
qed

definition sample_cache :: node_cache where
  "sample_cache = newCache \<lparr>cmData = Some [(''n'', ''x''), (''bad'', ''?''), (''gone'', ''x'')],
     cmAnnotations = Map.empty\<rparr> False"

theorem prune_exact_witness:
  "Keys (fst (Prune sample_codec [''n'', ''bad''] (12 * hour) sample_cache)) = [''bad'', ''gone''] \<and>
   snd (Prune sample_codec [''n'', ''bad''] (12 * hour) sample_cache) = [''gone'']"
proof -
  have keys: "Keys sample_cache = [''n'', ''bad'', ''gone'']" by (simp add: sample_cache_def newCache_def Keys_def)
  have "prunable sample_codec [''n'', ''bad''] (12 * hour) sample_cache ''n''"
    "\<not> prunable sample_codec [''n'', ''bad''] (12 * hour) sample_cache ''bad''"
    "\<not> prunable sample_codec [''n'', ''bad''] (12 * hour) sample_cache ''gone''"
    by (simp_all add: prunable_def GetEntry_def sample_cache_def newCache_def cache_data_def sample_codec_def
        sample_entry_def time_sub_def time_units min_int_def max_int_def)
  then show ?thesis
    using prune_exact[of sample_cache sample_codec "[''n'', ''bad'']" "12 * hour"] by (simp add: keys)
qed

theorem corrupt_entry_witness:
  "''bad'' \<in> set (Keys (fst (Prune sample_codec [''n'', ''bad''] (12 * hour) sample_cache)))"
  using corrupt_entry_survives_prune[of sample_codec sample_cache "''bad''" "Sentinel ''json''" "[''n'', ''bad'']"
      "12 * hour"]
  by (simp add: sample_cache_def newCache_def Keys_def GetEntry_def cache_data_def sample_codec_def)

end
