(* ===== verification/DynaKubePhase.thy ===== *)
theory DynaKubePhase
  imports DynaKube "HOL-Library.Word"
begin

text \<open>
  \<open>pkg/controllers/dynakube/phase.go\<close>: the phase of a DynaKube is computed from the workloads of its enabled
  components, in a fixed order; the first component that is not running decides. What the Kubernetes
  API returns for a workload is a field of \<open>phase_env\<close>; pod counts are \<open>int32\<close>, that is 32-bit words.
\<close>

section \<open>Workloads\<close>

type_synonym int32 = "32 word"

record stateful_set =
  ssGeneration :: int
  ssObservedGeneration :: int
  ssReplicas :: "int32 option"
  ssReadyReplicas :: int32

record daemon_set =
  dsCurrentNumberScheduled :: int32
  dsNumberReady :: int32

record deployment =
  dpDeleted :: bool
  dpGeneration :: int
  dpObservedGeneration :: int
  dpReplicas :: int32
  dpReadyReplicas :: int32

text \<open>Lookups by namespace and name; the deployments of the database extensions of a DynaKube.\<close>

record phase_env =
  phGetStatefulSet :: "string \<Rightarrow> string \<Rightarrow> error + stateful_set"
  phGetDaemonSet :: "string \<Rightarrow> string \<Rightarrow> error + daemon_set"
  phListDeployments :: "dynakube \<Rightarrow> error + deployment list"

abbreviation Running :: string where "Running \<equiv> ''Running''"
abbreviation Deploying :: string where "Deploying \<equiv> ''Deploying''"
abbreviation PhaseError :: string where "PhaseError \<equiv> ''Error''"

definition IsRolloutComplete :: "stateful_set \<Rightarrow> bool" where
  "IsRolloutComplete ss \<longleftrightarrow>
     (let desiredReplicas = (case ssReplicas ss of None \<Rightarrow> 0 | Some r \<Rightarrow> r)
      in ssGeneration ss = ssObservedGeneration ss \<and> desiredReplicas = ssReadyReplicas ss)"

section \<open>The components\<close>

definition determineStatefulSetPhase :: "phase_env \<Rightarrow> dynakube \<Rightarrow> string \<Rightarrow> string" where
  "determineStatefulSetPhase env dk statefulsetName =
     (case phGetStatefulSet env (dkNamespace dk) statefulsetName of
        Inl e \<Rightarrow> if is_not_found e then Deploying else PhaseError
      | Inr ss \<Rightarrow> if \<not> IsRolloutComplete ss then Deploying else Running)"

definition numberOfMissingDaemonSetPods :: "phase_env \<Rightarrow> dynakube \<Rightarrow> string \<Rightarrow> error + int32" where
  "numberOfMissingDaemonSetPods env dk dsName =
     (case phGetDaemonSet env (dkNamespace dk) dsName of
        Inl e \<Rightarrow> Inl e
      | Inr ds \<Rightarrow> Inr (dsCurrentNumberScheduled ds - dsNumberReady ds))"

definition CalculateStatefulSetName :: "string \<Rightarrow> string" where
  "CalculateStatefulSetName dynakubeName = dynakubeName @ ''-activegate''"

definition numberOfMissingActiveGatePods :: "phase_env \<Rightarrow> dynakube \<Rightarrow> error + int32" where
  "numberOfMissingActiveGatePods env dk =
     (case phGetStatefulSet env (dkNamespace dk) (CalculateStatefulSetName (dkName dk)) of
        Inl e \<Rightarrow> if is_not_found e then Inr (-1) else Inl e
      | Inr ss \<Rightarrow>
          (let scheduledReplicas = (case ssReplicas ss of None \<Rightarrow> 0 | Some r \<Rightarrow> r)
           in Inr (scheduledReplicas - ssReadyReplicas ss)))"

definition determineActiveGatePhase :: "phase_env \<Rightarrow> dynakube \<Rightarrow> string" where
  "determineActiveGatePhase env dk =
     (if ag_IsEnabled (dk_ActiveGate dk) then
        (case numberOfMissingActiveGatePods env dk of
           Inl e \<Rightarrow> PhaseError
         | Inr activeGatePods \<Rightarrow>
             if sint activeGatePods > 0 then Deploying
             else if sint activeGatePods < 0 then Deploying
             else Running)
      else Running)"

definition km_GetStatefulSetName :: "string \<Rightarrow> string" where
  "km_GetStatefulSetName n = n @ ''-kubemon''"

definition determineKubernetesMonitoringPhase :: "phase_env \<Rightarrow> dynakube \<Rightarrow> string" where
  "determineKubernetesMonitoringPhase env dk =
     (if km_IsEnabled (dspKubernetesMonitoring (dkSpec dk))
      then determineStatefulSetPhase env dk (km_GetStatefulSetName (dkName dk)) else Running)"

definition determineExtensionsExecutionControllerPhase :: "phase_env \<Rightarrow> dynakube \<Rightarrow> string" where
  "determineExtensionsExecutionControllerPhase env dk =
     (if ext_IsAnyEnabled (dk_Extensions dk)
      then determineStatefulSetPhase env dk (ext_GetExecutionControllerStatefulsetName (dk_Extensions dk))
      else Running)"

definition OTelCollectorStatefulsetName :: "dynakube \<Rightarrow> string" where
  "OTelCollectorStatefulsetName dk = dkName dk @ ''-otel-collector''"

definition determineOTelCollectorPhase :: "phase_env \<Rightarrow> dynakube \<Rightarrow> string" where
  "determineOTelCollectorPhase env dk =
     (if ext_IsPrometheusEnabled (dk_Extensions dk) \<or> ti_IsEnabled (dspTelemetryIngest (dkSpec dk))
      then determineStatefulSetPhase env dk (OTelCollectorStatefulsetName dk) else Running)"

fun deployments_phase :: "deployment list \<Rightarrow> string" where
  "deployments_phase [] = Running"
| "deployments_phase (d # ds) =
     (if dpDeleted d then deployments_phase ds
      else if dpGeneration d \<noteq> dpObservedGeneration d \<or> dpReplicas d \<noteq> dpReadyReplicas d then Deploying
      else deployments_phase ds)"

definition determineExtensionsDatabasesPhase :: "phase_env \<Rightarrow> dynakube \<Rightarrow> string" where
  "determineExtensionsDatabasesPhase env dk =
     (if ext_IsDatabasesEnabled (dk_Extensions dk) then
        (case phListDeployments env dk of
           Inl e \<Rightarrow> PhaseError
         | Inr deployments \<Rightarrow> if deployments = [] then Deploying else deployments_phase deployments)
      else Running)"

text \<open>The common body of the phases of OneAgent, log agent and KSPM.\<close>

definition daemonset_phase :: "phase_env \<Rightarrow> dynakube \<Rightarrow> string \<Rightarrow> string" where
  "daemonset_phase env dk dsName =
     (case numberOfMissingDaemonSetPods env dk dsName of
        Inl e \<Rightarrow> if is_not_found e then Deploying else PhaseError
      | Inr pods \<Rightarrow> if sint pods > 0 then Deploying else Running)"

definition determineOneAgentPhase :: "phase_env \<Rightarrow> dynakube \<Rightarrow> string" where
  "determineOneAgentPhase env dk =
     (if IsCloudNativeFullstackMode (dk_OneAgent dk) \<or> IsClassicFullStackMode (dk_OneAgent dk) \<or>
         IsHostMonitoringMode (dk_OneAgent dk)
      then daemonset_phase env dk (oa_GetDaemonsetName (dk_OneAgent dk)) else Running)"

definition determineLogAgentPhase :: "phase_env \<Rightarrow> dynakube \<Rightarrow> string" where
  "determineLogAgentPhase env dk =
     (if lm_IsStandalone (dk_LogMonitoring dk)
      then daemonset_phase env dk (lm_GetDaemonSetName (dk_LogMonitoring dk)) else Running)"

definition kspm_GetDaemonSetName :: "string \<Rightarrow> string" where
  "kspm_GetDaemonSetName n = n @ ''-node-config-collector''"

definition determineKSPMPhase :: "phase_env \<Rightarrow> dynakube \<Rightarrow> string" where
  "determineKSPMPhase env dk =
     (if dk_KSPM_IsEnabled dk then daemonset_phase env dk (kspm_GetDaemonSetName (dkName dk)) else Running)"

fun first_not_running :: "(dynakube \<Rightarrow> string) list \<Rightarrow> dynakube \<Rightarrow> string" where
  "first_not_running [] dk = Running"
| "first_not_running (c # cs) dk = (let phase = c dk in if phase \<noteq> Running then phase else first_not_running cs dk)"

definition determineDynaKubePhase :: "phase_env \<Rightarrow> dynakube \<Rightarrow> string" where
  "determineDynaKubePhase env =
     first_not_running
       [determineActiveGatePhase env,
        determineKubernetesMonitoringPhase env,
        determineExtensionsExecutionControllerPhase env,
        determineExtensionsDatabasesPhase env,
        determineOneAgentPhase env,
        determineLogAgentPhase env,
        determineKSPMPhase env,
        determineOTelCollectorPhase env]"

section \<open>When a DynaKube is running\<close>

lemma sint_diff:
  fixes a b :: int32
  assumes "0 \<le> sint a" "0 \<le> sint b"
  shows "sint (a - b) = sint a - sint b"
proof -
  have "sint a < 2 ^ 31" "sint b < 2 ^ 31" using sint_lt[of a] sint_lt[of b] by simp_all
  with assms show ?thesis
    by (simp add: sint_word_ariths signed_take_bit_int_eq_self)
qed

definition ss_running :: "phase_env \<Rightarrow> dynakube \<Rightarrow> string \<Rightarrow> bool" where
  "ss_running env dk n \<longleftrightarrow>
     (\<exists>ss. phGetStatefulSet env (dkNamespace dk) n = Inr ss \<and> IsRolloutComplete ss)"

definition ag_running :: "phase_env \<Rightarrow> dynakube \<Rightarrow> bool" where
  "ag_running env dk \<longleftrightarrow>
     (\<exists>ss. phGetStatefulSet env (dkNamespace dk) (CalculateStatefulSetName (dkName dk)) = Inr ss \<and>
        (case ssReplicas ss of None \<Rightarrow> 0 | Some r \<Rightarrow> r) = ssReadyReplicas ss)"

definition ds_running :: "phase_env \<Rightarrow> dynakube \<Rightarrow> string \<Rightarrow> bool" where
  "ds_running env dk n \<longleftrightarrow>
     (\<exists>ds. phGetDaemonSet env (dkNamespace dk) n = Inr ds \<and>
        sint (dsCurrentNumberScheduled ds) \<le> sint (dsNumberReady ds))"

definition deployments_running :: "phase_env \<Rightarrow> dynakube \<Rightarrow> bool" where
  "deployments_running env dk \<longleftrightarrow>
     (\<exists>ds. phListDeployments env dk = Inr ds \<and> ds \<noteq> [] \<and>
        (\<forall>d\<in>set ds. dpDeleted d \<or> dpGeneration d = dpObservedGeneration d \<and> dpReplicas d = dpReadyReplicas d))"

text \<open>The API server never reports negative pod counts.\<close>

definition counts_ok :: "phase_env \<Rightarrow> bool" where
  "counts_ok env \<longleftrightarrow>
     (\<forall>ns n ds. phGetDaemonSet env ns n = Inr ds \<longrightarrow>
        0 \<le> sint (dsCurrentNumberScheduled ds) \<and> 0 \<le> sint (dsNumberReady ds))"

lemma statefulset_phase_iff: "determineStatefulSetPhase env dk n = Running \<longleftrightarrow> ss_running env dk n"
  by (auto simp: determineStatefulSetPhase_def ss_running_def split: sum.splits)

lemma sint_zero_iff: "sint (w :: int32) = 0 \<longleftrightarrow> w = 0"
  by (metis signed_0 signed_word_eqI)

lemma activegate_phase_iff:
  "determineActiveGatePhase env dk = Running \<longleftrightarrow> (ag_IsEnabled (dk_ActiveGate dk) \<longrightarrow> ag_running env dk)"
proof -
  have zero: "(if sint w > 0 then Deploying else if sint w < 0 then Deploying else Running) = Running \<longleftrightarrow> w = 0"
    for w :: int32
    using sint_zero_iff[of w] by (auto split: if_splits)
  show ?thesis
    by (simp add: determineActiveGatePhase_def numberOfMissingActiveGatePods_def ag_running_def Let_def zero
        split: sum.splits)
qed

lemma daemonset_phase_iff:
  "counts_ok env \<Longrightarrow> daemonset_phase env dk n = Running \<longleftrightarrow> ds_running env dk n"
  by (auto simp: daemonset_phase_def numberOfMissingDaemonSetPods_def ds_running_def counts_ok_def sint_diff
      not_less split: sum.splits)

lemma deployments_phase_iff:
  "deployments_phase ds = Running \<longleftrightarrow>
     (\<forall>d\<in>set ds. dpDeleted d \<or> dpGeneration d = dpObservedGeneration d \<and> dpReplicas d = dpReadyReplicas d)"
  by (induction ds) auto

lemma databases_phase_iff:
  "determineExtensionsDatabasesPhase env dk = Running \<longleftrightarrow>
     (ext_IsDatabasesEnabled (dk_Extensions dk) \<longrightarrow> deployments_running env dk)"
  by (auto simp: determineExtensionsDatabasesPhase_def deployments_running_def deployments_phase_iff
      split: sum.splits)

lemma first_not_running_iff: "first_not_running cs dk = Running \<longleftrightarrow> (\<forall>c\<in>set cs. c dk = Running)"
  by (induction cs) (auto simp: Let_def)

text \<open>C31. A DynaKube is Running exactly when every enabled component is: the ActiveGate has exactly the
  wanted ready pods, the stateful sets are rolled out, at least one database deployment exists and
  those not being deleted are up to date, and the daemon sets have no scheduled pod that is not
  ready.\<close>

theorem phase_running_iff:
  assumes "counts_ok env"
  shows "determineDynaKubePhase env dk = Running \<longleftrightarrow>
    (ag_IsEnabled (dk_ActiveGate dk) \<longrightarrow> ag_running env dk) \<and>
    (km_IsEnabled (dspKubernetesMonitoring (dkSpec dk)) \<longrightarrow> ss_running env dk (km_GetStatefulSetName (dkName dk))) \<and>
    (ext_IsAnyEnabled (dk_Extensions dk) \<longrightarrow>
       ss_running env dk (ext_GetExecutionControllerStatefulsetName (dk_Extensions dk))) \<and>
    (ext_IsDatabasesEnabled (dk_Extensions dk) \<longrightarrow> deployments_running env dk) \<and>
    (IsCloudNativeFullstackMode (dk_OneAgent dk) \<or> IsClassicFullStackMode (dk_OneAgent dk) \<or>
       IsHostMonitoringMode (dk_OneAgent dk) \<longrightarrow> ds_running env dk (oa_GetDaemonsetName (dk_OneAgent dk))) \<and>
    (lm_IsStandalone (dk_LogMonitoring dk) \<longrightarrow> ds_running env dk (lm_GetDaemonSetName (dk_LogMonitoring dk))) \<and>
    (dk_KSPM_IsEnabled dk \<longrightarrow> ds_running env dk (kspm_GetDaemonSetName (dkName dk))) \<and>
    (ext_IsPrometheusEnabled (dk_Extensions dk) \<or> ti_IsEnabled (dspTelemetryIngest (dkSpec dk)) \<longrightarrow>
       ss_running env dk (OTelCollectorStatefulsetName dk))"
proof -
  have comp_if: "(if P then x else Running) = Running \<longleftrightarrow> (P \<longrightarrow> x = Running)" for P x by simp
  show ?thesis
    unfolding determineDynaKubePhase_def first_not_running_iff
    by (simp only: list.set ball_simps simp_thms comp_if activegate_phase_iff databases_phase_iff
        determineKubernetesMonitoringPhase_def determineExtensionsExecutionControllerPhase_def
        determineOneAgentPhase_def determineLogAgentPhase_def determineKSPMPhase_def
        determineOTelCollectorPhase_def statefulset_phase_iff daemonset_phase_iff[OF assms])
qed

section \<open>The phase on a concrete DynaKube\<close>

definition sample_workloads :: "int32 \<Rightarrow> phase_env" where
  "sample_workloads ready =
     \<lparr>phGetStatefulSet = \<lambda>_ n. if n = ''a-activegate'' \<or> n = ''a-extension-controller'' \<or> n = ''a-otel-collector''
        then Inr \<lparr>ssGeneration = 1, ssObservedGeneration = 1, ssReplicas = Some 2, ssReadyReplicas = ready\<rparr>
        else Inl (ApiStatus ''NotFound''),
      phGetDaemonSet = \<lambda>_ _. Inr \<lparr>dsCurrentNumberScheduled = 3, dsNumberReady = 3\<rparr>,
      phListDeployments = \<lambda>_. Inr []\<rparr>"

definition sample_log_dynakube :: dynakube where
  "sample_log_dynakube = zero_dynakube\<lparr>dkName := ''a'', dkSpec := zero_dynakube_spec
     \<lparr>dspLogMonitoring := Some [], dspKSPM := Some []\<rparr>\<rparr>"

theorem phase_running_witness: "determineDynaKubePhase (sample_workloads 2) sample_log_dynakube = Running"
proof -
  have ok: "counts_ok (sample_workloads 2)" by (simp add: counts_ok_def sample_workloads_def)
  have ds: "ds_running (sample_workloads 2) sample_log_dynakube n" for n
    by (simp add: ds_running_def sample_workloads_def)
  show ?thesis
    unfolding phase_running_iff[OF ok]
    by (simp add: ds, simp add: sample_log_dynakube_def zero_dynakube_def zero_dynakube_spec_def
        zero_oneagent_spec_def zero_activegate_spec_def dk_ActiveGate_def ag_IsEnabled_def km_IsEnabled_def
        dk_Extensions_def ext_IsAnyEnabled_def ext_IsPrometheusEnabled_def ext_IsDatabasesEnabled_def
        ti_IsEnabled_def)
qed

end
