(* ===== verification/Hasher.thy ===== *)
theory Hasher
  imports GoStd "HOL-Library.Word"
begin

unbundle bit_operations_syntax

text \<open>
  \<open>pkg/util/hasher\<close>: the 32-bit FNV-1 hash by which the operator decides whether an object or a status
  changed. \<open>json.Marshal\<close> is the argument \<open>marshal\<close>; \<open>hash/fnv\<close> is written out.
\<close>

section \<open>Definitions\<close>

definition fnv_offset :: "32 word" where "fnv_offset = 2166136261"
definition fnv_prime :: "32 word" where "fnv_prime = 16777619"

text \<open>One byte of \<open>fnv.New32\<close>: multiply, then xor.\<close>

definition fnv_step :: "8 word \<Rightarrow> 32 word \<Rightarrow> 32 word" where
  "fnv_step b h = (h * fnv_prime) XOR ucast b"

definition fnv32 :: "8 word list \<Rightarrow> 32 word" where
  "fnv32 bytes = fold fnv_step bytes fnv_offset"

definition GenerateHash :: "('a \<Rightarrow> error + 8 word list) \<Rightarrow> 'a \<Rightarrow> error + string" where
  "GenerateHash marshal input =
     (case marshal input of Inl e \<Rightarrow> Inl e | Inr data \<Rightarrow> Inr (show_nat (unat (fnv32 data))))"

definition IsDifferent :: "('a \<Rightarrow> error + 8 word list) \<Rightarrow> 'a \<Rightarrow> 'a \<Rightarrow> error + bool" where
  "IsDifferent marshal a b =
     (case GenerateHash marshal a of
        Inl e \<Rightarrow> Inl e
      | Inr hashA \<Rightarrow>
     (case GenerateHash marshal b of
        Inl e \<Rightarrow> Inl e
      | Inr hashB \<Rightarrow> Inr (hashA \<noteq> hashB)))"

abbreviation AnnotationHash :: string where "AnnotationHash \<equiv> ''internal.operator.dynatrace.com/template-hash''"

definition getHash :: "(string \<rightharpoonup> string) \<Rightarrow> string" where
  "getHash annotations = (case annotations AnnotationHash of None \<Rightarrow> [] | Some h \<Rightarrow> h)"

definition IsAnnotationDifferent :: "(string \<rightharpoonup> string) \<Rightarrow> (string \<rightharpoonup> string) \<Rightarrow> bool" where
  "IsAnnotationDifferent a b \<longleftrightarrow> getHash a \<noteq> getHash b"

section \<open>The hash sees every change of one byte\<close>

lemma fnv_prime_inverse: "fnv_prime * 899433627 = 1"
  by (simp add: fnv_prime_def)

lemma fnv_prime_cancel: "x * fnv_prime = y * fnv_prime \<longleftrightarrow> x = y"
proof
  assume "x * fnv_prime = y * fnv_prime"
  then have "x * (fnv_prime * 899433627) = y * (fnv_prime * 899433627)"
    by (simp only: mult.assoc [symmetric])
  then show "x = y" by (simp add: fnv_prime_inverse)
qed simp

lemma xor_cancel: "x XOR z = y XOR z \<longleftrightarrow> x = (y :: 'a::len word)"
  by (metis xor.assoc xor.right_neutral xor_self_eq)

lemma fnv_step_inj: "fnv_step b h = fnv_step b h' \<longleftrightarrow> h = h'"
  by (simp add: fnv_step_def xor_cancel fnv_prime_cancel)

lemma ucast_byte_inj: "ucast (b :: 8 word) = (ucast c :: 32 word) \<longleftrightarrow> b = c"
proof
  assume "ucast b = (ucast c :: 32 word)"
  then have "ucast (ucast b :: 32 word) = (ucast (ucast c :: 32 word) :: 8 word)" by simp
  then show "b = c" by (simp add: ucast_up_ucast_id is_up)
qed simp

lemma fnv_step_byte_inj: "fnv_step b h = fnv_step c h \<longleftrightarrow> b = c"
  by (metis fnv_step_def ucast_byte_inj xor.commute xor_cancel)

lemma fold_fnv_inj: "fold fnv_step bs h = fold fnv_step bs h' \<longleftrightarrow> h = h'"
  by (induction bs arbitrary: h h') (simp_all add: fnv_step_inj)

lemma show_nat_inj: "show_nat m = show_nat n \<longleftrightarrow> m = n"
  by (metis parse_show_nat)

text \<open>Objects whose JSON differs in exactly one byte always get different hashes; objects with the same
  JSON never do. In between the 32-bit hash may collide.\<close>

theorem one_byte_change_detected:
  assumes "marshal a = Inr (pre @ x # post)" and "marshal b = Inr (pre @ y # post)"
  shows "IsDifferent marshal a b = Inr (x \<noteq> y)"
proof -
  have "fnv32 (pre @ x # post) = fnv32 (pre @ y # post) \<longleftrightarrow> x = y"
    by (simp add: fnv32_def fold_fnv_inj fnv_step_byte_inj)
  then show ?thesis
    using assms by (simp add: IsDifferent_def GenerateHash_def show_nat_inj word_unat_eq_iff)
qed

theorem one_byte_change_witness: "IsDifferent (\<lambda>b. Inr [b]) (97 :: 8 word) 98 = Inr True"
  using one_byte_change_detected[of "\<lambda>b. Inr [b]" "97 :: 8 word" "[]" 97 "[]" 98 98] by simp

end
