(* ===== verification/DynaKubeCtrl.thy ===== *)
theory DynaKubeCtrl
  imports Tokens NamespaceMapper DynaKubePhase Hasher DtCore
begin

text \<open>
  \<open>pkg/controllers/dynakube/controller.go\<close>: one reconcile of a DynaKube. The reconcilers of the components
  are interfaces of the controller and here functions of \<open>controller_env\<close>: each may change the DynaKube
  (its status), may write the status itself any number of times (the connection information of the OneAgent
  does: \<open>connectioninfo/oneagent/reconciler.go\<close>) and may fail, depending on what ran before. The log records
  which component ran with which status writes and which error, the status writes of the controller,
  and the calls of the namespace mapper.
\<close>

section \<open>State and environment\<close>

datatype component =
    IstioAPIURL | DeploymentMetadata | ProxyResources
  | K8sEntity | ActiveGate | KubeMonitoring | Extension | OtelCollector | Kspm
  | LogMonitoring | AppInjection | OneAgentComponent

datatype ctrl_event =
    Ran component "dynakube_status list" "error option"
  | CRDMismatchEvent
  | StatusUpdate dynakube_status
  | MapperCall mapper_call

record controller_env =
  ceToken :: token_env
  ceGetDynaKube :: "string \<Rightarrow> string \<Rightarrow> error + dynakube"
  ceNamespacesFor :: "string \<Rightarrow> error + namespace list"
  ceMapper :: mapper_env
  ceCRDLatest :: "error + bool"
  ceGetSecret :: "string \<Rightarrow> string \<Rightarrow> error + (string \<times> string) list"
  ceNewDTClient :: "dynakube \<Rightarrow> error option"
  ceComponent :: "component \<Rightarrow> ctrl_event list \<Rightarrow> dynakube \<Rightarrow>
    (error + unit) \<times> dynakube_status list \<times> dynakube"
  cePhase :: "ctrl_event list \<Rightarrow> phase_env"
  ceMarshal :: "dynakube_status \<Rightarrow> error + 8 word list"
  ceUpdateStatus :: "ctrl_event list \<Rightarrow> dynakube \<Rightarrow> error option"
  ceNow :: int
  ceClusterID :: string
  ceDefaultRequeueAfter :: int

record ctrl_state =
  csLog :: "ctrl_event list"
  csDk :: dynakube
  csTokens :: Tokens
  csRequeueAfter :: int

abbreviation fastRequeueInterval :: int where "fastRequeueInterval \<equiv> minute"

definition log_event :: "ctrl_event \<Rightarrow> ctrl_state \<Rightarrow> ctrl_state" where
  "log_event e st = st\<lparr>csLog := csLog st @ [e]\<rparr>"

definition set_dk :: "dynakube \<Rightarrow> (ctrl_state, unit) io" where
  "set_dk dk = modify (\<lambda>st. st\<lparr>csDk := dk\<rparr>)"

section \<open>Error classes\<close>

abbreviation NoCommunicationEndpointsError :: string where
  "NoCommunicationEndpointsError \<equiv> ''no communication endpoints for OneAgent are available''"
abbreviation StaleNetworkZoneEndpointsError :: string where
  "StaleNetworkZoneEndpointsError \<equiv> ''OneAgent endpoints do not contain the local ActiveGate Service IP, waiting for the ActiveGate to register itself''"
abbreviation KubernetesSettingsNotAvailableError :: string where
  "KubernetesSettingsNotAvailableError \<equiv> ''the status of the DynaKube is missing information about the kubernetes monitored-entity, skipping LogMonitoring deployment until it is ready''"
abbreviation ErrRolloutInProgress :: string where "ErrRolloutInProgress \<equiv> ''statefulset rollout in progress''"
abbreviation ErrConnectionInfoNotReady :: string where
  "ErrConnectionInfoNotReady \<equiv> ''kubemon connection info is not ready yet''"

definition IsPostponedError :: "error \<Rightarrow> bool" where
  "IsPostponedError e \<longleftrightarrow> errors_is e NoCommunicationEndpointsError \<or> errors_is e StaleNetworkZoneEndpointsError"

definition IsTransientError :: "error \<Rightarrow> bool" where
  "IsTransientError e \<longleftrightarrow> errors_is e ErrRolloutInProgress \<or> errors_is e ErrConnectionInfoNotReady"

section \<open>Components\<close>

definition run_component :: "controller_env \<Rightarrow> component \<Rightarrow> (ctrl_state, unit) io" where
  "run_component env c st =
     (case ceComponent env c (csLog st) (csDk st) of
        (r, written, dk) \<Rightarrow>
          (r, log_event (Ran c written (case r of Inl e \<Rightarrow> Some e | Inr _ \<Rightarrow> None)) (st\<lparr>csDk := dk\<rparr>)))"

definition setRequeueAfterIfNewIsShorter :: "int \<Rightarrow> (ctrl_state, unit) io" where
  "setRequeueAfterIfNewIsShorter requeueAfter =
     modify (\<lambda>st. if csRequeueAfter st > requeueAfter then st\<lparr>csRequeueAfter := requeueAfter\<rparr> else st)"

definition reconcileActiveGate :: "controller_env \<Rightarrow> (ctrl_state, unit) io" where
  "reconcileActiveGate env = wrap_msg ''failed to reconcile ActiveGate'' (run_component env ActiveGate)"

definition join_io :: "error list \<Rightarrow> (ctrl_state, unit) io" where
  "join_io es = (case join_errors es of None \<Rightarrow> ret () | Some e \<Rightarrow> throw e)"

text \<open>A component whose error is only collected.\<close>

definition collecting :: "(ctrl_state, unit) io \<Rightarrow> error list \<Rightarrow> (error list \<Rightarrow> (ctrl_state, unit) io) \<Rightarrow> (ctrl_state, unit) io" where
  "collecting m es k = andThen (attempt m) (\<lambda>r. case r of Inl e \<Rightarrow> k (es @ [e]) | Inr _ \<Rightarrow> k es)"

text \<open>A component whose error may also end the reconcile early, with the errors collected so far.\<close>

definition postponing ::
    "(error \<Rightarrow> bool) \<Rightarrow> (ctrl_state, unit) io \<Rightarrow> error list \<Rightarrow> (error list \<Rightarrow> (ctrl_state, unit) io) \<Rightarrow>
     (ctrl_state, unit) io" where
  "postponing stops m es k =
     andThen (attempt m) (\<lambda>r. case r of
       Inl e \<Rightarrow> if stops e then andThen (setRequeueAfterIfNewIsShorter fastRequeueInterval) (\<lambda>_. join_io es)
                else k (es @ [e])
     | Inr _ \<Rightarrow> k es)"

definition reconcile_kubemon :: "controller_env \<Rightarrow> error list \<Rightarrow> (error list \<Rightarrow> (ctrl_state, unit) io) \<Rightarrow> (ctrl_state, unit) io" where
  "reconcile_kubemon env es k =
     andThen (attempt (run_component env KubeMonitoring)) (\<lambda>r. case r of
       Inl e \<Rightarrow> if IsTransientError e
                then andThen (setRequeueAfterIfNewIsShorter fastRequeueInterval) (\<lambda>_. k es)
                else k (es @ [e])
     | Inr _ \<Rightarrow> k es)"

definition reconcileComponents :: "controller_env \<Rightarrow> (ctrl_state, unit) io" where
  "reconcileComponents env =
     collecting (run_component env K8sEntity) [] (\<lambda>es.
     collecting (reconcileActiveGate env) es (\<lambda>es.
     reconcile_kubemon env es (\<lambda>es.
     collecting (run_component env Extension) es (\<lambda>es.
     collecting (run_component env OtelCollector) es (\<lambda>es.
     collecting (run_component env Kspm) es (\<lambda>es.
     postponing (\<lambda>e. IsPostponedError e \<or> errors_is e KubernetesSettingsNotAvailableError)
       (run_component env LogMonitoring) es (\<lambda>es.
     postponing IsPostponedError (run_component env AppInjection) es (\<lambda>es.
     postponing IsPostponedError (run_component env OneAgentComponent) es join_io))))))))"

section \<open>Tokens and client\<close>

fun token_error_error :: "token_error \<Rightarrow> error" and token_error_errors :: "token_error list \<Rightarrow> error list" where
  "token_error_error (ScopeError t missing errs) =
     Sentinel (''token '' @ quote @ t @ quote @ '' has scope errors: ['' @ join_sep '' '' errs @ '']'')"
| "token_error_error (OtherError e) = e"
| "token_error_error (JoinError es) = Joined (token_error_errors es)"
| "token_error_errors [] = []"
| "token_error_errors (e # es) = token_error_error e # token_error_errors es"

definition fail_tokens :: "controller_env \<Rightarrow> token_error \<Rightarrow> (ctrl_state, 'a) io" where
  "fail_tokens env e =
     andThen (modify (\<lambda>st. st\<lparr>csDk := setConditionTokenError (ceToken env) (csDk st) (Some e)\<rparr>)) (\<lambda>_.
       throw (token_error_error e))"

definition setupTokensAndClient :: "controller_env \<Rightarrow> (ctrl_state, unit) io" where
  "setupTokensAndClient env =
     andThen (gets csDk) (\<lambda>dk.
       case ReadAndVerifyTokens (ceGetSecret env) dk of
         Inl e \<Rightarrow> fail_tokens env (OtherError e)
       | Inr tokens \<Rightarrow>
           andThen (modify (\<lambda>st. st\<lparr>csTokens := tokens\<rparr>)) (\<lambda>_.
           case ceNewDTClient env dk of
             Some e \<Rightarrow> fail_tokens env (OtherError e)
           | None \<Rightarrow>
               (case verifyTokens (ceToken env) tokens dk of
                  (Some e, dk') \<Rightarrow> andThen (set_dk dk') (\<lambda>_. fail_tokens env e)
                | (None, dk') \<Rightarrow>
                    set_dk (setConditionTokenReady (ceToken env) dk' (CheckForDataIngestToken tokens)))))"

definition set_kube_system_uuid :: "string \<Rightarrow> (ctrl_state, unit) io" where
  "set_kube_system_uuid uid =
     modify (\<lambda>st. st\<lparr>csDk := (csDk st)\<lparr>dkStatus := (dkStatus (csDk st))\<lparr>dstKubeSystemUUID := uid\<rparr>\<rparr>\<rparr>)"

definition reconcileDynaKube :: "controller_env \<Rightarrow> (ctrl_state, unit) io" where
  "reconcileDynaKube env =
     andThen (wrap_msg ''failed to reconcile istio objects for API url'' (run_component env IstioAPIURL)) (\<lambda>_.
     andThen (setupTokensAndClient env) (\<lambda>_.
     andThen (set_kube_system_uuid (ceClusterID env)) (\<lambda>_.
     andThen (run_component env DeploymentMetadata) (\<lambda>_.
     andThen (run_component env ProxyResources) (\<lambda>_.
       reconcileComponents env)))))"

section \<open>Result and status\<close>

definition set_phase :: "string \<Rightarrow> (ctrl_state, unit) io" where
  "set_phase phase =
     modify (\<lambda>st. st\<lparr>csDk := (csDk st)\<lparr>dkStatus := snd (SetPhase phase (dkStatus (csDk st)))\<rparr>\<rparr>)"

text \<open>\<open>DynaKube.UpdateStatus\<close>: a conflict is not an error.\<close>

definition UpdateStatus :: "controller_env \<Rightarrow> (ctrl_state, unit) io" where
  "UpdateStatus env st =
     (let dk = (csDk st)\<lparr>dkStatus := (dkStatus (csDk st))\<lparr>dstUpdatedTimestamp := ceNow env\<rparr>\<rparr>;
          st' = log_event (StatusUpdate (dkStatus dk)) (st\<lparr>csDk := dk\<rparr>)
      in case ceUpdateStatus env (csLog st) dk of
           None \<Rightarrow> (Inr (), st')
         | Some e \<Rightarrow> if is_conflict e then (Inr (), st') else (Inl e, st'))"

text \<open>\<open>goerrors.Join(reconcileErr, errors.WithMessagef(e, ...))\<close>.\<close>

definition join_second :: "error option \<Rightarrow> string \<Rightarrow> error \<Rightarrow> error" where
  "join_second reconcileErr msg e = Joined ((case reconcileErr of None \<Rightarrow> [] | Some e0 \<Rightarrow> [e0]) @ [WithMsg msg e])"

definition finish :: "error option \<Rightarrow> (ctrl_state, int) io" where
  "finish err = (case err of Some e \<Rightarrow> throw e | None \<Rightarrow> gets csRequeueAfter)"

definition update_status_if_different :: "controller_env \<Rightarrow> error option \<Rightarrow> dynakube_status \<Rightarrow> (ctrl_state, error option) io" where
  "update_status_if_different env reconcileErr oldStatus =
     andThen (gets csDk) (\<lambda>dk.
       case IsDifferent (ceMarshal env) oldStatus (dkStatus dk) of
         Inl hashErr \<Rightarrow>
           ret (Some (join_second reconcileErr
             (''failed to generate a hash for the DynaKube's status '' @ dkNamespace dk @ ''/'' @ dkName dk) hashErr))
       | Inr isStatusDifferent \<Rightarrow>
           if isStatusDifferent then
             andThen (attempt (UpdateStatus env)) (\<lambda>r. case r of
               Inl updateErr \<Rightarrow>
                 ret (Some (join_second reconcileErr
                   (''failed to update the DynaKube's status '' @ dkNamespace dk @ ''/'' @ dkName dk) updateErr))
             | Inr _ \<Rightarrow> ret reconcileErr)
           else ret reconcileErr)"

definition handleError :: "controller_env \<Rightarrow> error option \<Rightarrow> dynakube_status \<Rightarrow> (ctrl_state, int) io" where
  "handleError env reconcileErr oldStatus =
     (case reconcileErr of
        Some e \<Rightarrow>
          if IsUnreachable e then ret fastRequeueInterval
          else andThen (set_phase PhaseError) (\<lambda>_.
               andThen (update_status_if_different env reconcileErr oldStatus) finish)
      | None \<Rightarrow>
          andThen (gets (\<lambda>st. determineDynaKubePhase (cePhase env (csLog st)) (csDk st))) (\<lambda>phase.
          andThen (set_phase phase) (\<lambda>_.
          andThen (update_status_if_different env None oldStatus) finish)))"

section \<open>The reconcile\<close>

definition empty_dynakube :: "string \<Rightarrow> string \<Rightarrow> dynakube" where
  "empty_dynakube n ns = zero_dynakube\<lparr>dkName := n, dkNamespace := ns\<rparr>"

text \<open>\<open>None\<close>: there is no such DynaKube; its namespaces have been unmapped.\<close>

definition getDynakubeOrCleanup :: "controller_env \<Rightarrow> string \<Rightarrow> string \<Rightarrow> (ctrl_state, dynakube option) io" where
  "getDynakubeOrCleanup env n ns =
     (case ceGetDynaKube env n ns of
        Inr dk \<Rightarrow> ret (Some dk)
      | Inl e \<Rightarrow>
          if is_not_found e then
            (case ceNamespacesFor env n of
               Inl e' \<Rightarrow> throw (WithMsg (''failed to list namespaces for dynakube '' @ n) e')
             | Inr namespaces \<Rightarrow>
                 (case UnmapFromDynaKube (ceMapper env) namespaces
                         \<lparr>msTrace = [], msMatched = [], msDk = empty_dynakube n ns\<rparr> of
                    (r, mst) \<Rightarrow>
                      andThen (modify (\<lambda>st. st\<lparr>csLog := csLog st @ map MapperCall (msTrace mst)\<rparr>)) (\<lambda>_.
                        case r of Inl e' \<Rightarrow> throw e' | Inr _ \<Rightarrow> ret None)))
          else throw e)"

text \<open>The result is the \<open>RequeueAfter\<close> of \<open>reconcile.Result\<close>; 0 asks for no requeue.\<close>

definition Reconcile :: "controller_env \<Rightarrow> string \<Rightarrow> string \<Rightarrow> (ctrl_state, int) io" where
  "Reconcile env n ns =
     andThen (getDynakubeOrCleanup env n ns) (\<lambda>dko.
       case dko of
         None \<Rightarrow> ret 0
       | Some dk \<Rightarrow>
           andThen (lift (ceCRDLatest env)) (\<lambda>isCrdLatestVersion.
           andThen (whenM (\<not> isCrdLatestVersion) (modify (log_event CRDMismatchEvent))) (\<lambda>_.
           andThen (modify (\<lambda>st. st\<lparr>csDk := dk, csRequeueAfter := ceDefaultRequeueAfter env\<rparr>)) (\<lambda>_.
           andThen (attempt (reconcileDynaKube env)) (\<lambda>r.
             handleError env (case r of Inl e \<Rightarrow> Some e | Inr _ \<Rightarrow> None) (dkStatus dk))))))"

section \<open>The components as a table\<close>

text \<open>
  The specification of \<open>reconcileComponents\<close>: the components run in a fixed order, and a table says what
  the error of a component means: it is collected, it only shortens the requeue interval, or it also
  ends the reconcile.
\<close>

datatype verdict = Collect error | Ignore | Stop

definition component_order :: "component list" where
  "component_order = [K8sEntity, ActiveGate, KubeMonitoring, Extension, OtelCollector, Kspm,
     LogMonitoring, AppInjection, OneAgentComponent]"

definition verdict_of :: "component \<Rightarrow> error \<Rightarrow> verdict" where
  "verdict_of c e =
     (case c of
        ActiveGate \<Rightarrow> Collect (WithMsg ''failed to reconcile ActiveGate'' e)
      | KubeMonitoring \<Rightarrow> if IsTransientError e then Ignore else Collect e
      | LogMonitoring \<Rightarrow> if IsPostponedError e \<or> errors_is e KubernetesSettingsNotAvailableError then Stop else Collect e
      | AppInjection \<Rightarrow> if IsPostponedError e then Stop else Collect e
      | OneAgentComponent \<Rightarrow> if IsPostponedError e then Stop else Collect e
      | _ \<Rightarrow> Collect e)"

fun run_table :: "controller_env \<Rightarrow> component list \<Rightarrow> error list \<Rightarrow> (ctrl_state, unit) io" where
  "run_table env [] es = join_io es"
| "run_table env (c # cs) es =
     andThen (attempt (run_component env c)) (\<lambda>r. case r of
       Inr _ \<Rightarrow> run_table env cs es
     | Inl e \<Rightarrow>
         (case verdict_of c e of
            Collect e' \<Rightarrow> run_table env cs (es @ [e'])
          | Ignore \<Rightarrow> andThen (setRequeueAfterIfNewIsShorter fastRequeueInterval) (\<lambda>_. run_table env cs es)
          | Stop \<Rightarrow> andThen (setRequeueAfterIfNewIsShorter fastRequeueInterval) (\<lambda>_. join_io es)))"

lemma attempt_wrap:
  "andThen (attempt (wrap_msg msg m)) f =
     andThen (attempt m) (\<lambda>r. f (case r of Inl e \<Rightarrow> Inl (WithMsg msg e) | Inr x \<Rightarrow> Inr x))"
  by (auto simp: fun_eq_iff andThen_def attempt_def wrap_msg_def split: prod.splits sum.splits)

lemma collecting_table:
  "(\<And>e. verdict_of c e = Collect e) \<Longrightarrow>
   (\<lambda>es. collecting (run_component env c) es (run_table env cs)) = run_table env (c # cs)"
  by (rule ext) (simp add: collecting_def)

lemma activegate_table:
  "(\<lambda>es. collecting (reconcileActiveGate env) es (run_table env cs)) = run_table env (ActiveGate # cs)"
proof
  fix es
  have "(\<lambda>r. case case r of Inl e \<Rightarrow> Inl (WithMsg msg e) | Inr x \<Rightarrow> Inr x of
           Inl e \<Rightarrow> run_table env cs (es @ [e]) | Inr _ \<Rightarrow> run_table env cs es) =
        (\<lambda>r. case r of Inl e \<Rightarrow> run_table env cs (es @ [WithMsg msg e]) | Inr (_ :: unit) \<Rightarrow> run_table env cs es)"
    for msg by (rule ext) (simp split: sum.split)
  then show "collecting (reconcileActiveGate env) es (run_table env cs) = run_table env (ActiveGate # cs) es"
    by (simp add: collecting_def reconcileActiveGate_def attempt_wrap verdict_of_def)
qed

lemma postponing_table:
  assumes "\<And>e. verdict_of c e = (if stops e then Stop else Collect e)"
  shows "(\<lambda>es. postponing stops (run_component env c) es (run_table env cs)) = run_table env (c # cs)"
proof
  fix es
  have "(\<lambda>r. case r of
       Inl e \<Rightarrow> if stops e then andThen (setRequeueAfterIfNewIsShorter fastRequeueInterval) (\<lambda>_. join_io es)
                else run_table env cs (es @ [e])
     | Inr _ \<Rightarrow> run_table env cs es) =
     (\<lambda>r. case r of Inr (_ :: unit) \<Rightarrow> run_table env cs es
      | Inl e \<Rightarrow> (case verdict_of c e of
            Collect e' \<Rightarrow> run_table env cs (es @ [e'])
          | Ignore \<Rightarrow> andThen (setRequeueAfterIfNewIsShorter fastRequeueInterval) (\<lambda>_. run_table env cs es)
          | Stop \<Rightarrow> andThen (setRequeueAfterIfNewIsShorter fastRequeueInterval) (\<lambda>_. join_io es)))"
    by (rule ext) (simp add: assms split: sum.split)
  then show "postponing stops (run_component env c) es (run_table env cs) = run_table env (c # cs) es"
    by (simp only: postponing_def run_table.simps)
qed

lemma kubemon_table:
  "(\<lambda>es. reconcile_kubemon env es (run_table env cs)) = run_table env (KubeMonitoring # cs)"
proof
  fix es
  have "(\<lambda>r. case r of
       Inl e \<Rightarrow> if IsTransientError e
                then andThen (setRequeueAfterIfNewIsShorter fastRequeueInterval) (\<lambda>_. run_table env cs es)
                else run_table env cs (es @ [e])
     | Inr _ \<Rightarrow> run_table env cs es) =
     (\<lambda>r. case r of Inr (_ :: unit) \<Rightarrow> run_table env cs es
      | Inl e \<Rightarrow> (case verdict_of KubeMonitoring e of
            Collect e' \<Rightarrow> run_table env cs (es @ [e'])
          | Ignore \<Rightarrow> andThen (setRequeueAfterIfNewIsShorter fastRequeueInterval) (\<lambda>_. run_table env cs es)
          | Stop \<Rightarrow> andThen (setRequeueAfterIfNewIsShorter fastRequeueInterval) (\<lambda>_. join_io es)))"
    by (rule ext) (simp add: verdict_of_def split: sum.split)
  then show "reconcile_kubemon env es (run_table env cs) = run_table env (KubeMonitoring # cs) es"
    by (simp only: reconcile_kubemon_def run_table.simps)
qed

lemma join_table: "join_io = run_table env []"
  by (rule ext) simp

lemma reconcileComponents_table: "reconcileComponents env = run_table env component_order []"
proof -
  have 9: "(\<lambda>es. postponing IsPostponedError (run_component env OneAgentComponent) es join_io) =
      run_table env [OneAgentComponent]"
    unfolding join_table[of env] by (rule postponing_table) (simp add: verdict_of_def)
  have 8: "(\<lambda>es. postponing IsPostponedError (run_component env AppInjection) es (run_table env cs)) =
      run_table env (AppInjection # cs)" for cs
    by (rule postponing_table) (simp add: verdict_of_def)
  have 7: "(\<lambda>es. postponing (\<lambda>e. IsPostponedError e \<or> errors_is e KubernetesSettingsNotAvailableError)
       (run_component env LogMonitoring) es (run_table env cs)) = run_table env (LogMonitoring # cs)" for cs
    by (rule postponing_table) (simp add: verdict_of_def)
  have c: "(\<lambda>es. collecting (run_component env Kspm) es (run_table env cs)) = run_table env (Kspm # cs)"
    "(\<lambda>es. collecting (run_component env OtelCollector) es (run_table env cs)) = run_table env (OtelCollector # cs)"
    "(\<lambda>es. collecting (run_component env Extension) es (run_table env cs)) = run_table env (Extension # cs)"
    "collecting (run_component env K8sEntity) es (run_table env cs) = run_table env (K8sEntity # cs) es" for cs es
    by (rule collecting_table, simp add: verdict_of_def)+
       (rule collecting_table[THEN fun_cong], simp add: verdict_of_def)
  show ?thesis
    unfolding reconcileComponents_def component_order_def
    by (simp only: 9 8 7 c activegate_table kubemon_table)
qed

text \<open>What one event of the log means for the result.\<close>

fun reported :: "ctrl_event \<Rightarrow> error list" where
  "reported (Ran c w (Some e)) = (case verdict_of c e of Collect e' \<Rightarrow> [e'] | _ \<Rightarrow> [])"
| "reported _ = []"

fun stops :: "ctrl_event \<Rightarrow> bool" where
  "stops (Ran c w (Some e)) \<longleftrightarrow> verdict_of c e = Stop"
| "stops _ \<longleftrightarrow> False"

fun hurries :: "ctrl_event \<Rightarrow> bool" where
  "hurries (Ran c w (Some e)) \<longleftrightarrow> verdict_of c e = Stop \<or> verdict_of c e = Ignore"
| "hurries _ \<longleftrightarrow> False"

fun ran :: "ctrl_event \<Rightarrow> component option" where
  "ran (Ran c w r) = Some c"
| "ran _ = None"

definition joined :: "error list \<Rightarrow> error + unit" where
  "joined es = (if es = [] then Inr () else Inl (Joined es))"

lemma join_io_eq: "join_io es st = (joined es, st)"
  by (simp add: join_io_def joined_def join_errors_def ret_def throw_def)

lemma run_component_eq:
  "run_component env c st = (r, st1) \<Longrightarrow>
     (\<exists>w. csLog st1 = csLog st @ [Ran c w (case r of Inl e \<Rightarrow> Some e | Inr _ \<Rightarrow> None)]) \<and>
     csRequeueAfter st1 = csRequeueAfter st"
  by (auto simp: run_component_def log_event_def split: prod.splits)

lemma hurry_eq:
  "andThen (setRequeueAfterIfNewIsShorter t) (\<lambda>_. m) st = m (st\<lparr>csRequeueAfter := min t (csRequeueAfter st)\<rparr>)"
  by (simp add: andThen_def setRequeueAfterIfNewIsShorter_def modify_def min_def)

definition table_result ::
    "component list \<Rightarrow> error list \<Rightarrow> ctrl_state \<Rightarrow> ctrl_event list \<Rightarrow> error + unit \<Rightarrow> ctrl_state \<Rightarrow> bool" where
  "table_result cs es st evs r st' \<longleftrightarrow>
     csLog st' = csLog st @ evs \<and>
     map ran evs = map Some (take (length evs) cs) \<and>
     (length evs < length cs \<longrightarrow> evs \<noteq> [] \<and> stops (last evs)) \<and>
     (\<forall>ev\<in>set (butlast evs). \<not> stops ev) \<and>
     r = joined (es @ concat (map reported evs)) \<and>
     csRequeueAfter st' = (if list_ex hurries evs then min fastRequeueInterval (csRequeueAfter st) else csRequeueAfter st)"

lemma table_result_Cons:
  assumes "table_result cs (es @ reported ev) s evs r st'" and "\<not> stops ev" and "ran ev = Some c"
    and "csLog s = csLog st @ [ev]"
    and "csRequeueAfter s = (if hurries ev then min fastRequeueInterval (csRequeueAfter st) else csRequeueAfter st)"
  shows "table_result (c # cs) es st (ev # evs) r st'"
  using assms by (auto simp: table_result_def)

lemma run_table_result:
  "run_table env cs es st = (r, st') \<Longrightarrow> \<exists>evs. table_result cs es st evs r st'"
proof (induction cs arbitrary: es st)
  case Nil
  then show ?case by (intro exI[of _ "[]"]) (simp add: table_result_def join_io_eq)
next
  case (Cons c cs)
  obtain rc st1 where rc: "run_component env c st = (rc, st1)" by fastforce
  obtain w where eff: "csLog st1 = csLog st @ [Ran c w (case rc of Inl e \<Rightarrow> Some e | Inr _ \<Rightarrow> None)]"
    "csRequeueAfter st1 = csRequeueAfter st"
    using run_component_eq[OF rc] by blast
  have run: "run_table env (c # cs) es st = (case rc of
       Inr _ \<Rightarrow> run_table env cs es st1
     | Inl e \<Rightarrow>
         (case verdict_of c e of
            Collect e' \<Rightarrow> run_table env cs (es @ [e']) st1
          | Ignore \<Rightarrow> run_table env cs es (st1\<lparr>csRequeueAfter := min fastRequeueInterval (csRequeueAfter st1)\<rparr>)
          | Stop \<Rightarrow> join_io es (st1\<lparr>csRequeueAfter := min fastRequeueInterval (csRequeueAfter st1)\<rparr>)))"
    using rc by (simp add: andThen_def[where m = "attempt m" for m] attempt_def hurry_eq
        split: sum.split verdict.split)
  show ?case
  proof (cases rc)
    case (Inr u)
    with run Cons.prems obtain evs where "table_result cs es st1 evs r st'" using Cons.IH by fastforce
    then have "table_result (c # cs) es st (Ran c w None # evs) r st'"
      by (intro table_result_Cons[where s = st1]) (use eff Inr in simp_all)
    then show ?thesis by blast
  next
    case (Inl e)
    show ?thesis
    proof (cases "verdict_of c e")
      case (Collect e')
      with run Inl Cons.prems obtain evs where "table_result cs (es @ [e']) st1 evs r st'" using Cons.IH by fastforce
      then have "table_result (c # cs) es st (Ran c w (Some e) # evs) r st'"
        by (intro table_result_Cons[where s = st1]) (use eff Inl Collect in simp_all)
      then show ?thesis by blast
    next
      case Ignore
      with run Inl Cons.prems obtain evs where
        "table_result cs es (st1\<lparr>csRequeueAfter := min fastRequeueInterval (csRequeueAfter st1)\<rparr>) evs r st'"
        using Cons.IH by fastforce
      then have "table_result (c # cs) es st (Ran c w (Some e) # evs) r st'"
        by (intro table_result_Cons[where
              s = "st1\<lparr>csRequeueAfter := min fastRequeueInterval (csRequeueAfter st1)\<rparr>"])
           (use eff Inl Ignore in simp_all)
      then show ?thesis by blast
    next
      case Stop
      with run Inl Cons.prems eff have "table_result (c # cs) es st [Ran c w (Some e)] r st'"
        by (auto simp: table_result_def join_io_eq)
      then show ?thesis by blast
    qed
  qed
qed

text \<open>C10. A reconcile runs the components in their fixed order, whatever fails: it is cut short only by an error
  that postpones log monitoring, injection or OneAgent. The error it returns joins exactly the
  reported errors of the components that ran; a transient or postponing error is not among them and
  shortens the requeue interval to at most a minute.\<close>

theorem components_result:
  assumes "reconcileComponents env st = (r, st')"
  shows "\<exists>evs. csLog st' = csLog st @ evs \<and>
     map ran evs = map Some (take (length evs) component_order) \<and>
     (length evs < length component_order \<longrightarrow> 7 \<le> length evs \<and> stops (last evs)) \<and>
     r = joined (concat (map reported evs)) \<and>
     csRequeueAfter st' = (if list_ex hurries evs then min fastRequeueInterval (csRequeueAfter st) else csRequeueAfter st)"
proof -
  obtain evs where evs: "table_result component_order [] st evs r st'"
    using run_table_result assms unfolding reconcileComponents_table by blast
  have "7 \<le> length evs" if "length evs < length component_order"
  proof (rule ccontr)
    assume less: "\<not> 7 \<le> length evs"
    have ne: "evs \<noteq> []" "stops (last evs)" using evs that by (auto simp: table_result_def)
    then obtain c w e where last: "last evs = Ran c w (Some e)" "verdict_of c e = Stop"
      by (cases "last evs" rule: stops.cases) auto
    have "map ran evs = map Some (take (length evs) component_order)" using evs by (simp add: table_result_def)
    moreover have "last evs \<in> set evs" using ne(1) by simp
    ultimately have "Some c \<in> Some ` set (take (length evs) component_order)"
      by (metis imageI last(1) list.set_map ran.simps(1))
    then have "c \<in> set (take (length evs) component_order)" by blast
    moreover have "set (take (length evs) component_order) \<subseteq> set (take 6 component_order)"
      using less by (intro set_take_subset_set_take) simp
    ultimately have "c \<in> set (take 6 component_order)" by blast
    then show False using last(2) by (auto simp: component_order_def verdict_of_def split: if_splits)
  qed
  then show ?thesis using evs by (auto simp: table_result_def)
qed

section \<open>The result of a reconcile\<close>

text \<open>The state in which the components of an existing DynaKube start.\<close>

definition start :: "controller_env \<Rightarrow> dynakube \<Rightarrow> ctrl_state \<Rightarrow> ctrl_state" where
  "start env dk st =
     (if ceCRDLatest env = Inr False then log_event CRDMismatchEvent st else st)
       \<lparr>csDk := dk, csRequeueAfter := ceDefaultRequeueAfter env\<rparr>"

lemma Reconcile_existing:
  assumes "ceGetDynaKube env n ns = Inr dk" and "ceCRDLatest env = Inr b"
    and "reconcileDynaKube env (start env dk st) = (r, s)"
  shows "Reconcile env n ns st =
     handleError env (case r of Inl e \<Rightarrow> Some e | Inr _ \<Rightarrow> None) (dkStatus dk) s"
  using assms
  by (cases b) (simp_all add: Reconcile_def getDynakubeOrCleanup_def andThen_lift_Inr whenM_def start_def
      log_event_def andThen_def[where m = "modify f" for f] andThen_def[where m = "attempt f" for f]
      modify_def attempt_def)

lemma IsUnreachable_joined:
  "IsUnreachable (Joined es) \<longleftrightarrow> first_http_list es = Some 429 \<or> first_http_list es = Some 503"
  by (auto simp: IsUnreachable_def IsTooManyRequests_def IsServiceUnavailable_def StatusCode_def split: option.splits)

text \<open>The statuses that the controller itself wrote.\<close>

fun own_writes :: "ctrl_event list \<Rightarrow> dynakube_status list" where
  "own_writes [] = []"
| "own_writes (StatusUpdate s # es) = s # own_writes es"
| "own_writes (_ # es) = own_writes es"

lemma own_writes_append [simp]: "own_writes (l @ l') = own_writes l @ own_writes l'"
  by (induction l rule: own_writes.induct) simp_all

lemma reconcileDynaKube_writes: "keeps (\<lambda>st. own_writes (csLog st) = w) (reconcileDynaKube env)"
proof -
  have c: "keeps (\<lambda>st. own_writes (csLog st) = w) (run_component env c)" for c
    by (auto simp: keeps_def run_component_def log_event_def split: prod.split)
  have s: "keeps (\<lambda>st. own_writes (csLog st) = w) (setupTokensAndClient env)"
    unfolding setupTokensAndClient_def set_dk_def fail_tokens_def by (intro keeps_intro; simp)
  have "keeps (\<lambda>st. own_writes (csLog st) = w) (run_table env cs es)" for cs es
  proof (induction cs arbitrary: es)
    case Nil
    then show ?case by (simp add: keeps_def join_io_eq)
  next
    case (Cons x xs)
    have j: "keeps (\<lambda>st. own_writes (csLog st) = w) (join_io es)" for es by (simp add: keeps_def join_io_eq)
    have v: "keeps I (case v of Collect e \<Rightarrow> f e | Ignore \<Rightarrow> g | Stop \<Rightarrow> h)"
      if "\<And>e. keeps I (f e)" "keeps I g" "keeps I h" for I v and f :: "error \<Rightarrow> (ctrl_state, unit) io" and g h
      using that by (cases v) simp_all
    show ?case unfolding run_table.simps setRequeueAfterIfNewIsShorter_def
      by (intro keeps_intro c j v Cons; simp)
  qed
  then show ?thesis
    unfolding reconcileDynaKube_def set_kube_system_uuid_def reconcileComponents_table
    by (intro keeps_intro c s) simp_all
qed

lemma update_status_keeps_error:
  "\<exists>e s'. update_status_if_different env (Some e0) old s = (Inr (Some e), s') \<and>
     (e = e0 \<or> (\<exists>m e'. e = Joined [e0, WithMsg m e'])) \<and>
     dstPhase (dkStatus (csDk s')) = dstPhase (dkStatus (csDk s))"
  by (auto simp: update_status_if_different_def andThen_gets andThen_def gets_def attempt_def UpdateStatus_def
      log_event_def ret_def Let_def join_second_def split: option.splits prod.splits sum.splits)

text \<open>C11. When components have failed, the first error of the joined ones that carries an HTTP status decides.
  Is it 429 or 503, the reconcile ends without an error in a minute in the state the components left:
  the controller sets no phase and writes no status itself, so of what was set on the way only the
  writes of the components are stored, and the errors of the other components are dropped. Is it any
  other status (the 400 of a rejected network zone in front of a 503, say), or carries none a status,
  the reconcile fails or its failed status write does, the Error phase is set, and nothing is dropped.\<close>

theorem unreachable_drops_everything:
  assumes "ceGetDynaKube env n ns = Inr dk" and "ceCRDLatest env = Inr b"
    and "reconcileDynaKube env (start env dk st) = (Inl (Joined es), s)"
  shows "(if first_http_list es = Some 429 \<or> first_http_list es = Some 503
          then Reconcile env n ns st = (Inr fastRequeueInterval, s) \<and> own_writes (csLog s) = own_writes (csLog st)
          else (\<exists>e. fst (Reconcile env n ns st) = Inl e \<and> (e = Joined es \<or> (\<exists>m e'. e = Joined [Joined es, WithMsg m e']))) \<and>
               dstPhase (dkStatus (csDk (snd (Reconcile env n ns st)))) = PhaseError)"
proof (cases "IsUnreachable (Joined es)")
  case True
  moreover have "own_writes (csLog s) = own_writes (csLog st)"
    using keepsD[OF reconcileDynaKube_writes, of "start env dk st" "own_writes (csLog st)" env] assms(3)
    by (simp add: start_def log_event_def)
  ultimately show ?thesis
    using Reconcile_existing[OF assms] by (simp add: handleError_def ret_def flip: IsUnreachable_joined)
next
  case False
  then have "Reconcile env n ns st =
      andThen (update_status_if_different env (Some (Joined es)) (dkStatus dk)) finish (snd (set_phase PhaseError s))"
    using Reconcile_existing[OF assms]
    by (simp add: handleError_def set_phase_def modify_def andThen_def[where m = "modify f" for f])
  with False show ?thesis
    using update_status_keeps_error[of env "Joined es" "dkStatus dk" "snd (set_phase PhaseError s)"]
    by (auto simp: andThen_def finish_def throw_def set_phase_def modify_def SetPhase_def
        simp flip: IsUnreachable_joined)
qed

lemma update_status_phase:
  assumes "update_status_if_different env re old st = (r, st')" and "ceMarshal env old = Inr a"
    and "ceMarshal env (dkStatus (csDk st)) = Inr b"
  shows "(if fnv32 a \<noteq> fnv32 b
     then csLog st' = csLog st @ [StatusUpdate ((dkStatus (csDk st))\<lparr>dstUpdatedTimestamp := ceNow env\<rparr>)]
     else st' = st \<and> r = Inr re)"
  using assms
  by (auto simp: update_status_if_different_def andThen_gets IsDifferent_def GenerateHash_def show_nat_inj
      word_unat_eq_iff andThen_def gets_def attempt_def UpdateStatus_def log_event_def ret_def Let_def
      split: if_splits option.splits prod.splits sum.splits)

text \<open>C30. Otherwise the phase of the status is Error when the reconcile failed and the computed phase when it
  succeeded, and the status is written exactly when the hash of its JSON differs from that of the
  status that was read.\<close>

theorem status_written_iff_hash_differs:
  assumes "ceGetDynaKube env n ns = Inr dk" and "ceCRDLatest env = Inr b"
    and "reconcileDynaKube env (start env dk st) = (r, s)" and "\<And>e. r = Inl e \<Longrightarrow> \<not> IsUnreachable e"
    and "phase = (case r of Inl _ \<Rightarrow> PhaseError | Inr _ \<Rightarrow> determineDynaKubePhase (cePhase env (csLog s)) (csDk s))"
    and "new = (dkStatus (csDk s))\<lparr>dstPhase := phase\<rparr>"
    and "ceMarshal env (dkStatus dk) = Inr x" and "ceMarshal env new = Inr y"
  shows "csLog (snd (Reconcile env n ns st)) =
     csLog s @ (if fnv32 x \<noteq> fnv32 y then [StatusUpdate (new\<lparr>dstUpdatedTimestamp := ceNow env\<rparr>)] else [])"
proof -
  let ?re = "case r of Inl e \<Rightarrow> Some e | Inr _ \<Rightarrow> None"
  let ?s = "s\<lparr>csDk := (csDk s)\<lparr>dkStatus := new\<rparr>\<rparr>"
  have h: "Reconcile env n ns st = andThen (update_status_if_different env ?re (dkStatus dk)) finish ?s"
    using Reconcile_existing[OF assms(1-3)] assms(4,5,6)
    by (cases r) (simp_all add: handleError_def set_phase_def modify_def SetPhase_def andThen_gets
        andThen_def[where m = "modify f" for f])
  obtain r2 s2 where u: "update_status_if_different env ?re (dkStatus dk) ?s = (r2, s2)" by fastforce
  have "csLog (snd (Reconcile env n ns st)) = csLog s2"
    unfolding h by (auto simp: andThen_def u finish_def throw_def gets_def split: sum.splits option.splits)
  moreover have "csLog s2 = csLog s @ (if fnv32 x \<noteq> fnv32 y then [StatusUpdate (new\<lparr>dstUpdatedTimestamp := ceNow env\<rparr>)] else [])"
    using update_status_phase[OF u assms(7)] assms(8) by (auto split: if_splits)
  ultimately show ?thesis by simp
qed

lemma fail_tokens_keeps: "keeps (\<lambda>st. csLog st = l \<and> csRequeueAfter st = t) (fail_tokens env e)"
  unfolding fail_tokens_def by (intro keeps_intro) simp

lemma setup_keeps: "keeps (\<lambda>st. csLog st = l \<and> csRequeueAfter st = t) (setupTokensAndClient env)"
  unfolding setupTokensAndClient_def set_dk_def
  by (intro keeps_intro fail_tokens_keeps; simp)

lemma setup_error:
  assumes "setupTokensAndClient env st = (Inl e, st')"
  shows "\<exists>te dk. e = token_error_error te \<and> csDk st' = setConditionTokenError (ceToken env) dk (Some te)"
  using assms
  by (auto simp: setupTokensAndClient_def andThen_gets fail_tokens_def set_dk_def
      andThen_def[where m = "modify f" for f] modify_def throw_def
      split: sum.splits option.splits prod.splits if_splits) (metis token_error_error.simps(2))+

text \<open>A token that cannot be read, used or verified stops the reconcile before any component: only the
  Istio objects of the API URL have been reconciled, and the Tokens condition of the status records
  the failure.\<close>

theorem token_failure_stops_reconcile:
  assumes "run_component env IstioAPIURL st = (Inr (), s1)" and "setupTokensAndClient env s1 = (Inl e, s2)"
  shows "reconcileDynaKube env st = (Inl e, s2) \<and> (\<exists>w. csLog s2 = csLog st @ [Ran IstioAPIURL w None]) \<and>
     (\<exists>te dk. e = token_error_error te \<and> csDk s2 = setConditionTokenError (ceToken env) dk (Some te))"
proof -
  have "reconcileDynaKube env st = (Inl e, s2)"
    using assms by (simp add: reconcileDynaKube_def andThen_def wrap_msg_def)
  moreover have "csLog s2 = csLog s1"
    using keepsD[OF setup_keeps, of s1 "csLog s1" "csRequeueAfter s1" env] assms(2) by simp
  ultimately show ?thesis
    using run_component_eq[OF assms(1)] setup_error[OF assms(2)] by simp
qed

lemma run_component_requeue: "keeps (\<lambda>st. csRequeueAfter st = t) (run_component env c)"
  by (auto simp: keeps_def run_component_def log_event_def split: prod.split)

lemma components_requeue:
  "csRequeueAfter (snd (reconcileComponents env s)) = csRequeueAfter s \<or>
   csRequeueAfter (snd (reconcileComponents env s)) = min fastRequeueInterval (csRequeueAfter s)"
  using run_table_result[of env component_order "[]" s "fst (reconcileComponents env s)" "snd (reconcileComponents env s)"]
  by (auto simp: reconcileComponents_table table_result_def split: if_splits)

lemma reconcileDynaKube_requeue:
  "keeps (\<lambda>st. csRequeueAfter st = d \<or> csRequeueAfter st = min fastRequeueInterval d) (reconcileDynaKube env)"
proof -
  have c: "keeps (\<lambda>st. csRequeueAfter st = d \<or> csRequeueAfter st = min fastRequeueInterval d) (run_component env c)" for c
    by (auto simp: keeps_def run_component_def log_event_def split: prod.split)
  have s: "keeps (\<lambda>st. csRequeueAfter st = d \<or> csRequeueAfter st = min fastRequeueInterval d) (setupTokensAndClient env)"
    unfolding keeps_def
  proof (intro allI impI)
    fix s :: ctrl_state assume "csRequeueAfter s = d \<or> csRequeueAfter s = min fastRequeueInterval d"
    then show "csRequeueAfter (snd (setupTokensAndClient env s)) = d \<or>
        csRequeueAfter (snd (setupTokensAndClient env s)) = min fastRequeueInterval d"
      using keepsD[OF setup_keeps, of s "csLog s" "csRequeueAfter s" env] by simp
  qed
  have r: "keeps (\<lambda>st. csRequeueAfter st = d \<or> csRequeueAfter st = min fastRequeueInterval d) (reconcileComponents env)"
    unfolding keeps_def
  proof (intro allI impI)
    fix s :: ctrl_state assume "csRequeueAfter s = d \<or> csRequeueAfter s = min fastRequeueInterval d"
    then show "csRequeueAfter (snd (reconcileComponents env s)) = d \<or>
        csRequeueAfter (snd (reconcileComponents env s)) = min fastRequeueInterval d"
      using components_requeue[of env s] by (auto simp: min_def split: if_splits)
  qed
  show ?thesis
    unfolding reconcileDynaKube_def set_kube_system_uuid_def by (intro keeps_intro c s r) simp
qed

lemma update_status_requeue: "keeps (\<lambda>st. csRequeueAfter st = d) (update_status_if_different env re old)"
proof -
  have "keeps (\<lambda>st. csRequeueAfter st = d) (UpdateStatus env)"
    by (auto simp: keeps_def UpdateStatus_def log_event_def Let_def split: option.split)
  then show ?thesis unfolding update_status_if_different_def by (intro keeps_intro)
qed

lemma handleError_requeue:
  assumes "handleError env re old st = (Inr t, st')"
  shows "t = fastRequeueInterval \<or> t = csRequeueAfter st"
proof -
  have fin: "t = csRequeueAfter s"
    if "andThen (update_status_if_different env re old) finish s = (Inr t, st')" for re old s
    using that keepsD[OF update_status_requeue, of s "csRequeueAfter s" env re old]
    by (auto simp: andThen_Inr finish_def throw_def split: option.splits)
  show ?thesis
  proof (cases re)
    case None
    with assms show ?thesis
      by (auto simp: handleError_def andThen_gets set_phase_def andThen_def[where m = "modify f" for f] modify_def
          dest!: fin)
  next
    case (Some e)
    with assms show ?thesis
      by (auto simp: handleError_def set_phase_def andThen_def[where m = "modify f" for f] modify_def ret_def
          dest!: fin split: if_splits)
  qed
qed

text \<open>A reconcile of an existing DynaKube that does not fail is repeated after the default interval or after
  one minute.\<close>

theorem requeue_interval:
  assumes "ceGetDynaKube env n ns = Inr dk" and "Reconcile env n ns st = (Inr t, st')"
  shows "t = ceDefaultRequeueAfter env \<or> t = fastRequeueInterval"
proof (cases "ceCRDLatest env")
  case (Inl e)
  then show ?thesis using assms by (simp add: Reconcile_def getDynakubeOrCleanup_def andThen_def lift_def)
next
  case (Inr b)
  obtain r s where run: "reconcileDynaKube env (start env dk st) = (r, s)" by fastforce
  have "csRequeueAfter (start env dk st) = ceDefaultRequeueAfter env" by (simp add: start_def)
  then have "csRequeueAfter s = ceDefaultRequeueAfter env \<or>
      csRequeueAfter s = min fastRequeueInterval (ceDefaultRequeueAfter env)"
    using keepsD[OF reconcileDynaKube_requeue, of "start env dk st" "ceDefaultRequeueAfter env" env] run by simp
  then show ?thesis
    using handleError_requeue[of env _ _ s t st'] assms(2) Reconcile_existing[OF assms(1) Inr run] by (auto simp: min_def split: if_splits)
qed

lemma adds_unmap:
  "adds (for_each namespaces (\<lambda>ns.
       andThen (wrap_msg (msg ns) (update_namespace env (removeNamespaceInjectLabel ns))) (\<lambda>_.
         deleteReplicatedSecrets env (nsName ns))))
     (concat (map (\<lambda>ns. UpdateNamespaceCall (with_label None ns) # map (\<lambda>s. DeleteSecretCall s (nsName ns))
        [BootstrapperInitSecretName, BootstrapperInitCertsSecretName, OTLPExporterSecretName, OTLPExporterCertsSecretName])
        namespaces))"
proof (rule adds_for_each)
  fix ns
  have "adds (update_namespace env (removeNamespaceInjectLabel ns)) [UpdateNamespaceCall (with_label None ns)]"
    by (simp add: update_namespace_def adds_call label_setters)
  from adds_andThen[OF adds_wrap[OF this] adds_delete_all[where env = env and n = "nsName ns" and
      ss = "[BootstrapperInitSecretName, BootstrapperInitCertsSecretName, OTLPExporterSecretName,
        OTLPExporterCertsSecretName]"], of "msg ns"]
  show "adds (andThen (wrap_msg (msg ns) (update_namespace env (removeNamespaceInjectLabel ns))) (\<lambda>_.
         deleteReplicatedSecrets env (nsName ns)))
      (UpdateNamespaceCall (with_label None ns) # map (\<lambda>s. DeleteSecretCall s (nsName ns))
        [BootstrapperInitSecretName, BootstrapperInitCertsSecretName, OTLPExporterSecretName, OTLPExporterCertsSecretName])"
    by (simp only: deleteReplicatedSecrets_def append.simps)
qed

text \<open>Once a DynaKube is gone, its reconcile runs no component: it takes the injection label off every
  namespace that carries the name of the DynaKube and deletes the four replicated secrets there, and
  asks for no requeue.\<close>

theorem deleted_dynakube_unmapped:
  assumes "ceGetDynaKube env n ns = Inl e" and "is_not_found e" and "ceNamespacesFor env n = Inr nss"
    and "Reconcile env n ns st = (Inr t, st')"
  shows "t = 0 \<and> csLog st' = csLog st @ map MapperCall (concat (map (\<lambda>x.
     UpdateNamespaceCall (with_label None x) # map (\<lambda>s. DeleteSecretCall s (nsName x))
        [BootstrapperInitSecretName, BootstrapperInitCertsSecretName, OTLPExporterSecretName, OTLPExporterCertsSecretName])
     nss))"
proof -
  let ?m0 = "\<lparr>msTrace = [], msMatched = [], msDk = empty_dynakube n ns\<rparr>"
  obtain r mst where u: "UnmapFromDynaKube (ceMapper env) nss ?m0 = (r, mst)" by fastforce
  have run: "t = 0 \<and> r = Inr () \<and> csLog st' = csLog st @ map MapperCall (msTrace mst)"
    using assms u
    by (auto simp: Reconcile_def getDynakubeOrCleanup_def andThen_def modify_def throw_def ret_def split: sum.splits)
  with u have "UnmapFromDynaKube (ceMapper env) nss ?m0 = (Inr (), mst)" by simp
  then obtain s1 where loop: "for_each nss (\<lambda>ns.
       andThen (wrap_msg (''failed to remove label '' @ InjectionInstanceLabel @ '' from namespace '' @ nsName ns)
                  (update_namespace (ceMapper env) (removeNamespaceInjectLabel ns))) (\<lambda>_.
         deleteReplicatedSecrets (ceMapper env) (nsName ns))) ?m0 = (Inr (), s1)"
    and "msTrace mst = msTrace s1"
    by (auto simp: UnmapFromDynaKube_def andThen_Inr modify_dk_def modify_def)
  moreover note adds_unmap[where msg = "\<lambda>ns. ''failed to remove label '' @ InjectionInstanceLabel @
      '' from namespace '' @ nsName ns", unfolded adds_def, rule_format, OF loop]
  ultimately show ?thesis using run by simp
qed

section \<open>The properties on concrete inputs\<close>

definition sample_phase_env :: phase_env where
  "sample_phase_env = \<lparr>phGetStatefulSet = \<lambda>_ _. Inl (ApiStatus ''NotFound''),
     phGetDaemonSet = \<lambda>_ _. Inl (ApiStatus ''NotFound''), phListDeployments = \<lambda>_. Inr []\<rparr>"

definition sample_ctrl_env :: "(component \<Rightarrow> error + unit) \<Rightarrow> error + dynakube \<Rightarrow> string \<Rightarrow> controller_env" where
  "sample_ctrl_env outcome dk token =
     \<lparr>ceToken = sample_token_env, ceGetDynaKube = \<lambda>_ _. dk, ceNamespacesFor = \<lambda>_. Inr [sample_labelled_ns],
      ceMapper = sample_mapper_env [] [], ceCRDLatest = Inr True, ceGetSecret = \<lambda>_ _. Inr [(APIKey, token)],
      ceNewDTClient = \<lambda>_. None,
      ceComponent = \<lambda>c _ dk. (outcome c, if c = LogMonitoring then [dkStatus dk] else [], dk), cePhase = \<lambda>_. sample_phase_env,
      ceMarshal = \<lambda>st. Inr (if dstPhase st = [] then [0] else [1]), ceUpdateStatus = \<lambda>_ _. None, ceNow = 5,
      ceClusterID = ''u'', ceDefaultRequeueAfter = 15 * minute\<rparr>"

definition sample_ctrl_state :: ctrl_state where
  "sample_ctrl_state = \<lparr>csLog = [], csDk = zero_dynakube, csTokens = [], csRequeueAfter = 0\<rparr>"

definition sample_failing :: "component \<Rightarrow> error + unit" where
  "sample_failing c = (case c of K8sEntity \<Rightarrow> Inl (Sentinel ''boom'') | ActiveGate \<Rightarrow> Inl (HttpCode 503)
     | LogMonitoring \<Rightarrow> Inl (Sentinel NoCommunicationEndpointsError) | _ \<Rightarrow> Inr ())"

definition sample_rejected :: "component \<Rightarrow> error + unit" where
  "sample_rejected c = (case c of K8sEntity \<Rightarrow> Inl (HttpCode 400) | ActiveGate \<Rightarrow> Inl (HttpCode 503) | _ \<Rightarrow> Inr ())"

abbreviation sample_bad_env :: controller_env where
  "sample_bad_env \<equiv> sample_ctrl_env sample_failing (Inr zero_dynakube) ''dt0s16.x''"

abbreviation sample_good_env :: controller_env where
  "sample_good_env \<equiv> sample_ctrl_env (\<lambda>_. Inr ()) (Inr zero_dynakube) ''dt0s16.x''"

theorem components_result_witness:
  "\<exists>evs. csLog (snd (reconcileComponents sample_bad_env sample_ctrl_state)) = evs \<and> length evs = 7 \<and>
     fst (reconcileComponents sample_bad_env sample_ctrl_state) =
       joined [Sentinel ''boom'', WithMsg ''failed to reconcile ActiveGate'' (HttpCode 503)]"
proof -
  obtain evs where evs: "csLog (snd (reconcileComponents sample_bad_env sample_ctrl_state)) = csLog sample_ctrl_state @ evs"
    "fst (reconcileComponents sample_bad_env sample_ctrl_state) = joined (concat (map reported evs))"
    using components_result[of sample_bad_env sample_ctrl_state] by (metis prod.collapse)
  have "csLog (snd (reconcileComponents sample_bad_env sample_ctrl_state)) =
     [Ran K8sEntity [] (Some (Sentinel ''boom'')), Ran ActiveGate [] (Some (HttpCode 503)), Ran KubeMonitoring [] None,
      Ran Extension [] None, Ran OtelCollector [] None, Ran Kspm [] None,
      Ran LogMonitoring [dkStatus zero_dynakube] (Some (Sentinel NoCommunicationEndpointsError))]"
    by (simp add: reconcileComponents_table component_order_def run_component_def sample_ctrl_env_def
        sample_failing_def sample_ctrl_state_def log_event_def andThen_def attempt_def verdict_of_def
        IsPostponedError_def errors_is_def setRequeueAfterIfNewIsShorter_def modify_def join_io_eq)
  with evs show ?thesis
    by (simp add: sample_ctrl_state_def verdict_of_def IsPostponedError_def errors_is_def)
qed

abbreviation sample_platform_token :: string where "sample_platform_token \<equiv> ''dt0s16.x''"

lemma sample_token_ok:
  "ReadAndVerifyTokens (\<lambda>_ _. Inr [(APIKey, sample_platform_token)]) dk = Inr [(APIKey, newToken APIKey sample_platform_token)]"
  by (simp add: ReadAndVerifyTokens_def ReadTokens_def verifyAPITokenExists_def newToken_def)

lemma sample_verify_ok: "fst (verifyTokens te [(APIKey, newToken APIKey sample_platform_token)] dk) = None"
proof -
  have "VerifyValues [(APIKey, newToken APIKey sample_platform_token)] = None" by code_simp
  moreover have "HasPlatformToken [(APIKey, newToken APIKey sample_platform_token)]" by code_simp
  ultimately show ?thesis by (simp add: verifyTokens_def Let_def)
qed

lemma sample_setup:
  "\<exists>s. setupTokensAndClient (sample_ctrl_env outcome dko sample_platform_token) st = (Inr (), s) \<and> csLog s = csLog st"
proof -
  let ?env = "sample_ctrl_env outcome dko sample_platform_token"
  have "fst (setupTokensAndClient ?env st) = Inr ()"
    using sample_verify_ok[of sample_token_env "csDk st"]
    by (cases "verifyTokens sample_token_env [(APIKey, newToken APIKey sample_platform_token)] (csDk st)")
       (simp add: setupTokensAndClient_def andThen_gets sample_ctrl_env_def sample_token_ok set_dk_def
         andThen_def[where m = "modify f" for f] modify_def)
  moreover have "csLog (snd (setupTokensAndClient ?env st)) = csLog st"
    using keepsD[OF setup_keeps, of st "csLog st" "csRequeueAfter st" ?env] by simp
  ultimately show ?thesis by (metis prod.collapse)
qed

lemma sample_run_component:
  "\<exists>s. run_component (sample_ctrl_env outcome dko token) c st = (outcome c, s)"
  by (simp add: run_component_def sample_ctrl_env_def)

lemma sample_reconcile:
  assumes "outcome IstioAPIURL = Inr ()" "outcome DeploymentMetadata = Inr ()" "outcome ProxyResources = Inr ()"
  shows "\<exists>s. reconcileDynaKube (sample_ctrl_env outcome dko sample_platform_token) st =
     reconcileComponents (sample_ctrl_env outcome dko sample_platform_token) s"
proof -
  let ?env = "sample_ctrl_env outcome dko sample_platform_token"
  obtain s1 where 1: "run_component ?env IstioAPIURL st = (Inr (), s1)" using sample_run_component assms by metis
  obtain s2 where 2: "setupTokensAndClient ?env s1 = (Inr (), s2)" using sample_setup by blast
  obtain s3 where 3: "set_kube_system_uuid (ceClusterID ?env) s2 = (Inr (), s3)"
    by (simp add: set_kube_system_uuid_def modify_def)
  obtain s4 where 4: "run_component ?env DeploymentMetadata s3 = (Inr (), s4)" using sample_run_component assms by metis
  obtain s5 where 5: "run_component ?env ProxyResources s4 = (Inr (), s5)" using sample_run_component assms by metis
  have "reconcileDynaKube ?env st = reconcileComponents ?env s5"
    by (simp add: reconcileDynaKube_def andThen_def wrap_msg_def 1 2 3 4 5)
  then show ?thesis by blast
qed

lemma sample_failing_components:
  "fst (reconcileComponents sample_bad_env st) =
     Inl (Joined [Sentinel ''boom'', WithMsg ''failed to reconcile ActiveGate'' (HttpCode 503)])"
  by (simp add: reconcileComponents_table component_order_def run_component_def sample_ctrl_env_def
      sample_failing_def log_event_def andThen_def attempt_def verdict_of_def
      IsPostponedError_def errors_is_def setRequeueAfterIfNewIsShorter_def modify_def join_io_eq joined_def)

lemma sample_good_components: "fst (reconcileComponents sample_good_env st) = Inr ()"
  by (simp add: reconcileComponents_table component_order_def run_component_def sample_ctrl_env_def
      log_event_def andThen_def attempt_def join_io_eq joined_def)

definition sample_start :: "controller_env \<Rightarrow> ctrl_state" where
  "sample_start env = start env zero_dynakube sample_ctrl_state"

lemma sample_runs:
  "reconcileDynaKube sample_bad_env (sample_start sample_bad_env) =
     (Inl (Joined [Sentinel ''boom'', WithMsg ''failed to reconcile ActiveGate'' (HttpCode 503)]),
      snd (reconcileDynaKube sample_bad_env (sample_start sample_bad_env)))"
  "reconcileDynaKube sample_good_env (sample_start sample_good_env) =
     (Inr (), snd (reconcileDynaKube sample_good_env (sample_start sample_good_env)))"
  using sample_reconcile[of sample_failing "Inr zero_dynakube" "sample_start sample_bad_env"]
    sample_reconcile[of "\<lambda>_. Inr ()" "Inr zero_dynakube" "sample_start sample_good_env"]
  by (auto simp: sample_failing_def prod_eq_iff sample_failing_components sample_good_components)

abbreviation sample_rejected_env :: controller_env where
  "sample_rejected_env \<equiv> sample_ctrl_env sample_rejected (Inr zero_dynakube) ''dt0s16.x''"

lemma sample_rejected_runs:
  "reconcileDynaKube sample_rejected_env (sample_start sample_rejected_env) =
     (Inl (Joined [HttpCode 400, WithMsg ''failed to reconcile ActiveGate'' (HttpCode 503)]),
      snd (reconcileDynaKube sample_rejected_env (sample_start sample_rejected_env)))"
  using sample_reconcile[of sample_rejected "Inr zero_dynakube" "sample_start sample_rejected_env"]
  by (auto simp: sample_rejected_def prod_eq_iff reconcileComponents_table component_order_def run_component_def
      sample_ctrl_env_def log_event_def andThen_def attempt_def verdict_of_def join_io_eq joined_def)

lemma sample_env_simps:
  "ceGetDynaKube (sample_ctrl_env outcome dko token) n ns = dko"
  "ceCRDLatest (sample_ctrl_env outcome dko token) = Inr True"
  by (simp_all add: sample_ctrl_env_def)

theorem unreachable_witness:
  "Reconcile sample_bad_env ''dk'' ''ns'' sample_ctrl_state =
     (Inr minute, snd (reconcileDynaKube sample_bad_env (sample_start sample_bad_env))) \<and>
   own_writes (csLog (snd (Reconcile sample_bad_env ''dk'' ''ns'' sample_ctrl_state))) = [] \<and>
   isl (fst (Reconcile sample_rejected_env ''dk'' ''ns'' sample_ctrl_state))"
  using unreachable_drops_everything[OF sample_env_simps sample_runs(1)[unfolded sample_start_def], folded sample_start_def,
      of "''dk''" "''ns''"]
    unreachable_drops_everything[OF sample_env_simps sample_rejected_runs[unfolded sample_start_def], folded sample_start_def,
      of "''dk''" "''ns''"]
  by (auto simp: sample_ctrl_state_def)

abbreviation sample_tokenless_env :: controller_env where
  "sample_tokenless_env \<equiv> sample_ctrl_env (\<lambda>_. Inr ()) (Inr zero_dynakube) []"

lemma sample_tokenless_setup:
  "\<exists>m s. setupTokensAndClient sample_tokenless_env st = (Inl (Sentinel m), s)"
  by (simp add: setupTokensAndClient_def andThen_gets sample_ctrl_env_def ReadAndVerifyTokens_def ReadTokens_def
      verifyAPITokenExists_def newToken_def fail_tokens_def andThen_def gets_def modify_def throw_def)

theorem token_failure_witness:
  "\<exists>e s. reconcileDynaKube sample_tokenless_env sample_ctrl_state = (Inl e, s) \<and> (\<exists>w. csLog s = [Ran IstioAPIURL w None])"
proof -
  obtain s1 where 1: "run_component sample_tokenless_env IstioAPIURL sample_ctrl_state = (Inr (), s1)"
    using sample_run_component by metis
  obtain m s2 where 2: "setupTokensAndClient sample_tokenless_env s1 = (Inl (Sentinel m), s2)"
    using sample_tokenless_setup by metis
  from token_failure_stops_reconcile[OF 1 2] show ?thesis by (simp add: sample_ctrl_state_def)
qed

theorem status_written_witness:
  "\<exists>l status. csLog (snd (Reconcile sample_tokenless_env ''dk'' ''ns'' sample_ctrl_state)) = l @ [StatusUpdate status] \<and>
     dstPhase status = PhaseError"
proof -
  let ?s0 = "start sample_tokenless_env zero_dynakube sample_ctrl_state"
  obtain s1 where 1: "run_component sample_tokenless_env IstioAPIURL ?s0 = (Inr (), s1)"
    using sample_run_component by metis
  obtain m s2 where 2: "setupTokensAndClient sample_tokenless_env s1 = (Inl (Sentinel m), s2)"
    using sample_tokenless_setup by metis
  have run: "reconcileDynaKube sample_tokenless_env ?s0 = (Inl (Sentinel m), s2)"
    by (simp add: reconcileDynaKube_def andThen_def wrap_msg_def 1 2)
  have "csLog (snd (Reconcile sample_tokenless_env ''dk'' ''ns'' sample_ctrl_state)) =
      csLog s2 @ [StatusUpdate ((dkStatus (csDk s2))\<lparr>dstPhase := PhaseError, dstUpdatedTimestamp := 5\<rparr>)]"
    using status_written_iff_hash_differs[OF sample_env_simps run _ refl refl, of "[0]" "[1]" "''dk''" "''ns''"]
    by (simp add: sample_ctrl_env_def zero_dynakube_def zero_dynakube_status_def IsUnreachable_def
        IsTooManyRequests_def IsServiceUnavailable_def StatusCode_def fnv32_def fnv_step_byte_inj)
  then show ?thesis by (intro exI conjI, assumption) simp
qed

theorem requeue_interval_witness:
  "\<exists>t s. Reconcile sample_bad_env ''dk'' ''ns'' sample_ctrl_state = (Inr t, s) \<and> (t = 15 * minute \<or> t = minute)"
proof -
  obtain t s where run: "Reconcile sample_bad_env ''dk'' ''ns'' sample_ctrl_state = (Inr t, s)"
    using Reconcile_existing[OF sample_env_simps sample_runs(1)[unfolded sample_start_def]]
    by (auto simp: handleError_def IsUnreachable_joined ret_def)
  then show ?thesis
    using requeue_interval[OF sample_env_simps(1) run] by (simp add: sample_ctrl_env_def)
qed

theorem deleted_dynakube_witness:
  "DeleteSecretCall OTLPExporterSecretName ''n1'' \<in> {c. MapperCall c \<in> set (csLog (snd
     (Reconcile (sample_ctrl_env (\<lambda>_. Inr ()) (Inl (ApiStatus ''NotFound'')) []) ''dk'' ''ns'' sample_ctrl_state)))}"
proof -
  let ?env = "sample_ctrl_env (\<lambda>_. Inr ()) (Inl (ApiStatus ''NotFound'')) []"
  obtain s where run: "Reconcile ?env ''dk'' ''ns'' sample_ctrl_state = (Inr 0, s)"
    by (simp add: Reconcile_def getDynakubeOrCleanup_def sample_ctrl_env_def is_not_found_def UnmapFromDynaKube_def
        andThen_def wrap_msg_def update_namespace_def call_def sample_mapper_env_def match_env.defs
        deleteReplicatedSecrets_def join_all_def DeleteForNamespace_def attempt_def ret_def modify_dk_def modify_def join_errors_def)
  have "ceNamespacesFor ?env ''dk'' = Inr [sample_labelled_ns]" by (simp add: sample_ctrl_env_def)
  from deleted_dynakube_unmapped[OF sample_env_simps(1) _ this run] run show ?thesis
    by (simp add: is_not_found_def)
qed

end
