(* ===== verification/K8sQuery.thy ===== *)
theory K8sQuery
  imports Hasher
begin

text \<open>
  \<open>pkg/util/kubernetes/objects/internal/query/query.go\<close> and the queries built on it: how the operator creates
  and updates its Kubernetes objects. An object has its metadata and a payload \<open>'p\<close>; the API server is a
  set of functions of \<open>query_env\<close> whose answers may depend on the calls made before. \<open>Create\<close> and
  \<open>Update\<close> change the object they are given: the hash annotation, the owner, and what the server returns.
\<close>

section \<open>Objects and calls\<close>

type_synonym smap = "string \<rightharpoonup> string"

text \<open>A nil map of labels is not the empty map for \<open>reflect.DeepEqual\<close>.\<close>

record 'p kobject =
  koName :: string
  koNamespace :: string
  koUID :: string
  koResourceVersion :: string
  koAnnotations :: smap
  koLabels :: "smap option"
  koOwnerReferences :: "string list"
  koPayload :: 'p

datatype 'p q_call =
    QGet string string
  | QList string
  | QCreate "'p kobject"
  | QUpdate "'p kobject"
  | QDelete string string

type_synonym 'p q_trace = "'p q_call list"

record 'p query_env =
  qeIsEqual :: "'p kobject \<Rightarrow> 'p kobject \<Rightarrow> bool"
  qeMustRecreate :: "'p kobject \<Rightarrow> 'p kobject \<Rightarrow> bool"
  qeOwner :: "string option"
  qeMarshal :: "'p kobject \<Rightarrow> error + 8 word list"
  qeSetControllerReference :: "string \<Rightarrow> 'p kobject \<Rightarrow> error + 'p kobject"
  qeGet :: "'p q_trace \<Rightarrow> string \<Rightarrow> string \<Rightarrow> error + 'p kobject"
  qeList :: "'p q_trace \<Rightarrow> string \<Rightarrow> error + 'p kobject list"
  qeCreate :: "'p q_trace \<Rightarrow> 'p kobject \<Rightarrow> error + 'p kobject"
  qeUpdate :: "'p q_trace \<Rightarrow> 'p kobject \<Rightarrow> error + 'p kobject"
  qeDelete :: "'p q_trace \<Rightarrow> string \<Rightarrow> string \<Rightarrow> error option"

record 'p query_state =
  qsTrace :: "'p q_trace"
  qsObject :: "'p kobject"

definition WithOwner :: "string \<Rightarrow> 'p query_env \<Rightarrow> 'p query_env" where
  "WithOwner owner env = env\<lparr>qeOwner := Some owner\<rparr>"

section \<open>Operations\<close>

definition q_ask :: "'p q_call \<Rightarrow> ('p q_trace \<Rightarrow> error + 'a) \<Rightarrow> ('p query_state, 'a) io" where
  "q_ask c answer st = (answer (qsTrace st), st\<lparr>qsTrace := qsTrace st @ [c]\<rparr>)"

definition set_object :: "'p kobject \<Rightarrow> ('p query_state, unit) io" where
  "set_object obj = modify (\<lambda>st. st\<lparr>qsObject := obj\<rparr>)"

definition AddAnnotation :: "'p query_env \<Rightarrow> 'p kobject \<Rightarrow> error + 'p kobject" where
  "AddAnnotation env obj =
     (case koAnnotations obj AnnotationHash of
        Some _ \<Rightarrow> Inr obj
      | None \<Rightarrow>
          (case GenerateHash (qeMarshal env) obj of
             Inl e \<Rightarrow> Inl e
           | Inr objectHash \<Rightarrow> Inr (obj\<lparr>koAnnotations := (koAnnotations obj)(AnnotationHash \<mapsto> objectHash)\<rparr>)))"

definition Get :: "'p query_env \<Rightarrow> string \<Rightarrow> string \<Rightarrow> ('p query_state, 'p kobject) io" where
  "Get env ns n = q_ask (QGet ns n) (\<lambda>tr. qeGet env tr ns n)"

text \<open>The preparation \<open>Create\<close> and \<open>Update\<close> share: annotation, then owner.\<close>

definition prepare :: "'p query_env \<Rightarrow> ('p query_state, unit) io" where
  "prepare env =
     andThen (gets qsObject) (\<lambda>obj.
     andThen (lift (AddAnnotation env obj)) (\<lambda>obj1.
     andThen (set_object obj1) (\<lambda>_.
       case qeOwner env of
         None \<Rightarrow> ret ()
       | Some owner \<Rightarrow> andThen (lift (qeSetControllerReference env owner obj1)) set_object)))"

definition Create :: "'p query_env \<Rightarrow> ('p query_state, unit) io" where
  "Create env =
     andThen (prepare env) (\<lambda>_.
     andThen (gets qsObject) (\<lambda>obj.
     andThen (q_ask (QCreate obj) (\<lambda>tr. qeCreate env tr obj)) set_object))"

definition Update :: "'p query_env \<Rightarrow> ('p query_state, unit) io" where
  "Update env =
     andThen (prepare env) (\<lambda>_.
     andThen (gets qsObject) (\<lambda>obj.
     andThen (q_ask (QUpdate obj) (\<lambda>tr. qeUpdate env tr obj)) set_object))"

definition Delete :: "'p query_env \<Rightarrow> string \<Rightarrow> string \<Rightarrow> ('p query_state, unit) io" where
  "Delete env ns n =
     q_ask (QDelete ns n) (\<lambda>tr. case qeDelete env tr ns n of
       None \<Rightarrow> Inr () | Some e \<Rightarrow> if is_not_found e then Inr () else Inl e)"

definition Recreate :: "'p query_env \<Rightarrow> ('p query_state, unit) io" where
  "Recreate env =
     andThen (gets qsObject) (\<lambda>obj.
     andThen (Delete env (koNamespace obj) (koName obj)) (\<lambda>_. Create env))"

definition CreateOrUpdate :: "'p query_env \<Rightarrow> ('p query_state, bool) io" where
  "CreateOrUpdate env =
     andThen (gets qsObject) (\<lambda>newObject.
     andThen (attempt (Get env (koNamespace newObject) (koName newObject))) (\<lambda>r.
       case r of
         Inl e \<Rightarrow>
           if is_not_found e then andThen (Create env) (\<lambda>_. ret True) else throw e
       | Inr currentObject \<Rightarrow>
           andThen (lift (AddAnnotation env newObject)) (\<lambda>newObject.
           andThen (set_object newObject) (\<lambda>_.
           if qeIsEqual env currentObject newObject then ret False
           else if qeMustRecreate env currentObject newObject then andThen (Recreate env) (\<lambda>_. ret True)
           else
             andThen (set_object (newObject\<lparr>koUID := koUID currentObject,
                                            koResourceVersion := koResourceVersion currentObject\<rparr>)) (\<lambda>_.
             andThen (Update env) (\<lambda>_. ret True))))))"

definition GetAllFromNamespaces :: "'p query_env \<Rightarrow> string \<Rightarrow> ('p query_state, 'p kobject list) io" where
  "GetAllFromNamespaces env objectName =
     q_ask (QList objectName) (\<lambda>tr. case qeList env tr objectName of
       Inr items \<Rightarrow> Inr items | Inl e \<Rightarrow> if is_not_found e then Inr [] else Inl e)"

record target_namespace =
  tnName :: string
  tnTerminating :: bool

definition objects_by_namespace :: "'p kobject list \<Rightarrow> (string \<rightharpoonup> 'p kobject)" where
  "objects_by_namespace objs = fold (\<lambda>obj m. m(koNamespace obj \<mapsto> obj)) objs Map.empty"

text \<open>One namespace of \<open>createOrUpdateForNamespaces\<close>: the same object is moved from namespace to namespace.\<close>

definition replicate_to :: "'p query_env \<Rightarrow> (string \<rightharpoonup> 'p kobject) \<Rightarrow> string \<Rightarrow> ('p query_state, unit) io" where
  "replicate_to env existing ns =
     andThen (modify (\<lambda>st. st\<lparr>qsObject := (qsObject st)\<lparr>koNamespace := ns, koResourceVersion := []\<rparr>\<rparr>)) (\<lambda>_.
     andThen (gets qsObject) (\<lambda>object.
       case existing ns of
         Some oldObject \<Rightarrow>
           if \<not> qeIsEqual env oldObject object then
             andThen (set_object (object\<lparr>koUID := koUID oldObject, koResourceVersion := koResourceVersion oldObject\<rparr>)) (\<lambda>_.
               wrap_msg (''failed to update '' @ koName object @ '' for namespace '' @ ns) (Update env))
           else ret ()
       | None \<Rightarrow> wrap_msg (''failed to create '' @ koName object @ '' for namespace '' @ ns) (Create env)))"

fun replicate_all :: "'p query_env \<Rightarrow> (string \<rightharpoonup> 'p kobject) \<Rightarrow> target_namespace list \<Rightarrow> ('p query_state, error list) io" where
  "replicate_all env existing [] = ret []"
| "replicate_all env existing (ns # nss) =
     (if tnTerminating ns then replicate_all env existing nss
      else andThen (attempt (replicate_to env existing (tnName ns))) (\<lambda>r.
           andThen (replicate_all env existing nss) (\<lambda>errs.
             ret (case r of Inl e \<Rightarrow> e # errs | Inr _ \<Rightarrow> errs))))"

definition createOrUpdateForNamespaces ::
    "'p query_env \<Rightarrow> (string \<rightharpoonup> 'p kobject) \<Rightarrow> target_namespace list \<Rightarrow> ('p query_state, unit) io" where
  "createOrUpdateForNamespaces env existing namespaces =
     andThen (replicate_all env existing namespaces) (\<lambda>errs.
       case join_errors errs of None \<Rightarrow> ret () | Some e \<Rightarrow> throw e)"

definition CreateOrUpdateForNamespaces :: "'p query_env \<Rightarrow> target_namespace list \<Rightarrow> ('p query_state, unit) io" where
  "CreateOrUpdateForNamespaces env namespaces =
     andThen (gets (koName \<circ> qsObject)) (\<lambda>n.
     andThen (GetAllFromNamespaces env n) (\<lambda>objects.
       createOrUpdateForNamespaces env (objects_by_namespace objects) namespaces))"

fun delete_all :: "'p query_env \<Rightarrow> string \<Rightarrow> string list \<Rightarrow> ('p query_state, error list) io" where
  "delete_all env objectName [] = ret []"
| "delete_all env objectName (ns # nss) =
     andThen (attempt (Delete env ns objectName)) (\<lambda>r.
     andThen (delete_all env objectName nss) (\<lambda>errs.
       ret (case r of Inl e \<Rightarrow> e # errs | Inr _ \<Rightarrow> errs)))"

definition DeleteForNamespaces :: "'p query_env \<Rightarrow> string \<Rightarrow> string list \<Rightarrow> ('p query_state, unit) io" where
  "DeleteForNamespaces env objectName namespaces =
     andThen (delete_all env objectName namespaces) (\<lambda>errs.
       case join_errors errs of None \<Rightarrow> ret () | Some e \<Rightarrow> throw e)"

section \<open>The kinds of objects\<close>

record secret_payload =
  spData :: "smap option"
  spImmutable :: "bool option"

definition secret_isEqual :: "secret_payload kobject \<Rightarrow> secret_payload kobject \<Rightarrow> bool" where
  "secret_isEqual secret other \<longleftrightarrow>
     spData (koPayload secret) = spData (koPayload other) \<and> koLabels secret = koLabels other \<and>
     koOwnerReferences secret = koOwnerReferences other"

definition secret_mustRecreate :: "secret_payload kobject \<Rightarrow> secret_payload kobject \<Rightarrow> bool" where
  "secret_mustRecreate current desired \<longleftrightarrow>
     spImmutable (koPayload current) = Some True \<or> spImmutable (koPayload desired) = Some True"

definition configmap_isEqual :: "smap option kobject \<Rightarrow> smap option kobject \<Rightarrow> bool" where
  "configmap_isEqual configMap other \<longleftrightarrow>
     koPayload configMap = koPayload other \<and> koLabels configMap = koLabels other \<and>
     koOwnerReferences configMap = koOwnerReferences other"

text \<open>Workloads: replica count (\<open>nil\<close> is 1), selector labels, and the rest of the spec as a value.\<close>

record workload_payload =
  wpReplicas :: "32 word option"
  wpMatchLabels :: smap
  wpRest :: string

definition deref_replicas :: "32 word option \<Rightarrow> 32 word" where
  "deref_replicas r = (case r of None \<Rightarrow> 1 | Some n \<Rightarrow> n)"

definition deployment_isEqual :: "workload_payload kobject \<Rightarrow> workload_payload kobject \<Rightarrow> bool" where
  "deployment_isEqual current desired \<longleftrightarrow>
     \<not> IsAnnotationDifferent (koAnnotations current) (koAnnotations desired) \<and>
     deref_replicas (wpReplicas (koPayload desired)) = deref_replicas (wpReplicas (koPayload current))"

definition deployment_mustRecreate :: "workload_payload kobject \<Rightarrow> workload_payload kobject \<Rightarrow> bool" where
  "deployment_mustRecreate current desired \<longleftrightarrow>
     wpMatchLabels (koPayload current) \<noteq> wpMatchLabels (koPayload desired)"

abbreviation AnnotationPVCHash :: string where
  "AnnotationPVCHash \<equiv> ''internal.operator.dynatrace.com/pvc-hash''"

definition read_annotation :: "smap \<Rightarrow> string \<Rightarrow> string" where
  "read_annotation m k = (case m k of None \<Rightarrow> [] | Some v \<Rightarrow> v)"

definition statefulset_mustRecreate :: "workload_payload kobject \<Rightarrow> workload_payload kobject \<Rightarrow> bool" where
  "statefulset_mustRecreate current desired \<longleftrightarrow>
     wpMatchLabels (koPayload current) \<noteq> wpMatchLabels (koPayload desired) \<or>
     read_annotation (koAnnotations current) AnnotationPVCHash \<noteq>
       read_annotation (koAnnotations desired) AnnotationPVCHash"

definition daemonset_isEqual :: "workload_payload kobject \<Rightarrow> workload_payload kobject \<Rightarrow> bool" where
  "daemonset_isEqual current desired \<longleftrightarrow> \<not> IsAnnotationDifferent (koAnnotations current) (koAnnotations desired)"

record service_port =
  svpName :: string
  svpProtocol :: string
  svpPort :: int
  svpTargetPort :: string

record service_payload =
  svPorts :: "service_port list"
  svSelector :: "smap option"
  svClusterIP :: string
  svClusterIPs :: "string list"

definition service_isEqual :: "service_payload kobject \<Rightarrow> service_payload kobject \<Rightarrow> bool" where
  "service_isEqual current other \<longleftrightarrow>
     svPorts (koPayload current) = svPorts (koPayload other) \<and> koLabels current = koLabels other \<and>
     koOwnerReferences current = koOwnerReferences other \<and>
     svSelector (koPayload current) = svSelector (koPayload other)"

text \<open>\<open>maps.Equal\<close> does not tell a nil map from an empty one.\<close>

definition service_mustRecreate :: "service_payload kobject \<Rightarrow> service_payload kobject \<Rightarrow> bool" where
  "service_mustRecreate current desired \<longleftrightarrow>
     (case svSelector (koPayload current) of None \<Rightarrow> Map.empty | Some m \<Rightarrow> m) \<noteq>
     (case svSelector (koPayload desired) of None \<Rightarrow> Map.empty | Some m \<Rightarrow> m)"

section \<open>What one reconcile of an object does\<close>

fun is_write :: "'p q_call \<Rightarrow> bool" where
  "is_write (QGet ns n) = False"
| "is_write (QList n) = False"
| "is_write (QCreate obj) = True"
| "is_write (QUpdate obj) = True"
| "is_write (QDelete ns n) = True"

lemma prepare_result:
  "prepare env st =
     (case AddAnnotation env (qsObject st) of
        Inl e \<Rightarrow> (Inl e, st)
      | Inr obj1 \<Rightarrow>
          (case qeOwner env of
             None \<Rightarrow> (Inr (), st\<lparr>qsObject := obj1\<rparr>)
           | Some owner \<Rightarrow>
               (case qeSetControllerReference env owner obj1 of
                  Inl e \<Rightarrow> (Inl e, st\<lparr>qsObject := obj1\<rparr>)
                | Inr obj2 \<Rightarrow> (Inr (), st\<lparr>qsObject := obj2\<rparr>))))"
  by (simp add: prepare_def andThen_gets set_object_def io_simps split: sum.split option.split)

text \<open>The object as \<open>Create\<close> and \<open>Update\<close> send it.\<close>

definition sent :: "'p query_env \<Rightarrow> 'p kobject \<Rightarrow> error + 'p kobject" where
  "sent env obj =
     (case AddAnnotation env obj of
        Inl e \<Rightarrow> Inl e
      | Inr obj1 \<Rightarrow>
          (case qeOwner env of None \<Rightarrow> Inr obj1 | Some owner \<Rightarrow> qeSetControllerReference env owner obj1))"

lemma prepare_sent: "sent env (qsObject st) = Inr obj \<Longrightarrow> prepare env st = (Inr (), st\<lparr>qsObject := obj\<rparr>)"
  by (auto simp: prepare_result sent_def split: sum.splits option.splits)

lemma prepare_unsent: "sent env (qsObject st) = Inl e \<Longrightarrow> \<exists>obj. prepare env st = (Inl e, st\<lparr>qsObject := obj\<rparr>)"
  by (rule exI[of _ "qsObject (snd (prepare env st))"])
    (auto simp: prepare_result sent_def split: sum.splits option.splits)

lemma Create_sent:
  "sent env (qsObject st) = Inr obj \<Longrightarrow>
   Create env st =
     (case qeCreate env (qsTrace st) obj of
        Inl e \<Rightarrow> (Inl e, st\<lparr>qsObject := obj, qsTrace := qsTrace st @ [QCreate obj]\<rparr>)
      | Inr obj' \<Rightarrow> (Inr (), st\<lparr>qsObject := obj', qsTrace := qsTrace st @ [QCreate obj]\<rparr>))"
  by (simp add: Create_def prepare_sent andThen_def[where m = "prepare env"] andThen_gets q_ask_def
      set_object_def io_simps split: sum.split)

lemma Create_unsent: "sent env (qsObject st) = Inl e \<Longrightarrow> \<exists>obj. Create env st = (Inl e, st\<lparr>qsObject := obj\<rparr>)"
  by (drule prepare_unsent) (auto simp: Create_def andThen_def[where m = "prepare env"])

lemma Update_sent:
  "sent env (qsObject st) = Inr obj \<Longrightarrow>
   Update env st =
     (case qeUpdate env (qsTrace st) obj of
        Inl e \<Rightarrow> (Inl e, st\<lparr>qsObject := obj, qsTrace := qsTrace st @ [QUpdate obj]\<rparr>)
      | Inr obj' \<Rightarrow> (Inr (), st\<lparr>qsObject := obj', qsTrace := qsTrace st @ [QUpdate obj]\<rparr>))"
  by (simp add: Update_def prepare_sent andThen_def[where m = "prepare env"] andThen_gets q_ask_def
      set_object_def io_simps split: sum.split)

lemma Update_unsent: "sent env (qsObject st) = Inl e \<Longrightarrow> \<exists>obj. Update env st = (Inl e, st\<lparr>qsObject := obj\<rparr>)"
  by (drule prepare_unsent) (auto simp: Update_def andThen_def[where m = "prepare env"])

lemma CreateOrUpdate_result:
  "CreateOrUpdate env st =
    (let newObject = qsObject st; key = QGet (koNamespace newObject) (koName newObject);
         st1 = st\<lparr>qsTrace := qsTrace st @ [key]\<rparr> in
     case qeGet env (qsTrace st) (koNamespace newObject) (koName newObject) of
       Inl e \<Rightarrow> if is_not_found e then andThen (Create env) (\<lambda>_. ret True) st1 else (Inl e, st1)
     | Inr currentObject \<Rightarrow>
        (case AddAnnotation env newObject of
           Inl e \<Rightarrow> (Inl e, st1)
         | Inr annotated \<Rightarrow>
             if qeIsEqual env currentObject annotated then (Inr False, st1\<lparr>qsObject := annotated\<rparr>)
             else if qeMustRecreate env currentObject annotated
             then andThen (Recreate env) (\<lambda>_. ret True) (st1\<lparr>qsObject := annotated\<rparr>)
             else andThen (Update env) (\<lambda>_. ret True)
               (st1\<lparr>qsObject := annotated\<lparr>koUID := koUID currentObject, koResourceVersion := koResourceVersion currentObject\<rparr>\<rparr>)))"
  by (auto simp: CreateOrUpdate_def andThen_gets Get_def q_ask_def Let_def andThen_def[where m = "attempt _"] attempt_def
      throw_def andThen_lift andThen_modify set_object_def ret_def split: sum.split)

lemma AddAnnotation_content:
  "AddAnnotation env obj = Inr obj1 \<Longrightarrow>
   obj1 = obj\<lparr>koAnnotations := koAnnotations obj1\<rparr> \<and> AddAnnotation env obj1 = Inr obj1"
  by (auto simp: AddAnnotation_def split: option.splits sum.splits)

lemma AddAnnotation_server_fields:
  "AddAnnotation env obj = Inr obj \<Longrightarrow>
   AddAnnotation env (obj\<lparr>koUID := u, koResourceVersion := rv\<rparr>) = Inr (obj\<lparr>koUID := u, koResourceVersion := rv\<rparr>)"
  by (cases "koAnnotations obj AnnotationHash")
    (auto simp: AddAnnotation_def split: option.splits sum.splits dest!: arg_cong[where f = koAnnotations] fun_cong[where x = AnnotationHash])

text \<open>The calls of a successful \<open>CreateOrUpdate\<close> after its read, by the branch it took.\<close>

lemma CreateOrUpdate_ok:
  assumes run: "CreateOrUpdate env st = (Inr b, st')"
  obtains
    (created) p p' e where "b" "qeGet env (qsTrace st) (koNamespace (qsObject st)) (koName (qsObject st)) = Inl e" "is_not_found e"
      "sent env (qsObject st) = Inr p"
      "qsTrace st' = qsTrace st @ [QGet (koNamespace (qsObject st)) (koName (qsObject st)), QCreate p]"
      "qeCreate env (qsTrace st @ [QGet (koNamespace (qsObject st)) (koName (qsObject st))]) p = Inr p'"
  | (equal) current annotated where "\<not> b"
      "qeGet env (qsTrace st) (koNamespace (qsObject st)) (koName (qsObject st)) = Inr current"
      "AddAnnotation env (qsObject st) = Inr annotated" "qeIsEqual env current annotated"
      "qsTrace st' = qsTrace st @ [QGet (koNamespace (qsObject st)) (koName (qsObject st))]"
  | (recreated) current annotated p p' where "b"
      "qeGet env (qsTrace st) (koNamespace (qsObject st)) (koName (qsObject st)) = Inr current"
      "AddAnnotation env (qsObject st) = Inr annotated" "\<not> qeIsEqual env current annotated"
      "qeMustRecreate env current annotated" "sent env annotated = Inr p"
      "qsTrace st' = qsTrace st @ [QGet (koNamespace (qsObject st)) (koName (qsObject st)),
         QDelete (koNamespace (qsObject st)) (koName (qsObject st)), QCreate p]"
      "qeCreate env (qsTrace st @ [QGet (koNamespace (qsObject st)) (koName (qsObject st)),
         QDelete (koNamespace (qsObject st)) (koName (qsObject st))]) p = Inr p'"
  | (updated) current annotated p p' where "b"
      "qeGet env (qsTrace st) (koNamespace (qsObject st)) (koName (qsObject st)) = Inr current"
      "AddAnnotation env (qsObject st) = Inr annotated" "\<not> qeIsEqual env current annotated"
      "\<not> qeMustRecreate env current annotated"
      "sent env (annotated\<lparr>koUID := koUID current, koResourceVersion := koResourceVersion current\<rparr>) = Inr p"
      "qsTrace st' = qsTrace st @ [QGet (koNamespace (qsObject st)) (koName (qsObject st)), QUpdate p]"
      "qeUpdate env (qsTrace st @ [QGet (koNamespace (qsObject st)) (koName (qsObject st))]) p = Inr p'"
proof (cases "qeGet env (qsTrace st) (koNamespace (qsObject st)) (koName (qsObject st))")
  case (Inl e)
  let ?st1 = "st\<lparr>qsTrace := qsTrace st @ [QGet (koNamespace (qsObject st)) (koName (qsObject st))]\<rparr>"
  have nf: "is_not_found e" and c: "andThen (Create env) (\<lambda>_. ret True) ?st1 = (Inr b, st')"
    using run Inl by (auto simp: CreateOrUpdate_result Let_def split: if_splits)
  then have "b" and create: "Create env ?st1 = (Inr (), st')" by (auto simp: andThen_Inr ret_def)
  then obtain p where p: "sent env (qsObject st) = Inr p"
    using Create_unsent[of env ?st1] by (cases "sent env (qsObject st)") auto
  then obtain p' where "qeCreate env (qsTrace ?st1) p = Inr p'" and "qsTrace st' = qsTrace ?st1 @ [QCreate p]"
    using create by (auto simp: Create_sent split: sum.splits)
  then show ?thesis using created \<open>b\<close> Inl nf p by auto
next
  case (Inr current)
  let ?k = "QGet (koNamespace (qsObject st)) (koName (qsObject st))"
  obtain annotated where a: "AddAnnotation env (qsObject st) = Inr annotated"
    using run Inr by (auto simp: CreateOrUpdate_result Let_def split: sum.splits)
  have ns: "koNamespace annotated = koNamespace (qsObject st)" "koName annotated = koName (qsObject st)"
    using arg_cong[OF conjunct1[OF AddAnnotation_content[OF a]], of koNamespace]
      arg_cong[OF conjunct1[OF AddAnnotation_content[OF a]], of koName] by auto
  consider "qeIsEqual env current annotated"
    | "\<not> qeIsEqual env current annotated" "qeMustRecreate env current annotated"
    | "\<not> qeIsEqual env current annotated" "\<not> qeMustRecreate env current annotated" by blast
  then show ?thesis
  proof cases
    case 1
    then show ?thesis using equal run Inr a by (auto simp: CreateOrUpdate_result Let_def)
  next
    case 2
    let ?st1 = "st\<lparr>qsTrace := qsTrace st @ [?k], qsObject := annotated\<rparr>"
    let ?st2 = "st\<lparr>qsObject := annotated, qsTrace := qsTrace st @ [?k, QDelete (koNamespace (qsObject st)) (koName (qsObject st))]\<rparr>"
    have "b" and "Recreate env ?st1 = (Inr (), st')"
      using run Inr a 2 by (auto simp: CreateOrUpdate_result Let_def andThen_Inr ret_def)
    then have create: "Create env ?st2 = (Inr (), st')"
      by (auto simp: Recreate_def andThen_gets andThen_Inr Delete_def q_ask_def ns split: option.splits if_splits)
    then obtain p where p: "sent env annotated = Inr p"
      using Create_unsent[of env ?st2] by (cases "sent env annotated") auto
    then obtain p' where "qeCreate env (qsTrace ?st2) p = Inr p'" and "qsTrace st' = qsTrace ?st2 @ [QCreate p]"
      using create by (auto simp: Create_sent split: sum.splits)
    then show ?thesis using recreated \<open>b\<close> Inr a 2 p by auto
  next
    case 3
    let ?o = "annotated\<lparr>koUID := koUID current, koResourceVersion := koResourceVersion current\<rparr>"
    let ?st1 = "st\<lparr>qsTrace := qsTrace st @ [?k], qsObject := ?o\<rparr>"
    have "b" and upd: "Update env ?st1 = (Inr (), st')"
      using run Inr a 3 by (auto simp: CreateOrUpdate_result Let_def andThen_Inr ret_def)
    then obtain p where p: "sent env ?o = Inr p"
      using Update_unsent[of env ?st1] by (cases "sent env ?o") auto
    then obtain p' where "qeUpdate env (qsTrace ?st1) p = Inr p'" and "qsTrace st' = qsTrace ?st1 @ [QUpdate p]"
      using upd by (auto simp: Update_sent split: sum.splits)
    then show ?thesis using updated \<open>b\<close> Inr a 3 p by auto
  qed
qed


section \<open>The second reconcile\<close>

text \<open>
  What the API server promises: reads change nothing, a read after a successful write returns what the
  write returned, and what the server adds to an object is not seen by \<open>IsEqual\<close>.
  \<open>SetControllerReference\<close> changes only the owner references.
\<close>

definition server_laws :: "'p query_env \<Rightarrow> bool" where
  "server_laws env \<longleftrightarrow>
     (\<forall>tr a b ns n. qeGet env (tr @ [QGet a b]) ns n = qeGet env tr ns n) \<and>
     (\<forall>tr p p'. qeCreate env tr p = Inr p' \<longrightarrow>
        qeIsEqual env p' = qeIsEqual env p \<and> qeGet env (tr @ [QCreate p]) (koNamespace p) (koName p) = Inr p') \<and>
     (\<forall>tr p p'. qeUpdate env tr p = Inr p' \<longrightarrow>
        qeIsEqual env p' = qeIsEqual env p \<and> qeGet env (tr @ [QUpdate p]) (koNamespace p) (koName p) = Inr p') \<and>
     (\<forall>owner p p'. qeSetControllerReference env owner p = Inr p' \<longrightarrow>
        p' = p\<lparr>koOwnerReferences := koOwnerReferences p'\<rparr>)"

lemma read_after_create:
  "server_laws env \<Longrightarrow> qeCreate env (tr @ cs) p = Inr p' \<Longrightarrow> koNamespace p = ns \<Longrightarrow> koName p = n \<Longrightarrow>
   qeGet env (tr @ cs @ [QCreate p]) ns n = Inr p' \<and> qeIsEqual env p' = qeIsEqual env p"
  unfolding server_laws_def by (metis append.assoc)

lemma read_after_update:
  "server_laws env \<Longrightarrow> qeUpdate env (tr @ cs) p = Inr p' \<Longrightarrow> koNamespace p = ns \<Longrightarrow> koName p = n \<Longrightarrow>
   qeGet env (tr @ cs @ [QUpdate p]) ns n = Inr p' \<and> qeIsEqual env p' = qeIsEqual env p"
  unfolding server_laws_def by (metis append.assoc)

lemma read_after_read: "server_laws env \<Longrightarrow> qeGet env (tr @ [QGet a b]) ns n = qeGet env tr ns n"
  by (simp add: server_laws_def)

lemma sent_content:
  assumes "server_laws env" and "AddAnnotation env obj = Inr obj" and "sent env obj = Inr p"
  shows "p = obj\<lparr>koOwnerReferences := koOwnerReferences p\<rparr>"
  using assms by (auto simp: sent_def server_laws_def split: option.splits)

lemma sent_annotated: "AddAnnotation env obj = Inr a \<Longrightarrow> sent env a = sent env obj"
  by (auto simp: sent_def dest: AddAnnotation_content split: sum.split)

lemma sent_key:
  assumes "server_laws env" and "AddAnnotation env obj = Inr a"
    and "sent env (a\<lparr>koUID := u, koResourceVersion := rv\<rparr>) = Inr p"
  shows "koNamespace p = koNamespace obj" and "koName p = koName obj" and "koAnnotations p = koAnnotations a"
    and "koLabels p = koLabels a" and "koPayload p = koPayload a"
    and "qeOwner env = None \<Longrightarrow> koOwnerReferences p = koOwnerReferences a"
proof -
  have a: "AddAnnotation env a = Inr a" and ao: "a = obj\<lparr>koAnnotations := koAnnotations a\<rparr>"
    using AddAnnotation_content[OF assms(2)] by auto
  let ?o = "a\<lparr>koUID := u, koResourceVersion := rv\<rparr>"
  have o': "AddAnnotation env ?o = Inr ?o" by (rule AddAnnotation_server_fields[OF a])
  have p: "p = ?o\<lparr>koOwnerReferences := koOwnerReferences p\<rparr>"
    by (rule sent_content[OF assms(1) o' assms(3)])
  show "koNamespace p = koNamespace obj" "koName p = koName obj" by (subst p, subst ao, simp)+
  show "koAnnotations p = koAnnotations a" "koLabels p = koLabels a" "koPayload p = koPayload a" by (subst p, simp)+
  show "qeOwner env = None \<Longrightarrow> koOwnerReferences p = koOwnerReferences a"
    using assms(3) o' by (auto simp: sent_def)
qed

text \<open>After a write the server holds what was sent: the annotated object, maybe with the identity of the
  stored one, and with its owner.\<close>

lemma written_is_stored:
  assumes laws: "server_laws env" and run: "CreateOrUpdate env st = (Inr True, st')"
  shows "\<exists>a u rv p p'. AddAnnotation env (qsObject st) = Inr a \<and>
     sent env (a\<lparr>koUID := u, koResourceVersion := rv\<rparr>) = Inr p \<and> qeIsEqual env p' = qeIsEqual env p \<and>
     qeGet env (qsTrace st') (koNamespace (qsObject st)) (koName (qsObject st)) = Inr p'"
  using run
proof (cases rule: CreateOrUpdate_ok)
  case (created p p' e)
  then obtain a where a: "AddAnnotation env (qsObject st) = Inr a" by (auto simp: sent_def split: sum.splits)
  then have s: "sent env (a\<lparr>koUID := koUID a, koResourceVersion := koResourceVersion a\<rparr>) = Inr p"
    using created by (simp add: sent_annotated)
  have "qeGet env (qsTrace st') (koNamespace (qsObject st)) (koName (qsObject st)) = Inr p' \<and>
      qeIsEqual env p' = qeIsEqual env p"
    using read_after_create[OF laws created(6)] sent_key[OF laws a s] created(5) by auto
  then show ?thesis using a s by blast
next
  case (recreated current a p p')
  then have s: "sent env (a\<lparr>koUID := koUID a, koResourceVersion := koResourceVersion a\<rparr>) = Inr p" by simp
  have "qeGet env (qsTrace st') (koNamespace (qsObject st)) (koName (qsObject st)) = Inr p' \<and>
      qeIsEqual env p' = qeIsEqual env p"
    using read_after_create[OF laws recreated(8)] sent_key[OF laws recreated(3) s] recreated(7) by auto
  then show ?thesis using recreated(3) s by blast
next
  case (updated current a p p')
  have "qeGet env (qsTrace st') (koNamespace (qsObject st)) (koName (qsObject st)) = Inr p' \<and>
      qeIsEqual env p' = qeIsEqual env p"
    using read_after_update[OF laws updated(8)] sent_key[OF laws updated(3,6)] updated(7) by auto
  then show ?thesis using updated(3,6) by blast
qed simp

text \<open>A kind of object: objects with the same content are equal. \<open>sees_owner\<close> tells whether the owner
  references belong to the content.\<close>

locale query_kind =
  fixes isEqual :: "'p kobject \<Rightarrow> 'p kobject \<Rightarrow> bool" and sees_owner :: bool
  assumes same_content:
    "koAnnotations c = koAnnotations d \<Longrightarrow> koLabels c = koLabels d \<Longrightarrow> koPayload c = koPayload d \<Longrightarrow>
     (sees_owner \<Longrightarrow> koOwnerReferences c = koOwnerReferences d) \<Longrightarrow> isEqual c d"
begin

lemma equal_refl: "isEqual c c"
  by (rule same_content) simp_all

lemma stored_equal:
  assumes laws: "server_laws env" and kind: "qeIsEqual env = isEqual"
    and owner: "sees_owner \<Longrightarrow> qeOwner env = None"
    and run: "CreateOrUpdate env st = (Inr b, st')"
  shows "\<exists>current a.
     AddAnnotation env (qsObject st) = Inr a \<and>
     qeGet env (qsTrace st') (koNamespace (qsObject st)) (koName (qsObject st)) = Inr current \<and> isEqual current a"
proof (cases b)
  case True
  obtain a u rv p p' where w: "AddAnnotation env (qsObject st) = Inr a"
    "sent env (a\<lparr>koUID := u, koResourceVersion := rv\<rparr>) = Inr p" "qeIsEqual env p' = qeIsEqual env p"
    "qeGet env (qsTrace st') (koNamespace (qsObject st)) (koName (qsObject st)) = Inr p'"
    using written_is_stored[OF laws, of st st'] run True by auto
  have "isEqual p a" using sent_key[OF laws w(1,2)] owner by (intro same_content) auto
  then show ?thesis using w kind by auto
next
  case False
  from run show ?thesis
    by (cases rule: CreateOrUpdate_ok) (use False kind in \<open>auto simp: read_after_read[OF laws]\<close>)
qed

theorem settles:
  assumes "server_laws env" and kind: "qeIsEqual env = isEqual"
    and "sees_owner \<Longrightarrow> qeOwner env = None" and "CreateOrUpdate env st = (Inr b, st')"
  shows "\<exists>st''. CreateOrUpdate env (st'\<lparr>qsObject := qsObject st\<rparr>) = (Inr False, st'') \<and>
     qsTrace st'' = qsTrace st' @ [QGet (koNamespace (qsObject st)) (koName (qsObject st))]"
  using stored_equal[OF assms] kind by (auto simp: CreateOrUpdate_result Let_def)

end

interpretation deployment: query_kind deployment_isEqual False
  by unfold_locales (simp add: deployment_isEqual_def IsAnnotationDifferent_def)

interpretation daemonset: query_kind daemonset_isEqual False
  by unfold_locales (simp add: daemonset_isEqual_def IsAnnotationDifferent_def)

interpretation secret: query_kind secret_isEqual True
  by unfold_locales (simp add: secret_isEqual_def)

interpretation configmap: query_kind configmap_isEqual True
  by unfold_locales (simp add: configmap_isEqual_def)

interpretation service: query_kind service_isEqual True
  by unfold_locales (simp add: service_isEqual_def)

section \<open>Properties\<close>

fun call_key :: "'p q_call \<Rightarrow> string \<times> string" where
  "call_key (QGet ns n) = (ns, n)"
| "call_key (QList n) = ([], n)"
| "call_key (QCreate obj) = (koNamespace obj, koName obj)"
| "call_key (QUpdate obj) = (koNamespace obj, koName obj)"
| "call_key (QDelete ns n) = (ns, n)"

text \<open>A successful \<open>CreateOrUpdate\<close> reports a change exactly when it wrote: after its one read it makes no
  call at all, one create, one update, or a delete and a create, and never more.\<close>

theorem change_reported_iff_written:
  assumes "CreateOrUpdate env st = (Inr b, st')"
  shows "\<exists>cs. qsTrace st' = qsTrace st @ QGet (koNamespace (qsObject st)) (koName (qsObject st)) # cs \<and>
     (b \<longleftrightarrow> cs \<noteq> []) \<and> list_all is_write cs \<and> length cs \<le> 2"
  using assms by (cases rule: CreateOrUpdate_ok) auto

text \<open>C32. Deployments settle: after a successful reconcile a second one with the same desired object only
  reads, whatever owner the query sets on the object, and although owner references are set after the comparison.\<close>

theorem deployment_settles:
  assumes "server_laws env" and "qeIsEqual env = deployment_isEqual"
    and "CreateOrUpdate env st = (Inr b, st')"
  shows "\<exists>st''. CreateOrUpdate env (st'\<lparr>qsObject := qsObject st\<rparr>) = (Inr False, st'') \<and>
     qsTrace st'' = qsTrace st' @ [QGet (koNamespace (qsObject st)) (koName (qsObject st))]"
  using assms(1,2) _ assms(3) by (rule deployment.settles) simp

text \<open>Secrets whose owner is set by \<open>WithOwner\<close> do not: the comparison sees the owner references of the
  stored secret before they are set on the desired one, so every later reconcile writes it again.\<close>

theorem late_owner_never_settles:
  assumes laws: "server_laws env" and kind: "qeIsEqual env = secret_isEqual"
    and refs: "\<forall>p p'. qeSetControllerReference env owner p = Inr p' \<longrightarrow> koOwnerReferences p' \<noteq> []"
    and owner: "qeOwner env = Some owner" and desired: "koOwnerReferences (qsObject st) = []"
    and run: "CreateOrUpdate env st = (Inr True, st')"
    and again: "CreateOrUpdate env (st'\<lparr>qsObject := qsObject st\<rparr>) = (Inr b, st'')"
  shows "b"
proof (rule ccontr)
  assume "\<not> b"
  from again obtain current where current:
    "qeGet env (qsTrace st') (koNamespace (qsObject st)) (koName (qsObject st)) = Inr current"
    "\<exists>a. AddAnnotation env (qsObject st) = Inr a \<and> qeIsEqual env current a"
    by (cases rule: CreateOrUpdate_ok) (use \<open>\<not> b\<close> in auto)
  obtain a u rv p where w: "AddAnnotation env (qsObject st) = Inr a"
    "sent env (a\<lparr>koUID := u, koResourceVersion := rv\<rparr>) = Inr p" "qeIsEqual env current = qeIsEqual env p"
    using written_is_stored[OF laws run] current(1) by auto
  have "qeIsEqual env p a" using current(2) w(1,3) by auto
  then have "koOwnerReferences p = koOwnerReferences a" using kind by (simp add: secret_isEqual_def)
  moreover have "koOwnerReferences a = []"
    using AddAnnotation_content[OF w(1)] desired by (metis kobject.select_convs(7) kobject.surjective kobject.update_convs(5))
  moreover have "koOwnerReferences p \<noteq> []"
    using w(2) refs owner AddAnnotation_content[OF w(1)] by (auto simp: sent_def split: sum.splits)
  ultimately show False by simp
qed


section \<open>Many namespaces\<close>

text \<open>
  What a copy of an object is: everything but the namespace and what the server decides. Secrets and config maps
  are compared by it, and the server gives back what it was sent.
\<close>

definition replica_content :: "'p kobject \<Rightarrow> string \<times> smap option \<times> string list \<times> 'p" where
  "replica_content obj = (koName obj, koLabels obj, koOwnerReferences obj, koPayload obj)"

definition compares_content :: "'p query_env \<Rightarrow> bool" where
  "compares_content env \<longleftrightarrow>
     (\<forall>old a b. replica_content a = replica_content b \<longrightarrow> qeIsEqual env old a = qeIsEqual env old b)"

definition echoes :: "'p query_env \<Rightarrow> bool" where
  "echoes env \<longleftrightarrow>
     (\<forall>tr obj p. qeCreate env tr obj = Inr p \<or> qeUpdate env tr obj = Inr p \<longrightarrow> replica_content p = replica_content obj)"

definition annotates :: "'p query_env \<Rightarrow> bool" where
  "annotates env \<longleftrightarrow> (\<forall>obj. \<exists>bs. qeMarshal env obj = Inr bs)"

lemma secret_compares_content: "qeIsEqual env = secret_isEqual \<Longrightarrow> compares_content env"
  by (simp add: compares_content_def replica_content_def secret_isEqual_def)

lemma configmap_compares_content: "qeIsEqual env = configmap_isEqual \<Longrightarrow> compares_content env"
  by (simp add: compares_content_def replica_content_def configmap_isEqual_def)

text \<open>A call by what it does to a namespace; a create without resource version, an update with those of the old copy.\<close>

datatype replica_call = Created string string | Updated string string string

fun replica_call_of :: "'p q_call \<Rightarrow> (replica_call \<times> string \<times> smap option \<times> string list \<times> 'p) option" where
  "replica_call_of (QCreate obj) = Some (Created (koNamespace obj) (koResourceVersion obj), replica_content obj)"
| "replica_call_of (QUpdate obj) = Some (Updated (koNamespace obj) (koUID obj) (koResourceVersion obj), replica_content obj)"
| "replica_call_of _ = None"

definition expected_calls :: "'p query_env \<Rightarrow> (string \<rightharpoonup> 'p kobject) \<Rightarrow> 'p kobject \<Rightarrow> string \<Rightarrow> replica_call list" where
  "expected_calls env existing desired ns =
     (case existing ns of
        None \<Rightarrow> [Created ns []]
      | Some old \<Rightarrow> if qeIsEqual env old desired then [] else [Updated ns (koUID old) (koResourceVersion old)])"

lemma sent_without_owner:
  assumes "qeOwner env = None" and "annotates env"
  shows "\<exists>a. sent env obj = Inr (obj\<lparr>koAnnotations := a\<rparr>)"
proof -
  obtain bs where "qeMarshal env obj = Inr bs" using assms(2) by (auto simp: annotates_def)
  then obtain p where p: "AddAnnotation env obj = Inr p"
    by (cases "koAnnotations obj AnnotationHash") (auto simp: AddAnnotation_def GenerateHash_def)
  then show ?thesis using AddAnnotation_content[OF p] assms(1) by (auto simp: sent_def)
qed

lemma replicate_to_calls:
  assumes env: "qeOwner env = None" "annotates env" "echoes env" "compares_content env"
    and content: "replica_content (qsObject st) = replica_content desired"
  shows "\<exists>cs. qsTrace (snd (replicate_to env existing ns st)) = qsTrace st @ cs \<and>
     replica_content (qsObject (snd (replicate_to env existing ns st))) = replica_content desired \<and>
     map replica_call_of cs = map (\<lambda>c. Some (c, replica_content desired)) (expected_calls env existing desired ns)"
proof -
  let ?obj = "(qsObject st)\<lparr>koNamespace := ns, koResourceVersion := []\<rparr>"
  let ?st = "st\<lparr>qsObject := ?obj\<rparr>"
  have kept: "replica_content ?obj = replica_content desired" using content by (simp add: replica_content_def)
  have answered: "replica_content p = replica_content q"
    if "qeCreate env tr q = Inr p \<or> qeUpdate env tr q = Inr p" for tr p q using env(3) that by (auto simp: echoes_def)
  show ?thesis
  proof (cases "existing ns")
    case None
    obtain a where p: "sent env ?obj = Inr (?obj\<lparr>koAnnotations := a\<rparr>)" using sent_without_owner[OF env(1,2)] by blast
    let ?p = "?obj\<lparr>koAnnotations := a\<rparr>"
    have same: "replica_content ?p = replica_content desired" using kept by (simp add: replica_content_def)
    have run: "snd (replicate_to env existing ns st) =
        (case qeCreate env (qsTrace st) ?p of
           Inl e \<Rightarrow> ?st\<lparr>qsObject := ?p, qsTrace := qsTrace st @ [QCreate ?p]\<rparr>
         | Inr p' \<Rightarrow> ?st\<lparr>qsObject := p', qsTrace := qsTrace st @ [QCreate ?p]\<rparr>)"
      using None p by (simp add: replicate_to_def andThen_modify andThen_gets wrap_msg_def Create_sent[of env ?st ?p] split: sum.split)
    have calls: "map replica_call_of [QCreate ?p] = map (\<lambda>c. Some (c, replica_content desired)) (expected_calls env existing desired ns)"
      using None same by (simp add: expected_calls_def)
    show ?thesis
    proof (cases "qeCreate env (qsTrace st) ?p")
      case (Inl e)
      with run calls same show ?thesis by (intro exI[of _ "[QCreate ?p]"]) simp
    next
      case (Inr p')
      with answered[of "qsTrace st" ?p p'] run calls same show ?thesis by (intro exI[of _ "[QCreate ?p]"]) simp
    qed
  next
    case (Some old)
    have equal: "qeIsEqual env old ?obj = qeIsEqual env old desired" 
      using env(4)[unfolded compares_content_def, rule_format, OF kept] .
    show ?thesis
    proof (cases "qeIsEqual env old desired")
      case True
      then show ?thesis using Some equal kept
        by (simp add: replicate_to_def andThen_modify andThen_gets ret_def expected_calls_def)
    next
      case False
      let ?new = "?obj\<lparr>koUID := koUID old, koResourceVersion := koResourceVersion old\<rparr>"
      obtain a where p: "sent env ?new = Inr (?new\<lparr>koAnnotations := a\<rparr>)" using sent_without_owner[OF env(1,2)] by blast
      let ?p = "?new\<lparr>koAnnotations := a\<rparr>"
      have same: "replica_content ?p = replica_content desired" using kept by (simp add: replica_content_def)
      have up: "Update env (st\<lparr>qsObject := ?new\<rparr>) =
          (case qeUpdate env (qsTrace st) ?p of
             Inl e \<Rightarrow> (Inl e, ?st\<lparr>qsObject := ?p, qsTrace := qsTrace st @ [QUpdate ?p]\<rparr>)
           | Inr p' \<Rightarrow> (Inr (), ?st\<lparr>qsObject := p', qsTrace := qsTrace st @ [QUpdate ?p]\<rparr>))"
        using Update_sent[of env "st\<lparr>qsObject := ?new\<rparr>" ?p] p by (simp split: sum.split)
      have run: "snd (replicate_to env existing ns st) =
          (case qeUpdate env (qsTrace st) ?p of
             Inl e \<Rightarrow> ?st\<lparr>qsObject := ?p, qsTrace := qsTrace st @ [QUpdate ?p]\<rparr>
           | Inr p' \<Rightarrow> ?st\<lparr>qsObject := p', qsTrace := qsTrace st @ [QUpdate ?p]\<rparr>)"
        using Some False equal up
        by (cases "qeUpdate env (qsTrace st) ?p")
          (simp_all add: replicate_to_def andThen_modify andThen_gets set_object_def wrap_msg_def)
      have calls: "map replica_call_of [QUpdate ?p] = map (\<lambda>c. Some (c, replica_content desired)) (expected_calls env existing desired ns)"
        using Some False same by (simp add: expected_calls_def)
      show ?thesis
      proof (cases "qeUpdate env (qsTrace st) ?p")
        case (Inl e)
        with run calls same show ?thesis by (intro exI[of _ "[QUpdate ?p]"]) simp
      next
        case (Inr p')
        with answered[of "qsTrace st" ?p p'] run calls same show ?thesis by (intro exI[of _ "[QUpdate ?p]"]) simp
      qed
    qed
  qed
qed

definition live_namespaces :: "target_namespace list \<Rightarrow> string list" where
  "live_namespaces nss = map tnName (filter (\<lambda>ns. \<not> tnTerminating ns) nss)"

lemma replicate_all_calls:
  assumes env: "qeOwner env = None" "annotates env" "echoes env" "compares_content env"
    and "replica_content (qsObject st) = replica_content desired"
  shows "\<exists>cs errs st'. replicate_all env existing nss st = (Inr errs, st') \<and> qsTrace st' = qsTrace st @ cs \<and>
     map replica_call_of cs = map (\<lambda>c. Some (c, replica_content desired))
       (concat (map (expected_calls env existing desired) (live_namespaces nss)))"
  using assms(5)
proof (induction nss arbitrary: st)
  case Nil
  then show ?case by (simp add: ret_def live_namespaces_def)
next
  case (Cons ns nss)
  show ?case
  proof (cases "tnTerminating ns")
    case True
    then show ?thesis using Cons.IH[OF Cons.prems] by (simp add: live_namespaces_def)
  next
    case False
    obtain r st1 where r: "replicate_to env existing (tnName ns) st = (r, st1)" by fastforce
    obtain cs1 where cs1: "qsTrace st1 = qsTrace st @ cs1" "replica_content (qsObject st1) = replica_content desired"
      "map replica_call_of cs1 = map (\<lambda>c. Some (c, replica_content desired)) (expected_calls env existing desired (tnName ns))"
      using replicate_to_calls[OF env Cons.prems, of existing "tnName ns"] r by auto
    obtain cs errs st' where tl: "replicate_all env existing nss st1 = (Inr errs, st')" "qsTrace st' = qsTrace st1 @ cs"
      "map replica_call_of cs = map (\<lambda>c. Some (c, replica_content desired))
         (concat (map (expected_calls env existing desired) (live_namespaces nss)))"
      using Cons.IH[OF cs1(2)] by blast
    have "replicate_all env existing (ns # nss) st =
        (Inr (case r of Inl e \<Rightarrow> e # errs | Inr _ \<Rightarrow> errs), st')"
      using False r tl(1) by (simp add: andThen_def attempt_def ret_def)
    then show ?thesis using cs1(1,3) tl(2,3) False
      by (intro exI[of _ "cs1 @ cs"] exI) (simp add: live_namespaces_def)
  qed
qed

text \<open>C33. \<open>createOrUpdateForNamespaces\<close> with an object that has no owner (the replicated secrets) makes exactly the calls
  needed, in the order of the namespaces, also after a failure: a create in a namespace without a copy, an
  update with UID and resource version of the old copy where the copy differs from the object, none where it is
  equal and none in a terminating namespace. What is sent has the name, labels, owners and payload of the object
  that was given, although the same object goes from namespace to namespace and takes the server's answers on.\<close>

theorem replicated_to_every_live_namespace:
  assumes "qeOwner env = None" and "annotates env" and "echoes env" and "compares_content env"
    and "createOrUpdateForNamespaces env existing nss st = (r, st')"
  shows "\<exists>cs. qsTrace st' = qsTrace st @ cs \<and>
     map replica_call_of cs = map (\<lambda>c. Some (c, replica_content (qsObject st)))
       (concat (map (expected_calls env existing (qsObject st)) (live_namespaces nss)))"
proof -
  obtain cs errs st1 where c: "replicate_all env existing nss st = (Inr errs, st1)" "qsTrace st1 = qsTrace st @ cs"
    "map replica_call_of cs = map (\<lambda>c. Some (c, replica_content (qsObject st)))
       (concat (map (expected_calls env existing (qsObject st)) (live_namespaces nss)))"
    using replicate_all_calls[OF assms(1-4) refl] by blast
  moreover have "st' = st1"
    using assms(5) c(1) by (auto simp: createOrUpdateForNamespaces_def andThen_def ret_def throw_def split: option.splits)
  ultimately show ?thesis by blast
qed

section \<open>Examples\<close>

text \<open>A server that keeps what is written to it.\<close>

definition store_call :: "string \<Rightarrow> string \<Rightarrow> 'p q_call \<Rightarrow> 'p kobject option \<Rightarrow> 'p kobject option" where
  "store_call ns n c held =
     (case c of
        QCreate obj \<Rightarrow> if koNamespace obj = ns \<and> koName obj = n then Some obj else held
      | QUpdate obj \<Rightarrow> if koNamespace obj = ns \<and> koName obj = n then Some obj else held
      | QDelete ns' n' \<Rightarrow> if ns' = ns \<and> n' = n then None else held
      | _ \<Rightarrow> held)"

definition storing_server ::
    "('p kobject \<Rightarrow> 'p kobject \<Rightarrow> bool) \<Rightarrow> ('p kobject \<Rightarrow> 'p kobject \<Rightarrow> bool) \<Rightarrow> 'p query_env" where
  "storing_server isEqual mustRecreate =
     \<lparr>qeIsEqual = isEqual, qeMustRecreate = mustRecreate, qeOwner = None, qeMarshal = \<lambda>_. Inr [],
      qeSetControllerReference = \<lambda>owner p. Inr (p\<lparr>koOwnerReferences := [owner]\<rparr>),
      qeGet = \<lambda>tr ns n. (case fold (store_call ns n) tr None of None \<Rightarrow> Inl (ApiStatus ''NotFound'') | Some p \<Rightarrow> Inr p),
      qeList = \<lambda>tr n. Inr [],
      qeCreate = \<lambda>tr p. Inr p, qeUpdate = \<lambda>tr p. Inr p, qeDelete = \<lambda>tr ns n. None\<rparr>"

lemma storing_server_laws [simp]: "server_laws (WithOwner owner (storing_server isEqual mustRecreate))"
  by (simp add: server_laws_def storing_server_def WithOwner_def store_call_def)

lemma storing_server_first:
  assumes env: "env = WithOwner owner (storing_server isEqual mustRecreate)"
  shows "\<exists>st'. CreateOrUpdate env \<lparr>qsTrace = [], qsObject = obj\<rparr> = (Inr True, st')"
proof -
  obtain p where p: "sent env obj = Inr p"
    by (cases "koAnnotations obj AnnotationHash")
      (auto simp: env storing_server_def WithOwner_def sent_def AddAnnotation_def GenerateHash_def)
  have "qeGet env [] ns n = Inl (ApiStatus ''NotFound'')" "qeCreate env tr q = Inr q" for ns n tr q
    by (simp_all add: env storing_server_def WithOwner_def)
  then show ?thesis
    by (simp add: CreateOrUpdate_result Let_def andThen_def Create_sent p ret_def is_not_found_def)
qed

lemma storing_server_ok:
  assumes env: "env = WithOwner owner (storing_server isEqual mustRecreate)"
  shows "\<exists>b st'. CreateOrUpdate env st = (Inr b, st')"
proof -
  have sent: "\<exists>p. sent env obj = Inr p" and add: "\<exists>a. AddAnnotation env obj = Inr a" for obj
    by (cases "koAnnotations obj AnnotationHash";
        auto simp: env storing_server_def WithOwner_def sent_def AddAnnotation_def GenerateHash_def)+
  have ops: "qeCreate env tr q = Inr q" "qeUpdate env tr q = Inr q" "qeDelete env tr ns n = None"
    "qeGet env tr ns n = (case fold (store_call ns n) tr None of None \<Rightarrow> Inl (ApiStatus ''NotFound'') | Some p \<Rightarrow> Inr p)"
    for ns n tr q by (simp_all add: env storing_server_def WithOwner_def)
  have create: "\<exists>st'. Create env st = (Inr (), st')" and update: "\<exists>st'. Update env st = (Inr (), st')" for st
    using sent[of "qsObject st"] by (auto simp: Create_sent Update_sent ops)
  have recreate: "\<exists>st'. Recreate env st = (Inr (), st')" for st
    using create by (auto simp: Recreate_def andThen_gets andThen_def[where m = "q_ask _ _"] Delete_def q_ask_def ops)
  obtain a where a: "AddAnnotation env (qsObject st) = Inr a" using add by blast
  have ok: "\<exists>b st'. andThen (Create env) (\<lambda>_. ret True) st = (Inr b, st')"
    "\<exists>b st'. andThen (Update env) (\<lambda>_. ret True) st = (Inr b, st')"
    "\<exists>b st'. andThen (Recreate env) (\<lambda>_. ret True) st = (Inr b, st')" for st
    using create[of st] update[of st] recreate[of st] by (auto simp: andThen_def ret_def)
  have "Ex Not" by (rule exI[of _ False]) simp
  then show ?thesis
    by (simp add: CreateOrUpdate_result Let_def a ops is_not_found_def ok split: option.split)
qed

definition example_object :: "'p \<Rightarrow> 'p kobject" where
  "example_object p = \<lparr>koName = ''cfg'', koNamespace = ''dynatrace'', koUID = [], koResourceVersion = [],
     koAnnotations = Map.empty, koLabels = None, koOwnerReferences = [], koPayload = p\<rparr>"

theorem change_reported_witness:
  "\<exists>st' cs. CreateOrUpdate (WithOwner ''dk'' (storing_server secret_isEqual secret_mustRecreate))
       \<lparr>qsTrace = [], qsObject = example_object \<lparr>spData = None, spImmutable = None\<rparr>\<rparr> = (Inr True, st') \<and>
     qsTrace st' = QGet ''dynatrace'' ''cfg'' # cs \<and> cs \<noteq> []"
proof -
  obtain st' where run: "CreateOrUpdate (WithOwner ''dk'' (storing_server secret_isEqual secret_mustRecreate))
       \<lparr>qsTrace = [], qsObject = example_object \<lparr>spData = None, spImmutable = None\<rparr>\<rparr> = (Inr True, st')"
    using storing_server_first[OF refl] by blast
  from change_reported_iff_written[OF this] run show ?thesis by (auto simp: example_object_def)
qed

theorem deployment_settles_witness:
  "\<exists>st' st''. CreateOrUpdate (WithOwner ''dk'' (storing_server deployment_isEqual deployment_mustRecreate))
       \<lparr>qsTrace = [], qsObject = example_object \<lparr>wpReplicas = Some 2, wpMatchLabels = Map.empty, wpRest = []\<rparr>\<rparr> = (Inr True, st') \<and>
     CreateOrUpdate (WithOwner ''dk'' (storing_server deployment_isEqual deployment_mustRecreate))
       (st'\<lparr>qsObject := example_object \<lparr>wpReplicas = Some 2, wpMatchLabels = Map.empty, wpRest = []\<rparr>\<rparr>) = (Inr False, st'')"
proof -
  let ?env = "WithOwner ''dk'' (storing_server deployment_isEqual deployment_mustRecreate)"
  let ?st = "\<lparr>qsTrace = [], qsObject = example_object \<lparr>wpReplicas = Some 2, wpMatchLabels = Map.empty, wpRest = []\<rparr>\<rparr>"
  obtain st' where run: "CreateOrUpdate ?env ?st = (Inr True, st')"
    using storing_server_first[OF refl] by blast
  have "qeIsEqual ?env = deployment_isEqual" by (simp add: WithOwner_def storing_server_def)
  from deployment_settles[OF storing_server_laws this run] run show ?thesis by auto
qed

theorem late_owner_witness:
  "\<exists>st' st''. CreateOrUpdate (WithOwner ''dk'' (storing_server secret_isEqual secret_mustRecreate))
       \<lparr>qsTrace = [], qsObject = example_object \<lparr>spData = None, spImmutable = None\<rparr>\<rparr> = (Inr True, st') \<and>
     CreateOrUpdate (WithOwner ''dk'' (storing_server secret_isEqual secret_mustRecreate))
       (st'\<lparr>qsObject := example_object \<lparr>spData = None, spImmutable = None\<rparr>\<rparr>) = (Inr True, st'')"
proof -
  let ?env = "WithOwner ''dk'' (storing_server secret_isEqual secret_mustRecreate)"
  let ?obj = "example_object \<lparr>spData = None, spImmutable = None\<rparr>"
  let ?st = "\<lparr>qsTrace = [], qsObject = ?obj\<rparr>"
  obtain st' where run: "CreateOrUpdate ?env ?st = (Inr True, st')"
    using storing_server_first[OF refl] by blast
  obtain b st'' where again: "CreateOrUpdate ?env (st'\<lparr>qsObject := qsObject ?st\<rparr>) = (Inr b, st'')"
    using storing_server_ok[OF refl] by blast
  have "qeIsEqual ?env = secret_isEqual"
    "\<forall>p p'. qeSetControllerReference ?env ''dk'' p = Inr p' \<longrightarrow> koOwnerReferences p' \<noteq> []"
    "qeOwner ?env = Some ''dk''" "koOwnerReferences (qsObject ?st) = []"
    by (auto simp: WithOwner_def storing_server_def example_object_def)
  from late_owner_never_settles[OF storing_server_laws this run again] run again show ?thesis by auto
qed

definition sample_stale_copy :: "secret_payload kobject" where
  "sample_stale_copy = (example_object \<lparr>spData = None, spImmutable = None\<rparr>)
     \<lparr>koNamespace := ''old'', koUID := ''u1'', koResourceVersion := ''7'', koLabels := Some (Map.empty(''a'' \<mapsto> ''b''))\<rparr>"

theorem replicated_witness:
  "\<exists>cs. qsTrace (snd (createOrUpdateForNamespaces (storing_server secret_isEqual secret_mustRecreate)
       (Map.empty(''old'' \<mapsto> sample_stale_copy))
       [\<lparr>tnName = ''gone'', tnTerminating = True\<rparr>, \<lparr>tnName = ''app'', tnTerminating = False\<rparr>, \<lparr>tnName = ''old'', tnTerminating = False\<rparr>]
       \<lparr>qsTrace = [], qsObject = example_object \<lparr>spData = None, spImmutable = None\<rparr>\<rparr>)) = cs \<and>
     map (map_option fst \<circ> replica_call_of) cs = [Some (Created ''app'' []), Some (Updated ''old'' ''u1'' ''7'')]"
proof -
  let ?env = "storing_server secret_isEqual secret_mustRecreate" and ?obj = "example_object \<lparr>spData = None, spImmutable = None\<rparr>"
  let ?nss = "[\<lparr>tnName = ''gone'', tnTerminating = True\<rparr>, \<lparr>tnName = ''app'', tnTerminating = False\<rparr>,
    \<lparr>tnName = ''old'', tnTerminating = False\<rparr>]"
  have env: "qeOwner ?env = None" "annotates ?env" "echoes ?env" "compares_content ?env"
    by (simp_all add: storing_server_def annotates_def echoes_def secret_compares_content)
  have stale: "\<not> qeIsEqual ?env sample_stale_copy ?obj"
    by (simp add: storing_server_def secret_isEqual_def sample_stale_copy_def example_object_def)
  have "koUID sample_stale_copy = ''u1'' \<and> koResourceVersion sample_stale_copy = ''7''" by (simp add: sample_stale_copy_def)
  then have expected: "concat (map (expected_calls ?env (Map.empty(''old'' \<mapsto> sample_stale_copy)) ?obj) (live_namespaces ?nss)) =
      [Created ''app'' [], Updated ''old'' ''u1'' ''7'']"
    using stale by (simp add: expected_calls_def live_namespaces_def)
  obtain r st' where run: "createOrUpdateForNamespaces ?env (Map.empty(''old'' \<mapsto> sample_stale_copy)) ?nss
      \<lparr>qsTrace = [], qsObject = ?obj\<rparr> = (r, st')" by fastforce
  from replicated_to_every_live_namespace[OF env run] obtain cs where cs: "qsTrace st' = cs"
    "map replica_call_of cs = map (\<lambda>c. Some (c, replica_content ?obj)) [Created ''app'' [], Updated ''old'' ''u1'' ''7'']"
    using expected by auto
  have "map (map_option fst \<circ> replica_call_of) cs = map (map_option fst) (map replica_call_of cs)" by simp
  with cs run show ?thesis by (intro exI[of _ cs]) simp
qed

end
