(* ===== verification/K8sMeta.thy ===== *)
theory K8sMeta
  imports DynaKube
begin

text \<open>
  The metadata the operator puts on its objects and statuses: labels (\<open>k8slabel\<close>), merged maps, AppArmor
  annotations (\<open>k8ssecuritycontext\<close>) and the condition setters of \<open>k8sconditions\<close>. A condition setter is the
  operation it applies to a status; the minor version of the cluster and the operator's own version are arguments.
\<close>

section \<open>Maps\<close>

definition MergeMap :: "smap list \<Rightarrow> smap" where
  "MergeMap inputs = foldl (\<lambda>res m. res ++ m) Map.empty inputs"

lemma MergeMap_last: "MergeMap [m, n] k = (case n k of Some v \<Rightarrow> Some v | None \<Rightarrow> m k)"
  by (simp add: MergeMap_def map_add_def split: option.split)

section \<open>Labels\<close>

abbreviation AppNameLabel :: string where "AppNameLabel \<equiv> ''app.kubernetes.io/name''"
abbreviation AppInstanceLabel :: string where "AppInstanceLabel \<equiv> ''app.kubernetes.io/instance''"
abbreviation AppCreatedByLabel :: string where "AppCreatedByLabel \<equiv> ''app.kubernetes.io/created-by''"
abbreviation AppManagedByLabel :: string where "AppManagedByLabel \<equiv> ''app.kubernetes.io/managed-by''"
abbreviation AppComponentLabel :: string where "AppComponentLabel \<equiv> ''app.kubernetes.io/component''"
abbreviation AppVersionLabel :: string where "AppVersionLabel \<equiv> ''app.kubernetes.io/version''"
abbreviation OperatorVersionLabel :: string where "OperatorVersionLabel \<equiv> ''internal.dynatrace.com/operator-version''"
abbreviation AppName :: string where "AppName \<equiv> ''dynatrace-operator''"

definition truncateVersion :: "string \<Rightarrow> string" where
  "truncateVersion ver = (if length ver > 63 then take 63 ver else ver)"

record k8s_labels =
  lbName :: string
  lbInstance :: string
  lbManagedBy :: string
  lbVersion :: string
  lbOperatorVersion :: string

definition labels_New :: "string \<Rightarrow> string \<Rightarrow> string \<Rightarrow> string \<Rightarrow> k8s_labels" where
  "labels_New operatorVersion appName instanceName appVersion =
     \<lparr>lbName = appName, lbInstance = instanceName, lbManagedBy = AppName,
      lbVersion = truncateVersion appVersion, lbOperatorVersion = truncateVersion operatorVersion\<rparr>"

definition labels_AsSelector :: "k8s_labels \<Rightarrow> smap" where
  "labels_AsSelector l =
     [AppNameLabel \<mapsto> lbName l, AppInstanceLabel \<mapsto> lbInstance l, AppManagedByLabel \<mapsto> lbManagedBy l]"

definition labels_AsMap :: "k8s_labels \<Rightarrow> smap" where
  "labels_AsMap l =
     (let m = labels_AsSelector l;
          m1 = (if lbVersion l \<noteq> [] then m(AppVersionLabel \<mapsto> lbVersion l) else m)
      in if lbOperatorVersion l \<noteq> [] then m1(OperatorVersionLabel \<mapsto> lbOperatorVersion l) else m1)"

record app_labels =
  alName :: string
  alCreatedBy :: string
  alManagedBy :: string
  alComponent :: string
  alVersion :: string

definition NewAppLabels :: "string \<Rightarrow> string \<Rightarrow> string \<Rightarrow> string \<Rightarrow> app_labels" where
  "NewAppLabels appName name component ver =
     \<lparr>alName = appName, alCreatedBy = name, alManagedBy = AppName,
      alComponent = filter (\<lambda>c. c \<noteq> CHR ''_'') component,
      alVersion = (if length ver > 63 then take 63 ver else ver)\<rparr>"

definition app_BuildMatchLabels :: "app_labels \<Rightarrow> smap" where
  "app_BuildMatchLabels l =
     [AppNameLabel \<mapsto> alName l, AppCreatedByLabel \<mapsto> alCreatedBy l, AppManagedByLabel \<mapsto> alManagedBy l]"

definition app_BuildLabels :: "app_labels \<Rightarrow> smap" where
  "app_BuildLabels l =
     (app_BuildMatchLabels l)(AppVersionLabel \<mapsto> alVersion l, AppComponentLabel \<mapsto> alComponent l)"

record core_labels =
  clName :: string
  clCreatedBy :: string
  clComponent :: string
  clVersion :: string

definition NewCoreLabels :: "string \<Rightarrow> string \<Rightarrow> string \<Rightarrow> core_labels" where
  "NewCoreLabels operatorVersion dynakubeName component =
     \<lparr>clName = AppName, clCreatedBy = dynakubeName, clComponent = component,
      clVersion = (if length operatorVersion > 63 then take 63 operatorVersion else operatorVersion)\<rparr>"

definition core_BuildMatchLabels :: "core_labels \<Rightarrow> smap" where
  "core_BuildMatchLabels l =
     [AppNameLabel \<mapsto> clName l, AppCreatedByLabel \<mapsto> clCreatedBy l, AppComponentLabel \<mapsto> clComponent l]"

definition core_BuildLabels :: "core_labels \<Rightarrow> smap" where
  "core_BuildLabels l = (core_BuildMatchLabels l)(AppVersionLabel \<mapsto> clVersion l)"

text \<open>
  A workload's selector must be matched by the labels of its pods. \<open>selects\<close> is the selector semantics of
  Kubernetes for \<open>matchLabels\<close>; the labels built from one value are always selected by its match labels, also
  when user labels are merged below them.
\<close>

definition selects :: "smap \<Rightarrow> smap \<Rightarrow> bool" where
  "selects selector labels \<longleftrightarrow> selector \<subseteq>\<^sub>m labels"

locale label_set =
  fixes match_labels :: "'l \<Rightarrow> smap" and all_labels :: "'l \<Rightarrow> smap"
  assumes match_in_all: "match_labels l \<subseteq>\<^sub>m all_labels l"
begin

lemma selected: "selects (match_labels l) (all_labels l)"
  by (simp add: selects_def match_in_all)

lemma selected_over_user_labels: "selects (match_labels l) (MergeMap [user, all_labels l])"
  using match_in_all[of l] by (auto simp: selects_def map_le_def MergeMap_last dom_def split: option.splits)

end

interpretation app: label_set app_BuildMatchLabels app_BuildLabels
  by unfold_locales (simp add: app_BuildMatchLabels_def app_BuildLabels_def map_le_def)

interpretation core: label_set core_BuildMatchLabels core_BuildLabels
  by unfold_locales (simp add: core_BuildMatchLabels_def core_BuildLabels_def map_le_def)

interpretation plain: label_set labels_AsSelector labels_AsMap
  by unfold_locales (auto simp: labels_AsSelector_def labels_AsMap_def map_le_def Let_def)

section \<open>AppArmor\<close>

datatype apparmor_profile = AppArmorRuntimeDefault | AppArmorUnconfined | AppArmorLocalhost string

definition isAppArmorRewriteEnabled :: "int \<Rightarrow> bool" where
  "isAppArmorRewriteEnabled minor \<longleftrightarrow> minor \<ge> 31"

abbreviation AppArmorKeyPrefix :: string where
  "AppArmorKeyPrefix \<equiv> ''container.apparmor.security.beta.kubernetes.io/''"

definition getProfileFromPodAnnotations :: "smap \<Rightarrow> string \<Rightarrow> apparmor_profile option" where
  "getProfileFromPodAnnotations annotations containerName =
     (case annotations (AppArmorKeyPrefix @ containerName) of
        None \<Rightarrow> None
      | Some val \<Rightarrow>
          if val = ''runtime/default'' then Some AppArmorRuntimeDefault
          else if val = ''unconfined'' then Some AppArmorUnconfined
          else if has_prefix val ''localhost/'' then Some (AppArmorLocalhost (drop 10 val))
          else None)"

definition GetAppArmorProfile :: "int \<Rightarrow> smap \<Rightarrow> string \<Rightarrow> apparmor_profile option" where
  "GetAppArmorProfile minor annotations containerName =
     (if isAppArmorRewriteEnabled minor then getProfileFromPodAnnotations annotations containerName else None)"

definition RemoveAppArmorAnnotation :: "int \<Rightarrow> smap \<Rightarrow> string list \<Rightarrow> smap" where
  "RemoveAppArmorAnnotation minor annotations containerNames =
     (if isAppArmorRewriteEnabled minor
      then foldl (\<lambda>m containerName. m(AppArmorKeyPrefix @ containerName := None)) annotations containerNames
      else annotations)"

section \<open>Conditions\<close>

definition status_condition :: "string \<Rightarrow> bool \<Rightarrow> string \<Rightarrow> string \<Rightarrow> cond_op" where
  "status_condition conditionType st reason message =
     SetStatusCondition \<lparr>condType = conditionType, condStatus = st, condReason = reason, condMessage = message\<rparr>"

definition appendCreatedSuffix :: "string \<Rightarrow> string" where
  "appendCreatedSuffix name = name @ '' created''"

definition appendCreatedOrUpdatedSuffix :: "string \<Rightarrow> string" where
  "appendCreatedOrUpdatedSuffix name = name @ '' created/updated''"

definition appendOutdatedSuffix :: "string \<Rightarrow> string" where
  "appendOutdatedSuffix name = name @ '' outdated''"

definition SetSecretCreated :: "string \<Rightarrow> string \<Rightarrow> cond_op" where
  "SetSecretCreated conditionType name =
     status_condition conditionType True ''SecretCreated'' (appendCreatedSuffix name)"

definition SetSecretCreatedOrUpdated :: "string \<Rightarrow> string \<Rightarrow> cond_op" where
  "SetSecretCreatedOrUpdated conditionType name =
     status_condition conditionType True ''SecretCreatedOrUpdated'' (appendCreatedOrUpdatedSuffix name)"

definition SetSecretGenFailed :: "string \<Rightarrow> cond_op" where
  "SetSecretGenFailed conditionType =
     status_condition conditionType False ''SecretGenerationFailed'' ''Failed to generate secret''"

definition SetSecretOutdated :: "string \<Rightarrow> string \<Rightarrow> cond_op" where
  "SetSecretOutdated conditionType message = status_condition conditionType False ''SecretOutdated'' message"

definition SetConfigMapCreatedOrUpdated :: "string \<Rightarrow> string \<Rightarrow> cond_op" where
  "SetConfigMapCreatedOrUpdated conditionType name =
     status_condition conditionType True ''ConfigMapCreatedOrUpdated'' (appendCreatedOrUpdatedSuffix name)"

definition SetConfigMapGenFailed :: "string \<Rightarrow> cond_op" where
  "SetConfigMapGenFailed conditionType =
     status_condition conditionType False ''ConfigMapGenerationFailed'' ''Failed to generate configmap''"

definition SetConfigMapOutdated :: "string \<Rightarrow> string \<Rightarrow> cond_op" where
  "SetConfigMapOutdated conditionType message = status_condition conditionType False ''ConfigMapOutdated'' message"

definition SetDaemonSetCreated :: "string \<Rightarrow> string \<Rightarrow> cond_op" where
  "SetDaemonSetCreated conditionType name =
     status_condition conditionType True ''DaemonSetCreated'' (appendCreatedSuffix name)"

definition SetDaemonSetOutdated :: "string \<Rightarrow> string \<Rightarrow> cond_op" where
  "SetDaemonSetOutdated conditionType name =
     status_condition conditionType False ''DaemonSetOutdated'' (appendOutdatedSuffix name)"

text \<open>The message of \<open>SetDeploymentsApplied\<close> names at most three deployments.\<close>

definition SetDeploymentsApplied :: "string \<Rightarrow> string list \<Rightarrow> cond_op" where
  "SetDeploymentsApplied conditionType names =
     (let shown = (if length names > 3
                   then take 3 names @ [''... '' @ show_nat (length names - 3) @ '' more omitted''] else names)
      in status_condition conditionType True ''DeploymentsApplied'' (join_sep '', '' shown))"

definition SetKubeAPIError :: "string \<Rightarrow> error option \<Rightarrow> cond_op option" where
  "SetKubeAPIError conditionType err =
     (case err of None \<Rightarrow> None
      | Some e \<Rightarrow> Some (status_condition conditionType False ''KubeApiError''
          ''A problem occurred when using the Kubernetes API''))"

definition SetServiceCreated :: "string \<Rightarrow> string \<Rightarrow> cond_op" where
  "SetServiceCreated conditionType name =
     status_condition conditionType True ''ServiceCreated'' (appendCreatedSuffix name)"

definition SetServiceGenFailed :: "string \<Rightarrow> string \<Rightarrow> cond_op" where
  "SetServiceGenFailed conditionType err_text =
     status_condition conditionType False ''ServiceGenerationFailed'' (''Failed to generate service: '' @ err_text)"

definition SetStatefulSetCreated :: "string \<Rightarrow> string \<Rightarrow> cond_op" where
  "SetStatefulSetCreated conditionType name =
     status_condition conditionType True ''StatefulSetCreated'' (appendCreatedSuffix name)"

definition SetStatefulSetOutdated :: "string \<Rightarrow> string \<Rightarrow> cond_op" where
  "SetStatefulSetOutdated conditionType name =
     status_condition conditionType False ''StatefulSetOutdated'' (appendOutdatedSuffix name)"

definition SetStatusUpdated :: "string \<Rightarrow> string \<Rightarrow> cond_op" where
  "SetStatusUpdated conditionType msg = status_condition conditionType True ''StatusUpdated'' msg"

definition SetStatusOutdated :: "string \<Rightarrow> string \<Rightarrow> cond_op" where
  "SetStatusOutdated conditionType msg = status_condition conditionType False ''StatusOutdated'' msg"

definition SetDataIngestTokenMissing :: "string \<Rightarrow> string \<Rightarrow> cond_op" where
  "SetDataIngestTokenMissing conditionType msg = status_condition conditionType False ''DataIngestTokenMissing'' msg"

definition IsKubeAPIError :: "error \<Rightarrow> bool" where
  "IsKubeAPIError e \<longleftrightarrow> some_leaf (\<lambda>l. case l of ApiStatus s \<Rightarrow> True | _ \<Rightarrow> False) e"

text \<open>\<open>k8sconditions.IsOutdated\<close>, given the condition of that type and when it last changed.\<close>

definition condition_IsOutdated :: "int \<Rightarrow> dynakube \<Rightarrow> (condition \<times> int) option \<Rightarrow> bool" where
  "condition_IsOutdated now dk found =
     (case found of
        None \<Rightarrow> True
      | Some (c, lastTransitionTime) \<Rightarrow>
          (\<not> condStatus c \<and> condReason c \<noteq> ''ScopeMissing'') \<or>
          probe_outdated (Some lastTransitionTime) now (dk_APIRequestThreshold dk))"

end
