(* ===== verification/EdgeConnectApi.thy ===== *)
theory EdgeConnectApi
  imports K8sMeta "HOL-Library.Word"
begin

text \<open>
  The EdgeConnect resource (\<open>pkg/api/v1alpha2/edgeconnect\<close>), the configuration file the operator writes for
  it (\<open>pkg/controllers/edgeconnect/config\<close>, \<open>secret\<close>) and its Deployment manifest (\<open>deployment\<close>). Reading a
  secret or config map is a \<open>data_reader\<close>; the minor version of the cluster is an argument.
\<close>

section \<open>The resource\<close>

record ec_oauth_spec =
  eoClientSecret :: string
  eoEndpoint :: string
  eoResource :: string
  eoProvisioner :: bool

record ec_proxy_spec =
  epHost :: string
  epNoProxy :: string
  epAuthRef :: string
  epPort :: "32 word"

record ec_resources =
  erLimits :: "smap option"
  erRequests :: "smap option"

record ec_spec =
  esAnnotations :: smap
  esLabels :: smap
  esReplicas :: "32 word option"
  esNodeSelector :: smap
  esKubernetesAutomation :: "bool option"
  esProxy :: "ec_proxy_spec option"
  esServiceAccountName :: "string option"
  esAutoUpdate :: "bool option"
  esImageRef :: image_ref
  esAPIServer :: string
  esCustomPullSecret :: string
  esCaCertsRef :: string
  esOAuth :: ec_oauth_spec
  esResources :: ec_resources
  esHostRestrictions :: "string list"
  esEnv :: "k8s_value list"
  esTolerations :: "k8s_value list"
  esTopologySpreadConstraints :: "k8s_value list"
  esHostPatterns :: "string list"

record ec_status =
  ecsPhase :: string
  ecsVersion :: version_status
  ecsUpdatedTimestamp :: int
  ecsKubeSystemUID :: string
  ecsConditions :: "cond_op list"

record edgeconnect =
  ecName :: string
  ecNamespace :: string
  ecFinalizers :: "string list"
  ecDeletionTimestamp :: "int option"
  ecSpec :: ec_spec
  ecStatus :: ec_status

definition ec_Image :: "edgeconnect \<Rightarrow> string" where
  "ec_Image ec = ref_StringWithDefaults (esImageRef (ecSpec ec)) ''docker.io/dynatrace/edgeconnect'' ''latest''"

definition ec_IsCustomImage :: "edgeconnect \<Rightarrow> bool" where
  "ec_IsCustomImage ec \<longleftrightarrow> irRepository (esImageRef (ecSpec ec)) \<noteq> []"

definition ec_IsAutoUpdateEnabled :: "edgeconnect \<Rightarrow> bool" where
  "ec_IsAutoUpdateEnabled ec \<longleftrightarrow> esAutoUpdate (ecSpec ec) = None \<or> esAutoUpdate (ecSpec ec) = Some True"

definition ec_GetServiceAccountName :: "edgeconnect \<Rightarrow> string" where
  "ec_GetServiceAccountName ec =
     (case esServiceAccountName (ecSpec ec) of None \<Rightarrow> ''dynatrace-edgeconnect'' | Some n \<Rightarrow> n)"

definition ec_IsProvisionerModeEnabled :: "edgeconnect \<Rightarrow> bool" where
  "ec_IsProvisionerModeEnabled ec = eoProvisioner (esOAuth (ecSpec ec))"

definition ec_IsK8SAutomationEnabled :: "edgeconnect \<Rightarrow> bool" where
  "ec_IsK8SAutomationEnabled ec \<longleftrightarrow> esKubernetesAutomation (ecSpec ec) = Some True"

abbreviation KubernetesDefaultDNS :: string where
  "KubernetesDefaultDNS \<equiv> ''kubernetes.default.svc.cluster.local''"

definition ec_K8sAutomationHostPattern :: "edgeconnect \<Rightarrow> string" where
  "ec_K8sAutomationHostPattern ec =
     ecName ec @ ''.'' @ ecNamespace ec @ ''.'' @ ecsKubeSystemUID (ecStatus ec) @ ''.'' @ ''kubernetes-automation''"

definition ec_HostPatterns :: "edgeconnect \<Rightarrow> string list" where
  "ec_HostPatterns ec =
     (if \<not> ec_IsK8SAutomationEnabled ec then esHostPatterns (ecSpec ec)
      else filter (\<lambda>hostPattern. \<not> equal_fold hostPattern (ec_K8sAutomationHostPattern ec)) (esHostPatterns (ecSpec ec))
           @ [ec_K8sAutomationHostPattern ec])"

type_synonym host_mapping = "string \<times> string"

definition ec_HostMappings :: "edgeconnect \<Rightarrow> host_mapping list" where
  "ec_HostMappings ec = [(ec_K8sAutomationHostPattern ec, KubernetesDefaultDNS)]"

definition ec_ClientSecretName :: "edgeconnect \<Rightarrow> string" where
  "ec_ClientSecretName ec = ecName ec @ ''-client''"

definition ec_TrustedCAs :: "data_reader \<Rightarrow> edgeconnect \<Rightarrow> error + string option" where
  "ec_TrustedCAs getConfigMap ec =
     (let configName = esCaCertsRef (ecSpec ec) in
      if configName \<noteq> [] then
        (case getConfigMap (ecNamespace ec) configName of
           Inl e \<Rightarrow> Inl (WithMsg (''failed to get trustedCa from '' @ configName @ '' configmap'') e)
         | Inr data \<Rightarrow> Inr (Some (case data ''certs'' of None \<Rightarrow> [] | Some c \<Rightarrow> c)))
      else Inr None)"

definition ec_proxyAuthFromUserSecret :: "data_reader \<Rightarrow> edgeconnect \<Rightarrow> string \<Rightarrow> error + string \<times> string" where
  "ec_proxyAuthFromUserSecret getSecret ec secretName =
     (case getSecret (ecNamespace ec) secretName of
        Inl e \<Rightarrow> Inl (WithMsg (''failed to get proxy from '' @ secretName @ '' secret'') e)
      | Inr data \<Rightarrow>
     (case data ''user'' of
        None \<Rightarrow> Inl (Sentinel (''missing token user in proxy secret '' @ secretName))
      | Some user \<Rightarrow>
     (case data ''password'' of
        None \<Rightarrow> Inl (Sentinel (''missing token password in proxy secret '' @ secretName))
      | Some password \<Rightarrow> Inr (user, password))))"

definition ec_ProxyAuth :: "data_reader \<Rightarrow> edgeconnect \<Rightarrow> error + string \<times> string" where
  "ec_ProxyAuth getSecret ec =
     (case esProxy (ecSpec ec) of
        None \<Rightarrow> Inr ([], [])
      | Some p \<Rightarrow> if epAuthRef p \<noteq> [] then ec_proxyAuthFromUserSecret getSecret ec (epAuthRef p) else Inr ([], []))"

abbreviation KeyEdgeConnectOauthClientID :: string where "KeyEdgeConnectOauthClientID \<equiv> ''oauth-client-id''"
abbreviation KeyEdgeConnectOauthClientSecret :: string where "KeyEdgeConnectOauthClientSecret \<equiv> ''oauth-client-secret''"
abbreviation KeyEdgeConnectOauthResource :: string where "KeyEdgeConnectOauthResource \<equiv> ''oauth-client-resource''"
abbreviation KeyEdgeConnectID :: string where "KeyEdgeConnectID \<equiv> ''id''"

record ec_oauth =
  oaClientID :: string
  oaClientSecret :: string
  oaResource :: string

definition GetOAuthClientFromSecret :: "data_reader \<Rightarrow> edgeconnect \<Rightarrow> string \<Rightarrow> error + ec_oauth" where
  "GetOAuthClientFromSecret getSecret ec secretName =
     (case getSecret (ecNamespace ec) secretName of
        Inl e \<Rightarrow> Inl (WithMsg (''failed to get clientSecret from '' @ secretName @ '' secret'') e)
      | Inr data \<Rightarrow>
     (case data KeyEdgeConnectOauthClientID of
        None \<Rightarrow> Inl (Sentinel (''missing token oauth-client-id in client secret '' @ secretName))
      | Some cid \<Rightarrow>
     (case data KeyEdgeConnectOauthClientSecret of
        None \<Rightarrow> Inl (Sentinel (''missing token oauth-client-secret in client secret '' @ secretName))
      | Some secret \<Rightarrow>
          if ec_IsProvisionerModeEnabled ec then
            (case data KeyEdgeConnectOauthResource of
               None \<Rightarrow> Inl (Sentinel (''missing oauth-client-resource in '' @ secretName))
             | Some resource \<Rightarrow> Inr \<lparr>oaClientID = cid, oaClientSecret = secret, oaResource = resource\<rparr>)
          else Inr \<lparr>oaClientID = cid, oaClientSecret = secret, oaResource = eoResource (esOAuth (ecSpec ec))\<rparr>)))"

section \<open>The configuration file\<close>

record config_secret =
  csecName :: string
  csecToken :: string
  csecFromFile :: string
  csecRestrictHostsTo :: "string list"

record config_proxy =
  cpAuthUser :: string
  cpAuthPassword :: string
  cpServer :: string
  cpExceptions :: string
  cpPort :: "32 word"

record ec_config =
  cfName :: string
  cfAPIEndpointHost :: string
  cfOAuthEndpoint :: string
  cfOAuthClientID :: string
  cfOAuthClientSecret :: string
  cfOAuthResource :: string
  cfRestrictHostsTo :: "string list"
  cfRootCertificatePaths :: "string list"
  cfProxy :: config_proxy
  cfSecrets :: "config_secret list"

definition zero_config_proxy :: config_proxy where
  "zero_config_proxy = \<lparr>cpAuthUser = [], cpAuthPassword = [], cpServer = [], cpExceptions = [], cpPort = 0\<rparr>"

definition createKubernetesAPISecret :: "string \<Rightarrow> config_secret" where
  "createKubernetesAPISecret token =
     \<lparr>csecName = ''K8S_SERVICE_ACCOUNT_TOKEN'', csecToken = token,
      csecFromFile = ''/var/run/secrets/kubernetes.io/serviceaccount/token'',
      csecRestrictHostsTo = [KubernetesDefaultDNS]\<rparr>"

abbreviation EdgeConnectMountPath :: string where "EdgeConnectMountPath \<equiv> ''/etc/edge_connect_certs''"
abbreviation EdgeConnectServiceAccountCAPath :: string where
  "EdgeConnectServiceAccountCAPath \<equiv> ''/var/run/secrets/kubernetes.io/serviceaccount/ca.crt''"

text \<open>The credentials of the file: those of the provisioned client, or the user's with the resource of the spec.\<close>

definition config_oauth :: "data_reader \<Rightarrow> edgeconnect \<Rightarrow> error + ec_oauth" where
  "config_oauth getSecret ec =
     (if ec_IsProvisionerModeEnabled ec then GetOAuthClientFromSecret getSecret ec (ec_ClientSecretName ec)
      else
        (case GetOAuthClientFromSecret getSecret ec (eoClientSecret (esOAuth (ecSpec ec))) of
           Inl e \<Rightarrow> Inl e
         | Inr oAuth \<Rightarrow> Inr (oAuth\<lparr>oaResource := eoResource (esOAuth (ecSpec ec))\<rparr>)))"

definition config_proxy_of :: "data_reader \<Rightarrow> edgeconnect \<Rightarrow> error + config_proxy" where
  "config_proxy_of getSecret ec =
     (case esProxy (ecSpec ec) of
        None \<Rightarrow> Inr zero_config_proxy
      | Some p \<Rightarrow>
          (let cp = zero_config_proxy\<lparr>cpServer := epHost p, cpPort := epPort p, cpExceptions := epNoProxy p\<rparr> in
           if epAuthRef p \<noteq> [] then
             (case ec_ProxyAuth getSecret ec of
                Inl e \<Rightarrow> Inl e
              | Inr (user, pass) \<Rightarrow> Inr (cp\<lparr>cpAuthUser := user, cpAuthPassword := pass\<rparr>))
           else Inr cp))"

definition PrepareConfigFile ::
    "(ec_config \<Rightarrow> error + string) \<Rightarrow> data_reader \<Rightarrow> edgeconnect \<Rightarrow> string \<Rightarrow> error + string" where
  "PrepareConfigFile yaml_Marshal getSecret ec token =
     (case config_oauth getSecret ec of
        Inl e \<Rightarrow> Inl e
      | Inr oAuth \<Rightarrow>
     (case config_proxy_of getSecret ec of
        Inl e \<Rightarrow> Inl e
      | Inr proxy \<Rightarrow>
          yaml_Marshal
            \<lparr>cfName = ecName ec, cfAPIEndpointHost = esAPIServer (ecSpec ec),
             cfOAuthEndpoint = eoEndpoint (esOAuth (ecSpec ec)), cfOAuthClientID = oaClientID oAuth,
             cfOAuthClientSecret = oaClientSecret oAuth, cfOAuthResource = oaResource oAuth,
             cfRestrictHostsTo = esHostRestrictions (ecSpec ec),
             cfRootCertificatePaths =
               (if esCaCertsRef (ecSpec ec) \<noteq> [] then [EdgeConnectMountPath @ ''/certificate.pem''] else [])
               @ [EdgeConnectServiceAccountCAPath],
             cfProxy = proxy,
             cfSecrets = (if ec_IsK8SAutomationEnabled ec then [createKubernetesAPISecret token] else [])\<rparr>))"

section \<open>The Deployment\<close>

record ec_mount =
  emMountPath :: string
  emSubPath :: string
  emName :: string

datatype ec_volume_source =
    SecretSource string "(string \<times> string) list" "32 word"
  | ConfigMapSource string "(string \<times> string) list"

record ec_volume =
  evName :: string
  evSource :: ec_volume_source

record ec_container =
  ectName :: string
  ectImage :: string
  ectPullPolicy :: string
  ectEnv :: "k8s_value list"
  ectLimits :: smap
  ectRequests :: smap
  ectAppArmor :: "apparmor_profile option"
  ectMounts :: "ec_mount list"

record ec_deployment =
  edName :: string
  edNamespace :: string
  edLabels :: smap
  edReplicas :: "32 word option"
  edSelector :: smap
  edTemplateAnnotations :: smap
  edTemplateLabels :: smap
  edContainer :: ec_container
  edImagePullSecrets :: "string list"
  edServiceAccountName :: string
  edVolumes :: "ec_volume list"
  edNodeSelector :: smap
  edTolerations :: "k8s_value list"
  edTopologySpreadConstraints :: "k8s_value list"

definition ec_buildAppLabels :: "edgeconnect \<Rightarrow> app_labels" where
  "ec_buildAppLabels ec =
     NewAppLabels ''edgeconnect'' (ecName ec) ''user-provisioned'' (vsVersion (ecsVersion (ecStatus ec)))"

definition ec_config_volume_name :: "edgeconnect \<Rightarrow> string" where
  "ec_config_volume_name ec = ecName ec @ ''-'' @ ''ec-vm''"

definition ec_prepareConfigVolume :: "edgeconnect \<Rightarrow> ec_volume" where
  "ec_prepareConfigVolume ec =
     \<lparr>evName = ec_config_volume_name ec,
      evSource = SecretSource (ecName ec @ ''-'' @ ''ec-yaml'') [(''edgeConnect.yaml'', ''edgeConnect.yaml'')] 416\<rparr>"

definition ec_prepareVolumes :: "edgeconnect \<Rightarrow> ec_volume list" where
  "ec_prepareVolumes ec =
     ec_prepareConfigVolume ec #
     (if esCaCertsRef (ecSpec ec) \<noteq> []
      then [\<lparr>evName = ''ca-certs'', evSource = ConfigMapSource (esCaCertsRef (ecSpec ec)) [(''certs'', ''certificate.pem'')]\<rparr>]
      else [])"

definition ec_prepareVolumeMounts :: "edgeconnect \<Rightarrow> ec_mount list" where
  "ec_prepareVolumeMounts ec =
     \<lparr>emMountPath = ''/edgeConnect.yaml'', emSubPath = ''edgeConnect.yaml'', emName = ec_config_volume_name ec\<rparr> #
     (if esCaCertsRef (ecSpec ec) \<noteq> []
      then [\<lparr>emMountPath = EdgeConnectMountPath, emSubPath = [], emName = ''ca-certs''\<rparr>] else [])"

definition ec_default_resources :: smap where
  "ec_default_resources = [''cpu'' \<mapsto> ''100m'', ''memory'' \<mapsto> ''128Mi'']"

definition ec_edgeConnectContainer :: "int \<Rightarrow> edgeconnect \<Rightarrow> ec_container" where
  "ec_edgeConnectContainer minor ec =
     \<lparr>ectName = ''edge-connect'', ectImage = vsImageID (ecsVersion (ecStatus ec)),
      ectPullPolicy = irPullPolicy (esImageRef (ecSpec ec)), ectEnv = esEnv (ecSpec ec),
      ectLimits = (case erLimits (esResources (ecSpec ec)) of None \<Rightarrow> ec_default_resources | Some l \<Rightarrow> l),
      ectRequests = (case erRequests (esResources (ecSpec ec)) of None \<Rightarrow> ec_default_resources | Some r \<Rightarrow> r),
      ectAppArmor = GetAppArmorProfile minor (esAnnotations (ecSpec ec)) ''edge-connect'',
      ectMounts = ec_prepareVolumeMounts ec\<rparr>"

definition deployment_New :: "int \<Rightarrow> edgeconnect \<Rightarrow> ec_deployment" where
  "deployment_New minor ec =
     (let appLabels = ec_buildAppLabels ec; labels = app_BuildLabels appLabels in
      \<lparr>edName = ecName ec, edNamespace = ecNamespace ec, edLabels = labels,
       edReplicas = esReplicas (ecSpec ec), edSelector = app_BuildMatchLabels appLabels,
       edTemplateAnnotations =
         RemoveAppArmorAnnotation minor
           (MergeMap [[''dynatrace.com/inject'' \<mapsto> ''false''], esAnnotations (ecSpec ec)]) [''edge-connect''],
       edTemplateLabels = MergeMap [esLabels (ecSpec ec), labels],
       edContainer = ec_edgeConnectContainer minor ec,
       edImagePullSecrets = (if esCustomPullSecret (ecSpec ec) \<noteq> [] then [esCustomPullSecret (ecSpec ec)] else []),
       edServiceAccountName = ec_GetServiceAccountName ec,
       edVolumes = ec_prepareVolumes ec,
       edNodeSelector = esNodeSelector (ecSpec ec),
       edTolerations = esTolerations (ecSpec ec),
       edTopologySpreadConstraints = esTopologySpreadConstraints (ecSpec ec)\<rparr>)"

section \<open>Lemmas\<close>

lemma deployment_key [simp]:
  "edName (deployment_New minor ec) = ecName ec" "edNamespace (deployment_New minor ec) = ecNamespace ec"
  by (simp_all add: deployment_New_def Let_def)

lemma HostPatterns_automation:
  "ec_IsK8SAutomationEnabled ec \<Longrightarrow>
   filter (\<lambda>p. equal_fold p (ec_K8sAutomationHostPattern ec)) (ec_HostPatterns ec) = [ec_K8sAutomationHostPattern ec]"
  by (simp add: ec_HostPatterns_def)

lemma mounts_have_volumes:
  "emName ` set (ectMounts (edContainer (deployment_New minor ec))) = evName ` set (edVolumes (deployment_New minor ec))"
  by (cases "esCaCertsRef (ecSpec ec) = []")
    (simp_all add: deployment_New_def Let_def ec_edgeConnectContainer_def ec_prepareVolumes_def
      ec_prepareVolumeMounts_def ec_prepareConfigVolume_def)

text \<open>The selector of the Deployment depends on the name alone, so no change of the spec needs a new Deployment.\<close>

lemma selector_stable:
  "ecName ec = ecName ec' \<Longrightarrow> edSelector (deployment_New m ec) = edSelector (deployment_New m' ec')"
  by (simp add: deployment_New_def Let_def ec_buildAppLabels_def NewAppLabels_def app_BuildMatchLabels_def)

text \<open>The pods of every EdgeConnect Deployment match its selector, whatever labels the user adds to
  them; each volume it mounts is one it declares; the selector depends on the name of the resource only.\<close>

theorem edgeconnect_deployment_consistent:
  "selects (edSelector (deployment_New minor ec)) (edTemplateLabels (deployment_New minor ec)) \<and>
   emName ` set (ectMounts (edContainer (deployment_New minor ec))) = evName ` set (edVolumes (deployment_New minor ec)) \<and>
   edSelector (deployment_New minor ec) =
     [AppNameLabel \<mapsto> ''edgeconnect'', AppCreatedByLabel \<mapsto> ecName ec, AppManagedByLabel \<mapsto> AppName]"
proof (intro conjI)
  show "selects (edSelector (deployment_New minor ec)) (edTemplateLabels (deployment_New minor ec))"
    using app.selected_over_user_labels by (simp add: deployment_New_def Let_def)
  show "edSelector (deployment_New minor ec) =
     [AppNameLabel \<mapsto> ''edgeconnect'', AppCreatedByLabel \<mapsto> ecName ec, AppManagedByLabel \<mapsto> AppName]"
    by (simp add: deployment_New_def Let_def ec_buildAppLabels_def NewAppLabels_def app_BuildMatchLabels_def)
qed (rule mounts_have_volumes)

end
