(* ===== verification/EdgeConnectCtrl.thy ===== *)
theory EdgeConnectCtrl
  imports EdgeConnectApi Hasher
begin

text \<open>
  \<open>pkg/controllers/edgeconnect/controller.go\<close>, \<open>phase.go\<close> and \<open>version\<close>, with the tenant client of
  \<open>pkg/clients/dynatrace/edgeconnect\<close>: one reconcile of an EdgeConnect. The trace records what the reconcile
  changes or asks on the Dynatrace tenant and what it writes to the cluster; the answers of both are functions of
  \<open>ec_env\<close> that may depend on the trace. Creating or updating a secret or Deployment is the operation of
  theory \<open>K8sQuery\<close> and one event here.
\<close>

section \<open>State and environment\<close>

record ec_response =
  rspID :: string
  rspName :: string
  rspOauthClientID :: string
  rspOauthClientSecret :: string
  rspOauthClientResource :: string
  rspHostPatterns :: "string list"
  rspManaged :: bool

record ec_request =
  rqName :: string
  rqOauthClientID :: string
  rqHostPatterns :: "string list"
  rqHostMappings :: "host_mapping list"
  rqManaged :: bool

record environment_setting =
  stObjectID :: string
  stSchemaID :: string
  stScope :: string
  stName :: string
  stUID :: string
  stNamespace :: string
  stToken :: string

datatype ec_event =
    ListEdgeConnects string
  | GetEdgeConnect string
  | CreateEdgeConnect ec_request
  | UpdateEdgeConnect string ec_request
  | DeleteEdgeConnect string
  | ListSettings
  | CreateSetting environment_setting
  | UpdateSetting environment_setting
  | DeleteSetting string
  | UpdateFinalizers "string list"
  | ApplySecret string smap
  | ApplyDeployment ec_deployment
  | WriteStatus ec_status
  | MismatchEvent

type_synonym ec_trace = "ec_event list"

record ec_env =
  eeGetEdgeConnect :: "string \<Rightarrow> string \<Rightarrow> error + edgeconnect"
  eeCRDLatest :: "error + bool"
  eeGetSecret :: "ec_trace \<Rightarrow> data_reader"
  eeGetConfigMap :: "ec_trace \<Rightarrow> data_reader"
  eeKubeSystemUID :: "error + string"
  eeSpecReplicas :: "ec_trace \<Rightarrow> string \<Rightarrow> string \<Rightarrow> error + 32 word option"
  eePodReplicas :: "ec_trace \<Rightarrow> string \<Rightarrow> string \<Rightarrow> error + 32 word \<times> 32 word"
  eeUpdateObject :: "ec_trace \<Rightarrow> edgeconnect \<Rightarrow> error option"
  eeUpdateStatus :: "ec_trace \<Rightarrow> edgeconnect \<Rightarrow> error option"
  eeSetOwner :: "edgeconnect \<Rightarrow> error option"
  eeApplySecret :: "ec_trace \<Rightarrow> string \<Rightarrow> smap \<Rightarrow> error option"
  eeApplyDeployment :: "ec_trace \<Rightarrow> ec_deployment \<Rightarrow> error option"
  eeNewClient :: "edgeconnect \<Rightarrow> string \<times> string \<Rightarrow> string option \<Rightarrow> error option"
  eeList :: "ec_trace \<Rightarrow> string \<Rightarrow> error + ec_response list"
  eeGet :: "ec_trace \<Rightarrow> string \<Rightarrow> error + ec_response"
  eeCreate :: "ec_trace \<Rightarrow> ec_request \<Rightarrow> error + ec_response"
  eeUpdate :: "ec_trace \<Rightarrow> string \<Rightarrow> ec_request \<Rightarrow> error option"
  eeDelete :: "ec_trace \<Rightarrow> string \<Rightarrow> error option"
  eeListSettings :: "ec_trace \<Rightarrow> error + environment_setting list"
  eeCreateSetting :: "ec_trace \<Rightarrow> environment_setting \<Rightarrow> error option"
  eeUpdateSetting :: "ec_trace \<Rightarrow> environment_setting \<Rightarrow> error option"
  eeDeleteSetting :: "ec_trace \<Rightarrow> string \<Rightarrow> error option"
  eeNewRegistryClient :: "error option"
  eeImageDigest :: "string \<Rightarrow> error + string"
  eeParseReference :: "string \<Rightarrow> error + string option"
  eeNewToken :: "ec_trace \<Rightarrow> error + string"
  eeYamlMarshal :: "ec_config \<Rightarrow> error + string"
  eeYamlUnmarshal :: "string \<Rightarrow> error + ec_config"
  eeMarshalData :: "smap \<Rightarrow> error + 8 word list"
  eeMarshalStatus :: "ec_status \<Rightarrow> error + 8 word list"
  eeNow :: "ec_trace \<Rightarrow> int"
  eeMinor :: int

record ec_state =
  esTrace :: ec_trace
  esEc :: edgeconnect

text \<open>A call of the tenant or the cluster: it is recorded, and its answer may depend on what came before.\<close>

definition ask :: "ec_event \<Rightarrow> (ec_trace \<Rightarrow> error + 'a) \<Rightarrow> (ec_state, 'a) io" where
  "ask ev answer st = (answer (esTrace st), st\<lparr>esTrace := esTrace st @ [ev]\<rparr>)"

definition tell :: "ec_event \<Rightarrow> (ec_trace \<Rightarrow> error option) \<Rightarrow> (ec_state, unit) io" where
  "tell ev answer = ask ev (\<lambda>tr. case answer tr of None \<Rightarrow> Inr () | Some e \<Rightarrow> Inl e)"

definition the_ec :: "(ec_state, edgeconnect) io" where
  "the_ec = gets esEc"

definition change_status :: "(ec_status \<Rightarrow> ec_status) \<Rightarrow> (ec_state, unit) io" where
  "change_status f = modify (\<lambda>st. st\<lparr>esEc := (esEc st)\<lparr>ecStatus := f (ecStatus (esEc st))\<rparr>\<rparr>)"

definition set_ec_condition :: "cond_op \<Rightarrow> (ec_state, unit) io" where
  "set_ec_condition c = change_status (\<lambda>s. s\<lparr>ecsConditions := ecsConditions s @ [c]\<rparr>)"

definition read :: "(ec_trace \<Rightarrow> error + 'a) \<Rightarrow> (ec_state, 'a) io" where
  "read answer = andThen (gets (\<lambda>st. answer (esTrace st))) lift"

section \<open>The tenant client\<close>

definition no_id :: error where "no_id = Sentinel ''no EdgeConnect ID given''"
definition no_object_id :: error where "no_object_id = Sentinel ''no environment setting object ID given''"

definition newRequest :: "string \<Rightarrow> string list \<Rightarrow> host_mapping list \<Rightarrow> string \<Rightarrow> ec_request" where
  "newRequest name hostPatterns hostMappings oauthClientID =
     \<lparr>rqName = name, rqOauthClientID = oauthClientID, rqHostPatterns = hostPatterns,
      rqHostMappings = hostMappings, rqManaged = True\<rparr>"

definition cl_ListEdgeConnects :: "ec_env \<Rightarrow> string \<Rightarrow> (ec_state, ec_response list) io" where
  "cl_ListEdgeConnects env name =
     wrap_msg ''failed to get EdgeConnects'' (ask (ListEdgeConnects name) (\<lambda>tr. eeList env tr name))"

definition cl_GetEdgeConnect :: "ec_env \<Rightarrow> string \<Rightarrow> (ec_state, ec_response) io" where
  "cl_GetEdgeConnect env ecId =
     (if ecId = [] then throw no_id
      else wrap_msg ''failed to get EdgeConnect'' (ask (GetEdgeConnect ecId) (\<lambda>tr. eeGet env tr ecId)))"

definition cl_CreateEdgeConnect :: "ec_env \<Rightarrow> ec_request \<Rightarrow> (ec_state, ec_response) io" where
  "cl_CreateEdgeConnect env request =
     wrap_msg ''failed to create EdgeConnect'' (ask (CreateEdgeConnect request) (\<lambda>tr. eeCreate env tr request))"

definition cl_UpdateEdgeConnect :: "ec_env \<Rightarrow> string \<Rightarrow> ec_request \<Rightarrow> (ec_state, unit) io" where
  "cl_UpdateEdgeConnect env ecId request =
     (if ecId = [] then throw no_id
      else wrap_msg ''failed to update EdgeConnect'' (tell (UpdateEdgeConnect ecId request) (\<lambda>tr. eeUpdate env tr ecId request)))"

definition cl_DeleteEdgeConnect :: "ec_env \<Rightarrow> string \<Rightarrow> (ec_state, unit) io" where
  "cl_DeleteEdgeConnect env ecId =
     (if ecId = [] then throw no_id
      else wrap_msg ''failed to delete EdgeConnect'' (tell (DeleteEdgeConnect ecId) (\<lambda>tr. eeDelete env tr ecId)))"

definition cl_ListEnvironmentSettings :: "ec_env \<Rightarrow> (ec_state, environment_setting list) io" where
  "cl_ListEnvironmentSettings env = wrap_msg ''failed to get settings objects'' (ask ListSettings (eeListSettings env))"

definition cl_CreateEnvironmentSetting :: "ec_env \<Rightarrow> environment_setting \<Rightarrow> (ec_state, unit) io" where
  "cl_CreateEnvironmentSetting env es =
     wrap_msg ''failed to create environment setting'' (tell (CreateSetting es) (\<lambda>tr. eeCreateSetting env tr es))"

definition cl_UpdateEnvironmentSetting :: "ec_env \<Rightarrow> environment_setting \<Rightarrow> (ec_state, unit) io" where
  "cl_UpdateEnvironmentSetting env es =
     (if stObjectID es = [] then throw no_object_id
      else wrap_msg ''failed to update environment setting'' (tell (UpdateSetting es) (\<lambda>tr. eeUpdateSetting env tr es)))"

definition cl_DeleteEnvironmentSetting :: "ec_env \<Rightarrow> string \<Rightarrow> (ec_state, unit) io" where
  "cl_DeleteEnvironmentSetting env objectID =
     (if objectID = [] then throw no_object_id
      else wrap_msg ''failed to delete environment setting'' (tell (DeleteSetting objectID) (\<lambda>tr. eeDeleteSetting env tr objectID)))"

definition zero_response :: ec_response where
  "zero_response = \<lparr>rspID = [], rspName = [], rspOauthClientID = [], rspOauthClientSecret = [],
     rspOauthClientResource = [], rspHostPatterns = [], rspManaged = False\<rparr>"

definition getEdgeConnectByName :: "ec_env \<Rightarrow> string \<Rightarrow> (ec_state, ec_response) io" where
  "getEdgeConnectByName env name =
     andThen (cl_ListEdgeConnects env name) (\<lambda>ecs.
       if length ecs > 1 then throw (Sentinel ''many EdgeConnects have the same name'')
       else if length ecs = 1 then ret (hd ecs)
       else ret zero_response)"

definition zero_setting :: environment_setting where
  "zero_setting = \<lparr>stObjectID = [], stSchemaID = [], stScope = [], stName = [], stUID = [], stNamespace = [], stToken = []\<rparr>"

definition GetConnectionSetting :: "ec_env \<Rightarrow> string \<Rightarrow> string \<Rightarrow> string \<Rightarrow> (ec_state, environment_setting) io" where
  "GetConnectionSetting env name namespace uid =
     andThen (cl_ListEnvironmentSettings env) (\<lambda>settings.
       case find (\<lambda>s. stName s = name \<and> stNamespace s = namespace \<and> stUID s = uid) settings of
         Some s \<Rightarrow> ret s
       | None \<Rightarrow> ret zero_setting)"

section \<open>Secrets and clients\<close>

definition ExtractToken :: "smap \<Rightarrow> string \<Rightarrow> error + string" where
  "ExtractToken data key =
     (case data key of None \<Rightarrow> Inl (Sentinel (''missing token '' @ key)) | Some value \<Rightarrow> Inr (trim_space value))"

definition getOauthCredentials :: "ec_env \<Rightarrow> (ec_state, string \<times> string) io" where
  "getOauthCredentials env =
     andThen the_ec (\<lambda>ec.
     andThen (read (\<lambda>tr. eeGetSecret env tr (ecNamespace ec) (eoClientSecret (esOAuth (ecSpec ec))))) (\<lambda>secret.
     andThen (lift (ExtractToken secret KeyEdgeConnectOauthClientID)) (\<lambda>cid.
     andThen (lift (ExtractToken secret KeyEdgeConnectOauthClientSecret)) (\<lambda>csecret.
       ret (cid, csecret)))))"

definition buildEdgeConnectClient :: "ec_env \<Rightarrow> (ec_state, unit) io" where
  "buildEdgeConnectClient env =
     andThen (getOauthCredentials env) (\<lambda>credentials.
     andThen the_ec (\<lambda>ec.
     andThen (read (\<lambda>tr. ec_TrustedCAs (eeGetConfigMap env tr) ec)) (\<lambda>customCA.
       case eeNewClient env ec credentials customCA of None \<Rightarrow> ret () | Some e \<Rightarrow> throw e)))"

definition getEdgeConnectIDFromClientSecret :: "ec_env \<Rightarrow> (ec_state, string) io" where
  "getEdgeConnectIDFromClientSecret env =
     andThen the_ec (\<lambda>ec.
     andThen (attempt (read (\<lambda>tr. eeGetSecret env tr (ecNamespace ec) (ec_ClientSecretName ec)))) (\<lambda>r.
       case r of
         Inl e \<Rightarrow> if is_not_found e then ret [] else throw e
       | Inr secret \<Rightarrow> lift (ExtractToken secret KeyEdgeConnectID)))"

section \<open>Version\<close>

abbreviation minRequestThreshold :: int where "minRequestThreshold \<equiv> 15 * minute"

definition update_version :: "(version_status \<Rightarrow> version_status) \<Rightarrow> (ec_state, unit) io" where
  "update_version f = change_status (\<lambda>s. s\<lparr>ecsVersion := f (ecsVersion s)\<rparr>)"

definition ec_RequiresReconcile :: "int \<Rightarrow> edgeconnect \<Rightarrow> bool" where
  "ec_RequiresReconcile now ec =
     (let version = ecsVersion (ecStatus ec);
          isRequestOutdated = probe_outdated (vsLastProbeTimestamp version) now minRequestThreshold;
          didCustomImageChange = (\<not> has_prefix (vsImageID version) (ec_Image ec))
      in if didCustomImageChange \<or> vsImageID version = [] then True
         else isRequestOutdated \<and> ec_IsAutoUpdateEnabled ec)"

definition combineImageWithDigest :: "ec_env \<Rightarrow> edgeconnect \<Rightarrow> string \<Rightarrow> error + string" where
  "combineImageWithDigest env ec digest =
     (case eeParseReference env (ec_Image ec) of
        Inl e \<Rightarrow> Inl e
      | Inr (Some taggedRef) \<Rightarrow> Inr (taggedRef @ ''@'' @ digest)
      | Inr None \<Rightarrow> Inl (Sentinel ''wrong image reference format''))"

definition version_body :: "ec_env \<Rightarrow> (ec_state, unit) io" where
  "version_body env =
     andThen the_ec (\<lambda>ec.
       if \<not> ec_IsCustomImage ec then
         andThen (lift (eeImageDigest env (ec_Image ec))) (\<lambda>digest.
         andThen (lift (combineImageWithDigest env ec digest)) (\<lambda>image.
           update_version (\<lambda>v. v\<lparr>vsSource := PublicRegistryVersionSource, vsImageID := image\<rparr>)))
       else
         update_version (\<lambda>v. v\<lparr>vsSource := CustomImageVersionSource, vsImageID := ec_Image ec\<rparr>))"

text \<open>
  The deferred function of \<open>Update\<close> tests the outer variable \<open>err\<close>, which no statement of the function assigns:
  the errors of the registry are stored in a variable of the same name in the inner block. So the time of the
  probe is recorded on every path.
\<close>

definition version_Update :: "ec_env \<Rightarrow> (ec_state, unit) io" where
  "version_Update env =
     andThen (attempt (version_body env)) (\<lambda>r.
     andThen (gets esTrace) (\<lambda>tr.
     andThen (update_version (\<lambda>v. v\<lparr>vsLastProbeTimestamp := Some (eeNow env tr)\<rparr>)) (\<lambda>_. lift r)))"

definition version_Reconcile :: "ec_env \<Rightarrow> (ec_state, unit) io" where
  "version_Reconcile env =
     andThen (gets (\<lambda>st. ec_RequiresReconcile (eeNow env (esTrace st)) (esEc st))) (\<lambda>required.
       if required then version_Update env else ret ())"

definition updateVersionInfo :: "ec_env \<Rightarrow> (ec_state, unit) io" where
  "updateVersionInfo env =
     (case eeNewRegistryClient env of Some e \<Rightarrow> throw e | None \<Rightarrow> version_Reconcile env)"

section \<open>The configuration secret\<close>

abbreviation ErrTokenNotFound :: string where "ErrTokenNotFound \<equiv> ''token not found''"
abbreviation ErrUnsupportedConfigFileVersion :: string where
  "ErrUnsupportedConfigFileVersion \<equiv> ''unsupported config file version''"
abbreviation yaml_TypeError :: string where "yaml_TypeError \<equiv> ''yaml.TypeError''"
abbreviation SecretConfigConditionType :: string where "SecretConfigConditionType \<equiv> ''SecretConfigConditionType''"
abbreviation EdgeConnectConfigFileName :: string where "EdgeConnectConfigFileName \<equiv> ''edgeConnect.yaml''"

definition config_secret_name :: "edgeconnect \<Rightarrow> string" where
  "config_secret_name ec = ecName ec @ ''-'' @ ''ec-yaml''"

definition token_of_config :: "ec_env \<Rightarrow> smap \<Rightarrow> error + string" where
  "token_of_config env data =
     (case eeYamlUnmarshal env (case data EdgeConnectConfigFileName of None \<Rightarrow> [] | Some cfg \<Rightarrow> cfg) of
        Inl e \<Rightarrow> if errors_is e yaml_TypeError then Inl (Sentinel ErrUnsupportedConfigFileVersion) else Inl e
      | Inr ecCfg \<Rightarrow>
          (case cfSecrets ecCfg of s # _ \<Rightarrow> Inr (csecToken s) | [] \<Rightarrow> Inl (Sentinel ErrTokenNotFound)))"

definition ec_getToken :: "ec_env \<Rightarrow> (ec_state, string) io" where
  "ec_getToken env =
     andThen the_ec (\<lambda>ec.
     andThen (read (\<lambda>tr. eeGetSecret env tr (ecNamespace ec) (config_secret_name ec))) (\<lambda>data.
       lift (token_of_config env data)))"

text \<open>A failing step sets a condition before its error is returned.\<close>

definition or_condition :: "(error \<Rightarrow> cond_op) \<Rightarrow> (ec_state, 'a) io \<Rightarrow> (ec_state, 'a) io" where
  "or_condition c m =
     andThen (attempt m) (\<lambda>r. case r of
       Inl e \<Rightarrow> andThen (set_ec_condition (c e)) (\<lambda>_. throw e)
     | Inr x \<Rightarrow> ret x)"

definition gen_failed :: "error \<Rightarrow> cond_op" where
  "gen_failed e = SetSecretGenFailed SecretConfigConditionType"

definition kube_api_error :: "error \<Rightarrow> cond_op" where
  "kube_api_error e = the (SetKubeAPIError SecretConfigConditionType (Some e))"

definition renewable :: "error \<Rightarrow> bool" where
  "renewable e \<longleftrightarrow> is_not_found e \<or> errors_is e ErrTokenNotFound \<or> errors_is e ErrUnsupportedConfigFileVersion"

definition current_or_new_token :: "ec_env \<Rightarrow> (ec_state, string) io" where
  "current_or_new_token env =
     andThen (attempt (ec_getToken env)) (\<lambda>r. case r of
       Inr token \<Rightarrow> ret token
     | Inl e \<Rightarrow> if renewable e then read (eeNewToken env) else throw e)"

definition createOrUpdateEdgeConnectConfigSecret :: "ec_env \<Rightarrow> (ec_state, string \<times> string) io" where
  "createOrUpdateEdgeConnectConfigSecret env =
     andThen (or_condition gen_failed (current_or_new_token env)) (\<lambda>token.
     andThen the_ec (\<lambda>ec.
     andThen (or_condition gen_failed (read (\<lambda>tr. PrepareConfigFile (eeYamlMarshal env) (eeGetSecret env tr) ec token))) (\<lambda>configFile.
     andThen (or_condition gen_failed (case eeSetOwner env ec of None \<Rightarrow> ret () | Some e \<Rightarrow> throw e)) (\<lambda>_.
       let data = [EdgeConnectConfigFileName \<mapsto> configFile] in
       andThen (or_condition kube_api_error
         (tell (ApplySecret (config_secret_name ec) data) (\<lambda>tr. eeApplySecret env tr (config_secret_name ec) data))) (\<lambda>_.
       andThen (set_ec_condition (SetSecretCreated SecretConfigConditionType (config_secret_name ec))) (\<lambda>_.
       andThen (or_condition gen_failed (lift (GenerateHash (eeMarshalData env) data))) (\<lambda>hash.
         ret (token, hash))))))))"

section \<open>The Deployment\<close>

definition ResolveReplicas :: "(string \<Rightarrow> string \<Rightarrow> error + 32 word option) \<Rightarrow> string \<Rightarrow> string \<Rightarrow> 32 word option \<Rightarrow> error + 32 word" where
  "ResolveReplicas getDeployment ns n defaultReplicas =
     (case defaultReplicas of
        Some r \<Rightarrow> Inr r
      | None \<Rightarrow>
          (case getDeployment ns n of
             Inl e \<Rightarrow> if is_not_found e then Inr 1 else Inl e
           | Inr replicas \<Rightarrow> Inr (case replicas of None \<Rightarrow> 1 | Some r \<Rightarrow> r)))"

definition ResolveAndSetReplicas ::
    "(string \<Rightarrow> string \<Rightarrow> error + 32 word option) \<Rightarrow> ec_deployment \<Rightarrow> 32 word option \<Rightarrow> error + ec_deployment" where
  "ResolveAndSetReplicas getDeployment d defaultReplicas =
     (case ResolveReplicas getDeployment (edNamespace d) (edName d) defaultReplicas of
        Inl e \<Rightarrow> Inl e
      | Inr replicas \<Rightarrow> Inr (d\<lparr>edReplicas := Some replicas\<rparr>))"

abbreviation EdgeConnectAnnotationSecretHash :: string where
  "EdgeConnectAnnotationSecretHash \<equiv> ''internal.operator.dynatrace.com/secret-hash''"

definition with_secret_hash :: "string \<Rightarrow> ec_deployment \<Rightarrow> ec_deployment" where
  "with_secret_hash secretHash d =
     d\<lparr>edTemplateAnnotations := (edTemplateAnnotations d)(EdgeConnectAnnotationSecretHash \<mapsto> secretHash)\<rparr>"

definition set_owner :: "ec_env \<Rightarrow> (ec_state, unit) io" where
  "set_owner env = andThen the_ec (\<lambda>ec. case eeSetOwner env ec of None \<Rightarrow> ret () | Some e \<Rightarrow> throw e)"

definition apply_deployment :: "ec_env \<Rightarrow> ec_deployment \<Rightarrow> (ec_state, unit) io" where
  "apply_deployment env desired =
     andThen the_ec (\<lambda>ec.
     andThen (wrap_msg ''failed to resolve and set replica count''
       (read (\<lambda>tr. ResolveAndSetReplicas (eeSpecReplicas env tr) desired (esReplicas (ecSpec ec))))) (\<lambda>d.
       tell (ApplyDeployment d) (\<lambda>tr. eeApplyDeployment env tr d)))"

definition reconcileEdgeConnectRegular :: "ec_env \<Rightarrow> (ec_state, unit) io" where
  "reconcileEdgeConnectRegular env =
     andThen the_ec (\<lambda>ec. let desiredDeployment = deployment_New (eeMinor env) ec in
     andThen (set_owner env) (\<lambda>_.
     andThen (createOrUpdateEdgeConnectConfigSecret env) (\<lambda>(token, secretHash).
       apply_deployment env (with_secret_hash secretHash desiredDeployment))))"

section \<open>Connection settings\<close>

definition createOrUpdateConnectionSetting :: "ec_env \<Rightarrow> string \<Rightarrow> (ec_state, unit) io" where
  "createOrUpdateConnectionSetting env latestToken =
     andThen the_ec (\<lambda>ec.
     andThen (GetConnectionSetting env (ecName ec) (ecNamespace ec) (ecsKubeSystemUID (ecStatus ec))) (\<lambda>envSetting.
       if envSetting = zero_setting then
         cl_CreateEnvironmentSetting env
           \<lparr>stObjectID = [], stSchemaID = ''app:dynatrace.kubernetes.connector:connection'', stScope = ''environment'',
            stName = ecName ec, stUID = ecsKubeSystemUID (ecStatus ec), stNamespace = ecNamespace ec, stToken = latestToken\<rparr>
       else if stToken envSetting \<noteq> latestToken then
         cl_UpdateEnvironmentSetting env (envSetting\<lparr>stToken := latestToken\<rparr>)
       else ret ()))"

definition deleteConnectionSetting :: "ec_env \<Rightarrow> (ec_state, unit) io" where
  "deleteConnectionSetting env =
     andThen the_ec (\<lambda>ec.
     andThen (GetConnectionSetting env (ecName ec) (ecNamespace ec) (ecsKubeSystemUID (ecStatus ec))) (\<lambda>envSetting.
       if envSetting \<noteq> zero_setting then cl_DeleteEnvironmentSetting env (stObjectID envSetting) else ret ()))"

definition createOrUpdateEdgeConnectDeploymentAndSettings :: "ec_env \<Rightarrow> (ec_state, unit) io" where
  "createOrUpdateEdgeConnectDeploymentAndSettings env =
     andThen (createOrUpdateEdgeConnectConfigSecret env) (\<lambda>(token, secretHash).
     andThen the_ec (\<lambda>ec.
     andThen (set_owner env) (\<lambda>_.
     andThen (apply_deployment env (with_secret_hash secretHash (deployment_New (eeMinor env) ec))) (\<lambda>_.
       if ec_IsK8SAutomationEnabled ec then
         andThen (buildEdgeConnectClient env) (\<lambda>_. createOrUpdateConnectionSetting env token)
       else ret ()))))"

section \<open>The provisioner\<close>

definition createEdgeConnect :: "ec_env \<Rightarrow> (ec_state, unit) io" where
  "createEdgeConnect env =
     andThen the_ec (\<lambda>ec.
     andThen (cl_CreateEdgeConnect env (newRequest (ecName ec) (ec_HostPatterns ec) (ec_HostMappings ec) [])) (\<lambda>createResponse.
     andThen (set_owner env) (\<lambda>_.
       let data = [KeyEdgeConnectOauthClientID \<mapsto> rspOauthClientID createResponse,
                   KeyEdgeConnectOauthClientSecret \<mapsto> rspOauthClientSecret createResponse,
                   KeyEdgeConnectOauthResource \<mapsto> rspOauthClientResource createResponse,
                   KeyEdgeConnectID \<mapsto> rspID createResponse] in
       tell (ApplySecret (ec_ClientSecretName ec) data) (\<lambda>tr. eeApplySecret env tr (ec_ClientSecretName ec) data))))"

definition updateEdgeConnect :: "ec_env \<Rightarrow> (ec_state, unit) io" where
  "updateEdgeConnect env =
     andThen the_ec (\<lambda>ec.
     andThen (read (\<lambda>tr. eeGetSecret env tr (ecNamespace ec) (ec_ClientSecretName ec))) (\<lambda>secret.
     andThen (lift (ExtractToken secret KeyEdgeConnectID)) (\<lambda>ecId.
     andThen (lift (ExtractToken secret KeyEdgeConnectOauthClientID)) (\<lambda>oauthClientID.
     andThen (cl_GetEdgeConnect env ecId) (\<lambda>edgeConnectResponse.
       if ec_HostPatterns ec = rspHostPatterns edgeConnectResponse then ret ()
       else cl_UpdateEdgeConnect env ecId
              (newRequest (ecName ec) (ec_HostPatterns ec) (ec_HostMappings ec) oauthClientID))))))"

text \<open>The tenant's EdgeConnect is deleted when the secret has no identifier or another one.\<close>

definition delete_mismatched :: "ec_env \<Rightarrow> ec_response \<Rightarrow> string \<Rightarrow> (ec_state, string) io" where
  "delete_mismatched env tenantEdgeConnect edgeConnectIDFromSecret =
     (if rspID tenantEdgeConnect \<noteq> [] then
        if edgeConnectIDFromSecret = [] then
          andThen (cl_DeleteEdgeConnect env (rspID tenantEdgeConnect)) (\<lambda>_. ret [])
        else if rspID tenantEdgeConnect \<noteq> edgeConnectIDFromSecret then
          andThen (cl_DeleteEdgeConnect env (rspID tenantEdgeConnect)) (\<lambda>_. ret [])
        else ret (rspID tenantEdgeConnect)
      else ret (rspID tenantEdgeConnect))"

definition reconcileEdgeConnectProvisioner :: "ec_env \<Rightarrow> (ec_state, unit) io" where
  "reconcileEdgeConnectProvisioner env =
     andThen (buildEdgeConnectClient env) (\<lambda>_.
     andThen the_ec (\<lambda>ec.
     andThen (getEdgeConnectByName env (ecName ec)) (\<lambda>tenantEdgeConnect.
     andThen (getEdgeConnectIDFromClientSecret env) (\<lambda>edgeConnectIDFromSecret.
       if rspID tenantEdgeConnect \<noteq> [] \<and> \<not> rspManaged tenantEdgeConnect then ret ()
       else
         andThen (delete_mismatched env tenantEdgeConnect edgeConnectIDFromSecret) (\<lambda>tenantID.
           if tenantID = [] then
             andThen (createEdgeConnect env) (\<lambda>_. createOrUpdateEdgeConnectDeploymentAndSettings env)
           else
             andThen (updateEdgeConnect env) (\<lambda>_. createOrUpdateEdgeConnectDeploymentAndSettings env))))))"

section \<open>Reconcile\<close>

definition update_object :: "ec_env \<Rightarrow> string list \<Rightarrow> (ec_state, unit) io" where
  "update_object env finalizers =
     andThen (modify (\<lambda>st. st\<lparr>esEc := (esEc st)\<lparr>ecFinalizers := finalizers\<rparr>\<rparr>)) (\<lambda>_.
     andThen the_ec (\<lambda>ec. tell (UpdateFinalizers finalizers) (\<lambda>tr. eeUpdateObject env tr ec)))"

definition updateFinalizers :: "ec_env \<Rightarrow> (ec_state, unit) io" where
  "updateFinalizers env =
     andThen the_ec (\<lambda>ec.
       if ec_IsProvisionerModeEnabled ec \<and> ecFinalizers ec = [] then update_object env [''server''] else ret ())"

definition reconcileEdgeConnectCR :: "ec_env \<Rightarrow> (ec_state, unit) io" where
  "reconcileEdgeConnectCR env =
     andThen (updateFinalizers env) (\<lambda>_.
     andThen (updateVersionInfo env) (\<lambda>_.
     andThen the_ec (\<lambda>ec.
     andThen (if ecsKubeSystemUID (ecStatus ec) = []
              then andThen (lift (eeKubeSystemUID env)) (\<lambda>uid. change_status (\<lambda>s. s\<lparr>ecsKubeSystemUID := uid\<rparr>))
              else ret ()) (\<lambda>_.
       if ec_IsProvisionerModeEnabled ec then reconcileEdgeConnectProvisioner env
       else reconcileEdgeConnectRegular env))))"

definition determineEdgeConnectPhase :: "ec_env \<Rightarrow> (ec_state, string) io" where
  "determineEdgeConnectPhase env =
     andThen the_ec (\<lambda>ec.
     andThen (attempt (read (\<lambda>tr. eePodReplicas env tr (ecNamespace ec) (ecName ec)))) (\<lambda>r. case r of
       Inl e \<Rightarrow> ret (if is_not_found e then Deploying else PhaseError)
     | Inr (replicas, readyReplicas) \<Rightarrow> ret (if replicas \<noteq> readyReplicas then Deploying else Running)))"

definition updateEdgeConnectStatus :: "ec_env \<Rightarrow> (ec_state, unit) io" where
  "updateEdgeConnectStatus env =
     andThen (gets (\<lambda>st. eeNow env (esTrace st))) (\<lambda>now.
     andThen (change_status (\<lambda>s. s\<lparr>ecsUpdatedTimestamp := now\<rparr>)) (\<lambda>_.
     andThen the_ec (\<lambda>ec. tell (WriteStatus (ecStatus ec)) (\<lambda>tr. eeUpdateStatus env tr ec))))"

definition reconcileEdgeConnect :: "ec_env \<Rightarrow> (ec_state, int) io" where
  "reconcileEdgeConnect env =
     andThen (gets (\<lambda>st. ecStatus (esEc st))) (\<lambda>oldStatus.
     andThen (attempt (reconcileEdgeConnectCR env)) (\<lambda>r.
     andThen (case r of Inl e \<Rightarrow> ret PhaseError | Inr _ \<Rightarrow> determineEdgeConnectPhase env) (\<lambda>phase.
     andThen (change_status (\<lambda>s. s\<lparr>ecsPhase := phase\<rparr>)) (\<lambda>_.
     andThen (gets (\<lambda>st. ecStatus (esEc st))) (\<lambda>newStatus.
     andThen (case IsDifferent (eeMarshalStatus env) oldStatus newStatus of
                Inl e \<Rightarrow> ret ()
              | Inr different \<Rightarrow>
                  if different
                  then wrap_msg ''failed to update EdgeConnect after failure'' (updateEdgeConnectStatus env)
                  else ret ()) (\<lambda>_.
       case r of Inl e \<Rightarrow> throw e | Inr _ \<Rightarrow> ret (15 * minute)))))))"

definition reconcileEdgeConnectDeletion :: "ec_env \<Rightarrow> (ec_state, unit) io" where
  "reconcileEdgeConnectDeletion env =
     andThen (getEdgeConnectIDFromClientSecret env) (\<lambda>edgeConnectIDFromSecret.
     andThen (update_object env []) (\<lambda>_.
     andThen (buildEdgeConnectClient env) (\<lambda>_.
     andThen the_ec (\<lambda>ec.
     andThen (getEdgeConnectByName env (ecName ec)) (\<lambda>tenantEdgeConnect.
       if rspID tenantEdgeConnect = [] then ret ()
       else if \<not> rspManaged tenantEdgeConnect then ret ()
       else
         andThen (if ec_IsK8SAutomationEnabled ec \<and> ec_IsProvisionerModeEnabled ec
                  then deleteConnectionSetting env else ret ()) (\<lambda>_.
           cl_DeleteEdgeConnect env (rspID tenantEdgeConnect)))))))"

definition ec_Reconcile :: "ec_env \<Rightarrow> string \<Rightarrow> string \<Rightarrow> (error + int) \<times> ec_trace" where
  "ec_Reconcile env ns n =
     (case eeGetEdgeConnect env ns n of
        Inl e \<Rightarrow> (if is_not_found e then Inr 0 else Inl e, [])
      | Inr ec \<Rightarrow>
          (case eeCRDLatest env of
             Inl e \<Rightarrow> (Inl e, [])
           | Inr latest \<Rightarrow>
               (let st = \<lparr>esTrace = (if latest then [] else [MismatchEvent]), esEc = ec\<rparr> in
                case (case ecDeletionTimestamp ec of
                        Some t \<Rightarrow> andThen (reconcileEdgeConnectDeletion env) (\<lambda>_. ret 0) st
                      | None \<Rightarrow> reconcileEdgeConnect env st) of
                  (r, st') \<Rightarrow> (r, esTrace st'))))"

definition buildOAuthScopes :: "bool \<Rightarrow> string list" where
  "buildOAuthScopes k8sAutomationEnabled =
     [''app-engine:edge-connects:read'', ''app-engine:edge-connects:write'',
      ''app-engine:edge-connects:delete'', ''oauth2:clients:manage''] @
     (if k8sAutomationEnabled then [''settings:objects:read'', ''settings:objects:write''] else [])"

section \<open>What an operation leaves alone\<close>

fun tenant_write :: "ec_event \<Rightarrow> bool" where
  "tenant_write (CreateEdgeConnect rq) = True"
| "tenant_write (UpdateEdgeConnect i rq) = True"
| "tenant_write (DeleteEdgeConnect i) = True"
| "tenant_write _ = False"

definition tenant_writes :: "ec_trace \<Rightarrow> ec_event list" where
  "tenant_writes tr = filter tenant_write tr"

lemma tenant_writes_append [simp]: "tenant_writes (xs @ ys) = tenant_writes xs @ tenant_writes ys"
  by (simp add: tenant_writes_def)

text \<open>The writes so far, and the part of the resource no step of a reconcile changes.\<close>

definition at :: "ec_event list \<Rightarrow> edgeconnect \<Rightarrow> ec_state \<Rightarrow> bool" where
  "at w ec st \<longleftrightarrow>
     tenant_writes (esTrace st) = w \<and> ecName (esEc st) = ecName ec \<and> ecNamespace (esEc st) = ecNamespace ec \<and>
     ecSpec (esEc st) = ecSpec ec \<and> ecsKubeSystemUID (ecStatus (esEc st)) = ecsKubeSystemUID (ecStatus ec)"

lemma at_event: "\<not> tenant_write ev \<Longrightarrow> at w ec (st\<lparr>esTrace := esTrace st @ [ev]\<rparr>) = at w ec st"
  by (simp add: at_def tenant_writes_def)

lemma keeps_request [keeps_intro]: "\<not> tenant_write ev \<Longrightarrow> keeps (at w ec) (ask ev f)"
  by (simp add: keeps_def ask_def at_event)

lemma keeps_notice [keeps_intro]: "\<not> tenant_write ev \<Longrightarrow> keeps (at w ec) (tell ev f)"
  by (simp add: tell_def keeps_request)

lemma keeps_the_ec [keeps_intro]: "keeps (at w ec) the_ec"
  by (simp add: the_ec_def keeps_gets)

lemma keeps_read [keeps_intro]: "keeps (at w ec) (read f)"
  by (auto simp: read_def intro: keeps_intro)

lemma keeps_change_status [keeps_intro]:
  "(\<And>s. ecsKubeSystemUID (f s) = ecsKubeSystemUID s) \<Longrightarrow> keeps (at w ec) (change_status f)"
  by (auto simp: change_status_def at_def intro!: keeps_intro)

lemma keeps_condition [keeps_intro]: "keeps (at w ec) (set_ec_condition c)"
  by (auto simp: set_ec_condition_def intro!: keeps_intro)

lemma keeps_or_condition [keeps_intro]: "keeps (at w ec) m \<Longrightarrow> keeps (at w ec) (or_condition c m)"
  unfolding or_condition_def by (intro keeps_intro)

lemma keeps_buildClient [keeps_intro]: "keeps (at w ec) (buildEdgeConnectClient env)"
  unfolding buildEdgeConnectClient_def getOauthCredentials_def by (intro keeps_intro)

lemma keeps_byName [keeps_intro]: "keeps (at w ec) (getEdgeConnectByName env name)"
  unfolding getEdgeConnectByName_def cl_ListEdgeConnects_def by (intro keeps_intro) simp

lemma keeps_idFromSecret [keeps_intro]: "keeps (at w ec) (getEdgeConnectIDFromClientSecret env)"
  unfolding getEdgeConnectIDFromClientSecret_def by (intro keeps_intro)

lemma keeps_set_owner [keeps_intro]: "keeps (at w ec) (set_owner env)"
  unfolding set_owner_def by (intro keeps_intro)

lemma keeps_config_secret [keeps_intro]: "keeps (at w ec) (createOrUpdateEdgeConnectConfigSecret env)"
  unfolding createOrUpdateEdgeConnectConfigSecret_def Let_def current_or_new_token_def ec_getToken_def
  by (intro keeps_intro) simp

lemma keeps_apply_deployment [keeps_intro]: "keeps (at w ec) (apply_deployment env d)"
  unfolding apply_deployment_def by (intro keeps_intro) simp

lemma keeps_settings [keeps_intro]:
  "keeps (at w ec) (createOrUpdateConnectionSetting env token)" "keeps (at w ec) (deleteConnectionSetting env)"
  unfolding createOrUpdateConnectionSetting_def deleteConnectionSetting_def GetConnectionSetting_def
    cl_ListEnvironmentSettings_def cl_CreateEnvironmentSetting_def cl_UpdateEnvironmentSetting_def
    cl_DeleteEnvironmentSetting_def
  by (intro keeps_intro; simp)+

lemma keeps_deployment_and_settings [keeps_intro]:
  "keeps (at w ec) (createOrUpdateEdgeConnectDeploymentAndSettings env)"
  unfolding createOrUpdateEdgeConnectDeploymentAndSettings_def by (intro keeps_intro)

lemma keeps_updateObject [keeps_intro]: "keeps (at w ec) (update_object env fs)"
  unfolding update_object_def by (intro keeps_intro) (auto simp: at_def)


section \<open>The decision of the provisioner\<close>

datatype tenant_action = LeaveAlone | CreateOne | Replace string | UpdateOne

definition decide :: "ec_response \<Rightarrow> string \<Rightarrow> tenant_action" where
  "decide found secretID =
     (if rspID found = [] then CreateOne
      else if \<not> rspManaged found then LeaveAlone
      else if rspID found \<noteq> secretID then Replace (rspID found)
      else UpdateOne)"

text \<open>The abstract provisioner: it looks once at the tenant and once at the secret, and decides.\<close>

definition provisioner_decision :: "ec_env \<Rightarrow> ec_state \<Rightarrow> tenant_action" where
  "provisioner_decision env st =
     (case fst (buildEdgeConnectClient env st) of
        Inl e \<Rightarrow> LeaveAlone
      | Inr _ \<Rightarrow>
     (case getEdgeConnectByName env (ecName (esEc st)) st of
        (Inl e, st1) \<Rightarrow> LeaveAlone
      | (Inr found, st1) \<Rightarrow>
     (case fst (getEdgeConnectIDFromClientSecret env st1) of
        Inl e \<Rightarrow> LeaveAlone
      | Inr secretID \<Rightarrow> decide found secretID)))"

definition create_request :: "edgeconnect \<Rightarrow> ec_request" where
  "create_request ec = newRequest (ecName ec) (ec_HostPatterns ec) (ec_HostMappings ec) []"

fun permitted :: "tenant_action \<Rightarrow> edgeconnect \<Rightarrow> bool \<Rightarrow> ec_event list \<Rightarrow> bool" where
  "permitted LeaveAlone ec failed w \<longleftrightarrow> w = []"
| "permitted CreateOne ec failed w \<longleftrightarrow> w = [CreateEdgeConnect (create_request ec)]"
| "permitted (Replace i) ec failed w \<longleftrightarrow>
     w = [DeleteEdgeConnect i, CreateEdgeConnect (create_request ec)] \<or> failed \<and> w = [DeleteEdgeConnect i]"
| "permitted UpdateOne ec failed w \<longleftrightarrow>
     w = [] \<or> (\<exists>i client. w = [UpdateEdgeConnect i (newRequest (ecName ec) (ec_HostPatterns ec) (ec_HostMappings ec) client)])"

lemma read_state [simp]: "snd (read f st) = st"
  by (simp add: read_def andThen_gets lift_def)

lemma the_ec_run [simp]: "the_ec st = (Inr (esEc st), st)"
  by (simp add: the_ec_def gets_def)

lemma andThen_the_ec: "andThen the_ec f st = f (esEc st) st"
  by (simp add: andThen_def)

lemma andThen_read: "andThen (read r) f st = (case r (esTrace st) of Inl e \<Rightarrow> (Inl e, st) | Inr x \<Rightarrow> f x st)"
  by (simp add: read_def andThen_def gets_def lift_def split: sum.split)

lemma buildClient_state: "snd (buildEdgeConnectClient env st) = st"
  by (simp add: buildEdgeConnectClient_def getOauthCredentials_def andThen_assoc andThen_the_ec andThen_read
      andThen_lift ret_def throw_def split: sum.split option.split)

lemma idFromSecret_state: "snd (getEdgeConnectIDFromClientSecret env st) = st"
  by (simp add: getEdgeConnectIDFromClientSecret_def andThen_the_ec andThen_def attempt_def read_def
      gets_def lift_def ret_def throw_def split: sum.split)

lemma at_HostPatterns:
  "at w ec st \<Longrightarrow> ec_HostPatterns (esEc st) = ec_HostPatterns ec \<and> ec_HostMappings (esEc st) = ec_HostMappings ec"
  by (simp add: at_def ec_HostPatterns_def ec_HostMappings_def ec_IsK8SAutomationEnabled_def ec_K8sAutomationHostPattern_def)

lemma at_after:
  assumes "at w ec (snd (m st))" and "\<And>x. keeps (at w ec) (f x)"
  shows "at w ec (snd (andThen m f st))"
  using assms(1) keepsD[OF assms(2)] by (auto simp: andThen_def split: prod.split sum.split)

lemma createEdgeConnect_at:
  assumes "at w ec st"
  shows "at (w @ [CreateEdgeConnect (create_request ec)]) ec (snd (createEdgeConnect env st))"
proof -
  have rq: "newRequest (ecName (esEc st)) (ec_HostPatterns (esEc st)) (ec_HostMappings (esEc st)) [] = create_request ec"
    using assms at_HostPatterns[OF assms] by (simp add: at_def create_request_def)
  have "at (w @ [CreateEdgeConnect (create_request ec)]) ec (snd (cl_CreateEdgeConnect env (create_request ec) st))"
    using assms by (simp add: cl_CreateEdgeConnect_def ask_def at_def tenant_writes_def)
  then show ?thesis
    unfolding createEdgeConnect_def andThen_the_ec rq Let_def by (rule at_after) (intro keeps_intro; simp)
qed

lemma andThen_snd:
  assumes "keeps I m" and "I st" and "\<And>st'. I st' \<Longrightarrow> P st'" and "\<And>x st'. I st' \<Longrightarrow> P (snd (f x st'))"
  shows "P (snd (andThen m f st))"
  using keepsD[OF assms(1,2)] assms(3,4) by (auto simp: andThen_def split: prod.splits sum.splits)

definition updated_at :: "ec_event list \<Rightarrow> edgeconnect \<Rightarrow> ec_state \<Rightarrow> bool" where
  "updated_at w ec st \<longleftrightarrow> at w ec st \<or>
    (\<exists>i client. at (w @ [UpdateEdgeConnect i (newRequest (ecName ec) (ec_HostPatterns ec) (ec_HostMappings ec) client)]) ec st)"

lemma cl_Update_at:
  assumes "at w ec st" "at w ec st1"
  shows "updated_at w ec (snd (cl_UpdateEdgeConnect env i
     (newRequest (ecName (esEc st1)) (ec_HostPatterns (esEc st1)) (ec_HostMappings (esEc st1)) client) st))"
proof (cases "i = []")
  case True
  then show ?thesis using assms by (simp add: cl_UpdateEdgeConnect_def updated_at_def throw_def)
next
  case False
  have "newRequest (ecName (esEc st1)) (ec_HostPatterns (esEc st1)) (ec_HostMappings (esEc st1)) client =
      newRequest (ecName ec) (ec_HostPatterns ec) (ec_HostMappings ec) client"
    using assms(2) at_HostPatterns[OF assms(2)] by (simp add: at_def)
  then show ?thesis
    using False assms(1) by (auto simp: cl_UpdateEdgeConnect_def updated_at_def tell_def ask_def at_def tenant_writes_def)
qed

lemma updateEdgeConnect_at:
  assumes at: "at w ec st"
  shows "updated_at w ec (snd (updateEdgeConnect env st))"
proof -
  have now: "at w ec st' \<Longrightarrow> updated_at w ec st'" for st' by (simp add: updated_at_def)
  have get: "keeps (at w ec) (cl_GetEdgeConnect env i)" for i
    unfolding cl_GetEdgeConnect_def by (intro keeps_intro) simp
  note step = andThen_snd[where I = "at w ec" and P = "updated_at w ec", OF _ _ now]
  show ?thesis
    unfolding updateEdgeConnect_def andThen_the_ec
    by (intro step keeps_read keeps_lift get at) (auto simp: ret_def now cl_Update_at[OF _ at])
qed

lemma delete_mismatched_at:
  assumes "at w ec st" and "rspID found \<noteq> []" and "rspID found \<noteq> sid"
  shows "\<exists>r st'. delete_mismatched env found sid st = (r, st') \<and>
    at (w @ [DeleteEdgeConnect (rspID found)]) ec st' \<and> (\<forall>t. r = Inr t \<longrightarrow> t = [])"
  using assms by (auto simp: delete_mismatched_def cl_DeleteEdgeConnect_def tell_def ask_def andThen_def wrap_msg_def
      ret_def at_def tenant_writes_def split: option.split)


lemma updated_permitted: "updated_at w ec st \<Longrightarrow>
    \<exists>v. tenant_writes (esTrace st) = w @ v \<and> permitted UpdateOne ec failed v"
  by (fastforce simp: updated_at_def at_def)

lemma pure_andThen: "snd (m st) = st \<Longrightarrow> andThen m f st = (case fst (m st) of Inl e \<Rightarrow> (Inl e, st) | Inr x \<Rightarrow> f x st)"
  by (cases "m st") (auto simp: andThen_def split: sum.split)

text \<open>The provisioner as a case analysis, and what the rest of it writes to the tenant after the decision.\<close>

definition provisioner_rest :: "ec_env \<Rightarrow> ec_response \<Rightarrow> string \<Rightarrow> (ec_state, unit) io" where
  "provisioner_rest env found sid =
     andThen (delete_mismatched env found sid) (\<lambda>tenantID.
       if tenantID = [] then
         andThen (createEdgeConnect env) (\<lambda>_. createOrUpdateEdgeConnectDeploymentAndSettings env)
       else
         andThen (updateEdgeConnect env) (\<lambda>_. createOrUpdateEdgeConnectDeploymentAndSettings env))"

lemma provisioner_run:
  "reconcileEdgeConnectProvisioner env st =
     (case fst (buildEdgeConnectClient env st) of
        Inl e \<Rightarrow> (Inl e, st)
      | Inr _ \<Rightarrow>
     (case getEdgeConnectByName env (ecName (esEc st)) st of
        (Inl e, st1) \<Rightarrow> (Inl e, st1)
      | (Inr found, st1) \<Rightarrow>
     (case fst (getEdgeConnectIDFromClientSecret env st1) of
        Inl e \<Rightarrow> (Inl e, st1)
      | Inr sid \<Rightarrow>
          if rspID found \<noteq> [] \<and> \<not> rspManaged found then (Inr (), st1) else provisioner_rest env found sid st1)))"
  unfolding reconcileEdgeConnectProvisioner_def provisioner_rest_def[symmetric]
  by (simp add: pure_andThen[OF buildClient_state] andThen_the_ec andThen_def[where m = "getEdgeConnectByName _ _"]
      pure_andThen[OF idFromSecret_state] ret_def if_distribR cong: sum.case_cong prod.case_cong if_cong)

lemma rest_created:
  assumes "at v ec st"
  shows "tenant_writes (esTrace (snd (andThen (createEdgeConnect env) (\<lambda>_. createOrUpdateEdgeConnectDeploymentAndSettings env) st))) =
      v @ [CreateEdgeConnect (create_request ec)]"
proof -
  have "at (v @ [CreateEdgeConnect (create_request ec)]) ec
      (snd (andThen (createEdgeConnect env) (\<lambda>_. createOrUpdateEdgeConnectDeploymentAndSettings env) st))"
    using createEdgeConnect_at[OF assms] by (rule at_after) (rule keeps_deployment_and_settings)
  then show ?thesis by (simp add: at_def)
qed

lemma rest_updated:
  assumes "at w ec st"
  shows "\<exists>v. tenant_writes (esTrace (snd (andThen (updateEdgeConnect env) (\<lambda>_. createOrUpdateEdgeConnectDeploymentAndSettings env) st))) = w @ v \<and>
     permitted UpdateOne ec failed v"
proof (rule updated_permitted)
  have k: "keeps (at u ec) (createOrUpdateEdgeConnectDeploymentAndSettings env)" for u by (rule keeps_deployment_and_settings)
  have "keeps (updated_at w ec) (createOrUpdateEdgeConnectDeploymentAndSettings env)"
    by (rule keepsI) (metis updated_at_def keepsD[OF k])
  then show "updated_at w ec (snd (andThen (updateEdgeConnect env) (\<lambda>_. createOrUpdateEdgeConnectDeploymentAndSettings env) st))"
    using updateEdgeConnect_at[OF assms, of env] by (auto simp: andThen_def keeps_def split: prod.split sum.split)
qed

lemma rest_permitted:
  assumes at: "at w ec st" and managed: "rspID found = [] \<or> rspManaged found"
    and run: "provisioner_rest env found sid st = (r, st')"
  shows "\<exists>v. tenant_writes (esTrace st') = w @ v \<and> permitted (decide found sid) ec (isl r) v"
proof (cases "decide found sid")
  case LeaveAlone
  then show ?thesis using managed by (auto simp: decide_def split: if_splits)
next
  case CreateOne
  then have "rspID found = []" by (auto simp: decide_def split: if_splits)
  then show ?thesis using rest_created[OF at, of env] CreateOne run by (simp add: provisioner_rest_def delete_mismatched_def)
next
  case (Replace i)
  then have i: "rspID found \<noteq> []" "rspID found \<noteq> sid" "i = rspID found" by (auto simp: decide_def split: if_splits)
  obtain rd st1 where d: "delete_mismatched env found sid st = (rd, st1)"
      "at (w @ [DeleteEdgeConnect i]) ec st1" "\<forall>t. rd = Inr t \<longrightarrow> t = []"
    using delete_mismatched_at[OF at i(1,2)] i(3) by blast
  show ?thesis
    using d Replace rest_created[OF d(2), of env] run
    by (cases rd) (auto simp: provisioner_rest_def andThen_def[where m = "delete_mismatched _ _ _"] at_def)
next
  case UpdateOne
  then have "rspID found \<noteq> []" "rspID found = sid" by (auto simp: decide_def split: if_splits)
  then show ?thesis using rest_updated[OF at, of env "isl r"] UpdateOne run
    by (simp add: provisioner_rest_def delete_mismatched_def)
qed

text \<open>C23. The provisioner implements the abstract one: on the tenant it writes exactly what the decision taken
  from the listed EdgeConnect and the identifier in the secret allows, whatever fails. One that the operator does
  not manage is neither changed nor deleted, nothing else is deleted than the listed one whose identifier
  differs from the secret's, and a deleted one is replaced unless the deletion failed.\<close>

theorem provisioner_refines_decision:
  "\<exists>w. tenant_writes (esTrace (snd (reconcileEdgeConnectProvisioner env st))) = tenant_writes (esTrace st) @ w \<and>
     permitted (provisioner_decision env st) (esEc st) (isl (fst (reconcileEdgeConnectProvisioner env st))) w"
proof -
  obtain r st' where run: "reconcileEdgeConnectProvisioner env st = (r, st')" by fastforce
  obtain rl st1 where l: "getEdgeConnectByName env (ecName (esEc st)) st = (rl, st1)" by fastforce
  have "at (tenant_writes (esTrace st)) (esEc st) st" by (simp add: at_def)
  then have at1: "at (tenant_writes (esTrace st)) (esEc st) st1"
    using keepsD[OF keeps_byName, of _ _ st env "ecName (esEc st)"] l by simp
  then have w1: "tenant_writes (esTrace st1) = tenant_writes (esTrace st)" by (simp add: at_def)
  consider (early) "permitted (provisioner_decision env st) (esEc st) (isl r) []" "st' = st \<or> st' = st1"
    | (rest) found sid where "rspID found = [] \<or> rspManaged found" "provisioner_rest env found sid st1 = (r, st')"
        "provisioner_decision env st = decide found sid"
    using run by (auto simp: provisioner_run provisioner_decision_def l decide_def split: sum.splits if_splits)
  then show ?thesis
  proof cases
    case early
    then show ?thesis using w1 run by auto
  next
    case rest
    then show ?thesis using rest_permitted[OF at1 rest(1,2)] run by simp
  qed
qed


section \<open>Deletion\<close>

text \<open>The trace continues \<open>base\<close> without writing to the tenant.\<close>

definition grows :: "ec_trace \<Rightarrow> ec_state \<Rightarrow> bool" where
  "grows base st \<longleftrightarrow> (\<exists>cs. esTrace st = base @ cs \<and> tenant_writes cs = [])"

lemma grows_refl: "grows (esTrace st) st"
  by (auto simp: grows_def tenant_writes_def)

lemma grows_ask [keeps_intro]: "\<not> tenant_write ev \<Longrightarrow> keeps (grows base) (ask ev f)"
  by (auto simp: keeps_def grows_def ask_def tenant_writes_def)

lemma grows_tell [keeps_intro]: "\<not> tenant_write ev \<Longrightarrow> keeps (grows base) (tell ev f)"
  by (simp add: tell_def grows_ask)

lemma grows_pure [keeps_intro]: "keeps (grows base) the_ec"
  by (simp add: the_ec_def keeps_gets)

lemma grows_settings: "keeps (grows base) (deleteConnectionSetting env)"
  unfolding deleteConnectionSetting_def GetConnectionSetting_def cl_ListEnvironmentSettings_def
    cl_DeleteEnvironmentSetting_def
  by (intro keeps_intro; simp)

lemma byName_managed:
  assumes "getEdgeConnectByName env name st = (Inr found, st1)" and "rspID found \<noteq> []"
  shows "eeList env (esTrace st) name = Inr [found] \<and> esTrace st1 = esTrace st @ [ListEdgeConnects name] \<and> esEc st1 = esEc st"
  using assms by (auto simp: getEdgeConnectByName_def cl_ListEdgeConnects_def andThen_Inr ask_def ret_def zero_response_def
      throw_def split: if_splits simp: length_Suc_conv)

definition deletion_calls :: "ec_env \<Rightarrow> ec_trace \<Rightarrow> string \<Rightarrow> ec_trace \<Rightarrow> bool" where
  "deletion_calls env tr name rest \<longleftrightarrow>
     tenant_writes rest = [] \<or>
     (\<exists>found. eeList env tr name = Inr [found] \<and> rspManaged found \<and>
        tenant_writes rest = [DeleteEdgeConnect (rspID found)] \<and> last rest = DeleteEdgeConnect (rspID found))"

lemma deletion_after_list:
  assumes l: "getEdgeConnectByName env name st = (Inr found, st1)" and f: "rspID found \<noteq> []" "rspManaged found"
    and m: "keeps (grows (esTrace st1)) m"
  shows "\<exists>rest. esTrace (snd (andThen m (\<lambda>_. cl_DeleteEdgeConnect env (rspID found)) st1)) = esTrace st @ rest \<and>
     deletion_calls env (esTrace st) name rest"
proof -
  note b = byName_managed[OF l f(1)]
  obtain r st2 where r: "m st1 = (r, st2)" by fastforce
  obtain cs where cs: "esTrace st2 = esTrace st @ [ListEdgeConnects name] @ cs" "tenant_writes cs = []"
    using keepsD[OF m grows_refl] r b by (auto simp: grows_def)
  show ?thesis
  proof (cases r)
    case (Inl e)
    then show ?thesis using r cs by (auto simp: andThen_def deletion_calls_def tenant_writes_def)
  next
    case (Inr u)
    have "esTrace (snd (cl_DeleteEdgeConnect env (rspID found) st2)) = esTrace st2 @ [DeleteEdgeConnect (rspID found)]"
      using f by (simp add: cl_DeleteEdgeConnect_def tell_def ask_def)
    then show ?thesis using Inr r cs b f(2)
      by (intro exI[of _ "[ListEdgeConnects name] @ cs @ [DeleteEdgeConnect (rspID found)]"])
        (simp add: andThen_def deletion_calls_def tenant_writes_def)
  qed
qed

lemma byName_grows:
  "\<exists>cs. esTrace (snd (getEdgeConnectByName env name st)) = esTrace st @ cs \<and> tenant_writes cs = []"
proof -
  have "keeps (grows (esTrace st)) (getEdgeConnectByName env name)"
    unfolding getEdgeConnectByName_def cl_ListEdgeConnects_def by (intro keeps_intro) simp
  from keepsD[OF this grows_refl] show ?thesis by (simp add: grows_def)
qed

definition after_release :: "ec_env \<Rightarrow> (ec_state, unit) io" where
  "after_release env =
     andThen (buildEdgeConnectClient env) (\<lambda>_.
     andThen the_ec (\<lambda>ec.
     andThen (getEdgeConnectByName env (ecName ec)) (\<lambda>tenantEdgeConnect.
       if rspID tenantEdgeConnect = [] then ret ()
       else if \<not> rspManaged tenantEdgeConnect then ret ()
       else
         andThen (if ec_IsK8SAutomationEnabled ec \<and> ec_IsProvisionerModeEnabled ec
                  then deleteConnectionSetting env else ret ()) (\<lambda>_.
           cl_DeleteEdgeConnect env (rspID tenantEdgeConnect)))))"

lemma after_release_calls:
  "\<exists>rest. esTrace (snd (after_release env st)) = esTrace st @ rest \<and> deletion_calls env (esTrace st) (ecName (esEc st)) rest"
proof -
  obtain rl st2 where l: "getEdgeConnectByName env (ecName (esEc st)) st = (rl, st2)" by fastforce
  obtain cs where cs: "esTrace st2 = esTrace st @ cs" "tenant_writes cs = []"
    using byName_grows[of env "ecName (esEc st)" st] l by auto
  have k: "keeps (grows b) (if c then deleteConnectionSetting env else ret ())" for b c
    by (intro keeps_intro grows_settings)
  consider (stop) "esTrace (snd (after_release env st)) = esTrace st @ []"
    | (listed) "esTrace (snd (after_release env st)) = esTrace st @ cs"
    | (delete) found c where "rl = Inr found" "rspID found \<noteq> []" "rspManaged found"
        "after_release env st = andThen (if c then deleteConnectionSetting env else ret ()) (\<lambda>_. cl_DeleteEdgeConnect env (rspID found)) st2"
  proof (cases "fst (buildEdgeConnectClient env st)"; cases rl)
    fix u found
    assume ok: "fst (buildEdgeConnectClient env st) = Inr u" "rl = Inr found"
    then show thesis using listed delete cs
      by (cases "rspID found = [] \<or> \<not> rspManaged found")
        (auto simp: after_release_def pure_andThen[OF buildClient_state] andThen_the_ec l ret_def
          andThen_def[where m = "getEdgeConnectByName _ _"])
  qed (use stop listed cs in \<open>auto simp: after_release_def pure_andThen[OF buildClient_state] andThen_the_ec l
        andThen_def[where m = "getEdgeConnectByName _ _"]\<close>)
  then show ?thesis
  proof cases
    case stop
    then show ?thesis by (auto simp: deletion_calls_def tenant_writes_def)
  next
    case listed
    then show ?thesis using cs by (auto simp: deletion_calls_def)
  next
    case delete
    have "getEdgeConnectByName env (ecName (esEc st)) st = (Inr found, st2)" using l delete(1) by simp
    from deletion_after_list[OF this delete(2,3) k] show ?thesis unfolding delete(4) .
  qed
qed

text \<open>C34. Deletion of an EdgeConnect: nothing is called before its finalizers are removed, and the tenant is
  cleaned only after that; the one deletion there, if any, is the last call and concerns the one listed
  EdgeConnect with the name when the operator manages it. A failure in between, for instance of the OAuth
  credentials, therefore leaves the tenant's EdgeConnect behind for a resource that no longer exists.\<close>

theorem deletion_releases_before_cleanup:
  "\<exists>cs. esTrace (snd (reconcileEdgeConnectDeletion env st)) = esTrace st @ cs \<and>
     (cs = [] \<or> (\<exists>rest. cs = UpdateFinalizers [] # rest \<and>
        deletion_calls env (esTrace st @ [UpdateFinalizers []]) (ecName (esEc st)) rest))"
proof -
  let ?st1 = "st\<lparr>esEc := (esEc st)\<lparr>ecFinalizers := []\<rparr>, esTrace := esTrace st @ [UpdateFinalizers []]\<rparr>"
  have upd: "update_object env [] st = (case eeUpdateObject env (esTrace st) ((esEc st)\<lparr>ecFinalizers := []\<rparr>) of
      None \<Rightarrow> (Inr (), ?st1) | Some e \<Rightarrow> (Inl e, ?st1))"
    by (simp add: update_object_def andThen_modify andThen_the_ec tell_def ask_def split: option.split)
  have "deletion_calls env (esTrace ?st1) (ecName (esEc st)) []" by (simp add: deletion_calls_def tenant_writes_def)
  moreover have "reconcileEdgeConnectDeletion env st \<in> {(Inl e, st) | e. True} \<union> {(Inl e, ?st1) | e. True} \<union> {after_release env ?st1}"
    unfolding reconcileEdgeConnectDeletion_def after_release_def[symmetric]
    by (auto simp: pure_andThen[OF idFromSecret_state] andThen_def[where m = "update_object _ _"] upd
        split: sum.split option.split)
  ultimately show ?thesis using after_release_calls[of env ?st1] by auto
qed


section \<open>A failed probe\<close>

lemma version_body_failed:
  assumes "\<not> ec_IsCustomImage (esEc st)" and "eeImageDigest env (ec_Image (esEc st)) = Inl e"
  shows "version_body env st = (Inl e, st)"
  using assms by (simp add: version_body_def andThen_the_ec andThen_lift)

text \<open>A probe of the registry that fails counts as a probe: its time is recorded although the deferred
  function means to record it only without an error, so the image found before is not looked up again for the
  next 15 minutes.\<close>

theorem failed_probe_suppresses_next:
  assumes "\<not> ec_IsCustomImage (esEc st)" and "eeImageDigest env (ec_Image (esEc st)) = Inl e"
    and "vsImageID (ecsVersion (ecStatus (esEc st))) \<noteq> []"
    and "has_prefix (vsImageID (ecsVersion (ecStatus (esEc st)))) (ec_Image (esEc st))"
    and "later < eeNow env (esTrace st) + 15 * minute"
  shows "\<exists>st'. version_Update env st = (Inl e, st') \<and> \<not> ec_RequiresReconcile later (esEc st')"
proof -
  let ?now = "eeNow env (esTrace st)"
  let ?st' = "st\<lparr>esEc := (esEc st)\<lparr>ecStatus := (ecStatus (esEc st))\<lparr>ecsVersion :=
      (ecsVersion (ecStatus (esEc st)))\<lparr>vsLastProbeTimestamp := Some ?now\<rparr>\<rparr>\<rparr>\<rparr>"
  have "version_Update env st = (Inl e, ?st')"
    using version_body_failed[OF assms(1,2)]
    by (simp add: version_Update_def attempt_def andThen_def[where m = "attempt _"] andThen_gets
        update_version_def change_status_def andThen_modify lift_def)
  moreover have "ec_Image (esEc ?st') = ec_Image (esEc st)" by (simp add: ec_Image_def)
  ultimately show ?thesis
    using assms(3-5) by (auto simp: ec_RequiresReconcile_def Let_def probe_outdated_def TimeoutReached_def)
qed

section \<open>The configuration secret\<close>

lemma or_condition_Inr:
  "or_condition c m st = (Inr x, st') \<longleftrightarrow> m st = (Inr x, st')"
  by (auto simp: or_condition_def andThen_def attempt_def ret_def throw_def split: prod.splits sum.splits)

lemma read_Inr: "read f st = (Inr x, st') \<longleftrightarrow> f (esTrace st) = Inr x \<and> st' = st"
  by (auto simp: read_def andThen_Inr)

lemma tell_Inr: "tell ev f st = (Inr u, st') \<longleftrightarrow> f (esTrace st) = None \<and> st' = st\<lparr>esTrace := esTrace st @ [ev]\<rparr>"
  by (auto simp: tell_def ask_def split: option.splits)

lemma the_ec_Inr: "the_ec st = (Inr x, st') \<longleftrightarrow> x = esEc st \<and> st' = st"
  by auto

lemma set_ec_condition_run:
  "set_ec_condition c st = (Inr (), st\<lparr>esEc := (esEc st)\<lparr>ecStatus := (ecStatus (esEc st))\<lparr>ecsConditions := ecsConditions (ecStatus (esEc st)) @ [c]\<rparr>\<rparr>\<rparr>)"
  by (simp add: set_ec_condition_def change_status_def modify_def)

lemma current_or_new_token_Inr:
  "current_or_new_token env st = (Inr token, st') \<longleftrightarrow> fst (current_or_new_token env st) = Inr token \<and> st' = st"
  by (auto simp: current_or_new_token_def ec_getToken_def andThen_def attempt_def andThen_the_ec read_def gets_def lift_def
      ret_def throw_def split: prod.splits sum.splits if_splits)

lemma config_secret_ok:
  assumes "createOrUpdateEdgeConnectConfigSecret env st = (Inr (token, hash), st')"
  shows "\<exists>cfile. current_or_new_token env st = (Inr token, st) \<and>
     PrepareConfigFile (eeYamlMarshal env) (eeGetSecret env (esTrace st)) (esEc st) token = Inr cfile \<and>
     GenerateHash (eeMarshalData env) [EdgeConnectConfigFileName \<mapsto> cfile] = Inr hash \<and>
     esTrace st' = esTrace st @ [ApplySecret (config_secret_name (esEc st)) [EdgeConnectConfigFileName \<mapsto> cfile]] \<and>
     ecName (esEc st') = ecName (esEc st) \<and> ecNamespace (esEc st') = ecNamespace (esEc st) \<and> ecSpec (esEc st') = ecSpec (esEc st)"
  using assms unfolding createOrUpdateEdgeConnectConfigSecret_def
  by (auto simp: andThen_Inr or_condition_Inr the_ec_Inr read_Inr tell_Inr Let_def set_ec_condition_run ret_def throw_def
      current_or_new_token_Inr split: option.splits)

definition config_written :: "ec_state \<Rightarrow> smap \<Rightarrow> ec_state" where
  "config_written st data = st\<lparr>esTrace := esTrace st @ [ApplySecret (config_secret_name (esEc st)) data],
     esEc := (esEc st)\<lparr>ecStatus := (ecStatus (esEc st))\<lparr>ecsConditions := ecsConditions (ecStatus (esEc st)) @
       [SetSecretCreated SecretConfigConditionType (config_secret_name (esEc st))]\<rparr>\<rparr>\<rparr>"

lemma config_secret_run:
  assumes "current_or_new_token env st = (Inr token, st)"
    and "PrepareConfigFile (eeYamlMarshal env) (eeGetSecret env (esTrace st)) (esEc st) token = Inr cfile"
    and "eeSetOwner env (esEc st) = None"
    and "eeApplySecret env (esTrace st) (config_secret_name (esEc st)) [EdgeConnectConfigFileName \<mapsto> cfile] = None"
    and "GenerateHash (eeMarshalData env) [EdgeConnectConfigFileName \<mapsto> cfile] = Inr hash"
  shows "createOrUpdateEdgeConnectConfigSecret env st = (Inr (token, hash), config_written st [EdgeConnectConfigFileName \<mapsto> cfile])"
  using assms by (auto simp: createOrUpdateEdgeConnectConfigSecret_def andThen_Inr or_condition_Inr the_ec_Inr read_Inr
      tell_Inr Let_def set_ec_condition_run ret_def config_written_def)

text \<open>The file depends on the name, the namespace, the spec and what the credentials resolve to.\<close>

lemma PrepareConfigFile_cong:
  assumes "ecName ec' = ecName ec" "ecNamespace ec' = ecNamespace ec" "ecSpec ec' = ecSpec ec"
    and "config_oauth r' ec = config_oauth r ec" "config_proxy_of r' ec = config_proxy_of r ec"
  shows "PrepareConfigFile y r' ec' token = PrepareConfigFile y r ec token"
proof -
  have "config_oauth r' ec' = config_oauth r' ec" "config_proxy_of r' ec' = config_proxy_of r' ec"
    using assms(1-3) by (simp_all add: config_oauth_def config_proxy_of_def GetOAuthClientFromSecret_def
        ec_IsProvisionerModeEnabled_def ec_ClientSecretName_def ec_ProxyAuth_def ec_proxyAuthFromUserSecret_def
        cong: sum.case_cong option.case_cong if_cong)
  then show ?thesis
    using assms by (simp add: PrepareConfigFile_def ec_IsK8SAutomationEnabled_def cong: sum.case_cong)
qed

lemma PrepareConfigFile_token:
  assumes "PrepareConfigFile y r ec token = Inr cfile" and "ec_IsK8SAutomationEnabled ec"
  shows "\<exists>cfg. y cfg = Inr cfile \<and> (\<exists>s rest. cfSecrets cfg = s # rest \<and> csecToken s = token)"
proof -
  obtain oAuth proxy where "config_oauth r ec = Inr oAuth" "config_proxy_of r ec = Inr proxy"
    using assms(1) by (auto simp: PrepareConfigFile_def split: sum.splits)
  then show ?thesis using assms
    by (auto simp: PrepareConfigFile_def createKubernetesAPISecret_def intro!: exI)
qed

text \<open>With Kubernetes automation on, the configuration secret is stable: once it has been written, the next
  reconcile reads its token back, writes the same file and computes the same hash, so the Deployment's
  annotation does not change and its pods are not restarted.\<close>

theorem config_secret_stable:
  assumes yaml: "\<forall>cfg s. eeYamlMarshal env cfg = Inr s \<longrightarrow> eeYamlUnmarshal env s = Inr cfg"
    and automation: "ec_IsK8SAutomationEnabled (esEc st)"
    and run: "createOrUpdateEdgeConnectConfigSecret env st = (Inr (token, hash), st1)"
    and stored: "\<forall>tr n d. eeGetSecret env (tr @ [ApplySecret n d]) (ecNamespace (esEc st)) n = Inr d"
    and oauth: "config_oauth (eeGetSecret env (esTrace st1)) (esEc st) = config_oauth (eeGetSecret env (esTrace st)) (esEc st)"
    and proxy: "config_proxy_of (eeGetSecret env (esTrace st1)) (esEc st) = config_proxy_of (eeGetSecret env (esTrace st)) (esEc st)"
    and again: "createOrUpdateEdgeConnectConfigSecret env st1 = (Inr (token', hash'), st2)"
  shows "token' = token \<and> hash' = hash \<and> last (esTrace st2) = last (esTrace st1)"
proof -
  let ?name = "config_secret_name (esEc st)"
  obtain cfile where f: "PrepareConfigFile (eeYamlMarshal env) (eeGetSecret env (esTrace st)) (esEc st) token = Inr cfile"
    "GenerateHash (eeMarshalData env) [EdgeConnectConfigFileName \<mapsto> cfile] = Inr hash"
    "esTrace st1 = esTrace st @ [ApplySecret ?name [EdgeConnectConfigFileName \<mapsto> cfile]]"
    and same: "ecName (esEc st1) = ecName (esEc st)" "ecNamespace (esEc st1) = ecNamespace (esEc st)" "ecSpec (esEc st1) = ecSpec (esEc st)"
    using config_secret_ok[OF run] by blast
  obtain cfile' where f': "current_or_new_token env st1 = (Inr token', st1)"
    "PrepareConfigFile (eeYamlMarshal env) (eeGetSecret env (esTrace st1)) (esEc st1) token' = Inr cfile'"
    "GenerateHash (eeMarshalData env) [EdgeConnectConfigFileName \<mapsto> cfile'] = Inr hash'"
    "esTrace st2 = esTrace st1 @ [ApplySecret ?name [EdgeConnectConfigFileName \<mapsto> cfile']]"
    using config_secret_ok[OF again] same by (auto simp: config_secret_name_def)
  have read: "eeGetSecret env (esTrace st1) (ecNamespace (esEc st1)) (config_secret_name (esEc st1)) = Inr [EdgeConnectConfigFileName \<mapsto> cfile]"
    using stored f(3) same by (simp add: config_secret_name_def)
  have "token_of_config env [EdgeConnectConfigFileName \<mapsto> cfile] = Inr token"
    using PrepareConfigFile_token[OF f(1) automation] yaml by (auto simp: token_of_config_def)
  then have "token' = token"
    using f'(1) read by (simp add: current_or_new_token_def ec_getToken_def andThen_the_ec andThen_read
        andThen_def[where m = "attempt _"] attempt_def lift_def ret_def)
  moreover have "cfile' = cfile"
    using f'(2) f(1) PrepareConfigFile_cong[OF same oauth proxy] \<open>token' = token\<close> by simp
  ultimately show ?thesis using f(2,3) f'(3,4) by simp
qed


section \<open>Examples\<close>

definition example_ec :: edgeconnect where
  "example_ec =
     \<lparr>ecName = ''ec'', ecNamespace = ''dynatrace'', ecFinalizers = [], ecDeletionTimestamp = None,
      ecSpec = \<lparr>esAnnotations = Map.empty, esLabels = Map.empty, esReplicas = Some 1, esNodeSelector = Map.empty,
        esKubernetesAutomation = Some True, esProxy = None, esServiceAccountName = None, esAutoUpdate = None,
        esImageRef = zero_image_ref, esAPIServer = ''abc.apps'', esCustomPullSecret = [], esCaCertsRef = [],
        esOAuth = \<lparr>eoClientSecret = ''creds'', eoEndpoint = ''sso'', eoResource = ''urn'', eoProvisioner = False\<rparr>,
        esResources = \<lparr>erLimits = None, erRequests = None\<rparr>, esHostRestrictions = [], esEnv = [], esTolerations = [],
        esTopologySpreadConstraints = [], esHostPatterns = []\<rparr>,
      ecStatus = \<lparr>ecsPhase = [], ecsVersion = zero_version_status\<lparr>vsImageID := ''docker.io/dynatrace/edgeconnect:latest@sha''\<rparr>,
        ecsUpdatedTimestamp = 0, ecsKubeSystemUID = ''uid'', ecsConditions = []\<rparr>\<rparr>"

definition example_config :: ec_config where
  "example_config =
     \<lparr>cfName = ''ec'', cfAPIEndpointHost = ''abc.apps'', cfOAuthEndpoint = ''sso'', cfOAuthClientID = ''i'',
      cfOAuthClientSecret = ''s'', cfOAuthResource = ''urn'', cfRestrictHostsTo = [],
      cfRootCertificatePaths = [EdgeConnectServiceAccountCAPath], cfProxy = zero_config_proxy,
      cfSecrets = [createKubernetesAPISecret ''tok'']\<rparr>"

definition applied_secret :: "string \<Rightarrow> ec_event \<Rightarrow> smap option \<Rightarrow> smap option" where
  "applied_secret n ev held = (case ev of ApplySecret m d \<Rightarrow> if m = n then Some d else held | _ \<Rightarrow> held)"

definition example_env :: ec_env where
  "example_env =
     \<lparr>eeGetEdgeConnect = \<lambda>ns n. Inr example_ec, eeCRDLatest = Inr True,
      eeGetSecret = \<lambda>tr ns n. (case fold (applied_secret n) tr None of Some d \<Rightarrow> Inr d
        | None \<Rightarrow> if n = ''creds'' then Inr [KeyEdgeConnectOauthClientID \<mapsto> ''i'', KeyEdgeConnectOauthClientSecret \<mapsto> ''s'']
                  else Inl (ApiStatus ''NotFound'')),
      eeGetConfigMap = \<lambda>tr ns n. Inl (ApiStatus ''NotFound''), eeKubeSystemUID = Inr ''uid'',
      eeSpecReplicas = \<lambda>tr ns n. Inr None, eePodReplicas = \<lambda>tr ns n. Inr (1, 1),
      eeUpdateObject = \<lambda>tr ec. None, eeUpdateStatus = \<lambda>tr ec. None, eeSetOwner = \<lambda>ec. None,
      eeApplySecret = \<lambda>tr n d. None, eeApplyDeployment = \<lambda>tr d. None, eeNewClient = \<lambda>ec c ca. None,
      eeList = \<lambda>tr n. Inr [], eeGet = \<lambda>tr i. Inl (HttpCode 404), eeCreate = \<lambda>tr rq. Inr zero_response,
      eeUpdate = \<lambda>tr i rq. None, eeDelete = \<lambda>tr i. None, eeListSettings = \<lambda>tr. Inr [],
      eeCreateSetting = \<lambda>tr s. None, eeUpdateSetting = \<lambda>tr s. None, eeDeleteSetting = \<lambda>tr i. None,
      eeNewRegistryClient = None, eeImageDigest = \<lambda>i. Inl (HttpCode 503), eeParseReference = \<lambda>i. Inr (Some i),
      eeNewToken = \<lambda>tr. Inr ''tok'',
      eeYamlMarshal = \<lambda>c. if c = example_config then Inr ''yaml'' else Inl (Sentinel ''yaml''),
      eeYamlUnmarshal = \<lambda>s. if s = ''yaml'' then Inr example_config else Inl (Sentinel ''yaml''),
      eeMarshalData = \<lambda>d. Inr [1], eeMarshalStatus = \<lambda>s. Inr [2], eeNow = \<lambda>tr. 0, eeMinor = 31\<rparr>"

lemma example_file:
  assumes "eeGetSecret example_env tr ''dynatrace'' ''creds'' = Inr [KeyEdgeConnectOauthClientID \<mapsto> ''i'', KeyEdgeConnectOauthClientSecret \<mapsto> ''s'']"
  shows "config_oauth (eeGetSecret example_env tr) example_ec = Inr \<lparr>oaClientID = ''i'', oaClientSecret = ''s'', oaResource = ''urn''\<rparr>"
    and "config_proxy_of (eeGetSecret example_env tr) example_ec = Inr zero_config_proxy"
  using assms by (simp_all add: config_oauth_def config_proxy_of_def example_ec_def GetOAuthClientFromSecret_def
      ec_IsProvisionerModeEnabled_def)

theorem failed_probe_witness:
  "\<exists>st'. version_Update example_env \<lparr>esTrace = [], esEc = example_ec\<rparr> = (Inl (HttpCode 503), st') \<and>
     \<not> ec_RequiresReconcile minute (esEc st')"
  by (rule failed_probe_suppresses_next)
    (simp_all add: example_env_def example_ec_def ec_IsCustomImage_def zero_image_ref_def ec_Image_def
      ref_StringWithDefaults_def ref_String_def has_prefix_def time_units)

lemma example_run:
  assumes tr: "tr = [] \<or> tr = [ApplySecret ''ec-ec-yaml'' [EdgeConnectConfigFileName \<mapsto> ''yaml'']]"
    and ec: "ec = example_ec\<lparr>ecStatus := s\<rparr>"
  shows "\<exists>hash. createOrUpdateEdgeConnectConfigSecret example_env \<lparr>esTrace = tr, esEc = ec\<rparr> =
     (Inr (''tok'', hash), config_written \<lparr>esTrace = tr, esEc = ec\<rparr> [EdgeConnectConfigFileName \<mapsto> ''yaml''])"
proof -
  have creds: "eeGetSecret example_env tr ''dynatrace'' ''creds'' = Inr [KeyEdgeConnectOauthClientID \<mapsto> ''i'', KeyEdgeConnectOauthClientSecret \<mapsto> ''s'']"
    using tr by (auto simp: example_env_def applied_secret_def)
  have name: "config_secret_name ec = ''ec-ec-yaml''" by (simp add: ec config_secret_name_def example_ec_def)
  have token: "current_or_new_token example_env \<lparr>esTrace = tr, esEc = ec\<rparr> = (Inr ''tok'', \<lparr>esTrace = tr, esEc = ec\<rparr>)"
    using tr by (auto simp: current_or_new_token_def ec_getToken_def andThen_the_ec andThen_read name
        andThen_def[where m = "attempt _"] attempt_def lift_def ret_def read_def gets_def andThen_def token_of_config_def
        example_env_def applied_secret_def renewable_def is_not_found_def example_config_def createKubernetesAPISecret_def)
  have "PrepareConfigFile (eeYamlMarshal example_env) (eeGetSecret example_env tr) example_ec ''tok'' = Inr ''yaml''"
    unfolding PrepareConfigFile_def example_file[OF creds]
    by (simp add: example_env_def example_config_def example_ec_def ec_IsK8SAutomationEnabled_def)
  then have cfile: "PrepareConfigFile (eeYamlMarshal example_env) (eeGetSecret example_env tr) ec ''tok'' = Inr ''yaml''"
    using PrepareConfigFile_cong[of ec example_ec "eeGetSecret example_env tr" "eeGetSecret example_env tr"] ec by simp
  have env: "eeSetOwner example_env x = None" "eeApplySecret example_env t n d = None" "eeMarshalData example_env d = Inr [1]" for x t n d
    by (simp_all add: example_env_def)
  have "\<exists>hash. GenerateHash (eeMarshalData example_env) [EdgeConnectConfigFileName \<mapsto> ''yaml''] = Inr hash"
    by (simp add: GenerateHash_def env)
  then obtain hash where hash: "GenerateHash (eeMarshalData example_env) [EdgeConnectConfigFileName \<mapsto> ''yaml''] = Inr hash" by blast
  show ?thesis
    using config_secret_run[OF token _ _ _ hash] cfile env by auto
qed

theorem config_secret_witness:
  "\<exists>hash st1 st2. createOrUpdateEdgeConnectConfigSecret example_env \<lparr>esTrace = [], esEc = example_ec\<rparr> = (Inr (''tok'', hash), st1) \<and>
     createOrUpdateEdgeConnectConfigSecret example_env st1 = (Inr (''tok'', hash), st2)"
proof -
  let ?st = "\<lparr>esTrace = [], esEc = example_ec\<rparr>" and ?data = "[EdgeConnectConfigFileName \<mapsto> ''yaml'']"
  have "example_ec = example_ec\<lparr>ecStatus := ecStatus example_ec\<rparr>" by simp
  then obtain hash where run: "createOrUpdateEdgeConnectConfigSecret example_env ?st = (Inr (''tok'', hash), config_written ?st ?data)"
    using example_run[of "[]" example_ec] by blast
  have name: "config_secret_name example_ec = ''ec-ec-yaml''" by (simp add: config_secret_name_def example_ec_def)
  obtain s where w: "config_written ?st ?data = \<lparr>esTrace = [ApplySecret ''ec-ec-yaml'' ?data], esEc = example_ec\<lparr>ecStatus := s\<rparr>\<rparr>"
    by (simp add: config_written_def name)
  obtain hash' st2 where again: "createOrUpdateEdgeConnectConfigSecret example_env (config_written ?st ?data) = (Inr (''tok'', hash'), st2)"
    unfolding w using example_run[OF _ refl, of "[ApplySecret ''ec-ec-yaml'' ?data]" s] by blast
  have creds: "eeGetSecret example_env tr ''dynatrace'' ''creds'' = Inr [KeyEdgeConnectOauthClientID \<mapsto> ''i'', KeyEdgeConnectOauthClientSecret \<mapsto> ''s'']"
    if "tr = [] \<or> tr = [ApplySecret ''ec-ec-yaml'' ?data]" for tr
    using that by (auto simp: example_env_def applied_secret_def)
  have tr: "esTrace (config_written ?st ?data) = [ApplySecret ''ec-ec-yaml'' ?data]" by (simp add: w)
  have "''tok'' = ''tok'' \<and> hash' = hash \<and> last (esTrace st2) = last (esTrace (config_written ?st ?data))"
    by (rule config_secret_stable[OF _ _ run _ _ _ again])
      (simp_all only: ec_state.simps tr example_file[OF creds] simp_thms,
        simp_all add: example_env_def example_ec_def ec_IsK8SAutomationEnabled_def applied_secret_def)
  then show ?thesis using run again by blast
qed

end
