(* ===== verification/ValidationText.thy ===== *)
theory ValidationText
  imports GoStd
begin

text \<open>
  The texts of the admission webhooks (\<open>pkg/api/validation\<close>): \<open>fmt.Sprintf\<close> with its arguments
  already rendered, \<open>SumErrors\<close>, the messages about disabled modules, and the message constants of
  the validators of DynaKubes and (prefix \<open>ec_\<close>) EdgeConnects. A validator answers the empty string
  when it has no objection, so what matters for the verdict is that no message is empty.
\<close>

text \<open>Every verb of the formats used takes one argument; \<open>args\<close> are their renderings.\<close>

fun sprintf :: "string \<Rightarrow> string list \<Rightarrow> string" where
  "sprintf (c # d # fmt) (a # args) =
     (if c = CHR ''%'' then a @ sprintf fmt args else c # sprintf (d # fmt) (a # args))"
| "sprintf fmt args = fmt"

definition is_text :: "string \<Rightarrow> bool" where
  "is_text s \<longleftrightarrow> s \<noteq> [] \<and> hd s \<noteq> CHR ''%''"

lemma sprintf_text [simp]: "is_text fmt \<Longrightarrow> sprintf fmt args \<noteq> []"
  by (cases "(fmt, args)" rule: sprintf.cases) (auto simp: is_text_def)

lemma is_text_nonempty: "is_text s \<Longrightarrow> s \<noteq> []"
  by (simp add: is_text_def)

fun number_errors :: "nat \<Rightarrow> string list \<Rightarrow> string" where
  "number_errors i [] = []"
| "number_errors i (errMsg # errs) =
     [CHR 0x0A] @ '' '' @ show_nat (i + 1) @ ''. '' @ errMsg @ number_errors (i + 1) errs"

definition SumErrors :: "string list \<Rightarrow> string \<Rightarrow> string" where
  "SumErrors validationErrors customResourceType =
     [CHR 0x0A] @ show_nat (length validationErrors) @ '' error(s) found in the '' @ customResourceType @
     number_errors 0 validationErrors"

section \<open>Modules of the installation\<close>

text \<open>
  \<open>pkg/util/installconfig\<close>: which parts of the product the Helm chart installed. The JSON decoder
  is a parameter (it refuses an empty text), the environment variable an argument.
\<close>

record modules =
  modCSIDriver :: bool
  modActiveGate :: bool
  modOneAgent :: bool
  modExtensions :: bool
  modLogMonitoring :: bool
  modEdgeConnect :: bool
  modSupportability :: bool
  modKubernetesMonitoring :: bool
  modKSPM :: bool

definition fallbackModules :: modules where
  "fallbackModules =
     \<lparr>modCSIDriver = True, modActiveGate = True, modOneAgent = True, modExtensions = True,
      modLogMonitoring = True, modEdgeConnect = True, modSupportability = True,
      modKubernetesMonitoring = True, modKSPM = True\<rparr>"

definition ReadModules :: "(string \<Rightarrow> modules option) \<Rightarrow> string \<Rightarrow> modules" where
  "ReadModules unmarshal modulesJSON =
     (if modulesJSON = [] then fallbackModules
      else case unmarshal modulesJSON of None \<Rightarrow> fallbackModules | Some m \<Rightarrow> m)"

definition GetModuleValidationErrorMessage :: "string \<Rightarrow> string" where
  "GetModuleValidationErrorMessage moduleName =
     moduleName @ '' has been disabled during Operator install. The necessary resources for '' @ moduleName @
     '' to work are not present on the cluster. Redeploy the Operator via Helm with all the '' @
     ''necessary resources enabled.''"

definition GetDependentModuleValidationErrorMessage :: "string \<Rightarrow> string \<Rightarrow> string" where
  "GetDependentModuleValidationErrorMessage moduleName dependentModule =
     moduleName @ '' has been disabled during Operator install. That is a dependency for '' @ dependentModule @
     '' to work. Redeploy the Operator via Helm with all the necessary resources enabled.''"

lemma module_messages [simp]:
  "GetModuleValidationErrorMessage m \<noteq> []"
  "GetDependentModuleValidationErrorMessage m d \<noteq> []"
  by (simp_all add: GetModuleValidationErrorMessage_def GetDependentModuleValidationErrorMessage_def)

section \<open>Messages about DynaKubes\<close>

definition errorInvalidActiveGateCapability :: string where
  "errorInvalidActiveGateCapability =
     ''The DynaKube's specification tries to use an invalid capability in ActiveGate '' @
     ''section, invalid capability=%s.'' @ [CHR 0x0A] @
     ''Make sure you correctly specify the ActiveGate capabilities in your custom '' @
     ''resource.'' @ [CHR 0x0A]"

definition errorActiveGateInvalidPVCConfiguration :: string where
  "errorActiveGateInvalidPVCConfiguration =
     '' DynaKube specifies a PVC for the ActiveGate while ephemeral volume is also '' @
     ''enabled. These settings are mutually exclusive, please choose only one.''"

definition warningMissingActiveGateMemoryLimit :: string where
  "warningMissingActiveGateMemoryLimit =
     ''ActiveGate specification missing memory limits. Can cause excess memory usage.''"

definition warningActiveGateRollingUpdateOldK8sVersion :: string where
  "warningActiveGateRollingUpdateOldK8sVersion =
     ''ActiveGate rollingUpdate setting requires Kubernetes version 1.35 or higher. '' @
     ''The current cluster version is below 1.35, so the rollingUpdate setting will '' @
     ''be ignored.''"

definition errorActiveGateConflictingVolumeName :: string where
  "errorActiveGateConflictingVolumeName =
     ''The DynaKube's ActiveGate specification uses a volume name that conflicts '' @
     ''with an internally managed volume: %s. Please use a different name.''"

definition errorActiveGateConflictingVolumeMountPath :: string where
  "errorActiveGateConflictingVolumeMountPath =
     ''The DynaKube's ActiveGate specification uses a volume mount path that '' @
     ''conflicts with an internally managed volume: %s. Please use a different path.''"

definition errorActiveGateDisallowedVolumeType :: string where
  "errorActiveGateDisallowedVolumeType =
     ''The DynaKube's ActiveGate specification uses a volume '' @ [CHR 0x22] @ ''%s'' @
     [CHR 0x22] @ '' with a type that is not allowed.''"

definition errorNoAPIURL :: string where
  "errorNoAPIURL =
     ''The DynaKube's specification is missing the API URL or still has the example '' @
     ''value set.'' @ [CHR 0x0A, CHR 0x09] @
     ''Make sure you correctly specify the URL in your custom resource.'' @ [CHR 0x0A, CHR 0x09]"

definition errorInvalidAPIURL :: string where
  "errorInvalidAPIURL =
     ''The DynaKube's specification has an invalid API URL value set.'' @ [CHR 0x0A, CHR 0x09] @
     ''Make sure you correctly specify the URL in your custom resource (including '' @
     ''the /api postfix).'' @ [CHR 0x0A, CHR 0x09]"

definition errorMutatedAPIURL :: string where
  "errorMutatedAPIURL =
     ''The DynaKube's specification mutated the tenant in the API URL although it is '' @
     ''immutable. Please delete the CR and then apply a new one''"

definition errorExtensionDatabaseExecutorImageNotSpecified :: string where
  "errorExtensionDatabaseExecutorImageNotSpecified =
     ''DynaKube's specification enables the database extensions feature, make sure '' @
     ''you correctly specify the sqlExtensionExecutor image.''"

definition errorConflictingDatabasesVolumeMounts :: string where
  "errorConflictingDatabasesVolumeMounts =
     ''Database volume mount (%s) in conflict with a default database volume mount '' @
     ''(%s) detected. Please make sure to avoid such conflicts.''"

definition errorInvalidDatabasesVolumeMount :: string where
  "errorInvalidDatabasesVolumeMount =
     ''Invalid database volume mount detected: %s. No matching database volume found.''"

definition errorUnusedDatabasesVolumes :: string where
  "errorUnusedDatabasesVolumes =
     ''Unused database volume(s) found (%s). Make sure to mount all database volumes '' @
     ''defined in the DynaKube.''"

definition errorInvalidDatabasesVolumeMountPath :: string where
  "errorInvalidDatabasesVolumeMountPath =
     ''Invalid database volume mount path detected (%s). Make sure to use absolute '' @
     ''paths.''"

definition warningHostPathDatabaseVolumeDetected :: string where
  "warningHostPathDatabaseVolumeDetected =
     ''Host path database volume detected. If you're on OpenShift, mounting host '' @
     ''path volumes will be prohibited by the SCC and cause silent failures. If you '' @
     ''still want to do this, make sure to create and bind corresponding roles.''"

definition errorNoDNS1053Label :: string where
  "errorNoDNS1053Label =
     ''The DynaKube name violates DNS-1035, a DNS-1035 label must consist of lower '' @
     ''case alphanumeric characters or '-', start with an alphabetic character, and '' @
     ''end with an alphanumeric character (e.g. 'my-name',  or 'abc-123', regex used '' @
     ''for validation is '[a-z]([-a-z0-9]*[a-z0-9])?')''"

definition errorNameTooLong :: string where
  "errorNameTooLong =
     ''The length limit for the name of a DynaKube is %d, because it is the base for '' @
     ''the name of resources related to the DynaKube. (example: '' @
     ''dkName-activegate-<some-hash>).'' @ [CHR 0x0A] @
     ''    The limit is necessary because kubernetes uses the name of some resources '' @
     ''(example: StatefulSet) for the label value, which has a limit of 63 '' @
     ''characters. (see '' @
     ''https://kubernetes.io/docs/concepts/overview/working-with-objects/labels/#syntax'' @
     ''-and-character-set)''"

definition extensionsNameTooLongSuffix :: string where
  "extensionsNameTooLongSuffix =
     ''.'' @ [CHR 0x0A] @
     ''    When using extensions, some resources require the DynaKube name to be '' @
     ''shorter than usual.''"

definition otelcNameTooLongSuffix :: string where
  "otelcNameTooLongSuffix =
     ''.'' @ [CHR 0x0A] @
     ''    When using OpenTelemetry collectors, some resources require the DynaKube '' @
     ''name to be shorter than usual.''"

definition kspmNameTooLongSuffix :: string where
  "kspmNameTooLongSuffix =
     ''.'' @ [CHR 0x0A] @
     ''    When using KSPM, some resources require the DynaKube name to be shorter '' @
     ''than usual.''"

definition errorExtensionExecutionControllerImageNotSpecified :: string where
  "errorExtensionExecutionControllerImageNotSpecified =
     ''DynaKube's specification enables extensions, make sure you correctly specify '' @
     ''the ExtensionExecutionController image.''"

definition errorExtensionExecutionControllerInvalidPVCConfiguration :: string where
  "errorExtensionExecutionControllerInvalidPVCConfiguration =
     ''DynaKube specifies a PVC for the extension controller while ephemeral volume '' @
     ''is also enabled. These settings are mutually exclusive, please choose only one.''"

definition warningConflictingAPIURLForExtensions :: string where
  "warningConflictingAPIURLForExtensions =
     ''You are already using a Dynakube ('%s') that enables extensions. Having '' @
     ''multiple Dynakubes with same '.spec.apiUrl' and '.spec.extensions' enabled '' @
     ''can have severe side-effects on '' @ [CHR 0xE2, CHR 0x80, CHR 0x9C] @ ''sum'' @
     [CHR 0xE2, CHR 0x80, CHR 0x9D] @ '' and '' @ [CHR 0xE2, CHR 0x80, CHR 0x9C] @ ''count'' @
     [CHR 0xE2, CHR 0x80, CHR 0x9D] @ '' metrics and cause double-billing.''"

definition warningExtensionsWithoutK8SMonitoring :: string where
  "warningExtensionsWithoutK8SMonitoring =
     ''The Dynakube is configured with extensions without an ActiveGate with '' @
     ''`kubernetes-monitoring` enabled or the `automatic-kubernetes-api-monitoring` '' @
     ''feature flag. You need to ensure that Kubernetes monitoring is setup for this '' @
     ''cluster.''"

definition warningFeatureFlagDeprecated :: string where
  "warningFeatureFlagDeprecated =
     ''Using deprecated feature flags: ''"

definition warningFeatureFlagUnknown :: string where
  "warningFeatureFlagUnknown =
     ''Using unknown feature flags: %s. Please remove them from Dynakube specification.''"

definition warningNodeImagePullWithoutCSI :: string where
  "warningNodeImagePullWithoutCSI =
     ''The `feature.dynatrace.com/node-image-pull` annotation is set, but the CSI '' @
     ''driver is not available on this cluster. This feature flag only affects the '' @
     ''behavior of the CSI driver, so it will have no effect. Other previous '' @
     ''`node-image-pull` related behavior has been defaulted.''"

definition errorInvalidNoProxy :: string where
  "errorInvalidNoProxy =
     ''The DynaKube's specification has an invalid value set using the '' @
     ''feature.dynatrace.com/no-proxy annotation. Make sure to remove forbidden '' @
     ''characters (newline, tab, carriage return, null) from the value in your '' @
     ''custom resource.''"

definition errorInvalidHostGroupProperty :: string where
  "errorInvalidHostGroupProperty =
     ''The DynaKube's specification has an invalid Host Group value set using the '' @
     ''oneAgent.hostGroup property. Make sure to remove forbidden characters '' @
     ''(newline, tab, carriage return, null) from the Host Group value in your '' @
     ''custom resource.''"

definition errorInvalidHostGroupAsParam :: string where
  "errorInvalidHostGroupAsParam =
     ''The DynaKube's specification has an invalid Host Group value set using the '' @
     ''--set-host-group argument. Make sure to remove forbidden characters (newline, '' @
     ''tab, carriage return, null) from the Host Group value in your custom resource.''"

definition errorUnparsableImageRef :: string where
  "errorUnparsableImageRef =
     ''Custom %s image can't be parsed, make sure it's a valid image reference.''"

definition errorNoIstioInstalled :: string where
  "errorNoIstioInstalled =
     ''No resources for istio available''"

definition errorTooManyKubernetesMonitoringReplicas :: string where
  "errorTooManyKubernetesMonitoringReplicas =
     ''The Dynakube's specification specifies KSPM, but has more than one replica. '' @
     ''Only one ActiveGate or kubernetesMonitoring replica is allowed in combination '' @
     ''with KSPM.''"

definition errorKSPMMissingKubernetesMonitoring :: string where
  "errorKSPMMissingKubernetesMonitoring =
     ''The Dynakube's specification specifies KSPM, but requires either a '' @
     ''`kubernetesMonitoring` spec with `registration` configured or an ActiveGate '' @
     ''with `kubernetes-monitoring` and `automatic-kubernetes-api-monitoring` enabled.''"

definition errorKSPMMissingImage :: string where
  "errorKSPMMissingImage =
     ''The Dynakube's specification specifies KSPM, but no image repository/tag is '' @
     ''configured.''"

definition warningKSPMNoHostPaths :: string where
  "warningKSPMNoHostPaths =
     ''The Dynakube's specification specifies KSPM, but no MappedHostPaths are '' @
     ''configured.''"

definition errorKSPMRootHostPath :: string where
  "errorKSPMRootHostPath =
     ''The Dynakube's specification specifies KSPM, use either '/' or specific '' @
     ''path(s) on the MappedHostPath list.''"

definition errorKSPMRelativeHostPath :: string where
  "errorKSPMRelativeHostPath =
     ''The Dynakube's specification specifies KSPM, relative path found on the '' @
     ''MappedHostPath list. Use absolute paths only. Relative path: %s''"

definition warningLogMonitoringIgnoredTemplate :: string where
  "warningLogMonitoringIgnoredTemplate =
     ''The Dynakube's `spec.templates.logMonitoring` section is skipped as the '' @
     ''`spec.oneagent` section is also configured.''"

definition errorLogMonitoringMissingImage :: string where
  "errorLogMonitoringMissingImage =
     ''The Dynakube's specification specifies standalone Log monitoring, but no '' @
     ''image repository/tag is configured.''"

definition errorInvalidLogmonArgument :: string where
  "errorInvalidLogmonArgument =
     ''The DynaKube' spec.templates.logMonitoring.args contains invalid arguments. '' @
     ''Make sure to remove forbidden characters (newline, tab, carriage return, '' @
     ''null) from the value in your custom resource.''"

definition warningMetadataEnrichmentDisabledForInjection :: string where
  "warningMetadataEnrichmentDisabledForInjection =
     ''metadataEnrichment.enabled is set to false, but OneAgent injection is enabled '' @
     ''(applicationMonitoring/cloudNativeFullstack). Metadata enrichment will still '' @
     ''be applied and this setting is ignored.''"

definition errorConflictingNamespaceSelector :: string where
  "errorConflictingNamespaceSelector =
     ''The DynaKube's specification tries to inject into namespaces where another '' @
     ''Dynakube already injects into, which is not supported.'' @ [CHR 0x0A] @
     ''Make sure the namespaceSelector doesn't conflict with other Dynakubes '' @
     ''namespaceSelector''"

definition errorInvalidOneAgentNamespaceSelector :: string where
  "errorInvalidOneAgentNamespaceSelector =
     ''OneAgent namespaceSelector contains invalid matchLabels or matchExpressions.''"

definition errorInvalidMetadataEnrichmentNamespaceSelector :: string where
  "errorInvalidMetadataEnrichmentNamespaceSelector =
     ''Metadata enrichment namespaceSelector contains invalid matchLabels or '' @
     ''matchExpressions.''"

definition errorInvalidOTLPExporterNamespaceSelector :: string where
  "errorInvalidOTLPExporterNamespaceSelector =
     ''OTLP exporter configuration namespaceSelector contains invalid matchLabels or '' @
     ''matchExpressions.''"

definition errorInvalidNetworkZone :: string where
  "errorInvalidNetworkZone =
     ''The DynaKube's specification has an invalid Network Zone value set. Make sure '' @
     ''to remove forbidden characters (newline, tab, carriage return, null) from the '' @
     ''Network Zone value in your custom resource.''"

definition errorConflictingOneagentMode :: string where
  "errorConflictingOneagentMode =
     ''The DynaKube specification attempts to use multiple OneAgent modes '' @
     ''simultaneously, which is not supported.''"

definition errorNodeSelectorConflict :: string where
  "errorNodeSelectorConflict =
     ''The Dynakube specification conflicts with another Dynakube's OneAgent or '' @
     ''Standalone-LogMonitoring. Only one Agent per node is supported.'' @ [CHR 0x0A] @
     ''Use a nodeSelector to avoid this conflict. Conflicting DynaKubes: %s''"

definition errorVolumeStorageReadOnlyModeConflict :: string where
  "errorVolumeStorageReadOnlyModeConflict =
     ''The DynaKube specification specifies a read-only host file system while '' @
     ''OneAgent has volume storage enabled.''"

definition warningDeprecatedMaxUnavailableAnnotationWithRollingUpdate :: string where
  "warningDeprecatedMaxUnavailableAnnotationWithRollingUpdate =
     ''The DynaKube specification uses both the deprecated annotation '' @ [CHR 0x22] @
     ''oneagent-max-unavailable'' @ [CHR 0x22] @
     '' and a rollingUpdate configuration. Please use only the rollingUpdate '' @
     ''configuration.''"

definition warningOneAgentInstallerEnvVars :: string where
  "warningOneAgentInstallerEnvVars =
     ''The environment variables ONEAGENT_INSTALLER_SCRIPT_URL and '' @
     ''ONEAGENT_INSTALLER_TOKEN are only relevant for an unsupported image type. '' @
     ''Please ensure you are using a supported image.''"

definition warningHostGroupConflict :: string where
  "warningHostGroupConflict =
     ''The DynaKube specification sets the host group using the --set-host-group '' @
     ''parameter. Instead, specify the new spec.oneagent.hostGroup field. If both '' @
     ''settings are used, the new field takes precedence over the parameter.''"

definition warningDeprecatedAutoUpdate :: string where
  "warningDeprecatedAutoUpdate =
     ''AutoUpdate field is deprecated. The feature is still available by configuring '' @
     ''the DynaTrace tenant. Please visit our documentation for more details.''"

definition versionInvalidMessage :: string where
  "versionInvalidMessage =
     ''The OneAgent's version is only valid in the '' @
     ''format 'major.minor.patch.timestamp', e.g. 1.0.0.20240101-000000''"

definition errorDuplicateOneAgentArgument :: string where
  "errorDuplicateOneAgentArgument =
     ''%s has been provided multiple times. Only --set-host-property and '' @
     ''--set-host-tag arguments may be provided multiple times.''"

definition errorHostIDSourceArgumentInCloudNative :: string where
  "errorHostIDSourceArgumentInCloudNative =
     ''Setting --set-host-id-source in CloudNativFullstack mode is not allowed.''"

definition errorSameHostTagMultipleTimes :: string where
  "errorSameHostTagMultipleTimes =
     ''Providing the same tag(s) (%s) multiple times with --set-host-tag is not '' @ ''allowed.''"

definition errorInvalidOneAgentArgument :: string where
  "errorInvalidOneAgentArgument =
     ''The DynaKube's OneAgent specification contains invalid arguments. Make sure '' @
     ''to remove forbidden characters (newline, tab, carriage return, null) from the '' @
     ''value in your custom resource.''"

definition warningDeprecatedVersion :: string where
  "warningDeprecatedVersion =
     ''version field is deprecated. Please use '' @ [CHR 0x22] @ ''%s'' @ [CHR 0x22] @
     '' field instead to set a version.''"

definition warningDeprecatedVersionIgnored :: string where
  "warningDeprecatedVersionIgnored =
     ''version field is deprecated and ignored. Please remove the version field from '' @
     ''the DynaKube specification.''"

definition errorImagePullRequiresCodeModulesImage :: string where
  "errorImagePullRequiresCodeModulesImage =
     ''The DynaKube specification enables node image pull, but neither a code '' @
     ''modules image is set nor a public registry is used.''"

definition warningPaasTokenNotUsed :: string where
  "warningPaasTokenNotUsed =
     ''The 'paasToken' token in the spec.tokens secret is deprecated. It will be '' @
     ''ignored because the 'apiToken' field in the secret contains a platform token, '' @
     ''which will be used for authentication.''"

definition warningPaasTokenUsed :: string where
  "warningPaasTokenUsed =
     ''The 'paasToken' token in the spec.tokens secret is deprecated. It will be '' @
     ''used for authentication because the 'apiToken' field in the secret does not '' @
     ''contain a platform token.''"

definition errorInvalidProxyURL :: string where
  "errorInvalidProxyURL =
     ''The DynaKube's specification has an invalid Proxy URL value set. Make sure '' @
     ''you correctly specify the URL in your custom resource or in the provided secret.''"

definition errorInvalidEvalCharacter :: string where
  "errorInvalidEvalCharacter =
     ''The DynaKube's specification has an invalid Proxy password value set. Make '' @
     ''sure you don't use forbidden characters: space, apostrophe, backtick, comma, '' @
     ''ampersand, equals sign, plus sign, percent sign, backslash.''"

definition errorMissingProxySecret :: string where
  "errorMissingProxySecret =
     ''Error occurred while reading PROXY secret indicated in the Dynakube '' @ ''specification''"

definition errorPublicRegistryOverrideWithoutPublicRegistry :: string where
  "errorPublicRegistryOverrideWithoutPublicRegistry =
     ''The publicRegistryOverride field is set, but the feature flag '' @ [CHR 0x22] @ ''%s'' @
     [CHR 0x22] @ '' is not enabled. Either enable the feature flag or remove the '' @
     ''publicRegistryOverride field.''"

definition warningPublicRegistryFlagIgnoredForPlatformToken :: string where
  "warningPublicRegistryFlagIgnoredForPlatformToken =
     ''The feature flag '' @ [CHR 0x22] @ ''%s'' @ [CHR 0x22] @
     '' is set, but it is ignored because a platform token is in use. The public '' @
     ''registry endpoint is used automatically with platform tokens.''"

definition errorClassicFullStackIncompatibleWithPublicRegistry :: string where
  "errorClassicFullStackIncompatibleWithPublicRegistry =
     ''The DynaKube's specification uses classicFullStack, which is not compatible '' @
     ''with the public registry feature or platform tokens. Consider upgrading to '' @
     ''cloudNativeFullStack.''"

definition warningGlobalResourceAttributesExceedsLimit :: string where
  "warningGlobalResourceAttributesExceedsLimit =
     ''This resource defines %d global resource attributes, which exceeds the '' @
     ''recommended limit of 10. Attributes increase ingestion volume resulting in '' @
     ''higher ingest cost. Consider removing attributes or consolidating metadata '' @
     ''before applying this DynaKube resource.''"

definition warningOneAgentResourceAttributesExceedsLimit :: string where
  "warningOneAgentResourceAttributesExceedsLimit =
     ''This resource defines %d resource attributes for the OneAgent, which exceeds '' @
     ''the recommended limit of 10. Attributes increase ingestion volume resulting '' @
     ''in higher ingest cost. Consider removing attributes or consolidating metadata '' @
     ''before applying this DynaKube resource.''"

definition warningOTLPResourceAttributesExceedsLimit :: string where
  "warningOTLPResourceAttributesExceedsLimit =
     ''This resource defines %d resource attributes for OTLP exporter '' @
     ''auto-configuration, which exceeds the recommended limit of 10. Attributes '' @
     ''increase ingestion volume resulting in higher ingest cost. Consider removing '' @
     ''attributes or consolidating metadata before applying this DynaKube resource.''"

definition errorResourceAttributesInvalidGlobal :: string where
  "errorResourceAttributesInvalidGlobal =
     ''spec.resourceAttributes contains invalid entries: %s''"

definition errorResourceAttributesInvalidOneAgent :: string where
  "errorResourceAttributesInvalidOneAgent =
     ''spec.oneAgent.*.additionalResourceAttributes contains invalid entries: %s''"

definition errorResourceAttributesInvalidOTLP :: string where
  "errorResourceAttributesInvalidOTLP =
     ''spec.otlpExporterConfiguration.additionalResourceAttributes contains invalid '' @
     ''entries: %s''"

definition warnResourceAttributesSanitizationGlobal :: string where
  "warnResourceAttributesSanitizationGlobal =
     ''spec.resourceAttributes contains invalid keys that will be automatically '' @
     ''renamed:%s. Consider updating these keys in your DynaKube spec to avoid '' @
     ''confusion.''"

definition warnResourceAttributesSanitizationOneAgent :: string where
  "warnResourceAttributesSanitizationOneAgent =
     ''spec.oneAgent.*.additionalResourceAttributes contains invalid keys that will '' @
     ''be automatically renamed:%s. Consider updating these keys in your DynaKube '' @
     ''spec to avoid confusion.''"

definition warnResourceAttributesSanitizationOTLP :: string where
  "warnResourceAttributesSanitizationOTLP =
     ''spec.otlpExporterConfiguration.additionalResourceAttributes contains invalid '' @
     ''keys that will be automatically renamed:%s. Consider updating these keys in '' @
     ''your DynaKube spec to avoid confusion.''"

definition errorResourceAttributesSanitizationGlobal :: string where
  "errorResourceAttributesSanitizationGlobal =
     ''spec.resourceAttributes contains invalid keys:%s''"

definition errorResourceAttributesSanitizationOneAgent :: string where
  "errorResourceAttributesSanitizationOneAgent =
     ''spec.oneAgent.*.additionalResourceAttributes contains invalid keys:%s''"

definition errorResourceAttributesSanitizationOTLP :: string where
  "errorResourceAttributesSanitizationOTLP =
     ''spec.otlpExporterConfiguration.additionalResourceAttributes contains invalid '' @
     ''keys:%s''"

definition errorTelemetryIngestNotEnoughProtocols :: string where
  "errorTelemetryIngestNotEnoughProtocols =
     ''DynaKube's specification enables the TelemetryIngest feature, at least one '' @
     ''Protocol has to be specified.''"

definition errorTelemetryIngestUnknownProtocols :: string where
  "errorTelemetryIngestUnknownProtocols =
     ''DynaKube's specification enables the TelemetryIngest feature, unsupported '' @
     ''protocols found on the Protocols list.''"

definition errorTelemetryIngestNoDNS1053Label :: string where
  "errorTelemetryIngestNoDNS1053Label =
     ''DynaKube's specification enables the TelemetryIngest feature, the telemetry '' @
     ''service name violates DNS-1035.'' @ [CHR 0x0A] @
     ''    [The length limit for the name is %d. Additionally a DNS-1035 name must '' @
     ''consist of lower case alphanumeric characters or '-', start with an '' @
     ''alphabetic character, and end with an alphanumeric character (e.g. 'my-name', '' @
     '' or 'abc-123', regex used for validation is '[a-z]([-a-z0-9]*[a-z0-9])?')]'' @
     [CHR 0x0A, CHR 0x09]"

definition errorTelemetryIngestServiceNameInUse :: string where
  "errorTelemetryIngestServiceNameInUse =
     ''The DynaKube's specification enables the TelemetryIngest feature, the '' @
     ''telemetry service name is already used by other Dynakube.''"

definition errorTelemetryIngestForbiddenServiceName :: string where
  "errorTelemetryIngestForbiddenServiceName =
     ''The DynaKube's specification enables the TelemetryIngest feature, the '' @
     ''telemetry service name is incorrect because of forbidden suffix.''"

definition errorOTelCollectorMissingImage :: string where
  "errorOTelCollectorMissingImage =
     ''The Dynakube's specification specifies the OTel Collector, but no image '' @
     ''repository/tag is configured.''"

definition warningOTelCollectorIgnoredTemplate :: string where
  "warningOTelCollectorIgnoredTemplate =
     ''The Dynakube's `spec.templates.otelCollector` section is skipped as the '' @
     ''`spec.telemetryIngest` section is not configured. Consider either removing '' @
     ''`spec.templates.otelCollector.imageRef` or enabling `spec.telemetryIngest`.''"

section \<open>Messages about EdgeConnects\<close>

definition ec_errorInvalidAPIServer :: string where
  "ec_errorInvalidAPIServer =
     ''The EdgeConnect's specification has an invalid apiServer value set.'' @
     [CHR 0x0A, CHR 0x09] @
     ''Make sure you correctly specify the apiServer in your custom resource.'' @
     [CHR 0x0A, CHR 0x09]"

definition ec_errorMissingAllowedSuffixAPIServer :: string where
  "ec_errorMissingAllowedSuffixAPIServer =
     ''The EdgeConnect's specification has an invalid apiServer value set.'' @
     [CHR 0x0A, CHR 0x09] @ ''Example valid values:'' @ [CHR 0x0A, CHR 0x09] @
     ''-  For prod: '' @ [CHR 0x22] @ ''<tenantID>.apps.dynatrace.com'' @
     [CHR 0x22, CHR 0x0A, CHR 0x09] @ ''-  For dev: '' @ [CHR 0x22] @
     ''<tenantID>.dev.apps.dynatracelabs.com'' @ [CHR 0x22, CHR 0x0A, CHR 0x09] @
     ''-  For sprint: '' @ [CHR 0x22] @ ''<tenantID>.sprint.apps.dynatracelabs.com'' @
     [CHR 0x22, CHR 0x0A, CHR 0x09] @
     ''Make sure you correctly specify the apiServer in your custom resource.'' @
     [CHR 0x0A, CHR 0x09]"

definition ec_errorProtocolIsNotAllowedAPIServer :: string where
  "ec_errorProtocolIsNotAllowedAPIServer =
     ''The EdgeConnect's specification has an invalid apiServer value set.'' @
     [CHR 0x0A, CHR 0x09] @ ''Should NOT include protocol.'' @ [CHR 0x0A, CHR 0x09] @
     ''Make sure you correctly specify the apiServer in your custom resource.'' @
     [CHR 0x0A, CHR 0x09]"

definition ec_errorAutomationRequiresProvisioner :: string where
  "ec_errorAutomationRequiresProvisioner =
     ''When enabling Kubernetes automation using provisioner mode is mandatory! '' @
     ''Please enable spec.oauth.provisioner and provide a resp. OAuth client '' @
     ''configuration.''"

definition ec_errorHostPattersIsRequired :: string where
  "ec_errorHostPattersIsRequired =
     ''hostPatterns is required when using provisioner mode''"

definition ec_errorNameTooLong :: string where
  "ec_errorNameTooLong =
     ''The length limit for the name of a EdgeConnect is %d, because it is the base '' @
     ''for the name of resources related to the EdgeConnect.'' @ [CHR 0x0A, CHR 0x09] @
     ''The limit is necessary because kubernetes uses the name of some resources for '' @
     ''the label value, which has a limit of 63 characters. (see '' @
     ''https://kubernetes.io/docs/concepts/overview/working-with-objects/labels/#syntax'' @
     ''-and-character-set)''"

definition ec_errorInvalidOauthEndpoint :: string where
  "ec_errorInvalidOauthEndpoint =
     ''The EdgeConnect's specification has an invalid oauth.endpoint value set.'' @
     [CHR 0x0A, CHR 0x09] @
     ''Make sure you correctly specify the endpoint in your custom resource.'' @
     [CHR 0x0A, CHR 0x09]"

definition ec_errorProtocolIsMissingOauthEndpoint :: string where
  "ec_errorProtocolIsMissingOauthEndpoint =
     ''The EdgeConnect's specification has an invalid oauth.endpoint value set.'' @
     [CHR 0x0A, CHR 0x09] @ ''Should include 'https' protocol.'' @ [CHR 0x0A, CHR 0x09] @
     ''Make sure you correctly specify the oauth.endpoint in your custom resource.'' @
     [CHR 0x0A, CHR 0x09]"

definition ec_errorUnknownSSOServer :: string where
  "ec_errorUnknownSSOServer =
     ''The EdgeConnect's specification has an invalid oauth.endpoint value set.'' @
     [CHR 0x0A, CHR 0x09] @ ''Example valid values:'' @ [CHR 0x0A, CHR 0x09] @
     ''-  For prod: '' @ [CHR 0x22] @ ''sso.dynatrace.com'' @ [CHR 0x22, CHR 0x0A, CHR 0x09] @
     ''-  For dev: '' @ [CHR 0x22] @ ''sso-dev.dynatracelabs.com'' @ [CHR 0x22] @ '','' @
     [CHR 0x0A, CHR 0x09] @ ''-  For sprint: '' @ [CHR 0x22] @
     ''sso.sprint.dynatracelabs.com'' @ [CHR 0x22, CHR 0x0A, CHR 0x09] @
     ''Make sure you correctly specify the endpoint in your custom resource.'' @
     [CHR 0x0A, CHR 0x09]"

definition ec_errorInvalidServiceName :: string where
  "ec_errorInvalidServiceName =
     ''The EdgeConnect's specification has an invalid serviceAccountName.'' @ [CHR 0x0A]"

section \<open>No message is empty\<close>

lemma texts_a [simp]:
  "is_text errorInvalidActiveGateCapability"
  "is_text errorActiveGateInvalidPVCConfiguration"
  "is_text warningMissingActiveGateMemoryLimit"
  "is_text warningActiveGateRollingUpdateOldK8sVersion"
  "is_text errorActiveGateConflictingVolumeName"
  "is_text errorActiveGateConflictingVolumeMountPath"
  "is_text errorActiveGateDisallowedVolumeType"
  "is_text errorNoAPIURL"
  "is_text errorInvalidAPIURL"
  "is_text errorMutatedAPIURL"
  "is_text errorExtensionDatabaseExecutorImageNotSpecified"
  "is_text errorConflictingDatabasesVolumeMounts"
  "is_text errorInvalidDatabasesVolumeMount"
  "is_text errorUnusedDatabasesVolumes"
  "is_text errorInvalidDatabasesVolumeMountPath"
  "is_text warningHostPathDatabaseVolumeDetected"
  "is_text errorNoDNS1053Label"
  "is_text errorNameTooLong"
  "is_text extensionsNameTooLongSuffix"
  "is_text otelcNameTooLongSuffix"
  by (simp_all add: is_text_def
      errorInvalidActiveGateCapability_def
      errorActiveGateInvalidPVCConfiguration_def
      warningMissingActiveGateMemoryLimit_def
      warningActiveGateRollingUpdateOldK8sVersion_def
      errorActiveGateConflictingVolumeName_def
      errorActiveGateConflictingVolumeMountPath_def
      errorActiveGateDisallowedVolumeType_def
      errorNoAPIURL_def
      errorInvalidAPIURL_def
      errorMutatedAPIURL_def
      errorExtensionDatabaseExecutorImageNotSpecified_def
      errorConflictingDatabasesVolumeMounts_def
      errorInvalidDatabasesVolumeMount_def
      errorUnusedDatabasesVolumes_def
      errorInvalidDatabasesVolumeMountPath_def
      warningHostPathDatabaseVolumeDetected_def
      errorNoDNS1053Label_def
      errorNameTooLong_def
      extensionsNameTooLongSuffix_def
      otelcNameTooLongSuffix_def)

lemma texts_b [simp]:
  "is_text kspmNameTooLongSuffix"
  "is_text errorExtensionExecutionControllerImageNotSpecified"
  "is_text errorExtensionExecutionControllerInvalidPVCConfiguration"
  "is_text warningConflictingAPIURLForExtensions"
  "is_text warningExtensionsWithoutK8SMonitoring"
  "is_text warningFeatureFlagDeprecated"
  "is_text warningFeatureFlagUnknown"
  "is_text warningNodeImagePullWithoutCSI"
  "is_text errorInvalidNoProxy"
  "is_text errorInvalidHostGroupProperty"
  "is_text errorInvalidHostGroupAsParam"
  "is_text errorUnparsableImageRef"
  "is_text errorNoIstioInstalled"
  "is_text errorTooManyKubernetesMonitoringReplicas"
  "is_text errorKSPMMissingKubernetesMonitoring"
  "is_text errorKSPMMissingImage"
  "is_text warningKSPMNoHostPaths"
  "is_text errorKSPMRootHostPath"
  "is_text errorKSPMRelativeHostPath"
  "is_text warningLogMonitoringIgnoredTemplate"
  by (simp_all add: is_text_def
      kspmNameTooLongSuffix_def
      errorExtensionExecutionControllerImageNotSpecified_def
      errorExtensionExecutionControllerInvalidPVCConfiguration_def
      warningConflictingAPIURLForExtensions_def
      warningExtensionsWithoutK8SMonitoring_def
      warningFeatureFlagDeprecated_def
      warningFeatureFlagUnknown_def
      warningNodeImagePullWithoutCSI_def
      errorInvalidNoProxy_def
      errorInvalidHostGroupProperty_def
      errorInvalidHostGroupAsParam_def
      errorUnparsableImageRef_def
      errorNoIstioInstalled_def
      errorTooManyKubernetesMonitoringReplicas_def
      errorKSPMMissingKubernetesMonitoring_def
      errorKSPMMissingImage_def
      warningKSPMNoHostPaths_def
      errorKSPMRootHostPath_def
      errorKSPMRelativeHostPath_def
      warningLogMonitoringIgnoredTemplate_def)

lemma texts_c [simp]:
  "is_text errorLogMonitoringMissingImage"
  "is_text errorInvalidLogmonArgument"
  "is_text warningMetadataEnrichmentDisabledForInjection"
  "is_text errorConflictingNamespaceSelector"
  "is_text errorInvalidOneAgentNamespaceSelector"
  "is_text errorInvalidMetadataEnrichmentNamespaceSelector"
  "is_text errorInvalidOTLPExporterNamespaceSelector"
  "is_text errorInvalidNetworkZone"
  "is_text errorConflictingOneagentMode"
  "is_text errorNodeSelectorConflict"
  "is_text errorVolumeStorageReadOnlyModeConflict"
  "is_text warningDeprecatedMaxUnavailableAnnotationWithRollingUpdate"
  "is_text warningOneAgentInstallerEnvVars"
  "is_text warningHostGroupConflict"
  "is_text warningDeprecatedAutoUpdate"
  "is_text versionInvalidMessage"
  "is_text errorHostIDSourceArgumentInCloudNative"
  "is_text errorSameHostTagMultipleTimes"
  "is_text errorInvalidOneAgentArgument"
  "is_text warningDeprecatedVersion"
  by (simp_all add: is_text_def
      errorLogMonitoringMissingImage_def
      errorInvalidLogmonArgument_def
      warningMetadataEnrichmentDisabledForInjection_def
      errorConflictingNamespaceSelector_def
      errorInvalidOneAgentNamespaceSelector_def
      errorInvalidMetadataEnrichmentNamespaceSelector_def
      errorInvalidOTLPExporterNamespaceSelector_def
      errorInvalidNetworkZone_def
      errorConflictingOneagentMode_def
      errorNodeSelectorConflict_def
      errorVolumeStorageReadOnlyModeConflict_def
      warningDeprecatedMaxUnavailableAnnotationWithRollingUpdate_def
      warningOneAgentInstallerEnvVars_def
      warningHostGroupConflict_def
      warningDeprecatedAutoUpdate_def
      versionInvalidMessage_def
      errorHostIDSourceArgumentInCloudNative_def
      errorSameHostTagMultipleTimes_def
      errorInvalidOneAgentArgument_def
      warningDeprecatedVersion_def)

lemma texts_d [simp]:
  "is_text warningDeprecatedVersionIgnored"
  "is_text errorImagePullRequiresCodeModulesImage"
  "is_text warningPaasTokenNotUsed"
  "is_text warningPaasTokenUsed"
  "is_text errorInvalidProxyURL"
  "is_text errorInvalidEvalCharacter"
  "is_text errorMissingProxySecret"
  "is_text errorPublicRegistryOverrideWithoutPublicRegistry"
  "is_text warningPublicRegistryFlagIgnoredForPlatformToken"
  "is_text errorClassicFullStackIncompatibleWithPublicRegistry"
  "is_text warningGlobalResourceAttributesExceedsLimit"
  "is_text warningOneAgentResourceAttributesExceedsLimit"
  "is_text warningOTLPResourceAttributesExceedsLimit"
  "is_text errorResourceAttributesInvalidGlobal"
  "is_text errorResourceAttributesInvalidOneAgent"
  "is_text errorResourceAttributesInvalidOTLP"
  "is_text warnResourceAttributesSanitizationGlobal"
  "is_text warnResourceAttributesSanitizationOneAgent"
  "is_text warnResourceAttributesSanitizationOTLP"
  "is_text errorResourceAttributesSanitizationGlobal"
  by (simp_all add: is_text_def
      warningDeprecatedVersionIgnored_def
      errorImagePullRequiresCodeModulesImage_def
      warningPaasTokenNotUsed_def
      warningPaasTokenUsed_def
      errorInvalidProxyURL_def
      errorInvalidEvalCharacter_def
      errorMissingProxySecret_def
      errorPublicRegistryOverrideWithoutPublicRegistry_def
      warningPublicRegistryFlagIgnoredForPlatformToken_def
      errorClassicFullStackIncompatibleWithPublicRegistry_def
      warningGlobalResourceAttributesExceedsLimit_def
      warningOneAgentResourceAttributesExceedsLimit_def
      warningOTLPResourceAttributesExceedsLimit_def
      errorResourceAttributesInvalidGlobal_def
      errorResourceAttributesInvalidOneAgent_def
      errorResourceAttributesInvalidOTLP_def
      warnResourceAttributesSanitizationGlobal_def
      warnResourceAttributesSanitizationOneAgent_def
      warnResourceAttributesSanitizationOTLP_def
      errorResourceAttributesSanitizationGlobal_def)

lemma texts_e [simp]:
  "is_text errorResourceAttributesSanitizationOneAgent"
  "is_text errorResourceAttributesSanitizationOTLP"
  "is_text errorTelemetryIngestNotEnoughProtocols"
  "is_text errorTelemetryIngestUnknownProtocols"
  "is_text errorTelemetryIngestNoDNS1053Label"
  "is_text errorTelemetryIngestServiceNameInUse"
  "is_text errorTelemetryIngestForbiddenServiceName"
  "is_text errorOTelCollectorMissingImage"
  "is_text warningOTelCollectorIgnoredTemplate"
  "is_text ec_errorInvalidAPIServer"
  "is_text ec_errorMissingAllowedSuffixAPIServer"
  "is_text ec_errorProtocolIsNotAllowedAPIServer"
  "is_text ec_errorAutomationRequiresProvisioner"
  "is_text ec_errorHostPattersIsRequired"
  "is_text ec_errorNameTooLong"
  "is_text ec_errorInvalidOauthEndpoint"
  "is_text ec_errorProtocolIsMissingOauthEndpoint"
  "is_text ec_errorUnknownSSOServer"
  "is_text ec_errorInvalidServiceName"
  by (simp_all add: is_text_def
      errorResourceAttributesSanitizationOneAgent_def
      errorResourceAttributesSanitizationOTLP_def
      errorTelemetryIngestNotEnoughProtocols_def
      errorTelemetryIngestUnknownProtocols_def
      errorTelemetryIngestNoDNS1053Label_def
      errorTelemetryIngestServiceNameInUse_def
      errorTelemetryIngestForbiddenServiceName_def
      errorOTelCollectorMissingImage_def
      warningOTelCollectorIgnoredTemplate_def
      ec_errorInvalidAPIServer_def
      ec_errorMissingAllowedSuffixAPIServer_def
      ec_errorProtocolIsNotAllowedAPIServer_def
      ec_errorAutomationRequiresProvisioner_def
      ec_errorHostPattersIsRequired_def
      ec_errorNameTooLong_def
      ec_errorInvalidOauthEndpoint_def
      ec_errorProtocolIsMissingOauthEndpoint_def
      ec_errorUnknownSSOServer_def
      ec_errorInvalidServiceName_def)

lemmas texts = texts_a texts_b texts_c texts_d texts_e

lemmas nonempty_texts [simp] = texts [THEN is_text_nonempty]

lemma errorDuplicateOneAgentArgument_text [simp]: "sprintf errorDuplicateOneAgentArgument [a] \<noteq> []"
  by (simp add: errorDuplicateOneAgentArgument_def)

end
