(* ===== verification/Sanitize.thy ===== *)
theory Sanitize
  imports GoStd
begin

text \<open>
  Cleaning of user input: \<open>pkg/util/sanitize\<close> for command line arguments and
  \<open>resourceattributes.SanitizeKey\<close> of \<open>pkg/api/shared\<close> for annotation keys. Strings are bytes;
  the regular expressions of the source work on the runes \<open>utf8.DecodeRune\<close> finds in them.
\<close>

section \<open>Command line arguments\<close>

definition InvalidCommandLineCharset :: string where
  "InvalidCommandLineCharset = [CHR 0x0A, CHR 0x09, CHR 0x0D, CHR 0x00]"

text \<open>\<open>strings.ContainsAny\<close> with a set of ASCII characters.\<close>

definition ContainsAny :: "string \<Rightarrow> string \<Rightarrow> bool" where
  "ContainsAny s chars = list_ex (\<lambda>c. c \<in> set chars) s"

definition CommandLineArg :: "string \<Rightarrow> string" where
  "CommandLineArg arg = filter (\<lambda>c. c \<notin> set InvalidCommandLineCharset) arg"

definition CommandLineArgs :: "string list \<Rightarrow> string list" where
  "CommandLineArgs args = map CommandLineArg args"

lemma CommandLineArg_id:
  "CommandLineArg arg = arg \<longleftrightarrow> \<not> ContainsAny arg InvalidCommandLineCharset"
  by (auto simp: CommandLineArg_def ContainsAny_def filter_id_conv list_ex_iff)

section \<open>Runes\<close>

text \<open>
  The number of bytes of the rune a non-empty string starts with; a byte that starts no valid
  encoding is a rune of its own.
\<close>

definition rune_size :: "nat \<Rightarrow> nat" where
  "rune_size b =
     (if 0xC2 \<le> b \<and> b \<le> 0xDF then 2
      else if 0xE0 \<le> b \<and> b \<le> 0xEF then 3
      else if 0xF0 \<le> b \<and> b \<le> 0xF4 then 4 else 1)"

definition second_byte_ok :: "nat \<Rightarrow> nat \<Rightarrow> bool" where
  "second_byte_ok b x \<longleftrightarrow>
     (if b = 0xE0 then 0xA0 else if b = 0xF0 then 0x90 else 0x80) \<le> x \<and>
     x \<le> (if b = 0xED then 0x9F else if b = 0xF4 then 0x8F else 0xBF)"

fun rune_len :: "string \<Rightarrow> nat" where
  "rune_len [] = 0"
| "rune_len (c # cs) =
     (let n = rune_size (byte c) in
      if n > 1 \<and> length cs \<ge> n - 1 \<and> second_byte_ok (byte c) (byte (hd cs)) \<and>
         list_all (\<lambda>x. 0x80 \<le> byte x \<and> byte x \<le> 0xBF) (take (n - 2) (tl cs))
      then n else 1)"

lemma rune_len_pos [simp]: "0 < rune_len (c # cs)"
  by (simp add: Let_def)

function runes :: "string \<Rightarrow> string list" where
  "runes s = (if s = [] then [] else take (rune_len s) s # runes (drop (rune_len s) s))"
  by pat_completeness auto
termination
  by (relation "measure length") (auto simp: neq_Nil_conv simp del: rune_len.simps)

declare runes.simps [simp del]

section \<open>Keys of resource attributes\<close>

definition is_lower :: "char \<Rightarrow> bool" where
  "is_lower c \<longleftrightarrow> byte CHR ''a'' \<le> byte c \<and> byte c \<le> byte CHR ''z''"

definition is_upper :: "char \<Rightarrow> bool" where
  "is_upper c \<longleftrightarrow> byte CHR ''A'' \<le> byte c \<and> byte c \<le> byte CHR ''Z''"

definition is_alnum :: "char \<Rightarrow> bool" where
  "is_alnum c \<longleftrightarrow> is_lower c \<or> is_upper c \<or> is_digit c"

definition key_char :: "char \<Rightarrow> bool" where
  "key_char c \<longleftrightarrow> is_alnum c \<or> c = CHR ''-'' \<or> c = CHR ''_'' \<or> c = CHR ''.''"

text \<open>\<open>invalidKeyCharsRe.ReplaceAllString(key, "_")\<close>: one underscore for each rune.\<close>

function replace_invalid :: "string \<Rightarrow> string" where
  "replace_invalid [] = []"
| "replace_invalid (c # cs) =
     (if key_char c then c # replace_invalid cs
      else CHR ''_'' # replace_invalid (drop (rune_len (c # cs)) (c # cs)))"
  by pat_completeness auto
termination
  by (relation "measure length") (auto simp del: rune_len.simps intro: diff_less)

text \<open>
  \<open>invalidKeyBoundariesRe\<close>: the maximal prefix and the maximal suffix of characters that are not
  alphanumeric are removed.
\<close>

definition trim_boundaries :: "string \<Rightarrow> string" where
  "trim_boundaries key =
     rev (dropWhile (\<lambda>c. \<not> is_alnum c) (rev (dropWhile (\<lambda>c. \<not> is_alnum c) key)))"

definition SanitizeKey :: "string \<Rightarrow> string" where
  "SanitizeKey key = trim_boundaries (replace_invalid key)"

text \<open>What Kubernetes accepts as the name segment of an annotation key, its length apart.\<close>

definition name_segment :: "string \<Rightarrow> bool" where
  "name_segment k \<longleftrightarrow> k \<noteq> [] \<and> is_alnum (hd k) \<and> is_alnum (last k) \<and> list_all key_char k"

lemma replace_invalid_chars: "list_all key_char (replace_invalid s)"
  by (induction s rule: replace_invalid.induct) (auto simp: key_char_def)

lemma replace_invalid_id: "list_all key_char s \<Longrightarrow> replace_invalid s = s"
  by (induction s) auto

lemma dropWhile_subset: "list_all P s \<Longrightarrow> list_all P (dropWhile Q s)"
  by (auto simp: list_all_iff dest: set_dropWhileD)

lemma last_dropWhile: "dropWhile P s \<noteq> [] \<Longrightarrow> last (dropWhile P s) = last s"
  by (induction s) auto

lemma trim_boundaries_segment:
  assumes "list_all key_char s"
  shows "trim_boundaries s = [] \<or> name_segment (trim_boundaries s)"
proof (cases "trim_boundaries s = []")
  case False
  let ?p = "\<lambda>c. \<not> is_alnum c" and ?d = "dropWhile (\<lambda>c. \<not> is_alnum c) s"
  have ne: "dropWhile ?p (rev ?d) \<noteq> []" using False by (simp add: trim_boundaries_def)
  then have d: "?d \<noteq> []" by (metis dropWhile.simps(1) rev.simps(1))
  have "is_alnum (hd (dropWhile ?p (rev ?d)))" using hd_dropWhile [OF ne] by simp
  moreover have "is_alnum (hd ?d)" using hd_dropWhile [OF d] by simp
  moreover have "last (dropWhile ?p (rev ?d)) = hd ?d"
    using last_dropWhile [OF ne] d by (simp add: last_rev)
  moreover have "list_all key_char (dropWhile ?p (rev ?d))"
    using assms by (auto simp: list_all_iff dest!: set_dropWhileD)
  ultimately show ?thesis
    using ne by (simp add: trim_boundaries_def name_segment_def hd_rev last_rev)
qed simp

lemma trim_boundaries_id: "name_segment s \<Longrightarrow> trim_boundaries s = s"
proof -
  assume s: "name_segment s"
  then obtain c cs where "s = c # cs" "is_alnum c" by (cases s) (auto simp: name_segment_def)
  then have "dropWhile (\<lambda>c. \<not> is_alnum c) s = s" by simp
  moreover obtain d ds where "rev s = d # ds" "is_alnum d"
    using s by (cases "rev s") (auto simp: name_segment_def hd_rev[symmetric])
  then have "dropWhile (\<lambda>c. \<not> is_alnum c) (rev s) = rev s" by simp
  ultimately show ?thesis by (simp add: trim_boundaries_def)
qed

lemma SanitizeKey_segment: "SanitizeKey k = [] \<or> name_segment (SanitizeKey k)"
  by (simp add: SanitizeKey_def trim_boundaries_segment replace_invalid_chars)

lemma SanitizeKey_id: "name_segment k \<Longrightarrow> SanitizeKey k = k"
  by (simp add: SanitizeKey_def name_segment_def replace_invalid_id trim_boundaries_id)

lemma SanitizeKey_Nil: "SanitizeKey [] = []"
  by (simp add: SanitizeKey_def trim_boundaries_def)

text \<open>\<open>SanitizeKey\<close> answers the empty string or a valid name segment of an annotation key, it
  leaves exactly those unchanged, and a second pass changes nothing.\<close>

theorem sanitized_key_is_segment:
  "(SanitizeKey k = [] \<or> name_segment (SanitizeKey k)) \<and>
   (SanitizeKey k = k \<longleftrightarrow> k = [] \<or> name_segment k) \<and>
   SanitizeKey (SanitizeKey k) = SanitizeKey k"
  using SanitizeKey_segment [of k] SanitizeKey_id SanitizeKey_Nil by metis

end
