(* ===== verification/ApiUrl.thy ===== *)
theory ApiUrl
  imports GoStd
begin

text \<open>
  URLs of the Dynatrace API: \<open>pkg/util/dtapiurl\<close>. The parser and the printer of \<open>net/url\<close> are
  parameters; a parsed URL is the record of the fields the operator reads, and \<open>Hostname\<close> and \<open>Port\<close>
  are the methods of the standard library.
\<close>

record url =
  urlScheme :: string
  urlUser :: "(string \<times> string option) option"
  urlHost :: string
  urlPath :: string
  urlRest :: string

text \<open>\<open>strings.Cut\<close> with a separator string, and \<open>strings.Contains\<close>.\<close>

fun cut_str :: "string \<Rightarrow> string \<Rightarrow> (string \<times> string) option" where
  "cut_str sep [] = (if sep = [] then Some ([], []) else None)"
| "cut_str sep (c # cs) =
     (if has_prefix (c # cs) sep then Some ([], drop (length sep) (c # cs))
      else map_option (\<lambda>(a, b). (c # a, b)) (cut_str sep cs))"

definition str_contains :: "string \<Rightarrow> string \<Rightarrow> bool" where
  "str_contains s sub \<longleftrightarrow> cut_str sub s \<noteq> None"

lemma cut_str_Some: "cut_str sep s = Some (a, b) \<Longrightarrow> s = a @ sep @ b"
proof (induction s arbitrary: a b)
  case (Cons c cs)
  then show ?case
    by (auto simp: has_prefix_def split: if_splits) (metis append_take_drop_id)
qed (auto split: if_splits)

definition cut_last :: "char \<Rightarrow> string \<Rightarrow> (string \<times> string) option" where
  "cut_last c s = (case cut c (rev s) of None \<Rightarrow> None | Some (a, b) \<Rightarrow> Some (rev b, rev a))"

definition splitHostPort :: "string \<Rightarrow> string \<times> string" where
  "splitHostPort hostPort =
     (let (host, port) =
            (case cut_last (CHR '':'') hostPort of
               Some (h, p) \<Rightarrow> (if list_all is_digit p then (h, p) else (hostPort, []))
             | None \<Rightarrow> (hostPort, []))
      in (if has_prefix host ''['' \<and> has_suffix host '']'' then butlast (tl host) else host, port))"

definition url_Hostname :: "url \<Rightarrow> string" where "url_Hostname u = fst (splitHostPort (urlHost u))"
definition url_Port :: "url \<Rightarrow> string" where "url_Port u = snd (splitHostPort (urlHost u))"

definition isThirdGen :: "string \<Rightarrow> bool" where
  "isThirdGen hostname = str_contains hostname ''.apps.''"

definition mapToSecondGen :: "url \<Rightarrow> url" where
  "mapToSecondGen u =
     (case cut_str ''.apps.'' (url_Hostname u) of
        None \<Rightarrow> u
      | Some (prefix, suffix) \<Rightarrow>
          (let newHostname = (if \<not> str_contains prefix ''.'' then prefix @ ''.live.'' @ suffix
                              else prefix @ ''.'' @ suffix);
               port = url_Port u
           in u\<lparr>urlHost := (if port \<noteq> [] then newHostname @ '':'' @ port else newHostname),
                urlPath := ''/api''\<rparr>))"

definition ToSecondGen :: "(string \<Rightarrow> url option) \<Rightarrow> (url \<Rightarrow> string) \<Rightarrow> string \<Rightarrow> string" where
  "ToSecondGen parse render apiURL =
     (case parse apiURL of
        None \<Rightarrow> apiURL
      | Some u \<Rightarrow> (if \<not> isThirdGen (url_Hostname u) then apiURL else render (mapToSecondGen u)))"

end
