(* ===== verification/DynaKubeValidation.thy ===== *)
theory DynaKubeValidation
  imports ValidationText Sanitize ApiUrl SemVer Tokens NamespaceMapper
begin

text \<open>
  \<open>pkg/api/validation/dynakube\<close>: the admission webhook that accepts or rejects a DynaKube. Every
  validator answers the empty string or a message; \<open>ValidateCreate\<close> and \<open>ValidateUpdate\<close> run the
  lists of the source in its order and sum the errors up. Log output is left out.

  What the validators ask of code outside the repository is a field of \<open>validator_env\<close>: the Kubernetes
  API, the URL parser, the image reference parser, the syntax checks of \<open>k8s.io/apimachinery\<close>,
  \<open>filepath.Rel\<close>, \<open>strconv.Quote\<close>, the JSON decoder and \<open>golang.org/x/mod/semver\<close>. \<open>veOrder\<close> is the
  order in which Go ranges over the keys of a map, which the language leaves open.
\<close>

section \<open>Environment\<close>

record validator_env =
  veModules :: modules
  veListDynaKubes :: "string \<Rightarrow> error + dynakube list"
  veListNamespaces :: "error + namespace list"
  veMatch :: match_env
  veGetSecret :: "string \<Rightarrow> string \<Rightarrow> error + (string \<times> string) list"
  veIstioInstalled :: bool
  veMinorVersion :: int
  veKubemonEnv :: string
  veOrder :: "string set \<Rightarrow> string list"
  veQuote :: "string \<Rightarrow> string"
  veParseURL :: "string \<Rightarrow> url option"
  veRenderURL :: "url \<Rightarrow> string"
  veParseReference :: "string \<Rightarrow> bool"
  veIsDNS1035Label :: "string \<Rightarrow> string list"
  veSelectorErrors :: "label_selector option \<Rightarrow> string list"
  veIsLabelKey :: "string \<Rightarrow> string list"
  veIsLabelValue :: "string \<Rightarrow> string list"
  veRel :: "string \<Rightarrow> string \<Rightarrow> string option"
  veUnmarshalBool :: "string \<Rightarrow> bool option"
  veSemverCanonical :: "string \<Rightarrow> string"
  veSemverValid :: "string \<Rightarrow> bool"
  veLimitsMemory :: "smap \<Rightarrow> string option"
  veErrorText :: "error \<Rightarrow> string"

type_synonym validatorFunc = "validator_env \<Rightarrow> dynakube \<Rightarrow> string"

definition dk_APIURL :: "validator_env \<Rightarrow> dynakube \<Rightarrow> string" where
  "dk_APIURL env dk = ToSecondGen (veParseURL env) (veRenderURL env) (dspAPIURL (dkSpec dk))"

text \<open>A loop that returns the first message it finds.\<close>

fun first_msg :: "('a \<Rightarrow> string) \<Rightarrow> 'a list \<Rightarrow> string" where
  "first_msg f [] = []"
| "first_msg f (x # xs) = (if f x \<noteq> [] then f x else first_msg f xs)"

lemma first_msg_empty: "first_msg f xs = [] \<longleftrightarrow> (\<forall>x\<in>set xs. f x = [])"
  by (induction xs) auto

section \<open>Modules (\<open>modules.go\<close>)\<close>

definition isOneAgentModuleDisabled :: validatorFunc where
  "isOneAgentModuleDisabled env dk =
     (if IsDaemonsetRequired (dk_OneAgent dk) \<and> \<not> modOneAgent (veModules env)
      then GetModuleValidationErrorMessage ''OneAgent'' else [])"

definition isActiveGateModuleDisabled :: validatorFunc where
  "isActiveGateModuleDisabled env dk =
     (if ag_IsEnabled (dk_ActiveGate dk) \<and> \<not> modActiveGate (veModules env)
      then GetModuleValidationErrorMessage ''ActiveGate''
      else if ag_IsKubernetesMonitoringEnabled (dk_ActiveGate dk) \<and>
              \<not> modKubernetesMonitoring (veModules env)
      then GetModuleValidationErrorMessage ''KubernetesMonitoring'' else [])"

definition isExtensionsModuleDisabled :: validatorFunc where
  "isExtensionsModuleDisabled env dk =
     (if ext_IsAnyEnabled (dk_Extensions dk) \<and> \<not> modExtensions (veModules env)
      then GetModuleValidationErrorMessage ''Extensions'' else [])"

definition isLogMonitoringModuleDisabled :: validatorFunc where
  "isLogMonitoringModuleDisabled env dk =
     (if lm_IsEnabled (dk_LogMonitoring dk) \<and> \<not> modLogMonitoring (veModules env)
      then GetModuleValidationErrorMessage ''LogMonitoring'' else [])"

definition isKSPMDisabled :: validatorFunc where
  "isKSPMDisabled env dk =
     (if dk_KSPM_IsEnabled dk then
        join_sep '',''
          ((if \<not> modKSPM (veModules env) then [GetModuleValidationErrorMessage ''KSPM''] else []) @
           (if \<not> modKubernetesMonitoring (veModules env)
            then [GetDependentModuleValidationErrorMessage ''KubernetesMonitoring'' ''KSPM''] else []))
      else [])"

section \<open>API URL (\<open>api_url.go\<close>)\<close>

definition ExampleAPIURL :: string where
  "ExampleAPIURL = ''https://ENVIRONMENTID.live.dynatrace.com/api''"

definition NoAPIURL :: validatorFunc where
  "NoAPIURL env dk =
     (let apiURL = dspAPIURL (dkSpec dk) in
      if apiURL = ExampleAPIURL then errorNoAPIURL
      else if apiURL = [] then errorNoAPIURL else [])"

definition isThirdGenHost :: "string \<Rightarrow> bool" where
  "isThirdGenHost hostname = str_contains hostname ''.apps.''"

definition isInvalidAPIURL :: validatorFunc where
  "isInvalidAPIURL env dk =
     (let apiURL = dspAPIURL (dkSpec dk) in
      case veParseURL env apiURL of
        None \<Rightarrow> errorInvalidAPIURL
      | Some parsedURL \<Rightarrow>
          (let hostname = url_Hostname parsedURL;
               hostnameWithDomains = filter (\<lambda>f. f \<noteq> []) (split_on (CHR ''.'') hostname)
           in if isThirdGenHost hostname then []
              else if \<not> has_suffix apiURL ''/api'' then errorInvalidAPIURL
              else if length hostnameWithDomains < 1 \<or> length (hostnameWithDomains ! 0) = 0
              then errorInvalidAPIURL else []))"

definition tenantUUIDFromAPIURL :: "validator_env \<Rightarrow> string \<Rightarrow> string" where
  "tenantUUIDFromAPIURL env apiURL =
     (case veParseURL env apiURL of
        None \<Rightarrow> apiURL
      | Some parsed \<Rightarrow>
          (let hostname = url_Hostname parsed in
           case cut (CHR ''.'') hostname of
             Some (before, after) \<Rightarrow> (if before \<noteq> [] then before else hostname)
           | None \<Rightarrow> hostname))"

definition IsMutatedAPIURL :: "validator_env \<Rightarrow> dynakube \<Rightarrow> dynakube \<Rightarrow> string" where
  "IsMutatedAPIURL env oldDK newDK =
     (if tenantUUIDFromAPIURL env (dspAPIURL (dkSpec oldDK)) \<noteq>
         tenantUUIDFromAPIURL env (dspAPIURL (dkSpec newDK))
      then errorMutatedAPIURL else [])"

section \<open>ActiveGate (\<open>activegate.go\<close>)\<close>

definition CapabilityDisplayNames :: "string list" where
  "CapabilityDisplayNames =
     [RoutingCapability, KubeMonCapability, MetricsIngestCapability, DynatraceAPICapability,
      DebuggingCapability]"

definition invalidActiveGateCapabilities :: validatorFunc where
  "invalidActiveGateCapabilities env dk =
     (if ag_IsEnabled (dk_ActiveGate dk) then
        first_msg (\<lambda>capability.
            if capability \<notin> set CapabilityDisplayNames
            then sprintf errorInvalidActiveGateCapability [capability] else [])
          (agCapabilities (dspActiveGate (dkSpec dk)))
      else [])"

text \<open>\<open>Limits.Memory()\<close> of \<open>k8s.io/api\<close> is the field \<open>veLimitsMemory\<close>.\<close>

definition memoryLimitSet :: "validator_env \<Rightarrow> resource_requirements \<Rightarrow> bool" where
  "memoryLimitSet env resources =
     (case rrLimits resources of None \<Rightarrow> False | Some limits \<Rightarrow> veLimitsMemory env limits \<noteq> None)"

definition missingActiveGateMemoryLimit :: validatorFunc where
  "missingActiveGateMemoryLimit env dk =
     (if ag_IsEnabled (dk_ActiveGate dk) \<and>
         \<not> memoryLimitSet env (cpResources (agCapabilityProperties (dspActiveGate (dkSpec dk))))
      then warningMissingActiveGateMemoryLimit else [])"

definition activeGateMutuallyExclusivePVCSettings :: "dynakube \<Rightarrow> bool" where
  "activeGateMutuallyExclusivePVCSettings dk \<longleftrightarrow>
     agUseEphemeralVolume (dspActiveGate (dkSpec dk)) = Some True \<and>
     agVolumeClaimTemplate (dspActiveGate (dkSpec dk)) \<noteq> None"

definition mutuallyExclusiveActiveGatePVsettings :: validatorFunc where
  "mutuallyExclusiveActiveGatePVsettings env dk =
     (if activeGateMutuallyExclusivePVCSettings dk then errorActiveGateInvalidPVCConfiguration else [])"

definition activeGateRollingUpdateWithOldK8sVersion :: validatorFunc where
  "activeGateRollingUpdateWithOldK8sVersion env dk =
     (if cpRollingUpdate (agCapabilityProperties (dspActiveGate (dkSpec dk))) = None then []
      else if veMinorVersion env < 35 then warningActiveGateRollingUpdateOldK8sVersion else [])"

definition VolumeNames :: "string list" where
  "VolumeNames =
     [''ag-authtoken-secret'', ''connection-info-secret'', ''server-certs'', ''trustedcas'',
      ''custom-properties'', ''deployment-properties'', ''internal-proxy-secret-volume'', ''eec-token'',
      ''kspm-token'', ''truststore-volume'', ''cert-tmp'', ''ag-lib-gateway-config'',
      ''ag-lib-gateway-temp'', ''ag-lib-gateway-data'', ''ag-lib-gateway-ssl'', ''ag-log-gateway'',
      ''ag-tmp-gateway'']"

definition DTComponentsSecretsRootDir :: string where
  "DTComponentsSecretsRootDir = ''/var/lib/dynatrace/secrets''"

definition MainVolumeMountPaths :: "string list" where
  "MainVolumeMountPaths =
     [DTComponentsSecretsRootDir @ ''/tokens/auth-token'', DTComponentsSecretsRootDir @ ''/tokens/tenant-token'',
      DTComponentsSecretsRootDir @ ''/tls'', DTComponentsSecretsRootDir @ ''/rootca'',
      ''/var/lib/dynatrace/gateway/config_template/custom.properties'',
      DTComponentsSecretsRootDir @ ''/config/deployment.properties'',
      DTComponentsSecretsRootDir @ ''/internal-proxy'', DTComponentsSecretsRootDir @ ''/eec/token'',
      DTComponentsSecretsRootDir @ ''/tokens/kspm/node-configuration-collector'',
      ''/opt/dynatrace/gateway/jre/lib/security/cacerts'',
      ''/var/lib/dynatrace/gateway/config'', ''/var/lib/dynatrace/gateway/temp'',
      ''/var/lib/dynatrace/gateway/data'', ''/var/lib/dynatrace/gateway/ssl'',
      ''/var/log/dynatrace/gateway'', ''/var/tmp/dynatrace/gateway'']"

definition activeGateHasConflictingVolumes :: validatorFunc where
  "activeGateHasConflictingVolumes env dk =
     (let props = agCapabilityProperties (dspActiveGate (dkSpec dk));
          nameMsg = first_msg (\<lambda>volume.
            if volName volume \<in> set VolumeNames
            then sprintf errorActiveGateConflictingVolumeName [volName volume] else []) (cpVolumes props)
      in if nameMsg \<noteq> [] then nameMsg
         else first_msg (\<lambda>volumeMount.
            if vmMountPath volumeMount \<in> set MainVolumeMountPaths
            then sprintf errorActiveGateConflictingVolumeMountPath [vmMountPath volumeMount] else [])
              (cpVolumeMounts props))"

definition allowedActiveGateVolumeSources :: "string list" where
  "allowedActiveGateVolumeSources =
     [''ConfigMap'', ''CSI'', ''DownwardAPI'', ''EmptyDir'', ''Ephemeral'', ''PersistentVolumeClaim'',
      ''Projected'', ''Secret'', ''Image'']"

definition activeGateHasDisallowedVolumeType :: validatorFunc where
  "activeGateHasDisallowedVolumeType env dk =
     first_msg (\<lambda>volume.
         if \<not> list_ex (\<lambda>source. map_of (volSources volume) source \<noteq> None) allowedActiveGateVolumeSources
         then sprintf errorActiveGateDisallowedVolumeType [volName volume] else [])
       (cpVolumes (agCapabilityProperties (dspActiveGate (dkSpec dk))))"

section \<open>Databases (\<open>databases.go\<close>)\<close>

definition missingDatabaseExecutorImage :: validatorFunc where
  "missingDatabaseExecutorImage env dk =
     (if \<not> ext_IsDatabasesEnabled (dk_Extensions dk) then []
      else if IsPublicRegistry (dk_FF dk) then []
      else if \<not> ref_HasImage (Some (dexImageRef (tsSQLExtensionExecutor (dspTemplates (dkSpec dk)))))
      then errorExtensionDatabaseExecutorImageNotSpecified else [])"

text \<open>The mount paths of \<open>databases.GetDefaultVolumeMounts\<close>.\<close>

definition GetDefaultVolumeMounts :: "dynakube \<Rightarrow> volume_mount list" where
  "GetDefaultVolumeMounts dk =
     [\<lparr>vmName = ''tmp-data'', vmMountPath = ''/tmp'', vmSettings = []\<rparr>,
      \<lparr>vmName = ''auth-token'', vmMountPath = ''/var/run/dynatrace/executor/token'',
       vmSettings = ''readOnly''\<rparr>,
      \<lparr>vmName = ''https-certs'', vmMountPath = ''/var/ssl-certs/dynatrace'', vmSettings = ''readOnly''\<rparr>] @
     (if dspTrustedCAs (dkSpec dk) \<noteq> []
      then [\<lparr>vmName = ''custom-certs'', vmMountPath = ''/var/ssl-certs/user'', vmSettings = ''readOnly''\<rparr>]
      else [])"

definition dk_databases :: "dynakube \<Rightarrow> database_spec list" where
  "dk_databases dk = (case dspExtensions (dkSpec dk) of None \<Rightarrow> [] | Some e \<Rightarrow> exsDatabases e)"

definition conflictingOrInvalidDatabasesVolumeMounts :: validatorFunc where
  "conflictingOrInvalidDatabasesVolumeMounts env dk =
     (if \<not> ext_IsDatabasesEnabled (dk_Extensions dk) then []
      else first_msg (\<lambda>database.
        first_msg (\<lambda>volumeMount.
          if \<not> list_ex (\<lambda>volume. volName volume = vmName volumeMount) (dbVolumes database)
          then sprintf errorInvalidDatabasesVolumeMount [vmName volumeMount]
          else first_msg (\<lambda>defaultVolumeMount.
            case veRel env (vmMountPath defaultVolumeMount) (vmMountPath volumeMount) of
              None \<Rightarrow> sprintf errorInvalidDatabasesVolumeMountPath [vmMountPath volumeMount]
            | Some rel \<Rightarrow>
                (if \<not> has_prefix rel ''../''
                 then sprintf errorConflictingDatabasesVolumeMounts
                        [vmMountPath volumeMount, vmMountPath defaultVolumeMount] else []))
              (GetDefaultVolumeMounts dk))
          (dbVolumeMounts database))
        (dk_databases dk))"

definition hostPathDatabaseVolumeFound :: validatorFunc where
  "hostPathDatabaseVolumeFound env dk =
     (if \<not> ext_IsDatabasesEnabled (dk_Extensions dk) then []
      else first_msg (\<lambda>database.
        first_msg (\<lambda>volume.
          if map_of (volSources volume) ''HostPath'' \<noteq> None then warningHostPathDatabaseVolumeDetected else [])
          (dbVolumes database))
        (dk_databases dk))"

definition unusedDatabasesVolume :: validatorFunc where
  "unusedDatabasesVolume env dk =
     (if \<not> ext_IsDatabasesEnabled (dk_Extensions dk) then []
      else let unusedVolumes = concat (map (\<lambda>database.
             map volName (filter (\<lambda>volume.
               \<not> list_ex (\<lambda>volumeMount. vmName volumeMount = volName volume) (dbVolumeMounts database))
               (dbVolumes database)))
             (dk_databases dk))
           in if length unusedVolumes > 0
              then sprintf errorUnusedDatabasesVolumes [join_sep '', '' unusedVolumes] else [])"

section \<open>Name (\<open>dynakube_name.go\<close>)\<close>

definition dynakube_MaxNameLength :: nat where "dynakube_MaxNameLength = 40"

definition podSuffixLen :: nat where "podSuffixLen = 5"
definition podTemplateHashLen :: nat where "podTemplateHashLen = 10"
definition hyphenLen :: nat where "hyphenLen = 1"
definition maxPodNameLen :: nat where "maxPodNameLen = 63"

definition maxStatefulSetNameLength :: nat where
  "maxStatefulSetNameLength = maxPodNameLen - podTemplateHashLen - hyphenLen"

definition maxDaemonSetNameLength :: nat where
  "maxDaemonSetNameLength = maxPodNameLen - podSuffixLen - hyphenLen"

abbreviation ExtensionsControllerSuffix :: string where
  "ExtensionsControllerSuffix \<equiv> ''-extension-controller''"
abbreviation OTelCollectorNameSuffix :: string where
  "OTelCollectorNameSuffix \<equiv> ''-otel-collector''"
abbreviation NodeCollectorNameSuffix :: string where
  "NodeCollectorNameSuffix \<equiv> ''-node-config-collector''"

definition maxNameLengthForExtensions :: nat where
  "maxNameLengthForExtensions = maxStatefulSetNameLength - length ExtensionsControllerSuffix"

definition maxNameLengthForOTelCol :: nat where
  "maxNameLengthForOTelCol = maxStatefulSetNameLength - length OTelCollectorNameSuffix"

definition maxNameLengthForKSPM :: nat where
  "maxNameLengthForKSPM = maxDaemonSetNameLength - length NodeCollectorNameSuffix"

definition nameViolatesDNS1035 :: "validator_env \<Rightarrow> dynakube \<Rightarrow> string" where
  "nameViolatesDNS1035 env dk =
     (if veIsDNS1035Label env (dkName dk) = [] then [] else errorNoDNS1053Label)"

definition dk_nameTooLong :: "dynakube \<Rightarrow> string" where
  "dk_nameTooLong dk =
     (let (max0, suffix0) = (dynakube_MaxNameLength, []);
          (max1, suffix1) = (if ext_IsAnyEnabled (dk_Extensions dk)
             then (min max0 maxNameLengthForExtensions, extensionsNameTooLongSuffix)
             else (max0, suffix0));
          (max2, suffix2) = (if ti_IsEnabled (dspTelemetryIngest (dkSpec dk))
             then (min max1 maxNameLengthForOTelCol, otelcNameTooLongSuffix)
             else (max1, suffix1));
          (max3, suffix3) = (if dk_KSPM_IsEnabled dk
             then (min max2 maxNameLengthForKSPM, kspmNameTooLongSuffix)
             else (max2, suffix2))
      in if length (dkName dk) > max3 then sprintf errorNameTooLong [show_nat max3] @ suffix3 else [])"

definition nameInvalid :: validatorFunc where
  "nameInvalid env dk =
     (if dkName dk = [] then []
      else if dk_nameTooLong dk \<noteq> [] then dk_nameTooLong dk
      else nameViolatesDNS1035 env dk)"

section \<open>Extensions (\<open>eec.go\<close>, \<open>extensions.go\<close>)\<close>

definition extensionControllerImage :: validatorFunc where
  "extensionControllerImage env dk =
     (if \<not> ext_IsAnyEnabled (dk_Extensions dk) then []
      else if IsPublicRegistry (dk_FF dk) then []
      else if \<not> ref_HasImage (Some (eecImageRef (tsExtensionExecutionController (dspTemplates (dkSpec dk)))))
      then errorExtensionExecutionControllerImageNotSpecified else [])"

definition conflictingAPIURLForExtensions :: validatorFunc where
  "conflictingAPIURLForExtensions env dk =
     (if \<not> ext_IsAnyEnabled (dk_Extensions dk) then []
      else case veListDynaKubes env (dkNamespace dk) of
        Inl e \<Rightarrow> []
      | Inr items \<Rightarrow>
          first_msg (\<lambda>item.
              if dkName item = dkName dk then []
              else if ext_IsAnyEnabled (dk_Extensions item) \<and> dk_APIURL env dk = dk_APIURL env item
              then sprintf warningConflictingAPIURLForExtensions [dkName item] else [])
            items)"

definition extensionControllerMutuallyExclusivePVCSettings :: "dynakube \<Rightarrow> bool" where
  "extensionControllerMutuallyExclusivePVCSettings dk \<longleftrightarrow>
     (let eec = tsExtensionExecutionController (dspTemplates (dkSpec dk)) in
      eecUseEphemeralVolume eec = Some True \<and> eecPersistentVolumeClaim eec \<noteq> None)"

definition extensionControllerPVCStorageDevice :: validatorFunc where
  "extensionControllerPVCStorageDevice env dk =
     (if \<not> ext_IsAnyEnabled (dk_Extensions dk) then []
      else if extensionControllerMutuallyExclusivePVCSettings dk
      then errorExtensionExecutionControllerInvalidPVCConfiguration else [])"

definition extensionsWithoutK8SMonitoring :: validatorFunc where
  "extensionsWithoutK8SMonitoring env dk =
     (if ext_IsAnyEnabled (dk_Extensions dk) \<and>
         (\<not> ag_IsKubernetesMonitoringEnabled (dk_ActiveGate dk) \<or> \<not> IsAutomaticK8sAPIMonitoring (dk_FF dk))
      then warningExtensionsWithoutK8SMonitoring else [])"

section \<open>Feature flags (\<open>featureflag.go\<close>)\<close>

definition deprecatedFeatureFlags :: "string list" where
  "deprecatedFeatureFlags =
     [FFPrefix @ ''oneagent-ignore-proxy'', FFPrefix @ ''oneagent-max-unavailable'',
      FFPrefix @ ''k8s-app-enabled'', FFPrefix @ ''activegate-updates'',
      FFPrefix @ ''disable-activegate-updates'', FFPrefix @ ''activegate-ignore-proxy'',
      FFPrefix @ ''init-container-seccomp-profile'']"

definition OANodeImagePullTechnologiesKey :: string where
  "OANodeImagePullTechnologiesKey = ''oneagent.dynatrace.com/technologies''"

definition knownFeatureFlags :: "string list" where
  "knownFeatureFlags =
     [FFPrefix @ ''no-proxy'', FFPrefix @ ''use-eec-legacy-mounts'', FFPrefix @ ''use-public-registry'',
      FFPrefix @ ''activegate-apparmor'', FFPrefix @ ''automatic-kubernetes-api-monitoring'',
      FFPrefix @ ''automatic-kubernetes-api-monitoring-cluster-name'',
      FFPrefix @ ''automatic-tls-certificate'', FFPrefix @ ''max-csi-mount-attempts'',
      FFPrefix @ ''max-csi-mount-timeout'', FFPrefix @ ''enable-attributes-dt.kubernetes'',
      FFPrefix @ ''ignored-namespaces'', FFPrefix @ ''automatic-injection'',
      FFPrefix @ ''label-version-detection'', FFPrefix @ ''injection-failure-policy'',
      FFPrefix @ ''oneagent-initial-connect-retry-ms'', FFPrefix @ ''oneagent-privileged'',
      FFPrefix @ ''oneagent-classic-nonroot'', FFPrefix @ ''oneagent-skip-liveness-probe'',
      FFPrefix @ ''node-image-pull'', OANodeImagePullTechnologiesKey,
      FFPrefix @ ''otlp-exporter-configuration-set-no-proxy''] @ deprecatedFeatureFlags"

definition deprecatedFeatureFlag :: validatorFunc where
  "deprecatedFeatureFlag env dk =
     (let results = filter (ff_IsSet (dk_FF dk)) deprecatedFeatureFlags in
      if dkAnnotations dk = Map.empty then []
      else if length results > 0 then warningFeatureFlagDeprecated @ join_sep '', '' results else [])"

definition unknownFeatureFlag :: validatorFunc where
  "unknownFeatureFlag env dk =
     (let results = filter (\<lambda>annotation.
            (has_prefix annotation FFPrefix \<or> annotation = OANodeImagePullTechnologiesKey) \<and>
            annotation \<notin> set knownFeatureFlags) (veOrder env (dom (dkAnnotations dk)))
      in if length results > 0
         then sprintf warningFeatureFlagUnknown [join_sep '', '' (sort_by (\<lambda>r. r) results)] else [])"

definition isNodeImagePullWithoutCSI :: validatorFunc where
  "isNodeImagePullWithoutCSI env dk =
     (if \<not> modCSIDriver (veModules env) \<and> ff_IsSet (dk_FF dk) (FFPrefix @ ''node-image-pull'')
      then warningNodeImagePullWithoutCSI else [])"

definition invalidNoProxy :: validatorFunc where
  "invalidNoProxy env dk =
     (if ContainsAny (GetNoProxy (dk_FF dk)) InvalidCommandLineCharset then errorInvalidNoProxy else [])"

section \<open>Host group, network zone, images, Istio\<close>

definition invalidOneAgentHostGroup :: validatorFunc where
  "invalidOneAgentHostGroup env dk =
     (if ContainsAny (HostGroup (oaSpec (dk_OneAgent dk))) InvalidCommandLineCharset
      then errorInvalidHostGroupProperty else [])"

definition invalidNetworkZone :: validatorFunc where
  "invalidNetworkZone env dk =
     (if ContainsAny (dspNetworkZone (dkSpec dk)) InvalidCommandLineCharset
      then errorInvalidNetworkZone else [])"

definition checkImageField :: "validator_env \<Rightarrow> string \<Rightarrow> string \<Rightarrow> string" where
  "checkImageField env img sect =
     (if img \<noteq> [] \<and> \<not> veParseReference env img then sprintf errorUnparsableImageRef [sect] else [])"

definition imageFieldHasTenantImage :: validatorFunc where
  "imageFieldHasTenantImage env dk =
     join_sep '';'' (filter (\<lambda>message. message \<noteq> [])
       [checkImageField env (ag_GetCustomImage (dk_ActiveGate dk)) ''ActiveGate'',
        checkImageField env (oa_GetCustomImage (dk_OneAgent dk)) ''OneAgent''])"

definition isIstioNotInstalled :: validatorFunc where
  "isIstioNotInstalled env dk =
     (if dspEnableIstio (dkSpec dk) = Some True \<and> \<not> veIstioInstalled env
      then errorNoIstioInstalled else [])"

end
