(* ===== verification/DynaKubeWebhook.thy ===== *)
theory DynaKubeWebhook
  imports DynaKubeValidation
begin

text \<open>
  The second half of \<open>pkg/api/validation/dynakube\<close>: the validators of OneAgent, KSPM, log monitoring,
  the namespace selectors, telemetry ingest, the registry, the proxy and the resource attributes, the
  validator lists of \<open>validation.go\<close>, and the webhook's \<open>ValidateCreate\<close> and \<open>ValidateUpdate\<close>.
\<close>

section \<open>KSPM (\<open>kspm.go\<close>)\<close>

definition tooManyKubernetesMonitoringReplicas :: validatorFunc where
  "tooManyKubernetesMonitoringReplicas env dk =
     (let kubemonHasTooManyReplicas =
            (dk_IsKubemonEnabled (veKubemonEnv env) dk \<and>
             (case dspKubernetesMonitoring (dkSpec dk) of None \<Rightarrow> False
              | Some km \<Rightarrow> (case kmReplicas km of None \<Rightarrow> 0 | Some n \<Rightarrow> n) > 1));
          activeGateHasTooManyReplicas =
            (ag_IsKubernetesMonitoringEnabled (dk_ActiveGate dk) \<and> ag_GetReplicas (dk_ActiveGate dk) > 1)
      in if dk_KSPM_IsEnabled dk \<and> (kubemonHasTooManyReplicas \<or> activeGateHasTooManyReplicas)
         then errorTooManyKubernetesMonitoringReplicas else [])"

definition kspmWithoutKubernetesMonitoringRegistration :: validatorFunc where
  "kspmWithoutKubernetesMonitoringRegistration env dk =
     (if dk_KSPM_IsEnabled dk \<and> \<not> dk_IsKubernetesMonitoringRegistrationEnabled (veKubemonEnv env) dk
      then errorKSPMMissingKubernetesMonitoring else [])"

definition missingKSPMImage :: validatorFunc where
  "missingKSPMImage env dk =
     (if \<not> dk_KSPM_IsEnabled dk then []
      else if \<not> ref_HasImage (Some (ncImageRef (tsKSPMNodeConfigurationCollector (dspTemplates (dkSpec dk)))))
      then errorKSPMMissingImage else [])"

definition kspm_paths :: "dynakube \<Rightarrow> string list" where
  "kspm_paths dk =
     (case dspKSPM (dkSpec dk) of None \<Rightarrow> [] | Some paths \<Rightarrow> kspm_GetUniqueMappedHostPaths paths)"

definition noMappedHostPaths :: validatorFunc where
  "noMappedHostPaths env dk =
     (if \<not> dk_KSPM_IsEnabled dk then []
      else if length (kspm_paths dk) = 0 then warningKSPMNoHostPaths else [])"

definition mappedHostPathsWithRootPath :: validatorFunc where
  "mappedHostPathsWithRootPath env dk =
     (if \<not> dk_KSPM_IsEnabled dk then []
      else if ''/'' \<in> set (kspm_paths dk) \<and> length (kspm_paths dk) > 1 then errorKSPMRootHostPath else [])"

text \<open>\<open>filepath.IsAbs\<close> on Unix is a leading slash.\<close>

definition relativeMappedHostPaths :: validatorFunc where
  "relativeMappedHostPaths env dk =
     (if \<not> dk_KSPM_IsEnabled dk then []
      else first_msg (\<lambda>path. if \<not> has_prefix path ''/'' then sprintf errorKSPMRelativeHostPath [path] else [])
             (kspm_paths dk))"

section \<open>Log monitoring, metadata enrichment\<close>

definition ignoredLogMonitoringTemplate :: validatorFunc where
  "ignoredLogMonitoringTemplate env dk =
     (if lm_IsStandalone (dk_LogMonitoring dk) then []
      else if IsDaemonsetRequired (dk_OneAgent dk) \<and> lmTemplateSpec (dk_LogMonitoring dk) \<noteq> None
      then warningLogMonitoringIgnoredTemplate else [])"

definition missingLogMonitoringImage :: validatorFunc where
  "missingLogMonitoringImage env dk =
     (if \<not> lm_IsStandalone (dk_LogMonitoring dk) then []
      else if IsPublicRegistry (dk_FF dk) then []
      else if \<not> ref_HasImage (map_option lmtImageRef (lmTemplateSpec (dk_LogMonitoring dk)))
      then errorLogMonitoringMissingImage else [])"

definition lm_TemplateArgs :: "logmonitoring \<Rightarrow> string list" where
  "lm_TemplateArgs lm = (case lmTemplateSpec lm of None \<Rightarrow> [] | Some t \<Rightarrow> lmtArgs t)"

definition invalidLogmonArguments :: validatorFunc where
  "invalidLogmonArguments env dk =
     first_msg (\<lambda>arg. if ContainsAny arg InvalidCommandLineCharset then errorInvalidLogmonArgument else [])
       (lm_TemplateArgs (dk_LogMonitoring dk))"

definition disabledMetadataEnrichmentForInjectionModes :: validatorFunc where
  "disabledMetadataEnrichmentForInjectionModes env dk =
     (if meEnabled (dspMetadataEnrichment (dkSpec dk)) \<noteq> Some False then []
      else if IsAppInjectionNeeded (dk_OneAgent dk) then warningMetadataEnrichmentDisabledForInjection
      else [])"

section \<open>Namespace selectors (\<open>namespace_selector.go\<close>)\<close>

text \<open>The mapper the validator creates has no client: it only reads.\<close>

definition validator_mapper :: "validator_env \<Rightarrow> dynakube \<Rightarrow> mapper_env" where
  "validator_mapper env dk =
     match_env.extend (veMatch env)
       \<lparr>mmListNamespaces = veListNamespaces env, mmListDynaKubes = veListDynaKubes env (dkNamespace dk),
        mmUpdate = (\<lambda>_ _. None), mmDelete = (\<lambda>_ _ _. None)\<rparr>"

definition conflictingNamespaceSelector :: validatorFunc where
  "conflictingNamespaceSelector env dk =
     (if \<not> IsAppInjectionNeeded (dk_OneAgent dk) \<and>
         \<not> me_IsEnabled (dspMetadataEnrichment (dkSpec dk)) \<and>
         \<not> otlp_IsEnabled (dk_OTLPExporterConfiguration dk)
      then []
      else case fst (MatchingNamespaces (validator_mapper env dk)
                       \<lparr>msTrace = [], msMatched = [], msDk = dk\<rparr>) of
        Inl e \<Rightarrow> (if e = ErrorConflictingNamespace then errorConflictingNamespaceSelector else [])
      | Inr _ \<Rightarrow> [])"

definition invalidOneAgentNamespaceSelector :: validatorFunc where
  "invalidOneAgentNamespaceSelector env dk =
     (let oa = dk_OneAgent dk;
          oneAgentSelector =
            (if IsCloudNativeFullstackMode oa
             then map_option (\<lambda>c. aisNamespaceSelector (cnAppInjection c)) (CloudNativeFullStack (oaSpec oa))
             else if IsApplicationMonitoringMode oa
             then map_option (\<lambda>a. aisNamespaceSelector (amAppInjection a)) (ApplicationMonitoring (oaSpec oa))
             else None)
      in if length (veSelectorErrors env oneAgentSelector) = 0 then []
         else errorInvalidOneAgentNamespaceSelector)"

definition invalidMetadataNamespaceSelectors :: validatorFunc where
  "invalidMetadataNamespaceSelectors env dk =
     (if length (veSelectorErrors env (Some (meNamespaceSelector (dspMetadataEnrichment (dkSpec dk))))) = 0
      then [] else errorInvalidMetadataEnrichmentNamespaceSelector)"

definition invalidOTLPExporterNamespaceSelector :: validatorFunc where
  "invalidOTLPExporterNamespaceSelector env dk =
     (case dspOTLPExporterConfiguration (dkSpec dk) of
        None \<Rightarrow> []
      | Some spec \<Rightarrow>
          (if length (veSelectorErrors env (Some (otNamespaceSelector spec))) = 0
           then [] else errorInvalidOTLPExporterNamespaceSelector))"

section \<open>OneAgent (\<open>oneagent.go\<close>)\<close>

definition conflictingOneAgentConfiguration :: validatorFunc where
  "conflictingOneAgentConfiguration env dk =
     (let oa = dk_OneAgent dk;
          counter = (if IsApplicationMonitoringMode oa then 1 else 0) +
                    (if IsCloudNativeFullstackMode oa then 1 else 0) +
                    (if IsClassicFullStackMode oa then 1 else 0) +
                    (if IsHostMonitoringMode oa then 1 else 0)
      in if counter > (1 :: nat) then errorConflictingOneagentMode else [])"

text \<open>
  \<open>labels.SelectorFromSet\<close> requires every label of the set it is made from, whose keys it ranges
  over; an empty or nil set selects everything.
\<close>

definition selector_from_set_Matches :: "validator_env \<Rightarrow> smap \<Rightarrow> smap \<Rightarrow> bool" where
  "selector_from_set_Matches env labelMap other =
     list_all (\<lambda>k. other k = labelMap k) (veOrder env (dom labelMap))"

definition hasConflictingMatchLabels :: "validator_env \<Rightarrow> smap \<Rightarrow> smap \<Rightarrow> bool" where
  "hasConflictingMatchLabels env labelMap otherLabelMap \<longleftrightarrow>
     selector_from_set_Matches env labelMap otherLabelMap \<or>
     selector_from_set_Matches env otherLabelMap labelMap"

definition agent_node_selector :: "dynakube \<Rightarrow> smap" where
  "agent_node_selector dk = oa_GetNodeSelector (dk_OneAgent dk) (lm_GetNodeSelector (dk_LogMonitoring dk))"

definition hasLogMonitoringSelectorConflict :: "validator_env \<Rightarrow> dynakube \<Rightarrow> dynakube \<Rightarrow> bool" where
  "hasLogMonitoringSelectorConflict env dk1 dk2 \<longleftrightarrow>
     lm_IsStandalone (dk_LogMonitoring dk1) \<and> dk_APIURL env dk1 = dk_APIURL env dk2 \<and>
     (IsDaemonsetRequired (dk_OneAgent dk2) \<or> lm_IsStandalone (dk_LogMonitoring dk2)) \<and>
     hasConflictingMatchLabels env (agent_node_selector dk1) (agent_node_selector dk2)"

definition hasOneAgentSelectorConflict :: "validator_env \<Rightarrow> dynakube \<Rightarrow> dynakube \<Rightarrow> bool" where
  "hasOneAgentSelectorConflict env dk1 dk2 \<longleftrightarrow>
     IsDaemonsetRequired (dk_OneAgent dk1) \<and>
     (IsDaemonsetRequired (dk_OneAgent dk2) \<or>
      lm_IsStandalone (dk_LogMonitoring dk2) \<and> dk_APIURL env dk1 = dk_APIURL env dk2) \<and>
     hasConflictingMatchLabels env (agent_node_selector dk1) (agent_node_selector dk2)"

text \<open>The second test takes the fallback selector of \<open>dk\<close> for both sides, as in the source.\<close>

definition conflicting_dynakubes :: "validator_env \<Rightarrow> dynakube \<Rightarrow> dynakube list \<Rightarrow> string list" where
  "conflicting_dynakubes env dk items =
     map dkName (filter (\<lambda>item.
         dkName item \<noteq> dkName dk \<and>
         (hasLogMonitoringSelectorConflict env dk item \<or> hasOneAgentSelectorConflict env dk item) \<and>
         hasConflictingMatchLabels env (agent_node_selector dk)
           (oa_GetNodeSelector (dk_OneAgent item) (lm_GetNodeSelector (dk_LogMonitoring dk))))
       items)"

definition conflictingOneAgentNodeSelector :: validatorFunc where
  "conflictingOneAgentNodeSelector env dk =
     (if \<not> IsDaemonsetRequired (dk_OneAgent dk) \<and> \<not> lm_IsStandalone (dk_LogMonitoring dk) then []
      else case veListDynaKubes env (dkNamespace dk) of
        Inl e \<Rightarrow> []
      | Inr items \<Rightarrow>
          (let conflictingDynakubes = set (conflicting_dynakubes env dk items)
           in if conflictingDynakubes \<noteq> {}
              then sprintf errorNodeSelectorConflict [join_sep '', '' (veOrder env conflictingDynakubes)]
              else []))"

definition conflictingMaxUnavailableAnnotationWithRollingUpdate :: validatorFunc where
  "conflictingMaxUnavailableAnnotationWithRollingUpdate env dk =
     (let spec = dspOneAgent (dkSpec dk) in
      if dkAnnotations dk (FFPrefix @ ''oneagent-max-unavailable'') = None then []
      else if (case ClassicFullStack spec of None \<Rightarrow> False | Some h \<Rightarrow> hisRollingUpdate h \<noteq> None)
      then warningDeprecatedMaxUnavailableAnnotationWithRollingUpdate
      else if (case CloudNativeFullStack spec of None \<Rightarrow> False
               | Some c \<Rightarrow> hisRollingUpdate (cnHostInject c) \<noteq> None)
      then warningDeprecatedMaxUnavailableAnnotationWithRollingUpdate
      else if (case HostMonitoring spec of None \<Rightarrow> False | Some h \<Rightarrow> hisRollingUpdate h \<noteq> None)
      then warningDeprecatedMaxUnavailableAnnotationWithRollingUpdate
      else if (case lmTemplateSpec (dk_LogMonitoring dk) of None \<Rightarrow> False | Some t \<Rightarrow> lmtRollingUpdate t \<noteq> None)
      then warningDeprecatedMaxUnavailableAnnotationWithRollingUpdate
      else [])"

definition hasOneAgentVolumeStorageEnabled :: "dynakube \<Rightarrow> bool \<times> bool" where
  "hasOneAgentVolumeStorageEnabled dk =
     (case k8senv_Find (oa_GetEnvironment (dk_OneAgent dk)) ''ONEAGENT_ENABLE_VOLUME_STORAGE'' of
        None \<Rightarrow> (False, False)
      | Some envVar \<Rightarrow> (evValue envVar = ''true'', True))"

definition unsupportedOneAgentImage :: validatorFunc where
  "unsupportedOneAgentImage env dk =
     (if k8senv_Find (oa_GetEnvironment (dk_OneAgent dk)) ''ONEAGENT_INSTALLER_SCRIPT_URL'' \<noteq> None \<or>
         k8senv_Find (oa_GetEnvironment (dk_OneAgent dk)) ''ONEAGENT_INSTALLER_TOKEN'' \<noteq> None
      then warningOneAgentInstallerEnvVars else [])"

definition conflictingOneAgentVolumeStorageSettings :: validatorFunc where
  "conflictingOneAgentVolumeStorageSettings env dk =
     (case hasOneAgentVolumeStorageEnabled dk of (volumeStorageEnabled, volumeStorageSet) \<Rightarrow>
        if IsReadOnlyFSSupported (dk_OneAgent dk) \<and> volumeStorageSet \<and> \<not> volumeStorageEnabled
        then errorVolumeStorageReadOnlyModeConflict else [])"

definition conflictingHostGroupSettings :: validatorFunc where
  "conflictingHostGroupSettings env dk =
     (if oa_GetHostGroupAsParam (dk_OneAgent dk) \<noteq> [] then warningHostGroupConflict else [])"

text \<open>\<open>conversion.Field.Get\<close> on the annotation that keeps a removed field.\<close>

definition removed_AutoUpdate :: "validator_env \<Rightarrow> dynakube \<Rightarrow> bool option" where
  "removed_AutoUpdate env dk =
     (case dkAnnotations dk ''conversion.internal.dynatrace.com/auto-update'' of
        None \<Rightarrow> None | Some raw \<Rightarrow> veUnmarshalBool env raw)"

definition deprecatedAutoUpdate :: validatorFunc where
  "deprecatedAutoUpdate env dk =
     (let oa = dk_OneAgent dk in
      if IsClassicFullStackMode oa \<and> removed_AutoUpdate env dk \<noteq> None then warningDeprecatedAutoUpdate
      else if IsHostMonitoringMode oa \<and> removed_AutoUpdate env dk \<noteq> None then warningDeprecatedAutoUpdate
      else if IsCloudNativeFullstackMode oa \<and> removed_AutoUpdate env dk \<noteq> None
      then warningDeprecatedAutoUpdate else [])"

text \<open>
  \<open>versionRegex\<close> is matched rune by rune. Its dots are not escaped, so that they stand for any rune
  but a newline.
\<close>

datatype re_item = Digit | Digits | AnyRune | Lit char

definition digit_rune :: "string \<Rightarrow> bool" where
  "digit_rune r \<longleftrightarrow> (case r of [c] \<Rightarrow> is_digit c | _ \<Rightarrow> False)"

fun re_match :: "re_item list \<Rightarrow> string list \<Rightarrow> bool" where
  "re_match [] rs = (rs = [])"
| "re_match (Digit # p) rs = (case rs of [] \<Rightarrow> False | r # rs' \<Rightarrow> digit_rune r \<and> re_match p rs')"
| "re_match (AnyRune # p) rs = (case rs of [] \<Rightarrow> False | r # rs' \<Rightarrow> r \<noteq> [CHR 0x0A] \<and> re_match p rs')"
| "re_match (Lit c # p) rs = (case rs of [] \<Rightarrow> False | r # rs' \<Rightarrow> r = [c] \<and> re_match p rs')"
| "re_match (Digits # p) rs =
     (case rs of [] \<Rightarrow> False
      | r # rs' \<Rightarrow> digit_rune r \<and> (re_match p rs' \<or> re_match (Digits # p) rs'))"

definition versionRegex :: "re_item list" where
  "versionRegex =
     [Digits, AnyRune, Digits, AnyRune, Digits, AnyRune] @ replicate 8 Digit @ [Lit (CHR ''-'')] @
     replicate 6 Digit"

definition isOneAgentVersionValid :: validatorFunc where
  "isOneAgentVersionValid env dk =
     (let agentVersion = oa_GetCustomVersion (dk_OneAgent dk) in
      if agentVersion = [] then []
      else case ToSemver (veSemverCanonical env) (veSemverValid env) agentVersion of
        Inl e \<Rightarrow> versionInvalidMessage
      | Inr _ \<Rightarrow> (if \<not> re_match versionRegex (runes agentVersion) then versionInvalidMessage else []))"

fun find_duplicates :: "(string \<Rightarrow> nat) \<Rightarrow> string list \<Rightarrow> string list" where
  "find_duplicates seen [] = []"
| "find_duplicates seen (val # s) =
     (let seen' = seen(val := seen val + 1) in
      if seen' val = 2 then val # find_duplicates seen' s else find_duplicates seen' s)"

definition findDuplicates :: "string list \<Rightarrow> string list" where
  "findDuplicates s = find_duplicates (\<lambda>_. 0) s"

text \<open>\<open>%s\<close> of a string slice.\<close>

definition show_strings :: "string list \<Rightarrow> string" where
  "show_strings ss = ''['' @ join_sep '' '' ss @ '']''"

definition duplicateOneAgentArguments :: validatorFunc where
  "duplicateOneAgentArguments env dk =
     (let args = oa_GetArgumentsMap (dk_OneAgent dk) in
      first_msg (\<lambda>key.
          let values = (case args key of None \<Rightarrow> [] | Some vs \<Rightarrow> vs) in
          if key \<noteq> ''--set-host-property'' \<and> key \<noteq> ''--set-host-tag'' \<and> length values > 1
          then sprintf errorDuplicateOneAgentArgument [key]
          else if key = ''--set-host-tag'' \<and> length (findDuplicates values) > 0
          then sprintf errorSameHostTagMultipleTimes [show_strings (findDuplicates values)]
          else [])
        (veOrder env (dom args)))"

definition forbiddenHostIDSourceArgument :: validatorFunc where
  "forbiddenHostIDSourceArgument env dk =
     first_msg (\<lambda>key.
         if IsCloudNativeFullstackMode (dk_OneAgent dk) \<and> key = ''--set-host-id-source''
         then errorHostIDSourceArgumentInCloudNative else [])
       (veOrder env (dom (oa_GetArgumentsMap (dk_OneAgent dk))))"

definition invalidOneAgentArguments :: validatorFunc where
  "invalidOneAgentArguments env dk =
     first_msg (\<lambda>arg. if ContainsAny arg InvalidCommandLineCharset then errorInvalidOneAgentArgument else [])
       (oa_GetArguments (dk_OneAgent dk))"

definition deprecatedOneAgentVersionField :: validatorFunc where
  "deprecatedOneAgentVersionField env dk =
     (let oa = dk_OneAgent dk in
      if oa_GetCustomVersion oa \<noteq> [] then
        (if IsPublicRegistry (dk_FF dk) then warningDeprecatedVersionIgnored
         else if IsApplicationMonitoringMode oa then sprintf warningDeprecatedVersion [''codeModulesImage'']
         else if IsCloudNativeFullstackMode oa
         then sprintf warningDeprecatedVersion [''image and/or codeModulesImage'']
         else sprintf warningDeprecatedVersion [''image''])
      else [])"

definition missingCodeModulesImage :: validatorFunc where
  "missingCodeModulesImage env dk =
     (if IsAppInjectionNeeded (dk_OneAgent dk) \<and> IsNodeImagePull (dk_FF dk) then
        (if oa_GetCustomCodeModulesImage (dk_OneAgent dk) = [] \<and> \<not> IsPublicRegistry (dk_FF dk)
         then errorImagePullRequiresCodeModulesImage else [])
      else [])"

section \<open>Tokens, proxy, registry\<close>

definition reader_HasPlatformToken :: "validator_env \<Rightarrow> dynakube \<Rightarrow> error + bool" where
  "reader_HasPlatformToken env dk =
     (case ReadTokens (veGetSecret env) dk of Inl e \<Rightarrow> Inl e | Inr tokens \<Rightarrow> Inr (HasPlatformToken tokens))"

definition deprecatedPaasToken :: validatorFunc where
  "deprecatedPaasToken env dk =
     (case ReadTokens (veGetSecret env) dk of
        Inl e \<Rightarrow> []
      | Inr tokens \<Rightarrow>
          (if tValue (getToken tokens PaaSKey) \<noteq> [] then
             (if HasPlatformToken tokens then warningPaasTokenNotUsed else warningPaasTokenUsed)
           else []))"

definition secret_data :: "validator_env \<Rightarrow> data_reader" where
  "secret_data env ns secretName =
     (case veGetSecret env ns secretName of Inl e \<Rightarrow> Inl e | Inr data \<Rightarrow> Inr (map_of data))"

text \<open>The regular expression admits one or more of these ASCII characters and nothing else.\<close>

definition isStringValidForAG :: "string \<Rightarrow> bool" where
  "isStringValidForAG str =
     list_all (\<lambda>c. is_alnum c \<or> c \<in> set (''!#$()*-./:;<>?@[]^_{|}~'' @ [CHR 0x22])) str"

definition validateProxyURL :: "validator_env \<Rightarrow> string \<Rightarrow> string \<Rightarrow> string \<Rightarrow> string" where
  "validateProxyURL env proxyURL parseErrorMessage evalErrorMessage =
     (case veParseURL env proxyURL of
        None \<Rightarrow> parseErrorMessage
      | Some parsedURL \<Rightarrow>
          (let password = (case urlUser parsedURL of Some (_, Some pw) \<Rightarrow> pw | _ \<Rightarrow> [])
           in if \<not> isStringValidForAG password then evalErrorMessage else []))"

definition invalidActiveGateProxyURL :: validatorFunc where
  "invalidActiveGateProxyURL env dk =
     (if dspProxy (dkSpec dk) \<noteq> None then
        (case dk_Proxy (secret_data env) dk of
           Inl e \<Rightarrow> errorMissingProxySecret @ '': '' @ veErrorText env e
         | Inr proxyURL \<Rightarrow> validateProxyURL env proxyURL errorInvalidProxyURL errorInvalidEvalCharacter)
      else [])"

definition UsePublicRegistryKey :: string where
  "UsePublicRegistryKey = FFPrefix @ ''use-public-registry''"

definition publicRegistryOverrideWithoutPublicRegistry :: validatorFunc where
  "publicRegistryOverrideWithoutPublicRegistry env dk =
     (if dspPublicRegistryOverride (dkSpec dk) = [] \<or> IsPublicRegistry (dk_FF dk) then []
      else sprintf errorPublicRegistryOverrideWithoutPublicRegistry [UsePublicRegistryKey])"

definition publicRegistryFlagIgnoredForPlatformToken :: validatorFunc where
  "publicRegistryFlagIgnoredForPlatformToken env dk =
     (if dkAnnotations dk UsePublicRegistryKey = None then []
      else if atsPlatform (dstAPIToken (dkStatus dk)) \<noteq> Some True then []
      else sprintf warningPublicRegistryFlagIgnoredForPlatformToken [UsePublicRegistryKey])"

definition publicRegistryNotAllowedForClassic :: validatorFunc where
  "publicRegistryNotAllowedForClassic env dk =
     (if \<not> IsClassicFullStackMode (dk_OneAgent dk) \<or> oa_GetCustomImage (dk_OneAgent dk) \<noteq> [] then []
      else if dspPublicRegistryOverride (dkSpec dk) \<noteq> [] \<or> IsPublicRegistry (dk_FF dk)
      then errorClassicFullStackIncompatibleWithPublicRegistry else [])"

section \<open>Resource attributes (\<open>resource_attributes.go\<close>)\<close>

definition validateResourceAttributeMap :: "validator_env \<Rightarrow> smap \<Rightarrow> string" where
  "validateResourceAttributeMap env attrs =
     concat (map (\<lambda>k.
         let v = (case attrs k of None \<Rightarrow> [] | Some v \<Rightarrow> v);
             keyErrs = veIsLabelKey env k; valErrs = veIsLabelValue env v
         in (if length keyErrs > 0
             then '', invalid key '' @ veQuote env k @ '': '' @ join_sep ''; '' keyErrs else []) @
            (if length valErrs > 0
             then '', invalid value '' @ veQuote env v @ '' for key '' @ veQuote env k @ '': '' @
                  join_sep ''; '' valErrs else []))
       (veOrder env (dom attrs)))"

text \<open>
  The loop of \<open>checkResourceAttributeSanitization\<close> over the sorted entries (original and sanitized
  key); \<open>seen\<close> maps a sanitized key to the first original one. It answers the warnings and errors.
\<close>

fun sanitize_entries ::
    "(string \<Rightarrow> string) \<Rightarrow> (string \<rightharpoonup> string) \<Rightarrow> (string \<times> string) list \<Rightarrow> string list \<times> string list" where
  "sanitize_entries q seen [] = ([], [])"
| "sanitize_entries q seen ((original, sanitized) # entries) =
     (if sanitized = [] then
        apsnd ((#) ('', key '' @ q original @ '' will be dropped '' @ [CHR 0xE2, CHR 0x80, CHR 0x94] @
                    '' no valid characters remain after sanitization'')) (sanitize_entries q seen entries)
      else if length sanitized > 63 then
        apsnd ((#) ('', key '' @ q original @ '' sanitizes to '' @ q sanitized @
                    '' which exceeds the 63-character annotation name-segment limit''))
          (sanitize_entries q seen entries)
      else
        (let (err, seen') =
               (case seen sanitized of
                  Some existing \<Rightarrow>
                    ([ '', keys '' @ q existing @ '' and '' @ q original @ '' both sanitize to '' @ q sanitized @
                       '' '' @ [CHR 0xE2, CHR 0x80, CHR 0x94] @ '' rename one to avoid an ambiguous collision''],
                     seen)
                | None \<Rightarrow> ([], seen(sanitized \<mapsto> original)));
             warn = (if sanitized \<noteq> original
                     then ['', key '' @ q original @ '' will be renamed to '' @ q sanitized] else [])
         in case sanitize_entries q seen' entries of (ws, es) \<Rightarrow> (warn @ ws, err @ es)))"

definition checkResourceAttributeSanitization :: "validator_env \<Rightarrow> smap \<Rightarrow> string \<times> string" where
  "checkResourceAttributeSanitization env attrs =
     (let entries = sort_by fst (map (\<lambda>key. (key, SanitizeKey key)) (veOrder env (dom attrs))) in
      case sanitize_entries (veQuote env) Map.empty entries of
        (warnParts, errParts) \<Rightarrow> (concat warnParts, concat errParts))"

definition formatIfNonEmpty :: "string \<Rightarrow> string \<Rightarrow> string" where
  "formatIfNonEmpty msg fmtStr = (if msg = [] then [] else sprintf fmtStr [msg])"

text \<open>The three groups of attributes: global, of the OneAgent, of the OTLP exporter.\<close>

definition oneagent_attributes :: "dynakube \<Rightarrow> smap option" where
  "oneagent_attributes dk =
     (if oa_HasAdditionalResourceAttributes (dk_OneAgent dk)
      then Some (oa_GetResourceAttributes (dk_OneAgent dk)) else None)"

definition otlp_attributes :: "dynakube \<Rightarrow> smap option" where
  "otlp_attributes dk =
     (if otlp_HasAdditionalResourceAttributes (dk_OTLPExporterConfiguration dk)
      then Some (otlp_GetResourceAttributes (dk_OTLPExporterConfiguration dk)) else None)"

definition invalidGlobalResourceAttributes :: validatorFunc where
  "invalidGlobalResourceAttributes env dk =
     formatIfNonEmpty (validateResourceAttributeMap env (dspResourceAttributes (dkSpec dk)))
       errorResourceAttributesInvalidGlobal"

definition invalidOneAgentResourceAttributes :: validatorFunc where
  "invalidOneAgentResourceAttributes env dk =
     (case oneagent_attributes dk of None \<Rightarrow> []
      | Some attrs \<Rightarrow> formatIfNonEmpty (validateResourceAttributeMap env attrs)
                       errorResourceAttributesInvalidOneAgent)"

definition invalidOTLPResourceAttributes :: validatorFunc where
  "invalidOTLPResourceAttributes env dk =
     (case otlp_attributes dk of None \<Rightarrow> []
      | Some attrs \<Rightarrow> formatIfNonEmpty (validateResourceAttributeMap env attrs)
                       errorResourceAttributesInvalidOTLP)"

definition resourceAttributesLimit :: nat where "resourceAttributesLimit = 10"

definition attributes_count :: "validator_env \<Rightarrow> smap \<Rightarrow> nat" where
  "attributes_count env attrs = length (veOrder env (dom attrs))"

definition globalResourceAttributesExceedsLimit :: validatorFunc where
  "globalResourceAttributesExceedsLimit env dk =
     (let count = attributes_count env (dspResourceAttributes (dkSpec dk)) in
      if count > resourceAttributesLimit
      then sprintf warningGlobalResourceAttributesExceedsLimit [show_nat count] else [])"

definition oneAgentResourceAttributesExceedsLimit :: validatorFunc where
  "oneAgentResourceAttributesExceedsLimit env dk =
     (case oneagent_attributes dk of None \<Rightarrow> []
      | Some attrs \<Rightarrow>
          (let count = attributes_count env attrs in
           if count > resourceAttributesLimit
           then sprintf warningOneAgentResourceAttributesExceedsLimit [show_nat count] else []))"

definition otlpResourceAttributesExceedsLimit :: validatorFunc where
  "otlpResourceAttributesExceedsLimit env dk =
     (case otlp_attributes dk of None \<Rightarrow> []
      | Some attrs \<Rightarrow>
          (let count = attributes_count env attrs in
           if count > resourceAttributesLimit
           then sprintf warningOTLPResourceAttributesExceedsLimit [show_nat count] else []))"

definition warnGlobalResourceAttributesSanitization :: validatorFunc where
  "warnGlobalResourceAttributesSanitization env dk =
     formatIfNonEmpty (fst (checkResourceAttributeSanitization env (dspResourceAttributes (dkSpec dk))))
       warnResourceAttributesSanitizationGlobal"

definition invalidGlobalResourceAttributesSanitization :: validatorFunc where
  "invalidGlobalResourceAttributesSanitization env dk =
     formatIfNonEmpty (snd (checkResourceAttributeSanitization env (dspResourceAttributes (dkSpec dk))))
       errorResourceAttributesSanitizationGlobal"

definition warnOneAgentResourceAttributesSanitization :: validatorFunc where
  "warnOneAgentResourceAttributesSanitization env dk =
     (case oneagent_attributes dk of None \<Rightarrow> []
      | Some attrs \<Rightarrow> formatIfNonEmpty (fst (checkResourceAttributeSanitization env attrs))
                       warnResourceAttributesSanitizationOneAgent)"

definition invalidOneAgentResourceAttributesSanitization :: validatorFunc where
  "invalidOneAgentResourceAttributesSanitization env dk =
     (case oneagent_attributes dk of None \<Rightarrow> []
      | Some attrs \<Rightarrow> formatIfNonEmpty (snd (checkResourceAttributeSanitization env attrs))
                       errorResourceAttributesSanitizationOneAgent)"

definition warnOTLPResourceAttributesSanitization :: validatorFunc where
  "warnOTLPResourceAttributesSanitization env dk =
     (case otlp_attributes dk of None \<Rightarrow> []
      | Some attrs \<Rightarrow> formatIfNonEmpty (fst (checkResourceAttributeSanitization env attrs))
                       warnResourceAttributesSanitizationOTLP)"

definition invalidOTLPResourceAttributesSanitization :: validatorFunc where
  "invalidOTLPResourceAttributesSanitization env dk =
     (case otlp_attributes dk of None \<Rightarrow> []
      | Some attrs \<Rightarrow> formatIfNonEmpty (snd (checkResourceAttributeSanitization env attrs))
                       errorResourceAttributesSanitizationOTLP)"

section \<open>Telemetry ingest (\<open>telemetryservice.go\<close>)\<close>

definition emptyTelemetryIngestProtocolsList :: validatorFunc where
  "emptyTelemetryIngestProtocolsList env dk =
     (let ti = dspTelemetryIngest (dkSpec dk) in
      if \<not> ti_IsEnabled ti then []
      else if length (ti_GetProtocols ti) = 0 then errorTelemetryIngestNotEnoughProtocols else [])"

definition unknownTelemetryIngestProtocols :: validatorFunc where
  "unknownTelemetryIngestProtocols env dk =
     (let ti = dspTelemetryIngest (dkSpec dk) in
      if \<not> ti_IsEnabled ti then []
      else let unknownProtocols = filter (\<lambda>protocol. protocol \<notin> set RegisteredProtocols) (ti_GetProtocols ti)
           in if length unknownProtocols > 0 then errorTelemetryIngestUnknownProtocols else [])"

definition invalidTelemetryIngestNameErrorMessage :: string where
  "invalidTelemetryIngestNameErrorMessage = sprintf errorTelemetryIngestNoDNS1053Label [show_nat 63]"

definition invalidTelemetryIngestName :: validatorFunc where
  "invalidTelemetryIngestName env dk =
     (case dspTelemetryIngest (dkSpec dk) of None \<Rightarrow> []
      | Some ti \<Rightarrow>
          (let errs = (if tiServiceName ti \<noteq> [] then veIsDNS1035Label env (tiServiceName ti) else [])
           in if length errs = 0 then [] else invalidTelemetryIngestNameErrorMessage))"

definition dk_telemetry_service :: "dynakube \<Rightarrow> string" where
  "dk_telemetry_service dk = ti_GetServiceName (dkName dk) (dspTelemetryIngest (dkSpec dk))"

definition conflictingTelemetryIngestServiceNames :: validatorFunc where
  "conflictingTelemetryIngestServiceNames env dk =
     (if \<not> ti_IsEnabled (dspTelemetryIngest (dkSpec dk)) then []
      else case veListDynaKubes env (dkNamespace dk) of
        Inl e \<Rightarrow> []
      | Inr items \<Rightarrow>
          first_msg (\<lambda>otherDK.
              if dkName otherDK = dkName dk then []
              else if \<not> ti_IsEnabled (dspTelemetryIngest (dkSpec otherDK)) then []
              else if dk_telemetry_service otherDK = dk_telemetry_service dk
              then errorTelemetryIngestServiceNameInUse @ '' Conflicting Dynakube: '' @ dkName otherDK @
                   ''. Conflicting telemetry service name: '' @ dk_telemetry_service otherDK
              else [])
            items)"

definition forbiddenTelemetryIngestServiceNameSuffix :: validatorFunc where
  "forbiddenTelemetryIngestServiceNameSuffix env dk =
     (case dspTelemetryIngest (dkSpec dk) of None \<Rightarrow> []
      | Some ti \<Rightarrow>
          (let serviceName = tiServiceName ti in
           if serviceName = [] then []
           else if has_suffix serviceName ExtensionsControllerSuffix \<or>
                   has_suffix serviceName ''-telemetry-ingest'' \<or>
                   has_suffix serviceName ''-activegate'' \<or> has_suffix serviceName ''-webhook''
           then errorTelemetryIngestForbiddenServiceName @ '' Telemetry service name: '' @ serviceName
           else []))"

definition missingOTelCollectorImage :: validatorFunc where
  "missingOTelCollectorImage env dk =
     (if \<not> ti_IsEnabled (dspTelemetryIngest (dkSpec dk)) \<and> \<not> ext_IsPrometheusEnabled (dk_Extensions dk)
      then []
      else if \<not> ref_HasImage (Some (otcImageRef (tsOpenTelemetryCollector (dspTemplates (dkSpec dk)))))
      then errorOTelCollectorMissingImage else [])"

definition ignoredOTelCollectorTemplate :: validatorFunc where
  "ignoredOTelCollectorTemplate env dk =
     (if \<not> ti_IsEnabled (dspTelemetryIngest (dkSpec dk)) \<and>
         otcImageRef (tsOpenTelemetryCollector (dspTemplates (dkSpec dk))) \<noteq> zero_image_ref
      then warningOTelCollectorIgnoredTemplate else [])"

section \<open>The webhook (\<open>validation.go\<close>)\<close>

definition validatorErrorFuncs :: "validatorFunc list" where
  "validatorErrorFuncs =
     [isActiveGateModuleDisabled, isExtensionsModuleDisabled, isLogMonitoringModuleDisabled,
      isKSPMDisabled, isOneAgentModuleDisabled, isOneAgentVersionValid, duplicateOneAgentArguments,
      forbiddenHostIDSourceArgument, NoAPIURL, isInvalidAPIURL, invalidActiveGateCapabilities,
      mutuallyExclusiveActiveGatePVsettings, activeGateHasConflictingVolumes,
      activeGateHasDisallowedVolumeType, invalidActiveGateProxyURL, conflictingOneAgentConfiguration,
      conflictingOneAgentNodeSelector, conflictingNamespaceSelector, isIstioNotInstalled,
      conflictingOneAgentVolumeStorageSettings, nameInvalid, invalidOneAgentNamespaceSelector,
      invalidMetadataNamespaceSelectors, invalidOTLPExporterNamespaceSelector,
      imageFieldHasTenantImage, extensionControllerImage, extensionControllerPVCStorageDevice,
      tooManyKubernetesMonitoringReplicas, missingKSPMImage, kspmWithoutKubernetesMonitoringRegistration,
      mappedHostPathsWithRootPath, relativeMappedHostPaths, missingLogMonitoringImage,
      emptyTelemetryIngestProtocolsList, unknownTelemetryIngestProtocols, invalidTelemetryIngestName,
      forbiddenTelemetryIngestServiceNameSuffix, conflictingTelemetryIngestServiceNames,
      missingOTelCollectorImage, missingDatabaseExecutorImage, conflictingOrInvalidDatabasesVolumeMounts,
      unusedDatabasesVolume, invalidGlobalResourceAttributes, invalidOneAgentResourceAttributes,
      invalidOTLPResourceAttributes, invalidGlobalResourceAttributesSanitization,
      invalidOneAgentResourceAttributesSanitization, invalidOTLPResourceAttributesSanitization,
      publicRegistryOverrideWithoutPublicRegistry, invalidNetworkZone, invalidOneAgentHostGroup,
      invalidNoProxy, publicRegistryNotAllowedForClassic, invalidOneAgentArguments,
      invalidLogmonArguments, missingCodeModulesImage]"

definition validatorWarningFuncs :: "validatorFunc list" where
  "validatorWarningFuncs =
     [missingActiveGateMemoryLimit, unsupportedOneAgentImage, conflictingHostGroupSettings,
      conflictingMaxUnavailableAnnotationWithRollingUpdate, deprecatedAutoUpdate,
      deprecatedOneAgentVersionField, deprecatedFeatureFlag, unknownFeatureFlag,
      ignoredOTelCollectorTemplate, ignoredLogMonitoringTemplate, conflictingAPIURLForExtensions,
      noMappedHostPaths, extensionsWithoutK8SMonitoring, hostPathDatabaseVolumeFound,
      disabledMetadataEnrichmentForInjectionModes, activeGateRollingUpdateWithOldK8sVersion,
      globalResourceAttributesExceedsLimit, oneAgentResourceAttributesExceedsLimit,
      otlpResourceAttributesExceedsLimit, deprecatedPaasToken, publicRegistryFlagIgnoredForPlatformToken,
      isNodeImagePullWithoutCSI, warnGlobalResourceAttributesSanitization,
      warnOneAgentResourceAttributesSanitization, warnOTLPResourceAttributesSanitization]"

definition updateValidatorErrorFuncs :: "(validator_env \<Rightarrow> dynakube \<Rightarrow> dynakube \<Rightarrow> string) list" where
  "updateValidatorErrorFuncs = [IsMutatedAPIURL]"

definition runValidators :: "validator_env \<Rightarrow> validatorFunc list \<Rightarrow> dynakube \<Rightarrow> string list" where
  "runValidators env validators dk =
     filter (\<lambda>errMsg. errMsg \<noteq> []) (map (\<lambda>validate. validate env dk) validators)"

definition runUpdateValidators ::
    "validator_env \<Rightarrow> (validator_env \<Rightarrow> dynakube \<Rightarrow> dynakube \<Rightarrow> string) list \<Rightarrow>
     dynakube \<Rightarrow> dynakube \<Rightarrow> string list" where
  "runUpdateValidators env updateValidators oldDK newDK =
     filter (\<lambda>errMsg. errMsg \<noteq> []) (map (\<lambda>validate. validate env oldDK newDK) updateValidators)"

text \<open>
  The object of an admission request: a DynaKube of the latest version, one of \<open>v1beta5\<close> with the
  outcome of its conversion, or something else, described by its kind.
\<close>

datatype admission_object =
    LatestDynaKube dynakube
  | OlderDynaKube "error + dynakube"
  | OtherObject string

definition getDynakube :: "admission_object \<Rightarrow> error + dynakube" where
  "getDynakube obj =
     (case obj of
        LatestDynaKube dk \<Rightarrow> Inr dk
      | OlderDynaKube converted \<Rightarrow> converted
      | OtherObject gvk \<Rightarrow> Inl (Sentinel (''unknown object '' @ gvk)))"

definition with_platform_token :: "validator_env \<Rightarrow> dynakube \<Rightarrow> dynakube" where
  "with_platform_token env dk =
     set_api_token (\<lambda>s. s\<lparr>atsPlatform :=
       Some (case reader_HasPlatformToken env dk of Inl e \<Rightarrow> False | Inr b \<Rightarrow> b)\<rparr>) dk"

definition summed :: "string list \<Rightarrow> error option" where
  "summed errMessages =
     (if length errMessages \<noteq> 0 then Some (Sentinel (SumErrors errMessages ''DynaKube'')) else None)"

definition ValidateCreate :: "validator_env \<Rightarrow> admission_object \<Rightarrow> string list \<times> error option" where
  "ValidateCreate env obj =
     (case getDynakube obj of
        Inl e \<Rightarrow> ([], Some e)
      | Inr dk0 \<Rightarrow>
          (let dk = with_platform_token env dk0;
               errMessages = runValidators env validatorErrorFuncs dk;
               warnings = runValidators env validatorWarningFuncs dk
           in (warnings, summed errMessages)))"

definition ValidateUpdate ::
    "validator_env \<Rightarrow> admission_object \<Rightarrow> admission_object \<Rightarrow> string list \<times> error option" where
  "ValidateUpdate env oldObj newObj =
     (case getDynakube oldObj of
        Inl e \<Rightarrow> ([], Some e)
      | Inr oldDK \<Rightarrow>
     (case getDynakube newObj of
        Inl e \<Rightarrow> ([], Some e)
      | Inr newDK0 \<Rightarrow>
          (let newDK = with_platform_token env newDK0;
               errMessages = runValidators env validatorErrorFuncs newDK;
               warnings = runValidators env validatorWarningFuncs newDK;
               errMessages' = errMessages @ runUpdateValidators env updateValidatorErrorFuncs oldDK newDK
           in (warnings, summed errMessages'))))"

end
