(* ===== verification/AdmissionVerdict.thy ===== *)
theory AdmissionVerdict
  imports DynaKubeWebhook "HOL-Library.Char_ord" "HOL-Library.List_Lexorder"
begin

text \<open>
  What the verdict of the DynaKube webhook means for the components behind it: the names of the
  workloads fit their limits, at most one OneAgent mode is left so that all getters read it, the
  attribute keys stay apart after sanitizing, agents of different DynaKubes do not meet on a node, and
  the verdict does not depend on the order of map iteration.
\<close>

section \<open>What the verdict means\<close>

text \<open>The law of \<open>veOrder\<close>: ranging over a map visits every key once.\<close>

definition ranges :: "(string set \<Rightarrow> string list) \<Rightarrow> bool" where
  "ranges order \<longleftrightarrow> (\<forall>D. finite D \<longrightarrow> set (order D) = D \<and> distinct (order D))"

lemma rangesD [simp]:
  "ranges order \<Longrightarrow> finite D \<Longrightarrow> set (order D) = D"
  "ranges order \<Longrightarrow> finite D \<Longrightarrow> distinct (order D)"
  by (auto simp: ranges_def)

lemma ranges_empty [simp]: "ranges order \<Longrightarrow> order {} = []"
  by (drule rangesD(1) [OF _ finite.emptyI]) (simp only: set_empty)

lemma mem_nonempty_messages:
  "filter (\<lambda>m. m \<noteq> []) (map f xs) = [] \<longleftrightarrow> (\<forall>x\<in>set xs. f x = [])"
  by (induction xs) auto

lemma summed_None: "summed ms = None \<longleftrightarrow> ms = []"
  by (simp add: summed_def)

lemma created_iff:
  "snd (ValidateCreate env (LatestDynaKube dk)) = None \<longleftrightarrow>
     (\<forall>v\<in>set validatorErrorFuncs. v env (with_platform_token env dk) = [])"
  by (simp add: ValidateCreate_def getDynakube_def summed_None runValidators_def mem_nonempty_messages Let_def)

lemma updated_iff:
  "snd (ValidateUpdate env (LatestDynaKube old) (LatestDynaKube dk)) = None \<longleftrightarrow>
     snd (ValidateCreate env (LatestDynaKube dk)) = None \<and>
     tenantUUIDFromAPIURL env (dspAPIURL (dkSpec old)) = tenantUUIDFromAPIURL env (dspAPIURL (dkSpec dk))"
  by (auto simp: ValidateUpdate_def getDynakube_def summed_None created_iff runValidators_def
      runUpdateValidators_def updateValidatorErrorFuncs_def mem_nonempty_messages Let_def
      IsMutatedAPIURL_def with_platform_token_def set_api_token_def)

lemma with_platform_token_sel [simp]:
  "dkSpec (with_platform_token env dk) = dkSpec dk"
  "dkName (with_platform_token env dk) = dkName dk"
  "dkNamespace (with_platform_token env dk) = dkNamespace dk"
  "dkAnnotations (with_platform_token env dk) = dkAnnotations dk"
  "oaSpec (dk_OneAgent (with_platform_token env dk)) = oaSpec (dk_OneAgent dk)"
  "dk_Extensions (with_platform_token env dk) = dk_Extensions dk"
  "dk_LogMonitoring (with_platform_token env dk) = dk_LogMonitoring dk"
  "dk_KSPM_IsEnabled (with_platform_token env dk) = dk_KSPM_IsEnabled dk"
  by (simp_all add: with_platform_token_def set_api_token_def dk_OneAgent_def dk_Extensions_def
      dk_LogMonitoring_def dk_KSPM_IsEnabled_def IsDaemonsetRequired_def IsClassicFullStackMode_def
      IsCloudNativeFullstackMode_def IsHostMonitoringMode_def)

lemma created_validator:
  "snd (ValidateCreate env (LatestDynaKube dk)) = None \<Longrightarrow> v \<in> set validatorErrorFuncs \<Longrightarrow>
   v env (with_platform_token env dk) = []"
  by (simp add: created_iff)

section \<open>Names\<close>

lemma nameTooLong_iff:
  "dk_nameTooLong dk = [] \<longleftrightarrow>
     length (dkName dk) \<le> 40 \<and>
     (ext_IsAnyEnabled (dk_Extensions dk) \<longrightarrow> length (dkName dk) \<le> 31) \<and>
     (ti_IsEnabled (dspTelemetryIngest (dkSpec dk)) \<longrightarrow> length (dkName dk) \<le> 37) \<and>
     (dk_KSPM_IsEnabled dk \<longrightarrow> length (dkName dk) \<le> 35)"
  by (auto simp: dk_nameTooLong_def Let_def dynakube_MaxNameLength_def maxNameLengthForExtensions_def
      maxNameLengthForOTelCol_def maxNameLengthForKSPM_def maxStatefulSetNameLength_def
      maxDaemonSetNameLength_def maxPodNameLen_def podTemplateHashLen_def podSuffixLen_def hyphenLen_def
      split: if_splits)

text \<open>The names of the workloads of an accepted DynaKube fit: daemon set names leave room for the
  pod suffix (57), stateful set names for the revision hash (52), for every enabled feature.\<close>

theorem accepted_names_fit:
  assumes "snd (ValidateCreate env (LatestDynaKube dk)) = None"
  shows "length (oa_GetDaemonsetName (dk_OneAgent dk)) \<le> 57 \<and>
         length (lm_GetDaemonSetName (dk_LogMonitoring dk)) \<le> 57 \<and>
         length (dkName dk @ ''-activegate'') \<le> 52 \<and>
         (ext_IsAnyEnabled (dk_Extensions dk) \<longrightarrow>
            length (ext_GetExecutionControllerStatefulsetName (dk_Extensions dk)) \<le> 52) \<and>
         (ti_IsEnabled (dspTelemetryIngest (dkSpec dk)) \<longrightarrow>
            length (dkName dk @ OTelCollectorNameSuffix) \<le> 52) \<and>
         (dk_KSPM_IsEnabled dk \<longrightarrow> length (dkName dk @ NodeCollectorNameSuffix) \<le> 57)"
proof -
  have "nameInvalid env (with_platform_token env dk) = []"
    by (rule created_validator [OF assms]) (simp add: validatorErrorFuncs_def)
  then have "dkName dk = [] \<or> dk_nameTooLong (with_platform_token env dk) = []"
    by (auto simp: nameInvalid_def split: if_splits)
  then show ?thesis
    by (auto simp: nameTooLong_iff oa_GetDaemonsetName_def dk_OneAgent_def lm_GetDaemonSetName_def
        dk_LogMonitoring_def ext_GetExecutionControllerStatefulsetName_def dk_Extensions_def)
qed

section \<open>One mode\<close>

definition single_mode_spec :: "oneagent_spec \<Rightarrow> bool" where
  "single_mode_spec s \<longleftrightarrow>
     length (filter (\<lambda>b. b) [ClassicFullStack s \<noteq> None, CloudNativeFullStack s \<noteq> None,
       ApplicationMonitoring s \<noteq> None, HostMonitoring s \<noteq> None]) \<le> 1"

lemmas oa_modes = IsApplicationMonitoringMode_def IsCloudNativeFullstackMode_def
  IsClassicFullStackMode_def IsHostMonitoringMode_def IsDaemonsetRequired_def IsAppInjectionNeeded_def

lemma single_mode_iff:
  "conflictingOneAgentConfiguration env dk = [] \<longleftrightarrow> single_mode_spec (oaSpec (dk_OneAgent dk))"
  by (auto simp: conflictingOneAgentConfiguration_def single_mode_spec_def oa_modes Let_def)

lemmas oa_getters = oa_GetCustomVersion_def oa_GetCustomImage_def oa_GetNodeSelector_def
  oa_GetEnvironment_def oa_GetArguments_def oa_GetCustomCodeModulesImage_def oa_GetAdditionalResourceAttributes_def
  oa_GetSecCompProfile_def oa_GetImagePullPolicy_def oa_IsAutoUpdateEnabled_def oa_GetHostPath_def
  oa_GetInitResources_def oa_GetNamespaceSelector_def oa_GetCodeModulesImagePullPolicy_def

text \<open>The host agent of a daemon set mode: all its settings but the path on the host.\<close>

definition reads_host_settings :: "one_agent \<Rightarrow> host_inject_spec \<Rightarrow> bool" where
  "reads_host_settings oa h \<longleftrightarrow>
     oa_GetCustomVersion oa = hisVersion h \<and> oa_GetCustomImage oa = hisImage h \<and>
     (\<forall>fallback. oa_GetNodeSelector oa fallback = hisNodeSelector h) \<and>
     oa_GetEnvironment oa = hisEnv h \<and>
     oa_GetArguments oa = (case hisArgs h of None \<Rightarrow> [] | Some args \<Rightarrow> args) \<and>
     oa_GetAdditionalResourceAttributes oa = hisAdditionalResourceAttributes h \<and>
     oa_GetSecCompProfile oa = hisSecCompProfile h \<and> oa_GetImagePullPolicy oa = hisImagePullPolicy h \<and>
     oa_IsAutoUpdateEnabled oa = (hisVersion h = [] \<and> hisImage h = [])"

text \<open>The injection, in the modes that have one.\<close>

definition reads_injection_settings :: "one_agent \<Rightarrow> app_injection_spec option \<Rightarrow> bool" where
  "reads_injection_settings oa app \<longleftrightarrow>
     oa_GetNamespaceSelector oa = map_option aisNamespaceSelector app \<and>
     oa_GetCustomCodeModulesImage oa = (case app of None \<Rightarrow> [] | Some a \<Rightarrow> aisCodeModulesImage a) \<and>
     oa_GetCodeModulesImagePullPolicy oa = (case app of None \<Rightarrow> [] | Some a \<Rightarrow> aisCodeModulesImagePullPolicy a) \<and>
     oa_GetInitResources oa = (case app of None \<Rightarrow> None | Some a \<Rightarrow> aisInitResources a)"

definition host_path_of :: "host_inject_spec \<Rightarrow> string" where
  "host_path_of h = (if hisStorageHostPath h \<noteq> [] then hisStorageHostPath h else ''/var/opt/dynatrace'')"

lemma classic_settings:
  "single_mode_spec (oaSpec oa) \<Longrightarrow> ClassicFullStack (oaSpec oa) = Some h \<Longrightarrow>
   reads_host_settings oa h \<and> \<not> IsAppInjectionNeeded oa \<and> reads_injection_settings oa None \<and> oa_GetHostPath oa = []"
  by (simp add: single_mode_spec_def reads_host_settings_def reads_injection_settings_def oa_getters oa_modes
      host_AutoUpdate_def split: if_splits option.split)

lemma host_settings:
  "single_mode_spec (oaSpec oa) \<Longrightarrow> HostMonitoring (oaSpec oa) = Some h \<Longrightarrow>
   reads_host_settings oa h \<and> \<not> IsAppInjectionNeeded oa \<and> reads_injection_settings oa None \<and>
   oa_GetHostPath oa = host_path_of h"
  by (simp add: single_mode_spec_def reads_host_settings_def reads_injection_settings_def oa_getters oa_modes
      host_AutoUpdate_def host_path_of_def split: if_splits option.split)

lemma cloud_native_settings:
  "single_mode_spec (oaSpec oa) \<Longrightarrow> CloudNativeFullStack (oaSpec oa) = Some c \<Longrightarrow>
   reads_host_settings oa (cnHostInject c) \<and> reads_injection_settings oa (Some (cnAppInjection c)) \<and>
   oa_GetHostPath oa = host_path_of (cnHostInject c)"
  by (simp add: single_mode_spec_def reads_host_settings_def reads_injection_settings_def oa_getters
      host_AutoUpdate_def host_path_of_def split: if_splits option.split)

lemma app_monitoring_settings:
  "single_mode_spec (oaSpec oa) \<Longrightarrow> ApplicationMonitoring (oaSpec oa) = Some a \<Longrightarrow>
   \<not> IsDaemonsetRequired oa \<and> oa_GetCustomVersion oa = amVersion a \<and> oa_GetCustomImage oa = [] \<and>
   (\<forall>fallback. oa_GetNodeSelector oa fallback = fallback) \<and> oa_GetEnvironment oa = [] \<and> oa_GetArguments oa = [] \<and>
   oa_GetAdditionalResourceAttributes oa = amAdditionalResourceAttributes a \<and> oa_GetSecCompProfile oa = [] \<and>
   oa_GetImagePullPolicy oa = [] \<and> \<not> oa_IsAutoUpdateEnabled oa \<and> oa_GetHostPath oa = [] \<and>
   reads_injection_settings oa (Some (amAppInjection a))"
  by (simp add: single_mode_spec_def reads_injection_settings_def oa_getters oa_modes split: if_splits)

text \<open>C19. An accepted DynaKube has at most one OneAgent mode, so that the getters of its settings, which look
  through the modes in different orders, all read that mode: of the host agent version, image, pull policy,
  automatic update, node selector, environment, arguments, resource attributes, seccomp profile and host path,
  of the injection namespace selector, code modules image with its pull policy, and init resources. What
  the mode does not have reads as not set.\<close>

theorem accepted_mode_decides_settings:
  assumes "snd (ValidateCreate env (LatestDynaKube dk)) = None"
  defines "oa \<equiv> dk_OneAgent dk"
  shows "(\<forall>h. ClassicFullStack (oaSpec oa) = Some h \<longrightarrow>
            reads_host_settings oa h \<and> \<not> IsAppInjectionNeeded oa \<and> reads_injection_settings oa None \<and>
            oa_GetHostPath oa = []) \<and>
         (\<forall>h. HostMonitoring (oaSpec oa) = Some h \<longrightarrow>
            reads_host_settings oa h \<and> \<not> IsAppInjectionNeeded oa \<and> reads_injection_settings oa None \<and>
            oa_GetHostPath oa = host_path_of h) \<and>
         (\<forall>c. CloudNativeFullStack (oaSpec oa) = Some c \<longrightarrow>
            reads_host_settings oa (cnHostInject c) \<and> reads_injection_settings oa (Some (cnAppInjection c)) \<and>
            oa_GetHostPath oa = host_path_of (cnHostInject c)) \<and>
         (\<forall>a. ApplicationMonitoring (oaSpec oa) = Some a \<longrightarrow>
            \<not> IsDaemonsetRequired oa \<and> oa_GetCustomVersion oa = amVersion a \<and> oa_GetCustomImage oa = [] \<and>
            (\<forall>fallback. oa_GetNodeSelector oa fallback = fallback) \<and> oa_GetEnvironment oa = [] \<and> oa_GetArguments oa = [] \<and>
            oa_GetAdditionalResourceAttributes oa = amAdditionalResourceAttributes a \<and> oa_GetSecCompProfile oa = [] \<and>
            oa_GetImagePullPolicy oa = [] \<and> \<not> oa_IsAutoUpdateEnabled oa \<and> oa_GetHostPath oa = [] \<and>
            reads_injection_settings oa (Some (amAppInjection a)))"
proof -
  have "conflictingOneAgentConfiguration env (with_platform_token env dk) = []"
    by (rule created_validator [OF assms(1)]) (simp add: validatorErrorFuncs_def)
  then have "single_mode_spec (oaSpec oa)"
    by (simp add: oa_def single_mode_iff)
  then show ?thesis
    using classic_settings host_settings cloud_native_settings app_monitoring_settings by blast
qed

section \<open>Resource attributes\<close>

lemma sanitize_step_errors:
  "snd (sanitize_entries q seen ((k, s) # entries)) = [] \<longleftrightarrow>
     s \<noteq> [] \<and> length s \<le> 63 \<and> seen s = None \<and> snd (sanitize_entries q (seen(s \<mapsto> k)) entries) = []"
  by (auto simp: Let_def not_less split: option.split prod.split)

lemma sanitize_step_warnings:
  "fst (sanitize_entries q seen ((k, s) # entries)) = [] \<longleftrightarrow>
     (s \<noteq> [] \<and> length s \<le> 63 \<longrightarrow> s = k) \<and>
     fst (sanitize_entries q (if s \<noteq> [] \<and> length s \<le> 63 \<and> seen s = None then seen(s \<mapsto> k) else seen)
            entries) = []"
  by (auto simp: Let_def not_less split: option.split prod.split)

lemma sanitize_errors:
  "snd (sanitize_entries q seen entries) = [] \<longleftrightarrow>
     (\<forall>(k, s)\<in>set entries. s \<noteq> [] \<and> length s \<le> 63 \<and> seen s = None) \<and> distinct (map snd entries)"
proof (induction entries arbitrary: seen)
  case (Cons e entries)
  obtain k s where e: "e = (k, s)" by fastforce
  have "(\<forall>(k', s')\<in>set entries. s' \<noteq> [] \<and> length s' \<le> 63 \<and> (seen(s \<mapsto> k)) s' = None) \<longleftrightarrow>
        (\<forall>(k', s')\<in>set entries. s' \<noteq> [] \<and> length s' \<le> 63 \<and> seen s' = None) \<and> s \<notin> snd ` set entries"
    by (auto simp: image_iff)
  then show ?case
    unfolding e sanitize_step_errors Cons.IH by auto
qed simp

lemma sanitize_warnings:
  "fst (sanitize_entries q seen entries) = [] \<longleftrightarrow>
     (\<forall>(k, s)\<in>set entries. s \<noteq> [] \<and> length s \<le> 63 \<longrightarrow> s = k)"
proof (induction entries arbitrary: seen)
  case (Cons e entries)
  obtain k s where e: "e = (k, s)" by fastforce
  show ?case unfolding e sanitize_step_warnings Cons.IH by auto
qed simp

definition real_texts :: "string list \<times> string list \<Rightarrow> bool" where
  "real_texts p \<longleftrightarrow> [] \<notin> set (fst p) \<and> [] \<notin> set (snd p)"

lemma real_texts_simps:
  "real_texts (apsnd ((#) m) p) \<longleftrightarrow> m \<noteq> [] \<and> real_texts p"
  "real_texts (ws @ fst p, es @ snd p) \<longleftrightarrow> [] \<notin> set ws \<and> [] \<notin> set es \<and> real_texts p"
  by (auto simp: real_texts_def)

lemma sanitize_messages: "real_texts (sanitize_entries q seen entries)"
proof (induction entries arbitrary: seen)
  case (Cons e entries)
  obtain k s where e: "e = (k, s)" by fastforce
  show ?case
    unfolding e by (simp add: real_texts_simps Cons.IH Let_def case_prod_beta split: option.split)
qed (simp add: real_texts_def)

lemma real_texts_concat:
  "real_texts p \<Longrightarrow> concat (fst p) = [] \<longleftrightarrow> fst p = []"
  "real_texts p \<Longrightarrow> concat (snd p) = [] \<longleftrightarrow> snd p = []"
  by (cases "fst p"; auto simp: real_texts_def) (cases "snd p"; auto simp: real_texts_def)

definition sorted_entries :: "validator_env \<Rightarrow> smap \<Rightarrow> (string \<times> string) list" where
  "sorted_entries env attrs = sort_by fst (map (\<lambda>key. (key, SanitizeKey key)) (veOrder env (dom attrs)))"

lemma attribute_check:
  "fst (checkResourceAttributeSanitization env attrs) = [] \<longleftrightarrow>
     fst (sanitize_entries (veQuote env) Map.empty (sorted_entries env attrs)) = []"
  "snd (checkResourceAttributeSanitization env attrs) = [] \<longleftrightarrow>
     snd (sanitize_entries (veQuote env) Map.empty (sorted_entries env attrs)) = []"
  using sanitize_messages
  by (simp_all only: checkResourceAttributeSanitization_def Let_def case_prod_beta fst_conv snd_conv
      sorted_entries_def real_texts_concat)

lemma distinct_map_order:
  assumes "distinct keys"
  shows "distinct (map snd (sort_by fst (map (\<lambda>k. (k, f k)) keys))) \<longleftrightarrow> inj_on f (set keys)"
proof -
  let ?l = "map snd (sort_by fst (map (\<lambda>k. (k, f k)) keys))"
  have "set ?l = f ` set keys" by force
  moreover have "length ?l = card (set keys)" using assms by (simp add: distinct_card)
  ultimately have "distinct ?l \<longleftrightarrow> card (f ` set keys) = card (set keys)"
    by (metis card_distinct distinct_card)
  then show ?thesis by (simp add: inj_on_iff_eq_card)
qed

lemma attribute_check_errors:
  assumes "ranges (veOrder env)" "finite (dom attrs)"
  shows "snd (checkResourceAttributeSanitization env attrs) = [] \<longleftrightarrow>
     (\<forall>k\<in>dom attrs. SanitizeKey k \<noteq> [] \<and> length (SanitizeKey k) \<le> 63) \<and> inj_on SanitizeKey (dom attrs)"
  unfolding attribute_check sanitize_errors using assms
  by (simp add: sorted_entries_def distinct_map_order)

text \<open>The attribute check reports an error exactly when a key sanitizes to nothing, to more than 63
  characters, or to the same text as another key; it warns exactly when a usable key is not already a
  name segment.\<close>

theorem sanitization_errors_iff:
  assumes "ranges (veOrder env)" "finite (dom attrs)"
  shows "(snd (checkResourceAttributeSanitization env attrs) = [] \<longleftrightarrow>
            (\<forall>k\<in>dom attrs. SanitizeKey k \<noteq> [] \<and> length (SanitizeKey k) \<le> 63) \<and>
            inj_on SanitizeKey (dom attrs)) \<and>
         (fst (checkResourceAttributeSanitization env attrs) = [] \<longleftrightarrow>
            (\<forall>k\<in>dom attrs. name_segment k \<or> SanitizeKey k = [] \<or> length (SanitizeKey k) > 63))"
proof
  show "fst (checkResourceAttributeSanitization env attrs) = [] \<longleftrightarrow>
          (\<forall>k\<in>dom attrs. name_segment k \<or> SanitizeKey k = [] \<or> length (SanitizeKey k) > 63)"
    unfolding attribute_check sanitize_warnings using assms SanitizeKey_segment SanitizeKey_id
    by (simp add: sorted_entries_def not_less) (metis not_le)
qed (rule attribute_check_errors [OF assms])

section \<open>Agents on the same nodes\<close>

definition runs_agent :: "dynakube \<Rightarrow> bool" where
  "runs_agent dk \<longleftrightarrow> IsDaemonsetRequired (dk_OneAgent dk) \<or> lm_IsStandalone (dk_LogMonitoring dk)"

text \<open>
  Two DynaKubes compete when both put agents on nodes, one node selector is part of the other, and
  they talk to the same environment or both deploy a OneAgent.
\<close>

definition competes :: "validator_env \<Rightarrow> dynakube \<Rightarrow> dynakube \<Rightarrow> bool" where
  "competes env a b \<longleftrightarrow>
     runs_agent a \<and> runs_agent b \<and>
     (IsDaemonsetRequired (dk_OneAgent a) \<and> IsDaemonsetRequired (dk_OneAgent b) \<or>
      dk_APIURL env a = dk_APIURL env b) \<and>
     (agent_node_selector a \<subseteq>\<^sub>m agent_node_selector b \<or> agent_node_selector b \<subseteq>\<^sub>m agent_node_selector a)"

lemma selector_Matches_iff:
  "ranges (veOrder env) \<Longrightarrow> finite (dom m) \<Longrightarrow> selector_from_set_Matches env m other \<longleftrightarrow> m \<subseteq>\<^sub>m other"
  by (simp add: selector_from_set_Matches_def list_all_iff map_le_def) metis

lemma conflicting_labels_iff:
  "ranges (veOrder env) \<Longrightarrow> finite (dom a) \<Longrightarrow> finite (dom b) \<Longrightarrow>
   hasConflictingMatchLabels env a b \<longleftrightarrow> a \<subseteq>\<^sub>m b \<or> b \<subseteq>\<^sub>m a"
  by (simp add: hasConflictingMatchLabels_def selector_Matches_iff)

lemma agents_exclusive: "IsDaemonsetRequired (dk_OneAgent dk) \<Longrightarrow> \<not> lm_IsStandalone (dk_LogMonitoring dk)"
  by (simp add: lm_IsStandalone_def dk_LogMonitoring_def)

lemma node_selector_with_agent:
  "IsDaemonsetRequired (dk_OneAgent dk) \<Longrightarrow>
   oa_GetNodeSelector (dk_OneAgent dk) fallback = agent_node_selector dk"
  by (auto simp: agent_node_selector_def oa_GetNodeSelector_def oa_modes split: option.splits)

lemma node_selector_without_agent:
  "\<not> IsDaemonsetRequired (dk_OneAgent dk) \<Longrightarrow> oa_GetNodeSelector (dk_OneAgent dk) fallback = fallback"
  by (auto simp: oa_GetNodeSelector_def oa_modes)

text \<open>The second test of the loop never rules out what the first one found.\<close>

lemma second_test_redundant:
  assumes "ranges (veOrder env)" "finite (dom (agent_node_selector dk))" "runs_agent dk"
    and "hasConflictingMatchLabels env (agent_node_selector dk) (agent_node_selector item)"
  shows "hasConflictingMatchLabels env (agent_node_selector dk)
           (oa_GetNodeSelector (dk_OneAgent item) (lm_GetNodeSelector (dk_LogMonitoring dk)))"
proof (cases "IsDaemonsetRequired (dk_OneAgent item)")
  case True
  with assms(4) show ?thesis by (simp add: node_selector_with_agent)
next
  case False
  note item = node_selector_without_agent [OF False]
  show ?thesis
  proof (cases "IsDaemonsetRequired (dk_OneAgent dk)")
    case True
    then have "lm_GetNodeSelector (dk_LogMonitoring dk) = Map.empty"
      using agents_exclusive by (simp add: lm_GetNodeSelector_def)
    with assms(1,2) show ?thesis by (simp add: item conflicting_labels_iff)
  next
    case False
    then have "lm_GetNodeSelector (dk_LogMonitoring dk) = agent_node_selector dk"
      by (simp add: agent_node_selector_def node_selector_without_agent)
    with assms(1,2) show ?thesis by (simp add: item conflicting_labels_iff)
  qed
qed

lemma item_conflict_iff:
  assumes "ranges (veOrder env)" "finite (dom (agent_node_selector dk))" "runs_agent dk"
    and "finite (dom (agent_node_selector item))"
  shows "(hasLogMonitoringSelectorConflict env dk item \<or> hasOneAgentSelectorConflict env dk item) \<longleftrightarrow>
         competes env dk item"
  using assms agents_exclusive [of dk] agents_exclusive [of item]
  by (auto simp: hasLogMonitoringSelectorConflict_def hasOneAgentSelectorConflict_def competes_def
      runs_agent_def conflicting_labels_iff)

lemma node_conflict_spec:
  assumes "ranges (veOrder env)" "veListDynaKubes env (dkNamespace dk) = Inr items"
    and "finite (dom (agent_node_selector dk))" "\<forall>item\<in>set items. finite (dom (agent_node_selector item))"
  shows "conflictingOneAgentNodeSelector env dk = [] \<longleftrightarrow>
           \<not> (\<exists>item\<in>set items. dkName item \<noteq> dkName dk \<and> competes env dk item)"
proof (cases "runs_agent dk")
  case True
  have first: "hasConflictingMatchLabels env (agent_node_selector dk) (agent_node_selector item)"
    if "hasLogMonitoringSelectorConflict env dk item \<or> hasOneAgentSelectorConflict env dk item" for item
    using that by (auto simp: hasLogMonitoringSelectorConflict_def hasOneAgentSelectorConflict_def)
  have "(hasLogMonitoringSelectorConflict env dk item \<or> hasOneAgentSelectorConflict env dk item) \<and>
        hasConflictingMatchLabels env (agent_node_selector dk)
          (oa_GetNodeSelector (dk_OneAgent item) (lm_GetNodeSelector (dk_LogMonitoring dk))) \<longleftrightarrow>
        competes env dk item" if "item \<in> set items" for item
    using second_test_redundant [OF assms(1,3) True] first item_conflict_iff [OF assms(1,3) True] assms(4) that
    by blast
  then have "conflicting_dynakubes env dk items =
        map dkName (filter (\<lambda>item. dkName item \<noteq> dkName dk \<and> competes env dk item) items)"
    unfolding conflicting_dynakubes_def by (intro arg_cong [where f = "map dkName"] filter_cong) auto
  then show ?thesis
    using True by (auto simp: conflictingOneAgentNodeSelector_def assms(2) Let_def runs_agent_def filter_empty_conv)
qed (auto simp: conflictingOneAgentNodeSelector_def competes_def runs_agent_def)

text \<open>A DynaKube is refused for its agents exactly when another one of its namespace competes for the
  same nodes (the second test of the loop, with the wrong fallback selector, changes nothing), and
  competing is symmetric.\<close>

theorem node_conflict_iff:
  assumes "ranges (veOrder env)" "veListDynaKubes env (dkNamespace dk) = Inr items"
    and "finite (dom (agent_node_selector dk))" "\<forall>item\<in>set items. finite (dom (agent_node_selector item))"
  shows "(conflictingOneAgentNodeSelector env dk \<noteq> [] \<longleftrightarrow>
            (\<exists>item\<in>set items. dkName item \<noteq> dkName dk \<and> competes env dk item)) \<and>
         (\<forall>item. competes env dk item = competes env item dk)"
proof
  show "\<forall>item. competes env dk item = competes env item dk"
    by (auto simp: competes_def)
qed (use node_conflict_spec [OF assms] in blast)

section \<open>The order of map iteration\<close>

definition finite_maps :: "dynakube \<Rightarrow> bool" where
  "finite_maps dk \<longleftrightarrow>
     finite (dom (dspResourceAttributes (dkSpec dk))) \<and>
     (\<forall>attrs. oneagent_attributes dk = Some attrs \<longrightarrow> finite (dom attrs)) \<and>
     (\<forall>attrs. otlp_attributes dk = Some attrs \<longrightarrow> finite (dom attrs)) \<and>
     finite (dom (agent_node_selector dk))"

text \<open>What a validator asks of its environment beside the order of map iteration.\<close>

lemma order_irrelevant [simp]:
  "memoryLimitSet (env\<lparr>veOrder := ord\<rparr>) = memoryLimitSet env"
  "dk_APIURL (env\<lparr>veOrder := ord\<rparr>) = dk_APIURL env"
  "tenantUUIDFromAPIURL (env\<lparr>veOrder := ord\<rparr>) = tenantUUIDFromAPIURL env"
  "checkImageField (env\<lparr>veOrder := ord\<rparr>) = checkImageField env"
  "nameViolatesDNS1035 (env\<lparr>veOrder := ord\<rparr>) = nameViolatesDNS1035 env"
  "validateProxyURL (env\<lparr>veOrder := ord\<rparr>) = validateProxyURL env"
  "secret_data (env\<lparr>veOrder := ord\<rparr>) = secret_data env"
  "reader_HasPlatformToken (env\<lparr>veOrder := ord\<rparr>) = reader_HasPlatformToken env"
  "with_platform_token (env\<lparr>veOrder := ord\<rparr>) = with_platform_token env"
  "validator_mapper (env\<lparr>veOrder := ord\<rparr>) = validator_mapper env"
  "competes (env\<lparr>veOrder := ord\<rparr>) = competes env"
  by (auto simp: fun_eq_iff memoryLimitSet_def dk_APIURL_def tenantUUIDFromAPIURL_def checkImageField_def
      nameViolatesDNS1035_def validateProxyURL_def secret_data_def reader_HasPlatformToken_def
      with_platform_token_def validator_mapper_def competes_def split: option.split sum.split)

definition agrees :: "validator_env \<Rightarrow> validator_env \<Rightarrow> dynakube \<Rightarrow> validatorFunc \<Rightarrow> bool" where
  "agrees e1 e2 dk v \<longleftrightarrow> (v e1 dk = [] \<longleftrightarrow> v e2 dk = [])"

lemma finite_args: "finite (dom (oa_GetArgumentsMap oa))"
proof -
  have "finite (dom (fold (\<lambda>arg m. case splitArg arg of (key, value) \<Rightarrow>
          (case m key of None \<Rightarrow> m(key \<mapsto> [value]) | Some vs \<Rightarrow> m(key \<mapsto> vs @ [value]))) args m))"
    if "finite (dom m)" for args and m :: "string \<rightharpoonup> string list"
    using that by (induction args arbitrary: m) (auto split: prod.splits option.splits)
  then show ?thesis by (simp add: oa_GetArgumentsMap_def)
qed

lemma agrees_args:
  assumes "ranges o1" "ranges o2"
  shows "agrees (env\<lparr>veOrder := o1\<rparr>) (env\<lparr>veOrder := o2\<rparr>) dk duplicateOneAgentArguments"
    and "agrees (env\<lparr>veOrder := o1\<rparr>) (env\<lparr>veOrder := o2\<rparr>) dk forbiddenHostIDSourceArgument"
  using assms finite_args [of "dk_OneAgent dk"]
  by (simp_all add: agrees_def duplicateOneAgentArguments_def forbiddenHostIDSourceArgument_def
      first_msg_empty Let_def)

lemma attribute_map_errors:
  assumes "ranges (veOrder env)" "finite (dom attrs)"
  shows "validateResourceAttributeMap env attrs = [] \<longleftrightarrow>
           (\<forall>k\<in>dom attrs. veIsLabelKey env k = [] \<and>
              veIsLabelValue env (case attrs k of None \<Rightarrow> [] | Some v \<Rightarrow> v) = [])"
  using assms by (auto simp: validateResourceAttributeMap_def Let_def)

lemma agrees_attributes:
  assumes "ranges o1" "ranges o2" "finite_maps dk"
  shows "agrees (env\<lparr>veOrder := o1\<rparr>) (env\<lparr>veOrder := o2\<rparr>) dk invalidGlobalResourceAttributes"
    and "agrees (env\<lparr>veOrder := o1\<rparr>) (env\<lparr>veOrder := o2\<rparr>) dk invalidOneAgentResourceAttributes"
    and "agrees (env\<lparr>veOrder := o1\<rparr>) (env\<lparr>veOrder := o2\<rparr>) dk invalidOTLPResourceAttributes"
    and "agrees (env\<lparr>veOrder := o1\<rparr>) (env\<lparr>veOrder := o2\<rparr>) dk invalidGlobalResourceAttributesSanitization"
    and "agrees (env\<lparr>veOrder := o1\<rparr>) (env\<lparr>veOrder := o2\<rparr>) dk invalidOneAgentResourceAttributesSanitization"
    and "agrees (env\<lparr>veOrder := o1\<rparr>) (env\<lparr>veOrder := o2\<rparr>) dk invalidOTLPResourceAttributesSanitization"
  using assms
  by (auto simp: agrees_def finite_maps_def invalidGlobalResourceAttributes_def
      invalidOneAgentResourceAttributes_def invalidOTLPResourceAttributes_def
      invalidGlobalResourceAttributesSanitization_def invalidOneAgentResourceAttributesSanitization_def
      invalidOTLPResourceAttributesSanitization_def formatIfNonEmpty_def attribute_map_errors
      attribute_check_errors split: option.split)

lemma agrees_node_selector:
  assumes "ranges o1" "ranges o2" "finite_maps dk"
    and "\<forall>items. veListDynaKubes env (dkNamespace dk) = Inr items \<longrightarrow>
           (\<forall>item\<in>set items. finite (dom (agent_node_selector item)))"
  shows "agrees (env\<lparr>veOrder := o1\<rparr>) (env\<lparr>veOrder := o2\<rparr>) dk conflictingOneAgentNodeSelector"
proof (cases "veListDynaKubes env (dkNamespace dk)")
  case (Inl e)
  then show ?thesis by (simp add: agrees_def conflictingOneAgentNodeSelector_def)
next
  case (Inr items)
  then show ?thesis
    using assms node_conflict_spec [of "env\<lparr>veOrder := o1\<rparr>" dk items]
      node_conflict_spec [of "env\<lparr>veOrder := o2\<rparr>" dk items]
    by (simp add: agrees_def finite_maps_def)
qed

lemmas order_free_defs_a =
  isActiveGateModuleDisabled_def isExtensionsModuleDisabled_def isLogMonitoringModuleDisabled_def
  isKSPMDisabled_def isOneAgentModuleDisabled_def isOneAgentVersionValid_def NoAPIURL_def
  isInvalidAPIURL_def invalidActiveGateCapabilities_def mutuallyExclusiveActiveGatePVsettings_def
  activeGateHasConflictingVolumes_def activeGateHasDisallowedVolumeType_def
  invalidActiveGateProxyURL_def conflictingOneAgentConfiguration_def conflictingNamespaceSelector_def
  isIstioNotInstalled_def conflictingOneAgentVolumeStorageSettings_def nameInvalid_def
  invalidOneAgentNamespaceSelector_def invalidMetadataNamespaceSelectors_def
  invalidOTLPExporterNamespaceSelector_def imageFieldHasTenantImage_def extensionControllerImage_def
  extensionControllerPVCStorageDevice_def

lemmas order_free_defs_b =
  tooManyKubernetesMonitoringReplicas_def missingKSPMImage_def
  kspmWithoutKubernetesMonitoringRegistration_def mappedHostPathsWithRootPath_def
  relativeMappedHostPaths_def missingLogMonitoringImage_def emptyTelemetryIngestProtocolsList_def
  unknownTelemetryIngestProtocols_def invalidTelemetryIngestName_def
  forbiddenTelemetryIngestServiceNameSuffix_def conflictingTelemetryIngestServiceNames_def
  missingOTelCollectorImage_def missingDatabaseExecutorImage_def
  conflictingOrInvalidDatabasesVolumeMounts_def unusedDatabasesVolume_def
  publicRegistryOverrideWithoutPublicRegistry_def invalidNetworkZone_def invalidOneAgentHostGroup_def
  invalidNoProxy_def publicRegistryNotAllowedForClassic_def invalidOneAgentArguments_def
  invalidLogmonArguments_def missingCodeModulesImage_def

definition order_free :: "validatorFunc \<Rightarrow> bool" where
  "order_free v \<longleftrightarrow> (\<forall>env ord dk. v (env\<lparr>veOrder := ord\<rparr>) dk = v env dk)"

lemma agrees_order_free: "order_free v \<Longrightarrow> agrees (env\<lparr>veOrder := o1\<rparr>) (env\<lparr>veOrder := o2\<rparr>) dk v"
  by (simp add: agrees_def order_free_def)

lemma order_free_a:
  "order_free isActiveGateModuleDisabled" "order_free isExtensionsModuleDisabled"
  "order_free isLogMonitoringModuleDisabled" "order_free isKSPMDisabled"
  "order_free isOneAgentModuleDisabled" "order_free isOneAgentVersionValid" "order_free NoAPIURL"
  "order_free isInvalidAPIURL" "order_free invalidActiveGateCapabilities"
  "order_free mutuallyExclusiveActiveGatePVsettings" "order_free activeGateHasConflictingVolumes"
  "order_free activeGateHasDisallowedVolumeType" "order_free invalidActiveGateProxyURL"
  "order_free conflictingOneAgentConfiguration" "order_free conflictingNamespaceSelector"
  "order_free isIstioNotInstalled" "order_free conflictingOneAgentVolumeStorageSettings"
  "order_free nameInvalid" "order_free invalidOneAgentNamespaceSelector"
  "order_free invalidMetadataNamespaceSelectors" "order_free invalidOTLPExporterNamespaceSelector"
  "order_free imageFieldHasTenantImage" "order_free extensionControllerImage"
  "order_free extensionControllerPVCStorageDevice"
  by (simp_all add: order_free_def order_free_defs_a cong: option.case_cong sum.case_cong if_cong)

lemma order_free_b:
  "order_free tooManyKubernetesMonitoringReplicas" "order_free missingKSPMImage"
  "order_free kspmWithoutKubernetesMonitoringRegistration" "order_free mappedHostPathsWithRootPath"
  "order_free relativeMappedHostPaths" "order_free missingLogMonitoringImage"
  "order_free emptyTelemetryIngestProtocolsList" "order_free unknownTelemetryIngestProtocols"
  "order_free invalidTelemetryIngestName" "order_free forbiddenTelemetryIngestServiceNameSuffix"
  "order_free conflictingTelemetryIngestServiceNames" "order_free missingOTelCollectorImage"
  "order_free missingDatabaseExecutorImage" "order_free conflictingOrInvalidDatabasesVolumeMounts"
  "order_free unusedDatabasesVolume" "order_free publicRegistryOverrideWithoutPublicRegistry"
  "order_free invalidNetworkZone" "order_free invalidOneAgentHostGroup" "order_free invalidNoProxy"
  "order_free publicRegistryNotAllowedForClassic" "order_free invalidOneAgentArguments"
  "order_free invalidLogmonArguments" "order_free missingCodeModulesImage"
  by (simp_all add: order_free_def order_free_defs_b cong: option.case_cong sum.case_cong if_cong)

lemma validators_agree:
  assumes "ranges o1" "ranges o2" "finite_maps dk"
    and "\<forall>items. veListDynaKubes env (dkNamespace dk) = Inr items \<longrightarrow>
           (\<forall>item\<in>set items. finite (dom (agent_node_selector item)))"
    and "v \<in> set validatorErrorFuncs"
  shows "agrees (env\<lparr>veOrder := o1\<rparr>) (env\<lparr>veOrder := o2\<rparr>) dk v"
proof -
  note ord = agrees_args [OF assms(1,2)] agrees_attributes [OF assms(1,2,3)]
    agrees_node_selector [OF assms(1,2,3,4)] order_free_a [THEN agrees_order_free]
    order_free_b [THEN agrees_order_free]
  have "list_all (agrees (env\<lparr>veOrder := o1\<rparr>) (env\<lparr>veOrder := o2\<rparr>) dk) validatorErrorFuncs"
    unfolding validatorErrorFuncs_def by (simp only: list.pred_inject ord simp_thms)
  with assms(5) show ?thesis by (simp add: list_all_iff)
qed

lemma platform_token_maps [simp]:
  "oneagent_attributes (with_platform_token env dk) = oneagent_attributes dk"
  "otlp_attributes (with_platform_token env dk) = otlp_attributes dk"
  "agent_node_selector (with_platform_token env dk) = agent_node_selector dk"
  by (simp_all add: oneagent_attributes_def otlp_attributes_def agent_node_selector_def
      with_platform_token_def set_api_token_def dk_OneAgent_def dk_LogMonitoring_def
      dk_OTLPExporterConfiguration_def oa_HasAdditionalResourceAttributes_def oa_modes
      oa_GetAdditionalResourceAttributes_def oa_GetResourceAttributes_def oa_GetNodeSelector_def
      cong: option.case_cong)

text \<open>C24. Go iterates over a map in an unspecified order. The verdict of the webhook on a DynaKube does
  not depend on it: whatever two orders the runtime takes, both accept or both reject.\<close>

theorem verdict_independent_of_map_order:
  assumes "ranges o1" "ranges o2" "finite_maps dk"
    and "\<forall>items. veListDynaKubes env (dkNamespace dk) = Inr items \<longrightarrow>
           (\<forall>item\<in>set items. finite (dom (agent_node_selector item)))"
  shows "snd (ValidateCreate (env\<lparr>veOrder := o1\<rparr>) (LatestDynaKube dk)) = None \<longleftrightarrow>
         snd (ValidateCreate (env\<lparr>veOrder := o2\<rparr>) (LatestDynaKube dk)) = None"
proof -
  let ?dk = "with_platform_token env dk"
  have "finite_maps ?dk" using assms(3)
    by (simp add: finite_maps_def)
  then show ?thesis
    using validators_agree [OF assms(1,2), of ?dk env] assms(4)
    by (simp add: created_iff agrees_def)
qed

section \<open>Findings\<close>

text \<open>
  The dots of \<open>versionRegex\<close> are not escaped: a version with a dash in place of the last dot, which
  \<open>golang.org/x/mod/semver\<close> takes as a pre-release, is accepted although \<open>ExtractSemanticVersion\<close>,
  which the version reconciler uses, refuses it.
\<close>

lemma version_with_dash_accepted:
  assumes "oa_GetCustomVersion (dk_OneAgent dk) = ''1.2.3-20240101-000000''"
    and "veSemverValid env (veSemverCanonical env ''v1.2.3-20240101-000000'')"
  shows "isOneAgentVersionValid env dk = [] \<and>
         (\<exists>e. ExtractSemanticVersion ''1.2.3-20240101-000000'' = Inl e)"
proof
  have r: "re_match versionRegex (runes ''1.2.3-20240101-000000'')" by code_simp
  have "ToSemver (veSemverCanonical env) (veSemverValid env) ''1.2.3-20240101-000000'' =
        Inr (veSemverCanonical env ''v1.2.3-20240101-000000'')"
    using assms(2) by (simp add: ToSemver_def Let_def has_prefix_def)
  then show "isOneAgentVersionValid env dk = []"
    using r by (simp add: isOneAgentVersionValid_def assms(1))
  have "FindStringSubmatch ''1.2.3-20240101-000000'' = None" by code_simp
  then show "\<exists>e. ExtractSemanticVersion ''1.2.3-20240101-000000'' = Inl e"
    by (simp add: ExtractSemanticVersion_def)
qed

text \<open>\<open>ResourceList.Memory()\<close> never answers nil, so that any limit hides the missing memory limit.\<close>

lemma cpu_limit_hides_missing_memory_limit:
  assumes "\<forall>limits. veLimitsMemory env limits \<noteq> None"
    and "rrLimits (cpResources (agCapabilityProperties (dspActiveGate (dkSpec dk)))) = Some [''cpu'' \<mapsto> ''1'']"
  shows "missingActiveGateMemoryLimit env dk = []"
  using assms by (auto simp: missingActiveGateMemoryLimit_def memoryLimitSet_def)

section \<open>Witnesses\<close>

definition sample_validator_env :: "(string set \<Rightarrow> string list) \<Rightarrow> dynakube list \<Rightarrow> validator_env" where
  "sample_validator_env order items =
     \<lparr>veModules = fallbackModules, veListDynaKubes = (\<lambda>_. Inr items), veListNamespaces = Inr [],
      veMatch = sample_match_env, veGetSecret = (\<lambda>_ _. Inl (ApiStatus ''NotFound'')),
      veIstioInstalled = False, veMinorVersion = 35, veKubemonEnv = [], veOrder = order,
      veQuote = (\<lambda>s. s),
      veParseURL = (\<lambda>s. Some \<lparr>urlScheme = ''https'', urlUser = None, urlHost = ''abc.live.dynatrace.com'',
                          urlPath = ''/api'', urlRest = []\<rparr>),
      veRenderURL = urlHost, veParseReference = (\<lambda>_. True), veIsDNS1035Label = (\<lambda>_. []),
      veSelectorErrors = (\<lambda>_. []), veIsLabelKey = (\<lambda>_. []), veIsLabelValue = (\<lambda>_. []),
      veRel = (\<lambda>_ p. Some p), veUnmarshalBool = parse_bool, veSemverCanonical = (\<lambda>s. s),
      veSemverValid = (\<lambda>_. True), veLimitsMemory = (\<lambda>_. Some []), veErrorText = (\<lambda>_. [])\<rparr>"

definition sample_host_dynakube :: "string \<Rightarrow> dynakube" where
  "sample_host_dynakube name =
     zero_dynakube\<lparr>dkName := name, dkSpec := zero_dynakube_spec
       \<lparr>dspAPIURL := ''https://abc.live.dynatrace.com/api'',
        dspOneAgent := zero_oneagent_spec\<lparr>HostMonitoring := Some zero_host_inject\<rparr>\<rparr>,
      dkStatus := zero_dynakube_status
       \<lparr>dstAPIToken := \<lparr>atsSettingsRead = None, atsSettingsWrite = None, atsPlatform = Some False\<rparr>\<rparr>\<rparr>"

lemma ranges_sorted: "ranges sorted_list_of_set" "ranges (\<lambda>D. rev (sorted_list_of_set D))"
  by (simp_all add: ranges_def)

lemmas sample_validation = sample_validator_env_def sample_host_dynakube_def zero_values

lemma sample_features:
  "\<not> ag_IsEnabled (dk_ActiveGate (sample_host_dynakube n))"
  "\<not> ag_IsKubernetesMonitoringEnabled (dk_ActiveGate (sample_host_dynakube n))"
  "\<not> ext_IsAnyEnabled (dk_Extensions (sample_host_dynakube n))"
  "\<not> ext_IsDatabasesEnabled (dk_Extensions (sample_host_dynakube n))"
  "\<not> ext_IsPrometheusEnabled (dk_Extensions (sample_host_dynakube n))"
  "\<not> dk_KSPM_IsEnabled (sample_host_dynakube n)"
  "\<not> lm_IsEnabled (dk_LogMonitoring (sample_host_dynakube n))"
  "dspTelemetryIngest (dkSpec (sample_host_dynakube n)) = None"
  "dspOTLPExporterConfiguration (dkSpec (sample_host_dynakube n)) = None"
  "dspResourceAttributes (dkSpec (sample_host_dynakube n)) = Map.empty"
  "oneagent_attributes (sample_host_dynakube n) = None"
  "otlp_attributes (sample_host_dynakube n) = None"
  "agent_node_selector (sample_host_dynakube n) = Map.empty"
  "oaSpec (dk_OneAgent (sample_host_dynakube n)) =
     zero_oneagent_spec\<lparr>HostMonitoring := Some zero_host_inject\<rparr>"
  "dkName (sample_host_dynakube n) = n"
  "dkAnnotations (sample_host_dynakube n) = Map.empty"
  by (simp_all add: sample_host_dynakube_def zero_values dk_ActiveGate_def dk_Extensions_def dk_KSPM_IsEnabled_def
      dk_LogMonitoring_def ag_IsEnabled_def ag_IsKubernetesMonitoringEnabled_def ag_IsMode_def
      ext_IsAnyEnabled_def ext_IsDatabasesEnabled_def ext_IsPrometheusEnabled_def lm_IsEnabled_def
      oneagent_attributes_def otlp_attributes_def agent_node_selector_def dk_OneAgent_def
      oa_HasAdditionalResourceAttributes_def oa_GetAdditionalResourceAttributes_def
      oa_GetNodeSelector_def dk_OTLPExporterConfiguration_def otlp_HasAdditionalResourceAttributes_def)

lemma sample_env_fields:
  "veModules (sample_validator_env order items) = fallbackModules"
  "veListDynaKubes (sample_validator_env order items) = (\<lambda>_. Inr items)"
  "veKubemonEnv (sample_validator_env order items) = []"
  "veOrder (sample_validator_env order items) = order"
  "veIsDNS1035Label (sample_validator_env order items) = (\<lambda>_. [])"
  "veSelectorErrors (sample_validator_env order items) = (\<lambda>_. [])"
  "url_Hostname (the (veParseURL (sample_validator_env order items) u)) = ''abc.live.dynatrace.com''"
  "veParseURL (sample_validator_env order items) u \<noteq> None"
  "(sample_validator_env order items)\<lparr>veOrder := ord\<rparr> = sample_validator_env ord items"
  by (simp_all add: sample_validator_env_def url_Hostname_def splitHostPort_def cut_last_def has_prefix_def)

lemma sample_platform:
  "with_platform_token (sample_validator_env order items) (sample_host_dynakube n) = sample_host_dynakube n"
  by (simp add: with_platform_token_def reader_HasPlatformToken_def ReadTokens_def sample_validator_env_def
      set_api_token_def sample_host_dynakube_def)

lemma sample_values:
  "dspAPIURL (dkSpec (sample_host_dynakube n)) = ''https://abc.live.dynatrace.com/api''"
  "dspProxy (dkSpec (sample_host_dynakube n)) = None"
  "dspEnableIstio (dkSpec (sample_host_dynakube n)) = None"
  "dspNetworkZone (dkSpec (sample_host_dynakube n)) = []"
  "dspPublicRegistryOverride (dkSpec (sample_host_dynakube n)) = []"
  "dspActiveGate (dkSpec (sample_host_dynakube n)) = zero_activegate_spec"
  "meEnabled (dspMetadataEnrichment (dkSpec (sample_host_dynakube n))) = None"
  "dspTemplates (dkSpec (sample_host_dynakube n)) = dspTemplates zero_dynakube_spec"
  by (simp_all add: sample_host_dynakube_def zero_values)

lemma sample_agent:
  "IsDaemonsetRequired (dk_OneAgent (sample_host_dynakube n))"
  "\<not> IsClassicFullStackMode (dk_OneAgent (sample_host_dynakube n))"
  "\<not> IsCloudNativeFullstackMode (dk_OneAgent (sample_host_dynakube n))"
  "\<not> IsApplicationMonitoringMode (dk_OneAgent (sample_host_dynakube n))"
  "IsHostMonitoringMode (dk_OneAgent (sample_host_dynakube n))"
  "\<not> IsAppInjectionNeeded (dk_OneAgent (sample_host_dynakube n))"
  "oa_GetCustomVersion (dk_OneAgent (sample_host_dynakube n)) = []"
  "oa_GetCustomImage (dk_OneAgent (sample_host_dynakube n)) = []"
  "oa_GetArguments (dk_OneAgent (sample_host_dynakube n)) = []"
  "oa_GetArgumentsMap (dk_OneAgent (sample_host_dynakube n)) = Map.empty"
  "oa_GetEnvironment (dk_OneAgent (sample_host_dynakube n)) = []"
  "dk_FF (sample_host_dynakube n) = \<lparr>ffAnnotations = Map.empty, ffHasPlatformToken = False\<rparr>"
  "lm_TemplateArgs (dk_LogMonitoring (sample_host_dynakube n)) = []"
  "ag_GetCustomImage (dk_ActiveGate (sample_host_dynakube n)) = []"
  "\<not> otlp_IsEnabled (dk_OTLPExporterConfiguration (sample_host_dynakube n))"
  by (simp_all add: sample_features oa_modes oa_getters oa_GetArgumentsMap_def dk_FF_def
      sample_host_dynakube_def zero_values lm_TemplateArgs_def dk_LogMonitoring_def ag_GetCustomImage_def
      dk_ActiveGate_def dk_OTLPExporterConfiguration_def otlp_IsEnabled_def dk_OneAgent_def)

lemma sample_url:
  "NoAPIURL env (sample_host_dynakube n) = []"
  "isInvalidAPIURL (sample_validator_env order items) (sample_host_dynakube n) = []"
  by (simp_all add: NoAPIURL_def sample_values ExampleAPIURL_def isInvalidAPIURL_def isThirdGenHost_def
      sample_validator_env_def url_Hostname_def splitHostPort_def cut_last_def has_prefix_def has_suffix_def
      str_contains_def Let_def)

lemma sample_accepted:
  assumes "ranges order" "length n \<le> 40"
  shows "snd (ValidateCreate (sample_validator_env order []) (LatestDynaKube (sample_host_dynakube n))) = None"
proof -
  have "list_all (\<lambda>v. v (sample_validator_env order []) (sample_host_dynakube n) = []) validatorErrorFuncs"
    unfolding validatorErrorFuncs_def list.pred_inject
    by (intro conjI TrueI sample_url) (simp_all add: assms zero_oneagent_spec_def Let_def sample_agent me_IsEnabled_def
       activeGateMutuallyExclusivePVCSettings_def conflictingOneAgentNodeSelector_def conflicting_dynakubes_def
       duplicateOneAgentArguments_def forbiddenHostIDSourceArgument_def zero_activegate_spec_def
       zero_capability_properties_def hasOneAgentVolumeStorageEnabled_def k8senv_Find_def nameTooLong_iff
       nameViolatesDNS1035_def checkImageField_def lm_IsStandalone_def single_mode_iff
       invalidGlobalResourceAttributes_def validateResourceAttributeMap_def formatIfNonEmpty_def
       invalidGlobalResourceAttributesSanitization_def checkResourceAttributeSanitization_def sort_by_def
       invalidOneAgentResourceAttributes_def invalidOTLPResourceAttributes_def ti_IsEnabled_def
       invalidOneAgentResourceAttributesSanitization_def invalidOTLPResourceAttributesSanitization_def
       ContainsAny_def GetNoProxy_def getRaw_def IsPublicRegistry_def getBoolWithDefault_def fallbackModules_def
       sample_features sample_env_fields sample_values order_free_defs_a order_free_defs_b)
  then show ?thesis by (simp add: created_iff list_all_iff sample_platform)
qed

theorem accepted_names_witness:
  "length (oa_GetDaemonsetName (dk_OneAgent (sample_host_dynakube ''prod''))) \<le> 57 \<and>
   length (dkName (sample_host_dynakube ''prod'') @ ''-activegate'') \<le> 52"
  using accepted_names_fit [OF sample_accepted [OF ranges_sorted(1)], of "''prod''"] by simp

theorem accepted_mode_witness:
  "reads_host_settings (dk_OneAgent (sample_host_dynakube ''prod'')) zero_host_inject \<and>
   \<not> IsAppInjectionNeeded (dk_OneAgent (sample_host_dynakube ''prod''))"
  using accepted_mode_decides_settings [OF sample_accepted [OF ranges_sorted(1)], of "''prod''"]
  by (simp add: sample_features)

theorem sanitization_witness:
  "snd (checkResourceAttributeSanitization (sample_validator_env sorted_list_of_set [])
     [''team/a'' \<mapsto> ''x'', ''team_a'' \<mapsto> ''y'']) \<noteq> []"
proof -
  have "SanitizeKey ''team/a'' = SanitizeKey ''team_a''" by code_simp
  then have "\<not> inj_on SanitizeKey (dom [''team/a'' \<mapsto> ''x'', ''team_a'' \<mapsto> ''y''])"
    by (auto simp: inj_on_def)
  then show ?thesis
    using sanitization_errors_iff [of "sample_validator_env sorted_list_of_set []"
        "[''team/a'' \<mapsto> ''x'', ''team_a'' \<mapsto> ''y'']"]
    by (simp add: sample_env_fields ranges_sorted)
qed

theorem node_conflict_witness:
  "conflictingOneAgentNodeSelector (sample_validator_env sorted_list_of_set [sample_host_dynakube ''b''])
     (sample_host_dynakube ''a'') \<noteq> []"
  using node_conflict_iff [of "sample_validator_env sorted_list_of_set [sample_host_dynakube ''b'']"
      "sample_host_dynakube ''a''" "[sample_host_dynakube ''b'']"]
  by (simp add: sample_env_fields ranges_sorted sample_features competes_def runs_agent_def sample_agent)

theorem verdict_order_witness:
  "snd (ValidateCreate (sample_validator_env (\<lambda>D. rev (sorted_list_of_set D)) [])
     (LatestDynaKube (sample_host_dynakube ''prod''))) = None"
  using verdict_independent_of_map_order [OF ranges_sorted, of "sample_host_dynakube ''prod''"
      "sample_validator_env sorted_list_of_set []"] sample_accepted [OF ranges_sorted(1), of "''prod''"]
  by (simp add: sample_env_fields finite_maps_def sample_features)

end
