(* ===== verification/EdgeConnectWebhook.thy ===== *)
theory EdgeConnectWebhook
  imports ValidationText ApiUrl EdgeConnectApi
begin

text \<open>
  \<open>pkg/api/validation/edgeconnect\<close>: the admission webhook of EdgeConnects, with the URL parser as a
  parameter, and what an accepted EdgeConnect guarantees to its controller.
\<close>

record ec_validator_env =
  evModules :: modules
  evParseURL :: "string \<Rightarrow> url option"

type_synonym ec_validatorFunc = "ec_validator_env \<Rightarrow> edgeconnect \<Rightarrow> string"

definition ec_isModuleDisabled :: ec_validatorFunc where
  "ec_isModuleDisabled env ec =
     (if modEdgeConnect (evModules env) then [] else GetModuleValidationErrorMessage ''EdgeConnect'')"

definition allowedSuffix :: "string list" where
  "allowedSuffix =
     [''.dev.apps.dynatracelabs.com'', ''.sprint.apps.dynatracelabs.com'', ''.apps.dynatrace.com'']"

definition isAllowedSuffixAPIServer :: ec_validatorFunc where
  "isAllowedSuffixAPIServer env ec =
     (case evParseURL env (''https://'' @ esAPIServer (ecSpec ec)) of
        None \<Rightarrow> ec_errorMissingAllowedSuffixAPIServer
      | Some parsed \<Rightarrow>
          (if urlHost parsed \<noteq> esAPIServer (ecSpec ec) \<or> urlUser parsed \<noteq> None
           then ec_errorMissingAllowedSuffixAPIServer
           else if list_ex (\<lambda>suffix. has_suffix (url_Hostname parsed) suffix \<and>
                     length (url_Hostname parsed) > length suffix) allowedSuffix
           then [] else ec_errorMissingAllowedSuffixAPIServer))"

definition checkAPIServerProtocolNotSet :: ec_validatorFunc where
  "checkAPIServerProtocolNotSet env ec =
     (case evParseURL env (esAPIServer (ecSpec ec)) of
        None \<Rightarrow> ec_errorInvalidAPIServer
      | Some parsedURL \<Rightarrow> (if urlScheme parsedURL \<noteq> [] then ec_errorProtocolIsNotAllowedAPIServer else []))"

definition automationRequiresProvisionerValidation :: ec_validatorFunc where
  "automationRequiresProvisionerValidation env ec =
     (if ec_IsK8SAutomationEnabled ec \<and> \<not> eoProvisioner (esOAuth (ecSpec ec))
      then ec_errorAutomationRequiresProvisioner else [])"

definition checkHostPatternsValue :: ec_validatorFunc where
  "checkHostPatternsValue env ec =
     (if ec_IsProvisionerModeEnabled ec \<and> length (esHostPatterns (ecSpec ec)) = 0 \<and>
         \<not> ec_IsK8SAutomationEnabled ec
      then ec_errorHostPattersIsRequired else [])"

definition edgeconnect_MaxNameLength :: nat where "edgeconnect_MaxNameLength = 40"

definition ec_nameTooLong :: ec_validatorFunc where
  "ec_nameTooLong env ec =
     (if ecName ec \<noteq> [] \<and> length (ecName ec) > edgeconnect_MaxNameLength
      then sprintf ec_errorNameTooLong [show_nat edgeconnect_MaxNameLength] else [])"

definition isInvalidServiceName :: ec_validatorFunc where
  "isInvalidServiceName env ec =
     (if ec_GetServiceAccountName ec = [] then ec_errorInvalidServiceName else [])"

definition allowedSSODomains :: "string list" where
  "allowedSSODomains =
     [''sso-dev.dynatracelabs.com'', ''sso.sprint.dynatracelabs.com'', ''sso.dynatrace.com'']"

definition isValidSSOServerURL :: ec_validatorFunc where
  "isValidSSOServerURL env ec =
     (if evParseURL env (eoEndpoint (esOAuth (ecSpec ec))) = None then ec_errorInvalidOauthEndpoint else [])"

definition checkSSOServerProtocol :: ec_validatorFunc where
  "checkSSOServerProtocol env ec =
     (case evParseURL env (eoEndpoint (esOAuth (ecSpec ec))) of
        None \<Rightarrow> []
      | Some u \<Rightarrow> (if urlScheme u \<noteq> ''https'' then ec_errorProtocolIsMissingOauthEndpoint else []))"

definition isAllowedSSOServer :: ec_validatorFunc where
  "isAllowedSSOServer env ec =
     (case evParseURL env (eoEndpoint (esOAuth (ecSpec ec))) of
        None \<Rightarrow> []
      | Some u \<Rightarrow> (if urlHost u \<notin> set allowedSSODomains then ec_errorUnknownSSOServer else []))"

definition ec_validatorErrorFuncs :: "ec_validatorFunc list" where
  "ec_validatorErrorFuncs =
     [ec_isModuleDisabled, checkAPIServerProtocolNotSet, isAllowedSuffixAPIServer, ec_nameTooLong,
      checkHostPatternsValue, isInvalidServiceName, automationRequiresProvisionerValidation,
      isValidSSOServerURL, checkSSOServerProtocol, isAllowedSSOServer]"

definition ec_runValidators :: "ec_validator_env \<Rightarrow> ec_validatorFunc list \<Rightarrow> edgeconnect \<Rightarrow> string list" where
  "ec_runValidators env validators ec =
     filter (\<lambda>errMsg. errMsg \<noteq> []) (map (\<lambda>validate. validate env ec) validators)"

datatype ec_admission_object =
    LatestEdgeConnect edgeconnect
  | OlderEdgeConnect "error + edgeconnect"
  | OtherEcObject string

definition getEdgeConnect :: "ec_admission_object \<Rightarrow> error + edgeconnect" where
  "getEdgeConnect obj =
     (case obj of
        LatestEdgeConnect ec \<Rightarrow> Inr ec
      | OlderEdgeConnect converted \<Rightarrow> converted
      | OtherEcObject gvk \<Rightarrow> Inl (Sentinel (''unknown object '' @ gvk)))"

definition ec_ValidateCreate :: "ec_validator_env \<Rightarrow> ec_admission_object \<Rightarrow> error option" where
  "ec_ValidateCreate env obj =
     (case getEdgeConnect obj of
        Inl e \<Rightarrow> Some e
      | Inr ec \<Rightarrow>
          (let validationErrors = ec_runValidators env ec_validatorErrorFuncs ec in
           if length validationErrors > 0
           then Some (Sentinel (SumErrors validationErrors ''EdgeConnect'')) else None))"

definition ec_ValidateUpdate :: "ec_validator_env \<Rightarrow> ec_admission_object \<Rightarrow> ec_admission_object \<Rightarrow> error option" where
  "ec_ValidateUpdate env oldObj newObj =
     (case getEdgeConnect newObj of
        Inl e \<Rightarrow> Some e
      | Inr ec \<Rightarrow>
          (let validationErrors = ec_runValidators env ec_validatorErrorFuncs ec in
           if length validationErrors > 0
           then Some (Sentinel (SumErrors validationErrors ''EdgeConnect'')) else None))"

section \<open>What acceptance means\<close>

lemma ec_created_iff:
  "ec_ValidateCreate env (LatestEdgeConnect ec) = None \<longleftrightarrow> (\<forall>v\<in>set ec_validatorErrorFuncs. v env ec = [])"
  by (auto simp: ec_ValidateCreate_def getEdgeConnect_def ec_runValidators_def filter_empty_conv Let_def)

text \<open>
  An accepted EdgeConnect in provisioner mode has a host pattern to register, automation comes with
  the provisioner, the API server is a host below one of the allowed domains, the OAuth endpoint is
  one of the three known servers over https, and the names built from it are at most 63 bytes long.
\<close>

theorem accepted_edgeconnect:
  assumes "ec_ValidateCreate env (LatestEdgeConnect ec) = None"
  shows "(ec_IsProvisionerModeEnabled ec \<longrightarrow> ec_HostPatterns ec \<noteq> []) \<and>
         (ec_IsK8SAutomationEnabled ec \<longrightarrow> ec_IsProvisionerModeEnabled ec) \<and>
         (\<exists>u. evParseURL env (''https://'' @ esAPIServer (ecSpec ec)) = Some u \<and>
            urlHost u = esAPIServer (ecSpec ec) \<and> urlUser u = None \<and>
            (\<exists>suffix\<in>set allowedSuffix. has_suffix (url_Hostname u) suffix \<and> url_Hostname u \<noteq> suffix)) \<and>
         (\<exists>u. evParseURL env (eoEndpoint (esOAuth (ecSpec ec))) = Some u \<and> urlScheme u = ''https'' \<and>
            urlHost u \<in> set allowedSSODomains) \<and>
         length (ec_ClientSecretName ec) \<le> 63"
proof -
  have v: "list_all (\<lambda>v. v env ec = []) ec_validatorErrorFuncs"
    using assms by (simp add: ec_created_iff list_all_iff)
  then have "isAllowedSuffixAPIServer env ec = []" "ec_nameTooLong env ec = []"
    "checkHostPatternsValue env ec = []" "automationRequiresProvisionerValidation env ec = []"
    "isValidSSOServerURL env ec = []" "checkSSOServerProtocol env ec = []" "isAllowedSSOServer env ec = []"
    by (simp_all add: ec_validatorErrorFuncs_def)
  then show ?thesis
    by (auto simp: isAllowedSuffixAPIServer_def ec_nameTooLong_def checkHostPatternsValue_def
        automationRequiresProvisionerValidation_def isValidSSOServerURL_def checkSSOServerProtocol_def
        isAllowedSSOServer_def ec_HostPatterns_def ec_IsProvisionerModeEnabled_def list_ex_iff
        edgeconnect_MaxNameLength_def ec_ClientSecretName_def simp del: not_None_eq not_Some_eq
        split: option.splits if_splits)
qed

end
