(* ===== verification/DynaKubeV1Beta5.thy ===== *)
theory DynaKubeV1Beta5
  imports DynaKube
begin

text \<open>
  The older version of the DynaKube resource, \<open>pkg/api/v1beta5/dynakube\<close>, which the API server still
  serves. Types it shares with the latest version (image references, value sources, version and
  connection status, the Kubernetes types) are the ones of the latest version here too; the structs
  that differ have their own record, with the fields of the source. The v1beta5 \<open>NodeAffinity\<close> is a
  struct and not a pointer, the v1beta5 \<open>Extensions\<close> section is empty, and a OneAgent mode still has
  the field \<open>AutoUpdate\<close>.
\<close>

section \<open>OneAgent\<close>

record b5_host_inject_spec =
  bhAnnotations :: smap
  bhLabels :: smap
  bhNodeSelector :: smap
  bhAutoUpdate :: "bool option"
  bhVersion :: string
  bhImage :: string
  bhDNSPolicy :: string
  bhPriorityClassName :: string
  bhSecCompProfile :: string
  bhStorageHostPath :: string
  bhOneAgentResources :: resource_requirements
  bhTolerations :: "k8s_value list"
  bhEnv :: "env_var list"
  bhArgs :: "string list option"

record b5_app_injection_spec =
  baInitResources :: "k8s_value option"
  baCodeModulesImage :: string
  baNamespaceSelector :: label_selector

record b5_cloud_native_spec =
  bcHostInject :: b5_host_inject_spec
  bcAppInjection :: b5_app_injection_spec

record b5_application_monitoring_spec =
  bmVersion :: string
  bmAppInjection :: b5_app_injection_spec

record b5_oneagent_spec =
  b5ClassicFullStack :: "b5_host_inject_spec option"
  b5CloudNativeFullStack :: "b5_cloud_native_spec option"
  b5ApplicationMonitoring :: "b5_application_monitoring_spec option"
  b5HostMonitoring :: "b5_host_inject_spec option"
  b5HostGroup :: string

record b5_oneagent_instance =
  biPodName :: string
  biIPAddress :: string

record communication_host_status =
  chProtocol :: string
  chHost :: string
  chPort :: int

record b5_connection_info_status =
  bciConnectionInfo :: connection_info
  bciCommunicationHosts :: "communication_host_status list"

record b5_oneagent_status =
  bosVersionStatus :: version_status
  bosInstances :: "string \<rightharpoonup> b5_oneagent_instance"
  bosLastInstanceStatusUpdate :: "int option"
  bosHealthcheck :: "health_config option"
  bosConnectionInfoStatus :: b5_connection_info_status

section \<open>ActiveGate\<close>

record b5_capability_properties =
  bcpCustomProperties :: "value_source option"
  bcpNodeSelector :: smap
  bcpLabels :: smap
  bcpReplicas :: "int option"
  bcpImage :: string
  bcpGroup :: string
  bcpResources :: resource_requirements
  bcpTolerations :: "k8s_value list"
  bcpEnv :: "env_var list"
  bcpTopologySpreadConstraints :: "k8s_value list"

record b5_activegate_spec =
  bagAnnotations :: smap
  bagVolumeClaimTemplate :: "k8s_value option"
  bagTerminationGracePeriodSeconds :: "int option"
  bagTLSSecretName :: string
  bagDNSPolicy :: string
  bagPriorityClassName :: string
  bagCapabilityProperties :: b5_capability_properties
  bagCapabilities :: "string list"
  bagUseEphemeralVolume :: "bool option"

record b5_activegate_status =
  basVersionStatus :: version_status
  basConnectionInfo :: connection_info
  basServiceIPs :: "string list"

section \<open>Templates and small sections\<close>

record b5_execution_controller_spec =
  beePersistentVolumeClaim :: "k8s_value option"
  beeLabels :: smap
  beeAnnotations :: smap
  beeImageRef :: image_ref
  beeTLSRefName :: string
  beeCustomConfig :: string
  beeCustomExtensionCertificates :: string
  beeResources :: k8s_value
  beeTolerations :: "k8s_value list"
  beeTopologySpreadConstraints :: "k8s_value list"
  beeUseEphemeralVolume :: "bool option"

record b5_node_configuration_collector_spec =
  bncUpdateStrategy :: "k8s_value option"
  bncLabels :: smap
  bncAnnotations :: smap
  bncNodeSelector :: smap
  bncImageRef :: image_ref
  bncPriorityClassName :: string
  bncResources :: k8s_value
  bncNodeAffinity :: k8s_value
  bncTolerations :: "k8s_value list"
  bncArgs :: "string list"
  bncEnv :: "env_var list"

record b5_ingest_rule_matchers =
  birAttribute :: string
  birValues :: "string list"

record b5_logmonitoring_template =
  blmAnnotations :: smap
  blmLabels :: smap
  blmNodeSelector :: smap
  blmImageRef :: image_ref
  blmDNSPolicy :: string
  blmPriorityClassName :: string
  blmSecCompProfile :: string
  blmResources :: k8s_value
  blmTolerations :: "k8s_value list"
  blmArgs :: "string list"

record b5_otel_collector_spec =
  botLabels :: smap
  botAnnotations :: smap
  botReplicas :: "int option"
  botImageRef :: image_ref
  botTLSRefName :: string
  botResources :: k8s_value
  botTolerations :: "k8s_value list"
  botTopologySpreadConstraints :: "k8s_value list"

record b5_telemetryingest_spec =
  btiServiceName :: string
  btiTLSRefName :: string
  btiProtocols :: "string list"

record b5_metadata_enrichment =
  bmeEnabled :: "bool option"
  bmeNamespaceSelector :: label_selector

record b5_enrichment_rule =
  berType :: string
  berSource :: string
  berTarget :: string

record b5_templates_spec =
  btsLogMonitoring :: "b5_logmonitoring_template option"
  btsKSPMNodeConfigurationCollector :: b5_node_configuration_collector_spec
  btsOpenTelemetryCollector :: b5_otel_collector_spec
  btsExtensionExecutionController :: b5_execution_controller_spec

section \<open>The resource\<close>

record b5_dynakube_spec =
  bspMetadataEnrichment :: b5_metadata_enrichment
  bspProxy :: "value_source option"
  bspLogMonitoring :: "b5_ingest_rule_matchers list option"
  bspKSPM :: "string list option"
  bspDynatraceAPIRequestThreshold :: "int option"
  bspExtensions :: "unit option"
  bspTelemetryIngest :: "b5_telemetryingest_spec option"
  bspOneAgent :: b5_oneagent_spec
  bspAPIURL :: string
  bspTokens :: string
  bspTrustedCAs :: string
  bspNetworkZone :: string
  bspCustomPullSecret :: string
  bspTemplates :: b5_templates_spec
  bspActiveGate :: b5_activegate_spec
  bspSkipCertCheck :: "bool option"
  bspEnableIstio :: "bool option"

record b5_dynakube_status =
  bstOneAgent :: b5_oneagent_status
  bstActiveGate :: b5_activegate_status
  bstCodeModules :: version_status
  bstMetadataEnrichmentRules :: "b5_enrichment_rule list"
  bstKSPMTokenSecretHash :: string
  bstUpdatedTimestamp :: int
  bstProxyURLHash :: string
  bstLastTokenScopeRequest :: int
  bstPhase :: string
  bstKubeSystemUUID :: string
  bstKubernetesClusterMEID :: string
  bstKubernetesClusterName :: string
  bstConditions :: "cond_op list"

record b5_dynakube =
  b5Name :: string
  b5Namespace :: string
  b5Annotations :: smap
  b5DeletionTimestamp :: "int option"
  b5Spec :: b5_dynakube_spec
  b5Status :: b5_dynakube_status

section \<open>Zero values\<close>

definition b5_zero_host_inject :: b5_host_inject_spec where
  "b5_zero_host_inject =
     \<lparr>bhAnnotations = Map.empty, bhLabels = Map.empty, bhNodeSelector = Map.empty,
      bhAutoUpdate = None, bhVersion = [], bhImage = [], bhDNSPolicy = [], bhPriorityClassName = [],
      bhSecCompProfile = [], bhStorageHostPath = [],
      bhOneAgentResources = \<lparr>rrLimits = None, rrRequests = None\<rparr>, bhTolerations = [],
      bhEnv = [], bhArgs = None\<rparr>"

definition b5_zero_app_injection :: b5_app_injection_spec where
  "b5_zero_app_injection =
     \<lparr>baInitResources = None, baCodeModulesImage = [], baNamespaceSelector = zero_selector\<rparr>"

definition b5_zero_activegate_spec :: b5_activegate_spec where
  "b5_zero_activegate_spec =
     \<lparr>bagAnnotations = Map.empty, bagVolumeClaimTemplate = None,
      bagTerminationGracePeriodSeconds = None, bagTLSSecretName = [], bagDNSPolicy = [],
      bagPriorityClassName = [],
      bagCapabilityProperties =
        \<lparr>bcpCustomProperties = None, bcpNodeSelector = Map.empty, bcpLabels = Map.empty,
         bcpReplicas = None, bcpImage = [], bcpGroup = [],
         bcpResources = \<lparr>rrLimits = None, rrRequests = None\<rparr>, bcpTolerations = [], bcpEnv = [],
         bcpTopologySpreadConstraints = []\<rparr>,
      bagCapabilities = [], bagUseEphemeralVolume = None\<rparr>"

definition b5_zero_node_collector :: b5_node_configuration_collector_spec where
  "b5_zero_node_collector =
     \<lparr>bncUpdateStrategy = None, bncLabels = Map.empty, bncAnnotations = Map.empty,
      bncNodeSelector = Map.empty, bncImageRef = zero_image_ref, bncPriorityClassName = [],
      bncResources = [], bncNodeAffinity = [], bncTolerations = [], bncArgs = [], bncEnv = []\<rparr>"

definition b5_zero_log_template :: b5_logmonitoring_template where
  "b5_zero_log_template =
     \<lparr>blmAnnotations = Map.empty, blmLabels = Map.empty, blmNodeSelector = Map.empty,
      blmImageRef = zero_image_ref, blmDNSPolicy = [], blmPriorityClassName = [],
      blmSecCompProfile = [], blmResources = [], blmTolerations = [], blmArgs = []\<rparr>"

definition b5_zero_otel_collector :: b5_otel_collector_spec where
  "b5_zero_otel_collector =
     \<lparr>botLabels = Map.empty, botAnnotations = Map.empty, botReplicas = None,
      botImageRef = zero_image_ref, botTLSRefName = [], botResources = [], botTolerations = [],
      botTopologySpreadConstraints = []\<rparr>"

definition b5_zero_execution_controller :: b5_execution_controller_spec where
  "b5_zero_execution_controller =
     \<lparr>beePersistentVolumeClaim = None, beeLabels = Map.empty, beeAnnotations = Map.empty,
      beeImageRef = zero_image_ref, beeTLSRefName = [], beeCustomConfig = [],
      beeCustomExtensionCertificates = [], beeResources = [], beeTolerations = [],
      beeTopologySpreadConstraints = [], beeUseEphemeralVolume = None\<rparr>"

definition b5_zero_spec :: b5_dynakube_spec where
  "b5_zero_spec =
     \<lparr>bspMetadataEnrichment = \<lparr>bmeEnabled = None, bmeNamespaceSelector = zero_selector\<rparr>,
      bspProxy = None, bspLogMonitoring = None, bspKSPM = None,
      bspDynatraceAPIRequestThreshold = None, bspExtensions = None, bspTelemetryIngest = None,
      bspOneAgent =
        \<lparr>b5ClassicFullStack = None, b5CloudNativeFullStack = None, b5ApplicationMonitoring = None,
         b5HostMonitoring = None, b5HostGroup = []\<rparr>,
      bspAPIURL = [], bspTokens = [], bspTrustedCAs = [], bspNetworkZone = [],
      bspCustomPullSecret = [],
      bspTemplates =
        \<lparr>btsLogMonitoring = None, btsKSPMNodeConfigurationCollector = b5_zero_node_collector,
         btsOpenTelemetryCollector = b5_zero_otel_collector,
         btsExtensionExecutionController = b5_zero_execution_controller\<rparr>,
      bspActiveGate = b5_zero_activegate_spec, bspSkipCertCheck = None, bspEnableIstio = None\<rparr>"

definition b5_zero_status :: b5_dynakube_status where
  "b5_zero_status =
     \<lparr>bstOneAgent =
        \<lparr>bosVersionStatus = zero_version_status, bosInstances = Map.empty,
         bosLastInstanceStatusUpdate = None, bosHealthcheck = None,
         bosConnectionInfoStatus =
           \<lparr>bciConnectionInfo = zero_connection_info, bciCommunicationHosts = []\<rparr>\<rparr>,
      bstActiveGate =
        \<lparr>basVersionStatus = zero_version_status, basConnectionInfo = zero_connection_info,
         basServiceIPs = []\<rparr>,
      bstCodeModules = zero_version_status, bstMetadataEnrichmentRules = [],
      bstKSPMTokenSecretHash = [], bstUpdatedTimestamp = 0, bstProxyURLHash = [],
      bstLastTokenScopeRequest = 0, bstPhase = [], bstKubeSystemUUID = [],
      bstKubernetesClusterMEID = [], bstKubernetesClusterName = [], bstConditions = []\<rparr>"

definition b5_zero_dynakube :: b5_dynakube where
  "b5_zero_dynakube =
     \<lparr>b5Name = [], b5Namespace = [], b5Annotations = Map.empty, b5DeletionTimestamp = None,
      b5Spec = b5_zero_spec, b5Status = b5_zero_status\<rparr>"

end
