(* ===== verification/DynaKubeConversion.thy ===== *)
theory DynaKubeConversion
  imports DynaKubeV1Beta5
begin

text \<open>
  The conversion between the two served versions of the DynaKube, \<open>convert_to.go\<close> and
  \<open>convert_from.go\<close> of \<open>pkg/api/v1beta5/dynakube\<close>, with the annotations of
  \<open>pkg/api/conversion\<close> that carry what the latest version has no field for. Every method of the
  source that fills a part of its destination is a function from the destination to the destination,
  and \<open>ConvertTo\<close> and \<open>ConvertFrom\<close> apply them in the order of the source.
\<close>

section \<open>Removed fields (\<open>conversion.go\<close>)\<close>

definition AutoUpdateKey :: string where
  "AutoUpdateKey = ''conversion.internal.dynatrace.com/'' @ ''auto-update''"

definition DefaultOTelColImageKey :: string where
  "DefaultOTelColImageKey = ''conversion.internal.dynatrace.com/'' @ ''default-otelc-image''"

text \<open>
  \<open>json.Unmarshal\<close> into a bool: white space around the value is skipped, \<open>null\<close> leaves the zero
  value, anything but the three literals is an error.
\<close>

definition json_space :: "char \<Rightarrow> bool" where
  "json_space c \<longleftrightarrow> c \<in> {CHR '' '', CHR 0x09, CHR 0x0A, CHR 0x0D}"

definition json_trim :: "string \<Rightarrow> string" where
  "json_trim s = rev (dropWhile json_space (rev (dropWhile json_space s)))"

definition json_unmarshal_bool :: "string \<Rightarrow> bool option" where
  "json_unmarshal_bool raw =
     (let s = json_trim raw in
      if s = ''true'' then Some True
      else if s = ''false'' \<or> s = ''null'' then Some False else None)"

definition json_marshal_bool :: "bool \<Rightarrow> string" where
  "json_marshal_bool b = (if b then ''true'' else ''false'')"

definition Field_Get :: "string \<Rightarrow> smap \<Rightarrow> bool option" where
  "Field_Get name data = (case data name of None \<Rightarrow> None | Some raw \<Rightarrow> json_unmarshal_bool raw)"

definition Field_Set :: "string \<Rightarrow> bool option \<Rightarrow> smap \<Rightarrow> smap" where
  "Field_Set name v data =
     (case v of None \<Rightarrow> data(name := None) | Some b \<Rightarrow> data(name \<mapsto> json_marshal_bool b))"

definition CleanupAnnotations :: "smap \<Rightarrow> smap" where
  "CleanupAnnotations annotations = annotations(AutoUpdateKey := None, DefaultOTelColImageKey := None)"

text \<open>\<open>dk.RemovedFields().AutoUpdate.Set\<close> and its sibling write the annotations of the resource.\<close>

definition RemovedFields_Set :: "string \<Rightarrow> bool option \<Rightarrow> dynakube \<Rightarrow> dynakube" where
  "RemovedFields_Set name v dk = dk\<lparr>dkAnnotations := Field_Set name v (dkAnnotations dk)\<rparr>"

section \<open>To the latest version (\<open>convert_to.go\<close>)\<close>

definition toBase :: "b5_dynakube \<Rightarrow> dynakube \<Rightarrow> dynakube" where
  "toBase src dst =
     dst\<lparr>dkName := b5Name src, dkNamespace := b5Namespace src, dkAnnotations := b5Annotations src,
         dkDeletionTimestamp := b5DeletionTimestamp src,
         dkSpec := (dkSpec dst)
           \<lparr>dspProxy := bspProxy (b5Spec src),
            dspDynatraceAPIRequestThreshold := bspDynatraceAPIRequestThreshold (b5Spec src),
            dspAPIURL := bspAPIURL (b5Spec src),
            dspTokens := bspTokens (b5Spec src),
            dspTrustedCAs := bspTrustedCAs (b5Spec src),
            dspNetworkZone := bspNetworkZone (b5Spec src),
            dspCustomPullSecret := bspCustomPullSecret (b5Spec src),
            dspSkipCertCheck := bspSkipCertCheck (b5Spec src),
            dspEnableIstio := bspEnableIstio (b5Spec src)\<rparr>\<rparr>"

definition toLogMonitoringSpec :: "b5_dynakube \<Rightarrow> dynakube \<Rightarrow> dynakube" where
  "toLogMonitoringSpec src dst =
     (case bspLogMonitoring (b5Spec src) of
        None \<Rightarrow> dst
      | Some rules \<Rightarrow>
          dst\<lparr>dkSpec := (dkSpec dst)
            \<lparr>dspLogMonitoring :=
               Some (map (\<lambda>rule. \<lparr>irmAttribute = birAttribute rule, irmValues = birValues rule\<rparr>) rules)\<rparr>\<rparr>)"

definition toKSPMSpec :: "b5_dynakube \<Rightarrow> dynakube \<Rightarrow> dynakube" where
  "toKSPMSpec src dst =
     (case bspKSPM (b5Spec src) of
        None \<Rightarrow> dst
      | Some mappedHostPaths \<Rightarrow> dst\<lparr>dkSpec := (dkSpec dst)\<lparr>dspKSPM := Some mappedHostPaths\<rparr>\<rparr>)"

definition toExtensionsSpec :: "b5_dynakube \<Rightarrow> dynakube \<Rightarrow> dynakube" where
  "toExtensionsSpec src dst =
     (if bspExtensions (b5Spec src) \<noteq> None then
        dst\<lparr>dkSpec := (dkSpec dst)
          \<lparr>dspExtensions := Some \<lparr>exsPrometheus = Some (), exsDatabases = []\<rparr>\<rparr>\<rparr>
      else dst)"

definition toHostInjectSpec :: "b5_host_inject_spec \<Rightarrow> host_inject_spec" where
  "toHostInjectSpec src = zero_host_inject
     \<lparr>hisAnnotations := bhAnnotations src, hisLabels := bhLabels src,
      hisNodeSelector := bhNodeSelector src, hisVersion := bhVersion src, hisImage := bhImage src,
      hisDNSPolicy := bhDNSPolicy src, hisPriorityClassName := bhPriorityClassName src,
      hisSecCompProfile := bhSecCompProfile src, hisOneAgentResources := bhOneAgentResources src,
      hisTolerations := bhTolerations src, hisEnv := bhEnv src, hisArgs := bhArgs src\<rparr>"

definition toAppInjectSpec :: "b5_app_injection_spec \<Rightarrow> app_injection_spec" where
  "toAppInjectSpec src = zero_app_injection
     \<lparr>aisInitResources := baInitResources src, aisCodeModulesImage := baCodeModulesImage src,
      aisNamespaceSelector := baNamespaceSelector src\<rparr>"

definition set_oneagent :: "(oneagent_spec \<Rightarrow> oneagent_spec) \<Rightarrow> dynakube \<Rightarrow> dynakube" where
  "set_oneagent f dst = dst\<lparr>dkSpec := (dkSpec dst)\<lparr>dspOneAgent := f (dspOneAgent (dkSpec dst))\<rparr>\<rparr>"

definition toOneAgentSpec :: "b5_dynakube \<Rightarrow> dynakube \<Rightarrow> dynakube" where
  "toOneAgentSpec src dst =
     (let oa = bspOneAgent (b5Spec src);
          dst1 =
            (case b5ClassicFullStack oa of
               Some c \<Rightarrow>
                 RemovedFields_Set AutoUpdateKey (bhAutoUpdate c)
                   (set_oneagent (\<lambda>s. s\<lparr>ClassicFullStack := Some (toHostInjectSpec c)\<rparr>) dst)
             | None \<Rightarrow>
            (case b5CloudNativeFullStack oa of
               Some c \<Rightarrow>
                 RemovedFields_Set AutoUpdateKey (bhAutoUpdate (bcHostInject c))
                   (set_oneagent
                      (\<lambda>s. s\<lparr>CloudNativeFullStack :=
                             Some \<lparr>cnHostInject = toHostInjectSpec (bcHostInject c),
                                   cnAppInjection = toAppInjectSpec (bcAppInjection c)\<rparr>\<rparr>) dst)
             | None \<Rightarrow>
            (case b5ApplicationMonitoring oa of
               Some a \<Rightarrow>
                 set_oneagent
                   (\<lambda>s. s\<lparr>ApplicationMonitoring :=
                          Some \<lparr>amVersion = bmVersion a,
                                amAppInjection = toAppInjectSpec (bmAppInjection a),
                                amAdditionalResourceAttributes = Map.empty\<rparr>\<rparr>) dst
             | None \<Rightarrow>
            (case b5HostMonitoring oa of
               Some h \<Rightarrow>
                 RemovedFields_Set AutoUpdateKey (bhAutoUpdate h)
                   (set_oneagent (\<lambda>s. s\<lparr>HostMonitoring := Some (toHostInjectSpec h)\<rparr>) dst)
             | None \<Rightarrow> dst))))
      in set_oneagent (\<lambda>s. s\<lparr>HostGroup := b5HostGroup oa\<rparr>) dst1)"

definition toActiveGateSpec :: "b5_dynakube \<Rightarrow> dynakube \<Rightarrow> dynakube" where
  "toActiveGateSpec src dst =
     (let ag = bspActiveGate (b5Spec src);
          cp = bagCapabilityProperties ag
      in dst\<lparr>dkSpec := (dkSpec dst)\<lparr>dspActiveGate := (dspActiveGate (dkSpec dst))
           \<lparr>agAnnotations := bagAnnotations ag, agTLSSecretName := bagTLSSecretName ag,
            agDNSPolicy := bagDNSPolicy ag, agPriorityClassName := bagPriorityClassName ag,
            agVolumeClaimTemplate := bagVolumeClaimTemplate ag,
            agCapabilityProperties := (agCapabilityProperties (dspActiveGate (dkSpec dst)))
              \<lparr>cpCustomProperties := bcpCustomProperties cp, cpNodeSelector := bcpNodeSelector cp,
               cpLabels := bcpLabels cp, cpReplicas := bcpReplicas cp, cpImage := bcpImage cp,
               cpGroup := bcpGroup cp, cpResources := bcpResources cp,
               cpTolerations := bcpTolerations cp, cpEnv := bcpEnv cp,
               cpTopologySpreadConstraints := bcpTopologySpreadConstraints cp\<rparr>,
            agCapabilities := bagCapabilities ag\<rparr>\<rparr>\<rparr>)"

definition toMetadataEnrichment :: "b5_dynakube \<Rightarrow> dynakube \<Rightarrow> dynakube" where
  "toMetadataEnrichment src dst =
     dst\<lparr>dkSpec := (dkSpec dst)\<lparr>dspMetadataEnrichment := (dspMetadataEnrichment (dkSpec dst))
       \<lparr>meEnabled := bmeEnabled (bspMetadataEnrichment (b5Spec src)),
        meNamespaceSelector := bmeNamespaceSelector (bspMetadataEnrichment (b5Spec src))\<rparr>\<rparr>\<rparr>"

definition toTelemetryIngestSpec :: "b5_dynakube \<Rightarrow> dynakube \<Rightarrow> dynakube" where
  "toTelemetryIngestSpec src dst =
     dst\<lparr>dkSpec := (dkSpec dst)
       \<lparr>dspTelemetryIngest :=
          (case bspTelemetryIngest (b5Spec src) of
             None \<Rightarrow> None
           | Some t \<Rightarrow> Some \<lparr>tiServiceName = btiServiceName t, tiTLSRefName = btiTLSRefName t,
                             tiProtocols = btiProtocols t\<rparr>)\<rparr>\<rparr>"


section \<open>To the latest version: templates and status\<close>

definition toLogMonitoringTemplate ::
    "b5_logmonitoring_template option \<Rightarrow> logmonitoring_template option" where
  "toLogMonitoringTemplate ts =
     (case ts of None \<Rightarrow> None
      | Some src \<Rightarrow> Some
          \<lparr>lmtAnnotations = blmAnnotations src, lmtLabels = blmLabels src,
           lmtNodeSelector = blmNodeSelector src, lmtImageRef = blmImageRef src,
           lmtDNSPolicy = blmDNSPolicy src, lmtPriorityClassName = blmPriorityClassName src,
           lmtSecCompProfile = blmSecCompProfile src, lmtResources = blmResources src,
           lmtRollingUpdate = None, lmtTolerations = blmTolerations src, lmtArgs = blmArgs src\<rparr>)"

definition toKSPMNodeConfigurationCollectorTemplate ::
    "b5_node_configuration_collector_spec \<Rightarrow> node_configuration_collector_spec" where
  "toKSPMNodeConfigurationCollectorTemplate src =
     \<lparr>ncUpdateStrategy = bncUpdateStrategy src, ncLabels = bncLabels src,
      ncAnnotations = bncAnnotations src, ncNodeSelector = bncNodeSelector src,
      ncImageRef = bncImageRef src, ncPriorityClassName = bncPriorityClassName src,
      ncResources = bncResources src, ncNodeAffinity = Some (bncNodeAffinity src),
      ncTolerations = bncTolerations src, ncArgs = bncArgs src, ncEnv = bncEnv src\<rparr>"

text \<open>The template and the resource, whose annotations remember that the image is the default.\<close>

definition toOpenTelemetryCollectorTemplate ::
    "dynakube \<Rightarrow> b5_otel_collector_spec \<Rightarrow> otel_collector_spec \<times> dynakube" where
  "toOpenTelemetryCollectorTemplate dk src =
     (let dst = zero_otel_collector
            \<lparr>otcLabels := botLabels src, otcAnnotations := botAnnotations src,
             otcReplicas := botReplicas src, otcImageRef := botImageRef src\<rparr>;
          (dst1, dk1) =
            (if \<not> ref_HasImage (Some (otcImageRef dst)) \<and>
                (ti_IsEnabled (dspTelemetryIngest (dkSpec dk)) \<or>
                 ext_IsPrometheusEnabled (dk_Extensions dk))
             then (dst\<lparr>otcImageRef := (otcImageRef dst)
                     \<lparr>irRepository := ''public.ecr.aws/dynatrace/dynatrace-otel-collector'',
                      irTag := ''latest''\<rparr>\<rparr>,
                   RemovedFields_Set DefaultOTelColImageKey (Some True) dk)
             else (dst, dk))
      in (dst1\<lparr>otcTLSRefName := botTLSRefName src, otcResources := botResources src,
               otcTolerations := botTolerations src,
               otcTopologySpreadConstraints := botTopologySpreadConstraints src\<rparr>, dk1))"

definition toExtensionControllerTemplate ::
    "b5_execution_controller_spec \<Rightarrow> execution_controller_spec" where
  "toExtensionControllerTemplate src =
     \<lparr>eecPersistentVolumeClaim = beePersistentVolumeClaim src, eecLabels = beeLabels src,
      eecAnnotations = beeAnnotations src, eecImageRef = beeImageRef src,
      eecTLSRefName = beeTLSRefName src, eecCustomConfig = beeCustomConfig src,
      eecCustomExtensionCertificates = beeCustomExtensionCertificates src,
      eecResources = beeResources src, eecTolerations = beeTolerations src,
      eecTopologySpreadConstraints = beeTopologySpreadConstraints src,
      eecUseEphemeralVolume = beeUseEphemeralVolume src\<rparr>"

definition set_templates :: "(templates_spec \<Rightarrow> templates_spec) \<Rightarrow> dynakube \<Rightarrow> dynakube" where
  "set_templates f dst = dst\<lparr>dkSpec := (dkSpec dst)\<lparr>dspTemplates := f (dspTemplates (dkSpec dst))\<rparr>\<rparr>"

definition toTemplatesSpec :: "b5_dynakube \<Rightarrow> dynakube \<Rightarrow> dynakube" where
  "toTemplatesSpec src dst =
     (let ts = bspTemplates (b5Spec src);
          dst1 = set_templates
            (\<lambda>t. t\<lparr>tsLogMonitoring := toLogMonitoringTemplate (btsLogMonitoring ts)\<rparr>) dst;
          dst2 = set_templates
            (\<lambda>t. t\<lparr>tsKSPMNodeConfigurationCollector :=
                   toKSPMNodeConfigurationCollectorTemplate (btsKSPMNodeConfigurationCollector ts)\<rparr>) dst1;
          (otc, dst3) = toOpenTelemetryCollectorTemplate dst2 (btsOpenTelemetryCollector ts);
          dst4 = set_templates (\<lambda>t. t\<lparr>tsOpenTelemetryCollector := otc\<rparr>) dst3
      in set_templates
           (\<lambda>t. t\<lparr>tsExtensionExecutionController :=
                  toExtensionControllerTemplate (btsExtensionExecutionController ts)\<rparr>) dst4)"

definition toOneAgentStatus :: "b5_dynakube \<Rightarrow> dynakube \<Rightarrow> dynakube" where
  "toOneAgentStatus src dst =
     (let st = bstOneAgent (b5Status src)
      in dst\<lparr>dkStatus := (dkStatus dst)\<lparr>dstOneAgent :=
           \<lparr>osVersionStatus = bosVersionStatus st,
            osInstances = (\<lambda>key. map_option
              (\<lambda>instance. \<lparr>oiPodName = biPodName instance, oiIPAddress = biIPAddress instance\<rparr>)
              (bosInstances st key)),
            osLastInstanceStatusUpdate = bosLastInstanceStatusUpdate st,
            osHealthcheck = bosHealthcheck st,
            osConnectionInfo = bciConnectionInfo (bosConnectionInfoStatus st)\<rparr>\<rparr>\<rparr>)"

definition toActiveGateStatus :: "b5_dynakube \<Rightarrow> dynakube \<Rightarrow> dynakube" where
  "toActiveGateStatus src dst =
     (let st = bstActiveGate (b5Status src)
      in dst\<lparr>dkStatus := (dkStatus dst)\<lparr>dstActiveGate :=
           \<lparr>asVersionStatus = basVersionStatus st, asConnectionInfo = basConnectionInfo st,
            asServiceIPs = basServiceIPs st\<rparr>\<rparr>\<rparr>)"

definition toStatus :: "b5_dynakube \<Rightarrow> dynakube \<Rightarrow> dynakube" where
  "toStatus src dst0 =
     (let st = b5Status src;
          dst = toActiveGateStatus src (toOneAgentStatus src dst0);
          rules = bstMetadataEnrichmentRules st
      in dst\<lparr>dkStatus := (dkStatus dst)
           \<lparr>dstCodeModules := bstCodeModules st,
            dstMetadataEnrichmentRules :=
              (if length rules > 0
               then map (\<lambda>r. \<lparr>erType = berType r, erSource = berSource r, erTarget = berTarget r\<rparr>) rules
               else dstMetadataEnrichmentRules (dkStatus dst)),
            dstKSPMTokenSecretHash := bstKSPMTokenSecretHash st,
            dstUpdatedTimestamp := bstUpdatedTimestamp st,
            dstPhase := bstPhase st,
            dstKubeSystemUUID := bstKubeSystemUUID st,
            dstKubernetesClusterMEID := bstKubernetesClusterMEID st,
            dstKubernetesClusterName := bstKubernetesClusterName st,
            dstConditions := bstConditions st\<rparr>\<rparr>)"

definition ConvertTo :: "b5_dynakube \<Rightarrow> dynakube \<Rightarrow> dynakube" where
  "ConvertTo src dst0 =
     (let dst1 = toStatus src dst0;
          dst2 = toBase src dst1;
          dst3 = toMetadataEnrichment src dst2;
          dst4 = toLogMonitoringSpec src dst3;
          dst5 = toKSPMSpec src dst4;
          dst6 = toExtensionsSpec src dst5;
          dst7 = toOneAgentSpec src dst6;
          dst8 = toActiveGateSpec src dst7;
          dst9 = toTelemetryIngestSpec src dst8
      in toTemplatesSpec src dst9)"

section \<open>From the latest version (\<open>convert_from.go\<close>)\<close>

definition fromBase :: "dynakube \<Rightarrow> b5_dynakube \<Rightarrow> b5_dynakube" where
  "fromBase src dst =
     dst\<lparr>b5Name := dkName src, b5Namespace := dkNamespace src,
         b5Annotations := CleanupAnnotations (dkAnnotations src),
         b5DeletionTimestamp := dkDeletionTimestamp src,
         b5Spec := (b5Spec dst)
           \<lparr>bspProxy := dspProxy (dkSpec src),
            bspDynatraceAPIRequestThreshold := dspDynatraceAPIRequestThreshold (dkSpec src),
            bspAPIURL := dspAPIURL (dkSpec src),
            bspTokens := dspTokens (dkSpec src),
            bspTrustedCAs := dspTrustedCAs (dkSpec src),
            bspNetworkZone := dspNetworkZone (dkSpec src),
            bspCustomPullSecret := dspCustomPullSecret (dkSpec src),
            bspSkipCertCheck := dspSkipCertCheck (dkSpec src),
            bspEnableIstio := dspEnableIstio (dkSpec src)\<rparr>\<rparr>"

definition fromLogMonitoringSpec :: "dynakube \<Rightarrow> b5_dynakube \<Rightarrow> b5_dynakube" where
  "fromLogMonitoringSpec src dst =
     (case dspLogMonitoring (dkSpec src) of
        None \<Rightarrow> dst
      | Some rules \<Rightarrow>
          dst\<lparr>b5Spec := (b5Spec dst)
            \<lparr>bspLogMonitoring :=
               Some (map (\<lambda>rule. \<lparr>birAttribute = irmAttribute rule, birValues = irmValues rule\<rparr>) rules)\<rparr>\<rparr>)"

definition fromKSPMSpec :: "dynakube \<Rightarrow> b5_dynakube \<Rightarrow> b5_dynakube" where
  "fromKSPMSpec src dst =
     (case dspKSPM (dkSpec src) of
        None \<Rightarrow> dst
      | Some mappedHostPaths \<Rightarrow> dst\<lparr>b5Spec := (b5Spec dst)\<lparr>bspKSPM := Some mappedHostPaths\<rparr>\<rparr>)"

definition fromExtensionsSpec :: "dynakube \<Rightarrow> b5_dynakube \<Rightarrow> b5_dynakube" where
  "fromExtensionsSpec src dst =
     (if dspExtensions (dkSpec src) \<noteq> None
      then dst\<lparr>b5Spec := (b5Spec dst)\<lparr>bspExtensions := Some ()\<rparr>\<rparr> else dst)"

definition fromHostInjectSpec :: "host_inject_spec \<Rightarrow> b5_host_inject_spec" where
  "fromHostInjectSpec src = b5_zero_host_inject
     \<lparr>bhAnnotations := hisAnnotations src, bhLabels := hisLabels src,
      bhNodeSelector := hisNodeSelector src, bhVersion := hisVersion src, bhImage := hisImage src,
      bhDNSPolicy := hisDNSPolicy src, bhPriorityClassName := hisPriorityClassName src,
      bhSecCompProfile := hisSecCompProfile src, bhOneAgentResources := hisOneAgentResources src,
      bhTolerations := hisTolerations src, bhEnv := hisEnv src, bhArgs := hisArgs src\<rparr>"

definition fromAppInjectSpec :: "app_injection_spec \<Rightarrow> b5_app_injection_spec" where
  "fromAppInjectSpec src = b5_zero_app_injection
     \<lparr>baInitResources := aisInitResources src, baCodeModulesImage := aisCodeModulesImage src,
      baNamespaceSelector := aisNamespaceSelector src\<rparr>"

definition b5_set_oneagent :: "(b5_oneagent_spec \<Rightarrow> b5_oneagent_spec) \<Rightarrow> b5_dynakube \<Rightarrow> b5_dynakube" where
  "b5_set_oneagent f dst = dst\<lparr>b5Spec := (b5Spec dst)\<lparr>bspOneAgent := f (bspOneAgent (b5Spec dst))\<rparr>\<rparr>"

definition fromOneAgentSpec :: "dynakube \<Rightarrow> b5_dynakube \<Rightarrow> b5_dynakube" where
  "fromOneAgentSpec src dst =
     (let oa = dspOneAgent (dkSpec src);
          autoUpdate = Field_Get AutoUpdateKey (dkAnnotations src);
          dst1 =
            (case ClassicFullStack oa of
               Some c \<Rightarrow>
                 b5_set_oneagent
                   (\<lambda>s. s\<lparr>b5ClassicFullStack :=
                          Some ((fromHostInjectSpec c)\<lparr>bhAutoUpdate := autoUpdate\<rparr>)\<rparr>) dst
             | None \<Rightarrow>
            (case CloudNativeFullStack oa of
               Some c \<Rightarrow>
                 b5_set_oneagent
                   (\<lambda>s. s\<lparr>b5CloudNativeFullStack :=
                          Some \<lparr>bcHostInject =
                                  (fromHostInjectSpec (cnHostInject c))\<lparr>bhAutoUpdate := autoUpdate\<rparr>,
                                bcAppInjection = fromAppInjectSpec (cnAppInjection c)\<rparr>\<rparr>) dst
             | None \<Rightarrow>
            (case ApplicationMonitoring oa of
               Some a \<Rightarrow>
                 b5_set_oneagent
                   (\<lambda>s. s\<lparr>b5ApplicationMonitoring :=
                          Some \<lparr>bmVersion = amVersion a,
                                bmAppInjection = fromAppInjectSpec (amAppInjection a)\<rparr>\<rparr>) dst
             | None \<Rightarrow>
            (case HostMonitoring oa of
               Some h \<Rightarrow>
                 b5_set_oneagent
                   (\<lambda>s. s\<lparr>b5HostMonitoring :=
                          Some ((fromHostInjectSpec h)\<lparr>bhAutoUpdate := autoUpdate\<rparr>)\<rparr>) dst
             | None \<Rightarrow> dst))))
      in b5_set_oneagent (\<lambda>s. s\<lparr>b5HostGroup := HostGroup oa\<rparr>) dst1)"

definition fromActiveGateSpec :: "dynakube \<Rightarrow> b5_dynakube \<Rightarrow> b5_dynakube" where
  "fromActiveGateSpec src dst =
     (let ag = dspActiveGate (dkSpec src);
          cp = agCapabilityProperties ag
      in dst\<lparr>b5Spec := (b5Spec dst)\<lparr>bspActiveGate := (bspActiveGate (b5Spec dst))
           \<lparr>bagAnnotations := agAnnotations ag, bagTLSSecretName := agTLSSecretName ag,
            bagDNSPolicy := agDNSPolicy ag, bagPriorityClassName := agPriorityClassName ag,
            bagVolumeClaimTemplate := agVolumeClaimTemplate ag,
            bagCapabilityProperties := (bagCapabilityProperties (bspActiveGate (b5Spec dst)))
              \<lparr>bcpCustomProperties := cpCustomProperties cp, bcpNodeSelector := cpNodeSelector cp,
               bcpLabels := cpLabels cp, bcpReplicas := cpReplicas cp, bcpImage := cpImage cp,
               bcpGroup := cpGroup cp, bcpResources := cpResources cp,
               bcpTolerations := cpTolerations cp, bcpEnv := cpEnv cp,
               bcpTopologySpreadConstraints := cpTopologySpreadConstraints cp\<rparr>,
            bagCapabilities := agCapabilities ag\<rparr>\<rparr>\<rparr>)"

definition fromMetadataEnrichment :: "dynakube \<Rightarrow> b5_dynakube \<Rightarrow> b5_dynakube" where
  "fromMetadataEnrichment src dst =
     dst\<lparr>b5Spec := (b5Spec dst)\<lparr>bspMetadataEnrichment :=
       \<lparr>bmeEnabled = meEnabled (dspMetadataEnrichment (dkSpec src)),
        bmeNamespaceSelector = meNamespaceSelector (dspMetadataEnrichment (dkSpec src))\<rparr>\<rparr>\<rparr>"

definition fromTelemetryIngestSpec :: "dynakube \<Rightarrow> b5_dynakube \<Rightarrow> b5_dynakube" where
  "fromTelemetryIngestSpec src dst =
     dst\<lparr>b5Spec := (b5Spec dst)
       \<lparr>bspTelemetryIngest :=
          (case dspTelemetryIngest (dkSpec src) of
             None \<Rightarrow> None
           | Some t \<Rightarrow> Some \<lparr>btiServiceName = tiServiceName t, btiTLSRefName = tiTLSRefName t,
                             btiProtocols = tiProtocols t\<rparr>)\<rparr>\<rparr>"

section \<open>From the latest version: templates and status\<close>

definition fromLogMonitoringTemplate ::
    "logmonitoring_template option \<Rightarrow> b5_logmonitoring_template option" where
  "fromLogMonitoringTemplate ts =
     (case ts of None \<Rightarrow> None
      | Some src \<Rightarrow> Some
          \<lparr>blmAnnotations = lmtAnnotations src, blmLabels = lmtLabels src,
           blmNodeSelector = lmtNodeSelector src, blmImageRef = lmtImageRef src,
           blmDNSPolicy = lmtDNSPolicy src, blmPriorityClassName = lmtPriorityClassName src,
           blmSecCompProfile = lmtSecCompProfile src, blmResources = lmtResources src,
           blmTolerations = lmtTolerations src, blmArgs = lmtArgs src\<rparr>)"

definition fromKSPMNodeConfigurationCollectorTemplate ::
    "node_configuration_collector_spec \<Rightarrow> b5_node_configuration_collector_spec" where
  "fromKSPMNodeConfigurationCollectorTemplate src = b5_zero_node_collector
     \<lparr>bncUpdateStrategy := ncUpdateStrategy src, bncLabels := ncLabels src,
      bncAnnotations := ncAnnotations src, bncNodeSelector := ncNodeSelector src,
      bncImageRef := ncImageRef src, bncPriorityClassName := ncPriorityClassName src,
      bncResources := ncResources src,
      bncNodeAffinity :=
        (case ncNodeAffinity src of None \<Rightarrow> bncNodeAffinity b5_zero_node_collector | Some a \<Rightarrow> a),
      bncTolerations := ncTolerations src, bncArgs := ncArgs src, bncEnv := ncEnv src\<rparr>"

definition fromOpenTelemetryCollectorTemplate ::
    "dynakube \<Rightarrow> otel_collector_spec \<Rightarrow> b5_otel_collector_spec" where
  "fromOpenTelemetryCollectorTemplate dk src =
     (let usingDefault = Field_Get DefaultOTelColImageKey (dkAnnotations dk);
          ref = (if usingDefault \<noteq> None \<and> usingDefault = Some True
                   then (otcImageRef src)\<lparr>irRepository := [], irTag := []\<rparr> else otcImageRef src)
      in \<lparr>botLabels = otcLabels src, botAnnotations = otcAnnotations src,
          botReplicas = otcReplicas src, botImageRef = ref, botTLSRefName = otcTLSRefName src,
          botResources = otcResources src, botTolerations = otcTolerations src,
          botTopologySpreadConstraints = otcTopologySpreadConstraints src\<rparr>)"

definition fromExtensionControllerTemplate ::
    "execution_controller_spec \<Rightarrow> b5_execution_controller_spec" where
  "fromExtensionControllerTemplate src =
     \<lparr>beePersistentVolumeClaim = eecPersistentVolumeClaim src, beeLabels = eecLabels src,
      beeAnnotations = eecAnnotations src, beeImageRef = eecImageRef src,
      beeTLSRefName = eecTLSRefName src, beeCustomConfig = eecCustomConfig src,
      beeCustomExtensionCertificates = eecCustomExtensionCertificates src,
      beeResources = eecResources src, beeTolerations = eecTolerations src,
      beeTopologySpreadConstraints = eecTopologySpreadConstraints src,
      beeUseEphemeralVolume = eecUseEphemeralVolume src\<rparr>"

definition fromTemplatesSpec :: "dynakube \<Rightarrow> b5_dynakube \<Rightarrow> b5_dynakube" where
  "fromTemplatesSpec src dst =
     (let ts = dspTemplates (dkSpec src)
      in dst\<lparr>b5Spec := (b5Spec dst)\<lparr>bspTemplates :=
           \<lparr>btsLogMonitoring = fromLogMonitoringTemplate (tsLogMonitoring ts),
            btsKSPMNodeConfigurationCollector =
              fromKSPMNodeConfigurationCollectorTemplate (tsKSPMNodeConfigurationCollector ts),
            btsOpenTelemetryCollector =
              fromOpenTelemetryCollectorTemplate src (tsOpenTelemetryCollector ts),
            btsExtensionExecutionController =
              fromExtensionControllerTemplate (tsExtensionExecutionController ts)\<rparr>\<rparr>\<rparr>)"

definition fromOneAgentStatus :: "dynakube \<Rightarrow> b5_dynakube \<Rightarrow> b5_dynakube" where
  "fromOneAgentStatus src dst =
     (let st = dstOneAgent (dkStatus src)
      in dst\<lparr>b5Status := (b5Status dst)\<lparr>bstOneAgent :=
           \<lparr>bosVersionStatus = osVersionStatus st,
            bosInstances = (\<lambda>key. map_option
              (\<lambda>instance. \<lparr>biPodName = oiPodName instance, biIPAddress = oiIPAddress instance\<rparr>)
              (osInstances st key)),
            bosLastInstanceStatusUpdate = osLastInstanceStatusUpdate st,
            bosHealthcheck = osHealthcheck st,
            bosConnectionInfoStatus =
              \<lparr>bciConnectionInfo = osConnectionInfo st, bciCommunicationHosts = []\<rparr>\<rparr>\<rparr>\<rparr>)"

definition fromActiveGateStatus :: "dynakube \<Rightarrow> b5_dynakube \<Rightarrow> b5_dynakube" where
  "fromActiveGateStatus src dst =
     (let st = dstActiveGate (dkStatus src)
      in dst\<lparr>b5Status := (b5Status dst)\<lparr>bstActiveGate :=
           \<lparr>basVersionStatus = asVersionStatus st, basConnectionInfo = asConnectionInfo st,
            basServiceIPs = asServiceIPs st\<rparr>\<rparr>\<rparr>)"

definition fromStatus :: "dynakube \<Rightarrow> b5_dynakube \<Rightarrow> b5_dynakube" where
  "fromStatus src dst0 =
     (let st = dkStatus src;
          dst = fromActiveGateStatus src (fromOneAgentStatus src dst0);
          rules = dstMetadataEnrichmentRules st
      in dst\<lparr>b5Status := (b5Status dst)
           \<lparr>bstCodeModules := dstCodeModules st,
            bstMetadataEnrichmentRules :=
              (if length rules > 0
               then map (\<lambda>r. \<lparr>berType = erType r, berSource = erSource r, berTarget = erTarget r\<rparr>) rules
               else bstMetadataEnrichmentRules (b5Status dst)),
            bstKSPMTokenSecretHash := dstKSPMTokenSecretHash st,
            bstUpdatedTimestamp := dstUpdatedTimestamp st,
            bstPhase := dstPhase st,
            bstKubeSystemUUID := dstKubeSystemUUID st,
            bstKubernetesClusterMEID := dstKubernetesClusterMEID st,
            bstKubernetesClusterName := dstKubernetesClusterName st,
            bstConditions := dstConditions st\<rparr>\<rparr>)"

definition ConvertFrom :: "dynakube \<Rightarrow> b5_dynakube \<Rightarrow> b5_dynakube" where
  "ConvertFrom src dst0 =
     (let dst1 = fromStatus src dst0;
          dst2 = fromBase src dst1;
          dst3 = fromMetadataEnrichment src dst2;
          dst4 = fromLogMonitoringSpec src dst3;
          dst5 = fromKSPMSpec src dst4;
          dst6 = fromExtensionsSpec src dst5;
          dst7 = fromOneAgentSpec src dst6;
          dst8 = fromActiveGateSpec src dst7;
          dst9 = fromTemplatesSpec src dst8
      in fromTelemetryIngestSpec src dst9)"

end
