(* ===== verification/ConversionLaws.thy ===== *)
theory ConversionLaws
  imports DynaKubeConversion DynaKubeWebhook
begin

text \<open>
  What the conversion of \<open>DynaKubeConversion\<close> keeps. The two annotations that stand for removed
  fields share the contract \<open>removed_field\<close>, interpreted for both keys. Closed forms of both
  directions (\<open>ConvertTo_zero\<close>, \<open>ConvertFrom_zero\<close>) are computed step by step for the empty
  destination the API server's conversion webhook passes; the round trip of a v1beta5 resource, its
  effect on the admission checks, and the cycle of the latest version through the older one are then
  equations between records.
\<close>

section \<open>The contract of a removed field\<close>

lemma json_bool_roundtrip [simp]: "json_unmarshal_bool (json_marshal_bool b) = Some b"
  by (cases b) (simp_all add: json_unmarshal_bool_def json_marshal_bool_def json_trim_def json_space_def Let_def)

lemma keys_distinct [simp]: "AutoUpdateKey \<noteq> DefaultOTelColImageKey" "DefaultOTelColImageKey \<noteq> AutoUpdateKey"
  by (simp_all add: AutoUpdateKey_def DefaultOTelColImageKey_def)

locale removed_field =
  fixes get :: "smap \<Rightarrow> bool option" and set_field :: "bool option \<Rightarrow> smap \<Rightarrow> smap" and key :: string
  assumes get_set: "get (set_field v m) = v"
    and set_other: "k \<noteq> key \<Longrightarrow> set_field v m k = m k"
    and get_local: "m key = m' key \<Longrightarrow> get m = get m'"
    and set_none: "set_field None m key = None"
begin

lemma get_absent: "m key = None \<Longrightarrow> get m = None"
proof -
  assume "m key = None"
  then have "get m = get (set_field None m)" by (intro get_local) (simp add: set_none)
  then show ?thesis by (simp add: get_set)
qed

lemma set_dropped: "(set_field v m)(key := None) = m(key := None)"
  by (auto simp: fun_eq_iff set_other)

end

lemma removed_field_laws: "removed_field (Field_Get key) (Field_Set key) key"
  by unfold_locales (auto simp: Field_Get_def Field_Set_def split: option.splits)

interpretation auto_update: removed_field "Field_Get AutoUpdateKey" "Field_Set AutoUpdateKey" AutoUpdateKey
  by (rule removed_field_laws)

interpretation default_image: removed_field
  "Field_Get DefaultOTelColImageKey" "Field_Set DefaultOTelColImageKey" DefaultOTelColImageKey
  by (rule removed_field_laws)

lemma get_set_other [simp]:
  "Field_Get AutoUpdateKey (Field_Set DefaultOTelColImageKey v m) = Field_Get AutoUpdateKey m"
  "Field_Get DefaultOTelColImageKey (Field_Set AutoUpdateKey v m) = Field_Get DefaultOTelColImageKey m"
  by (auto intro!: auto_update.get_local default_image.get_local
      simp: auto_update.set_other default_image.set_other)

declare auto_update.get_set [simp] default_image.get_set [simp]

lemma cleanup_set [simp]:
  "CleanupAnnotations (Field_Set AutoUpdateKey v m) = CleanupAnnotations m"
  "CleanupAnnotations (Field_Set DefaultOTelColImageKey v m) = CleanupAnnotations m"
  by (auto simp: CleanupAnnotations_def Field_Set_def split: option.splits)

lemma cleanup_idem [simp]: "CleanupAnnotations (CleanupAnnotations m) = CleanupAnnotations m"
  by (auto simp: CleanupAnnotations_def)

lemma get_cleanup [simp]: "Field_Get DefaultOTelColImageKey (CleanupAnnotations m) = None"
  "Field_Get AutoUpdateKey (CleanupAnnotations m) = None"
  by (simp_all add: Field_Get_def CleanupAnnotations_def)

section \<open>Parts that round trip\<close>

lemma host_inject_roundtrip [simp]:
  "fromHostInjectSpec (toHostInjectSpec h) = h\<lparr>bhStorageHostPath := [], bhAutoUpdate := None\<rparr>"
  by (simp add: fromHostInjectSpec_def toHostInjectSpec_def b5_zero_host_inject_def zero_host_inject_def)

lemma app_inject_roundtrip [simp]: "fromAppInjectSpec (toAppInjectSpec a) = a"
  by (simp add: fromAppInjectSpec_def toAppInjectSpec_def b5_zero_app_injection_def zero_app_injection_def)

lemma log_template_roundtrip [simp]: "fromLogMonitoringTemplate (toLogMonitoringTemplate t) = t"
  by (cases t) (simp_all add: fromLogMonitoringTemplate_def toLogMonitoringTemplate_def)

lemma node_collector_roundtrip [simp]:
  "fromKSPMNodeConfigurationCollectorTemplate (toKSPMNodeConfigurationCollectorTemplate t) = t"
  by (simp add: fromKSPMNodeConfigurationCollectorTemplate_def toKSPMNodeConfigurationCollectorTemplate_def
      b5_zero_node_collector_def)

lemma execution_controller_roundtrip [simp]:
  "fromExtensionControllerTemplate (toExtensionControllerTemplate t) = t"
  by (simp add: fromExtensionControllerTemplate_def toExtensionControllerTemplate_def)

section \<open>What the two conversions produce\<close>

definition default_otel_image :: "b5_dynakube \<Rightarrow> bool" where
  "default_otel_image src \<longleftrightarrow>
     \<not> ref_HasImage (Some (botImageRef (btsOpenTelemetryCollector (bspTemplates (b5Spec src))))) \<and>
     (bspTelemetryIngest (b5Spec src) \<noteq> None \<or> bspExtensions (b5Spec src) \<noteq> None)"

definition to_oneagent :: "b5_oneagent_spec \<Rightarrow> oneagent_spec" where
  "to_oneagent oa = (zero_oneagent_spec
     \<lparr>ClassicFullStack := map_option toHostInjectSpec (b5ClassicFullStack oa),
      CloudNativeFullStack :=
        (if b5ClassicFullStack oa \<noteq> None then None
         else map_option (\<lambda>c. \<lparr>cnHostInject = toHostInjectSpec (bcHostInject c),
                               cnAppInjection = toAppInjectSpec (bcAppInjection c)\<rparr>)
                (b5CloudNativeFullStack oa)),
      ApplicationMonitoring :=
        (if b5ClassicFullStack oa \<noteq> None \<or> b5CloudNativeFullStack oa \<noteq> None then None
         else map_option (\<lambda>a. \<lparr>amVersion = bmVersion a, amAppInjection = toAppInjectSpec (bmAppInjection a),
                               amAdditionalResourceAttributes = Map.empty\<rparr>)
                (b5ApplicationMonitoring oa)),
      HostMonitoring :=
        (if b5ClassicFullStack oa \<noteq> None \<or> b5CloudNativeFullStack oa \<noteq> None \<or>
            b5ApplicationMonitoring oa \<noteq> None then None
         else map_option toHostInjectSpec (b5HostMonitoring oa)),
      HostGroup := b5HostGroup oa\<rparr>)"

definition mode_auto_update :: "b5_oneagent_spec \<Rightarrow> smap \<Rightarrow> smap" where
  "mode_auto_update oa m =
     (case b5ClassicFullStack oa of Some c \<Rightarrow> Field_Set AutoUpdateKey (bhAutoUpdate c) m
      | None \<Rightarrow>
     (case b5CloudNativeFullStack oa of
        Some c \<Rightarrow> Field_Set AutoUpdateKey (bhAutoUpdate (bcHostInject c)) m
      | None \<Rightarrow>
     (case b5ApplicationMonitoring oa of Some a \<Rightarrow> m
      | None \<Rightarrow>
     (case b5HostMonitoring oa of Some h \<Rightarrow> Field_Set AutoUpdateKey (bhAutoUpdate h) m
      | None \<Rightarrow> m))))"

lemmas to_defs = ConvertTo_def toStatus_def toOneAgentStatus_def toActiveGateStatus_def toBase_def
  toMetadataEnrichment_def toLogMonitoringSpec_def toKSPMSpec_def toExtensionsSpec_def
  toOneAgentSpec_def toActiveGateSpec_def toTelemetryIngestSpec_def toTemplatesSpec_def
  toOpenTelemetryCollectorTemplate_def set_oneagent_def set_templates_def RemovedFields_Set_def

lemmas from_defs = ConvertFrom_def fromStatus_def fromOneAgentStatus_def fromActiveGateStatus_def
  fromBase_def fromMetadataEnrichment_def fromLogMonitoringSpec_def fromKSPMSpec_def
  fromExtensionsSpec_def fromOneAgentSpec_def fromActiveGateSpec_def fromTelemetryIngestSpec_def
  fromTemplatesSpec_def fromOpenTelemetryCollectorTemplate_def b5_set_oneagent_def

text \<open>Each step writes one part of the destination.\<close>

lemma toStatus_keeps [simp]:
  "dkSpec (toStatus src d) = dkSpec d" "dkAnnotations (toStatus src d) = dkAnnotations d"
  by (simp_all add: toStatus_def toOneAgentStatus_def toActiveGateStatus_def Let_def)

lemma steps_keep_status [simp]:
  "dkStatus (toBase src d) = dkStatus d" "dkStatus (toMetadataEnrichment src d) = dkStatus d"
  "dkStatus (toLogMonitoringSpec src d) = dkStatus d" "dkStatus (toKSPMSpec src d) = dkStatus d"
  "dkStatus (toExtensionsSpec src d) = dkStatus d" "dkStatus (toOneAgentSpec src d) = dkStatus d"
  "dkStatus (toActiveGateSpec src d) = dkStatus d" "dkStatus (toTelemetryIngestSpec src d) = dkStatus d"
  "dkStatus (toTemplatesSpec src d) = dkStatus d"
  by (simp_all add: to_defs Let_def split: option.split prod.split)

lemma oneagent_step:
  "toOneAgentSpec src d =
     d\<lparr>dkAnnotations := mode_auto_update (bspOneAgent (b5Spec src)) (dkAnnotations d),
       dkSpec := (dkSpec d)\<lparr>dspOneAgent := to_oneagent (bspOneAgent (b5Spec src))\<rparr>\<rparr>"
  if "dspOneAgent (dkSpec d) = zero_oneagent_spec"
  using that
  by (simp add: toOneAgentSpec_def set_oneagent_def RemovedFields_Set_def to_oneagent_def mode_auto_update_def Let_def
      zero_oneagent_spec_def split: option.split)

definition to_otel :: "bool \<Rightarrow> b5_otel_collector_spec \<Rightarrow> otel_collector_spec" where
  "to_otel dflt src = zero_otel_collector
     \<lparr>otcLabels := botLabels src, otcAnnotations := botAnnotations src, otcReplicas := botReplicas src,
      otcImageRef :=
        (if dflt then (botImageRef src)
           \<lparr>irRepository := ''public.ecr.aws/dynatrace/dynatrace-otel-collector'', irTag := ''latest''\<rparr>
         else botImageRef src),
      otcTLSRefName := botTLSRefName src, otcResources := botResources src,
      otcTolerations := botTolerations src,
      otcTopologySpreadConstraints := botTopologySpreadConstraints src\<rparr>"

lemma templates_step:
  assumes "dflt \<longleftrightarrow> \<not> ref_HasImage (Some (botImageRef (btsOpenTelemetryCollector (bspTemplates (b5Spec src))))) \<and>
             (ti_IsEnabled (dspTelemetryIngest (dkSpec d)) \<or> ext_IsPrometheusEnabled (dk_Extensions d))"
  shows "toTemplatesSpec src d =
     d\<lparr>dkAnnotations := (if dflt then Field_Set DefaultOTelColImageKey (Some True) (dkAnnotations d)
                         else dkAnnotations d),
       dkSpec := (dkSpec d)\<lparr>dspTemplates := (dspTemplates (dkSpec d))
         \<lparr>tsLogMonitoring := toLogMonitoringTemplate (btsLogMonitoring (bspTemplates (b5Spec src))),
          tsKSPMNodeConfigurationCollector :=
            toKSPMNodeConfigurationCollectorTemplate (btsKSPMNodeConfigurationCollector (bspTemplates (b5Spec src))),
          tsOpenTelemetryCollector := to_otel dflt (btsOpenTelemetryCollector (bspTemplates (b5Spec src))),
          tsExtensionExecutionController :=
            toExtensionControllerTemplate (btsExtensionExecutionController (bspTemplates (b5Spec src)))\<rparr>\<rparr>\<rparr>"
  using assms
  by (simp add: toTemplatesSpec_def toOpenTelemetryCollectorTemplate_def set_templates_def
      RemovedFields_Set_def to_otel_def Let_def dk_Extensions_def ext_IsPrometheusEnabled_def
      zero_otel_collector_def)

lemma zero_parts [simp]:
  "dspOneAgent (dkSpec zero_dynakube) = zero_oneagent_spec"
  "dspLogMonitoring (dkSpec zero_dynakube) = None" "dspKSPM (dkSpec zero_dynakube) = None"
  "dspExtensions (dkSpec zero_dynakube) = None"
  "dspActiveGate (dkSpec zero_dynakube) = zero_activegate_spec"
  "dspMetadataEnrichment (dkSpec zero_dynakube) =
     \<lparr>meEnabled = None, meNamespaceSelector = zero_selector, meInitResources = None\<rparr>"
  "dstMetadataEnrichmentRules (dkStatus zero_dynakube) = []"
  by (simp_all add: zero_dynakube_def zero_dynakube_spec_def zero_dynakube_status_def)

definition to_rules :: "b5_ingest_rule_matchers list \<Rightarrow> ingest_rule_matchers list" where
  "to_rules = map (\<lambda>rule. \<lparr>irmAttribute = birAttribute rule, irmValues = birValues rule\<rparr>)"

definition to_activegate :: "b5_activegate_spec \<Rightarrow> activegate_spec" where
  "to_activegate ag = zero_activegate_spec
     \<lparr>agAnnotations := bagAnnotations ag, agTLSSecretName := bagTLSSecretName ag,
      agDNSPolicy := bagDNSPolicy ag, agPriorityClassName := bagPriorityClassName ag,
      agVolumeClaimTemplate := bagVolumeClaimTemplate ag,
      agCapabilityProperties := (let cp = bagCapabilityProperties ag in zero_capability_properties
        \<lparr>cpCustomProperties := bcpCustomProperties cp, cpNodeSelector := bcpNodeSelector cp,
         cpLabels := bcpLabels cp, cpReplicas := bcpReplicas cp, cpImage := bcpImage cp,
         cpGroup := bcpGroup cp, cpResources := bcpResources cp,
         cpTolerations := bcpTolerations cp, cpEnv := bcpEnv cp,
         cpTopologySpreadConstraints := bcpTopologySpreadConstraints cp\<rparr>),
      agCapabilities := bagCapabilities ag\<rparr>"

definition to_spec :: "b5_dynakube \<Rightarrow> dynakube_spec" where
  "to_spec src = (let s = b5Spec src in zero_dynakube_spec
     \<lparr>dspMetadataEnrichment :=
        \<lparr>meEnabled = bmeEnabled (bspMetadataEnrichment s),
         meNamespaceSelector = bmeNamespaceSelector (bspMetadataEnrichment s), meInitResources = None\<rparr>,
      dspProxy := bspProxy s, dspLogMonitoring := map_option to_rules (bspLogMonitoring s),
      dspKSPM := bspKSPM s, dspDynatraceAPIRequestThreshold := bspDynatraceAPIRequestThreshold s,
      dspExtensions := map_option (\<lambda>_. \<lparr>exsPrometheus = Some (), exsDatabases = []\<rparr>) (bspExtensions s),
      dspTelemetryIngest := map_option
        (\<lambda>t. \<lparr>tiServiceName = btiServiceName t, tiTLSRefName = btiTLSRefName t, tiProtocols = btiProtocols t\<rparr>)
        (bspTelemetryIngest s),
      dspOneAgent := to_oneagent (bspOneAgent s), dspAPIURL := bspAPIURL s, dspTokens := bspTokens s,
      dspTrustedCAs := bspTrustedCAs s, dspNetworkZone := bspNetworkZone s,
      dspCustomPullSecret := bspCustomPullSecret s,
      dspTemplates := (dspTemplates zero_dynakube_spec)
         \<lparr>tsLogMonitoring := toLogMonitoringTemplate (btsLogMonitoring (bspTemplates s)),
          tsKSPMNodeConfigurationCollector :=
            toKSPMNodeConfigurationCollectorTemplate (btsKSPMNodeConfigurationCollector (bspTemplates s)),
          tsOpenTelemetryCollector := to_otel (default_otel_image src) (btsOpenTelemetryCollector (bspTemplates s)),
          tsExtensionExecutionController :=
            toExtensionControllerTemplate (btsExtensionExecutionController (bspTemplates s))\<rparr>,
      dspActiveGate := to_activegate (bspActiveGate s),
      dspSkipCertCheck := bspSkipCertCheck s, dspEnableIstio := bspEnableIstio s\<rparr>)"

definition to_annotations :: "b5_dynakube \<Rightarrow> smap" where
  "to_annotations src =
     (let m = mode_auto_update (bspOneAgent (b5Spec src)) (b5Annotations src)
      in if default_otel_image src then Field_Set DefaultOTelColImageKey (Some True) m else m)"

lemma optional_steps:
  "dspLogMonitoring (dkSpec d) = None \<Longrightarrow> toLogMonitoringSpec src d =
     d\<lparr>dkSpec := (dkSpec d)\<lparr>dspLogMonitoring := map_option to_rules (bspLogMonitoring (b5Spec src))\<rparr>\<rparr>"
  "dspKSPM (dkSpec d) = None \<Longrightarrow> toKSPMSpec src d =
     d\<lparr>dkSpec := (dkSpec d)\<lparr>dspKSPM := bspKSPM (b5Spec src)\<rparr>\<rparr>"
  "dspExtensions (dkSpec d) = None \<Longrightarrow> toExtensionsSpec src d =
     d\<lparr>dkSpec := (dkSpec d)\<lparr>dspExtensions :=
       map_option (\<lambda>_. \<lparr>exsPrometheus = Some (), exsDatabases = []\<rparr>) (bspExtensions (b5Spec src))\<rparr>\<rparr>"
  "toTelemetryIngestSpec src d =
     d\<lparr>dkSpec := (dkSpec d)\<lparr>dspTelemetryIngest := map_option
        (\<lambda>t. \<lparr>tiServiceName = btiServiceName t, tiTLSRefName = btiTLSRefName t, tiProtocols = btiProtocols t\<rparr>)
        (bspTelemetryIngest (b5Spec src))\<rparr>\<rparr>"
  by (cases "bspLogMonitoring (b5Spec src)"; cases "bspKSPM (b5Spec src)"; cases "bspExtensions (b5Spec src)";
      cases "bspTelemetryIngest (b5Spec src)";
      simp add: toLogMonitoringSpec_def toKSPMSpec_def toExtensionsSpec_def toTelemetryIngestSpec_def
      to_rules_def)+

lemma ConvertTo_zero:
  "ConvertTo src zero_dynakube =
     \<lparr>dkName = b5Name src, dkNamespace = b5Namespace src, dkAnnotations = to_annotations src,
      dkDeletionTimestamp = b5DeletionTimestamp src, dkSpec = to_spec src,
      dkStatus = dkStatus (toStatus src zero_dynakube)\<rparr>"
proof -
  define d9 where "d9 = toTelemetryIngestSpec src (toActiveGateSpec src (toOneAgentSpec src
      (toExtensionsSpec src (toKSPMSpec src (toLogMonitoringSpec src (toMetadataEnrichment src
      (toBase src (toStatus src zero_dynakube))))))))"
  have d9: "d9 = zero_dynakube
      \<lparr>dkName := b5Name src, dkNamespace := b5Namespace src,
       dkAnnotations := mode_auto_update (bspOneAgent (b5Spec src)) (b5Annotations src),
       dkDeletionTimestamp := b5DeletionTimestamp src,
       dkSpec := (to_spec src)\<lparr>dspTemplates := dspTemplates zero_dynakube_spec\<rparr>,
       dkStatus := dkStatus (toStatus src zero_dynakube)\<rparr>"
    unfolding d9_def
    by (simp add: optional_steps oneagent_step toActiveGateSpec_def toMetadataEnrichment_def toBase_def
        to_spec_def Let_def to_activegate_def zero_dynakube_def zero_dynakube_spec_def
        zero_activegate_spec_def toStatus_def toOneAgentStatus_def toActiveGateStatus_def)
  have "ConvertTo src zero_dynakube = toTemplatesSpec src d9"
    by (simp add: ConvertTo_def d9_def Let_def)
  also have "\<dots> = \<lparr>dkName = b5Name src, dkNamespace = b5Namespace src, dkAnnotations = to_annotations src,
      dkDeletionTimestamp = b5DeletionTimestamp src, dkSpec = to_spec src,
      dkStatus = dkStatus (toStatus src zero_dynakube)\<rparr>"
    by (subst templates_step [where dflt = "default_otel_image src"])
      (auto simp add: d9 to_spec_def to_annotations_def Let_def zero_dynakube_def default_otel_image_def
        ti_IsEnabled_def ext_IsPrometheusEnabled_def dk_Extensions_def split: option.splits)
  finally show ?thesis .
qed

definition from_oneagent :: "bool option \<Rightarrow> oneagent_spec \<Rightarrow> b5_oneagent_spec" where
  "from_oneagent au oa =
     \<lparr>b5ClassicFullStack =
        map_option (\<lambda>c. (fromHostInjectSpec c)\<lparr>bhAutoUpdate := au\<rparr>) (ClassicFullStack oa),
      b5CloudNativeFullStack =
        (if ClassicFullStack oa \<noteq> None then None
         else map_option (\<lambda>c. \<lparr>bcHostInject = (fromHostInjectSpec (cnHostInject c))\<lparr>bhAutoUpdate := au\<rparr>,
                               bcAppInjection = fromAppInjectSpec (cnAppInjection c)\<rparr>)
                (CloudNativeFullStack oa)),
      b5ApplicationMonitoring =
        (if ClassicFullStack oa \<noteq> None \<or> CloudNativeFullStack oa \<noteq> None then None
         else map_option (\<lambda>a. \<lparr>bmVersion = amVersion a, bmAppInjection = fromAppInjectSpec (amAppInjection a)\<rparr>)
                (ApplicationMonitoring oa)),
      b5HostMonitoring =
        (if ClassicFullStack oa \<noteq> None \<or> CloudNativeFullStack oa \<noteq> None \<or> ApplicationMonitoring oa \<noteq> None
         then None
         else map_option (\<lambda>h. (fromHostInjectSpec h)\<lparr>bhAutoUpdate := au\<rparr>) (HostMonitoring oa)),
      b5HostGroup = HostGroup oa\<rparr>"

definition from_rules :: "ingest_rule_matchers list \<Rightarrow> b5_ingest_rule_matchers list" where
  "from_rules = map (\<lambda>rule. \<lparr>birAttribute = irmAttribute rule, birValues = irmValues rule\<rparr>)"

definition b5_zero_oneagent :: b5_oneagent_spec where
  "b5_zero_oneagent = bspOneAgent b5_zero_spec"

lemma from_oneagent_step:
  "bspOneAgent (b5Spec d) = b5_zero_oneagent \<Longrightarrow> fromOneAgentSpec src d =
     d\<lparr>b5Spec := (b5Spec d)\<lparr>bspOneAgent :=
         from_oneagent (Field_Get AutoUpdateKey (dkAnnotations src)) (dspOneAgent (dkSpec src))\<rparr>\<rparr>"
  by (simp add: fromOneAgentSpec_def b5_set_oneagent_def from_oneagent_def b5_zero_oneagent_def
      b5_zero_spec_def Let_def split: option.split)

lemma from_optional_steps:
  "bspLogMonitoring (b5Spec d) = None \<Longrightarrow> fromLogMonitoringSpec src d =
     d\<lparr>b5Spec := (b5Spec d)\<lparr>bspLogMonitoring := map_option from_rules (dspLogMonitoring (dkSpec src))\<rparr>\<rparr>"
  "bspKSPM (b5Spec d) = None \<Longrightarrow> fromKSPMSpec src d =
     d\<lparr>b5Spec := (b5Spec d)\<lparr>bspKSPM := dspKSPM (dkSpec src)\<rparr>\<rparr>"
  "bspExtensions (b5Spec d) = None \<Longrightarrow> fromExtensionsSpec src d =
     d\<lparr>b5Spec := (b5Spec d)\<lparr>bspExtensions := map_option (\<lambda>_. ()) (dspExtensions (dkSpec src))\<rparr>\<rparr>"
  "fromTelemetryIngestSpec src d =
     d\<lparr>b5Spec := (b5Spec d)\<lparr>bspTelemetryIngest := map_option
        (\<lambda>t. \<lparr>btiServiceName = tiServiceName t, btiTLSRefName = tiTLSRefName t, btiProtocols = tiProtocols t\<rparr>)
        (dspTelemetryIngest (dkSpec src))\<rparr>\<rparr>"
  by (cases "dspLogMonitoring (dkSpec src)"; cases "dspKSPM (dkSpec src)"; cases "dspExtensions (dkSpec src)";
      cases "dspTelemetryIngest (dkSpec src)";
      simp add: fromLogMonitoringSpec_def fromKSPMSpec_def fromExtensionsSpec_def fromTelemetryIngestSpec_def
      from_rules_def)+

definition from_spec :: "dynakube \<Rightarrow> b5_dynakube_spec" where
  "from_spec dk = (let s = dkSpec dk; ag = dspActiveGate s; cp = agCapabilityProperties ag in
     \<lparr>bspMetadataEnrichment =
        \<lparr>bmeEnabled = meEnabled (dspMetadataEnrichment s),
         bmeNamespaceSelector = meNamespaceSelector (dspMetadataEnrichment s)\<rparr>,
      bspProxy = dspProxy s, bspLogMonitoring = map_option from_rules (dspLogMonitoring s),
      bspKSPM = dspKSPM s, bspDynatraceAPIRequestThreshold = dspDynatraceAPIRequestThreshold s,
      bspExtensions = map_option (\<lambda>_. ()) (dspExtensions s),
      bspTelemetryIngest = map_option
        (\<lambda>t. \<lparr>btiServiceName = tiServiceName t, btiTLSRefName = tiTLSRefName t, btiProtocols = tiProtocols t\<rparr>)
        (dspTelemetryIngest s),
      bspOneAgent = from_oneagent (Field_Get AutoUpdateKey (dkAnnotations dk)) (dspOneAgent s),
      bspAPIURL = dspAPIURL s, bspTokens = dspTokens s, bspTrustedCAs = dspTrustedCAs s,
      bspNetworkZone = dspNetworkZone s, bspCustomPullSecret = dspCustomPullSecret s,
      bspTemplates =
        \<lparr>btsLogMonitoring = fromLogMonitoringTemplate (tsLogMonitoring (dspTemplates s)),
         btsKSPMNodeConfigurationCollector =
           fromKSPMNodeConfigurationCollectorTemplate (tsKSPMNodeConfigurationCollector (dspTemplates s)),
         btsOpenTelemetryCollector =
           fromOpenTelemetryCollectorTemplate dk (tsOpenTelemetryCollector (dspTemplates s)),
         btsExtensionExecutionController =
           fromExtensionControllerTemplate (tsExtensionExecutionController (dspTemplates s))\<rparr>,
      bspActiveGate =
        \<lparr>bagAnnotations = agAnnotations ag, bagVolumeClaimTemplate = agVolumeClaimTemplate ag,
         bagTerminationGracePeriodSeconds = None, bagTLSSecretName = agTLSSecretName ag,
         bagDNSPolicy = agDNSPolicy ag, bagPriorityClassName = agPriorityClassName ag,
         bagCapabilityProperties =
           \<lparr>bcpCustomProperties = cpCustomProperties cp, bcpNodeSelector = cpNodeSelector cp,
            bcpLabels = cpLabels cp, bcpReplicas = cpReplicas cp, bcpImage = cpImage cp,
            bcpGroup = cpGroup cp, bcpResources = cpResources cp, bcpTolerations = cpTolerations cp,
            bcpEnv = cpEnv cp, bcpTopologySpreadConstraints = cpTopologySpreadConstraints cp\<rparr>,
         bagCapabilities = agCapabilities ag, bagUseEphemeralVolume = None\<rparr>,
      bspSkipCertCheck = dspSkipCertCheck s, bspEnableIstio = dspEnableIstio s\<rparr>)"

lemma ConvertFrom_zero:
  "ConvertFrom dk b5_zero_dynakube =
     \<lparr>b5Name = dkName dk, b5Namespace = dkNamespace dk,
      b5Annotations = CleanupAnnotations (dkAnnotations dk),
      b5DeletionTimestamp = dkDeletionTimestamp dk, b5Spec = from_spec dk,
      b5Status = b5Status (fromStatus dk b5_zero_dynakube)\<rparr>"
  by (simp add: ConvertFrom_def from_optional_steps from_oneagent_step fromActiveGateSpec_def
      fromMetadataEnrichment_def fromBase_def fromTemplatesSpec_def from_spec_def Let_def
      b5_zero_dynakube_def b5_zero_spec_def b5_zero_oneagent_def b5_zero_activegate_spec_def
      fromStatus_def fromOneAgentStatus_def fromActiveGateStatus_def)

section \<open>The round trip\<close>

definition first_mode :: "b5_oneagent_spec \<Rightarrow> b5_oneagent_spec" where
  "first_mode oa =
     (let keep = (\<lambda>h. h\<lparr>bhStorageHostPath := []\<rparr>);
          none = oa\<lparr>b5ClassicFullStack := None, b5CloudNativeFullStack := None,
                    b5ApplicationMonitoring := None, b5HostMonitoring := None\<rparr>
      in case b5ClassicFullStack oa of Some c \<Rightarrow> none\<lparr>b5ClassicFullStack := Some (keep c)\<rparr>
       | None \<Rightarrow>
      (case b5CloudNativeFullStack oa of
         Some c \<Rightarrow> none\<lparr>b5CloudNativeFullStack := Some (c\<lparr>bcHostInject := keep (bcHostInject c)\<rparr>)\<rparr>
       | None \<Rightarrow>
      (case b5ApplicationMonitoring oa of
         Some a \<Rightarrow> none\<lparr>b5ApplicationMonitoring := Some a\<rparr>
       | None \<Rightarrow> none\<lparr>b5HostMonitoring := map_option keep (b5HostMonitoring oa)\<rparr>)))"

definition reset_image :: "b5_dynakube \<Rightarrow> image_ref \<Rightarrow> image_ref" where
  "reset_image src ref =
     (if default_otel_image src \<or> Field_Get DefaultOTelColImageKey (b5Annotations src) = Some True
      then ref\<lparr>irRepository := [], irTag := []\<rparr> else ref)"

definition b5_normalize :: "b5_dynakube \<Rightarrow> b5_dynakube" where
  "b5_normalize src =
     (let s = b5Spec src; ts = bspTemplates s; otc = btsOpenTelemetryCollector ts; st = b5Status src in src
      \<lparr>b5Annotations := CleanupAnnotations (b5Annotations src),
       b5Spec := s
         \<lparr>bspOneAgent := first_mode (bspOneAgent s),
          bspTemplates := ts
            \<lparr>btsOpenTelemetryCollector := otc\<lparr>botImageRef := reset_image src (botImageRef otc)\<rparr>\<rparr>,
          bspActiveGate := (bspActiveGate s)
            \<lparr>bagTerminationGracePeriodSeconds := None, bagUseEphemeralVolume := None\<rparr>\<rparr>,
       b5Status := st
         \<lparr>bstOneAgent := (bstOneAgent st)\<lparr>bosConnectionInfoStatus :=
            (bosConnectionInfoStatus (bstOneAgent st))\<lparr>bciCommunicationHosts := []\<rparr>\<rparr>,
          bstProxyURLHash := [], bstLastTokenScopeRequest := 0\<rparr>\<rparr>)"

lemma rules_roundtrip [simp]: "from_rules (to_rules rs) = rs"
  by (induction rs) (simp_all add: from_rules_def to_rules_def)

lemma rules_roundtrip_option [simp]: "map_option from_rules (map_option to_rules r) = r"
  by (cases r) simp_all

lemma oneagent_roundtrip:
  "from_oneagent (Field_Get AutoUpdateKey (mode_auto_update oa m)) (to_oneagent oa) = first_mode oa"
  by (cases oa) (simp add: from_oneagent_def to_oneagent_def mode_auto_update_def first_mode_def Let_def
      zero_oneagent_spec_def split: option.split)

lemma status_roundtrip:
  "b5Status (fromStatus dk b5_zero_dynakube) = b5Status (b5_normalize src)"
  if st: "dkStatus dk = dkStatus (toStatus src zero_dynakube)"
proof -
  have rules: "map (\<lambda>r. \<lparr>berType = erType r, berSource = erSource r, berTarget = erTarget r\<rparr>)
      (map (\<lambda>r. \<lparr>erType = berType r, erSource = berSource r, erTarget = berTarget r\<rparr>) rs) = rs" for rs
    by (induction rs) simp_all
  have ins: "(\<lambda>key. map_option (\<lambda>i. \<lparr>biPodName = oiPodName i, biIPAddress = oiIPAddress i\<rparr>)
      (map_option (\<lambda>i. \<lparr>oiPodName = biPodName i, oiIPAddress = biIPAddress i\<rparr>) (m key))) = m" for m
  proof
    fix k show "map_option (\<lambda>i. \<lparr>biPodName = oiPodName i, biIPAddress = oiIPAddress i\<rparr>)
      (map_option (\<lambda>i. \<lparr>oiPodName = biPodName i, oiIPAddress = biIPAddress i\<rparr>) (m k)) = m k"
      by (cases "m k") simp_all
  qed
  show ?thesis
    by (intro b5_dynakube_status.equality b5_oneagent_status.equality b5_activegate_status.equality
        b5_connection_info_status.equality)
      (simp_all add: fromStatus_def fromOneAgentStatus_def fromActiveGateStatus_def st toStatus_def
        toOneAgentStatus_def toActiveGateStatus_def b5_normalize_def Let_def rules ins
        b5_zero_dynakube_def b5_zero_status_def del: option.map_comp map_map)
qed

lemma annotations_roundtrip: "CleanupAnnotations (to_annotations src) = CleanupAnnotations (b5Annotations src)"
  by (simp add: to_annotations_def mode_auto_update_def Let_def split: option.split)

lemma auto_update_kept:
  "Field_Get AutoUpdateKey (to_annotations src) =
   Field_Get AutoUpdateKey (mode_auto_update (bspOneAgent (b5Spec src)) (b5Annotations src))"
  by (simp add: to_annotations_def Let_def)

lemma default_image_kept:
  "Field_Get DefaultOTelColImageKey (to_annotations src) =
   (if default_otel_image src then Some True else Field_Get DefaultOTelColImageKey (b5Annotations src))"
  by (simp add: to_annotations_def mode_auto_update_def Let_def split: option.split)

lemma optional_ids [simp]:
  "map_option (\<lambda>x. ()) u = u"
  "map_option (\<lambda>x. \<lparr>btiServiceName = btiServiceName x, btiTLSRefName = btiTLSRefName x,
                   btiProtocols = btiProtocols x\<rparr>) t = t"
  by (cases u; cases t; simp)+

lemma from_to: "ConvertFrom (ConvertTo src zero_dynakube) b5_zero_dynakube = b5_normalize src"
proof -
  let ?dk = "ConvertTo src zero_dynakube"
  have to_fields: "dkName ?dk = b5Name src" "dkNamespace ?dk = b5Namespace src"
    "dkAnnotations ?dk = to_annotations src" "dkDeletionTimestamp ?dk = b5DeletionTimestamp src"
    "dkSpec ?dk = to_spec src"
    by (simp_all add: ConvertTo_zero)
  have st: "b5Status (fromStatus ?dk b5_zero_dynakube) = b5Status (b5_normalize src)"
    by (rule status_roundtrip) (simp add: ConvertTo_zero)
  have otel: "fromOpenTelemetryCollectorTemplate ?dk (to_otel (default_otel_image src) otc) =
      otc\<lparr>botImageRef := reset_image src (botImageRef otc)\<rparr>" for otc
    by (intro b5_otel_collector_spec.equality)
      (simp_all add: fromOpenTelemetryCollectorTemplate_def to_otel_def ConvertTo_zero default_image_kept
        reset_image_def zero_otel_collector_def Let_def del: not_None_eq not_Some_eq)
  have spec: "from_spec ?dk = b5Spec (b5_normalize src)"
    by (intro b5_dynakube_spec.equality b5_templates_spec.equality b5_metadata_enrichment.equality
        b5_activegate_spec.equality b5_capability_properties.equality)
      (simp_all add: from_spec_def to_fields to_spec_def Let_def otel b5_normalize_def auto_update_kept
        oneagent_roundtrip to_activegate_def option.map_comp comp_def option.map_id0 [unfolded id_def])
  show ?thesis
    unfolding ConvertFrom_zero st spec
    by (simp add: to_fields annotations_roundtrip b5_normalize_def Let_def)
qed

lemma first_mode_idem [simp]: "first_mode (first_mode oa) = first_mode oa"
  by (cases "b5HostMonitoring oa") (simp_all add: first_mode_def Let_def split: option.split)

lemma reset_image_idem: "reset_image (b5_normalize src) (reset_image src r) = reset_image src r"
  if "r = botImageRef (btsOpenTelemetryCollector (bspTemplates (b5Spec src)))"
  using that
  by (auto simp: reset_image_def b5_normalize_def default_otel_image_def ref_HasImage_def Let_def)

lemma normalize_idem: "b5_normalize (b5_normalize src) = b5_normalize src"
proof -
  have "b5_normalize (b5_normalize src) = (b5_normalize src)
    \<lparr>b5Spec := (b5Spec (b5_normalize src))\<lparr>bspTemplates := (bspTemplates (b5Spec src))
       \<lparr>btsOpenTelemetryCollector := (btsOpenTelemetryCollector (bspTemplates (b5Spec src)))
          \<lparr>botImageRef := reset_image (b5_normalize src)
             (reset_image src (botImageRef (btsOpenTelemetryCollector (bspTemplates (b5Spec src)))))\<rparr>\<rparr>\<rparr>\<rparr>"
    by (subst b5_normalize_def) (simp add: b5_normalize_def Let_def)
  also have "\<dots> = b5_normalize src"
    by (simp add: reset_image_idem) (simp add: b5_normalize_def Let_def)
  finally show ?thesis .
qed

text \<open>C22. Storing a v1beta5 DynaKube as the current version and reading it back gives its normal form: the
  first of several OneAgent modes, without the fields that have no counterpart and without the default
  collector image. The normal form itself survives the round trip unchanged, so further conversions lose
  nothing more.
\<close>

theorem conversion_roundtrip:
  "ConvertFrom (ConvertTo src zero_dynakube) b5_zero_dynakube = b5_normalize src \<and>
   ConvertFrom (ConvertTo (b5_normalize src) zero_dynakube) b5_zero_dynakube = b5_normalize src"
  by (simp add: from_to normalize_idem)

lemma to_first_mode:
  "to_oneagent (first_mode oa) = to_oneagent oa"
  "mode_auto_update (first_mode oa) m = mode_auto_update oa m"
  by (cases "b5HostMonitoring oa",
      simp_all add: first_mode_def to_oneagent_def mode_auto_update_def toHostInjectSpec_def Let_def
        split: option.split)

text \<open>A v1beta5 DynaKube with several OneAgent modes converts to the same resource as the one with the first
  of them alone, so the check for conflicting modes, which runs on the converted resource, never reports
  it; nor does the check for a missing collector image.
\<close>

theorem extra_modes_dropped:
  "ConvertTo (src\<lparr>b5Spec := (b5Spec src)\<lparr>bspOneAgent := first_mode (bspOneAgent (b5Spec src))\<rparr>\<rparr>)
     zero_dynakube = ConvertTo src zero_dynakube \<and>
   conflictingOneAgentConfiguration env (ConvertTo src zero_dynakube) = [] \<and>
   missingOTelCollectorImage env (ConvertTo src zero_dynakube) = []"
proof -
  let ?dk = "ConvertTo src zero_dynakube"
  have "ConvertTo (src\<lparr>b5Spec := (b5Spec src)\<lparr>bspOneAgent := first_mode (bspOneAgent (b5Spec src))\<rparr>\<rparr>)
     zero_dynakube = ?dk"
    by (simp add: ConvertTo_zero to_annotations_def to_spec_def default_otel_image_def to_first_mode
        toStatus_def toOneAgentStatus_def toActiveGateStatus_def Let_def)
  moreover have "conflictingOneAgentConfiguration env ?dk = []"
    by (simp add: ConvertTo_zero conflictingOneAgentConfiguration_def Let_def dk_OneAgent_def to_spec_def
        to_oneagent_def IsApplicationMonitoringMode_def IsCloudNativeFullstackMode_def
        IsClassicFullStackMode_def IsHostMonitoringMode_def zero_oneagent_spec_def)
  moreover have "missingOTelCollectorImage env ?dk = []"
    by (cases "bspExtensions (b5Spec src)")
      (auto simp: ConvertTo_zero missingOTelCollectorImage_def to_spec_def Let_def to_otel_def
        default_otel_image_def ref_HasImage_def ti_IsEnabled_def ext_IsPrometheusEnabled_def
        dk_Extensions_def zero_dynakube_spec_def zero_otel_collector_def)
  ultimately show ?thesis by simp
qed

theorem hub_cycle:
  "let dk' = ConvertTo (ConvertFrom dk b5_zero_dynakube) zero_dynakube; s = dkSpec dk; s' = dkSpec dk' in
   dkName dk' = dkName dk \<and> dkNamespace dk' = dkNamespace dk \<and>
   dspAPIURL s' = dspAPIURL s \<and> dspProxy s' = dspProxy s \<and> dspTokens s' = dspTokens s \<and>
   dspTrustedCAs s' = dspTrustedCAs s \<and> dspLogMonitoring s' = dspLogMonitoring s \<and>
   dspKSPM s' = dspKSPM s \<and> dspTelemetryIngest s' = dspTelemetryIngest s \<and>
   agCapabilities (dspActiveGate s') = agCapabilities (dspActiveGate s) \<and>
   dspResourceAttributes s' = Map.empty \<and> dspOTLPExporterConfiguration s' = None \<and>
   dspKubernetesMonitoring s' = None \<and> dspPublicRegistryOverride s' = [] \<and>
   dspExtensions s' = map_option (\<lambda>_. \<lparr>exsPrometheus = Some (), exsDatabases = []\<rparr>) (dspExtensions s) \<and>
   agTerminationGracePeriodSeconds (dspActiveGate s') = None \<and>
   tsSQLExtensionExecutor (dspTemplates s') = tsSQLExtensionExecutor (dspTemplates zero_dynakube_spec) \<and>
   dstAPIToken (dkStatus dk') = dstAPIToken zero_dynakube_status"
proof -
  have rules: "to_rules (from_rules rs) = rs" for rs
    by (induction rs) (simp_all add: from_rules_def to_rules_def)
  have ids: "map_option to_rules (map_option from_rules r) = r"
    "map_option (\<lambda>t. \<lparr>tiServiceName = tiServiceName t, tiTLSRefName = tiTLSRefName t, tiProtocols = tiProtocols t\<rparr>) t = t"
    for r t by (cases r; cases t; simp add: rules)+
  show ?thesis
    unfolding ConvertTo_zero ConvertFrom_zero
    by (simp add: to_spec_def from_spec_def Let_def to_activegate_def ids
        option.map_comp comp_def option.map_ident zero_dynakube_spec_def zero_activegate_spec_def toStatus_def
        toOneAgentStatus_def toActiveGateStatus_def zero_dynakube_def rules)
qed

end
