(* ===== verification/EdgeConnectV1Alpha1.thy ===== *)
theory EdgeConnectV1Alpha1
  imports EdgeConnectApi
begin

text \<open>
  The older version of the EdgeConnect resource, \<open>pkg/api/v1alpha1/edgeconnect\<close>, and its conversion to
  and from the version the controller works with. The older version holds the host restrictions as one
  comma separated string, a service account name that is always set and an image without digest.
\<close>

section \<open>The resource\<close>

record ea_image_ref =
  eaiRepository :: string
  eaiTag :: string

record ea_proxy_spec =
  eapHost :: string
  eapNoProxy :: string
  eapAuthRef :: string
  eapPort :: "32 word"

record ea_oauth_spec =
  eaoClientSecret :: string
  eaoEndpoint :: string
  eaoResource :: string
  eaoProvisioner :: bool

record ea_spec =
  easAnnotations :: smap
  easLabels :: smap
  easReplicas :: "32 word option"
  easNodeSelector :: smap
  easKubernetesAutomation :: "bool option"
  easProxy :: "ea_proxy_spec option"
  easImageRef :: ea_image_ref
  easAPIServer :: string
  easHostRestrictions :: string
  easCustomPullSecret :: string
  easCaCertsRef :: string
  easServiceAccountName :: string
  easOAuth :: ea_oauth_spec
  easResources :: ec_resources
  easEnv :: "k8s_value list"
  easTolerations :: "k8s_value list"
  easTopologySpreadConstraints :: "k8s_value list"
  easHostPatterns :: "string list"
  easAutoUpdate :: bool

record ea_status =
  eatPhase :: string
  eatVersion :: version_status
  eatUpdatedTimestamp :: int
  eatKubeSystemUID :: string
  eatConditions :: "cond_op list"

record ea_edgeconnect =
  eaName :: string
  eaNamespace :: string
  eaFinalizers :: "string list"
  eaDeletionTimestamp :: "int option"
  eaSpec :: ea_spec
  eaStatus :: ea_status

section \<open>To the current version (\<open>convert_to.go\<close>)\<close>

definition ea_toBase :: "ea_edgeconnect \<Rightarrow> edgeconnect \<Rightarrow> edgeconnect" where
  "ea_toBase src dst =
     dst\<lparr>ecName := eaName src, ecNamespace := eaNamespace src, ecFinalizers := eaFinalizers src,
         ecDeletionTimestamp := eaDeletionTimestamp src\<rparr>"

definition ea_toSpec :: "ea_edgeconnect \<Rightarrow> edgeconnect \<Rightarrow> edgeconnect" where
  "ea_toSpec src dst =
     (let s = eaSpec src; d = ecSpec dst in dst\<lparr>ecSpec := d
        \<lparr>esAnnotations := easAnnotations s, esLabels := easLabels s, esReplicas := easReplicas s,
         esNodeSelector := easNodeSelector s,
         esKubernetesAutomation :=
           (case easKubernetesAutomation s of None \<Rightarrow> esKubernetesAutomation d | Some b \<Rightarrow> Some b),
         esProxy :=
           (case easProxy s of None \<Rightarrow> esProxy d
            | Some p \<Rightarrow> Some \<lparr>epHost = eapHost p, epNoProxy = eapNoProxy p, epAuthRef = eapAuthRef p,
                              epPort = eapPort p\<rparr>),
         esImageRef := (esImageRef d)\<lparr>irTag := eaiTag (easImageRef s), irRepository := eaiRepository (easImageRef s)\<rparr>,
         esAPIServer := easAPIServer s,
         esHostRestrictions :=
           (if easHostRestrictions s \<noteq> [] then split_on (CHR '','') (easHostRestrictions s)
            else esHostRestrictions d),
         esCustomPullSecret := easCustomPullSecret s, esCaCertsRef := easCaCertsRef s,
         esServiceAccountName := Some (easServiceAccountName s),
         esOAuth := \<lparr>eoClientSecret = eaoClientSecret (easOAuth s), eoEndpoint = eaoEndpoint (easOAuth s),
                     eoResource = eaoResource (easOAuth s), eoProvisioner = eaoProvisioner (easOAuth s)\<rparr>,
         esResources := easResources s, esEnv := easEnv s, esTolerations := easTolerations s,
         esTopologySpreadConstraints := easTopologySpreadConstraints s,
         esHostPatterns := easHostPatterns s, esAutoUpdate := Some (easAutoUpdate s)\<rparr>\<rparr>)"

definition ea_toStatus :: "ea_edgeconnect \<Rightarrow> edgeconnect \<Rightarrow> edgeconnect" where
  "ea_toStatus src dst =
     dst\<lparr>ecStatus := (ecStatus dst)
       \<lparr>ecsConditions := eatConditions (eaStatus src), ecsKubeSystemUID := eatKubeSystemUID (eaStatus src),
        ecsPhase := eatPhase (eaStatus src), ecsUpdatedTimestamp := eatUpdatedTimestamp (eaStatus src),
        ecsVersion := eatVersion (eaStatus src)\<rparr>\<rparr>"

definition ea_ConvertTo :: "ea_edgeconnect \<Rightarrow> edgeconnect \<Rightarrow> edgeconnect" where
  "ea_ConvertTo src dst = ea_toStatus src (ea_toSpec src (ea_toBase src dst))"

section \<open>From the current version (\<open>convert_from.go\<close>)\<close>

definition ea_fromBase :: "edgeconnect \<Rightarrow> ea_edgeconnect \<Rightarrow> ea_edgeconnect" where
  "ea_fromBase src dst =
     dst\<lparr>eaName := ecName src, eaNamespace := ecNamespace src, eaFinalizers := ecFinalizers src,
         eaDeletionTimestamp := ecDeletionTimestamp src\<rparr>"

definition ea_fromSpec :: "edgeconnect \<Rightarrow> ea_edgeconnect \<Rightarrow> ea_edgeconnect" where
  "ea_fromSpec src dst =
     (let s = ecSpec src; d = eaSpec dst in dst\<lparr>eaSpec := d
        \<lparr>easAnnotations := esAnnotations s, easLabels := esLabels s, easReplicas := esReplicas s,
         easNodeSelector := esNodeSelector s,
         easKubernetesAutomation :=
           (case esKubernetesAutomation s of None \<Rightarrow> easKubernetesAutomation d | Some b \<Rightarrow> Some b),
         easProxy :=
           (case esProxy s of None \<Rightarrow> easProxy d
            | Some p \<Rightarrow> Some \<lparr>eapHost = epHost p, eapNoProxy = epNoProxy p, eapAuthRef = epAuthRef p,
                              eapPort = epPort p\<rparr>),
         easImageRef := \<lparr>eaiRepository = irRepository (esImageRef s), eaiTag = irTag (esImageRef s)\<rparr>,
         easAPIServer := esAPIServer s,
         easHostRestrictions := join_on (CHR '','') (esHostRestrictions s),
         easCustomPullSecret := esCustomPullSecret s, easCaCertsRef := esCaCertsRef s,
         easServiceAccountName := ec_GetServiceAccountName src,
         easOAuth := \<lparr>eaoClientSecret = eoClientSecret (esOAuth s), eaoEndpoint = eoEndpoint (esOAuth s),
                      eaoResource = eoResource (esOAuth s), eaoProvisioner = eoProvisioner (esOAuth s)\<rparr>,
         easResources := esResources s, easEnv := esEnv s, easTolerations := esTolerations s,
         easTopologySpreadConstraints := esTopologySpreadConstraints s,
         easHostPatterns := esHostPatterns s, easAutoUpdate := ec_IsAutoUpdateEnabled src\<rparr>\<rparr>)"

definition ea_fromStatus :: "edgeconnect \<Rightarrow> ea_edgeconnect \<Rightarrow> ea_edgeconnect" where
  "ea_fromStatus src dst =
     dst\<lparr>eaStatus := (eaStatus dst)
       \<lparr>eatConditions := ecsConditions (ecStatus src), eatKubeSystemUID := ecsKubeSystemUID (ecStatus src),
        eatPhase := ecsPhase (ecStatus src), eatUpdatedTimestamp := ecsUpdatedTimestamp (ecStatus src),
        eatVersion := ecsVersion (ecStatus src)\<rparr>\<rparr>"

definition ea_ConvertFrom :: "edgeconnect \<Rightarrow> ea_edgeconnect \<Rightarrow> ea_edgeconnect" where
  "ea_ConvertFrom src dst = ea_fromStatus src (ea_fromSpec src (ea_fromBase src dst))"

text \<open>The zero values of both versions, the destinations the conversion webhook passes.\<close>

definition ea_zero :: ea_edgeconnect where
  "ea_zero =
     \<lparr>eaName = [], eaNamespace = [], eaFinalizers = [], eaDeletionTimestamp = None,
      eaSpec =
        \<lparr>easAnnotations = Map.empty, easLabels = Map.empty, easReplicas = None, easNodeSelector = Map.empty,
         easKubernetesAutomation = None, easProxy = None,
         easImageRef = \<lparr>eaiRepository = [], eaiTag = []\<rparr>, easAPIServer = [], easHostRestrictions = [],
         easCustomPullSecret = [], easCaCertsRef = [], easServiceAccountName = [],
         easOAuth = \<lparr>eaoClientSecret = [], eaoEndpoint = [], eaoResource = [], eaoProvisioner = False\<rparr>,
         easResources = \<lparr>erLimits = None, erRequests = None\<rparr>, easEnv = [], easTolerations = [],
         easTopologySpreadConstraints = [], easHostPatterns = [], easAutoUpdate = False\<rparr>,
      eaStatus =
        \<lparr>eatPhase = [], eatVersion = zero_version_status, eatUpdatedTimestamp = 0, eatKubeSystemUID = [],
         eatConditions = []\<rparr>\<rparr>"

definition ec_zero :: edgeconnect where
  "ec_zero =
     \<lparr>ecName = [], ecNamespace = [], ecFinalizers = [], ecDeletionTimestamp = None,
      ecSpec =
        \<lparr>esAnnotations = Map.empty, esLabels = Map.empty, esReplicas = None, esNodeSelector = Map.empty,
         esKubernetesAutomation = None, esProxy = None, esServiceAccountName = None, esAutoUpdate = None,
         esImageRef = zero_image_ref, esAPIServer = [], esCustomPullSecret = [], esCaCertsRef = [],
         esOAuth = \<lparr>eoClientSecret = [], eoEndpoint = [], eoResource = [], eoProvisioner = False\<rparr>,
         esResources = \<lparr>erLimits = None, erRequests = None\<rparr>, esHostRestrictions = [], esEnv = [],
         esTolerations = [], esTopologySpreadConstraints = [], esHostPatterns = []\<rparr>,
      ecStatus =
        \<lparr>ecsPhase = [], ecsVersion = zero_version_status, ecsUpdatedTimestamp = 0, ecsKubeSystemUID = [],
         ecsConditions = []\<rparr>\<rparr>"

lemmas ea_conversion_defs = ea_ConvertTo_def ea_toBase_def ea_toSpec_def ea_toStatus_def
  ea_ConvertFrom_def ea_fromBase_def ea_fromSpec_def ea_fromStatus_def

section \<open>Round trips\<close>

text \<open>What the older version cannot hold of a resource of the current one.\<close>

definition ec_normalize :: "edgeconnect \<Rightarrow> edgeconnect" where
  "ec_normalize ec = ec\<lparr>ecSpec := (ecSpec ec)
     \<lparr>esServiceAccountName := Some (ec_GetServiceAccountName ec),
      esAutoUpdate := Some (ec_IsAutoUpdateEnabled ec),
      esImageRef := (esImageRef (ecSpec ec))\<lparr>irDigest := [], irPullPolicy := []\<rparr>\<rparr>\<rparr>"

text \<open>Storing a v1alpha1 EdgeConnect as the current version and reading it back changes nothing, although
  the host restrictions are a list in one version and a text in the other.
\<close>

theorem edgeconnect_roundtrip:
  "ea_ConvertFrom (ea_ConvertTo src ec_zero) ea_zero = src"
  by (intro ea_edgeconnect.equality ea_spec.equality ea_status.equality ea_image_ref.equality
        ea_oauth_spec.equality)
      (auto simp: ea_conversion_defs Let_def ec_zero_def ea_zero_def ec_GetServiceAccountName_def
        ec_IsAutoUpdateEnabled_def split: option.split)

text \<open>
  The other way round a resource of the current version gets explicit defaults and loses the digest of
  its image; its host restrictions survive when none of them is empty or contains a comma.
\<close>

lemma edgeconnect_cycle:
  assumes "\<forall>r \<in> set (esHostRestrictions (ecSpec ec)). CHR '','' \<notin> set r \<and> r \<noteq> []"
  shows "ea_ConvertTo (ea_ConvertFrom ec ea_zero) ec_zero = ec_normalize ec"
proof -
  let ?hs = "esHostRestrictions (ecSpec ec)"
  have empty: "join_on (CHR '','') ?hs = [] \<Longrightarrow> ?hs = []"
    using assms by (cases ?hs; cases "tl ?hs") auto
  have split: "join_on (CHR '','') ?hs \<noteq> [] \<Longrightarrow> split_on (CHR '','') (join_on (CHR '','') ?hs) = ?hs"
    using assms by (intro split_join) auto
  show ?thesis
    by (intro edgeconnect.equality ec_spec.equality ec_status.equality image_ref.equality
        ec_oauth_spec.equality)
      (auto simp: ea_conversion_defs Let_def ec_zero_def ea_zero_def ec_normalize_def empty split zero_image_ref_def
        dest: empty sym [OF empty] split: option.split)
qed

end
