(* ===== verification/GoPath.thy ===== *)
theory GoPath
  imports ApiUrl
begin

text \<open>
  Functions of Go's standard library on slash separated paths (\<open>filepath.Clean\<close>, \<open>Join\<close>, \<open>IsAbs\<close>) and on
  URL query strings (\<open>url.QueryEscape\<close>, \<open>QueryUnescape\<close>), as the webhook of pods uses them.
\<close>

section \<open>Paths\<close>

definition slash :: char where "slash = CHR ''/''"

text \<open>One component of a path: the components kept so far, the last one first.\<close>

definition clean_step :: "bool \<Rightarrow> string \<Rightarrow> string list \<Rightarrow> string list" where
  "clean_step rooted c kept =
     (if c = [] \<or> c = ''.'' then kept
      else if c = ''..'' then
        (case kept of
           [] \<Rightarrow> if rooted then [] else [c]
         | k # ks \<Rightarrow> if k = ''..'' then c # kept else ks)
      else c # kept)"

definition path_Clean :: "string \<Rightarrow> string" where
  "path_Clean p =
     (let rooted = (p \<noteq> [] \<and> hd p = slash);
          kept = fold (clean_step rooted) (split_on slash p) [];
          body = join_on slash (rev kept)
      in if rooted then slash # body else if body = [] then ''.'' else body)"

definition path_IsAbs :: "string \<Rightarrow> bool" where
  "path_IsAbs p \<longleftrightarrow> p \<noteq> [] \<and> hd p = slash"

text \<open>\<open>Join\<close> drops leading empty elements; joining nothing but empty ones is the empty string.\<close>

definition path_Join :: "string list \<Rightarrow> string" where
  "path_Join elems =
     (case dropWhile (\<lambda>e. e = []) elems of [] \<Rightarrow> [] | es \<Rightarrow> path_Clean (join_on slash es))"

section \<open>Query strings\<close>

definition unreserved :: "char \<Rightarrow> bool" where
  "unreserved c \<longleftrightarrow>
     (let b = byte c in (48 \<le> b \<and> b \<le> 57) \<or> (65 \<le> b \<and> b \<le> 90) \<or> (97 \<le> b \<and> b \<le> 122)) \<or>
     c \<in> {CHR ''-'', CHR ''_'', CHR ''.'', CHR ''~''}"

definition hex_digit :: "nat \<Rightarrow> char" where
  "hex_digit n = (if n < 10 then char_of (48 + n) else char_of (55 + n))"

definition hex_val :: "char \<Rightarrow> nat option" where
  "hex_val c =
     (let b = byte c in
      if 48 \<le> b \<and> b \<le> 57 then Some (b - 48)
      else if 97 \<le> b \<and> b \<le> 102 then Some (b - 87)
      else if 65 \<le> b \<and> b \<le> 70 then Some (b - 55) else None)"

definition escape_char :: "char \<Rightarrow> string" where
  "escape_char c =
     (if unreserved c then [c]
      else if c = CHR '' '' then ''+''
      else [CHR ''%'', hex_digit (byte c div 16), hex_digit (byte c mod 16)])"

definition QueryEscape :: "string \<Rightarrow> string" where
  "QueryEscape s = concat (map escape_char s)"

fun QueryUnescape :: "string \<Rightarrow> string option" where
  "QueryUnescape [] = Some []"
| "QueryUnescape (c # s) =
     (if c = CHR ''%'' then
        (case s of
           a # b # t \<Rightarrow>
             (case (hex_val a, hex_val b) of
                (Some x, Some y) \<Rightarrow> map_option (\<lambda>r. char_of (16 * x + y) # r) (QueryUnescape t)
              | _ \<Rightarrow> None)
         | _ \<Rightarrow> None)
      else map_option (\<lambda>r. (if c = CHR ''+'' then CHR '' '' else c) # r) (QueryUnescape s))"

lemma byte_lt [simp]: "byte c < 256"
  by (simp add: byte_def)

lemma char_of_byte [simp]: "char_of (byte c) = c"
  by (simp add: byte_def)

lemma byte_char_of: "n < 256 \<Longrightarrow> byte (char_of n) = n"
  by (simp add: byte_def)

lemma hex_val_digit: "n < 16 \<Longrightarrow> hex_val (hex_digit n) = Some n"
  by (cases "n < 10") (simp_all add: hex_val_def hex_digit_def byte_char_of Let_def)

lemma unescape_escape_char: "QueryUnescape (escape_char c @ s) = map_option (\<lambda>r. c # r) (QueryUnescape s)"
proof (cases "unreserved c")
  case True
  then have "c \<noteq> CHR ''%''" "c \<noteq> CHR ''+''" by (auto simp: unreserved_def byte_def Let_def)
  then show ?thesis using True by (simp add: escape_char_def)
next
  case False
  have "16 * (byte c div 16) + byte c mod 16 = byte c" by simp
  moreover have "byte c div 16 < 16" using byte_lt[of c] by linarith
  ultimately show ?thesis using False by (simp add: escape_char_def hex_val_digit)
qed

lemma unescape_escape [simp]: "QueryUnescape (QueryEscape s) = Some s"
  by (induction s) (simp_all add: QueryEscape_def unescape_escape_char)

end
