(* ===== verification/PodModel.thy ===== *)
theory PodModel
  imports GoPath DynaKube NamespaceMapper K8sQuery
begin

text \<open>
  The data the pod webhook (\<open>pkg/webhook/mutation/pod\<close>) works on: the parts of a pod it reads or writes,
  the helpers of \<open>util/kubernetes/fields\<close> on environment variables, mounts and volumes, the feature flags
  of the injection, and the mutation request. Go ranges over a map in any order: \<open>peRange\<close> lists the
  entries of a map in the order one run happens to see. The flag names of the bootstrapper, which is
  not part of the source, are \<open>boot_flags\<close>.
\<close>

section \<open>Pods\<close>

record owner_ref =
  orAPIVersion :: string
  orKind :: string
  orName :: string
  orController :: "bool option"

record pod_mount =
  pmName :: string
  pmMountPath :: string
  pmSubPath :: string
  pmReadOnly :: bool

record csi_source =
  csiDriver :: string
  csiReadOnly :: "bool option"
  csiAttributes :: smap

record secret_source =
  ssSecretName :: string
  ssDefaultMode :: "int option"

text \<open>An \<open>EmptyDir\<close> has its size limit, a projection its secret (name and \<open>Optional\<close>) when it is one.\<close>

record pod_volume =
  pvName :: string
  pvEmptyDir :: "string option option"
  pvProjected :: "(string \<times> bool option) option list option"
  pvCSI :: "csi_source option"
  pvSecret :: "secret_source option"
  pvOther :: k8s_value

definition named_volume :: "string \<Rightarrow> pod_volume" where
  "named_volume n = \<lparr>pvName = n, pvEmptyDir = None, pvProjected = None, pvCSI = None, pvSecret = None, pvOther = []\<rparr>"

record security_context =
  scRunAsUser :: "int option"
  scRunAsGroup :: "int option"
  scRunAsNonRoot :: "bool option"
  scReadOnlyRootFilesystem :: "bool option"
  scAllowPrivilegeEscalation :: "bool option"
  scPrivileged :: "bool option"
  scCapabilitiesDrop :: "string list"
  scSeccompProfile :: "string option"

datatype pod_resources =
    NoResources
  | GivenResources k8s_value
  | ResourceList "(string \<times> string) list" "(string \<times> string) list"

record pod_container =
  pcName :: string
  pcImage :: string
  pcImagePullPolicy :: string
  pcArgs :: "string list"
  pcEnv :: "env_var list"
  pcVolumeMounts :: "pod_mount list"
  pcResources :: pod_resources
  pcSecurityContext :: "security_context option"
  pcOther :: k8s_value

record pod_security_context =
  pscRunAsUser :: "int option"
  pscRunAsGroup :: "int option"

record pod =
  pdName :: string
  pdGenerateName :: string
  pdNamespace :: string
  pdAPIVersion :: string
  pdKind :: string
  pdAnnotations :: smap
  pdOwnerReferences :: "owner_ref list"
  pdContainers :: "pod_container list"
  pdInitContainers :: "pod_container list"
  pdVolumes :: "pod_volume list"
  pdSecurityContext :: "pod_security_context option"
  pdOther :: k8s_value

record wh_namespace =
  whnName :: string
  whnLabels :: smap
  whnAnnotations :: smap

definition pod_GetName :: "pod \<Rightarrow> string" where
  "pod_GetName pod = (if pdName pod \<noteq> '''' then pdName pod else pdGenerateName pod)"

definition SetAnnotationIfNotExists :: "pod \<Rightarrow> string \<Rightarrow> string \<Rightarrow> pod" where
  "SetAnnotationIfNotExists pod key val =
     (if pdAnnotations pod key = None then pod\<lparr>pdAnnotations := (pdAnnotations pod)(key \<mapsto> val)\<rparr> else pod)"

definition FindInitInPodSpec :: "pod \<Rightarrow> string \<Rightarrow> pod_container option" where
  "FindInitInPodSpec pod name = find (\<lambda>c. pcName c = name) (pdInitContainers pod)"

section \<open>Fields of containers\<close>

definition k8senv_Contains :: "env_var list \<Rightarrow> string \<Rightarrow> bool" where
  "k8senv_Contains envs name \<longleftrightarrow> list_ex (\<lambda>e. evName e = name) envs"

definition k8senv_Append :: "env_var list \<Rightarrow> env_var \<Rightarrow> env_var list \<times> bool" where
  "k8senv_Append envs e = (if \<not> k8senv_Contains envs (evName e) then (envs @ [e], True) else (envs, False))"

text \<open>A pointer to the first element with a property is written through.\<close>

fun update_first :: "('a \<Rightarrow> bool) \<Rightarrow> ('a \<Rightarrow> 'a) \<Rightarrow> 'a list \<Rightarrow> 'a list" where
  "update_first P f [] = []"
| "update_first P f (x # xs) = (if P x then f x # xs else x # update_first P f xs)"

definition k8senv_AddOrUpdate :: "env_var list \<Rightarrow> env_var \<Rightarrow> env_var list" where
  "k8senv_AddOrUpdate envs desired =
     (if k8senv_Find envs (evName desired) \<noteq> None
      then update_first (\<lambda>e. evName e = evName desired) (\<lambda>_. desired) envs else envs @ [desired])"

definition k8senv_FindCaseInsensitive :: "env_var list \<Rightarrow> string \<Rightarrow> env_var option" where
  "k8senv_FindCaseInsensitive envs name = find (\<lambda>e. equal_fold (evName e) name) envs"

definition k8senv_NewRef :: "string \<Rightarrow> string" where
  "k8senv_NewRef envName = ''$('' @ envName @ '')''"

definition env_literal :: "string \<Rightarrow> string \<Rightarrow> env_var" where
  "env_literal n v = \<lparr>evName = n, evValue = v, evValueFrom = None\<rparr>"

definition k8smount_ContainsPath :: "pod_mount list \<Rightarrow> string \<Rightarrow> bool" where
  "k8smount_ContainsPath mounts path \<longleftrightarrow> list_ex (\<lambda>m. pmMountPath m = path) mounts"

definition k8smount_Contains :: "pod_mount list \<Rightarrow> string \<Rightarrow> bool" where
  "k8smount_Contains mounts volumeName \<longleftrightarrow> list_ex (\<lambda>m. pmName m = volumeName) mounts"

fun k8smount_Append :: "pod_mount list \<Rightarrow> pod_mount list \<Rightarrow> pod_mount list" where
  "k8smount_Append mounts [] = mounts"
| "k8smount_Append mounts (v # vm) =
     k8smount_Append (if \<not> k8smount_ContainsPath mounts (pmMountPath v) then mounts @ [v] else mounts) vm"

definition k8svolume_FindByName :: "pod_volume list \<Rightarrow> string \<Rightarrow> pod_volume option" where
  "k8svolume_FindByName vols name = find (\<lambda>v. pvName v = name) vols"

section \<open>Maps of strings (\<open>util/map\<close>) and arguments\<close>

definition GetField :: "smap \<Rightarrow> string \<Rightarrow> string \<Rightarrow> string" where
  "GetField values key defaultValue =
     (case values key of None \<Rightarrow> defaultValue | Some x \<Rightarrow> if x \<noteq> '''' then x else defaultValue)"

definition GetFieldBool :: "smap \<Rightarrow> string \<Rightarrow> bool \<Rightarrow> bool" where
  "GetFieldBool values key defaultValue =
     (case values key of None \<Rightarrow> defaultValue
      | Some x \<Rightarrow>
          if x \<noteq> '''' then (case parse_bool x of Some b \<Rightarrow> b | None \<Rightarrow> defaultValue) else defaultValue)"

record arg =
  argName :: string
  argValue :: string

definition arg_String :: "arg \<Rightarrow> string" where
  "arg_String a =
     (if argValue a = '''' then ''--'' @ argName a else ''--'' @ argName a @ ''='' @ argValue a)"

definition ConvertArgsToStrings :: "arg list \<Rightarrow> string list" where
  "ConvertArgsToStrings = map arg_String"

section \<open>Feature flags of the injection\<close>

definition IsLabelVersionDetection :: "feature_flags \<Rightarrow> bool" where
  "IsLabelVersionDetection ff = getBoolWithDefault ff (FFPrefix @ ''label-version-detection'') False"

definition HasInitSeccomp :: "feature_flags \<Rightarrow> bool" where
  "HasInitSeccomp ff = getBoolWithDefault ff (FFPrefix @ ''init-container-seccomp-profile'') True"

abbreviation TechnologiesKey :: string where "TechnologiesKey \<equiv> ''oneagent.dynatrace.com/technologies''"

definition GetNodeImagePullTechnology :: "feature_flags \<Rightarrow> string" where
  "GetNodeImagePullTechnology ff = getRaw ff TechnologiesKey"

definition IsOTLPInjectionSetNoProxy :: "feature_flags \<Rightarrow> bool" where
  "IsOTLPInjectionSetNoProxy ff =
     getBoolWithDefault ff (FFPrefix @ ''otlp-exporter-configuration-set-no-proxy'') True"

definition EnableAttributesDTKubernetes :: "feature_flags \<Rightarrow> bool" where
  "EnableAttributesDTKubernetes ff =
     (let defaultVal = \<not> ffHasPlatformToken ff
      in getBoolWithDefault ff (FFPrefix @ ''enable-attributes-dt.kubernetes'') defaultVal)"

text \<open>A duration is a number of nanoseconds; its parser is a parameter.\<close>

definition GetCSIMaxRetryTimeout :: "(string \<Rightarrow> int option) \<Rightarrow> feature_flags \<Rightarrow> int" where
  "GetCSIMaxRetryTimeout parseDuration ff =
     (case parseDuration (getRaw ff (FFPrefix @ ''max-csi-mount-timeout'')) of
        None \<Rightarrow> 10 * minute
      | Some duration \<Rightarrow> if duration < 0 then 10 * minute else duration)"

section \<open>The surroundings of the webhook\<close>

record boot_flags =
  bfConfigFolder :: string
  bfInputFolder :: string
  bfSuppressErrors :: string
  bfSourceFolder :: string
  bfTargetFolder :: string
  bfInstallPath :: string
  bfIsFullstack :: string
  bfTenant :: string
  bfTechnology :: string
  bfPodAttribute :: string
  bfContainerAttribute :: string
  bfLibAgentProcPath :: string
  bfPreloadConfigPath :: string

record object_meta =
  omAPIVersion :: string
  omKind :: string
  omName :: string
  omNamespace :: string
  omOwnerReferences :: "owner_ref list"

record pod_env =
  peRange :: "smap \<Rightarrow> (string \<times> string) list"
  peSelectorMatches :: "label_selector \<Rightarrow> smap \<Rightarrow> bool"
  peParseQuantity :: "string \<Rightarrow> string option"
  peJSONString :: "string \<Rightarrow> string"
  peGetMeta :: "string \<Rightarrow> string \<Rightarrow> string \<Rightarrow> string \<Rightarrow> error + object_meta"
  peLookups :: nat
  peParseURL :: "string \<Rightarrow> url option"
  peRenderURL :: "url \<Rightarrow> string"
  peParseDuration :: "string \<Rightarrow> int option"
  peRenderDuration :: "int \<Rightarrow> string"
  peCSIAvailable :: bool
  peGetenv :: "string \<Rightarrow> string"
  peVersion :: string
  peWebhookImage :: string
  peOpenShift :: bool
  peFlags :: boot_flags
  peSecrets :: "secret_payload query_env"

text \<open>What Go guarantees of a range: every entry once.\<close>

definition range_ok :: "(smap \<Rightarrow> (string \<times> string) list) \<Rightarrow> bool" where
  "range_ok r \<longleftrightarrow> (\<forall>m. finite (dom m) \<longrightarrow> map_of (r m) = m \<and> distinct (map fst (r m)))"

definition GetMetadaSizeLimit :: "pod_env \<Rightarrow> int" where
  "GetMetadaSizeLimit env =
     (let rawValue = peGetenv env ''DT_METADATA_SIZE_LIMIT'' in
      if rawValue = '''' then 24 * 1024
      else case atoi rawValue of
             None \<Rightarrow> 24 * 1024
           | Some val \<Rightarrow> if val < 0 then 24 * 1024 else val)"

definition GetDTExtractCodeModulesImageLinks :: "pod_env \<Rightarrow> bool" where
  "GetDTExtractCodeModulesImageLinks env =
     (let rawValue = peGetenv env ''DT_EXTRACT_CODEMODULES_IMAGE_LINKS'' in
      if rawValue = '''' then False else case parse_bool rawValue of None \<Rightarrow> False | Some val \<Rightarrow> val)"

section \<open>The mutation request (\<open>mutator\<close>)\<close>

definition checkInjectionAnnotation :: "pod_env \<Rightarrow> smap \<Rightarrow> string \<Rightarrow> bool" where
  "checkInjectionAnnotation env annotations name =
     (case find (\<lambda>(key, val). has_prefix key ''container.inject.dynatrace.com'' \<and>
                   (case cut slash key of None \<Rightarrow> False | Some (_, path) \<Rightarrow> path = name))
             (peRange env annotations) of
        None \<Rightarrow> False
      | Some (key, val) \<Rightarrow> val = ''false'')"

definition IsContainerExcludedFromInjection :: "pod_env \<Rightarrow> smap \<Rightarrow> smap \<Rightarrow> string \<Rightarrow> bool" where
  "IsContainerExcludedFromInjection env dkAnn podAnnotations name \<longleftrightarrow>
     checkInjectionAnnotation env dkAnn name \<or> checkInjectionAnnotation env podAnnotations name"

record base_request =
  brPod :: pod
  brNamespace :: wh_namespace
  brDynaKube :: dynakube

definition IsSplitMountsEnabled :: "base_request \<Rightarrow> bool" where
  "IsSplitMountsEnabled req \<longleftrightarrow>
     (case pdAnnotations (brPod req) ''dynatrace.com/split-mounts'' of
        Some v \<Rightarrow> map lower_char v = ''true'' | None \<Rightarrow> False) \<or>
     IsClassicFullStackMode (dk_OneAgent (brDynaKube req))"

text \<open>
  \<open>NewContainers\<close> returns pointers into the pod, through which the callers change each of them: here
  \<open>is_new\<close> decides and \<open>update_new\<close> changes the containers in place.
\<close>

definition is_new :: "pod_env \<Rightarrow> (pod_container \<Rightarrow> base_request \<Rightarrow> bool) \<Rightarrow> base_request \<Rightarrow> pod_container \<Rightarrow> bool" where
  "is_new env isInjected req c \<longleftrightarrow>
     (if IsContainerExcludedFromInjection env (dkAnnotations (brDynaKube req)) (pdAnnotations (brPod req)) (pcName c)
      then False
      else if isInjected c req then False else True)"

definition NewContainers ::
    "pod_env \<Rightarrow> (pod_container \<Rightarrow> base_request \<Rightarrow> bool) \<Rightarrow> base_request \<Rightarrow> pod_container list" where
  "NewContainers env isInjected req = filter (is_new env isInjected req) (pdContainers (brPod req))"

definition update_new ::
    "pod_env \<Rightarrow> (pod_container \<Rightarrow> base_request \<Rightarrow> bool) \<Rightarrow> base_request \<Rightarrow>
     (pod_container \<Rightarrow> pod_container) \<Rightarrow> base_request" where
  "update_new env isInjected req f =
     req\<lparr>brPod := (brPod req)
       \<lparr>pdContainers :=
          map (\<lambda>c. if is_new env isInjected req c then f c else c) (pdContainers (brPod req))\<rparr>\<rparr>"

section \<open>Errors of a mutator and the annotations of the outcome\<close>

datatype handler_error =
    MutatorError error "pod \<Rightarrow> pod"
  | PlainError error

definition SetAnnotations :: "handler_error \<Rightarrow> pod \<Rightarrow> pod" where
  "SetAnnotations e pod = (case e of MutatorError _ annotate \<Rightarrow> annotate pod | PlainError _ \<Rightarrow> pod)"

definition set_injected :: "string \<Rightarrow> string \<Rightarrow> pod \<Rightarrow> pod" where
  "set_injected injectedAnnotation reasonAnnotation pod =
     pod\<lparr>pdAnnotations := (pdAnnotations pod)(injectedAnnotation \<mapsto> ''true'', reasonAnnotation := None)\<rparr>"

definition set_not_injected :: "string \<Rightarrow> string \<Rightarrow> string \<Rightarrow> pod \<Rightarrow> pod" where
  "set_not_injected injectedAnnotation reasonAnnotation reason pod =
     pod\<lparr>pdAnnotations := (pdAnnotations pod)(injectedAnnotation \<mapsto> ''false'', reasonAnnotation \<mapsto> reason)\<rparr>"

definition ExistingVolumeError :: "string \<Rightarrow> error" where
  "ExistingVolumeError v =
     Sentinel (''user-provided '' @ v @ '' volume cannot be mounted due to invalid configuration'')"

end
