(* ===== verification/PodAttributes.thy ===== *)
theory PodAttributes
  imports PodModel Sanitize SemVer
begin

text \<open>
  What the webhook knows of a pod: its workload (\<open>workload\<close>, the chain of controlling owners up to the
  root) and its attributes (\<open>attributes\<close>), collected from the DynaKube, the namespace, the pod and the
  cluster and combined in a fixed order of precedence.
\<close>

section \<open>The workload of a pod (\<open>workload.go\<close>)\<close>

record workload_info =
  wiName :: string
  wiKind :: string

definition NewInfo :: "object_meta \<Rightarrow> workload_info" where
  "NewInfo m = \<lparr>wiName = omName m, wiKind = map lower_char (omKind m)\<rparr>"

definition knownWorkloads :: "(string \<times> string) list" where
  "knownWorkloads =
     [(''ReplicaSet'', ''apps/v1''), (''Deployment'', ''apps/v1''), (''ReplicationController'', ''v1''),
      (''StatefulSet'', ''apps/v1''), (''DaemonSet'', ''apps/v1''), (''Job'', ''batch/v1''),
      (''CronJob'', ''batch/v1''), (''DeploymentConfig'', ''apps.openshift.io/v1'')]"

definition isWellKnownWorkload :: "owner_ref \<Rightarrow> bool" where
  "isWellKnownWorkload own = list_ex (\<lambda>(kind, version). orKind own = kind \<and> orAPIVersion own = version) knownWorkloads"

abbreviation deadline_error :: error where
  "deadline_error \<equiv> Sentinel ''context deadline exceeded''"

text \<open>
  The recursion ends when an object has no controlling owner. Nothing in the objects themselves bounds
  the chain: it is the deadline of the admission request that does, after which every call of the client
  fails. \<open>n\<close> is the number of lookups the request has time for.
\<close>

fun findRootOwner :: "pod_env \<Rightarrow> nat \<Rightarrow> object_meta \<Rightarrow> error + object_meta" where
  "findRootOwner env n child =
     (case find (\<lambda>own. orController own = Some True) (omOwnerReferences child) of
        None \<Rightarrow> Inr child
      | Some own \<Rightarrow>
          if \<not> isWellKnownWorkload own then Inr child
          else
            (case n of
               0 \<Rightarrow> Inl deadline_error
             | Suc k \<Rightarrow>
                 (case peGetMeta env (orAPIVersion own) (orKind own) (omNamespace child) (orName own) of
                    Inl e \<Rightarrow> Inl e
                  | Inr parent \<Rightarrow> findRootOwner env k parent)))"

declare findRootOwner.simps [simp del]

definition pod_meta :: "base_request \<Rightarrow> object_meta" where
  "pod_meta req =
     \<lparr>omAPIVersion = pdAPIVersion (brPod req), omKind = pdKind (brPod req), omName = pod_GetName (brPod req),
      omNamespace = whnName (brNamespace req), omOwnerReferences = pdOwnerReferences (brPod req)\<rparr>"

definition FindRootOwnerOfPod :: "pod_env \<Rightarrow> base_request \<Rightarrow> error + workload_info" where
  "FindRootOwnerOfPod env req =
     (case findRootOwner env (peLookups env) (pod_meta req) of Inl e \<Rightarrow> Inl e | Inr m \<Rightarrow> Inr (NewInfo m))"

section \<open>The attributes of a pod\<close>

record pod_attrs =
  paRules :: smap
  paNamespaceAnnotations :: smap
  paPodAnnotations :: smap
  paDynakube :: smap
  paCustom :: smap
  paWorkloadInfo :: smap
  paClusterInfo :: smap
  paPodInfo :: smap
  paDeprecated :: smap
  paUseDeprecated :: bool
  paPodEnvVars :: "env_var list"

abbreviation EnrichmentAnnotation :: string where "EnrichmentAnnotation \<equiv> ''metadata.dynatrace.com''"
abbreviation EnrichmentPrefix :: string where "EnrichmentPrefix \<equiv> ''metadata.dynatrace.com/''"

definition GetEmptyTargetEnrichmentKey :: "string \<Rightarrow> string \<Rightarrow> string" where
  "GetEmptyTargetEnrichmentKey metadataType key = ''k8s.namespace.'' @ map lower_char metadataType @ ''.'' @ key"

text \<open>The value a rule takes from the namespace (\<open>switch rule.Type\<close>).\<close>

definition rule_value :: "wh_namespace \<Rightarrow> enrichment_rule \<Rightarrow> string option" where
  "rule_value ns rule =
     (if erType rule = ''LABEL'' \<or> erType rule = ''K8S_NAMESPACE_LABEL'' then whnLabels ns (erSource rule)
      else if erType rule = ''ANNOTATION'' \<or> erType rule = ''K8S_NAMESPACE_ANNOTATION''
      then whnAnnotations ns (erSource rule)
      else if erType rule = ''CUSTOM'' then Some (erSource rule)
      else None)"

definition apply_rule :: "wh_namespace \<Rightarrow> enrichment_rule \<Rightarrow> smap \<Rightarrow> smap" where
  "apply_rule ns rule rules =
     (case rule_value ns rule of
        None \<Rightarrow> rules
      | Some valueFromNamespace \<Rightarrow>
          if erTarget rule = '''' then
            rules(GetEmptyTargetEnrichmentKey (erType rule) (erSource rule) \<mapsto> valueFromNamespace)
          else if rules (erTarget rule) = None then rules(erTarget rule \<mapsto> valueFromNamespace)
          else rules)"

definition applyEnrichmentRules :: "wh_namespace \<Rightarrow> dynakube \<Rightarrow> smap \<Rightarrow> smap" where
  "applyEnrichmentRules ns dk rules = fold (apply_rule ns) (dstMetadataEnrichmentRules (dkStatus dk)) rules"

text \<open>The annotations with the prefix, under the rest of their key: no two keys share a rest.\<close>

definition cut_prefixed :: "string \<Rightarrow> smap \<Rightarrow> smap" where
  "cut_prefixed prefix annotations = (\<lambda>after. annotations (prefix @ after))"

definition readMetadataAnnotations :: "base_request \<Rightarrow> pod_attrs \<Rightarrow> pod_attrs" where
  "readMetadataAnnotations req attrs =
     attrs\<lparr>paRules := applyEnrichmentRules (brNamespace req) (brDynaKube req) (paRules attrs),
           paNamespaceAnnotations :=
             paNamespaceAnnotations attrs ++ cut_prefixed EnrichmentPrefix (whnAnnotations (brNamespace req)),
           paPodAnnotations :=
             paPodAnnotations attrs ++ cut_prefixed EnrichmentPrefix (pdAnnotations (brPod req))\<rparr>"

definition readWorkloadInfoAttributes :: "pod_env \<Rightarrow> base_request \<Rightarrow> pod_attrs \<Rightarrow> error + pod_attrs" where
  "readWorkloadInfoAttributes env req attrs =
     (case FindRootOwnerOfPod env req of
        Inl e \<Rightarrow> Inl e
      | Inr info \<Rightarrow>
          Inr (attrs\<lparr>paWorkloadInfo := (paWorkloadInfo attrs)
                 (''k8s.workload.kind'' \<mapsto> wiKind info, ''k8s.workload.name'' \<mapsto> wiName info)\<rparr>))"

definition pod_env_vars :: "env_var list" where
  "pod_env_vars =
     [\<lparr>evName = ''K8S_PODNAME'', evValue = [], evValueFrom = Some (FieldRef ''metadata.name'')\<rparr>,
      \<lparr>evName = ''K8S_PODUID'', evValue = [], evValueFrom = Some (FieldRef ''metadata.uid'')\<rparr>,
      \<lparr>evName = ''K8S_NODE_NAME'', evValue = [], evValueFrom = Some (FieldRef ''spec.nodeName'')\<rparr>]"

definition readPodAttributes :: "base_request \<Rightarrow> pod_attrs \<Rightarrow> pod_attrs" where
  "readPodAttributes req attrs =
     attrs\<lparr>paPodEnvVars := paPodEnvVars attrs @ pod_env_vars,
           paPodInfo := (paPodInfo attrs)
             (''k8s.pod.name'' \<mapsto> k8senv_NewRef ''K8S_PODNAME'',
              ''k8s.pod.uid'' \<mapsto> k8senv_NewRef ''K8S_PODUID'',
              ''k8s.node.name'' \<mapsto> k8senv_NewRef ''K8S_NODE_NAME'',
              ''k8s.namespace.name'' \<mapsto> pdNamespace (brPod req)),
           paClusterInfo := (paClusterInfo attrs)
             (''k8s.cluster.uid'' \<mapsto> dstKubeSystemUUID (dkStatus (brDynaKube req)),
              ''k8s.cluster.name'' \<mapsto> dstKubernetesClusterName (dkStatus (brDynaKube req)),
              ''dt.entity.kubernetes_cluster'' \<mapsto> dstKubernetesClusterMEID (dkStatus (brDynaKube req)))\<rparr>"

text \<open>Reading a missing key of a Go map yields the empty string.\<close>

definition at :: "smap \<Rightarrow> string \<Rightarrow> string" where
  "at m k = (case m k of None \<Rightarrow> '''' | Some v \<Rightarrow> v)"

definition applyDeprecatedAttributes :: "pod_attrs \<Rightarrow> pod_attrs" where
  "applyDeprecatedAttributes attrs =
     attrs\<lparr>paDeprecated := (paDeprecated attrs)
       (''dt.kubernetes.workload.kind'' \<mapsto> at (paWorkloadInfo attrs) ''k8s.workload.kind'',
        ''dt.kubernetes.workload.name'' \<mapsto> at (paWorkloadInfo attrs) ''k8s.workload.name'',
        ''dt.kubernetes.cluster.id'' \<mapsto> at (paClusterInfo attrs) ''k8s.cluster.uid'')\<rparr>"

definition empty_attrs :: "bool \<Rightarrow> pod_attrs" where
  "empty_attrs useDeprecated =
     \<lparr>paRules = Map.empty, paNamespaceAnnotations = Map.empty, paPodAnnotations = Map.empty,
      paDynakube = Map.empty, paCustom = Map.empty, paWorkloadInfo = Map.empty, paClusterInfo = Map.empty,
      paPodInfo = Map.empty, paDeprecated = Map.empty, paUseDeprecated = useDeprecated, paPodEnvVars = []\<rparr>"

definition NewPodAttributes :: "pod_env \<Rightarrow> base_request \<Rightarrow> error + pod_attrs" where
  "NewPodAttributes env req =
     (let attrs = empty_attrs (EnableAttributesDTKubernetes (dk_FF (brDynaKube req)))
      in case readWorkloadInfoAttributes env req attrs of
           Inl e \<Rightarrow> Inl e
         | Inr attrs1 \<Rightarrow>
             let attrs2 = readPodAttributes req (readMetadataAnnotations req attrs1)
             in Inr (if paUseDeprecated attrs2 then applyDeprecatedAttributes attrs2 else attrs2))"

text \<open>\<open>sanitizeKeys\<close> ranges over the attributes: of two keys with one sanitized form the later wins.\<close>

definition sanitizeKeys :: "pod_env \<Rightarrow> smap \<Rightarrow> smap" where
  "sanitizeKeys env attrs =
     fold (\<lambda>(key, val) sanitized.
             let sanitizedKey = SanitizeKey key
             in if sanitizedKey = '''' then sanitized else sanitized(sanitizedKey \<mapsto> val))
       (peRange env attrs) Map.empty"

definition SetDynakubeAttributes :: "pod_env \<Rightarrow> smap \<Rightarrow> pod_attrs \<Rightarrow> pod_attrs" where
  "SetDynakubeAttributes env dkAttrs attrs = attrs\<lparr>paDynakube := sanitizeKeys env dkAttrs\<rparr>"

definition SetCustomAttributes :: "smap \<Rightarrow> pod_attrs \<Rightarrow> pod_attrs" where
  "SetCustomAttributes custom attrs = attrs\<lparr>paCustom := custom\<rparr>"

section \<open>Combination (\<open>combine.go\<close>)\<close>

text \<open>A \<open>combinationCase\<close> is a set of bits, one for each layer.\<close>

datatype attr_layer =
    WithDeprecated | WithWorkloadInfo | WithPodInfo | WithClusterInfo | WithContainerAttrs
  | WithDynakube | WithNamespaceAnnotations | WithRules | WithPodAnnotations | WithCustom

definition caseAll :: "attr_layer list" where
  "caseAll =
     [WithWorkloadInfo, WithPodInfo, WithClusterInfo, WithContainerAttrs, WithDynakube,
      WithNamespaceAnnotations, WithRules, WithPodAnnotations, WithCustom]"

definition caseJSONAnnotation :: "attr_layer list" where
  "caseJSONAnnotation = [WithDynakube, WithNamespaceAnnotations, WithRules, WithPodAnnotations, WithWorkloadInfo]"

definition attr_layers :: "pod_attrs \<Rightarrow> smap \<Rightarrow> (attr_layer \<times> smap) list" where
  "attr_layers attrs containerAttrs =
     [(WithDeprecated, paDeprecated attrs), (WithWorkloadInfo, paWorkloadInfo attrs),
      (WithPodInfo, paPodInfo attrs), (WithClusterInfo, paClusterInfo attrs),
      (WithContainerAttrs, containerAttrs), (WithRules, paRules attrs), (WithDynakube, paDynakube attrs),
      (WithNamespaceAnnotations, paNamespaceAnnotations attrs), (WithPodAnnotations, paPodAnnotations attrs),
      (WithCustom, paCustom attrs)]"

definition attrs_combine :: "attr_layer list \<Rightarrow> pod_attrs \<Rightarrow> smap \<Rightarrow> smap" where
  "attrs_combine c attrs containerAttrs =
     fold (\<lambda>(flag, m) combined. if flag \<in> set c then combined ++ m else combined)
       (attr_layers attrs containerAttrs) Map.empty"

definition flattenContainerAttrs :: "smap list \<Rightarrow> smap" where
  "flattenContainerAttrs cs = fold (\<lambda>m c. c ++ m) cs Map.empty"

definition combineAll :: "pod_attrs \<Rightarrow> smap list \<Rightarrow> smap" where
  "combineAll attrs containerAttrs =
     (let c = (if paUseDeprecated attrs then WithDeprecated # caseAll else caseAll)
      in attrs_combine c attrs (flattenContainerAttrs containerAttrs))"

definition attrs_Convert :: "pod_env \<Rightarrow> (string \<Rightarrow> string \<Rightarrow> string) \<Rightarrow> pod_attrs \<Rightarrow> smap list \<Rightarrow> string list" where
  "attrs_Convert env f attrs containerAttrs =
     filter (\<lambda>r. r \<noteq> '''') (map (\<lambda>(k, v). f k v) (peRange env (combineAll attrs containerAttrs)))"

definition ToArg :: "pod_env \<Rightarrow> string \<Rightarrow> string \<Rightarrow> string" where
  "ToArg env key val = ''--'' @ bfPodAttribute (peFlags env) @ ''='' @ key @ ''='' @ val"

text \<open>
  \<open>json.Marshal\<close> of a map of strings: the keys sorted, each string quoted by \<open>peJSONString\<close>; it cannot fail.
\<close>

definition json_object :: "pod_env \<Rightarrow> (string \<times> string) list \<Rightarrow> string" where
  "json_object env kvs =
     ''{'' @ join_sep '','' (map (\<lambda>(k, v). peJSONString env k @ '':'' @ peJSONString env v) kvs) @ ''}''"

definition combineForJSONAnnotation :: "pod_env \<Rightarrow> pod_attrs \<Rightarrow> string" where
  "combineForJSONAnnotation env attrs =
     json_object env (sort_by fst (peRange env (attrs_combine caseJSONAnnotation attrs Map.empty)))"

definition annotation_size_error :: "int \<Rightarrow> int \<Rightarrow> string" where
  "annotation_size_error limit actual =
     ''Value of the metadata enrichment annotation exceeds the maximum allowed size of '' @ show_int limit @
     '', actual size: '' @ show_int actual"

definition ApplyJSONAnnotationToPod :: "pod_env \<Rightarrow> pod_attrs \<Rightarrow> pod \<Rightarrow> handler_error + pod" where
  "ApplyJSONAnnotationToPod env attrs pod =
     (let json = combineForJSONAnnotation env attrs;
          metadataSizeLimit = GetMetadaSizeLimit env
      in if int (length json) > metadataSizeLimit then
           (let errMsg = annotation_size_error metadataSizeLimit (int (length json))
            in Inl (MutatorError (Sentinel errMsg)
                 (set_not_injected ''dynakube.dynatrace.com/injected'' ''dynakube.dynatrace.com/reason'' errMsg)))
         else Inr (SetAnnotationIfNotExists pod EnrichmentAnnotation json))"

section \<open>Containers (\<open>container.go\<close>)\<close>

definition container_ToMap :: "pod_container \<Rightarrow> smap" where
  "container_ToMap c = [''k8s.container.name'' \<mapsto> pcName c]"

record container_info =
  ciRegistry :: string
  ciRepository :: string
  ciTag :: string
  ciImageDigest :: string
  ciContainerName :: string

definition NewContainerInfo :: "pod_container \<Rightarrow> container_info" where
  "NewContainerInfo c =
     (let (registry, repo) =
            (case cut slash (pcImage c) of Some (r, rest) \<Rightarrow> (r, rest) | None \<Rightarrow> ([], pcImage c));
          (repo1, digest) = (case cut (CHR ''@'') repo of Some (r, d) \<Rightarrow> (r, d) | None \<Rightarrow> (repo, []));
          (repository, tag) = (case cut (CHR '':'') repo1 of Some (r, t) \<Rightarrow> (r, t) | None \<Rightarrow> (repo1, []))
      in \<lparr>ciRegistry = registry, ciRepository = repository, ciTag = tag, ciImageDigest = digest,
          ciContainerName = pcName c\<rparr>)"

definition info_ToJSON :: "pod_env \<Rightarrow> container_info \<Rightarrow> string" where
  "info_ToJSON env c =
     json_object env
       (filter (\<lambda>(k, v). v \<noteq> [])
         [(''container_image.registry'', ciRegistry c), (''container_image.repository'', ciRepository c),
          (''container_image.tags'', ciTag c), (''container_image.digest'', ciImageDigest c),
          (''k8s.container.name'', ciContainerName c)])"

end
