(* ===== verification/PodMutators.thy ===== *)
theory PodMutators
  imports PodAttributes
begin

text \<open>
  The two mutators that prepare a pod for the bootstrapper: \<open>mutator/metadata\<close>, which hands the attributes
  of the pod to the init container, and \<open>mutator/oneagent\<close>, which mounts the code modules and preloads
  them, with the volumes of \<open>volumes\<close>. A mutator that fails returns only its error: whatever it had changed
  by then is thrown away by the webhook.
\<close>

record mutation_request =
  mrBase :: base_request
  mrAnnotationWriter :: "pod_attrs option"
  mrInstallContainer :: pod_container

abbreviation mr_pod :: "mutation_request \<Rightarrow> pod" where "mr_pod r \<equiv> brPod (mrBase r)"
abbreviation mr_dk :: "mutation_request \<Rightarrow> dynakube" where "mr_dk r \<equiv> brDynaKube (mrBase r)"

definition set_pod :: "(pod \<Rightarrow> pod) \<Rightarrow> mutation_request \<Rightarrow> mutation_request" where
  "set_pod f r = r\<lparr>mrBase := (mrBase r)\<lparr>brPod := f (mr_pod r)\<rparr>\<rparr>"

definition set_install :: "(pod_container \<Rightarrow> pod_container) \<Rightarrow> mutation_request \<Rightarrow> mutation_request" where
  "set_install f r = r\<lparr>mrInstallContainer := f (mrInstallContainer r)\<rparr>"

definition add_args :: "string list \<Rightarrow> pod_container \<Rightarrow> pod_container" where
  "add_args args c = c\<lparr>pcArgs := pcArgs c @ args\<rparr>"

definition add_env :: "env_var list \<Rightarrow> pod_container \<Rightarrow> pod_container" where
  "add_env envs c = c\<lparr>pcEnv := pcEnv c @ envs\<rparr>"

definition add_mounts :: "pod_mount list \<Rightarrow> pod_container \<Rightarrow> pod_container" where
  "add_mounts ms c = c\<lparr>pcVolumeMounts := pcVolumeMounts c @ ms\<rparr>"

definition add_volume :: "pod_volume \<Rightarrow> pod \<Rightarrow> pod" where
  "add_volume v pod = pod\<lparr>pdVolumes := pdVolumes pod @ [v]\<rparr>"

section \<open>Volumes (\<open>volumes.go\<close>, \<open>split.go\<close>)\<close>

abbreviation ConfigVolumeName :: string where "ConfigVolumeName \<equiv> ''dynatrace-config''"
abbreviation InputVolumeName :: string where "InputVolumeName \<equiv> ''dynatrace-input''"
abbreviation ConfigMountPath :: string where "ConfigMountPath \<equiv> ''/var/lib/dynatrace''"
abbreviation InitConfigMountPath :: string where "InitConfigMountPath \<equiv> ''/mnt/config''"
abbreviation InitInputMountPath :: string where "InitInputMountPath \<equiv> ''/mnt/input''"
abbreviation ConflictingVolumeTypeReason :: string where "ConflictingVolumeTypeReason \<equiv> ''ConflictingVolumeType''"

definition volume_not_injected :: "string \<Rightarrow> handler_error" where
  "volume_not_injected v =
     MutatorError (ExistingVolumeError v)
       (set_not_injected ''volume.dynatrace.com/injected'' ''volume.dynatrace.com/reason'' ConflictingVolumeTypeReason)"

text \<open>The size limit of an \<open>emptyDir\<close> comes from an annotation; one that does not parse is ignored.\<close>

definition annotated_limit :: "pod_env \<Rightarrow> pod \<Rightarrow> string \<Rightarrow> string option" where
  "annotated_limit env pod key =
     (case pdAnnotations pod key of
        None \<Rightarrow> None | Some r \<Rightarrow> if r \<noteq> '''' then peParseQuantity env r else None)"

definition AddConfigVolume :: "pod_env \<Rightarrow> pod \<Rightarrow> handler_error + pod" where
  "AddConfigVolume env pod =
     (case k8svolume_FindByName (pdVolumes pod) ConfigVolumeName of
        Some vol \<Rightarrow> if pvEmptyDir vol = None then Inl (volume_not_injected ConfigVolumeName) else Inr pod
      | None \<Rightarrow>
          Inr (add_volume ((named_volume ConfigVolumeName)
                 \<lparr>pvEmptyDir := Some (annotated_limit env pod ''volume.dynatrace.com/dynatrace-config'')\<rparr>) pod))"

definition input_sources_ok :: "pod_volume \<Rightarrow> bool" where
  "input_sources_ok vol =
     (case pvProjected vol of
        Some [Some (s0, _), Some (s1, _)] \<Rightarrow>
          s0 = BootstrapperInitSecretName \<and> s1 = BootstrapperInitCertsSecretName
      | _ \<Rightarrow> False)"

definition AddInputVolume :: "pod \<Rightarrow> handler_error + pod" where
  "AddInputVolume pod =
     (case k8svolume_FindByName (pdVolumes pod) InputVolumeName of
        Some vol \<Rightarrow> if \<not> input_sources_ok vol then Inl (volume_not_injected InputVolumeName) else Inr pod
      | None \<Rightarrow>
          Inr (add_volume ((named_volume InputVolumeName)
                 \<lparr>pvProjected := Some [Some (BootstrapperInitSecretName, Some False),
                                      Some (BootstrapperInitCertsSecretName, Some True)]\<rparr>) pod))"

definition addSplitOneAgentConfigVolumeMount :: "pod_container \<Rightarrow> pod_container" where
  "addSplitOneAgentConfigVolumeMount c =
     c\<lparr>pcVolumeMounts := k8smount_Append (pcVolumeMounts c)
        [\<lparr>pmName = ConfigVolumeName, pmMountPath = path_Join [ConfigMountPath, ''/oneagent''],
          pmSubPath = path_Join [pcName c, ''/oneagent''], pmReadOnly = False\<rparr>]\<rparr>"

definition addSplitEnrichmentConfigVolumeMount :: "pod_container \<Rightarrow> pod_container" where
  "addSplitEnrichmentConfigVolumeMount c =
     c\<lparr>pcVolumeMounts := k8smount_Append (pcVolumeMounts c)
        (map (\<lambda>p. \<lparr>pmName = ConfigVolumeName, pmMountPath = path_Join [ConfigMountPath, p],
                   pmSubPath = path_Join [pcName c, p], pmReadOnly = False\<rparr>)
          [''/enrichment/dt_metadata.json'', ''/enrichment/dt_metadata.properties'', ''/enrichment/endpoint''])\<rparr>"

definition addSplitMounts :: "base_request \<Rightarrow> pod_container \<Rightarrow> pod_container" where
  "addSplitMounts req c =
     (let oaNeeded = IsAppInjectionNeeded (dk_OneAgent (brDynaKube req));
          c1 = (if oaNeeded then addSplitOneAgentConfigVolumeMount c else c)
      in if me_IsEnabled (dspMetadataEnrichment (dkSpec (brDynaKube req))) \<or> oaNeeded
         then addSplitEnrichmentConfigVolumeMount c1 else c1)"

definition addCommonConfigVolumeMount :: "pod_container \<Rightarrow> pod_container" where
  "addCommonConfigVolumeMount c =
     c\<lparr>pcVolumeMounts := k8smount_Append (pcVolumeMounts c)
        [\<lparr>pmName = ConfigVolumeName, pmMountPath = ConfigMountPath, pmSubPath = pcName c, pmReadOnly = False\<rparr>]\<rparr>"

definition AddConfigVolumeMount :: "base_request \<Rightarrow> pod_container \<Rightarrow> pod_container" where
  "AddConfigVolumeMount req c =
     (if IsSplitMountsEnabled req then addSplitMounts req c else addCommonConfigVolumeMount c)"

definition HasSplitOneAgentMounts :: "pod_container \<Rightarrow> bool" where
  "HasSplitOneAgentMounts c =
     k8smount_ContainsPath (pcVolumeMounts c) (path_Join [ConfigMountPath, ''/oneagent''])"

definition HasSplitEnrichmentMounts :: "pod_container \<Rightarrow> bool" where
  "HasSplitEnrichmentMounts c \<longleftrightarrow>
     k8smount_ContainsPath (pcVolumeMounts c) (path_Join [ConfigMountPath, ''/enrichment/dt_metadata.json'']) \<and>
     k8smount_ContainsPath (pcVolumeMounts c) (path_Join [ConfigMountPath, ''/enrichment/dt_metadata.properties'']) \<and>
     k8smount_ContainsPath (pcVolumeMounts c) (path_Join [ConfigMountPath, ''/enrichment/endpoint''])"

definition HasCommonConfigVolumeMounts :: "pod_container \<Rightarrow> bool" where
  "HasCommonConfigVolumeMounts c = k8smount_ContainsPath (pcVolumeMounts c) ConfigMountPath"

definition AddInitConfigVolumeMount :: "pod_container \<Rightarrow> pod_container" where
  "AddInitConfigVolumeMount c =
     (if k8smount_ContainsPath (pcVolumeMounts c) InitConfigMountPath then c
      else add_mounts [\<lparr>pmName = ConfigVolumeName, pmMountPath = InitConfigMountPath, pmSubPath = [],
                        pmReadOnly = False\<rparr>] c)"

definition AddInitInputVolumeMount :: "pod_container \<Rightarrow> pod_container" where
  "AddInitInputVolumeMount c =
     (if k8smount_ContainsPath (pcVolumeMounts c) InitInputMountPath then c
      else add_mounts [\<lparr>pmName = InputVolumeName, pmMountPath = InitInputMountPath, pmSubPath = [],
                        pmReadOnly = True\<rparr>] c)"

section \<open>Is a mutator enabled?\<close>

definition selector_set :: "label_selector \<Rightarrow> bool" where
  "selector_set sel \<longleftrightarrow> lsMatchLabels sel \<noteq> [] \<or> lsMatchExpressions sel \<noteq> []"

definition matches_namespace :: "pod_env \<Rightarrow> label_selector option \<Rightarrow> base_request \<Rightarrow> bool" where
  "matches_namespace env sel req =
     (case sel of
        None \<Rightarrow> True
      | Some s \<Rightarrow> if selector_set s then peSelectorMatches env s (whnLabels (brNamespace req)) else True)"

definition oa_mutator_IsEnabled :: "pod_env \<Rightarrow> base_request \<Rightarrow> bool" where
  "oa_mutator_IsEnabled env req \<longleftrightarrow>
     (let dk = brDynaKube req;
          enabledOnPod = GetFieldBool (pdAnnotations (brPod req)) ''oneagent.dynatrace.com/inject''
            (IsAutomaticInjection (dk_FF dk));
          selector = oa_GetNamespaceSelector (dk_OneAgent dk)
      in matches_namespace env selector req \<and> enabledOnPod \<and> selector \<noteq> None)"

definition meta_mutator_IsEnabled :: "pod_env \<Rightarrow> base_request \<Rightarrow> bool" where
  "meta_mutator_IsEnabled env req \<longleftrightarrow>
     (let dk = brDynaKube req; me = dspMetadataEnrichment (dkSpec dk);
          enabledOnPod = GetFieldBool (pdAnnotations (brPod req)) ''metadata-enrichment.dynatrace.com/inject''
            (IsAutomaticInjection (dk_FF dk))
      in matches_namespace env (me_GetNamespaceSelector me) req \<and> enabledOnPod \<and> me_IsEnabled me)"

section \<open>Metadata enrichment (\<open>mutator/metadata\<close>)\<close>

definition default_init_resources :: pod_resources where
  "default_init_resources =
     ResourceList [(''cpu'', ''30m''), (''memory'', ''30Mi'')] [(''cpu'', ''100m''), (''memory'', ''60Mi'')]"

definition meta_initResources :: "dynakube \<Rightarrow> pod_resources" where
  "meta_initResources dk =
     (case meInitResources (dspMetadataEnrichment (dkSpec dk)) of
        Some custom \<Rightarrow> GivenResources custom | None \<Rightarrow> default_init_resources)"

definition meta_isInjected :: "pod_container \<Rightarrow> base_request \<Rightarrow> bool" where
  "meta_isInjected c req \<longleftrightarrow>
     (if IsSplitMountsEnabled req then
        (if (IsAppInjectionNeeded (dk_OneAgent (brDynaKube req)) \<and> \<not> HasSplitOneAgentMounts c) \<or>
            (me_IsEnabled (dspMetadataEnrichment (dkSpec (brDynaKube req))) \<and> \<not> HasSplitEnrichmentMounts c)
         then False else True)
      else HasCommonConfigVolumeMounts c)"

text \<open>The arguments for the init container, and the request with the mounts of the containers.\<close>

definition AddContainerAttributes :: "pod_env \<Rightarrow> base_request \<Rightarrow> bool \<times> string list \<times> base_request" where
  "AddContainerAttributes env req =
     (let containers = NewContainers env meta_isInjected req
      in if containers \<noteq> [] then
           (True,
            map (\<lambda>c. ''--'' @ bfContainerAttribute (peFlags env) @ ''='' @ info_ToJSON env (NewContainerInfo c)) containers,
            update_new env meta_isInjected req (AddConfigVolumeMount req))
         else (False, [], req))"

abbreviation MetaInjected :: string where "MetaInjected \<equiv> ''metadata-enrichment.dynatrace.com/injected''"
abbreviation MetaReason :: string where "MetaReason \<equiv> ''metadata-enrichment.dynatrace.com/reason''"

definition meta_attrs :: "pod_env \<Rightarrow> base_request \<Rightarrow> pod_attrs \<Rightarrow> pod_attrs" where
  "meta_attrs env req attrs =
     (if oa_mutator_IsEnabled env req
      then SetDynakubeAttributes env (oa_GetResourceAttributes (dk_OneAgent (brDynaKube req))) attrs
      else SetDynakubeAttributes env (dspResourceAttributes (dkSpec (brDynaKube req))) attrs)"

definition meta_Mutate :: "pod_env \<Rightarrow> mutation_request \<Rightarrow> handler_error + mutation_request" where
  "meta_Mutate env r0 =
     (let r1 = set_install (\<lambda>c. c\<lparr>pcResources := meta_initResources (mr_dk r0)\<rparr>) r0
      in case NewPodAttributes env (mrBase r1) of
           Inl e \<Rightarrow> Inl (MutatorError e (set_not_injected MetaInjected MetaReason ''OwnerLookupFailed''))
         | Inr attrs0 \<Rightarrow>
             let attrs = meta_attrs env (mrBase r1) attrs0;
                 withDeprecated = \<lparr>argName = ''enable-attributes-dt-kubernetes'',
                   argValue = (if EnableAttributesDTKubernetes (dk_FF (mr_dk r1)) then ''true'' else ''false'')\<rparr>;
                 args = attrs_Convert env
                   (\<lambda>key val. if key = '''' \<or> val = '''' then '''' else ToArg env key val) attrs [];
                 r2 = set_install (add_args (ConvertArgsToStrings [withDeprecated])) r1;
                 r3 = set_install (add_args args) r2;
                 r4 = set_install (add_env (paPodEnvVars attrs)) r3;
                 r5 = set_install (add_args (ConvertArgsToStrings
                        [\<lparr>argName = ''metadata-enrichment'', argValue = ''''\<rparr>])) r4;
                 r6 = set_pod (set_injected MetaInjected MetaReason) r5;
                 r7 = r6\<lparr>mrAnnotationWriter := Some attrs\<rparr>;
                 (_, cargs, base) = AddContainerAttributes env (mrBase r7)
             in Inr (set_install (add_args cargs) (r7\<lparr>mrBase := base\<rparr>)))"

end
