(* ===== verification/PodOneAgent.thy ===== *)
theory PodOneAgent
  imports PodMutators
begin

text \<open>
  The OneAgent mutator (\<open>mutator/oneagent\<close>): it prepares the init container to provide the code modules,
  from the CSI driver, from an image or from a download, and mounts and preloads them in the containers of
  the pod. The deployment metadata the agent reports (\<open>controllers/dynakube/deploymentmetadata\<close>) are here
  too.
\<close>

section \<open>Deployment metadata\<close>

record deployment_metadata =
  dmOrchestratorID :: string
  dmDeploymentType :: string

definition GetOneAgentDeploymentType :: "dynakube \<Rightarrow> string" where
  "GetOneAgentDeploymentType dk =
     (if IsHostMonitoringMode (dk_OneAgent dk) then ''host_monitoring''
      else if IsCloudNativeFullstackMode (dk_OneAgent dk) then ''cloud_native_fullstack''
      else if IsClassicFullStackMode (dk_OneAgent dk) then ''classic_fullstack''
      else if IsApplicationMonitoringMode (dk_OneAgent dk) then ''application_monitoring''
      else '''')"

definition OrchestrationTech :: "deployment_metadata \<Rightarrow> string" where
  "OrchestrationTech m = ''Operator-'' @ dmDeploymentType m"

definition formatKeyValue :: "string \<Rightarrow> string \<Rightarrow> string" where
  "formatKeyValue key val = key @ ''='' @ val"

text \<open>The version of the operator is set when it is built.\<close>

definition metadata_AsString :: "string \<Rightarrow> deployment_metadata \<Rightarrow> string" where
  "metadata_AsString version m =
     join_sep '';''
       [formatKeyValue ''orchestration_tech'' (OrchestrationTech m),
        formatKeyValue ''script_version'' version,
        formatKeyValue ''orchestrator_id'' (dmOrchestratorID m)]"

section \<open>Settings on the pod\<close>

abbreviation OAInjected :: string where "OAInjected \<equiv> ''oneagent.dynatrace.com/injected''"
abbreviation OAReason :: string where "OAReason \<equiv> ''oneagent.dynatrace.com/reason''"
abbreviation BinVolumeName :: string where "BinVolumeName \<equiv> ''oneagent-bin''"
abbreviation PreloadEnv :: string where "PreloadEnv \<equiv> ''LD_PRELOAD''"
abbreviation DynatraceMetadataEnv :: string where "DynatraceMetadataEnv \<equiv> ''DT_DEPLOYMENT_METADATA''"
abbreviation DTStorageEnv :: string where "DTStorageEnv \<equiv> ''DT_STORAGE''"
abbreviation NetworkZoneEnv :: string where "NetworkZoneEnv \<equiv> ''DT_NETWORK_ZONE''"
abbreviation CSIDriverName :: string where "CSIDriverName \<equiv> ''csi.oneagent.dynatrace.com''"
abbreviation AgentInitBinDirMount :: string where "AgentInitBinDirMount \<equiv> ''/mnt/bin''"
abbreviation DefaultInstallPath :: string where "DefaultInstallPath \<equiv> ''/opt/dynatrace/oneagent-paas''"

definition oa_setNotInjected :: "string \<Rightarrow> pod \<Rightarrow> pod" where
  "oa_setNotInjected reason = set_not_injected OAInjected OAReason reason"

definition installPath_of :: "pod \<Rightarrow> string" where
  "installPath_of pod = GetField (pdAnnotations pod) ''oneagent.dynatrace.com/install-path'' DefaultInstallPath"

definition validateInstallPath :: "string \<Rightarrow> handler_error option" where
  "validateInstallPath installPath =
     (if \<not> path_IsAbs installPath \<or> installPath = [slash] \<or>
         list_ex (str_contains installPath) white_space \<or>
         list_ex (\<lambda>c. c = char_of (0::nat) \<or> c = CHR '','' \<or> c = CHR '':'') installPath \<or>
         path_Clean installPath \<noteq> installPath
      then Some (MutatorError
             (Sentinel (''the installPath ('' @ installPath @ '') must be clean, absolute and without whitespace and separators like ,:''))
             (oa_setNotInjected ''InvalidInstallPath''))
      else None)"

definition isCSIVolume :: "pod_env \<Rightarrow> base_request \<Rightarrow> bool" where
  "isCSIVolume env req \<longleftrightarrow>
     (let defaultVolumeType = (if peCSIAvailable env then ''csi'' else ''ephemeral'')
      in if oa_GetCodeModulesImage (dk_OneAgent (brDynaKube req)) \<noteq> '''' then
           GetField (pdAnnotations (brPod req)) ''oneagent.dynatrace.com/volume-type'' defaultVolumeType = ''csi''
         else defaultVolumeType = ''csi'')"

definition IsSelfExtractingImage :: "pod_env \<Rightarrow> base_request \<Rightarrow> bool" where
  "IsSelfExtractingImage env req \<longleftrightarrow>
     (let hasImage = oa_GetCodeModulesImage (dk_OneAgent (brDynaKube req)) \<noteq> ''''
      in hasImage \<and> \<not> isCSIVolume env req)"

definition oa_IsInjected :: "base_request \<Rightarrow> bool" where
  "oa_IsInjected req = GetFieldBool (pdAnnotations (brPod req)) OAInjected False"

section \<open>Volumes (\<open>volumes.go\<close>)\<close>

definition addVolumeMounts :: "pod_env \<Rightarrow> string \<Rightarrow> pod_container \<Rightarrow> pod_container" where
  "addVolumeMounts env installPath c =
     add_mounts
       [\<lparr>pmName = BinVolumeName, pmMountPath = installPath, pmSubPath = [], pmReadOnly = True\<rparr>,
        \<lparr>pmName = ConfigVolumeName, pmMountPath = ''/etc/ld.so.preload'',
         pmSubPath = bfPreloadConfigPath (peFlags env), pmReadOnly = True\<rparr>] c"

definition addInitBinMount :: "bool \<Rightarrow> pod_container \<Rightarrow> pod_container" where
  "addInitBinMount readonly c =
     add_mounts [\<lparr>pmName = BinVolumeName, pmMountPath = AgentInitBinDirMount, pmSubPath = [],
                  pmReadOnly = readonly\<rparr>] c"

definition bin_volume_conflict :: handler_error where
  "bin_volume_conflict =
     MutatorError (ExistingVolumeError BinVolumeName) (oa_setNotInjected ConflictingVolumeTypeReason)"

definition addEmptyDirBinVolume :: "pod_env \<Rightarrow> pod \<Rightarrow> handler_error + pod" where
  "addEmptyDirBinVolume env pod =
     (case k8svolume_FindByName (pdVolumes pod) BinVolumeName of
        Some vol \<Rightarrow> if pvEmptyDir vol = None then Inl bin_volume_conflict else Inr pod
      | None \<Rightarrow>
          Inr (add_volume ((named_volume BinVolumeName)
                 \<lparr>pvEmptyDir := Some (annotated_limit env pod ''volume.dynatrace.com/oneagent-bin'')\<rparr>) pod))"

definition addCSIBinVolume :: "string \<Rightarrow> string \<Rightarrow> pod \<Rightarrow> handler_error + pod" where
  "addCSIBinVolume dkName' maxTimeout pod =
     (case k8svolume_FindByName (pdVolumes pod) BinVolumeName of
        Some vol \<Rightarrow>
          if (case pvCSI vol of None \<Rightarrow> True | Some csi \<Rightarrow> csiDriver csi \<noteq> CSIDriverName)
          then Inl bin_volume_conflict else Inr pod
      | None \<Rightarrow>
          Inr (add_volume ((named_volume BinVolumeName)
                 \<lparr>pvCSI := Some \<lparr>csiDriver = CSIDriverName, csiReadOnly = Some True,
                     csiAttributes = [''mode'' \<mapsto> ''app'', ''dynakube'' \<mapsto> dkName', ''retryTimeout'' \<mapsto> maxTimeout]\<rparr>\<rparr>) pod))"

section \<open>Environment (\<open>env.go\<close>, \<open>versionlabel.go\<close>)\<close>

definition addDeploymentMetadataEnv :: "pod_env \<Rightarrow> dynakube \<Rightarrow> pod_container \<Rightarrow> pod_container" where
  "addDeploymentMetadataEnv env dk c =
     (if k8senv_Contains (pcEnv c) DynatraceMetadataEnv then c
      else add_env [env_literal DynatraceMetadataEnv
             (metadata_AsString (peVersion env)
               \<lparr>dmOrchestratorID = dstKubeSystemUUID (dkStatus dk),
                dmDeploymentType = GetOneAgentDeploymentType dk\<rparr>)] c)"

definition addNetworkZoneEnv :: "string \<Rightarrow> pod_container \<Rightarrow> pod_container" where
  "addNetworkZoneEnv networkZone c = add_env [env_literal NetworkZoneEnv networkZone] c"

definition defaultVersionLabelMapping :: smap where
  "defaultVersionLabelMapping =
     [''DT_RELEASE_VERSION'' \<mapsto> ''metadata.labels['app.kubernetes.io/version']'',
      ''DT_RELEASE_PRODUCT'' \<mapsto> ''metadata.labels['app.kubernetes.io/part-of']'']"

definition annotationLabelMap :: "(string \<times> string) list" where
  "annotationLabelMap =
     [(''mapping.release.dynatrace.com/version'', ''DT_RELEASE_VERSION''),
      (''mapping.release.dynatrace.com/product'', ''DT_RELEASE_PRODUCT''),
      (''mapping.release.dynatrace.com/stage'', ''DT_RELEASE_STAGE''),
      (''mapping.release.dynatrace.com/build-version'', ''DT_RELEASE_BUILD_VERSION'')]"

text \<open>The four variables differ, so the order in which the mapping is built does not matter.\<close>

definition getMappingFromNamespace :: "wh_namespace \<Rightarrow> smap" where
  "getMappingFromNamespace ns =
     fold (\<lambda>(annotationKey, labelKey) m.
             case whnAnnotations ns annotationKey of None \<Rightarrow> m | Some fieldRef \<Rightarrow> m(labelKey \<mapsto> fieldRef))
       annotationLabelMap Map.empty"

definition NewVersionLabelMapping :: "wh_namespace \<Rightarrow> smap" where
  "NewVersionLabelMapping ns = defaultVersionLabelMapping ++ getMappingFromNamespace ns"

definition addVersionDetectionEnvs :: "pod_env \<Rightarrow> wh_namespace \<Rightarrow> pod_container \<Rightarrow> pod_container" where
  "addVersionDetectionEnvs env ns c =
     fold (\<lambda>(envName, fieldPath) c'.
             if k8senv_Contains (pcEnv c') envName then c'
             else add_env [\<lparr>evName = envName, evValue = [], evValueFrom = Some (FieldRef fieldPath)\<rparr>] c')
       (peRange env (NewVersionLabelMapping ns)) c"

definition concatPreloadPaths :: "string \<Rightarrow> string \<Rightarrow> string" where
  "concatPreloadPaths originalPaths additionalPath =
     (if str_contains originalPaths '' '' then originalPaths @ '' '' @ additionalPath
      else originalPaths @ '':'' @ additionalPath)"

definition addPreloadEnv :: "pod_env \<Rightarrow> string \<Rightarrow> pod_container \<Rightarrow> pod_container" where
  "addPreloadEnv env installPath c =
     (let preloadPath = path_Join [installPath, bfLibAgentProcPath (peFlags env)]
      in case k8senv_Find (pcEnv c) PreloadEnv of
           Some ldPreloadEnv \<Rightarrow>
             if str_contains (evValue ldPreloadEnv) installPath then c
             else c\<lparr>pcEnv := update_first (\<lambda>e. evName e = PreloadEnv)
                      (\<lambda>e. e\<lparr>evValue := concatPreloadPaths (evValue e) preloadPath\<rparr>) (pcEnv c)\<rparr>
         | None \<Rightarrow> add_env [env_literal PreloadEnv preloadPath] c)"

definition addDTStorageEnv :: "pod_container \<Rightarrow> pod_container" where
  "addDTStorageEnv c =
     (if k8senv_Find (pcEnv c) DTStorageEnv \<noteq> None then c
      else add_env [env_literal DTStorageEnv (ConfigMountPath @ ''/oneagent'')] c)"

section \<open>Init container (\<open>init.go\<close>)\<close>

definition getTechnology :: "pod \<Rightarrow> dynakube \<Rightarrow> string" where
  "getTechnology pod dk = GetField (pdAnnotations pod) TechnologiesKey (GetNodeImagePullTechnology (dk_FF dk))"

definition addInitArgs :: "pod_env \<Rightarrow> pod \<Rightarrow> dynakube \<Rightarrow> string \<Rightarrow> pod_container \<Rightarrow> handler_error + pod_container" where
  "addInitArgs env pod dk installPath c =
     (let flags = peFlags env;
          args = [\<lparr>argName = bfSourceFolder flags, argValue = ''/opt/dynatrace/oneagent''\<rparr>,
                  \<lparr>argName = bfTargetFolder flags, argValue = AgentInitBinDirMount\<rparr>,
                  \<lparr>argName = bfInstallPath flags, argValue = installPath\<rparr>];
          technology = getTechnology pod dk;
          technology_args = (if technology \<noteq> '''' then [\<lparr>argName = bfTechnology flags, argValue = technology\<rparr>] else [])
      in if IsCloudNativeFullstackMode (dk_OneAgent dk) then
           (case dk_TenantUUID dk of
              Inl e \<Rightarrow> Inl (MutatorError e (oa_setNotInjected ''MissingTenantUUID''))
            | Inr tenantUUID \<Rightarrow>
                Inr (add_args (ConvertArgsToStrings
                  (args @ [\<lparr>argName = bfIsFullstack flags, argValue = ''''\<rparr>,
                           \<lparr>argName = bfTenant flags, argValue = tenantUUID\<rparr>] @ technology_args)) c))
         else Inr (add_args (ConvertArgsToStrings (args @ technology_args)) c))"

definition oa_initContainerResources :: "dynakube \<Rightarrow> pod_resources" where
  "oa_initContainerResources dk =
     (case oa_GetInitResources (dk_OneAgent dk) of Some custom \<Rightarrow> GivenResources custom | None \<Rightarrow> NoResources)"

definition download_init :: "pod_env \<Rightarrow> pod \<Rightarrow> dynakube \<Rightarrow> pod_container \<Rightarrow> pod_container" where
  "download_init env pod dk c =
     (let flavor = GetField (pdAnnotations pod) ''oneagent.dynatrace.com/flavor'' '''';
          downloadArgs =
            \<lparr>argName = ''version'', argValue = oa_GetCodeModulesVersion (dk_OneAgent dk)\<rparr> #
            (if flavor \<noteq> '''' then [\<lparr>argName = ''flavor'', argValue = flavor\<rparr>] else []);
          c1 = (if GetDTExtractCodeModulesImageLinks env
                then add_env [env_literal ''DT_EXTRACT_CODEMODULES_IMAGE_LINKS'' ''true''] c else c)
      in add_args (ConvertArgsToStrings downloadArgs) c1)"

definition mutateInitContainer :: "pod_env \<Rightarrow> string \<Rightarrow> mutation_request \<Rightarrow> handler_error + mutation_request" where
  "mutateInitContainer env installPath r =
     (let dk = mr_dk r; oa = dk_OneAgent dk;
          finish = (\<lambda>pod c.
            case addInitArgs env pod dk installPath c of
              Inl e \<Rightarrow> Inl e
            | Inr c' \<Rightarrow> Inr (set_install (\<lambda>_. c') (set_pod (\<lambda>_. pod) r)))
      in if \<not> dk_IsCodeModulesStatusReady dk then
           Inl (MutatorError
                 (Sentinel (''the dynakube's ('' @ dkName dk @
                    '') codemodules version status is not yet ready, skipping mutation''))
                 (oa_setNotInjected ''DynaKubeStatusNotReady''))
         else if isCSIVolume env (mrBase r) then
           (case addCSIBinVolume (dkName dk)
                   (peRenderDuration env (GetCSIMaxRetryTimeout (peParseDuration env) (dk_FF dk))) (mr_pod r) of
              Inl e \<Rightarrow> Inl e
            | Inr pod \<Rightarrow>
                let c = addInitBinMount True (mrInstallContainer r);
                    c' = (case oa_GetInitResources oa of
                            Some custom \<Rightarrow> c\<lparr>pcResources := GivenResources custom\<rparr> | None \<Rightarrow> c)
                in finish pod c')
         else
           (case addEmptyDirBinVolume env (mr_pod r) of
              Inl e \<Rightarrow> Inl e
            | Inr pod \<Rightarrow>
                let c = (addInitBinMount False (mrInstallContainer r))\<lparr>pcResources := oa_initContainerResources dk\<rparr>;
                    c' = (if oa_GetCodeModulesImage oa \<noteq> ''''
                          then c\<lparr>pcArgs := drop 1 (pcArgs c), pcImage := oa_GetCodeModulesImage oa\<rparr>
                          else download_init env pod dk c)
                in finish pod c'))"

section \<open>The mutator (\<open>mutator.go\<close>)\<close>

definition addOneAgentToContainer ::
    "pod_env \<Rightarrow> dynakube \<Rightarrow> wh_namespace \<Rightarrow> string \<Rightarrow> pod_container \<Rightarrow> pod_container" where
  "addOneAgentToContainer env dk ns installPath c =
     (let c1 = addVolumeMounts env installPath c;
          c2 = addDeploymentMetadataEnv env dk c1;
          c3 = addPreloadEnv env installPath c2;
          c4 = addDTStorageEnv c3;
          c5 = (if dspNetworkZone (dkSpec dk) \<noteq> '''' then addNetworkZoneEnv (dspNetworkZone (dkSpec dk)) c4 else c4)
      in if IsLabelVersionDetection (dk_FF dk) then addVersionDetectionEnvs env ns c5 else c5)"

definition containerIsInjected :: "pod_container \<Rightarrow> base_request \<Rightarrow> bool" where
  "containerIsInjected c req = k8smount_Contains (pcVolumeMounts c) BinVolumeName"

definition mutateUserContainers :: "pod_env \<Rightarrow> string \<Rightarrow> base_request \<Rightarrow> bool \<times> base_request" where
  "mutateUserContainers env installPath req =
     (NewContainers env containerIsInjected req \<noteq> [],
      update_new env containerIsInjected req
        (addOneAgentToContainer env (brDynaKube req) (brNamespace req) installPath))"

definition oa_Mutate :: "pod_env \<Rightarrow> mutation_request \<Rightarrow> handler_error + mutation_request" where
  "oa_Mutate env r =
     (let installPath = installPath_of (mr_pod r)
      in case validateInstallPath installPath of
           Some e \<Rightarrow> Inl e
         | None \<Rightarrow>
             (case mutateInitContainer env installPath r of
                Inl e \<Rightarrow> Inl e
              | Inr r1 \<Rightarrow>
                  let (_, base) = mutateUserContainers env installPath (mrBase r1)
                  in Inr (set_pod (set_injected OAInjected OAReason) (r1\<lparr>mrBase := base\<rparr>))))"

definition oa_Reinvoke :: "pod_env \<Rightarrow> base_request \<Rightarrow> bool \<times> base_request" where
  "oa_Reinvoke env req =
     (let installPath = installPath_of (brPod req)
      in if validateInstallPath installPath \<noteq> None then (False, req)
         else mutateUserContainers env installPath req)"

end
