(* ===== verification/PodInjection.thy ===== *)
theory PodInjection
  imports PodOneAgent
begin

text \<open>
  The injection handler (\<open>handler/injection\<close>): it makes sure the secrets of the bootstrapper are in the
  namespace of the pod (\<open>secrets\<close>, \<open>k8ssecret.Replicate\<close>), builds the init container with its security
  context, runs the mutators, and on a pod that was injected before handles only the containers added
  since. The webhook works on \<open>hook_state\<close>: the request, the calls to the Kubernetes API and the events.
\<close>

record hook_event =
  heNamespace :: string
  heDynaKube :: string
  heType :: string
  heReason :: string
  heMessage :: string

record hook_state =
  hkRequest :: mutation_request
  hkQuery :: "secret_payload query_state"
  hkEvents :: "hook_event list"

abbreviation hk_pod :: "hook_state \<Rightarrow> pod" where "hk_pod st \<equiv> mr_pod (hkRequest st)"
abbreviation hk_dk :: "hook_state \<Rightarrow> dynakube" where "hk_dk st \<equiv> mr_dk (hkRequest st)"
abbreviation hk_base :: "hook_state \<Rightarrow> base_request" where "hk_base st \<equiv> mrBase (hkRequest st)"

definition on_request :: "(mutation_request \<Rightarrow> mutation_request) \<Rightarrow> hook_state \<Rightarrow> hook_state" where
  "on_request f st = st\<lparr>hkRequest := f (hkRequest st)\<rparr>"

definition on_pod :: "(pod \<Rightarrow> pod) \<Rightarrow> hook_state \<Rightarrow> hook_state" where
  "on_pod f = on_request (set_pod f)"

definition send_event :: "hook_event \<Rightarrow> hook_state \<Rightarrow> hook_state" where
  "send_event e st = st\<lparr>hkEvents := hkEvents st @ [e]\<rparr>"

definition SendPodInjectEvent :: "hook_state \<Rightarrow> hook_state" where
  "SendPodInjectEvent st =
     send_event \<lparr>heNamespace = dkNamespace (hk_dk st), heDynaKube = dkName (hk_dk st), heType = ''Normal'',
       heReason = ''Inject'',
       heMessage = ''Injecting the necessary info into pod '' @ pdGenerateName (hk_pod st) @ '' in namespace '' @
         pdNamespace (hk_pod st)\<rparr> st"

definition SendPodUpdateEvent :: "hook_state \<Rightarrow> hook_state" where
  "SendPodUpdateEvent st =
     send_event \<lparr>heNamespace = dkNamespace (hk_dk st), heDynaKube = dkName (hk_dk st), heType = ''Normal'',
       heReason = ''UpdatePod'',
       heMessage = ''Updating pod '' @ pdGenerateName (hk_pod st) @ '' in namespace '' @
         pdNamespace (hk_pod st) @ '' with missing containers''\<rparr> st"

section \<open>Replicated secrets\<close>

definition is_already_exists :: "error \<Rightarrow> bool" where
  "is_already_exists e \<longleftrightarrow> some_leaf (\<lambda>l. l = ApiStatus ''AlreadyExists'') e"

definition IgnoreAlreadyExists :: "('s, unit) io \<Rightarrow> ('s, unit) io" where
  "IgnoreAlreadyExists m =
     andThen (attempt m) (\<lambda>r. case r of
       Inl e \<Rightarrow> if is_already_exists e then ret () else throw e | Inr _ \<Rightarrow> ret ())"

definition BuildForNamespace :: "string \<Rightarrow> string \<Rightarrow> smap option \<Rightarrow> smap option \<Rightarrow> secret_payload kobject" where
  "BuildForNamespace name namespace data labels =
     \<lparr>koName = name, koNamespace = namespace, koUID = [], koResourceVersion = [], koAnnotations = Map.empty,
      koLabels = labels, koOwnerReferences = [], koPayload = \<lparr>spData = data, spImmutable = None\<rparr>\<rparr>"

definition GetSecretFromSource ::
    "secret_payload query_env \<Rightarrow> string \<times> string \<Rightarrow> string \<times> string \<Rightarrow>
     (secret_payload query_state, secret_payload kobject) io" where
  "GetSecretFromSource env sourceKey targetKey =
     andThen (Get env (fst sourceKey) (snd sourceKey)) (\<lambda>source.
       ret (BuildForNamespace (snd targetKey) (fst targetKey) (spData (koPayload source)) (koLabels source)))"

text \<open>Keys are pairs of a namespace and a name. The query has no owner.\<close>

definition Replicate ::
    "secret_payload query_env \<Rightarrow> string \<times> string \<Rightarrow> string \<times> string \<Rightarrow> (secret_payload query_state, unit) io" where
  "Replicate env sourceKey targetKey =
     andThen (GetSecretFromSource env sourceKey targetKey) (\<lambda>secret.
     andThen (set_object secret) (\<lambda>_. IgnoreAlreadyExists (Create (env\<lparr>qeOwner := None\<rparr>))))"

definition EnsureReplicated ::
    "secret_payload query_env \<Rightarrow> base_request \<Rightarrow> string \<Rightarrow> string \<Rightarrow> (secret_payload query_state, unit) io" where
  "EnsureReplicated env req sourceSecretName targetSecretName =
     andThen (attempt (Get env (whnName (brNamespace req)) targetSecretName)) (\<lambda>r. case r of
       Inl e \<Rightarrow>
         if is_not_found e then
           Replicate env (dkNamespace (brDynaKube req), sourceSecretName)
             (whnName (brNamespace req), targetSecretName)
         else throw e
     | Inr _ \<Rightarrow> ret ())"

text \<open>
  \<open>isInputSecretPresent\<close>, and the two tests of the OTLP handler: whatever the error, the pod is marked
  with the reason and the injection ends.
\<close>

definition secret_present ::
    "pod_env \<Rightarrow> string \<Rightarrow> string \<Rightarrow> string \<Rightarrow> string \<Rightarrow> string \<Rightarrow> hook_state \<Rightarrow> bool \<times> hook_state" where
  "secret_present env sourceName targetName injectedAnnotation reasonAnnotation reason st =
     (case EnsureReplicated (peSecrets env) (hk_base st) sourceName targetName (hkQuery st) of
        (r, q) \<Rightarrow>
          let st1 = st\<lparr>hkQuery := q\<rparr>
          in case r of
               Inr _ \<Rightarrow> (True, st1)
             | Inl _ \<Rightarrow> (False, on_pod (set_not_injected injectedAnnotation reasonAnnotation reason) st1))"

abbreviation DTInjected :: string where "DTInjected \<equiv> ''dynakube.dynatrace.com/injected''"
abbreviation DTReason :: string where "DTReason \<equiv> ''dynakube.dynatrace.com/reason''"

definition isInputSecretPresent :: "pod_env \<Rightarrow> string \<Rightarrow> string \<Rightarrow> hook_state \<Rightarrow> bool \<times> hook_state" where
  "isInputSecretPresent env sourceName targetName =
     secret_present env sourceName targetName DTInjected DTReason ''NoBootstrapperConfig''"

section \<open>Security context of the init container\<close>

definition getValidatedID :: "string \<Rightarrow> int option" where
  "getValidatedID v =
     (if v = '''' then None
      else if all_digits v \<and> parse_nat 0 v < 2 ^ 31 then Some (int (parse_nat 0 v)) else None)"

definition isNonRoot :: "security_context \<Rightarrow> bool" where
  "isNonRoot sc =
     (case scRunAsUser sc of
        Some u \<Rightarrow> u \<noteq> 0
      | None \<Rightarrow> scRunAsGroup sc = None \<or> scRunAsGroup sc \<noteq> Some 0)"

definition override_id :: "int option \<Rightarrow> int option \<Rightarrow> int option" where
  "override_id new old = (case new of Some _ \<Rightarrow> new | None \<Rightarrow> old)"

definition container_context :: "pod \<Rightarrow> security_context option" where
  "container_context pod = (case pdContainers pod of [] \<Rightarrow> None | c # _ \<Rightarrow> pcSecurityContext c)"

definition annotation_value :: "pod \<Rightarrow> string \<Rightarrow> string" where
  "annotation_value pod key = at (pdAnnotations pod) key"

abbreviation RunAsUserAnnotation :: string where
  "RunAsUserAnnotation \<equiv> ''init-container.dynatrace.com/securityContext.runAsUser''"
abbreviation RunAsGroupAnnotation :: string where
  "RunAsGroupAnnotation \<equiv> ''init-container.dynatrace.com/securityContext.runAsGroup''"

definition combineSecurityContexts :: "security_context \<Rightarrow> pod \<Rightarrow> security_context" where
  "combineSecurityContexts sc0 pod =
     (let psc = pdSecurityContext pod; csc = container_context pod;
          sc1 = sc0\<lparr>scRunAsUser := override_id (Option.bind psc pscRunAsUser) (scRunAsUser sc0)\<rparr>;
          sc2 = sc1\<lparr>scRunAsGroup := override_id (Option.bind psc pscRunAsGroup) (scRunAsGroup sc1)\<rparr>;
          sc3 = sc2\<lparr>scRunAsUser := override_id (Option.bind csc scRunAsUser) (scRunAsUser sc2)\<rparr>;
          sc4 = sc3\<lparr>scRunAsGroup := override_id (Option.bind csc scRunAsGroup) (scRunAsGroup sc3)\<rparr>;
          sc5 = sc4\<lparr>scRunAsUser :=
                  override_id (getValidatedID (annotation_value pod RunAsUserAnnotation)) (scRunAsUser sc4)\<rparr>;
          sc6 = sc5\<lparr>scRunAsGroup :=
                  override_id (getValidatedID (annotation_value pod RunAsGroupAnnotation)) (scRunAsGroup sc5)\<rparr>
      in sc6\<lparr>scRunAsNonRoot := Some (isNonRoot sc6)\<rparr>)"

definition securityContextForInitContainer :: "pod \<Rightarrow> dynakube \<Rightarrow> bool \<Rightarrow> security_context" where
  "securityContextForInitContainer pod dk isOpenShift =
     (let sc = \<lparr>scRunAsUser = None, scRunAsGroup = Some 1001, scRunAsNonRoot = None,
                scReadOnlyRootFilesystem = Some True, scAllowPrivilegeEscalation = Some False,
                scPrivileged = Some False, scCapabilitiesDrop = [''ALL''], scSeccompProfile = None\<rparr>;
          sc1 = (if \<not> isOpenShift then sc\<lparr>scRunAsUser := Some 1001\<rparr> else sc);
          sc2 = (if HasInitSeccomp (dk_FF dk) then sc1\<lparr>scSeccompProfile := Some ''RuntimeDefault''\<rparr> else sc1)
      in combineSecurityContexts sc2 pod)"

section \<open>The init container\<close>

definition areErrorsSuppressed :: "pod \<Rightarrow> dynakube \<Rightarrow> bool" where
  "areErrorsSuppressed pod dk \<longleftrightarrow>
     GetField (pdAnnotations pod) ''oneagent.dynatrace.com/failure-policy''
       (GetInjectionFailurePolicy (dk_FF dk)) \<noteq> ''fail''"

definition NeedsDownloadConfig :: "pod_env \<Rightarrow> dynakube \<Rightarrow> bool" where
  "NeedsDownloadConfig env dk \<longleftrightarrow>
     IsAppInjectionNeeded (dk_OneAgent dk) \<and> \<not> peCSIAvailable env \<and> oa_GetCodeModulesImage (dk_OneAgent dk) = ''''"

definition pod_APIURL :: "pod_env \<Rightarrow> dynakube \<Rightarrow> string" where
  "pod_APIURL env dk = ToSecondGen (peParseURL env) (peRenderURL env) (dspAPIURL (dkSpec dk))"

abbreviation InstallContainerName :: string where "InstallContainerName \<equiv> ''dynatrace-operator''"

definition createInitContainerBase :: "pod_env \<Rightarrow> pod \<Rightarrow> dynakube \<Rightarrow> pod_container" where
  "createInitContainerBase env pod dk =
     (let flags = peFlags env;
          args = [\<lparr>argName = bfConfigFolder flags, argValue = InitConfigMountPath\<rparr>,
                  \<lparr>argName = bfInputFolder flags, argValue = InitInputMountPath\<rparr>] @
                 (if NeedsDownloadConfig env dk then [\<lparr>argName = ''url'', argValue = pod_APIURL env dk\<rparr>] else []) @
                 (if areErrorsSuppressed pod dk then [\<lparr>argName = bfSuppressErrors flags, argValue = ''''\<rparr>] else [])
      in \<lparr>pcName = InstallContainerName, pcImage = peWebhookImage env, pcImagePullPolicy = ''IfNotPresent'',
          pcArgs = ''bootstrap'' # ConvertArgsToStrings args, pcEnv = [], pcVolumeMounts = [],
          pcResources = default_init_resources,
          pcSecurityContext = Some (securityContextForInitContainer pod dk (peOpenShift env)), pcOther = []\<rparr>)"

definition addInitContainerToPod :: "pod_env \<Rightarrow> pod_container \<Rightarrow> pod \<Rightarrow> handler_error + pod" where
  "addInitContainerToPod env initContainer pod =
     (let c = AddInitInputVolumeMount (AddInitConfigVolumeMount initContainer)
      in case AddInputVolume pod of
           Inl e \<Rightarrow> Inl e
         | Inr pod1 \<Rightarrow>
             (case AddConfigVolume env pod1 of
                Inl e \<Rightarrow> Inl e
              | Inr pod2 \<Rightarrow> Inr (pod2\<lparr>pdInitContainers := pdInitContainers pod2 @ [c]\<rparr>)))"

section \<open>The handler\<close>

definition isInjected :: "pod \<Rightarrow> bool" where
  "isInjected pod \<longleftrightarrow> FindInitInPodSpec pod InstallContainerName \<noteq> None"

definition run_mutators :: "pod_env \<Rightarrow> mutation_request \<Rightarrow> handler_error + bool \<times> mutation_request" where
  "run_mutators env r0 =
     (let oaEnabled = oa_mutator_IsEnabled env (mrBase r0)
      in case (if meta_mutator_IsEnabled env (mrBase r0) \<or> oaEnabled
               then map_sum id (\<lambda>r. (True, r)) (meta_Mutate env r0) else Inr (False, r0)) of
           Inl e \<Rightarrow> Inl e
         | Inr (mutated, r1) \<Rightarrow>
             if oaEnabled then map_sum id (\<lambda>r. (True, r)) (oa_Mutate env r1) else Inr (mutated, r1))"

text \<open>A failing mutator's changes are not seen by anyone: the webhook goes back to the original pod.\<close>

definition handlePodMutation :: "pod_env \<Rightarrow> hook_state \<Rightarrow> handler_error + bool \<times> hook_state" where
  "handlePodMutation env st =
     (let r0 = (hkRequest st)\<lparr>mrInstallContainer := createInitContainerBase env (hk_pod st) (hk_dk st)\<rparr>
      in case run_mutators env r0 of
           Inl e \<Rightarrow> Inl e
         | Inr (mutated, r1) \<Rightarrow>
             if mutated then
               (case addInitContainerToPod env (mrInstallContainer r1) (mr_pod r1) of
                  Inl e \<Rightarrow> Inl e
                | Inr pod \<Rightarrow>
                    Inr (True, SendPodInjectEvent (st\<lparr>hkRequest := set_pod (\<lambda>_. pod) r1\<rparr>)))
             else Inr (False, st\<lparr>hkRequest := r1\<rparr>))"

text \<open>The init container is found by its name and changed in place.\<close>

definition extend_init :: "string list \<Rightarrow> pod \<Rightarrow> pod" where
  "extend_init args pod =
     pod\<lparr>pdInitContainers :=
       update_first (\<lambda>c. pcName c = InstallContainerName) (add_args args) (pdInitContainers pod)\<rparr>"

definition handlePodReinvocation :: "pod_env \<Rightarrow> hook_state \<Rightarrow> bool \<times> hook_state" where
  "handlePodReinvocation env st =
     (if FindInitInPodSpec (hk_pod st) InstallContainerName = None then (False, st)
      else
        (let (updated, cargs, base) = AddContainerAttributes env (hk_base st);
             st1 = on_pod (extend_init cargs) (on_request (\<lambda>r. r\<lparr>mrBase := base\<rparr>) st)
         in if oa_mutator_IsEnabled env (hk_base st1) then
              (let (again, base2) = oa_Reinvoke env (hk_base st1)
               in (again \<or> updated, on_request (\<lambda>r. r\<lparr>mrBase := base2\<rparr>) st1))
            else (updated, st1)))"

definition needs_certs :: "dynakube \<Rightarrow> bool" where
  "needs_certs dk \<longleftrightarrow> dk_IsAGCertificateNeeded dk \<or> dspTrustedCAs (dkSpec dk) \<noteq> ''''"

definition inject_pod :: "pod_env \<Rightarrow> hook_state \<Rightarrow> handler_error + hook_state" where
  "inject_pod env st =
     (if isInjected (hk_pod st) then
        (let (updated, st1) = handlePodReinvocation env st
         in Inr (if updated then SendPodUpdateEvent st1 else st1))
      else
        (case handlePodMutation env st of
           Inl e \<Rightarrow> Inl e
         | Inr (mutated, st1) \<Rightarrow>
             if \<not> mutated then Inr (on_pod (set_not_injected DTInjected DTReason ''NoMutationNeeded'') st1)
             else Inr (on_pod (set_injected DTInjected DTReason) st1)))"

text \<open>What a handler did to the API before it failed has happened; the request is not read again.\<close>

definition as_effect :: "(hook_state \<Rightarrow> handler_error + hook_state) \<Rightarrow> hook_state \<Rightarrow> handler_error option \<times> hook_state" where
  "as_effect f st = (case f st of Inl e \<Rightarrow> (Some e, st) | Inr st' \<Rightarrow> (None, st'))"

definition injection_Handle :: "pod_env \<Rightarrow> hook_state \<Rightarrow> handler_error option \<times> hook_state" where
  "injection_Handle env st =
     (let dk = hk_dk st in
      if \<not> IsAppInjectionNeeded (dk_OneAgent dk) \<and> \<not> me_IsEnabled (dspMetadataEnrichment (dkSpec dk))
      then (None, st)
      else
        (case isInputSecretPresent env (dkName dk @ ''-bootstrapper-config'') BootstrapperInitSecretName st of
           (False, st1) \<Rightarrow> (None, st1)
         | (True, st1) \<Rightarrow>
             if needs_certs dk then
               (case isInputSecretPresent env (dkName dk @ ''-bootstrapper-certs'') BootstrapperInitCertsSecretName st1 of
                  (False, st2) \<Rightarrow> (None, st2)
                | (True, st2) \<Rightarrow> as_effect (inject_pod env) st2)
             else as_effect (inject_pod env) st1))"

end
