(* ===== verification/PodOTLP.thy ===== *)
theory PodOTLP
  imports PodInjection Tokens
begin

text \<open>
  The OTLP handler (\<open>handler/otlp\<close>): it configures the OpenTelemetry exporters of the containers
  (\<open>mutator/otlp/exporter\<close>) and gives them the attributes of the pod as resource attributes
  (\<open>mutator/otlp/resourceattributes\<close>).
\<close>

abbreviation OTLPInjected :: string where "OTLPInjected \<equiv> ''otlp-exporter-configuration.dynatrace.com/injected''"
abbreviation OTLPReason :: string where "OTLPReason \<equiv> ''otlp-exporter-configuration.dynatrace.com/reason''"
abbreviation CertVolumeName :: string where "CertVolumeName \<equiv> ''otlp-dynatrace-certs''"
abbreviation CertsMountPath :: string where "CertsMountPath \<equiv> ''/etc/dynatrace/ssl''"
abbreviation OTelResourceAttributesEnv :: string where "OTelResourceAttributesEnv \<equiv> ''OTEL_RESOURCE_ATTRIBUTES''"
abbreviation DynatraceAPITokenEnv :: string where "DynatraceAPITokenEnv \<equiv> ''DT_API_TOKEN''"
abbreviation NoProxyEnv :: string where "NoProxyEnv \<equiv> ''NO_PROXY''"

definition otlp_setNotInjected :: "string \<Rightarrow> pod \<Rightarrow> pod" where
  "otlp_setNotInjected reason = set_not_injected OTLPInjected OTLPReason reason"

section \<open>Endpoint\<close>

definition BuildServiceName :: "string \<Rightarrow> string" where
  "BuildServiceName name = name @ ''-activegate''"

definition GetServiceFQDN :: "dynakube \<Rightarrow> string" where
  "GetServiceFQDN dk = BuildServiceName (dkName dk) @ ''.'' @ dkNamespace dk"

definition BuildOTLPEndpoint :: "pod_env \<Rightarrow> dynakube \<Rightarrow> error + string" where
  "BuildOTLPEndpoint env dk =
     (if ag_IsEnabled (dk_ActiveGate dk) then
        (case dk_TenantUUID dk of
           Inl e \<Rightarrow> Inl e
         | Inr tenantUUID \<Rightarrow> Inr (''https://'' @ GetServiceFQDN dk @ ''/e/'' @ tenantUUID @ ''/api/v2/otlp''))
      else Inr (pod_APIURL env dk @ ''/v2/otlp''))"

section \<open>Injectors (\<open>injectors.go\<close>)\<close>

definition addEnvVarLiteralValue :: "string \<Rightarrow> string \<Rightarrow> pod_container \<Rightarrow> pod_container" where
  "addEnvVarLiteralValue name v c = c\<lparr>pcEnv := k8senv_AddOrUpdate (pcEnv c) (env_literal name v)\<rparr>"

definition getCertificatePath :: string where
  "getCertificatePath = CertsMountPath @ ''/'' @ ''activegate-tls.crt''"

definition OTLPAuthorizationHeader :: string where
  "OTLPAuthorizationHeader = ''authorization=Api-Token $(DT_API_TOKEN)''"

text \<open>An injector reports whether it is enabled or changed something.\<close>

type_synonym injector = "string \<Rightarrow> bool \<Rightarrow> pod_container \<Rightarrow> bool \<times> pod_container"

definition trace_Inject :: "exporter_configuration \<Rightarrow> injector" where
  "trace_Inject cfg apiURL addCertificate c =
     (if \<not> otlp_IsTracesEnabled cfg then (False, c)
      else
        (let c1 = addEnvVarLiteralValue ''OTEL_EXPORTER_OTLP_TRACES_ENDPOINT'' (apiURL @ ''/v1/traces'') c;
             c2 = addEnvVarLiteralValue ''OTEL_EXPORTER_OTLP_TRACES_PROTOCOL'' ''http/protobuf'' c1;
             c3 = addEnvVarLiteralValue ''OTEL_EXPORTER_OTLP_TRACES_HEADERS'' OTLPAuthorizationHeader c2
         in (True, if addCertificate
                   then addEnvVarLiteralValue ''OTEL_EXPORTER_OTLP_TRACES_CERTIFICATE'' getCertificatePath c3
                   else c3)))"

definition metrics_Inject :: "exporter_configuration \<Rightarrow> injector" where
  "metrics_Inject cfg apiURL addCertificate c =
     (if \<not> otlp_IsMetricsEnabled cfg then (False, c)
      else
        (let c1 = addEnvVarLiteralValue ''OTEL_EXPORTER_OTLP_METRICS_ENDPOINT'' (apiURL @ ''/v1/metrics'') c;
             c2 = addEnvVarLiteralValue ''OTEL_EXPORTER_OTLP_METRICS_PROTOCOL'' ''http/protobuf'' c1;
             c3 = addEnvVarLiteralValue ''OTEL_EXPORTER_OTLP_METRICS_HEADERS'' OTLPAuthorizationHeader c2;
             c4 = addEnvVarLiteralValue ''OTEL_EXPORTER_OTLP_METRICS_TEMPORALITY_PREFERENCE'' ''delta'' c3
         in (True, if addCertificate
                   then addEnvVarLiteralValue ''OTEL_EXPORTER_OTLP_METRICS_CERTIFICATE'' getCertificatePath c4
                   else c4)))"

definition logs_Inject :: "exporter_configuration \<Rightarrow> injector" where
  "logs_Inject cfg apiURL addCertificate c =
     (if \<not> otlp_IsLogsEnabled cfg then (False, c)
      else
        (let c1 = addEnvVarLiteralValue ''OTEL_EXPORTER_OTLP_LOGS_ENDPOINT'' (apiURL @ ''/v1/logs'') c;
             c2 = addEnvVarLiteralValue ''OTEL_EXPORTER_OTLP_LOGS_PROTOCOL'' ''http/protobuf'' c1;
             c3 = addEnvVarLiteralValue ''OTEL_EXPORTER_OTLP_LOGS_HEADERS'' OTLPAuthorizationHeader c2
         in (True, if addCertificate
                   then addEnvVarLiteralValue ''OTEL_EXPORTER_OTLP_LOGS_CERTIFICATE'' getCertificatePath c3
                   else c3)))"

definition noProxy_isEnabled :: "dynakube \<Rightarrow> bool" where
  "noProxy_isEnabled dk \<longleftrightarrow> ag_IsEnabled (dk_ActiveGate dk) \<and> IsOTLPInjectionSetNoProxy (dk_FF dk)"

text \<open>The variable is looked up in any case of letters and written through the pointer.\<close>

definition noProxy_Inject :: "dynakube \<Rightarrow> injector" where
  "noProxy_Inject dk _ _ c =
     (if \<not> noProxy_isEnabled dk then (False, c)
      else
        (let fqdn = GetServiceFQDN dk;
             write = (\<lambda>v. c\<lparr>pcEnv := update_first (\<lambda>e. equal_fold (evName e) NoProxyEnv)
                              (\<lambda>e. e\<lparr>evValue := v\<rparr>) (pcEnv c)\<rparr>)
         in case k8senv_FindCaseInsensitive (pcEnv c) NoProxyEnv of
              Some noProxyEnvVar \<Rightarrow>
                let v = evValue noProxyEnvVar in
                if v \<noteq> '''' \<and> \<not> str_contains v fqdn then (True, write (v @ '','' @ fqdn))
                else if v = '''' then (True, write fqdn)
                else (False, c)
            | None \<Rightarrow> (True, c\<lparr>pcEnv := k8senv_AddOrUpdate (pcEnv c) (env_literal NoProxyEnv fqdn)\<rparr>)))"

definition run_injectors :: "injector list \<Rightarrow> injector" where
  "run_injectors injs apiURL addCertificate c =
     fold (\<lambda>inj (mutated, c'). let (changed, c'') = inj apiURL addCertificate c' in (changed \<or> mutated, c''))
       injs (False, c)"

section \<open>Exporter (\<open>exporter/mutator.go\<close>)\<close>

definition exporter_IsEnabled :: "pod_env \<Rightarrow> base_request \<Rightarrow> bool" where
  "exporter_IsEnabled env req \<longleftrightarrow>
     (let cfg = dk_OTLPExporterConfiguration (brDynaKube req)
      in if \<not> otlp_IsEnabled cfg then False
         else
           (let enabledOnPod = GetFieldBool (pdAnnotations (brPod req))
                  ''otlp-exporter-configuration.dynatrace.com/inject'' (IsAutomaticInjection (dk_FF (brDynaKube req)))
            in enabledOnPod \<and> matches_namespace env (map_option otNamespaceSelector (ecSpec cfg)) req))"

definition exporter_IsInjected :: "base_request \<Rightarrow> bool" where
  "exporter_IsInjected req = GetFieldBool (pdAnnotations (brPod req)) OTLPInjected False"

definition exporter_envs :: "string list" where
  "exporter_envs =
     [''OTEL_EXPORTER_OTLP_ENDPOINT'', ''OTEL_EXPORTER_OTLP_HEADERS'', ''OTEL_EXPORTER_OTLP_CERTIFICATE'',
      ''OTEL_EXPORTER_OTLP_PROTOCOL'', ''OTEL_EXPORTER_OTLP_TRACES_ENDPOINT'',
      ''OTEL_EXPORTER_OTLP_TRACES_HEADERS'', ''OTEL_EXPORTER_OTLP_TRACES_CERTIFICATE'',
      ''OTEL_EXPORTER_OTLP_TRACES_PROTOCOL'', ''OTEL_EXPORTER_OTLP_METRICS_ENDPOINT'',
      ''OTEL_EXPORTER_OTLP_METRICS_HEADERS'', ''OTEL_EXPORTER_OTLP_METRICS_CERTIFICATE'',
      ''OTEL_EXPORTER_OTLP_METRICS_PROTOCOL'', ''OTEL_EXPORTER_OTLP_METRICS_TEMPORALITY_PREFERENCE'',
      ''OTEL_EXPORTER_OTLP_LOGS_ENDPOINT'', ''OTEL_EXPORTER_OTLP_LOGS_HEADERS'',
      ''OTEL_EXPORTER_OTLP_LOGS_CERTIFICATE'', ''OTEL_EXPORTER_OTLP_LOGS_PROTOCOL'']"

definition excluded :: "pod_env \<Rightarrow> base_request \<Rightarrow> pod_container \<Rightarrow> bool" where
  "excluded env req c =
     IsContainerExcludedFromInjection env (dkAnnotations (brDynaKube req)) (pdAnnotations (brPod req)) (pcName c)"

definition shouldSkipContainer :: "pod_env \<Rightarrow> base_request \<Rightarrow> bool \<Rightarrow> pod_container \<Rightarrow> bool" where
  "shouldSkipContainer env req override c =
     (if excluded env req c then True
      else if override then False
      else list_ex (k8senv_Contains (pcEnv c)) exporter_envs)"

definition ensureCertificateVolumeMounted :: "pod_container \<Rightarrow> pod_container" where
  "ensureCertificateVolumeMounted c =
     (if k8smount_Contains (pcVolumeMounts c) CertVolumeName then c
      else add_mounts [\<lparr>pmName = CertVolumeName, pmMountPath = CertsMountPath, pmSubPath = [],
                        pmReadOnly = True\<rparr>] c)"

definition shouldAddCertificate :: "dynakube \<Rightarrow> bool" where
  "shouldAddCertificate dk \<longleftrightarrow> ag_HasCaCert (dk_ActiveGate dk) \<or> dspTrustedCAs (dkSpec dk) \<noteq> ''''"

definition dtAPITokenEnvVar :: env_var where
  "dtAPITokenEnvVar =
     \<lparr>evName = DynatraceAPITokenEnv, evValue = [],
      evValueFrom = Some (SecretKeyRef OTLPExporterSecretName DataIngestKey)\<rparr>"

definition addActiveGateCertVolume :: "dynakube \<Rightarrow> pod \<Rightarrow> handler_error option \<times> pod" where
  "addActiveGateCertVolume dk pod =
     (if \<not> shouldAddCertificate dk then (None, pod)
      else
        (case k8svolume_FindByName (pdVolumes pod) CertVolumeName of
           Some vol \<Rightarrow>
             if (case pvSecret vol of None \<Rightarrow> True | Some s \<Rightarrow> ssSecretName s \<noteq> OTLPExporterCertsSecretName)
             then (Some (MutatorError (ExistingVolumeError CertVolumeName)
                     (otlp_setNotInjected ConflictingVolumeTypeReason)), pod)
             else (None, pod)
         | None \<Rightarrow>
             (None, add_volume ((named_volume CertVolumeName)
                \<lparr>pvSecret := Some \<lparr>ssSecretName = OTLPExporterCertsSecretName, ssDefaultMode = Some 420\<rparr>\<rparr>) pod)))"

definition exporter_injectors :: "dynakube \<Rightarrow> injector list" where
  "exporter_injectors dk =
     (let cfg = dk_OTLPExporterConfiguration dk
      in [trace_Inject cfg, metrics_Inject cfg, logs_Inject cfg, noProxy_Inject dk])"

definition exporter_container :: "pod_env \<Rightarrow> base_request \<Rightarrow> string \<Rightarrow> pod_container \<Rightarrow> bool \<times> pod_container" where
  "exporter_container env req apiURL c =
     (let dk = brDynaKube req
      in if shouldSkipContainer env req (otlp_IsOverrideEnvVarsEnabled (dk_OTLPExporterConfiguration dk)) c
         then (False, c)
         else
           (let c1 = (if shouldAddCertificate dk then ensureCertificateVolumeMounted c else c);
                c2 = c1\<lparr>pcEnv := k8senv_AddOrUpdate (pcEnv c1) dtAPITokenEnvVar\<rparr>
            in run_injectors (exporter_injectors dk) apiURL (shouldAddCertificate dk) c2))"

text \<open>The changes made before the volume turns out to conflict stay in the request.\<close>

definition exporter_mutate :: "pod_env \<Rightarrow> base_request \<Rightarrow> bool \<times> handler_error option \<times> base_request" where
  "exporter_mutate env req =
     (let dk = brDynaKube req in
      if \<not> otlp_IsEnabled (dk_OTLPExporterConfiguration dk) then (False, None, req)
      else
        (case BuildOTLPEndpoint env dk of
           Inl e \<Rightarrow>
             (False, Some (MutatorError (WithMsg ''could not acquire ingest endpoint'' e)
                (otlp_setNotInjected ''IngestEndpointUnavailable'')), req)
         | Inr apiURL \<Rightarrow>
             let results = map (exporter_container env req apiURL) (pdContainers (brPod req));
                 mutated = list_ex fst results;
                 pod = (brPod req)\<lparr>pdContainers := map snd results\<rparr>
             in if shouldAddCertificate dk \<and> mutated then
                  (let (err, pod1) = addActiveGateCertVolume dk pod in (mutated, err, req\<lparr>brPod := pod1\<rparr>))
                else (mutated, None, req\<lparr>brPod := pod\<rparr>)))"

section \<open>Resource attributes (\<open>resourceattributes\<close>)\<close>

definition NewAttributesFromEnv :: "env_var list \<Rightarrow> string \<Rightarrow> smap \<times> bool" where
  "NewAttributesFromEnv envs name =
     (case k8senv_Find envs name of
        None \<Rightarrow> (Map.empty, False)
      | Some ev \<Rightarrow>
          (fold (\<lambda>pair res. case cut (CHR ''='') pair of
                   None \<Rightarrow> res | Some (key, val) \<Rightarrow> res(trim_space key \<mapsto> trim_space val))
             (split_on (CHR '','') (evValue ev)) Map.empty, True))"

definition SafeEnvRefs :: "string list" where
  "SafeEnvRefs = [k8senv_NewRef ''K8S_PODNAME'', k8senv_NewRef ''K8S_PODUID'', k8senv_NewRef ''K8S_NODE_NAME'']"

definition sanitizeValue :: "string \<Rightarrow> string" where
  "sanitizeValue v =
     (if v \<in> set SafeEnvRefs then v
      else case QueryUnescape v of None \<Rightarrow> QueryEscape v | Some decoded \<Rightarrow> QueryEscape decoded)"

definition ensureEnvVarSourcesSet :: "env_var list \<Rightarrow> pod_container \<Rightarrow> bool \<times> pod_container" where
  "ensureEnvVarSourcesSet podEnvs c =
     fold (\<lambda>e (mutated, c').
             let (envs, added) = k8senv_Append (pcEnv c') e
             in if added then (True, c'\<lparr>pcEnv := envs\<rparr>) else (mutated, c'))
       podEnvs (False, c)"

definition addResourceAttributes ::
    "pod_env \<Rightarrow> pod_attrs \<Rightarrow> pod_container \<Rightarrow> bool \<times> pod_attrs \<times> pod_container" where
  "addResourceAttributes env podAttrs c =
     (let (existing, ok) = NewAttributesFromEnv (pcEnv c) OTelResourceAttributesEnv;
          c1 = (if ok then c\<lparr>pcEnv := filter (\<lambda>e. evName e \<noteq> OTelResourceAttributesEnv) (pcEnv c)\<rparr> else c);
          podAttrs1 = SetCustomAttributes existing podAttrs;
          kept = filter (\<lambda>(k, v). k \<noteq> '''' \<and> v \<noteq> '''')
                   (peRange env (combineAll podAttrs1 [container_ToMap c]));
          new_key = list_ex (\<lambda>(k, v). existing k = None) kept;
          kvPairs = map (\<lambda>(k, v). k @ ''='' @ sanitizeValue v) kept;
          (added, c2) = ensureEnvVarSourcesSet (paPodEnvVars podAttrs1) c1;
          c3 = (if kvPairs \<noteq> []
                then add_env [env_literal OTelResourceAttributesEnv (join_sep '','' kvPairs)] c2 else c2)
      in (added \<or> new_key, podAttrs1, c3))"

definition resource_step ::
    "pod_env \<Rightarrow> base_request \<Rightarrow> pod_container \<Rightarrow> bool \<times> pod_attrs \<times> pod_container list \<Rightarrow>
     bool \<times> pod_attrs \<times> pod_container list" where
  "resource_step env req c acc =
     (let (mutated, attrs, done) = acc in
      if excluded env req c then (mutated, attrs, done @ [c])
      else
        (let (m, attrs1, c') = addResourceAttributes env attrs c
         in (m \<or> mutated, attrs1, done @ [c'])))"

definition resource_mutate :: "pod_env \<Rightarrow> mutation_request \<Rightarrow> handler_error + bool \<times> mutation_request" where
  "resource_mutate env r =
     (case NewPodAttributes env (mrBase r) of
        Inl e \<Rightarrow> Inl (MutatorError e (otlp_setNotInjected ''OwnerLookupFailed''))
      | Inr attrs0 \<Rightarrow>
          let attrs = SetDynakubeAttributes env
                (otlp_GetResourceAttributes (dk_OTLPExporterConfiguration (mr_dk r))) attrs0;
              (mutated, attrs1, containers) =
                fold (resource_step env (mrBase r)) (pdContainers (mr_pod r)) (False, attrs, [])
          in Inr (mutated,
               set_pod (\<lambda>pod. pod\<lparr>pdContainers := containers\<rparr>) (r\<lparr>mrAnnotationWriter := Some attrs1\<rparr>)))"

section \<open>The handler\<close>

definition isTokenSecretPresent :: "pod_env \<Rightarrow> hook_state \<Rightarrow> bool \<times> hook_state" where
  "isTokenSecretPresent env st =
     secret_present env (dkName (hk_dk st) @ ''-otlp-exporter-config'') OTLPExporterSecretName
       OTLPInjected OTLPReason ''NoOTLPExporterConfigSecret'' st"

definition isExporterActiveGateCertSecretPresent :: "pod_env \<Rightarrow> hook_state \<Rightarrow> bool \<times> hook_state" where
  "isExporterActiveGateCertSecretPresent env st =
     (if \<not> ag_HasCaCert (dk_ActiveGate (hk_dk st)) \<and> dspTrustedCAs (dkSpec (hk_dk st)) = '''' then (True, st)
      else secret_present env (dkName (hk_dk st) @ ''-otlp-exporter-certs'') OTLPExporterCertsSecretName
             OTLPInjected OTLPReason ''NoOTLPExporterActiveGateCertSecret'' st)"

definition otlp_reinvoke :: "pod_env \<Rightarrow> mutation_request \<Rightarrow> mutation_request" where
  "otlp_reinvoke env r =
     (let (_, _, base) = exporter_mutate env (mrBase r);
          r1 = r\<lparr>mrBase := base\<rparr>
      in case resource_mutate env r1 of Inl _ \<Rightarrow> r1 | Inr (_, r2) \<Rightarrow> r2)"

definition otlp_mutate :: "pod_env \<Rightarrow> mutation_request \<Rightarrow> handler_error + mutation_request" where
  "otlp_mutate env r =
     (let (_, err, base) = exporter_mutate env (mrBase r)
      in case err of
           Some e \<Rightarrow> Inl e
         | None \<Rightarrow> map_sum id snd (resource_mutate env (r\<lparr>mrBase := base\<rparr>)))"

definition otlp_inject :: "pod_env \<Rightarrow> hook_state \<Rightarrow> handler_error + hook_state" where
  "otlp_inject env st =
     (if exporter_IsInjected (hk_base st) then
        Inr (on_pod (set_injected OTLPInjected OTLPReason) (on_request (otlp_reinvoke env) st))
      else
        (case otlp_mutate env (hkRequest st) of
           Inl e \<Rightarrow> Inl e
         | Inr r \<Rightarrow> Inr (on_pod (set_injected OTLPInjected OTLPReason) (st\<lparr>hkRequest := r\<rparr>))))"

definition otlp_Handle :: "pod_env \<Rightarrow> hook_state \<Rightarrow> handler_error option \<times> hook_state" where
  "otlp_Handle env st =
     (if \<not> otlp_IsEnabled (dk_OTLPExporterConfiguration (hk_dk st)) then (None, st)
      else if exporter_IsEnabled env (hk_base st) then
        (case isTokenSecretPresent env st of
           (False, st1) \<Rightarrow> (None, st1)
         | (True, st1) \<Rightarrow>
             (case isExporterActiveGateCertSecretPresent env st1 of
                (False, st2) \<Rightarrow> (None, st2)
              | (True, st2) \<Rightarrow> as_effect (otlp_inject env) st2))
      else (None, st))"

end
