(* ===== verification/PodWebhook.thy ===== *)
theory PodWebhook
  imports PodOTLP
begin

text \<open>
  The pod webhook itself (\<open>webhook.go\<close>, \<open>request.go\<close>): it finds the DynaKube of the pod's namespace, decides
  whether anything is to be done, runs the two handlers, and answers with a patch. When a handler fails,
  the patch is the pod of the request with nothing but the annotations of the error.
\<close>

record admission_request =
  arNamespace :: string
  arPod :: "error + pod"

text \<open>What the webhook is set up with; the reads are answered by the Kubernetes API.\<close>

record webhook_env =
  weEnv :: pod_env
  weNamespace :: string
  weDeployedViaOLM :: bool
  weGetNamespace :: "string \<Rightarrow> error + wh_namespace"
  weGetDynaKube :: "string \<Rightarrow> string \<Rightarrow> error + dynakube"

text \<open>
  The answers that change nothing carry what their message is made of; \<open>PatchTo\<close> is the difference
  between the object of the request and a pod.
\<close>

datatype pod_response =
    RequestFailed error
  | NotRequired
  | Unpatched
  | SilentError string error
  | PatchTo pod

definition getDynakubeName :: "wh_namespace \<Rightarrow> error + string" where
  "getDynakubeName ns =
     (case whnLabels ns InjectionInstanceLabel of
        None \<Rightarrow> Inl (Sentinel (''no DynaKube instance set for namespace: '' @ whnName ns))
      | Some name \<Rightarrow> Inr name)"

definition missing_dynakube_event :: "string \<Rightarrow> string \<Rightarrow> hook_event" where
  "missing_dynakube_event namespaceName dynakubeName =
     \<lparr>heNamespace = namespaceName, heDynaKube = dynakubeName, heType = ''Warning'',
      heReason = ''MissingDynakube'',
      heMessage = ''Namespace '' @ [CHR 0x27] @ namespaceName @ [CHR 0x27] @ '' is assigned to DynaKube instance '' @ [CHR 0x27] @
        dynakubeName @ [CHR 0x27] @ '' but this instance doesn't exist''\<rparr>"

definition wh_getDynakube :: "webhook_env \<Rightarrow> string \<Rightarrow> hook_event list \<times> (error + dynakube)" where
  "wh_getDynakube w dynakubeName =
     (case weGetDynaKube w (weNamespace w) dynakubeName of
        Inl e \<Rightarrow>
          (if is_not_found e then [missing_dynakube_event (weNamespace w) dynakubeName] else [], Inl e)
      | Inr dk \<Rightarrow> ([], Inr dk))"

text \<open>The request starts without an init container.\<close>

definition no_container :: pod_container where
  "no_container =
     \<lparr>pcName = [], pcImage = [], pcImagePullPolicy = [], pcArgs = [], pcEnv = [], pcVolumeMounts = [],
      pcResources = NoResources, pcSecurityContext = None, pcOther = []\<rparr>"

definition NewMutationRequest :: "wh_namespace \<Rightarrow> pod \<Rightarrow> dynakube \<Rightarrow> mutation_request" where
  "NewMutationRequest ns pod dk =
     \<lparr>mrBase = \<lparr>brPod = pod, brNamespace = ns, brDynaKube = dk\<rparr>, mrAnnotationWriter = None,
      mrInstallContainer = no_container\<rparr>"

definition createMutationRequestBase ::
    "webhook_env \<Rightarrow> admission_request \<Rightarrow> hook_event list \<times> (error + mutation_request option)" where
  "createMutationRequestBase w req =
     (case arPod req of
        Inl e \<Rightarrow> ([], Inl e)
      | Inr pod \<Rightarrow>
          (case weGetNamespace w (arNamespace req) of
             Inl e \<Rightarrow> ([], Inl e)
           | Inr ns \<Rightarrow>
               (case getDynakubeName ns of
                  Inl e \<Rightarrow> ([], if \<not> weDeployedViaOLM w then Inl e else Inr None)
                | Inr dynakubeName \<Rightarrow>
                    (case wh_getDynakube w dynakubeName of
                       (events, Inl e) \<Rightarrow> (events, Inl e)
                     | (events, Inr dk) \<Rightarrow> (events, Inr (Some (NewMutationRequest ns pod dk)))))))"

definition mutationRequired :: "pod_env \<Rightarrow> mutation_request \<Rightarrow> bool" where
  "mutationRequired env r \<longleftrightarrow>
     (let enabledOnPod = GetFieldBool (pdAnnotations (mr_pod r)) ''dynatrace.com/inject'' True;
          enabledOnContainers = list_ex (\<lambda>c. \<not> excluded env (mrBase r) c) (pdContainers (mr_pod r))
      in enabledOnPod \<and> enabledOnContainers)"

definition isOcDebugPod :: "pod \<Rightarrow> bool" where
  "isOcDebugPod pod \<longleftrightarrow>
     list_all (\<lambda>a. pdAnnotations pod a \<noteq> None)
       [''debug.openshift.io/source-container'', ''debug.openshift.io/source-resource'']"

definition silentErrorResponse :: "pod \<Rightarrow> error \<Rightarrow> pod_response" where
  "silentErrorResponse pod e = SilentError (pod_GetName pod) e"

text \<open>A handler error that is a \<open>MutatorError\<close> annotates the original pod.\<close>

definition error_response :: "pod \<Rightarrow> handler_error \<Rightarrow> pod_response" where
  "error_response originalPod e =
     (case e of
        PlainError err \<Rightarrow> silentErrorResponse originalPod err
      | MutatorError _ _ \<Rightarrow> PatchTo (SetAnnotations e originalPod))"

definition finish_pod :: "pod_env \<Rightarrow> pod \<Rightarrow> hook_state \<Rightarrow> pod_response" where
  "finish_pod env originalPod st =
     (case mrAnnotationWriter (hkRequest st) of
        None \<Rightarrow> PatchTo (hk_pod st)
      | Some attrs \<Rightarrow>
          (case ApplyJSONAnnotationToPod env attrs (hk_pod st) of
             Inl e \<Rightarrow> error_response originalPod e
           | Inr pod \<Rightarrow> PatchTo pod))"

definition handle_request :: "pod_env \<Rightarrow> hook_state \<Rightarrow> pod_response \<times> hook_state" where
  "handle_request env st =
     (if \<not> mutationRequired env (hkRequest st) \<or> isOcDebugPod (hk_pod st) then (Unpatched, st)
      else
        (let originalPod = hk_pod st in
         case injection_Handle env st of
           (Some e, st1) \<Rightarrow> (error_response originalPod e, st1)
         | (None, st1) \<Rightarrow>
             (case otlp_Handle env st1 of
                (Some e, st2) \<Rightarrow> (error_response originalPod e, st2)
              | (None, st2) \<Rightarrow> (finish_pod env originalPod st2, st2))))"

text \<open>The answer, with the calls to the Kubernetes API and the events of the request.\<close>

definition webhook_Handle ::
    "webhook_env \<Rightarrow> secret_payload query_state \<Rightarrow> admission_request \<Rightarrow>
     pod_response \<times> secret_payload query_state \<times> hook_event list" where
  "webhook_Handle w q req =
     (case createMutationRequestBase w req of
        (events, Inl e) \<Rightarrow> (RequestFailed e, q, events)
      | (events, Inr None) \<Rightarrow> (NotRequired, q, events)
      | (events, Inr (Some r)) \<Rightarrow>
          let (response, st) = handle_request (weEnv w) \<lparr>hkRequest = r, hkQuery = q, hkEvents = events\<rparr>
          in (response, hkQuery st, hkEvents st))"

end
