(* ===== verification/PodLaws.thy ===== *)
theory PodLaws
  imports PodWebhook "HOL-Library.Sublist"
begin

text \<open>
  What the webhook may do to a pod. \<open>pod_extends\<close> is the contract: containers keep their order and everything
  but their environment and mounts, existing mounts and volumes stay, and foreign init containers and
  variables are not touched. Every mutator is a step that keeps it, and so is the answer to a request.
\<close>

section \<open>The contract\<close>

definition managed_envs :: "string list" where
  "managed_envs = [PreloadEnv, DynatraceAPITokenEnv, OTelResourceAttributesEnv] @ exporter_envs"

definition env_kept :: "env_var list \<Rightarrow> env_var list \<Rightarrow> bool" where
  "env_kept old new \<longleftrightarrow>
     (\<forall>e \<in> set old. evName e \<notin> set managed_envs \<and> \<not> equal_fold (evName e) NoProxyEnv \<longrightarrow> e \<in> set new)"

definition container_extends :: "pod_container \<Rightarrow> pod_container \<Rightarrow> bool" where
  "container_extends c c' \<longleftrightarrow>
     c' = c\<lparr>pcEnv := pcEnv c', pcVolumeMounts := pcVolumeMounts c'\<rparr> \<and>
     prefix (pcVolumeMounts c) (pcVolumeMounts c') \<and> env_kept (pcEnv c) (pcEnv c')"

text \<open>\<open>F\<close> are the names of the containers that must stay as they are.\<close>

definition containers_extend :: "(string \<Rightarrow> bool) \<Rightarrow> pod_container list \<Rightarrow> pod_container list \<Rightarrow> bool" where
  "containers_extend F = list_all2 (\<lambda>c c'. container_extends c c' \<and> (F (pcName c) \<longrightarrow> c' = c))"

text \<open>The annotations in which the webhook records what it did, and why it did not.\<close>

definition outcome_keys :: "(string \<times> string) list" where
  "outcome_keys =
     [(DTInjected, DTReason), (MetaInjected, MetaReason), (OAInjected, OAReason), (OTLPInjected, OTLPReason),
      (''volume.dynatrace.com/injected'', ''volume.dynatrace.com/reason'')]"

definition outcome_names :: "string list" where
  "outcome_names = map fst outcome_keys @ map snd outcome_keys"

text \<open>
  Every other annotation stays as it is, and no other is added but the enrichment of a pod that has none. The
  init containers stay, in their order, except that the webhook's own may get more arguments; what is added
  behind them has its name.
\<close>

definition annotations_kept :: "smap \<Rightarrow> smap \<Rightarrow> bool" where
  "annotations_kept a a' \<longleftrightarrow>
     (\<forall>k. k \<notin> set outcome_names \<longrightarrow> a' k = a k \<or> k = EnrichmentAnnotation \<and> a k = None)"

definition init_extends :: "pod_container \<Rightarrow> pod_container \<Rightarrow> bool" where
  "init_extends c c' \<longleftrightarrow>
     c' = c \<or> pcName c = InstallContainerName \<and> c' = c\<lparr>pcArgs := pcArgs c'\<rparr> \<and> prefix (pcArgs c) (pcArgs c')"

definition inits_extend :: "pod_container list \<Rightarrow> pod_container list \<Rightarrow> bool" where
  "inits_extend cs cs' \<longleftrightarrow>
     list_all2 init_extends cs (take (length cs) cs') \<and> list_all (\<lambda>c. pcName c = InstallContainerName) (drop (length cs) cs')"

definition pod_extends :: "(string \<Rightarrow> bool) \<Rightarrow> pod \<Rightarrow> pod \<Rightarrow> bool" where
  "pod_extends F p p' \<longleftrightarrow>
     p' = p\<lparr>pdAnnotations := pdAnnotations p', pdContainers := pdContainers p',
            pdInitContainers := pdInitContainers p', pdVolumes := pdVolumes p'\<rparr> \<and>
     annotations_kept (pdAnnotations p) (pdAnnotations p') \<and>
     containers_extend F (pdContainers p) (pdContainers p') \<and>
     prefix (pdVolumes p) (pdVolumes p') \<and> inits_extend (pdInitContainers p) (pdInitContainers p')"

lemma annotations_kept_refl [simp]: "annotations_kept a a"
  by (simp add: annotations_kept_def)

lemma annotations_kept_trans: "annotations_kept a b \<Longrightarrow> annotations_kept b c \<Longrightarrow> annotations_kept a c"
  unfolding annotations_kept_def by metis

lemma annotations_kept_upd: "k \<in> set outcome_names \<Longrightarrow> annotations_kept a (a(k := v))"
  by (auto simp: annotations_kept_def)

lemma init_extends_refl [simp]: "init_extends c c"
  by (simp add: init_extends_def)

lemma init_extends_name: "init_extends c c' \<Longrightarrow> pcName c' = pcName c"
  unfolding init_extends_def by (cases c, cases c') auto

lemma init_extends_trans: "init_extends a b \<Longrightarrow> init_extends b c \<Longrightarrow> init_extends a c"
  unfolding init_extends_def by (cases a, cases b, cases c) (auto intro: prefix_order.trans)

lemma inits_extend_split:
  "inits_extend cs cs' \<longleftrightarrow>
     (\<exists>ds es. cs' = ds @ es \<and> list_all2 init_extends cs ds \<and> list_all (\<lambda>c. pcName c = InstallContainerName) es)"
proof
  assume "inits_extend cs cs'"
  then show "\<exists>ds es. cs' = ds @ es \<and> list_all2 init_extends cs ds \<and> list_all (\<lambda>c. pcName c = InstallContainerName) es"
    unfolding inits_extend_def by (metis append_take_drop_id)
next
  assume "\<exists>ds es. cs' = ds @ es \<and> list_all2 init_extends cs ds \<and> list_all (\<lambda>c. pcName c = InstallContainerName) es"
  then obtain ds es where "cs' = ds @ es" "list_all2 init_extends cs ds" "list_all (\<lambda>c. pcName c = InstallContainerName) es"
    by blast
  moreover from this have "length ds = length cs" by (simp add: list_all2_lengthD)
  ultimately show "inits_extend cs cs'" by (simp add: inits_extend_def)
qed

lemma inits_extend_refl [simp]: "inits_extend cs cs"
  by (simp add: inits_extend_def list.rel_refl_strong)

lemma inits_extend_add: "pcName c = InstallContainerName \<Longrightarrow> inits_extend cs (cs @ [c])"
  by (simp add: inits_extend_def list.rel_refl_strong)

lemma inits_extend_names:
  "list_all2 init_extends cs ds \<Longrightarrow> list_all (\<lambda>c. pcName c = n) cs \<Longrightarrow> list_all (\<lambda>c. pcName c = n) ds"
  by (induction rule: list_all2_induct) (auto dest: init_extends_name)

lemma inits_extend_trans:
  assumes "inits_extend a b" and "inits_extend b c"
  shows "inits_extend a c"
proof -
  obtain ds es where b: "b = ds @ es" "list_all2 init_extends a ds" "list_all (\<lambda>c. pcName c = InstallContainerName) es"
    using assms(1) unfolding inits_extend_split by blast
  obtain ds' es' fs where c: "c = (ds' @ es') @ fs" "list_all2 init_extends ds ds'" "list_all2 init_extends es es'"
    "list_all (\<lambda>c. pcName c = InstallContainerName) fs"
    using assms(2) unfolding inits_extend_split b(1) by (auto simp: list_all2_append1)
  have "list_all2 init_extends a ds'"
    by (rule list_all2_trans[OF _ b(2) c(2)]) (erule (1) init_extends_trans)
  moreover have "list_all (\<lambda>c. pcName c = InstallContainerName) (es' @ fs)"
    using inits_extend_names[OF c(3) b(3)] c(4) by simp
  ultimately show ?thesis unfolding inits_extend_split c(1) by (intro exI[of _ ds'] exI[of _ "es' @ fs"]) simp
qed

lemma env_kept_refl [simp]: "env_kept e e"
  by (simp add: env_kept_def)

lemma env_kept_trans: "env_kept a b \<Longrightarrow> env_kept b c \<Longrightarrow> env_kept a c"
  by (auto simp: env_kept_def)

lemma env_kept_append [simp]: "env_kept e (e @ f)"
  by (auto simp: env_kept_def)

lemma env_kept_update_first:
  "(\<And>e. P e \<Longrightarrow> evName e \<in> set managed_envs \<or> equal_fold (evName e) NoProxyEnv) \<Longrightarrow>
   env_kept es (update_first P f es)"
  by (induction es) (auto simp: env_kept_def)

lemma env_kept_AddOrUpdate: "evName d \<in> set managed_envs \<Longrightarrow> env_kept es (k8senv_AddOrUpdate es d)"
  by (auto simp: k8senv_AddOrUpdate_def intro!: env_kept_update_first)

lemma container_extends_refl [simp]: "container_extends c c"
  by (simp add: container_extends_def)

lemma container_extends_name: "container_extends c c' \<Longrightarrow> pcName c' = pcName c"
  unfolding container_extends_def by (metis pod_container.select_convs(1) pod_container.surjective
      pod_container.update_convs(5) pod_container.update_convs(6))

lemma container_extends_trans: "container_extends a b \<Longrightarrow> container_extends b c \<Longrightarrow> container_extends a c"
  unfolding container_extends_def
  by (cases a, cases b, cases c) (auto intro: env_kept_trans prefix_order.trans)

lemma containers_extend_refl [simp]: "containers_extend F cs cs"
  by (simp add: containers_extend_def list.rel_refl_strong)

lemma containers_extend_trans:
  "containers_extend F a b \<Longrightarrow> containers_extend F b c \<Longrightarrow> containers_extend F a c"
  unfolding containers_extend_def
  by (erule list_all2_trans[rotated], assumption)
    (auto dest: container_extends_name intro: container_extends_trans)

lemma containers_extend_map:
  "(\<And>c. c \<in> set cs \<Longrightarrow> container_extends c (f c)) \<Longrightarrow> (\<And>c. c \<in> set cs \<Longrightarrow> F (pcName c) \<Longrightarrow> f c = c) \<Longrightarrow>
   containers_extend F cs (map f cs)"
  by (simp add: containers_extend_def list_all2_map2 list.rel_refl_strong)

lemma pod_extends_refl [simp]: "pod_extends F p p"
  by (simp add: pod_extends_def)

lemma pod_extends_trans: "pod_extends F a b \<Longrightarrow> pod_extends F b c \<Longrightarrow> pod_extends F a c"
  unfolding pod_extends_def
  by (cases a, cases b, cases c)
    (auto intro: containers_extend_trans prefix_order.trans annotations_kept_trans inits_extend_trans)

lemma pod_extends_annotations: "annotations_kept (pdAnnotations p) a \<Longrightarrow> pod_extends F p (p\<lparr>pdAnnotations := a\<rparr>)"
  by (simp add: pod_extends_def)

lemma pod_extends_volume [simp]: "pod_extends F p (add_volume v p)"
  by (simp add: pod_extends_def add_volume_def)

lemma pod_extends_containers:
  "containers_extend F (pdContainers p) cs \<Longrightarrow> pod_extends F p (p\<lparr>pdContainers := cs\<rparr>)"
  by (simp add: pod_extends_def)

section \<open>Operations on a container\<close>

lemma extends_mounts [simp]: "container_extends c (add_mounts ms c)"
  by (simp add: container_extends_def add_mounts_def)

lemma extends_env [simp]: "container_extends c (add_env es c)"
  by (simp add: container_extends_def add_env_def)

lemma prefix_mount_Append: "prefix ms (k8smount_Append ms vs)"
  by (induction vs arbitrary: ms) (auto intro: prefix_order.trans[OF prefixI])

lemma extends_mount_Append: "container_extends c (c\<lparr>pcVolumeMounts := k8smount_Append (pcVolumeMounts c) vs\<rparr>)"
  by (simp add: container_extends_def prefix_mount_Append)

lemma extends_set_env: "env_kept (pcEnv c) es \<Longrightarrow> container_extends c (c\<lparr>pcEnv := es\<rparr>)"
  by (simp add: container_extends_def)

lemma extends_split_oneagent: "container_extends c (addSplitOneAgentConfigVolumeMount c)"
  unfolding addSplitOneAgentConfigVolumeMount_def by (rule extends_mount_Append)

lemma extends_split_enrichment: "container_extends c (addSplitEnrichmentConfigVolumeMount c)"
  unfolding addSplitEnrichmentConfigVolumeMount_def by (rule extends_mount_Append)

lemma extends_common_mount: "container_extends c (addCommonConfigVolumeMount c)"
  unfolding addCommonConfigVolumeMount_def by (rule extends_mount_Append)

lemma extends_config_mount: "container_extends c (AddConfigVolumeMount req c)"
  by (simp add: AddConfigVolumeMount_def addSplitMounts_def Let_def extends_common_mount extends_split_oneagent extends_split_enrichment
      container_extends_trans[OF extends_split_oneagent extends_split_enrichment])

lemma extends_metadata_env: "container_extends c (addDeploymentMetadataEnv env dk c)"
  by (simp add: addDeploymentMetadataEnv_def)

lemma extends_preload: "container_extends c (addPreloadEnv env path c)"
  by (auto simp: addPreloadEnv_def Let_def managed_envs_def split: option.split
      intro!: extends_set_env env_kept_update_first)

lemma extends_storage: "container_extends c (addDTStorageEnv c)"
  by (simp add: addDTStorageEnv_def)

lemma extends_zone: "container_extends c (addNetworkZoneEnv z c)"
  by (simp add: addNetworkZoneEnv_def)

lemma extends_fold:
  "(\<And>x c. container_extends c (f x c)) \<Longrightarrow> container_extends c (fold f xs c)"
  by (induction xs arbitrary: c) (auto intro: container_extends_trans)

lemma extends_versions: "container_extends c (addVersionDetectionEnvs env ns c)"
  unfolding addVersionDetectionEnvs_def by (rule extends_fold) auto

lemma extends_after_mounts: "container_extends (addVolumeMounts env path c) (addOneAgentToContainer env dk ns path c)"
proof -
  let ?c1 = "addVolumeMounts env path c"
  let ?c2 = "addDeploymentMetadataEnv env dk ?c1"
  let ?c3 = "addPreloadEnv env path ?c2"
  let ?c4 = "addDTStorageEnv ?c3"
  have c4: "container_extends ?c1 ?c4"
    by (blast intro: container_extends_trans extends_metadata_env extends_preload extends_storage)
  then have "container_extends ?c1 (addNetworkZoneEnv z ?c4)" for z
    by (blast intro: container_extends_trans extends_zone)
  with c4 show ?thesis
    by (auto simp: addOneAgentToContainer_def Let_def intro: container_extends_trans[OF _ extends_versions])
qed

lemma extends_oneagent: "container_extends c (addOneAgentToContainer env dk ns path c)"
  using extends_after_mounts by (rule container_extends_trans[rotated]) (simp add: addVolumeMounts_def)

section \<open>Containers that opted out\<close>

abbreviation OptOutPrefix :: string where "OptOutPrefix \<equiv> ''container.inject.dynatrace.com''"

definition names_container :: "string \<Rightarrow> string \<Rightarrow> bool" where
  "names_container key name \<longleftrightarrow>
     has_prefix key OptOutPrefix \<and> (case cut slash key of None \<Rightarrow> False | Some (_, path) \<Rightarrow> path = name)"

text \<open>Every annotation that names the container says \<open>false\<close>, and there is one.\<close>

definition opted_out :: "smap \<Rightarrow> string \<Rightarrow> bool" where
  "opted_out ann name \<longleftrightarrow>
     (\<exists>k. names_container k name \<and> ann k \<noteq> None) \<and>
     (\<forall>k v. names_container k name \<and> ann k = Some v \<longrightarrow> v = ''false'')"

definition same_exclusions :: "smap \<Rightarrow> smap \<Rightarrow> bool" where
  "same_exclusions a a' \<longleftrightarrow>
     (finite (dom a) \<longrightarrow> finite (dom a')) \<and> (\<forall>k. has_prefix k OptOutPrefix \<longrightarrow> a' k = a k)"

lemma opted_out_excluded:
  assumes ok: "range_ok (peRange env)" and fin: "finite (dom ann)" and out: "opted_out ann name"
  shows "checkInjectionAnnotation env ann name"
proof -
  have entries: "map_of (peRange env ann) = ann" and dist: "distinct (map fst (peRange env ann))"
    using ok fin by (simp_all add: range_ok_def)
  let ?P = "\<lambda>(key, val). has_prefix key OptOutPrefix \<and>
              (case cut slash key of None \<Rightarrow> False | Some (_, path) \<Rightarrow> path = name)"
  obtain k v where kv: "names_container k name" "ann k = Some v"
    using out by (auto simp: opted_out_def)
  have "(k, v) \<in> set (peRange env ann)" using kv(2) entries by (metis map_of_SomeD)
  then have "find ?P (peRange env ann) \<noteq> None"
    using kv(1) by (auto simp: find_None_iff names_container_def)
  then obtain x where x: "find ?P (peRange env ann) = Some x" by blast
  then have "?P x" "x \<in> set (peRange env ann)" by (auto simp: find_Some_iff in_set_conv_nth)
  moreover obtain key val where "x = (key, val)" by (cases x)
  ultimately have "names_container key name" "ann key = Some val"
    using entries dist by (auto simp: names_container_def dest: map_of_is_SomeI)
  then have "val = ''false''" using out by (auto simp: opted_out_def)
  with x \<open>x = (key, val)\<close> show ?thesis by (simp add: checkInjectionAnnotation_def)
qed

lemma same_exclusions_refl [simp]: "same_exclusions a a"
  by (simp add: same_exclusions_def)

lemma same_exclusions_trans: "same_exclusions a b \<Longrightarrow> same_exclusions b c \<Longrightarrow> same_exclusions a c"
  by (simp add: same_exclusions_def)

lemma same_exclusions_upd: "\<not> has_prefix k OptOutPrefix \<Longrightarrow> same_exclusions a (a(k := v))"
  by (cases v) (auto simp: same_exclusions_def)

lemma opted_out_same:
  assumes "same_exclusions a a'" and "opted_out a n"
  shows "opted_out a' n"
proof -
  have "a' k = a k" if "names_container k n" for k
    using assms(1) that by (simp add: same_exclusions_def names_container_def)
  with assms(2) show ?thesis unfolding opted_out_def by metis
qed

section \<open>Steps of a request\<close>

definition stays :: "pod_env \<Rightarrow> (string \<Rightarrow> bool) \<Rightarrow> base_request \<Rightarrow> bool" where
  "stays env F req \<longleftrightarrow>
     (\<forall>n. F n \<longrightarrow>
        range_ok (peRange env) \<and> finite (dom (dkAnnotations (brDynaKube req))) \<and>
        finite (dom (pdAnnotations (brPod req))) \<and>
        (opted_out (dkAnnotations (brDynaKube req)) n \<or> opted_out (pdAnnotations (brPod req)) n))"

lemma stays_nobody [simp]: "stays env (\<lambda>_. False) req"
  by (simp add: stays_def)

definition request_step :: "(string \<Rightarrow> bool) \<Rightarrow> base_request \<Rightarrow> base_request \<Rightarrow> bool" where
  "request_step F r r' \<longleftrightarrow>
     r' = r\<lparr>brPod := brPod r'\<rparr> \<and> pod_extends F (brPod r) (brPod r') \<and>
     same_exclusions (pdAnnotations (brPod r)) (pdAnnotations (brPod r'))"

lemma request_step_refl [simp]: "request_step F r r"
  by (simp add: request_step_def)

lemma request_step_trans: "request_step F a b \<Longrightarrow> request_step F b c \<Longrightarrow> request_step F a c"
  unfolding request_step_def
  by (cases a, cases b, cases c) (auto intro: pod_extends_trans same_exclusions_trans)

lemma request_step_pod:
  "pod_extends F (brPod r) p \<Longrightarrow> same_exclusions (pdAnnotations (brPod r)) (pdAnnotations p) \<Longrightarrow>
   request_step F r (r\<lparr>brPod := p\<rparr>)"
  by (simp add: request_step_def)

lemma request_step_keeps: "request_step F r r' \<Longrightarrow> brDynaKube r' = brDynaKube r \<and> brNamespace r' = brNamespace r"
  unfolding request_step_def by (cases r, cases r') simp

lemma stays_step:
  assumes "stays env F r" and step: "request_step F r r'"
  shows "stays env F r'"
proof -
  have "same_exclusions (pdAnnotations (brPod r)) (pdAnnotations (brPod r'))"
    using step unfolding request_step_def by blast
  moreover from this have "finite (dom (pdAnnotations (brPod r'))) \<or> \<not> finite (dom (pdAnnotations (brPod r)))"
    unfolding same_exclusions_def by blast
  ultimately show ?thesis
    using assms(1) request_step_keeps[OF step] opted_out_same unfolding stays_def by metis
qed

lemma stays_excluded: "stays env F r \<Longrightarrow> F (pcName c) \<Longrightarrow> excluded env r c"
  by (auto simp: stays_def excluded_def IsContainerExcludedFromInjection_def intro: opted_out_excluded)

lemma stays_not_new: "stays env F r \<Longrightarrow> F (pcName c) \<Longrightarrow> \<not> is_new env isInj r c"
  using stays_excluded[of env F r c] by (simp add: is_new_def excluded_def)

lemma step_update_new:
  assumes "stays env F r" and "\<And>c. container_extends c (f c)"
  shows "request_step F r (update_new env isInj r f)"
  unfolding update_new_def using assms
  by (auto intro!: request_step_pod pod_extends_containers containers_extend_map dest: stays_not_new)

lemma step_annotations:
  "same_exclusions (pdAnnotations (brPod r)) a \<Longrightarrow> annotations_kept (pdAnnotations (brPod r)) a \<Longrightarrow>
   request_step F r (r\<lparr>brPod := (brPod r)\<lparr>pdAnnotations := a\<rparr>\<rparr>)"
  by (rule request_step_pod) (simp_all add: pod_extends_annotations)

lemma step_volume: "request_step F r (r\<lparr>brPod := add_volume v (brPod r)\<rparr>)"
  by (rule request_step_pod) (simp, simp add: add_volume_def)

lemma outcome_keys_foreign:
  "list_all (\<lambda>(i, r). \<not> has_prefix i OptOutPrefix \<and> \<not> has_prefix r OptOutPrefix) outcome_keys"
  by code_simp

lemma outcome_keys_unrelated:
  "(i, r) \<in> set outcome_keys \<Longrightarrow> \<not> has_prefix i OptOutPrefix \<and> \<not> has_prefix r OptOutPrefix"
  using outcome_keys_foreign by (auto simp: list_all_iff)

lemma outcome_names_of: "(i, r) \<in> set outcome_keys \<Longrightarrow> i \<in> set outcome_names \<and> r \<in> set outcome_names"
  by (force simp: outcome_names_def)

lemma step_injected:
  "(i, n) \<in> set outcome_keys \<Longrightarrow> request_step F r (r\<lparr>brPod := set_injected i n (brPod r)\<rparr>)"
  unfolding set_injected_def
  by (rule step_annotations, rule same_exclusions_trans[OF same_exclusions_upd same_exclusions_upd])
    (auto dest: outcome_keys_unrelated outcome_names_of intro!: annotations_kept_trans[OF annotations_kept_upd annotations_kept_upd])

lemma step_not_injected:
  "(i, n) \<in> set outcome_keys \<Longrightarrow> request_step F r (r\<lparr>brPod := set_not_injected i n x (brPod r)\<rparr>)"
  unfolding set_not_injected_def
  by (rule step_annotations, rule same_exclusions_trans[OF same_exclusions_upd same_exclusions_upd])
    (auto dest: outcome_keys_unrelated outcome_names_of intro!: annotations_kept_trans[OF annotations_kept_upd annotations_kept_upd])

section \<open>Errors of the mutators\<close>

text \<open>Every error a mutator raises annotates the pod with one pair of keys and does nothing else.\<close>

definition outcome_error :: "handler_error \<Rightarrow> bool" where
  "outcome_error e \<longleftrightarrow>
     (\<exists>err i n x. (i, n) \<in> set outcome_keys \<and> e = MutatorError err (set_not_injected i n x))"

lemma outcome_errorI: "(i, n) \<in> set outcome_keys \<Longrightarrow> outcome_error (MutatorError err (set_not_injected i n x))"
  by (auto simp: outcome_error_def)

lemma outcome_oneagent [simp]: "outcome_error (MutatorError err (oa_setNotInjected x))"
  unfolding oa_setNotInjected_def by (rule outcome_errorI) (simp add: outcome_keys_def)

lemma outcome_otlp [simp]: "outcome_error (MutatorError err (otlp_setNotInjected x))"
  unfolding otlp_setNotInjected_def by (rule outcome_errorI) (simp add: outcome_keys_def)

lemma outcome_metadata [simp]: "outcome_error (MutatorError err (set_not_injected MetaInjected MetaReason x))"
  by (rule outcome_errorI) (simp add: outcome_keys_def)

lemma outcome_dynatrace [simp]: "outcome_error (MutatorError err (set_not_injected DTInjected DTReason x))"
  by (rule outcome_errorI) (simp add: outcome_keys_def)

lemma outcome_volume [simp]: "outcome_error (volume_not_injected v)"
  unfolding volume_not_injected_def by (rule outcome_errorI) (simp add: outcome_keys_def)

definition adds_volume :: "pod \<Rightarrow> handler_error + pod \<Rightarrow> bool" where
  "adds_volume pod m =
     (case m of Inl e \<Rightarrow> outcome_error e | Inr p \<Rightarrow> p = pod \<or> (\<exists>v. p = add_volume v pod))"

lemma adds_config_volume: "adds_volume pod (AddConfigVolume env pod)"
  by (auto simp: adds_volume_def AddConfigVolume_def split: option.split)

lemma adds_input_volume: "adds_volume pod (AddInputVolume pod)"
  by (auto simp: adds_volume_def AddInputVolume_def split: option.split)

lemma adds_empty_bin_volume: "adds_volume pod (addEmptyDirBinVolume env pod)"
  by (auto simp: adds_volume_def addEmptyDirBinVolume_def bin_volume_conflict_def split: option.split)

lemma adds_csi_bin_volume: "adds_volume pod (addCSIBinVolume n t pod)"
  by (auto simp: adds_volume_def addCSIBinVolume_def bin_volume_conflict_def split: option.split)

section \<open>The mutators are steps\<close>

definition sound :: "(string \<Rightarrow> bool) \<Rightarrow> base_request \<Rightarrow> ('r \<Rightarrow> base_request) \<Rightarrow> handler_error + 'r \<Rightarrow> bool" where
  "sound F r0 base m = (case m of Inl e \<Rightarrow> outcome_error e | Inr r \<Rightarrow> request_step F r0 (base r))"

lemma sound_Inl [simp]: "sound F r0 base (Inl e) \<longleftrightarrow> outcome_error e"
  by (simp add: sound_def)

lemma sound_Inr [simp]: "sound F r0 base (Inr r) \<longleftrightarrow> request_step F r0 (base r)"
  by (simp add: sound_def)

lemma sound_after: "request_step F r0 r1 \<Longrightarrow> sound F r1 base m \<Longrightarrow> sound F r0 base m"
  by (auto simp: sound_def intro: request_step_trans split: sum.splits)

lemma mrBase_set_install [simp]: "mrBase (set_install f r) = mrBase r"
  by (simp add: set_install_def)

lemma mrBase_set_pod [simp]: "mrBase (set_pod f r) = (mrBase r)\<lparr>brPod := f (mr_pod r)\<rparr>"
  by (simp add: set_pod_def)

lemma mr_install_set_pod [simp]: "mrInstallContainer (set_pod f r) = mrInstallContainer r"
  by (simp add: set_pod_def)

lemma mr_install_set_install [simp]: "mrInstallContainer (set_install f r) = f (mrInstallContainer r)"
  by (simp add: set_install_def)

lemma step_meta_injected: "request_step F r (r\<lparr>brPod := set_injected MetaInjected MetaReason (brPod r)\<rparr>)"
  by (rule step_injected) (simp add: outcome_keys_def)

lemma step_oa_injected: "request_step F r (r\<lparr>brPod := set_injected OAInjected OAReason (brPod r)\<rparr>)"
  by (rule step_injected) (simp add: outcome_keys_def)

lemma step_container_attributes:
  "stays env F r \<Longrightarrow> AddContainerAttributes env r = (u, args, base) \<Longrightarrow> request_step F r base"
  by (auto simp: AddContainerAttributes_def Let_def extends_config_mount intro: step_update_new split: if_splits)

lemma sound_meta:
  assumes ok: "stays env F (mrBase r)"
  shows "sound F (mrBase r) mrBase (meta_Mutate env r)"
proof -
  let ?marked = "(mrBase r)\<lparr>brPod := set_injected MetaInjected MetaReason (mr_pod r)\<rparr>"
  have step: "request_step F (mrBase r) ?marked" by (rule step_meta_injected)
  obtain u args base where add: "AddContainerAttributes env ?marked = (u, args, base)" by (metis prod_cases3)
  then have "request_step F ?marked base"
    by (rule step_container_attributes[OF stays_step[OF ok step]])
  with step have "request_step F (mrBase r) base" by (rule request_step_trans)
  then show ?thesis
    by (simp add: meta_Mutate_def Let_def add split: sum.split)
qed

lemma step_user_containers:
  "stays env F r \<Longrightarrow> request_step F r (snd (mutateUserContainers env path r))"
  by (auto simp: mutateUserContainers_def extends_oneagent intro: step_update_new)

lemma addInitArgs_error: "addInitArgs env pod dk path c = Inl e \<Longrightarrow> outcome_error e"
  by (auto simp: addInitArgs_def Let_def split: if_splits sum.splits)

lemma validateInstallPath_error: "validateInstallPath p = Some e \<Longrightarrow> outcome_error e"
  by (auto simp: validateInstallPath_def split: if_splits)

lemma step_adds_volume: "adds_volume (brPod r) (Inr p) \<Longrightarrow> request_step F r (r\<lparr>brPod := p\<rparr>)"
  by (auto simp: adds_volume_def intro: step_volume)

lemma sound_with_volume:
  assumes "adds_volume (mr_pod r) m"
    and "\<And>p. adds_volume (mr_pod r) (Inr p) \<Longrightarrow> sound F (mrBase r) mrBase (k p)"
  shows "sound F (mrBase r) mrBase (case m of Inl e \<Rightarrow> Inl e | Inr p \<Rightarrow> k p)"
  using assms by (cases m) (auto simp: adds_volume_def)

lemma sound_finish_init:
  "adds_volume (mr_pod r) (Inr p) \<Longrightarrow>
   sound F (mrBase r) mrBase
     (case addInitArgs env p dk path c of
        Inl e \<Rightarrow> Inl e | Inr c' \<Rightarrow> Inr (set_install (\<lambda>_. c') (set_pod (\<lambda>_. p) r)))"
  by (auto dest: addInitArgs_error intro: step_adds_volume split: sum.split)

lemma sound_init: "sound F (mrBase r) mrBase (mutateInitContainer env path r)"
  unfolding mutateInitContainer_def Let_def
  by (auto intro!: sound_with_volume adds_csi_bin_volume adds_empty_bin_volume sound_finish_init)

lemma sound_oneagent:
  assumes ok: "stays env F (mrBase r)"
  shows "sound F (mrBase r) mrBase (oa_Mutate env r)"
proof (cases "mutateInitContainer env (installPath_of (mr_pod r)) r")
  case (Inl e)
  with sound_init[of F r env "installPath_of (mr_pod r)"] show ?thesis
    by (auto simp: oa_Mutate_def Let_def dest: validateInstallPath_error split: option.split)
next
  case (Inr r1)
  let ?path = "installPath_of (mr_pod r)"
  have step: "request_step F (mrBase r) (mrBase r1)"
    using sound_init[of F r env ?path] Inr by simp
  let ?b = "snd (mutateUserContainers env ?path (mrBase r1))"
  have "request_step F (mrBase r1) ?b" by (rule step_user_containers[OF stays_step[OF ok step]])
  with step have "request_step F (mrBase r) (?b\<lparr>brPod := set_injected OAInjected OAReason (brPod ?b)\<rparr>)"
    by (blast intro: request_step_trans step_oa_injected)
  then show ?thesis
    using Inr by (auto simp: oa_Mutate_def Let_def case_prod_beta dest: validateInstallPath_error split: option.split)
qed

section \<open>The init container keeps its name and security context\<close>

definition same_frame :: "pod_container \<Rightarrow> pod_container \<Rightarrow> bool" where
  "same_frame c c' \<longleftrightarrow> pcName c' = pcName c \<and> pcSecurityContext c' = pcSecurityContext c"

lemma same_frame_simps [simp]:
  "same_frame c c" "same_frame c (add_args as c') = same_frame c c'" "same_frame c (add_env es c') = same_frame c c'"
  "same_frame c (add_mounts ms c') = same_frame c c'" "same_frame c (c'\<lparr>pcResources := x\<rparr>) = same_frame c c'"
  "same_frame c (c'\<lparr>pcArgs := y, pcImage := i\<rparr>) = same_frame c c'"
  "same_frame c (addInitBinMount b c') = same_frame c c'"
  by (auto simp: same_frame_def add_args_def add_env_def add_mounts_def addInitBinMount_def)

lemma meta_frame:
  "meta_Mutate env r = Inr r' \<Longrightarrow> same_frame c (mrInstallContainer r) \<Longrightarrow> same_frame c (mrInstallContainer r')"
  by (auto simp: meta_Mutate_def Let_def set_install_def set_pod_def split: sum.splits prod.splits)

lemma addInitArgs_frame: "addInitArgs env pod dk path c = Inr c' \<Longrightarrow> same_frame c0 c \<Longrightarrow> same_frame c0 c'"
  by (auto simp: addInitArgs_def Let_def split: if_splits sum.splits)

lemma download_frame [simp]: "same_frame c (download_init env pod dk c') = same_frame c c'"
  by (simp add: download_init_def Let_def)

definition keeps_frame :: "pod_container \<Rightarrow> handler_error + mutation_request \<Rightarrow> bool" where
  "keeps_frame c m \<longleftrightarrow> (\<forall>r'. m = Inr r' \<longrightarrow> same_frame c (mrInstallContainer r'))"

lemma keeps_frame_Inl [simp]: "keeps_frame c (Inl e)"
  by (simp add: keeps_frame_def)

lemma keeps_frame_case: "(\<And>p. keeps_frame c (k p)) \<Longrightarrow> keeps_frame c (case m of Inl e \<Rightarrow> Inl e | Inr p \<Rightarrow> k p)"
  by (cases m) simp_all

lemma keeps_frame_finish:
  "same_frame c0 c \<Longrightarrow>
   keeps_frame c0
     (case addInitArgs env pod dk path c of
        Inl e \<Rightarrow> Inl e | Inr c' \<Rightarrow> Inr (set_install (\<lambda>_. c') (set_pod (\<lambda>_. pod) r)))"
  by (cases "addInitArgs env pod dk path c") (auto simp: keeps_frame_def intro: addInitArgs_frame)

lemma init_frame:
  "same_frame c (mrInstallContainer r) \<Longrightarrow> keeps_frame c (mutateInitContainer env path r)"
  unfolding mutateInitContainer_def Let_def
  by (intro impI conjI keeps_frame_Inl keeps_frame_case keeps_frame_finish
      if_split[of "keeps_frame c", THEN iffD2])
    (simp_all split: option.split)

lemma oa_frame:
  "oa_Mutate env r = Inr r' \<Longrightarrow> same_frame c (mrInstallContainer r) \<Longrightarrow> same_frame c (mrInstallContainer r')"
  using init_frame[of c r env "installPath_of (mr_pod r)"]
  by (auto simp: oa_Mutate_def Let_def keeps_frame_def split: option.splits sum.splits prod.splits)

lemma map_sum_eq_Inr: "map_sum id f m = Inr x \<longleftrightarrow> (\<exists>y. m = Inr y \<and> x = f y)"
  by (cases m) auto

lemma map_sum_eq_Inl: "map_sum id f m = Inl e \<longleftrightarrow> m = Inl e"
  by (cases m) auto

lemma run_mutators_frame:
  "run_mutators env r = Inr (m, r') \<Longrightarrow> same_frame (mrInstallContainer r) (mrInstallContainer r')"
  by (auto simp: run_mutators_def Let_def map_sum_eq_Inr map_sum_eq_Inl split: if_splits sum.splits)
    (blast intro: meta_frame oa_frame same_frame_simps(1))+

section \<open>The injection handler is a step\<close>

lemma sound_run_mutators:
  assumes ok: "stays env F (mrBase r)"
  shows "sound F (mrBase r) (\<lambda>(_, r'). mrBase r') (run_mutators env r)"
proof -
  let ?m = "if meta_mutator_IsEnabled env (mrBase r) \<or> oa_mutator_IsEnabled env (mrBase r)
            then map_sum id (\<lambda>r. (True, r)) (meta_Mutate env r) else Inr (False, r)"
  show ?thesis
  proof (cases ?m)
    case (Inl e)
    then have "outcome_error e"
      using sound_meta[OF ok] by (auto split: if_splits simp: map_sum_eq_Inl)
    with Inl show ?thesis by (simp add: run_mutators_def Let_def)
  next
    case (Inr p)
    obtain m r1 where p: "p = (m, r1)" by (cases p)
    have step: "request_step F (mrBase r) (mrBase r1)"
      using Inr p sound_meta[OF ok] by (auto split: if_splits simp: map_sum_eq_Inr)
    have "sound F (mrBase r1) mrBase (oa_Mutate env r1)"
      by (rule sound_oneagent[OF stays_step[OF ok step]])
    then have "sound F (mrBase r) mrBase (oa_Mutate env r1)" by (rule sound_after[OF step])
    with step Inr p show ?thesis
      by (cases "oa_Mutate env r1") (simp_all add: run_mutators_def Let_def)
  qed
qed

lemma same_frame_input [simp]: "same_frame c (AddInitInputVolumeMount c') = same_frame c c'"
  by (simp add: AddInitInputVolumeMount_def)

lemma same_frame_config [simp]: "same_frame c (AddInitConfigVolumeMount c') = same_frame c c'"
  by (simp add: AddInitConfigVolumeMount_def)

lemma pod_extends_init:
  "pcName c = InstallContainerName \<Longrightarrow> pod_extends F p (p\<lparr>pdInitContainers := pdInitContainers p @ [c]\<rparr>)"
  by (simp add: pod_extends_def inits_extend_add)

lemma step_init:
  "pcName c = InstallContainerName \<Longrightarrow>
   request_step F r (r\<lparr>brPod := (brPod r)\<lparr>pdInitContainers := pdInitContainers (brPod r) @ [c]\<rparr>\<rparr>)"
  by (rule request_step_pod) (simp_all add: pod_extends_init)

lemma added_init_container:
  assumes "addInitContainerToPod env c pod = Inr pod'"
  obtains p2 c' where "pod' = p2\<lparr>pdInitContainers := pdInitContainers p2 @ [c']\<rparr>" "same_frame c c'"
    "\<And>F r. brPod r = pod \<Longrightarrow> request_step F r (r\<lparr>brPod := p2\<rparr>)" "pdInitContainers p2 = pdInitContainers pod"
proof -
  obtain p1 where p1: "AddInputVolume pod = Inr p1"
    using assms by (auto simp: addInitContainerToPod_def Let_def split: sum.splits)
  obtain p2 where p2: "AddConfigVolume env p1 = Inr p2"
    using assms p1 by (auto simp: addInitContainerToPod_def Let_def split: sum.splits)
  let ?c = "AddInitInputVolumeMount (AddInitConfigVolumeMount c)"
  have a1: "adds_volume pod (Inr p1)" using adds_input_volume[of pod] p1 by simp
  have a2: "adds_volume p1 (Inr p2)" using adds_config_volume[of p1 env] p2 by simp
  have "request_step F r (r\<lparr>brPod := p2\<rparr>)" if "brPod r = pod" for F r
    using step_adds_volume[of r p1 F] step_adds_volume[of "r\<lparr>brPod := p1\<rparr>" p2 F] a1 a2 that
    by (auto intro: request_step_trans)
  moreover have "pdInitContainers p2 = pdInitContainers pod"
    using a1 a2 by (auto simp: adds_volume_def add_volume_def)
  moreover have "pod' = p2\<lparr>pdInitContainers := pdInitContainers p2 @ [?c]\<rparr>"
    using assms p1 p2 by (simp add: addInitContainerToPod_def Let_def)
  ultimately show thesis using that[of p2 ?c] by simp
qed

lemma adds_volume_Inl: "adds_volume pod (Inl e) \<longleftrightarrow> outcome_error e"
  by (simp add: adds_volume_def)

lemma add_init_error: "addInitContainerToPod env c pod = Inl e \<Longrightarrow> outcome_error e"
  using adds_input_volume[of pod] adds_config_volume[of "projr (AddInputVolume pod)" env]
  by (auto simp: addInitContainerToPod_def Let_def adds_volume_Inl split: sum.splits)

definition hook_step :: "(string \<Rightarrow> bool) \<Rightarrow> hook_state \<Rightarrow> hook_state \<Rightarrow> bool" where
  "hook_step F st st' \<longleftrightarrow> request_step F (hk_base st) (hk_base st')"

lemma hook_step_refl [simp]: "hook_step F st st"
  by (simp add: hook_step_def)

lemma hook_step_trans: "hook_step F a b \<Longrightarrow> hook_step F b c \<Longrightarrow> hook_step F a c"
  unfolding hook_step_def by (rule request_step_trans)

lemma on_pod_base [simp]: "hk_base (on_pod f st) = (hk_base st)\<lparr>brPod := f (hk_pod st)\<rparr>"
  by (simp add: on_pod_def on_request_def)

lemma event_base [simp]: "hkRequest (send_event e st) = hkRequest st"
  by (simp add: send_event_def)

lemma pod_event_base [simp]:
  "hkRequest (SendPodInjectEvent st) = hkRequest st" "hkRequest (SendPodUpdateEvent st) = hkRequest st"
  by (simp_all add: SendPodInjectEvent_def SendPodUpdateEvent_def)

lemma step_mark: "(i, n) \<in> set outcome_keys \<Longrightarrow> hook_step F st (on_pod (set_injected i n) st)"
  by (simp add: hook_step_def step_injected)

lemma step_unmark: "(i, n) \<in> set outcome_keys \<Longrightarrow> hook_step F st (on_pod (set_not_injected i n x) st)"
  by (simp add: hook_step_def step_not_injected)

lemma outcome_members [simp]:
  "(DTInjected, DTReason) \<in> set outcome_keys" "(OTLPInjected, OTLPReason) \<in> set outcome_keys"
  by (simp_all add: outcome_keys_def)

lemma step_secret:
  assumes "secret_present env a b i n x st = (present, st')" and "(i, n) \<in> set outcome_keys"
  shows "hook_step F st st'"
proof -
  have "hook_step F (st\<lparr>hkQuery := q\<rparr>) (on_pod (set_not_injected i n x) (st\<lparr>hkQuery := q\<rparr>))" for q
    using assms(2) by (rule step_unmark)
  then show ?thesis
    using assms(1) by (auto simp: secret_present_def hook_step_def Let_def split: prod.splits sum.splits)
qed

lemma step_input_secret: "isInputSecretPresent env a b st = (present, st') \<Longrightarrow> hook_step F st st'"
  unfolding isInputSecretPresent_def by (erule step_secret) simp

lemma inits_extend_args:
  "inits_extend cs (update_first (\<lambda>c. pcName c = InstallContainerName) (add_args args) cs)"
proof -
  have "list_all2 init_extends cs (update_first (\<lambda>c. pcName c = InstallContainerName) (add_args args) cs)"
    by (induction cs) (auto simp: init_extends_def add_args_def list.rel_refl_strong)
  then show ?thesis by (simp add: inits_extend_def list_all2_lengthD[symmetric])
qed

lemma step_extend_init: "request_step F r (r\<lparr>brPod := extend_init args (brPod r)\<rparr>)"
  by (rule request_step_pod) (simp_all add: extend_init_def pod_extends_def inits_extend_args)

lemma step_oa_reinvoke: "stays env F r \<Longrightarrow> request_step F r (snd (oa_Reinvoke env r))"
  by (simp add: oa_Reinvoke_def Let_def step_user_containers)

lemma step_reinvocation:
  assumes ok: "stays env F (hk_base st)"
  shows "hook_step F st (snd (handlePodReinvocation env st))"
proof -
  obtain u args base where add: "AddContainerAttributes env (hk_base st) = (u, args, base)" by (metis prod_cases3)
  let ?b1 = "base\<lparr>brPod := extend_init args (brPod base)\<rparr>"
  have "request_step F (hk_base st) base" by (rule step_container_attributes[OF ok add])
  then have step: "request_step F (hk_base st) ?b1" by (blast intro: request_step_trans step_extend_init)
  have "request_step F ?b1 (snd (oa_Reinvoke env ?b1))" by (rule step_oa_reinvoke[OF stays_step[OF ok step]])
  then have "request_step F (hk_base st) (snd (oa_Reinvoke env ?b1))" by (rule request_step_trans[OF step])
  with step show ?thesis
    by (simp add: handlePodReinvocation_def add Let_def hook_step_def on_request_def on_pod_def case_prod_beta)
qed

lemma sound_mutation:
  assumes ok: "stays env F (hk_base st)"
  shows "sound F (hk_base st) (\<lambda>(_, st'). hk_base st') (handlePodMutation env st)"
proof -
  let ?r0 = "(hkRequest st)\<lparr>mrInstallContainer := createInitContainerBase env (hk_pod st) (hk_dk st)\<rparr>"
  have sound0: "sound F (hk_base st) (\<lambda>(_, r'). mrBase r') (run_mutators env ?r0)"
    using sound_run_mutators[of env F ?r0] ok by simp
  show ?thesis
  proof (cases "run_mutators env ?r0")
    case (Inl e)
    with sound0 show ?thesis by (simp add: handlePodMutation_def Let_def)
  next
    case (Inr p)
    obtain m r1 where p: "p = (m, r1)" by (cases p)
    have step: "request_step F (hk_base st) (mrBase r1)" using sound0 Inr p by simp
    have name: "pcName (mrInstallContainer r1) = InstallContainerName"
      using run_mutators_frame[of env ?r0 m r1] Inr p by (simp add: same_frame_def createInitContainerBase_def Let_def)
    show ?thesis
    proof (cases "addInitContainerToPod env (mrInstallContainer r1) (mr_pod r1)")
      case (Inl e)
      with \<open>run_mutators env ?r0 = Inr p\<close> p step show ?thesis
        by (auto simp: handlePodMutation_def Let_def dest: add_init_error)
    next
      case (Inr pod)
      obtain p2 c where pod: "pod = p2\<lparr>pdInitContainers := pdInitContainers p2 @ [c]\<rparr>"
        and frame: "same_frame (mrInstallContainer r1) c"
        and step2: "\<And>F r. brPod r = mr_pod r1 \<Longrightarrow> request_step F r (r\<lparr>brPod := p2\<rparr>)"
        by (rule added_init_container[OF Inr]) blast
      have "request_step F ((mrBase r1)\<lparr>brPod := p2\<rparr>) ((mrBase r1)\<lparr>brPod := pod\<rparr>)"
        using step_init[of c F "(mrBase r1)\<lparr>brPod := p2\<rparr>"] frame name pod by (simp add: same_frame_def)
      then have "request_step F (hk_base st) ((mrBase r1)\<lparr>brPod := pod\<rparr>)"
        using step step2[of "mrBase r1" F] by (blast intro: request_step_trans)
      with \<open>run_mutators env ?r0 = Inr p\<close> p Inr step show ?thesis
        by (simp add: handlePodMutation_def Let_def)
    qed
  qed
qed

text \<open>An effect is sound when its error is an outcome and its state a step.\<close>

definition effect_sound :: "(string \<Rightarrow> bool) \<Rightarrow> hook_state \<Rightarrow> handler_error option \<times> hook_state \<Rightarrow> bool" where
  "effect_sound F st m \<longleftrightarrow>
     hook_step F st (snd m) \<and> (case fst m of None \<Rightarrow> True | Some e \<Rightarrow> outcome_error e)"

lemma effect_sound_ok [simp]: "effect_sound F st (None, st') \<longleftrightarrow> hook_step F st st'"
  by (simp add: effect_sound_def)

lemma effect_sound_after: "hook_step F st st1 \<Longrightarrow> effect_sound F st1 m \<Longrightarrow> effect_sound F st m"
  by (auto simp: effect_sound_def intro: hook_step_trans)

lemma as_effect_sound: "sound F (hk_base st) hk_base (f st) \<Longrightarrow> effect_sound F st (as_effect f st)"
  by (cases "f st") (auto simp: as_effect_def effect_sound_def hook_step_def)

lemma stays_hook_step: "stays env F (hk_base st) \<Longrightarrow> hook_step F st st' \<Longrightarrow> stays env F (hk_base st')"
  unfolding hook_step_def by (rule stays_step)

lemma sound_inject_pod:
  assumes ok: "stays env F (hk_base st)"
  shows "sound F (hk_base st) hk_base (inject_pod env st)"
proof (cases "isInjected (hk_pod st)")
  case True
  then show ?thesis
    using step_reinvocation[OF ok]
    by (cases "handlePodReinvocation env st") (simp add: inject_pod_def hook_step_def)
next
  case False
  show ?thesis
  proof (cases "handlePodMutation env st")
    case (Inl e)
    with sound_mutation[OF ok] False show ?thesis by (simp add: inject_pod_def)
  next
    case (Inr p)
    obtain m st1 where p: "p = (m, st1)" by (cases p)
    have "hook_step F st st1" using sound_mutation[OF ok] Inr p by (simp add: hook_step_def)
    then have "hook_step F st (on_pod (set_injected DTInjected DTReason) st1)"
      and "hook_step F st (on_pod (set_not_injected DTInjected DTReason x) st1)" for x
      by (blast intro: hook_step_trans step_mark step_unmark outcome_members)+
    with Inr p False show ?thesis by (simp add: inject_pod_def hook_step_def)
  qed
qed

lemma effect_inject_pod: "stays env F (hk_base st) \<Longrightarrow> effect_sound F st (as_effect (inject_pod env) st)"
  by (intro as_effect_sound sound_inject_pod)

lemma sound_injection:
  assumes ok: "stays env F (hk_base st)"
  shows "effect_sound F st (injection_Handle env st)"
proof -
  let ?dk = "hk_dk st"
  obtain b1 st1 where s1: "isInputSecretPresent env (dkName ?dk @ ''-bootstrapper-config'') BootstrapperInitSecretName st = (b1, st1)"
    by (metis surj_pair)
  obtain b2 st2 where s2: "isInputSecretPresent env (dkName ?dk @ ''-bootstrapper-certs'') BootstrapperInitCertsSecretName st1 = (b2, st2)"
    by (metis surj_pair)
  have h1: "hook_step F st st1" using s1 by (rule step_input_secret)
  have h2: "hook_step F st st2" using s2 by (blast intro: hook_step_trans h1 step_input_secret)
  have "effect_sound F st (as_effect (inject_pod env) st1)" "effect_sound F st (as_effect (inject_pod env) st2)"
    using h1 h2 ok by (blast intro: effect_sound_after effect_inject_pod stays_hook_step)+
  then show ?thesis
    using h1 h2 s1 s2 by (cases b1; cases b2) (simp_all add: injection_Handle_def Let_def)
qed

end
