(* ===== verification/PodGuarantees.thy ===== *)
theory PodGuarantees
  imports PodLaws
begin

text \<open>
  The OTLP handler keeps the contract of \<open>PodLaws\<close>, and with it the webhook: what its answers may change
  in a pod, and what they change when something fails.
\<close>

section \<open>OTLP\<close>

lemma literal_managed:
  "n \<in> set exporter_envs \<Longrightarrow> container_extends c (addEnvVarLiteralValue n v c)"
  by (auto simp: addEnvVarLiteralValue_def env_literal_def managed_envs_def
      intro!: extends_set_env env_kept_AddOrUpdate)

lemma extends_trace: "container_extends c (snd (trace_Inject cfg url cert c))"
  by (auto simp: trace_Inject_def Let_def exporter_envs_def
      intro!: container_extends_trans[OF _ literal_managed] container_extends_refl)

lemma extends_metrics: "container_extends c (snd (metrics_Inject cfg url cert c))"
  by (auto simp: metrics_Inject_def Let_def exporter_envs_def
      intro!: container_extends_trans[OF _ literal_managed] container_extends_refl)

lemma extends_logs: "container_extends c (snd (logs_Inject cfg url cert c))"
  by (auto simp: logs_Inject_def Let_def exporter_envs_def
      intro!: container_extends_trans[OF _ literal_managed] container_extends_refl)

lemma env_kept_no_proxy: "env_kept es (k8senv_AddOrUpdate es (env_literal NoProxyEnv v))"
  by (auto simp: k8senv_AddOrUpdate_def env_literal_def intro!: env_kept_update_first)

lemma extends_no_proxy: "container_extends c (snd (noProxy_Inject dk url cert c))"
  by (auto simp: noProxy_Inject_def Let_def env_kept_no_proxy split: option.split
      intro!: extends_set_env env_kept_update_first)

lemma extends_injectors:
  assumes "\<And>f c. f \<in> set injs \<Longrightarrow> container_extends c (snd (f url cert c))"
  shows "container_extends c (snd (run_injectors injs url cert c))"
proof -
  have "container_extends c0 (snd (fold (\<lambda>inj (mutated, c'). let (changed, c'') = inj url cert c'
            in (changed \<or> mutated, c'')) injs (b, c0)))" for b c0
    using assms
  proof (induction injs arbitrary: b c0)
    case (Cons f fs)
    obtain ch c1 where f: "f url cert c0 = (ch, c1)" by (metis surj_pair)
    have "container_extends c0 c1" using Cons.prems[of f c0] f by simp
    moreover have "container_extends c1 (snd (fold (\<lambda>inj (mutated, c'). let (changed, c'') = inj url cert c'
            in (changed \<or> mutated, c'')) fs (ch \<or> b, c1)))"
      using Cons.prems by (intro Cons.IH) simp
    ultimately show ?case using f by (simp add: container_extends_trans)
  qed simp
  then show ?thesis by (simp add: run_injectors_def)
qed

lemma extends_exporter_container: "container_extends c (snd (exporter_container env req url c))"
proof -
  let ?dk = "brDynaKube req"
  let ?c1 = "if shouldAddCertificate ?dk then ensureCertificateVolumeMounted c else c"
  let ?c2 = "?c1\<lparr>pcEnv := k8senv_AddOrUpdate (pcEnv ?c1) dtAPITokenEnvVar\<rparr>"
  have "container_extends c ?c1" by (simp add: ensureCertificateVolumeMounted_def)
  moreover have "container_extends ?c1 ?c2"
    by (intro extends_set_env env_kept_AddOrUpdate) (simp add: dtAPITokenEnvVar_def managed_envs_def)
  moreover have "container_extends ?c2 (snd (run_injectors (exporter_injectors ?dk) url (shouldAddCertificate ?dk) ?c2))"
    by (rule extends_injectors)
      (auto simp: exporter_injectors_def Let_def extends_trace extends_metrics extends_logs extends_no_proxy)
  ultimately have "container_extends c (snd (run_injectors (exporter_injectors ?dk) url (shouldAddCertificate ?dk) ?c2))"
    by (blast intro: container_extends_trans)
  then show ?thesis unfolding exporter_container_def Let_def
    by (rule if_split[of "\<lambda>p. container_extends c (snd p)", THEN iffD2, OF conjI[rotated], OF impI]) simp
qed

lemma exporter_container_excluded: "excluded env req c \<Longrightarrow> exporter_container env req url c = (False, c)"
  by (simp add: exporter_container_def shouldSkipContainer_def Let_def)

lemma step_exporter_containers:
  assumes "stays env F r"
  shows "request_step F r (r\<lparr>brPod := (brPod r)\<lparr>pdContainers := map snd (map (exporter_container env r url) (pdContainers (brPod r)))\<rparr>\<rparr>)"
  using stays_excluded[OF assms]
  by (intro request_step_pod pod_extends_containers)
    (auto intro!: containers_extend_map simp: extends_exporter_container exporter_container_excluded)

lemma cert_volume: "addActiveGateCertVolume dk pod = (err, pod') \<Longrightarrow>
   (pod' = pod \<or> (\<exists>v. pod' = add_volume v pod)) \<and> (case err of None \<Rightarrow> True | Some e \<Rightarrow> outcome_error e)"
  by (auto simp: addActiveGateCertVolume_def split: if_splits option.splits)

lemma exporter_step:
  assumes ok: "stays env F r" and run: "exporter_mutate env r = (m, err, r')"
  shows "request_step F r r'" "case err of None \<Rightarrow> True | Some e \<Rightarrow> outcome_error e"
proof -
  have "request_step F r r' \<and> (case err of None \<Rightarrow> True | Some e \<Rightarrow> outcome_error e)"
  proof (cases "otlp_IsEnabled (dk_OTLPExporterConfiguration (brDynaKube r))")
    case True
    show ?thesis
    proof (cases "BuildOTLPEndpoint env (brDynaKube r)")
      case (Inl e)
      with True run show ?thesis by (auto simp: exporter_mutate_def Let_def)
    next
      case (Inr url)
      let ?rs = "map (exporter_container env r url) (pdContainers (brPod r))"
      let ?pod = "(brPod r)\<lparr>pdContainers := map snd ?rs\<rparr>"
      have step: "request_step F r (r\<lparr>brPod := ?pod\<rparr>)" by (rule step_exporter_containers[OF ok])
      then have volume: "request_step F r (r\<lparr>brPod := add_volume v ?pod\<rparr>)" for v
        using step_volume[of F "r\<lparr>brPod := ?pod\<rparr>" v] by (auto intro: request_step_trans)
      show ?thesis
        using True Inr run step volume
        by (auto simp: exporter_mutate_def Let_def dest: cert_volume split: if_splits prod.splits)
    qed
  qed (use run in \<open>simp add: exporter_mutate_def Let_def\<close>)
  then show "request_step F r r'" "case err of None \<Rightarrow> True | Some e \<Rightarrow> outcome_error e" by auto
qed

lemma extends_fold_pair:
  "(\<And>x b c. container_extends c (snd (f x (b, c)))) \<Longrightarrow> container_extends c (snd (fold f xs (b, c)))"
proof (induction xs arbitrary: b c)
  case (Cons x xs)
  obtain b1 c1 where f: "f x (b, c) = (b1, c1)" by (metis surj_pair)
  have "container_extends c c1" using Cons.prems[of c x b] f by simp
  moreover have "container_extends c1 (snd (fold f xs (b1, c1)))" by (rule Cons.IH[OF Cons.prems])
  ultimately show ?case using f by (simp add: container_extends_trans)
qed simp

lemma extends_env_sources: "container_extends c (snd (ensureEnvVarSourcesSet es c))"
  unfolding ensureEnvVarSourcesSet_def
  by (rule extends_fold_pair) (auto simp: k8senv_Append_def intro!: extends_set_env)

lemma env_kept_without: "n \<in> set managed_envs \<Longrightarrow> env_kept es (filter (\<lambda>e. evName e \<noteq> n) es)"
  by (auto simp: env_kept_def)

lemma extends_resource: "addResourceAttributes env attrs c = (m, attrs', c') \<Longrightarrow> container_extends c c'"
proof -
  assume run: "addResourceAttributes env attrs c = (m, attrs', c')"
  obtain existing ok where e: "NewAttributesFromEnv (pcEnv c) OTelResourceAttributesEnv = (existing, ok)"
    by (metis surj_pair)
  let ?c1 = "if ok then c\<lparr>pcEnv := filter (\<lambda>e. evName e \<noteq> OTelResourceAttributesEnv) (pcEnv c)\<rparr> else c"
  obtain added c2 where c2: "ensureEnvVarSourcesSet (paPodEnvVars (SetCustomAttributes existing attrs)) ?c1 = (added, c2)"
    by (metis surj_pair)
  have "container_extends c ?c1"
    by (auto intro!: extends_set_env env_kept_without simp: managed_envs_def)
  moreover have "container_extends ?c1 c2"
    using extends_env_sources[of ?c1 "paPodEnvVars (SetCustomAttributes existing attrs)"] c2 by simp
  moreover have "c' = c2 \<or> (\<exists>es. c' = add_env es c2)"
    using run e c2 by (auto simp: addResourceAttributes_def Let_def split: if_splits)
  ultimately show "container_extends c c'" by (auto intro: container_extends_trans)
qed

lemma resource_containers:
  "(\<And>c. F (pcName c) \<Longrightarrow> excluded env req c) \<Longrightarrow>
   \<exists>m' a' outs. fold (resource_step env req) cs (m, a, done) = (m', a', done @ outs) \<and> containers_extend F cs outs"
proof (induction cs arbitrary: m a "done")
  case (Cons c cs)
  show ?case
  proof (cases "excluded env req c")
    case True
    then show ?thesis using Cons.IH[OF Cons.prems, of m a "done @ [c]"]
      by (auto simp: resource_step_def containers_extend_def)
  next
    case False
    obtain m1 a1 c1 where r: "addResourceAttributes env a c = (m1, a1, c1)" by (metis prod_cases3)
    with False show ?thesis
      using Cons.IH[OF Cons.prems, of "m1 \<or> m" a1 "done @ [c1]"] Cons.prems[of c] extends_resource[OF r]
      by (auto simp: resource_step_def containers_extend_def)
  qed
qed (simp add: containers_extend_def)

lemma sound_resource:
  assumes ok: "stays env F (mrBase r)"
  shows "sound F (mrBase r) (\<lambda>(_, r'). mrBase r') (resource_mutate env r)"
proof (cases "NewPodAttributes env (mrBase r)")
  case (Inl e)
  then show ?thesis by (simp add: resource_mutate_def)
next
  case (Inr attrs0)
  let ?attrs = "SetDynakubeAttributes env (otlp_GetResourceAttributes (dk_OTLPExporterConfiguration (mr_dk r))) attrs0"
  obtain m a outs where run:
    "fold (resource_step env (mrBase r)) (pdContainers (mr_pod r)) (False, ?attrs, []) = (m, a, outs)"
    "containers_extend F (pdContainers (mr_pod r)) outs"
    using resource_containers[of F env "mrBase r" "pdContainers (mr_pod r)" False ?attrs "[]"] stays_excluded[OF ok]
    by auto
  then have "request_step F (mrBase r) ((mrBase r)\<lparr>brPod := (mr_pod r)\<lparr>pdContainers := outs\<rparr>\<rparr>)"
    by (intro request_step_pod pod_extends_containers) simp_all
  with Inr run(1) show ?thesis by (simp add: resource_mutate_def Let_def)
qed

lemma step_otlp_reinvoke:
  assumes ok: "stays env F (mrBase r)"
  shows "request_step F (mrBase r) (mrBase (otlp_reinvoke env r))"
proof -
  obtain m err base where ex: "exporter_mutate env (mrBase r) = (m, err, base)" by (metis prod_cases3)
  have step: "request_step F (mrBase r) base" by (rule exporter_step(1)[OF ok ex])
  have "sound F base (\<lambda>(_, r'). mrBase r') (resource_mutate env (r\<lparr>mrBase := base\<rparr>))"
    using sound_resource[of env F "r\<lparr>mrBase := base\<rparr>"] stays_step[OF ok step] by simp
  with step ex show ?thesis
    by (auto simp: otlp_reinvoke_def Let_def intro: request_step_trans split: sum.splits)
qed

lemma sound_otlp_mutate:
  assumes ok: "stays env F (mrBase r)"
  shows "sound F (mrBase r) mrBase (otlp_mutate env r)"
proof -
  obtain m err base where ex: "exporter_mutate env (mrBase r) = (m, err, base)" by (metis prod_cases3)
  have step: "request_step F (mrBase r) base" by (rule exporter_step(1)[OF ok ex])
  have "sound F base (\<lambda>(_, r'). mrBase r') (resource_mutate env (r\<lparr>mrBase := base\<rparr>))"
    using sound_resource[of env F "r\<lparr>mrBase := base\<rparr>"] stays_step[OF ok step] by simp
  then have "sound F (mrBase r) mrBase (map_sum id snd (resource_mutate env (r\<lparr>mrBase := base\<rparr>)))"
    using step by (cases "resource_mutate env (r\<lparr>mrBase := base\<rparr>)") (auto intro: request_step_trans)
  then show ?thesis
    using exporter_step(2)[OF ok ex] ex by (simp add: otlp_mutate_def split: option.splits)
qed

lemma sound_otlp_inject:
  assumes ok: "stays env F (hk_base st)"
  shows "sound F (hk_base st) hk_base (otlp_inject env st)"
proof -
  have mark: "request_step F (mrBase (hkRequest st')) (hk_base (on_pod (set_injected OTLPInjected OTLPReason) st'))" for st'
    using step_mark[of OTLPInjected OTLPReason F st'] by (simp add: hook_step_def)
  show ?thesis
    using step_otlp_reinvoke[OF ok] sound_otlp_mutate[OF ok]
      mark[of "on_request (otlp_reinvoke env) st"] mark[of "st\<lparr>hkRequest := r\<rparr>" for r]
    by (cases "otlp_mutate env (hkRequest st)")
      (auto simp: otlp_inject_def on_request_def intro: request_step_trans)
qed

lemma sound_otlp:
  assumes ok: "stays env F (hk_base st)"
  shows "effect_sound F st (otlp_Handle env st)"
proof -
  obtain b1 st1 where s1: "isTokenSecretPresent env st = (b1, st1)" by (metis surj_pair)
  obtain b2 st2 where s2: "isExporterActiveGateCertSecretPresent env st1 = (b2, st2)" by (metis surj_pair)
  have h1: "hook_step F st st1" using s1 unfolding isTokenSecretPresent_def by (rule step_secret) simp
  have "hook_step F st1 st2"
    using s2 by (auto simp: isExporterActiveGateCertSecretPresent_def split: if_splits elim!: step_secret)
  with h1 have h2: "hook_step F st st2" by (rule hook_step_trans)
  have "effect_sound F st (as_effect (otlp_inject env) st2)"
    using h2 ok by (blast intro: effect_sound_after as_effect_sound sound_otlp_inject stays_hook_step)
  then show ?thesis
    using h1 h2 s1 s2 by (cases b1; cases b2) (simp_all add: otlp_Handle_def)
qed

section \<open>The answers of the webhook\<close>

lemma json_annotation_error: "ApplyJSONAnnotationToPod env attrs pod = Inl e \<Longrightarrow> outcome_error e"
  by (auto simp: ApplyJSONAnnotationToPod_def Let_def split: if_splits)

lemma json_annotation_ok: "ApplyJSONAnnotationToPod env attrs pod = Inr p \<Longrightarrow> pod_extends F pod p"
  by (auto simp: ApplyJSONAnnotationToPod_def SetAnnotationIfNotExists_def Let_def annotations_kept_def
      intro!: pod_extends_annotations split: if_splits)

lemma outcome_response:
  assumes "outcome_error e"
  obtains i n x where "(i, n) \<in> set outcome_keys" "error_response pod e = PatchTo (set_not_injected i n x pod)"
  using assms by (auto simp: outcome_error_def error_response_def SetAnnotations_def)

lemma outcome_extends: "outcome_error e \<Longrightarrow> error_response pod e = PatchTo p \<Longrightarrow> pod_extends F pod p"
  by (auto simp: outcome_error_def error_response_def SetAnnotations_def set_not_injected_def dest: outcome_names_of
      intro!: pod_extends_annotations annotations_kept_trans[OF annotations_kept_upd annotations_kept_upd])

lemma hook_step_pod: "hook_step F st st' \<Longrightarrow> pod_extends F (hk_pod st) (hk_pod st')"
  by (simp add: hook_step_def request_step_def)

lemma finish_extends:
  "hook_step F st st' \<Longrightarrow> finish_pod env (hk_pod st) st' = PatchTo p \<Longrightarrow> pod_extends F (hk_pod st) p"
  by (auto simp: finish_pod_def split: option.splits sum.splits
      dest: hook_step_pod json_annotation_error json_annotation_ok intro: outcome_extends pod_extends_trans)

lemma patched_pod:
  assumes ok: "stays env F (hk_base st)" and patch: "fst (handle_request env st) = PatchTo p"
  shows "pod_extends F (hk_pod st) p"
proof -
  obtain e1 st1 where i: "injection_Handle env st = (e1, st1)" by (metis surj_pair)
  obtain e2 st2 where ot: "otlp_Handle env st1 = (e2, st2)" by (metis surj_pair)
  have s1: "effect_sound F st (e1, st1)" using sound_injection[OF ok] i by simp
  then have h1: "hook_step F st st1" by (simp add: effect_sound_def)
  have s2: "effect_sound F st1 (e2, st2)" using sound_otlp[OF stays_hook_step[OF ok h1]] ot by simp
  then have "hook_step F st st2" by (auto simp: effect_sound_def intro: hook_step_trans h1)
  then show ?thesis
    using patch i ot s1 s2
    by (auto simp: handle_request_def Let_def effect_sound_def split: if_splits option.splits
        intro: outcome_extends finish_extends)
qed

end
