(* ===== verification/PodReinvoke.thy ===== *)
theory PodReinvoke
  imports PodGuarantees
begin

text \<open>
  A reinvoked webhook changes only the containers no mutator has seen: each mutator recognises what it has
  done by a mount, in its own later requests, whatever the other mutator added since.
\<close>

definition same_view :: "base_request \<Rightarrow> base_request \<Rightarrow> bool" where
  "same_view r r' \<longleftrightarrow>
     brDynaKube r' = brDynaKube r \<and> brNamespace r' = brNamespace r \<and> pdAnnotations (brPod r') = pdAnnotations (brPod r)"

lemma same_view_update_new [simp]: "same_view r (update_new env isInj q f) \<longleftrightarrow> same_view r q"
  by (simp add: same_view_def update_new_def)

lemma same_view_extend_init [simp]: "same_view r (q\<lparr>brPod := extend_init a (brPod q)\<rparr>) \<longleftrightarrow> same_view r q"
  by (simp add: same_view_def extend_init_def)

lemma same_view_refl [simp]: "same_view r r"
  by (simp add: same_view_def)

lemma same_view_is_new:
  "same_view r r' \<Longrightarrow> isInj c r' = isInj c r \<Longrightarrow> is_new env isInj r' c = is_new env isInj r c"
  by (simp add: is_new_def same_view_def)

lemma same_view_split: "same_view r r' \<Longrightarrow> IsSplitMountsEnabled r' = IsSplitMountsEnabled r"
  by (simp add: IsSplitMountsEnabled_def same_view_def)

lemma same_view_meta: "same_view r r' \<Longrightarrow> meta_isInjected c r' = meta_isInjected c r"
  by (simp add: meta_isInjected_def same_view_split) (simp add: same_view_def)

lemma contains_mono: "prefix ms ms' \<Longrightarrow> k8smount_ContainsPath ms p \<Longrightarrow> k8smount_ContainsPath ms' p"
  by (auto simp: k8smount_ContainsPath_def prefix_def)

lemma contains_appended: "v \<in> set vs \<Longrightarrow> k8smount_ContainsPath (k8smount_Append ms vs) (pmMountPath v)"
proof (induction vs arbitrary: ms)
  case (Cons w vs)
  show ?case
  proof (cases "v = w")
    case True
    then have "k8smount_ContainsPath (if \<not> k8smount_ContainsPath ms (pmMountPath w) then ms @ [w] else ms) (pmMountPath v)"
      by (simp add: k8smount_ContainsPath_def)
    then show ?thesis by (simp only: k8smount_Append.simps contains_mono[OF prefix_mount_Append])
  qed (use Cons in simp)
qed simp

lemma meta_injected_mono:
  assumes "container_extends c c'" and "meta_isInjected c r"
  shows "meta_isInjected c' r"
proof -
  have mono: "k8smount_ContainsPath (pcVolumeMounts c) p \<Longrightarrow> k8smount_ContainsPath (pcVolumeMounts c') p" for p
    using assms(1) contains_mono by (auto simp: container_extends_def)
  show ?thesis
    using assms(2) by (auto simp: meta_isInjected_def HasSplitOneAgentMounts_def HasSplitEnrichmentMounts_def
        HasCommonConfigVolumeMounts_def split: if_splits intro: mono)
qed

lemma contains_path_appended: "v \<in> set vs \<Longrightarrow> p = pmMountPath v \<Longrightarrow> k8smount_ContainsPath (k8smount_Append ms vs) p"
  by (simp add: contains_appended)

lemma has_split_oneagent: "HasSplitOneAgentMounts (addSplitOneAgentConfigVolumeMount c)"
  unfolding HasSplitOneAgentMounts_def addSplitOneAgentConfigVolumeMount_def
  by (simp del: k8smount_Append.simps) (rule contains_path_appended, rule list.set_intros(1), simp)

lemma has_split_enrichment: "HasSplitEnrichmentMounts (addSplitEnrichmentConfigVolumeMount c)"
proof -
  let ?ms = "map (\<lambda>p. \<lparr>pmName = ConfigVolumeName, pmMountPath = path_Join [ConfigMountPath, p],
                   pmSubPath = path_Join [pcName c, p], pmReadOnly = False\<rparr>)
          [''/enrichment/dt_metadata.json'', ''/enrichment/dt_metadata.properties'', ''/enrichment/endpoint'']"
  have "k8smount_ContainsPath (k8smount_Append (pcVolumeMounts c) ?ms) (pmMountPath v)" if "v \<in> set ?ms" for v
    using that by (rule contains_appended)
  then show ?thesis
    unfolding HasSplitEnrichmentMounts_def addSplitEnrichmentConfigVolumeMount_def by force
qed

lemma has_common: "HasCommonConfigVolumeMounts (addCommonConfigVolumeMount c)"
  unfolding HasCommonConfigVolumeMounts_def addCommonConfigVolumeMount_def
  by (simp del: k8smount_Append.simps) (rule contains_path_appended, rule list.set_intros(1), simp)

lemma meta_injected_after: "meta_isInjected (AddConfigVolumeMount r c) r"
proof (cases "IsSplitMountsEnabled r")
  case True
  let ?c1 = "addSplitOneAgentConfigVolumeMount c"
  have "HasSplitOneAgentMounts (addSplitEnrichmentConfigVolumeMount ?c1)"
    using has_split_oneagent[of c] extends_split_enrichment[of ?c1]
    by (auto simp: HasSplitOneAgentMounts_def container_extends_def intro: contains_mono)
  with True show ?thesis
    by (auto simp: meta_isInjected_def AddConfigVolumeMount_def addSplitMounts_def Let_def has_split_enrichment)
next
  case False
  then show ?thesis by (simp add: meta_isInjected_def AddConfigVolumeMount_def has_common)
qed

lemma bin_mono: "container_extends c c' \<Longrightarrow> containerIsInjected c r \<Longrightarrow> containerIsInjected c' r"
  by (auto simp: containerIsInjected_def k8smount_Contains_def container_extends_def prefix_def)

lemma bin_after: "containerIsInjected (addOneAgentToContainer env dk ns path c) r"
proof (rule bin_mono[OF extends_after_mounts])
  show "containerIsInjected (addVolumeMounts env path c) r"
    by (simp add: containerIsInjected_def k8smount_Contains_def addVolumeMounts_def add_mounts_def)
qed

text \<open>A mutator leaves no container behind: after \<open>update_new\<close> none is new, in any later request with the same view.\<close>

definition settles :: "(pod_container \<Rightarrow> base_request \<Rightarrow> bool) \<Rightarrow> bool" where
  "settles isInj \<longleftrightarrow>
     (\<forall>c c' r. container_extends c c' \<longrightarrow> isInj c r \<longrightarrow> isInj c' r) \<and>
     (\<forall>c r r'. same_view r r' \<longrightarrow> isInj c r' = isInj c r)"

lemma settles_meta: "settles meta_isInjected"
  unfolding settles_def using meta_injected_mono same_view_meta by blast

lemma settles_bin: "settles containerIsInjected"
  unfolding settles_def using bin_mono by (auto simp: containerIsInjected_def)

lemma update_none_new: "NewContainers env isInj r = [] \<Longrightarrow> update_new env isInj r f = r"
  by (auto simp: NewContainers_def update_new_def filter_empty_conv map_idI)

lemma not_new_later:
  assumes "settles isInj" and "same_view r r'" and "container_extends c c'" and "\<not> is_new env isInj r c"
  shows "\<not> is_new env isInj r' c'"
proof -
  have "isInj c' r' = isInj c' r" using assms(1,2) unfolding settles_def by blast
  moreover have "isInj c r \<Longrightarrow> isInj c' r" using assms(1,3) unfolding settles_def by blast
  ultimately show ?thesis
    using assms(2,4) container_extends_name[OF assms(3)] by (auto simp: is_new_def same_view_def split: if_splits)
qed

lemma update_new_containers:
  "pdContainers (brPod (update_new env isInj r f)) =
     map (\<lambda>c. if is_new env isInj r c then f c else c) (pdContainers (brPod r))"
  by (simp add: update_new_def)

lemma none_new_after:
  assumes "settles isInj" and "\<And>c. isInj (f c) r" and "\<And>c. container_extends c (f c)"
  shows "NewContainers env isInj (update_new env isInj r f) = []"
proof -
  have "\<not> is_new env isInj (update_new env isInj r f) (if is_new env isInj r c then f c else c)" for c
  proof (cases "is_new env isInj r c")
    case True
    have "\<not> is_new env isInj r (f c)" using assms(2) by (simp add: is_new_def)
    with True show ?thesis using not_new_later[OF assms(1), of r "update_new env isInj r f" "f c" "f c"] by simp
  next
    case False
    then show ?thesis using not_new_later[OF assms(1), of r "update_new env isInj r f" c c] by simp
  qed
  then show ?thesis
    by (simp add: NewContainers_def update_new_containers filter_map comp_def split del: if_split)
qed

lemma none_new_kept:
  assumes "settles isInj" and "same_view r r'" and "NewContainers env isInj r = []"
    and "containers_extend F (pdContainers (brPod r)) (pdContainers (brPod r'))"
  shows "NewContainers env isInj r' = []"
proof -
  have "\<not> is_new env isInj r' c'" if c': "c' \<in> set (pdContainers (brPod r'))" for c'
  proof -
    obtain i where "i < length (pdContainers (brPod r'))" "c' = pdContainers (brPod r') ! i"
      using c' by (auto simp: in_set_conv_nth)
    then have "pdContainers (brPod r) ! i \<in> set (pdContainers (brPod r))"
      and "container_extends (pdContainers (brPod r) ! i) c'"
      using assms(4) by (auto simp: containers_extend_def list_all2_conv_all_nth)
    with assms(3) show ?thesis
      using not_new_later[OF assms(1,2)] by (auto simp: NewContainers_def filter_empty_conv)
  qed
  then show ?thesis by (auto simp: NewContainers_def filter_empty_conv)
qed

lemma attributes_base:
  "AddContainerAttributes env r = (u, args, base) \<Longrightarrow> base = update_new env meta_isInjected r (AddConfigVolumeMount r)"
  by (auto simp: AddContainerAttributes_def Let_def update_none_new split: if_splits)

lemma attributes_nothing: "NewContainers env meta_isInjected r = [] \<Longrightarrow> AddContainerAttributes env r = (False, [], r)"
  by (simp add: AddContainerAttributes_def Let_def)

lemma extend_init_nothing [simp]: "extend_init [] pod = pod"
proof -
  have "update_first P (add_args []) cs = cs" for P cs by (induction cs) (auto simp: add_args_def)
  then show ?thesis by (simp add: extend_init_def)
qed

lemma containers_extend_init [simp]: "pdContainers (extend_init a p) = pdContainers p"
  by (simp add: extend_init_def)

lemma find_extended:
  "find (\<lambda>c. pcName c = n) (update_first (\<lambda>c. pcName c = n) (add_args a) cs) = None \<longleftrightarrow>
   find (\<lambda>c. pcName c = n) cs = None"
  by (induction cs) (auto simp: add_args_def)

lemma oa_enabled_view: "same_view r r' \<Longrightarrow> oa_mutator_IsEnabled env r' = oa_mutator_IsEnabled env r"
  by (simp add: oa_mutator_IsEnabled_def matches_namespace_def same_view_def split: option.split)

lemma reinvoke_base:
  "\<exists>f. snd (oa_Reinvoke env r) = update_new env containerIsInjected r f \<and> (\<forall>c. container_extends c (f c)) \<or>
       snd (oa_Reinvoke env r) = r"
  by (auto simp: oa_Reinvoke_def mutateUserContainers_def Let_def extends_oneagent)

lemma reinvoke_view [simp]: "same_view q (snd (oa_Reinvoke env r)) = same_view q r"
  using reinvoke_base[of env r] by auto

lemma reinvoke_inits [simp]: "pdInitContainers (brPod (snd (oa_Reinvoke env r))) = pdInitContainers (brPod r)"
  using reinvoke_base[of env r] by (auto simp: update_new_def)

lemma reinvoke_extends:
  "containers_extend (\<lambda>_. False) (pdContainers (brPod r)) (pdContainers (brPod (snd (oa_Reinvoke env r))))"
  using step_oa_reinvoke[of env "\<lambda>_. False" r] by (simp add: request_step_def pod_extends_def)

lemma reinvoke_again: "oa_Reinvoke env (snd (oa_Reinvoke env r)) = (False, snd (oa_Reinvoke env r))"
proof -
  let ?f = "addOneAgentToContainer env (brDynaKube r) (brNamespace r) (installPath_of (brPod r))"
  let ?r' = "update_new env containerIsInjected r ?f"
  have none: "NewContainers env containerIsInjected ?r' = []"
    by (rule none_new_after[OF settles_bin]) (simp_all add: bin_after extends_oneagent)
  have path: "installPath_of (brPod ?r') = installPath_of (brPod r)"
    by (simp add: installPath_of_def update_new_def)
  show ?thesis
    by (simp add: oa_Reinvoke_def mutateUserContainers_def Let_def path none update_none_new[OF none] del: not_None_eq)
qed

lemma same_view_trans: "same_view a b \<Longrightarrow> same_view b c \<Longrightarrow> same_view a c"
  by (simp add: same_view_def)

text \<open>C37. Reinvocation of the injection settles: applied to its own result, \<open>handlePodReinvocation\<close> changes nothing
  in the request and reports that nothing was updated, so that the injection handler sends no event. The OTLP
  handler, which has a reinvocation of its own, is not part of this.
\<close>

theorem reinvocation_settles:
  "handlePodReinvocation env (snd (handlePodReinvocation env st)) = (False, snd (handlePodReinvocation env st))"
proof (cases "FindInitInPodSpec (hk_pod st) InstallContainerName = None")
  case True
  then show ?thesis by (simp add: handlePodReinvocation_def)
next
  case False
  obtain u args base where add: "AddContainerAttributes env (hk_base st) = (u, args, base)" by (metis prod_cases3)
  define b1 where "b1 = base\<lparr>brPod := extend_init args (brPod base)\<rparr>"
  define b2 where "b2 = (if oa_mutator_IsEnabled env b1 then snd (oa_Reinvoke env b1) else b1)"
  have run: "snd (handlePodReinvocation env st) = st\<lparr>hkRequest := (hkRequest st)\<lparr>mrBase := b2\<rparr>\<rparr>"
    using False add by (simp add: handlePodReinvocation_def Let_def case_prod_beta b1_def b2_def on_pod_def on_request_def set_pod_def del: not_None_eq)
  have view: "same_view (hk_base st) b1" "same_view b1 b2"
    using attributes_base[OF add] by (simp_all add: b1_def b2_def)
  have "NewContainers env meta_isInjected base = []"
    using none_new_after[OF settles_meta, of "AddConfigVolumeMount (hk_base st)" "hk_base st" env]
    by (simp add: attributes_base[OF add] meta_injected_after extends_config_mount)
  then have "NewContainers env meta_isInjected b1 = []"
    by (rule none_new_kept[OF settles_meta, of base, where F = "\<lambda>_. False", rotated]) (simp_all add: b1_def)
  then have none: "NewContainers env meta_isInjected b2 = []"
    by (rule none_new_kept[OF settles_meta view(2), where F = "\<lambda>_. False"]) (simp add: b2_def reinvoke_extends)
  have init: "FindInitInPodSpec (brPod b2) InstallContainerName \<noteq> None"
    using False attributes_base[OF add]
    by (simp add: b2_def b1_def FindInitInPodSpec_def extend_init_def find_extended update_new_def del: not_None_eq)
  have again: "oa_mutator_IsEnabled env b2 \<Longrightarrow> oa_Reinvoke env b2 = (False, b2)"
    using oa_enabled_view[OF view(2), of env] by (auto simp: b2_def reinvoke_again)
  show ?thesis
    unfolding run using init again
    by (simp add: handlePodReinvocation_def attributes_nothing[OF none] Let_def on_pod_def on_request_def set_pod_def del: not_None_eq)
qed

end
