(* ===== verification/PodAttributeLaws.thy ===== *)
theory PodAttributeLaws
  imports PodWebhook "HOL-Library.Char_ord" "HOL-Library.List_Lexorder"
begin

text \<open>
  What the attributes of a pod are: the owner its workload is named after (an inductive chain of owners),
  the order of precedence of the sources, and how the resource attributes of a container are written and
  read back.
\<close>

section \<open>The root owner\<close>

definition controller_of :: "object_meta \<Rightarrow> owner_ref option" where
  "controller_of m = find (\<lambda>own. orController own = Some True) (omOwnerReferences m)"

text \<open>One step up: the object has a controlling owner of a known kind, and the API returns it.\<close>

definition owned_by :: "pod_env \<Rightarrow> object_meta \<Rightarrow> object_meta \<Rightarrow> bool" where
  "owned_by env child parent \<longleftrightarrow>
     (\<exists>own. controller_of child = Some own \<and> isWellKnownWorkload own \<and>
        peGetMeta env (orAPIVersion own) (orKind own) (omNamespace child) (orName own) = Inr parent)"

definition is_root :: "object_meta \<Rightarrow> bool" where
  "is_root m \<longleftrightarrow> (case controller_of m of None \<Rightarrow> True | Some own \<Rightarrow> \<not> isWellKnownWorkload own)"

inductive owner_chain :: "pod_env \<Rightarrow> nat \<Rightarrow> object_meta \<Rightarrow> object_meta \<Rightarrow> bool" for env where
  chain_end: "is_root m \<Longrightarrow> owner_chain env 0 m m"
| chain_step: "owned_by env child parent \<Longrightarrow> owner_chain env n parent root \<Longrightarrow> owner_chain env (Suc n) child root"

inductive_cases chain_0: "owner_chain env 0 m r"
inductive_cases chain_Suc: "owner_chain env (Suc n) m r"

lemma root_stops: "is_root m \<Longrightarrow> findRootOwner env n m = Inr m"
  by (subst findRootOwner.simps) (auto simp: is_root_def controller_of_def split: option.splits)

lemma root_not_owned: "is_root m \<Longrightarrow> \<not> owned_by env m p"
  by (auto simp: is_root_def owned_by_def)

lemma step_up: "owned_by env child parent \<Longrightarrow> findRootOwner env (Suc n) child = findRootOwner env n parent"
  by (subst findRootOwner.simps) (auto simp: owned_by_def controller_of_def)

lemma found_root: "findRootOwner env n m = Inr root \<Longrightarrow> \<exists>k\<le>n. owner_chain env k m root"
proof (induction n arbitrary: m)
  case 0
  then have "is_root m \<and> root = m"
    by (subst (asm) findRootOwner.simps) (auto simp: is_root_def controller_of_def split: option.splits if_splits)
  then show ?case by (auto intro: chain_end)
next
  case (Suc n)
  show ?case
  proof (cases "is_root m")
    case True
    with Suc.prems root_stops[of m env "Suc n"] show ?thesis by (auto intro!: exI[of _ 0] chain_end)
  next
    case False
    then obtain parent where up: "owned_by env m parent"
      using Suc.prems by (subst (asm) findRootOwner.simps)
        (auto simp: is_root_def owned_by_def controller_of_def split: option.splits if_splits sum.splits)
    with Suc.prems obtain k where "k \<le> n" "owner_chain env k parent root"
      using Suc.IH by (auto simp: step_up)
    with up show ?thesis by (auto intro: chain_step exI[of _ "Suc k"])
  qed
qed

lemma chain_found: "owner_chain env k m root \<Longrightarrow> k \<le> n \<Longrightarrow> findRootOwner env n m = Inr root"
proof (induction arbitrary: n rule: owner_chain.induct)
  case (chain_step child parent k root)
  then show ?case by (cases n) (auto simp: step_up)
qed (simp add: root_stops)

text \<open>C38. The search for the root owner returns an object exactly when a chain of controlling owners of known
  kinds leads to it, each of them returned by the API, within the lookups the request has time for. A
  cycle of owners ends with the deadline, never with an object.
\<close>

theorem root_owner_found_iff:
  "findRootOwner env n m = Inr root \<longleftrightarrow> (\<exists>k\<le>n. owner_chain env k m root)"
  using found_root chain_found by blast

section \<open>Precedence of attributes\<close>

fun first_some :: "'a option list \<Rightarrow> 'a option" where
  "first_some [] = None"
| "first_some (x # xs) = (case x of Some y \<Rightarrow> Some y | None \<Rightarrow> first_some xs)"

lemma some_or_none [simp]: "(case x of None \<Rightarrow> None | Some y \<Rightarrow> Some y) = x"
  by (cases x) simp_all

lemma combineAll_at:
  "combineAll attrs cs k =
     first_some [paCustom attrs k, paPodAnnotations attrs k, paNamespaceAnnotations attrs k, paDynakube attrs k,
       paRules attrs k, flattenContainerAttrs cs k, paClusterInfo attrs k, paPodInfo attrs k,
       paWorkloadInfo attrs k, if paUseDeprecated attrs then paDeprecated attrs k else None]"
  by (simp add: combineAll_def attrs_combine_def attr_layers_def caseAll_def map_add_def cong: option.case_cong)

text \<open>
  What the enrichment rules give for a key: rules without a target write the key they generate, the last one
  wins; rules with a target only fill a key nothing was written to, the first one wins.
\<close>

definition generated_values :: "wh_namespace \<Rightarrow> enrichment_rule list \<Rightarrow> string \<Rightarrow> string list" where
  "generated_values ns rules k =
     List.map_filter (rule_value ns)
       (filter (\<lambda>r. erTarget r = '''' \<and> GetEmptyTargetEnrichmentKey (erType r) (erSource r) = k) rules)"

definition targeted_values :: "wh_namespace \<Rightarrow> enrichment_rule list \<Rightarrow> string \<Rightarrow> string list" where
  "targeted_values ns rules k = List.map_filter (rule_value ns) (filter (\<lambda>r. erTarget r \<noteq> '''' \<and> erTarget r = k) rules)"

definition rules_source :: "wh_namespace \<Rightarrow> enrichment_rule list \<Rightarrow> string \<Rightarrow> string option" where
  "rules_source ns rules k =
     (if generated_values ns rules k \<noteq> [] then Some (last (generated_values ns rules k))
      else if targeted_values ns rules k \<noteq> [] then Some (hd (targeted_values ns rules k)) else None)"

lemma map_filter_snoc: "List.map_filter f (xs @ [x]) = List.map_filter f xs @ (case f x of None \<Rightarrow> [] | Some y \<Rightarrow> [y])"
  by (simp add: List.map_filter_def split: option.split)

lemma rules_source_snoc:
  "rules_source ns (rules @ [r]) k =
     (case rule_value ns r of
        None \<Rightarrow> rules_source ns rules k
      | Some v \<Rightarrow>
          if erTarget r = '''' then if GetEmptyTargetEnrichmentKey (erType r) (erSource r) = k then Some v else rules_source ns rules k
          else if erTarget r = k \<and> rules_source ns rules k = None then Some v else rules_source ns rules k)"
  by (auto simp: rules_source_def generated_values_def targeted_values_def map_filter_snoc hd_append split: option.split)

lemma rules_give: "fold (apply_rule ns) rules Map.empty k = rules_source ns rules k"
proof (induction rules arbitrary: k rule: rev_induct)
  case Nil
  show ?case by (simp add: rules_source_def generated_values_def targeted_values_def List.map_filter_def)
next
  case (snoc r rules)
  let ?m = "fold (apply_rule ns) rules Map.empty"
  have "fold (apply_rule ns) (rules @ [r]) Map.empty k = apply_rule ns r ?m k" by simp
  then show ?case
    unfolding apply_rule_def[of ns r ?m] rules_source_snoc snoc.IH[symmetric]
    by (cases "rule_value ns r") auto
qed

text \<open>What the operator finds out itself, in the order in which one would hide another.\<close>

definition found_out :: "base_request \<Rightarrow> workload_info \<Rightarrow> string \<Rightarrow> string option" where
  "found_out req info k =
     map_of
       ([(''k8s.cluster.uid'', dstKubeSystemUUID (dkStatus (brDynaKube req))),
         (''k8s.cluster.name'', dstKubernetesClusterName (dkStatus (brDynaKube req))),
         (''dt.entity.kubernetes_cluster'', dstKubernetesClusterMEID (dkStatus (brDynaKube req))),
         (''k8s.pod.name'', ''$(K8S_PODNAME)''), (''k8s.pod.uid'', ''$(K8S_PODUID)''),
         (''k8s.node.name'', ''$(K8S_NODE_NAME)''), (''k8s.namespace.name'', pdNamespace (brPod req)),
         (''k8s.workload.kind'', wiKind info), (''k8s.workload.name'', wiName info)] @
        (if EnableAttributesDTKubernetes (dk_FF (brDynaKube req))
         then [(''dt.kubernetes.workload.kind'', wiKind info), (''dt.kubernetes.workload.name'', wiName info),
               (''dt.kubernetes.cluster.id'', dstKubeSystemUUID (dkStatus (brDynaKube req)))] else [])) k"

lemma found_out_layers:
  assumes "NewPodAttributes env req = Inr attrs"
  shows "\<exists>info. FindRootOwnerOfPod env req = Inr info \<and>
     paPodAnnotations attrs = cut_prefixed EnrichmentPrefix (pdAnnotations (brPod req)) \<and>
     paNamespaceAnnotations attrs = cut_prefixed EnrichmentPrefix (whnAnnotations (brNamespace req)) \<and>
     paRules attrs = applyEnrichmentRules (brNamespace req) (brDynaKube req) Map.empty \<and> paCustom attrs = Map.empty \<and>
     (\<forall>k. first_some [paClusterInfo attrs k, paPodInfo attrs k, paWorkloadInfo attrs k,
        if paUseDeprecated attrs then paDeprecated attrs k else None] = found_out req info k)"
proof -
  obtain info where info: "FindRootOwnerOfPod env req = Inr info"
    using assms
    by (cases "FindRootOwnerOfPod env req") (simp_all add: NewPodAttributes_def readWorkloadInfoAttributes_def Let_def)
  have attrs: "attrs = (let a = readPodAttributes req (readMetadataAnnotations req
        ((empty_attrs (EnableAttributesDTKubernetes (dk_FF (brDynaKube req))))\<lparr>paWorkloadInfo :=
          [''k8s.workload.kind'' \<mapsto> wiKind info, ''k8s.workload.name'' \<mapsto> wiName info]\<rparr>))
      in if EnableAttributesDTKubernetes (dk_FF (brDynaKube req)) then applyDeprecatedAttributes a else a)"
    using assms info
    by (simp add: NewPodAttributes_def readWorkloadInfoAttributes_def Let_def empty_attrs_def readPodAttributes_def
        readMetadataAnnotations_def split: if_splits)
  show ?thesis
    unfolding attrs
    by (intro exI[of _ info]) (simp add: info Let_def applyDeprecatedAttributes_def readPodAttributes_def
        readMetadataAnnotations_def empty_attrs_def found_out_def at_def k8senv_NewRef_def)
qed

text \<open>C39. Where an attribute of a pod comes from. In the resource attributes of a container: the variable the
  container already had comes first, then the annotations of the pod with the prefix, those of its namespace,
  the attributes of the DynaKube, the enrichment rules (one without target over those with one), the name of
  the container, and only then what the operator found out: cluster, pod, and the root owner as workload, with
  the deprecated names only when the feature flag asks for them. In the metadata enrichment the same holds without
  variable and container, with the attributes the DynaKube has for the OneAgent or, without injection of the
  OneAgent into the pod, its general ones.
\<close>

theorem attribute_precedence:
  assumes "NewPodAttributes env req = Inr attrs"
    and "addResourceAttributes env (SetDynakubeAttributes env dkAttrs attrs) c = (m, attrs', c')"
  shows "\<exists>info. FindRootOwnerOfPod env req = Inr info \<and>
     combineAll attrs' [container_ToMap c] k =
       first_some [fst (NewAttributesFromEnv (pcEnv c) OTelResourceAttributesEnv) k,
         pdAnnotations (brPod req) (EnrichmentPrefix @ k), whnAnnotations (brNamespace req) (EnrichmentPrefix @ k),
         sanitizeKeys env dkAttrs k,
         rules_source (brNamespace req) (dstMetadataEnrichmentRules (dkStatus (brDynaKube req))) k,
         if k = ''k8s.container.name'' then Some (pcName c) else None, found_out req info k] \<and>
     combineAll (meta_attrs env req attrs) [] k =
       first_some [pdAnnotations (brPod req) (EnrichmentPrefix @ k), whnAnnotations (brNamespace req) (EnrichmentPrefix @ k),
         sanitizeKeys env (if oa_mutator_IsEnabled env req then oa_GetResourceAttributes (dk_OneAgent (brDynaKube req))
           else dspResourceAttributes (dkSpec (brDynaKube req))) k,
         rules_source (brNamespace req) (dstMetadataEnrichmentRules (dkStatus (brDynaKube req))) k, found_out req info k]"
proof -
  obtain info where info: "FindRootOwnerOfPod env req = Inr info"
    "paPodAnnotations attrs = cut_prefixed EnrichmentPrefix (pdAnnotations (brPod req))"
    "paNamespaceAnnotations attrs = cut_prefixed EnrichmentPrefix (whnAnnotations (brNamespace req))"
    "paRules attrs = applyEnrichmentRules (brNamespace req) (brDynaKube req) Map.empty" "paCustom attrs = Map.empty"
    "first_some [paClusterInfo attrs k, paPodInfo attrs k, paWorkloadInfo attrs k,
        if paUseDeprecated attrs then paDeprecated attrs k else None] = found_out req info k"
    using found_out_layers[OF assms(1)] by blast
  have attrs': "attrs' = SetCustomAttributes (fst (NewAttributesFromEnv (pcEnv c) OTelResourceAttributesEnv))
      (SetDynakubeAttributes env dkAttrs attrs)"
    using assms(2) by (auto simp: addResourceAttributes_def Let_def case_prod_beta split: prod.splits)
  have nested: "first_some (xs @ ys) = first_some (xs @ [first_some ys])" for xs ys :: "string option list"
    by (induction xs) (simp_all split: option.split)
  have tail: "first_some [a, b, c, d, e, f, paClusterInfo attrs k, paPodInfo attrs k, paWorkloadInfo attrs k,
      if paUseDeprecated attrs then paDeprecated attrs k else None] = first_some [a, b, c, d, e, f, found_out req info k]"
    for a b c d e f
    using nested[of "[a, b, c, d, e, f]" "[paClusterInfo attrs k, paPodInfo attrs k, paWorkloadInfo attrs k,
      if paUseDeprecated attrs then paDeprecated attrs k else None]"] by (simp only: append.simps info(6))
  have sources: "paPodAnnotations attrs k = pdAnnotations (brPod req) (EnrichmentPrefix @ k)"
    "paNamespaceAnnotations attrs k = whnAnnotations (brNamespace req) (EnrichmentPrefix @ k)"
    "paRules attrs k = rules_source (brNamespace req) (dstMetadataEnrichmentRules (dkStatus (brDynaKube req))) k"
    by (simp_all only: info(2-4) cut_prefixed_def applyEnrichmentRules_def rules_give)
  have container: "flattenContainerAttrs [container_ToMap c] k = (if k = ''k8s.container.name'' then Some (pcName c) else None)"
    "flattenContainerAttrs [] k = None"
    by (simp_all add: flattenContainerAttrs_def container_ToMap_def)
  have kept: "paPodAnnotations attrs' = paPodAnnotations attrs" "paNamespaceAnnotations attrs' = paNamespaceAnnotations attrs"
    "paRules attrs' = paRules attrs" "paClusterInfo attrs' = paClusterInfo attrs" "paPodInfo attrs' = paPodInfo attrs"
    "paWorkloadInfo attrs' = paWorkloadInfo attrs" "paUseDeprecated attrs' = paUseDeprecated attrs"
    "paDeprecated attrs' = paDeprecated attrs" "paDynakube attrs' = sanitizeKeys env dkAttrs"
    "paCustom attrs' = fst (NewAttributesFromEnv (pcEnv c) OTelResourceAttributesEnv)"
    by (simp_all add: attrs' SetCustomAttributes_def SetDynakubeAttributes_def)
  let ?dk = "if oa_mutator_IsEnabled env req then oa_GetResourceAttributes (dk_OneAgent (brDynaKube req))
      else dspResourceAttributes (dkSpec (brDynaKube req))"
  have "combineAll (meta_attrs env req attrs) [] k =
      first_some [None, pdAnnotations (brPod req) (EnrichmentPrefix @ k), whnAnnotations (brNamespace req) (EnrichmentPrefix @ k),
        sanitizeKeys env ?dk k, rules_source (brNamespace req) (dstMetadataEnrichmentRules (dkStatus (brDynaKube req))) k,
        None, found_out req info k]"
  proof -
    have m: "meta_attrs env req attrs = SetDynakubeAttributes env ?dk attrs" by (simp add: meta_attrs_def)
    have e: "paCustom attrs k = None" by (simp add: info(5))
    have other: "paPodAnnotations (SetDynakubeAttributes env d attrs) = paPodAnnotations attrs"
      "paNamespaceAnnotations (SetDynakubeAttributes env d attrs) = paNamespaceAnnotations attrs"
      "paRules (SetDynakubeAttributes env d attrs) = paRules attrs" "paCustom (SetDynakubeAttributes env d attrs) = paCustom attrs"
      "paClusterInfo (SetDynakubeAttributes env d attrs) = paClusterInfo attrs"
      "paPodInfo (SetDynakubeAttributes env d attrs) = paPodInfo attrs"
      "paWorkloadInfo (SetDynakubeAttributes env d attrs) = paWorkloadInfo attrs"
      "paUseDeprecated (SetDynakubeAttributes env d attrs) = paUseDeprecated attrs"
      "paDeprecated (SetDynakubeAttributes env d attrs) = paDeprecated attrs"
      "paDynakube (SetDynakubeAttributes env d attrs) = sanitizeKeys env d" for d
      by (simp_all add: SetDynakubeAttributes_def)
    show ?thesis unfolding m combineAll_at container(2) other sources tail e ..
  qed
  moreover have "first_some [None, a, b, c, d, None, e] = first_some [a, b, c, d, e]" for a b c d and e :: "string option"
    by (simp split: option.split)
  ultimately show ?thesis
    using info(1) unfolding combineAll_at[of attrs'] kept sources tail container(1) by (simp only: simp_thms) blast
qed

text \<open>
  The annotation on the pod publishes nothing about the pod, its containers or the cluster, and nothing
  from the environment of a container: its entries are those of the annotations, the DynaKube, the rules
  and the workload, in this order of precedence.
\<close>

theorem json_annotation_sources:
  "attrs_combine caseJSONAnnotation attrs cs k =
     first_some [paPodAnnotations attrs k, paNamespaceAnnotations attrs k, paDynakube attrs k, paRules attrs k,
       paWorkloadInfo attrs k]"
  by (simp add: attrs_combine_def attr_layers_def caseJSONAnnotation_def map_add_def cong: option.case_cong)

section \<open>Resource attributes read back\<close>

text \<open>A visible character other than the separators of the variable.\<close>

definition plain_char :: "char \<Rightarrow> bool" where
  "plain_char c \<longleftrightarrow> 33 \<le> byte c \<and> byte c < 127 \<and> byte c \<noteq> 44 \<and> byte c \<noteq> 61"

lemma white_space_odd: "\<forall>w \<in> set white_space. \<exists>c \<in> set w. \<not> plain_char c"
  by code_simp

lemma separators_not_plain: "\<not> plain_char (CHR '','')" "\<not> plain_char (CHR ''='')"
  by (simp_all add: plain_char_def byte_def)

definition escaped_char :: "char \<Rightarrow> bool" where
  "escaped_char c \<longleftrightarrow> plain_char c \<and> byte c \<noteq> 36"

lemma hex_digit_escaped: "n < 16 \<Longrightarrow> escaped_char (hex_digit n)"
  by (cases "n < 10") (simp_all add: hex_digit_def escaped_char_def plain_char_def byte_char_of)

lemma unreserved_escaped: "unreserved c \<Longrightarrow> escaped_char c"
  by (auto simp: unreserved_def escaped_char_def plain_char_def byte_def Let_def)

lemma escape_char_escaped: "list_all escaped_char (escape_char c)"
proof -
  have "byte c div 16 < 16" using byte_lt[of c] by linarith
  then show ?thesis
    by (simp add: escape_char_def hex_digit_escaped unreserved_escaped) (simp add: escaped_char_def plain_char_def byte_def)
qed

lemma escape_escaped: "list_all escaped_char (QueryEscape s)"
  by (induction s) (simp_all add: QueryEscape_def escape_char_escaped)

lemma safe_refs_plain: "\<forall>r \<in> set SafeEnvRefs. list_all plain_char r \<and> \<not> list_all escaped_char r"
  by code_simp

lemma sanitized_cases: "sanitizeValue v \<in> set SafeEnvRefs \<or> (\<exists>w. sanitizeValue v = QueryEscape w)"
  by (auto simp: sanitizeValue_def split: option.split)

lemma sanitized_plain: "list_all plain_char (sanitizeValue v)"
  using sanitized_cases[of v] safe_refs_plain escape_escaped by (auto simp: list_all_iff escaped_char_def)

text \<open>
  Sanitizing a value twice is sanitizing it once: values the webhook wrote before are not encoded again.
\<close>

theorem sanitizeValue_idem: "sanitizeValue (sanitizeValue v) = sanitizeValue v"
proof (cases "sanitizeValue v \<in> set SafeEnvRefs")
  case False
  then obtain w where w: "sanitizeValue v = QueryEscape w" using sanitized_cases by blast
  with False show ?thesis by (simp add: sanitizeValue_def[of "QueryEscape w"])
qed (simp add: sanitizeValue_def[of "sanitizeValue v"])

lemma plain_no_space:
  assumes "list_all plain_char s" and "set w \<subseteq> set s"
  shows "w \<notin> set white_space"
  using assms white_space_odd unfolding list_all_iff by blast

lemma plain_trim:
  assumes "list_all plain_char s"
  shows "trim_space s = s"
proof -
  have "find (has_prefix s) white_space = None"
    using plain_no_space[OF assms] by (auto simp: find_None_iff has_prefix_def) (metis set_take_subset)
  moreover have "find (has_suffix s) white_space = None"
    using plain_no_space[OF assms] by (auto simp: find_None_iff has_suffix_def) (metis set_drop_subset)
  ultimately show ?thesis by (simp add: trim_space_def trim_left.simps trim_right.simps)
qed

text \<open>A key that survives the separators and the trimming of the reader.\<close>

definition clean_key :: "string \<Rightarrow> bool" where
  "clean_key k \<longleftrightarrow> CHR '','' \<notin> set k \<and> CHR ''='' \<notin> set k \<and> trim_space k = k"

lemma cut_found: "c \<notin> set k \<Longrightarrow> cut c (k @ c # v) = Some (k, v)"
  by (induction k) auto

lemma join_sep_comma: "join_sep [c] xs = join_on c xs"
  by (induction xs rule: join_on.induct) auto

lemma split_pairs:
  "xs \<noteq> [] \<Longrightarrow> (\<And>x. x \<in> set xs \<Longrightarrow> c \<notin> set x) \<Longrightarrow> split_on c (join_on c xs) = xs"
  by (rule split_join) auto

abbreviation read_pair :: "string \<Rightarrow> smap \<Rightarrow> smap" where
  "read_pair pair res \<equiv>
     (case cut (CHR ''='') pair of None \<Rightarrow> res | Some (key, val) \<Rightarrow> res(trim_space key \<mapsto> trim_space val))"

lemma read_pairs:
  "\<forall>(k, v) \<in> set kvs. clean_key k \<and> list_all plain_char v \<Longrightarrow> distinct (map fst kvs) \<Longrightarrow>
   fold read_pair (map (\<lambda>(k, v). k @ ''='' @ v) kvs) m = m ++ map_of kvs"
proof (induction kvs arbitrary: m)
  case (Cons kv kvs)
  obtain k v where kv: "kv = (k, v)" by (cases kv)
  have "cut (CHR ''='') (k @ ''='' @ v) = Some (k, v)"
    using Cons.prems kv by (simp add: clean_key_def cut_found)
  moreover have "trim_space k = k" "trim_space v = v"
    using Cons.prems kv by (auto simp: clean_key_def plain_trim)
  ultimately have step: "read_pair (k @ ''='' @ v) m = m(k \<mapsto> v)" by simp
  have IH: "fold read_pair (map (\<lambda>(k, v). k @ ''='' @ v) kvs) (m(k \<mapsto> v)) = m(k \<mapsto> v) ++ map_of kvs"
    using Cons.prems by (intro Cons.IH) auto
  have "m(k \<mapsto> v) ++ map_of kvs = m ++ map_of (kv # kvs)"
    using Cons.prems(2) kv by (auto simp: map_add_def dom_map_of_conv_image_fst fun_eq_iff
        split: option.split) (metis fst_conv map_of_SomeD image_eqI)
  with IH step show ?case by (simp only: kv list.map prod.case fold.simps comp_apply)
qed simp

text \<open>Keys and values of the variable the webhook writes, and what a reader makes of it.\<close>

lemma pairs_read_back:
  assumes "\<forall>(k, v) \<in> set kvs. clean_key k" and "distinct (map fst kvs)"
  shows "NewAttributesFromEnv [env_literal N (join_sep '','' (map (\<lambda>(k, v). k @ ''='' @ sanitizeValue v) kvs))] N =
           (map_of (map (\<lambda>(k, v). (k, sanitizeValue v)) kvs), True)"
proof -
  let ?kvs = "map (\<lambda>(k, v). (k, sanitizeValue v)) kvs"
  let ?pairs = "map (\<lambda>(k, v). k @ ''='' @ v) ?kvs"
  have same: "map (\<lambda>(k, v). k @ ''='' @ sanitizeValue v) kvs = ?pairs" by (simp add: case_prod_beta)
  have ok: "\<forall>(k, v) \<in> set ?kvs. clean_key k \<and> list_all plain_char v" "distinct (map fst ?kvs)"
    using assms by (auto simp: sanitized_plain comp_def case_prod_beta)
  have "fold read_pair (split_on (CHR '','') (join_on (CHR '','') ?pairs)) Map.empty = map_of ?kvs"
  proof (cases "?pairs = []")
    case False
    have "CHR '','' \<notin> set x" if "x \<in> set ?pairs" for x
      using ok(1) that separators_not_plain by (auto simp: clean_key_def list_all_iff)
    with False have "split_on (CHR '','') (join_on (CHR '','') ?pairs) = ?pairs" by (rule split_pairs)
    then show ?thesis using read_pairs[OF ok, of Map.empty] by simp
  qed simp
  then show ?thesis
    unfolding same NewAttributesFromEnv_def join_sep_comma by (simp add: k8senv_Find_def env_literal_def)
qed

lemma find_absent: "list_all (\<lambda>e. evName e \<noteq> N) es \<Longrightarrow> k8senv_Find es N = None"
  by (induction es) (auto simp: k8senv_Find_def)

lemma find_last: "list_all (\<lambda>e. evName e \<noteq> N) es \<Longrightarrow> k8senv_Find (es @ [env_literal N v]) N = Some (env_literal N v)"
  by (induction es) (auto simp: k8senv_Find_def env_literal_def)

lemma read_last:
  "list_all (\<lambda>e. evName e \<noteq> N) es \<Longrightarrow>
   NewAttributesFromEnv (es @ [env_literal N v]) N = NewAttributesFromEnv [env_literal N v] N"
  by (simp add: NewAttributesFromEnv_def find_last) (simp add: k8senv_Find_def env_literal_def)

lemma read_added:
  "list_all (\<lambda>e. evName e \<noteq> N) (pcEnv c) \<Longrightarrow>
   NewAttributesFromEnv (pcEnv (add_env [env_literal N v] c)) N = NewAttributesFromEnv [env_literal N v] N"
  by (simp add: add_env_def read_last)

lemma sources_names:
  "list_all (\<lambda>e. evName e \<noteq> N) (pcEnv c) \<Longrightarrow> list_all (\<lambda>e. evName e \<noteq> N) es \<Longrightarrow>
   list_all (\<lambda>e. evName e \<noteq> N) (pcEnv (snd (ensureEnvVarSourcesSet es c)))"
proof -
  have "list_all (\<lambda>e. evName e \<noteq> N) (pcEnv c) \<Longrightarrow> list_all (\<lambda>e. evName e \<noteq> N) es \<Longrightarrow>
    list_all (\<lambda>e. evName e \<noteq> N) (pcEnv (snd (fold (\<lambda>e (mutated, c').
             let (envs, added) = k8senv_Append (pcEnv c') e
             in if added then (True, c'\<lparr>pcEnv := envs\<rparr>) else (mutated, c')) es (b, c))))" for b
    by (induction es arbitrary: b c) (auto simp: k8senv_Append_def)
  then show "list_all (\<lambda>e. evName e \<noteq> N) (pcEnv c) \<Longrightarrow> list_all (\<lambda>e. evName e \<noteq> N) es \<Longrightarrow>
    list_all (\<lambda>e. evName e \<noteq> N) (pcEnv (snd (ensureEnvVarSourcesSet es c)))"
    by (simp add: ensureEnvVarSourcesSet_def)
qed

lemma lookup_kept:
  assumes "distinct (map fst al)"
  shows "map_of (filter keep al) key =
           Option.bind (map_of al key) (\<lambda>w. if keep (key, w) then Some w else None)"
  using assms by (induction al) (auto simp: map_of_eq_None_iff Option.bind_eq_None_conv)

definition shown_attributes :: "smap \<Rightarrow> smap" where
  "shown_attributes m = (\<lambda>k. case m k of None \<Rightarrow> None
     | Some v \<Rightarrow> if k = [] \<or> v = [] then None else Some (sanitizeValue v))"

text \<open>C40. What the webhook reads from a container it has given resource attributes is what it wrote: exactly the
  combined attributes, but those with an empty key or value, with sanitized values. No value can break out
  of its pair or add another.
\<close>

theorem resource_attributes_read_back:
  assumes range: "range_ok (peRange env)" and fin: "finite (dom (combineAll attrs' [container_ToMap c]))"
    and clean: "\<And>k. k \<in> dom (combineAll attrs' [container_ToMap c]) \<Longrightarrow> clean_key k"
    and envs: "list_all (\<lambda>e. evName e \<noteq> OTelResourceAttributesEnv) (paPodEnvVars attrs)"
    and run: "addResourceAttributes env attrs c = (m, attrs', c')"
  shows "fst (NewAttributesFromEnv (pcEnv c') OTelResourceAttributesEnv) =
           shown_attributes (combineAll attrs' [container_ToMap c])"
proof -
  obtain existing ok where e: "NewAttributesFromEnv (pcEnv c) OTelResourceAttributesEnv = (existing, ok)"
    by (metis surj_pair)
  let ?c1 = "if ok then c\<lparr>pcEnv := filter (\<lambda>e. evName e \<noteq> OTelResourceAttributesEnv) (pcEnv c)\<rparr> else c"
  let ?all = "combineAll attrs' [container_ToMap c]"
  let ?kept = "filter (\<lambda>(k, v). k \<noteq> [] \<and> v \<noteq> []) (peRange env ?all)"
  let ?c2 = "snd (ensureEnvVarSourcesSet (paPodEnvVars attrs) ?c1)"
  have a': "attrs' = SetCustomAttributes existing attrs"
    using run e by (auto simp: addResourceAttributes_def Let_def split: prod.splits)
  have c': "c' = (if ?kept \<noteq> [] then add_env [env_literal OTelResourceAttributesEnv
      (join_sep '','' (map (\<lambda>(k, v). k @ ''='' @ sanitizeValue v) ?kept))] ?c2 else ?c2)"
    using run e a' by (auto simp: addResourceAttributes_def Let_def SetCustomAttributes_def split: prod.splits)
  have "list_all (\<lambda>e. evName e \<noteq> OTelResourceAttributesEnv) (pcEnv ?c1)"
    using e by (auto simp: NewAttributesFromEnv_def k8senv_Find_def list_all_iff find_None_iff split: option.splits)
  then have names: "list_all (\<lambda>e. evName e \<noteq> OTelResourceAttributesEnv) (pcEnv ?c2)"
    using envs by (rule sources_names)
  have entries: "map_of (peRange env ?all) = ?all" "distinct (map fst (peRange env ?all))"
    using range fin by (simp_all add: range_ok_def)
  have dist: "distinct (map fst ?kept)" using entries(2) by (simp add: distinct_map_filter)
  have shown: "map_of (map (\<lambda>(k, v). (k, sanitizeValue v)) ?kept) = shown_attributes ?all"
  proof
    fix k
    have "map_of ?kept k = (case ?all k of None \<Rightarrow> None | Some v \<Rightarrow> if k \<noteq> [] \<and> v \<noteq> [] then Some v else None)"
      using lookup_kept[OF entries(2), of "\<lambda>(k, v). k \<noteq> [] \<and> v \<noteq> []" k]
      by (cases "?all k") (simp_all add: entries(1))
    then show "map_of (map (\<lambda>(k, v). (k, sanitizeValue v)) ?kept) k = shown_attributes ?all k"
      by (auto simp: map_of_map shown_attributes_def split: option.split)
  qed
  show ?thesis
  proof (cases "?kept = []")
    case True
    have none: "k8senv_Find (pcEnv ?c2) OTelResourceAttributesEnv = None" using names by (rule find_absent)
    have "c' = ?c2" using c' True by (simp only: if_False simp_thms)
    moreover have "shown_attributes ?all = Map.empty" using shown True by (simp only: list.map map_of.simps)
    ultimately show ?thesis using none by (simp only: NewAttributesFromEnv_def option.case fst_conv)
  next
    case False
    have keys: "\<forall>(k, v) \<in> set ?kept. clean_key k"
    proof -
      have "clean_key k" if "(k, v) \<in> set (peRange env ?all)" for k v
        using map_of_is_SomeI[OF entries(2) that] by (intro clean) (simp add: entries(1) domI)
      then show ?thesis by auto
    qed
    have "c' = add_env [env_literal OTelResourceAttributesEnv
      (join_sep '','' (map (\<lambda>(k, v). k @ ''='' @ sanitizeValue v) ?kept))] ?c2"
      using c' False by (simp only: if_True simp_thms)
    then have "NewAttributesFromEnv (pcEnv c') OTelResourceAttributesEnv =
      NewAttributesFromEnv [env_literal OTelResourceAttributesEnv
        (join_sep '','' (map (\<lambda>(k, v). k @ ''='' @ sanitizeValue v) ?kept))] OTelResourceAttributesEnv"
      using names by (simp only: read_added)
    then show ?thesis by (simp only: pairs_read_back[OF keys dist] shown fst_conv)
  qed
qed

section \<open>On a concrete container\<close>

definition sorted_range :: "smap \<Rightarrow> (string \<times> string) list" where
  "sorted_range m = map (\<lambda>k. (k, the (m k))) (sorted_list_of_set (dom m))"

lemma sorted_range_ok: "range_ok sorted_range"
proof -
  have "map_of (map (\<lambda>k. (k, the (m k))) ks) x = (if x \<in> set ks then Some (the (m x)) else None)" for m :: smap and ks x
    by (induction ks) auto
  then have "map_of (sorted_range m) = m" if "finite (dom m)" for m
    using that by (auto simp: sorted_range_def fun_eq_iff domIff)
  then show ?thesis by (simp add: range_ok_def sorted_range_def comp_def)
qed

definition sample_pod_env :: "(smap \<Rightarrow> (string \<times> string) list) \<Rightarrow> pod_env" where
  "sample_pod_env order =
     \<lparr>peRange = order, peSelectorMatches = \<lambda>_ _. True, peParseQuantity = Some, peJSONString = \<lambda>s. s,
      peGetMeta = \<lambda>_ _ _ _. Inl (ApiStatus ''NotFound''), peLookups = 0, peParseURL = \<lambda>_. None,
      peRenderURL = \<lambda>_. [], peParseDuration = \<lambda>_. None, peRenderDuration = \<lambda>_. ''10m'',
      peCSIAvailable = False, peGetenv = \<lambda>_. [], peVersion = ''1.8.0'', peWebhookImage = ''operator'',
      peOpenShift = False,
      peFlags = \<lparr>bfConfigFolder = ''config-directory'', bfInputFolder = ''input-directory'',
        bfSuppressErrors = ''suppress-error'', bfSourceFolder = ''source'', bfTargetFolder = ''target'',
        bfInstallPath = ''install-path'', bfIsFullstack = ''fullstack'', bfTenant = ''tenant'',
        bfTechnology = ''technology'', bfPodAttribute = ''attribute'',
        bfContainerAttribute = ''attribute-container'', bfLibAgentProcPath = ''agent/lib64/lib.so'',
        bfPreloadConfigPath = ''oneagent/ld.so.preload''\<rparr>,
      peSecrets = (storing_server (\<lambda>_ _. True) (\<lambda>_ _. False))
        \<lparr>qeGet := \<lambda>_ _ _. Inr (BuildForNamespace [] [] None None)\<rparr>\<rparr>"

definition sample_container :: "string \<Rightarrow> pod_container" where
  "sample_container n =
     \<lparr>pcName = n, pcImage = ''registry/app:1'', pcImagePullPolicy = [], pcArgs = [],
      pcEnv = [env_literal OTelResourceAttributesEnv ''team=a b''], pcVolumeMounts = [], pcResources = NoResources,
      pcSecurityContext = None, pcOther = []\<rparr>"

definition sample_attribute_request :: base_request where
  "sample_attribute_request =
     \<lparr>brPod = \<lparr>pdName = ''p'', pdGenerateName = [], pdNamespace = ''n'', pdAPIVersion = ''v1'', pdKind = ''Pod'',
        pdAnnotations = [''metadata.dynatrace.com/team'' \<mapsto> ''pod''], pdOwnerReferences = [], pdContainers = [sample_container ''app''],
        pdInitContainers = [], pdVolumes = [], pdSecurityContext = None, pdOther = []\<rparr>,
      brNamespace = \<lparr>whnName = ''n'', whnLabels = [''l'' \<mapsto> ''label''],
        whnAnnotations = [''metadata.dynatrace.com/team'' \<mapsto> ''ns'', ''metadata.dynatrace.com/zone'' \<mapsto> ''ns'']\<rparr>,
      brDynaKube = zero_dynakube\<lparr>dkStatus := zero_dynakube_status\<lparr>dstMetadataEnrichmentRules :=
        [\<lparr>erType = ''LABEL'', erSource = ''l'', erTarget = ''zone''\<rparr>, \<lparr>erType = ''LABEL'', erSource = ''l'', erTarget = ''cost''\<rparr>]\<rparr>\<rparr>\<rparr>"

theorem attribute_precedence_witness:
  "\<exists>attrs. NewPodAttributes (sample_pod_env (\<lambda>_. [])) sample_attribute_request = Inr attrs \<and>
     (case addResourceAttributes (sample_pod_env (\<lambda>_. [])) (SetDynakubeAttributes (sample_pod_env (\<lambda>_. [])) Map.empty attrs)
        (sample_container ''app'') of
        (_, attrs', _) \<Rightarrow> map (combineAll attrs' [container_ToMap (sample_container ''app'')]) [''team'', ''zone'', ''cost'', ''k8s.workload.name''] =
          map Some [''a b'', ''ns'', ''label'', ''p''])"
proof -
  let ?env = "sample_pod_env (\<lambda>_. [])" and ?req = "sample_attribute_request" and ?c = "sample_container ''app''"
  have root: "FindRootOwnerOfPod ?env ?req = Inr \<lparr>wiName = ''p'', wiKind = ''pod''\<rparr>"
    by (simp add: FindRootOwnerOfPod_def findRootOwner.simps[of _ _ "pod_meta _"] pod_meta_def sample_attribute_request_def
        pod_GetName_def NewInfo_def) code_simp
  then obtain attrs where attrs: "NewPodAttributes ?env ?req = Inr attrs"
    by (simp add: NewPodAttributes_def readWorkloadInfoAttributes_def Let_def)
  obtain m attrs' c' where run: "addResourceAttributes ?env (SetDynakubeAttributes ?env Map.empty attrs) ?c = (m, attrs', c')"
    by (metis prod_cases3)
  have trim: "trim_space ''team'' = ''team''" "trim_space ''a b'' = ''a b''" by code_simp+
  have own: "fst (NewAttributesFromEnv (pcEnv ?c) OTelResourceAttributesEnv) = [''team'' \<mapsto> ''a b'']"
    by (simp add: NewAttributesFromEnv_def sample_container_def k8senv_Find_def env_literal_def trim)
  have none: "sanitizeKeys ?env d = Map.empty" for d by (simp add: sanitizeKeys_def sample_pod_env_def)
  have rules: "map (rules_source (brNamespace ?req) (dstMetadataEnrichmentRules (dkStatus (brDynaKube ?req))))
      [''zone'', ''cost'', ''k8s.workload.name''] = [Some ''label'', Some ''label'', None]"
    by code_simp
  have found: "found_out ?req \<lparr>wiName = ''p'', wiKind = ''pod''\<rparr> ''k8s.workload.name'' = Some ''p''"
    by (simp add: found_out_def)
  have annotations: "pdAnnotations (brPod ?req) = [''metadata.dynatrace.com/team'' \<mapsto> ''pod'']"
    "whnAnnotations (brNamespace ?req) = [''metadata.dynatrace.com/team'' \<mapsto> ''ns'', ''metadata.dynatrace.com/zone'' \<mapsto> ''ns'']"
    by (simp_all add: sample_attribute_request_def)
  note at = attribute_precedence[OF attrs run, unfolded own annotations none]
  have "combineAll attrs' [container_ToMap ?c] ''team'' = Some ''a b''"
    "combineAll attrs' [container_ToMap ?c] ''zone'' = Some ''ns''"
    "combineAll attrs' [container_ToMap ?c] ''cost'' = Some ''label''"
    "combineAll attrs' [container_ToMap ?c] ''k8s.workload.name'' = Some ''p''"
    using at[of "''team''"] at[of "''zone''"] at[of "''cost''"] at[of "''k8s.workload.name''"] rules found root by auto
  with attrs run show ?thesis by simp
qed

text \<open>The container asks for its own attribute; its name and this one are what is read back.\<close>

theorem resource_attributes_witness:
  "fst (NewAttributesFromEnv (pcEnv (snd (snd (addResourceAttributes (sample_pod_env sorted_range)
      (empty_attrs False) (sample_container ''app''))))) OTelResourceAttributesEnv) ''team'' = Some ''a+b''"
proof -
  let ?c = "sample_container ''app''"
  obtain m a c where run: "addResourceAttributes (sample_pod_env sorted_range) (empty_attrs False) ?c = (m, a, c)"
    by (metis prod_cases3)
  have trim: "trim_space ''team'' = ''team''" "trim_space ''a b'' = ''a b''"
    "trim_space ''k8s.container.name'' = ''k8s.container.name''" by code_simp+
  have "fst (NewAttributesFromEnv (pcEnv ?c) OTelResourceAttributesEnv) = [''team'' \<mapsto> ''a b'']"
    by (simp add: NewAttributesFromEnv_def sample_container_def k8senv_Find_def env_literal_def trim)
  then have a: "a = SetCustomAttributes [''team'' \<mapsto> ''a b''] (empty_attrs False)"
    using run by (simp add: addResourceAttributes_def Let_def case_prod_beta)
  have all: "combineAll a [container_ToMap ?c] = [''k8s.container.name'' \<mapsto> ''app'', ''team'' \<mapsto> ''a b'']"
    by (rule ext) (simp add: combineAll_at a SetCustomAttributes_def empty_attrs_def flattenContainerAttrs_def
        container_ToMap_def sample_container_def)
  have "clean_key k" if "k \<in> dom (combineAll a [container_ToMap ?c])" for k
    using that by (auto simp: all clean_key_def trim split: if_splits)
  then have "fst (NewAttributesFromEnv (pcEnv c) OTelResourceAttributesEnv) =
      shown_attributes (combineAll a [container_ToMap ?c])"
    by (intro resource_attributes_read_back[OF _ _ _ _ run])
      (simp_all add: all sorted_range_ok sample_pod_env_def empty_attrs_def)
  moreover have "sanitizeValue ''a b'' = ''a+b''" by code_simp
  ultimately show ?thesis by (simp add: run all shown_attributes_def)
qed

end
