(* ===== verification/PodProperties.thy ===== *)
theory PodProperties
  imports PodReinvoke PodAttributeLaws
begin

text \<open>
  The guarantees of the pod webhook: what its answers may do to a pod, whether something fails or not, the
  security context of the init container, the calls it makes, and how a namespace leads to its DynaKube.
\<close>

section \<open>Answers\<close>

text \<open>C1. A mutation that fails leaves no trace of what was done before it failed: when a handler returns an
  error, the patch is the pod of the request with one pair of annotations that says why.
\<close>

theorem failed_injection_only_annotates:
  assumes "mutationRequired env (hkRequest st)" and "\<not> isOcDebugPod (hk_pod st)"
    and "\<not> Option.is_none (fst (injection_Handle env st)) \<or>
         \<not> Option.is_none (fst (otlp_Handle env (snd (injection_Handle env st))))"
  shows "\<exists>i n x. (i, n) \<in> set outcome_keys \<and>
           fst (handle_request env st) = PatchTo (set_not_injected i n x (hk_pod st))"
proof -
  obtain e1 st1 where i: "injection_Handle env st = (e1, st1)" by (metis surj_pair)
  obtain e2 st2 where ot: "otlp_Handle env st1 = (e2, st2)" by (metis surj_pair)
  have s1: "effect_sound (\<lambda>_. False) st (e1, st1)" using sound_injection[of env "\<lambda>_. False" st] i by simp
  have s2: "effect_sound (\<lambda>_. False) st1 (e2, st2)" using sound_otlp[of env "\<lambda>_. False" st1] ot by simp
  obtain e where e: "outcome_error e" "fst (handle_request env st) = error_response (hk_pod st) e"
    using assms i ot s1 s2
    by (cases e1; cases e2) (auto simp: handle_request_def Let_def effect_sound_def Option.is_none_def)
  from outcome_response[OF e(1), of "hk_pod st"] e(2) show ?thesis by metis
qed

text \<open>C2. Whatever the webhook answers, its patch only extends the pod: no container is added, removed, reordered
  or changed beyond environment and mounts, existing mounts and volumes stay in front, and variables the webhook
  does not manage keep their values. Every init container stays as it is and in its place, except that one with
  the name of the webhook's own may get more arguments; only such a one is added, behind the others. Of the
  annotations only the verdicts and their reasons may change, and only the metadata enrichment may be added, on a
  pod that has none. Nothing else of the pod changes.
\<close>

theorem patched_pod_extends:
  assumes "fst (handle_request env st) = PatchTo p"
  shows "pod_extends (\<lambda>_. False) (hk_pod st) p"
  using assms by (rule patched_pod[OF stays_nobody])

text \<open>C3. A container that opted out of the injection, on the pod or on the DynaKube, is not changed at all,
  neither by the injection nor by the OTLP handler, in whatever order annotations are ranged over.
\<close>

theorem opted_out_container_untouched:
  assumes "range_ok (peRange env)" and "finite (dom (dkAnnotations (hk_dk st)))"
    and "finite (dom (pdAnnotations (hk_pod st)))" and "i < length (pdContainers (hk_pod st))"
    and out: "opted_out (dkAnnotations (hk_dk st)) (pcName (pdContainers (hk_pod st) ! i)) \<or>
              opted_out (pdAnnotations (hk_pod st)) (pcName (pdContainers (hk_pod st) ! i))"
    and "fst (handle_request env st) = PatchTo p"
  shows "pdContainers p ! i = pdContainers (hk_pod st) ! i"
proof -
  let ?F = "\<lambda>n. n = pcName (pdContainers (hk_pod st) ! i)"
  have "stays env ?F (hk_base st)" using assms by (simp add: stays_def)
  from patched_pod[OF this assms(6)] assms(4) show ?thesis
    by (auto simp: pod_extends_def containers_extend_def dest: list_all2_nthD)
qed

section \<open>The init container\<close>

lemma override_id_first: "override_id a b = (case a of Some y \<Rightarrow> Some y | None \<Rightarrow> b)"
  by (cases a) (simp_all add: override_id_def)

lemma inits_set_annotations [simp]: "pdInitContainers (set_injected i n p) = pdInitContainers p"
  by (simp add: set_injected_def)

lemma inits_update_new [simp]: "pdInitContainers (brPod (update_new env isInj r f)) = pdInitContainers (brPod r)"
  by (simp add: update_new_def)

lemma inits_adds_volume: "adds_volume pod m \<Longrightarrow> m = Inr p \<Longrightarrow> pdInitContainers p = pdInitContainers pod"
  by (auto simp: adds_volume_def add_volume_def)

lemma meta_inits: "meta_Mutate env r = Inr r' \<Longrightarrow> pdInitContainers (mr_pod r') = pdInitContainers (mr_pod r)"
  by (auto simp: meta_Mutate_def AddContainerAttributes_def Let_def split: sum.splits if_splits)

definition keeps_inits :: "pod_container list \<Rightarrow> handler_error + mutation_request \<Rightarrow> bool" where
  "keeps_inits cs m \<longleftrightarrow> (\<forall>r'. m = Inr r' \<longrightarrow> pdInitContainers (mr_pod r') = cs)"

lemma keeps_inits_Inl [simp]: "keeps_inits cs (Inl e)"
  by (simp add: keeps_inits_def)

lemma keeps_inits_volume:
  "adds_volume pod m \<Longrightarrow> (\<And>p. pdInitContainers p = pdInitContainers pod \<Longrightarrow> keeps_inits (pdInitContainers pod) (k p)) \<Longrightarrow>
   keeps_inits (pdInitContainers pod) (case m of Inl e \<Rightarrow> Inl e | Inr p \<Rightarrow> k p)"
  by (cases m) (auto dest: inits_adds_volume)

lemma keeps_inits_finish:
  "pdInitContainers p = cs \<Longrightarrow>
   keeps_inits cs
     (case addInitArgs env p dk path c of
        Inl e \<Rightarrow> Inl e | Inr c' \<Rightarrow> Inr (set_install (\<lambda>_. c') (set_pod (\<lambda>_. p) r)))"
  by (cases "addInitArgs env p dk path c") (auto simp: keeps_inits_def)

lemma init_inits: "keeps_inits (pdInitContainers (mr_pod r)) (mutateInitContainer env path r)"
  unfolding mutateInitContainer_def Let_def
  by (intro impI conjI keeps_inits_Inl keeps_inits_volume keeps_inits_finish adds_csi_bin_volume
      adds_empty_bin_volume if_split[of "keeps_inits cs" for cs, THEN iffD2])

lemma oa_inits: "oa_Mutate env r = Inr r' \<Longrightarrow> pdInitContainers (mr_pod r') = pdInitContainers (mr_pod r)"
  using init_inits[of r env "installPath_of (mr_pod r)"]
  by (auto simp: oa_Mutate_def mutateUserContainers_def Let_def keeps_inits_def split: option.splits sum.splits)

lemma run_mutators_inits:
  "run_mutators env r = Inr (m, r') \<Longrightarrow> pdInitContainers (mr_pod r') = pdInitContainers (mr_pod r)"
  by (auto simp: run_mutators_def Let_def map_sum_eq_Inr map_sum_eq_Inl split: if_splits sum.splits
      dest!: meta_inits oa_inits)

lemma combined_ids:
  "scRunAsUser (combineSecurityContexts sc pod) =
     first_some [getValidatedID (annotation_value pod RunAsUserAnnotation),
       Option.bind (container_context pod) scRunAsUser, Option.bind (pdSecurityContext pod) pscRunAsUser,
       scRunAsUser sc]"
  "scRunAsGroup (combineSecurityContexts sc pod) =
     first_some [getValidatedID (annotation_value pod RunAsGroupAnnotation),
       Option.bind (container_context pod) scRunAsGroup, Option.bind (pdSecurityContext pod) pscRunAsGroup,
       scRunAsGroup sc]"
  by (simp_all add: combineSecurityContexts_def Let_def override_id_first cong: option.case_cong)

lemma combined_rest:
  "scPrivileged (combineSecurityContexts sc pod) = scPrivileged sc"
  "scAllowPrivilegeEscalation (combineSecurityContexts sc pod) = scAllowPrivilegeEscalation sc"
  "scReadOnlyRootFilesystem (combineSecurityContexts sc pod) = scReadOnlyRootFilesystem sc"
  "scCapabilitiesDrop (combineSecurityContexts sc pod) = scCapabilitiesDrop sc"
  "scRunAsNonRoot (combineSecurityContexts sc pod) = Some (isNonRoot (combineSecurityContexts sc pod))"
  by (simp_all add: combineSecurityContexts_def Let_def isNonRoot_def cong: option.case_cong)

lemma injected_init:
  assumes inject: "inject_pod env st = Inr st'" and fresh: "\<not> isInjected (hk_pod st)"
    and c: "c \<in> set (pdInitContainers (hk_pod st'))" "pcName c = InstallContainerName"
  shows "pcSecurityContext c = Some (securityContextForInitContainer (hk_pod st) (hk_dk st) (peOpenShift env))"
proof -
  let ?r0 = "(hkRequest st)\<lparr>mrInstallContainer := createInitContainerBase env (hk_pod st) (hk_dk st)\<rparr>"
  have none: "pcName x \<noteq> InstallContainerName" if "x \<in> set (pdInitContainers (hk_pod st))" for x
    using fresh that by (auto simp: isInjected_def FindInitInPodSpec_def find_None_iff)
  obtain m st1 where run: "handlePodMutation env st = Inr (m, st1)"
    and st': "pdInitContainers (hk_pod st') = pdInitContainers (hk_pod st1)"
    using inject fresh by (auto simp: inject_pod_def set_not_injected_def split: sum.splits if_splits)
  obtain m' r1 where mut: "run_mutators env ?r0 = Inr (m', r1)"
    using run by (auto simp: handlePodMutation_def Let_def split: sum.splits)
  have inits: "pdInitContainers (mr_pod r1) = pdInitContainers (hk_pod st)"
    using run_mutators_inits[OF mut] by simp
  have "m'" 
  proof (rule ccontr)
    assume "\<not> m'"
    with run mut have "pdInitContainers (hk_pod st1) = pdInitContainers (hk_pod st)"
      by (auto simp: handlePodMutation_def Let_def inits)
    with none c st' show False by auto
  qed
  then obtain pod where added: "addInitContainerToPod env (mrInstallContainer r1) (mr_pod r1) = Inr pod"
    and pod: "pdInitContainers (hk_pod st1) = pdInitContainers pod"
    using run mut by (auto simp: handlePodMutation_def Let_def split: sum.splits)
  obtain p2 c' where p2: "pod = p2\<lparr>pdInitContainers := pdInitContainers p2 @ [c']\<rparr>"
    "same_frame (mrInstallContainer r1) c'" "pdInitContainers p2 = pdInitContainers (mr_pod r1)"
    by (rule added_init_container[OF added]) blast
  have "c = c'" using c st' pod p2(1,3) none inits by auto
  with p2(2) run_mutators_frame[OF mut] show ?thesis
    by (simp add: same_frame_def createInitContainerBase_def Let_def)
qed

text \<open>C4. The init container the webhook adds is confined: never privileged, without capabilities or privilege
  escalation, on a read-only file system. Its user and group come from the annotation, the first container,
  the pod or the default, in this order, and it claims to be non-root exactly when they are not root.
\<close>

theorem init_container_hardened:
  assumes "inject_pod env st = Inr st'" and "\<not> isInjected (hk_pod st)"
    and "c \<in> set (pdInitContainers (hk_pod st'))" and "pcName c = InstallContainerName"
  shows "\<exists>sc. pcSecurityContext c = Some sc \<and> scPrivileged sc = Some False \<and>
           scAllowPrivilegeEscalation sc = Some False \<and> scReadOnlyRootFilesystem sc = Some True \<and>
           scCapabilitiesDrop sc = [''ALL''] \<and>
           scRunAsUser sc =
             first_some [getValidatedID (annotation_value (hk_pod st) RunAsUserAnnotation),
               Option.bind (container_context (hk_pod st)) scRunAsUser,
               Option.bind (pdSecurityContext (hk_pod st)) pscRunAsUser,
               if peOpenShift env then None else Some 1001] \<and>
           scRunAsGroup sc =
             first_some [getValidatedID (annotation_value (hk_pod st) RunAsGroupAnnotation),
               Option.bind (container_context (hk_pod st)) scRunAsGroup,
               Option.bind (pdSecurityContext (hk_pod st)) pscRunAsGroup, Some 1001] \<and>
           scRunAsNonRoot sc =
             Some (case scRunAsUser sc of Some u \<Rightarrow> u \<noteq> 0 | None \<Rightarrow> scRunAsGroup sc \<noteq> Some 0)"
  unfolding injected_init[OF assms]
  by (simp add: securityContextForInitContainer_def Let_def combined_rest combined_ids isNonRoot_def cong: option.case_cong
      split: option.split)

section \<open>Calls to the Kubernetes API\<close>

definition input_secrets :: "string list" where
  "input_secrets =
     [BootstrapperInitSecretName, BootstrapperInitCertsSecretName, OTLPExporterSecretName, OTLPExporterCertsSecretName]"

definition allowed_call :: "string \<Rightarrow> secret_payload q_call \<Rightarrow> bool" where
  "allowed_call ns c =
     (case c of
        QGet _ _ \<Rightarrow> True
      | QCreate obj \<Rightarrow> koNamespace obj = ns \<and> koName obj \<in> set input_secrets
      | _ \<Rightarrow> False)"

definition only_allowed :: "string \<Rightarrow> secret_payload query_state \<Rightarrow> secret_payload query_state \<Rightarrow> bool" where
  "only_allowed ns q q' \<longleftrightarrow> (\<exists>calls. qsTrace q' = qsTrace q @ calls \<and> list_all (allowed_call ns) calls)"

lemma only_allowed_refl [simp]: "only_allowed ns q q"
  by (simp add: only_allowed_def)

lemma only_allowed_trans: "only_allowed ns a b \<Longrightarrow> only_allowed ns b c \<Longrightarrow> only_allowed ns a c"
  by (auto simp: only_allowed_def)

lemma AddAnnotation_key:
  "AddAnnotation env obj = Inr obj1 \<Longrightarrow> koName obj1 = koName obj \<and> koNamespace obj1 = koNamespace obj"
  by (auto simp: AddAnnotation_def split: option.splits sum.splits)

definition allows :: "string \<Rightarrow> (secret_payload query_state, 'a) io \<Rightarrow> bool" where
  "allows ns m \<longleftrightarrow> (\<forall>q. only_allowed ns q (snd (m q)))"

lemma allows_andThen: "allows ns m \<Longrightarrow> (\<And>x. allows ns (f x)) \<Longrightarrow> allows ns (andThen m f)"
  unfolding allows_def andThen_def by (auto split: prod.split sum.split intro: only_allowed_trans)

lemma allows_attempt: "allows ns m \<Longrightarrow> allows ns (attempt m)"
  by (simp add: allows_def attempt_def split: prod.split) (metis snd_conv)

lemma allows_ret: "allows ns (ret x)" "allows ns (throw e)"
  by (simp_all add: allows_def ret_def throw_def)

lemma allows_get: "allows ns (Get env a b)"
  by (simp add: allows_def Get_def q_ask_def only_allowed_def allowed_call_def)

lemma allows_create:
  assumes "koNamespace s = ns" and "koName s \<in> set input_secrets"
  shows "allows ns (andThen (set_object s) (\<lambda>_. Create (env\<lparr>qeOwner := None\<rparr>)))"
proof -
  have "only_allowed ns q (snd (Create (env\<lparr>qeOwner := None\<rparr>) (q\<lparr>qsObject := s\<rparr>)))" for q
  proof (cases "sent (env\<lparr>qeOwner := None\<rparr>) s")
    case (Inl e)
    with Create_unsent[of "env\<lparr>qeOwner := None\<rparr>" "q\<lparr>qsObject := s\<rparr>" e] show ?thesis
      by (auto simp: only_allowed_def)
  next
    case (Inr obj)
    then have "koNamespace obj = koNamespace s \<and> koName obj = koName s"
      by (auto simp: sent_def dest: AddAnnotation_key split: sum.splits)
    with assms Inr show ?thesis
      by (simp add: Create_sent only_allowed_def allowed_call_def split: sum.split)
  qed
  then show ?thesis by (simp add: allows_def set_object_def andThen_modify)
qed

lemma IgnoreAlreadyExists_after:
  "andThen (set_object s) (\<lambda>_. IgnoreAlreadyExists m) = IgnoreAlreadyExists (andThen (set_object s) (\<lambda>_. m))"
  by (rule ext) (auto simp: IgnoreAlreadyExists_def set_object_def io_simps split: prod.split sum.split)

lemma allows_ignore: "allows ns m \<Longrightarrow> allows ns (IgnoreAlreadyExists m)"
  unfolding IgnoreAlreadyExists_def
  by (rule allows_andThen[OF allows_attempt]) (auto simp: allows_ret split: sum.split)

lemma allows_replicate:
  "target \<in> set input_secrets \<Longrightarrow> allows ns (Replicate env source (ns, target))"
  unfolding Replicate_def GetSecretFromSource_def IgnoreAlreadyExists_after andThen_assoc andThen_ret
  by (intro allows_andThen allows_get allows_ignore allows_create) (simp_all add: BuildForNamespace_def)

lemma allows_ensure:
  "target \<in> set input_secrets \<Longrightarrow> allows (whnName (brNamespace req)) (EnsureReplicated env req source target)"
  unfolding EnsureReplicated_def
  by (rule allows_andThen[OF allows_attempt[OF allows_get]])
    (auto simp: allows_ret allows_replicate split: sum.split)

lemma secret_present_calls:
  assumes "secret_present env a b i n x st = (present, st')" and "b \<in> set input_secrets"
  shows "only_allowed (whnName (brNamespace (hk_base st))) (hkQuery st) (hkQuery st')"
  using assms allows_ensure[of b "hk_base st" "peSecrets env" a]
  by (auto simp: secret_present_def allows_def Let_def on_pod_def on_request_def split: prod.splits sum.splits)
    (metis snd_conv)+

lemma inject_pod_calls: "inject_pod env st = Inr st' \<Longrightarrow> hkQuery st' = hkQuery st"
  by (auto simp: inject_pod_def handlePodMutation_def handlePodReinvocation_def on_pod_def on_request_def Let_def
      SendPodInjectEvent_def SendPodUpdateEvent_def send_event_def split: if_splits sum.splits prod.splits)

lemma as_effect_calls: "(\<And>st'. f st = Inr st' \<Longrightarrow> hkQuery st' = hkQuery st) \<Longrightarrow> hkQuery (snd (as_effect f st)) = hkQuery st"
  by (cases "f st") (auto simp: as_effect_def)

lemma otlp_inject_calls: "otlp_inject env st = Inr st' \<Longrightarrow> hkQuery st' = hkQuery st"
  by (auto simp: otlp_inject_def on_pod_def on_request_def split: if_splits sum.splits)

definition hook_allows :: "hook_state \<Rightarrow> hook_state \<Rightarrow> bool" where
  "hook_allows st st' \<longleftrightarrow>
     brNamespace (hk_base st') = brNamespace (hk_base st) \<and>
     only_allowed (whnName (brNamespace (hk_base st))) (hkQuery st) (hkQuery st')"

lemma hook_allows_refl [simp]: "hook_allows st st"
  by (simp add: hook_allows_def)

lemma hook_allows_trans: "hook_allows a b \<Longrightarrow> hook_allows b c \<Longrightarrow> hook_allows a c"
  unfolding hook_allows_def by (metis only_allowed_trans)

lemma step_namespace: "hook_step F st st' \<Longrightarrow> brNamespace (hk_base st') = brNamespace (hk_base st)"
  unfolding hook_step_def using request_step_keeps by blast

lemma step_allows: "hook_step F st st' \<Longrightarrow> hkQuery st' = hkQuery st \<Longrightarrow> hook_allows st st'"
  by (simp add: hook_allows_def step_namespace)

lemma secret_allows:
  assumes run: "secret_present env a b i n x st = (present, st')"
    and "b \<in> set input_secrets" and keys: "(i, n) \<in> set outcome_keys"
  shows "hook_allows st st'"
  using secret_present_calls[OF assms(1,2)] step_namespace[OF step_secret[OF run keys, of "\<lambda>_. False"]]
  by (simp add: hook_allows_def)

lemma effect_allows:
  assumes "effect_sound (\<lambda>_. False) st (as_effect f st)" and "\<And>st'. f st = Inr st' \<Longrightarrow> hkQuery st' = hkQuery st"
  shows "hook_allows st (snd (as_effect f st))"
  using assms(1) as_effect_calls[of f st, OF assms(2)] by (auto simp: effect_sound_def intro: step_allows)

lemma injection_allows: "hook_allows st (snd (injection_Handle env st))"
proof -
  let ?dk = "hk_dk st"
  obtain b1 st1 where s1: "isInputSecretPresent env (dkName ?dk @ ''-bootstrapper-config'') BootstrapperInitSecretName st = (b1, st1)"
    by (metis surj_pair)
  obtain b2 st2 where s2: "isInputSecretPresent env (dkName ?dk @ ''-bootstrapper-certs'') BootstrapperInitCertsSecretName st1 = (b2, st2)"
    by (metis surj_pair)
  have a1: "hook_allows st st1"
    using s1 unfolding isInputSecretPresent_def by (rule secret_allows) (simp_all add: input_secrets_def)
  have "hook_allows st1 st2"
    using s2 unfolding isInputSecretPresent_def by (rule secret_allows) (simp_all add: input_secrets_def)
  with a1 have a2: "hook_allows st st2" by (rule hook_allows_trans)
  have "hook_allows s (snd (as_effect (inject_pod env) s))" for s
    by (rule effect_allows[OF effect_inject_pod inject_pod_calls]) simp_all
  then have "hook_allows st (snd (as_effect (inject_pod env) st1))" "hook_allows st (snd (as_effect (inject_pod env) st2))"
    using a1 a2 by (blast intro: hook_allows_trans)+
  then show ?thesis
    using a1 a2 s1 s2 by (cases b1; cases b2) (simp_all add: injection_Handle_def Let_def)
qed

lemma otlp_allows: "hook_allows st (snd (otlp_Handle env st))"
proof -
  obtain b1 st1 where s1: "isTokenSecretPresent env st = (b1, st1)" by (metis surj_pair)
  obtain b2 st2 where s2: "isExporterActiveGateCertSecretPresent env st1 = (b2, st2)" by (metis surj_pair)
  have a1: "hook_allows st st1"
    using s1 unfolding isTokenSecretPresent_def by (rule secret_allows) (simp_all add: input_secrets_def)
  have "hook_allows st1 st2"
    using s2 unfolding isExporterActiveGateCertSecretPresent_def
    by (auto simp: input_secrets_def split: if_splits elim!: secret_allows)
  with a1 have a2: "hook_allows st st2" by (rule hook_allows_trans)
  have "hook_allows st2 (snd (as_effect (otlp_inject env) st2))"
    by (rule effect_allows[OF as_effect_sound[OF sound_otlp_inject] otlp_inject_calls]) simp_all
  with a2 have "hook_allows st (snd (as_effect (otlp_inject env) st2))" by (rule hook_allows_trans)
  then show ?thesis
    using a1 a2 s1 s2 by (cases b1; cases b2) (simp_all add: otlp_Handle_def)
qed

text \<open>C35. All the webhook does to the cluster is to read, and to create its own four secrets in the namespace of
  the pod: it never updates or deletes anything, whatever it finds and whatever fails.
\<close>

theorem webhook_only_creates_secrets:
  "\<exists>calls. qsTrace (hkQuery (snd (handle_request env st))) = qsTrace (hkQuery st) @ calls \<and>
     list_all (allowed_call (whnName (brNamespace (hk_base st)))) calls"
proof -
  obtain e1 st1 where i: "injection_Handle env st = (e1, st1)" by (metis surj_pair)
  obtain e2 st2 where ot: "otlp_Handle env st1 = (e2, st2)" by (metis surj_pair)
  have a1: "hook_allows st st1" using injection_allows[of st env] i by simp
  have "hook_allows st1 st2" using otlp_allows[of st1 env] ot by simp
  with a1 have "hook_allows st st2" by (rule hook_allows_trans)
  with a1 i ot have "hook_allows st (snd (handle_request env st))"
    by (auto simp: handle_request_def Let_def split: option.split)
  then show ?thesis by (simp add: hook_allows_def only_allowed_def)
qed

section \<open>From the namespace to the DynaKube\<close>

text \<open>C36. Mapper and webhook agree: after the mapper has updated a namespace that exactly one DynaKube selects, a
  pod created there is mutated for this DynaKube.
\<close>

theorem mapped_namespace_reaches_its_dynakube:
  assumes "ignores_label menv" and "distinct (map dkName dks)" and "filter (ns_matches menv ns) dks = [dk]"
    and "arPod req = Inr pod" and "weGetNamespace w (arNamespace req) = Inr wns"
    and "whnLabels wns = nsLabels (snd (updateNamespace menv dks ns))"
    and "weGetDynaKube w (weNamespace w) (dkName dk) = Inr dk"
  shows "createMutationRequestBase w req = ([], Inr (Some (NewMutationRequest wns pod dk)))"
proof -
  have "snd (updateNamespace menv dks ns) = with_label (Some (dkName dk)) ns"
    using updateNamespace_cases[OF assms(1,2), of ns] assms(3) by simp
  with assms(4-) show ?thesis
    by (simp add: createMutationRequestBase_def getDynakubeName_def wh_getDynakube_def with_label_def)
qed

section \<open>On concrete requests\<close>

definition sample_owner :: owner_ref where
  "sample_owner = \<lparr>orAPIVersion = ''apps/v1'', orKind = ''ReplicaSet'', orName = ''rs'', orController = Some True\<rparr>"

definition sample_pod :: "owner_ref list \<Rightarrow> smap \<Rightarrow> pod" where
  "sample_pod owners ann =
     \<lparr>pdName = ''pod'', pdGenerateName = [], pdNamespace = ''n2'', pdAPIVersion = ''v1'', pdKind = ''Pod'',
      pdAnnotations = ann, pdOwnerReferences = owners,
      pdContainers = [sample_container ''app'', sample_container ''sidecar''], pdInitContainers = [], pdVolumes = [],
      pdSecurityContext = None, pdOther = []\<rparr>"

definition sample_webhook_ns :: wh_namespace where
  "sample_webhook_ns = \<lparr>whnName = ''n2'', whnLabels = nsLabels (with_label (Some ''a'') sample_selected_ns), whnAnnotations = Map.empty\<rparr>"

definition sample_hook :: "pod \<Rightarrow> hook_state" where
  "sample_hook pod =
     \<lparr>hkRequest = NewMutationRequest sample_webhook_ns pod (sample_enriching ''a''),
      hkQuery = \<lparr>qsTrace = [], qsObject = BuildForNamespace [] [] None None\<rparr>, hkEvents = []\<rparr>"

text \<open>The owner of the pod cannot be looked up.\<close>

theorem failed_injection_witness:
  "\<exists>i n x. (i, n) \<in> set outcome_keys \<and>
     fst (handle_request (sample_pod_env (\<lambda>_. [])) (sample_hook (sample_pod [sample_owner] Map.empty))) =
       PatchTo (set_not_injected i n x (sample_pod [sample_owner] Map.empty))"
proof -
  let ?env = "sample_pod_env (\<lambda>_. [])"
  let ?st = "sample_hook (sample_pod [sample_owner] Map.empty)"
  have "mutationRequired ?env (hkRequest ?st)" "\<not> isOcDebugPod (hk_pod ?st)"
    "\<not> Option.is_none (fst (injection_Handle ?env ?st))" by code_simp+
  then show ?thesis
    using failed_injection_only_annotates[of ?env ?st] by (simp add: sample_hook_def NewMutationRequest_def)
qed

lemma always_patched:
  assumes "mutationRequired env (hkRequest st)" and "\<not> isOcDebugPod (hk_pod st)"
  shows "\<exists>p. fst (handle_request env st) = PatchTo p"
proof -
  obtain e1 st1 where i: "injection_Handle env st = (e1, st1)" by (metis surj_pair)
  obtain e2 st2 where ot: "otlp_Handle env st1 = (e2, st2)" by (metis surj_pair)
  have s1: "effect_sound (\<lambda>_. False) st (e1, st1)" using sound_injection[of env "\<lambda>_. False" st] i by simp
  have s2: "effect_sound (\<lambda>_. False) st1 (e2, st2)" using sound_otlp[of env "\<lambda>_. False" st1] ot by simp
  have "\<exists>p. error_response (hk_pod st) e = PatchTo p" if "outcome_error e" for e
    using outcome_response[OF that] by metis
  then show ?thesis
    using assms i ot s1 s2
    by (cases e1; cases e2) (auto simp: handle_request_def Let_def effect_sound_def finish_pod_def
        dest: json_annotation_error split: option.split sum.split)
qed

theorem patched_pod_witness:
  "\<exists>p. fst (handle_request (sample_pod_env (\<lambda>_. [])) (sample_hook (sample_pod [] Map.empty))) = PatchTo p \<and>
     pod_extends (\<lambda>_. False) (sample_pod [] Map.empty) p"
proof -
  let ?env = "sample_pod_env (\<lambda>_. [])"
  let ?st = "sample_hook (sample_pod [] Map.empty)"
  have "mutationRequired ?env (hkRequest ?st)" "\<not> isOcDebugPod (hk_pod ?st)" by code_simp+
  then obtain p where p: "fst (handle_request ?env ?st) = PatchTo p" using always_patched by blast
  with patched_pod_extends[OF p] show ?thesis by (auto simp: sample_hook_def NewMutationRequest_def)
qed

theorem opted_out_witness:
  "\<exists>p. fst (handle_request (sample_pod_env sorted_range)
      (sample_hook (sample_pod [] [''container.inject.dynatrace.com/app'' \<mapsto> ''false'']))) = PatchTo p \<and>
    pdContainers p ! 0 = sample_container ''app''"
proof -
  let ?env = "sample_pod_env sorted_range"
  let ?key = "''container.inject.dynatrace.com/app''"
  let ?st = "sample_hook (sample_pod [] [?key \<mapsto> ''false''])"
  have out: "opted_out (pdAnnotations (hk_pod ?st)) ''app''"
    by (auto simp: opted_out_def names_container_def has_prefix_def slash_def sample_hook_def NewMutationRequest_def sample_pod_def split: if_splits)
  have "checkInjectionAnnotation ?env [?key \<mapsto> ''false''] ''sidecar'' = False"
    by (simp add: checkInjectionAnnotation_def sample_pod_env_def sorted_range_def has_prefix_def slash_def)
  moreover have "checkInjectionAnnotation ?env Map.empty ''sidecar'' = False"
    by (simp add: checkInjectionAnnotation_def sample_pod_env_def sorted_range_def)
  ultimately have "\<not> excluded ?env (hk_base ?st) (sample_container ''sidecar'')"
    by (simp add: excluded_def IsContainerExcludedFromInjection_def sample_hook_def NewMutationRequest_def
        sample_pod_def sample_container_def sample_enriching_def zero_dynakube_def)
  then have "mutationRequired ?env (hkRequest ?st)" "\<not> isOcDebugPod (hk_pod ?st)"
    by (simp_all add: mutationRequired_def sample_hook_def NewMutationRequest_def sample_pod_def GetFieldBool_def
        isOcDebugPod_def)
  then obtain p where p: "fst (handle_request ?env ?st) = PatchTo p" using always_patched by blast
  with opted_out_container_untouched[OF _ _ _ _ _ p, of 0] out show ?thesis
    by (auto simp: sample_hook_def NewMutationRequest_def sample_pod_def sample_container_def sample_pod_env_def
        sorted_range_ok sample_enriching_def zero_dynakube_def)
qed

theorem init_container_witness:
  "\<exists>st' c sc. inject_pod (sample_pod_env (\<lambda>_. [])) (sample_hook (sample_pod [] Map.empty)) = Inr st' \<and>
     c \<in> set (pdInitContainers (hk_pod st')) \<and> pcSecurityContext c = Some sc \<and>
     scRunAsUser sc = Some 1001 \<and> scRunAsNonRoot sc = Some True"
proof -
  let ?env = "sample_pod_env (\<lambda>_. [])"
  let ?st = "sample_hook (sample_pod [] Map.empty)"
  have "\<not> isl (inject_pod ?env ?st)" by code_simp
  then obtain st' where st': "inject_pod ?env ?st = Inr st'" by (cases "inject_pod ?env ?st") auto
  let ?c = "hd (pdInitContainers (hk_pod (projr (inject_pod ?env ?st))))"
  have "0 < length (pdInitContainers (hk_pod (projr (inject_pod ?env ?st))))" "pcName ?c = InstallContainerName"
    by code_simp+
  then have c: "?c \<in> set (pdInitContainers (hk_pod st'))" "pcName ?c = InstallContainerName"
    by (auto simp: st')
  have fresh: "\<not> isInjected (hk_pod ?st)"
    by (simp add: isInjected_def FindInitInPodSpec_def sample_hook_def NewMutationRequest_def sample_pod_def)
  have "first_some [getValidatedID (annotation_value (hk_pod ?st) RunAsUserAnnotation),
      Option.bind (container_context (hk_pod ?st)) scRunAsUser,
      Option.bind (pdSecurityContext (hk_pod ?st)) pscRunAsUser, if peOpenShift ?env then None else Some 1001] = Some 1001"
    by code_simp
  with init_container_hardened[OF st' fresh c] st' c show ?thesis by auto
qed

theorem mapped_namespace_witness:
  "createMutationRequestBase
     \<lparr>weEnv = sample_pod_env (\<lambda>_. []), weNamespace = ''dynatrace'', weDeployedViaOLM = False,
      weGetNamespace = \<lambda>_. Inr sample_webhook_ns, weGetDynaKube = \<lambda>_ n. Inr (sample_enriching n)\<rparr>
     \<lparr>arNamespace = ''n2'', arPod = Inr (sample_pod [] Map.empty)\<rparr> =
   ([], Inr (Some (NewMutationRequest sample_webhook_ns (sample_pod [] Map.empty) (sample_enriching ''a''))))"
proof (rule mapped_namespace_reaches_its_dynakube[where menv = sample_match_env and dks = "[sample_enriching ''a'']"
        and ns = sample_selected_ns])
  have "snd (updateNamespace sample_match_env [sample_enriching ''a''] sample_selected_ns) = with_label (Some ''a'') sample_selected_ns"
    using updateNamespace_cases[OF sample_ignores_label, of "[sample_enriching ''a'']" sample_selected_ns]
    by (simp add: sample_ns_matches)
  then show "whnLabels sample_webhook_ns = nsLabels (snd (updateNamespace sample_match_env [sample_enriching ''a''] sample_selected_ns))"
    by (simp add: sample_webhook_ns_def)
qed (simp_all add: sample_ignores_label sample_ns_matches)

end
