(* ===== verification/Cluster.thy ===== *)
theory Cluster
  imports K8sQuery K8sMeta DynaKubeCtrl
begin

text \<open>
  What the reconcilers of the components share: the DynaKube in memory, the Kubernetes objects they own, and
  the status conditions they set. Each kind of object has its own server (\<open>query_env\<close>) and its own record of
  calls (\<open>query_state\<close>).
\<close>

section \<open>Istio objects\<close>

text \<open>What the service entries and virtual services of Istio are made of, as far as the operator sets it.\<close>

datatype istio_resolution = ResolveNone | ResolveDNS

record istio_port =
  ipName :: string
  ipNumber :: nat
  ipProtocol :: string

record service_entry =
  seHosts :: "string list"
  seAddresses :: "string list"
  sePorts :: "istio_port list"
  seResolution :: istio_resolution

text \<open>A route has the host it matches and forwards to (for TLS by its SNI) and the port of both.\<close>

record virtual_service =
  vsHosts :: "string list"
  vsHttp :: "(string \<times> nat) list"
  vsTls :: "(string \<times> nat) list"

definition annotation_isEqual :: "'p kobject \<Rightarrow> 'p kobject \<Rightarrow> bool" where
  "annotation_isEqual current desired \<longleftrightarrow> \<not> IsAnnotationDifferent (koAnnotations current) (koAnnotations desired)"

section \<open>State and environment\<close>

record cluster_state =
  clDk :: dynakube
  clSecrets :: "secret_payload query_state"
  clConfigMaps :: "smap option query_state"
  clDaemonSets :: "workload_payload query_state"
  clStatefulSets :: "workload_payload query_state"
  clServices :: "service_payload query_state"
  clServiceEntries :: "service_entry query_state"
  clVirtualServices :: "virtual_service query_state"
  clStatusWrites :: "dynakube_status list"

text \<open>
  \<open>keFind\<close> is \<open>meta.FindStatusCondition\<close>, \<open>keOperatorVersion\<close> the version the operator was built with,
  \<open>keMarshalString\<close> and \<open>keMarshalStatus\<close> are the JSON of a string and of a status, \<open>keUpdateStatus\<close> is what
  the server says to a write of the status.
\<close>

record cluster_env =
  keSecrets :: "secret_payload query_env"
  keConfigMaps :: "smap option query_env"
  keDaemonSets :: "workload_payload query_env"
  keStatefulSets :: "workload_payload query_env"
  keServices :: "service_payload query_env"
  keServiceEntries :: "service_entry query_env"
  keVirtualServices :: "virtual_service query_env"
  keFind :: "cond_op list \<Rightarrow> string \<Rightarrow> condition option"
  keOperatorVersion :: string
  keMarshalString :: "string \<Rightarrow> error + 8 word list"
  keMarshalStatus :: "dynakube_status \<Rightarrow> error + 8 word list"
  keUpdateStatus :: "dynakube \<Rightarrow> error option"
  keNow :: int

text \<open>A reconciler that works on the DynaKube alone, as the version reconciler does.\<close>

definition on_dynakube :: "(dynakube, 'a) io \<Rightarrow> (cluster_state, 'a) io" where
  "on_dynakube m st = (case m (clDk st) of (r, dk) \<Rightarrow> (r, st\<lparr>clDk := dk\<rparr>))"

definition on_dk :: "(dynakube \<Rightarrow> dynakube) \<Rightarrow> (cluster_state, unit) io" where
  "on_dk f = modify (\<lambda>st. st\<lparr>clDk := f (clDk st)\<rparr>)"

text \<open>\<open>DynaKube.UpdateStatus\<close>: a conflict is not an error.\<close>

definition update_status :: "cluster_env \<Rightarrow> (cluster_state, unit) io" where
  "update_status env st =
     (let dk = (clDk st)\<lparr>dkStatus := (dkStatus (clDk st))\<lparr>dstUpdatedTimestamp := keNow env\<rparr>\<rparr>;
          st' = st\<lparr>clDk := dk, clStatusWrites := clStatusWrites st @ [dkStatus dk]\<rparr>
      in case keUpdateStatus env dk of
           None \<Rightarrow> (Inr (), st')
         | Some e \<Rightarrow> if is_conflict e then (Inr (), st') else (Inl e, st'))"

definition set_cond :: "cond_op \<Rightarrow> (cluster_state, unit) io" where
  "set_cond c = on_dk (add_condition_op c)"

definition set_kube_api_error :: "string \<Rightarrow> error \<Rightarrow> (cluster_state, unit) io" where
  "set_kube_api_error conditionType e =
     (case SetKubeAPIError conditionType (Some e) of None \<Rightarrow> ret () | Some c \<Rightarrow> set_cond c)"

definition SetDynatraceAPIErrorCond :: "string \<Rightarrow> cond_op" where
  "SetDynatraceAPIErrorCond conditionType =
     status_condition conditionType False ''DynatraceApiError''
       ''A problem occurred when using the Dynatrace API''"

definition has_cond :: "cluster_env \<Rightarrow> string \<Rightarrow> cluster_state \<Rightarrow> bool" where
  "has_cond env conditionType st \<longleftrightarrow> keFind env (dstConditions (dkStatus (clDk st))) conditionType \<noteq> None"

section \<open>Objects\<close>

definition with_secrets :: "(secret_payload query_state, 'a) io \<Rightarrow> (cluster_state, 'a) io" where
  "with_secrets m st = (case m (clSecrets st) of (r, q) \<Rightarrow> (r, st\<lparr>clSecrets := q\<rparr>))"

definition with_configmaps :: "(smap option query_state, 'a) io \<Rightarrow> (cluster_state, 'a) io" where
  "with_configmaps m st = (case m (clConfigMaps st) of (r, q) \<Rightarrow> (r, st\<lparr>clConfigMaps := q\<rparr>))"

definition with_daemonsets :: "(workload_payload query_state, 'a) io \<Rightarrow> (cluster_state, 'a) io" where
  "with_daemonsets m st = (case m (clDaemonSets st) of (r, q) \<Rightarrow> (r, st\<lparr>clDaemonSets := q\<rparr>))"

definition with_statefulsets :: "(workload_payload query_state, 'a) io \<Rightarrow> (cluster_state, 'a) io" where
  "with_statefulsets m st = (case m (clStatefulSets st) of (r, q) \<Rightarrow> (r, st\<lparr>clStatefulSets := q\<rparr>))"

definition with_services :: "(service_payload query_state, 'a) io \<Rightarrow> (cluster_state, 'a) io" where
  "with_services m st = (case m (clServices st) of (r, q) \<Rightarrow> (r, st\<lparr>clServices := q\<rparr>))"

definition with_entries :: "(service_entry query_state, 'a) io \<Rightarrow> (cluster_state, 'a) io" where
  "with_entries m st = (case m (clServiceEntries st) of (r, q) \<Rightarrow> (r, st\<lparr>clServiceEntries := q\<rparr>))"

definition with_virtual :: "(virtual_service query_state, 'a) io \<Rightarrow> (cluster_state, 'a) io" where
  "with_virtual m st = (case m (clVirtualServices st) of (r, q) \<Rightarrow> (r, st\<lparr>clVirtualServices := q\<rparr>))"

definition create_or_update :: "'p query_env \<Rightarrow> 'p kobject \<Rightarrow> ('p query_state, bool) io" where
  "create_or_update env obj = andThen (set_object obj) (\<lambda>_. CreateOrUpdate env)"

text \<open>\<open>builder.Build\<close> with an owner: the fields, then the controller reference.\<close>

definition build_object :: "'p query_env \<Rightarrow> dynakube \<Rightarrow> string \<Rightarrow> smap option \<Rightarrow> 'p \<Rightarrow> error + 'p kobject" where
  "build_object env dk name labels payload =
     qeSetControllerReference env (dkName dk)
       \<lparr>koName = name, koNamespace = dkNamespace dk, koUID = [], koResourceVersion = [], koAnnotations = Map.empty,
        koLabels = labels, koOwnerReferences = [], koPayload = payload\<rparr>"

definition secret_Build :: "cluster_env \<Rightarrow> dynakube \<Rightarrow> string \<Rightarrow> smap option \<Rightarrow> smap option \<Rightarrow> error + secret_payload kobject" where
  "secret_Build env dk name labels data =
     build_object (keSecrets env) dk name labels \<lparr>spData = data, spImmutable = None\<rparr>"

definition configmap_Build :: "cluster_env \<Rightarrow> dynakube \<Rightarrow> string \<Rightarrow> smap option \<Rightarrow> smap option \<Rightarrow> error + smap option kobject" where
  "configmap_Build env dk name labels data = build_object (keConfigMaps env) dk name labels data"

definition component_labels :: "cluster_env \<Rightarrow> dynakube \<Rightarrow> string \<Rightarrow> smap option" where
  "component_labels env dk componentName =
     Some (core_BuildLabels (NewCoreLabels (keOperatorVersion env) (dkName dk) componentName))"

text \<open>
  The laws of \<open>meta.SetStatusCondition\<close>, \<open>RemoveStatusCondition\<close> and \<open>FindStatusCondition\<close>: the condition of a
  type is the one set last, unless it was removed since.
\<close>

locale status_conditions =
  fixes find_cond :: "cond_op list \<Rightarrow> string \<Rightarrow> condition option"
  assumes found_set: "find_cond (ops @ [SetStatusCondition c]) t = (if condType c = t then Some c else find_cond ops t)"
    and found_removed: "find_cond (ops @ [RemoveStatusCondition t']) t = (if t' = t then None else find_cond ops t)"
begin

lemma found_status: "find_cond (ops @ [status_condition t b reason msg]) t =
    Some \<lparr>condType = t, condStatus = b, condReason = reason, condMessage = msg\<rparr>"
  by (simp add: status_condition_def found_set)

lemma found_other: "cond_op_type c \<noteq> t \<Longrightarrow> find_cond (ops @ [c]) t = find_cond ops t"
  by (cases c) (simp_all add: found_set found_removed)

lemma found_others:
  "\<forall>c \<in> set cs. cond_op_type c \<noteq> t \<Longrightarrow> find_cond (ops @ cs) t = find_cond ops t"
proof (induction cs rule: rev_induct)
  case (snoc c cs)
  then show ?case using found_other[of c t "ops @ cs"] by simp
qed simp

end

definition last_condition :: "cond_op list \<Rightarrow> string \<Rightarrow> condition option" where
  "last_condition ops t =
     (case filter (\<lambda>c. cond_op_type c = t) (rev ops) of SetStatusCondition c # _ \<Rightarrow> Some c | _ \<Rightarrow> None)"

interpretation last: status_conditions last_condition
  by unfold_locales (simp_all add: last_condition_def)

section \<open>Laws\<close>

lemma with_secrets_result [simp]:
  "fst (with_secrets m st) = fst (m (clSecrets st))"
  "clSecrets (snd (with_secrets m st)) = snd (m (clSecrets st))"
  "clDk (snd (with_secrets m st)) = clDk st"
  "clConfigMaps (snd (with_secrets m st)) = clConfigMaps st"
  "clDaemonSets (snd (with_secrets m st)) = clDaemonSets st"
  by (simp_all add: with_secrets_def split: prod.split)

lemma with_configmaps_result [simp]:
  "fst (with_configmaps m st) = fst (m (clConfigMaps st))"
  "clConfigMaps (snd (with_configmaps m st)) = snd (m (clConfigMaps st))"
  "clDk (snd (with_configmaps m st)) = clDk st"
  "clSecrets (snd (with_configmaps m st)) = clSecrets st"
  "clDaemonSets (snd (with_configmaps m st)) = clDaemonSets st"
  by (simp_all add: with_configmaps_def split: prod.split)

lemma with_daemonsets_result [simp]:
  "fst (with_daemonsets m st) = fst (m (clDaemonSets st))"
  "clDaemonSets (snd (with_daemonsets m st)) = snd (m (clDaemonSets st))"
  "clDk (snd (with_daemonsets m st)) = clDk st"
  "clSecrets (snd (with_daemonsets m st)) = clSecrets st"
  "clConfigMaps (snd (with_daemonsets m st)) = clConfigMaps st"
  by (simp_all add: with_daemonsets_def split: prod.split)

lemma set_cond_result: "set_cond c st = (Inr (), st\<lparr>clDk := add_condition_op c (clDk st)\<rparr>)"
  by (simp add: set_cond_def on_dk_def modify_def)

definition kube_api_error_cond :: "string \<Rightarrow> cond_op" where
  "kube_api_error_cond t =
     status_condition t False ''KubeApiError'' ''A problem occurred when using the Kubernetes API''"

lemma set_kube_api_error_result:
  "set_kube_api_error t e st = (Inr (), st\<lparr>clDk := add_condition_op (kube_api_error_cond t) (clDk st)\<rparr>)"
  by (simp add: set_kube_api_error_def SetKubeAPIError_def set_cond_result kube_api_error_cond_def)

lemma folded_ops:
  "dkSpec (fold add_condition_op cs dk) = dkSpec dk" "dkName (fold add_condition_op cs dk) = dkName dk"
  "dkNamespace (fold add_condition_op cs dk) = dkNamespace dk"
  "dstConditions (dkStatus (fold add_condition_op cs dk)) = dstConditions (dkStatus dk) @ cs"
  by (induction cs arbitrary: dk) (simp_all add: add_condition_op_def)

text \<open>Running one step of a handler.\<close>

lemma andThen_attempt: "andThen (attempt m) f st = (case m st of (r, st') \<Rightarrow> f r st')"
  by (simp add: andThen_def attempt_def split: prod.split)

lemma andThen_set_cond: "andThen (set_cond c) f st = f () (st\<lparr>clDk := add_condition_op c (clDk st)\<rparr>)"
  by (simp add: andThen_def set_cond_result)

lemma andThen_kube_api_error:
  "andThen (set_kube_api_error t e) f st = f () (st\<lparr>clDk := add_condition_op (kube_api_error_cond t) (clDk st)\<rparr>)"
  by (simp add: andThen_def set_kube_api_error_result)

lemma on_dk_result: "on_dk g st = (Inr (), st\<lparr>clDk := g (clDk st)\<rparr>)"
  by (simp add: on_dk_def modify_def)

lemma andThen_on_dk: "andThen (on_dk g) f st = f () (st\<lparr>clDk := g (clDk st)\<rparr>)"
  by (simp add: andThen_def on_dk_result)

lemma throw_result: "throw e st = (Inl e, st)"
  by (simp add: throw_def)

lemma ret_result: "ret x st = (Inr x, st)"
  by (simp add: ret_def)

lemmas step_simps = andThen_gets andThen_lift andThen_attempt andThen_set_cond andThen_kube_api_error andThen_on_dk
  set_cond_result set_kube_api_error_result on_dk_result throw_result ret_result

section \<open>A sample cluster\<close>

definition sample_objects :: "('p kobject \<Rightarrow> 'p kobject \<Rightarrow> bool) \<Rightarrow> ('p kobject \<Rightarrow> 'p kobject \<Rightarrow> bool) \<Rightarrow> 'p query_env" where
  "sample_objects isEqual mustRecreate = WithOwner ''dk'' (storing_server isEqual mustRecreate)"

definition sample_cluster_env :: cluster_env where
  "sample_cluster_env =
     \<lparr>keSecrets = sample_objects secret_isEqual secret_mustRecreate,
      keConfigMaps = sample_objects configmap_isEqual (\<lambda>_ _. False),
      keDaemonSets = sample_objects daemonset_isEqual (\<lambda>_ _. False),
      keStatefulSets = sample_objects deployment_isEqual statefulset_mustRecreate,
      keServices = sample_objects service_isEqual service_mustRecreate,
      keServiceEntries = sample_objects annotation_isEqual (\<lambda>_ _. False),
      keVirtualServices = sample_objects annotation_isEqual (\<lambda>_ _. False),
      keFind = last_condition, keOperatorVersion = ''1.0.0'', keMarshalString = (\<lambda>_. Inr []),
      keMarshalStatus = (\<lambda>_. Inr []), keUpdateStatus = (\<lambda>_. None), keNow = 0\<rparr>"

definition no_objects :: "'p \<Rightarrow> 'p query_state" where
  "no_objects p = \<lparr>qsTrace = [], qsObject = example_object p\<rparr>"

definition sample_cluster :: "dynakube \<Rightarrow> cluster_state" where
  "sample_cluster dk =
     \<lparr>clDk = dk, clSecrets = no_objects \<lparr>spData = None, spImmutable = None\<rparr>, clConfigMaps = no_objects None,
      clDaemonSets = no_objects \<lparr>wpReplicas = None, wpMatchLabels = Map.empty, wpRest = []\<rparr>,
      clStatefulSets = no_objects \<lparr>wpReplicas = None, wpMatchLabels = Map.empty, wpRest = []\<rparr>,
      clServices = no_objects \<lparr>svPorts = [], svSelector = None, svClusterIP = [], svClusterIPs = []\<rparr>,
      clServiceEntries = no_objects \<lparr>seHosts = [], seAddresses = [], sePorts = [], seResolution = ResolveNone\<rparr>,
      clVirtualServices = no_objects \<lparr>vsHosts = [], vsHttp = [], vsTls = []\<rparr>, clStatusWrites = []\<rparr>"

lemma sample_create: "\<exists>b q. create_or_update (sample_objects isEqual mustRecreate) obj st = (Inr b, q)"
  using storing_server_ok[OF sample_objects_def, of isEqual mustRecreate "st\<lparr>qsObject := obj\<rparr>"]
  by (auto simp: create_or_update_def set_object_def andThen_modify)

lemma create_for_owner:
  "\<exists>b q. create_or_update (WithOwner n (sample_objects isEqual mustRecreate)) obj st = (Inr b, q)"
proof -
  have "WithOwner n (sample_objects isEqual mustRecreate) = WithOwner n (storing_server isEqual mustRecreate)"
    by (simp add: sample_objects_def WithOwner_def)
  then show ?thesis
    using storing_server_ok[OF refl, of n isEqual mustRecreate "st\<lparr>qsObject := obj\<rparr>"]
    by (auto simp: create_or_update_def set_object_def andThen_modify)
qed

lemma sample_build:
  "\<exists>s. secret_Build sample_cluster_env dk n l d = Inr s" "\<exists>s. configmap_Build sample_cluster_env dk n l d' = Inr s"
  by (simp_all add: secret_Build_def configmap_Build_def build_object_def sample_cluster_env_def sample_objects_def
      WithOwner_def storing_server_def)

end
