(* ===== verification/ConnectionInfo.thy ===== *)
theory ConnectionInfo
  imports Cluster "HOL-Library.AList"
begin

text \<open>
  The connection info of OneAgent and ActiveGate (\<open>controllers/dynakube/connectioninfo\<close>, the clients
  \<open>clients/dynatrace/oneagent\<close> and \<open>clients/dynatrace/activegate\<close>): tenant, token and communication endpoints,
  which the reconcilers store in the status and in the tenant secret.
\<close>

section \<open>Communication hosts (\<open>communication_hosts.go\<close>)\<close>

text \<open>What is read of a parsed URL; \<open>url.Parse\<close> itself is a parameter.\<close>

record url_parts =
  upScheme :: string
  upHostname :: string
  upPort :: string

type_synonym url_parser = "string \<Rightarrow> error + url_parts"

record communication_host =
  chProtocol :: string
  chHost :: string
  chPort :: nat

definition ch_String :: "communication_host \<Rightarrow> string" where
  "ch_String ch = chProtocol ch @ ''://'' @ chHost ch @ '':'' @ show_nat (chPort ch)"

text \<open>\<open>strconv.ParseUint\<close> in base 10 with 32 bits.\<close>

definition parse_uint32 :: "string \<Rightarrow> error + nat" where
  "parse_uint32 s =
     (if \<not> all_digits s then Inl (Sentinel ''invalid syntax'')
      else if parse_nat 0 s > 4294967295 then Inl (Sentinel ''value out of range'')
      else Inr (parse_nat 0 s))"

definition NewCommunicationHost :: "url_parser \<Rightarrow> string \<Rightarrow> error + communication_host" where
  "NewCommunicationHost url_Parse endpoint =
     (case url_Parse endpoint of
        Inl e \<Rightarrow> Inl (WithMsg ''failed to parse URL'' e)
      | Inr u \<Rightarrow>
          if upScheme u = [] then Inl (Sentinel ''no protocol provided'')
          else if upScheme u \<noteq> ''http'' \<and> upScheme u \<noteq> ''https'' then Inl (Sentinel ''unknown protocol'')
          else
            (case (if upPort u = [] then Inr (if upScheme u = ''http'' then 80 else 443) else parse_uint32 (upPort u)) of
               Inl e \<Rightarrow> Inl (WithMsg ''failed to parse port'' e)
             | Inr p \<Rightarrow> Inr \<lparr>chProtocol = upScheme u, chHost = upHostname u, chPort = p\<rparr>))"

text \<open>The Go map from printed hosts to hosts, as an association list.\<close>

fun collect_hosts ::
    "url_parser \<Rightarrow> string list \<Rightarrow> (string \<times> communication_host) list \<Rightarrow> error + (string \<times> communication_host) list" where
  "collect_hosts url_Parse [] comHosts = Inr comHosts"
| "collect_hosts url_Parse (endpoint # endpoints) comHosts =
     (case NewCommunicationHost url_Parse endpoint of
        Inl e \<Rightarrow> Inl e
      | Inr ch \<Rightarrow> collect_hosts url_Parse endpoints (AList.update (ch_String ch) ch comHosts))"

definition newCommunicationHosts :: "url_parser \<Rightarrow> string \<Rightarrow> char \<Rightarrow> error + communication_host list" where
  "newCommunicationHosts url_Parse endpoints sep =
     (if endpoints = [] then Inr []
      else map_sum id (\<lambda>comHosts. sort_by ch_String (map snd comHosts)) (collect_hosts url_Parse (split_on sep endpoints) []))"

definition ParseOACommunicationHosts :: "url_parser \<Rightarrow> string \<Rightarrow> error + communication_host list" where
  "ParseOACommunicationHosts url_Parse endpoints = newCommunicationHosts url_Parse endpoints (CHR '';'')"

definition ParseAGCommunicationHosts :: "url_parser \<Rightarrow> string \<Rightarrow> error + communication_host list" where
  "ParseAGCommunicationHosts url_Parse endpoints = newCommunicationHosts url_Parse endpoints (CHR '','')"

section \<open>Clients\<close>

record fetched_info =
  fiTenantUUID :: string
  fiTenantToken :: string
  fiEndpoints :: string

definition zero_fetched_info :: fetched_info where
  "zero_fetched_info = \<lparr>fiTenantUUID = [], fiTenantToken = [], fiEndpoints = []\<rparr>"

record connection_info_response =
  cirTenantUUID :: string
  cirTenantToken :: string
  cirCommunicationEndpoints :: "string list"

fun unique_endpoints :: "string list \<Rightarrow> string list \<Rightarrow> string list" where
  "unique_endpoints seen [] = []"
| "unique_endpoints seen (endpoint # endpoints) =
     (let trimmed = trim_space endpoint
      in if trimmed = [] \<or> trimmed \<in> set seen then unique_endpoints seen endpoints
         else trimmed # unique_endpoints (trimmed # seen) endpoints)"

definition uniqueEndpoints :: "connection_info_response \<Rightarrow> string list" where
  "uniqueEndpoints r = unique_endpoints [] (cirCommunicationEndpoints r)"

definition missing_after :: "url_parser \<Rightarrow> string list \<Rightarrow> string \<Rightarrow> bool \<Rightarrow> bool" where
  "missing_after url_Parse requiredHosts endpoint missing =
     (if missing then
        (case NewCommunicationHost url_Parse endpoint of
           Inl _ \<Rightarrow> missing | Inr ch \<Rightarrow> chHost ch \<notin> set requiredHosts)
      else missing)"

definition missingRequiredHosts :: "url_parser \<Rightarrow> string list \<Rightarrow> string list \<Rightarrow> bool" where
  "missingRequiredHosts url_Parse requiredHosts endpoints =
     fold (missing_after url_Parse requiredHosts) endpoints (requiredHosts \<noteq> [])"

text \<open>\<open>IsEmpty\<close> tells the request cache which answers not to keep.\<close>

definition response_IsEmpty :: "url_parser \<Rightarrow> string list \<Rightarrow> connection_info_response \<Rightarrow> bool" where
  "response_IsEmpty url_Parse requiredHosts r \<longleftrightarrow>
     cirTenantUUID r = [] \<or> cirTenantToken r = [] \<or> uniqueEndpoints r = [] \<or>
     missingRequiredHosts url_Parse requiredHosts (uniqueEndpoints r)"

definition core_IsBadRequest :: "error \<Rightarrow> bool" where
  "core_IsBadRequest e \<longleftrightarrow> StatusCode e = 400"

definition connection_info_params :: "string \<Rightarrow> (string \<times> string) list" where
  "connection_info_params networkZone =
     (if networkZone \<noteq> [] then [(''networkZone'', networkZone), (''defaultZoneFallback'', ''true'')] else [])"

text \<open>The answer and the error of \<open>GetConnectionInfo\<close>: a postponing error comes with an answer.\<close>

definition oa_GetConnectionInfo ::
    "((string \<times> string) list \<Rightarrow> error + connection_info_response) \<Rightarrow> url_parser \<Rightarrow> string \<Rightarrow> string list \<Rightarrow>
     fetched_info \<times> error option" where
  "oa_GetConnectionInfo execute url_Parse networkZone requiredHosts =
     (case execute (connection_info_params networkZone) of
        Inl e \<Rightarrow> if core_IsBadRequest e then (zero_fetched_info, None) else (zero_fetched_info, Some e)
      | Inr resp \<Rightarrow>
          (\<lparr>fiTenantUUID = cirTenantUUID resp, fiTenantToken = cirTenantToken resp,
            fiEndpoints = join_sep '';'' (uniqueEndpoints resp)\<rparr>,
           if uniqueEndpoints resp = [] then Some (Sentinel NoCommunicationEndpointsError)
           else if missingRequiredHosts url_Parse requiredHosts (uniqueEndpoints resp)
           then Some (Sentinel StaleNetworkZoneEndpointsError)
           else None))"

record ag_connection_info_response =
  acrTenantUUID :: string
  acrTenantToken :: string
  acrCommunicationEndpoints :: string

definition ag_response_IsEmpty :: "ag_connection_info_response \<Rightarrow> bool" where
  "ag_response_IsEmpty cinf \<longleftrightarrow>
     acrTenantUUID cinf = [] \<or> acrTenantToken cinf = [] \<or> acrCommunicationEndpoints cinf = []"

definition ag_GetConnectionInfo :: "error + ag_connection_info_response \<Rightarrow> error + fetched_info" where
  "ag_GetConnectionInfo answer =
     map_sum id (\<lambda>resp. \<lparr>fiTenantUUID = acrTenantUUID resp, fiTenantToken = acrTenantToken resp,
       fiEndpoints = acrCommunicationEndpoints resp\<rparr>) answer"

section \<open>The tenant secret (\<open>common.go\<close>)\<close>

definition IsTenantSecretPresent :: "cluster_env \<Rightarrow> string \<Rightarrow> string \<Rightarrow> (cluster_state, bool) io" where
  "IsTenantSecretPresent env ns name =
     andThen (attempt (with_secrets (Get (keSecrets env) ns name))) (\<lambda>r.
       case r of
         Inl e \<Rightarrow> if is_not_found e then ret False else throw e
       | Inr _ \<Rightarrow> ret True)"

definition ExtractSensitiveData :: "string \<Rightarrow> smap" where
  "ExtractSensitiveData tenantToken = [''tenant-token'' \<mapsto> tenantToken]"

definition BuildTenantSecret ::
    "cluster_env \<Rightarrow> dynakube \<Rightarrow> string \<Rightarrow> string \<Rightarrow> string \<Rightarrow> error + secret_payload kobject" where
  "BuildTenantSecret env dk componentName secretName tenantToken =
     secret_Build env dk secretName (component_labels env dk componentName) (Some (ExtractSensitiveData tenantToken))"

definition createTenantTokenSecret ::
    "cluster_env \<Rightarrow> string \<Rightarrow> string \<Rightarrow> string \<Rightarrow> string \<Rightarrow> (cluster_state, unit) io" where
  "createTenantTokenSecret env conditionType componentName secretName tenantToken =
     andThen (gets clDk) (\<lambda>dk.
     andThen (lift (BuildTenantSecret env dk componentName secretName tenantToken)) (\<lambda>secret.
     andThen (attempt (with_secrets (create_or_update (keSecrets env) secret))) (\<lambda>r.
       case r of
         Inl e \<Rightarrow> andThen (set_kube_api_error conditionType e) (\<lambda>_. throw e)
       | Inr _ \<Rightarrow> set_cond (SetSecretCreated conditionType (koName secret)))))"

section \<open>OneAgent (\<open>connectioninfo/oneagent\<close>)\<close>

abbreviation oaConnectionInfoConditionType :: string where
  "oaConnectionInfoConditionType \<equiv> ''OneAgentConnectionInfo''"

definition EmptyCommunicationHostsCondition :: cond_op where
  "EmptyCommunicationHostsCondition =
     status_condition oaConnectionInfoConditionType False ''EmptyCommunicationHosts''
       ''No communication endpoints are available for the OneAgents''"

definition StaleNetworkZoneEndpointsCondition :: cond_op where
  "StaleNetworkZoneEndpointsCondition =
     status_condition oaConnectionInfoConditionType False ''StaleNetworkZoneEndpoints''
       ''OneAgent endpoints do not advertise every local ActiveGate Service IP; postponing OneAgent deployment until the ActiveGate has re-registered''"

text \<open>The answers of the API.\<close>

record info_env =
  ieCluster :: cluster_env
  ieGetOA :: "string list \<Rightarrow> fetched_info \<times> error option"
  ieGetAG :: "error + fetched_info"

definition oa_TenantSecretName :: "dynakube \<Rightarrow> string" where
  "oa_TenantSecretName dk = dkName dk @ ''-oneagent-tenant-secret''"

definition getRequiredActiveGateServiceIPs :: "dynakube \<Rightarrow> string list" where
  "getRequiredActiveGateServiceIPs dk =
     (if dspNetworkZone (dkSpec dk) = [] \<or> \<not> ag_IsRoutingEnabled (dk_ActiveGate dk) \<or>
         asServiceIPs (dstActiveGate (dkStatus dk)) = []
      then [] else asServiceIPs (dstActiveGate (dkStatus dk)))"

definition oa_update_info :: "(connection_info \<Rightarrow> connection_info) \<Rightarrow> dynakube \<Rightarrow> dynakube" where
  "oa_update_info f dk =
     dk\<lparr>dkStatus := (dkStatus dk)\<lparr>dstOneAgent := (dstOneAgent (dkStatus dk))
          \<lparr>osConnectionInfo := f (osConnectionInfo (dstOneAgent (dkStatus dk)))\<rparr>\<rparr>\<rparr>"

definition oa_setDynakubeStatus :: "fetched_info \<Rightarrow> dynakube \<Rightarrow> dynakube" where
  "oa_setDynakubeStatus info =
     oa_update_info (\<lambda>ci. ci\<lparr>ciTenantUUID := fiTenantUUID info, ciEndpoints := fiEndpoints info\<rparr>)"

definition oa_reconcileConnectionInfo :: "info_env \<Rightarrow> (cluster_state, unit) io" where
  "oa_reconcileConnectionInfo env =
     andThen (gets clDk) (\<lambda>dk.
       case ieGetOA env (getRequiredActiveGateServiceIPs dk) of
         (info, err) \<Rightarrow>
           (case err of
              Some e \<Rightarrow>
                if \<not> IsPostponedError e then
                  andThen (set_cond (SetDynatraceAPIErrorCond oaConnectionInfoConditionType)) (\<lambda>_.
                    throw (WithMsg ''failed to get OneAgent connection info'' e))
                else
                  andThen (on_dk (oa_setDynakubeStatus info)) (\<lambda>_.
                    if errors_is e NoCommunicationEndpointsError then
                      andThen (set_cond EmptyCommunicationHostsCondition) (\<lambda>_.
                        throw (Sentinel NoCommunicationEndpointsError))
                    else
                      andThen (set_cond StaleNetworkZoneEndpointsCondition) (\<lambda>_.
                        throw (Sentinel StaleNetworkZoneEndpointsError)))
            | None \<Rightarrow>
                andThen (on_dk (oa_setDynakubeStatus info)) (\<lambda>_.
                andThen (createTenantTokenSecret (ieCluster env) oaConnectionInfoConditionType ''oneagent''
                  (oa_TenantSecretName dk) (fiTenantToken info)) (\<lambda>_.
                andThen (attempt (lift (GenerateHash (keMarshalString (ieCluster env)) (fiTenantToken info)))) (\<lambda>r.
                  case r of
                    Inl e \<Rightarrow> andThen (on_dk (oa_update_info (\<lambda>ci. ci\<lparr>ciTenantTokenHash := []\<rparr>))) (\<lambda>_.
                               throw (WithMsg ''failed to generate TenantTokenHash'' e))
                  | Inr h \<Rightarrow> on_dk (oa_update_info (\<lambda>ci. ci\<lparr>ciTenantTokenHash := h\<rparr>)))))))"

definition oa_info_needed :: "dynakube \<Rightarrow> bool" where
  "oa_info_needed dk \<longleftrightarrow>
     IsAppInjectionNeeded (dk_OneAgent dk) \<or> IsDaemonsetRequired (dk_OneAgent dk) \<or> lm_IsEnabled (dk_LogMonitoring dk)"

definition oa_info_cleanup :: "info_env \<Rightarrow> (cluster_state, unit) io" where
  "oa_info_cleanup env =
     andThen (gets (has_cond (ieCluster env) oaConnectionInfoConditionType)) (\<lambda>present.
       if \<not> present then ret ()
       else
         andThen (gets clDk) (\<lambda>dk.
         andThen (attempt (with_secrets (Delete (keSecrets (ieCluster env)) (dkNamespace dk) (oa_TenantSecretName dk)))) (\<lambda>_.
         andThen (set_cond (RemoveStatusCondition oaConnectionInfoConditionType)) (\<lambda>_.
           on_dk (oa_update_info (\<lambda>_. zero_connection_info))))))"

definition oa_info_Reconcile :: "info_env \<Rightarrow> (cluster_state, unit) io" where
  "oa_info_Reconcile env =
     andThen (gets clDk) (\<lambda>dk.
       if \<not> oa_info_needed dk then oa_info_cleanup env
       else
         andThen (oa_reconcileConnectionInfo env) (\<lambda>_.
         andThen (gets clDk) (\<lambda>dk'.
           case IsDifferent (keMarshalStatus (ieCluster env)) (dkStatus dk) (dkStatus dk') of
             Inl e \<Rightarrow> throw (WithMsg ''failed to compare connection info status hashes'' e)
           | Inr needStatusUpdate \<Rightarrow> if needStatusUpdate then update_status (ieCluster env) else ret ())))"

section \<open>ActiveGate (\<open>connectioninfo/activegate\<close>)\<close>

abbreviation activeGateConnectionInfoConditionType :: string where
  "activeGateConnectionInfoConditionType \<equiv> ''ActiveGateConnectionInfo''"

definition ag_TenantSecretName :: "dynakube \<Rightarrow> string" where
  "ag_TenantSecretName dk = agName (dk_ActiveGate dk) @ ''-activegate-tenant-secret''"

definition ag_update_info :: "(connection_info \<Rightarrow> connection_info) \<Rightarrow> dynakube \<Rightarrow> dynakube" where
  "ag_update_info f dk =
     dk\<lparr>dkStatus := (dkStatus dk)\<lparr>dstActiveGate := (dstActiveGate (dkStatus dk))
          \<lparr>asConnectionInfo := f (asConnectionInfo (dstActiveGate (dkStatus dk)))\<rparr>\<rparr>\<rparr>"

definition ag_setDynakubeStatus :: "fetched_info \<Rightarrow> dynakube \<Rightarrow> dynakube" where
  "ag_setDynakubeStatus info =
     ag_update_info (\<lambda>ci. ci\<lparr>ciTenantUUID := fiTenantUUID info, ciEndpoints := fiEndpoints info\<rparr>)"

definition ag_reconcileConnectionInfo :: "info_env \<Rightarrow> (cluster_state, unit) io" where
  "ag_reconcileConnectionInfo env =
     (case ieGetAG env of
        Inl e \<Rightarrow>
          andThen (set_cond (SetDynatraceAPIErrorCond activeGateConnectionInfoConditionType)) (\<lambda>_.
            throw (WithMsg ''failed to get ActiveGate connection info'' e))
      | Inr info \<Rightarrow>
          andThen (on_dk (ag_setDynakubeStatus info)) (\<lambda>_.
          andThen (gets clDk) (\<lambda>dk.
          andThen (createTenantTokenSecret (ieCluster env) activeGateConnectionInfoConditionType ''activegate''
            (ag_TenantSecretName dk) (fiTenantToken info)) (\<lambda>_.
          andThen (attempt (lift (GenerateHash (keMarshalString (ieCluster env)) (fiTenantToken info)))) (\<lambda>r.
            case r of
              Inl e \<Rightarrow> andThen (on_dk (ag_update_info (\<lambda>ci. ci\<lparr>ciTenantTokenHash := []\<rparr>))) (\<lambda>_.
                         throw (WithMsg ''failed to generate TenantTokenHash'' e))
            | Inr h \<Rightarrow> on_dk (ag_update_info (\<lambda>ci. ci\<lparr>ciTenantTokenHash := h\<rparr>)))))))"

definition ag_info_Reconcile :: "info_env \<Rightarrow> (cluster_state, unit) io" where
  "ag_info_Reconcile env =
     andThen (gets clDk) (\<lambda>dk.
       if \<not> ag_IsEnabled (dk_ActiveGate dk) then
         andThen (gets (has_cond (ieCluster env) activeGateConnectionInfoConditionType)) (\<lambda>present.
           if \<not> present then ret ()
           else
             andThen (on_dk (ag_update_info (\<lambda>_. zero_connection_info))) (\<lambda>_.
             andThen (attempt (with_secrets (Delete (keSecrets (ieCluster env)) (dkNamespace dk) (ag_TenantSecretName dk)))) (\<lambda>_.
               set_cond (RemoveStatusCondition activeGateConnectionInfoConditionType))))
       else ag_reconcileConnectionInfo env)"

end
