(* ===== verification/PriorityMap.thy ===== *)
theory PriorityMap
  imports DynaKubeApi Sanitize "HOL-Library.AList"
begin

text \<open>
  The priority maps that arguments and environment variables of workloads are collected in
  (\<open>util/prioritymap\<close>): a value is replaced by one of higher priority, unless duplicates are allowed for its
  key. The Go map is an association list without duplicate keys; its readers sort the keys.
\<close>

section \<open>Entries and options (\<open>map.go\<close>)\<close>

abbreviation LowPriority :: int where "LowPriority \<equiv> 1"
abbreviation MediumPriority :: int where "MediumPriority \<equiv> 5"
abbreviation HighPriority :: int where "HighPriority \<equiv> 10"
abbreviation DefaultPriority :: int where "DefaultPriority \<equiv> LowPriority"

record 'v pm_entry =
  enValue :: 'v
  enKey :: string
  enDelimiter :: string
  enPriority :: int
  enAllowDuplicates :: bool

type_synonym 'v pm_option = "'v pm_entry \<Rightarrow> 'v pm_entry"

record 'v prio_map =
  pmEntries :: "(string \<times> 'v pm_entry list) list"
  pmDefaultOptions :: "'v pm_option list"

definition WithPriority :: "int \<Rightarrow> 'v pm_option" where
  "WithPriority priority a = a\<lparr>enPriority := priority\<rparr>"

definition WithSeparator :: "string \<Rightarrow> 'v pm_option" where
  "WithSeparator separator a = a\<lparr>enDelimiter := separator\<rparr>"

definition WithAllowDuplicates :: "'v pm_option" where
  "WithAllowDuplicates a = a\<lparr>enAllowDuplicates := True\<rparr>"

definition WithAvoidDuplicates :: "'v pm_option" where
  "WithAvoidDuplicates a = a\<lparr>enAllowDuplicates := False\<rparr>"

definition WithAvoidDuplicatesFor :: "string \<Rightarrow> 'v pm_option" where
  "WithAvoidDuplicatesFor key a = (if enKey a = key then a\<lparr>enAllowDuplicates := False\<rparr> else a)"

definition WithAllowDuplicatesFor :: "string \<Rightarrow> 'v pm_option" where
  "WithAllowDuplicatesFor key a = (if enKey a = key then a\<lparr>enAllowDuplicates := True\<rparr> else a)"

definition WithSanitizeCommandLineArg :: "string pm_option" where
  "WithSanitizeCommandLineArg a = a\<lparr>enValue := CommandLineArg (enValue a)\<rparr>"

definition pm_New :: "'v pm_option list \<Rightarrow> 'v prio_map" where
  "pm_New defaultOptions = \<lparr>pmEntries = [], pmDefaultOptions = defaultOptions\<rparr>"

definition cut_suffix :: "string \<Rightarrow> string \<Rightarrow> string" where
  "cut_suffix key suffix = (if has_suffix key suffix then take (length key - length suffix) key else key)"

definition new_entry :: "'v prio_map \<Rightarrow> string \<Rightarrow> 'v \<Rightarrow> 'v pm_option list \<Rightarrow> 'v pm_entry" where
  "new_entry m key v opts =
     fold (\<lambda>opt a. opt a) (pmDefaultOptions m @ opts)
       \<lparr>enValue = v, enKey = key, enDelimiter = [], enPriority = DefaultPriority, enAllowDuplicates = False\<rparr>"

text \<open>\<open>existingArg[0]\<close>: the list of a key is never empty.\<close>

definition pm_Append :: "string \<Rightarrow> 'v \<Rightarrow> 'v pm_option list \<Rightarrow> 'v prio_map \<Rightarrow> 'v prio_map" where
  "pm_Append key v opts m =
     (if key = [] then m
      else
        (let newArg = new_entry m key v opts;
             key' = cut_suffix key (enDelimiter newArg);
             put = (\<lambda>es. m\<lparr>pmEntries := AList.update key' es (pmEntries m)\<rparr>)
         in case map_of (pmEntries m) key' of
              None \<Rightarrow> put [newArg]
            | Some existingArg \<Rightarrow>
                if enAllowDuplicates newArg \<or> enPriority newArg > enPriority (hd existingArg) then
                  (let es = (if \<not> enAllowDuplicates newArg then [] else existingArg)
                   in put (if list_ex (\<lambda>e. enValue e = enValue newArg) es then es else es @ [newArg]))
                else m))"

section \<open>Typed values\<close>

text \<open>The dynamic types of the values of an environment. A value is only compared with others of its key
  where duplicates are allowed, which no environment of the program does.\<close>

datatype env_value = StringValue string | EnvVarValue env_var | EnvSourceValue env_source

definition pm_AppendEnv :: "env_var \<Rightarrow> env_value pm_option list \<Rightarrow> env_value prio_map \<Rightarrow> env_value prio_map" where
  "pm_AppendEnv e opts = pm_Append (evName e) (EnvVarValue e) opts"

definition pm_AppendEnvs ::
    "env_var list \<Rightarrow> env_value pm_option list \<Rightarrow> env_value prio_map \<Rightarrow> env_value prio_map" where
  "pm_AppendEnvs envs opts m = fold (\<lambda>e. pm_AppendEnv e opts) envs m"

definition ParseCommandLineArgument :: "string \<Rightarrow> string \<times> string \<times> string" where
  "ParseCommandLineArgument arg =
     (case cut (CHR ''='') arg of Some (key, v) \<Rightarrow> (key, ''='', v) | None \<Rightarrow> (arg, [], []))"

text \<open>The options grow with every argument; the last separator is the one that counts.\<close>

fun append_args :: "string list \<Rightarrow> string pm_option list \<Rightarrow> string prio_map \<Rightarrow> string prio_map" where
  "append_args [] opts m = m"
| "append_args (s # ss) opts m =
     (let (key, delim, v) = ParseCommandLineArgument s
      in if key \<noteq> [] then
           (let opts' = opts @ [WithSeparator delim] in append_args ss opts' (pm_Append key v opts' m))
         else append_args ss opts m)"

definition pm_AppendArgs :: "string list \<Rightarrow> string pm_option list \<Rightarrow> string prio_map \<Rightarrow> string prio_map" where
  "pm_AppendArgs args opts m = append_args (CommandLineArgs args) opts m"

section \<open>Readers (\<open>conversion.go\<close>)\<close>

definition sorted_keys :: "'v prio_map \<Rightarrow> string list" where
  "sorted_keys m = sort_by id (map fst (pmEntries m))"

definition entries_of :: "'v prio_map \<Rightarrow> string \<Rightarrow> 'v pm_entry list" where
  "entries_of m key = (case map_of (pmEntries m) key of None \<Rightarrow> [] | Some es \<Rightarrow> es)"

fun value_env :: "string \<Rightarrow> env_value \<Rightarrow> env_var" where
  "value_env key (StringValue v) = \<lparr>evName = key, evValue = v, evValueFrom = None\<rparr>"
| "value_env key (EnvVarValue e) = e"
| "value_env key (EnvSourceValue src) = \<lparr>evName = key, evValue = [], evValueFrom = Some src\<rparr>"

definition AsEnvVars :: "env_value prio_map \<Rightarrow> env_var list" where
  "AsEnvVars m =
     concat (map (\<lambda>key. map (\<lambda>e. value_env key (enValue e)) (entries_of m key)) (sorted_keys m))"

definition AsKeyValueStrings :: "string prio_map \<Rightarrow> string list" where
  "AsKeyValueStrings m =
     concat (map (\<lambda>key. map (\<lambda>e. key @ enDelimiter e @ enValue e) (sort_key enPriority (entries_of m key)))
       (sorted_keys m))"

section \<open>Environments\<close>

text \<open>
  How an environment is put together: variables are added with a priority to a map without duplicates.
  \<open>env_map\<close> is the invariant of such a map, \<open>pick\<close> what one addition does to the variable of a name.
\<close>

definition env_entry :: "string \<Rightarrow> env_value pm_entry list \<Rightarrow> bool" where
  "env_entry key es \<longleftrightarrow> key \<noteq> [] \<and> (\<exists>e v. es = [e] \<and> enValue e = EnvVarValue v \<and> evName v = key)"

definition env_map :: "env_value prio_map \<Rightarrow> bool" where
  "env_map m \<longleftrightarrow>
     distinct (map fst (pmEntries m)) \<and> (\<forall>key es. map_of (pmEntries m) key = Some es \<longrightarrow> env_entry key es) \<and>
     (pmDefaultOptions m = [] \<or> pmDefaultOptions m = [WithPriority DefaultPriority])"

definition env_add :: "env_var \<times> int \<Rightarrow> env_value prio_map \<Rightarrow> env_value prio_map" where
  "env_add x = pm_AppendEnv (fst x) [WithPriority (snd x)]"

definition pick :: "string \<Rightarrow> env_var \<times> int \<Rightarrow> (env_var \<times> int) option \<Rightarrow> (env_var \<times> int) option" where
  "pick n x acc =
     (if evName (fst x) \<noteq> n then acc
      else case acc of None \<Rightarrow> Some x | Some y \<Rightarrow> if snd x > snd y then Some x else acc)"

definition env_of :: "env_value prio_map \<Rightarrow> string \<Rightarrow> (env_var \<times> int) option" where
  "env_of m n =
     (case map_of (pmEntries m) n of
        Some [e] \<Rightarrow> (case enValue e of EnvVarValue v \<Rightarrow> Some (v, enPriority e) | _ \<Rightarrow> None)
      | _ \<Rightarrow> None)"

lemma env_map_New [simp]: "env_map (pm_New [WithPriority DefaultPriority])" "env_map (pm_New [])"
  by (simp_all add: env_map_def pm_New_def)

lemma env_of_New [simp]: "env_of (pm_New opts) n = None"
  by (simp add: env_of_def pm_New_def)

lemma env_map_lookup:
  assumes "env_map m" and "map_of (pmEntries m) n = Some es"
  obtains e v where "es = [e]" and "enValue e = EnvVarValue v" and "evName v = n" and "n \<noteq> []"
proof -
  have "env_entry n es" using assms by (simp add: env_map_def)
  with that show ?thesis by (auto simp: env_entry_def)
qed

lemma cut_suffix_Nil [simp]: "cut_suffix key [] = key"
  by (simp add: cut_suffix_def)

lemma env_new_entry:
  assumes "env_map m"
  shows "new_entry m key v [WithPriority p] =
           \<lparr>enValue = v, enKey = key, enDelimiter = [], enPriority = p, enAllowDuplicates = False\<rparr>"
    and "new_entry m key v [] =
           \<lparr>enValue = v, enKey = key, enDelimiter = [], enPriority = DefaultPriority, enAllowDuplicates = False\<rparr>"
  using assms by (auto simp: env_map_def new_entry_def WithPriority_def)

lemma env_add_default:
  assumes "env_map m"
  shows "pm_AppendEnv e [] m = env_add (e, DefaultPriority) m"
  using assms by (simp add: env_add_def pm_AppendEnv_def pm_Append_def env_new_entry Let_def)

lemma env_add_map:
  assumes "env_map m"
  shows "env_map (env_add x m)"
proof (cases "evName (fst x) = []")
  case True
  with assms show ?thesis by (simp add: env_add_def pm_AppendEnv_def pm_Append_def)
next
  case False
  have put: "env_map (m\<lparr>pmEntries := AList.update (evName (fst x)) [e] (pmEntries m)\<rparr>)"
    if "enValue e = EnvVarValue (fst x)" for e
    using assms False that
    by (auto simp: env_map_def distinct_update env_entry_def update_conv')
  show ?thesis
  proof (cases "map_of (pmEntries m) (evName (fst x))")
    case None
    with False put show ?thesis
      by (simp add: env_add_def pm_AppendEnv_def pm_Append_def env_new_entry[OF assms] Let_def)
  next
    case (Some es)
    with False put assms show ?thesis
      by (simp add: env_add_def pm_AppendEnv_def pm_Append_def env_new_entry[OF assms] Let_def)
  qed
qed

lemma env_of_add:
  assumes "env_map m" and "n \<noteq> []"
  shows "env_of (env_add x m) n = pick n x (env_of m n)"
proof (cases "map_of (pmEntries m) (evName (fst x))")
  case None
  with assms show ?thesis
    by (auto simp: env_add_def pm_AppendEnv_def pm_Append_def env_new_entry[OF assms(1)] Let_def env_of_def
        pick_def update_conv')
next
  case (Some es)
  then obtain e v where "es = [e]" "enValue e = EnvVarValue v" by (metis env_map_lookup[OF assms(1)])
  with Some assms show ?thesis
    by (auto simp: env_add_def pm_AppendEnv_def pm_Append_def env_new_entry[OF assms(1)] Let_def env_of_def
        pick_def update_conv')
qed

lemma env_adds:
  assumes "env_map m"
  shows "env_map (fold env_add xs m)"
    and "n \<noteq> [] \<Longrightarrow> env_of (fold env_add xs m) n = fold (pick n) xs (env_of m n)"
  using assms by (induction xs arbitrary: m) (auto simp: env_add_map env_of_add)

text \<open>Nothing replaces a variable but one of higher priority.\<close>

lemma pick_lower:
  "\<forall>x \<in> set xs. snd x \<le> snd y \<Longrightarrow> fold (pick n) xs (Some y) = Some y"
  by (induction xs) (auto simp: pick_def)

lemma pick_same:
  assumes "\<forall>x \<in> set xs. snd x = p"
  shows "fold (pick n) xs None = find (\<lambda>x. evName (fst x) = n) xs"
  using assms by (induction xs) (auto simp: pick_def pick_lower)

lemma find_map_pair:
  "find (\<lambda>x. evName (fst x) = n) (map (\<lambda>e. (e, p)) es) = map_option (\<lambda>e. (e, p)) (find (\<lambda>e. evName e = n) es)"
  by (induction es) auto

lemma two_priorities:
  assumes "q < p"
  shows "fold (pick n) (map (\<lambda>e. (e, p)) us @ map (\<lambda>e. (e, q)) ms) None =
           (case k8senv_Find us n of Some e \<Rightarrow> Some (e, p)
            | None \<Rightarrow> map_option (\<lambda>e. (e, q)) (k8senv_Find ms n))"
  using assms
  by (auto simp: pick_same[of _ p] pick_same[of _ q] find_map_pair k8senv_Find_def pick_lower
      split: option.split)

section \<open>What readers see of an environment\<close>

lemma env_map_known:
  assumes "env_map m"
  shows "key \<in> set (sorted_keys m) \<longleftrightarrow> env_of m key \<noteq> None"
    and "key \<in> set (sorted_keys m) \<Longrightarrow>
         map (\<lambda>e. value_env key (enValue e)) (entries_of m key) = [fst (the (env_of m key))] \<and>
         evName (fst (the (env_of m key))) = key"
proof -
  have known: "env_of m key \<noteq> None \<and>
      map (\<lambda>e. value_env key (enValue e)) (entries_of m key) = [fst (the (env_of m key))] \<and>
      evName (fst (the (env_of m key))) = key" if "map_of (pmEntries m) key = Some es" for es
    using that by (auto simp: env_of_def entries_of_def elim!: env_map_lookup[OF assms])
  have keys: "key \<in> set (sorted_keys m) \<longleftrightarrow> map_of (pmEntries m) key \<noteq> None"
    by (auto simp: sorted_keys_def map_of_eq_None_iff)
  show "key \<in> set (sorted_keys m) \<longleftrightarrow> env_of m key \<noteq> None"
    using keys known by (cases "map_of (pmEntries m) key") (auto simp: env_of_def)
  show "key \<in> set (sorted_keys m) \<Longrightarrow>
         map (\<lambda>e. value_env key (enValue e)) (entries_of m key) = [fst (the (env_of m key))] \<and>
         evName (fst (the (env_of m key))) = key"
    using keys known by blast
qed

lemma env_list:
  assumes "env_map m"
  shows "AsEnvVars m = map (\<lambda>key. fst (the (env_of m key))) (sorted_keys m)"
proof -
  have "concat (map (\<lambda>key. map (\<lambda>e. value_env key (enValue e)) (entries_of m key)) (sorted_keys m)) =
        concat (map (\<lambda>key. [fst (the (env_of m key))]) (sorted_keys m))"
    using env_map_known(2)[OF assms] by (intro arg_cong[of _ _ concat] map_cong) auto
  then show ?thesis by (simp add: AsEnvVars_def concat_map_singleton)
qed

lemma names_env:
  assumes "env_map m"
  shows "map evName (AsEnvVars m) = sorted_keys m"
  using env_map_known(2)[OF assms] by (auto simp: env_list[OF assms] intro: map_idI)

lemma find_by_name:
  "\<forall>k \<in> set ks. evName (f k) = k \<Longrightarrow>
   find (\<lambda>e. evName e = n) (map f ks) = (if n \<in> set ks then Some (f n) else None)"
  by (induction ks) auto

lemma env_value_at:
  assumes "env_map m"
  shows "k8senv_Find (AsEnvVars m) n = map_option fst (env_of m n)"
  using env_map_known[OF assms]
  by (cases "env_of m n") (auto simp: k8senv_Find_def env_list[OF assms] find_by_name)

lemma distinct_sort_by: "distinct (sort_by f xs) \<longleftrightarrow> distinct xs"
  by (metis card_distinct distinct_card length_sort_by set_sort_by)

lemma sorted_keys_sorted: "str_sorted (sorted_keys m)"
  using sorted_sort_by[of id] by (simp add: sorted_keys_def str_sorted_def)

lemma distinct_sorted_keys:
  assumes "env_map m"
  shows "distinct (sorted_keys m)"
  using assms by (simp add: sorted_keys_def env_map_def distinct_sort_by)

end
