(* ===== verification/ConnectionLaws.thy ===== *)
theory ConnectionLaws
  imports ConnectionInfo PriorityMap
begin

text \<open>What the connection info reconcilers guarantee.\<close>

section \<open>Communication hosts\<close>

definition hosts_of :: "url_parser \<Rightarrow> string list \<Rightarrow> communication_host set" where
  "hosts_of url_Parse endpoints = {ch. \<exists>e \<in> set endpoints. NewCommunicationHost url_Parse e = Inr ch}"

definition printed :: "(string \<times> communication_host) list \<Rightarrow> bool" where
  "printed m \<longleftrightarrow> distinct (map fst m) \<and> (\<forall>(k, ch) \<in> set m. k = ch_String ch)"

lemma set_update: "set (AList.update k v m) \<subseteq> insert (k, v) (set m)"
  by (induction m) auto

lemma printed_update: "printed m \<Longrightarrow> printed (AList.update (ch_String ch) ch m)"
  using set_update[of "ch_String ch" ch m] by (fastforce simp: printed_def distinct_update)

lemma collect_ok:
  assumes "collect_hosts url_Parse endpoints m = Inr m'" and "printed m"
  shows "printed m' \<and> fst ` set m' = fst ` set m \<union> ch_String ` hosts_of url_Parse endpoints \<and>
         (\<forall>e \<in> set endpoints. \<exists>ch. NewCommunicationHost url_Parse e = Inr ch) \<and>
         snd ` set m' \<subseteq> snd ` set m \<union> hosts_of url_Parse endpoints"
  using assms
proof (induction endpoints arbitrary: m)
  case (Cons e es)
  obtain ch where ch: "NewCommunicationHost url_Parse e = Inr ch"
    using Cons.prems by (auto split: sum.splits)
  have hosts: "hosts_of url_Parse (e # es) = insert ch (hosts_of url_Parse es)" using ch by (auto simp: hosts_of_def)
  have stored: "snd ` set (AList.update k v m) \<subseteq> insert v (snd ` set m)" for k :: string and v :: communication_host
    using set_update[of k v m] by force
  have "collect_hosts url_Parse es (AList.update (ch_String ch) ch m) = Inr m'" using Cons.prems ch by simp
  from Cons.IH[OF this printed_update[OF Cons.prems(2)]] show ?case
    using ch order_trans[OF _ Un_mono[OF stored[of "ch_String ch" ch] order_refl]]
    unfolding hosts by (simp add: dom_update)
qed (auto simp: hosts_of_def)

lemma collect_fails:
  "(\<exists>err. collect_hosts url_Parse endpoints m = Inl err) \<longleftrightarrow>
     (\<exists>e \<in> set endpoints. \<exists>err. NewCommunicationHost url_Parse e = Inl err)"
  by (induction endpoints arbitrary: m) (auto split: sum.splits)

lemma host_port:
  "NewCommunicationHost url_Parse e = Inr ch \<Longrightarrow> chPort ch \<le> 4294967295 \<and> chProtocol ch \<in> {''http'', ''https''}"
  by (auto simp: NewCommunicationHost_def parse_uint32_def split: sum.splits if_splits)

lemma distinct_by: "distinct (map f xs) \<Longrightarrow> distinct (map f (sort_by g xs))"
proof -
  assume d: "distinct (map f xs)"
  have "distinct xs" using d by (simp add: distinct_map)
  moreover have "inj_on f (set xs)" using d by (simp add: distinct_map)
  ultimately show ?thesis by (simp add: distinct_map distinct_sort_by)
qed

text \<open>The communication hosts of a list of endpoints: the list fails exactly when one of its endpoints does;
  otherwise the hosts are sorted by how they print, no two print alike, and each endpoint has its host among
  them. Every port fits 32 bits and every protocol is http or https.
\<close>

theorem communication_hosts_exact:
  assumes "endpoints \<noteq> []"
  shows "case newCommunicationHosts url_Parse endpoints sep of
      Inl err \<Rightarrow> \<exists>e \<in> set (split_on sep endpoints). \<exists>err. NewCommunicationHost url_Parse e = Inl err
    | Inr hosts \<Rightarrow>
        (\<forall>e \<in> set (split_on sep endpoints). \<exists>ch. NewCommunicationHost url_Parse e = Inr ch) \<and>
        sorted_wrt (\<lambda>a b. str_le (ch_String a) (ch_String b)) hosts \<and> distinct (map ch_String hosts) \<and>
        ch_String ` set hosts = ch_String ` hosts_of url_Parse (split_on sep endpoints) \<and>
        (\<forall>ch \<in> set hosts. chPort ch \<le> 4294967295 \<and> chProtocol ch \<in> {''http'', ''https''})"
proof (cases "collect_hosts url_Parse (split_on sep endpoints) []")
  case (Inl err)
  then show ?thesis
    using collect_fails[of url_Parse "split_on sep endpoints" "[]"] assms by (auto simp: newCommunicationHosts_def)
next
  case (Inr m)
  from collect_ok[OF Inr] have m: "printed m" "fst ` set m = ch_String ` hosts_of url_Parse (split_on sep endpoints)"
      "\<forall>e \<in> set (split_on sep endpoints). \<exists>ch. NewCommunicationHost url_Parse e = Inr ch"
      "snd ` set m \<subseteq> hosts_of url_Parse (split_on sep endpoints)"
    by (auto simp: printed_def)
  have keys: "map ch_String (map snd m) = map fst m" using m(1) by (auto simp: printed_def)
  have "distinct (map ch_String (map snd m))" unfolding keys using m(1) by (simp add: printed_def)
  then have "distinct (map ch_String (sort_by ch_String (map snd m)))" by (rule distinct_by)
  moreover have "ch_String ` set (map snd m) = fst ` set m" using arg_cong[OF keys, of set] by (simp add: image_image)
  moreover have "\<forall>ch \<in> set (sort_by ch_String (map snd m)). chPort ch \<le> 4294967295 \<and> chProtocol ch \<in> {''http'', ''https''}"
  proof
    fix ch assume "ch \<in> set (sort_by ch_String (map snd m))"
    with m(4) obtain e where "NewCommunicationHost url_Parse e = Inr ch" by (auto simp: hosts_of_def)
    then show "chPort ch \<le> 4294967295 \<and> chProtocol ch \<in> {''http'', ''https''}" by (rule host_port)
  qed
  moreover have "newCommunicationHosts url_Parse endpoints sep = Inr (sort_by ch_String (map snd m))"
    using Inr assms by (simp add: newCommunicationHosts_def)
  ultimately show ?thesis
    using m(2,3) sorted_sort_by[of ch_String "map snd m"] by (simp only: sum.case set_sort_by simp_thms)
qed

section \<open>Required hosts\<close>

text \<open>An answer counts as stale only when none of the required ActiveGate addresses is among its endpoints:
  one advertised address is enough, while the condition and the log speak of every address.
\<close>

theorem one_advertised_address_suffices:
  "missingRequiredHosts url_Parse requiredHosts endpoints \<longleftrightarrow>
     requiredHosts \<noteq> [] \<and> (\<forall>ch \<in> hosts_of url_Parse endpoints. chHost ch \<notin> set requiredHosts)"
proof -
  have "fold (missing_after url_Parse requiredHosts) es b \<longleftrightarrow>
      b \<and> (\<forall>ch \<in> hosts_of url_Parse es. chHost ch \<notin> set requiredHosts)" for es b
    by (induction es arbitrary: b) (auto simp: missing_after_def hosts_of_def split: sum.split)
  then show ?thesis by (simp add: missingRequiredHosts_def)
qed

section \<open>Reconciling\<close>

lemma tenant_secret_result:
  "createTenantTokenSecret env t c n token st =
     (case BuildTenantSecret env (clDk st) c n token of
        Inl e \<Rightarrow> (Inl e, st)
      | Inr secret \<Rightarrow>
          (case create_or_update (keSecrets env) secret (clSecrets st) of
             (Inl e, q) \<Rightarrow> (Inl e, st\<lparr>clSecrets := q, clDk := add_condition_op (kube_api_error_cond t) (clDk st)\<rparr>)
           | (Inr b, q) \<Rightarrow>
               (Inr (), st\<lparr>clSecrets := q, clDk := add_condition_op (SetSecretCreated t (koName secret)) (clDk st)\<rparr>)))"
proof (cases "BuildTenantSecret env (clDk st) c n token")
  case (Inr secret)
  obtain r q where run: "create_or_update (keSecrets env) secret (clSecrets st) = (r, q)" by fastforce
  then have stored: "with_secrets (create_or_update (keSecrets env) secret) st = (r, st\<lparr>clSecrets := q\<rparr>)"
    by (simp add: with_secrets_def)
  show ?thesis
    by (cases r) (simp_all add: createTenantTokenSecret_def step_simps Inr run stored)
qed (simp add: createTenantTokenSecret_def step_simps)

lemma info_run:
  assumes "oa_reconcileConnectionInfo env st = (Inr (), st')"
  shows "\<exists>info secret b q h.
    ieGetOA env (getRequiredActiveGateServiceIPs (clDk st)) = (info, None) \<and>
    BuildTenantSecret (ieCluster env) (oa_setDynakubeStatus info (clDk st)) ''oneagent''
      (oa_TenantSecretName (clDk st)) (fiTenantToken info) = Inr secret \<and>
    create_or_update (keSecrets (ieCluster env)) secret (clSecrets st) = (Inr b, q) \<and>
    GenerateHash (keMarshalString (ieCluster env)) (fiTenantToken info) = Inr h \<and>
    st' = st\<lparr>clSecrets := q, clDk := oa_update_info (\<lambda>ci. ci\<lparr>ciTenantTokenHash := h\<rparr>)
      (add_condition_op (SetSecretCreated oaConnectionInfoConditionType (koName secret))
        (oa_setDynakubeStatus info (clDk st)))\<rparr>"
proof -
  obtain info err where api: "ieGetOA env (getRequiredActiveGateServiceIPs (clDk st)) = (info, err)" by fastforce
  have none: "err = None" using assms by (auto simp: oa_reconcileConnectionInfo_def step_simps api split: option.splits if_splits)
  let ?dk = "oa_setDynakubeStatus info (clDk st)" and ?st = "st\<lparr>clDk := oa_setDynakubeStatus info (clDk st)\<rparr>"
  have run: "andThen (createTenantTokenSecret (ieCluster env) oaConnectionInfoConditionType ''oneagent''
      (oa_TenantSecretName (clDk st)) (fiTenantToken info)) (\<lambda>_.
      andThen (attempt (lift (GenerateHash (keMarshalString (ieCluster env)) (fiTenantToken info)))) (\<lambda>r.
        case r of
          Inl e \<Rightarrow> andThen (on_dk (oa_update_info (\<lambda>ci. ci\<lparr>ciTenantTokenHash := []\<rparr>))) (\<lambda>_.
                     throw (WithMsg ''failed to generate TenantTokenHash'' e))
        | Inr h \<Rightarrow> on_dk (oa_update_info (\<lambda>ci. ci\<lparr>ciTenantTokenHash := h\<rparr>)))) ?st = (Inr (), st')"
    using assms by (simp add: oa_reconcileConnectionInfo_def step_simps api none)
  obtain secret where secret: "BuildTenantSecret (ieCluster env) ?dk ''oneagent'' (oa_TenantSecretName (clDk st))
      (fiTenantToken info) = Inr secret"
    using run by (auto simp: andThen_def[of "createTenantTokenSecret _ _ _ _ _"] tenant_secret_result split: sum.splits)
  obtain r q where stored: "create_or_update (keSecrets (ieCluster env)) secret (clSecrets st) = (r, q)" by fastforce
  obtain b where b: "r = Inr b"
    using run by (cases r) (auto simp: andThen_def[of "createTenantTokenSecret _ _ _ _ _"] tenant_secret_result secret stored)
  obtain h where h: "GenerateHash (keMarshalString (ieCluster env)) (fiTenantToken info) = Inr h"
    using run by (cases "GenerateHash (keMarshalString (ieCluster env)) (fiTenantToken info)")
      (auto simp: andThen_def[of "createTenantTokenSecret _ _ _ _ _"] tenant_secret_result secret stored b step_simps lift_def)
  have "st' = ?st\<lparr>clSecrets := q, clDk := oa_update_info (\<lambda>ci. ci\<lparr>ciTenantTokenHash := h\<rparr>)
      (add_condition_op (SetSecretCreated oaConnectionInfoConditionType (koName secret)) ?dk)\<rparr>"
    using run by (simp add: andThen_def[of "createTenantTokenSecret _ _ _ _ _"] tenant_secret_result secret stored b h
        step_simps lift_def)
  then show ?thesis using none secret stored b h api by auto
qed


text \<open>Without a usable answer of the API nothing is deployed: neither the tenant secret nor the hash of the
  token is touched and the reconcile fails. A postponing error still records the tenant and the endpoints
  it came with, and is returned as such, so that the callers requeue instead of reporting a failure; any
  other error leaves the recorded info as it was.
\<close>

theorem unusable_info_changes_no_secret:
  assumes "ieGetOA env (getRequiredActiveGateServiceIPs (clDk st)) = (info, Some e)"
  shows "case oa_reconcileConnectionInfo env st of (r, st') \<Rightarrow>
     (\<exists>e'. r = Inl e' \<and> IsPostponedError e' = IsPostponedError e) \<and> clSecrets st' = clSecrets st \<and>
     clStatusWrites st' = clStatusWrites st \<and>
     osConnectionInfo (dstOneAgent (dkStatus (clDk st'))) =
       (if IsPostponedError e
        then (osConnectionInfo (dstOneAgent (dkStatus (clDk st))))
               \<lparr>ciTenantUUID := fiTenantUUID info, ciEndpoints := fiEndpoints info\<rparr>
        else osConnectionInfo (dstOneAgent (dkStatus (clDk st))))"
proof -
  have wrapped: "IsPostponedError (WithMsg m e) = IsPostponedError e" for m
    by (simp add: IsPostponedError_def errors_is_def)
  have sentinels: "IsPostponedError (Sentinel NoCommunicationEndpointsError)"
      "IsPostponedError (Sentinel StaleNetworkZoneEndpointsError)"
    by (simp_all add: IsPostponedError_def errors_is_def)
  show ?thesis
    using sentinels
    by (simp add: oa_reconcileConnectionInfo_def step_simps assms wrapped oa_setDynakubeStatus_def oa_update_info_def)
qed

text \<open>C16. When the server rejects the network zone (a bad request), the client answers with an empty info and no
  error: a successful reconcile has then blanked tenant and endpoints in the status and stored a secret
  with an empty tenant token, instead of postponing the rollout.
\<close>

theorem rejected_zone_blanks_info:
  assumes "execute (connection_info_params zone) = Inl e" and "core_IsBadRequest e"
    and "ieGetOA env = oa_GetConnectionInfo execute url_Parse zone"
    and "oa_reconcileConnectionInfo env st = (Inr (), st')"
  shows "ciTenantUUID (osConnectionInfo (dstOneAgent (dkStatus (clDk st')))) = [] \<and>
     ciEndpoints (osConnectionInfo (dstOneAgent (dkStatus (clDk st')))) = [] \<and>
     (\<exists>secret b. BuildTenantSecret (ieCluster env) (oa_setDynakubeStatus zero_fetched_info (clDk st)) ''oneagent''
        (oa_TenantSecretName (clDk st)) [] = Inr secret \<and>
        create_or_update (keSecrets (ieCluster env)) secret (clSecrets st) = (Inr b, clSecrets st'))"
proof -
  have "ieGetOA env (getRequiredActiveGateServiceIPs (clDk st)) = (zero_fetched_info, None)"
    by (simp add: assms(1,2,3) oa_GetConnectionInfo_def)
  with info_run[OF assms(4)] show ?thesis by (auto simp: zero_fetched_info_def oa_update_info_def oa_setDynakubeStatus_def)
qed

section \<open>Witnesses\<close>

definition sample_info_env :: "fetched_info \<times> error option \<Rightarrow> info_env" where
  "sample_info_env answer = \<lparr>ieCluster = sample_cluster_env, ieGetOA = (\<lambda>_. answer), ieGetAG = Inr (fst answer)\<rparr>"

lemma sample_info_runs:
  assumes "snd (ieGetOA env (getRequiredActiveGateServiceIPs dk)) = None" and "ieCluster env = sample_cluster_env"
  shows "\<exists>st'. oa_reconcileConnectionInfo env (sample_cluster dk) = (Inr (), st')"
proof -
  obtain info where api: "ieGetOA env (getRequiredActiveGateServiceIPs dk) = (info, None)"
    using assms(1) by (metis prod.collapse)
  let ?dk = "oa_setDynakubeStatus info dk"
  obtain secret where secret: "BuildTenantSecret sample_cluster_env ?dk ''oneagent'' (oa_TenantSecretName dk) (fiTenantToken info) = Inr secret"
    unfolding BuildTenantSecret_def using sample_build(1) by metis
  obtain b q where stored: "create_or_update (keSecrets sample_cluster_env) secret (clSecrets (sample_cluster dk)) = (Inr b, q)"
    using sample_create by (fastforce simp: sample_cluster_env_def)
  have "GenerateHash (keMarshalString sample_cluster_env) t = Inr (show_nat (unat (fnv32 [])))" for t
    by (simp add: GenerateHash_def sample_cluster_env_def)
  moreover have "clDk (sample_cluster dk) = dk" by (simp add: sample_cluster_def)
  ultimately show ?thesis
    using secret stored
    by (simp add: oa_reconcileConnectionInfo_def step_simps api assms(2) andThen_def[of "createTenantTokenSecret _ _ _ _ _"]
        tenant_secret_result lift_def)
qed

theorem communication_hosts_witness:
  "\<exists>hosts. newCommunicationHosts (\<lambda>s. Inr \<lparr>upScheme = ''https'', upHostname = s, upPort = []\<rparr>) ''b;a;b'' (CHR '';'') = Inr hosts \<and>
     distinct (map ch_String hosts)"
proof -
  let ?p = "\<lambda>s. Inr \<lparr>upScheme = ''https'', upHostname = s, upPort = []\<rparr>"
  have "\<not> isl (newCommunicationHosts ?p ''b;a;b'' (CHR '';''))" by code_simp
  then show ?thesis using communication_hosts_exact[where endpoints = "''b;a;b''" and url_Parse = ?p and sep = "CHR '';''"] by (auto split: sum.splits)
qed


theorem unusable_info_witness:
  "\<exists>e'. fst (oa_reconcileConnectionInfo (sample_info_env (zero_fetched_info, Some (HttpCode 503)))
      (sample_cluster zero_dynakube)) = Inl e' \<and> \<not> IsPostponedError e'"
  using unusable_info_changes_no_secret[of "sample_info_env (zero_fetched_info, Some (HttpCode 503))"
      "sample_cluster zero_dynakube" zero_fetched_info "HttpCode 503"]
  by (auto simp: sample_info_env_def IsPostponedError_def errors_is_def split: prod.splits)

theorem rejected_zone_witness:
  "\<exists>st'. oa_reconcileConnectionInfo ((sample_info_env (zero_fetched_info, None))
        \<lparr>ieGetOA := oa_GetConnectionInfo (\<lambda>_. Inl (HttpCode 400)) (\<lambda>_. Inl (HttpCode 0)) ''zone''\<rparr>)
      (sample_cluster zero_dynakube) = (Inr (), st') \<and>
     ciTenantUUID (osConnectionInfo (dstOneAgent (dkStatus (clDk st')))) = []"
proof -
  let ?env = "(sample_info_env (zero_fetched_info, None))
    \<lparr>ieGetOA := oa_GetConnectionInfo (\<lambda>_. Inl (HttpCode 400)) (\<lambda>_. Inl (HttpCode 0)) ''zone''\<rparr>"
  have bad: "core_IsBadRequest (HttpCode 400)" by (simp add: core_IsBadRequest_def StatusCode_def)
  obtain st' where run: "oa_reconcileConnectionInfo ?env (sample_cluster zero_dynakube) = (Inr (), st')"
    using sample_info_runs[of ?env zero_dynakube] bad by (auto simp: sample_info_env_def oa_GetConnectionInfo_def)
  from rejected_zone_blanks_info[OF refl bad _ run] run show ?thesis by auto
qed

end
