(* ===== verification/Manifest.thy ===== *)
theory Manifest
  imports PodModel K8sMeta
begin

text \<open>
  The parts of the manifests of generated workloads: volumes, containers with their security contexts and
  probes, pods, and the parts of the Kubernetes types the operator fills in. Settings it only passes on are
  values (\<open>k8s_value\<close>).
\<close>

datatype volume_source =
    EmptyDirVolume
  | HostPathVolume string "string option"
  | SecretVolume string "int option" "(string \<times> string) list"
  | ConfigMapVolume string "(string \<times> string) list"
  | CSIVolume string "(string \<times> string) list"
  | GivenVolume k8s_value

record manifest_volume =
  mvName :: string
  mvSource :: volume_source

datatype seccomp_profile = SeccompRuntimeDefault | SeccompLocalhost string

text \<open>Capabilities are those added and those dropped.\<close>

record manifest_security =
  msPrivileged :: "bool option"
  msAllowPrivilegeEscalation :: "bool option"
  msRunAsNonRoot :: "bool option"
  msRunAsUser :: "int option"
  msRunAsGroup :: "int option"
  msReadOnlyRootFilesystem :: "bool option"
  msCapabilities :: "(string list \<times> string list) option"
  msSeccompProfile :: "seccomp_profile option"
  msAppArmorProfile :: "apparmor_profile option"

definition no_security :: manifest_security where
  "no_security =
     \<lparr>msPrivileged = None, msAllowPrivilegeEscalation = None, msRunAsNonRoot = None, msRunAsUser = None,
      msRunAsGroup = None, msReadOnlyRootFilesystem = None, msCapabilities = None, msSeccompProfile = None,
      msAppArmorProfile = None\<rparr>"

record manifest_probe =
  mpCommand :: "string list"
  mpInitialDelaySeconds :: "32 word"
  mpPeriodSeconds :: "32 word"
  mpTimeoutSeconds :: "32 word"
  mpFailureThreshold :: "32 word"
  mpSuccessThreshold :: "32 word"

record manifest_container =
  mcName :: string
  mcImage :: string
  mcImagePullPolicy :: string
  mcArgs :: "string list"
  mcEnv :: "env_var list"
  mcResources :: resource_requirements
  mcVolumeMounts :: "pod_mount list"
  mcSecurityContext :: "manifest_security option"
  mcReadinessProbe :: "manifest_probe option"
  mcLivenessProbe :: "manifest_probe option"

record manifest_pod =
  mpInitContainers :: "manifest_container list"
  mpContainers :: "manifest_container list"
  mpImagePullSecrets :: "string list"
  mpHostNetwork :: bool
  mpHostPID :: bool
  mpFSGroup :: "int option"
  mpNodeSelector :: smap
  mpPriorityClassName :: string
  mpServiceAccountName :: string
  mpTolerations :: "k8s_value list"
  mpDNSPolicy :: string
  mpVolumes :: "manifest_volume list"
  mpAffinity :: "(string \<times> string list) list"
  mpTerminationGracePeriodSeconds :: "int option"

text \<open>The rolling update of a daemon set: given, or by the number of pods that may be unavailable.\<close>

datatype rolling_update = MaxUnavailable int | GivenRollingUpdate k8s_value

record daemon_set_manifest =
  dmfName :: string
  dmfNamespace :: string
  dmfLabels :: smap
  dmfAnnotations :: smap
  dmfMatchLabels :: smap
  dmfTemplateLabels :: smap
  dmfTemplateAnnotations :: smap
  dmfPod :: manifest_pod
  dmfRollingUpdate :: rolling_update

section \<open>Node affinity (\<open>k8saffinity\<close>)\<close>

text \<open>The match expressions \<open>In\<close> of the one required term.\<close>

definition nodeAffinityRequirementsForArches :: "string list \<Rightarrow> (string \<times> string list) list" where
  "nodeAffinityRequirementsForArches arches =
     [(''kubernetes.io/arch'', arches), (''kubernetes.io/os'', [''linux''])]"

definition NewMultiArchNodeAffinity :: "(string \<times> string list) list" where
  "NewMultiArchNodeAffinity =
     nodeAffinityRequirementsForArches [''amd64'', ''arm64'', ''ppc64le'', ''s390x'']"

definition NewAMDOnlyNodeAffinity :: "(string \<times> string list) list" where
  "NewAMDOnlyNodeAffinity = nodeAffinityRequirementsForArches [''amd64'']"

section \<open>Consistency\<close>

text \<open>What the API server demands of the mounts and volumes of a pod.\<close>

definition mounts_declared :: "manifest_pod \<Rightarrow> bool" where
  "mounts_declared p \<longleftrightarrow>
     (\<forall>c \<in> set (mpInitContainers p @ mpContainers p).
        pmName ` set (mcVolumeMounts c) \<subseteq> mvName ` set (mpVolumes p) \<and>
        distinct (map pmMountPath (mcVolumeMounts c)))"

definition volumes_distinct :: "manifest_pod \<Rightarrow> bool" where
  "volumes_distinct p \<longleftrightarrow> distinct (map mvName (mpVolumes p))"

end
