(* ===== verification/OneAgentDaemonSet.thy ===== *)
theory OneAgentDaemonSet
  imports PriorityMap Manifest PodOTLP "HOL-Library.Signed_Division"
begin

text \<open>
  The daemon set of the OneAgent (\<open>controllers/dynakube/oneagent/daemonset\<close>): arguments, environment,
  volumes, security contexts and probes of its pods, in the two variants classic full-stack and host
  monitoring, which cloud-native full-stack shares.
\<close>

text \<open>
  What is read from the surroundings: the minor version of the cluster, environment variables of the
  operator, whether the CSI driver is installed, and functions of the libraries (\<open>x/mod/semver\<close>,
  \<open>net.IsIPv6String\<close>). \<open>deSortedKeys\<close> is \<open>slices.Sorted(maps.Keys(...))\<close>, for a map of which only the
  lookup is known here.
\<close>

record ds_env =
  deMinor :: int
  deHelmPullSecret :: string
  deOperatorImage :: string
  deCSIAvailable :: bool
  deCanonical :: "string \<Rightarrow> string"
  deValid :: "string \<Rightarrow> bool"
  deCompare :: "string \<Rightarrow> string \<Rightarrow> int"
  deIsIPv6 :: "string \<Rightarrow> bool"
  deSortedKeys :: "smap \<Rightarrow> string list"

text \<open>
  A builder is made for the mode that is set, so its section of the spec is never nil; \<open>bdHostMonitoring\<close>
  tells the type \<open>hostMonitoring\<close> from \<open>classicFullStack\<close>.
\<close>

record ds_builder =
  bdDk :: dynakube
  bdHostInjectSpec :: host_inject_spec
  bdClusterID :: string
  bdDeploymentType :: string
  bdProcessGroupConfigHash :: string
  bdHostMonitoring :: bool

definition NewHostMonitoring :: "dynakube \<Rightarrow> string \<Rightarrow> string \<Rightarrow> ds_builder option" where
  "NewHostMonitoring dk clusterID processGroupConfigHash =
     map_option (\<lambda>h. \<lparr>bdDk = dk, bdHostInjectSpec = h, bdClusterID = clusterID,
       bdDeploymentType = ''host_monitoring'', bdProcessGroupConfigHash = processGroupConfigHash,
       bdHostMonitoring = True\<rparr>) (HostMonitoring (dspOneAgent (dkSpec dk)))"

definition NewCloudNativeFullStack :: "dynakube \<Rightarrow> string \<Rightarrow> string \<Rightarrow> ds_builder option" where
  "NewCloudNativeFullStack dk clusterID processGroupConfigHash =
     map_option (\<lambda>c. \<lparr>bdDk = dk, bdHostInjectSpec = cnHostInject c, bdClusterID = clusterID,
       bdDeploymentType = ''cloud_native_fullstack'', bdProcessGroupConfigHash = processGroupConfigHash,
       bdHostMonitoring = True\<rparr>) (CloudNativeFullStack (dspOneAgent (dkSpec dk)))"

definition NewClassicFullStack :: "dynakube \<Rightarrow> string \<Rightarrow> ds_builder option" where
  "NewClassicFullStack dk clusterID =
     map_option (\<lambda>h. \<lparr>bdDk = dk, bdHostInjectSpec = h, bdClusterID = clusterID,
       bdDeploymentType = ''classic_fullstack'', bdProcessGroupConfigHash = [],
       bdHostMonitoring = False\<rparr>) (ClassicFullStack (dspOneAgent (dkSpec dk)))"

section \<open>Property functions the manifest uses\<close>

abbreviation bd_oa :: "ds_builder \<Rightarrow> one_agent" where "bd_oa b \<equiv> dk_OneAgent (bdDk b)"

definition oa_GetImage :: "one_agent \<Rightarrow> string" where
  "oa_GetImage oa = vsImageID (osVersionStatus (oaStatus oa))"

definition oa_GetTenantSecret :: "one_agent \<Rightarrow> string" where
  "oa_GetTenantSecret oa = oaName oa @ ''-oneagent-tenant-secret''"

definition oa_GetConnectionInfoConfigMapName :: "one_agent \<Rightarrow> string" where
  "oa_GetConnectionInfoConfigMapName oa = oaName oa @ ''-oneagent-connection-info''"

definition oa_IsPrivilegedNeeded :: "one_agent \<Rightarrow> bool" where
  "oa_IsPrivilegedNeeded oa = oaFeaturePrivileged oa"

definition GetOneAgentMaxUnavailable :: "feature_flags \<Rightarrow> int" where
  "GetOneAgentMaxUnavailable ff = getIntWithDefault ff (FFPrefix @ ''oneagent-max-unavailable'') 1"

definition IsClassicOneAgentNonRoot :: "feature_flags \<Rightarrow> bool" where
  "IsClassicOneAgentNonRoot ff \<longleftrightarrow> getBoolWithDefault ff (FFPrefix @ ''oneagent-classic-nonroot'') False"

definition GetDeploymentMetadataConfigMapName :: "string \<Rightarrow> string" where
  "GetDeploymentMetadataConfigMapName dynakubeName = dynakubeName @ ''-deployment-metadata''"

definition GetSourceConfigSecretName :: "string \<Rightarrow> string" where
  "GetSourceConfigSecretName dynakubeName = dynakubeName @ ''-bootstrapper-config''"

definition proxy_BuildSecretName :: "string \<Rightarrow> string" where
  "proxy_BuildSecretName dynakubeName = dynakubeName @ ''-'' @ ''internal-proxy''"

definition NeedsPGC :: "dynakube \<Rightarrow> bool" where
  "NeedsPGC dk \<longleftrightarrow> IsAppInjectionNeeded (dk_OneAgent dk) \<or> IsHostMonitoringMode (dk_OneAgent dk)"

definition BuildServiceHostname :: "dynakube \<Rightarrow> string" where
  "BuildServiceHostname dk = BuildServiceName (dkName dk) @ ''.'' @ dkNamespace dk"

definition BuildHostEntries :: "(string \<Rightarrow> bool) \<Rightarrow> dynakube \<Rightarrow> string" where
  "BuildHostEntries isIPv6 dk =
     (let entries = map (\<lambda>ip. if isIPv6 ip then ''['' @ ip @ '']'' else ip) (asServiceIPs (dstActiveGate (dkStatus dk)))
      in join_sep '','' (if ag_IsRoutingEnabled (dk_ActiveGate dk)
                        then entries @ [BuildServiceHostname dk] else entries))"

section \<open>Arguments (\<open>arguments.go\<close>)\<close>

definition ProxyAsEnvVarDeprecatedVersion :: string where
  "ProxyAsEnvVarDeprecatedVersion = ''1.273.0.0-0''"

definition isProxyAsEnvVarDeprecated :: "string \<Rightarrow> error + bool" where
  "isProxyAsEnvVarDeprecated oneAgentVersion =
     (if oneAgentVersion = '''' \<or> oneAgentVersion = CustomImageVersionSource then Inr True
      else
        (case ExtractSemanticVersion oneAgentVersion of
           Inl e \<Rightarrow> Inl e
         | Inr runningVersion \<Rightarrow>
             (case ExtractSemanticVersion ProxyAsEnvVarDeprecatedVersion of
                Inl e \<Rightarrow> Inl e
              | Inr versionConstraint \<Rightarrow>
                  Inr (if CompareSemanticVersions runningVersion versionConstraint < 0 then False else True))))"

definition hasProxy :: "ds_builder \<Rightarrow> bool" where
  "hasProxy b = dk_NeedsOneAgentProxy (bdDk b)"

definition appendProxyArg :: "ds_builder \<Rightarrow> string prio_map \<Rightarrow> string prio_map" where
  "appendProxyArg b m =
     (let m1 = (if hasProxy b then pm_Append ''--set-proxy'' ''$(https_proxy)'' [] m else m)
      in pm_Append ''--set-proxy'' '''' [] m1)"

definition noProxyValue :: "ds_env \<Rightarrow> dynakube \<Rightarrow> string" where
  "noProxyValue env dk =
     (let v = (if dk_NeedsCustomNoProxy dk then GetNoProxy (dk_FF dk) else '''')
      in if ag_IsEnabled (dk_ActiveGate dk) then
           (let noProxyActiveGateValue = BuildHostEntries (deIsIPv6 env) dk
            in if v \<noteq> '''' then join_sep '','' [v, noProxyActiveGateValue] else noProxyActiveGateValue)
         else v)"

definition appendNoProxyArg :: "ds_env \<Rightarrow> ds_builder \<Rightarrow> string prio_map \<Rightarrow> string prio_map" where
  "appendNoProxyArg env b = pm_Append ''--set-no-proxy'' (noProxyValue env (bdDk b)) []"

definition appendNetworkZoneArg :: "ds_builder \<Rightarrow> string prio_map \<Rightarrow> string prio_map" where
  "appendNetworkZoneArg b m =
     (if dspNetworkZone (dkSpec (bdDk b)) \<noteq> ''''
      then pm_Append ''--set-network-zone'' (dspNetworkZone (dkSpec (bdDk b))) [] m else m)"

definition appendOperatorVersionArg :: "string prio_map \<Rightarrow> string prio_map" where
  "appendOperatorVersionArg = pm_Append ''--set-host-property'' ''OperatorVersion=$(DT_OPERATOR_VERSION)'' []"

definition appendImmutableImageArgs :: "string prio_map \<Rightarrow> string prio_map" where
  "appendImmutableImageArgs m =
     pm_Append ''--set-server'' ''{$(DT_SERVER)}'' [] (pm_Append ''--set-tenant'' ''$(DT_TENANT)'' [] m)"

definition appendHostIDSourceArg :: "one_agent \<Rightarrow> string prio_map \<Rightarrow> string prio_map" where
  "appendHostIDSourceArg oa m =
     (if IsClassicFullStackMode oa then pm_Append ''--set-host-id-source'' ''auto'' [] m
      else if IsHostMonitoringMode oa \<or> IsCloudNativeFullstackMode oa
      then pm_Append ''--set-host-id-source'' ''k8s-node-name'' [] m
      else m)"

definition appendHostInjectArgs :: "ds_builder \<Rightarrow> string prio_map \<Rightarrow> string prio_map" where
  "appendHostInjectArgs b =
     pm_AppendArgs (case hisArgs (bdHostInjectSpec b) of None \<Rightarrow> [] | Some args \<Rightarrow> args) [WithPriority 2]"

definition appendHostGroupArg :: "ds_builder \<Rightarrow> string prio_map \<Rightarrow> string prio_map" where
  "appendHostGroupArg b m =
     (let hostGroup = HostGroup (dspOneAgent (dkSpec (bdDk b)))
      in if hostGroup \<noteq> '''' then pm_Append ''--set-host-group'' hostGroup [WithPriority HighPriority] m else m)"

definition argument_map :: "string prio_map" where
  "argument_map =
     pm_New [WithSeparator ''='', WithPriority 1, WithAvoidDuplicates,
             WithAllowDuplicatesFor ''--set-host-property'', WithAllowDuplicatesFor ''--set-host-tag'',
             WithSanitizeCommandLineArg]"

definition ds_arguments :: "ds_env \<Rightarrow> ds_builder \<Rightarrow> error + string list" where
  "ds_arguments env b =
     (case isProxyAsEnvVarDeprecated (oa_GetVersion (bd_oa b)) of
        Inl e \<Rightarrow> Inl e
      | Inr isProxyAsEnvDeprecated \<Rightarrow>
          let m1 = (if \<not> isProxyAsEnvDeprecated \<or> \<not> dk_NeedsOneAgentProxy (bdDk b)
                    then appendProxyArg b argument_map else argument_map);
              m2 = appendNetworkZoneArg b (appendNoProxyArg env b m1);
              m3 = appendImmutableImageArgs (appendOperatorVersionArg m2);
              m4 = appendHostIDSourceArg (bd_oa b) m3;
              m5 = appendHostGroupArg b (appendHostInjectArgs b m4)
          in Inr (AsKeyValueStrings m5))"

section \<open>Environment (\<open>env_vars.go\<close>)\<close>

definition env_field :: "string \<Rightarrow> string \<Rightarrow> env_var" where
  "env_field name path = \<lparr>evName = name, evValue = [], evValueFrom = Some (FieldRef path)\<rparr>"

definition GetKubeletEnvs :: "env_var list" where
  "GetKubeletEnvs =
     [env_field ''KUBELET_API_NODENAME'' ''spec.nodeName'', env_field ''KUBELET_API_ADDRESS'' ''status.hostIP'']"

definition addDefaultValue :: "string \<Rightarrow> string \<Rightarrow> env_value prio_map \<Rightarrow> env_value prio_map" where
  "addDefaultValue name v = pm_AppendEnv (env_literal name v) []"

definition addDefaultValueSource :: "string \<Rightarrow> env_source \<Rightarrow> env_value prio_map \<Rightarrow> env_value prio_map" where
  "addDefaultValueSource name src =
     pm_AppendEnv \<lparr>evName = name, evValue = [], evValueFrom = Some src\<rparr> []"

definition addNodeNameEnv :: "env_value prio_map \<Rightarrow> env_value prio_map" where
  "addNodeNameEnv = addDefaultValueSource ''DT_K8S_NODE_NAME'' (FieldRef ''spec.nodeName'')"

definition addClusterIDEnv :: "ds_builder \<Rightarrow> env_value prio_map \<Rightarrow> env_value prio_map" where
  "addClusterIDEnv b = addDefaultValue ''DT_K8S_CLUSTER_ID'' (bdClusterID b)"

definition ds_addDeploymentMetadataEnv :: "ds_builder \<Rightarrow> env_value prio_map \<Rightarrow> env_value prio_map" where
  "ds_addDeploymentMetadataEnv b =
     addDefaultValueSource ''DT_DEPLOYMENT_METADATA''
       (ConfigMapKeyRef (GetDeploymentMetadataConfigMapName (dkName (bdDk b))) ''oneagent'')"

definition addOperatorVersionInfoEnv :: "ds_builder \<Rightarrow> env_value prio_map \<Rightarrow> env_value prio_map" where
  "addOperatorVersionInfoEnv b =
     addDefaultValueSource ''DT_OPERATOR_VERSION''
       (ConfigMapKeyRef (GetDeploymentMetadataConfigMapName (dkName (bdDk b))) ''operator'')"

definition addConnectionInfoEnvs :: "ds_builder \<Rightarrow> env_value prio_map \<Rightarrow> env_value prio_map" where
  "addConnectionInfoEnvs b m =
     (let configMap = oa_GetConnectionInfoConfigMapName (bd_oa b)
      in addDefaultValueSource ''DT_SERVER'' (ConfigMapKeyRef configMap ''communication-endpoints'')
           (addDefaultValueSource ''DT_TENANT'' (ConfigMapKeyRef configMap ''tenant-uuid'') m))"

definition addProxyEnv :: "ds_builder \<Rightarrow> env_value prio_map \<Rightarrow> env_value prio_map" where
  "addProxyEnv b m =
     (if \<not> hasProxy b then m
      else
        (case dspProxy (dkSpec (bdDk b)) of
           None \<Rightarrow> m
         | Some proxy \<Rightarrow>
             if vsrcValueFrom proxy \<noteq> '''' then
               addDefaultValueSource ''https_proxy'' (SecretKeyRef (vsrcValueFrom proxy) ''proxy'') m
             else addDefaultValue ''https_proxy'' (vsrcValue proxy) m))"

definition addReadOnlyEnv :: "ds_builder \<Rightarrow> env_value prio_map \<Rightarrow> env_value prio_map" where
  "addReadOnlyEnv b m =
     (if IsReadOnlyFSSupported (bd_oa b) then addDefaultValue ''ONEAGENT_READ_ONLY_MODE'' ''true'' m else m)"

definition addLogMonitoringEnv :: "ds_builder \<Rightarrow> env_value prio_map \<Rightarrow> env_value prio_map" where
  "addLogMonitoringEnv b m =
     (if lm_IsEnabled (dk_LogMonitoring (bdDk b)) then pm_AppendEnvs GetKubeletEnvs [] m else m)"

definition environmentVariables :: "ds_builder \<Rightarrow> error + env_var list" where
  "environmentVariables b =
     (let m1 = pm_AppendEnvs (hisEnv (bdHostInjectSpec b)) [WithPriority HighPriority]
                 (pm_New [WithPriority DefaultPriority]);
          m2 = addClusterIDEnv b (addNodeNameEnv m1);
          m3 = addOperatorVersionInfoEnv b (ds_addDeploymentMetadataEnv b m2);
          m4 = addReadOnlyEnv b (addConnectionInfoEnvs b m3);
          m5 = addLogMonitoringEnv b m4
      in case isProxyAsEnvVarDeprecated (oa_GetVersion (bd_oa b)) of
           Inl e \<Rightarrow> Inl e
         | Inr isProxyAsEnvDeprecated \<Rightarrow>
             Inr (AsEnvVars (if \<not> isProxyAsEnvDeprecated then addProxyEnv b m5 else m5)))"

definition appendInfraMonEnvVars :: "env_var list \<Rightarrow> env_var list" where
  "appendInfraMonEnvVars envs =
     AsEnvVars (addDefaultValue ''ONEAGENT_DISABLE_CONTAINER_INJECTION'' ''true'' (pm_AppendEnvs envs [] (pm_New [])))"

section \<open>Volumes (\<open>volumes.go\<close>)\<close>

abbreviation hostRootVolumeName :: string where "hostRootVolumeName \<equiv> ''host-root''"
abbreviation clusterCaCertVolumeName :: string where "clusterCaCertVolumeName \<equiv> ''dynatrace-cluster-ca''"
abbreviation activeGateCaCertVolumeName :: string where "activeGateCaCertVolumeName \<equiv> ''active-gate-ca''"
abbreviation csiStorageVolumeName :: string where "csiStorageVolumeName \<equiv> ''osagent-storage''"
abbreviation csiStorageVolumeMount :: string where "csiStorageVolumeMount \<equiv> ''/mnt/volume_storage_mount''"
abbreviation storageVolumeName :: string where "storageVolumeName \<equiv> ''volume-storage''"
abbreviation nodeMetadataVolumeName :: string where "nodeMetadataVolumeName \<equiv> ''dynatrace-operator''"
abbreviation nodeMetadataFilename :: string where "nodeMetadataFilename \<equiv> ''dt_node_metadata.properties''"
abbreviation nodeMetadataFolderPath :: string where "nodeMetadataFolderPath \<equiv> ''/var/lib/dynatrace/enrichment''"
abbreviation pgcSecretVolumeName :: string where "pgcSecretVolumeName \<equiv> ''bootstrapper-pgc''"
abbreviation TenantSecretVolumeName :: string where "TenantSecretVolumeName \<equiv> ''connection-info-secret''"
abbreviation TenantTokenKey :: string where "TenantTokenKey \<equiv> ''tenant-token''"
abbreviation ProxySecretVolumeName :: string where "ProxySecretVolumeName \<equiv> ''internal-proxy-secret-volume''"
abbreviation DeclarativeInputFileName :: string where "DeclarativeInputFileName \<equiv> ''declarative.cbor''"

definition nodeMetadataFilePath :: string where
  "nodeMetadataFilePath = path_Join [nodeMetadataFolderPath, nodeMetadataFilename]"

definition rw_mount :: "string \<Rightarrow> string \<Rightarrow> pod_mount" where
  "rw_mount name path = \<lparr>pmName = name, pmMountPath = path, pmSubPath = [], pmReadOnly = False\<rparr>"

definition getNodeMetadataVolumeMount :: pod_mount where
  "getNodeMetadataVolumeMount =
     \<lparr>pmName = nodeMetadataVolumeName, pmMountPath = nodeMetadataFilePath, pmSubPath = nodeMetadataFilename,
      pmReadOnly = True\<rparr>"

definition getClusterCaCertVolumeMount :: pod_mount where
  "getClusterCaCertVolumeMount = rw_mount clusterCaCertVolumeName ''/mnt/dynatrace/certs''"

definition getActiveGateCaCertVolumeMount :: pod_mount where
  "getActiveGateCaCertVolumeMount = rw_mount activeGateCaCertVolumeName ''/mnt/dynatrace/certs/activegate''"

definition getOneAgentSecretVolumeMount :: pod_mount where
  "getOneAgentSecretVolumeMount =
     \<lparr>pmName = TenantSecretVolumeName, pmMountPath = ''/var/lib/dynatrace/secrets/tokens/tenant-token'',
      pmSubPath = TenantTokenKey, pmReadOnly = True\<rparr>"

definition getRootMount :: pod_mount where
  "getRootMount = rw_mount hostRootVolumeName ''/mnt/root''"

definition getReadOnlyRootMount :: pod_mount where
  "getReadOnlyRootMount = getRootMount\<lparr>pmReadOnly := True\<rparr>"

definition getCSIStorageMount :: pod_mount where
  "getCSIStorageMount = rw_mount csiStorageVolumeName csiStorageVolumeMount"

text \<open>An unknown tenant is ignored: it is the empty sub-path.\<close>

definition getStorageVolumeMount :: "dynakube \<Rightarrow> pod_mount" where
  "getStorageVolumeMount dk =
     (rw_mount storageVolumeName csiStorageVolumeMount)
       \<lparr>pmSubPath := (case dk_TenantUUID dk of Inl _ \<Rightarrow> [] | Inr tenant \<Rightarrow> tenant)\<rparr>"

definition proxy_BuildVolumeMount :: pod_mount where
  "proxy_BuildVolumeMount = rw_mount ProxySecretVolumeName ''/var/lib/dynatrace/secrets/internal-proxy''"

definition getPGCSecretFileMount :: pod_mount where
  "getPGCSecretFileMount =
     \<lparr>pmName = pgcSecretVolumeName,
      pmMountPath = csiStorageVolumeMount @ ''/opt/agent/conf/'' @ DeclarativeInputFileName,
      pmSubPath = DeclarativeInputFileName, pmReadOnly = True\<rparr>"

definition prepareVolumeMounts :: "ds_env \<Rightarrow> dynakube \<Rightarrow> string \<Rightarrow> pod_mount list" where
  "prepareVolumeMounts env dk processGroupConfigHash =
     [getOneAgentSecretVolumeMount, getNodeMetadataVolumeMount] @
     (if IsReadOnlyFSSupported (dk_OneAgent dk) then
        getReadOnlyRootMount # (if deCSIAvailable env then [getCSIStorageMount] else [getStorageVolumeMount dk])
      else [getRootMount]) @
     (if dspTrustedCAs (dkSpec dk) \<noteq> '''' then [getClusterCaCertVolumeMount] else []) @
     (if ag_HasCaCert (dk_ActiveGate dk) then [getActiveGateCaCertVolumeMount] else []) @
     (if dk_NeedsOneAgentProxy dk then [proxy_BuildVolumeMount] else []) @
     (if NeedsPGC dk \<and> processGroupConfigHash \<noteq> '''' then [getPGCSecretFileMount] else [])"

text \<open>File mode \<open>0o444\<close>.\<close>

abbreviation globalReadFilePerm :: int where "globalReadFilePerm \<equiv> 292"

definition getNodeMetadataVolume :: manifest_volume where
  "getNodeMetadataVolume = \<lparr>mvName = nodeMetadataVolumeName, mvSource = EmptyDirVolume\<rparr>"

definition getCertificateVolume :: "dynakube \<Rightarrow> manifest_volume" where
  "getCertificateVolume dk =
     \<lparr>mvName = clusterCaCertVolumeName,
      mvSource = ConfigMapVolume (dspTrustedCAs (dkSpec dk)) [(''certs'', ''certs.pem'')]\<rparr>"

definition getCSIStorageVolume :: "dynakube \<Rightarrow> manifest_volume" where
  "getCSIStorageVolume dk =
     \<lparr>mvName = csiStorageVolumeName,
      mvSource = CSIVolume CSIDriverName [(''mode'', ''host''), (''dynakube'', dkName dk)]\<rparr>"

definition getStorageVolume :: "dynakube \<Rightarrow> manifest_volume" where
  "getStorageVolume dk =
     \<lparr>mvName = storageVolumeName,
      mvSource = HostPathVolume (oa_GetHostPath (dk_OneAgent dk)) (Some ''DirectoryOrCreate'')\<rparr>"

text \<open>\<open>dk.Spec.ActiveGate\<close> is what \<open>dk.ActiveGate()\<close> points to, with the fields that call has set.\<close>

definition getActiveGateCaCertVolume :: "dynakube \<Rightarrow> manifest_volume" where
  "getActiveGateCaCertVolume dk =
     \<lparr>mvName = activeGateCaCertVolumeName,
      mvSource = SecretVolume (ag_GetTLSSecretName (dk_ActiveGate dk)) (Some globalReadFilePerm)
                   [(''server.crt'', ''custom.pem'')]\<rparr>"

definition buildHTTPProxyVolume :: "dynakube \<Rightarrow> manifest_volume" where
  "buildHTTPProxyVolume dk =
     \<lparr>mvName = ProxySecretVolumeName,
      mvSource = SecretVolume (proxy_BuildSecretName (dkName dk)) (Some globalReadFilePerm) []\<rparr>"

definition getOneAgentSecretVolume :: "dynakube \<Rightarrow> manifest_volume" where
  "getOneAgentSecretVolume dk =
     \<lparr>mvName = TenantSecretVolumeName,
      mvSource = SecretVolume (oa_GetTenantSecret (dk_OneAgent dk)) (Some globalReadFilePerm) []\<rparr>"

definition getRootVolume :: manifest_volume where
  "getRootVolume = \<lparr>mvName = hostRootVolumeName, mvSource = HostPathVolume ''/'' None\<rparr>"

definition getPGCSecretVolume :: "dynakube \<Rightarrow> manifest_volume" where
  "getPGCSecretVolume dk =
     \<lparr>mvName = pgcSecretVolumeName,
      mvSource = SecretVolume (GetSourceConfigSecretName (dkName dk)) None
                   [(DeclarativeInputFileName, DeclarativeInputFileName)]\<rparr>"

definition prepareVolumes :: "ds_env \<Rightarrow> dynakube \<Rightarrow> string \<Rightarrow> manifest_volume list" where
  "prepareVolumes env dk processGroupConfigHash =
     [getRootVolume, getNodeMetadataVolume, getOneAgentSecretVolume dk] @
     (if IsReadOnlyFSSupported (dk_OneAgent dk) then
        (if deCSIAvailable env then [getCSIStorageVolume dk] else [getStorageVolume dk])
      else []) @
     (if NeedsPGC dk \<and> processGroupConfigHash \<noteq> '''' then [getPGCSecretVolume dk] else []) @
     (if dspTrustedCAs (dkSpec dk) \<noteq> '''' then [getCertificateVolume dk] else []) @
     (if ag_HasCaCert (dk_ActiveGate dk) then [getActiveGateCaCertVolume dk] else []) @
     (if dk_NeedsOneAgentProxy dk then [buildHTTPProxyVolume dk] else [])"

section \<open>Containers\<close>

abbreviation ds_containerName :: string where "ds_containerName \<equiv> ''dynatrace-oneagent''"
abbreviation ds_initContainerName :: string where "ds_initContainerName \<equiv> ''dynatrace-operator''"
abbreviation userGroupID :: int where "userGroupID \<equiv> 1000"

text \<open>
  The default CPU request is written into the map of requests when there is one; the spec in memory is
  the only other reader of it.
\<close>

definition ds_resources :: "ds_builder \<Rightarrow> resource_requirements" where
  "ds_resources b =
     (let resources = hisOneAgentResources (bdHostInjectSpec b);
          requests = (case rrRequests resources of None \<Rightarrow> Map.empty | Some r \<Rightarrow> r)
      in resources\<lparr>rrRequests := Some (if requests ''cpu'' = None then requests(''cpu'' \<mapsto> ''100m'') else requests)\<rparr>)"

definition initContainerArguments :: "(smap \<Rightarrow> string list) \<Rightarrow> ds_builder \<Rightarrow> string list" where
  "initContainerArguments sortedKeys b =
     (let st = dkStatus (bdDk b);
          resourceAttrs = oa_GetResourceAttributes (bd_oa b);
          attributes =
            [''k8s.cluster.name='' @ dstKubernetesClusterName st, ''k8s.cluster.uid='' @ dstKubeSystemUUID st,
             ''k8s.node.name=$(DT_K8S_NODE_NAME)''] @
            (if dstKubernetesClusterMEID st \<noteq> ''''
             then [''dt.entity.kubernetes_cluster='' @ dstKubernetesClusterMEID st] else []) @
            map (\<lambda>k. k @ ''='' @ (case resourceAttrs k of None \<Rightarrow> [] | Some v \<Rightarrow> v)) (sortedKeys resourceAttrs)
      in CommandLineArgs
           [''generate-metadata'', ''--file'', nodeMetadataFilePath, ''--attributes'', join_sep '','' attributes])"

definition initContainerSecurityContext :: manifest_security where
  "initContainerSecurityContext =
     no_security\<lparr>msPrivileged := Some False, msAllowPrivilegeEscalation := Some False,
       msRunAsNonRoot := Some True, msRunAsUser := Some userGroupID, msRunAsGroup := Some userGroupID,
       msCapabilities := Some ([], [''ALL'']), msSeccompProfile := Some SeccompRuntimeDefault,
       msReadOnlyRootFilesystem := Some True\<rparr>"

definition initContainerSpec :: "ds_env \<Rightarrow> ds_builder \<Rightarrow> manifest_container" where
  "initContainerSpec env b =
     \<lparr>mcName = ds_initContainerName, mcImage = deOperatorImage env,
      mcImagePullPolicy = oa_GetImagePullPolicy (bd_oa b),
      mcArgs = initContainerArguments (deSortedKeys env) b,
      mcEnv = [env_field ''DT_K8S_NODE_NAME'' ''spec.nodeName''], mcResources = ds_resources b,
      mcVolumeMounts = [rw_mount nodeMetadataVolumeName nodeMetadataFolderPath],
      mcSecurityContext = Some initContainerSecurityContext, mcReadinessProbe = None, mcLivenessProbe = None\<rparr>"

definition setNonRoot :: "manifest_security \<Rightarrow> manifest_security" where
  "setNonRoot sc =
     sc\<lparr>msRunAsNonRoot := Some True, msRunAsUser := Some userGroupID, msRunAsGroup := Some userGroupID\<rparr>"

definition defaultSecurityContextCapabilities :: "string list \<times> string list" where
  "defaultSecurityContextCapabilities =
     ([''CHOWN'', ''DAC_OVERRIDE'', ''DAC_READ_SEARCH'', ''FOWNER'', ''FSETID'', ''KILL'', ''NET_ADMIN'', ''NET_RAW'',
       ''SETFCAP'', ''SETGID'', ''SETUID'', ''SYS_ADMIN'', ''SYS_CHROOT'', ''SYS_PTRACE'', ''SYS_RESOURCE''],
      [''ALL''])"

text \<open>A version that does not convert counts as supported.\<close>

definition isRootFsReadonly :: "ds_env \<Rightarrow> ds_builder \<Rightarrow> bool" where
  "isRootFsReadonly env b =
     (let agentVersion = oa_GetVersion (bd_oa b)
      in if IsReadOnlyFSSupported (bd_oa b) \<and> agentVersion \<noteq> '''' \<and> agentVersion \<noteq> CustomImageVersionSource then
           (case ToSemver (deCanonical env) (deValid env) agentVersion of
              Inl _ \<Rightarrow> True
            | Inr agentSemver \<Rightarrow> deCompare env ''v1.291'' agentSemver \<noteq> 1)
         else True)"

definition appArmorAnnotation :: string where
  "appArmorAnnotation = AppArmorKeyPrefix @ ds_containerName"

definition ds_securityContext :: "ds_env \<Rightarrow> ds_builder \<Rightarrow> manifest_security" where
  "ds_securityContext env b =
     (let sc1 =
            (if IsReadOnlyFSSupported (bd_oa b)
             then (setNonRoot no_security)\<lparr>msReadOnlyRootFilesystem := Some (isRootFsReadonly env b)\<rparr>
             else (if IsClassicOneAgentNonRoot (dk_FF (bdDk b)) then setNonRoot no_security else no_security)
                    \<lparr>msReadOnlyRootFilesystem := Some False\<rparr>);
          sc2 =
            (if oa_IsPrivilegedNeeded (bd_oa b) then sc1\<lparr>msPrivileged := Some True\<rparr>
             else
               (let sc = sc1\<lparr>msCapabilities := Some defaultSecurityContextCapabilities\<rparr>;
                    secompName = oa_GetSecCompProfile (bd_oa b)
                in if secompName \<noteq> '''' then sc\<lparr>msSeccompProfile := Some (SeccompLocalhost secompName)\<rparr> else sc));
          annotations = MergeMap [[appArmorAnnotation \<mapsto> ''unconfined''], hisAnnotations (bdHostInjectSpec b)]
      in sc2\<lparr>msAppArmorProfile := GetAppArmorProfile (deMinor env) annotations ds_containerName\<rparr>)"

text \<open>Durations are nanoseconds; the conversion to 32 bits is that of \<open>int32\<close>.\<close>

definition probe_seconds :: "int \<Rightarrow> 32 word" where
  "probe_seconds duration = word_of_int (duration sdiv second)"

definition getDefaultProbeFromStatus :: "health_config \<Rightarrow> manifest_probe" where
  "getDefaultProbeFromStatus hc =
     \<lparr>mpCommand = hcTest hc, mpInitialDelaySeconds = probe_seconds (hcStartPeriod hc),
      mpPeriodSeconds = probe_seconds (hcInterval hc), mpTimeoutSeconds = probe_seconds (hcTimeout hc),
      mpFailureThreshold = word_of_int (hcRetries hc), mpSuccessThreshold = 1\<rparr>"

definition getReadinessProbe :: "health_config \<Rightarrow> manifest_probe" where
  "getReadinessProbe hc =
     (let defaultProbe = getDefaultProbeFromStatus hc
      in if 90 <s mpInitialDelaySeconds defaultProbe then defaultProbe\<lparr>mpInitialDelaySeconds := 90\<rparr>
         else defaultProbe)"

section \<open>Pod and daemon set\<close>

definition ds_affinity :: "ds_builder \<Rightarrow> (string \<times> string list) list" where
  "ds_affinity b =
     (let source = vsSource (osVersionStatus (dstOneAgent (dkStatus (bdDk b))))
      in if source = TenantRegistryVersionSource \<or> source = CustomVersionVersionSource
         then NewAMDOnlyNodeAffinity else NewMultiArchNodeAffinity)"

definition ds_dnsPolicy :: "ds_builder \<Rightarrow> string" where
  "ds_dnsPolicy b =
     (if hisDNSPolicy (bdHostInjectSpec b) \<noteq> '''' then hisDNSPolicy (bdHostInjectSpec b)
      else ''ClusterFirstWithHostNet'')"

definition ds_podSpec :: "ds_env \<Rightarrow> ds_builder \<Rightarrow> error + manifest_pod" where
  "ds_podSpec env b =
     (case ds_arguments env b of
        Inl e \<Rightarrow> Inl e
      | Inr args \<Rightarrow>
          (case environmentVariables b of
             Inl e \<Rightarrow> Inl e
           | Inr envs \<Rightarrow>
               let oa = bd_oa b; health = osHealthcheck (oaStatus oa);
                   main = \<lparr>mcName = ds_containerName, mcImage = oa_GetImage oa,
                     mcImagePullPolicy = oa_GetImagePullPolicy oa, mcArgs = args, mcEnv = envs,
                     mcResources = ds_resources b,
                     mcVolumeMounts = prepareVolumeMounts env (bdDk b) (bdProcessGroupConfigHash b),
                     mcSecurityContext = Some (ds_securityContext env b),
                     mcReadinessProbe = (if IsReadinessProbeNeeded oa then map_option getReadinessProbe health else None),
                     mcLivenessProbe =
                       (if IsLivenessProbeNeeded oa then map_option getDefaultProbeFromStatus health else None)\<rparr>
               in Inr \<lparr>mpInitContainers = [initContainerSpec env b], mpContainers = [main],
                       mpImagePullSecrets = dk_ImagePullSecretReferences (deHelmPullSecret env) (bdDk b),
                       mpHostNetwork = True, mpHostPID = True, mpFSGroup = Some userGroupID,
                       mpNodeSelector = hisNodeSelector (bdHostInjectSpec b),
                       mpPriorityClassName = hisPriorityClassName (bdHostInjectSpec b),
                       mpServiceAccountName = ''dynatrace-dynakube-oneagent'',
                       mpTolerations = hisTolerations (bdHostInjectSpec b), mpDNSPolicy = ds_dnsPolicy b,
                       mpVolumes = prepareVolumes env (bdDk b) (bdProcessGroupConfigHash b),
                       mpAffinity = ds_affinity b, mpTerminationGracePeriodSeconds = Some 80\<rparr>))"

definition ds_updateStrategy :: "ds_builder \<Rightarrow> rolling_update" where
  "ds_updateStrategy b =
     (case hisRollingUpdate (bdHostInjectSpec b) of
        None \<Rightarrow> MaxUnavailable (GetOneAgentMaxUnavailable (dk_FF (bdDk b)))
      | Some r \<Rightarrow> GivenRollingUpdate r)"

definition ds_templateAnnotations :: "ds_env \<Rightarrow> ds_builder \<Rightarrow> smap" where
  "ds_templateAnnotations env b =
     (let annotations =
            [appArmorAnnotation \<mapsto> ''unconfined'', ''dynatrace.com/inject'' \<mapsto> ''false'',
             ''internal.operator.dynatrace.com/tenant-token-hash'' \<mapsto>
               ciTenantTokenHash (osConnectionInfo (dstOneAgent (dkStatus (bdDk b)))),
             ''cluster-autoscaler.kubernetes.io/enable-ds-eviction'' \<mapsto> ''false''];
          annotations1 =
            (if NeedsPGC (bdDk b) \<and> bdProcessGroupConfigHash b \<noteq> ''''
             then annotations(''internal.operator.dynatrace.com/pgc-hash'' \<mapsto> bdProcessGroupConfigHash b)
             else annotations)
      in RemoveAppArmorAnnotation (deMinor env)
           (MergeMap [annotations1, hisAnnotations (bdHostInjectSpec b)])
           [ds_containerName, ds_initContainerName])"

definition builder_BuildDaemonSet :: "ds_env \<Rightarrow> ds_builder \<Rightarrow> error + daemon_set_manifest" where
  "builder_BuildDaemonSet env b =
     (case ds_podSpec env b of
        Inl e \<Rightarrow> Inl e
      | Inr podSpec \<Rightarrow>
          let dk = bdDk b;
              appLabels = NewAppLabels ''oneagent'' (dkName dk) (bdDeploymentType b) (oa_GetVersion (bd_oa b));
              labels = MergeMap [app_BuildLabels appLabels, hisLabels (bdHostInjectSpec b)]
          in Inr \<lparr>dmfName = dkName dk, dmfNamespace = dkNamespace dk, dmfLabels = labels,
                  dmfAnnotations = Map.empty, dmfMatchLabels = app_BuildMatchLabels appLabels,
                  dmfTemplateLabels = labels, dmfTemplateAnnotations = ds_templateAnnotations env b,
                  dmfPod = podSpec, dmfRollingUpdate = ds_updateStrategy b\<rparr>)"

definition infra_mon_pod :: "manifest_pod \<Rightarrow> manifest_pod" where
  "infra_mon_pod p =
     (case mpContainers p of
        [] \<Rightarrow> p
      | c # cs \<Rightarrow> p\<lparr>mpContainers := c\<lparr>mcEnv := appendInfraMonEnvVars (mcEnv c)\<rparr> # cs\<rparr>)"

definition BuildDaemonSet :: "ds_env \<Rightarrow> ds_builder \<Rightarrow> error + daemon_set_manifest" where
  "BuildDaemonSet env b =
     (case builder_BuildDaemonSet env b of
        Inl e \<Rightarrow> Inl e
      | Inr ds \<Rightarrow>
          let ds1 = ds\<lparr>dmfName := oa_GetDaemonsetName (bd_oa b)\<rparr>
          in Inr (if bdHostMonitoring b then ds1\<lparr>dmfPod := infra_mon_pod (dmfPod ds1)\<rparr> else ds1))"

end
