(* ===== verification/OneAgentArgs.thy ===== *)
theory OneAgentArgs
  imports OneAgentDaemonSet
begin

text \<open>
  What the arguments of the OneAgent are: which of the values given for an option by the operator, by the
  spec's arguments and by the host group of the spec reaches the agent.
\<close>

section \<open>Candidates\<close>

text \<open>A candidate is an option with its value, the delimiter, and the priority it is added with.\<close>

record candidate =
  cdKey :: string
  cdValue :: string
  cdDelimiter :: string
  cdPriority :: int

definition repeatable :: "string \<Rightarrow> bool" where
  "repeatable key \<longleftrightarrow> key = ''--set-host-property'' \<or> key = ''--set-host-tag''"

definition candidate_entry :: "candidate \<Rightarrow> string pm_entry" where
  "candidate_entry c =
     \<lparr>enValue = CommandLineArg (cdValue c), enKey = cdKey c, enDelimiter = cdDelimiter c,
      enPriority = cdPriority c, enAllowDuplicates = repeatable (cdKey c)\<rparr>"

text \<open>What one addition does to the entries of its key.\<close>

definition entry_step :: "string pm_entry \<Rightarrow> string pm_entry list \<Rightarrow> string pm_entry list" where
  "entry_step e es =
     (if es = [] then [e]
      else if enAllowDuplicates e then (if list_ex (\<lambda>x. enValue x = enValue e) es then es else es @ [e])
      else if enPriority e > enPriority (hd es) then [e] else es)"

definition arg_map :: "string prio_map \<Rightarrow> bool" where
  "arg_map m \<longleftrightarrow>
     pmDefaultOptions m = pmDefaultOptions argument_map \<and> distinct (map fst (pmEntries m)) \<and>
     (\<forall>key es. map_of (pmEntries m) key = Some es \<longrightarrow> es \<noteq> [])"

definition add_candidate :: "candidate \<Rightarrow> string prio_map \<Rightarrow> string prio_map" where
  "add_candidate c m =
     m\<lparr>pmEntries := AList.update (cdKey c) (entry_step (candidate_entry c) (entries_of m (cdKey c))) (pmEntries m)\<rparr>"

definition plain_key :: "string \<Rightarrow> bool" where
  "plain_key key \<longleftrightarrow> key \<noteq> [] \<and> CHR ''='' \<notin> set key"

lemma arg_map_New [simp]: "arg_map argument_map"
  by (simp add: arg_map_def argument_map_def pm_New_def)

lemma entry_step_nonempty [simp]: "entry_step e es \<noteq> []"
  by (simp add: entry_step_def)

lemma arg_map_add: "arg_map m \<Longrightarrow> arg_map (add_candidate c m)"
  by (auto simp: arg_map_def add_candidate_def distinct_update update_conv')

lemma arg_map_fold: "arg_map m \<Longrightarrow> arg_map (fold add_candidate cs m)"
  by (induction cs arbitrary: m) (auto simp: arg_map_add)

lemma entries_add:
  "entries_of (add_candidate c m) key =
     (if key = cdKey c then entry_step (candidate_entry c) (entries_of m key) else entries_of m key)"
  by (simp add: entries_of_def add_candidate_def update_conv')

lemma keys_add: "fst ` set (pmEntries (add_candidate c m)) = insert (cdKey c) (fst ` set (pmEntries m))"
  by (simp add: add_candidate_def dom_map_of_conv_image_fst[symmetric] update_conv')

section \<open>Appending\<close>

lemma argument_options:
  assumes "arg_map m"
  shows "new_entry m key v opts =
           fold (\<lambda>opt a. opt a) opts
             \<lparr>enValue = CommandLineArg v, enKey = key, enDelimiter = ''='', enPriority = 1,
              enAllowDuplicates = repeatable key\<rparr>"
proof -
  have opts: "pmDefaultOptions m = [WithSeparator ''='', WithPriority 1, WithAvoidDuplicates,
      WithAllowDuplicatesFor ''--set-host-property'', WithAllowDuplicatesFor ''--set-host-tag'',
      WithSanitizeCommandLineArg]"
    using assms by (simp add: arg_map_def argument_map_def pm_New_def)
  show ?thesis
    by (simp add: new_entry_def opts WithSeparator_def WithPriority_def WithAvoidDuplicates_def
        WithAllowDuplicatesFor_def WithSanitizeCommandLineArg_def repeatable_def)
qed

lemma plain_cut: "plain_key key \<Longrightarrow> d = ''='' \<or> d = [] \<Longrightarrow> cut_suffix key d = key"
  by (cases key rule: rev_cases) (auto simp: cut_suffix_def has_suffix_def plain_key_def)

lemma append_candidate:
  assumes m: "arg_map m" and key: "plain_key key" and d: "d = ''='' \<or> d = []"
    and e: "new_entry m key v opts = candidate_entry \<lparr>cdKey = key, cdValue = v, cdDelimiter = d, cdPriority = p\<rparr>"
  shows "pm_Append key v opts m = add_candidate \<lparr>cdKey = key, cdValue = v, cdDelimiter = d, cdPriority = p\<rparr> m"
  using assms
  by (cases "map_of (pmEntries m) key")
    (auto simp: pm_Append_def plain_key_def plain_cut Let_def add_candidate_def entries_of_def entry_step_def
      candidate_entry_def update_triv arg_map_def)

abbreviation operator_arg :: "string \<Rightarrow> string \<Rightarrow> candidate" where
  "operator_arg key v \<equiv> \<lparr>cdKey = key, cdValue = v, cdDelimiter = ''='', cdPriority = 1\<rparr>"

lemma append_operator:
  assumes "arg_map m" and "plain_key key"
  shows "pm_Append key v [] m = add_candidate (operator_arg key v) m"
    and "pm_Append key v [WithPriority p] m =
           add_candidate \<lparr>cdKey = key, cdValue = v, cdDelimiter = ''='', cdPriority = p\<rparr> m"
  using assms by (auto intro!: append_candidate simp: argument_options candidate_entry_def WithPriority_def)

text \<open>The arguments of the spec: their options accumulate, the last separator counts.\<close>

fun user_args :: "string list \<Rightarrow> candidate list" where
  "user_args [] = []"
| "user_args (s # ss) =
     (let (key, delim, v) = ParseCommandLineArgument s
      in (if key \<noteq> [] then [\<lparr>cdKey = key, cdValue = v, cdDelimiter = delim, cdPriority = 2\<rparr>] else []) @ user_args ss)"

lemma cut_parts:
  assumes "cut c s = Some (a, b)"
  shows "s = a @ c # b" and "c \<notin> set a"
  using assms by (induction s arbitrary: a) (auto split: if_splits option.splits)

lemma cut_none: "cut c s = None \<Longrightarrow> c \<notin> set s"
  by (induction s) (auto split: if_splits option.splits)

lemma parse_plain:
  assumes "ParseCommandLineArgument s = (key, d, v)" and "key \<noteq> []"
  shows "plain_key key" and "d = ''='' \<or> d = []" and "d = [] \<Longrightarrow> v = []"
  using assms by (auto simp: ParseCommandLineArgument_def plain_key_def cut_parts cut_none split: option.splits)

definition ends_with_priority :: "string pm_option list \<Rightarrow> int \<Rightarrow> bool" where
  "ends_with_priority opts p \<longleftrightarrow>
     (\<forall>a. \<exists>d. fold (\<lambda>opt a. opt a) opts a = a\<lparr>enDelimiter := d, enPriority := p\<rparr>)"

lemma ends_with_separator:
  assumes "ends_with_priority opts p"
  shows "ends_with_priority (opts @ [WithSeparator d]) p"
    and "fold (\<lambda>opt a. opt a) (opts @ [WithSeparator d]) a = a\<lparr>enDelimiter := d, enPriority := p\<rparr>"
proof -
  have "fold (\<lambda>opt a. opt a) (opts @ [WithSeparator d]) a = a\<lparr>enDelimiter := d, enPriority := p\<rparr>" for a
  proof -
    obtain d' where "fold (\<lambda>opt a. opt a) opts a = a\<lparr>enDelimiter := d', enPriority := p\<rparr>"
      using assms by (auto simp: ends_with_priority_def)
    then show ?thesis by (simp add: WithSeparator_def)
  qed
  then show "ends_with_priority (opts @ [WithSeparator d]) p"
    and "fold (\<lambda>opt a. opt a) (opts @ [WithSeparator d]) a = a\<lparr>enDelimiter := d, enPriority := p\<rparr>"
    by (auto simp: ends_with_priority_def)
qed

lemma append_user:
  assumes "arg_map m" and "ends_with_priority opts 2"
  shows "append_args ss opts m = fold add_candidate (user_args ss) m"
  using assms
proof (induction ss arbitrary: m opts)
  case (Cons s ss)
  obtain key d v where parsed: "ParseCommandLineArgument s = (key, d, v)" by (metis prod_cases3)
  show ?case
  proof (cases "key = []")
    case False
    have "pm_Append key v (opts @ [WithSeparator d]) m =
        add_candidate \<lparr>cdKey = key, cdValue = v, cdDelimiter = d, cdPriority = 2\<rparr> m"
      using Cons.prems parse_plain[OF parsed False]
      by (intro append_candidate) (auto simp: argument_options candidate_entry_def ends_with_separator(2)
          simp del: fold_append)
    then show ?thesis using False Cons.prems parsed
      by (simp add: Cons.IH arg_map_add ends_with_separator(1))
  qed (use Cons parsed in simp)
qed simp

lemma append_spec_args:
  assumes "arg_map m"
  shows "pm_AppendArgs args [WithPriority 2] m = fold add_candidate (user_args (CommandLineArgs args)) m"
  unfolding pm_AppendArgs_def
proof (rule append_user[OF assms])
  have "a\<lparr>enPriority := 2\<rparr> = a\<lparr>enDelimiter := enDelimiter a, enPriority := 2\<rparr>" for a :: "string pm_entry" by simp
  then show "ends_with_priority [WithPriority 2] 2"
    unfolding ends_with_priority_def WithPriority_def by (simp only: fold_simps) blast
qed

section \<open>All candidates of a daemon set\<close>

definition operator_args :: "ds_env \<Rightarrow> ds_builder \<Rightarrow> candidate list" where
  "operator_args env b =
     (let dk = bdDk b; oa = dk_OneAgent dk
      in (if isProxyAsEnvVarDeprecated (oa_GetVersion oa) = Inr False \<or> \<not> dk_NeedsOneAgentProxy dk
          then (if hasProxy b then [operator_arg ''--set-proxy'' ''$(https_proxy)''] else []) @
               [operator_arg ''--set-proxy'' []] else []) @
         [operator_arg ''--set-no-proxy'' (noProxyValue env dk)] @
         (if dspNetworkZone (dkSpec dk) \<noteq> [] then [operator_arg ''--set-network-zone'' (dspNetworkZone (dkSpec dk))]
          else []) @
         [operator_arg ''--set-host-property'' ''OperatorVersion=$(DT_OPERATOR_VERSION)'',
          operator_arg ''--set-tenant'' ''$(DT_TENANT)'', operator_arg ''--set-server'' ''{$(DT_SERVER)}''] @
         (if IsClassicFullStackMode oa then [operator_arg ''--set-host-id-source'' ''auto'']
          else if IsHostMonitoringMode oa \<or> IsCloudNativeFullstackMode oa
          then [operator_arg ''--set-host-id-source'' ''k8s-node-name''] else []))"

definition host_group_args :: "ds_builder \<Rightarrow> candidate list" where
  "host_group_args b =
     (let hostGroup = HostGroup (dspOneAgent (dkSpec (bdDk b)))
      in if hostGroup \<noteq> []
         then [\<lparr>cdKey = ''--set-host-group'', cdValue = hostGroup, cdDelimiter = ''='', cdPriority = HighPriority\<rparr>]
         else [])"

definition spec_args :: "ds_builder \<Rightarrow> candidate list" where
  "spec_args b = user_args (CommandLineArgs (case hisArgs (bdHostInjectSpec b) of None \<Rightarrow> [] | Some args \<Rightarrow> args))"

definition candidates :: "ds_env \<Rightarrow> ds_builder \<Rightarrow> candidate list" where
  "candidates env b = operator_args env b @ spec_args b @ host_group_args b"

definition add_all :: "candidate list \<Rightarrow> string prio_map \<Rightarrow> string prio_map" where
  "add_all cs = fold add_candidate cs"

lemma add_all_append: "add_all cs' (add_all cs m) = add_all (cs @ cs') m"
  by (simp add: add_all_def)

lemma arg_map_add_all [simp]: "arg_map m \<Longrightarrow> arg_map (add_all cs m)"
  by (simp add: add_all_def arg_map_fold)

lemma append_operator_all:
  assumes "arg_map m" and "plain_key key"
  shows "pm_Append key v [] m = add_all [operator_arg key v] m"
  using append_operator(1)[OF assms] by (simp add: add_all_def)

lemma append_host_group:
  assumes "arg_map m"
  shows "appendHostGroupArg b m = add_all (host_group_args b) m"
  using append_operator(2)[OF assms, of "''--set-host-group''"]
  by (simp add: appendHostGroupArg_def host_group_args_def add_all_def plain_key_def Let_def)

lemma append_host_inject:
  assumes "arg_map m"
  shows "appendHostInjectArgs b m = add_all (spec_args b) m"
  using append_spec_args[OF assms] by (simp add: appendHostInjectArgs_def spec_args_def add_all_def)

lemma plain_keys [simp]:
  "plain_key ''--set-proxy''" "plain_key ''--set-no-proxy''" "plain_key ''--set-network-zone''"
  "plain_key ''--set-host-property''" "plain_key ''--set-tenant''" "plain_key ''--set-server''"
  "plain_key ''--set-host-id-source''" "plain_key ''--set-host-group''"
  by (simp_all add: plain_key_def)

lemma append_proxy:
  assumes "arg_map m"
  shows "appendProxyArg b m =
           add_all ((if hasProxy b then [operator_arg ''--set-proxy'' ''$(https_proxy)''] else []) @
                    [operator_arg ''--set-proxy'' []]) m"
  using assms by (simp add: appendProxyArg_def append_operator_all add_all_append Let_def)

lemma append_zone:
  assumes "arg_map m"
  shows "appendNetworkZoneArg b m =
           add_all (if dspNetworkZone (dkSpec (bdDk b)) \<noteq> []
                    then [operator_arg ''--set-network-zone'' (dspNetworkZone (dkSpec (bdDk b)))] else []) m"
  using assms by (simp add: appendNetworkZoneArg_def append_operator_all add_all_def)

lemma append_source:
  assumes "arg_map m"
  shows "appendHostIDSourceArg oa m =
           add_all (if IsClassicFullStackMode oa then [operator_arg ''--set-host-id-source'' ''auto'']
                    else if IsHostMonitoringMode oa \<or> IsCloudNativeFullstackMode oa
                    then [operator_arg ''--set-host-id-source'' ''k8s-node-name''] else []) m"
  using assms by (simp add: appendHostIDSourceArg_def append_operator_all add_all_def)

lemma append_fixed:
  assumes "arg_map m"
  shows "appendImmutableImageArgs (appendOperatorVersionArg m) =
           add_all [operator_arg ''--set-host-property'' ''OperatorVersion=$(DT_OPERATOR_VERSION)'',
             operator_arg ''--set-tenant'' ''$(DT_TENANT)'', operator_arg ''--set-server'' ''{$(DT_SERVER)}''] m"
  using assms
  by (simp add: appendImmutableImageArgs_def appendOperatorVersionArg_def append_operator_all add_all_append)

lemma append_no_proxy:
  assumes "arg_map m"
  shows "appendNoProxyArg env b m = add_all [operator_arg ''--set-no-proxy'' (noProxyValue env (bdDk b))] m"
  using assms by (simp add: appendNoProxyArg_def append_operator_all)

lemma arguments_built:
  assumes "ds_arguments env b = Inr args"
  shows "args = AsKeyValueStrings (add_all (candidates env b) argument_map)"
proof -
  obtain d where d: "isProxyAsEnvVarDeprecated (oa_GetVersion (bd_oa b)) = Inr d"
    using assms by (auto simp: ds_arguments_def split: sum.splits)
  have first: "(if \<not> d \<or> \<not> dk_NeedsOneAgentProxy (bdDk b) then appendProxyArg b argument_map else argument_map) =
      add_all (if \<not> d \<or> \<not> dk_NeedsOneAgentProxy (bdDk b)
        then (if hasProxy b then [operator_arg ''--set-proxy'' ''$(https_proxy)''] else []) @
          [operator_arg ''--set-proxy'' []] else []) argument_map"
    by (simp add: append_proxy) (simp add: add_all_def)
  show ?thesis
    using assms
    unfolding ds_arguments_def d sum.case Let_def first
    by (simp add: append_no_proxy append_zone append_fixed append_source append_host_inject append_host_group
        add_all_append candidates_def operator_args_def d Let_def)
qed

section \<open>Reading\<close>

text \<open>The entries of an option after all additions, and the candidate that wins.\<close>

definition of_key :: "string \<Rightarrow> candidate list \<Rightarrow> candidate list" where
  "of_key key cs = filter (\<lambda>c. cdKey c = key) cs"

definition winner :: "candidate list \<Rightarrow> candidate list" where
  "winner cs =
     (if cs = [] then [] else [hd (filter (\<lambda>c. cdPriority c = Max (cdPriority ` set cs)) cs)])"

lemma entries_all:
  "entries_of (add_all cs m) key = fold entry_step (map candidate_entry (of_key key cs)) (entries_of m key)"
  by (induction cs arbitrary: m) (simp_all add: add_all_def of_key_def entries_add)

lemma entries_New [simp]: "entries_of argument_map key = []"
  by (simp add: entries_of_def argument_map_def pm_New_def)

lemma winner_snoc:
  "winner (cs @ [c]) = (if cs = [] then [c] else if cdPriority c > cdPriority (hd (winner cs)) then [c] else winner cs)"
proof (cases "cs = []")
  case False
  let ?M = "Max (cdPriority ` set cs)"
  have "?M \<in> cdPriority ` set cs" using False by (intro Max_in) auto
  then have nonempty: "filter (\<lambda>c. cdPriority c = ?M) cs \<noteq> []" by (auto simp: filter_empty_conv)
  have w: "winner cs = [hd (filter (\<lambda>c. cdPriority c = ?M) cs)]" using False by (simp add: winner_def)
  have wp: "cdPriority (hd (winner cs)) = ?M"
    using hd_in_set[OF nonempty] by (simp add: w)
  have M: "Max (cdPriority ` set (cs @ [c])) = max (cdPriority c) ?M" using False by simp
  have none: "filter (\<lambda>x. cdPriority x = cdPriority c) cs = []" if "cdPriority c > ?M"
  proof -
    have "cdPriority x \<noteq> cdPriority c" if "x \<in> set cs" for x
    proof -
      have "cdPriority x \<le> ?M" using that by (intro Max_ge) auto
      with \<open>cdPriority c > ?M\<close> show ?thesis by linarith
    qed
    then show ?thesis by (simp add: filter_empty_conv)
  qed
  have "winner (cs @ [c]) = [hd (filter (\<lambda>x. cdPriority x = max (cdPriority c) ?M) (cs @ [c]))]"
    by (simp only: winner_def M) simp
  note snoc = this
  show ?thesis
  proof (cases "cdPriority c > ?M")
    case True
    then have "winner (cs @ [c]) = [c]" unfolding snoc by (simp add: none max_absorb1 del: Max_less_iff)
    with True False wp show ?thesis by (simp del: Max_less_iff)
  next
    case le: False
    then have "hd (filter (\<lambda>x. cdPriority x = ?M) (cs @ [c])) = hd (filter (\<lambda>x. cdPriority x = ?M) cs)"
      using nonempty by (simp add: hd_append)
    with le have "winner (cs @ [c]) = winner cs" unfolding snoc w by (simp only: not_less max_absorb2)
    with le False wp show ?thesis by (simp del: Max_less_iff)
  qed
qed (simp add: winner_def)

lemma winner_nonempty: "cs \<noteq> [] \<Longrightarrow> \<exists>c. winner cs = [c]"
  by (simp add: winner_def)

lemma entries_winner:
  assumes "\<forall>c \<in> set cs. \<not> repeatable (cdKey c)"
  shows "fold entry_step (map candidate_entry cs) [] = map candidate_entry (winner cs)"
  using assms
proof (induction cs rule: rev_induct)
  case (snoc c cs)
  then show ?case
    using winner_nonempty[of cs]
    by (cases "cs = []")
      (auto simp: winner_snoc winner_snoc[of "[]", simplified] entry_step_def candidate_entry_def winner_def[of "[]"])
qed (simp add: winner_def)

text \<open>The first candidate of every value, as the value is passed on.\<close>

definition passed :: "candidate \<Rightarrow> string" where
  "passed c = CommandLineArg (cdValue c)"

fun distinct_values :: "candidate list \<Rightarrow> candidate list" where
  "distinct_values [] = []"
| "distinct_values (c # cs) = c # filter (\<lambda>d. passed d \<noteq> passed c) (distinct_values cs)"

lemma passed_distinct_values: "passed ` set (distinct_values cs) = passed ` set cs"
proof (induction cs)
  case (Cons c cs)
  have "passed ` set (filter (\<lambda>d. passed d \<noteq> passed c) (distinct_values cs)) =
      passed ` set (distinct_values cs) - {passed c}" by auto
  with Cons show ?case by auto
qed simp

lemma distinct_values_snoc:
  "distinct_values (cs @ [c]) = distinct_values cs @ (if passed c \<in> passed ` set cs then [] else [c])"
  by (induction cs) auto

lemma entries_repeated:
  assumes "\<forall>c \<in> set cs. repeatable (cdKey c)"
  shows "fold entry_step (map candidate_entry cs) [] = map candidate_entry (distinct_values cs)"
  using assms
proof (induction cs rule: rev_induct)
  case (snoc c cs)
  let ?e = "candidate_entry c" and ?D = "map candidate_entry (distinct_values cs)"
  have "enAllowDuplicates ?e" using snoc.prems by (simp add: candidate_entry_def)
  then have step: "entry_step ?e ?D = (if distinct_values cs = [] then [?e] else
      if list_ex (\<lambda>x. enValue x = enValue ?e) ?D then ?D else ?D @ [?e])" by (simp add: entry_step_def)
  have "fold entry_step (map candidate_entry (cs @ [c])) [] = entry_step ?e ?D" using snoc by simp
  moreover have "list_ex (\<lambda>x. enValue x = enValue (candidate_entry c)) (map candidate_entry (distinct_values cs)) \<longleftrightarrow>
      passed c \<in> passed ` set (distinct_values cs)"
    unfolding list_ex_iff candidate_entry_def passed_def by (auto intro: rev_image_eqI)
  moreover have "distinct_values cs = [] \<longleftrightarrow> cs = []" by (cases cs) simp_all
  ultimately show ?case
    unfolding step passed_distinct_values distinct_values_snoc by simp
qed simp

lemma insort_key_map: "insort_key f (g x) (map g xs) = map g (insort_key (f \<circ> g) x xs)"
  by (induction xs) simp_all

lemma sort_key_map: "sort_key f (map g xs) = map g (sort_key (f \<circ> g) xs)"
  by (induction xs) (simp_all add: insort_key_map comp_def)

lemma priority_of_entry: "enPriority \<circ> candidate_entry = cdPriority"
  by (simp add: fun_eq_iff candidate_entry_def)

lemma entries_from:
  "set (fold entry_step (map candidate_entry cs) es) \<subseteq> set es \<union> candidate_entry ` set cs"
  by (induction cs arbitrary: es) (fastforce simp: entry_step_def split: if_splits)+

definition argument_of :: "string pm_entry \<Rightarrow> string" where
  "argument_of e = enKey e @ enDelimiter e @ enValue e"

definition argument_key :: "string \<Rightarrow> string" where
  "argument_key s = fst (ParseCommandLineArgument s)"

definition well_formed :: "candidate \<Rightarrow> bool" where
  "well_formed c \<longleftrightarrow> plain_key (cdKey c) \<and> (cdDelimiter c = ''='' \<or> cdDelimiter c = [] \<and> cdValue c = [])"

lemma cut_free: "c \<notin> set a \<Longrightarrow> cut c (a @ c # b) = Some (a, b)"
  by (induction a) auto

lemma cut_absent: "c \<notin> set a \<Longrightarrow> cut c a = None"
  by (induction a) auto

lemma argument_key_of: "well_formed c \<Longrightarrow> argument_key (argument_of (candidate_entry c)) = cdKey c"
  by (auto simp: well_formed_def argument_key_def argument_of_def candidate_entry_def ParseCommandLineArgument_def
      plain_key_def cut_free cut_absent CommandLineArg_def)

text \<open>Every candidate has an option name that parses back.\<close>

lemma user_well_formed: "c \<in> set (user_args ss) \<Longrightarrow> well_formed c"
proof (induction ss)
  case (Cons s ss)
  obtain key d v where "ParseCommandLineArgument s = (key, d, v)" by (metis prod_cases3)
  with Cons parse_plain[of s key d v] show ?case by (auto simp: well_formed_def split: if_splits)
qed simp

lemma operator_well_formed: "\<forall>c \<in> set (operator_args env b). well_formed c"
  unfolding operator_args_def Let_def
  by (auto simp: well_formed_def split: if_splits)

lemma candidates_well_formed: "c \<in> set (candidates env b) \<Longrightarrow> well_formed c"
  using user_well_formed operator_well_formed[of env b]
  by (auto simp: candidates_def spec_args_def host_group_args_def well_formed_def Let_def split: if_splits)

lemma filter_block:
  assumes "\<And>k x. k \<in> set ks \<Longrightarrow> x \<in> set (f k) \<Longrightarrow> g x = k" and "distinct ks"
  shows "filter (\<lambda>x. g x = key) (concat (map f ks)) = (if key \<in> set ks then f key else [])"
  using assms
proof (induction ks)
  case (Cons k ks)
  have "filter (\<lambda>x. g x = key) (f k) = (if k = key then f k else [])"
    using Cons.prems(1)[of k] by (auto simp: filter_id_conv filter_empty_conv)
  with Cons show ?case by auto
qed simp

lemma keys_all: "set (map fst (pmEntries (add_all cs m))) = set (map fst (pmEntries m)) \<union> cdKey ` set cs"
  by (induction cs arbitrary: m) (auto simp: add_all_def keys_add)

lemma arguments_of_key:
  assumes "\<And>c. c \<in> set cs \<Longrightarrow> well_formed c"
  shows "filter (\<lambda>s. argument_key s = key) (AsKeyValueStrings (add_all cs argument_map)) =
           map argument_of (sort_key enPriority (fold entry_step (map candidate_entry (of_key key cs)) []))"
    (is "_ = map argument_of (sort_key enPriority (?E key))")
proof -
  let ?m = "add_all cs argument_map"
  have entries: "entries_of ?m k = ?E k" for k by (simp add: entries_all)
  have from_cs: "\<exists>c \<in> set cs. e = candidate_entry c \<and> cdKey c = k" if "e \<in> set (?E k)" for e k
    using that entries_from[of "of_key k cs" "[]"] by (auto simp: of_key_def)
  have "set (sorted_keys ?m) = cdKey ` set cs"
    using keys_all[of cs argument_map] by (simp add: sorted_keys_def argument_map_def pm_New_def)
  moreover have "?E k = []" if "k \<notin> cdKey ` set cs" for k
  proof -
    have "of_key k cs = []" using that by (auto simp: of_key_def filter_empty_conv)
    then show ?thesis by simp
  qed
  moreover have "distinct (sorted_keys ?m)"
    using arg_map_add_all[OF arg_map_New, of cs] by (simp add: sorted_keys_def arg_map_def distinct_sort_by)
  moreover have "AsKeyValueStrings ?m = concat (map (\<lambda>k. map argument_of (sort_key enPriority (?E k))) (sorted_keys ?m))"
  proof -
    have "k @ enDelimiter e @ enValue e = argument_of e" if e: "e \<in> set (?E k)" for k e
      using from_cs[OF e] by (auto simp: argument_of_def candidate_entry_def)
    then show ?thesis unfolding AsKeyValueStrings_def entries
      by (intro arg_cong[of _ _ concat] map_cong refl) simp
  qed
  moreover have "argument_key x = k" if "x \<in> set (map argument_of (sort_key enPriority (?E k)))" for x k
    using that from_cs assms argument_key_of by fastforce
  ultimately show ?thesis by (simp add: filter_block del: set_map)
qed

section \<open>Property\<close>

text \<open>C5. Which values of an option reach the agent, and in which order. An option other than host properties and
  tags is passed once: the first of its values of the highest priority, where the host group of the spec
  outranks the arguments of the spec and these outrank the operator's own. A host property or tag is passed
  once for each different value: first the values given with the lowest priority (the operator's own), then the
  spec's, those of equal priority in the order given. Values lose the characters a shell could interpret, and
  two values that differ only there are the same value.
\<close>

theorem oneagent_arguments:
  assumes "ds_arguments env b = Inr args"
  shows "(\<not> repeatable key \<longrightarrow>
            filter (\<lambda>s. argument_key s = key) args =
              map (argument_of \<circ> candidate_entry) (winner (of_key key (candidates env b)))) \<and>
         (repeatable key \<longrightarrow>
            filter (\<lambda>s. argument_key s = key) args =
              map (argument_of \<circ> candidate_entry)
                (sort_key cdPriority (distinct_values (of_key key (candidates env b)))))"
proof -
  let ?cs = "of_key key (candidates env b)" and ?E = "fold entry_step (map candidate_entry (of_key key (candidates env b))) []"
  have args: "filter (\<lambda>s. argument_key s = key) args = map argument_of (sort_key enPriority ?E)"
    unfolding arguments_built[OF assms] by (rule arguments_of_key) (rule candidates_well_formed)
  have "?E = map candidate_entry (winner ?cs)" if "\<not> repeatable key"
    using that by (intro entries_winner) (simp add: of_key_def)
  moreover have "length (winner ?cs) \<le> 1" by (simp add: winner_def)
  ultimately have "\<not> repeatable key \<longrightarrow>
      filter (\<lambda>s. argument_key s = key) args = map (argument_of \<circ> candidate_entry) (winner ?cs)"
    by (cases "winner ?cs") (auto simp: args)
  moreover have "?E = map candidate_entry (distinct_values ?cs)" if "repeatable key"
    using that by (intro entries_repeated) (simp add: of_key_def)
  then have "repeatable key \<longrightarrow> filter (\<lambda>s. argument_key s = key) args =
      map (argument_of \<circ> candidate_entry) (sort_key cdPriority (distinct_values ?cs))"
    by (simp add: args sort_key_map priority_of_entry)
  ultimately show ?thesis by simp
qed

section \<open>Witness\<close>

definition sample_ds_env :: ds_env where
  "sample_ds_env =
     \<lparr>deMinor = 32, deHelmPullSecret = [], deOperatorImage = ''operator'', deCSIAvailable = True,
      deCanonical = id, deValid = (\<lambda>_. True), deCompare = str_compare, deIsIPv6 = (\<lambda>_. False),
      deSortedKeys = (\<lambda>_. [])\<rparr>"

definition sample_builder :: "host_inject_spec \<Rightarrow> ds_builder" where
  "sample_builder h =
     \<lparr>bdDk = zero_dynakube, bdHostInjectSpec = h, bdClusterID = ''id'', bdDeploymentType = ''host_monitoring'',
      bdProcessGroupConfigHash = [], bdHostMonitoring = True\<rparr>"

lemma sample_arguments: "\<not> isl (ds_arguments sample_ds_env (sample_builder zero_host_inject))"
  by code_simp

abbreviation sample_given_builder :: ds_builder where
  "sample_given_builder \<equiv> sample_builder (zero_host_inject\<lparr>hisArgs := Some
     [''--set-host-tag=b'', ''--set-tenant=abc'', ''--set-host-property=x'', ''--set-host-tag=a'', ''--set-host-tag=b'']\<rparr>)"

lemma sample_of_key:
  "of_key ''--set-tenant'' (candidates sample_ds_env sample_given_builder) =
     [operator_arg ''--set-tenant'' ''$(DT_TENANT)'', \<lparr>cdKey = ''--set-tenant'', cdValue = ''abc'', cdDelimiter = ''='', cdPriority = 2\<rparr>]"
  "of_key ''--set-host-tag'' (candidates sample_ds_env sample_given_builder) =
     map (\<lambda>v. \<lparr>cdKey = ''--set-host-tag'', cdValue = v, cdDelimiter = ''='', cdPriority = 2\<rparr>) [''b'', ''a'', ''b'']"
  "of_key ''--set-host-property'' (candidates sample_ds_env sample_given_builder) =
     [operator_arg ''--set-host-property'' ''OperatorVersion=$(DT_OPERATOR_VERSION)'',
      \<lparr>cdKey = ''--set-host-property'', cdValue = ''x'', cdDelimiter = ''='', cdPriority = 2\<rparr>]"
  by code_simp+

lemma sample_candidates:
  "map (argument_of \<circ> candidate_entry) (winner (of_key ''--set-tenant'' (candidates sample_ds_env sample_given_builder))) =
   [''--set-tenant=abc'']"
  "map (argument_of \<circ> candidate_entry)
     (sort_key cdPriority (distinct_values (of_key ''--set-host-tag'' (candidates sample_ds_env sample_given_builder)))) =
   [''--set-host-tag=b'', ''--set-host-tag=a'']"
  "map (argument_of \<circ> candidate_entry)
     (sort_key cdPriority (distinct_values (of_key ''--set-host-property'' (candidates sample_ds_env sample_given_builder)))) =
   [''--set-host-property=OperatorVersion=$(DT_OPERATOR_VERSION)'', ''--set-host-property=x'']"
  unfolding sample_of_key by code_simp+

lemma sample_given_arguments: "\<exists>args. ds_arguments sample_ds_env sample_given_builder = Inr args"
proof -
  have "isProxyAsEnvVarDeprecated (oa_GetVersion (bd_oa sample_given_builder)) = Inr True" by code_simp
  then show ?thesis by (simp add: ds_arguments_def Let_def)
qed

theorem oneagent_arguments_witness:
  "\<exists>args. ds_arguments sample_ds_env sample_given_builder = Inr args \<and>
     filter (\<lambda>s. argument_key s = ''--set-tenant'') args = [''--set-tenant=abc''] \<and>
     filter (\<lambda>s. argument_key s = ''--set-host-tag'') args = [''--set-host-tag=b'', ''--set-host-tag=a''] \<and>
     filter (\<lambda>s. argument_key s = ''--set-host-property'') args =
       [''--set-host-property=OperatorVersion=$(DT_OPERATOR_VERSION)'', ''--set-host-property=x'']"
proof -
  obtain args where args: "ds_arguments sample_ds_env sample_given_builder = Inr args"
    using sample_given_arguments by blast
  have "\<not> repeatable ''--set-tenant''" "repeatable ''--set-host-tag''" "repeatable ''--set-host-property''"
    by (simp_all add: repeatable_def)
  then show ?thesis
    using args sample_candidates oneagent_arguments[OF args, of "''--set-tenant''"]
      oneagent_arguments[OF args, of "''--set-host-tag''"] oneagent_arguments[OF args, of "''--set-host-property''"]
    by simp
qed

end
