(* ===== verification/OneAgentLaws.thy ===== *)
theory OneAgentLaws
  imports OneAgentArgs
begin

text \<open>
  What holds of every daemon set the builder makes: its environment, its arguments, the consistency of
  mounts and volumes, and the labels its selector finds.
\<close>

section \<open>Environment\<close>

text \<open>The variables the operator sets, in the order it adds them.\<close>

definition proxy_env :: "ds_builder \<Rightarrow> env_var list" where
  "proxy_env b =
     (if isProxyAsEnvVarDeprecated (oa_GetVersion (bd_oa b)) = Inr False \<and> hasProxy b then
        (case dspProxy (dkSpec (bdDk b)) of
           None \<Rightarrow> []
         | Some proxy \<Rightarrow>
             if vsrcValueFrom proxy \<noteq> []
             then [\<lparr>evName = ''https_proxy'', evValue = [],
                    evValueFrom = Some (SecretKeyRef (vsrcValueFrom proxy) ''proxy'')\<rparr>]
             else [env_literal ''https_proxy'' (vsrcValue proxy)])
      else [])"

definition managed_env :: "ds_builder \<Rightarrow> env_var list" where
  "managed_env b =
     (let metadata = GetDeploymentMetadataConfigMapName (dkName (bdDk b));
          info = oa_GetConnectionInfoConfigMapName (bd_oa b);
          from_map = (\<lambda>name m key. \<lparr>evName = name, evValue = [], evValueFrom = Some (ConfigMapKeyRef m key)\<rparr>)
      in [env_field ''DT_K8S_NODE_NAME'' ''spec.nodeName'', env_literal ''DT_K8S_CLUSTER_ID'' (bdClusterID b),
          from_map ''DT_DEPLOYMENT_METADATA'' metadata ''oneagent'',
          from_map ''DT_OPERATOR_VERSION'' metadata ''operator'',
          from_map ''DT_TENANT'' info ''tenant-uuid'', from_map ''DT_SERVER'' info ''communication-endpoints''] @
         (if IsReadOnlyFSSupported (bd_oa b) then [env_literal ''ONEAGENT_READ_ONLY_MODE'' ''true''] else []) @
         (if lm_IsEnabled (dk_LogMonitoring (bdDk b)) then GetKubeletEnvs else []) @ proxy_env b)"

lemma append_envs:
  assumes "env_map m"
  shows "pm_AppendEnvs es [] m = fold env_add (map (\<lambda>e. (e, DefaultPriority)) es) m"
    and "pm_AppendEnvs es [WithPriority p] m = fold env_add (map (\<lambda>e. (e, p)) es) m"
  using assms
proof -
  have add: "pm_AppendEnv e [WithPriority p] m = env_add (e, p) m" for e m by (simp add: env_add_def)
  from assms show "pm_AppendEnvs es [] m = fold env_add (map (\<lambda>e. (e, DefaultPriority)) es) m"
    and "pm_AppendEnvs es [WithPriority p] m = fold env_add (map (\<lambda>e. (e, p)) es) m"
    by (induction es arbitrary: m) (simp_all add: pm_AppendEnvs_def env_add_default env_add_map add)
qed

lemma default_values:
  assumes "env_map m"
  shows "addDefaultValue n v m = env_add (env_literal n v, DefaultPriority) m"
    and "addDefaultValueSource n src m =
           env_add (\<lparr>evName = n, evValue = [], evValueFrom = Some src\<rparr>, DefaultPriority) m"
  using assms by (simp_all add: addDefaultValue_def addDefaultValueSource_def env_add_default)

text \<open>Adding the operator's variables, one after the other.\<close>

definition add_default :: "env_var list \<Rightarrow> env_value prio_map \<Rightarrow> env_value prio_map" where
  "add_default es = fold env_add (map (\<lambda>e. (e, DefaultPriority)) es)"

lemma add_default_append: "add_default es' (add_default es m) = add_default (es @ es') m"
  by (simp add: add_default_def)

lemma add_default_map [simp]: "env_map m \<Longrightarrow> env_map (add_default es m)"
  by (simp add: add_default_def env_adds)

lemma default_one:
  assumes "env_map m"
  shows "addDefaultValue n v m = add_default [env_literal n v] m"
    and "addDefaultValueSource n src m = add_default [\<lparr>evName = n, evValue = [], evValueFrom = Some src\<rparr>] m"
  using assms by (simp_all add: default_values add_default_def)

lemma added_proxy:
  assumes "env_map m" and "isProxyAsEnvVarDeprecated (oa_GetVersion (bd_oa b)) = Inr d"
  shows "(if \<not> d then addProxyEnv b m else m) = add_default (proxy_env b) m"
  using assms(2)
  by (simp add: addProxyEnv_def proxy_env_def default_one[OF assms(1)] add_default_def[of "[]"] split: option.split)

lemma added_optional:
  assumes "env_map m"
  shows "addReadOnlyEnv b m =
           add_default (if IsReadOnlyFSSupported (bd_oa b) then [env_literal ''ONEAGENT_READ_ONLY_MODE'' ''true''] else []) m"
    and "addLogMonitoringEnv b m =
           add_default (if lm_IsEnabled (dk_LogMonitoring (bdDk b)) then GetKubeletEnvs else []) m"
  using assms
  by (simp_all add: addReadOnlyEnv_def addLogMonitoringEnv_def default_one append_envs add_default_def)

lemma added_fixed:
  assumes "env_map m"
  shows "addConnectionInfoEnvs b (addOperatorVersionInfoEnv b (ds_addDeploymentMetadataEnv b
            (addClusterIDEnv b (addNodeNameEnv m)))) =
         (let metadata = GetDeploymentMetadataConfigMapName (dkName (bdDk b));
              info = oa_GetConnectionInfoConfigMapName (bd_oa b);
              from_map = (\<lambda>name m key. \<lparr>evName = name, evValue = [], evValueFrom = Some (ConfigMapKeyRef m key)\<rparr>)
          in add_default [env_field ''DT_K8S_NODE_NAME'' ''spec.nodeName'', env_literal ''DT_K8S_CLUSTER_ID'' (bdClusterID b),
               from_map ''DT_DEPLOYMENT_METADATA'' metadata ''oneagent'',
               from_map ''DT_OPERATOR_VERSION'' metadata ''operator'',
               from_map ''DT_TENANT'' info ''tenant-uuid'', from_map ''DT_SERVER'' info ''communication-endpoints''] m)"
  by (simp add: addConnectionInfoEnvs_def addOperatorVersionInfoEnv_def ds_addDeploymentMetadataEnv_def
      addClusterIDEnv_def addNodeNameEnv_def default_one assms add_default_append env_field_def Let_def)

lemma environment_built:
  assumes "environmentVariables b = Inr envs"
  shows "envs = AsEnvVars (fold env_add (map (\<lambda>e. (e, HighPriority)) (hisEnv (bdHostInjectSpec b)) @
                  map (\<lambda>e. (e, DefaultPriority)) (managed_env b)) (pm_New [WithPriority DefaultPriority]))"
proof -
  let ?m1 = "fold env_add (map (\<lambda>e. (e, HighPriority)) (hisEnv (bdHostInjectSpec b)))
               (pm_New [WithPriority DefaultPriority])"
  have m1: "env_map ?m1" by (rule env_adds) simp
  obtain d where d: "isProxyAsEnvVarDeprecated (oa_GetVersion (bd_oa b)) = Inr d"
    using assms by (auto simp: environmentVariables_def Let_def split: sum.splits)
  have "envs = AsEnvVars (add_default (managed_env b) ?m1)"
    using assms
    by (simp add: environmentVariables_def append_envs added_fixed[OF m1] added_optional added_proxy[OF _ d] m1 d Let_def
        add_default_append managed_env_def)
  then show ?thesis by (simp only: add_default_def fold_append comp_apply)
qed

lemma find_append_env: "k8senv_Find (xs @ ys) n = (case k8senv_Find xs n of Some e \<Rightarrow> Some e | None \<Rightarrow> k8senv_Find ys n)"
  by (induction xs) (auto simp: k8senv_Find_def)

lemma no_env: "k8senv_Find [] n = None"
  by (simp add: k8senv_Find_def)

lemma one_priority:
  "fold (pick n) (map (\<lambda>e. (e, p)) es) None = map_option (\<lambda>e. (e, p)) (k8senv_Find es n)"
  by (simp add: pick_same[of _ p] find_map_pair k8senv_Find_def)

definition oneagent_env :: "ds_builder \<Rightarrow> env_var list" where
  "oneagent_env b =
     hisEnv (bdHostInjectSpec b) @ managed_env b @
     (if bdHostMonitoring b then [env_literal ''ONEAGENT_DISABLE_CONTAINER_INJECTION'' ''true''] else [])"

definition env_ordered :: "env_var list \<Rightarrow> bool" where
  "env_ordered envs \<longleftrightarrow> str_sorted (map evName envs) \<and> distinct (map evName envs)"

lemma read_ordered:
  assumes "env_map m"
  shows "env_ordered (AsEnvVars m)"
  using assms by (simp add: env_ordered_def names_env sorted_keys_sorted distinct_sorted_keys)

lemma first_pass:
  assumes "environmentVariables b = Inr envs" and "n \<noteq> []"
  shows "k8senv_Find envs n = k8senv_Find (hisEnv (bdHostInjectSpec b) @ managed_env b) n" and "env_ordered envs"
proof -
  let ?xs = "map (\<lambda>e. (e, HighPriority)) (hisEnv (bdHostInjectSpec b)) @
             map (\<lambda>e. (e, DefaultPriority)) (managed_env b)"
  let ?m = "fold env_add ?xs (pm_New [WithPriority DefaultPriority])"
  have m: "env_map ?m" by (rule env_adds) simp
  have envs: "envs = AsEnvVars ?m" by (rule environment_built[OF assms(1)])
  show "env_ordered envs" unfolding envs by (rule read_ordered[OF m])
  have "env_of ?m n = fold (pick n) ?xs None"
    using env_adds(2)[OF env_map_New(1) assms(2), of ?xs] by simp
  then show "k8senv_Find envs n = k8senv_Find (hisEnv (bdHostInjectSpec b) @ managed_env b) n"
    using two_priorities[of DefaultPriority HighPriority n "hisEnv (bdHostInjectSpec b)" "managed_env b"]
    unfolding envs env_value_at[OF m] find_append_env
    by (auto split: option.split simp: option.map_comp comp_def option.map_ident)
qed

lemma second_pass:
  assumes "n \<noteq> []"
  shows "k8senv_Find (appendInfraMonEnvVars envs) n =
           k8senv_Find (envs @ [env_literal ''ONEAGENT_DISABLE_CONTAINER_INJECTION'' ''true'']) n"
    and "env_ordered (appendInfraMonEnvVars envs)"
proof -
  let ?es = "envs @ [env_literal ''ONEAGENT_DISABLE_CONTAINER_INJECTION'' ''true'']"
  let ?m = "fold env_add (map (\<lambda>e. (e, DefaultPriority)) ?es) (pm_New [])"
  have m: "env_map ?m" by (rule env_adds) simp
  have built: "appendInfraMonEnvVars envs = AsEnvVars ?m"
    using env_adds(1)[OF env_map_New(2)] by (simp add: appendInfraMonEnvVars_def append_envs default_values)
  show "env_ordered (appendInfraMonEnvVars envs)" unfolding built by (rule read_ordered[OF m])
  show "k8senv_Find (appendInfraMonEnvVars envs) n = k8senv_Find ?es n"
    using env_adds(2)[OF env_map_New(2) assms, of "map (\<lambda>e. (e, DefaultPriority)) ?es"]
    unfolding built env_value_at[OF m] env_of_New one_priority
    by (simp only: option.map_comp comp_def fst_conv option.map_ident)
qed

section \<open>What a daemon set is made of\<close>

lemma builds:
  assumes "ds_arguments env b = Inr args" and "environmentVariables b = Inr envs"
  obtains ds where "BuildDaemonSet env b = Inr ds"
  using assms that by (simp add: BuildDaemonSet_def builder_BuildDaemonSet_def ds_podSpec_def Let_def)

lemma built_parts:
  assumes "BuildDaemonSet env b = Inr ds"
  obtains args envs ps where "ds_arguments env b = Inr args" and "environmentVariables b = Inr envs"
    and "ds_podSpec env b = Inr ps"
    and "mpContainers (dmfPod ds) = map (\<lambda>c. if bdHostMonitoring b then c\<lparr>mcEnv := appendInfraMonEnvVars (mcEnv c)\<rparr> else c) (mpContainers ps)"
    and "mpInitContainers (dmfPod ds) = [initContainerSpec env b]"
    and "mpVolumes (dmfPod ds) = prepareVolumes env (bdDk b) (bdProcessGroupConfigHash b)"
    and "map mcEnv (mpContainers ps) = [envs]" and "map mcArgs (mpContainers ps) = [args]"
    and "map mcVolumeMounts (mpContainers ps) = [prepareVolumeMounts env (bdDk b) (bdProcessGroupConfigHash b)]"
proof -
  obtain ps where ps: "ds_podSpec env b = Inr ps"
    using assms by (auto simp: BuildDaemonSet_def builder_BuildDaemonSet_def split: sum.splits)
  obtain args envs where parts: "ds_arguments env b = Inr args" "environmentVariables b = Inr envs"
    using ps by (auto simp: ds_podSpec_def split: sum.splits)
  have pod: "dmfPod ds = (if bdHostMonitoring b then infra_mon_pod ps else ps)"
    using assms ps by (auto simp: BuildDaemonSet_def builder_BuildDaemonSet_def Let_def)
  have fields: "mpInitContainers ps = [initContainerSpec env b]"
      "mpVolumes ps = prepareVolumes env (bdDk b) (bdProcessGroupConfigHash b)"
      "map mcEnv (mpContainers ps) = [envs]" "map mcArgs (mpContainers ps) = [args]"
      "map mcVolumeMounts (mpContainers ps) = [prepareVolumeMounts env (bdDk b) (bdProcessGroupConfigHash b)]"
      "length (mpContainers ps) = 1"
    using ps parts by (auto simp: ds_podSpec_def Let_def)
  then obtain c where "mpContainers ps = [c]" by (cases "mpContainers ps") auto
  with that[OF parts ps] fields pod show ?thesis by (simp add: infra_mon_pod_def)
qed

section \<open>Mounts and volumes\<close>

lemma metadata_path [simp]: "nodeMetadataFilePath = ''/var/lib/dynatrace/enrichment/dt_node_metadata.properties''"
  by code_simp

lemmas mount_defs = getNodeMetadataVolumeMount_def getClusterCaCertVolumeMount_def getActiveGateCaCertVolumeMount_def
  getOneAgentSecretVolumeMount_def getRootMount_def getReadOnlyRootMount_def getCSIStorageMount_def
  getStorageVolumeMount_def proxy_BuildVolumeMount_def getPGCSecretFileMount_def rw_mount_def

lemmas volume_defs = getNodeMetadataVolume_def getCertificateVolume_def getCSIStorageVolume_def getStorageVolume_def
  getActiveGateCaCertVolume_def buildHTTPProxyVolume_def getOneAgentSecretVolume_def getRootVolume_def
  getPGCSecretVolume_def

lemma volume_names:
  "map mvName (prepareVolumes env dk h) =
     [hostRootVolumeName, nodeMetadataVolumeName, TenantSecretVolumeName] @
     (if IsReadOnlyFSSupported (dk_OneAgent dk)
      then (if deCSIAvailable env then [csiStorageVolumeName] else [storageVolumeName]) else []) @
     (if NeedsPGC dk \<and> h \<noteq> [] then [pgcSecretVolumeName] else []) @
     (if dspTrustedCAs (dkSpec dk) \<noteq> [] then [clusterCaCertVolumeName] else []) @
     (if ag_HasCaCert (dk_ActiveGate dk) then [activeGateCaCertVolumeName] else []) @
     (if dk_NeedsOneAgentProxy dk then [ProxySecretVolumeName] else [])"
  by (simp add: prepareVolumes_def volume_defs)

lemma mount_names:
  "map pmName (prepareVolumeMounts env dk h) =
     [TenantSecretVolumeName, nodeMetadataVolumeName] @
     (if IsReadOnlyFSSupported (dk_OneAgent dk)
      then hostRootVolumeName # (if deCSIAvailable env then [csiStorageVolumeName] else [storageVolumeName])
      else [hostRootVolumeName]) @
     (if dspTrustedCAs (dkSpec dk) \<noteq> [] then [clusterCaCertVolumeName] else []) @
     (if ag_HasCaCert (dk_ActiveGate dk) then [activeGateCaCertVolumeName] else []) @
     (if dk_NeedsOneAgentProxy dk then [ProxySecretVolumeName] else []) @
     (if NeedsPGC dk \<and> h \<noteq> [] then [pgcSecretVolumeName] else [])"
  by (simp add: prepareVolumeMounts_def mount_defs)

lemma oneagent_mounts_have_volumes:
  "pmName ` set (prepareVolumeMounts env dk h) \<subseteq> mvName ` set (prepareVolumes env dk h)"
proof -
  have "set (map pmName (prepareVolumeMounts env dk h)) \<subseteq> set (map mvName (prepareVolumes env dk h))"
    unfolding volume_names mount_names by auto
  then show ?thesis by simp
qed

lemma mount_paths:
  "map pmMountPath (prepareVolumeMounts env dk h) =
     [''/var/lib/dynatrace/secrets/tokens/tenant-token'',
      ''/var/lib/dynatrace/enrichment/dt_node_metadata.properties'', ''/mnt/root''] @
     (if IsReadOnlyFSSupported (dk_OneAgent dk) then [csiStorageVolumeMount] else []) @
     (if dspTrustedCAs (dkSpec dk) \<noteq> [] then [''/mnt/dynatrace/certs''] else []) @
     (if ag_HasCaCert (dk_ActiveGate dk) then [''/mnt/dynatrace/certs/activegate''] else []) @
     (if dk_NeedsOneAgentProxy dk then [''/var/lib/dynatrace/secrets/internal-proxy''] else []) @
     (if NeedsPGC dk \<and> h \<noteq> [] then [''/mnt/volume_storage_mount/opt/agent/conf/declarative.cbor''] else [])"
  by (simp add: prepareVolumeMounts_def mount_defs)

lemma mount_paths_distinct: "distinct (map pmMountPath (prepareVolumeMounts env dk h))"
  unfolding mount_paths by simp

lemma volume_names_distinct: "distinct (map mvName (prepareVolumes env dk h))"
  unfolding volume_names by simp

lemma pod_consistent:
  assumes "BuildDaemonSet env b = Inr ds"
  shows "mounts_declared (dmfPod ds)" and "volumes_distinct (dmfPod ds)"
proof -
  let ?h = "bdProcessGroupConfigHash b"
  from assms obtain ps :: manifest_pod where inits: "mpInitContainers (dmfPod ds) = [initContainerSpec env b]"
    and vols: "mpVolumes (dmfPod ds) = prepareVolumes env (bdDk b) ?h"
    and conts: "mpContainers (dmfPod ds) = map (\<lambda>c. if bdHostMonitoring b
         then c\<lparr>mcEnv := appendInfraMonEnvVars (mcEnv c)\<rparr> else c) (mpContainers ps)"
    and mounts: "map mcVolumeMounts (mpContainers ps) = [prepareVolumeMounts env (bdDk b) ?h]"
    by (rule built_parts) (rule that)
  have one: "mcVolumeMounts c = prepareVolumeMounts env (bdDk b) ?h" if "c \<in> set (mpContainers (dmfPod ds))" for c
    using that mounts by (auto simp: conts map_eq_Cons_conv split: if_splits)
  have init: "pmName ` set (mcVolumeMounts (initContainerSpec env b)) \<subseteq> mvName ` set (prepareVolumes env (bdDk b) ?h)"
    by (simp add: initContainerSpec_def rw_mount_def prepareVolumes_def volume_defs)
  have "distinct (map pmMountPath (mcVolumeMounts (initContainerSpec env b)))" by (simp add: initContainerSpec_def)
  with init show "mounts_declared (dmfPod ds)"
    unfolding mounts_declared_def inits vols set_append ball_Un
    by (simp add: one mount_paths_distinct oneagent_mounts_have_volumes del: map_map)
  show "volumes_distinct (dmfPod ds)" by (simp add: volumes_distinct_def vols volume_names_distinct)
qed

section \<open>Labels\<close>

lemma selects_merged:
  assumes "m \<subseteq>\<^sub>m l"
  shows "m \<subseteq>\<^sub>m MergeMap [l, u] \<longleftrightarrow> (\<forall>k v. m k = Some v \<longrightarrow> u k \<in> {None, Some v})"
proof -
  have "l k = m k" if "m k = Some v" for k v using assms that by (auto simp: map_le_def dom_def)
  then have "m k = Some v \<Longrightarrow> MergeMap [l, u] k = Some v \<longleftrightarrow> u k \<in> {None, Some v}" for k v
    by (auto simp: MergeMap_last split: option.split)
  then show ?thesis by (auto simp: map_le_def dom_def)
qed

lemma all_three:
  assumes "distinct [a, b, c]"
  shows "(\<forall>k v. [a \<mapsto> x, b \<mapsto> y, c \<mapsto> z] k = Some v \<longrightarrow> P k v) \<longleftrightarrow> P a x \<and> P b y \<and> P c z"
  using assms by auto

section \<open>Properties\<close>

text \<open>C17. The environment of the OneAgent container: every variable has the value of the first variable of
  that name among those of the spec, then those of the operator, then (host monitoring and cloud-native
  full-stack) the switch that turns the agent's own injection off. Each name occurs once and the variables
  are sorted, so that the manifest, and with it the hash that decides about an update, does not depend on
  the iteration order of a Go map.
\<close>

theorem oneagent_environment:
  assumes "BuildDaemonSet env b = Inr ds" and "c \<in> set (mpContainers (dmfPod ds))" and "n \<noteq> []"
  shows "k8senv_Find (mcEnv c) n = k8senv_Find (oneagent_env b) n \<and> env_ordered (mcEnv c)"
proof -
  from assms(1) obtain envs and ps :: manifest_pod where envs: "environmentVariables b = Inr envs"
    and conts: "mpContainers (dmfPod ds) = map (\<lambda>c. if bdHostMonitoring b
         then c\<lparr>mcEnv := appendInfraMonEnvVars (mcEnv c)\<rparr> else c) (mpContainers ps)"
    and one: "map mcEnv (mpContainers ps) = [envs]"
    by (rule built_parts) (rule that)
  have "mcEnv c = (if bdHostMonitoring b then appendInfraMonEnvVars envs else envs)"
    using assms(2) one by (auto simp: conts map_eq_Cons_conv split: if_splits)
  then show ?thesis
    using first_pass[OF envs assms(3)] second_pass[OF assms(3), of envs]
    by (simp add: oneagent_env_def append_assoc[symmetric] find_append_env[of envs] no_env
        find_append_env[of "hisEnv (bdHostInjectSpec b) @ managed_env b"] del: append_assoc split: option.split)
qed

text \<open>C8. The pod of the OneAgent is one the API server takes: every mount of every container, the init container
  included, names a volume of the pod, no two mounts of a container have the same path, and no two volumes
  the same name, whatever of CSI driver, trusted CAs, ActiveGate certificate, proxy and process group
  configuration is in use.
\<close>

theorem oneagent_pod_consistent:
  assumes "BuildDaemonSet env b = Inr ds"
  shows "mounts_declared (dmfPod ds) \<and> volumes_distinct (dmfPod ds)"
  using pod_consistent[OF assms] by blast

text \<open>The daemon set selects the pods it creates exactly when no label of the spec gives another value to
  one of the three labels of the selector: the labels of the spec win over those of the operator on the
  pods, while the selector keeps the operator's. The API server rejects a daemon set that does not select
  its own pods.
\<close>

theorem oneagent_selector_iff:
  assumes "BuildDaemonSet env b = Inr ds"
  shows "selects (dmfMatchLabels ds) (dmfTemplateLabels ds) \<longleftrightarrow>
           hisLabels (bdHostInjectSpec b) AppNameLabel \<in> {None, Some ''oneagent''} \<and>
           hisLabels (bdHostInjectSpec b) AppCreatedByLabel \<in> {None, Some (dkName (bdDk b))} \<and>
           hisLabels (bdHostInjectSpec b) AppManagedByLabel \<in> {None, Some AppName}"
proof -
  let ?l = "NewAppLabels ''oneagent'' (dkName (bdDk b)) (bdDeploymentType b) (oa_GetVersion (bd_oa b))"
  have labels: "dmfMatchLabels ds = app_BuildMatchLabels ?l"
      "dmfTemplateLabels ds = MergeMap [app_BuildLabels ?l, hisLabels (bdHostInjectSpec b)]"
    using assms by (auto simp: BuildDaemonSet_def builder_BuildDaemonSet_def Let_def split: sum.splits if_splits)
  have "selects (dmfMatchLabels ds) (dmfTemplateLabels ds) \<longleftrightarrow>
      (\<forall>k v. app_BuildMatchLabels ?l k = Some v \<longrightarrow> hisLabels (bdHostInjectSpec b) k \<in> {None, Some v})"
    unfolding selects_def labels by (rule selects_merged[OF app.match_in_all])
  moreover have "distinct [AppNameLabel, AppCreatedByLabel, AppManagedByLabel]" by simp
  ultimately show ?thesis unfolding app_BuildMatchLabels_def NewAppLabels_def by (simp only: all_three app_labels.simps)
qed

section \<open>Witnesses\<close>

lemma sample_variables: "\<not> isl (environmentVariables (sample_builder zero_host_inject))"
  by code_simp

lemma sample_built: "\<exists>ds c. BuildDaemonSet sample_ds_env (sample_builder zero_host_inject) = Inr ds \<and> c \<in> set (mpContainers (dmfPod ds))"
proof -
  obtain args envs where "ds_arguments sample_ds_env (sample_builder zero_host_inject) = Inr args"
    and "environmentVariables (sample_builder zero_host_inject) = Inr envs"
    using sample_arguments sample_variables by (cases "ds_arguments sample_ds_env (sample_builder zero_host_inject)"; cases "environmentVariables (sample_builder zero_host_inject)") auto
  then obtain ds where ds: "BuildDaemonSet sample_ds_env (sample_builder zero_host_inject) = Inr ds" by (rule builds)
  then obtain ps :: manifest_pod and envs where "mpContainers (dmfPod ds) = map (\<lambda>c. if bdHostMonitoring (sample_builder zero_host_inject)
       then c\<lparr>mcEnv := appendInfraMonEnvVars (mcEnv c)\<rparr> else c) (mpContainers ps)" and "map mcEnv (mpContainers ps) = [envs]"
    by (rule built_parts) (rule that)
  then have "mpContainers (dmfPod ds) \<noteq> []" by auto
  with ds show ?thesis by (meson list.set_sel(1))
qed

theorem oneagent_environment_witness:
  "\<exists>ds c. BuildDaemonSet sample_ds_env (sample_builder zero_host_inject) = Inr ds \<and> c \<in> set (mpContainers (dmfPod ds)) \<and>
     k8senv_Find (mcEnv c) ''DT_K8S_CLUSTER_ID'' = Some (env_literal ''DT_K8S_CLUSTER_ID'' ''id'') \<and> env_ordered (mcEnv c)"
proof -
  obtain ds c where ds: "BuildDaemonSet sample_ds_env (sample_builder zero_host_inject) = Inr ds"
    and c: "c \<in> set (mpContainers (dmfPod ds))" using sample_built by blast
  have "k8senv_Find (oneagent_env (sample_builder zero_host_inject)) ''DT_K8S_CLUSTER_ID'' =
      Some (env_literal ''DT_K8S_CLUSTER_ID'' ''id'')" by code_simp
  then show ?thesis using ds c oneagent_environment[OF ds c, of "''DT_K8S_CLUSTER_ID''"] by auto
qed

theorem oneagent_pod_witness:
  "\<exists>ds. BuildDaemonSet sample_ds_env (sample_builder zero_host_inject) = Inr ds \<and> mounts_declared (dmfPod ds)"
  using sample_built oneagent_pod_consistent[of sample_ds_env "sample_builder zero_host_inject"] by blast

theorem oneagent_selector_witness:
  "\<exists>ds. BuildDaemonSet sample_ds_env (sample_builder zero_host_inject) = Inr ds \<and>
     selects (dmfMatchLabels ds) (dmfTemplateLabels ds)"
proof -
  obtain ds where ds: "BuildDaemonSet sample_ds_env (sample_builder zero_host_inject) = Inr ds" using sample_built by blast
  then show ?thesis using oneagent_selector_iff[OF ds] by (simp add: sample_builder_def zero_host_inject_def)
qed

end
