(* ===== verification/SecretReconcilers.thy ===== *)
theory SecretReconcilers
  imports ConnectionLaws OneAgentLaws
begin

text \<open>
  The small reconcilers around one secret or config map: pull secret (\<open>dtpullsecret\<close>), proxy (\<open>proxy\<close>),
  deployment metadata (\<open>deploymentmetadata\<close>), KSPM token (\<open>kspm/token\<close>), and the authentication token, TLS
  certificate and custom properties of the ActiveGate (\<open>activegate/internal\<close>). The type of a secret is a
  constant that no comparison reads; it is left out.
\<close>

section \<open>Environment\<close>

record docker_config =
  dcRegistry :: string
  dcUsername :: string
  dcPassword :: string
  dcAuth :: string

text \<open>A parsed proxy URL: \<open>url.Parse\<close> with its user info.\<close>

record proxy_parts =
  ppScheme :: string
  ppHost :: string
  ppPort :: string
  ppUsername :: string
  ppPassword :: string

text \<open>
  \<open>reDockerJSON\<close> and \<open>reMarshalData\<close> are \<open>json.Marshal\<close>, \<open>reSecureHash\<close> the SHA-256 of a marshalled string,
  \<open>reRandomToken\<close> the random part of a new token, \<open>reCertificate\<close> key generation, signing and PEM encoding of a
  certificate, \<open>reParseIP\<close> whether \<open>net.ParseIP\<close> knows an address, \<open>reCreated\<close> the creation time of a secret,
  \<open>reDays\<close> the floating point expression \<open>int(lifespan.Hours() / 24)\<close>, \<open>reGetData\<close> reads of secrets that the
  reconciler does not own.
\<close>

record secret_env =
  reCluster :: cluster_env
  reURLHost :: "string \<Rightarrow> string option"
  reKubemonOperand :: string
  reClusterID :: string
  reDockerJSON :: "docker_config \<Rightarrow> error + string"
  reMarshalData :: "smap \<Rightarrow> error + 8 word list"
  reSecureHash :: "string \<Rightarrow> error + string"
  reParseProxy :: "string \<Rightarrow> error + proxy_parts"
  reGetData :: data_reader
  reRandomToken :: "string \<Rightarrow> error + string"
  reCertificateNew :: "error option"
  reParseIP :: "string \<Rightarrow> bool"
  reCertificate :: "string list \<Rightarrow> string \<Rightarrow> string list \<Rightarrow> error + string \<times> string"
  reCreated :: "secret_payload kobject \<Rightarrow> int"
  reDays :: "int \<Rightarrow> int"
  reGetAuthToken :: "string \<Rightarrow> error + string"

abbreviation re_secrets :: "secret_env \<Rightarrow> secret_payload query_env" where
  "re_secrets env \<equiv> keSecrets (reCluster env)"

definition get_secret :: "secret_env \<Rightarrow> dynakube \<Rightarrow> string \<Rightarrow> (cluster_state, secret_payload kobject) io" where
  "get_secret env dk name = with_secrets (Get (re_secrets env) (dkNamespace dk) name)"

definition delete_secret :: "secret_env \<Rightarrow> dynakube \<Rightarrow> string \<Rightarrow> (cluster_state, unit) io" where
  "delete_secret env dk name = with_secrets (Delete (re_secrets env) (dkNamespace dk) name)"

definition create_secret :: "secret_payload query_env \<Rightarrow> secret_payload kobject \<Rightarrow> (cluster_state, unit) io" where
  "create_secret qenv secret = with_secrets (andThen (set_object secret) (\<lambda>_. Create qenv))"

section \<open>Base64\<close>

definition b64_char :: "nat \<Rightarrow> char" where
  "b64_char n =
     ''ABCDEFGHIJKLMNOPQRSTUVWXYZabcdefghijklmnopqrstuvwxyz0123456789+/'' ! n"

fun b64_encode :: "string \<Rightarrow> string" where
  "b64_encode [] = []"
| "b64_encode [a] =
     (let n = of_char a * 65536 :: nat in [b64_char (n div 262144), b64_char (n div 4096 mod 64), CHR ''='', CHR ''=''])"
| "b64_encode [a, b] =
     (let n = of_char a * 65536 + of_char b * 256 :: nat
      in [b64_char (n div 262144), b64_char (n div 4096 mod 64), b64_char (n div 64 mod 64), CHR ''=''])"
| "b64_encode (a # b # c # cs) =
     (let n = of_char a * 65536 + of_char b * 256 + of_char c :: nat
      in b64_char (n div 262144) # b64_char (n div 4096 mod 64) # b64_char (n div 64 mod 64) # b64_char (n mod 64) #
         b64_encode cs)"

section \<open>Pull secret (\<open>dtpullsecret\<close>)\<close>

abbreviation PullSecretConditionType :: string where "PullSecretConditionType \<equiv> ''PullSecret''"

definition basicAuth :: "string \<Rightarrow> string \<Rightarrow> string" where
  "basicAuth username password = b64_encode (username @ '':'' @ password)"

definition newDockerConfigWithAuth :: "string \<Rightarrow> string \<Rightarrow> string \<Rightarrow> string \<Rightarrow> docker_config" where
  "newDockerConfigWithAuth username password registry auth =
     \<lparr>dcRegistry = registry, dcUsername = username, dcPassword = password, dcAuth = auth\<rparr>"

definition pullSecretDataFromDockerConfig :: "secret_env \<Rightarrow> docker_config \<Rightarrow> error + smap" where
  "pullSecretDataFromDockerConfig env dockerConf =
     map_sum id (\<lambda>json. [''.dockerconfigjson'' \<mapsto> json]) (reDockerJSON env dockerConf)"

definition PaasToken :: "Tokens \<Rightarrow> token" where "PaasToken tokens = getToken tokens PaaSKey"

definition generateData :: "secret_env \<Rightarrow> dynakube \<Rightarrow> Tokens \<Rightarrow> error + smap" where
  "generateData env dk tokens =
     (case (if tValue (PaasToken tokens) \<noteq> [] then Some (tValue (PaasToken tokens))
            else if tValue (APIToken tokens) \<noteq> [] then Some (tValue (APIToken tokens)) else None) of
        None \<Rightarrow> Inl (Sentinel ''token secret does not contain a paas or api token, cannot generate docker config'')
      | Some registryToken \<Rightarrow>
          (case dk_TenantUUID dk of
             Inl e \<Rightarrow> Inl (WithMsg ''cannot generate docker config'' e)
           | Inr tenantUUID \<Rightarrow>
               pullSecretDataFromDockerConfig env
                 (newDockerConfigWithAuth tenantUUID registryToken (dk_APIURLHost (reURLHost env) dk)
                    (basicAuth tenantUUID registryToken))))"

definition pull_deleteSecret :: "secret_env \<Rightarrow> string \<Rightarrow> (cluster_state, unit) io" where
  "pull_deleteSecret env name =
     andThen (gets clDk) (\<lambda>dk.
     andThen (attempt (delete_secret env dk name)) (\<lambda>r.
       case r of
         Inr _ \<Rightarrow> ret ()
       | Inl e \<Rightarrow>
           if \<not> is_not_found e then
             andThen (set_kube_api_error PullSecretConditionType e) (\<lambda>_.
               throw (WithMsg (''failed to delete secret '' @ name) e))
           else ret ()))"

definition reconcilePullSecret :: "secret_env \<Rightarrow> Tokens \<Rightarrow> (cluster_state, unit) io" where
  "reconcilePullSecret env tokens =
     andThen (gets clDk) (\<lambda>dk.
     andThen (wrap_msg ''could not generate pull secret data'' (lift (generateData env dk tokens))) (\<lambda>pullSecretData.
     andThen (attempt (lift (secret_Build (reCluster env) dk (dk_TenantRegistryPullSecretName dk)
       (component_labels (reCluster env) dk ''operator'') (Some pullSecretData)))) (\<lambda>built.
       case built of
         Inl e \<Rightarrow> andThen (set_kube_api_error PullSecretConditionType e) (\<lambda>_. throw e)
       | Inr secret \<Rightarrow>
           andThen (attempt (with_secrets (create_or_update (re_secrets env) secret))) (\<lambda>r.
             case r of
               Inl e \<Rightarrow>
                 andThen (set_kube_api_error PullSecretConditionType (WithMsg ''failed to create or update secret'' e)) (\<lambda>_.
                   throw (WithMsg ''failed to create or update secret'' e))
             | Inr _ \<Rightarrow> set_cond (SetSecretCreated PullSecretConditionType (koName secret))))))"

definition pull_needed :: "secret_env \<Rightarrow> dynakube \<Rightarrow> bool" where
  "pull_needed env dk \<longleftrightarrow>
     IsDaemonsetRequired (dk_OneAgent dk) \<or> ag_IsEnabled (dk_ActiveGate dk) \<or> dk_IsKubemonEnabled (reKubemonOperand env) dk"

text \<open>The deferred removal of the condition runs after the attempt to delete, whatever came of it.\<close>

definition pull_Reconcile :: "secret_env \<Rightarrow> Tokens \<Rightarrow> (cluster_state, unit) io" where
  "pull_Reconcile env tokens =
     andThen (gets clDk) (\<lambda>dk.
       if IsPublicRegistry (dk_FF dk) \<or> \<not> pull_needed env dk then
         andThen (gets (has_cond (reCluster env) PullSecretConditionType)) (\<lambda>present.
           if \<not> present then ret ()
           else
             andThen (attempt (pull_deleteSecret env (dk_TenantRegistryPullSecretName dk))) (\<lambda>_.
               set_cond (RemoveStatusCondition PullSecretConditionType)))
       else reconcilePullSecret env tokens)"

section \<open>Proxy (\<open>proxy\<close>)\<close>

definition proxy_with_scheme :: "string \<Rightarrow> string" where
  "proxy_with_scheme proxy =
     (if \<not> has_prefix (map lower_char proxy) ''http://'' \<and> \<not> has_prefix (map lower_char proxy) ''https://''
      then ''http://'' @ proxy else proxy)"

definition parseProxyURL :: "secret_env \<Rightarrow> string \<Rightarrow> error + proxy_parts" where
  "parseProxyURL env proxy =
     (case reParseProxy env (proxy_with_scheme proxy) of
        Inl _ \<Rightarrow> Inl (Sentinel ''could not parse proxy URL'')
      | Inr parts \<Rightarrow> Inr parts)"

definition proxy_data :: "proxy_parts \<Rightarrow> smap" where
  "proxy_data p =
     [''host'' \<mapsto> ppHost p, ''port'' \<mapsto> ppPort p, ''username'' \<mapsto> ppUsername p, ''password'' \<mapsto> ppPassword p,
      ''scheme'' \<mapsto> ppScheme p]"

definition set_proxy_hash :: "string \<Rightarrow> (cluster_state, unit) io" where
  "set_proxy_hash h = on_dk (\<lambda>dk. dk\<lparr>dkStatus := (dkStatus dk)\<lparr>dstProxyURLHash := h\<rparr>\<rparr>)"

definition createProxyMap :: "secret_env \<Rightarrow> (cluster_state, smap) io" where
  "createProxyMap env =
     andThen (gets clDk) (\<lambda>dk.
       if \<not> dk_HasProxy dk then
         andThen (set_proxy_hash []) (\<lambda>_.
           ret (proxy_data \<lparr>ppScheme = [], ppHost = [], ppPort = [], ppUsername = [], ppPassword = []\<rparr>))
       else
         andThen (lift (dk_Proxy (reGetData env) dk)) (\<lambda>proxyURL.
         andThen (attempt (lift (reSecureHash env proxyURL))) (\<lambda>r.
           case r of
             Inl e \<Rightarrow> andThen (set_proxy_hash []) (\<lambda>_. throw e)
           | Inr h \<Rightarrow>
               andThen (set_proxy_hash h) (\<lambda>_.
               andThen (lift (parseProxyURL env proxyURL)) (\<lambda>parts. ret (proxy_data parts))))))"

definition generateForDynakube :: "secret_env \<Rightarrow> (cluster_state, unit) io" where
  "generateForDynakube env =
     andThen (createProxyMap env) (\<lambda>data.
     andThen (gets clDk) (\<lambda>dk.
     andThen (lift (secret_Build (reCluster env) dk (proxy_BuildSecretName (dkName dk)) None (Some data))) (\<lambda>secret.
     andThen (with_secrets (create_or_update (re_secrets env) secret)) (\<lambda>_. ret ()))))"

definition proxy_Reconcile :: "secret_env \<Rightarrow> (cluster_state, unit) io" where
  "proxy_Reconcile env =
     andThen (gets clDk) (\<lambda>dk.
       if dk_NeedsActiveGateProxy dk \<or> dk_NeedsOneAgentProxy dk then generateForDynakube env
       else delete_secret env dk (proxy_BuildSecretName (dkName dk)))"

section \<open>Deployment metadata (\<open>deploymentmetadata/reconciler.go\<close>)\<close>

definition metadata_entry :: "secret_env \<Rightarrow> string \<Rightarrow> string" where
  "metadata_entry env deploymentType =
     metadata_AsString (keOperatorVersion (reCluster env))
       \<lparr>dmOrchestratorID = reClusterID env, dmDeploymentType = deploymentType\<rparr>"

definition addOneAgentDeploymentMetadata :: "secret_env \<Rightarrow> dynakube \<Rightarrow> smap \<Rightarrow> smap" where
  "addOneAgentDeploymentMetadata env dk m =
     (if \<not> IsDaemonsetRequired (dk_OneAgent dk) then m
      else m(''oneagent'' \<mapsto> metadata_entry env (GetOneAgentDeploymentType dk)))"

definition addActiveGateDeploymentMetadata :: "secret_env \<Rightarrow> dynakube \<Rightarrow> smap \<Rightarrow> smap" where
  "addActiveGateDeploymentMetadata env dk m =
     (if \<not> ag_IsEnabled (dk_ActiveGate dk) then m else m(''activegate'' \<mapsto> metadata_entry env ''activegate''))"

definition addKubemonDeploymentMetadata :: "secret_env \<Rightarrow> dynakube \<Rightarrow> smap \<Rightarrow> smap" where
  "addKubemonDeploymentMetadata env dk m =
     (if \<not> dk_IsKubemonEnabled (reKubemonOperand env) dk then m else m(''kubemon'' \<mapsto> metadata_entry env ''activegate''))"

definition addOperatorVersionInfo :: "secret_env \<Rightarrow> dynakube \<Rightarrow> smap \<Rightarrow> smap" where
  "addOperatorVersionInfo env dk m =
     (if \<not> IsDaemonsetRequired (dk_OneAgent dk) then m
      else m(''operator'' \<mapsto> keOperatorVersion (reCluster env)))"

definition metadata_map :: "secret_env \<Rightarrow> dynakube \<Rightarrow> smap" where
  "metadata_map env dk =
     addOperatorVersionInfo env dk (addKubemonDeploymentMetadata env dk
       (addActiveGateDeploymentMetadata env dk (addOneAgentDeploymentMetadata env dk Map.empty)))"

definition metadata_wanted :: "secret_env \<Rightarrow> dynakube \<Rightarrow> bool" where
  "metadata_wanted env dk \<longleftrightarrow> (\<exists>k \<in> {''oneagent'', ''activegate'', ''kubemon'', ''operator''}. metadata_map env dk k \<noteq> None)"

definition maintainMetadataConfigMap :: "secret_env \<Rightarrow> dynakube \<Rightarrow> (cluster_state, unit) io" where
  "maintainMetadataConfigMap env dk =
     andThen (lift (configmap_Build (reCluster env) dk (GetDeploymentMetadataConfigMapName (dkName dk))
       (component_labels (reCluster env) dk ''operator'') (Some (metadata_map env dk)))) (\<lambda>configMap.
       if metadata_wanted env dk then
         andThen (with_configmaps (create_or_update (keConfigMaps (reCluster env)) configMap)) (\<lambda>_. ret ())
       else
         with_configmaps (Delete (keConfigMaps (reCluster env)) (koNamespace configMap) (koName configMap)))"

definition metadata_Reconcile :: "secret_env \<Rightarrow> (cluster_state, unit) io" where
  "metadata_Reconcile env = andThen (gets clDk) (maintainMetadataConfigMap env)"

section \<open>KSPM token (\<open>kspm/token\<close>)\<close>

abbreviation kspmConditionType :: string where "kspmConditionType \<equiv> ''KSPMTokenSecret''"

definition kspm_GetTokenSecretName :: "dynakube \<Rightarrow> string" where
  "kspm_GetTokenSecretName dk = dkName dk @ ''-kspm-token''"

definition set_kspm_hash :: "string \<Rightarrow> (cluster_state, unit) io" where
  "set_kspm_hash h = on_dk (\<lambda>dk. dk\<lparr>dkStatus := (dkStatus dk)\<lparr>dstKSPMTokenSecretHash := h\<rparr>\<rparr>)"

definition generateKSPMTokenSecret :: "secret_env \<Rightarrow> dynakube \<Rightarrow> error + secret_payload kobject" where
  "generateKSPMTokenSecret env dk =
     (case reRandomToken env ''dt0n01'' of
        Inl e \<Rightarrow> Inl e
      | Inr fresh \<Rightarrow>
          secret_Build (reCluster env) dk (kspm_GetTokenSecretName dk) (component_labels (reCluster env) dk ''kspm'')
            (Some [''kspm-token'' \<mapsto> fresh]))"

definition gen_failed_on :: "string \<Rightarrow> error + 'a \<Rightarrow> (cluster_state, 'a) io" where
  "gen_failed_on conditionType r =
     (case r of Inr x \<Rightarrow> ret x
      | Inl e \<Rightarrow> andThen (set_cond (SetSecretGenFailed conditionType)) (\<lambda>_. throw e))"

definition api_failed_on :: "string \<Rightarrow> (cluster_state, 'a) io \<Rightarrow> (cluster_state, 'a) io" where
  "api_failed_on conditionType m =
     andThen (attempt m) (\<lambda>r. case r of Inr x \<Rightarrow> ret x
       | Inl e \<Rightarrow> andThen (set_kube_api_error conditionType e) (\<lambda>_. throw e))"

definition secret_data :: "secret_payload kobject \<Rightarrow> smap" where
  "secret_data s = (case spData (koPayload s) of None \<Rightarrow> Map.empty | Some d \<Rightarrow> d)"

definition kspm_create :: "secret_env \<Rightarrow> dynakube \<Rightarrow> (cluster_state, unit) io" where
  "kspm_create env dk =
     andThen (gen_failed_on kspmConditionType (generateKSPMTokenSecret env dk)) (\<lambda>secretConfig.
     andThen (gen_failed_on kspmConditionType (GenerateHash (reMarshalData env) (secret_data secretConfig))) (\<lambda>tokenHash.
     andThen (api_failed_on kspmConditionType (create_secret (re_secrets env) secretConfig)) (\<lambda>_.
     andThen (set_kspm_hash tokenHash) (\<lambda>_.
       set_cond (SetSecretCreated kspmConditionType (kspm_GetTokenSecretName dk))))))"

definition ensureKSPMSecret :: "secret_env \<Rightarrow> (cluster_state, unit) io" where
  "ensureKSPMSecret env =
     andThen (gets clDk) (\<lambda>dk.
     andThen (attempt (get_secret env dk (kspm_GetTokenSecretName dk))) (\<lambda>r.
       case r of
         Inr _ \<Rightarrow> ret ()
       | Inl e \<Rightarrow>
           if is_not_found e then kspm_create env dk
           else andThen (set_kube_api_error kspmConditionType e) (\<lambda>_. throw e)))"

definition removeKSPMSecret :: "secret_env \<Rightarrow> (cluster_state, unit) io" where
  "removeKSPMSecret env =
     andThen (gets (has_cond (reCluster env) kspmConditionType)) (\<lambda>present.
       if \<not> present then ret ()
       else
         andThen (gets clDk) (\<lambda>dk.
         andThen (delete_secret env dk (kspm_GetTokenSecretName dk)) (\<lambda>_.
         andThen (set_kspm_hash []) (\<lambda>_.
           set_cond (RemoveStatusCondition kspmConditionType)))))"

definition kspm_token_Reconcile :: "secret_env \<Rightarrow> (cluster_state, unit) io" where
  "kspm_token_Reconcile env =
     andThen (gets clDk) (\<lambda>dk. if dk_KSPM_IsEnabled dk then ensureKSPMSecret env else removeKSPMSecret env)"

end
