(* ===== verification/ActiveGateSecrets.thy ===== *)
theory ActiveGateSecrets
  imports SecretReconcilers
begin

text \<open>
  The secrets of the ActiveGate (\<open>activegate/internal/authtoken\<close>, \<open>tls\<close>, \<open>customproperties\<close>) and the content of
  its deployment properties (\<open>activegate/deploymentproperties\<close>).
\<close>

section \<open>Authentication token (\<open>authtoken\<close>)\<close>

abbreviation activeGateAuthTokenSecretConditionType :: string where
  "activeGateAuthTokenSecretConditionType \<equiv> ''ActiveGateAuthTokenSecret''"

abbreviation AuthTokenBuffer :: int where "AuthTokenBuffer \<equiv> 24 * (60 * minute)"
abbreviation AuthTokenRotationInterval :: int where
  "AuthTokenRotationInterval \<equiv> 24 * 30 * (60 * minute) - AuthTokenBuffer"

definition ag_GetAuthTokenSecretName :: "dynakube \<Rightarrow> string" where
  "ag_GetAuthTokenSecretName dk = agName (dk_ActiveGate dk) @ ''-activegate-authtoken-secret''"

definition isSecretOutdated :: "secret_env \<Rightarrow> secret_payload kobject \<Rightarrow> bool" where
  "isSecretOutdated env secret \<longleftrightarrow> reCreated env secret + AuthTokenRotationInterval < keNow (reCluster env)"

text \<open>
  The public part of the token is its first two parts. \<open>strings.Split\<close> allocates exactly the parts it finds, so
  that the slice \<open>[:2]\<close> of a token without a dot is out of range: the run-time error ends the reconcile.
\<close>

definition slice_out_of_range :: error where
  "slice_out_of_range = Sentinel ''runtime error: slice bounds out of range''"

definition tokenPublicPart :: "string \<Rightarrow> error + string" where
  "tokenPublicPart raw =
     (let tokenAllParts = split_on (CHR ''.'') raw
      in if length tokenAllParts < 2 then Inl slice_out_of_range else Inr (join_on (CHR ''.'') (take 2 tokenAllParts)))"

definition setAuthSecretCreated :: "string \<Rightarrow> string \<Rightarrow> cond_op" where
  "setAuthSecretCreated conditionType msg = status_condition conditionType True ''SecretCreated'' msg"

definition auth_conditionSetSecretCreated :: "secret_env \<Rightarrow> secret_payload kobject \<Rightarrow> (cluster_state, unit) io" where
  "auth_conditionSetSecretCreated env secret =
     (let lifespan = time_sub (keNow (reCluster env)) (reCreated env secret);
          days = show_int (reDays env lifespan);
          raw = (case secret_data secret ''auth-token'' of None \<Rightarrow> [] | Some t \<Rightarrow> t)
      in andThen (lift (tokenPublicPart raw)) (\<lambda>public.
           set_cond (setAuthSecretCreated activeGateAuthTokenSecretConditionType
             (''secret created '' @ days @ '' day(s) ago, token:'' @ public))))"

definition auth_deleteSecret :: "secret_env \<Rightarrow> string \<Rightarrow> (cluster_state, unit) io" where
  "auth_deleteSecret env name =
     andThen (gets clDk) (\<lambda>dk. api_failed_on activeGateAuthTokenSecretConditionType (delete_secret env dk name))"

definition auth_createSecret :: "secret_env \<Rightarrow> smap \<Rightarrow> (cluster_state, unit) io" where
  "auth_createSecret env secretData =
     andThen (gets clDk) (\<lambda>dk.
     andThen (api_failed_on activeGateAuthTokenSecretConditionType
       (lift (secret_Build (reCluster env) dk (ag_GetAuthTokenSecretName dk)
         (component_labels (reCluster env) dk ''activegate'') (Some secretData)))) (\<lambda>secret.
     andThen (attempt (api_failed_on activeGateAuthTokenSecretConditionType
       (create_secret (WithOwner (dkName dk) (re_secrets env)) secret))) (\<lambda>r.
       case r of
         Inl e \<Rightarrow> throw (Sentinel (''failed to create secret '' @ ag_GetAuthTokenSecretName dk))
       | Inr _ \<Rightarrow>
           andThen (gets (qsObject \<circ> clSecrets)) (\<lambda>created. auth_conditionSetSecretCreated env created))))"

definition getActiveGateAuthToken :: "secret_env \<Rightarrow> dynakube \<Rightarrow> (cluster_state, smap) io" where
  "getActiveGateAuthToken env dk =
     (case reGetAuthToken env (dkName dk) of
        Inl e \<Rightarrow>
          andThen (set_cond (SetDynatraceAPIErrorCond activeGateAuthTokenSecretConditionType)) (\<lambda>_. throw e)
      | Inr authToken \<Rightarrow> ret [''auth-token'' \<mapsto> authToken])"

definition ensureAuthTokenSecret :: "secret_env \<Rightarrow> (cluster_state, unit) io" where
  "ensureAuthTokenSecret env =
     andThen (gets clDk) (\<lambda>dk.
     andThen (wrap_msg (''failed to create secret '' @ ag_GetAuthTokenSecretName dk) (getActiveGateAuthToken env dk))
       (auth_createSecret env))"

definition reconcileAuthTokenSecret :: "secret_env \<Rightarrow> (cluster_state, unit) io" where
  "reconcileAuthTokenSecret env =
     andThen (gets clDk) (\<lambda>dk.
     andThen (attempt (get_secret env dk (ag_GetAuthTokenSecretName dk))) (\<lambda>r.
       case r of
         Inl e \<Rightarrow>
           if is_not_found e then ensureAuthTokenSecret env
           else andThen (set_kube_api_error activeGateAuthTokenSecretConditionType e) (\<lambda>_. throw e)
       | Inr secret \<Rightarrow>
           if isSecretOutdated env secret then
             andThen (set_cond (SetSecretOutdated activeGateAuthTokenSecretConditionType
               ''secret is outdated, update in progress'')) (\<lambda>_.
             andThen (auth_deleteSecret env (koName secret)) (\<lambda>_. ensureAuthTokenSecret env))
           else auth_conditionSetSecretCreated env secret))"

definition auth_Reconcile :: "secret_env \<Rightarrow> (cluster_state, unit) io" where
  "auth_Reconcile env =
     andThen (gets clDk) (\<lambda>dk.
       if \<not> ag_IsEnabled (dk_ActiveGate dk) then
         andThen (gets (has_cond (reCluster env) activeGateAuthTokenSecretConditionType)) (\<lambda>present.
           if \<not> present then ret ()
           else
             andThen (attempt (auth_deleteSecret env (ag_GetAuthTokenSecretName dk))) (\<lambda>_.
               set_cond (RemoveStatusCondition activeGateAuthTokenSecretConditionType)))
       else wrap_msg ''failed to create activeGateAuthToken secret'' (reconcileAuthTokenSecret env))"

section \<open>TLS certificate (\<open>tls\<close>)\<close>

abbreviation tlsConditionType :: string where "tlsConditionType \<equiv> ''TLSSecret''"

definition CommonName :: "string \<Rightarrow> string \<Rightarrow> string \<Rightarrow> string" where
  "CommonName name ns componentName = name @ ''-'' @ componentName @ ''.'' @ ns"

definition AltNames :: "string \<Rightarrow> string \<Rightarrow> string \<Rightarrow> string list" where
  "AltNames name ns componentName =
     [name @ ''-'' @ componentName @ ''.'' @ ns,
      name @ ''-'' @ componentName @ ''.'' @ ns @ ''.svc'',
      name @ ''-'' @ componentName @ ''.'' @ ns @ ''.svc.cluster.local'']"

fun getCertificateAltIPs :: "(string \<Rightarrow> bool) \<Rightarrow> string list \<Rightarrow> error + string list" where
  "getCertificateAltIPs parseIP [] = Inr []"
| "getCertificateAltIPs parseIP (ip # ips) =
     (if \<not> parseIP ip then Inl (Sentinel (''failed to parse '' @ ip @ '' IP address''))
      else map_sum id (\<lambda>altIPs. ip # altIPs) (getCertificateAltIPs parseIP ips))"

definition createSelfSignedTLSSecret :: "secret_env \<Rightarrow> dynakube \<Rightarrow> (cluster_state, unit) io" where
  "createSelfSignedTLSSecret env dk =
     andThen (gen_failed_on tlsConditionType (case reCertificateNew env of Some e \<Rightarrow> Inl e | None \<Rightarrow> Inr ())) (\<lambda>_.
     andThen (gen_failed_on tlsConditionType
       (getCertificateAltIPs (reParseIP env) (asServiceIPs (dstActiveGate (dkStatus dk))))) (\<lambda>ipAddresses.
     andThen (gen_failed_on tlsConditionType
       (reCertificate env (AltNames (dkName dk) (dkNamespace dk) ''activegate'')
         (CommonName (dkName dk) (dkNamespace dk) ''activegate'') ipAddresses)) (\<lambda>(pemCert, pemPk).
     andThen (gen_failed_on tlsConditionType
       (secret_Build (reCluster env) dk (ag_GetTLSSecretName (dk_ActiveGate dk))
         (component_labels (reCluster env) dk ''activegate'')
         (Some [''tls.crt'' \<mapsto> pemCert, ''tls.key'' \<mapsto> pemPk, ''server.crt'' \<mapsto> pemCert]))) (\<lambda>secret.
     andThen (api_failed_on tlsConditionType (create_secret (re_secrets env) secret)) (\<lambda>_.
     andThen (gets (qsObject \<circ> clSecrets)) (\<lambda>created.
       set_cond (SetSecretCreated tlsConditionType (koName created))))))))"

definition reconcileSelfSignedTLSSecret :: "secret_env \<Rightarrow> (cluster_state, unit) io" where
  "reconcileSelfSignedTLSSecret env =
     andThen (gets clDk) (\<lambda>dk.
     andThen (attempt (get_secret env dk (ag_GetTLSSecretName (dk_ActiveGate dk)))) (\<lambda>r.
       case r of
         Inr _ \<Rightarrow> ret ()
       | Inl e \<Rightarrow>
           if is_not_found e then createSelfSignedTLSSecret env dk
           else andThen (set_kube_api_error tlsConditionType e) (\<lambda>_. throw e)))"

definition deleteSelfSignedTLSSecret :: "secret_env \<Rightarrow> (cluster_state, unit) io" where
  "deleteSelfSignedTLSSecret env =
     andThen (gets clDk) (\<lambda>dk. delete_secret env dk (ag_GetAutoTLSSecretName (dk_ActiveGate dk)))"

text \<open>The condition is removed by a deferred call, also when the secret could not be deleted.\<close>

definition tls_Reconcile :: "secret_env \<Rightarrow> (cluster_state, unit) io" where
  "tls_Reconcile env =
     andThen (gets clDk) (\<lambda>dk.
       if ag_IsEnabled (dk_ActiveGate dk) \<and> agAutomaticTLSCertificateEnabled (dk_ActiveGate dk) \<and>
          agTLSSecretName (dk_ActiveGate dk) = [] then reconcileSelfSignedTLSSecret env
       else
         andThen (gets (has_cond (reCluster env) tlsConditionType)) (\<lambda>present.
           if \<not> present then ret ()
           else
             andThen (attempt (deleteSelfSignedTLSSecret env)) (\<lambda>r.
             andThen (set_cond (RemoveStatusCondition tlsConditionType)) (\<lambda>_. lift r))))"

section \<open>Custom properties (\<open>customproperties\<close>)\<close>

abbreviation customPropertiesConditionType :: string where
  "customPropertiesConditionType \<equiv> ''CustomPropertiesSecret''"
abbreviation clientInternalSection :: string where "clientInternalSection \<equiv> ''[http.client.internal]''"
abbreviation newline :: char where "newline \<equiv> CHR 0x0A"

fun contains :: "string \<Rightarrow> string \<Rightarrow> bool" where
  "contains [] p = (p = [])"
| "contains (c # s) p = (has_prefix (c # s) p \<or> contains s p)"

fun replace_first :: "(string \<Rightarrow> bool) \<Rightarrow> string \<Rightarrow> string list \<Rightarrow> string list option" where
  "replace_first P s [] = None"
| "replace_first P s (x # xs) =
     (if P x then Some (s # xs) else map_option (\<lambda>ys. x # ys) (replace_first P s xs))"

definition addNonProxyHostsSettingsToValue :: "string \<Rightarrow> string list \<Rightarrow> string list" where
  "addNonProxyHostsSettingsToValue ffNoProxy lines =
     (let noProxyValue = map (\<lambda>c. if c = CHR '','' then CHR ''|'' else c) ffNoProxy;
          proxySettings = clientInternalSection @ [newline] @ ''proxy-non-proxy-hosts'' @ ''='' @ noProxyValue
      in case replace_first (\<lambda>line. contains line clientInternalSection) proxySettings lines of
           Some lines' \<Rightarrow> lines' | None \<Rightarrow> lines @ [proxySettings])"

definition buildCustomPropertiesName :: "string \<Rightarrow> string \<Rightarrow> string" where
  "buildCustomPropertiesName name customPropertiesOwnerName =
     name @ ''-'' @ customPropertiesOwnerName @ ''-'' @ ''custom-properties''"

definition buildCustomPropertiesValue :: "secret_env \<Rightarrow> value_source option \<Rightarrow> (cluster_state, string) io" where
  "buildCustomPropertiesValue env source =
     andThen (gets clDk) (\<lambda>dk.
     andThen (case source of
         None \<Rightarrow> ret []
       | Some src \<Rightarrow>
           if vsrcValue src \<noteq> [] then ret (vsrcValue src)
           else if vsrcValueFrom src \<noteq> [] then
             andThen (get_secret env dk (vsrcValueFrom src)) (\<lambda>secret.
               ret (case secret_data secret ''customProperties'' of None \<Rightarrow> [] | Some v \<Rightarrow> v))
           else ret []) (\<lambda>customPropertiesValue.
       let lines = split_on newline customPropertiesValue
       in ret (join_on newline
            (if dk_NeedsCustomNoProxy dk then addNonProxyHostsSettingsToValue (GetNoProxy (dk_FF dk)) lines else lines))))"

definition custom_Reconcile :: "secret_env \<Rightarrow> string \<Rightarrow> value_source option \<Rightarrow> (cluster_state, unit) io" where
  "custom_Reconcile env owner source =
     andThen (gets clDk) (\<lambda>dk.
       if source = None \<and> \<not> dk_NeedsCustomNoProxy dk then
         andThen (gets (has_cond (reCluster env) customPropertiesConditionType)) (\<lambda>present.
           if \<not> present then ret ()
           else
             andThen (attempt (delete_secret env dk (buildCustomPropertiesName (dkName dk) owner))) (\<lambda>_.
               set_cond (RemoveStatusCondition customPropertiesConditionType)))
       else
         andThen (buildCustomPropertiesValue env source) (\<lambda>data.
           if data = [] then ret ()
           else
             andThen (lift (secret_Build (reCluster env) dk (buildCustomPropertiesName (dkName dk) owner) None
               (Some [''customProperties'' \<mapsto> data]))) (\<lambda>secret.
             andThen (with_secrets (create_or_update (WithOwner (dkName dk) (re_secrets env)) secret)) (\<lambda>_.
               set_cond (SetSecretCreated customPropertiesConditionType
                 (buildCustomPropertiesName (dkName dk) owner))))))"

section \<open>Deployment properties (\<open>deploymentproperties\<close>)\<close>

text \<open>The attributes are given with their sorted keys.\<close>

definition BuildContent :: "(smap \<Rightarrow> string list) \<Rightarrow> smap \<Rightarrow> string" where
  "BuildContent sortedKeys attrs =
     (if sortedKeys attrs = [] then []
      else ''[resource_attributes]'' @ [newline] @
        concat (map (\<lambda>k. k @ '' = '' @ (case attrs k of None \<Rightarrow> [] | Some v \<Rightarrow> v) @ [newline]) (sortedKeys attrs)))"

end
