(* ===== verification/SecretLaws.thy ===== *)
theory SecretLaws
  imports ActiveGateSecrets
begin

text \<open>
  What the reconcilers around one secret guarantee: what a failed deletion leaves behind, when an error
  condition outlives its cause, which part of the ActiveGate token the status shows, and how long the hash of
  the proxy lives.
\<close>

section \<open>Conditions leave the rest of the DynaKube alone\<close>

lemma add_condition_op_views [simp]:
  "dk_FF (add_condition_op c dk) = dk_FF dk"
  "dk_ActiveGate (add_condition_op c dk) = dk_ActiveGate dk"
  "IsDaemonsetRequired (dk_OneAgent (add_condition_op c dk)) = IsDaemonsetRequired (dk_OneAgent dk)"
  "dk_IsKubemonEnabled k (add_condition_op c dk) = dk_IsKubemonEnabled k dk"
  "pull_needed env (add_condition_op c dk) = pull_needed env dk"
  by (simp_all add: add_condition_op_def dk_FF_def dk_ActiveGate_def dk_OneAgent_def IsDaemonsetRequired_def
      dk_IsKubemonEnabled_def pull_needed_def dk_Extensions_def Let_def
      IsCloudNativeFullstackMode_def IsClassicFullStackMode_def IsHostMonitoringMode_def)

lemma removed_is_absent:
  "status_conditions (keFind env) \<Longrightarrow>
   \<not> has_cond env t (st\<lparr>clDk := add_condition_op (RemoveStatusCondition t) dk\<rparr>)"
  by (simp add: has_cond_def add_condition_op_def status_conditions.found_removed)

section \<open>Deletion\<close>

text \<open>What an attempt to delete the pull secret leaves: the call is made, a condition may be added.\<close>

lemma pull_deleteSecret_effect:
  "\<exists>r cs. pull_deleteSecret env name st =
     (r, st\<lparr>clSecrets := snd (Delete (re_secrets env) (dkNamespace (clDk st)) name (clSecrets st)),
            clDk := fold add_condition_op cs (clDk st)\<rparr>)"
proof -
  obtain r q where run: "Delete (re_secrets env) (dkNamespace (clDk st)) name (clSecrets st) = (r, q)" by fastforce
  then have run': "delete_secret env (clDk st) name st = (r, st\<lparr>clSecrets := q\<rparr>)"
    by (simp add: delete_secret_def with_secrets_def)
  have none: "\<exists>r' cs. (r0, st\<lparr>clSecrets := q\<rparr>) = (r', st\<lparr>clSecrets := q, clDk := fold add_condition_op cs (clDk st)\<rparr>)"
    for r0 :: "error + unit" by (rule exI[of _ r0], rule exI[of _ "[]"]) simp
  have one: "\<exists>r' cs. (r0, st\<lparr>clSecrets := q, clDk := add_condition_op c (clDk st)\<rparr>) =
      (r', st\<lparr>clSecrets := q, clDk := fold add_condition_op cs (clDk st)\<rparr>)"
    for r0 :: "error + unit" and c by (rule exI[of _ r0], rule exI[of _ "[c]"]) simp
  show ?thesis using none one by (cases r) (simp_all add: pull_deleteSecret_def step_simps run run')
qed

lemma fold_conditions_views [simp]:
  "dk_FF (fold add_condition_op cs dk) = dk_FF dk"
  "pull_needed env (fold add_condition_op cs dk) = pull_needed env dk"
  by (induction cs arbitrary: dk) simp_all

text \<open>Once the pull secret is no longer needed, one reconcile asks the API server to delete it and, whatever
  the server answers, succeeds and drops the condition that records the secret. Every later reconcile of
  an unneeded secret then returns at once and makes no call: a deletion that failed is never tried again.
\<close>

theorem failed_deletion_forgotten:
  assumes "status_conditions (keFind (reCluster env))"
    and "IsPublicRegistry (dk_FF (clDk st)) \<or> \<not> pull_needed env (clDk st)"
    and "has_cond (reCluster env) PullSecretConditionType st"
  shows "case pull_Reconcile env tokens st of (r, st1) \<Rightarrow>
     r = Inr () \<and>
     clSecrets st1 = snd (Delete (re_secrets env) (dkNamespace (clDk st))
       (dk_TenantRegistryPullSecretName (clDk st)) (clSecrets st)) \<and>
     pull_Reconcile env tokens' st1 = (Inr (), st1)"
proof -
  obtain r cs where del: "pull_deleteSecret env (dk_TenantRegistryPullSecretName (clDk st)) st =
     (r, st\<lparr>clSecrets := snd (Delete (re_secrets env) (dkNamespace (clDk st))
              (dk_TenantRegistryPullSecretName (clDk st)) (clSecrets st)),
            clDk := fold add_condition_op cs (clDk st)\<rparr>)"
    using pull_deleteSecret_effect by blast
  let ?st1 = "st\<lparr>clSecrets := snd (Delete (re_secrets env) (dkNamespace (clDk st))
              (dk_TenantRegistryPullSecretName (clDk st)) (clSecrets st)),
            clDk := add_condition_op (RemoveStatusCondition PullSecretConditionType) (fold add_condition_op cs (clDk st))\<rparr>"
  have first: "pull_Reconcile env tokens st = (Inr (), ?st1)"
    using assms(2,3) by (simp add: pull_Reconcile_def step_simps del)
  have "pull_Reconcile env tokens' ?st1 = (Inr (), ?st1)"
    using assms(2) removed_is_absent[OF assms(1)] by (simp add: pull_Reconcile_def step_simps)
  with first show ?thesis by simp
qed

section \<open>KSPM token\<close>

text \<open>A failed read of the KSPM token secret sets the condition to an error, and a reconcile that finds the
  secret later changes nothing: neither the error condition nor a missing hash of the token is repaired
  as long as the secret exists.
\<close>

theorem kspm_error_outlives_cause:
  assumes "dk_KSPM_IsEnabled (clDk st)" and "status_conditions (keFind (reCluster env))"
    and "get_secret env (clDk st) (kspm_GetTokenSecretName (clDk st)) st = (Inl e, st1)" and "\<not> is_not_found e"
    and "kspm_token_Reconcile env st = (r, st2)"
    and "fst (Get (re_secrets env') ns (kspm_GetTokenSecretName (clDk st)) (clSecrets st2)) = Inr secret"
    and "ns = dkNamespace (clDk st)"
  shows "r = Inl e \<and> fst (kspm_token_Reconcile env' st2) = Inr () \<and>
     clDk (snd (kspm_token_Reconcile env' st2)) = clDk st2 \<and>
     dstKSPMTokenSecretHash (dkStatus (clDk st2)) = dstKSPMTokenSecretHash (dkStatus (clDk st)) \<and>
     map_option (\<lambda>c. (condStatus c, condReason c))
       (keFind (reCluster env) (dstConditions (dkStatus (clDk st2))) kspmConditionType) = Some (False, ''KubeApiError'')"
proof -
  have dk1: "clDk st1 = clDk st" using assms(3) by (auto simp: get_secret_def with_secrets_def split: prod.splits)
  have run: "kspm_token_Reconcile env st =
      (Inl e, st1\<lparr>clDk := add_condition_op (kube_api_error_cond kspmConditionType) (clDk st)\<rparr>)"
    using assms(1,3,4) dk1 by (simp add: kspm_token_Reconcile_def ensureKSPMSecret_def step_simps)
  have r: "r = Inl e" and st2: "st2 = st1\<lparr>clDk := add_condition_op (kube_api_error_cond kspmConditionType) (clDk st)\<rparr>"
    using assms(5) run by simp_all
  have same: "dkName (clDk st2) = dkName (clDk st)" "dkNamespace (clDk st2) = dkNamespace (clDk st)"
      "dk_KSPM_IsEnabled (clDk st2)"
    using assms(1) by (simp_all add: st2 add_condition_op_def dk_KSPM_IsEnabled_def)
  obtain q where "Get (re_secrets env') ns (kspm_GetTokenSecretName (clDk st)) (clSecrets st2) = (Inr secret, q)"
    using assms(6) by (metis fst_conv surj_pair)
  then have "get_secret env' (clDk st2) (kspm_GetTokenSecretName (clDk st2)) st2 = (Inr secret, st2\<lparr>clSecrets := q\<rparr>)"
    using assms(7) by (simp add: get_secret_def with_secrets_def kspm_GetTokenSecretName_def same)
  then have second: "kspm_token_Reconcile env' st2 = (Inr (), st2\<lparr>clSecrets := q\<rparr>)"
    using same by (simp add: kspm_token_Reconcile_def ensureKSPMSecret_def step_simps)
  have "keFind (reCluster env) (dstConditions (dkStatus (clDk st2))) kspmConditionType =
      Some \<lparr>condType = kspmConditionType, condStatus = False, condReason = ''KubeApiError'',
            condMessage = ''A problem occurred when using the Kubernetes API''\<rparr>"
    by (simp add: st2 add_condition_op_def kube_api_error_cond_def status_conditions.found_status[OF assms(2)])
  then show ?thesis using r second by (simp add: st2 add_condition_op_def)
qed

section \<open>Public part of the ActiveGate token\<close>

text \<open>The status shows of an ActiveGate token \<open>prefix.public.secret\<close> the prefix and the public part only: the
  message is the same for every secret part. A token without a dot ends the reconcile with the run-time
  error, whatever else holds.
\<close>

theorem auth_token_secret_part_hidden:
  "CHR ''.'' \<notin> set a \<Longrightarrow> CHR ''.'' \<notin> set b \<Longrightarrow>
     tokenPublicPart (a @ ''.'' @ b @ ''.'' @ secret) = Inr (a @ ''.'' @ b) \<and> tokenPublicPart a = Inl slice_out_of_range"
proof -
  assume a: "CHR ''.'' \<notin> set a" and b: "CHR ''.'' \<notin> set b"
  have "split_on (CHR ''.'') (a @ ''.'' @ b @ ''.'' @ secret) = a # b # split_on (CHR ''.'') secret"
    using split_on_append[OF a] split_on_append[OF b] by simp
  then show ?thesis using split_on_free[OF a] by (simp add: tokenPublicPart_def)
qed

section \<open>Proxy\<close>

text \<open>The proxy secret exists only while a component needs the proxy, but the hash of the proxy in the status,
  which the pod templates carry, is reset by no branch of the reconciler: without a configured proxy the
  whole DynaKube stays as it is, the stale hash included.
\<close>

theorem stale_proxy_hash_kept:
  assumes "\<not> dk_HasProxy (clDk st)"
  shows "clDk (snd (proxy_Reconcile env st)) = clDk st \<and>
     clSecrets (snd (proxy_Reconcile env st)) =
       snd (Delete (re_secrets env) (dkNamespace (clDk st)) (proxy_BuildSecretName (dkName (clDk st))) (clSecrets st))"
  using assms
  by (simp add: proxy_Reconcile_def step_simps dk_NeedsActiveGateProxy_def dk_NeedsOneAgentProxy_def delete_secret_def)

section \<open>Witnesses\<close>

text \<open>A cluster whose API server refuses to delete secrets; the first read of a secret fails, too, if asked.\<close>

definition sample_secret_env :: "(secret_payload q_trace \<Rightarrow> error + secret_payload kobject) \<Rightarrow> secret_env" where
  "sample_secret_env answer =
     \<lparr>reCluster = sample_cluster_env\<lparr>keSecrets := (keSecrets sample_cluster_env)
        \<lparr>qeGet := (\<lambda>tr _ _. answer tr), qeDelete := (\<lambda>_ _ _. Some (HttpCode 500))\<rparr>\<rparr>,
      reURLHost = (\<lambda>_. None), reKubemonOperand = [], reClusterID = ''uid'', reDockerJSON = (\<lambda>_. Inr []),
      reMarshalData = (\<lambda>_. Inr []), reSecureHash = (\<lambda>_. Inr []), reParseProxy = (\<lambda>_. Inl (HttpCode 0)),
      reGetData = (\<lambda>_ _. Inl (HttpCode 404)), reRandomToken = (\<lambda>_. Inr []), reCertificateNew = None,
      reParseIP = (\<lambda>_. True), reCertificate = (\<lambda>_ _ _. Inr ([], [])), reCreated = (\<lambda>_. 0), reDays = (\<lambda>_. 0),
      reGetAuthToken = (\<lambda>_. Inl (HttpCode 500))\<rparr>"

lemma sample_secret_conditions: "status_conditions (keFind (reCluster (sample_secret_env a)))"
  by (simp add: sample_secret_env_def sample_cluster_env_def last.status_conditions_axioms)

definition sample_plain_dynakube :: "cond_op list \<Rightarrow> dynakube" where
  "sample_plain_dynakube cs = zero_dynakube\<lparr>dkStatus := zero_dynakube_status\<lparr>dstConditions := cs\<rparr>\<rparr>"

theorem failed_deletion_witness:
  "case pull_Reconcile (sample_secret_env (\<lambda>_. Inl (HttpCode 404))) sample_tokens
      (sample_cluster (sample_plain_dynakube [status_condition PullSecretConditionType True ''r'' ''m''])) of (r, st1) \<Rightarrow>
     r = Inr () \<and> qsTrace (clSecrets st1) \<noteq> [] \<and>
     pull_Reconcile (sample_secret_env (\<lambda>_. Inl (HttpCode 404))) sample_tokens st1 = (Inr (), st1)"
proof -
  let ?env = "sample_secret_env (\<lambda>_. Inl (HttpCode 404))" and
    ?st = "sample_cluster (sample_plain_dynakube [status_condition PullSecretConditionType True ''r'' ''m''])"
  have "\<not> pull_needed ?env (clDk ?st)"
    by (simp add: pull_needed_def sample_cluster_def sample_plain_dynakube_def sample_secret_env_def zero_dynakube_def
        zero_dynakube_spec_def zero_oneagent_spec_def zero_activegate_spec_def dk_ActiveGate_def ag_IsEnabled_def
        dk_OneAgent_def IsDaemonsetRequired_def dk_IsKubemonEnabled_def IsKubemonOperandEnabled_def
        IsCloudNativeFullstackMode_def IsClassicFullStackMode_def IsHostMonitoringMode_def
        dk_Extensions_def ext_IsAnyEnabled_def ext_IsPrometheusEnabled_def ext_IsDatabasesEnabled_def)
  moreover have "has_cond (reCluster ?env) PullSecretConditionType ?st"
    by (simp add: has_cond_def sample_secret_env_def sample_cluster_env_def sample_cluster_def sample_plain_dynakube_def
        last_condition_def status_condition_def)
  ultimately show ?thesis
    using failed_deletion_forgotten[OF sample_secret_conditions, of ?st "\<lambda>_. Inl (HttpCode 404)" sample_tokens sample_tokens]
    by (auto simp: Delete_def q_ask_def split: prod.splits)
qed

definition sample_kspm_dynakube :: dynakube where
  "sample_kspm_dynakube = zero_dynakube\<lparr>dkSpec := zero_dynakube_spec\<lparr>dspKSPM := Some []\<rparr>\<rparr>"

theorem kspm_error_witness:
  "\<exists>e st2. kspm_token_Reconcile (sample_secret_env (\<lambda>_. Inl (HttpCode 500))) (sample_cluster sample_kspm_dynakube) = (Inl e, st2) \<and>
     fst (kspm_token_Reconcile (sample_secret_env (\<lambda>_. Inr (example_object \<lparr>spData = None, spImmutable = None\<rparr>))) st2) = Inr ()"
proof -
  let ?env = "sample_secret_env (\<lambda>_. Inl (HttpCode 500))" and ?st = "sample_cluster sample_kspm_dynakube"
  let ?found = "example_object \<lparr>spData = None, spImmutable = None\<rparr>"
  obtain st1 where failed: "get_secret ?env (clDk ?st) (kspm_GetTokenSecretName (clDk ?st)) ?st = (Inl (HttpCode 500), st1)"
    by (simp add: get_secret_def with_secrets_def Get_def q_ask_def sample_secret_env_def)
  obtain r st2 where run: "kspm_token_Reconcile ?env ?st = (r, st2)" by fastforce
  have found: "fst (Get (re_secrets (sample_secret_env (\<lambda>_. Inr ?found))) (dkNamespace (clDk ?st)) n (clSecrets st2)) = Inr ?found" for n
    by (simp add: Get_def q_ask_def sample_secret_env_def)
  have enabled: "dk_KSPM_IsEnabled (clDk ?st)" "\<not> is_not_found (HttpCode 500)"
    by (simp_all add: sample_cluster_def sample_kspm_dynakube_def dk_KSPM_IsEnabled_def is_not_found_def)
  from kspm_error_outlives_cause[OF enabled(1) sample_secret_conditions failed enabled(2) run found refl] run
  show ?thesis by auto
qed

theorem auth_token_witness:
  "tokenPublicPart ''dt0g02.PUBLIC.SECRET'' = Inr ''dt0g02.PUBLIC''"
  using auth_token_secret_part_hidden[of "''dt0g02''" "''PUBLIC''" "''SECRET''"] by simp

theorem stale_proxy_hash_witness:
  "dstProxyURLHash (dkStatus (clDk (snd (proxy_Reconcile (sample_secret_env (\<lambda>_. Inl (HttpCode 404)))
      (sample_cluster (zero_dynakube\<lparr>dkStatus := zero_dynakube_status\<lparr>dstProxyURLHash := ''h''\<rparr>\<rparr>)))))) = ''h''"
  using stale_proxy_hash_kept[of "sample_cluster (zero_dynakube\<lparr>dkStatus := zero_dynakube_status\<lparr>dstProxyURLHash := ''h''\<rparr>\<rparr>)"]
  by (simp add: sample_cluster_def dk_HasProxy_def zero_dynakube_def zero_dynakube_spec_def)

end
