(* ===== verification/OneAgentCtrl.thy ===== *)
theory OneAgentCtrl
  imports SecretLaws OneAgentLaws VersionUpdate
begin

text \<open>
  The OneAgent reconciler (\<open>controllers/dynakube/oneagent\<close>): version, connection info and pull secret, then
  the config map of the connection info, the daemon set and the list of instances; or the clean-up. The
  default value \<open>ds_resources\<close> adds to the resources in memory is not written back here, nothing reads it.
\<close>

section \<open>Environment\<close>

text \<open>
  \<open>oeVersion\<close> are the clients of the version reconciler, \<open>oeUpdateInterval\<close> the environment variable
  \<open>ONEAGENT_OPERATOR_UPDATE_INTERVAL\<close>, \<open>oeListPods\<close> the answer to a list call by namespace and labels, which
  may carry an error and pods, \<open>oeRest\<close> the JSON of what the queries do not look into.
\<close>

record pod_instance =
  piNodeName :: string
  piName :: string
  piHostIP :: string

record oneagent_ctrl_env =
  oeSecrets :: secret_env
  oeManifest :: ds_env
  oeVersion :: version_env
  oeGetOA :: "string list \<Rightarrow> fetched_info \<times> error option"
  oeMarshalDaemonSet :: "daemon_set_manifest \<Rightarrow> error + 8 word list"
  oeRest :: "daemon_set_manifest \<Rightarrow> string"
  oeMarshalBytes :: "string \<Rightarrow> error + 8 word list"
  oeListPods :: "string \<Rightarrow> smap \<Rightarrow> pod_instance list \<times> error option"
  oeUpdateInterval :: string

abbreviation oe_cluster :: "oneagent_ctrl_env \<Rightarrow> cluster_env" where "oe_cluster env \<equiv> reCluster (oeSecrets env)"

definition oe_info :: "oneagent_ctrl_env \<Rightarrow> info_env" where
  "oe_info env = \<lparr>ieCluster = oe_cluster env, ieGetOA = oeGetOA env, ieGetAG = Inr zero_fetched_info\<rparr>"

abbreviation oaDaemonSetConditionType :: string where "oaDaemonSetConditionType \<equiv> ''OneAgentDaemonSet''"
abbreviation defaultUpdateInterval :: int where "defaultUpdateInterval \<equiv> 5 * minute"

definition DaemonSetCreatedCondition :: cond_op where
  "DaemonSetCreatedCondition =
     status_condition oaDaemonSetConditionType True ''DaemonSetCreated'' ''The OneAgent DaemonSet was created successfully.''"

definition DaemonSetGenerationFailedCondition :: cond_op where
  "DaemonSetGenerationFailedCondition =
     status_condition oaDaemonSetConditionType False ''DaemonSetGenerationFailed'' ''Failed to generate the DaemonSet configuration''"

definition on_oneagent_status :: "(oneagent_status \<Rightarrow> oneagent_status) \<Rightarrow> (cluster_state, unit) io" where
  "on_oneagent_status f =
     on_dk (\<lambda>dk. dk\<lparr>dkStatus := (dkStatus dk)\<lparr>dstOneAgent := f (dstOneAgent (dkStatus dk))\<rparr>\<rparr>)"

section \<open>Connection info config map\<close>

definition extractPublicData :: "dynakube \<Rightarrow> smap" where
  "extractPublicData dk =
     (let info = osConnectionInfo (dstOneAgent (dkStatus dk));
          data = (if ciTenantUUID info \<noteq> [] then [''tenant-uuid'' \<mapsto> ciTenantUUID info] else Map.empty)
      in if ciEndpoints info \<noteq> [] then data(''communication-endpoints'' \<mapsto> ciEndpoints info) else data)"

definition createOneAgentTenantConnectionInfoConfigMap :: "oneagent_ctrl_env \<Rightarrow> (cluster_state, unit) io" where
  "createOneAgentTenantConnectionInfoConfigMap env =
     andThen (gets clDk) (\<lambda>dk.
     andThen (lift (configmap_Build (oe_cluster env) dk (oa_GetConnectionInfoConfigMapName (dk_OneAgent dk))
       (component_labels (oe_cluster env) dk ''oneagent'') (Some (extractPublicData dk)))) (\<lambda>configMap.
     andThen (attempt (with_configmaps (create_or_update (keConfigMaps (oe_cluster env)) configMap))) (\<lambda>r.
       case r of
         Inl e \<Rightarrow> andThen (set_kube_api_error oaDaemonSetConditionType e) (\<lambda>_. throw e)
       | Inr _ \<Rightarrow> ret ())))"

definition deleteOneAgentTenantConnectionInfoConfigMap :: "oneagent_ctrl_env \<Rightarrow> (cluster_state, unit) io" where
  "deleteOneAgentTenantConnectionInfoConfigMap env =
     andThen (gets clDk) (\<lambda>dk.
       with_configmaps (Delete (keConfigMaps (oe_cluster env)) (dkNamespace dk)
         (oa_GetConnectionInfoConfigMapName (dk_OneAgent dk))))"

section \<open>Daemon set\<close>

definition getProcessGroupConfigHash :: "oneagent_ctrl_env \<Rightarrow> (cluster_state, string) io" where
  "getProcessGroupConfigHash env =
     andThen (gets clDk) (\<lambda>dk.
     andThen (attempt (get_secret (oeSecrets env) dk (GetSourceConfigSecretName (dkName dk)))) (\<lambda>r.
       case r of
         Inl e \<Rightarrow> if is_not_found e then ret [] else throw e
       | Inr secret \<Rightarrow>
           (case secret_data secret DeclarativeInputFileName of
              None \<Rightarrow> ret []
            | Some pgcData \<Rightarrow> lift (GenerateHash (oeMarshalBytes env) pgcData))))"

text \<open>Without a mode no manifest is built, and marking the hash of the nil daemon set fails at run time.\<close>

definition desired_builder :: "oneagent_ctrl_env \<Rightarrow> dynakube \<Rightarrow> string \<Rightarrow> ds_builder option" where
  "desired_builder env dk processGroupConfigHash =
     (let clusterID = reClusterID (oeSecrets env) in
      if IsClassicFullStackMode (dk_OneAgent dk) then NewClassicFullStack dk clusterID
      else if IsHostMonitoringMode (dk_OneAgent dk) then NewHostMonitoring dk clusterID processGroupConfigHash
      else if IsCloudNativeFullstackMode (dk_OneAgent dk) then NewCloudNativeFullStack dk clusterID processGroupConfigHash
      else None)"

definition with_hash_annotation :: "oneagent_ctrl_env \<Rightarrow> daemon_set_manifest \<Rightarrow> error + daemon_set_manifest" where
  "with_hash_annotation env ds =
     map_sum id (\<lambda>dsHash. ds\<lparr>dmfAnnotations := (dmfAnnotations ds)(AnnotationHash \<mapsto> dsHash)\<rparr>)
       (GenerateHash (oeMarshalDaemonSet env) ds)"

definition buildDesiredDaemonSet :: "oneagent_ctrl_env \<Rightarrow> (cluster_state, daemon_set_manifest) io" where
  "buildDesiredDaemonSet env =
     andThen (gets clDk) (\<lambda>dk.
     andThen (getProcessGroupConfigHash env) (\<lambda>processGroupConfigHash.
       case desired_builder env dk processGroupConfigHash of
         None \<Rightarrow> throw (Sentinel ''runtime error: invalid memory address or nil pointer dereference'')
       | Some b \<Rightarrow>
           andThen (lift (BuildDaemonSet (oeManifest env) b)) (\<lambda>ds. lift (with_hash_annotation env ds))))"

definition daemonset_object :: "oneagent_ctrl_env \<Rightarrow> daemon_set_manifest \<Rightarrow> workload_payload kobject" where
  "daemonset_object env ds =
     \<lparr>koName = dmfName ds, koNamespace = dmfNamespace ds, koUID = [], koResourceVersion = [],
      koAnnotations = dmfAnnotations ds, koLabels = Some (dmfLabels ds), koOwnerReferences = [],
      koPayload = \<lparr>wpReplicas = None, wpMatchLabels = dmfMatchLabels ds, wpRest = oeRest env ds\<rparr>\<rparr>"

definition delete_daemonset :: "oneagent_ctrl_env \<Rightarrow> dynakube \<Rightarrow> string \<Rightarrow> (cluster_state, unit) io" where
  "delete_daemonset env dk name = with_daemonsets (Delete (keDaemonSets (oe_cluster env)) (dkNamespace dk) name)"

text \<open>The daemon set that older versions of the operator named after the feature.\<close>

definition oldClassicDaemonset :: "dynakube \<Rightarrow> string" where
  "oldClassicDaemonset dk = dkName dk @ ''-'' @ ''classic''"

definition rolled_out :: "oneagent_ctrl_env \<Rightarrow> dynakube \<Rightarrow> (cluster_state, unit) io" where
  "rolled_out env dk =
     andThen (set_cond DaemonSetCreatedCondition) (\<lambda>_.
       api_failed_on oaDaemonSetConditionType (delete_daemonset env dk (oldClassicDaemonset dk)))"

definition reconcileRollout :: "oneagent_ctrl_env \<Rightarrow> (cluster_state, unit) io" where
  "reconcileRollout env =
     andThen (attempt (buildDesiredDaemonSet env)) (\<lambda>built.
       case built of
         Inl e \<Rightarrow> andThen (set_cond DaemonSetGenerationFailedCondition) (\<lambda>_. throw e)
       | Inr ds \<Rightarrow>
           andThen (gets clDk) (\<lambda>dk.
           andThen (lift (qeSetControllerReference (keDaemonSets (oe_cluster env)) (dkName dk) (daemonset_object env ds))) (\<lambda>dsDesired.
           andThen (api_failed_on oaDaemonSetConditionType (with_daemonsets
             (create_or_update (WithOwner (dkName dk) (keDaemonSets (oe_cluster env))) dsDesired))) (\<lambda>updated.
             if updated then rolled_out env dk else ret ()))))"

definition removeOneAgentDaemonSet :: "oneagent_ctrl_env \<Rightarrow> (cluster_state, unit) io" where
  "removeOneAgentDaemonSet env =
     andThen (gets clDk) (\<lambda>dk. delete_daemonset env dk (oa_GetDaemonsetName (dk_OneAgent dk)))"

section \<open>Instances\<close>

definition getOneagentPods :: "oneagent_ctrl_env \<Rightarrow> dynakube \<Rightarrow> string \<Rightarrow> pod_instance list \<times> error option" where
  "getOneagentPods env dk feature =
     oeListPods env (dkNamespace dk)
       (app_BuildLabels (NewAppLabels ''oneagent'' (dkName dk) feature (oa_GetVersion (dk_OneAgent dk))))"

definition getInstanceStatuses :: "pod_instance list \<Rightarrow> (string \<rightharpoonup> oneagent_instance)" where
  "getInstanceStatuses pods =
     fold (\<lambda>p m. m(piNodeName p \<mapsto> \<lparr>oiPodName = piName p, oiIPAddress = piHostIP p\<rparr>)) pods Map.empty"

text \<open>Assigning equal instances changes nothing, a nil map and an empty one are the same here.\<close>

definition reconcileInstanceStatuses :: "oneagent_ctrl_env \<Rightarrow> (cluster_state, unit) io" where
  "reconcileInstanceStatuses env =
     andThen (gets clDk) (\<lambda>dk.
       case getOneagentPods env dk (GetOneAgentDeploymentType dk) of
         (pods, err) \<Rightarrow>
           (case err of
              Some e \<Rightarrow>
                if pods = [] then throw e
                else andThen (on_oneagent_status (\<lambda>s. s\<lparr>osInstances := getInstanceStatuses pods\<rparr>)) (\<lambda>_. throw e)
            | None \<Rightarrow> on_oneagent_status (\<lambda>s. s\<lparr>osInstances := getInstanceStatuses pods\<rparr>)))"

definition oa_update_interval :: "string \<Rightarrow> int" where
  "oa_update_interval val =
     (if val = [] then defaultUpdateInterval
      else case atoi val of None \<Rightarrow> defaultUpdateInterval | Some x \<Rightarrow> wrap_int (x * minute))"

definition updateInstancesStatus :: "oneagent_ctrl_env \<Rightarrow> (cluster_state, unit) io" where
  "updateInstancesStatus env =
     andThen (gets clDk) (\<lambda>dk.
       if TimeoutReached (osLastInstanceStatusUpdate (dstOneAgent (dkStatus dk))) (Some (keNow (oe_cluster env)))
            (oa_update_interval (oeUpdateInterval env)) then
         andThen (reconcileInstanceStatuses env) (\<lambda>_.
           on_oneagent_status (\<lambda>s. s\<lparr>osLastInstanceStatusUpdate := Some (keNow (oe_cluster env))\<rparr>))
       else ret ())"

section \<open>Reconcile\<close>

definition oa_cleanUp :: "oneagent_ctrl_env \<Rightarrow> (cluster_state, unit) io" where
  "oa_cleanUp env =
     andThen (gets (has_cond (oe_cluster env) oaDaemonSetConditionType)) (\<lambda>present.
       if \<not> present then ret ()
       else
         andThen (attempt (deleteOneAgentTenantConnectionInfoConfigMap env)) (\<lambda>_.
         andThen (set_cond (RemoveStatusCondition oaDaemonSetConditionType)) (\<lambda>_.
         andThen (on_oneagent_status (\<lambda>s. s\<lparr>osInstances := Map.empty, osLastInstanceStatusUpdate := None\<rparr>)) (\<lambda>_.
           removeOneAgentDaemonSet env))))"

definition oa_deploy :: "oneagent_ctrl_env \<Rightarrow> Tokens \<Rightarrow> (cluster_state, unit) io" where
  "oa_deploy env tokens =
     andThen (pull_Reconcile (oeSecrets env) tokens) (\<lambda>_.
     andThen (createOneAgentTenantConnectionInfoConfigMap env) (\<lambda>_.
     andThen (reconcileRollout env) (\<lambda>_.
       updateInstancesStatus env)))"

definition oneagent_Reconcile :: "oneagent_ctrl_env \<Rightarrow> Tokens \<Rightarrow> (cluster_state, unit) io" where
  "oneagent_Reconcile env tokens =
     andThen (on_dynakube (ReconcileOneAgent (oeVersion env))) (\<lambda>_.
     andThen (oa_info_Reconcile (oe_info env)) (\<lambda>_.
     andThen (gets clDk) (\<lambda>dk.
       if \<not> IsDaemonsetRequired (dk_OneAgent dk) then oa_cleanUp env else oa_deploy env tokens)))"

end
