(* ===== verification/OneAgentRollout.thy ===== *)
theory OneAgentRollout
  imports OneAgentCtrl
begin

text \<open>
  Laws of the OneAgent reconciler: what a clean-up that failed leaves behind, what a rollout changes, and that
  nothing is deployed without connection info.
\<close>

section \<open>Views\<close>

lemma oneagent_views [simp]:
  "dkNamespace (add_condition_op c dk) = dkNamespace dk"
  "dkName (add_condition_op c dk) = dkName dk"
  "oa_GetDaemonsetName (dk_OneAgent (add_condition_op c dk)) = oa_GetDaemonsetName (dk_OneAgent dk)"
  "dkNamespace (oa_update_info f dk) = dkNamespace dk"
  "oa_GetDaemonsetName (dk_OneAgent (oa_update_info f dk)) = oa_GetDaemonsetName (dk_OneAgent dk)"
  "IsDaemonsetRequired (dk_OneAgent (oa_update_info f dk)) = IsDaemonsetRequired (dk_OneAgent dk)"
  "dstConditions (dkStatus (oa_update_info f dk)) = dstConditions (dkStatus dk)"
  by (simp_all add: add_condition_op_def oa_update_info_def dk_OneAgent_def oa_GetDaemonsetName_def
      IsDaemonsetRequired_def IsCloudNativeFullstackMode_def IsClassicFullStackMode_def IsHostMonitoringMode_def)

lemma info_needed_views [simp]:
  "oa_info_needed (add_condition_op c dk) = oa_info_needed dk"
  "oa_info_needed (oa_update_info f dk) = oa_info_needed dk"
  by (simp_all add: oa_info_needed_def add_condition_op_def oa_update_info_def dk_OneAgent_def dk_LogMonitoring_def
      lm_IsEnabled_def IsAppInjectionNeeded_def IsDaemonsetRequired_def IsCloudNativeFullstackMode_def
      IsClassicFullStackMode_def IsHostMonitoringMode_def IsApplicationMonitoringMode_def)

definition instances_cleared :: "dynakube \<Rightarrow> dynakube" where
  "instances_cleared dk = dk\<lparr>dkStatus := (dkStatus dk)\<lparr>dstOneAgent := (dstOneAgent (dkStatus dk))
     \<lparr>osInstances := Map.empty, osLastInstanceStatusUpdate := None\<rparr>\<rparr>\<rparr>"

lemma instances_cleared_views [simp]:
  "oa_GetDaemonsetName (dk_OneAgent (instances_cleared dk)) = oa_GetDaemonsetName (dk_OneAgent dk)"
  "IsDaemonsetRequired (dk_OneAgent (instances_cleared dk)) = IsDaemonsetRequired (dk_OneAgent dk)"
  "oa_info_needed (instances_cleared dk) = oa_info_needed dk"
  "dstConditions (dkStatus (instances_cleared dk)) = dstConditions (dkStatus dk)"
  "dkNamespace (instances_cleared dk) = dkNamespace dk"
  by (simp_all add: instances_cleared_def dk_OneAgent_def oa_GetDaemonsetName_def oa_info_needed_def dk_LogMonitoring_def lm_IsEnabled_def
      IsAppInjectionNeeded_def IsDaemonsetRequired_def IsCloudNativeFullstackMode_def
      IsClassicFullStackMode_def IsHostMonitoringMode_def IsApplicationMonitoringMode_def)

section \<open>Clean-up\<close>

text \<open>The clean-up of connection info nobody needs leaves its condition away and the rest of the conditions alone.\<close>

lemma info_cleanup_effect:
  assumes conds: "status_conditions (keFind (ieCluster env))" and "\<not> oa_info_needed (clDk st)"
  shows "\<exists>q dk'. oa_info_Reconcile env st = (Inr (), st\<lparr>clSecrets := q, clDk := dk'\<rparr>) \<and>
     \<not> has_cond (ieCluster env) oaConnectionInfoConditionType (st\<lparr>clSecrets := q, clDk := dk'\<rparr>) \<and>
     has_cond (ieCluster env) oaDaemonSetConditionType (st\<lparr>clSecrets := q, clDk := dk'\<rparr>) = has_cond (ieCluster env) oaDaemonSetConditionType st \<and>
     \<not> oa_info_needed dk' \<and> dkNamespace dk' = dkNamespace (clDk st) \<and>
     IsDaemonsetRequired (dk_OneAgent dk') = IsDaemonsetRequired (dk_OneAgent (clDk st)) \<and>
     oa_GetDaemonsetName (dk_OneAgent dk') = oa_GetDaemonsetName (dk_OneAgent (clDk st))"
proof (cases "has_cond (ieCluster env) oaConnectionInfoConditionType st")
  case False
  have "oa_info_Reconcile env st = (Inr (), st\<lparr>clSecrets := clSecrets st, clDk := clDk st\<rparr>)"
    using assms(2) False by (simp add: oa_info_Reconcile_def oa_info_cleanup_def step_simps)
  with assms(2) False show ?thesis by (intro exI[of _ "clSecrets st"] exI[of _ "clDk st"]) simp
next
  case True
  obtain r q where del: "Delete (keSecrets (ieCluster env)) (dkNamespace (clDk st)) (oa_TenantSecretName (clDk st)) (clSecrets st) = (r, q)"
    by fastforce
  then have del': "with_secrets (Delete (keSecrets (ieCluster env)) (dkNamespace (clDk st)) (oa_TenantSecretName (clDk st))) st =
      (r, st\<lparr>clSecrets := q\<rparr>)" by (simp add: with_secrets_def)
  let ?dk = "oa_update_info (\<lambda>_. zero_connection_info)
    (add_condition_op (RemoveStatusCondition oaConnectionInfoConditionType) (clDk st))"
  have "oa_info_Reconcile env st = (Inr (), st\<lparr>clSecrets := q, clDk := ?dk\<rparr>)"
    using assms(2) True by (simp add: oa_info_Reconcile_def oa_info_cleanup_def step_simps del')
  moreover have "dstConditions (dkStatus ?dk) = dstConditions (dkStatus (clDk st)) @ [RemoveStatusCondition oaConnectionInfoConditionType]"
    by (simp add: add_condition_op_def)
  ultimately show ?thesis
    using assms(2) status_conditions.found_removed[OF conds]
    by (intro exI[of _ q] exI[of _ ?dk]) (simp add: has_cond_def)
qed

lemma andThen_clear:
  "andThen (on_oneagent_status (\<lambda>s. s\<lparr>osInstances := Map.empty, osLastInstanceStatusUpdate := None\<rparr>)) f st =
     f () (st\<lparr>clDk := instances_cleared (clDk st)\<rparr>)"
  by (simp add: on_oneagent_status_def instances_cleared_def step_simps)

lemma cleanUp_effect:
  assumes "status_conditions (keFind (oe_cluster env))" and "has_cond (oe_cluster env) oaDaemonSetConditionType st"
  shows "\<exists>q. oa_cleanUp env st =
     (fst (Delete (keDaemonSets (oe_cluster env)) (dkNamespace (clDk st)) (oa_GetDaemonsetName (dk_OneAgent (clDk st))) (clDaemonSets st)),
      st\<lparr>clConfigMaps := q,
         clDk := instances_cleared (add_condition_op (RemoveStatusCondition oaDaemonSetConditionType) (clDk st)),
         clDaemonSets := snd (Delete (keDaemonSets (oe_cluster env)) (dkNamespace (clDk st))
           (oa_GetDaemonsetName (dk_OneAgent (clDk st))) (clDaemonSets st))\<rparr>)"
proof -
  obtain r q where "Delete (keConfigMaps (oe_cluster env)) (dkNamespace (clDk st))
      (oa_GetConnectionInfoConfigMapName (dk_OneAgent (clDk st))) (clConfigMaps st) = (r, q)" by fastforce
  then have del: "deleteOneAgentTenantConnectionInfoConfigMap env st = (r, st\<lparr>clConfigMaps := q\<rparr>)"
    by (simp add: deleteOneAgentTenantConnectionInfoConfigMap_def step_simps with_configmaps_def)
  show ?thesis
    using assms(2)
    by (intro exI[of _ q])
      (simp add: oa_cleanUp_def step_simps del andThen_clear removeOneAgentDaemonSet_def delete_daemonset_def
        with_daemonsets_def split: prod.split)
qed

text \<open>Without OneAgent the version reconciler forgets version and health check and takes its condition away.\<close>

definition version_forgotten :: "dynakube \<Rightarrow> dynakube" where
  "version_forgotten dk =
     add_condition_op (RemoveStatusCondition oaConditionType) (oa_set_healthcheck None (oa_set_target zero_version_status dk))"

lemma version_unwanted:
  "\<not> IsDaemonsetRequired (dk_OneAgent (clDk st)) \<Longrightarrow>
     on_dynakube (ReconcileOneAgent venv) st = (Inr (), st\<lparr>clDk := version_forgotten (clDk st)\<rparr>)"
proof -
  assume "\<not> IsDaemonsetRequired (dk_OneAgent (clDk st))"
  then have "oa_IsEnabled (clDk st) = (Inr False, version_forgotten (clDk st))"
    by (simp add: oa_IsEnabled_def version_forgotten_def io_simps oa_set_healthcheck_def oa_set_target_def
        add_condition_op_def dk_OneAgent_def IsDaemonsetRequired_def IsCloudNativeFullstackMode_def
        IsClassicFullStackMode_def IsHostMonitoringMode_def)
  then show ?thesis by (simp add: on_dynakube_def ReconcileOneAgent_def io_simps)
qed

lemma version_forgotten_views [simp]:
  "oa_GetDaemonsetName (dk_OneAgent (version_forgotten dk)) = oa_GetDaemonsetName (dk_OneAgent dk)"
  "IsDaemonsetRequired (dk_OneAgent (version_forgotten dk)) = IsDaemonsetRequired (dk_OneAgent dk)"
  "oa_info_needed (version_forgotten dk) = oa_info_needed dk"
  "dstConditions (dkStatus (version_forgotten dk)) = dstConditions (dkStatus dk) @ [RemoveStatusCondition oaConditionType]"
  "dkNamespace (version_forgotten dk) = dkNamespace dk"
  by (simp_all add: version_forgotten_def add_condition_op_def oa_set_healthcheck_def oa_set_target_def dk_OneAgent_def
      oa_GetDaemonsetName_def oa_info_needed_def dk_LogMonitoring_def lm_IsEnabled_def
      IsAppInjectionNeeded_def IsDaemonsetRequired_def IsCloudNativeFullstackMode_def
      IsClassicFullStackMode_def IsHostMonitoringMode_def IsApplicationMonitoringMode_def)

text \<open>A DynaKube without OneAgent, and nothing left of one in its conditions: reconciles do nothing in the cluster.\<close>

definition without_oneagent :: "oneagent_ctrl_env \<Rightarrow> cluster_state \<Rightarrow> bool" where
  "without_oneagent env st \<longleftrightarrow>
     \<not> oa_info_needed (clDk st) \<and> \<not> has_cond (oe_cluster env) oaDaemonSetConditionType st \<and>
     \<not> has_cond (oe_cluster env) oaConnectionInfoConditionType st"

lemma without_oneagent_idle:
  assumes "status_conditions (keFind (oe_cluster env))" and "without_oneagent env st"
  shows "\<exists>dk. oneagent_Reconcile env tokens st = (Inr (), st\<lparr>clDk := dk\<rparr>) \<and> without_oneagent env (st\<lparr>clDk := dk\<rparr>)"
proof -
  let ?st = "st\<lparr>clDk := version_forgotten (clDk st)\<rparr>"
  have cluster: "ieCluster (oe_info env) = oe_cluster env" by (simp add: oe_info_def)
  have kept: "without_oneagent env ?st"
    using assms(2) status_conditions.found_removed[OF assms(1)] by (simp add: without_oneagent_def has_cond_def)
  have unwanted: "\<not> IsDaemonsetRequired (dk_OneAgent (clDk st))" "\<not> oa_info_needed (clDk st)"
    using assms(2) by (auto simp: without_oneagent_def oa_info_needed_def)
  have "oneagent_Reconcile env tokens st = (Inr (), ?st)"
    using kept unwanted cluster
    by (simp add: oneagent_Reconcile_def andThen_def version_unwanted gets_def oa_info_Reconcile_def oa_info_cleanup_def
        oa_cleanUp_def ret_def without_oneagent_def)
  with kept show ?thesis by blast
qed

lemma without_oneagent_iterate:
  assumes "status_conditions (keFind (oe_cluster env))" and "without_oneagent env st"
  shows "\<exists>dk. ((\<lambda>s. snd (oneagent_Reconcile env tokens s)) ^^ n) st = st\<lparr>clDk := dk\<rparr> \<and>
     without_oneagent env (st\<lparr>clDk := dk\<rparr>)"
proof (induction n)
  case 0
  show ?case using assms(2) by (intro exI[of _ "clDk st"]) simp
next
  case (Suc n)
  then obtain dk where dk: "((\<lambda>s. snd (oneagent_Reconcile env tokens s)) ^^ n) st = st\<lparr>clDk := dk\<rparr>"
    "without_oneagent env (st\<lparr>clDk := dk\<rparr>)" by blast
  obtain dk' where "oneagent_Reconcile env tokens (st\<lparr>clDk := dk\<rparr>) = (Inr (), st\<lparr>clDk := dk\<rparr>\<lparr>clDk := dk'\<rparr>)"
    "without_oneagent env (st\<lparr>clDk := dk\<rparr>\<lparr>clDk := dk'\<rparr>)"
    using without_oneagent_idle[OF assms(1) dk(2)] by blast
  with dk show ?case by (intro exI[of _ dk']) simp
qed

text \<open>C14. When a DynaKube has no OneAgent section any more (nor log monitoring; a switch to application monitoring
  is another case), the reconcile that removes the OneAgent asks once for the deletion of the daemon set and
  fails when the server does. The condition that records the deployment is gone by then, so that every later
  reconcile, however many follow, succeeds without any call to the cluster: the daemon set keeps running.
\<close>

theorem failed_removal_keeps_daemonset:
  assumes "status_conditions (keFind (oe_cluster env))"
    and "\<not> oa_info_needed (clDk st)" and "has_cond (oe_cluster env) oaDaemonSetConditionType st"
  shows "case oneagent_Reconcile env tokens st of (r, st1) \<Rightarrow>
     (r, clDaemonSets st1) = Delete (keDaemonSets (oe_cluster env)) (dkNamespace (clDk st))
       (oa_GetDaemonsetName (dk_OneAgent (clDk st))) (clDaemonSets st) \<and>
     (\<exists>dk dk'. ((\<lambda>s. snd (oneagent_Reconcile env tokens' s)) ^^ n) st1 = st1\<lparr>clDk := dk\<rparr> \<and>
        oneagent_Reconcile env tokens' (st1\<lparr>clDk := dk\<rparr>) = (Inr (), st1\<lparr>clDk := dk'\<rparr>))"
proof -
  let ?c = "oe_cluster env" and ?st0 = "st\<lparr>clDk := version_forgotten (clDk st)\<rparr>"
  have cluster: "ieCluster (oe_info env) = ?c" by (simp add: oe_info_def)
  have unwanted: "\<not> IsDaemonsetRequired (dk_OneAgent (clDk st))" using assms(2) by (simp add: oa_info_needed_def)
  have present0: "has_cond ?c oaDaemonSetConditionType ?st0"
    using assms(3) status_conditions.found_removed[OF assms(1)] by (simp add: has_cond_def)
  obtain q dk' where info: "oa_info_Reconcile (oe_info env) ?st0 = (Inr (), ?st0\<lparr>clSecrets := q, clDk := dk'\<rparr>)"
    and gone: "\<not> has_cond ?c oaConnectionInfoConditionType (?st0\<lparr>clSecrets := q, clDk := dk'\<rparr>)"
    and present: "has_cond ?c oaDaemonSetConditionType (?st0\<lparr>clSecrets := q, clDk := dk'\<rparr>)"
    and dk': "\<not> oa_info_needed dk'" "dkNamespace dk' = dkNamespace (clDk st)"
      "oa_GetDaemonsetName (dk_OneAgent dk') = oa_GetDaemonsetName (dk_OneAgent (clDk st))"
    using info_cleanup_effect[of "oe_info env" ?st0] assms(1,2) present0 cluster by auto
  have dk'_unwanted: "\<not> IsDaemonsetRequired (dk_OneAgent dk')" using dk'(1) by (simp add: oa_info_needed_def)
  let ?st = "?st0\<lparr>clSecrets := q, clDk := dk'\<rparr>"
  let ?del = "Delete (keDaemonSets ?c) (dkNamespace (clDk st)) (oa_GetDaemonsetName (dk_OneAgent (clDk st))) (clDaemonSets st)"
  obtain q' where clean: "oa_cleanUp env ?st = (fst ?del, ?st\<lparr>clConfigMaps := q',
      clDk := instances_cleared (add_condition_op (RemoveStatusCondition oaDaemonSetConditionType) dk'), clDaemonSets := snd ?del\<rparr>)"
    using cleanUp_effect[OF assms(1) present] dk' by auto
  let ?st1 = "?st\<lparr>clConfigMaps := q', clDk := instances_cleared (add_condition_op (RemoveStatusCondition oaDaemonSetConditionType) dk'),
      clDaemonSets := snd ?del\<rparr>"
  have first: "oneagent_Reconcile env tokens st = (fst ?del, ?st1)"
    using clean dk'_unwanted info by (simp add: oneagent_Reconcile_def andThen_def version_unwanted[OF unwanted] gets_def)
  have idle: "without_oneagent env ?st1"
    using gone dk'(1) status_conditions.found_removed[OF assms(1)] info_needed_views(1)[of "RemoveStatusCondition oaDaemonSetConditionType" dk']
    unfolding add_condition_op_def by (simp add: has_cond_def without_oneagent_def)
  obtain dk where later: "((\<lambda>s. snd (oneagent_Reconcile env tokens' s)) ^^ n) ?st1 = ?st1\<lparr>clDk := dk\<rparr>"
    "without_oneagent env (?st1\<lparr>clDk := dk\<rparr>)"
    using without_oneagent_iterate[OF assms(1) idle] by blast
  obtain dk2 where "oneagent_Reconcile env tokens' (?st1\<lparr>clDk := dk\<rparr>) = (Inr (), ?st1\<lparr>clDk := dk\<rparr>\<lparr>clDk := dk2\<rparr>)"
    using without_oneagent_idle[OF assms(1) later(2)] by blast
  then have "\<exists>dk dk'. ((\<lambda>s. snd (oneagent_Reconcile env tokens' s)) ^^ n) ?st1 = ?st1\<lparr>clDk := dk\<rparr> \<and>
      oneagent_Reconcile env tokens' (?st1\<lparr>clDk := dk\<rparr>) = (Inr (), ?st1\<lparr>clDk := dk'\<rparr>)"
    using later(1) by (intro exI[of _ dk] exI[of _ dk2]) simp
  then show ?thesis unfolding first by simp
qed

section \<open>Rollout\<close>

lemma desired_builder_required:
  "IsDaemonsetRequired (dk_OneAgent dk) \<Longrightarrow> desired_builder env dk h \<noteq> None"
  by (auto simp: desired_builder_def IsDaemonsetRequired_def NewClassicFullStack_def NewHostMonitoring_def
      NewCloudNativeFullStack_def IsClassicFullStackMode_def IsHostMonitoringMode_def IsCloudNativeFullstackMode_def
      dk_OneAgent_def Let_def)




section \<open>Without connection info\<close>

lemma unusable_info_run:
  assumes "ieGetOA env (getRequiredActiveGateServiceIPs (clDk st)) = (info, Some e)"
  shows "\<exists>e' dk'. oa_reconcileConnectionInfo env st = (Inl e', st\<lparr>clDk := dk'\<rparr>) \<and> IsPostponedError e' = IsPostponedError e"
proof -
  have wrapped: "IsPostponedError (WithMsg m e) = IsPostponedError e" for m
    by (simp add: IsPostponedError_def errors_is_def)
  have "IsPostponedError (Sentinel NoCommunicationEndpointsError)" "IsPostponedError (Sentinel StaleNetworkZoneEndpointsError)"
    by (simp_all add: IsPostponedError_def errors_is_def)
  then show ?thesis
    by (auto simp: oa_reconcileConnectionInfo_def step_simps assms wrapped)
qed

text \<open>C20. When the request for the connection info fails or the client postpones (no endpoints yet, or endpoints
  without the local ActiveGate), the reconcile deploys nothing: no call is made for the daemon set, the config
  map, or the pull secret, and no deployed agent is touched. The error is returned, and it is a postponing one
  exactly when the client postponed. A rejected network zone is no such failure: the client answers it with
  empty connection info and no error, and the rollout goes on.
\<close>

theorem no_rollout_without_connection_info:
  assumes "on_dynakube (ReconcileOneAgent (oeVersion env)) st = (Inr (), st0)" and "oa_info_needed (clDk st0)"
    and "oeGetOA env (getRequiredActiveGateServiceIPs (clDk st0)) = (info, Some e)"
  shows "case oneagent_Reconcile env tokens st of (r, st') \<Rightarrow>
     (\<exists>e'. r = Inl e' \<and> IsPostponedError e' = IsPostponedError e) \<and> clDaemonSets st' = clDaemonSets st0 \<and>
     clConfigMaps st' = clConfigMaps st0 \<and> clSecrets st' = clSecrets st0"
proof -
  have "ieGetOA (oe_info env) (getRequiredActiveGateServiceIPs (clDk st0)) = (info, Some e)"
    using assms(3) by (simp add: oe_info_def)
  from unusable_info_run[OF this] obtain e' dk' where
    run: "oa_reconcileConnectionInfo (oe_info env) st0 = (Inl e', st0\<lparr>clDk := dk'\<rparr>)" "IsPostponedError e' = IsPostponedError e"
    by blast
  have "oneagent_Reconcile env tokens st = (Inl e', st0\<lparr>clDk := dk'\<rparr>)"
    using assms(1,2) run(1) by (simp add: oneagent_Reconcile_def oa_info_Reconcile_def andThen_def gets_def)
  with run(2) show ?thesis by auto
qed

section \<open>Witnesses\<close>

text \<open>A cluster that stores what it is given, except that it refuses to delete daemon sets when asked to fail.\<close>

definition sample_oneagent_env :: "bool \<Rightarrow> fetched_info \<times> error option \<Rightarrow> oneagent_ctrl_env" where
  "sample_oneagent_env refuse answer =
     \<lparr>oeSecrets = (sample_secret_env (\<lambda>_. Inl (ApiStatus ''NotFound'')))\<lparr>reCluster :=
        (if refuse then sample_cluster_env\<lparr>keDaemonSets := (keDaemonSets sample_cluster_env)
           \<lparr>qeDelete := (\<lambda>_ _ _. Some (HttpCode 500))\<rparr>\<rparr> else sample_cluster_env)\<rparr>,
      oeManifest = sample_ds_env, oeVersion = sample_env, oeGetOA = (\<lambda>_. answer),
      oeMarshalDaemonSet = (\<lambda>_. Inr []), oeRest = (\<lambda>_. []), oeMarshalBytes = (\<lambda>_. Inr []),
      oeListPods = (\<lambda>_ _. ([], None)), oeUpdateInterval = []\<rparr>"

lemma sample_oneagent_conditions: "status_conditions (keFind (oe_cluster (sample_oneagent_env b a)))"
  by (simp add: sample_oneagent_env_def sample_cluster_env_def last.status_conditions_axioms)

theorem failed_removal_witness:
  "\<exists>st1. oneagent_Reconcile (sample_oneagent_env True (zero_fetched_info, None)) sample_tokens
      (sample_cluster (sample_plain_dynakube [DaemonSetCreatedCondition])) = (Inl (HttpCode 500), st1) \<and>
     (\<exists>dk. oneagent_Reconcile (sample_oneagent_env True (zero_fetched_info, None)) sample_tokens st1 = (Inr (), st1\<lparr>clDk := dk\<rparr>))"
proof -
  let ?env = "sample_oneagent_env True (zero_fetched_info, None)" and
    ?st = "sample_cluster (sample_plain_dynakube [DaemonSetCreatedCondition])"
  have unwanted: "\<not> oa_info_needed (clDk ?st)" by code_simp
  have present: "has_cond (oe_cluster ?env) oaDaemonSetConditionType ?st"
    by (simp add: has_cond_def sample_oneagent_env_def sample_cluster_env_def sample_cluster_def sample_plain_dynakube_def
        last_condition_def DaemonSetCreatedCondition_def status_condition_def)
  have refused: "fst (Delete (keDaemonSets (oe_cluster ?env)) ns n q) = Inl (HttpCode 500)" for ns n q
    by (simp add: Delete_def q_ask_def sample_oneagent_env_def is_not_found_def)
  obtain r st1 where run: "oneagent_Reconcile ?env sample_tokens ?st = (r, st1)" by fastforce
  note all = failed_removal_keeps_daemonset[OF sample_oneagent_conditions unwanted present, where tokens = sample_tokens
      and tokens' = sample_tokens and n = 0, unfolded run prod.case funpow.simps(1) id_apply]
  have del: "(r, clDaemonSets st1) = Delete (keDaemonSets (oe_cluster ?env)) (dkNamespace (clDk ?st))
      (oa_GetDaemonsetName (dk_OneAgent (clDk ?st))) (clDaemonSets ?st)"
    by (rule conjunct1[OF all])
  from conjunct2[OF all] obtain dk dk' where same: "st1 = st1\<lparr>clDk := dk\<rparr>"
    and "oneagent_Reconcile ?env sample_tokens (st1\<lparr>clDk := dk\<rparr>) = (Inr (), st1\<lparr>clDk := dk'\<rparr>)" by (elim exE conjE)
  from this(2)[folded same] have "\<exists>dk. oneagent_Reconcile ?env sample_tokens st1 = (Inr (), st1\<lparr>clDk := dk\<rparr>)" by (rule exI)
  moreover have "r = Inl (HttpCode 500)" using refused del by (metis fst_conv)
  ultimately show ?thesis using run by blast
qed

definition sample_rollout_dynakube :: dynakube where
  "sample_rollout_dynakube = zero_dynakube\<lparr>dkSpec := zero_dynakube_spec
     \<lparr>dspOneAgent := zero_oneagent_spec\<lparr>HostMonitoring := Some zero_host_inject\<rparr>\<rparr>\<rparr>"

lemma sample_rollout_needed: "oa_info_needed sample_rollout_dynakube"
  by code_simp



lemma info_needed_settings:
  "same_settings d d' \<Longrightarrow> oa_info_needed d' = oa_info_needed d"
  by (simp add: same_settings_def oa_info_needed_def dk_OneAgent_def dk_LogMonitoring_def lm_IsEnabled_def
      IsAppInjectionNeeded_def IsDaemonsetRequired_def IsCloudNativeFullstackMode_def
      IsClassicFullStackMode_def IsHostMonitoringMode_def IsApplicationMonitoringMode_def)

theorem no_rollout_witness:
  "\<exists>e'. fst (oneagent_Reconcile (sample_oneagent_env False (zero_fetched_info, Some (Sentinel NoCommunicationEndpointsError)))
      sample_tokens (sample_cluster sample_rollout_dynakube)) = Inl e' \<and> IsPostponedError e'"
proof -
  let ?env = "sample_oneagent_env False (zero_fetched_info, Some (Sentinel NoCommunicationEndpointsError))" and
    ?st = "sample_cluster sample_rollout_dynakube"
  let ?dk = "snd (ReconcileOneAgent sample_env sample_rollout_dynakube)"
  have "fst (ReconcileOneAgent sample_env sample_rollout_dynakube) = Inr ()" by code_simp
  then have "on_dynakube (ReconcileOneAgent (oeVersion ?env)) ?st = (Inr (), ?st\<lparr>clDk := ?dk\<rparr>)"
    by (cases "ReconcileOneAgent sample_env sample_rollout_dynakube")
      (simp add: on_dynakube_def sample_oneagent_env_def sample_cluster_def)
  moreover have "oa_info_needed (clDk (?st\<lparr>clDk := ?dk\<rparr>))"
    using sample_rollout_needed ReconcileOneAgent_settings[of sample_rollout_dynakube sample_env]
    by (simp add: info_needed_settings)
  moreover have "oeGetOA ?env (getRequiredActiveGateServiceIPs (clDk (?st\<lparr>clDk := ?dk\<rparr>))) = (zero_fetched_info, Some (Sentinel NoCommunicationEndpointsError))"
    by (simp add: sample_oneagent_env_def)
  ultimately show ?thesis
    using no_rollout_without_connection_info[of ?env ?st "?st\<lparr>clDk := ?dk\<rparr>" zero_fetched_info "Sentinel NoCommunicationEndpointsError" sample_tokens]
    by (auto simp: IsPostponedError_def errors_is_def split: prod.splits)
qed


end
