(* ===== verification/ActiveGateWorkload.thy ===== *)
theory ActiveGateWorkload
  imports OneAgentLaws SecretLaws DynaKubeValidation DynaKubePhase
begin

text \<open>
  The stateful set of the ActiveGate (\<open>activegate/internal/statefulset\<close>, its \<open>builder\<close> and \<open>modifiers\<close>,
  \<open>activegate/capability\<close>, \<open>activegate/statefulset/probe\<close>): the base manifest, then every modifier that is
  enabled, in order. The modifiers share one priority map of environment variables.
\<close>

section \<open>Manifest\<close>

text \<open>Volumes and mounts are those of the operator or those of the spec, which are passed on.\<close>

datatype ag_volume = OperatorVolume manifest_volume | UserVolume k8s_volume
datatype ag_mount = OperatorMount pod_mount | UserMount volume_mount

fun ag_volume_name :: "ag_volume \<Rightarrow> string" where
  "ag_volume_name (OperatorVolume v) = mvName v"
| "ag_volume_name (UserVolume v) = volName v"

fun ag_mount_name :: "ag_mount \<Rightarrow> string" where
  "ag_mount_name (OperatorMount m) = pmName m"
| "ag_mount_name (UserMount m) = vmName m"

fun ag_mount_path :: "ag_mount \<Rightarrow> string" where
  "ag_mount_path (OperatorMount m) = pmMountPath m"
| "ag_mount_path (UserMount m) = vmMountPath m"

datatype probe_port = PortNumber int | PortName string

text \<open>An HTTPS probe.\<close>

record http_probe =
  hpPath :: string
  hpPort :: probe_port
  hpInitialDelaySeconds :: int
  hpPeriodSeconds :: int
  hpFailureThreshold :: int
  hpTimeoutSeconds :: int
  hpSuccessThreshold :: int

record ag_container =
  acName :: string
  acImage :: string
  acImagePullPolicy :: string
  acWorkingDir :: string
  acCommand :: "string list"
  acArgs :: "string list"
  acResources :: resource_requirements
  acEnv :: "env_var list"
  acMounts :: "ag_mount list"
  acPorts :: "(string \<times> int) list"
  acReadinessProbe :: "http_probe option"
  acLivenessProbe :: "http_probe option"
  acSecurityContext :: "manifest_security option"

record topology_constraint =
  tcMaxSkew :: int
  tcTopologyKey :: string
  tcWhenUnsatisfiable :: string
  tcNodeTaintsPolicy :: "string option"
  tcMatchLabels :: smap

datatype topology = GivenConstraint k8s_value | DefaultConstraint topology_constraint

text \<open>The spec of a volume claim: given, or \<open>ReadWriteOnce\<close> with a request for storage.\<close>

datatype claim_spec = GivenClaim k8s_value | StorageClaim string

record ag_pod =
  apContainers :: "ag_container list"
  apInitContainers :: "ag_container list"
  apNodeSelector :: smap
  apServiceAccountName :: string
  apAffinity :: "(string \<times> string list) list"
  apTolerations :: "k8s_value list"
  apFSGroup :: int
  apSeccompProfile :: seccomp_profile
  apImagePullSecrets :: "string list"
  apPriorityClassName :: string
  apDNSPolicy :: string
  apTerminationGracePeriodSeconds :: "int option"
  apTopologySpreadConstraints :: "topology list"
  apVolumes :: "ag_volume list"
  apAutomountServiceAccountToken :: bool

text \<open>The retention policy of claims is \<open>Delete\<close> where there are claims; the pod management is parallel.\<close>

record stateful_set_manifest =
  sfmName :: string
  sfmNamespace :: string
  sfmLabels :: smap
  sfmAnnotations :: smap
  sfmReplicas :: "int option"
  sfmMatchLabels :: smap
  sfmTemplateLabels :: smap
  sfmTemplateAnnotations :: smap
  sfmRollingUpdate :: "k8s_value option"
  sfmPod :: ag_pod
  sfmVolumeClaimTemplates :: "(string \<times> claim_spec) list option"

section \<open>Capability (\<open>capability.go\<close>)\<close>

record capability =
  capProperties :: "capability_properties option"
  capArgName :: string

definition cap_Enabled :: "capability \<Rightarrow> bool" where
  "cap_Enabled c \<longleftrightarrow> capArgName c \<noteq> []"

definition activeGateCapabilities :: "string \<rightharpoonup> string" where
  "activeGateCapabilities =
     [KubeMonCapability \<mapsto> ''kubernetes_monitoring'', RoutingCapability \<mapsto> ''MSGrouter'',
      MetricsIngestCapability \<mapsto> ''metrics_ingest'', DynatraceAPICapability \<mapsto> ''restInterface'',
      DebuggingCapability \<mapsto> ''debugging'']"

definition NewMultiCapability :: "dynakube \<Rightarrow> capability" where
  "NewMultiCapability dk =
     (if \<not> ag_IsEnabled (dk_ActiveGate dk) then \<lparr>capProperties = None, capArgName = []\<rparr>
      else
        \<lparr>capProperties = Some (agCapabilityProperties (dspActiveGate (dkSpec dk))),
         capArgName = join_sep '',''
           (List.map_filter activeGateCapabilities (agCapabilities (dspActiveGate (dkSpec dk))) @
            (if ext_IsAnyEnabled (dk_Extensions dk) then [''extension_controller''] else []) @
            (if ti_IsEnabled (dspTelemetryIngest (dkSpec dk)) \<or> otlp_IsEnabled (dk_OTLPExporterConfiguration dk)
             then [''log_analytics_collector'', ''generic_ingest'', ''otlp_ingest''] else []))\<rparr>)"

definition withHTTPSPort :: "string \<Rightarrow> string" where
  "withHTTPSPort host = host @ '':443''"

definition buildDNSEntry :: "string \<Rightarrow> string" where
  "buildDNSEntry host = ''https://'' @ host @ ''/communication''"

definition BuildDNSEntryPoint :: "(string \<Rightarrow> bool) \<Rightarrow> dynakube \<Rightarrow> string" where
  "BuildDNSEntryPoint isIPv6 dk =
     (let entries = map (\<lambda>ip. buildDNSEntry (withHTTPSPort (if isIPv6 ip then ''['' @ ip @ '']'' else ip)))
                      (asServiceIPs (dstActiveGate (dkStatus dk)))
      in join_sep '','' (if ag_IsRoutingEnabled (dk_ActiveGate dk)
                        then entries @ [buildDNSEntry (withHTTPSPort (BuildServiceHostname dk))] else entries))"

section \<open>Base manifest (\<open>statefulset.go\<close>)\<close>

record ag_workload_env =
  aeManifest :: ds_env
  aeMarshalClaims :: "(string \<times> claim_spec) list \<Rightarrow> error + 8 word list"

record sts_builder =
  sbCapability :: capability_properties
  sbArgName :: string
  sbKubeUID :: string
  sbConfigHash :: string
  sbDynakube :: dynakube

abbreviation ag_container_name :: string where "ag_container_name \<equiv> ''activegate''"

definition IsActiveGateAppArmor :: "feature_flags \<Rightarrow> bool" where
  "IsActiveGateAppArmor ff \<longleftrightarrow> getBoolWithDefault ff (FFPrefix @ ''activegate-apparmor'') False"

definition probe_Readiness :: http_probe where
  "probe_Readiness =
     \<lparr>hpPath = ''/rest/health'', hpPort = PortNumber 9999, hpInitialDelaySeconds = 90, hpPeriodSeconds = 15,
      hpFailureThreshold = 3, hpTimeoutSeconds = 2, hpSuccessThreshold = 1\<rparr>"

definition probe_Liveness :: http_probe where
  "probe_Liveness =
     \<lparr>hpPath = ''/rest/state'', hpPort = PortNumber 9999, hpInitialDelaySeconds = 90, hpPeriodSeconds = 30,
      hpFailureThreshold = 2, hpTimeoutSeconds = 1, hpSuccessThreshold = 1\<rparr>"

definition GetSecurityContext :: "bool \<Rightarrow> manifest_security" where
  "GetSecurityContext readOnlyRootFileSystem =
     \<lparr>msPrivileged = Some False, msAllowPrivilegeEscalation = Some False, msRunAsNonRoot = Some True,
      msRunAsUser = Some 1001, msRunAsGroup = Some 1001, msReadOnlyRootFilesystem = Some readOnlyRootFileSystem,
      msCapabilities = Some ([], [''ALL'']), msSeccompProfile = Some SeccompRuntimeDefault, msAppArmorProfile = None\<rparr>"

definition ag_GetImage :: "dynakube \<Rightarrow> string" where
  "ag_GetImage dk = vsImageID (asVersionStatus (dstActiveGate (dkStatus dk)))"

definition ag_app_labels :: "sts_builder \<Rightarrow> app_labels" where
  "ag_app_labels b =
     NewAppLabels ''activegate'' (dkName (sbDynakube b)) ''activegate''
       (vsVersion (asVersionStatus (dstActiveGate (dkStatus (sbDynakube b)))))"

definition isDefaultPVCNeeded :: "dynakube \<Rightarrow> bool" where
  "isDefaultPVCNeeded dk \<longleftrightarrow>
     ti_IsEnabled (dspTelemetryIngest (dkSpec dk)) \<and> agUseEphemeralVolume (dspActiveGate (dkSpec dk)) \<noteq> Some True"

definition ag_buildVolumes :: "sts_builder \<Rightarrow> ag_volume list" where
  "ag_buildVolumes b =
     map UserVolume (cpVolumes (sbCapability b)) @
     (if agVolumeClaimTemplate (dspActiveGate (dkSpec (sbDynakube b))) = None \<and> \<not> isDefaultPVCNeeded (sbDynakube b)
      then [OperatorVolume \<lparr>mvName = ''ag-tmp-gateway'', mvSource = EmptyDirVolume\<rparr>] else [])"

definition ag_buildVolumeMounts :: "sts_builder \<Rightarrow> ag_mount list" where
  "ag_buildVolumeMounts b =
     map UserMount (cpVolumeMounts (sbCapability b)) @ [OperatorMount (rw_mount ''ag-tmp-gateway'' ''/var/tmp/dynatrace/gateway'')]"

definition defaultTopologyConstraints :: "sts_builder \<Rightarrow> topology list" where
  "defaultTopologyConstraints b =
     map DefaultConstraint
       [\<lparr>tcMaxSkew = 1, tcTopologyKey = ''topology.kubernetes.io/zone'', tcWhenUnsatisfiable = ''ScheduleAnyway'',
         tcNodeTaintsPolicy = None, tcMatchLabels = app_BuildMatchLabels (ag_app_labels b)\<rparr>,
        \<lparr>tcMaxSkew = 1, tcTopologyKey = ''kubernetes.io/hostname'', tcWhenUnsatisfiable = ''ScheduleAnyway'',
         tcNodeTaintsPolicy = Some ''Honor'', tcMatchLabels = app_BuildMatchLabels (ag_app_labels b)\<rparr>]"

definition buildTopologySpreadConstraints :: "sts_builder \<Rightarrow> topology list" where
  "buildTopologySpreadConstraints b =
     (if cpTopologySpreadConstraints (sbCapability b) \<noteq> []
      then map GivenConstraint (cpTopologySpreadConstraints (sbCapability b)) else defaultTopologyConstraints b)"

definition ag_nodeAffinity :: "dynakube \<Rightarrow> (string \<times> string list) list" where
  "ag_nodeAffinity dk =
     (let source = vsSource (asVersionStatus (dstActiveGate (dkStatus dk)))
      in if source = TenantRegistryVersionSource \<or> source = CustomVersionVersionSource
         then NewAMDOnlyNodeAffinity else NewMultiArchNodeAffinity)"

definition ag_common_envs :: "sts_builder \<Rightarrow> env_var list" where
  "ag_common_envs b =
     (let dk = sbDynakube b in
      [env_literal ''DT_CAPABILITIES'' (sbArgName b),
       env_literal ''DT_ID_SEED_NAMESPACE'' (dkNamespace dk),
       env_literal ''DT_ID_SEED_K8S_CLUSTER_ID'' (sbKubeUID b),
       \<lparr>evName = ''DT_DEPLOYMENT_METADATA'', evValue = [],
        evValueFrom = Some (ConfigMapKeyRef (GetDeploymentMetadataConfigMapName (dkName dk)) ''activegate'')\<rparr>,
       env_literal ''DT_HTTP_PORT'' ''9998''] @
      (if cpGroup (sbCapability b) \<noteq> [] then [env_literal ''DT_GROUP'' (cpGroup (sbCapability b))] else []) @
      (if dspNetworkZone (dkSpec dk) \<noteq> [] then [env_literal ''DT_NETWORK_ZONE'' (dspNetworkZone (dkSpec dk))] else []))"

definition buildCommonEnvs :: "sts_builder \<Rightarrow> env_value prio_map \<Rightarrow> env_value prio_map" where
  "buildCommonEnvs b m =
     pm_AppendEnvs (cpEnv (sbCapability b)) [WithPriority HighPriority] (pm_AppendEnvs (ag_common_envs b) [] m)"

definition buildBaseContainer :: "ag_workload_env \<Rightarrow> sts_builder \<Rightarrow> smap \<Rightarrow> env_value prio_map \<Rightarrow> ag_container" where
  "buildBaseContainer env b templateAnnotations m =
     \<lparr>acName = ag_container_name, acImage = ag_GetImage (sbDynakube b),
      acImagePullPolicy = cpImagePullPolicy (agCapabilityProperties (dspActiveGate (dkSpec (sbDynakube b)))),
      acWorkingDir = [], acCommand = [], acArgs = [], acResources = cpResources (sbCapability b),
      acEnv = AsEnvVars m, acMounts = ag_buildVolumeMounts b, acPorts = [],
      acReadinessProbe = Some probe_Readiness, acLivenessProbe = Some probe_Liveness,
      acSecurityContext = Some ((GetSecurityContext False)
        \<lparr>msAppArmorProfile := GetAppArmorProfile (deMinor (aeManifest env)) templateAnnotations ag_container_name\<rparr>)\<rparr>"

definition ag_template_annotations :: "sts_builder \<Rightarrow> smap" where
  "ag_template_annotations b =
     (let dk = sbDynakube b;
          annotations = MergeMap
            [[''internal.operator.dynatrace.com/activegate-configuration-hash'' \<mapsto> sbConfigHash b,
              ''internal.operator.dynatrace.com/activegate-tenant-token-hash'' \<mapsto>
                ciTenantTokenHash (asConnectionInfo (dstActiveGate (dkStatus dk))),
              ''dynatrace.com/split-mounts'' \<mapsto> ''true''],
             agAnnotations (dspActiveGate (dkSpec dk))]
      in if IsActiveGateAppArmor (dk_FF dk)
         then annotations(AppArmorKeyPrefix @ ag_container_name \<mapsto> ''runtime/default'') else annotations)"

definition ag_claims :: "dynakube \<Rightarrow> (string \<times> claim_spec) list option" where
  "ag_claims dk =
     (case agVolumeClaimTemplate (dspActiveGate (dkSpec dk)) of
        Some c \<Rightarrow> Some [(''ag-tmp-gateway'', GivenClaim c)]
      | None \<Rightarrow> if isDefaultPVCNeeded dk then Some [(''ag-tmp-gateway'', StorageClaim ''1Gi'')] else None)"

definition SetPVCAnnotation ::
    "ag_workload_env \<Rightarrow> (string \<times> claim_spec) list option \<Rightarrow> smap \<Rightarrow> smap" where
  "SetPVCAnnotation env claims annotations =
     (case claims of None \<Rightarrow> annotations
      | Some cs \<Rightarrow> annotations(AnnotationPVCHash \<mapsto>
          (case GenerateHash (aeMarshalClaims env) cs of Inl _ \<Rightarrow> [] | Inr h \<Rightarrow> h)))"

definition ag_base_pod :: "ag_workload_env \<Rightarrow> sts_builder \<Rightarrow> env_value prio_map \<Rightarrow> ag_pod" where
  "ag_base_pod env b m =
     (let dk = sbDynakube b; spec = dspActiveGate (dkSpec dk) in
      \<lparr>apContainers = [buildBaseContainer env b (ag_template_annotations b) m], apInitContainers = [],
       apNodeSelector = cpNodeSelector (sbCapability b), apServiceAccountName = ''dynatrace-activegate'',
       apAffinity = ag_nodeAffinity dk, apTolerations = cpTolerations (sbCapability b), apFSGroup = 1001,
       apSeccompProfile = SeccompRuntimeDefault,
       apImagePullSecrets = dk_ImagePullSecretReferences (deHelmPullSecret (aeManifest env)) dk,
       apPriorityClassName = agPriorityClassName spec, apDNSPolicy = agDNSPolicy spec,
       apTerminationGracePeriodSeconds = agTerminationGracePeriodSeconds spec,
       apTopologySpreadConstraints = buildTopologySpreadConstraints b, apVolumes = ag_buildVolumes b,
       apAutomountServiceAccountToken = False\<rparr>)"

definition getBase :: "ag_workload_env \<Rightarrow> sts_builder \<Rightarrow> env_value prio_map \<Rightarrow> stateful_set_manifest" where
  "getBase env b m =
     (let dk = sbDynakube b; spec = dspActiveGate (dkSpec dk); labels = ag_app_labels b in
      \<lparr>sfmName = CalculateStatefulSetName (dkName dk), sfmNamespace = dkNamespace dk,
       sfmLabels = app_BuildLabels labels,
       sfmAnnotations = SetPVCAnnotation env (ag_claims dk) (MergeMap [Map.empty, agAnnotations spec]),
       sfmReplicas = cpReplicas (sbCapability b), sfmMatchLabels = app_BuildMatchLabels labels,
       sfmTemplateLabels = MergeMap [cpLabels (sbCapability b), app_BuildLabels labels],
       sfmTemplateAnnotations = RemoveAppArmorAnnotation (deMinor (aeManifest env)) (ag_template_annotations b) [ag_container_name],
       sfmRollingUpdate = cpRollingUpdate (agCapabilityProperties spec), sfmPod = ag_base_pod env b m,
       sfmVolumeClaimTemplates = ag_claims dk\<rparr>)"

end
