(* ===== verification/ActiveGateModifiers.thy ===== *)
theory ActiveGateModifiers
  imports ActiveGateWorkload
begin

text \<open>
  The modifiers of the ActiveGate stateful set (\<open>builder/modifiers\<close>) and the builder that applies them. No
  modifier fails. The mode of a single item of a secret volume is that of the volume.
\<close>

section \<open>Builder (\<open>builder.go\<close>)\<close>

type_synonym ag_build = "stateful_set_manifest \<times> env_value prio_map"

record ag_modifier =
  modEnabled :: bool
  modModify :: "ag_build \<Rightarrow> ag_build"

definition ag_Build :: "ag_modifier list \<Rightarrow> ag_build \<Rightarrow> ag_build" where
  "ag_Build mods data = fold (\<lambda>m d. if modEnabled m then modModify m d else d) mods data"

text \<open>\<open>FindInPodSpec\<close> hands out a pointer to the first container of the name.\<close>

fun update_first :: "('a \<Rightarrow> bool) \<Rightarrow> ('a \<Rightarrow> 'a) \<Rightarrow> 'a list \<Rightarrow> 'a list" where
  "update_first P f [] = []"
| "update_first P f (x # xs) = (if P x then f x # xs else x # update_first P f xs)"

definition on_base_container :: "(ag_container \<Rightarrow> ag_container) \<Rightarrow> stateful_set_manifest \<Rightarrow> stateful_set_manifest" where
  "on_base_container f sts =
     sts\<lparr>sfmPod := (sfmPod sts)\<lparr>apContainers :=
       update_first (\<lambda>c. acName c = ag_container_name) f (apContainers (sfmPod sts))\<rparr>\<rparr>"

definition ag_add_volumes :: "manifest_volume list \<Rightarrow> stateful_set_manifest \<Rightarrow> stateful_set_manifest" where
  "ag_add_volumes vs sts = sts\<lparr>sfmPod := (sfmPod sts)\<lparr>apVolumes := apVolumes (sfmPod sts) @ map OperatorVolume vs\<rparr>\<rparr>"

definition ag_add_mounts :: "pod_mount list \<Rightarrow> stateful_set_manifest \<Rightarrow> stateful_set_manifest" where
  "ag_add_mounts ms = on_base_container (\<lambda>c. c\<lparr>acMounts := acMounts c @ map OperatorMount ms\<rparr>)"

definition mount_modifier :: "bool \<Rightarrow> manifest_volume list \<Rightarrow> pod_mount list \<Rightarrow> ag_modifier" where
  "mount_modifier enabled vs ms =
     \<lparr>modEnabled = enabled, modModify = (\<lambda>(sts, m). (ag_add_mounts ms (ag_add_volumes vs sts), m))\<rparr>"

definition ro_mount :: "string \<Rightarrow> string \<Rightarrow> string \<Rightarrow> pod_mount" where
  "ro_mount name path subPath = \<lparr>pmName = name, pmMountPath = path, pmSubPath = subPath, pmReadOnly = True\<rparr>"

definition empty_dir :: "string \<Rightarrow> manifest_volume" where
  "empty_dir name = \<lparr>mvName = name, mvSource = EmptyDirVolume\<rparr>"

abbreviation secretMode :: "int option" where "secretMode \<equiv> Some 416"

section \<open>Secrets and certificates\<close>

definition authtoken_volumes :: "dynakube \<Rightarrow> manifest_volume list" where
  "authtoken_volumes dk =
     [\<lparr>mvName = ''ag-authtoken-secret'', mvSource = SecretVolume (ag_GetAuthTokenSecretName dk) secretMode []\<rparr>]"

definition authtoken_mounts :: "pod_mount list" where
  "authtoken_mounts = [ro_mount ''ag-authtoken-secret'' (DTComponentsSecretsRootDir @ ''/tokens/auth-token'') ''auth-token'']"

definition NewAuthTokenModifier :: "dynakube \<Rightarrow> ag_modifier" where
  "NewAuthTokenModifier dk = mount_modifier True (authtoken_volumes dk) authtoken_mounts"

definition ssl_mounts :: "pod_mount list" where
  "ssl_mounts = [rw_mount ''ag-lib-gateway-ssl'' ''/var/lib/dynatrace/gateway/ssl'']"

definition NewSSLVolumeModifier :: "dynakube \<Rightarrow> ag_modifier" where
  "NewSSLVolumeModifier dk =
     mount_modifier (ag_HasCaCert (dk_ActiveGate dk) \<or> dspTrustedCAs (dkSpec dk) \<noteq> [])
       [empty_dir ''ag-lib-gateway-ssl''] ssl_mounts"

definition certs_volumes :: "dynakube \<Rightarrow> manifest_volume list" where
  "certs_volumes dk =
     [\<lparr>mvName = ''server-certs'', mvSource = SecretVolume (ag_GetTLSSecretName (dk_ActiveGate dk)) secretMode []\<rparr>]"

definition certs_mounts :: "pod_mount list" where
  "certs_mounts = [ro_mount ''server-certs'' (DTComponentsSecretsRootDir @ ''/tls'') []]"

definition NewCertificatesModifier :: "dynakube \<Rightarrow> ag_modifier" where
  "NewCertificatesModifier dk = mount_modifier (ag_HasCaCert (dk_ActiveGate dk)) (certs_volumes dk) certs_mounts"

definition trustedcas_volumes :: "dynakube \<Rightarrow> manifest_volume list" where
  "trustedcas_volumes dk =
     [\<lparr>mvName = ''trustedcas'', mvSource = ConfigMapVolume (dspTrustedCAs (dkSpec dk)) [(''certs'', ''rootca.pem'')]\<rparr>]"

definition trustedcas_mounts :: "pod_mount list" where
  "trustedcas_mounts = [ro_mount ''trustedcas'' (DTComponentsSecretsRootDir @ ''/rootca'') []]"

definition NewTrustedCAsVolumeModifier :: "dynakube \<Rightarrow> ag_modifier" where
  "NewTrustedCAsVolumeModifier dk =
     mount_modifier (dspTrustedCAs (dkSpec dk) \<noteq> []) (trustedcas_volumes dk) trustedcas_mounts"

section \<open>Configuration\<close>

definition ag_GetDeploymentPropertiesConfigMapName :: "dynakube \<Rightarrow> string" where
  "ag_GetDeploymentPropertiesConfigMapName dk = agName (dk_ActiveGate dk) @ ''-activegate-deployment-properties''"

definition deployment_properties_volumes :: "dynakube \<Rightarrow> manifest_volume list" where
  "deployment_properties_volumes dk =
     [\<lparr>mvName = ''deployment-properties'',
       mvSource = ConfigMapVolume (ag_GetDeploymentPropertiesConfigMapName dk) [(''deployment.properties'', ''deployment.properties'')]\<rparr>]"

definition deployment_properties_mounts :: "pod_mount list" where
  "deployment_properties_mounts =
     [ro_mount ''deployment-properties'' (DTComponentsSecretsRootDir @ ''/config/deployment.properties'') ''deployment.properties'']"

text \<open>A map is empty when none of its sorted keys is left.\<close>

definition NewDeploymentPropertiesModifier :: "ds_env \<Rightarrow> dynakube \<Rightarrow> ag_modifier" where
  "NewDeploymentPropertiesModifier env dk =
     mount_modifier (deSortedKeys env (dspResourceAttributes (dkSpec dk)) \<noteq> [])
       (deployment_properties_volumes dk) deployment_properties_mounts"

definition hasCustomProperties :: "dynakube \<Rightarrow> capability_properties \<Rightarrow> bool" where
  "hasCustomProperties dk props \<longleftrightarrow>
     (case cpCustomProperties props of None \<Rightarrow> False | Some src \<Rightarrow> vsrcValue src \<noteq> [] \<or> vsrcValueFrom src \<noteq> []) \<or>
     dk_NeedsCustomNoProxy dk"

definition custom_properties_volumes :: "dynakube \<Rightarrow> manifest_volume list" where
  "custom_properties_volumes dk =
     [\<lparr>mvName = ''custom-properties'',
       mvSource = SecretVolume (buildCustomPropertiesName (dkName dk) (ag_GetServiceAccountOwner (dk_ActiveGate dk))) None
         [(''customProperties'', ''custom.properties'')]\<rparr>]"

definition custom_properties_mounts :: "pod_mount list" where
  "custom_properties_mounts =
     [ro_mount ''custom-properties'' ''/var/lib/dynatrace/gateway/config_template/custom.properties'' ''custom.properties'']"

definition NewCustomPropertiesModifier :: "dynakube \<Rightarrow> capability_properties \<Rightarrow> ag_modifier" where
  "NewCustomPropertiesModifier dk props =
     mount_modifier (hasCustomProperties dk props) (custom_properties_volumes dk) custom_properties_mounts"

definition ag_proxy_volumes :: "dynakube \<Rightarrow> manifest_volume list" where
  "ag_proxy_volumes dk =
     [\<lparr>mvName = ProxySecretVolumeName, mvSource = SecretVolume (proxy_BuildSecretName (dkName dk)) secretMode []\<rparr>]"

definition ag_proxy_mounts :: "pod_mount list" where
  "ag_proxy_mounts = [rw_mount ProxySecretVolumeName (DTComponentsSecretsRootDir @ ''/internal-proxy'')]"

definition NewProxyModifier :: "dynakube \<Rightarrow> ag_modifier" where
  "NewProxyModifier dk = mount_modifier (dk_NeedsActiveGateProxy dk) (ag_proxy_volumes dk) ag_proxy_mounts"

section \<open>Image, file system and ports\<close>

definition rawimage_volumes :: "dynakube \<Rightarrow> manifest_volume list" where
  "rawimage_volumes dk =
     [\<lparr>mvName = ''connection-info-secret'', mvSource = SecretVolume (ag_TenantSecretName dk) secretMode []\<rparr>]"

definition rawimage_mounts :: "pod_mount list" where
  "rawimage_mounts = [ro_mount ''connection-info-secret'' (DTComponentsSecretsRootDir @ ''/tokens/tenant-token'') ''tenant-token'']"

definition ag_GetConnectionInfoConfigMapName :: "dynakube \<Rightarrow> string" where
  "ag_GetConnectionInfoConfigMapName dk = agName (dk_ActiveGate dk) @ ''-activegate-connection-info''"

definition rawimage_envs :: "dynakube \<Rightarrow> env_var list" where
  "rawimage_envs dk =
     [\<lparr>evName = ''DT_TENANT'', evValue = [],
       evValueFrom = Some (ConfigMapKeyRef (ag_GetConnectionInfoConfigMapName dk) ''tenant-uuid'')\<rparr>,
      \<lparr>evName = ''DT_SERVER'', evValue = [],
       evValueFrom = Some (ConfigMapKeyRef (ag_GetConnectionInfoConfigMapName dk) ''communication-endpoints'')\<rparr>]"

definition NewRawImageModifier :: "dynakube \<Rightarrow> ag_modifier" where
  "NewRawImageModifier dk =
     \<lparr>modEnabled = True,
      modModify = (\<lambda>(sts, m).
        let m' = pm_AppendEnvs (rawimage_envs dk) [WithPriority MediumPriority] m
        in (on_base_container (\<lambda>c. c\<lparr>acEnv := AsEnvVars m'\<rparr>)
              (ag_add_mounts rawimage_mounts (ag_add_volumes (rawimage_volumes dk) sts)), m'))\<rparr>"

definition readonly_volumes :: "manifest_volume list" where
  "readonly_volumes =
     map empty_dir [''ag-lib-gateway-temp'', ''ag-lib-gateway-data'', ''ag-log-gateway'', ''ag-lib-gateway-config'']"

definition readonly_mounts :: "pod_mount list" where
  "readonly_mounts =
     [rw_mount ''ag-lib-gateway-temp'' ''/var/lib/dynatrace/gateway/temp'',
      rw_mount ''ag-lib-gateway-data'' ''/var/lib/dynatrace/gateway/data'',
      rw_mount ''ag-log-gateway'' ''/var/log/dynatrace/gateway'',
      rw_mount ''ag-lib-gateway-config'' ''/var/lib/dynatrace/gateway/config'']"

definition NewReadOnlyModifier :: ag_modifier where
  "NewReadOnlyModifier =
     \<lparr>modEnabled = True,
      modModify = (\<lambda>(sts, m).
        (ag_add_mounts readonly_mounts (on_base_container
           (\<lambda>c. c\<lparr>acSecurityContext := map_option (\<lambda>sc. sc\<lparr>msReadOnlyRootFilesystem := Some True\<rparr>) (acSecurityContext c)\<rparr>)
           (ag_add_volumes readonly_volumes sts)), m))\<rparr>"

definition service_ports :: "(string \<times> int) list" where
  "service_ports = [(''https'', 9999), (''http'', 9998)]"

definition NewServicePortModifier :: "ds_env \<Rightarrow> dynakube \<Rightarrow> ag_modifier" where
  "NewServicePortModifier env dk =
     \<lparr>modEnabled = True,
      modModify = (\<lambda>(sts, m).
        let m' = pm_AppendEnvs [env_literal ''DT_DNS_ENTRY_POINT'' (BuildDNSEntryPoint (deIsIPv6 env) dk)]
                   [WithPriority MediumPriority] m
        in (on_base_container (\<lambda>c. c\<lparr>
              acReadinessProbe := map_option (\<lambda>p. p\<lparr>hpPort := PortName ''https''\<rparr>) (acReadinessProbe c),
              acPorts := acPorts c @ service_ports, acEnv := AsEnvVars m'\<rparr>) sts, m'))\<rparr>"

section \<open>Kubernetes monitoring, extensions and KSPM\<close>

definition kubemon_init_container :: "ds_env \<Rightarrow> dynakube \<Rightarrow> capability_properties \<Rightarrow> ag_container" where
  "kubemon_init_container env dk props =
     \<lparr>acName = ''certificate-loader'', acImage = ag_GetImage dk,
      acImagePullPolicy = cpImagePullPolicy (agCapabilityProperties (dspActiveGate (dkSpec dk))),
      acWorkingDir = ''/var/lib/dynatrace/gateway'', acCommand = [''/bin/bash''],
      acArgs = [''-c'', ''/opt/dynatrace/gateway/k8scrt2jks.sh''], acResources = cpResources props, acEnv = [],
      acMounts = map OperatorMount
        [rw_mount ''truststore-volume'' ''/var/lib/dynatrace/gateway/ssl'', rw_mount ''cert-tmp'' ''/var/lib/dynatrace/gateway''],
      acPorts = [], acReadinessProbe = None, acLivenessProbe = None,
      acSecurityContext = Some ((GetSecurityContext True)
        \<lparr>msAppArmorProfile := GetAppArmorProfile (deMinor env) (agAnnotations (dspActiveGate (dkSpec dk))) ''certificate-loader''\<rparr>)\<rparr>"

definition kubemon_mounts :: "pod_mount list" where
  "kubemon_mounts = [ro_mount ''truststore-volume'' ''/opt/dynatrace/gateway/jre/lib/security/cacerts'' ''k8s-local.jks'']"

definition NewKubernetesMonitoringModifier :: "ds_env \<Rightarrow> dynakube \<Rightarrow> capability_properties \<Rightarrow> ag_modifier" where
  "NewKubernetesMonitoringModifier env dk props =
     \<lparr>modEnabled = ag_IsKubernetesMonitoringEnabled (dk_ActiveGate dk),
      modModify = (\<lambda>(sts, m).
        let sts' = ag_add_mounts kubemon_mounts (ag_add_volumes [empty_dir ''truststore-volume'', empty_dir ''cert-tmp''] sts)
        in (sts'\<lparr>sfmPod := (sfmPod sts')
              \<lparr>apInitContainers := apInitContainers (sfmPod sts') @ [kubemon_init_container env dk props],
               apAutomountServiceAccountToken := True\<rparr>\<rparr>, m))\<rparr>"

definition ext_GetTokenSecretName :: "extensions \<Rightarrow> string" where
  "ext_GetTokenSecretName e = extName e @ ''-extensions-token''"

definition eec_volumes :: "dynakube \<Rightarrow> manifest_volume list" where
  "eec_volumes dk =
     [\<lparr>mvName = ''eec-token'',
       mvSource = SecretVolume (ext_GetTokenSecretName (dk_Extensions dk)) secretMode [(''eec.token'', ''eec.token'')]\<rparr>]"

definition eec_mounts :: "pod_mount list" where
  "eec_mounts = [ro_mount ''eec-token'' (DTComponentsSecretsRootDir @ ''/eec/token'') []]"

definition NewEECVolumeModifier :: "dynakube \<Rightarrow> ag_modifier" where
  "NewEECVolumeModifier dk = mount_modifier (ext_IsAnyEnabled (dk_Extensions dk)) (eec_volumes dk) eec_mounts"

definition ag_kspm_volumes :: "dynakube \<Rightarrow> manifest_volume list" where
  "ag_kspm_volumes dk = [\<lparr>mvName = ''kspm-token'', mvSource = SecretVolume (kspm_GetTokenSecretName dk) None []\<rparr>]"

definition ag_kspm_mounts :: "pod_mount list" where
  "ag_kspm_mounts =
     [ro_mount ''kspm-token'' (DTComponentsSecretsRootDir @ ''/tokens/kspm/node-configuration-collector'') ''kspm-token'']"

definition NewKSPMModifier :: "dynakube \<Rightarrow> ag_modifier" where
  "NewKSPMModifier dk =
     \<lparr>modEnabled = dk_KSPM_IsEnabled dk \<and> ag_IsKubernetesMonitoringEnabled (dk_ActiveGate dk),
      modModify = (\<lambda>(sts, m).
        let sts1 = sts\<lparr>sfmTemplateAnnotations := (sfmTemplateAnnotations sts)
              (''internal.operator.dynatrace.com/kspm-token-secret-hash'' \<mapsto> dstKSPMTokenSecretHash (dkStatus dk))\<rparr>
        in (ag_add_mounts ag_kspm_mounts (ag_add_volumes (ag_kspm_volumes dk) sts1), m))\<rparr>"

section \<open>The stateful set\<close>

definition GenerateAllModifiers :: "ds_env \<Rightarrow> dynakube \<Rightarrow> capability_properties \<Rightarrow> ag_modifier list" where
  "GenerateAllModifiers env dk props =
     [NewAuthTokenModifier dk, NewSSLVolumeModifier dk, NewCertificatesModifier dk, NewTrustedCAsVolumeModifier dk,
      NewDeploymentPropertiesModifier env dk, NewCustomPropertiesModifier dk props, NewProxyModifier dk,
      NewRawImageModifier dk, NewReadOnlyModifier, NewServicePortModifier env dk,
      NewKubernetesMonitoringModifier env dk props, NewEECVolumeModifier dk, NewKSPMModifier dk]"

definition ag_base :: "ag_workload_env \<Rightarrow> sts_builder \<Rightarrow> ag_build" where
  "ag_base env b =
     (let m = buildCommonEnvs b (pm_New [WithPriority DefaultPriority]) in (getBase env b m, m))"

definition CreateStatefulSet :: "ag_workload_env \<Rightarrow> sts_builder \<Rightarrow> stateful_set_manifest" where
  "CreateStatefulSet env b =
     fst (ag_Build (GenerateAllModifiers (aeManifest env) (sbDynakube b) (sbCapability b)) (ag_base env b))"

end
