(* ===== verification/ActiveGateCtrl.thy ===== *)
theory ActiveGateCtrl
  imports EdgeConnectCtrl ActiveGateModifiers VersionUpdate
begin

text \<open>
  The reconciler of the ActiveGate (\<open>activegate/reconciler.go\<close>, \<open>service.go\<close>,
  \<open>internal/statefulset/reconciler.go\<close>): connection info, config maps, version, pull secret, Istio and auth
  token, then the capability with custom properties, service, certificate and stateful set, or its removal.
  The config maps are not removed when the ActiveGate is switched off.
\<close>

section \<open>Environment\<close>

text \<open>
  \<open>gcVersion\<close> are the clients of the version reconciler, \<open>gcIstio\<close> is the Istio reconciler, \<open>gcGetAG\<close> the answer of the API to the
  request for connection info, \<open>gcRest\<close> the JSON of what the queries do not look into. Services and stateful
  sets are read and written by the client itself here, without hash annotation.
\<close>

record ag_ctrl_env =
  gcSecrets :: secret_env
  gcWorkload :: ag_workload_env
  gcVersion :: version_env
  gcIstio :: "(cluster_state, unit) io"
  gcGetAG :: "error + fetched_info"
  gcRest :: "stateful_set_manifest \<Rightarrow> string"

abbreviation gc_cluster :: "ag_ctrl_env \<Rightarrow> cluster_env" where "gc_cluster env \<equiv> reCluster (gcSecrets env)"

definition gc_info :: "ag_ctrl_env \<Rightarrow> info_env" where
  "gc_info env = \<lparr>ieCluster = gc_cluster env, ieGetOA = (\<lambda>_. (zero_fetched_info, None)), ieGetAG = gcGetAG env\<rparr>"

definition client_create :: "'p query_env \<Rightarrow> 'p kobject \<Rightarrow> ('p query_state, unit) io" where
  "client_create env obj = andThen (q_ask (QCreate obj) (\<lambda>tr. qeCreate env tr obj)) (\<lambda>_. ret ())"

definition client_update :: "'p query_env \<Rightarrow> 'p kobject \<Rightarrow> ('p query_state, unit) io" where
  "client_update env obj = andThen (q_ask (QUpdate obj) (\<lambda>tr. qeUpdate env tr obj)) (\<lambda>_. ret ())"

section \<open>Service (\<open>service.go\<close>)\<close>

definition buildSelectorLabels :: "string \<Rightarrow> smap" where
  "buildSelectorLabels dynakubeName = app_BuildMatchLabels (NewAppLabels ''activegate'' dynakubeName [] [])"

definition CreateService :: "cluster_env \<Rightarrow> dynakube \<Rightarrow> service_payload kobject" where
  "CreateService env dk =
     \<lparr>koName = BuildServiceName (dkName dk), koNamespace = dkNamespace dk, koUID = [], koResourceVersion = [],
      koAnnotations = Map.empty, koLabels = component_labels env dk ''activegate'', koOwnerReferences = [],
      koPayload =
        \<lparr>svPorts =
           [\<lparr>svpName = ''https'', svpProtocol = ''TCP'', svpPort = 443, svpTargetPort = ''https''\<rparr>,
            \<lparr>svpName = ''http'', svpProtocol = ''TCP'', svpPort = 80, svpTargetPort = ''http''\<rparr>],
         svSelector = Some (buildSelectorLabels (dkName dk)), svClusterIP = [], svClusterIPs = []\<rparr>\<rparr>"

definition portsAreOutdated :: "service_payload kobject \<Rightarrow> service_payload kobject \<Rightarrow> bool" where
  "portsAreOutdated installedService desiredService \<longleftrightarrow>
     svPorts (koPayload installedService) \<noteq> svPorts (koPayload desiredService)"

text \<open>\<open>maps.Equal\<close> does not tell a nil map from an empty one.\<close>

definition map_of_option :: "smap option \<Rightarrow> smap" where
  "map_of_option m = (case m of None \<Rightarrow> Map.empty | Some m' \<Rightarrow> m')"

definition labelsAreOutdated :: "service_payload kobject \<Rightarrow> service_payload kobject \<Rightarrow> bool" where
  "labelsAreOutdated installedService desiredService \<longleftrightarrow>
     map_of_option (koLabels installedService) \<noteq> map_of_option (koLabels desiredService) \<or>
     map_of_option (svSelector (koPayload installedService)) \<noteq> map_of_option (svSelector (koPayload desiredService))"

definition get_service :: "cluster_env \<Rightarrow> dynakube \<Rightarrow> (cluster_state, service_payload kobject) io" where
  "get_service env dk = with_services (Get (keServices env) (dkNamespace dk) (BuildServiceName (dkName dk)))"

definition createOrUpdateService :: "cluster_env \<Rightarrow> (cluster_state, unit) io" where
  "createOrUpdateService env =
     andThen (gets clDk) (\<lambda>dk.
     let desired = CreateService env dk in
     andThen (attempt (get_service env dk)) (\<lambda>r.
       case r of
         Inl e \<Rightarrow>
           if is_not_found e then
             andThen (lift (qeSetControllerReference (keServices env) (dkName dk) desired)) (\<lambda>owned.
               with_services (client_create (keServices env) owned))
           else throw e
       | Inr installed \<Rightarrow>
           if portsAreOutdated installed desired \<or> labelsAreOutdated installed desired then
             with_services (client_update (keServices env)
               (desired\<lparr>koResourceVersion := koResourceVersion installed,
                        koPayload := (koPayload desired)\<lparr>svClusterIP := svClusterIP (koPayload installed)\<rparr>\<rparr>))
           else ret ()))"

text \<open>
  \<open>retry.OnError\<close>: another attempt while there are steps left and the error can be retried; the last error is
  the result. \<open>retry.DefaultBackoff\<close> has four steps; the pauses between them are left out.
\<close>

fun retry_OnError :: "nat \<Rightarrow> (error \<Rightarrow> bool) \<Rightarrow> ('s, 'a) io \<Rightarrow> ('s, 'a) io" where
  "retry_OnError 0 retriable m = m"
| "retry_OnError (Suc n) retriable m =
     andThen (attempt m) (\<lambda>r.
       case r of
         Inr x \<Rightarrow> ret x
       | Inl e \<Rightarrow> if retriable e then retry_OnError n retriable m else throw e)"

text \<open>The attempts after the first one.\<close>

abbreviation DefaultBackoff :: nat where "DefaultBackoff \<equiv> 3"

definition set_service_ips :: "string list \<Rightarrow> (cluster_state, unit) io" where
  "set_service_ips ips =
     on_dk (\<lambda>dk. dk\<lparr>dkStatus := (dkStatus dk)\<lparr>dstActiveGate := (dstActiveGate (dkStatus dk))\<lparr>asServiceIPs := ips\<rparr>\<rparr>\<rparr>)"

definition setAGServiceIPs :: "cluster_env \<Rightarrow> (cluster_state, unit) io" where
  "setAGServiceIPs env =
     andThen (gets clDk) (\<lambda>dk.
       retry_OnError DefaultBackoff is_not_found
         (andThen (get_service env dk) (\<lambda>present. set_service_ips (svClusterIPs (koPayload present)))))"

definition deleteService :: "cluster_env \<Rightarrow> (cluster_state, unit) io" where
  "deleteService env =
     andThen (gets clDk) (\<lambda>dk.
       with_services (Delete (keServices env) (dkNamespace dk) (BuildServiceName (dkName dk))))"

section \<open>Stateful set (\<open>internal/statefulset/reconciler.go\<close>)\<close>

abbreviation ActiveGateStatefulSetConditionType :: string where
  "ActiveGateStatefulSetConditionType \<equiv> ''ActiveGateStatefulSet''"

definition GetDataFromSecretName :: "secret_env \<Rightarrow> dynakube \<Rightarrow> string \<Rightarrow> string \<Rightarrow> (cluster_state, string) io" where
  "GetDataFromSecretName env dk secretName dataKey =
     andThen (get_secret env dk secretName) (\<lambda>secret. lift (ExtractToken (secret_data secret) dataKey))"

definition needsCustomPropertyHash :: "value_source option \<Rightarrow> bool" where
  "needsCustomPropertyHash customProperties \<longleftrightarrow>
     (case customProperties of None \<Rightarrow> False | Some src \<Rightarrow> vsrcValue src \<noteq> [] \<or> vsrcValueFrom src \<noteq> [])"

definition getDataFromCustomProperty :: "secret_env \<Rightarrow> dynakube \<Rightarrow> value_source \<Rightarrow> (cluster_state, string) io" where
  "getDataFromCustomProperty env dk customProperties =
     (if vsrcValueFrom customProperties \<noteq> []
      then GetDataFromSecretName env dk (vsrcValueFrom customProperties) ''customProperties''
      else ret (vsrcValue customProperties))"

definition getCustomPropertyValue :: "secret_env \<Rightarrow> dynakube \<Rightarrow> capability_properties \<Rightarrow> (cluster_state, string) io" where
  "getCustomPropertyValue env dk props =
     (case cpCustomProperties props of
        None \<Rightarrow> ret []
      | Some src \<Rightarrow> if needsCustomPropertyHash (Some src) then getDataFromCustomProperty env dk src else ret [])"

definition getAuthTokenValue :: "secret_env \<Rightarrow> dynakube \<Rightarrow> (cluster_state, string) io" where
  "getAuthTokenValue env dk =
     (if \<not> ag_IsEnabled (dk_ActiveGate dk) then ret []
      else GetDataFromSecretName env dk (ag_GetAuthTokenSecretName dk) ''auth-token'')"

definition string_bytes :: "string \<Rightarrow> 8 word list" where
  "string_bytes s = map (\<lambda>c. of_nat (byte c)) s"

definition calculateActiveGateConfigurationHash ::
    "ag_ctrl_env \<Rightarrow> dynakube \<Rightarrow> capability_properties \<Rightarrow> (cluster_state, string) io" where
  "calculateActiveGateConfigurationHash env dk props =
     andThen (getCustomPropertyValue (gcSecrets env) dk props) (\<lambda>customPropertyData.
     andThen (getAuthTokenValue (gcSecrets env) dk) (\<lambda>authTokenData.
       let resourceAttributesData = BuildContent (deSortedKeys (aeManifest (gcWorkload env))) (dspResourceAttributes (dkSpec dk))
       in ret (show_nat (unat (fnv32 (string_bytes (customPropertyData @ authTokenData @ resourceAttributesData)))))))"

definition sts_ResolveReplicas :: "cluster_env \<Rightarrow> string \<Rightarrow> string \<Rightarrow> int option \<Rightarrow> (cluster_state, int) io" where
  "sts_ResolveReplicas env ns name defaultReplicas =
     (case defaultReplicas of
        Some n \<Rightarrow> ret n
      | None \<Rightarrow>
          andThen (attempt (with_statefulsets (Get (keStatefulSets env) ns name))) (\<lambda>r.
            case r of
              Inl e \<Rightarrow> if is_not_found e then ret 1 else throw e
            | Inr ss \<Rightarrow> ret (sint (deref_replicas (wpReplicas (koPayload ss))))))"

definition ag_statefulset :: "ag_ctrl_env \<Rightarrow> dynakube \<Rightarrow> capability \<Rightarrow> capability_properties \<Rightarrow> string \<Rightarrow> stateful_set_manifest" where
  "ag_statefulset env dk cap props configHash =
     CreateStatefulSet (gcWorkload env)
       \<lparr>sbCapability = props, sbArgName = capArgName cap, sbKubeUID = dstKubeSystemUUID (dkStatus dk),
        sbConfigHash = configHash, sbDynakube = dk\<rparr>"

definition buildDesiredStatefulSet ::
    "ag_ctrl_env \<Rightarrow> dynakube \<Rightarrow> capability \<Rightarrow> capability_properties \<Rightarrow> (cluster_state, stateful_set_manifest) io" where
  "buildDesiredStatefulSet env dk cap props =
     andThen (calculateActiveGateConfigurationHash env dk props) (\<lambda>activeGateConfigurationHash.
     let desiredSts = ag_statefulset env dk cap props activeGateConfigurationHash in
     andThen (sts_ResolveReplicas (gc_cluster env) (sfmNamespace desiredSts) (sfmName desiredSts)
         (cpReplicas (agCapabilityProperties (dspActiveGate (dkSpec dk))))) (\<lambda>replicas.
       ret (desiredSts\<lparr>sfmReplicas := Some replicas\<rparr>)))"

definition statefulset_object :: "ag_ctrl_env \<Rightarrow> stateful_set_manifest \<Rightarrow> workload_payload kobject" where
  "statefulset_object env sts =
     \<lparr>koName = sfmName sts, koNamespace = sfmNamespace sts, koUID = [], koResourceVersion = [],
      koAnnotations = sfmAnnotations sts, koLabels = Some (sfmLabels sts), koOwnerReferences = [],
      koPayload = \<lparr>wpReplicas = map_option word_of_int (sfmReplicas sts), wpMatchLabels = sfmMatchLabels sts,
        wpRest = gcRest env sts\<rparr>\<rparr>"

definition manageStatefulSet :: "ag_ctrl_env \<Rightarrow> capability \<Rightarrow> capability_properties \<Rightarrow> (cluster_state, unit) io" where
  "manageStatefulSet env cap props =
     andThen (gets clDk) (\<lambda>dk.
     andThen (api_failed_on ActiveGateStatefulSetConditionType (buildDesiredStatefulSet env dk cap props)) (\<lambda>desiredSts.
     andThen (api_failed_on ActiveGateStatefulSetConditionType (with_statefulsets
       (create_or_update (WithOwner (dkName dk) (keStatefulSets (gc_cluster env))) (statefulset_object env desiredSts)))) (\<lambda>updated.
       if updated then set_cond (SetStatefulSetCreated ActiveGateStatefulSetConditionType (sfmName desiredSts))
       else ret ())))"

section \<open>Reconcile (\<open>reconciler.go\<close>)\<close>

definition ag_extractPublicData :: "dynakube \<Rightarrow> smap" where
  "ag_extractPublicData dk =
     (let info = asConnectionInfo (dstActiveGate (dkStatus dk));
          data = (if ciTenantUUID info \<noteq> [] then [''tenant-uuid'' \<mapsto> ciTenantUUID info] else Map.empty)
      in if ciEndpoints info \<noteq> [] then data(''communication-endpoints'' \<mapsto> ciEndpoints info) else data)"

definition ag_config_map :: "ag_ctrl_env \<Rightarrow> (dynakube \<Rightarrow> string) \<Rightarrow> (dynakube \<Rightarrow> smap) \<Rightarrow> (cluster_state, unit) io" where
  "ag_config_map env name content =
     andThen (gets clDk) (\<lambda>dk.
       if \<not> ag_IsEnabled (dk_ActiveGate dk) then ret ()
       else
         andThen (lift (configmap_Build (gc_cluster env) dk (name dk)
           (component_labels (gc_cluster env) dk ''activegate'') (Some (content dk)))) (\<lambda>configMap.
         andThen (with_configmaps (create_or_update (keConfigMaps (gc_cluster env)) configMap)) (\<lambda>_. ret ())))"

definition createActiveGateTenantConnectionInfoConfigMap :: "ag_ctrl_env \<Rightarrow> (cluster_state, unit) io" where
  "createActiveGateTenantConnectionInfoConfigMap env =
     ag_config_map env ag_GetConnectionInfoConfigMapName ag_extractPublicData"

definition createDeploymentPropertiesConfigMap :: "ag_ctrl_env \<Rightarrow> (cluster_state, unit) io" where
  "createDeploymentPropertiesConfigMap env =
     ag_config_map env ag_GetDeploymentPropertiesConfigMapName
       (\<lambda>dk. [''deployment.properties'' \<mapsto>
          BuildContent (deSortedKeys (aeManifest (gcWorkload env))) (dspResourceAttributes (dkSpec dk))])"

definition createCapability :: "ag_ctrl_env \<Rightarrow> capability \<Rightarrow> capability_properties \<Rightarrow> (cluster_state, unit) io" where
  "createCapability env cap props =
     andThen (gets clDk) (\<lambda>dk.
     andThen (custom_Reconcile (gcSecrets env) (ag_GetServiceAccountOwner (dk_ActiveGate dk)) (cpCustomProperties props)) (\<lambda>_.
     andThen (createOrUpdateService (gc_cluster env)) (\<lambda>_.
     andThen (setAGServiceIPs (gc_cluster env)) (\<lambda>_.
     andThen (tls_Reconcile (gcSecrets env)) (\<lambda>_.
       manageStatefulSet env cap props)))))"

definition deleteStatefulset :: "cluster_env \<Rightarrow> (cluster_state, unit) io" where
  "deleteStatefulset env =
     andThen (gets clDk) (\<lambda>dk.
       with_statefulsets (Delete (keStatefulSets env) (dkNamespace dk) (CalculateStatefulSetName (dkName dk))))"

definition deleteCapability :: "ag_ctrl_env \<Rightarrow> (cluster_state, unit) io" where
  "deleteCapability env =
     andThen (deleteStatefulset (gc_cluster env)) (\<lambda>_.
     andThen (deleteService (gc_cluster env)) (\<lambda>_.
       tls_Reconcile (gcSecrets env)))"

text \<open>A capability that is enabled always has properties.\<close>

definition reconcile_capability :: "ag_ctrl_env \<Rightarrow> (cluster_state, unit) io" where
  "reconcile_capability env =
     andThen (gets clDk) (\<lambda>dk.
     let agCapability = NewMultiCapability dk in
       case (cap_Enabled agCapability, capProperties agCapability) of
         (True, Some props) \<Rightarrow> createCapability env agCapability props
       | _ \<Rightarrow>
           andThen (deleteCapability env) (\<lambda>_.
             set_cond (RemoveStatusCondition ActiveGateStatefulSetConditionType)))"

definition activegate_steps :: "ag_ctrl_env \<Rightarrow> Tokens \<Rightarrow> (cluster_state, unit) io" where
  "activegate_steps env tokens =
     andThen (ag_info_Reconcile (gc_info env)) (\<lambda>_.
     andThen (createActiveGateTenantConnectionInfoConfigMap env) (\<lambda>_.
     andThen (createDeploymentPropertiesConfigMap env) (\<lambda>_.
     andThen (on_dynakube (ReconcileActiveGate (gcVersion env))) (\<lambda>_.
     andThen (pull_Reconcile (gcSecrets env) tokens) (\<lambda>_.
     andThen (gcIstio env) (\<lambda>_.
       wrap_msg ''could not reconcile Dynatrace ActiveGateAuthToken secrets'' (auth_Reconcile (gcSecrets env))))))))"

definition activegate_Reconcile :: "ag_ctrl_env \<Rightarrow> Tokens \<Rightarrow> (cluster_state, unit) io" where
  "activegate_Reconcile env tokens =
     andThen (gets clDk) (\<lambda>dk.
     andThen (gets (has_cond (gc_cluster env) ActiveGateStatefulSetConditionType)) (\<lambda>present.
       if \<not> ag_IsEnabled (dk_ActiveGate dk) \<and> \<not> present then ret ()
       else andThen (activegate_steps env tokens) (\<lambda>_. reconcile_capability env)))"

end
