(* ===== verification/IstioEntries.thy ===== *)
theory IstioEntries
  imports ConnectionLaws
begin

text \<open>
  The Istio objects that let the mesh reach the communication hosts (\<open>istio/serviceentry.go\<close>,
  \<open>istio/virtualservice.go\<close>). \<open>is_ip\<close> stands for \<open>net.ParseIP(host) != nil\<close>. Every service entry has the location
  \<open>MESH_EXTERNAL\<close>.
\<close>

section \<open>Service entries\<close>

definition BuildNameForIPServiceEntry :: "string \<Rightarrow> string \<Rightarrow> string" where
  "BuildNameForIPServiceEntry ownerName component = ownerName @ ''-ip-'' @ component"

definition BuildNameForFQDNServiceEntry :: "string \<Rightarrow> string \<Rightarrow> string" where
  "BuildNameForFQDNServiceEntry ownerName component = ownerName @ ''-fqdn-'' @ component"

definition to_upper :: "string \<Rightarrow> string" where
  "to_upper = map (\<lambda>c. if 97 \<le> byte c \<and> byte c \<le> 122 then char_of (byte c - 32) else c)"

text \<open>The ports, the first host of a port deciding about its entry; \<open>seen\<close> is the Go map \<open>portSet\<close>.\<close>

fun collect_ports :: "(communication_host \<Rightarrow> istio_port) \<Rightarrow> nat list \<Rightarrow> communication_host list \<Rightarrow> istio_port list" where
  "collect_ports port_of seen [] = []"
| "collect_ports port_of seen (commHost # commHosts) =
     (if chPort commHost \<in> set seen then collect_ports port_of seen commHosts
      else port_of commHost # collect_ports port_of (chPort commHost # seen) commHosts)"

definition fqdn_port :: "communication_host \<Rightarrow> istio_port" where
  "fqdn_port commHost =
     \<lparr>ipName = chProtocol commHost @ ''-'' @ show_nat (chPort commHost), ipNumber = chPort commHost,
      ipProtocol = to_upper (chProtocol commHost)\<rparr>"

definition ip_port :: "communication_host \<Rightarrow> istio_port" where
  "ip_port commHost =
     \<lparr>ipName = ''TCP'' @ ''-'' @ show_nat (chPort commHost), ipNumber = chPort commHost, ipProtocol = ''TCP''\<rparr>"

definition buildServiceEntryFQDNs :: "communication_host list \<Rightarrow> service_entry" where
  "buildServiceEntryFQDNs hostHosts =
     \<lparr>seHosts = map chHost hostHosts, seAddresses = [], sePorts = collect_ports fqdn_port [] hostHosts,
      seResolution = ResolveDNS\<rparr>"

definition buildServiceEntryIPs :: "communication_host list \<Rightarrow> service_entry" where
  "buildServiceEntryIPs commHosts =
     \<lparr>seHosts = [''ignored.subdomain''], seAddresses = map (\<lambda>ch. chHost ch @ ''/32'') commHosts,
      sePorts = collect_ports ip_port [] commHosts, seResolution = ResolveNone\<rparr>"

definition splitCommunicationHost ::
    "(string \<Rightarrow> bool) \<Rightarrow> communication_host list \<Rightarrow> communication_host list \<times> communication_host list" where
  "splitCommunicationHost is_ip comHosts =
     (filter (\<lambda>ch. is_ip (chHost ch)) comHosts, filter (\<lambda>ch. \<not> is_ip (chHost ch)) comHosts)"

section \<open>Virtual services\<close>

fun build_routes :: "string \<Rightarrow> communication_host list \<Rightarrow> (string \<times> nat) list" where
  "build_routes protocol [] = []"
| "build_routes protocol (commHost # commHosts) =
     (if chProtocol commHost = protocol then (chHost commHost, chPort commHost) # build_routes protocol commHosts
      else build_routes protocol commHosts)"

definition buildVirtualServiceSpec :: "communication_host list \<Rightarrow> virtual_service" where
  "buildVirtualServiceSpec commHosts =
     \<lparr>vsHosts = map chHost commHosts, vsHttp = build_routes ''http'' commHosts,
      vsTls = build_routes ''https'' commHosts\<rparr>"

text \<open>\<open>None\<close> is the nil pointer.\<close>

definition buildVirtualService :: "(string \<Rightarrow> bool) \<Rightarrow> communication_host list \<Rightarrow> virtual_service option" where
  "buildVirtualService is_ip commHosts =
     (let nonIPhosts = filter (\<lambda>ch. \<not> is_ip (chHost ch)) commHosts
      in if nonIPhosts = [] then None else Some (buildVirtualServiceSpec nonIPhosts))"

section \<open>What they let through\<close>

lemma collect_ports_numbers:
  assumes "\<And>ch. ipNumber (port_of ch) = chPort ch"
  shows "ipNumber ` set (collect_ports port_of seen chs) = chPort ` set chs - set seen"
    and "distinct (map ipNumber (collect_ports port_of seen chs))"
proof -
  have all: "ipNumber ` set (collect_ports port_of seen chs) = chPort ` set chs - set seen \<and>
      distinct (map ipNumber (collect_ports port_of seen chs))"
  proof (induction chs arbitrary: seen)
    case (Cons ch chs)
    from Cons[of seen] Cons[of "chPort ch # seen"] show ?case by (auto simp: assms)
  qed simp
  then show "ipNumber ` set (collect_ports port_of seen chs) = chPort ` set chs - set seen"
    and "distinct (map ipNumber (collect_ports port_of seen chs))" by blast+
qed

lemma route_iff: "(h, p) \<in> set (build_routes protocol chs) \<longleftrightarrow> (\<exists>ch \<in> set chs. chProtocol ch = protocol \<and> chHost ch = h \<and> chPort ch = p)"
  by (induction chs) auto

end
