(* ===== verification/IstioReconciler.thy ===== *)
theory IstioReconciler
  imports IstioEntries
begin

text \<open>
  The Istio reconciler (\<open>controllers/dynakube/istio\<close>): for the API URL, the code modules and the ActiveGate it
  keeps a service entry for IP hosts, a service entry and a virtual service for the other hosts, and a
  condition. \<open>itIsIP\<close> is \<open>net.ParseIP\<close>.
\<close>

section \<open>Conditions (\<open>conditions.go\<close>, \<open>deprecated.go\<close>)\<close>

record istio_env =
  itCluster :: cluster_env
  itURL :: url_parser
  itIsIP :: "string \<Rightarrow> bool"
  itKubemonOperand :: string

abbreviation OperatorComponent :: string where "OperatorComponent \<equiv> ''operator''"
abbreviation operatorConditionName :: string where "operatorConditionName \<equiv> ''Operator''"
abbreviation CodeModuleComponent :: string where "CodeModuleComponent \<equiv> ''oneagent''"
abbreviation codeModuleConditionName :: string where "codeModuleConditionName \<equiv> ''OneAgent''"
abbreviation ActiveGateComponent :: string where "ActiveGateComponent \<equiv> ''activegate''"
abbreviation activeGateConditionName :: string where "activeGateConditionName \<equiv> ''ActiveGate''"
abbreviation deprecatedComponent :: string where "deprecatedComponent \<equiv> ''CodeModule''"

definition getConditionTypeName :: "string \<Rightarrow> string" where
  "getConditionTypeName component = ''IstioFor'' @ component"

definition ServiceEntryUpdatedCondition :: "string \<Rightarrow> cond_op" where
  "ServiceEntryUpdatedCondition component =
     status_condition (getConditionTypeName component) True (''IstioFor'' @ component @ ''Changed'')
       (''ServiceEntries and VirtualServices for '' @ component @ '' have been configured.'')"

definition ServiceEntryFailedCondition :: "string \<Rightarrow> cond_op" where
  "ServiceEntryFailedCondition component =
     status_condition (getConditionTypeName component) False (''IstioFor'' @ component @ ''Failed'')
       (''Failed to configure Istio ServiceEntries and VirtualServices for '' @ component)"

definition remove_istio_cond :: "string \<Rightarrow> (cluster_state, unit) io" where
  "remove_istio_cond component = set_cond (RemoveStatusCondition (getConditionTypeName component))"

definition isIstioConfigured :: "istio_env \<Rightarrow> string \<Rightarrow> cluster_state \<Rightarrow> bool" where
  "isIstioConfigured env conditionComponent = has_cond (itCluster env) (getConditionTypeName conditionComponent)"

text \<open>The type of the condition is changed in place: the old type is gone and the new one has its content.\<close>

definition migrateDeprecatedCondition :: "istio_env \<Rightarrow> (cluster_state, unit) io" where
  "migrateDeprecatedCondition env =
     andThen (gets clDk) (\<lambda>dk.
       case keFind (itCluster env) (dstConditions (dkStatus dk)) (getConditionTypeName deprecatedComponent) of
         None \<Rightarrow> ret ()
       | Some depCondition \<Rightarrow>
           andThen (remove_istio_cond deprecatedComponent) (\<lambda>_.
             set_cond (SetStatusCondition (depCondition\<lparr>condType := getConditionTypeName CodeModuleComponent\<rparr>))))"

section \<open>Objects (\<open>reconciler.go\<close>)\<close>

text \<open>\<open>errors.Join\<close> of two calls that are both made.\<close>

definition join_two :: "('s, unit) io \<Rightarrow> ('s, unit) io \<Rightarrow> ('s, unit) io" where
  "join_two m n =
     andThen (attempt m) (\<lambda>r1.
     andThen (attempt n) (\<lambda>r2.
       case join_errors ((case r1 of Inl e \<Rightarrow> [e] | Inr _ \<Rightarrow> []) @ (case r2 of Inl e \<Rightarrow> [e] | Inr _ \<Rightarrow> [])) of
         None \<Rightarrow> ret () | Some e \<Rightarrow> throw e))"

definition buildObjectMeta :: "string \<Rightarrow> string \<Rightarrow> smap option \<Rightarrow> 'p \<Rightarrow> 'p kobject" where
  "buildObjectMeta name ns labels payload =
     \<lparr>koName = name, koNamespace = ns, koUID = [], koResourceVersion = [], koAnnotations = Map.empty,
      koLabels = labels, koOwnerReferences = [], koPayload = payload\<rparr>"

definition istio_object :: "istio_env \<Rightarrow> dynakube \<Rightarrow> string \<Rightarrow> string \<Rightarrow> 'p \<Rightarrow> 'p kobject" where
  "istio_object env dk entryName component payload =
     buildObjectMeta entryName (dkNamespace dk) (component_labels (itCluster env) dk component) payload"

definition cleanupIPServiceEntry :: "istio_env \<Rightarrow> string \<Rightarrow> (cluster_state, unit) io" where
  "cleanupIPServiceEntry env component =
     andThen (gets clDk) (\<lambda>dk.
       with_entries (Delete (keServiceEntries (itCluster env)) (dkNamespace dk)
         (BuildNameForIPServiceEntry (dkName dk) component)))"

definition cleanupFQDNServiceEntry :: "istio_env \<Rightarrow> string \<Rightarrow> (cluster_state, unit) io" where
  "cleanupFQDNServiceEntry env component =
     andThen (gets clDk) (\<lambda>dk.
       let entryName = BuildNameForFQDNServiceEntry (dkName dk) component in
       join_two (with_entries (Delete (keServiceEntries (itCluster env)) (dkNamespace dk) entryName))
         (with_virtual (Delete (keVirtualServices (itCluster env)) (dkNamespace dk) entryName)))"

definition cleanupIstio :: "istio_env \<Rightarrow> string \<Rightarrow> (cluster_state, unit) io" where
  "cleanupIstio env component = join_two (cleanupIPServiceEntry env component) (cleanupFQDNServiceEntry env component)"

definition reconcileIPServiceEntry ::
    "istio_env \<Rightarrow> communication_host list \<Rightarrow> string \<Rightarrow> (cluster_state, unit) io" where
  "reconcileIPServiceEntry env ipHosts component =
     andThen (gets clDk) (\<lambda>dk.
       if ipHosts \<noteq> [] then
         andThen (with_entries (create_or_update (WithOwner (dkName dk) (keServiceEntries (itCluster env)))
           (istio_object env dk (BuildNameForIPServiceEntry (dkName dk) component) component (buildServiceEntryIPs ipHosts))))
           (\<lambda>_. ret ())
       else cleanupIPServiceEntry env component)"

definition nil_dereference :: error where
  "nil_dereference = Sentinel ''runtime error: invalid memory address or nil pointer dereference''"

definition reconcileFQDNServiceEntry ::
    "istio_env \<Rightarrow> communication_host list \<Rightarrow> string \<Rightarrow> (cluster_state, unit) io" where
  "reconcileFQDNServiceEntry env fqdnHosts component =
     andThen (gets clDk) (\<lambda>dk.
       let entryName = BuildNameForFQDNServiceEntry (dkName dk) component in
       if fqdnHosts \<noteq> [] then
         andThen (with_entries (create_or_update (WithOwner (dkName dk) (keServiceEntries (itCluster env)))
           (istio_object env dk entryName component (buildServiceEntryFQDNs fqdnHosts)))) (\<lambda>_.
           case buildVirtualService (itIsIP env) fqdnHosts of
             None \<Rightarrow> throw nil_dereference
           | Some virtualService \<Rightarrow>
               andThen (with_virtual (create_or_update (WithOwner (dkName dk) (keVirtualServices (itCluster env)))
                 (istio_object env dk entryName component virtualService))) (\<lambda>_. ret ()))
       else cleanupFQDNServiceEntry env component)"

definition reconcileCommunicationHosts ::
    "istio_env \<Rightarrow> communication_host list \<Rightarrow> string \<Rightarrow> (cluster_state, unit) io" where
  "reconcileCommunicationHosts env comHosts component =
     (case splitCommunicationHost (itIsIP env) comHosts of (ipHosts, fqdnHosts) \<Rightarrow>
        join_two (reconcileIPServiceEntry env ipHosts component) (reconcileFQDNServiceEntry env fqdnHosts component))"

definition reconcileCommunicationHostsForComponent ::
    "istio_env \<Rightarrow> communication_host list \<Rightarrow> string \<Rightarrow> (cluster_state, unit) io" where
  "reconcileCommunicationHostsForComponent env comHosts componentName =
     wrap_msg ''error reconciling config for Dynatrace communication hosts''
       (reconcileCommunicationHosts env comHosts componentName)"

section \<open>Reconcile\<close>

text \<open>The clean-up of a component that does without Istio; what fails is only logged.\<close>

definition istio_cleanup :: "istio_env \<Rightarrow> string \<Rightarrow> string \<Rightarrow> string \<Rightarrow> (cluster_state, unit) io" where
  "istio_cleanup env configured component conditionName =
     andThen (gets (isIstioConfigured env configured)) (\<lambda>present.
       if present then
         andThen (attempt (cleanupIstio env component)) (\<lambda>_. remove_istio_cond conditionName)
       else ret ())"

definition istio_enabled :: "dynakube \<Rightarrow> bool" where
  "istio_enabled dk \<longleftrightarrow> dspEnableIstio (dkSpec dk) = Some True"

definition ReconcileAPIURL :: "istio_env \<Rightarrow> (cluster_state, unit) io" where
  "ReconcileAPIURL env =
     andThen (gets clDk) (\<lambda>dk.
       if \<not> istio_enabled dk then istio_cleanup env OperatorComponent OperatorComponent operatorConditionName
       else
         andThen (lift (NewCommunicationHost (itURL env) (dspAPIURL (dkSpec dk)))) (\<lambda>apiCommunicationHost.
         andThen (wrap_msg ''error reconciling config for Dynatrace API URL''
           (reconcileCommunicationHosts env [apiCommunicationHost] OperatorComponent)) (\<lambda>_.
           set_cond (ServiceEntryUpdatedCondition operatorConditionName))))"

text \<open>The parsed hosts of a component: its objects and its condition.\<close>

definition istio_hosts ::
    "istio_env \<Rightarrow> error + communication_host list \<Rightarrow> string \<Rightarrow> string \<Rightarrow> (cluster_state, unit) io" where
  "istio_hosts env parsed component conditionName =
     (let failed = (\<lambda>e. andThen (set_cond (ServiceEntryFailedCondition conditionName)) (\<lambda>_. throw e)) in
      case parsed of
        Inl e \<Rightarrow> failed e
      | Inr comHosts \<Rightarrow>
          andThen (attempt (reconcileCommunicationHostsForComponent env comHosts component)) (\<lambda>r.
            case r of
              Inl e \<Rightarrow> failed e
            | Inr _ \<Rightarrow> if comHosts = [] then remove_istio_cond conditionName
                      else set_cond (ServiceEntryUpdatedCondition conditionName)))"

definition istio_ReconcileCodeModules :: "istio_env \<Rightarrow> (cluster_state, unit) io" where
  "istio_ReconcileCodeModules env =
     andThen (migrateDeprecatedCondition env) (\<lambda>_.
     andThen (gets clDk) (\<lambda>dk.
       if \<not> istio_enabled dk \<or> \<not> IsAppInjectionNeeded (dk_OneAgent dk)
       then istio_cleanup env codeModuleConditionName CodeModuleComponent codeModuleConditionName
       else istio_hosts env (ParseOACommunicationHosts (itURL env) (ciEndpoints (osConnectionInfo (dstOneAgent (dkStatus dk)))))
              CodeModuleComponent codeModuleConditionName))"

definition istio_ReconcileActiveGate :: "istio_env \<Rightarrow> (cluster_state, unit) io" where
  "istio_ReconcileActiveGate env =
     andThen (gets clDk) (\<lambda>dk.
       let agEnabled = ag_IsEnabled (dk_ActiveGate dk);
           kubemonEnabled = dk_IsKubemonEnabled (itKubemonOperand env) dk;
           endpoints = (if agEnabled then ciEndpoints (asConnectionInfo (dstActiveGate (dkStatus dk)))
                        else ciEndpoints (ksConnectionInfo (dstKubernetesMonitoring (dkStatus dk))))
       in if \<not> istio_enabled dk \<or> (\<not> agEnabled \<and> \<not> kubemonEnabled)
          then istio_cleanup env activeGateConditionName ActiveGateComponent activeGateConditionName
          else istio_hosts env (ParseAGCommunicationHosts (itURL env) endpoints) ActiveGateComponent activeGateConditionName)"

end
