(* ===== verification/IstioLaws.thy ===== *)
theory IstioLaws
  imports IstioReconciler
begin

text \<open>
  Laws of the Istio reconciler: what the objects let through, what is cleaned up when Istio is switched off, and
  what is not.
\<close>

section \<open>What the objects let through\<close>

text \<open>
  An entry opens every port of its list for every one of its destinations, the addresses when it has any and
  the hosts otherwise. A host is let through when its destination and port are opened and, for HTTP and HTTPS
  on a name, the virtual service has the route.
\<close>

definition entry_opens :: "service_entry \<Rightarrow> (string \<times> nat) set" where
  "entry_opens e =
     set (if seAddresses e = [] then seHosts e else seAddresses e) \<times> ipNumber ` set (sePorts e)"

definition lets_through :: "(string \<Rightarrow> bool) \<Rightarrow> communication_host list \<Rightarrow> communication_host \<Rightarrow> bool" where
  "lets_through is_ip comHosts ch \<longleftrightarrow>
     (case splitCommunicationHost is_ip comHosts of (ipHosts, fqdnHosts) \<Rightarrow>
        if is_ip (chHost ch) then (chHost ch @ ''/32'', chPort ch) \<in> entry_opens (buildServiceEntryIPs ipHosts)
        else (chHost ch, chPort ch) \<in> entry_opens (buildServiceEntryFQDNs fqdnHosts) \<and>
             (case buildVirtualService is_ip fqdnHosts of
                None \<Rightarrow> False
              | Some vs \<Rightarrow>
                  chHost ch \<in> set (vsHosts vs) \<and>
                  (chProtocol ch = ''https'' \<longrightarrow> (chHost ch, chPort ch) \<in> set (vsTls vs)) \<and>
                  (chProtocol ch = ''http'' \<longrightarrow> (chHost ch, chPort ch) \<in> set (vsHttp vs))))"

lemma virtual_of_names:
  "filter (\<lambda>ch. \<not> is_ip (chHost ch)) chs \<noteq> [] \<Longrightarrow>
   buildVirtualService is_ip (filter (\<lambda>ch. \<not> is_ip (chHost ch)) chs) =
     Some (buildVirtualServiceSpec (filter (\<lambda>ch. \<not> is_ip (chHost ch)) chs))"
  by (simp add: buildVirtualService_def Let_def)

lemma port_numbers:
  "ipNumber ` set (collect_ports fqdn_port [] chs) = chPort ` set chs" "ipNumber ` set (collect_ports ip_port [] chs) = chPort ` set chs"
  "distinct (map ipNumber (collect_ports fqdn_port [] chs))" "distinct (map ipNumber (collect_ports ip_port [] chs))"
  using collect_ports_numbers[of fqdn_port "[]" chs] collect_ports_numbers[of ip_port "[]" chs]
  by (simp_all add: fqdn_port_def ip_port_def)

text \<open>What the two entries open: every destination on every port of the list.\<close>

lemma entries_open:
  "entry_opens (buildServiceEntryIPs chs) = (\<lambda>ch. chHost ch @ ''/32'') ` set chs \<times> chPort ` set chs"
  "entry_opens (buildServiceEntryFQDNs chs) = chHost ` set chs \<times> chPort ` set chs"
  by (cases chs; auto simp: entry_opens_def buildServiceEntryIPs_def buildServiceEntryFQDNs_def port_numbers
      simp del: collect_ports.simps)+

lemma hosts_let_through: "ch \<in> set chs \<Longrightarrow> lets_through is_ip chs ch"
proof -
  assume ch: "ch \<in> set chs"
  show ?thesis
  proof (cases "is_ip (chHost ch)")
    case True
    with ch have "ch \<in> set (filter (\<lambda>ch. is_ip (chHost ch)) chs)" by simp
    with True show ?thesis by (auto simp: lets_through_def splitCommunicationHost_def entries_open)
  next
    case False
    let ?names = "filter (\<lambda>ch. \<not> is_ip (chHost ch)) chs"
    from False ch have named: "ch \<in> set ?names" by simp
    then have "?names \<noteq> []" by (metis empty_iff empty_set)
    note vs = virtual_of_names[OF this]
    from named have "(chHost ch, chPort ch) \<in> set (build_routes (chProtocol ch) ?names)"
      unfolding route_iff by blast
    with named False show ?thesis
      unfolding lets_through_def splitCommunicationHost_def prod.case vs
      by (auto simp: entries_open buildVirtualServiceSpec_def)
  qed
qed

lemma routes_of_hosts:
  "set (vsTls (buildVirtualServiceSpec chs)) = {(chHost ch, chPort ch) | ch. ch \<in> set chs \<and> chProtocol ch = ''https''}"
  "set (vsHttp (buildVirtualServiceSpec chs)) = {(chHost ch, chPort ch) | ch. ch \<in> set chs \<and> chProtocol ch = ''http''}"
  by (auto simp: buildVirtualServiceSpec_def route_iff)

text \<open>The first host with a port decides about name and protocol of the port.\<close>

lemma first_host_of_port:
  assumes "\<And>ch. ipNumber (port_of ch) = chPort ch" and "q \<in> set (collect_ports port_of seen chs)"
  shows "ipNumber q \<notin> set seen \<and> map_option port_of (List.find (\<lambda>ch. chPort ch = ipNumber q) chs) = Some q"
  using assms(2)
proof (induction chs arbitrary: seen)
  case (Cons ch chs)
  show ?case
  proof (cases "chPort ch \<in> set seen")
    case True
    then have "q \<in> set (collect_ports port_of seen chs)" using Cons.prems by simp
    from Cons.IH[OF this] True show ?thesis by auto
  next
    case False
    show ?thesis
    proof (cases "q = port_of ch")
      case True
      with False show ?thesis by (simp add: assms(1))
    next
      case other: False
      then have "q \<in> set (collect_ports port_of (chPort ch # seen) chs)" using Cons.prems False by simp
      from Cons.IH[OF this] show ?thesis by auto
    qed
  qed
qed simp

section \<open>Clean-up\<close>

lemma with_entries_result: "with_entries m st = (fst (m (clServiceEntries st)), st\<lparr>clServiceEntries := snd (m (clServiceEntries st))\<rparr>)"
  by (simp add: with_entries_def split: prod.split)

lemma with_virtual_result: "with_virtual m st = (fst (m (clVirtualServices st)), st\<lparr>clVirtualServices := snd (m (clVirtualServices st))\<rparr>)"
  by (simp add: with_virtual_def split: prod.split)

lemma join_two_state: "snd (join_two m n st) = snd (n (snd (m st)))"
  by (auto simp: join_two_def andThen_attempt ret_def throw_def split: prod.split option.split)

lemma Delete_state: "snd (Delete env ns n q) = q\<lparr>qsTrace := qsTrace q @ [QDelete ns n]\<rparr>"
  by (simp add: Delete_def q_ask_def)

text \<open>The state after the clean-up of the objects of a component, whatever the server says.\<close>

definition without_istio :: "string \<Rightarrow> cluster_state \<Rightarrow> cluster_state" where
  "without_istio component st =
     (let ns = dkNamespace (clDk st); ip = BuildNameForIPServiceEntry (dkName (clDk st)) component;
          fqdn = BuildNameForFQDNServiceEntry (dkName (clDk st)) component
      in st\<lparr>clServiceEntries := (clServiceEntries st)\<lparr>qsTrace := qsTrace (clServiceEntries st) @ [QDelete ns ip, QDelete ns fqdn]\<rparr>,
            clVirtualServices := (clVirtualServices st)\<lparr>qsTrace := qsTrace (clVirtualServices st) @ [QDelete ns fqdn]\<rparr>\<rparr>)"

lemma cleanup_state: "snd (cleanupIstio env component st) = without_istio component st"
  by (simp add: cleanupIstio_def join_two_state cleanupIPServiceEntry_def cleanupFQDNServiceEntry_def andThen_gets Let_def
      with_entries_result with_virtual_result Delete_state without_istio_def)

lemma istio_cleanup_run:
  "istio_cleanup env configured component conditionName st =
     (Inr (), if isIstioConfigured env configured st
      then (without_istio component st)\<lparr>clDk := add_condition_op (RemoveStatusCondition (getConditionTypeName conditionName)) (clDk st)\<rparr>
      else st)"
proof -
  obtain r where run: "cleanupIstio env component st = (r, without_istio component st)"
    using cleanup_state[of env component st] by (metis prod.collapse)
  have dk: "clDk (without_istio component st) = clDk st" by (simp add: without_istio_def Let_def)
  show ?thesis by (simp add: istio_cleanup_def step_simps run remove_istio_cond_def dk)
qed

section \<open>Conditions\<close>

lemma istio_steps_keep_dk:
  "clDk (snd (with_entries m st)) = clDk st" "clDk (snd (with_virtual m' st)) = clDk st"
  by (simp_all add: with_entries_result with_virtual_result)

lemma andThen_keeps:
  assumes "g (snd (m st)) = g st" and "\<And>x st'. g (snd (f x st')) = g st'"
  shows "g (snd (andThen m f st)) = g st"
  using assms by (auto simp: andThen_def split: prod.splits sum.splits)

lemma cleanup_keeps_dk:
  "clDk (snd (cleanupIPServiceEntry env component st)) = clDk st" "clDk (snd (cleanupFQDNServiceEntry env component st)) = clDk st"
  by (simp_all add: cleanupIPServiceEntry_def cleanupFQDNServiceEntry_def andThen_gets Let_def join_two_state istio_steps_keep_dk)

lemma objects_keep_dk:
  "clDk (snd (reconcileIPServiceEntry env hs component st)) = clDk st"
  "clDk (snd (reconcileFQDNServiceEntry env hs component st)) = clDk st"
  by (auto simp: reconcileIPServiceEntry_def reconcileFQDNServiceEntry_def andThen_gets Let_def cleanup_keeps_dk ret_def
      throw_def istio_steps_keep_dk intro!: andThen_keeps split: option.split)

lemma hosts_keep_dk: "clDk (snd (reconcileCommunicationHosts env hs component st)) = clDk st"
  by (simp add: reconcileCommunicationHosts_def split_beta join_two_state objects_keep_dk)


section \<open>Properties\<close>

text \<open>C26. What the Istio objects open. Every communication host is let through, over one object for addresses and
  two for names. A service entry does not open the hosts' own pairs but each destination on each port: the
  product of the addresses (or names) of the hosts and their ports, with no port twice and the first host of a
  port deciding about its name and protocol. Only the routes of the virtual service are exactly the pairs of the
  hosts with names. The addresses carry \<open>/32\<close>, also those of IPv6, where this is a whole network.
\<close>

theorem istio_opens_product:
  assumes "splitCommunicationHost is_ip comHosts = (ips, names)"
  shows "list_all (lets_through is_ip comHosts) comHosts \<and>
    entry_opens (buildServiceEntryIPs ips) =
      (\<lambda>ch. chHost ch @ ''/32'') ` {ch \<in> set comHosts. is_ip (chHost ch)} \<times> chPort ` {ch \<in> set comHosts. is_ip (chHost ch)} \<and>
    entry_opens (buildServiceEntryFQDNs names) =
      chHost ` {ch \<in> set comHosts. \<not> is_ip (chHost ch)} \<times> chPort ` {ch \<in> set comHosts. \<not> is_ip (chHost ch)} \<and>
    distinct (map ipNumber (sePorts (buildServiceEntryIPs ips))) \<and> distinct (map ipNumber (sePorts (buildServiceEntryFQDNs names))) \<and>
    list_all (\<lambda>q. map_option fqdn_port (List.find (\<lambda>ch. chPort ch = ipNumber q) names) = Some q)
      (sePorts (buildServiceEntryFQDNs names)) \<and>
    list_all (\<lambda>q. map_option ip_port (List.find (\<lambda>ch. chPort ch = ipNumber q) ips) = Some q)
      (sePorts (buildServiceEntryIPs ips)) \<and>
    vsHosts (buildVirtualServiceSpec names) = map chHost (filter (\<lambda>ch. \<not> is_ip (chHost ch)) comHosts) \<and>
    set (vsTls (buildVirtualServiceSpec names)) =
      (\<lambda>ch. (chHost ch, chPort ch)) ` {ch \<in> set comHosts. \<not> is_ip (chHost ch) \<and> chProtocol ch = ''https''} \<and>
    set (vsHttp (buildVirtualServiceSpec names)) =
      (\<lambda>ch. (chHost ch, chPort ch)) ` {ch \<in> set comHosts. \<not> is_ip (chHost ch) \<and> chProtocol ch = ''http''}"
proof -
  have sets: "set ips = {ch \<in> set comHosts. is_ip (chHost ch)}" "set names = {ch \<in> set comHosts. \<not> is_ip (chHost ch)}"
    and names: "names = filter (\<lambda>ch. \<not> is_ip (chHost ch)) comHosts"
    using assms by (auto simp: splitCommunicationHost_def)
  have "list_all (lets_through is_ip comHosts) comHosts" by (simp add: list_all_iff hosts_let_through)
  moreover have "distinct (map ipNumber (sePorts (buildServiceEntryIPs ips)))"
    "distinct (map ipNumber (sePorts (buildServiceEntryFQDNs names)))"
    by (simp_all add: buildServiceEntryIPs_def buildServiceEntryFQDNs_def port_numbers)
  moreover have "list_all (\<lambda>q. map_option fqdn_port (List.find (\<lambda>ch. chPort ch = ipNumber q) names) = Some q)
      (sePorts (buildServiceEntryFQDNs names))"
    "list_all (\<lambda>q. map_option ip_port (List.find (\<lambda>ch. chPort ch = ipNumber q) ips) = Some q)
      (sePorts (buildServiceEntryIPs ips))"
    using first_host_of_port[of fqdn_port _ "[]" names] first_host_of_port[of ip_port _ "[]" ips]
    by (simp_all add: list_all_iff buildServiceEntryIPs_def buildServiceEntryFQDNs_def fqdn_port_def ip_port_def)
  moreover have "set (vsTls (buildVirtualServiceSpec names)) =
      (\<lambda>ch. (chHost ch, chPort ch)) ` {ch \<in> set comHosts. \<not> is_ip (chHost ch) \<and> chProtocol ch = ''https''}"
    "set (vsHttp (buildVirtualServiceSpec names)) =
      (\<lambda>ch. (chHost ch, chPort ch)) ` {ch \<in> set comHosts. \<not> is_ip (chHost ch) \<and> chProtocol ch = ''http''}"
    unfolding routes_of_hosts sets by blast+
  moreover have "vsHosts (buildVirtualServiceSpec names) = map chHost (filter (\<lambda>ch. \<not> is_ip (chHost ch)) comHosts)"
    by (simp add: buildVirtualServiceSpec_def names)
  ultimately show ?thesis unfolding entries_open sets by blast
qed

lemma migrated:
  assumes "status_conditions (keFind (itCluster env))"
  shows "\<exists>cs. migrateDeprecatedCondition env st =
      (Inr (), st\<lparr>clDk := fold add_condition_op cs (clDk st)\<rparr>) \<and>
     list_all (\<lambda>c. cond_op_type c \<in> {getConditionTypeName deprecatedComponent, getConditionTypeName CodeModuleComponent}) cs"
proof (cases "keFind (itCluster env) (dstConditions (dkStatus (clDk st))) (getConditionTypeName deprecatedComponent)")
  case None
  then show ?thesis by (intro exI[of _ "[]"]) (simp add: migrateDeprecatedCondition_def step_simps)
next
  case (Some c)
  then show ?thesis
    by (intro exI[of _ "[RemoveStatusCondition (getConditionTypeName deprecatedComponent),
        SetStatusCondition (c\<lparr>condType := getConditionTypeName CodeModuleComponent\<rparr>)]"])
      (simp add: migrateDeprecatedCondition_def step_simps remove_istio_cond_def)
qed

text \<open>
  With Istio switched off, or without a use for the code modules, the clean-up asks for the removal of all three
  objects, whatever the server said before, and the condition that led there is gone.
\<close>

theorem disabled_istio_cleaned_up:
  assumes "status_conditions (keFind (itCluster env))"
    and "\<not> istio_enabled (clDk st) \<or> \<not> IsAppInjectionNeeded (dk_OneAgent (clDk st))"
    and "isIstioConfigured env codeModuleConditionName st"
    and "istio_ReconcileCodeModules env st = (r, st')"
  shows "r = Inr () \<and> \<not> isIstioConfigured env codeModuleConditionName st' \<and>
     clServiceEntries st' = clServiceEntries (without_istio CodeModuleComponent st) \<and>
     clVirtualServices st' = clVirtualServices (without_istio CodeModuleComponent st)"
proof -
  obtain cs where m: "migrateDeprecatedCondition env st = (Inr (), st\<lparr>clDk := fold add_condition_op cs (clDk st)\<rparr>)"
    and types: "list_all (\<lambda>c. cond_op_type c \<in> {getConditionTypeName deprecatedComponent, getConditionTypeName CodeModuleComponent}) cs"
    using migrated[OF assms(1)] by blast
  let ?st1 = "st\<lparr>clDk := fold add_condition_op cs (clDk st)\<rparr>"
  have "\<forall>c \<in> set cs. cond_op_type c \<noteq> getConditionTypeName codeModuleConditionName"
    using types by (auto simp: list_all_iff getConditionTypeName_def)
  from status_conditions.found_others[OF assms(1) this]
  have still: "isIstioConfigured env codeModuleConditionName ?st1"
    using assms(3) by (simp add: isIstioConfigured_def has_cond_def folded_ops)
  have off: "\<not> istio_enabled (clDk ?st1) \<or> \<not> IsAppInjectionNeeded (dk_OneAgent (clDk ?st1))"
    using assms(2)
    by (simp add: istio_enabled_def folded_ops IsAppInjectionNeeded_def IsCloudNativeFullstackMode_def
        IsApplicationMonitoringMode_def dk_OneAgent_def)
  have "istio_ReconcileCodeModules env st =
      istio_cleanup env codeModuleConditionName CodeModuleComponent codeModuleConditionName ?st1"
    using off by (auto simp: istio_ReconcileCodeModules_def andThen_def[of "migrateDeprecatedCondition env"] m andThen_gets)
  with assms(4) still have result: "r = Inr ()" "st' = (without_istio CodeModuleComponent ?st1)\<lparr>clDk := add_condition_op
      (RemoveStatusCondition (getConditionTypeName codeModuleConditionName)) (clDk ?st1)\<rparr>"
    by (simp_all add: istio_cleanup_run)
  have "\<not> isIstioConfigured env codeModuleConditionName st'"
    unfolding result by (simp add: isIstioConfigured_def has_cond_def add_condition_op_def status_conditions.found_removed[OF assms(1)])
  with result show ?thesis by (simp add: without_istio_def Let_def folded_ops)
qed

text \<open>C27. The condition of the API URL is looked up under the name of the component, and set under another one. What was
  made for the API URL while Istio was on stays after it is switched off: nothing is asked of the server, and
  the condition still says that the objects are configured.
\<close>

theorem api_url_objects_orphaned:
  assumes "status_conditions (keFind (itCluster env))" and "istio_enabled (clDk st)"
    and "\<not> isIstioConfigured env OperatorComponent st" and "ReconcileAPIURL env st = (Inr (), st1)"
    and "\<not> istio_enabled ((clDk st1)\<lparr>dkSpec := spec\<rparr>)"
  shows "isIstioConfigured env operatorConditionName st1 \<and>
     ReconcileAPIURL env (st1\<lparr>clDk := (clDk st1)\<lparr>dkSpec := spec\<rparr>\<rparr>) = (Inr (), st1\<lparr>clDk := (clDk st1)\<lparr>dkSpec := spec\<rparr>\<rparr>)"
proof -
  obtain ch st0 where objects: "reconcileCommunicationHosts env [ch] OperatorComponent st = (Inr (), st0)"
    and st1: "st1 = st0\<lparr>clDk := add_condition_op (ServiceEntryUpdatedCondition operatorConditionName) (clDk st0)\<rparr>"
    using assms(2,4)
    by (auto simp: ReconcileAPIURL_def step_simps wrap_msg_def andThen_def[of "wrap_msg _ _"] split: sum.splits prod.splits)
  have "clDk st0 = clDk st" using hosts_keep_dk[of env "[ch]" OperatorComponent st] by (simp add: objects)
  then have ops: "dstConditions (dkStatus (clDk st1)) =
      dstConditions (dkStatus (clDk st)) @ [ServiceEntryUpdatedCondition operatorConditionName]"
    by (simp add: st1 add_condition_op_def)
  have "cond_op_type (ServiceEntryUpdatedCondition operatorConditionName) \<noteq> getConditionTypeName OperatorComponent"
    by (simp add: ServiceEntryUpdatedCondition_def getConditionTypeName_def status_condition_def)
  then have none: "\<not> isIstioConfigured env OperatorComponent (st1\<lparr>clDk := (clDk st1)\<lparr>dkSpec := spec\<rparr>\<rparr>)"
    using assms(3) status_conditions.found_other[OF assms(1)]
    by (simp add: isIstioConfigured_def has_cond_def ops)
  have "isIstioConfigured env operatorConditionName st1"
    by (simp add: isIstioConfigured_def has_cond_def ops ServiceEntryUpdatedCondition_def status_conditions.found_status[OF assms(1)])
  moreover have "ReconcileAPIURL env (st1\<lparr>clDk := (clDk st1)\<lparr>dkSpec := spec\<rparr>\<rparr>) =
      (Inr (), st1\<lparr>clDk := (clDk st1)\<lparr>dkSpec := spec\<rparr>\<rparr>)"
    using assms(5) none by (simp add: ReconcileAPIURL_def andThen_gets istio_cleanup_run)
  ultimately show ?thesis by blast
qed

section \<open>Witnesses\<close>

definition sample_hosts :: "communication_host list" where
  "sample_hosts = [\<lparr>chProtocol = ''https'', chHost = ''tenant'', chPort = 443\<rparr>, \<lparr>chProtocol = ''https'', chHost = ''1.2.3.4'', chPort = 9999\<rparr>,
     \<lparr>chProtocol = ''http'', chHost = ''other'', chPort = 80\<rparr>]"

text \<open>No host has the pair of \<open>tenant\<close> and 80; the entry opens it, without a route.\<close>

theorem istio_opens_product_witness:
  "let names = [hd sample_hosts, last sample_hosts] in
   splitCommunicationHost (\<lambda>h. h = ''1.2.3.4'') sample_hosts = ([sample_hosts ! 1], names) \<and>
   set (vsTls (buildVirtualServiceSpec names)) = {(''tenant'', 443)} \<and>
   (''tenant'', 80) \<in> entry_opens (buildServiceEntryFQDNs names)"
proof -
  let ?names = "[hd sample_hosts, last sample_hosts]"
  have split: "splitCommunicationHost (\<lambda>h. h = ''1.2.3.4'') sample_hosts = ([sample_hosts ! 1], ?names)"
    by (simp add: splitCommunicationHost_def sample_hosts_def)
  have hosts: "{ch \<in> set sample_hosts. chHost ch \<noteq> ''1.2.3.4'' \<and> chProtocol ch = ''https''} = {hd sample_hosts}"
    "{ch \<in> set sample_hosts. chHost ch \<noteq> ''1.2.3.4''} = {hd sample_hosts, last sample_hosts}"
    by (auto simp: sample_hosts_def)
  note all = istio_opens_product[OF split, unfolded hosts]
  have "set (vsTls (buildVirtualServiceSpec ?names)) = (\<lambda>ch. (chHost ch, chPort ch)) ` {hd sample_hosts}"
    using all by (elim conjE)
  moreover have "entry_opens (buildServiceEntryFQDNs ?names) =
      chHost ` {hd sample_hosts, last sample_hosts} \<times> chPort ` {hd sample_hosts, last sample_hosts}"
    using all by (elim conjE)
  moreover have "chHost (hd sample_hosts) = ''tenant''" "chPort (hd sample_hosts) = 443" "chPort (last sample_hosts) = 80"
    by (simp_all add: sample_hosts_def)
  ultimately show ?thesis unfolding Let_def using split by simp
qed

definition sample_istio_env :: istio_env where
  "sample_istio_env =
     \<lparr>itCluster = sample_cluster_env,
      itURL = (\<lambda>_. Inr \<lparr>upScheme = ''https'', upHostname = ''tenant'', upPort = []\<rparr>),
      itIsIP = (\<lambda>_. False), itKubemonOperand = ''kubemon''\<rparr>"

lemma sample_istio_laws: "status_conditions (keFind (itCluster sample_istio_env))"
  by (simp add: sample_istio_env_def sample_cluster_env_def last.status_conditions_axioms)

definition istio_dynakube :: "bool \<Rightarrow> dynakube" where
  "istio_dynakube on = zero_dynakube\<lparr>dkSpec := zero_dynakube_spec\<lparr>dspEnableIstio := Some on\<rparr>\<rparr>"

lemma sample_istio_run: "\<exists>st'. ReconcileAPIURL sample_istio_env (sample_cluster (istio_dynakube True)) = (Inr (), st')"
proof -
  let ?ch = "\<lparr>chProtocol = ''https'', chHost = ''tenant'', chPort = 443\<rparr>"
  have host: "NewCommunicationHost (itURL sample_istio_env) url = Inr ?ch" for url
    by (simp add: NewCommunicationHost_def sample_istio_env_def)
  have ips: "\<exists>st'. reconcileIPServiceEntry sample_istio_env [] c st = (Inr (), st')" for c st
    by (simp add: reconcileIPServiceEntry_def andThen_gets cleanupIPServiceEntry_def with_entries_result Delete_def q_ask_def
        sample_istio_env_def sample_cluster_env_def sample_objects_def WithOwner_def storing_server_def)
  have entries: "\<exists>b st'. with_entries (create_or_update (WithOwner n (keServiceEntries (itCluster sample_istio_env))) obj) st = (Inr b, st')"
    and virtual: "\<exists>b st'. with_virtual (create_or_update (WithOwner n (keVirtualServices (itCluster sample_istio_env))) obj') st = (Inr b, st')"
    for n obj obj' st
    using create_for_owner[of n annotation_isEqual "\<lambda>_ _. False" obj "clServiceEntries st"]
      create_for_owner[of n annotation_isEqual "\<lambda>_ _. False" obj' "clVirtualServices st"]
    by (auto simp: with_entries_result with_virtual_result sample_istio_env_def sample_cluster_env_def)
  have vs: "buildVirtualService (itIsIP sample_istio_env) [?ch] = Some (buildVirtualServiceSpec [?ch])"
    by (simp add: buildVirtualService_def sample_istio_env_def)
  have names: "\<exists>st'. reconcileFQDNServiceEntry sample_istio_env [?ch] c st = (Inr (), st')" for c st
  proof -
    let ?n = "BuildNameForFQDNServiceEntry (dkName (clDk st)) c"
    obtain b1 s1 where first: "with_entries (create_or_update (WithOwner (dkName (clDk st)) (keServiceEntries (itCluster sample_istio_env)))
        (istio_object sample_istio_env (clDk st) ?n c (buildServiceEntryFQDNs [?ch]))) st = (Inr b1, s1)" using entries by blast
    obtain b2 s2 where "with_virtual (create_or_update (WithOwner (dkName (clDk st)) (keVirtualServices (itCluster sample_istio_env)))
        (istio_object sample_istio_env (clDk st) ?n c (buildVirtualServiceSpec [?ch]))) s1 = (Inr b2, s2)" using virtual by blast
    with first show ?thesis
      by (simp add: reconcileFQDNServiceEntry_def andThen_gets Let_def vs andThen_def[of "with_entries _"]
          andThen_def[of "with_virtual _"] ret_def)
  qed
  have split: "splitCommunicationHost (itIsIP sample_istio_env) [?ch] = ([], [?ch])"
    by (simp add: splitCommunicationHost_def sample_istio_env_def)
  have hosts: "\<exists>st'. reconcileCommunicationHosts sample_istio_env [?ch] c st = (Inr (), st')" for c st
  proof -
    obtain s1 where "reconcileIPServiceEntry sample_istio_env [] c st = (Inr (), s1)" using ips by blast
    moreover obtain s2 where "reconcileFQDNServiceEntry sample_istio_env [?ch] c s1 = (Inr (), s2)" using names by blast
    ultimately show ?thesis
      by (simp add: reconcileCommunicationHosts_def split join_two_def andThen_attempt join_errors_def ret_def)
  qed
  from hosts[of OperatorComponent "sample_cluster (istio_dynakube True)"] obtain st1 where
    "reconcileCommunicationHosts sample_istio_env [?ch] OperatorComponent (sample_cluster (istio_dynakube True)) = (Inr (), st1)" by blast
  moreover have "istio_enabled (clDk (sample_cluster (istio_dynakube True)))"
    by (simp add: sample_cluster_def istio_enabled_def istio_dynakube_def)
  ultimately show ?thesis by (simp add: ReconcileAPIURL_def step_simps host andThen_def[of "wrap_msg _ _"] wrap_msg_def)
qed

theorem api_url_objects_orphaned_witness:
  "\<exists>st. isIstioConfigured sample_istio_env operatorConditionName st \<and>
     ReconcileAPIURL sample_istio_env (st\<lparr>clDk := (clDk st)\<lparr>dkSpec := dkSpec (istio_dynakube False)\<rparr>\<rparr>) =
       (Inr (), st\<lparr>clDk := (clDk st)\<lparr>dkSpec := dkSpec (istio_dynakube False)\<rparr>\<rparr>)"
proof -
  obtain st' where run: "ReconcileAPIURL sample_istio_env (sample_cluster (istio_dynakube True)) = (Inr (), st')"
    using sample_istio_run by blast
  have "istio_enabled (clDk (sample_cluster (istio_dynakube True)))"
    and "\<not> isIstioConfigured sample_istio_env OperatorComponent (sample_cluster (istio_dynakube True))"
    and "\<not> istio_enabled ((clDk st')\<lparr>dkSpec := dkSpec (istio_dynakube False)\<rparr>)"
    by (simp_all add: sample_cluster_def istio_enabled_def istio_dynakube_def isIstioConfigured_def has_cond_def
        sample_istio_env_def sample_cluster_env_def last_condition_def zero_dynakube_def zero_dynakube_status_def)
  from api_url_objects_orphaned[OF sample_istio_laws this(1,2) run this(3)] show ?thesis by (rule exI)
qed

theorem disabled_istio_cleaned_up_witness:
  "\<exists>st'. \<not> isIstioConfigured sample_istio_env codeModuleConditionName st' \<and>
     qsTrace (clVirtualServices st') = [QDelete (dkNamespace zero_dynakube) (BuildNameForFQDNServiceEntry (dkName zero_dynakube) CodeModuleComponent)]"
proof -
  let ?st = "sample_cluster (add_condition_op (ServiceEntryUpdatedCondition codeModuleConditionName) (istio_dynakube False))"
  obtain r st' where run: "istio_ReconcileCodeModules sample_istio_env ?st = (r, st')" by fastforce
  have "\<not> istio_enabled (clDk ?st) \<or> \<not> IsAppInjectionNeeded (dk_OneAgent (clDk ?st))"
    by (simp add: sample_cluster_def istio_enabled_def istio_dynakube_def)
  moreover have "isIstioConfigured sample_istio_env codeModuleConditionName ?st"
    by (simp add: sample_cluster_def isIstioConfigured_def has_cond_def sample_istio_env_def sample_cluster_env_def add_condition_op_def
        ServiceEntryUpdatedCondition_def last.found_status)
  ultimately have "\<not> isIstioConfigured sample_istio_env codeModuleConditionName st' \<and>
      clVirtualServices st' = clVirtualServices (without_istio CodeModuleComponent ?st)"
    using disabled_istio_cleaned_up[OF sample_istio_laws _ _ run] by blast
  then show ?thesis
    by (intro exI[of _ st']) (simp add: without_istio_def Let_def sample_cluster_def no_objects_def istio_dynakube_def)
qed

end
