(* ===== verification/ActiveGateLaws.thy ===== *)
theory ActiveGateLaws
  imports ActiveGateModifiers AdmissionVerdict
begin

text \<open>
  The stateful set of the ActiveGate is consistent: the names the admission webhook reserves are all the
  builder uses, so that the volumes and mounts of an admitted DynaKube never clash with them.
\<close>

section \<open>Effects of the modifiers\<close>

definition ag_step :: "ag_modifier \<Rightarrow> ag_build \<Rightarrow> ag_build" where
  "ag_step m d = (if modEnabled m then modModify m d else d)"

lemma ag_Build_steps: "ag_Build mods d = fold ag_step mods d"
  by (simp add: ag_Build_def ag_step_def[abs_def])

abbreviation main_of :: "ag_build \<Rightarrow> ag_container" where "main_of d \<equiv> hd (apContainers (sfmPod (fst d)))"
abbreviation volumes_of :: "ag_build \<Rightarrow> ag_volume list" where "volumes_of d \<equiv> apVolumes (sfmPod (fst d))"

definition one_main :: "ag_build \<Rightarrow> bool" where
  "one_main d \<longleftrightarrow> (\<exists>c. apContainers (sfmPod (fst d)) = [c] \<and> acName c = ag_container_name)"

lemma on_base_main:
  assumes "one_main (sts, m)"
  shows "apContainers (sfmPod (on_base_container f sts)) = [f (main_of (sts, m))]"
  using assms by (auto simp: one_main_def on_base_container_def)

text \<open>What each modifier adds: whether it does, volumes, and mounts of the main container.\<close>

definition modifier_table ::
    "ds_env \<Rightarrow> dynakube \<Rightarrow> capability_properties \<Rightarrow> (bool \<times> manifest_volume list \<times> pod_mount list) list" where
  "modifier_table env dk props =
     [(True, authtoken_volumes dk, authtoken_mounts),
      (ag_HasCaCert (dk_ActiveGate dk) \<or> dspTrustedCAs (dkSpec dk) \<noteq> [], [empty_dir ''ag-lib-gateway-ssl''], ssl_mounts),
      (ag_HasCaCert (dk_ActiveGate dk), certs_volumes dk, certs_mounts),
      (dspTrustedCAs (dkSpec dk) \<noteq> [], trustedcas_volumes dk, trustedcas_mounts),
      (deSortedKeys env (dspResourceAttributes (dkSpec dk)) \<noteq> [], deployment_properties_volumes dk, deployment_properties_mounts),
      (hasCustomProperties dk props, custom_properties_volumes dk, custom_properties_mounts),
      (dk_NeedsActiveGateProxy dk, ag_proxy_volumes dk, ag_proxy_mounts),
      (True, rawimage_volumes dk, rawimage_mounts), (True, readonly_volumes, readonly_mounts), (True, [], []),
      (ag_IsKubernetesMonitoringEnabled (dk_ActiveGate dk), [empty_dir ''truststore-volume'', empty_dir ''cert-tmp''], kubemon_mounts),
      (ext_IsAnyEnabled (dk_Extensions dk), eec_volumes dk, eec_mounts),
      (dk_KSPM_IsEnabled dk \<and> ag_IsKubernetesMonitoringEnabled (dk_ActiveGate dk), ag_kspm_volumes dk, ag_kspm_mounts)]"

definition enabled_rows :: "(bool \<times> 'a \<times> 'b) list \<Rightarrow> ('a \<times> 'b) list" where
  "enabled_rows t = map snd (filter fst t)"

text \<open>A modifier adds a row when it keeps the one container and appends exactly these volumes and mounts.\<close>

definition adds_row :: "ag_modifier \<Rightarrow> bool \<times> manifest_volume list \<times> pod_mount list \<Rightarrow> bool" where
  "adds_row mo row \<longleftrightarrow>
     (case row of (e, vs, ms) \<Rightarrow> modEnabled mo = e \<and>
       (\<forall>d. one_main d \<longrightarrow> one_main (modModify mo d) \<and>
          volumes_of (modModify mo d) = volumes_of d @ map OperatorVolume vs \<and>
          acMounts (main_of (modModify mo d)) = acMounts (main_of d) @ map OperatorMount ms))"

lemma mount_modifier_row: "adds_row (mount_modifier e vs ms) (e, vs, ms)"
  by (auto simp: adds_row_def mount_modifier_def ag_add_mounts_def ag_add_volumes_def one_main_def on_base_container_def)

lemma modifier_rows: "list_all2 adds_row (GenerateAllModifiers env dk props) (modifier_table env dk props)"
proof -
  have "adds_row (NewRawImageModifier dk) (True, rawimage_volumes dk, rawimage_mounts)"
    "adds_row NewReadOnlyModifier (True, readonly_volumes, readonly_mounts)"
    "adds_row (NewServicePortModifier env dk) (True, [], [])"
    "adds_row (NewKubernetesMonitoringModifier env dk props)
      (ag_IsKubernetesMonitoringEnabled (dk_ActiveGate dk), [empty_dir ''truststore-volume'', empty_dir ''cert-tmp''], kubemon_mounts)"
    "adds_row (NewKSPMModifier dk)
      (dk_KSPM_IsEnabled dk \<and> ag_IsKubernetesMonitoringEnabled (dk_ActiveGate dk), ag_kspm_volumes dk, ag_kspm_mounts)"
    by (auto simp: adds_row_def NewRawImageModifier_def NewReadOnlyModifier_def NewServicePortModifier_def
        NewKubernetesMonitoringModifier_def NewKSPMModifier_def Let_def ag_add_mounts_def ag_add_volumes_def one_main_def on_base_container_def)
  then show ?thesis
    by (simp add: GenerateAllModifiers_def modifier_table_def mount_modifier_row NewAuthTokenModifier_def
        NewSSLVolumeModifier_def NewCertificatesModifier_def NewTrustedCAsVolumeModifier_def NewDeploymentPropertiesModifier_def
        NewCustomPropertiesModifier_def NewProxyModifier_def NewEECVolumeModifier_def)
qed

lemma rows_applied:
  assumes "list_all2 adds_row mods t" and "one_main d"
  shows "one_main (fold ag_step mods d) \<and>
     volumes_of (fold ag_step mods d) = volumes_of d @ map OperatorVolume (concat (map fst (enabled_rows t))) \<and>
     acMounts (main_of (fold ag_step mods d)) = acMounts (main_of d) @ map OperatorMount (concat (map snd (enabled_rows t)))"
  using assms
proof (induction arbitrary: d rule: list_all2_induct)
  case (Cons mo mods row t)
  obtain e vs ms where row: "row = (e, vs, ms)" by (cases row)
  have step: "one_main (ag_step mo d)" "volumes_of (ag_step mo d) = volumes_of d @ (if e then map OperatorVolume vs else [])"
    "acMounts (main_of (ag_step mo d)) = acMounts (main_of d) @ (if e then map OperatorMount ms else [])"
    using Cons.hyps(1) Cons.prems
    by (cases e; simp add: adds_row_def row ag_step_def del: split_paired_All)+
  with Cons.IH[OF step(1)] show ?case by (simp add: enabled_rows_def row)
qed (simp add: enabled_rows_def)

lemma enabled_sublist:
  assumes "distinct (concat (map (f \<circ> snd) t))"
  shows "distinct (concat (map f (enabled_rows t)))" and "set (concat (map f (enabled_rows t))) \<subseteq> set (concat (map (f \<circ> snd) t))"
proof -
  show "set (concat (map f (enabled_rows t))) \<subseteq> set (concat (map (f \<circ> snd) t))" by (auto simp: enabled_rows_def)
  show "distinct (concat (map f (enabled_rows t)))"
    using assms by (induction t) (auto simp: enabled_rows_def)
qed

section \<open>Reserved names\<close>

lemmas row_defs = authtoken_volumes_def authtoken_mounts_def ssl_mounts_def certs_volumes_def certs_mounts_def
  trustedcas_volumes_def trustedcas_mounts_def deployment_properties_volumes_def deployment_properties_mounts_def
  custom_properties_volumes_def custom_properties_mounts_def ag_proxy_volumes_def ag_proxy_mounts_def rawimage_volumes_def
  rawimage_mounts_def readonly_volumes_def readonly_mounts_def kubemon_mounts_def eec_volumes_def eec_mounts_def
  ag_kspm_volumes_def ag_kspm_mounts_def empty_dir_def ro_mount_def rw_mount_def

definition row_volume_names :: "manifest_volume list \<times> pod_mount list \<Rightarrow> string list" where
  "row_volume_names row = map mvName (fst row)"

definition row_mount_paths :: "manifest_volume list \<times> pod_mount list \<Rightarrow> string list" where
  "row_mount_paths row = map pmMountPath (snd row)"

lemma table_names:
  "concat (map (row_volume_names \<circ> snd) (modifier_table env dk props)) =
     [''ag-authtoken-secret'', ''ag-lib-gateway-ssl'', ''server-certs'', ''trustedcas'', ''deployment-properties'',
      ''custom-properties'', ''internal-proxy-secret-volume'', ''connection-info-secret'', ''ag-lib-gateway-temp'',
      ''ag-lib-gateway-data'', ''ag-log-gateway'', ''ag-lib-gateway-config'', ''truststore-volume'', ''cert-tmp'', ''eec-token'',
      ''kspm-token'']"
  by (simp add: modifier_table_def row_volume_names_def row_defs)

lemma table_paths:
  "concat (map (row_mount_paths \<circ> snd) (modifier_table env dk props)) =
     map (\<lambda>s. DTComponentsSecretsRootDir @ s) [''/tokens/auth-token''] @ [''/var/lib/dynatrace/gateway/ssl''] @
     map (\<lambda>s. DTComponentsSecretsRootDir @ s) [''/tls'', ''/rootca'', ''/config/deployment.properties''] @
     [''/var/lib/dynatrace/gateway/config_template/custom.properties''] @
     map (\<lambda>s. DTComponentsSecretsRootDir @ s) [''/internal-proxy'', ''/tokens/tenant-token''] @
     [''/var/lib/dynatrace/gateway/temp'', ''/var/lib/dynatrace/gateway/data'', ''/var/log/dynatrace/gateway'',
      ''/var/lib/dynatrace/gateway/config'', ''/opt/dynatrace/gateway/jre/lib/security/cacerts''] @
     map (\<lambda>s. DTComponentsSecretsRootDir @ s) [''/eec/token'', ''/tokens/kspm/node-configuration-collector'']"
  by (simp add: modifier_table_def row_mount_paths_def row_defs)

lemma names_reserved:
  "distinct (concat (map (row_volume_names \<circ> snd) (modifier_table env dk props)))"
  "set (concat (map (row_volume_names \<circ> snd) (modifier_table env dk props))) \<subseteq> set VolumeNames - {''ag-tmp-gateway''}"
  unfolding table_names VolumeNames_def by simp_all

lemma paths_reserved:
  "distinct (concat (map (row_mount_paths \<circ> snd) (modifier_table env dk props)))"
  "set (concat (map (row_mount_paths \<circ> snd) (modifier_table env dk props))) \<subseteq> set MainVolumeMountPaths - {''/var/tmp/dynatrace/gateway''}"
  unfolding table_paths MainVolumeMountPaths_def DTComponentsSecretsRootDir_def by simp_all

lemma table_mounts_declared:
  "\<forall>row\<in>set (modifier_table env dk props). pmName ` set (snd (snd row)) \<subseteq> mvName ` set (fst (snd row))"
  by (simp add: modifier_table_def row_defs)

lemma row_mounts_declared:
  "row \<in> set (enabled_rows (modifier_table env dk props)) \<Longrightarrow> pmName ` set (snd row) \<subseteq> mvName ` set (fst row)"
  using table_mounts_declared unfolding enabled_rows_def by fastforce


section \<open>The whole pod\<close>

lemma base_volumes:
  "one_main (ag_base env b)"
  "volumes_of (ag_base env b) = ag_buildVolumes b"
  "acMounts (main_of (ag_base env b)) = ag_buildVolumeMounts b"
  by (simp_all add: ag_base_def Let_def one_main_def getBase_def ag_base_pod_def buildBaseContainer_def)

definition claim_names :: "stateful_set_manifest \<Rightarrow> string list" where
  "claim_names sts = (case sfmVolumeClaimTemplates sts of None \<Rightarrow> [] | Some cs \<Rightarrow> map fst cs)"

definition declares_mounts :: "stateful_set_manifest \<Rightarrow> ag_container \<Rightarrow> bool" where
  "declares_mounts sts c \<longleftrightarrow>
     ag_mount_name ` set (acMounts c) \<subseteq> ag_volume_name ` set (apVolumes (sfmPod sts)) \<union> set (claim_names sts) \<and>
     distinct (map ag_mount_path (acMounts c))"

definition ag_pod_consistent :: "stateful_set_manifest \<Rightarrow> bool" where
  "ag_pod_consistent sts \<longleftrightarrow>
     (\<forall>c\<in>set (apContainers (sfmPod sts)) \<union> set (apInitContainers (sfmPod sts)). declares_mounts sts c) \<and>
     distinct (map ag_volume_name (apVolumes (sfmPod sts)) @ claim_names sts)"

text \<open>What no modifier changes, and the one init container.\<close>

definition sts_frame :: "ag_build \<Rightarrow> ag_build \<Rightarrow> bool" where
  "sts_frame d d' \<longleftrightarrow>
     sfmVolumeClaimTemplates (fst d') = sfmVolumeClaimTemplates (fst d) \<and>
     sfmMatchLabels (fst d') = sfmMatchLabels (fst d) \<and> sfmTemplateLabels (fst d') = sfmTemplateLabels (fst d) \<and>
     sfmReplicas (fst d') = sfmReplicas (fst d) \<and> sfmName (fst d') = sfmName (fst d) \<and>
     sfmNamespace (fst d') = sfmNamespace (fst d)"

definition inits_of :: "ag_build \<Rightarrow> ag_container list" where
  "inits_of d = apInitContainers (sfmPod (fst d))"

definition kubemon_inits :: "ds_env \<Rightarrow> dynakube \<Rightarrow> capability_properties \<Rightarrow> ag_container list" where
  "kubemon_inits env dk props =
     (if ag_IsKubernetesMonitoringEnabled (dk_ActiveGate dk) then [kubemon_init_container env dk props] else [])"

lemmas modifier_defs = NewAuthTokenModifier_def NewSSLVolumeModifier_def NewCertificatesModifier_def
  NewTrustedCAsVolumeModifier_def NewDeploymentPropertiesModifier_def NewCustomPropertiesModifier_def NewProxyModifier_def
  NewRawImageModifier_def NewReadOnlyModifier_def NewServicePortModifier_def NewKubernetesMonitoringModifier_def
  NewEECVolumeModifier_def NewKSPMModifier_def mount_modifier_def

lemma modifier_frame:
  assumes "mo \<in> set (GenerateAllModifiers env dk props)"
  shows "sts_frame d (ag_step mo d)"
  using assms
  by (cases d) (auto simp: GenerateAllModifiers_def ag_step_def modifier_defs Let_def sts_frame_def ag_add_mounts_def
      ag_add_volumes_def on_base_container_def)

lemma frame_trans: "sts_frame d d' \<Longrightarrow> sts_frame d' d'' \<Longrightarrow> sts_frame d d''"
  by (simp add: sts_frame_def)

lemma frame_all: "\<forall>mo\<in>set mods. \<forall>d. sts_frame d (ag_step mo d) \<Longrightarrow> sts_frame d (fold ag_step mods d)"
proof (induction mods arbitrary: d)
  case Nil then show ?case by (simp add: sts_frame_def)
next
  case (Cons mo mods)
  then have "sts_frame d (ag_step mo d)" "sts_frame (ag_step mo d) (fold ag_step mods (ag_step mo d))" by (meson list.set_intros)+
  then show ?case by (auto intro: frame_trans)
qed

lemma same_inits:
  "inits_of (ag_step (mount_modifier e vs ms) d) = inits_of d"
  "inits_of (ag_step (NewRawImageModifier dk) d) = inits_of d"
  "inits_of (ag_step NewReadOnlyModifier d) = inits_of d"
  "inits_of (ag_step (NewServicePortModifier env dk) d) = inits_of d"
  "inits_of (ag_step (NewKSPMModifier dk) d) = inits_of d"
  by (cases d; simp add: ag_step_def modifier_defs Let_def inits_of_def ag_add_mounts_def ag_add_volumes_def on_base_container_def)+

lemma kubemon_init: "inits_of (ag_step (NewKubernetesMonitoringModifier env dk props) d) = inits_of d @ kubemon_inits env dk props"
  by (cases d) (simp add: ag_step_def modifier_defs Let_def inits_of_def kubemon_inits_def ag_add_mounts_def ag_add_volumes_def
      on_base_container_def)

lemma all_inits:
  "inits_of (fold ag_step (GenerateAllModifiers env dk props) d) = inits_of d @ kubemon_inits env dk props"
  by (simp add: GenerateAllModifiers_def NewAuthTokenModifier_def
        NewSSLVolumeModifier_def NewCertificatesModifier_def NewTrustedCAsVolumeModifier_def NewDeploymentPropertiesModifier_def
        NewCustomPropertiesModifier_def NewProxyModifier_def NewEECVolumeModifier_def same_inits kubemon_init)

abbreviation rows_of :: "ag_workload_env \<Rightarrow> sts_builder \<Rightarrow> (manifest_volume list \<times> pod_mount list) list" where
  "rows_of env b \<equiv> enabled_rows (modifier_table (aeManifest env) (sbDynakube b) (sbCapability b))"

lemma stateful_set_parts:
  "\<exists>c. apContainers (sfmPod (CreateStatefulSet env b)) = [c] \<and> acName c = ag_container_name \<and>
     acMounts c = ag_buildVolumeMounts b @ map OperatorMount (concat (map snd (rows_of env b)))"
  "apVolumes (sfmPod (CreateStatefulSet env b)) =
     ag_buildVolumes b @ map OperatorVolume (concat (map fst (rows_of env b)))"
  "apInitContainers (sfmPod (CreateStatefulSet env b)) = kubemon_inits (aeManifest env) (sbDynakube b) (sbCapability b)"
  "sts_frame (ag_base env b) (CreateStatefulSet env b, undefined)"
proof -
  let ?mods = "GenerateAllModifiers (aeManifest env) (sbDynakube b) (sbCapability b)"
  let ?d = "fold ag_step ?mods (ag_base env b)"
  have sts: "CreateStatefulSet env b = fst ?d" by (simp add: CreateStatefulSet_def ag_Build_steps)
  note rows = rows_applied[OF modifier_rows base_volumes(1), of "aeManifest env" "sbDynakube b" "sbCapability b" env b]
  show "\<exists>c. apContainers (sfmPod (CreateStatefulSet env b)) = [c] \<and> acName c = ag_container_name \<and>
     acMounts c = ag_buildVolumeMounts b @ map OperatorMount (concat (map snd (rows_of env b)))"
    using rows unfolding sts one_main_def base_volumes by auto
  show "apVolumes (sfmPod (CreateStatefulSet env b)) =
     ag_buildVolumes b @ map OperatorVolume (concat (map fst (rows_of env b)))"
    using rows unfolding sts base_volumes by blast
  show "apInitContainers (sfmPod (CreateStatefulSet env b)) = kubemon_inits (aeManifest env) (sbDynakube b) (sbCapability b)"
    using all_inits[of "aeManifest env" "sbDynakube b" "sbCapability b" "ag_base env b"]
    by (simp add: sts inits_of_def ag_base_def getBase_def ag_base_pod_def Let_def)
  have "sts_frame (ag_base env b) ?d" by (rule frame_all) (simp add: modifier_frame)
  then show "sts_frame (ag_base env b) (CreateStatefulSet env b, undefined)" by (simp add: sts_frame_def sts)
qed

text \<open>The spec of an admitted DynaKube, whose own volumes and mounts are in order.\<close>

lemma no_conflict:
  assumes "activeGateHasConflictingVolumes venv dk = []"
  shows "set (map volName (cpVolumes (agCapabilityProperties (dspActiveGate (dkSpec dk))))) \<inter> set VolumeNames = {}"
    and "set (map vmMountPath (cpVolumeMounts (agCapabilityProperties (dspActiveGate (dkSpec dk))))) \<inter> set MainVolumeMountPaths = {}"
  using assms by (auto simp: activeGateHasConflictingVolumes_def Let_def first_msg_empty split: if_splits)

definition volumes_in_order :: "capability_properties \<Rightarrow> bool" where
  "volumes_in_order props \<longleftrightarrow>
     vmName ` set (cpVolumeMounts props) \<subseteq> volName ` set (cpVolumes props) \<and>
     distinct (map volName (cpVolumes props)) \<and> distinct (map vmMountPath (cpVolumeMounts props))"

lemma rows_declared:
  "\<forall>row\<in>set rs. f ` set (snd row) \<subseteq> g ` set (fst row) \<Longrightarrow> f ` set (concat (map snd rs)) \<subseteq> g ` set (concat (map fst rs))"
  by (induction rs) (simp_all add: image_Un le_supI1 le_supI2)

lemma operator_rows:
  "distinct (map mvName (concat (map fst (rows_of env b))))"
  "mvName ` set (concat (map fst (rows_of env b))) \<subseteq> set VolumeNames - {''ag-tmp-gateway''}"
  "distinct (map pmMountPath (concat (map snd (rows_of env b))))"
  "pmMountPath ` set (concat (map snd (rows_of env b))) \<subseteq> set MainVolumeMountPaths - {''/var/tmp/dynatrace/gateway''}"
  "pmName ` set (concat (map snd (rows_of env b))) \<subseteq> mvName ` set (concat (map fst (rows_of env b)))"
proof -
  note names = names_reserved[of "aeManifest env" "sbDynakube b" "sbCapability b"]
  note paths = paths_reserved[of "aeManifest env" "sbDynakube b" "sbCapability b"]
  have vs: "map mvName (concat (map fst (rows_of env b))) = concat (map row_volume_names (rows_of env b))"
    and ms: "map pmMountPath (concat (map snd (rows_of env b))) = concat (map row_mount_paths (rows_of env b))"
    by (simp_all add: map_concat comp_def row_volume_names_def[abs_def] row_mount_paths_def[abs_def])
  show "distinct (map mvName (concat (map fst (rows_of env b))))" unfolding vs by (rule enabled_sublist(1)[OF names(1)])
  show "distinct (map pmMountPath (concat (map snd (rows_of env b))))" unfolding ms by (rule enabled_sublist(1)[OF paths(1)])
  show "mvName ` set (concat (map fst (rows_of env b))) \<subseteq> set VolumeNames - {''ag-tmp-gateway''}"
    using subset_trans[OF enabled_sublist(2)[OF names(1)] names(2)] unfolding set_map[symmetric] vs .
  show "pmMountPath ` set (concat (map snd (rows_of env b))) \<subseteq> set MainVolumeMountPaths - {''/var/tmp/dynatrace/gateway''}"
    using subset_trans[OF enabled_sublist(2)[OF paths(1)] paths(2)] unfolding set_map[symmetric] ms .
  show "pmName ` set (concat (map snd (rows_of env b))) \<subseteq> mvName ` set (concat (map fst (rows_of env b)))"
    by (rule rows_declared) (metis row_mounts_declared)
qed

lemma distinct_parts:
  "distinct us \<Longrightarrow> distinct ws \<Longrightarrow> x \<in> R \<Longrightarrow> set us \<inter> R = {} \<Longrightarrow> set ws \<subseteq> R - {x} \<Longrightarrow> distinct (us @ x # ws)"
  by auto

lemma distinct_swap: "distinct ((us @ cs) @ ws) \<Longrightarrow> distinct ((us @ ws) @ cs)"
  by auto

lemma gateway_volume:
  "map ag_volume_name (ag_buildVolumes b) @ claim_names (CreateStatefulSet env b) =
     map volName (cpVolumes (sbCapability b)) @ [''ag-tmp-gateway'']"
  using stateful_set_parts(4)[of env b]
  by (simp add: sts_frame_def claim_names_def ag_base_def getBase_def Let_def ag_buildVolumes_def ag_claims_def
      split: option.split)

lemma kubemon_declared:
  assumes "c \<in> set (kubemon_inits env dk props)"
  shows "ag_mount_name ` set (acMounts c) \<subseteq> {''truststore-volume'', ''cert-tmp''} \<and> distinct (map ag_mount_path (acMounts c)) \<and>
    {''truststore-volume'', ''cert-tmp''} \<subseteq> mvName ` set (concat (map fst (enabled_rows (modifier_table env dk props))))"
  using assms
  by (auto simp: kubemon_inits_def kubemon_init_container_def rw_mount_def enabled_rows_def modifier_table_def empty_dir_def
      split: if_splits)

section \<open>Environment\<close>

definition env_current :: "ag_build \<Rightarrow> bool" where
  "env_current d \<longleftrightarrow> one_main d \<and> env_map (snd d) \<and> acEnv (main_of d) = AsEnvVars (snd d)"

definition adds_env :: "ag_modifier \<Rightarrow> env_var list \<Rightarrow> bool" where
  "adds_env mo es \<longleftrightarrow>
     (\<forall>d. env_current d \<longrightarrow> env_current (ag_step mo d) \<and>
        snd (ag_step mo d) = fold env_add (map (\<lambda>e. (e, MediumPriority)) es) (snd d))"

lemma keeps_env:
  assumes "\<And>sts m. modModify mo (sts, m) = (g sts, m)"
    and "\<And>sts c. apContainers (sfmPod sts) = [c] \<Longrightarrow> acName c = ag_container_name \<Longrightarrow>
           \<exists>c'. apContainers (sfmPod (g sts)) = [c'] \<and> acName c' = ag_container_name \<and> acEnv c' = acEnv c"
  shows "adds_env mo []"
proof (unfold adds_env_def, intro allI impI conjI)
  fix d assume d: "env_current d"
  obtain sts m where sm: "d = (sts, m)" by (cases d)
  from d obtain c where c: "apContainers (sfmPod sts) = [c]" "acName c = ag_container_name"
    by (auto simp: env_current_def one_main_def sm)
  from assms(2)[OF c] obtain c' where "apContainers (sfmPod (g sts)) = [c']" "acName c' = ag_container_name" "acEnv c' = acEnv c"
    by blast
  with d c show "env_current (ag_step mo d)" by (auto simp: env_current_def one_main_def sm ag_step_def assms(1))
  show "snd (ag_step mo d) = fold env_add (map (\<lambda>e. (e, MediumPriority)) []) (snd d)"
    by (simp add: sm ag_step_def assms(1))
qed

lemma mount_keeps_env: "adds_env (mount_modifier e vs ms) []"
  by (rule keeps_env[where g = "\<lambda>sts. ag_add_mounts ms (ag_add_volumes vs sts)"])
    (simp_all add: mount_modifier_def ag_add_mounts_def ag_add_volumes_def on_base_container_def)

lemma readonly_keeps_env: "adds_env NewReadOnlyModifier []"
  by (rule keeps_env[where g = "\<lambda>sts. ag_add_mounts readonly_mounts (on_base_container
         (\<lambda>c. c\<lparr>acSecurityContext := map_option (\<lambda>sc. sc\<lparr>msReadOnlyRootFilesystem := Some True\<rparr>) (acSecurityContext c)\<rparr>)
         (ag_add_volumes readonly_volumes sts))"])
    (simp_all add: NewReadOnlyModifier_def ag_add_mounts_def ag_add_volumes_def on_base_container_def)

lemma kubemon_keeps_env: "adds_env (NewKubernetesMonitoringModifier env dk props) []"
  by (rule keeps_env[where g = "\<lambda>sts. let sts' = ag_add_mounts kubemon_mounts (ag_add_volumes [empty_dir ''truststore-volume'', empty_dir ''cert-tmp''] sts)
        in sts'\<lparr>sfmPod := (sfmPod sts')
              \<lparr>apInitContainers := apInitContainers (sfmPod sts') @ [kubemon_init_container env dk props],
               apAutomountServiceAccountToken := True\<rparr>\<rparr>"])
    (simp_all add: NewKubernetesMonitoringModifier_def Let_def ag_add_mounts_def ag_add_volumes_def on_base_container_def)

lemma kspm_keeps_env: "adds_env (NewKSPMModifier dk) []"
  by (rule keeps_env[where g = "\<lambda>sts. ag_add_mounts ag_kspm_mounts (ag_add_volumes (ag_kspm_volumes dk)
        (sts\<lparr>sfmTemplateAnnotations := (sfmTemplateAnnotations sts)
              (''internal.operator.dynatrace.com/kspm-token-secret-hash'' \<mapsto> dstKSPMTokenSecretHash (dkStatus dk))\<rparr>))"])
    (simp_all add: NewKSPMModifier_def Let_def ag_add_mounts_def ag_add_volumes_def on_base_container_def)

lemma writes_env:
  assumes "\<And>sts m. modModify mo (sts, m) = (g (pm_AppendEnvs es [WithPriority MediumPriority] m) sts, pm_AppendEnvs es [WithPriority MediumPriority] m)"
    and "modEnabled mo"
    and "\<And>m' sts c. apContainers (sfmPod sts) = [c] \<Longrightarrow> acName c = ag_container_name \<Longrightarrow>
           \<exists>c'. apContainers (sfmPod (g m' sts)) = [c'] \<and> acName c' = ag_container_name \<and> acEnv c' = AsEnvVars m'"
  shows "adds_env mo es"
proof (unfold adds_env_def, intro allI impI conjI)
  fix d assume d: "env_current d"
  obtain sts m where sm: "d = (sts, m)" by (cases d)
  from d obtain c where c: "apContainers (sfmPod sts) = [c]" "acName c = ag_container_name" and m: "env_map m"
    by (auto simp: env_current_def one_main_def sm)
  have env: "pm_AppendEnvs es [WithPriority MediumPriority] m = fold env_add (map (\<lambda>e. (e, MediumPriority)) es) m"
    by (rule append_envs(2)[OF m])
  show "env_current (ag_step mo d)"
    using assms(3)[OF c, of "pm_AppendEnvs es [WithPriority MediumPriority] m"] env_adds(1)[OF m]
    by (auto simp: env_current_def one_main_def sm ag_step_def assms(1,2) env)
  show "snd (ag_step mo d) = fold env_add (map (\<lambda>e. (e, MediumPriority)) es) (snd d)"
    by (simp add: sm ag_step_def assms(1,2) env)
qed

lemma rawimage_env: "adds_env (NewRawImageModifier dk) (rawimage_envs dk)"
  by (rule writes_env[where g = "\<lambda>m' sts. on_base_container (\<lambda>c. c\<lparr>acEnv := AsEnvVars m'\<rparr>)
              (ag_add_mounts rawimage_mounts (ag_add_volumes (rawimage_volumes dk) sts))"])
    (simp_all add: NewRawImageModifier_def Let_def ag_add_mounts_def ag_add_volumes_def on_base_container_def)

definition service_envs :: "ds_env \<Rightarrow> dynakube \<Rightarrow> env_var list" where
  "service_envs env dk = [env_literal ''DT_DNS_ENTRY_POINT'' (BuildDNSEntryPoint (deIsIPv6 env) dk)]"

lemma service_env: "adds_env (NewServicePortModifier env dk) (service_envs env dk)"
  by (rule writes_env[where g = "\<lambda>m' sts. on_base_container (\<lambda>c. c\<lparr>
              acReadinessProbe := map_option (\<lambda>p. p\<lparr>hpPort := PortName ''https''\<rparr>) (acReadinessProbe c),
              acPorts := acPorts c @ service_ports, acEnv := AsEnvVars m'\<rparr>) sts"])
    (simp_all add: NewServicePortModifier_def service_envs_def Let_def on_base_container_def)

text \<open>The variables of all modifiers, in the order they are added.\<close>

definition modifier_envs :: "ds_env \<Rightarrow> dynakube \<Rightarrow> env_var list" where
  "modifier_envs env dk = rawimage_envs dk @ service_envs env dk"

lemma env_steps:
  assumes "list_all2 adds_env mods ess" and "env_current d"
  shows "env_current (fold ag_step mods d) \<and>
     snd (fold ag_step mods d) = fold env_add (map (\<lambda>e. (e, MediumPriority)) (concat ess)) (snd d)"
  using assms
proof (induction arbitrary: d rule: list_all2_induct)
  case (Cons mo mods es ess)
  have "env_current (ag_step mo d)" "snd (ag_step mo d) = fold env_add (map (\<lambda>e. (e, MediumPriority)) es) (snd d)"
    using Cons.hyps(1) Cons.prems unfolding adds_env_def by blast+
  with Cons.IH[of "ag_step mo d"] show ?case by simp
qed simp

lemma modifiers_env:
  "list_all2 adds_env (GenerateAllModifiers env dk props)
     [[], [], [], [], [], [], [], rawimage_envs dk, [], service_envs env dk, [], [], []]"
  by (simp add: GenerateAllModifiers_def mount_keeps_env readonly_keeps_env kubemon_keeps_env kspm_keeps_env rawimage_env
      service_env NewAuthTokenModifier_def NewSSLVolumeModifier_def NewCertificatesModifier_def NewTrustedCAsVolumeModifier_def
      NewDeploymentPropertiesModifier_def NewCustomPropertiesModifier_def NewProxyModifier_def NewEECVolumeModifier_def)

lemma pick_over:
  assumes "q < p"
  shows "fold (pick n) (map (\<lambda>e. (e, p)) us) (map_option (\<lambda>e. (e, q)) found) =
           (case k8senv_Find us n of Some e \<Rightarrow> Some (e, p) | None \<Rightarrow> map_option (\<lambda>e. (e, q)) found)"
proof (induction us)
  case Nil then show ?case by (simp add: k8senv_Find_def)
next
  case (Cons u us)
  have "fold (pick n) (map (\<lambda>e. (e, p)) us) (Some (u, p)) = Some (u, p)" by (rule pick_lower) auto
  moreover have "pick n (u, p) (map_option (\<lambda>e. (e, q)) found) =
      (if evName u = n then Some (u, p) else map_option (\<lambda>e. (e, q)) found)"
    using assms by (cases found) (simp_all add: pick_def)
  ultimately show ?case using Cons by (simp add: k8senv_Find_def)
qed

lemma three_priorities:
  "map_option fst (fold (pick n) (map (\<lambda>e. (e, DefaultPriority)) ds @ map (\<lambda>e. (e, HighPriority)) us @
      map (\<lambda>e. (e, MediumPriority)) ms) None) = k8senv_Find (us @ ms @ ds) n"
proof (cases "k8senv_Find us n")
  case None
  then show ?thesis
    by (simp add: one_priority pick_over find_append_env option.map_comp comp_def option.map_ident split: option.split)
next
  case (Some u)
  have "fold (pick n) (map (\<lambda>e. (e, MediumPriority)) ms) (Some (u, HighPriority)) = Some (u, HighPriority)"
    by (rule pick_lower) auto
  with Some show ?thesis by (simp add: one_priority pick_over find_append_env split: option.split)
qed

text \<open>The variables of the main container, the first of each name counting.\<close>

definition activegate_env :: "ds_env \<Rightarrow> sts_builder \<Rightarrow> env_var list" where
  "activegate_env env b = cpEnv (sbCapability b) @ modifier_envs env (sbDynakube b) @ ag_common_envs b"

lemma activegate_environment_of:
  assumes "c \<in> set (apContainers (sfmPod (CreateStatefulSet env b)))" and "n \<noteq> []"
  shows "k8senv_Find (acEnv c) n = k8senv_Find (activegate_env (aeManifest env) b) n \<and> env_ordered (acEnv c)"
proof -
  let ?new = "pm_New [WithPriority DefaultPriority]"
  let ?d = "fold ag_step (GenerateAllModifiers (aeManifest env) (sbDynakube b) (sbCapability b)) (ag_base env b)"
  have new: "env_map ?new" by simp
  have base: "buildCommonEnvs b ?new = fold env_add (map (\<lambda>e. (e, DefaultPriority)) (ag_common_envs b) @
      map (\<lambda>e. (e, HighPriority)) (cpEnv (sbCapability b))) ?new"
    by (simp add: buildCommonEnvs_def append_envs(1)[OF new] append_envs(2) env_adds(1)[OF new])
  have "env_map (buildCommonEnvs b ?new)" unfolding base by (rule env_adds(1)[OF new])
  moreover have "acEnv (main_of (ag_base env b)) = AsEnvVars (snd (ag_base env b))"
    "snd (ag_base env b) = buildCommonEnvs b ?new"
    by (simp_all add: ag_base_def Let_def getBase_def ag_base_pod_def buildBaseContainer_def)
  ultimately have cur: "env_current (ag_base env b)" unfolding env_current_def by (simp add: base_volumes(1))
  note steps = env_steps[OF modifiers_env cur, of "aeManifest env" "sbDynakube b" "sbCapability b"]
  have m: "snd ?d = fold env_add (map (\<lambda>e. (e, DefaultPriority)) (ag_common_envs b) @
      map (\<lambda>e. (e, HighPriority)) (cpEnv (sbCapability b)) @
      map (\<lambda>e. (e, MediumPriority)) (modifier_envs (aeManifest env) (sbDynakube b))) ?new"
    using steps by (simp add: ag_base_def Let_def base modifier_envs_def)
  have "acEnv c = AsEnvVars (snd ?d)" "env_map (snd ?d)"
    using steps assms(1) by (auto simp: env_current_def one_main_def CreateStatefulSet_def ag_Build_steps)
  then have "k8senv_Find (acEnv c) n = map_option fst (env_of (snd ?d) n)" "env_ordered (acEnv c)"
    by (simp_all add: env_value_at read_ordered)
  moreover have "map_option fst (env_of (snd ?d) n) = k8senv_Find (activegate_env (aeManifest env) b) n"
    unfolding m env_adds(2)[OF new assms(2)] env_of_New three_priorities activegate_env_def by simp
  ultimately show ?thesis by simp
qed

section \<open>Security\<close>










section \<open>Properties\<close>

text \<open>C6. What the operator adds to the ActiveGate pod never clashes with the spec. Let the admission webhook find no
  reserved volume name or mount path in the capability, and let the spec's own volumes and mounts be in order:
  its mounts name declared volumes, no name and no path occurs twice (\<open>volumes_in_order\<close>; the webhook does not
  check this, so that a mount of an undeclared volume is admitted). Then every mount of every container names a
  volume or a volume claim of the stateful set, no two mounts of a container have the same path, and no two
  volumes or claims the same name, whatever modifiers apply.
\<close>

theorem activegate_pod_consistent:
  assumes "activeGateHasConflictingVolumes venv (sbDynakube b) = []"
    and "sbCapability b = agCapabilityProperties (dspActiveGate (dkSpec (sbDynakube b)))"
    and "volumes_in_order (sbCapability b)"
  shows "ag_pod_consistent (CreateStatefulSet env b)"
proof -
  let ?sts = "CreateStatefulSet env b"
  note free = no_conflict[OF assms(1)[unfolded assms(2)[symmetric]], folded assms(2)]
  note rows = operator_rows[of env b]
  have user: "vmName ` set (cpVolumeMounts (sbCapability b)) \<subseteq> volName ` set (cpVolumes (sbCapability b))"
    "distinct (map volName (cpVolumes (sbCapability b)))" "distinct (map vmMountPath (cpVolumeMounts (sbCapability b)))"
    using assms(3) by (simp_all add: volumes_in_order_def)
  have reserved: "''ag-tmp-gateway'' \<in> set VolumeNames" "''/var/tmp/dynatrace/gateway'' \<in> set MainVolumeMountPaths"
    by (simp_all add: VolumeNames_def MainVolumeMountPaths_def)
  have volumes: "ag_volume_name ` set (ag_buildVolumes b) \<union> set (claim_names ?sts) =
      volName ` set (cpVolumes (sbCapability b)) \<union> {''ag-tmp-gateway''}"
    using arg_cong[OF gateway_volume, of set b env] by simp
  have names: "ag_volume_name ` set (apVolumes (sfmPod ?sts)) \<union> set (claim_names ?sts) =
      volName ` set (cpVolumes (sbCapability b)) \<union> {''ag-tmp-gateway''} \<union> mvName ` set (concat (map fst (rows_of env b)))"
    unfolding volumes[symmetric] by (simp add: stateful_set_parts(2) image_Un image_image Un_ac)
  obtain c where c: "apContainers (sfmPod ?sts) = [c]"
    "acMounts c = ag_buildVolumeMounts b @ map OperatorMount (concat (map snd (rows_of env b)))"
    using stateful_set_parts(1)[of env b] by blast
  have mounts: "map ag_mount_path (acMounts c) = map vmMountPath (cpVolumeMounts (sbCapability b)) @
      ''/var/tmp/dynatrace/gateway'' # map pmMountPath (concat (map snd (rows_of env b)))"
    "ag_mount_name ` set (acMounts c) = vmName ` set (cpVolumeMounts (sbCapability b)) \<union>
      {''ag-tmp-gateway''} \<union> pmName ` set (concat (map snd (rows_of env b)))"
    unfolding c(2) set_map[symmetric] map_append map_map ag_buildVolumeMounts_def rw_mount_def set_append
    by (simp_all add: comp_def image_Un image_image del: map_concat set_concat)
  have "distinct (map ag_mount_path (acMounts c))"
    unfolding mounts(1)
    by (rule distinct_parts[OF user(3) rows(3) reserved(2) free(2)]) (use rows(4) in \<open>simp only: set_map\<close>)
  then have main: "declares_mounts ?sts c"
    unfolding declares_mounts_def names mounts(2) using user(1) rows(5) by blast
  have inits: "declares_mounts ?sts i" if "i \<in> set (apInitContainers (sfmPod ?sts))" for i
    using kubemon_declared[OF that[unfolded stateful_set_parts(3)]] unfolding declares_mounts_def names by blast
  have "distinct (map ag_volume_name (apVolumes (sfmPod ?sts)) @ claim_names ?sts)"
  proof -
    have "distinct ((map ag_volume_name (ag_buildVolumes b) @ claim_names ?sts) @ map mvName (concat (map fst (rows_of env b))))"
      unfolding gateway_volume append_assoc append.simps
      by (rule distinct_parts[OF user(2) rows(1) reserved(1) free(1)]) (use rows(2) in \<open>simp only: set_map\<close>)
    from distinct_swap[OF this] show ?thesis by (simp add: stateful_set_parts(2) comp_def)
  qed
  with main inits show ?thesis unfolding ag_pod_consistent_def c by auto
qed

text \<open>The environment of the ActiveGate container: every variable has the value of the first variable of that
  name among those of the capability, then the connection info and the DNS entry point, then the operator's
  others, each name occurs once and the variables are sorted. What the modifiers add later in the build is
  in the container although its environment is made before they run.
\<close>

theorem activegate_environment:
  assumes "c \<in> set (apContainers (sfmPod (CreateStatefulSet env b)))" and "n \<noteq> []"
  shows "k8senv_Find (acEnv c) n = k8senv_Find (activegate_env (aeManifest env) b) n \<and> env_ordered (acEnv c)"
  by (rule activegate_environment_of[OF assms])


section \<open>Witnesses\<close>

definition sample_capability_properties :: capability_properties where
  "sample_capability_properties = zero_capability_properties
     \<lparr>cpVolumes := [\<lparr>volName = ''data'', volSources = []\<rparr>],
      cpVolumeMounts := [\<lparr>vmName = ''data'', vmMountPath = ''/data'', vmSettings = []\<rparr>],
      cpEnv := [env_literal ''DT_SERVER'' ''mine'', env_literal ''A'' ''b'']\<rparr>"

definition sample_ag_dynakube :: dynakube where
  "sample_ag_dynakube = zero_dynakube\<lparr>dkSpec := zero_dynakube_spec\<lparr>dspTrustedCAs := ''cas'',
     dspActiveGate := zero_activegate_spec\<lparr>agCapabilities := [KubeMonCapability],
       agCapabilityProperties := sample_capability_properties\<rparr>\<rparr>\<rparr>"

definition sample_ag_builder :: sts_builder where
  "sample_ag_builder =
     \<lparr>sbCapability = sample_capability_properties, sbArgName = ''kubernetes_monitoring'', sbKubeUID = ''uid'',
      sbConfigHash = ''h'', sbDynakube = sample_ag_dynakube\<rparr>"

definition sample_ag_env :: ag_workload_env where
  "sample_ag_env = \<lparr>aeManifest = sample_ds_env, aeMarshalClaims = (\<lambda>_. Inr [])\<rparr>"

theorem activegate_pod_witness:
  "ag_pod_consistent (CreateStatefulSet sample_ag_env sample_ag_builder) \<and>
   cpVolumeMounts (sbCapability sample_ag_builder) \<noteq> []"
proof
  show "ag_pod_consistent (CreateStatefulSet sample_ag_env sample_ag_builder)"
    by (rule activegate_pod_consistent[of "sample_validator_env (\<lambda>_. []) []"])
      (simp_all add: sample_ag_builder_def sample_ag_dynakube_def sample_capability_properties_def
        activeGateHasConflictingVolumes_def VolumeNames_def MainVolumeMountPaths_def DTComponentsSecretsRootDir_def Let_def
        volumes_in_order_def)
  show "cpVolumeMounts (sbCapability sample_ag_builder) \<noteq> []"
    by (simp add: sample_ag_builder_def sample_capability_properties_def)
qed

theorem activegate_environment_witness:
  "\<exists>c\<in>set (apContainers (sfmPod (CreateStatefulSet sample_ag_env sample_ag_builder))).
     k8senv_Find (acEnv c) ''DT_SERVER'' = Some (env_literal ''DT_SERVER'' ''mine'') \<and> env_ordered (acEnv c)"
proof -
  obtain c where c: "c \<in> set (apContainers (sfmPod (CreateStatefulSet sample_ag_env sample_ag_builder)))"
    using stateful_set_parts(1)[of sample_ag_env sample_ag_builder] by auto
  have "k8senv_Find (activegate_env (aeManifest sample_ag_env) sample_ag_builder) ''DT_SERVER'' =
      Some (env_literal ''DT_SERVER'' ''mine'')"
    by (simp add: activegate_env_def sample_ag_builder_def sample_capability_properties_def k8senv_Find_def env_literal_def)
  with c activegate_environment[OF c, of "''DT_SERVER''"] show ?thesis by (intro bexI[of _ c]) simp_all
qed


end
