(* ===== verification/ActiveGateCtrlLaws.thy ===== *)
theory ActiveGateCtrlLaws
  imports ActiveGateCtrl IstioLaws ActiveGateLaws SecretLaws
begin

text \<open>
  Laws of the ActiveGate reconciler: what an update does to the service, how often its addresses are read, and
  when the removal of an ActiveGate that was switched off is complete.
\<close>

section \<open>Service\<close>

lemma with_services_result: "with_services m st = (fst (m (clServices st)), st\<lparr>clServices := snd (m (clServices st))\<rparr>)"
  by (simp add: with_services_def split: prod.split)

text \<open>
  An update of the service keeps its address and is refused when somebody else changed it meanwhile, but it has
  no owner: the controller reference is set on a new service only, and the update replaces what is there.
\<close>

theorem service_update_drops_owner:
  assumes "qeGet (keServices env) (qsTrace (clServices st)) (dkNamespace (clDk st)) (BuildServiceName (dkName (clDk st))) = Inr installed"
    and "portsAreOutdated installed (CreateService env (clDk st)) \<or> labelsAreOutdated installed (CreateService env (clDk st))"
  shows "\<exists>sent. qsTrace (clServices (snd (createOrUpdateService env st))) = qsTrace (clServices st) @
       [QGet (dkNamespace (clDk st)) (BuildServiceName (dkName (clDk st))), QUpdate sent] \<and>
     koOwnerReferences sent = [] \<and> koResourceVersion sent = koResourceVersion installed \<and>
     svClusterIP (koPayload sent) = svClusterIP (koPayload installed) \<and>
     \<not> portsAreOutdated sent (CreateService env (clDk st)) \<and> \<not> labelsAreOutdated sent (CreateService env (clDk st))"
proof -
  let ?sent = "(CreateService env (clDk st))\<lparr>koResourceVersion := koResourceVersion installed,
      koPayload := (koPayload (CreateService env (clDk st)))\<lparr>svClusterIP := svClusterIP (koPayload installed)\<rparr>\<rparr>"
  have "qsTrace (clServices (snd (createOrUpdateService env st))) = qsTrace (clServices st) @
      [QGet (dkNamespace (clDk st)) (BuildServiceName (dkName (clDk st))), QUpdate ?sent]"
    using assms
    by (simp add: createOrUpdateService_def andThen_gets andThen_attempt Let_def get_service_def with_services_result Get_def
        q_ask_def client_update_def andThen_def[of "q_ask _ _"] ret_def split: sum.split)
  moreover have "\<not> portsAreOutdated ?sent (CreateService env (clDk st))" "\<not> labelsAreOutdated ?sent (CreateService env (clDk st))"
    by (simp_all add: portsAreOutdated_def labelsAreOutdated_def)
  ultimately show ?thesis by (intro exI[of _ ?sent]) (simp add: CreateService_def)
qed

text \<open>The service is read once, and up to three times more while it is not there.\<close>

lemma retried_reads:
  "\<exists>k \<le> Suc n. qsTrace (clServices (snd (retry_OnError n is_not_found
       (andThen (get_service env dk) (\<lambda>present. set_service_ips (svClusterIPs (koPayload present)))) st))) =
     qsTrace (clServices st) @ replicate k (QGet (dkNamespace dk) (BuildServiceName (dkName dk))) \<and> k > 0"
proof (induction n arbitrary: st)
  case 0
  show ?case
    by (intro exI[of _ "Suc 0"])
      (simp add: andThen_def get_service_def with_services_result Get_def q_ask_def set_service_ips_def on_dk_result
        split: sum.split)
next
  case (Suc n)
  let ?m = "andThen (get_service env dk) (\<lambda>present. set_service_ips (svClusterIPs (koPayload present)))"
  let ?get = "QGet (dkNamespace dk) (BuildServiceName (dkName dk))"
  obtain r st1 where run: "?m st = (r, st1)" by fastforce
  have once: "qsTrace (clServices st1) = qsTrace (clServices st) @ [?get]"
    using arg_cong[OF run, of "\<lambda>p. qsTrace (clServices (snd p))"]
    by (simp add: andThen_def get_service_def with_services_result Get_def q_ask_def set_service_ips_def on_dk_result
        split: sum.splits)
  obtain k where k: "k \<le> Suc n" "k > 0" "qsTrace (clServices (snd (retry_OnError n is_not_found ?m st1))) =
      qsTrace (clServices st1) @ replicate k ?get" using Suc.IH[of st1] by blast
  show ?case
  proof (cases "\<exists>e. r = Inl e \<and> is_not_found e")
    case True
    then have "retry_OnError (Suc n) is_not_found ?m st = retry_OnError n is_not_found ?m st1"
      by (auto simp: andThen_attempt run)
    with k once show ?thesis by (intro exI[of _ "Suc k"]) simp
  next
    case False
    then have "snd (retry_OnError (Suc n) is_not_found ?m st) = st1"
      by (cases r) (auto simp: andThen_attempt run ret_def throw_def)
    with once show ?thesis by (intro exI[of _ "Suc 0"]) simp
  qed
qed

theorem service_reads_bounded:
  "\<exists>k. 1 \<le> k \<and> k \<le> 4 \<and> qsTrace (clServices (snd (setAGServiceIPs env st))) =
     qsTrace (clServices st) @ replicate k (QGet (dkNamespace (clDk st)) (BuildServiceName (dkName (clDk st))))"
  using retried_reads[of DefaultBackoff env "clDk st" st] by (auto simp: setAGServiceIPs_def andThen_gets Suc_le_eq)

section \<open>Removal\<close>

lemma tls_disabled:
  assumes "\<not> ag_IsEnabled (dk_ActiveGate (clDk st))"
  shows "\<exists>r q cs. tls_Reconcile env st = (r, st\<lparr>clSecrets := q, clDk := fold add_condition_op cs (clDk st)\<rparr>) \<and>
     set cs \<subseteq> {RemoveStatusCondition tlsConditionType}"
proof -
  obtain r q where "Delete (re_secrets env) (dkNamespace (clDk st)) (ag_GetAutoTLSSecretName (dk_ActiveGate (clDk st)))
      (clSecrets st) = (r, q)" by fastforce
  then have run: "deleteSelfSignedTLSSecret env st = (r, st\<lparr>clSecrets := q\<rparr>)"
    by (simp add: deleteSelfSignedTLSSecret_def andThen_gets delete_secret_def with_secrets_def)
  show ?thesis
  proof (cases "has_cond (reCluster env) tlsConditionType st")
    case True
    then have "tls_Reconcile env st =
        (r, st\<lparr>clSecrets := q, clDk := fold add_condition_op [RemoveStatusCondition tlsConditionType] (clDk st)\<rparr>)"
      using assms run by (simp add: tls_Reconcile_def step_simps lift_def)
    then show ?thesis by (metis empty_set list.simps(15) order_refl)
  next
    case False
    then have "tls_Reconcile env st = (Inr (), st\<lparr>clSecrets := clSecrets st, clDk := fold add_condition_op [] (clDk st)\<rparr>)"
      using assms by (simp add: tls_Reconcile_def step_simps)
    then show ?thesis by (metis empty_set empty_subsetI)
  qed
qed

lemma folded_activegate: "dk_ActiveGate (fold add_condition_op cs dk) = dk_ActiveGate dk"
  by (induction cs arbitrary: dk) simp_all

lemma disabled_capability:
  assumes "\<not> ag_IsEnabled (dk_ActiveGate (clDk st))"
  shows "reconcile_capability env st = andThen (deleteCapability env)
     (\<lambda>_. set_cond (RemoveStatusCondition ActiveGateStatefulSetConditionType)) st"
  using assms by (simp add: reconcile_capability_def andThen_gets NewMultiCapability_def Let_def cap_Enabled_def)

text \<open>C13. The condition of the stateful set outlasts every failed attempt to remove an ActiveGate that was switched
  off, so that the next reconcile tries again. When it is gone, stateful set and service were deleted without an
  error, and a further reconcile does nothing.
\<close>

theorem disabled_activegate_removed:
  assumes "status_conditions (keFind (gc_cluster env))" and "\<not> ag_IsEnabled (dk_ActiveGate (clDk st))"
    and "reconcile_capability env st = (r, st')" and "has_cond (gc_cluster env) ActiveGateStatefulSetConditionType st"
  shows "if r = Inr ()
     then Delete (keStatefulSets (gc_cluster env)) (dkNamespace (clDk st)) (CalculateStatefulSetName (dkName (clDk st)))
            (clStatefulSets st) = (Inr (), clStatefulSets st') \<and>
          Delete (keServices (gc_cluster env)) (dkNamespace (clDk st)) (BuildServiceName (dkName (clDk st)))
            (clServices st) = (Inr (), clServices st') \<and>
          activegate_Reconcile env tokens st' = (Inr (), st')
     else has_cond (gc_cluster env) ActiveGateStatefulSetConditionType st'"
proof -
  let ?c = "gc_cluster env"
  obtain r1 q1 where sts: "Delete (keStatefulSets ?c) (dkNamespace (clDk st)) (CalculateStatefulSetName (dkName (clDk st)))
      (clStatefulSets st) = (r1, q1)" by fastforce
  obtain r2 q2 where svc: "Delete (keServices ?c) (dkNamespace (clDk st)) (BuildServiceName (dkName (clDk st)))
      (clServices st) = (r2, q2)" by fastforce
  let ?st1 = "st\<lparr>clStatefulSets := q1\<rparr>" and ?st2 = "st\<lparr>clStatefulSets := q1, clServices := q2\<rparr>"
  have d1: "deleteStatefulset ?c st = (r1, ?st1)" by (simp add: deleteStatefulset_def andThen_gets with_statefulsets_def sts)
  have d2: "deleteService ?c ?st1 = (r2, ?st2)" by (simp add: deleteService_def andThen_gets with_services_def svc)
  obtain r3 q3 cs where d3: "tls_Reconcile (gcSecrets env) ?st2 = (r3, ?st2\<lparr>clSecrets := q3, clDk := fold add_condition_op cs (clDk st)\<rparr>)"
    and cs: "set cs \<subseteq> {RemoveStatusCondition tlsConditionType}"
    using tls_disabled[of ?st2 "gcSecrets env"] assms(2) by auto
  let ?st3 = "?st2\<lparr>clSecrets := q3, clDk := fold add_condition_op cs (clDk st)\<rparr>"
  have "\<forall>c \<in> set cs. cond_op_type c \<noteq> ActiveGateStatefulSetConditionType" using cs by auto
  from status_conditions.found_others[OF assms(1) this]
  have kept: "has_cond ?c ActiveGateStatefulSetConditionType ?st3"
    using assms(4) by (simp add: has_cond_def folded_ops)
  have off: "\<not> ag_IsEnabled (dk_ActiveGate (clDk ?st3))"
    using assms(2) by (simp add: folded_activegate)
  have "reconcile_capability env st =
      (case r1 of Inl e \<Rightarrow> (Inl e, ?st1) | Inr _ \<Rightarrow> case r2 of Inl e \<Rightarrow> (Inl e, ?st2) | Inr _ \<Rightarrow> case r3 of Inl e \<Rightarrow> (Inl e, ?st3)
       | Inr _ \<Rightarrow> (Inr (), ?st3\<lparr>clDk := add_condition_op (RemoveStatusCondition ActiveGateStatefulSetConditionType) (clDk ?st3)\<rparr>))"
    unfolding disabled_capability[OF assms(2)] deleteCapability_def
    by (cases r1; cases r2; cases r3) (simp_all add: andThen_def d1 d2 d3 set_cond_result)
  then have run: "(r, st') =
      (case r1 of Inl e \<Rightarrow> (Inl e, ?st1) | Inr _ \<Rightarrow> case r2 of Inl e \<Rightarrow> (Inl e, ?st2) | Inr _ \<Rightarrow> case r3 of Inl e \<Rightarrow> (Inl e, ?st3)
       | Inr _ \<Rightarrow> (Inr (), ?st3\<lparr>clDk := add_condition_op (RemoveStatusCondition ActiveGateStatefulSetConditionType) (clDk ?st3)\<rparr>))"
    unfolding assms(3) .
  show ?thesis
  proof (cases "\<exists>e. r1 = Inl e \<or> r2 = Inl e \<or> r3 = Inl e")
    case True
    with run kept assms(4) show ?thesis by (auto simp: has_cond_def split: sum.splits)
  next
    case False
    then have ok: "r1 = Inr ()" "r2 = Inr ()" "r3 = Inr ()" by (metis old.unit.exhaust sum.exhaust)+
    with run have result: "r = Inr ()" "st' = ?st3\<lparr>clDk := add_condition_op (RemoveStatusCondition ActiveGateStatefulSetConditionType) (clDk ?st3)\<rparr>"
      by simp_all
    have "activegate_Reconcile env tokens st' = (Inr (), st')"
      using off removed_is_absent[OF assms(1)] by (simp add: result activegate_Reconcile_def andThen_gets ret_def)
    with sts svc ok result show ?thesis by simp
  qed
qed

section \<open>Witnesses\<close>

definition outdated_service :: "service_payload kobject" where
  "outdated_service = (CreateService sample_cluster_env zero_dynakube)
     \<lparr>koPayload := (koPayload (CreateService sample_cluster_env zero_dynakube))\<lparr>svPorts := [], svClusterIP := ''10.0.0.1''\<rparr>,
      koOwnerReferences := [''dk'']\<rparr>"

theorem service_update_drops_owner_witness:
  "\<exists>st sent. QUpdate sent \<in> set (qsTrace (clServices (snd (createOrUpdateService sample_cluster_env st)))) \<and>
     koOwnerReferences sent = [] \<and> svClusterIP (koPayload sent) = ''10.0.0.1''"
proof -
  let ?st = "(sample_cluster zero_dynakube)\<lparr>clServices := \<lparr>qsTrace = [QCreate outdated_service], qsObject = outdated_service\<rparr>\<rparr>"
  have read: "qeGet (keServices sample_cluster_env) (qsTrace (clServices ?st)) (dkNamespace (clDk ?st))
      (BuildServiceName (dkName (clDk ?st))) = Inr outdated_service"
    by (simp add: sample_cluster_def sample_cluster_env_def sample_objects_def WithOwner_def storing_server_def store_call_def
        outdated_service_def CreateService_def)
  have "portsAreOutdated outdated_service (CreateService sample_cluster_env (clDk ?st))"
    by (simp add: portsAreOutdated_def outdated_service_def CreateService_def)
  with service_update_drops_owner[OF read] obtain sent where
    "qsTrace (clServices (snd (createOrUpdateService sample_cluster_env ?st))) = qsTrace (clServices ?st) @
       [QGet (dkNamespace (clDk ?st)) (BuildServiceName (dkName (clDk ?st))), QUpdate sent]"
    and "koOwnerReferences sent = []" and "svClusterIP (koPayload sent) = svClusterIP (koPayload outdated_service)" by blast
  then show ?thesis by (intro exI[of _ ?st] exI[of _ sent]) (simp add: outdated_service_def)
qed

definition sample_ag_ctrl_env :: ag_ctrl_env where
  "sample_ag_ctrl_env =
     \<lparr>gcSecrets = sample_secret_env (\<lambda>_. Inl (HttpCode 500)), gcWorkload = sample_ag_env, gcVersion = sample_env, gcIstio = ret (),
      gcGetAG = Inr zero_fetched_info, gcRest = (\<lambda>_. [])\<rparr>"

theorem disabled_activegate_removed_witness:
  "\<exists>st'. reconcile_capability sample_ag_ctrl_env
      (sample_cluster (sample_plain_dynakube [status_condition ActiveGateStatefulSetConditionType True ''r'' ''m''])) = (Inr (), st') \<and>
     activegate_Reconcile sample_ag_ctrl_env sample_tokens st' = (Inr (), st')"
proof -
  let ?st = "sample_cluster (sample_plain_dynakube [status_condition ActiveGateStatefulSetConditionType True ''r'' ''m''])"
  have laws: "status_conditions (keFind (gc_cluster sample_ag_ctrl_env))"
    by (simp add: sample_ag_ctrl_env_def sample_secret_conditions)
  have off: "\<not> ag_IsEnabled (dk_ActiveGate (clDk ?st))"
    by (simp add: sample_cluster_def sample_plain_dynakube_def zero_dynakube_def zero_dynakube_spec_def zero_activegate_spec_def
        dk_ActiveGate_def ag_IsEnabled_def dk_Extensions_def ext_IsAnyEnabled_def ext_IsPrometheusEnabled_def
        ext_IsDatabasesEnabled_def)
  have present: "has_cond (gc_cluster sample_ag_ctrl_env) ActiveGateStatefulSetConditionType ?st"
    by (simp add: has_cond_def sample_ag_ctrl_env_def sample_secret_env_def sample_cluster_env_def sample_cluster_def
        sample_plain_dynakube_def last_condition_def status_condition_def)
  have no_tls: "\<not> has_cond (gc_cluster sample_ag_ctrl_env) tlsConditionType s" if "clDk s = clDk ?st" for s
    using that by (simp add: has_cond_def sample_ag_ctrl_env_def sample_secret_env_def sample_cluster_env_def sample_cluster_def
        sample_plain_dynakube_def last_condition_def status_condition_def)
  have deletes: "fst (Delete (keStatefulSets (gc_cluster sample_ag_ctrl_env)) ns n q) = Inr ()"
    "fst (Delete (keServices (gc_cluster sample_ag_ctrl_env)) ns n q') = Inr ()" for ns n q q'
    by (simp_all add: Delete_def q_ask_def sample_ag_ctrl_env_def sample_secret_env_def sample_cluster_env_def sample_objects_def
        WithOwner_def storing_server_def)
  obtain q1 where d1: "Delete (keStatefulSets (gc_cluster sample_ag_ctrl_env)) (dkNamespace (clDk ?st))
      (CalculateStatefulSetName (dkName (clDk ?st))) (clStatefulSets ?st) = (Inr (), q1)"
    using deletes(1) by (metis prod.collapse)
  obtain q2 where d2: "Delete (keServices (gc_cluster sample_ag_ctrl_env)) (dkNamespace (clDk ?st))
      (BuildServiceName (dkName (clDk ?st))) (clServices ?st) = (Inr (), q2)"
    using deletes(2) by (metis prod.collapse)
  have tls: "tls_Reconcile (gcSecrets sample_ag_ctrl_env) s = (Inr (), s)" if "clDk s = clDk ?st" for s
    using no_tls[OF that] off that by (simp add: tls_Reconcile_def step_simps)
  obtain r st' where run: "reconcile_capability sample_ag_ctrl_env ?st = (r, st')" by fastforce
  moreover from this have "r = Inr ()"
    unfolding disabled_capability[OF off] deleteCapability_def
    by (auto simp: andThen_def gets_def deleteStatefulset_def deleteService_def with_statefulsets_def with_services_result d1 d2 tls
        set_cond_result)
  ultimately show ?thesis using disabled_activegate_removed[OF laws off run present, of sample_tokens] by simp
qed

end
