(* ===== verification/Certificates.thy ===== *)
theory Certificates
  imports K8sQuery GoStd
begin

text \<open>
  The certificates of the webhooks (\<open>controllers/certificates\<close>): a root and a server certificate in a secret,
  renewed before they expire, and the bundle of the API server's configurations and resource definitions.
\<close>

section \<open>Cryptography\<close>

text \<open>
  Keys and certificates are their PEM texts. \<open>cyGenerateKey\<close> is \<open>ecdsa.GenerateKey\<close> with its encoding,
  \<open>cyCreateRoot\<close> and \<open>cyCreateServer\<close> are \<open>x509.CreateCertificate\<close> with serial number and encoding: from template
  and own key; from template, root certificate, root key and own key. \<open>cyNotAfter\<close> is the expiry of a text that
  decodes and parses (\<open>Inl\<close> an error that is reported, \<open>None\<close> no PEM), \<open>cyParsesKey\<close> whether a key does.
  The parts of a template that are always the same (subject, key usage) are left out.
\<close>

record cert_template =
  ctCommonName :: string
  ctDNSNames :: "string list"
  ctIsCA :: bool
  ctNotBefore :: int
  ctNotAfter :: int

record cert_crypto =
  cyGenerateKey :: "string \<Rightarrow> error + string"
  cyCreateRoot :: "cert_template \<Rightarrow> string \<Rightarrow> error + string"
  cyCreateServer :: "cert_template \<Rightarrow> string \<Rightarrow> string \<Rightarrow> string \<Rightarrow> error + string"
  cyNotAfter :: "string \<Rightarrow> error + int option"
  cyParsesKey :: "string \<Rightarrow> bool"

section \<open>Certificates (\<open>certs.go\<close>)\<close>

abbreviation RootKey :: string where "RootKey \<equiv> ''ca.key''"
abbreviation RootCert :: string where "RootCert \<equiv> ''ca.crt''"
abbreviation RootCertOld :: string where "RootCertOld \<equiv> ''ca.crt.old''"
abbreviation ServerKey :: string where "ServerKey \<equiv> ''tls.key''"
abbreviation ServerCert :: string where "ServerCert \<equiv> ''tls.crt''"

record cert_durations =
  cdRequeueAfter :: int
  cdRenewalThreshold :: int
  cdServerCertDuration :: int
  cdRootCertDuration :: int

definition buildSANs :: "string \<Rightarrow> string list" where
  "buildSANs domain = [domain, domain @ ''.svc'', domain @ ''.svc.cluster.local'']"

definition ValidateCertificateExpiration :: "cert_crypto \<Rightarrow> string \<Rightarrow> int \<Rightarrow> int \<Rightarrow> error + bool" where
  "ValidateCertificateExpiration cy certData renewalThreshold now =
     (case cyNotAfter cy certData of
        Inl e \<Rightarrow> Inl e
      | Inr None \<Rightarrow> Inr False
      | Inr (Some notAfter) \<Rightarrow> Inr (\<not> now > notAfter - renewalThreshold))"

text \<open>Whether the root has to be renewed.\<close>

definition validateRootCerts :: "cert_crypto \<Rightarrow> int \<Rightarrow> int \<Rightarrow> smap \<Rightarrow> bool" where
  "validateRootCerts cy renewalThreshold now data =
     (case (data RootKey, data RootCert) of
        (Some rootKey, Some rootCert) \<Rightarrow>
          (case cyNotAfter cy rootCert of
             Inl _ \<Rightarrow> True
           | Inr None \<Rightarrow> True
           | Inr (Some notAfter) \<Rightarrow> now > notAfter - renewalThreshold \<or> \<not> cyParsesKey cy rootKey)
      | _ \<Rightarrow> True)"

definition validateServerCerts :: "cert_crypto \<Rightarrow> int \<Rightarrow> int \<Rightarrow> smap \<Rightarrow> bool" where
  "validateServerCerts cy renewalThreshold now data =
     (case (data ServerKey, data ServerCert) of
        (Some _, Some serverCert) \<Rightarrow>
          (case ValidateCertificateExpiration cy serverCert renewalThreshold now of Inl _ \<Rightarrow> True | Inr valid \<Rightarrow> \<not> valid)
      | _ \<Rightarrow> True)"

definition generateRootCerts :: "cert_crypto \<Rightarrow> int \<Rightarrow> string \<Rightarrow> int \<Rightarrow> smap \<Rightarrow> error + smap" where
  "generateRootCerts cy rootCertDuration domain now data =
     (case cyGenerateKey cy RootKey of
        Inl e \<Rightarrow> Inl e
      | Inr privateKey \<Rightarrow>
          (case cyCreateRoot cy \<lparr>ctCommonName = domain, ctDNSNames = buildSANs domain, ctIsCA = True,
               ctNotBefore = now, ctNotAfter = now + rootCertDuration\<rparr> privateKey of
             Inl e \<Rightarrow> Inl (WithMsg ''failed to generate root certificate'' e)
           | Inr rootCert \<Rightarrow> Inr (data(RootKey \<mapsto> privateKey, RootCertOld \<mapsto> read_annotation data RootCert, RootCert \<mapsto> rootCert))))"

text \<open>The root key and certificate are those of the data: read by \<open>validateRootCerts\<close> or just generated.\<close>

definition generateServerCerts :: "cert_crypto \<Rightarrow> int \<Rightarrow> string \<Rightarrow> int \<Rightarrow> smap \<Rightarrow> error + smap" where
  "generateServerCerts cy serverCertDuration domain now data =
     (case cyGenerateKey cy ServerKey of
        Inl e \<Rightarrow> Inl e
      | Inr privateKey \<Rightarrow>
          (case cyCreateServer cy \<lparr>ctCommonName = domain, ctDNSNames = buildSANs domain, ctIsCA = False,
               ctNotBefore = now, ctNotAfter = now + serverCertDuration\<rparr>
               (read_annotation data RootCert) (read_annotation data RootKey) privateKey of
             Inl e \<Rightarrow> Inl (WithMsg ''failed to generate server certificate'' e)
           | Inr serverCert \<Rightarrow> Inr (data(ServerKey \<mapsto> privateKey, ServerCert \<mapsto> serverCert))))"

definition ValidateCerts :: "cert_crypto \<Rightarrow> cert_durations \<Rightarrow> string \<Rightarrow> int \<Rightarrow> smap \<Rightarrow> error + smap" where
  "ValidateCerts cy d domain now srcData =
     (let renewRootCerts = validateRootCerts cy (cdRenewalThreshold d) now srcData in
      case (if renewRootCerts then generateRootCerts cy (cdRootCertDuration d) domain now srcData else Inr srcData) of
        Inl e \<Rightarrow> Inl e
      | Inr data \<Rightarrow>
          if renewRootCerts \<or> validateServerCerts cy (cdRenewalThreshold d) now data
          then generateServerCerts cy (cdServerCertDuration d) domain now data else Inr data)"

section \<open>State and calls\<close>

text \<open>
  A webhook configuration is the list of the bundles of its webhooks; a resource definition the bundle of its
  conversion webhook, \<open>None\<close> when it has none.
\<close>

datatype cert_call =
    GetWebhookDeployment string
  | GetMutatingConfig
  | GetValidatingConfig
  | GetCRD string
  | GetCertSecret string
  | CreateCertSecret smap
  | UpdateCertSecret smap
  | UpdateMutatingConfig "string list"
  | UpdateValidatingConfig "string list"
  | UpdateCRD string string

type_synonym cert_trace = "cert_call list"

record cert_env =
  wcCrypto :: cert_crypto
  wcNow :: int
  wcGetDeployment :: "cert_trace \<Rightarrow> string \<Rightarrow> error + string"
  wcGetMutating :: "cert_trace \<Rightarrow> error + string list"
  wcGetValidating :: "cert_trace \<Rightarrow> error + string list"
  wcGetCRD :: "cert_trace \<Rightarrow> string \<Rightarrow> error + string option"
  wcGetSecret :: "cert_trace \<Rightarrow> string \<Rightarrow> error + smap"
  wcSetOwner :: "error option"
  wcWrite :: "cert_trace \<Rightarrow> cert_call \<Rightarrow> error option"

definition ce_read :: "cert_call \<Rightarrow> (cert_trace \<Rightarrow> error + 'a) \<Rightarrow> (cert_trace, 'a) io" where
  "ce_read c answer tr = (answer tr, tr @ [c])"

definition ce_write :: "cert_env \<Rightarrow> cert_call \<Rightarrow> (cert_trace, unit) io" where
  "ce_write env c tr = (case wcWrite env tr c of None \<Rightarrow> Inr () | Some e \<Rightarrow> Inl e, tr @ [c])"

section \<open>Secret (\<open>certificate_secret.go\<close>)\<close>

abbreviation webhook_DeploymentName :: string where "webhook_DeploymentName \<equiv> ''dynatrace-webhook''"

definition buildSecretName :: string where
  "buildSecretName = webhook_DeploymentName @ ''-certs''"

record certificate_secret =
  csSecret :: smap
  csCertificates :: smap
  csExistsInCluster :: bool

definition setSecretFromReader :: "cert_env \<Rightarrow> string \<Rightarrow> (cert_trace, smap \<times> bool) io" where
  "setSecretFromReader env ns =
     andThen (attempt (ce_read (GetCertSecret ns) (\<lambda>tr. wcGetSecret env tr ns))) (\<lambda>r.
       case r of
         Inr data \<Rightarrow> ret (data, True)
       | Inl e \<Rightarrow>
           if is_not_found e then
             (case wcSetOwner env of None \<Rightarrow> ret (Map.empty, False)
              | Some e' \<Rightarrow> throw (WithMsg ''build certificate secret'' e'))
           else throw (WithMsg ''get certificate secret'' e))"

definition validateCertificates :: "cert_env \<Rightarrow> cert_durations \<Rightarrow> string \<Rightarrow> smap \<times> bool \<Rightarrow> error + certificate_secret" where
  "validateCertificates env d ns secret =
     (case ValidateCerts (wcCrypto env) d (webhook_DeploymentName @ ''.'' @ ns) (wcNow env) (fst secret) of
        Inl e \<Rightarrow> Inl (WithMsg ''validate certificates'' e)
      | Inr certs \<Rightarrow> Inr \<lparr>csSecret = fst secret, csCertificates = certs, csExistsInCluster = snd secret\<rparr>)"

text \<open>Both parts are set when it is asked.\<close>

definition isRecent :: "certificate_secret \<Rightarrow> bool" where
  "isRecent certSecret \<longleftrightarrow> csCertificates certSecret = csSecret certSecret"

definition isBundleValid :: "certificate_secret \<Rightarrow> string \<Rightarrow> bool" where
  "isBundleValid certSecret bundle \<longleftrightarrow>
     bundle \<noteq> [] \<and> bundle = read_annotation (csCertificates certSecret) RootCert"

definition areWebhookConfigsValid :: "certificate_secret \<Rightarrow> string list \<Rightarrow> bool" where
  "areWebhookConfigsValid certSecret configs = list_all (isBundleValid certSecret) configs"

definition isCRDConversionValid :: "certificate_secret \<Rightarrow> string option \<Rightarrow> bool" where
  "isCRDConversionValid certSecret crd \<longleftrightarrow>
     (case crd of None \<Rightarrow> True | Some bundle \<Rightarrow> isBundleValid certSecret bundle)"

definition createOrUpdateIfNecessary :: "cert_env \<Rightarrow> certificate_secret \<Rightarrow> (cert_trace, certificate_secret) io" where
  "createOrUpdateIfNecessary env certSecret =
     (if isRecent certSecret \<and> csExistsInCluster certSecret then ret certSecret
      else
        let certSecret' = certSecret\<lparr>csSecret := csCertificates certSecret\<rparr> in
        andThen (if csExistsInCluster certSecret
                 then wrap_msg ''update certificates secret'' (ce_write env (UpdateCertSecret (csCertificates certSecret)))
                 else wrap_msg ''create certificates secret'' (ce_write env (CreateCertSecret (csCertificates certSecret))))
          (\<lambda>_. ret certSecret'))"

definition loadCombinedBundle :: "certificate_secret \<Rightarrow> error + string" where
  "loadCombinedBundle certSecret =
     (case csSecret certSecret RootCert of
        None \<Rightarrow> Inl (Sentinel ''certificates secret is empty'')
      | Some data \<Rightarrow>
          (case csSecret certSecret RootCertOld of None \<Rightarrow> Inr data | Some oldData \<Rightarrow> Inr (data @ oldData)))"

section \<open>Controller (\<open>webhook_cert_controller.go\<close>)\<close>

abbreviation CertificateWatcherPollInterval :: int where "CertificateWatcherPollInterval \<equiv> 6 * (60 * minute)"
abbreviation minCertificateRenewalThreshold :: int where
  "minCertificateRenewalThreshold \<equiv> 2 * CertificateWatcherPollInterval"

text \<open>The durations come from the environment; the controller does not start when they do not fit.\<close>

definition newWebhookCertificateController :: "cert_durations \<Rightarrow> error + cert_durations" where
  "newWebhookCertificateController d =
     (if cdServerCertDuration d \<le> cdRenewalThreshold d
      then Inl (Sentinel ''server cert duration must exceed renewal threshold'')
      else if cdRootCertDuration d \<le> cdServerCertDuration d
      then Inl (Sentinel ''root cert duration must exceed server cert duration'')
      else if cdRenewalThreshold d < minCertificateRenewalThreshold
      then Inl (Sentinel ''renewal threshold must exceed twice the cert watcher poll interval'')
      else if cdRequeueAfter d \<ge> cdRenewalThreshold d
      then Inl (Sentinel ''requeue interval must be shorter than the renewal threshold'')
      else Inr d)"

text \<open>A configuration that cannot be read, or without webhooks, is no configuration.\<close>

definition get_config :: "cert_call \<Rightarrow> (cert_trace \<Rightarrow> error + string list) \<Rightarrow> (cert_trace, string list option) io" where
  "get_config c answer =
     andThen (attempt (ce_read c answer)) (\<lambda>r.
       ret (case r of Inl _ \<Rightarrow> None | Inr configs \<Rightarrow> if configs = [] then None else Some configs))"

definition getWebhooksConfigurations :: "cert_env \<Rightarrow> (cert_trace, string list option \<times> string list option) io" where
  "getWebhooksConfigurations env =
     andThen (get_config GetMutatingConfig (wcGetMutating env)) (\<lambda>mutating.
     andThen (get_config GetValidatingConfig (wcGetValidating env)) (\<lambda>validating.
       ret (mutating, validating)))"

abbreviation crd_DynaKubeName :: string where "crd_DynaKubeName \<equiv> ''dynakubes.dynatrace.com''"
abbreviation crd_EdgeConnectName :: string where "crd_EdgeConnectName \<equiv> ''edgeconnects.dynatrace.com''"

definition getCRD :: "cert_env \<Rightarrow> (cert_trace, string option) io" where
  "getCRD env = wrap_msg ''get CRD'' (ce_read (GetCRD crd_DynaKubeName) (\<lambda>tr. wcGetCRD env tr crd_DynaKubeName))"

definition configs_of :: "string list option \<Rightarrow> string list" where
  "configs_of c = (case c of None \<Rightarrow> [] | Some configs \<Rightarrow> configs)"

definition certs_isUpToDate ::
    "certificate_secret \<Rightarrow> string list \<Rightarrow> string list \<Rightarrow> string option \<Rightarrow> bool" where
  "certs_isUpToDate certSecret mutating validating crd \<longleftrightarrow>
     isRecent certSecret \<and> areWebhookConfigsValid certSecret mutating \<and>
     areWebhookConfigsValid certSecret validating \<and> isCRDConversionValid certSecret crd"

definition updateClientConfigurations ::
    "cert_env \<Rightarrow> (string list \<Rightarrow> cert_call) \<Rightarrow> string \<Rightarrow> string list option \<Rightarrow> (cert_trace, unit) io" where
  "updateClientConfigurations env update bundle webhookConfig =
     (case webhookConfig of
        None \<Rightarrow> ret ()
      | Some configs \<Rightarrow>
          wrap_msg ''update webhook configuration'' (ce_write env (update (map (\<lambda>_. bundle) configs))))"

definition updateCRDConfiguration :: "cert_env \<Rightarrow> string \<Rightarrow> string \<Rightarrow> (cert_trace, unit) io" where
  "updateCRDConfiguration env crdName bundle =
     andThen (wrap_msg (''get CRD '' @ crdName) (ce_read (GetCRD crdName) (\<lambda>tr. wcGetCRD env tr crdName))) (\<lambda>crd.
       case crd of
         None \<Rightarrow> ret ()
       | Some _ \<Rightarrow> wrap_msg (''update CRD '' @ crdName) (ce_write env (UpdateCRD crdName bundle)))"

text \<open>Writing the bundle to everything that calls the webhooks.\<close>

definition distribute_bundle ::
    "cert_env \<Rightarrow> string \<Rightarrow> string list option \<Rightarrow> string list option \<Rightarrow> (cert_trace, unit) io" where
  "distribute_bundle env bundle mutating validating =
     andThen (updateClientConfigurations env UpdateMutatingConfig bundle mutating) (\<lambda>_.
     andThen (updateClientConfigurations env UpdateValidatingConfig bundle validating) (\<lambda>_.
     andThen (updateCRDConfiguration env crd_DynaKubeName bundle) (\<lambda>_.
       updateCRDConfiguration env crd_EdgeConnectName bundle)))"

definition certs_apply ::
    "cert_env \<Rightarrow> certificate_secret \<Rightarrow> string list option \<Rightarrow> string list option \<Rightarrow> (cert_trace, unit) io" where
  "certs_apply env certSecret mutating validating =
     andThen (createOrUpdateIfNecessary env certSecret) (\<lambda>stored.
     andThen (lift (loadCombinedBundle stored)) (\<lambda>bundle. distribute_bundle env bundle mutating validating))"

text \<open>The result is the interval after which it is called again, 0 for never.\<close>

definition certs_Reconcile :: "cert_env \<Rightarrow> cert_durations \<Rightarrow> string \<Rightarrow> (cert_trace, int) io" where
  "certs_Reconcile env controller ns =
     andThen (attempt (ce_read (GetWebhookDeployment ns) (\<lambda>tr. wcGetDeployment env tr ns))) (\<lambda>r.
       case r of
         Inl e \<Rightarrow> if is_not_found e then ret 0 else throw (WithMsg ''get webhook deployment'' e)
       | Inr deploymentNamespace \<Rightarrow>
           andThen (getWebhooksConfigurations env) (\<lambda>(mutating, validating).
           andThen (getCRD env) (\<lambda>crd.
           andThen (setSecretFromReader env deploymentNamespace) (\<lambda>secret.
           andThen (lift (validateCertificates env controller deploymentNamespace secret)) (\<lambda>certSecret.
             if certs_isUpToDate certSecret (configs_of mutating) (configs_of validating) crd
             then ret (cdRequeueAfter controller)
             else andThen (certs_apply env certSecret mutating validating) (\<lambda>_. ret (cdRequeueAfter controller)))))))"

end
