(* ===== verification/CertificateLaws.thy ===== *)
theory CertificateLaws
  imports Certificates Cluster
begin

text \<open>
  Laws of the certificate controller: when keys and certificates are renewed, that nothing expires before the
  next reconcile, and what is written to whom.
\<close>

section \<open>Renewal\<close>

definition root_template :: "string \<Rightarrow> int \<Rightarrow> int \<Rightarrow> cert_template" where
  "root_template domain now duration =
     \<lparr>ctCommonName = domain, ctDNSNames = buildSANs domain, ctIsCA = True, ctNotBefore = now, ctNotAfter = now + duration\<rparr>"

definition server_template :: "string \<Rightarrow> int \<Rightarrow> int \<Rightarrow> cert_template" where
  "server_template domain now duration =
     \<lparr>ctCommonName = domain, ctDNSNames = buildSANs domain, ctIsCA = False, ctNotBefore = now, ctNotAfter = now + duration\<rparr>"

text \<open>A server key and a certificate for it, signed with the root certificate and key of the same data.\<close>

definition issued_server :: "cert_crypto \<Rightarrow> cert_durations \<Rightarrow> string \<Rightarrow> int \<Rightarrow> smap \<Rightarrow> smap \<Rightarrow> bool" where
  "issued_server cy d domain now data data' \<longleftrightarrow>
     (\<exists>key cert. cyGenerateKey cy ServerKey = Inr key \<and>
        cyCreateServer cy (server_template domain now (cdServerCertDuration d)) (read_annotation data RootCert)
          (read_annotation data RootKey) key = Inr cert \<and>
        data' = data(ServerKey \<mapsto> key, ServerCert \<mapsto> cert))"

definition issued_root :: "cert_crypto \<Rightarrow> cert_durations \<Rightarrow> string \<Rightarrow> int \<Rightarrow> smap \<Rightarrow> smap \<Rightarrow> bool" where
  "issued_root cy d domain now data data' \<longleftrightarrow>
     (\<exists>key cert. cyGenerateKey cy RootKey = Inr key \<and>
        cyCreateRoot cy (root_template domain now (cdRootCertDuration d)) key = Inr cert \<and>
        data' = data(RootKey \<mapsto> key, RootCertOld \<mapsto> read_annotation data RootCert, RootCert \<mapsto> cert))"

lemma root_generated:
  "generateRootCerts cy (cdRootCertDuration d) domain now data = Inr data' \<Longrightarrow> issued_root cy d domain now data data'"
  by (auto simp: generateRootCerts_def issued_root_def root_template_def split: sum.splits)

lemma server_generated:
  "generateServerCerts cy (cdServerCertDuration d) domain now data = Inr data' \<Longrightarrow> issued_server cy d domain now data data'"
  by (auto simp: generateServerCerts_def issued_server_def server_template_def split: sum.splits)

lemma validate_cases:
  assumes "ValidateCerts cy d domain now src = Inr data"
  shows "\<exists>mid. (if validateRootCerts cy (cdRenewalThreshold d) now src then issued_root cy d domain now src mid else mid = src) \<and>
     (if validateRootCerts cy (cdRenewalThreshold d) now src \<or> validateServerCerts cy (cdRenewalThreshold d) now mid
      then issued_server cy d domain now mid data else data = mid)"
proof -
  let ?renew = "validateRootCerts cy (cdRenewalThreshold d) now src"
  obtain mid where mid: "(if ?renew then generateRootCerts cy (cdRootCertDuration d) domain now src else Inr src) = Inr mid"
    using assms by (auto simp: ValidateCerts_def Let_def split: sum.splits)
  then have "(if ?renew \<or> validateServerCerts cy (cdRenewalThreshold d) now mid
      then generateServerCerts cy (cdServerCertDuration d) domain now mid else Inr mid) = Inr data"
    using assms by (simp add: ValidateCerts_def Let_def)
  with mid show ?thesis
    using root_generated[of cy d domain now src mid] server_generated[of cy d domain now mid data]
    by (intro exI[of _ mid]) (simp split: if_splits)
qed

section \<open>Expiry\<close>

text \<open>
  What \<open>x509\<close> documents: a certificate that was created decodes and parses, and expires at the time of its
  template, which is encoded in full seconds.
\<close>

definition encodes_expiry :: "cert_crypto \<Rightarrow> bool" where
  "encodes_expiry cy \<longleftrightarrow>
     (\<forall>tpl key cert. cyCreateRoot cy tpl key = Inr cert \<longrightarrow>
        (\<exists>t. cyNotAfter cy cert = Inr (Some t) \<and> ctNotAfter tpl - second < t)) \<and>
     (\<forall>tpl root rootKey key cert. cyCreateServer cy tpl root rootKey key = Inr cert \<longrightarrow>
        (\<exists>t. cyNotAfter cy cert = Inr (Some t) \<and> ctNotAfter tpl - second < t))"

text \<open>The certificate is there, parses, and is valid until \<open>t\<close>, except for the last second.\<close>

definition valid_until :: "cert_crypto \<Rightarrow> smap \<Rightarrow> string \<Rightarrow> int \<Rightarrow> bool" where
  "valid_until cy data k t \<longleftrightarrow>
     (\<exists>cert notAfter. data k = Some cert \<and> cyNotAfter cy cert = Inr (Some notAfter) \<and> t < notAfter + second)"

lemma kept_root:
  assumes "\<not> validateRootCerts cy threshold now data" and "t \<le> now + threshold"
  shows "valid_until cy data RootCert t"
  using assms by (auto simp: validateRootCerts_def valid_until_def second_def split: option.splits sum.splits)

lemma kept_server:
  assumes "\<not> validateServerCerts cy threshold now data" and "t \<le> now + threshold"
  shows "valid_until cy data ServerCert t"
  using assms
  by (auto simp: validateServerCerts_def ValidateCertificateExpiration_def valid_until_def second_def split: option.splits sum.splits)

lemma new_root:
  assumes "issued_root cy d domain now data data'" and "encodes_expiry cy" and "t \<le> now + cdRootCertDuration d"
  shows "valid_until cy data' RootCert t"
proof -
  obtain key cert where cert: "cyCreateRoot cy (root_template domain now (cdRootCertDuration d)) key = Inr cert"
    and data': "data' RootCert = Some cert" using assms(1) by (auto simp: issued_root_def)
  obtain n where "cyNotAfter cy cert = Inr (Some n)" "now + cdRootCertDuration d - second < n"
    using assms(2) cert unfolding encodes_expiry_def by (metis cert_template.select_convs(5) root_template_def)
  with data' assms(3) show ?thesis by (auto simp: valid_until_def)
qed

lemma new_server:
  assumes "issued_server cy d domain now data data'" and "encodes_expiry cy" and "t \<le> now + cdServerCertDuration d"
  shows "valid_until cy data' ServerCert t" and "valid_until cy data' RootCert u = valid_until cy data RootCert u"
proof -
  obtain key cert where cert: "cyCreateServer cy (server_template domain now (cdServerCertDuration d))
      (read_annotation data RootCert) (read_annotation data RootKey) key = Inr cert"
    and data': "data' = data(ServerKey \<mapsto> key, ServerCert \<mapsto> cert)" using assms(1) by (auto simp: issued_server_def)
  obtain n where "cyNotAfter cy cert = Inr (Some n)" "now + cdServerCertDuration d - second < n"
    using assms(2) cert unfolding encodes_expiry_def by (metis cert_template.select_convs(5) server_template_def)
  with data' assms(3) show "valid_until cy data' ServerCert t" by (auto simp: valid_until_def)
  show "valid_until cy data' RootCert u = valid_until cy data RootCert u" by (simp add: data' valid_until_def)
qed

lemma durations_fit:
  assumes "newWebhookCertificateController d = Inr c"
  shows "c = d" "cdRenewalThreshold d < cdServerCertDuration d" "cdServerCertDuration d < cdRootCertDuration d"
    "cdRequeueAfter d < cdRenewalThreshold d"
  using assms by (auto simp: newWebhookCertificateController_def split: if_splits)

lemma validated_until:
  assumes "ValidateCerts cy d domain now src = Inr data" and "encodes_expiry cy"
    and "newWebhookCertificateController d = Inr c" and "t \<le> now + cdRenewalThreshold d"
  shows "valid_until cy data RootCert t \<and> valid_until cy data ServerCert t"
proof -
  note fit = durations_fit[OF assms(3)]
  obtain mid where mid: "if validateRootCerts cy (cdRenewalThreshold d) now src then issued_root cy d domain now src mid else mid = src"
    and data: "if validateRootCerts cy (cdRenewalThreshold d) now src \<or> validateServerCerts cy (cdRenewalThreshold d) now mid
      then issued_server cy d domain now mid data else data = mid"
    using validate_cases[OF assms(1)] by blast
  have root: "valid_until cy mid RootCert t"
  proof (cases "validateRootCerts cy (cdRenewalThreshold d) now src")
    case True
    with mid have "issued_root cy d domain now src mid" by simp
    from new_root[OF this assms(2)] show ?thesis using assms(4) fit by simp
  next
    case False
    with mid show ?thesis using kept_root[OF False assms(4)] by simp
  qed
  show ?thesis
  proof (cases "validateRootCerts cy (cdRenewalThreshold d) now src \<or> validateServerCerts cy (cdRenewalThreshold d) now mid")
    case True
    with data have server: "issued_server cy d domain now mid data" by simp
    have late: "t \<le> now + cdServerCertDuration d" using assms(4) fit by simp
    from new_server[OF server assms(2) late] root show ?thesis by simp
  next
    case False
    with data have "data = mid" by simp
    with root kept_server[OF _ assms(4), of cy mid] False show ?thesis by simp
  qed
qed

lemma validated_root: "ValidateCerts cy d domain now src = Inr data \<Longrightarrow> data RootCert \<noteq> None"
  using validate_cases[of cy d domain now src data]
  by (auto simp: issued_root_def issued_server_def validateRootCerts_def split: if_splits option.splits)

section \<open>Running the controller\<close>

abbreviation certs_reads :: "string \<Rightarrow> string \<Rightarrow> cert_call list" where
  "certs_reads ns dns \<equiv> [GetWebhookDeployment ns, GetMutatingConfig, GetValidatingConfig, GetCRD crd_DynaKubeName, GetCertSecret dns]"

definition read_config :: "error + string list \<Rightarrow> string list option" where
  "read_config r = (case r of Inl _ \<Rightarrow> None | Inr configs \<Rightarrow> if configs = [] then None else Some configs)"

text \<open>The secret that was read, or that there was none.\<close>

definition read_secret :: "error + smap \<Rightarrow> smap \<Rightarrow> bool \<Rightarrow> bool" where
  "read_secret r data exists \<longleftrightarrow> (exists \<and> r = Inr data) \<or> (\<not> exists \<and> data = Map.empty \<and> (\<exists>e. r = Inl e \<and> is_not_found e))"

lemma configs_run:
  "getWebhooksConfigurations env tr =
     (Inr (read_config (wcGetMutating env tr), read_config (wcGetValidating env (tr @ [GetMutatingConfig]))),
      tr @ [GetMutatingConfig, GetValidatingConfig])"
  by (simp add: getWebhooksConfigurations_def get_config_def andThen_attempt ce_read_def andThen_def ret_def attempt_def
      read_config_def)

lemma reconcile_run:
  assumes "wcGetDeployment env tr ns = Inr dns" and "certs_Reconcile env d ns tr = (Inr r, tr')"
  shows "\<exists>data exists certs crd.
     let tr3 = tr @ [GetWebhookDeployment ns, GetMutatingConfig, GetValidatingConfig];
         tr5 = tr @ certs_reads ns dns;
         mutating = read_config (wcGetMutating env (tr @ [GetWebhookDeployment ns]));
         validating = read_config (wcGetValidating env (tr @ [GetWebhookDeployment ns, GetMutatingConfig]));
         certSecret = \<lparr>csSecret = data, csCertificates = certs, csExistsInCluster = exists\<rparr>
     in r = cdRequeueAfter d \<and> wcGetCRD env tr3 crd_DynaKubeName = Inr crd \<and>
        read_secret (wcGetSecret env (tr3 @ [GetCRD crd_DynaKubeName]) dns) data exists \<and>
        ValidateCerts (wcCrypto env) d (webhook_DeploymentName @ ''.'' @ dns) (wcNow env) data = Inr certs \<and>
        (if certs_isUpToDate certSecret (configs_of mutating) (configs_of validating) crd then tr' = tr5
         else certs_apply env certSecret mutating validating tr5 = (Inr (), tr'))"
proof -
  let ?tr1 = "tr @ [GetWebhookDeployment ns]"
  let ?tr3 = "tr @ [GetWebhookDeployment ns, GetMutatingConfig, GetValidatingConfig]"
  let ?m = "read_config (wcGetMutating env ?tr1)" and ?v = "read_config (wcGetValidating env (tr @ [GetWebhookDeployment ns, GetMutatingConfig]))"
  define rest where "rest crd secret certSecret =
      (if certs_isUpToDate certSecret (configs_of ?m) (configs_of ?v) crd then ret (cdRequeueAfter d)
       else andThen (certs_apply env certSecret ?m ?v) (\<lambda>_. ret (cdRequeueAfter d)))" for crd and secret :: "smap \<times> bool" and certSecret
  have run: "certs_Reconcile env d ns tr =
      andThen (getCRD env) (\<lambda>crd. andThen (setSecretFromReader env dns) (\<lambda>secret.
        andThen (lift (validateCertificates env d dns secret)) (rest crd secret))) ?tr3"
    using assms(1)
    by (simp add: certs_Reconcile_def andThen_attempt ce_read_def andThen_def[of "getWebhooksConfigurations env"] configs_run rest_def[abs_def])
  obtain crd where crd: "wcGetCRD env ?tr3 crd_DynaKubeName = Inr crd"
    and run2: "certs_Reconcile env d ns tr = andThen (setSecretFromReader env dns) (\<lambda>secret.
        andThen (lift (validateCertificates env d dns secret)) (rest crd secret)) (?tr3 @ [GetCRD crd_DynaKubeName])"
    using assms(2) unfolding run
    by (cases "wcGetCRD env ?tr3 crd_DynaKubeName") (auto simp: getCRD_def wrap_msg_def ce_read_def andThen_def)
  let ?tr4 = "?tr3 @ [GetCRD crd_DynaKubeName]"
  have secret_cases: "\<exists>data exists. read_secret (wcGetSecret env ?tr4 dns) data exists \<and>
      certs_Reconcile env d ns tr = andThen (lift (validateCertificates env d dns (data, exists))) (rest crd (data, exists))
        (?tr4 @ [GetCertSecret dns])"
  proof (cases "wcGetSecret env ?tr4 dns")
    case (Inr data)
    then have "setSecretFromReader env dns ?tr4 = (Inr (data, True), ?tr4 @ [GetCertSecret dns])"
      by (simp add: setSecretFromReader_def andThen_attempt ce_read_def ret_def)
    with Inr show ?thesis unfolding run2 andThen_def[of "setSecretFromReader env dns"]
      by (intro exI[of _ data] exI[of _ True]) (simp add: read_secret_def)
  next
    case (Inl e)
    then have set: "setSecretFromReader env dns ?tr4 =
        (if is_not_found e then (case wcSetOwner env of None \<Rightarrow> Inr (Map.empty, False) | Some e' \<Rightarrow> Inl (WithMsg ''build certificate secret'' e'))
         else Inl (WithMsg ''get certificate secret'' e), ?tr4 @ [GetCertSecret dns])"
      by (simp add: setSecretFromReader_def andThen_attempt ce_read_def ret_def throw_def split: option.split)
    then have "is_not_found e \<and> wcSetOwner env = None"
      using assms(2) unfolding run2 andThen_def[of "setSecretFromReader env dns"]
      by (simp split: if_splits option.splits)
    with Inl set show ?thesis unfolding run2 andThen_def[of "setSecretFromReader env dns"]
      by (intro exI[of _ Map.empty] exI[of _ False]) (simp add: read_secret_def)
  qed
  then obtain data exists where secret: "read_secret (wcGetSecret env ?tr4 dns) data exists"
    and run3: "certs_Reconcile env d ns tr = andThen (lift (validateCertificates env d dns (data, exists))) (rest crd (data, exists))
      (tr @ certs_reads ns dns)"
    by auto
  obtain certs where certs: "ValidateCerts (wcCrypto env) d (webhook_DeploymentName @ ''.'' @ dns) (wcNow env) data = Inr certs"
    and run4: "certs_Reconcile env d ns tr =
      rest crd (data, exists) \<lparr>csSecret = data, csCertificates = certs, csExistsInCluster = exists\<rparr> (tr @ certs_reads ns dns)"
    using assms(2) unfolding run3
    by (cases "ValidateCerts (wcCrypto env) d (webhook_DeploymentName @ ''.'' @ dns) (wcNow env) data")
      (auto simp: validateCertificates_def andThen_def lift_def)
  let ?cs = "\<lparr>csSecret = data, csCertificates = certs, csExistsInCluster = exists\<rparr>"
  have "r = cdRequeueAfter d \<and>
      (if certs_isUpToDate ?cs (configs_of ?m) (configs_of ?v) crd then tr' = tr @ certs_reads ns dns
       else certs_apply env ?cs ?m ?v (tr @ certs_reads ns dns) = (Inr (), tr'))"
    using assms(2) unfolding run4
    by (auto simp: rest_def ret_def andThen_Inr split: if_splits)
  with crd secret certs show ?thesis unfolding Let_def by blast
qed

section \<open>What is stored and distributed\<close>

fun secret_put :: "cert_call \<Rightarrow> smap option" where
  "secret_put (CreateCertSecret data) = Some data"
| "secret_put (UpdateCertSecret data) = Some data"
| "secret_put _ = None"

text \<open>The data of the secret after the calls: what was put last, and else what was read.\<close>

definition secret_after :: "error + smap \<Rightarrow> cert_trace \<Rightarrow> smap option" where
  "secret_after r calls =
     (case List.map_filter secret_put calls of
        [] \<Rightarrow> (case r of Inr data \<Rightarrow> Some data | Inl _ \<Rightarrow> None)
      | puts \<Rightarrow> Some (last puts))"

text \<open>The call carries the bundle to its receiver, when it carries one.\<close>

fun carries :: "string \<Rightarrow> cert_call \<Rightarrow> bool" where
  "carries b (UpdateMutatingConfig bundles) \<longleftrightarrow> set bundles \<subseteq> {b}"
| "carries b (UpdateValidatingConfig bundles) \<longleftrightarrow> set bundles \<subseteq> {b}"
| "carries b (UpdateCRD _ bundle) \<longleftrightarrow> bundle = b"
| "carries b _ \<longleftrightarrow> True"

definition bundle_of :: "smap \<Rightarrow> string" where
  "bundle_of data = read_annotation data RootCert @ read_annotation data RootCertOld"

definition config_calls :: "(string list \<Rightarrow> cert_call) \<Rightarrow> string \<Rightarrow> string list option \<Rightarrow> cert_trace" where
  "config_calls update b configs = (case configs of None \<Rightarrow> [] | Some cs \<Rightarrow> [update (map (\<lambda>_. b) cs)])"

lemma configs_updated:
  "updateClientConfigurations env update b configs tr = (Inr (), tr') \<Longrightarrow> tr' = tr @ config_calls update b configs"
  by (auto simp: updateClientConfigurations_def config_calls_def ret_def wrap_msg_def ce_write_def
      split: option.splits sum.splits)

lemma crd_updated:
  assumes "updateCRDConfiguration env name b tr = (Inr (), tr')"
  shows "\<exists>u. tr' = tr @ GetCRD name # u \<and> (u = [] \<or> u = [UpdateCRD name b])"
  using assms
  by (cases "wcGetCRD env tr name")
    (auto simp: updateCRDConfiguration_def andThen_def ret_def wrap_msg_def ce_write_def ce_read_def
      split: option.splits sum.splits)

lemma bundle_distributed:
  assumes "distribute_bundle env b mutating validating tr = (Inr (), tr')"
  shows "\<exists>calls. tr' = tr @ config_calls UpdateMutatingConfig b mutating @ config_calls UpdateValidatingConfig b validating @ calls \<and>
     list_all (carries b) calls \<and> List.map_filter secret_put calls = []"
proof -
  obtain t1 where t1: "updateClientConfigurations env UpdateMutatingConfig b mutating tr = (Inr (), t1)"
    and r1: "andThen (updateClientConfigurations env UpdateValidatingConfig b validating) (\<lambda>_.
      andThen (updateCRDConfiguration env crd_DynaKubeName b) (\<lambda>_. updateCRDConfiguration env crd_EdgeConnectName b)) t1 = (Inr (), tr')"
    using assms unfolding distribute_bundle_def andThen_def[of "updateClientConfigurations env UpdateMutatingConfig b mutating"]
    by (auto split: prod.splits sum.splits)
  obtain t2 where t2: "updateClientConfigurations env UpdateValidatingConfig b validating t1 = (Inr (), t2)"
    and r2: "andThen (updateCRDConfiguration env crd_DynaKubeName b) (\<lambda>_. updateCRDConfiguration env crd_EdgeConnectName b) t2 = (Inr (), tr')"
    using r1 unfolding andThen_def[of "updateClientConfigurations env UpdateValidatingConfig b validating"]
    by (auto split: prod.splits sum.splits)
  obtain t3 where t3: "updateCRDConfiguration env crd_DynaKubeName b t2 = (Inr (), t3)"
    and t4: "updateCRDConfiguration env crd_EdgeConnectName b t3 = (Inr (), tr')"
    using r2 unfolding andThen_def by (auto split: prod.splits sum.splits)
  from crd_updated[OF t3] crd_updated[OF t4] show ?thesis
    unfolding configs_updated[OF t1] configs_updated[OF t2]
    by (auto simp: List.map_filter_simps)
qed

lemma secret_stored:
  assumes "createOrUpdateIfNecessary env cs tr = (Inr stored, tr')"
  shows "csSecret stored = csCertificates cs \<and>
     tr' = tr @ (if isRecent cs \<and> csExistsInCluster cs then []
       else if csExistsInCluster cs then [UpdateCertSecret (csCertificates cs)] else [CreateCertSecret (csCertificates cs)])"
  using assms
  by (auto simp: createOrUpdateIfNecessary_def isRecent_def andThen_def ret_def wrap_msg_def ce_write_def Let_def
      split: if_splits option.splits sum.splits)

lemma bundle_loaded: "loadCombinedBundle cs = Inr b \<Longrightarrow> b = bundle_of (csSecret cs)"
  by (auto simp: loadCombinedBundle_def bundle_of_def read_annotation_def split: option.splits)

lemma applied:
  assumes "certs_apply env cs mutating validating tr = (Inr (), tr')"
  shows "\<exists>put calls. tr' = tr @ put @ config_calls UpdateMutatingConfig (bundle_of (csCertificates cs)) mutating @ calls \<and>
     put = (if isRecent cs \<and> csExistsInCluster cs then []
       else if csExistsInCluster cs then [UpdateCertSecret (csCertificates cs)] else [CreateCertSecret (csCertificates cs)]) \<and>
     list_all (carries (bundle_of (csCertificates cs))) calls \<and> List.map_filter secret_put calls = []"
proof -
  obtain stored t1 where stored: "createOrUpdateIfNecessary env cs tr = (Inr stored, t1)"
    and r1: "andThen (lift (loadCombinedBundle stored)) (\<lambda>b. distribute_bundle env b mutating validating) t1 = (Inr (), tr')"
    using assms unfolding certs_apply_def andThen_def[of "createOrUpdateIfNecessary env cs"]
    by (auto split: prod.splits sum.splits)
  obtain b where b: "loadCombinedBundle stored = Inr b" and r2: "distribute_bundle env b mutating validating t1 = (Inr (), tr')"
    using r1 by (auto simp: andThen_def lift_def split: sum.splits)
  have same: "b = bundle_of (csCertificates cs)" using bundle_loaded[OF b] secret_stored[OF stored] by simp
  obtain calls where calls: "tr' = t1 @ config_calls UpdateMutatingConfig b mutating @ config_calls UpdateValidatingConfig b validating @ calls"
    "list_all (carries b) calls" "List.map_filter secret_put calls = []"
    using bundle_distributed[OF r2] by blast
  have "list_all (carries b) (config_calls UpdateValidatingConfig b validating @ calls)"
    and "List.map_filter secret_put (config_calls UpdateValidatingConfig b validating @ calls) = []"
    using calls(2,3) by (auto simp: config_calls_def List.map_filter_simps split: option.split)
  with calls(1) secret_stored[OF stored] same show ?thesis by auto
qed

abbreviation secret_read :: "cert_env \<Rightarrow> string \<Rightarrow> string \<Rightarrow> cert_trace \<Rightarrow> error + smap" where
  "secret_read env ns dns tr \<equiv> wcGetSecret env (tr @ take 4 (certs_reads ns dns)) dns"

lemma reads_put_nothing: "List.map_filter secret_put (certs_reads ns dns @ cs) = List.map_filter secret_put cs"
  by (simp add: List.map_filter_simps)

lemma reconcile_effect:
  assumes "wcGetDeployment env tr ns = Inr dns" and "certs_Reconcile env d ns tr = (Inr r, tr')"
  shows "\<exists>src exists certs calls crd.
     tr' = tr @ certs_reads ns dns @ calls \<and> r = cdRequeueAfter d \<and> read_secret (secret_read env ns dns tr) src exists \<and>
     ValidateCerts (wcCrypto env) d (webhook_DeploymentName @ ''.'' @ dns) (wcNow env) src = Inr certs \<and>
     secret_after (secret_read env ns dns tr) calls = Some certs \<and> list_all (carries (bundle_of certs)) calls \<and>
     (certs_isUpToDate \<lparr>csSecret = src, csCertificates = certs, csExistsInCluster = exists\<rparr>
        (configs_of (read_config (wcGetMutating env (tr @ [GetWebhookDeployment ns]))))
        (configs_of (read_config (wcGetValidating env (tr @ [GetWebhookDeployment ns, GetMutatingConfig])))) crd \<or>
      set (config_calls UpdateMutatingConfig (bundle_of certs) (read_config (wcGetMutating env (tr @ [GetWebhookDeployment ns])))) \<subseteq> set calls)"
proof -
  let ?m = "read_config (wcGetMutating env (tr @ [GetWebhookDeployment ns]))"
  let ?v = "read_config (wcGetValidating env (tr @ [GetWebhookDeployment ns, GetMutatingConfig]))"
  obtain src exists certs crd where run: "r = cdRequeueAfter d" "read_secret (secret_read env ns dns tr) src exists"
      "ValidateCerts (wcCrypto env) d (webhook_DeploymentName @ ''.'' @ dns) (wcNow env) src = Inr certs"
    and branch: "if certs_isUpToDate \<lparr>csSecret = src, csCertificates = certs, csExistsInCluster = exists\<rparr> (configs_of ?m) (configs_of ?v) crd
      then tr' = tr @ certs_reads ns dns
      else certs_apply env \<lparr>csSecret = src, csCertificates = certs, csExistsInCluster = exists\<rparr> ?m ?v (tr @ certs_reads ns dns) = (Inr (), tr')"
    using reconcile_run[OF assms] unfolding Let_def by auto
  let ?cs = "\<lparr>csSecret = src, csCertificates = certs, csExistsInCluster = exists\<rparr>"
  have there: "exists" if "isRecent ?cs"
    using that validated_root[OF run(3)] run(2) by (auto simp: isRecent_def read_secret_def)
  show ?thesis
  proof (cases "certs_isUpToDate ?cs (configs_of ?m) (configs_of ?v) crd")
    case True
    with there have "exists \<and> certs = src" by (auto simp: certs_isUpToDate_def isRecent_def)
    then have "secret_after (secret_read env ns dns tr) [] = Some certs"
      using run(2) by (auto simp: secret_after_def read_secret_def List.map_filter_simps)
    with True branch run show ?thesis by (intro exI[of _ src] exI[of _ "exists"] exI[of _ certs] exI[of _ "[]"] exI[of _ crd]) simp
  next
    case False
    with branch have "certs_apply env ?cs ?m ?v (tr @ certs_reads ns dns) = (Inr (), tr')" by simp
    from applied[OF this] obtain put calls where
      tr': "tr' = (tr @ certs_reads ns dns) @ put @ config_calls UpdateMutatingConfig (bundle_of certs) ?m @ calls"
      and put: "put = (if isRecent ?cs \<and> exists then [] else if exists then [UpdateCertSecret certs] else [CreateCertSecret certs])"
      and rest: "list_all (carries (bundle_of certs)) calls" "List.map_filter secret_put calls = []" by auto
    let ?all = "put @ config_calls UpdateMutatingConfig (bundle_of certs) ?m @ calls"
    have "secret_after (secret_read env ns dns tr) ?all = Some certs"
      using run(2) rest(2)
      by (auto simp: put secret_after_def read_secret_def List.map_filter_simps config_calls_def isRecent_def split: option.split)
    moreover have "list_all (carries (bundle_of certs)) ?all"
      using rest(1) by (auto simp: put config_calls_def split: option.split)
    moreover have "tr' = tr @ certs_reads ns dns @ ?all" using tr' by simp
    moreover have "set (config_calls UpdateMutatingConfig (bundle_of certs) ?m) \<subseteq> set ?all" by auto
    ultimately show ?thesis using run
      by (intro exI[of _ src] exI[of _ "exists"] exI[of _ certs] exI[of _ ?all] exI[of _ crd] conjI disjI2)
  qed
qed

section \<open>Properties\<close>

text \<open>The certificate of the server was signed with the root certificate and key beside it.\<close>

definition server_signed :: "cert_crypto \<Rightarrow> smap \<Rightarrow> bool" where
  "server_signed cy data \<longleftrightarrow>
     (\<exists>tpl. cyCreateServer cy tpl (read_annotation data RootCert) (read_annotation data RootKey) (read_annotation data ServerKey) =
        Inr (read_annotation data ServerCert))"

lemma issued_signed: "issued_server cy d domain now data data' \<Longrightarrow> server_signed cy data'"
  by (auto simp: issued_server_def server_signed_def read_annotation_def)

lemma validated_signed:
  assumes "ValidateCerts cy d domain now src = Inr data"
    and "{RootKey, RootCert, ServerKey, ServerCert} \<subseteq> dom src \<Longrightarrow> server_signed cy src"
  shows "server_signed cy data"
proof -
  obtain mid where mid: "if validateRootCerts cy (cdRenewalThreshold d) now src then issued_root cy d domain now src mid else mid = src"
    and data: "if validateRootCerts cy (cdRenewalThreshold d) now src \<or> validateServerCerts cy (cdRenewalThreshold d) now mid
      then issued_server cy d domain now mid data else data = mid"
    using validate_cases[OF assms(1)] by blast
  show ?thesis
  proof (cases "validateRootCerts cy (cdRenewalThreshold d) now src \<or> validateServerCerts cy (cdRenewalThreshold d) now mid")
    case True
    with data have "issued_server cy d domain now mid data" by simp
    then show ?thesis by (rule issued_signed)
  next
    case False
    with mid data have "data = src" and "\<not> validateRootCerts cy (cdRenewalThreshold d) now src"
      and "\<not> validateServerCerts cy (cdRenewalThreshold d) now src" by auto
    moreover from this have "{RootKey, RootCert, ServerKey, ServerCert} \<subseteq> dom src"
      by (auto simp: validateRootCerts_def validateServerCerts_def split: option.splits)
    ultimately show ?thesis using assms(2) by simp
  qed
qed

text \<open>C12. After a reconcile that ends without an error, the secret holds a root and a server certificate that are valid
  beyond the time of the next one, whatever was in it before: the renewal threshold is longer than the interval,
  and the durations are longer than the threshold, for the controller does not start otherwise.
  The server certificate is signed with the root beside it when the one that was read was, or parts were missing.
\<close>

theorem certificates_outlive_requeue:
  assumes "newWebhookCertificateController d = Inr c" and "encodes_expiry (wcCrypto env)"
    and "wcGetDeployment env tr ns = Inr dns" and "certs_Reconcile env c ns tr = (Inr r, tr @ certs_reads ns dns @ calls)"
    and "\<And>src. secret_read env ns dns tr = Inr src \<Longrightarrow> {RootKey, RootCert, ServerKey, ServerCert} \<subseteq> dom src \<Longrightarrow>
      server_signed (wcCrypto env) src"
  shows "\<exists>data. secret_after (secret_read env ns dns tr) calls = Some data \<and> server_signed (wcCrypto env) data \<and>
     valid_until (wcCrypto env) data RootCert (wcNow env + cdRenewalThreshold d) \<and>
     valid_until (wcCrypto env) data ServerCert (wcNow env + cdRenewalThreshold d) \<and> r < cdRenewalThreshold d"
proof -
  note fit = durations_fit[OF assms(1)]
  obtain read "exists" certs where r: "r = cdRequeueAfter d" and read: "read_secret (secret_read env ns dns tr) read exists"
    and certs: "ValidateCerts (wcCrypto env) d (webhook_DeploymentName @ ''.'' @ dns) (wcNow env) read = Inr certs"
    and after: "secret_after (secret_read env ns dns tr) calls = Some certs"
    using reconcile_effect[OF assms(3,4)] unfolding fit(1) by auto
  have "server_signed (wcCrypto env) read" if "{RootKey, RootCert, ServerKey, ServerCert} \<subseteq> dom read"
    using read assms(5) that by (auto simp: read_secret_def)
  from validated_signed[OF certs this] have "server_signed (wcCrypto env) certs" .
  with after validated_until[OF certs assms(2,1) order_refl] r fit(4) show ?thesis by blast
qed

text \<open>C28. The configurations and resource definitions get the root certificate with the one before it, so that both are
  accepted while the servers change. A configuration that holds this bundle is not up to date, for it is
  compared with the root alone: after the first renewal of the root it is put again at every reconcile.
\<close>

theorem renewed_root_never_settles:
  assumes "wcGetDeployment env tr ns = Inr dns" and "certs_Reconcile env d ns tr = (Inr r, tr @ certs_reads ns dns @ calls)"
    and "secret_after (secret_read env ns dns tr) calls = Some data" and "read_annotation data RootCertOld \<noteq> []"
    and "wcGetMutating env (tr @ [GetWebhookDeployment ns]) = Inr (replicate (Suc n) (bundle_of data))"
  shows "UpdateMutatingConfig (replicate (Suc n) (bundle_of data)) \<in> set calls \<and> list_all (carries (bundle_of data)) calls"
proof -
  have m: "read_config (wcGetMutating env (tr @ [GetWebhookDeployment ns])) = Some (replicate (Suc n) (bundle_of data))"
    by (simp add: assms(5) read_config_def)
  have stale: "\<not> certs_isUpToDate \<lparr>csSecret = src, csCertificates = data, csExistsInCluster = exists\<rparr>
      (configs_of (Some (replicate (Suc n) (bundle_of data)))) v crd" for src "exists" v crd
    using assms(4) by (simp add: certs_isUpToDate_def configs_of_def areWebhookConfigsValid_def isBundleValid_def bundle_of_def)
  have "set (config_calls UpdateMutatingConfig (bundle_of data) (Some (replicate (Suc n) (bundle_of data)))) \<subseteq> set calls"
    and "list_all (carries (bundle_of data)) calls"
    using reconcile_effect[OF assms(1,2)] stale assms(3) unfolding m by auto
  then show ?thesis by (simp add: config_calls_def map_replicate_const)
qed

section \<open>Witnesses\<close>

text \<open>A text whose length is the time at which the certificate expires.\<close>

definition sample_certificate :: "cert_template \<Rightarrow> string" where
  "sample_certificate tpl = replicate (nat (ctNotAfter tpl)) (CHR ''c'')"

definition sample_crypto :: cert_crypto where
  "sample_crypto =
     \<lparr>cyGenerateKey = (\<lambda>k. Inr k), cyCreateRoot = (\<lambda>tpl _. Inr (sample_certificate tpl)),
      cyCreateServer = (\<lambda>tpl _ _ _. Inr (sample_certificate tpl)),
      cyNotAfter = (\<lambda>cert. Inr (Some (int (length cert)))), cyParsesKey = (\<lambda>_. True)\<rparr>"

definition sample_durations :: cert_durations where
  "sample_durations =
     \<lparr>cdRequeueAfter = 180 * minute, cdRenewalThreshold = 720 * minute,
      cdServerCertDuration = 10080 * minute, cdRootCertDuration = 525600 * minute\<rparr>"

definition sample_cert_env :: "(cert_trace \<Rightarrow> error + string list) \<Rightarrow> (cert_trace \<Rightarrow> string \<Rightarrow> error + smap) \<Rightarrow> cert_env" where
  "sample_cert_env mutating secret =
     \<lparr>wcCrypto = sample_crypto, wcNow = 0, wcGetDeployment = (\<lambda>_ ns. Inr ns), wcGetMutating = mutating,
      wcGetValidating = (\<lambda>_. Inl (ApiStatus ''NotFound'')), wcGetCRD = (\<lambda>_ _. Inr None), wcGetSecret = secret, wcSetOwner = None,
      wcWrite = (\<lambda>_ _. None)\<rparr>"

lemma sample_encodes: "encodes_expiry sample_crypto"
  by (auto simp: encodes_expiry_def second_def sample_crypto_def sample_certificate_def)

definition sample_root :: cert_template where
  "sample_root = root_template ''dynatrace-webhook.ns'' 0 (525600 * minute)"

definition sample_server :: cert_template where
  "sample_server = server_template ''dynatrace-webhook.ns'' 0 (10080 * minute)"

definition sample_certs :: smap where
  "sample_certs = [RootKey \<mapsto> RootKey, RootCertOld \<mapsto> [], RootCert \<mapsto> sample_certificate sample_root,
     ServerKey \<mapsto> ServerKey, ServerCert \<mapsto> sample_certificate sample_server]"

lemma sample_validated:
  "ValidateCerts sample_crypto sample_durations ''dynatrace-webhook.ns'' 0 Map.empty = Inr sample_certs"
  by (simp add: ValidateCerts_def validateRootCerts_def generateRootCerts_def generateServerCerts_def sample_crypto_def
      sample_durations_def sample_certs_def sample_root_def sample_server_def root_template_def server_template_def
      read_annotation_def)

lemma sample_run:
  "certs_Reconcile (sample_cert_env (\<lambda>_. Inl (ApiStatus ''NotFound'')) (\<lambda>_ _. Inl (ApiStatus ''NotFound''))) sample_durations ''ns'' [] =
     (Inr (180 * minute), [] @ certs_reads ''ns'' ''ns'' @
        [CreateCertSecret sample_certs, GetCRD crd_DynaKubeName, GetCRD crd_EdgeConnectName])"
proof -
  have root: "sample_certs RootCert = Some (sample_certificate sample_root)" by (simp add: sample_certs_def)
  then have differs: "sample_certs \<noteq> Map.empty" "sample_certs \<noteq> (\<lambda>_. None)" by (metis option.distinct(1))+
  have again: "cdRequeueAfter sample_durations = 180 * minute" by (simp add: sample_durations_def)
  have missing: "is_not_found (ApiStatus ''NotFound'')" by (simp add: is_not_found_def)
  show ?thesis
    using sample_validated root differs again missing
    by (simp add: certs_Reconcile_def sample_cert_env_def andThen_attempt ce_read_def andThen_def ret_def
      getWebhooksConfigurations_def get_config_def attempt_def getCRD_def wrap_msg_def setSecretFromReader_def lift_def
      validateCertificates_def certs_isUpToDate_def isRecent_def certs_apply_def createOrUpdateIfNecessary_def Let_def
      ce_write_def loadCombinedBundle_def distribute_bundle_def updateClientConfigurations_def updateCRDConfiguration_def
      split: option.split)
qed

theorem certificates_outlive_requeue_witness:
  "\<exists>data. data RootCert \<noteq> None \<and> server_signed sample_crypto data \<and> valid_until sample_crypto data ServerCert (720 * minute)"
proof -
  let ?env = "sample_cert_env (\<lambda>_. Inl (ApiStatus ''NotFound'')) (\<lambda>_ _. Inl (ApiStatus ''NotFound''))"
  have start: "newWebhookCertificateController sample_durations = Inr sample_durations"
    by (simp add: newWebhookCertificateController_def sample_durations_def minute_def second_def)
  have env: "encodes_expiry (wcCrypto ?env)" "wcGetDeployment ?env [] ''ns'' = Inr ''ns''"
    by (simp_all add: sample_cert_env_def sample_encodes)
  have fresh: "secret_read ?env ''ns'' ''ns'' [] = Inl (ApiStatus ''NotFound'')"
    by (simp add: sample_cert_env_def)
  have of_env: "wcCrypto ?env = sample_crypto" "wcNow ?env = 0" "cdRenewalThreshold sample_durations = 720 * minute"
    by (simp_all add: sample_cert_env_def sample_durations_def)
  from certificates_outlive_requeue[OF start env sample_run] fresh
  obtain data where "server_signed sample_crypto data" "valid_until sample_crypto data ServerCert (720 * minute)"
    and "valid_until sample_crypto data RootCert (720 * minute)"
    unfolding of_env by auto
  then show ?thesis unfolding valid_until_def by blast
qed

definition sample_renewed :: smap where
  "sample_renewed = sample_certs(RootCertOld \<mapsto> ''old'')"

lemma sample_still_valid:
  "ValidateCerts sample_crypto sample_durations ''dynatrace-webhook.ns'' 0 sample_renewed = Inr sample_renewed"
  by (simp add: ValidateCerts_def validateRootCerts_def validateServerCerts_def ValidateCertificateExpiration_def
      sample_crypto_def sample_durations_def sample_renewed_def sample_certs_def sample_certificate_def sample_root_def
      sample_server_def root_template_def server_template_def)

lemma sample_renewed_run:
  "certs_Reconcile (sample_cert_env (\<lambda>_. Inr [bundle_of sample_renewed]) (\<lambda>_ _. Inr sample_renewed)) sample_durations ''ns'' [] =
     (Inr (180 * minute), [] @ certs_reads ''ns'' ''ns'' @
        [UpdateMutatingConfig [bundle_of sample_renewed], GetCRD crd_DynaKubeName, GetCRD crd_EdgeConnectName])"
proof -
  have root: "sample_renewed RootCert = Some (sample_certificate sample_root)" "sample_renewed RootCertOld = Some ''old''"
    by (simp_all add: sample_renewed_def sample_certs_def)
  then have combined: "bundle_of sample_renewed = sample_certificate sample_root @ ''old''"
    by (simp add: bundle_of_def read_annotation_def)
  have again: "cdRequeueAfter sample_durations = 180 * minute" by (simp add: sample_durations_def)
  show ?thesis
    using sample_still_valid root again unfolding combined
    by (simp add: certs_Reconcile_def sample_cert_env_def andThen_attempt ce_read_def andThen_def ret_def
      getWebhooksConfigurations_def get_config_def attempt_def getCRD_def wrap_msg_def setSecretFromReader_def lift_def
      validateCertificates_def certs_isUpToDate_def isRecent_def certs_apply_def createOrUpdateIfNecessary_def Let_def
      ce_write_def loadCombinedBundle_def distribute_bundle_def updateClientConfigurations_def updateCRDConfiguration_def
      configs_of_def areWebhookConfigsValid_def isBundleValid_def read_annotation_def split: option.split)
qed

theorem renewed_root_witness:
  "\<exists>calls. UpdateMutatingConfig (replicate (Suc 0) (bundle_of sample_renewed)) \<in> set calls \<and> list_all (carries (bundle_of sample_renewed)) calls"
proof -
  let ?env = "sample_cert_env (\<lambda>_. Inr [bundle_of sample_renewed]) (\<lambda>_ _. Inr sample_renewed)"
  let ?calls = "[UpdateMutatingConfig [bundle_of sample_renewed], GetCRD crd_DynaKubeName, GetCRD crd_EdgeConnectName]"
  have env: "wcGetDeployment ?env [] ''ns'' = Inr ''ns''"
    and read: "wcGetMutating ?env ([] @ [GetWebhookDeployment ''ns'']) = Inr (replicate (Suc 0) (bundle_of sample_renewed))"
    and stored: "secret_after (secret_read ?env ''ns'' ''ns'' []) ?calls = Some sample_renewed"
    by (simp_all add: sample_cert_env_def secret_after_def List.map_filter_simps)
  have old: "read_annotation sample_renewed RootCertOld \<noteq> []"
    by (simp add: sample_renewed_def read_annotation_def)
  from renewed_root_never_settles[OF env sample_renewed_run stored old read] show ?thesis by (rule exI)
qed

end
