(* ===== verification/Spec2Isabelle.thy ===== *)
theory Spec2Isabelle
  imports VersionUpdate Tokens NamespaceMapper NodesCtrl DynaKubeCtrl K8sQuery EdgeConnectCtrl
    AdmissionVerdict EdgeConnectWebhook ConversionLaws EdgeConnectV1Alpha1 PodProperties OneAgentRollout
    ActiveGateCtrlLaws CertificateLaws
begin

text \<open>
  Verification of the Dynatrace operator, a Kubernetes operator in Go that keeps the monitoring of a
  cluster in the state its custom resources (DynaKube, EdgeConnect) ask for.

  \<^bold>\<open>The program and its theories.\<close> Go packages are named relative to \<open>pkg/\<close>.

  \<^item> \<open>Prelude\<close>: Go error trees (\<open>errors.Join\<close>, wrapping, the reasons of the Kubernetes API), strings,
    and the effect type \<open>('s, 'a) io\<close> of handlers: explicit state passing, an error or a value. \<open>keeps\<close>,
    \<open>yields\<close>, \<open>error_keeps\<close> are the invariant rules all controllers are proved with.
  \<^item> \<open>GoStd\<close>: what the program uses of the standard library: decimal numbers at 64 bits, string order
    and sorting, white space, case folding, time.
  \<^item> \<open>DynaKubeApi\<close>, \<open>DynaKubeSpec\<close>, \<open>DynaKube\<close> (\<open>api/latest/dynakube\<close>, \<open>api/exp\<close>, \<open>api/shared\<close>): the
    resource, its feature flags and its property functions. \<open>EdgeConnectApi\<close> (\<open>api/v1alpha2/edgeconnect\<close>)
    is the other resource with its configuration file and Deployment.
  \<^item> \<open>SemVer\<close> (\<open>version\<close>, \<open>util/dtversion\<close>) and \<open>VersionUpdate\<close> (\<open>controllers/dynakube/version\<close>): which
    version or image of OneAgent, ActiveGate and code modules is installed.
  \<^item> \<open>Tokens\<close> (\<open>controllers/dynakube/token\<close>): required and optional scopes of the access tokens.
  \<^item> \<open>NamespaceMapper\<close> (\<open>injection/namespace/mapper\<close>): which DynaKube injects into which namespace.
  \<^item> \<open>NodeCache\<close>, \<open>NodesCtrl\<close> (\<open>controllers/nodes\<close>): host events for nodes that go away.
  \<^item> \<open>DtCore\<close>, \<open>Hasher\<close>, \<open>DynaKubePhase\<close>, \<open>DynaKubeCtrl\<close> (\<open>clients/dynatrace/core\<close>, \<open>util/hasher\<close>,
    \<open>controllers/dynakube\<close>): the reconcile of a DynaKube, which calls the components, collects their
    errors, decides the requeue interval and writes the status.
  \<^item> \<open>K8sQuery\<close> (\<open>util/kubernetes/objects\<close>): create, update and replicate Kubernetes objects; \<open>K8sMeta\<close>
    (\<open>util/kubernetes/fields\<close>): labels, AppArmor annotations, conditions.
  \<^item> \<open>EdgeConnectCtrl\<close> (\<open>controllers/edgeconnect\<close>, \<open>clients/dynatrace/edgeconnect\<close>): the EdgeConnect
    controller with its tenant client.
  \<^item> \<open>ValidationText\<close>, \<open>Sanitize\<close>, \<open>ApiUrl\<close>, \<open>DynaKubeValidation\<close>, \<open>DynaKubeWebhook\<close>, \<open>EdgeConnectWebhook\<close>
    (\<open>api/validation\<close>, \<open>util/installconfig\<close>, \<open>util/sanitize\<close>, \<open>util/dtapiurl\<close>): the admission webhooks, and
    \<open>AdmissionVerdict\<close>, what their verdict means.
  \<^item> \<open>DynaKubeV1Beta5\<close>, \<open>DynaKubeConversion\<close>, \<open>ConversionLaws\<close>, \<open>EdgeConnectV1Alpha1\<close> (\<open>api/v1beta5\<close>,
    \<open>api/v1alpha1\<close>, \<open>api/conversion\<close>): the stored versions and their conversion in both directions.
  \<^item> \<open>PodModel\<close>, \<open>GoPath\<close>, \<open>PodAttributes\<close>, \<open>PodMutators\<close>, \<open>PodOneAgent\<close>, \<open>PodOTLP\<close>, \<open>PodInjection\<close>,
    \<open>PodWebhook\<close> (\<open>webhook/mutation/pod\<close>): what the mutation webhook does to a pod;
    \<open>PodLaws\<close>, \<open>PodAttributeLaws\<close>, \<open>PodReinvoke\<close>, \<open>PodGuarantees\<close>, \<open>PodProperties\<close> prove it. The owner
    lookup of a pod makes at most \<open>peLookups\<close> lookups.
  \<^item> \<open>PriorityMap\<close>, \<open>Manifest\<close> (\<open>util/prioritymap\<close>, \<open>util/kubernetes/fields\<close>), \<open>OneAgentDaemonSet\<close>,
    \<open>OneAgentArgs\<close>, \<open>OneAgentLaws\<close> (\<open>controllers/dynakube/oneagent/daemonset\<close>): the manifest of the OneAgent;
    \<open>OneAgentCtrl\<close>, \<open>OneAgentRollout\<close> (\<open>controllers/dynakube/oneagent\<close>): its reconciler.
  \<^item> \<open>Cluster\<close>: the state the reconcilers of one DynaKube share, the resource in memory and the secrets,
    config maps and workloads with their traces of calls. \<open>ConnectionInfo\<close>, \<open>ConnectionLaws\<close>
    (\<open>controllers/dynakube/connectioninfo\<close> and its clients); \<open>SecretReconcilers\<close>, \<open>ActiveGateSecrets\<close>,
    \<open>SecretLaws\<close> (\<open>dtpullsecret\<close>, \<open>proxy\<close>, \<open>deploymentmetadata\<close>, \<open>kspm/token\<close>, \<open>activegate/internal\<close>).
  \<^item> \<open>ActiveGateWorkload\<close>, \<open>ActiveGateModifiers\<close>, \<open>ActiveGateLaws\<close> (\<open>activegate/capability\<close>,
    \<open>activegate/internal/statefulset\<close>): the stateful set of the ActiveGate; \<open>ActiveGateCtrl\<close>,
    \<open>ActiveGateCtrlLaws\<close> (\<open>activegate\<close>): its reconciler with the service.
  \<^item> \<open>IstioEntries\<close>, \<open>IstioReconciler\<close>, \<open>IstioLaws\<close> (\<open>controllers/dynakube/istio\<close>): the objects that let a mesh
    reach the communication hosts.
  \<^item> \<open>Certificates\<close>, \<open>CertificateLaws\<close> (\<open>controllers/certificates\<close>): the certificates of the webhooks.

  \<^bold>\<open>How the model reads.\<close> A definition has the name of the Go function, with a prefix where a method name
  occurs twice (\<open>oa_\<close> OneAgent, \<open>ag_\<close> ActiveGate, \<open>ec_\<close> EdgeConnect, \<open>dk_\<close> DynaKube). Structs are records,
  pointers options, maps partial functions (a nil and an empty map are the same to every reader here) or
  association lists in one iteration order where the order can show. Errors are values, every early
  return a branch. The status conditions are the list of operations applied to them, since the slice is
  kept by a library. Log output is left out.

  \<^bold>\<open>Parameters.\<close> The Kubernetes API, the Dynatrace API, JSON and YAML, regular expressions on user input,
  URL and image reference parsers, label selectors and the clock are arguments or fields of an
  environment record. Answers may depend on the calls made before (traces), so nothing is assumed of a
  server except where a theorem says so. The component reconcilers the DynaKube controller calls
  are arbitrary functions of the state there, which may fail and may write the status themselves, also those
  that other theories model; the reconcilers of OneAgent and ActiveGate call the modelled version reconciler.

  \<^bold>\<open>What is shown.\<close> For the version reconciler: no downgrade happens from the tenant registry (and one does
  at the second attempt with a custom version), errors leave the settings as they were, the source is
  recorded. Tokens: exactly the missing scopes of enabled features are reported, with the exception of a
  third failing token. Mapper: the label of a namespace after an update, no write on a conflict, the
  exact calls. Nodes: at most one termination event an hour, the cache is stored last, what pruning
  drops. Controller: what each component's failure does to the others, when the status is written, the
  requeue bounds, the phase. Queries: a change is reported exactly when something was written, and an
  unchanged object settles (locale \<open>query_kind\<close>, interpreted for five kinds of objects). EdgeConnect: the
  provisioner refines a decision table over the answers of the tenant, deletion releases the resource
  after the tenant calls, a configuration secret is stable. Webhooks: the verdict does not depend on the
  order of map iteration, and what an accepted resource guarantees. Conversion: a round trip is a normal
  form. Pod webhook: what it may change of a pod, that a failure discards partial changes, that the
  reinvocation of the injection settles, and from which source each attribute comes.
  Workloads: which arguments and variables reach the agents, volumes, mounts, labels and security contexts
  of the manifests, with the reserved names the admission webhook checks. Reconcilers of secrets,
  connection info, OneAgent, ActiveGate and Istio: what a successful run has stored, which errors outlive
  their cause, which objects are cleaned up and which are not, what the Istio objects open. Certificates: none expires before the next
  reconcile, and server and root certificate belong together.

  \<^bold>\<open>Loops.\<close> All loops run over lists and are structurally recursive, or shorten a string; termination is
  proved. The one exception, the lookup of the owner of a pod, follows references of the cluster: it gives
  up after \<open>peLookups\<close> lookups, and \<open>root_owner_found_iff\<close> says that this is enough exactly when the chain of
  owners ends within that number. The addresses of the ActiveGate service are read at most four times.

  \<^bold>\<open>Not modelled\<close>: the KubernetesMonitoring workload, extensions, the OpenTelemetry collector, log
  monitoring and KSPM workloads, the migration of the resource definitions and the CSI driver, whose outcomes are parameters of the DynaKube controller where it uses
  them. Left out for good: command line wiring, generated code, HTTP transport, the OpenTelemetry
  collector's configuration texts, the file system and mount calls of the CSI node service.
\<close>

end
